(* ===== verification/CLayout.thy ===== *)
theory CLayout
  imports Prelude
begin

text \<open>
  Layout of C data on the two targets of the sources (the 32-bit EABI of the chip and the 64-bit
  ABI of the signing host agree on everything used here): sizes, alignments, member offsets.
  \<open>BUILD_ASSERT\<close> and \<open>static_assert\<close> conditions of the sources are stated over these.
\<close>

datatype ctype =
    C_uint8
  | C_uint16
  | C_uint32
  | C_uint64
  | C_bits "nat list"
  | C_array ctype nat
  | C_struct "(string \<times> ctype) list"
  | C_union "(string \<times> ctype) list"

definition align_up :: "nat \<Rightarrow> nat \<Rightarrow> nat" where
  "align_up a n = ((n + a - 1) div a) * a"

fun calign :: "ctype \<Rightarrow> nat"
and calign_members :: "(string \<times> ctype) list \<Rightarrow> nat" where
  "calign C_uint8 = 1"
| "calign C_uint16 = 2"
| "calign C_uint32 = 4"
| "calign C_uint64 = 8"
| "calign (C_bits ws) = 4"
| "calign (C_array t n) = calign t"
| "calign (C_struct ms) = calign_members ms"
| "calign (C_union ms) = calign_members ms"
| "calign_members [] = 1"
| "calign_members ((f, t) # ms) = max (calign t) (calign_members ms)"

fun csize :: "ctype \<Rightarrow> nat"
and csize_struct :: "nat \<Rightarrow> (string \<times> ctype) list \<Rightarrow> nat"
and csize_union :: "(string \<times> ctype) list \<Rightarrow> nat" where
  "csize C_uint8 = 1"
| "csize C_uint16 = 2"
| "csize C_uint32 = 4"
| "csize C_uint64 = 8"
| "csize (C_bits ws) = 4"
| "csize (C_array t n) = n * csize t"
| "csize (C_struct ms) = align_up (calign_members ms) (csize_struct 0 ms)"
| "csize (C_union ms) = align_up (calign_members ms) (csize_union ms)"
| "csize_struct off [] = off"
| "csize_struct off ((f, t) # ms) = csize_struct (align_up (calign t) off + csize t) ms"
| "csize_union [] = 0"
| "csize_union ((f, t) # ms) = max (csize t) (csize_union ms)"

fun coffset :: "nat \<Rightarrow> (string \<times> ctype) list \<Rightarrow> string \<Rightarrow> nat option" where
  "coffset off [] x = None"
| "coffset off ((f, t) # ms) x =
     (let o' = align_up (calign t) off
      in if f = x then Some o' else coffset (o' + csize t) ms x)"

text \<open>A struct is packed when no member needs padding in front of it.\<close>

fun packed_from :: "nat \<Rightarrow> (string \<times> ctype) list \<Rightarrow> bool" where
  "packed_from off [] \<longleftrightarrow> True"
| "packed_from off ((f, t) # ms) \<longleftrightarrow>
     calign t dvd off \<and> packed_from (off + csize t) ms"

lemma calign_pos: "0 < calign t" "0 < calign_members ms"
  by (induction t and ms rule: calign_calign_members.induct) auto

lemma align_up_dvd: "0 < a \<Longrightarrow> a dvd n \<Longrightarrow> align_up a n = n"
proof -
  assume a: "0 < a" and "a dvd n"
  then obtain k where n: "n = a * k" by blast
  have "n + a - 1 = (a - 1) + k * a" using a n by (simp add: mult.commute)
  then have "(n + a - 1) div a = k" using a by (metis div_mult_self1 div_less diff_less add_0_right less_numeral_extra(1) not_gr_zero)
  with n show ?thesis by (simp add: align_up_def)
qed

lemma packed_coffset_Cons:
  "packed_from off ((f, t) # ms) \<Longrightarrow>
    coffset off ((f, t) # ms) x = (if f = x then Some off else coffset (off + csize t) ms x)"
  by (simp add: align_up_dvd calign_pos Let_def)

text \<open>
  When the bytes of the members are laid out one after the other with the sizes of a packed
  struct, each member is found at its offset.
\<close>

lemma packed_slice:
  assumes "packed_from off ms"
    and "list_all2 (\<lambda>(f, t) (g, bs). f = g \<and> length bs = csize t) ms vs"
    and "distinct (map fst ms)"
    and "(x, bs) \<in> set vs"
  shows "\<exists>k. coffset off ms x = Some k \<and> off \<le> k \<and>
           take (length bs) (drop (k - off) (concat (map snd vs))) = bs"
  using assms
proof (induction ms arbitrary: off vs)
  case Nil
  then show ?case by simp
next
  case (Cons m ms)
  obtain f t where m: "m = (f, t)" by (cases m)
  from Cons.prems(2) m obtain b vs' where vs: "vs = (f, b) # vs'" and len: "length b = csize t"
    and rest: "list_all2 (\<lambda>(f, t) (g, bs). f = g \<and> length bs = csize t) ms vs'"
    by (auto simp: list_all2_Cons1)
  have packed: "packed_from (off + csize t) ms" using Cons.prems(1) m by simp
  note co = packed_coffset_Cons [OF Cons.prems(1) [unfolded m], of x]
  show ?case
  proof (cases "(x, bs) \<in> set vs'")
    case True
    from rest have fsts: "map fst ms = map fst vs'"
      by (induction rule: list_all2_induct) auto
    from True have "x \<in> fst ` set vs'" by force
    with fsts have "x \<in> fst ` set ms" by (metis list.set_map)
    with Cons.prems(3) m have "f \<noteq> x" by auto
    moreover from Cons.IH [OF packed rest _ True] Cons.prems(3)
    obtain k where "coffset (off + csize t) ms x = Some k" and "off + csize t \<le> k"
      and "take (length bs) (drop (k - (off + csize t)) (concat (map snd vs'))) = bs"
      by auto
    ultimately show ?thesis using co m vs len by (intro exI [of _ k]) simp
  next
    case False
    with Cons.prems(4) vs have "x = f" and "bs = b" by auto
    with co m vs show ?thesis by simp
  qed
qed

end
