(* ===== verification/SignedHeader.thy ===== *)
theory SignedHeader
  imports CLayout
begin

text \<open>
  \<open>struct SignedHeader\<close> (util/signer/common/signed_header.h, the same layout as
  chip/c/signed_header.h): the 1024-byte header in front of every signed image. Its members, its
  constructor, \<open>markFuse\<close> and \<open>markInfo\<close>, its image in memory and the
  layout that the \<open>static_assert\<close>s of the source fix.

  Record fields drop the trailing underscore of the members' names. The members \<open>_pad\<close>
  and \<open>u\<close> of the source are \<open>pad_words\<close> and \<open>u_words\<close>; the union
  \<open>u\<close> is kept as its 17 words, with one view per alternative; the bit-field
  \<open>swap_mark\<close> is its two parts.
\<close>

section \<open>The constants\<close>

definition FUSE_PADDING :: u32 where "FUSE_PADDING = 0x55555555"
definition FUSE_IGNORE :: u32 where "FUSE_IGNORE = 0xa3badaac"
definition FUSE_MAX :: nat where "FUSE_MAX = 128"
definition INFO_MAX :: nat where "INFO_MAX = 128"
definition INFO_IGNORE :: u32 where "INFO_IGNORE = 0xaa3c55c3"
definition SIGNED_HEADER_PADDING :: u32 where "SIGNED_HEADER_PADDING = 0x33333333"
definition MAGIC_HAVEN :: u32 where "MAGIC_HAVEN = 0xFFFFFFFF"
definition MAGIC_DAUNTLESS :: u32 where "MAGIC_DAUNTLESS = 0xFFFFFFFD"

section \<open>The members and their layout\<close>

definition SignedHeader_members :: "(string \<times> ctype) list" where
  "SignedHeader_members =
    [(''magic'', C_uint32),
     (''signature'', C_array C_uint32 96),
     (''img_chk_'', C_uint32),
     (''tag'', C_array C_uint32 7),
     (''keyid'', C_uint32),
     (''key'', C_array C_uint32 96),
     (''image_size'', C_uint32),
     (''ro_base'', C_uint32),
     (''ro_max'', C_uint32),
     (''rx_base'', C_uint32),
     (''rx_max'', C_uint32),
     (''fusemap'', C_array C_uint32 (128 div (8 * csize C_uint32))),
     (''infomap'', C_array C_uint32 (128 div (8 * csize C_uint32))),
     (''epoch_'', C_uint32),
     (''major_'', C_uint32),
     (''minor_'', C_uint32),
     (''timestamp_'', C_uint64),
     (''p4cl_'', C_uint32),
     (''applysec_'', C_uint32),
     (''config1_'', C_uint32),
     (''err_response_'', C_uint32),
     (''expect_response_'', C_uint32),
     (''u'', C_union
        [(''ext_sig'', C_struct
            [(''keyid'', C_uint32), (''r'', C_array C_uint32 8), (''s'', C_array C_uint32 8)]),
         (''fsh'', C_struct
            [(''FSH_SMW_SETTING_OPTION3'', C_uint32), (''FSH_SMW_SETTING_OPTION2'', C_uint32),
             (''FSH_SMW_SETTING_OPTIONA'', C_uint32), (''FSH_SMW_SETTING_OPTIONB'', C_uint32),
             (''FSH_SMW_SMP_WHV_OPTION1'', C_uint32), (''FSH_SMW_SMP_WHV_OPTION0'', C_uint32),
             (''FSH_SMW_SME_WHV_OPTION1'', C_uint32), (''FSH_SMW_SME_WHV_OPTION0'', C_uint32)])]),
     (''_pad'', C_array C_uint32 5),
     (''swap_mark'', C_bits [12, 20]),
     (''rw_product_family_'', C_uint32),
     (''board_id_type'', C_uint32),
     (''board_id_type_mask'', C_uint32),
     (''board_id_flags'', C_uint32),
     (''dev_id0_'', C_uint32),
     (''dev_id1_'', C_uint32),
     (''fuses_chk_'', C_uint32),
     (''info_chk_'', C_uint32)]"

definition sizeof_SignedHeader :: nat where
  "sizeof_SignedHeader = csize (C_struct SignedHeader_members)"

definition offsetof_SignedHeader :: "string \<Rightarrow> nat option" where
  "offsetof_SignedHeader = coffset 0 SignedHeader_members"

record SignedHeader =
  magic :: u32
  signature :: "u32 list"
  img_chk :: u32
  tag :: "u32 list"
  keyid :: u32
  key :: "u32 list"
  image_size :: u32
  ro_base :: u32
  ro_max :: u32
  rx_base :: u32
  rx_max :: u32
  fusemap :: "u32 list"
  infomap :: "u32 list"
  epoch :: u32
  major :: u32
  minor :: u32
  timestamp :: u64
  p4cl :: u32
  applysec :: u32
  config1 :: u32
  err_response :: u32
  expect_response :: u32
  u_words :: "u32 list"
  pad_words :: "u32 list"
  swap_size :: "12 word"
  swap_offset :: "20 word"
  rw_product_family :: u32
  board_id_type :: u32
  board_id_type_mask :: u32
  board_id_flags :: u32
  dev_id0 :: u32
  dev_id1 :: u32
  fuses_chk :: u32
  info_chk :: u32

text \<open>The lengths of the arrays of the struct, which no operation changes.\<close>

definition wf_header :: "SignedHeader \<Rightarrow> bool" where
  "wf_header h \<longleftrightarrow> length (signature h) = 96 \<and> length (tag h) = 7 \<and> length (key h) = 96 \<and>
     length (fusemap h) = 4 \<and> length (infomap h) = 4 \<and> length (u_words h) = 17 \<and> length (pad_words h) = 5"

definition ext_sig_keyid :: "SignedHeader \<Rightarrow> u32" where "ext_sig_keyid h = u_words h ! 0"
definition ext_sig_r :: "SignedHeader \<Rightarrow> u32 list" where "ext_sig_r h = take 8 (drop 1 (u_words h))"
definition ext_sig_s :: "SignedHeader \<Rightarrow> u32 list" where "ext_sig_s h = take 8 (drop 9 (u_words h))"
definition fsh_words :: "SignedHeader \<Rightarrow> u32 list" where "fsh_words h = take 8 (u_words h)"

definition swap_word :: "SignedHeader \<Rightarrow> u32" where
  "swap_word h = ucast (swap_size h) OR push_bit 12 (ucast (swap_offset h))"

section \<open>The constructor and the marking functions\<close>

text \<open>
  The constructor initialises the members of its initialiser list and those it fills with
  \<open>memset\<close>; every other member keeps what the storage held, the argument \<open>g\<close>.
\<close>

definition fill_words :: "nat \<Rightarrow> u8 \<Rightarrow> u32 list" where
  "fill_words n c = replicate n (of_le [c, c, c, c])"

definition SignedHeader_init :: "SignedHeader \<Rightarrow> SignedHeader" where
  "SignedHeader_init g = g\<lparr>
     magic := -1, image_size := 0,
     epoch := 0x1337, major := 0, minor := 0xbabe,
     p4cl := 0, applysec := 0, config1 := 0, err_response := 0, expect_response := 0,
     signature := fill_words 96 0x53,
     tag := fill_words 7 0x54,
     fusemap := fill_words 4 0,
     infomap := fill_words 4 0,
     pad_words := fill_words 5 0x33\<rparr>"

datatype assertion = AssertFail

definition mark_bit :: "u32 list \<Rightarrow> u32 \<Rightarrow> u32 list" where
  "mark_bit ws n = ws[unat (n div 32) := ws ! unat (n div 32) OR push_bit (unat (n AND 31)) 1]"

definition markFuse :: "u32 \<Rightarrow> SignedHeader \<Rightarrow> assertion + SignedHeader" where
  "markFuse n h =
     (if unat n < FUSE_MAX then Inr (h\<lparr>fusemap := mark_bit (fusemap h) n\<rparr>) else Inl AssertFail)"

definition markInfo :: "u32 \<Rightarrow> SignedHeader \<Rightarrow> assertion + SignedHeader" where
  "markInfo n h =
     (if unat n < INFO_MAX then Inr (h\<lparr>infomap := mark_bit (infomap h) n\<rparr>) else Inl AssertFail)"

text \<open>Reading a bit of one of the two maps.\<close>

definition marked :: "u32 list \<Rightarrow> nat \<Rightarrow> bool" where
  "marked ws i \<longleftrightarrow> bit (ws ! (i div 32)) (i mod 32)"

section \<open>The header in memory\<close>

definition header_members :: "SignedHeader \<Rightarrow> (string \<times> u8 list) list" where
  "header_members h =
    [(''magic'', le_bytes 4 (magic h)),
     (''signature'', words_bytes (signature h)),
     (''img_chk_'', le_bytes 4 (img_chk h)),
     (''tag'', words_bytes (tag h)),
     (''keyid'', le_bytes 4 (keyid h)),
     (''key'', words_bytes (key h)),
     (''image_size'', le_bytes 4 (image_size h)),
     (''ro_base'', le_bytes 4 (ro_base h)),
     (''ro_max'', le_bytes 4 (ro_max h)),
     (''rx_base'', le_bytes 4 (rx_base h)),
     (''rx_max'', le_bytes 4 (rx_max h)),
     (''fusemap'', words_bytes (fusemap h)),
     (''infomap'', words_bytes (infomap h)),
     (''epoch_'', le_bytes 4 (epoch h)),
     (''major_'', le_bytes 4 (major h)),
     (''minor_'', le_bytes 4 (minor h)),
     (''timestamp_'', le_bytes 8 (timestamp h)),
     (''p4cl_'', le_bytes 4 (p4cl h)),
     (''applysec_'', le_bytes 4 (applysec h)),
     (''config1_'', le_bytes 4 (config1 h)),
     (''err_response_'', le_bytes 4 (err_response h)),
     (''expect_response_'', le_bytes 4 (expect_response h)),
     (''u'', words_bytes (u_words h)),
     (''_pad'', words_bytes (pad_words h)),
     (''swap_mark'', le_bytes 4 (swap_word h)),
     (''rw_product_family_'', le_bytes 4 (rw_product_family h)),
     (''board_id_type'', le_bytes 4 (board_id_type h)),
     (''board_id_type_mask'', le_bytes 4 (board_id_type_mask h)),
     (''board_id_flags'', le_bytes 4 (board_id_flags h)),
     (''dev_id0_'', le_bytes 4 (dev_id0 h)),
     (''dev_id1_'', le_bytes 4 (dev_id1 h)),
     (''fuses_chk_'', le_bytes 4 (fuses_chk h)),
     (''info_chk_'', le_bytes 4 (info_chk h))]"

definition header_bytes :: "SignedHeader \<Rightarrow> u8 list" where
  "header_bytes h = concat (map snd (header_members h))"


text \<open>Reading a header from the words of an image: the cast of \<open>Image::sign\<close>.\<close>

definition header_words :: "SignedHeader \<Rightarrow> u32 list" where
  "header_words h =
     magic h # signature h @ img_chk h # tag h @ keyid h # key h @
     [image_size h, ro_base h, ro_max h, rx_base h, rx_max h] @ fusemap h @ infomap h @
     [epoch h, major h, minor h, ucast (timestamp h), ucast (drop_bit 32 (timestamp h)),
      p4cl h, applysec h, config1 h, err_response h, expect_response h] @
     u_words h @ pad_words h @
     [swap_word h, rw_product_family h, board_id_type h, board_id_type_mask h, board_id_flags h,
      dev_id0 h, dev_id1 h, fuses_chk h, info_chk h]"

definition header_of_words :: "u32 list \<Rightarrow> SignedHeader" where
  "header_of_words ws = \<lparr>
     magic = ws ! 0, signature = take 96 (drop 1 ws), img_chk = ws ! 97,
     tag = take 7 (drop 98 ws), keyid = ws ! 105, key = take 96 (drop 106 ws),
     image_size = ws ! 202, ro_base = ws ! 203, ro_max = ws ! 204, rx_base = ws ! 205,
     rx_max = ws ! 206, fusemap = take 4 (drop 207 ws), infomap = take 4 (drop 211 ws),
     epoch = ws ! 215, major = ws ! 216, minor = ws ! 217,
     timestamp = ucast (ws ! 218) OR push_bit 32 (ucast (ws ! 219)),
     p4cl = ws ! 220, applysec = ws ! 221, config1 = ws ! 222, err_response = ws ! 223,
     expect_response = ws ! 224, u_words = take 17 (drop 225 ws),
     pad_words = take 5 (drop 242 ws),
     swap_size = ucast (ws ! 247), swap_offset = ucast (drop_bit 12 (ws ! 247)),
     rw_product_family = ws ! 248, board_id_type = ws ! 249, board_id_type_mask = ws ! 250,
     board_id_flags = ws ! 251, dev_id0 = ws ! 252, dev_id1 = ws ! 253, fuses_chk = ws ! 254,
     info_chk = ws ! 255\<rparr>"

text \<open>
  The header that stands in a byte memory. The program only casts the address; this is how a statement about the
  final image names the members.
\<close>

definition header_of_bytes :: "u8 list \<Rightarrow> SignedHeader" where
  "header_of_bytes bs = header_of_words (bytes_words bs)"

section \<open>Lemmas\<close>

lemma le_bytes_8: "le_bytes 8 (w :: u64) = le_bytes 4 (ucast w :: u32) @ le_bytes 4 (ucast (drop_bit 32 w) :: u32)"
proof (rule nth_equalityI)
  fix i assume "i < length (le_bytes 8 w)"
  then have i: "i < 8" by simp
  show "le_bytes 8 w ! i = (le_bytes 4 (ucast w :: u32) @ le_bytes 4 (ucast (drop_bit 32 w) :: u32)) ! i"
  proof (cases "i < 4")
    case True
    then show ?thesis
      by (intro bit_word_eqI) (auto simp: le_bytes_def nth_append bit_simps)
  next
    case False
    then obtain j where j: "i = j + 4" by (metis add.commute le_Suc_ex not_less)
    have idx: "32 + (8 * j + n) = 8 * (j + 4) + n" for n by simp
    show ?thesis
      by (rule bit_word_eqI) (use i j in \<open>auto simp: le_bytes_def nth_append bit_simps idx\<close>)
  qed
qed simp

lemma header_bytes_words: "header_bytes h = words_bytes (header_words h)"
  by (simp add: header_bytes_def header_members_def header_words_def le_bytes_8)

lemma length_header_words: "wf_header h \<Longrightarrow> length (header_words h) = 256"
  by (simp add: header_words_def wf_header_def)

lemma length_header_bytes [simp]: "wf_header h \<Longrightarrow> length (header_bytes h) = 1024"
  by (simp add: header_bytes_words length_header_words)

lemma timestamp_halves:
  "ucast (ucast t :: u32) OR push_bit 32 (ucast (ucast (drop_bit 32 t) :: u32)) = (t :: u64)"
  by (rule bit_word_eqI) (auto simp: bit_simps)

lemma swap_parts:
  "(ucast (ucast a OR push_bit 12 (ucast b) :: u32) :: 12 word) = a"
  "(ucast (drop_bit 12 (ucast a) OR drop_bit 12 (push_bit 12 (ucast b)) :: u32) :: 20 word) = b"
  for a :: "12 word" and b :: "20 word"
  by (rule bit_word_eqI, auto simp: bit_simps dest: bit_imp_le_length)+

lemma header_of_header_words: "wf_header h \<Longrightarrow> header_of_words (header_words h) = h"
  by (cases h)
    (simp add: header_of_words_def header_words_def wf_header_def nth_append nth_Cons'
      timestamp_halves swap_word_def swap_parts)

lemma members_packed: "packed_from 0 SignedHeader_members"
  by (simp add: SignedHeader_members_def align_up_def)

lemma members_distinct: "distinct (map fst SignedHeader_members)"
  by (simp add: SignedHeader_members_def)

lemma members_sizes:
  "wf_header h \<Longrightarrow>
    list_all2 (\<lambda>(f, t) (g, bs). f = g \<and> length bs = csize t) SignedHeader_members (header_members h)"
  by (simp add: SignedHeader_members_def header_members_def wf_header_def align_up_def)

lemma wf_SignedHeader_init: "wf_header g \<Longrightarrow> wf_header (SignedHeader_init g)"
  by (simp add: wf_header_def SignedHeader_init_def fill_words_def)

lemma length_mark_bit [simp]: "length (mark_bit ws n) = length ws"
  by (simp add: mark_bit_def)

lemma unat_word_index: "unat (n div 32 :: u32) = unat n div 32" "unat (n AND 31 :: u32) = unat n mod 32"
proof -
  show "unat (n div 32) = unat n div 32" by (simp add: unat_div)
  have "n AND 31 = take_bit 5 n" by (simp add: take_bit_eq_mask mask_eq_exp_minus_1)
  then show "unat (n AND 31) = unat n mod 32" by (simp add: take_bit_eq_mod unat_mod)
qed

lemma marked_mark_bit:
  assumes "unat n < 32 * length ws" and "i < 32 * length ws"
  shows "marked (mark_bit ws n) i \<longleftrightarrow> marked ws i \<or> i = unat n"
proof (cases "i div 32 = unat n div 32")
  case True
  have "i = unat n \<longleftrightarrow> i mod 32 = unat n mod 32"
    using True by (metis div_mult_mod_eq)
  moreover have "unat n div 32 < length ws" using assms(1) by auto
  ultimately show ?thesis
    using True by (auto simp: marked_def mark_bit_def unat_word_index bit_simps)
next
  case False
  then show ?thesis by (auto simp: marked_def mark_bit_def unat_word_index)
qed

lemma mark_wf:
  "markFuse n h = Inr h' \<Longrightarrow> wf_header h \<Longrightarrow> wf_header h'"
  "markInfo n h = Inr h' \<Longrightarrow> wf_header h \<Longrightarrow> wf_header h'"
  by (auto simp: markFuse_def markInfo_def wf_header_def split: if_splits)

lemma header_member_at:
  assumes "wf_header h" and "(f, bs) \<in> set (header_members h)"
  shows "\<exists>k. offsetof_SignedHeader f = Some k \<and> take (length bs) (drop k (header_bytes h)) = bs"
  using packed_slice [OF members_packed members_sizes [OF assms(1)] members_distinct assms(2)]
  by (auto simp: offsetof_SignedHeader_def header_bytes_def)

lemma words_bytes_fill: "words_bytes (fill_words n c) = replicate (4 * n) c"
proof (induction n)
  case 0
  then show ?case by (simp add: fill_words_def)
next
  case (Suc n)
  have "le_bytes 4 (of_le [c, c, c, c] :: u32) = [c, c, c, c]"
    using le_bytes_of_le [of "[c, c, c, c]", where 'a = 32]
    by (simp add: numeral_eq_Suc del: of_le.simps)
  moreover have "replicate (4 * Suc n) c = [c, c, c, c] @ replicate (4 * n) c"
    by (simp add: numeral_eq_Suc)
  ultimately show ?case
    using Suc by (simp add: fill_words_def del: of_le.simps)
qed

text \<open>A header to instantiate theorems with: zeroed storage.\<close>

definition zero_header :: SignedHeader where
  "zero_header = header_of_words (replicate 256 0)"

lemma wf_zero_header: "wf_header zero_header"
  by (simp add: wf_header_def zero_header_def header_of_words_def)

section \<open>Properties\<close>

text \<open>
  C40: the layout the sources assert. The struct is 1024 bytes, \<open>info_chk_\<close> is at 1020,
  and every member of a header in memory is found at its \<open>offsetof\<close>.
\<close>

theorem header_layout:
  assumes "wf_header h" and "(f, bs) \<in> set (header_members h)"
  shows "sizeof_SignedHeader = 1024 \<and> offsetof_SignedHeader ''info_chk_'' = Some 1020 \<and>
    length (header_bytes h) = sizeof_SignedHeader \<and>
    (\<exists>k. offsetof_SignedHeader f = Some k \<and> take (length bs) (drop k (header_bytes h)) = bs)"
  using header_member_at [OF assms] assms(1)
  by (simp add: sizeof_SignedHeader_def offsetof_SignedHeader_def SignedHeader_members_def align_up_def)

theorem header_layout_witness:
  "\<exists>k. offsetof_SignedHeader ''tag'' = Some k \<and>
    take 28 (drop k (header_bytes (SignedHeader_init zero_header))) = replicate 28 0x54"
proof -
  let ?h = "SignedHeader_init zero_header"
  have tag_bytes: "words_bytes (tag ?h) = replicate 28 0x54"
    by (simp add: SignedHeader_init_def words_bytes_fill)
  have "(''tag'', replicate 28 0x54) \<in> set (header_members ?h)"
    by (simp add: header_members_def flip: tag_bytes)
  from header_layout [OF wf_SignedHeader_init [OF wf_zero_header] this] show ?thesis by simp
qed

text \<open>
  \<open>markFuse\<close> sets exactly the bit of its fuse: no other bit of the fuse map and no
  other member of the header changes, and a number of 128 or more stops at the assertion.
\<close>

theorem markFuse_exact:
  assumes "wf_header h"
  shows "(markFuse n h = Inl AssertFail \<longleftrightarrow> 128 \<le> unat n) \<and>
    (\<forall>h'. markFuse n h = Inr h' \<longrightarrow> wf_header h' \<and> h' = h\<lparr>fusemap := fusemap h'\<rparr> \<and>
      (\<forall>i < 128. marked (fusemap h') i \<longleftrightarrow> marked (fusemap h) i \<or> i = unat n))"
  using assms
  by (auto simp: markFuse_def FUSE_MAX_def wf_header_def marked_mark_bit)

theorem markFuse_exact_witness:
  "marked (fusemap (SignedHeader_init zero_header\<lparr>fusemap := mark_bit (fill_words 4 0) 125\<rparr>)) 125"
proof -
  let ?h = "SignedHeader_init zero_header"
  have "markFuse 125 ?h = Inr (?h\<lparr>fusemap := mark_bit (fill_words 4 0) 125\<rparr>)"
    by (simp add: markFuse_def FUSE_MAX_def SignedHeader_init_def)
  then show ?thesis
    using markFuse_exact [OF wf_SignedHeader_init [OF wf_zero_header], of 125] by auto
qed

end
