(* ===== verification/HexText.thy ===== *)
theory HexText
  imports Prelude
begin

text \<open>
  The hexadecimal text of the Intel HEX files: what \<open>printf\<close> writes for
  \<open>%02X\<close> and \<open>%04X\<close>, how \<open>fgets\<close> hands a file to its reader, and the
  C string operations that the reader uses on its line buffer.
\<close>

section \<open>printf of hexadecimal numbers\<close>

definition hexdig :: "nat \<Rightarrow> char" where
  "hexdig n = ''0123456789ABCDEF'' ! n"

fun hex_digits :: "nat \<Rightarrow> string" where
  "hex_digits n = (if n < 16 then [hexdig n] else hex_digits (n div 16) @ [hexdig (n mod 16)])"

declare hex_digits.simps [simp del]

text \<open>\<open>%0wX\<close> on an argument of type \<open>int\<close>, which is printed as unsigned.\<close>

definition fmt_X :: "nat \<Rightarrow> int \<Rightarrow> string" where
  "fmt_X w i =
     (let ds = hex_digits (nat (i mod 2 ^ 32)) in replicate (w - length ds) CHR ''0'' @ ds)"

text \<open>Exactly \<open>k\<close> digits: what is printed when the number fits in the width.\<close>

fun hexk :: "nat \<Rightarrow> nat \<Rightarrow> string" where
  "hexk 0 n = []"
| "hexk (Suc k) n = hexk k (n div 16) @ [hexdig (n mod 16)]"

lemma hexdig_0: "hexdig 0 = CHR ''0''"
  by (simp add: hexdig_def)

lemma hexk_0: "hexk k 0 = replicate k CHR ''0''"
  by (induction k) (simp_all add: hexdig_0 replicate_append_same)

lemma length_hexk [simp]: "length (hexk k n) = k"
  by (induction k arbitrary: n) simp_all

lemma padded_hex_digits:
  "n < 16 ^ Suc k \<Longrightarrow>
    replicate (Suc k - length (hex_digits n)) CHR ''0'' @ hex_digits n = hexk (Suc k) n"
proof (induction k arbitrary: n)
  case 0
  then show ?case by (simp add: hex_digits.simps [of n])
next
  case (Suc k)
  show ?case
  proof (cases "n < 16")
    case True
    then show ?thesis by (simp add: hex_digits.simps [of n] hexk_0 replicate_append_same hexdig_0)
  next
    case False
    have "n div 16 < 16 ^ Suc k" using Suc.prems by (simp add: less_mult_imp_div_less mult.commute)
    from Suc.IH [OF this] False show ?thesis
      by (simp add: hex_digits.simps [of n])
  qed
qed

lemma fmt_X_fits: "0 \<le> i \<Longrightarrow> i < 16 ^ Suc k \<Longrightarrow> i < 2 ^ 32 \<Longrightarrow> fmt_X (Suc k) i = hexk (Suc k) (nat i)"
proof -
  assume i: "0 \<le> i" "i < 16 ^ Suc k" "i < 2 ^ 32"
  have "nat (i mod 2 ^ 32) = nat i" using i(1,3) by simp
  moreover have "nat i < 16 ^ Suc k"
    using i(1,2) by (metis nat_less_iff of_nat_numeral of_nat_power)
  ultimately show ?thesis by (simp only: fmt_X_def Let_def padded_hex_digits)
qed

lemma fmt_X_2: "0 \<le> i \<Longrightarrow> i < 256 \<Longrightarrow> fmt_X 2 i = hexk 2 (nat i)"
  using fmt_X_fits [of i 1] by (simp add: numeral_2_eq_2)

lemma fmt_X_4: "0 \<le> i \<Longrightarrow> i < 65536 \<Longrightarrow> fmt_X 4 i = hexk 4 (nat i)"
proof -
  assume i: "0 \<le> i" "i < 65536"
  have "Suc 3 = 4" "(16 :: int) ^ 4 = 65536" by simp_all
  with fmt_X_fits [of i 3] i show "fmt_X 4 i = hexk 4 (nat i)" by simp
qed

lemma hexk_2: "hexk 2 n = [hexdig (n div 16 mod 16), hexdig (n mod 16)]"
  by (simp add: numeral_2_eq_2)

lemma hexk_4: "hexk 4 n = hexk 2 (n div 256) @ hexk 2 (n mod 256)"
proof -
  have "n div 16 div 16 = n div 256" by (simp add: div_mult2_eq [symmetric])
  moreover have "n mod 256 = 16 * (n div 16 mod 16) + n mod 16"
    using mod_mult2_eq [of n 16 16] by simp
  then have "n mod 256 div 16 mod 16 = n div 16 mod 16" "n mod 256 mod 16 = n mod 16"
    by simp_all
  moreover have "hexk 4 n = hexk 2 (n div 16 div 16) @ [hexdig (n div 16 mod 16), hexdig (n mod 16)]"
  proof -
    have "hexk (Suc (Suc (Suc (Suc 0)))) n = hexk 2 (n div 16 div 16) @ [hexdig (n div 16 mod 16), hexdig (n mod 16)]"
      by (simp only: hexk.simps hexk_2 append.simps append_assoc)
    moreover have "Suc (Suc (Suc (Suc 0))) = 4" by simp
    ultimately show ?thesis by simp
  qed
  ultimately show ?thesis by (simp only: hexk_2 append.simps)
qed

section \<open>C strings in a line buffer\<close>

definition BUFSIZ :: nat where "BUFSIZ = 8192"

definition cstr :: "char list \<Rightarrow> string" where
  "cstr buf = takeWhile (\<lambda>c. c \<noteq> CHR 0x00) buf"

text \<open>
  One call of \<open>fgets\<close> on the rest of a file: the characters it takes, up to and including
  the first newline and at most \<open>BUFSIZ - 1\<close> of them, and what is left. The buffer keeps
  what it held behind the new terminator.
\<close>

definition fgets_take :: "string \<Rightarrow> nat" where
  "fgets_take s =
     (let l = length (takeWhile (\<lambda>c. c \<noteq> CHR 0x0A) s)
      in min (if l < length s then Suc l else l) (BUFSIZ - 1))"

definition fgets_buffer :: "string \<Rightarrow> char list \<Rightarrow> char list" where
  "fgets_buffer s buf =
     (let k = fgets_take s in take k s @ [CHR 0x00] @ drop (Suc k) buf)"

text \<open>\<open>if (strchr(line, c)) *strchr(line, c) = 0;\<close>\<close>

definition cut_at :: "char \<Rightarrow> char list \<Rightarrow> char list" where
  "cut_at c buf =
     (if c \<in> set (cstr buf)
      then buf[length (takeWhile (\<lambda>d. d \<noteq> c) (cstr buf)) := CHR 0x00] else buf)"

lemma fgets_take_le: "fgets_take s \<le> length s"
  using length_takeWhile_le [of "\<lambda>c. c \<noteq> CHR 0x0A" s]
  by (auto simp: fgets_take_def Let_def min_def)

lemma fgets_take_pos: "s \<noteq> [] \<Longrightarrow> 0 < fgets_take s"
  by (cases s) (auto simp: fgets_take_def Let_def BUFSIZ_def)

lemma fgets_take_line:
  assumes "CHR 0x0A \<notin> set l" and "length l < BUFSIZ - 1"
  shows "fgets_take (l @ CHR 0x0A # rest) = Suc (length l)"
proof -
  have "takeWhile (\<lambda>c. c \<noteq> CHR 0x0A) (l @ CHR 0x0A # rest) = l"
    using assms(1) by (subst takeWhile_append2) auto
  with assms(2) show ?thesis by (simp add: fgets_take_def)
qed

lemma length_cut_at [simp]: "length (cut_at c buf) = length buf"
  by (simp add: cut_at_def)

lemma cstr_append: "CHR 0x00 \<notin> set l \<Longrightarrow> cstr (l @ CHR 0x00 # r) = l"
  by (simp add: cstr_def takeWhile_append)

end
