(* ===== verification/ByteSink.thy ===== *)
theory ByteSink
  imports Prelude
begin

text \<open>
  The interface between the loaders (Intel HEX and ELF) and the image they load into: a sink that
  takes one byte at a time at an address, keeps the lowest and highest address it has stored, and
  remembers whether it ever refused one. The laws are what \<open>Image::store\<close> promises; the
  lemmas say what a whole sequence of writes leaves behind.
\<close>

locale byte_sink =
  fixes put :: "int \<Rightarrow> int \<Rightarrow> 's \<Rightarrow> 's"
    and content :: "'s \<Rightarrow> memory"
    and fine :: "'s \<Rightarrow> bool"
    and bottom :: "'s \<Rightarrow> int"
    and top :: "'s \<Rightarrow> int"
    and capacity :: nat
  assumes content_put: "content (put a v s) =
      (if 0 \<le> a \<and> a < int capacity then (content s)(nat a := word_of_int v) else content s)"
    and fine_put: "fine (put a v s) \<longleftrightarrow> fine s \<and> 0 \<le> a \<and> a < int capacity"
    and bottom_put: "bottom (put a v s) =
      (if 0 \<le> a \<and> a < int capacity then min a (bottom s) else bottom s)"
    and top_put: "top (put a v s) =
      (if 0 \<le> a \<and> a < int capacity then max a (top s) else top s)"
begin

definition put_all :: "(int \<times> int) list \<Rightarrow> 's \<Rightarrow> 's" where
  "put_all ws s = fold (\<lambda>(a, v). put a v) ws s"

definition taken :: "(int \<times> int) list \<Rightarrow> int set" where
  "taken ws = {a \<in> fst ` set ws. 0 \<le> a \<and> a < int capacity}"

lemma put_all_simps [simp]:
  "put_all [] s = s"
  "put_all ((a, v) # ws) s = put_all ws (put a v s)"
  by (simp_all add: put_all_def)

lemma put_all_append: "put_all (ws @ vs) s = put_all vs (put_all ws s)"
  by (simp add: put_all_def)

lemma taken_simps [simp]:
  "taken [] = {}"
  "taken ((a, v) # ws) = (if 0 \<le> a \<and> a < int capacity then insert a (taken ws) else taken ws)"
  by (auto simp: taken_def)

lemma taken_append: "taken (ws @ vs) = taken ws \<union> taken vs"
  by (auto simp: taken_def)

lemma finite_taken [simp]: "finite (taken ws)"
  by (simp add: taken_def)

text \<open>The last write to an address is the one that stays.\<close>

lemma content_put_all:
  assumes "i < capacity"
  shows "content (put_all ws s) i =
    (case map_of (rev ws) (int i) of None \<Rightarrow> content s i | Some v \<Rightarrow> word_of_int v)"
  using assms
proof (induction ws arbitrary: s)
  case Nil
  then show ?case by simp
next
  case (Cons w ws)
  obtain a v where w: "w = (a, v)" by (cases w)
  have "nat a = i \<Longrightarrow> 0 \<le> a \<Longrightarrow> a = int i" by simp
  with Cons show ?case
    by (auto simp: w content_put map_add_def split: option.splits)
qed

lemma content_put_all_beyond:
  assumes "capacity \<le> i"
  shows "content (put_all ws s) i = content s i"
  using assms
proof (induction ws arbitrary: s)
  case Nil
  then show ?case by simp
next
  case (Cons w ws)
  obtain a v where w: "w = (a, v)" by (cases w)
  from Cons show ?case by (auto simp: w content_put)
qed

lemma fine_put_all:
  "fine (put_all ws s) \<longleftrightarrow> fine s \<and> (\<forall>a \<in> fst ` set ws. 0 \<le> a \<and> a < int capacity)"
proof (induction ws arbitrary: s)
  case (Cons w ws)
  obtain a v where w: "w = (a, v)" by (cases w)
  show ?case unfolding w put_all_simps Cons.IH by (simp add: fine_put conj_ac)
qed simp

lemma Min_insert_min: "finite A \<Longrightarrow> Min (insert (min a b) A) = Min (insert b (insert a A))" for a b :: int
  by (cases "A = {}") (simp_all add: min.commute min.left_commute)

lemma Max_insert_max: "finite A \<Longrightarrow> Max (insert (max a b) A) = Max (insert b (insert a A))" for a b :: int
  by (cases "A = {}") (simp_all add: max.commute max.left_commute)

lemma bottom_put_all: "bottom (put_all ws s) = Min (insert (bottom s) (taken ws))"
proof (induction ws arbitrary: s)
  case (Cons w ws)
  obtain a v where w: "w = (a, v)" by (cases w)
  show ?case unfolding w put_all_simps Cons.IH
    by (simp add: bottom_put Min_insert_min del: Min_insert Min_singleton)
qed simp

lemma top_put_all: "top (put_all ws s) = Max (insert (top s) (taken ws))"
proof (induction ws arbitrary: s)
  case (Cons w ws)
  obtain a v where w: "w = (a, v)" by (cases w)
  show ?case unfolding w put_all_simps Cons.IH
    by (simp add: top_put Max_insert_max del: Max_insert Max_singleton)
qed simp

text \<open>Two sinks that agree on the four observations agree after the same writes.\<close>

definition same_view :: "'s \<Rightarrow> 's \<Rightarrow> bool" where
  "same_view s t \<longleftrightarrow> content s = content t \<and> fine s = fine t \<and> bottom s = bottom t \<and> top s = top t"

lemma same_view_refl [simp]: "same_view s s"
  by (simp add: same_view_def)

lemma same_view_trans [trans]: "same_view s t \<Longrightarrow> same_view t u \<Longrightarrow> same_view s u"
  by (simp add: same_view_def)

lemma same_view_put: "same_view s t \<Longrightarrow> same_view (put a v s) (put a v t)"
  by (simp add: same_view_def content_put fine_put bottom_put top_put)

lemma same_view_put_all: "same_view s t \<Longrightarrow> same_view (put_all ws s) (put_all ws t)"
  by (induction ws arbitrary: s t) (auto simp: same_view_put)

end

end
