(* ===== verification/Image.thy ===== *)
theory Image
  imports SignedHeader HexText ByteSink
begin

text \<open>
  The \<open>Image\<close> class (util/signer/image.cc and common/image.h): the 512K flash image with
  the bounds of what has been loaded, its byte store, and the Intel HEX reader and writer.

  Members of type \<open>int\<close> are \<open>int\<close> (the values stay far inside 32 bits), members
  of type \<open>size_t\<close> are 64-bit words. \<open>mem_\<close> is a byte memory: every access of the
  source is guarded here by the size of the array, and an access outside it, which is undefined
  behaviour in C++, is the error \<open>OutOfBounds\<close>. The names of the members drop their
  trailing underscore (\<open>lowest\<close> and \<open>highest\<close> are \<open>low_\<close> and
  \<open>high_\<close>).
\<close>

section \<open>State\<close>

definition FLASH_START :: int where "FLASH_START = 0x4000"

text \<open>
  \<open>FLASH_END\<close> is initialised once, before \<open>main\<close> runs and with it
  \<open>getOptions\<close>: it reads the initial value \<open>false\<close> of \<open>FLAGS_dauntless\<close>.
\<close>

definition FLASH_END_of :: "bool \<Rightarrow> int" where
  "FLASH_END_of FLAGS_dauntless = FLASH_START + (if FLAGS_dauntless then 1024 else 512) * 1024"

definition FLASH_END :: int where "FLASH_END = FLASH_END_of False"

definition MEM_SIZE :: nat where "MEM_SIZE = 8 * 64 * 1024"

record image =
  success :: bool
  mem :: memory
  lowest :: int
  highest :: int
  base :: int
  img_ro_base :: u64
  img_rx_base :: u64
  img_ro_max :: u64
  img_rx_max :: u64

definition Image_init :: image where
  "Image_init = \<lparr>
     success = True, mem = (\<lambda>_. 0xff),
     lowest = FLASH_END - FLASH_START, highest = 0, base = 0,
     img_ro_base = word_of_int (FLASH_END * 16), img_rx_base = word_of_int (FLASH_END * 16),
     img_ro_max = 0, img_rx_max = 0\<rparr>"

definition image_bytes :: "image \<Rightarrow> int" where
  "image_bytes img = highest img - base img"

text \<open>\<open>size()\<close> converts the difference of two \<open>int\<close>s to \<open>size_t\<close>.\<close>

definition img_size :: "image \<Rightarrow> u64" where
  "img_size img = word_of_int (image_bytes img)"

datatype image_error = OutOfBounds | BufferOverread

section \<open>store\<close>

definition store :: "int \<Rightarrow> int \<Rightarrow> image \<Rightarrow> image" where
  "store adr v img =
     (if adr < 0 \<or> nat adr \<ge> MEM_SIZE then img\<lparr>success := False\<rparr>
      else img\<lparr>mem := (mem img)(nat adr := word_of_int v),
               highest := (if adr > highest img then adr else highest img),
               lowest := (if adr < lowest img then adr else lowest img)\<rparr>)"

interpretation sink: byte_sink store mem success lowest highest MEM_SIZE
  by unfold_locales (auto simp: store_def)

section \<open>Reading hexadecimal digits\<close>

definition nibble_value :: "char \<Rightarrow> int option" where
  "nibble_value n = map_of
     (zip ''0123456789'' [0..9] @
      [(CHR ''a'', 10), (CHR ''A'', 10), (CHR ''b'', 11), (CHR ''B'', 11),
       (CHR ''c'', 12), (CHR ''C'', 12), (CHR ''d'', 13), (CHR ''D'', 13),
       (CHR ''e'', 14), (CHR ''E'', 14), (CHR ''f'', 15), (CHR ''F'', 15)]) n"

definition nibble :: "char \<Rightarrow> image \<Rightarrow> int \<times> image" where
  "nibble n img = (case nibble_value n of Some v \<Rightarrow> (v, img) | None \<Rightarrow> (0, img\<lparr>success := False\<rparr>))"

definition read_char :: "char list \<Rightarrow> nat \<Rightarrow> image_error + char" where
  "read_char buf p = (if p < length buf then Inr (buf ! p) else Inl BufferOverread)"

definition parseByte :: "char list \<Rightarrow> nat \<Rightarrow> image \<Rightarrow> image_error + (int \<times> nat \<times> image)" where
  "parseByte buf p img =
     bind_result (read_char buf p) (\<lambda>c.
       let (r, img) = nibble c img; r = r * 16
       in bind_result (read_char buf (p + 1)) (\<lambda>d.
            let (l, img) = nibble d img in Inr (r OR l, p + 2, img)))"

definition parseWord :: "char list \<Rightarrow> nat \<Rightarrow> image \<Rightarrow> image_error + (int \<times> nat \<times> image)" where
  "parseWord buf p img =
     bind_result (parseByte buf p img) (\<lambda>(r, p, img).
       bind_result (parseByte buf p img) (\<lambda>(l, p, img). Inr ((r * 256) OR l, p, img)))"

section \<open>fromIntelHex\<close>

record hex_state =
  isRam :: bool
  seg :: int
  line :: "char list"
  himg :: image

text \<open>The loop \<open>while (len--)\<close> over the data bytes of a record.\<close>

fun data_bytes :: "nat \<Rightarrow> int \<Rightarrow> nat \<Rightarrow> hex_state \<Rightarrow> image_error + hex_state" where
  "data_bytes 0 adr p s = Inr s"
| "data_bytes (Suc len) adr p s =
     bind_result (parseByte (line s) p (himg s)) (\<lambda>(v, p, img).
       if isRam s then data_bytes len (adr + 1) p (s\<lparr>himg := img\<rparr>)
       else data_bytes len (adr + 1) p (s\<lparr>himg := store (seg s * 16 + adr) v img\<rparr>))"

definition segment_record :: "hex_state \<Rightarrow> image_error + hex_state" where
  "segment_record s =
     bind_result
       (if take 9 (cstr (line s)) = '':02000002'' then
          bind_result (parseWord (line s) 9 (himg s)) (\<lambda>(v, p, img).
            let s = s\<lparr>himg := img\<rparr> in
            if v \<noteq> 0x1000 then
              if v \<ge> FLASH_START \<and> v \<le> FLASH_END then Inr (s\<lparr>seg := v - FLASH_START\<rparr>)
              else Inr (s\<lparr>himg := img\<lparr>success := False\<rparr>\<rparr>)
            else Inr s)
        else Inr s)
       (\<lambda>s. Inr (s\<lparr>isRam := (cstr (line s) = '':020000021000EC'')\<rparr>))"

definition data_record :: "hex_state \<Rightarrow> image_error + hex_state" where
  "data_record s =
     bind_result (parseByte (line s) 1 (himg s)) (\<lambda>(len, p, img).
     bind_result (parseWord (line s) p img) (\<lambda>(adr, p, img).
     bind_result (parseByte (line s) p img) (\<lambda>(_, p, img).
       data_bytes (nat len) adr p (s\<lparr>himg := img\<rparr>))))"

definition hex_fail :: "hex_state \<Rightarrow> hex_state" where
  "hex_fail s = s\<lparr>himg := (himg s)\<lparr>success := False\<rparr>\<rparr>"

text \<open>The body of the loop over the lines, on a line already cut at its line end.\<close>

definition hex_record :: "hex_state \<Rightarrow> image_error + hex_state" where
  "hex_record s =
     bind_result (read_char (line s) 0) (\<lambda>c0.
       if c0 \<noteq> CHR '':'' then Inr s
       else if length (cstr (line s)) < 9 then Inr (hex_fail s)
       else if line s ! 7 \<noteq> CHR ''0'' then Inr (hex_fail s)
       else if line s ! 8 = CHR ''1'' then Inr s
       else if line s ! 8 = CHR ''2'' then segment_record s
       else if line s ! 8 = CHR ''0'' then data_record s
       else if line s ! 8 = CHR ''3'' then Inr s
       else Inr (hex_fail s))"

definition fgets_line :: "string \<Rightarrow> hex_state \<Rightarrow> hex_state" where
  "fgets_line text s =
     s\<lparr>line := cut_at CHR 0x0A (cut_at CHR 0x0D (fgets_buffer text (line s)))\<rparr>"

function hex_lines :: "string \<Rightarrow> hex_state \<Rightarrow> image_error + hex_state" where
  "hex_lines text s =
     (if text = [] then Inr s
      else bind_result (hex_record (fgets_line text s)) (hex_lines (drop (fgets_take text) text)))"
  by pat_completeness auto
termination
  by (relation "measure (\<lambda>(text, s). length text)") (auto simp: fgets_take_pos)

declare hex_lines.simps [simp del]

definition round_2K :: "int \<Rightarrow> int" where
  "round_2K n = ((n + 2047) div 2048) * 2048"

definition hex_bounds :: "bool \<Rightarrow> image \<Rightarrow> image" where
  "hex_bounds withSignature img =
     (let img = img\<lparr>base := (if withSignature then lowest img else lowest img - int sizeof_SignedHeader)\<rparr>;
          img = img\<lparr>highest := round_2K (highest img)\<rparr>;
          start = word_of_int (FLASH_START * 16 + base img)
      in img\<lparr>img_ro_base := start, img_rx_base := start,
             img_ro_max := start + img_size img, img_rx_max := start + img_size img\<rparr>)"

text \<open>
  The whole function: the file's text, or \<open>None\<close> when \<open>fopen\<close> fails; \<open>buf\<close>
  is what the line buffer holds before the first \<open>fgets\<close>.
\<close>

definition fromIntelHex ::
  "string option \<Rightarrow> bool \<Rightarrow> char list \<Rightarrow> image \<Rightarrow> image_error + (bool \<times> image)" where
  "fromIntelHex file withSignature buf img =
     bind_result
       (case file of
          Some text \<Rightarrow> hex_lines text \<lparr>isRam = False, seg = 0, line = buf, himg = img\<rparr>
        | None \<Rightarrow> Inr \<lparr>isRam = False, seg = 0, line = buf, himg = img\<lparr>success := False\<rparr>\<rparr>)
       (\<lambda>s. let img = himg s;
               img = (if success img then hex_bounds withSignature img else img)
           in Inr (success img, img))"

section \<open>toIntelHex\<close>

definition newline :: string where "newline = [CHR 0x0A]"

definition segment_line :: "image \<Rightarrow> int \<Rightarrow> string" where
  "segment_line img i =
     (let s = FLASH_START + drop_bit 4 (base img) + drop_bit 4 (i - base img)
      in '':02000002'' @ fmt_X 4 s @
         fmt_X 2 ((NOT ((2 + 2 + drop_bit 8 s) AND 255) + 1) AND 255) @ newline)"

definition data_line :: "image \<Rightarrow> int \<Rightarrow> string" where
  "data_line img i =
     (let bytes = mem_read (mem img) (nat i) 16;
          crc = 16 + (drop_bit 8 (i - base img) AND 255) + ((i - base img) AND 255) +
                sum_list (map uint bytes)
      in '':10'' @ fmt_X 4 ((i - base img) AND 0xffff) @ ''00'' @
         concat (map (\<lambda>b. fmt_X 2 (uint b)) bytes) @
         fmt_X 2 ((NOT (crc AND 255) + 1) AND 255) @ newline)"

function toIntelHex_from :: "image \<Rightarrow> int \<Rightarrow> image_error + string" where
  "toIntelHex_from img i =
     (if i < highest img then
        if 0 \<le> i \<and> i + 16 \<le> int MEM_SIZE then
          bind_result (toIntelHex_from img (i + 16)) (\<lambda>rest.
            Inr ((if (i - base img) AND 0xffff = 0 then segment_line img i else []) @
                 data_line img i @ rest))
        else Inl OutOfBounds
      else Inr [])"
  by pat_completeness auto
termination
  by (relation "measure (\<lambda>(img, i). nat (highest img - i))") auto

declare toIntelHex_from.simps [simp del]

definition toIntelHex :: "image \<Rightarrow> image_error + string" where
  "toIntelHex img = toIntelHex_from img (base img)"

lemma toIntelHex_from_defined:
  "0 \<le> i \<Longrightarrow> highest img \<le> int MEM_SIZE \<Longrightarrow> (highest img - i) mod 16 = 0 \<Longrightarrow> \<exists>t. toIntelHex_from img i = Inr t"
proof (induction img i rule: toIntelHex_from.induct)
  case (1 img i)
  show ?case
  proof (cases "i < highest img")
    case True
    obtain k where k: "highest img - i = 16 * k" using 1(4) by (auto simp: mod_eq_0_iff_dvd elim: dvdE)
    with True have "0 < k" by linarith
    with k have "i + 16 \<le> highest img" by linarith
    moreover from k have "highest img - (i + 16) = 16 * (k - 1)" by simp
    then have "(highest img - (i + 16)) mod 16 = 0" by (simp only: mod_mult_self1_is_0)
    ultimately obtain t where "toIntelHex_from img (i + 16) = Inr t" using 1(1) True 1(2,3) by auto
    with True \<open>i + 16 \<le> highest img\<close> 1(2,3) show ?thesis by (simp add: toIntelHex_from.simps [of img i])
  qed (simp add: toIntelHex_from.simps)
qed

end
