(* ===== verification/ImageHex.thy ===== *)
theory ImageHex
  imports Image
begin

text \<open>
  The Intel HEX reader and writer of \<open>Image\<close>: the reader never leaves its line buffer,
  it loads exactly what the writer wrote, and the checksum of the segment records the writer
  emits is the one of the format only on 4K-aligned images.
\<close>

section \<open>store and runs of stores\<close>

fun store_list :: "int \<Rightarrow> u8 list \<Rightarrow> image \<Rightarrow> image" where
  "store_list adr [] img = img"
| "store_list adr (b # bs) img = store_list (adr + 1) bs (store adr (uint b) img)"

lemma store_list_append:
  "store_list adr (bs @ cs) img = store_list (adr + int (length bs)) cs (store_list adr bs img)"
  by (induction bs arbitrary: adr img) (simp_all add: add.assoc)

lemma store_success [simp]: "0 \<le> adr \<Longrightarrow> adr < int MEM_SIZE \<Longrightarrow> success (store adr v img) = success img"
  by (simp add: store_def le_nat_iff)

lemma store_in_range:
  "0 \<le> adr \<Longrightarrow> adr < int MEM_SIZE \<Longrightarrow>
    store adr v img = img\<lparr>mem := (mem img)(nat adr := word_of_int v),
      highest := max adr (highest img), lowest := min adr (lowest img)\<rparr>"
  by (simp add: store_def max_def min_def)

lemma mem_write_Nil [simp]: "mem_write m a [] = m"
  by (rule ext) (auto simp: mem_write_def)

lemma mem_write_Cons: "mem_write m a (b # bs) = mem_write (m(a := b)) (Suc a) bs"
  by (rule ext) (auto simp: mem_write_def nth_Cons')

lemma store_list_in_range:
  "0 \<le> adr \<Longrightarrow> adr + int (length bs) \<le> int MEM_SIZE \<Longrightarrow> bs \<noteq> [] \<Longrightarrow>
    store_list adr bs img = img\<lparr>mem := mem_write (mem img) (nat adr) bs,
      highest := max (adr + int (length bs) - 1) (highest img),
      lowest := min adr (lowest img)\<rparr>"
proof (induction bs arbitrary: adr img)
  case Nil
  then show ?case by simp
next
  case (Cons b bs)
  have here: "store adr (uint b) img = img\<lparr>mem := (mem img)(nat adr := b),
      highest := max adr (highest img), lowest := min adr (lowest img)\<rparr>"
    using Cons.prems by (simp add: store_in_range)
  show ?case
  proof (cases "bs = []")
    case True
    then show ?thesis by (simp add: here mem_write_Cons fun_upd_def)
  next
    case False
    have "nat (adr + 1) = Suc (nat adr)" using Cons.prems(1) by (simp add: nat_add_distrib)
    with Cons.IH [of "adr + 1"] Cons.prems False show ?thesis
      by (simp add: here mem_write_Cons max_def min_def)
  qed
qed

section \<open>Parsing\<close>

lemma less_16_cases:
  "n < (16 :: nat) \<Longrightarrow> n \<in> {0, 1, 2, 3, 4, 5, 6, 7, 8, 9, 10, 11, 12, 13, 14, 15}"
  by (simp only: insert_iff empty_iff) presburger

lemma nibble_value_hexdig: "n < 16 \<Longrightarrow> nibble_value (hexdig n) = Some (int n)"
  by (drule less_16_cases) (elim insertE emptyE; simp add: nibble_value_def hexdig_def upto.simps)

lemma nibble_value_range: "nibble_value c = Some v \<Longrightarrow> 0 \<le> v \<and> v < 16"
  by (auto simp: nibble_value_def upto.simps split: if_splits dest!: map_of_SomeD)

lemma nibble_range: "nibble c img = (v, img') \<Longrightarrow> 0 \<le> v \<and> v < 16"
  by (auto simp: nibble_def nibble_value_range split: option.splits)

lemma nibble_hexdig [simp]: "n < 16 \<Longrightarrow> nibble (hexdig n) img = (int n, img)"
  by (simp add: nibble_def nibble_value_hexdig)

lemma or_shifted: "0 \<le> b \<Longrightarrow> b < 2 ^ n \<Longrightarrow> (a * 2 ^ n) OR b = a * 2 ^ n + (b :: int)"
proof -
  assume "0 \<le> b" "b < 2 ^ n"
  then have b: "take_bit n b = b" by (simp add: take_bit_int_eq_self)
  have "(push_bit n a) AND b = 0"
    by (rule bit_eqI) (use b in \<open>auto simp: bit_simps, metis bit_take_bit_iff not_less\<close>)
  then show ?thesis by (simp add: disjunctive_add_eq_or push_bit_eq_mult)
qed

lemma parseByte_defined:
  assumes "p + 1 < length buf"
  obtains v img' where "parseByte buf p img = Inr (v, p + 2, img')" and "0 \<le> v" and "v < 256"
proof -
  obtain h i1 where h: "nibble (buf ! p) img = (h, i1)" by fastforce
  obtain l i2 where l: "nibble (buf ! (p + 1)) i1 = (l, i2)" by fastforce
  have "parseByte buf p img = Inr (h * 16 OR l, p + 2, i2)"
    using assms h l by (simp add: parseByte_def read_char_def Let_def)
  moreover have "h * 16 OR l = h * 16 + l"
    using or_shifted [of l 4 h] nibble_range [OF l] by simp
  ultimately show thesis using that nibble_range [OF h] nibble_range [OF l] by simp
qed

lemma parseByte_hexk:
  assumes "p + 1 < length buf" and "buf ! p = hexdig (n div 16)" and "buf ! (p + 1) = hexdig (n mod 16)"
    and "n < 256"
  shows "parseByte buf p img = Inr (int n, p + 2, img)"
proof -
  have "int (n div 16) * 16 OR int (n mod 16) = int n"
    using or_shifted [of "int (n mod 16)" 4 "int (n div 16)"] by (simp add: zdiv_int zmod_int)
  then show ?thesis using assms by (simp add: parseByte_def read_char_def Let_def)
qed

lemma parseByte_hex2:
  "n < 256 \<Longrightarrow> parseByte (xs @ hexk 2 n @ ys) (length xs) img = Inr (int n, length xs + 2, img)"
  by (rule parseByte_hexk) (simp_all add: hexk_2 nth_append)

lemma parseWord_hex4:
  assumes "n < 65536"
  shows "parseWord (xs @ hexk 4 n @ ys) (length xs) img = Inr (int n, length xs + 4, img)"
proof -
  have hi: "parseByte (xs @ hexk 4 n @ ys) (length xs) img = Inr (int (n div 256), length xs + 2, img)"
    using parseByte_hex2 [of "n div 256" xs "hexk 2 (n mod 256) @ ys"] assms by (simp add: hexk_4)
  have lo: "parseByte (xs @ hexk 4 n @ ys) (length xs + 2) img = Inr (int (n mod 256), length xs + 4, img)"
    using parseByte_hex2 [of "n mod 256" "xs @ hexk 2 (n div 256)" ys] by (simp add: hexk_4)
  have "int (n div 256) * 256 OR int (n mod 256) = int n"
    using or_shifted [of "int (n mod 256)" 8 "int (n div 256)"] by (simp add: zdiv_int zmod_int)
  with hi lo show ?thesis by (simp add: parseWord_def)
qed

definition hex_payload :: "u8 list \<Rightarrow> string" where
  "hex_payload bs = concat (map (\<lambda>b. hexk 2 (unat b)) bs)"

lemma hex_payload_simps [simp]:
  "hex_payload [] = []"
  "hex_payload (b # bs) = hexk 2 (unat b) @ hex_payload bs"
  by (simp_all add: hex_payload_def)

lemma length_hex_payload [simp]: "length (hex_payload bs) = 2 * length bs"
  by (induction bs) simp_all

lemma unat_u8_less: "unat (b :: u8) < 256"
proof -
  have "unat b < 2 ^ LENGTH(8)" by (rule unsigned_less)
  then show ?thesis by simp
qed

lemma data_bytes_payload:
  assumes "line s = xs @ hex_payload bs @ ys" and "\<not> isRam s"
  shows "data_bytes (length bs) adr (length xs) s =
    Inr (s\<lparr>himg := store_list (seg s * 16 + adr) bs (himg s)\<rparr>)"
  using assms
proof (induction bs arbitrary: xs adr s)
  case Nil
  then show ?case by simp
next
  case (Cons b bs)
  have "parseByte (line s) (length xs) (himg s) = Inr (uint b, length xs + 2, himg s)"
    using parseByte_hex2 [OF unat_u8_less, of xs b "hex_payload bs @ ys"] Cons.prems(1) by simp
  then show ?case
    using Cons.IH [of "s\<lparr>himg := store (seg s * 16 + adr) (uint b) (himg s)\<rparr>"
        "xs @ hexk 2 (unat b)" "adr + 1"] Cons.prems
    by (simp add: add.assoc)
qed

section \<open>One line through fgets\<close>

definition plain :: "string \<Rightarrow> bool" where
  "plain l \<longleftrightarrow> set l \<inter> {CHR 0x0A, CHR 0x0D, CHR 0x00} = {}"

lemma plain_simps [simp]:
  "plain []" "plain (c # l) \<longleftrightarrow> c \<notin> {CHR 0x0A, CHR 0x0D, CHR 0x00} \<and> plain l"
  "plain (l @ l') \<longleftrightarrow> plain l \<and> plain l'"
  by (auto simp: plain_def)

lemma plain_hexdig: "n < 16 \<Longrightarrow> plain [hexdig n]"
  by (drule less_16_cases) (elim insertE emptyE; simp add: hexdig_def)

lemma plain_hexk [simp]: "plain (hexk k n)"
proof (induction k arbitrary: n)
  case 0
  then show ?case by simp
next
  case (Suc k)
  have "plain [hexdig (n mod 16)]" by (rule plain_hexdig) simp
  with Suc show ?case by simp
qed

lemma plain_hex_payload [simp]: "plain (hex_payload bs)"
  by (induction bs) simp_all

lemma fgets_line_plain:
  assumes "plain l" and "length l < BUFSIZ - 1" and "length (line s) = BUFSIZ"
  shows "\<exists>t. fgets_line (l @ newline @ rest) s = s\<lparr>line := l @ CHR 0x00 # t\<rparr> \<and>
    length (l @ CHR 0x00 # t) = BUFSIZ"
proof -
  let ?t = "CHR 0x00 # drop (length l + 2) (line s)"
  have k: "fgets_take (l @ newline @ rest) = Suc (length l)"
    using assms(1,2) by (simp add: newline_def plain_def fgets_take_line)
  have "fgets_buffer (l @ newline @ rest) (line s) =
      l @ CHR 0x0A # CHR 0x00 # drop (length l + 2) (line s)"
    by (simp only: fgets_buffer_def k Let_def) (simp add: newline_def)
  moreover have "cstr (l @ CHR 0x0A # ?t) = l @ [CHR 0x0A]"
    using cstr_append [of "l @ [CHR 0x0A]"] assms(1) by (simp add: plain_def)
  moreover from this have "cut_at CHR 0x0D (l @ CHR 0x0A # ?t) = l @ CHR 0x0A # ?t"
    using assms(1) by (simp add: cut_at_def plain_def)
  moreover have "takeWhile (\<lambda>d. d \<noteq> CHR 0x0A) (l @ [CHR 0x0A]) = l"
    using assms(1) by (subst takeWhile_append2) (auto simp: plain_def)
  ultimately have "fgets_line (l @ newline @ rest) s = s\<lparr>line := l @ CHR 0x00 # ?t\<rparr>"
    by (simp add: fgets_line_def cut_at_def)
  then show ?thesis using assms(2,3) by (intro exI [of _ ?t]) (simp add: BUFSIZ_def)
qed

lemma hex_lines_line:
  assumes "plain l" and "length l < BUFSIZ - 1" and "length (line s) = BUFSIZ"
  shows "\<exists>t. length (l @ CHR 0x00 # t) = BUFSIZ \<and> hex_lines (l @ newline @ rest) s =
    bind_result (hex_record (s\<lparr>line := l @ CHR 0x00 # t\<rparr>)) (hex_lines rest)"
proof -
  have "fgets_take (l @ newline @ rest) = Suc (length l)"
    using assms(1,2) by (simp add: newline_def plain_def fgets_take_line)
  then have "drop (fgets_take (l @ newline @ rest)) (l @ newline @ rest) = rest"
    by (simp add: newline_def)
  moreover have "l @ newline @ rest \<noteq> []" by (simp add: newline_def)
  ultimately show ?thesis
    using fgets_line_plain [OF assms] by (subst hex_lines.simps) (metis (no_types))
qed

section \<open>The records of the writer\<close>

lemma and_FF: "(i :: int) AND 255 = i mod 256"
  using take_bit_eq_mask [of 8 i] by (simp add: mask_eq_exp_minus_1 take_bit_eq_mod)

lemma and_FFFF: "(i :: int) AND 0xffff = i mod 65536"
  using take_bit_eq_mask [of 16 i] by (simp add: mask_eq_exp_minus_1 take_bit_eq_mod)

lemma drop_bit_4_int: "drop_bit 4 (i :: int) = i div 16"
  by (simp add: drop_bit_eq_div)

lemma drop_bit_8_int: "drop_bit 8 (i :: int) = i div 256"
  by (simp add: drop_bit_eq_div)

lemma checksum_byte: "0 \<le> (NOT n + 1) AND 255 \<and> (NOT n + 1) AND 255 < (256 :: int)"
  by (simp add: and_FF)

lemma segment_value_range:
  assumes "0 \<le> base img" and "base img \<le> i" and "i < int MEM_SIZE"
  shows "FLASH_START \<le> FLASH_START + drop_bit 4 (base img) + drop_bit 4 (i - base img)"
    and "FLASH_START + drop_bit 4 (base img) + drop_bit 4 (i - base img) < 65536"
  using assms by (auto simp: drop_bit_4_int FLASH_START_def MEM_SIZE_def)

lemma parse_at:
  "buf = xs @ hexk 2 n @ ys \<Longrightarrow> p = length xs \<Longrightarrow> n < 256 \<Longrightarrow>
    parseByte buf p img = Inr (int n, p + 2, img)"
  "buf = xs @ hexk 4 n @ ys \<Longrightarrow> p = length xs \<Longrightarrow> n < 65536 \<Longrightarrow>
    parseWord buf p img = Inr (int n, p + 4, img)"
  by (simp_all add: parseByte_hex2 parseWord_hex4)

lemma high_digit_not_1: "4 \<le> n \<Longrightarrow> n < 16 \<Longrightarrow> hexdig n \<noteq> CHR ''1''"
  by (drule less_16_cases) (elim insertE emptyE; simp add: hexdig_def)

lemma hex_record_segment:
  assumes "line s = '':02000002'' @ hexk 4 (nat v) @ hexk 2 c @ CHR 0x00 # t"
    and "FLASH_START \<le> v" and "v < 65536"
  shows "hex_record s = Inr (s\<lparr>seg := v - FLASH_START, isRam := False\<rparr>)"
proof -
  let ?l = "'':02000002'' @ hexk 4 (nat v) @ hexk 2 c"
  have v: "0 \<le> v" "v \<noteq> 0x1000" "v \<le> FLASH_END"
    using assms(2,3) by (auto simp: FLASH_START_def FLASH_END_def FLASH_END_of_def)
  have "plain ?l" by simp
  then have c: "cstr (line s) = ?l"
    using cstr_append [of ?l t] assms(1) by (simp add: plain_def)
  have w: "parseWord (line s) 9 (himg s) = Inr (int (nat v), 9 + 4, himg s)"
    by (rule parse_at(2) [where xs = "'':02000002''"]) (use assms v(1) in \<open>simp_all add: nat_less_iff\<close>)
  have "4 \<le> nat v div 256 div 16" "nat v div 256 div 16 < 16"
    using assms(2,3) by (auto simp: FLASH_START_def nat_less_iff)
  then have ram: "cstr (line s) \<noteq> '':020000021000EC''"
    by (simp add: c hexk_4 hexk_2 high_digit_not_1)
  have "read_char (line s) 0 = Inr CHR '':''" "line s ! 7 = CHR ''0''" "line s ! 8 = CHR ''2''"
    using assms(1) by (simp_all add: read_char_def)
  then show ?thesis
    using ram w v assms(2) c by (simp add: hex_record_def segment_record_def)
qed

lemma hex_record_data:
  assumes "line s = '':10'' @ hexk 4 (nat adr) @ ''00'' @ hex_payload bs @ hexk 2 c @ CHR 0x00 # t"
    and "0 \<le> adr" and "adr < 65536" and "length bs = 16" and "\<not> isRam s"
  shows "hex_record s = Inr (s\<lparr>himg := store_list (seg s * 16 + adr) bs (himg s)\<rparr>)"
proof -
  let ?l = "'':10'' @ hexk 4 (nat adr) @ ''00'' @ hex_payload bs @ hexk 2 c"
  have "plain ?l" by simp
  then have c: "cstr (line s) = ?l"
    using cstr_append [of ?l t] assms(1) by (simp add: plain_def)
  have ten: "''10'' = hexk 2 16" "''00'' = hexk 2 0"
    by (simp_all add: hexk_2 hexdig_def)
  have l1: "parseByte (line s) 1 (himg s) = Inr (int 16, 1 + 2, himg s)"
    by (rule parse_at(1) [where xs = "'':''"]) (use assms ten in simp_all)
  have w: "parseWord (line s) (1 + 2) (himg s) = Inr (int (nat adr), 1 + 2 + 4, himg s)"
    by (rule parse_at(2) [where xs = "'':10''"]) (use assms in \<open>simp_all add: nat_less_iff\<close>)
  have ty: "parseByte (line s) (1 + 2 + 4) (himg s) = Inr (int 0, 1 + 2 + 4 + 2, himg s)"
    by (rule parse_at(1) [where xs = "'':10'' @ hexk 4 (nat adr)"]) (use assms ten in simp_all)
  have d: "data_bytes (length bs) adr (length ('':10'' @ hexk 4 (nat adr) @ ''00'')) s =
      Inr (s\<lparr>himg := store_list (seg s * 16 + adr) bs (himg s)\<rparr>)"
    by (rule data_bytes_payload [where ys = "hexk 2 c @ CHR 0x00 # t"]) (use assms in simp_all)
  have "data_record s = Inr (s\<lparr>himg := store_list (seg s * 16 + adr) bs (himg s)\<rparr>)"
    unfolding data_record_def l1 using d w ty assms(2,4) by simp
  moreover have "read_char (line s) 0 = Inr CHR '':''"
    using assms(1) by (simp add: read_char_def)
  moreover have "line s ! 7 = CHR ''0''" "line s ! 8 = CHR ''0''"
    using assms(1) by (simp_all add: nth_append nth_Cons')
  ultimately show ?thesis
    using c by (simp add: hex_record_def)
qed

definition seg_ready :: "hex_state \<Rightarrow> bool" where
  "seg_ready s \<longleftrightarrow> length (line s) = BUFSIZ"

lemma segment_line_plain:
  assumes "0 \<le> base img" and "base img \<le> i" and "i < int MEM_SIZE"
  shows "\<exists>c. segment_line img i =
    ('':02000002'' @ hexk 4 (nat (FLASH_START + drop_bit 4 (base img) + drop_bit 4 (i - base img))) @
      hexk 2 c) @ newline"
  using segment_value_range [OF assms] checksum_byte
  by (auto simp: segment_line_def Let_def fmt_X_4 fmt_X_2 FLASH_START_def)

lemma data_line_plain:
  "\<exists>c. data_line img i =
    ('':10'' @ hexk 4 (nat ((i - base img) mod 65536)) @ ''00'' @
      hex_payload (mem_read (mem img) (nat i) 16) @ hexk 2 c) @ newline"
proof -
  have "fmt_X 2 (uint b) = hexk 2 (unat b)" for b :: u8
    using unat_u8_less [of b] by (subst fmt_X_2) (auto simp: uint_nat simp del: of_nat_unat)
  then show ?thesis
    using checksum_byte by (auto simp: data_line_def Let_def and_FFFF fmt_X_4 fmt_X_2 hex_payload_def)
qed

lemma segment_step:
  assumes "0 \<le> base img" and "base img \<le> i" and "i < int MEM_SIZE"
    and "base img mod 16 = 0" and "(i - base img) mod 16 = 0" and "seg_ready s"
  shows "\<exists>s1. hex_lines (segment_line img i @ rest) s = hex_lines rest s1 \<and> himg s1 = himg s \<and>
    seg s1 * 16 = i \<and> \<not> isRam s1 \<and> seg_ready s1"
proof -
  let ?v = "FLASH_START + drop_bit 4 (base img) + drop_bit 4 (i - base img)"
  obtain c where c: "segment_line img i = ('':02000002'' @ hexk 4 (nat ?v) @ hexk 2 c) @ newline"
    using segment_line_plain [OF assms(1-3)] by blast
  let ?l = "'':02000002'' @ hexk 4 (nat ?v) @ hexk 2 c"
  have "plain ?l" by simp
  moreover have "length ?l < BUFSIZ - 1" by (simp add: BUFSIZ_def)
  ultimately obtain t where t: "length (?l @ CHR 0x00 # t) = BUFSIZ"
    and run: "hex_lines (?l @ newline @ rest) s =
      bind_result (hex_record (s\<lparr>line := ?l @ CHR 0x00 # t\<rparr>)) (hex_lines rest)"
    using hex_lines_line assms(6) unfolding seg_ready_def by blast
  let ?s1 = "s\<lparr>line := ?l @ CHR 0x00 # t, seg := ?v - FLASH_START, isRam := False\<rparr>"
  have "hex_record (s\<lparr>line := ?l @ CHR 0x00 # t\<rparr>) = Inr ?s1"
    using hex_record_segment [of "s\<lparr>line := ?l @ CHR 0x00 # t\<rparr>" ?v c t]
      segment_value_range [OF assms(1-3)] by simp
  with run c have "hex_lines (segment_line img i @ rest) s = hex_lines rest ?s1" by simp
  moreover have "(?v - FLASH_START) * 16 = i"
    using assms(4,5) by (simp add: drop_bit_4_int algebra_simps)
      (metis add.commute diff_add_cancel mult.commute mult_div_mod_eq add.right_neutral)
  ultimately show ?thesis
    using t by (intro exI [of _ ?s1]) (simp add: seg_ready_def)
qed

lemma data_step:
  assumes "seg s * 16 + (i - base img) mod 65536 = i" and "\<not> isRam s" and "seg_ready s"
  shows "\<exists>s1. hex_lines (data_line img i @ rest) s = hex_lines rest s1 \<and>
    himg s1 = store_list i (mem_read (mem img) (nat i) 16) (himg s) \<and>
    seg s1 = seg s \<and> \<not> isRam s1 \<and> seg_ready s1"
proof -
  let ?a = "(i - base img) mod 65536" and ?bs = "mem_read (mem img) (nat i) 16"
  obtain c where c: "data_line img i =
      ('':10'' @ hexk 4 (nat ?a) @ ''00'' @ hex_payload ?bs @ hexk 2 c) @ newline"
    using data_line_plain by blast
  let ?l = "'':10'' @ hexk 4 (nat ?a) @ ''00'' @ hex_payload ?bs @ hexk 2 c"
  have "plain ?l" by simp
  moreover have "length ?l < BUFSIZ - 1" by (simp add: BUFSIZ_def)
  ultimately obtain t where t: "length (?l @ CHR 0x00 # t) = BUFSIZ"
    and run: "hex_lines (?l @ newline @ rest) s =
      bind_result (hex_record (s\<lparr>line := ?l @ CHR 0x00 # t\<rparr>)) (hex_lines rest)"
    using hex_lines_line assms(3) unfolding seg_ready_def by blast
  let ?s1 = "s\<lparr>line := ?l @ CHR 0x00 # t, himg := store_list i ?bs (himg s)\<rparr>"
  have "hex_record (s\<lparr>line := ?l @ CHR 0x00 # t\<rparr>) = Inr ?s1"
    using hex_record_data [of "s\<lparr>line := ?l @ CHR 0x00 # t\<rparr>" ?a ?bs c t] assms(1,2) by simp
  with run c have "hex_lines (data_line img i @ rest) s = hex_lines rest ?s1" by simp
  then show ?thesis
    using t assms(2) by (intro exI [of _ ?s1]) (simp add: seg_ready_def)
qed

definition at_row :: "image \<Rightarrow> int \<Rightarrow> hex_state \<Rightarrow> bool" where
  "at_row img i s \<longleftrightarrow> seg_ready s \<and>
     ((i - base img) mod 65536 \<noteq> 0 \<longrightarrow> \<not> isRam s \<and> seg s * 16 + (i - base img) mod 65536 = i)"

lemma at_row_next:
  assumes "seg s * 16 + (i - base img) mod 65536 = i" and "\<not> isRam s" and "seg_ready s"
    and "(i - base img) mod 16 = 0"
  shows "at_row img (i + 16) s"
proof -
  define r where "r = (i - base img) mod 65536"
  have r: "0 \<le> r" "r < 65536" by (simp_all add: r_def)
  have "r mod 16 = 0" using assms(4) by (simp add: r_def mod_mod_cancel)
  then obtain q where q: "r = 16 * q" by (auto elim: dvdE)
  with r have "q \<le> 4095" by linarith
  moreover have "(i + 16 - base img) mod 65536 = (r + 16) mod 65536"
    unfolding r_def by (metis add.commute add_diff_eq mod_add_right_eq)
  ultimately have "(i + 16 - base img) mod 65536 \<noteq> 0 \<Longrightarrow> (i + 16 - base img) mod 65536 = r + 16"
    using q r by (cases "q = 4095") auto
  with assms show ?thesis by (auto simp: at_row_def r_def)
qed

lemma row_step:
  assumes "0 \<le> base img" and "base img \<le> i" and "i < int MEM_SIZE"
    and "base img mod 16 = 0" and "(i - base img) mod 16 = 0" and "at_row img i s"
  shows "\<exists>s1. hex_lines ((if (i - base img) AND 0xffff = 0 then segment_line img i else []) @
        data_line img i @ rest) s = hex_lines rest s1 \<and>
    himg s1 = store_list i (mem_read (mem img) (nat i) 16) (himg s) \<and> at_row img (i + 16) s1"
proof (cases "(i - base img) AND 0xffff = 0")
  case True
  from segment_step [OF assms(1-5), of s "data_line img i @ rest"] assms(6)
  obtain s1 where s1: "hex_lines (segment_line img i @ data_line img i @ rest) s =
      hex_lines (data_line img i @ rest) s1" "himg s1 = himg s" "seg s1 * 16 = i"
    "\<not> isRam s1" "seg_ready s1"
    by (auto simp: at_row_def)
  have "seg s1 * 16 + (i - base img) mod 65536 = i" using s1(3) True by (simp add: and_FFFF)
  from data_step [OF this s1(4,5), of rest] obtain s2 where
    s2: "hex_lines (data_line img i @ rest) s1 = hex_lines rest s2"
    "himg s2 = store_list i (mem_read (mem img) (nat i) 16) (himg s1)"
    "seg s2 = seg s1" "\<not> isRam s2" "seg_ready s2" by blast
  have "at_row img (i + 16) s2"
    using at_row_next [OF _ s2(4,5) assms(5)] s1(3) s2(3) True by (simp add: and_FFFF)
  with s1 s2 True show ?thesis by auto
next
  case False
  with assms(6) have row: "seg s * 16 + (i - base img) mod 65536 = i" "\<not> isRam s" "seg_ready s"
    by (auto simp: at_row_def and_FFFF)
  from data_step [OF row, of rest] obtain s2 where
    s2: "hex_lines (data_line img i @ rest) s = hex_lines rest s2"
    "himg s2 = store_list i (mem_read (mem img) (nat i) 16) (himg s)"
    "seg s2 = seg s" "\<not> isRam s2" "seg_ready s2" by blast
  have "at_row img (i + 16) s2"
    using at_row_next [OF _ s2(4,5) assms(5)] row(1) s2(3) by simp
  with s2 False show ?thesis by auto
qed

lemma rows_load:
  assumes "0 \<le> base img" and "base img mod 16 = 0" and "highest img \<le> int MEM_SIZE"
  shows "base img \<le> i \<Longrightarrow> i \<le> highest img \<Longrightarrow> (i - base img) mod 16 = 0 \<Longrightarrow>
    (highest img - i) mod 16 = 0 \<Longrightarrow>
    \<exists>text. toIntelHex_from img i = Inr text \<and>
      (\<forall>s. at_row img i s \<longrightarrow> (\<exists>s'. hex_lines text s = Inr s' \<and>
        himg s' = store_list i (mem_read (mem img) (nat i) (nat (highest img - i))) (himg s)))"
proof (induction "nat (highest img - i)" arbitrary: i rule: less_induct)
  case less
  show ?case
  proof (cases "i < highest img")
    case False
    with less.prems(2) show ?thesis
      by (intro exI [of _ "[]"])
        (simp add: toIntelHex_from.simps [of img "highest img"] hex_lines.simps [of "[]"] mem_read_def)
  next
    case True
    obtain k where k: "highest img - i = 16 * k" using less.prems(4) by (auto elim: dvdE)
    then have k': "highest img - (i + 16) = 16 * (k - 1)" by simp
    have "(i + 16 - base img) mod 16 = (i - base img) mod 16"
      using mod_add_self2 [of "i - base img" 16] by (simp add: algebra_simps)
    moreover have "i + 16 \<le> highest img" using k True by arith
    moreover have "(highest img - (i + 16)) mod 16 = 0" unfolding k' by simp
    ultimately have next16: "i + 16 \<le> highest img" "(i + 16 - base img) mod 16 = 0"
      "(highest img - (i + 16)) mod 16 = 0"
      using less.prems(3) by simp_all
    obtain rest where rest: "toIntelHex_from img (i + 16) = Inr rest"
      and load: "\<And>s. at_row img (i + 16) s \<Longrightarrow> \<exists>s'. hex_lines rest s = Inr s' \<and> himg s' =
        store_list (i + 16) (mem_read (mem img) (nat (i + 16)) (nat (highest img - (i + 16)))) (himg s)"
      using less.hyps [of "i + 16"] less.prems(1) True next16 by auto
    let ?text = "(if (i - base img) AND 0xffff = 0 then segment_line img i else []) @
      data_line img i @ rest"
    have "toIntelHex_from img i = Inr ?text"
      using True next16 assms less.prems(1) rest by (simp add: toIntelHex_from.simps [of img i])
    moreover have "\<exists>s'. hex_lines ?text s = Inr s' \<and>
        himg s' = store_list i (mem_read (mem img) (nat i) (nat (highest img - i))) (himg s)"
      if row: "at_row img i s" for s
    proof -
      have "i < int MEM_SIZE" using True assms(3) by simp
      from row_step [OF assms(1) less.prems(1) this assms(2) less.prems(3) row, of rest]
      obtain s1 where s1: "hex_lines ?text s = hex_lines rest s1" "at_row img (i + 16) s1"
        "himg s1 = store_list i (mem_read (mem img) (nat i) 16) (himg s)" by blast
      from load [OF s1(2)] obtain s' where "hex_lines rest s1 = Inr s'" and s': "himg s' =
        store_list (i + 16) (mem_read (mem img) (nat (i + 16)) (nat (highest img - (i + 16)))) (himg s1)"
        by blast
      moreover have "nat (highest img - i) = 16 + nat (highest img - (i + 16))" "nat (i + 16) = nat i + 16"
        using next16(1) less.prems(1) assms(1) by auto
      then have "mem_read (mem img) (nat i) (nat (highest img - i)) =
          mem_read (mem img) (nat i) 16 @ mem_read (mem img) (nat (i + 16)) (nat (highest img - (i + 16)))"
        by (simp add: mem_read_append)
      ultimately show ?thesis using s1 by (simp add: store_list_append)
    qed
    ultimately show ?thesis by blast
  qed
qed

lemma aligned_16: "a mod 2048 = 0 \<Longrightarrow> a mod 16 = (0 :: int)"
  using mod_mod_cancel [of 16 2048 a] by simp

section \<open>The reader stays inside its buffer\<close>

lemma parseWord_defined:
  assumes "p + 3 < length buf"
  obtains v img' where "parseWord buf p img = Inr (v, p + 4, img')"
proof -
  obtain v i1 where 1: "parseByte buf p img = Inr (v, p + 2, i1)"
    using assms by (auto intro: parseByte_defined [of p buf img])
  obtain w i2 where 2: "parseByte buf (p + 2) i1 = Inr (w, p + 2 + 2, i2)"
    using assms by (auto intro: parseByte_defined [of "p + 2" buf i1])
  from 1 2 show thesis using that by (simp add: parseWord_def)
qed

lemma data_bytes_defined:
  "p + 2 * len < length (line s) \<Longrightarrow>
    \<exists>s'. data_bytes len adr p s = Inr s' \<and> length (line s') = length (line s)"
proof (induction len arbitrary: adr p s)
  case 0
  then show ?case by simp
next
  case (Suc len)
  obtain v i1 where 1: "parseByte (line s) p (himg s) = Inr (v, p + 2, i1)"
    using Suc.prems by (auto intro: parseByte_defined [of p "line s" "himg s"])
  show ?case
    using Suc.IH [of "p + 2" "s\<lparr>himg := i1\<rparr>"]
      Suc.IH [of "p + 2" "s\<lparr>himg := store (seg s * 16 + adr) v i1\<rparr>"] Suc.prems 1
    by (cases "isRam s") auto
qed

lemma data_record_defined:
  assumes "length (line s) = BUFSIZ"
  shows "\<exists>s'. data_record s = Inr s' \<and> length (line s') = BUFSIZ"
proof -
  obtain len i1 where 1: "parseByte (line s) 1 (himg s) = Inr (len, 3, i1)" "0 \<le> len" "len < 256"
    using assms by (auto intro: parseByte_defined [of 1 "line s" "himg s"] simp: BUFSIZ_def)
  obtain adr i2 where 2: "parseWord (line s) 3 i1 = Inr (adr, 7, i2)"
    using assms by (auto intro: parseWord_defined [of 3 "line s" i1] simp: BUFSIZ_def)
  obtain ty i3 where 3: "parseByte (line s) 7 i2 = Inr (ty, 9, i3)"
    using assms by (auto intro: parseByte_defined [of 7 "line s" i2] simp: BUFSIZ_def)
  have "9 + 2 * nat len < BUFSIZ" using 1(3) by (simp add: BUFSIZ_def)
  then show ?thesis
    using data_bytes_defined [of 9 "nat len" "s\<lparr>himg := i3\<rparr>"] assms 1 2 3
    by (simp add: data_record_def)
qed

lemma segment_record_defined:
  assumes "length (line s) = BUFSIZ"
  shows "\<exists>s'. segment_record s = Inr s' \<and> length (line s') = BUFSIZ"
proof -
  obtain v i1 where "parseWord (line s) 9 (himg s) = Inr (v, 13, i1)"
    using assms by (auto intro: parseWord_defined [of 9 "line s" "himg s"] simp: BUFSIZ_def)
  then show ?thesis using assms by (simp add: segment_record_def Let_def)
qed

lemma hex_record_defined:
  assumes "length (line s) = BUFSIZ"
  shows "\<exists>s'. hex_record s = Inr s' \<and> length (line s') = BUFSIZ"
  using assms data_record_defined [OF assms] segment_record_defined [OF assms]
  by (simp add: hex_record_def read_char_def hex_fail_def BUFSIZ_def)

lemma fgets_line_length: "length (line s) = BUFSIZ \<Longrightarrow> length (line (fgets_line out s)) = BUFSIZ"
proof -
  assume "length (line s) = BUFSIZ"
  moreover have "fgets_take out \<le> BUFSIZ - 1" by (simp add: fgets_take_def Let_def)
  ultimately show ?thesis
    using fgets_take_le [of out] by (simp add: fgets_line_def fgets_buffer_def Let_def BUFSIZ_def)
qed

lemma hex_lines_defined:
  "length (line s) = BUFSIZ \<Longrightarrow> \<exists>s'. hex_lines out s = Inr s'"
proof (induction out s rule: hex_lines.induct)
  case (1 out s)
  show ?case
  proof (cases "out = []")
    case True
    then show ?thesis by (simp add: hex_lines.simps [of "[]"])
  next
    case False
    obtain s1 where s1: "hex_record (fgets_line out s) = Inr s1" "length (line s1) = BUFSIZ"
      using hex_record_defined [OF fgets_line_length [OF 1(2)]] by blast
    from 1(1) [OF False s1(2)] s1(1) False show ?thesis
      by (simp add: hex_lines.simps [of out])
  qed
qed

section \<open>Checksums\<close>

text \<open>
  The rule of the format: the bytes of a record, its checksum included, add up to 0 modulo 256.
\<close>

fun hex_pairs_sum :: "string \<Rightarrow> int" where
  "hex_pairs_sum (a # b # cs) =
     16 * (case nibble_value a of Some v \<Rightarrow> v | None \<Rightarrow> 0) +
     (case nibble_value b of Some v \<Rightarrow> v | None \<Rightarrow> 0) + hex_pairs_sum cs"
| "hex_pairs_sum _ = 0"

definition checksum_ok :: "string \<Rightarrow> bool" where
  "checksum_ok rec \<longleftrightarrow> hex_pairs_sum (tl rec) mod 256 = 0"

lemma hex_pairs_hexk2: "n < 256 \<Longrightarrow> hex_pairs_sum (hexk 2 n @ cs) = int n + hex_pairs_sum cs"
  by (simp add: hexk_2 nibble_value_hexdig zdiv_int zmod_int)

lemma hex_pairs_hexk4:
  "n < 65536 \<Longrightarrow> hex_pairs_sum (hexk 4 n @ cs) = int (n div 256) + int (n mod 256) + hex_pairs_sum cs"
  by (simp add: hexk_4 hex_pairs_hexk2)

lemma hex_pairs_payload: "hex_pairs_sum (hex_payload bs @ cs) = sum_list (map uint bs) + hex_pairs_sum cs"
  by (induction bs) (simp_all add: hex_pairs_hexk2 unat_u8_less)

lemma checksum_complement: "(n + (((NOT (n AND 255)) + 1) AND 255)) mod 256 = (0 :: int)"
  by (simp add: and_FF not_int_def mod_simps)

lemma fmt_X_2_byte: "fmt_X 2 (uint b) = hexk 2 (unat (b :: u8))"
  using unat_u8_less [of b] by (subst fmt_X_2) (auto simp: uint_nat simp del: of_nat_unat)

lemma checksum_of_payload:
  "checksum_ok (CHR '':'' # body @ fmt_X 2 ((NOT (n AND 255) + 1) AND 255) @ newline) \<longleftrightarrow>
    (m - n) mod 256 = 0"
  if "\<And>cs. hex_pairs_sum (body @ cs) = m + hex_pairs_sum cs"
proof -
  define c where "c = (NOT (n AND 255) + 1) AND 255"
  have "0 \<le> c" "c < 256" using checksum_byte by (simp_all add: c_def)
  then have "hex_pairs_sum (fmt_X 2 c @ newline) = c"
    by (simp add: fmt_X_2 hex_pairs_hexk2 newline_def nat_less_iff)
  then have "checksum_ok (CHR '':'' # body @ fmt_X 2 c @ newline) \<longleftrightarrow> (m + c) mod 256 = 0"
    by (simp add: checksum_ok_def that)
  also have "(m + c) mod 256 = ((m - n) + (n + c)) mod 256" by simp
  also have "\<dots> = (m - n) mod 256"
    using checksum_complement [of n] unfolding c_def by (metis add.right_neutral mod_add_right_eq)
  finally show ?thesis unfolding c_def .
qed

lemma segment_low_byte:
  assumes "base img mod 16 = 0" and "(i - base img) mod 65536 = 0"
  shows "(FLASH_START + drop_bit 4 (base img) + drop_bit 4 (i - base img)) mod 256 = 0 \<longleftrightarrow>
    base img mod 4096 = 0"
proof -
  obtain q where q: "base img = 16 * q" using assms(1) by (auto elim: dvdE)
  obtain k where k: "i - base img = 65536 * k" using assms(2) by (auto elim: dvdE)
  have "base img div 16 = q" "(i - base img) div 16 = 4096 * k" using q k by simp_all
  then have "FLASH_START + drop_bit 4 (base img) + drop_bit 4 (i - base img) = q + 256 * (64 + 16 * k)"
    by (simp add: drop_bit_4_int FLASH_START_def)
  moreover have "(16 * q) mod 4096 = 16 * (q mod 256)"
    using mod_mult_mult1 [of 16 q 256] by simp
  moreover have "(q + 256 * (64 + 16 * k)) mod 256 = q mod 256" by (simp only: mod_mult_self2)
  ultimately show ?thesis using q by (simp only:) simp
qed

section \<open>Properties\<close>

text \<open>
  C9: reading back what the writer wrote. For an image that \<open>fromElf\<close> or
  \<open>fromIntelHex\<close> can have produced (2K-aligned bounds inside the 512K array) the writer
  succeeds, and loading its text into a fresh image succeeds and gives the same bounds and the
  same bytes.
\<close>

theorem intel_hex_roundtrip:
  assumes "0 \<le> base img" and "base img < highest img" and "highest img \<le> int MEM_SIZE"
    and "base img mod 2048 = 0" and "highest img mod 2048 = 0" and "length buf = BUFSIZ"
  shows "\<exists>text img'. toIntelHex img = Inr text \<and>
    fromIntelHex (Some text) True buf Image_init = Inr (True, img') \<and>
    base img' = base img \<and> highest img' = highest img \<and>
    mem_read (mem img') (nat (base img)) (nat (image_bytes img)) =
      mem_read (mem img) (nat (base img)) (nat (image_bytes img))"
proof -
  let ?bs = "mem_read (mem img) (nat (base img)) (nat (image_bytes img))"
  have al: "base img mod 16 = 0" "(highest img - base img) mod 16 = 0"
    using aligned_16 [OF assms(4)] aligned_16 [OF assms(5)] mod_diff_eq [of "highest img" 16 "base img"]
    by simp_all
  let ?s0 = "\<lparr>isRam = False, seg = 0, line = buf, himg = Image_init\<rparr>"
  have "at_row img (base img) ?s0" using assms(6) by (simp add: at_row_def seg_ready_def)
  with rows_load [OF assms(1) al(1) assms(3), of "base img"] assms(2) al(2)
  obtain out s' where written: "toIntelHex img = Inr out"
    and s': "hex_lines out ?s0 = Inr s'" "himg s' = store_list (base img) ?bs Image_init"
    by (auto simp: toIntelHex_def image_bytes_def)
  have len: "base img + int (length ?bs) = highest img" "?bs \<noteq> []"
    using assms(2) by (auto simp: image_bytes_def mem_read_def)
  have img': "himg s' = Image_init\<lparr>mem := mem_write (mem Image_init) (nat (base img)) ?bs,
      highest := highest img - 1, lowest := base img\<rparr>"
    unfolding s'(2) using len assms(1-3)
    by (subst store_list_in_range)
      (auto simp: Image_init_def FLASH_END_def FLASH_END_of_def FLASH_START_def MEM_SIZE_def)
  have "round_2K (highest img - 1) = highest img"
    using assms(5) by (auto simp: round_2K_def elim!: dvdE)
  then have bounds: "base (hex_bounds True (himg s')) = base img"
    "highest (hex_bounds True (himg s')) = highest img"
    "mem (hex_bounds True (himg s')) = mem_write (mem Image_init) (nat (base img)) ?bs"
    by (simp_all only: img' hex_bounds_def Let_def) simp_all
  have "success (himg s')" by (simp add: img' Image_init_def)
  with s'(1) have "fromIntelHex (Some out) True buf Image_init = Inr (True, hex_bounds True (himg s'))"
    by (simp add: fromIntelHex_def hex_bounds_def Let_def)
  moreover have "mem_read (mem_write m (nat (base img)) ?bs) (nat (base img)) (nat (image_bytes img)) = ?bs" for m
    using mem_read_write_same [of m "nat (base img)" ?bs] by simp
  ultimately show ?thesis
    using written bounds by (intro exI [of _ out] exI [of _ "hex_bounds True (himg s')"]) simp
qed

theorem intel_hex_roundtrip_witness:
  "\<exists>out img'. toIntelHex (Image_init\<lparr>base := 0x4000, highest := 0x4800\<rparr>) = Inr out \<and>
    fromIntelHex (Some out) True (replicate BUFSIZ CHR 0x00) Image_init = Inr (True, img') \<and>
    base img' = 0x4000"
  using intel_hex_roundtrip [of "Image_init\<lparr>base := 0x4000, highest := 0x4800\<rparr>" "replicate BUFSIZ CHR 0x00"]
  by (simp add: MEM_SIZE_def) blast

text \<open>
  C18: whatever the file holds, with records of any length, no \<open>parseByte\<close> of
  \<open>fromIntelHex\<close> reads outside the line buffer, and the function returns.
\<close>

theorem fromIntelHex_no_overread:
  assumes "length buf = BUFSIZ"
  shows "\<exists>ok img'. fromIntelHex content withSignature buf img = Inr (ok, img') \<and> ok = success img'"
proof (cases content)
  case None
  then show ?thesis by (auto simp: fromIntelHex_def Let_def)
next
  case (Some out)
  obtain s' where "hex_lines out \<lparr>isRam = False, seg = 0, line = buf, himg = img\<rparr> = Inr s'"
    using hex_lines_defined assms by fastforce
  with Some show ?thesis by (simp add: fromIntelHex_def Let_def hex_bounds_def)
qed

theorem fromIntelHex_no_overread_witness:
  "\<exists>ok img'. fromIntelHex (Some '':10'') True (replicate BUFSIZ CHR ''F'') Image_init = Inr (ok, img')"
  using fromIntelHex_no_overread [of "replicate BUFSIZ CHR ''F''" "Some '':10''" True Image_init] by auto

lemma data_line_checksum: "checksum_ok (data_line img i)"
proof -
  let ?a = "(i - base img) mod 65536" and ?bs = "mem_read (mem img) (nat i) 16"
  define n where "n = 16 + (drop_bit 8 (i - base img) AND 255) + ((i - base img) AND 255) +
    sum_list (map uint ?bs)"
  let ?body = "''10'' @ fmt_X 4 ?a @ ''00'' @ hex_payload ?bs"
  have line: "data_line img i = CHR '':'' # ?body @ fmt_X 2 ((NOT (n AND 255) + 1) AND 255) @ newline"
    by (simp add: data_line_def Let_def n_def and_FFFF hex_payload_def fmt_X_2_byte)
  have a: "0 \<le> ?a" "?a < 65536" by simp_all
  have "''10'' = hexk 2 16" "''00'' = hexk 2 0" by (simp_all add: hexk_2 hexdig_def)
  then have "hex_pairs_sum (?body @ cs) =
      (16 + (?a div 256 + ?a mod 256) + sum_list (map uint ?bs)) + hex_pairs_sum cs" for cs
    using a by (simp only: fmt_X_4 append_assoc)
      (simp add: hex_pairs_hexk2 hex_pairs_hexk4 hex_pairs_payload zdiv_int zmod_int nat_less_iff)
  note sum = checksum_of_payload [OF this, of n]
  have "?a mod 256 = (i - base img) mod 256" by (simp add: mod_mod_cancel)
  moreover have "?a div 256 = (i - base img) div 256 mod 256"
    using zmod_zmult2_eq [of 256 "i - base img" 256] by simp
  ultimately have "16 + (?a div 256 + ?a mod 256) + sum_list (map uint ?bs) = n"
    by (simp only: n_def and_FF drop_bit_8_int)
  then show ?thesis unfolding line sum by simp
qed

lemma segment_line_checksum:
  assumes "0 \<le> base img" and "base img \<le> i" and "i < int MEM_SIZE"
    and "base img mod 16 = 0" and "(i - base img) mod 65536 = 0"
  shows "checksum_ok (segment_line img i) \<longleftrightarrow> base img mod 4096 = 0"
proof -
  let ?v = "FLASH_START + drop_bit 4 (base img) + drop_bit 4 (i - base img)"
  have v: "0 \<le> ?v" "?v < 65536"
    using segment_value_range [OF assms(1-3)] by (auto simp: FLASH_START_def)
  let ?body = "''02000002'' @ fmt_X 4 ?v"
  have line: "segment_line img i = CHR '':'' # ?body @
      fmt_X 2 ((NOT ((4 + drop_bit 8 ?v) AND 255) + 1) AND 255) @ newline"
    by (simp add: segment_line_def Let_def)
  have "''02000002'' = hexk 2 2 @ hexk 2 0 @ hexk 2 0 @ hexk 2 2" by (simp add: hexk_2 hexdig_def)
  then have "hex_pairs_sum (?body @ cs) = (4 + ?v div 256 + ?v mod 256) + hex_pairs_sum cs" for cs
    using v by (simp only: fmt_X_4 append_assoc)
      (simp add: hex_pairs_hexk2 hex_pairs_hexk4 zdiv_int zmod_int nat_less_iff)
  from checksum_of_payload [OF this, of "4 + drop_bit 8 ?v"]
  have "checksum_ok (segment_line img i) \<longleftrightarrow> ?v mod 256 = 0"
    unfolding line by (simp add: drop_bit_8_int)
  then show ?thesis using segment_low_byte [OF assms(4,5)] by simp
qed

text \<open>
  C39: every data record of the writer, at any position of any image, carries the checksum the format asks
  for; the segment records, which the writer emits every 64K, are right only on images that start on a 4K boundary:
  their checksum adds the high byte of the segment and forgets its low byte, which is 0x80 on the images that
  start on an odd 2K boundary.
\<close>

theorem record_checksums:
  "(\<forall>j. checksum_ok (data_line img j)) \<and>
   (\<forall>i. 0 \<le> base img \<and> base img \<le> i \<and> i < int MEM_SIZE \<and> base img mod 16 = 0 \<and> (i - base img) mod 65536 = 0 \<longrightarrow>
     (checksum_ok (segment_line img i) \<longleftrightarrow> base img mod 4096 = 0))"
  by (intro conjI allI impI data_line_checksum, elim conjE) (rule segment_line_checksum)

theorem record_checksums_witness:
  "\<not> checksum_ok (segment_line (Image_init\<lparr>base := 0x4800, highest := 0x5000\<rparr>) 0x4800) \<and>
   checksum_ok (data_line (Image_init\<lparr>base := 0x4800, highest := 0x5000\<rparr>) 0x4910)"
proof -
  let ?img = "Image_init\<lparr>base := 0x4800, highest := 0x5000\<rparr>"
  note r = record_checksums [of ?img]
  from r have "checksum_ok (data_line ?img 0x4910)" by blast
  moreover from r have "checksum_ok (segment_line ?img 0x4800) \<longleftrightarrow> base ?img mod 4096 = 0"
    by (elim conjE allE [of _ "0x4800"]) (simp add: MEM_SIZE_def)
  ultimately show ?thesis by simp
qed

end
