(* ===== verification/ImageElf.thy ===== *)
theory ImageElf
  imports Image
begin

text \<open>
  Loading an ELF file and filling the rest of the flash: \<open>fromElf\<close>,
  \<open>fillPattern\<close>, \<open>fillRandom\<close> and the binary output of \<open>generate\<close>
  (util/signer/image.cc).

  What the operating system and libelf deliver is the argument \<open>elf_input\<close>: whether each
  call succeeded, the bytes of the file, and the section and program headers in the order of
  \<open>elf_nextscn\<close> and \<open>gelf_getphdr\<close>.
\<close>

section \<open>fromElf\<close>

record elf_section =
  sh_flags :: u64
  sh_addr :: u64
  sh_size :: u64

record elf_phdr =
  p_offset :: u64
  p_paddr :: u64
  p_filesz :: u64

record elf_input =
  open_ok :: bool
  fstat_ok :: bool
  malloc_ok :: bool
  read_ok :: bool
  file_bytes :: "u8 list"
  elf_sections :: "elf_section list"
  elf_phdrs :: "elf_phdr list"

definition SHF_ALLOC :: u64 where "SHF_ALLOC = 2"
definition SHF_EXECINSTR :: u64 where "SHF_EXECINSTR = 4"

definition flash_start_addr :: u64 where "flash_start_addr = word_of_int (FLASH_START * 16)"
definition flash_end_addr :: u64 where "flash_end_addr = word_of_int (FLASH_END * 16)"

definition section_step :: "elf_section \<Rightarrow> image \<Rightarrow> image" where
  "section_step shdr img =
     (if sh_flags shdr AND SHF_ALLOC = 0 then img
      else if sh_flags shdr AND SHF_EXECINSTR = 0 then img
      else if sh_addr shdr < flash_start_addr \<or> sh_addr shdr + sh_size shdr \<ge> flash_end_addr then img
      else
        let img = (if sh_addr shdr < img_rx_base img then img\<lparr>img_rx_base := sh_addr shdr\<rparr> else img)
        in if sh_addr shdr + sh_size shdr > img_rx_max img
           then img\<lparr>img_rx_max := sh_addr shdr + sh_size shdr\<rparr> else img)"

text \<open>
  The copy loop: \<open>left\<close> bytes still to copy, starting at byte \<open>n\<close> of the segment. The
  address goes to \<open>store\<close> as an \<open>int\<close>; reading behind the file is the error.
\<close>

definition copy_address :: "elf_phdr \<Rightarrow> nat \<Rightarrow> int" where
  "copy_address phdr n = sint (ucast (p_paddr phdr + of_nat n - flash_start_addr) :: u32)"

fun copy_segment :: "u8 list \<Rightarrow> elf_phdr \<Rightarrow> nat \<Rightarrow> nat \<Rightarrow> image \<Rightarrow> image_error + image" where
  "copy_segment file phdr 0 n img = Inr img"
| "copy_segment file phdr (Suc left) n img =
     (let ix = unat (p_offset phdr + of_nat n)
      in if ix < length file
         then copy_segment file phdr left (Suc n) (store (copy_address phdr n) (sint (file ! ix)) img)
         else Inl OutOfBounds)"

definition phdr_accepted :: "elf_phdr \<Rightarrow> bool" where
  "phdr_accepted phdr \<longleftrightarrow>
     \<not> (p_paddr phdr < flash_start_addr \<or> p_paddr phdr + p_filesz phdr \<ge> flash_end_addr) \<and>
     p_offset phdr \<noteq> 0"

definition phdr_step :: "u8 list \<Rightarrow> elf_phdr \<Rightarrow> image \<Rightarrow> image_error + image" where
  "phdr_step file phdr img =
     (if \<not> phdr_accepted phdr then Inr img
      else
        let img = (if p_paddr phdr < img_ro_base img then img\<lparr>img_ro_base := p_paddr phdr\<rparr> else img);
            img = (if p_paddr phdr + p_filesz phdr > img_ro_max img
                   then img\<lparr>img_ro_max := p_paddr phdr + p_filesz phdr\<rparr> else img)
        in copy_segment file phdr (unat (p_filesz phdr)) 0 img)"

fun phdr_loop :: "u8 list \<Rightarrow> elf_phdr list \<Rightarrow> image \<Rightarrow> image_error + image" where
  "phdr_loop file [] img = Inr img"
| "phdr_loop file (ph # phs) img = bind_result (phdr_step file ph img) (phdr_loop file phs)"

definition elf_bounds :: "image \<Rightarrow> image" where
  "elf_bounds img =
     (let img = img\<lparr>lowest := lowest img AND NOT 2047\<rparr>;
          img = img\<lparr>base := lowest img\<rparr>;
          img = img\<lparr>img_ro_base := word_of_int (base img + FLASH_START * 16)\<rparr>;
          img = img\<lparr>img_rx_base := img_ro_base img + word_of_nat sizeof_SignedHeader\<rparr>
      in img\<lparr>highest := round_2K (highest img)\<rparr>)"

definition fromElf :: "elf_input \<Rightarrow> image \<Rightarrow> image_error + (bool \<times> image)" where
  "fromElf inp img =
     (if \<not> open_ok inp then Inr (False, img)
      else if \<not> fstat_ok inp then Inr (False, img)
      else if \<not> malloc_ok inp then Inr (False, img)
      else if \<not> read_ok inp then Inr (False, img)
      else if length (file_bytes inp) < 4 then Inl OutOfBounds
      else if of_le (take 4 (file_bytes inp)) \<noteq> (0x464c457f :: u32) then Inr (False, img)
      else
        bind_result (phdr_loop (file_bytes inp) (elf_phdrs inp) (fold section_step (elf_sections inp) img))
          (\<lambda>img. Inr (True, elf_bounds img)))"

section \<open>fillPattern, fillRandom and generate\<close>

definition FILL_END :: int where "FILL_END = 512 * 1024 - 2048"

text \<open>
  The fill loop of both functions; \<open>vals k\<close> is the word written in round \<open>k\<close>: always the
  pattern, or the results of \<open>rand\<close>.
\<close>

function fill_loop :: "(nat \<Rightarrow> u32) \<Rightarrow> nat \<Rightarrow> int \<Rightarrow> memory \<Rightarrow> image_error + memory" where
  "fill_loop vals k i m =
     (if i < FILL_END then
        if 0 \<le> i then fill_loop vals (Suc k) (i + 4) (mem_write m (nat i) (le_bytes 4 (vals k)))
        else Inl OutOfBounds
      else Inr m)"
  by pat_completeness auto
termination
  by (relation "measure (\<lambda>(vals, k, i, m). nat (FILL_END - i))") auto

declare fill_loop.simps [simp del]

definition fill_image :: "(nat \<Rightarrow> u32) \<Rightarrow> image \<Rightarrow> image_error + image" where
  "fill_image vals img =
     bind_result (fill_loop vals 0 (highest img - base img) (mem img)) (\<lambda>m.
       Inr (img\<lparr>mem := m, highest := FILL_END\<rparr>))"

definition fillPattern :: "u32 \<Rightarrow> image \<Rightarrow> image_error + image" where
  "fillPattern pattern img = fill_image (\<lambda>k. pattern) img"

definition fillRandom :: "(nat \<Rightarrow> u32) \<Rightarrow> image \<Rightarrow> image_error + image" where
  "fillRandom rand img = fill_image rand img"

text \<open>
  \<open>randomize\<close> overwrites the memory with what \<open>read\<close> returns of /dev/urandom, \<open>None\<close> when the device cannot be
  opened. Neither the number of bytes read nor the bounds of the image are looked at.
\<close>

definition randomize :: "u8 list option \<Rightarrow> image \<Rightarrow> image" where
  "randomize urandom img =
     (case urandom of
        Some bytes \<Rightarrow> img\<lparr>mem := mem_write (mem img) 0 (take MEM_SIZE bytes)\<rparr>
      | None \<Rightarrow> img)"

lemma randomize_read:
  assumes "MEM_SIZE \<le> length bytes" and "a + n \<le> MEM_SIZE"
  shows "mem_read (mem (randomize (Some bytes) img)) a n = take n (drop a bytes)"
  by (rule nth_equalityI) (use assms in \<open>auto simp: randomize_def mem_read_def mem_write_def\<close>)

lemma randomize_short_read:
  "i \<ge> length bytes \<Longrightarrow> mem (randomize (Some bytes) img) i = mem img i"
  by (simp add: randomize_def mem_write_def)

text \<open>
  \<open>generate\<close>: what is written to the output file, \<open>None\<close> when it cannot be opened. The
  text of the HEX format is given as its bytes.
\<close>

definition generate :: "bool \<Rightarrow> bool \<Rightarrow> image \<Rightarrow> image_error + u8 list option" where
  "generate fopen_ok hex_output img =
     (if \<not> fopen_ok then Inr None
      else if hex_output then
        bind_result (toIntelHex img) (\<lambda>txt. Inr (Some (map of_char txt)))
      else if 0 \<le> base img \<and> base img \<le> highest img \<and> highest img \<le> int MEM_SIZE then
        Inr (Some (mem_read (mem img) (nat (base img)) (nat (image_bytes img))))
      else Inl OutOfBounds)"

end
