(* ===== verification/ImageElfLoad.thy ===== *)
theory ImageElfLoad
  imports ImageElf
begin

text \<open>
  What \<open>fromElf\<close> and the fill functions leave in the image: the loaded memory is that of a
  byte-by-byte reference (the last accepted program header that covers an address decides), the
  bounds are those of the addresses stored, and the fill functions touch the range they announce.
\<close>

section \<open>The writes of the program headers\<close>

definition phdr_writes :: "u8 list \<Rightarrow> elf_phdr \<Rightarrow> (int \<times> int) list" where
  "phdr_writes bytes ph =
     map (\<lambda>n. (copy_address ph n, sint (bytes ! unat (p_offset ph + of_nat n)))) [0..<unat (p_filesz ph)]"

definition phdr_inside :: "u8 list \<Rightarrow> elf_phdr \<Rightarrow> bool" where
  "phdr_inside bytes ph \<longleftrightarrow> (\<forall>n < unat (p_filesz ph). unat (p_offset ph + of_nat n) < length bytes)"

lemma copy_segment_ok:
  "(\<forall>i \<in> {n..<n + k}. unat (p_offset ph + of_nat i) < length bytes) \<Longrightarrow>
   copy_segment bytes ph k n img =
     Inr (sink.put_all (map (\<lambda>i. (copy_address ph i, sint (bytes ! unat (p_offset ph + of_nat i)))) [n..<n + k]) img)"
proof (induction k arbitrary: n img)
  case 0
  then show ?case by simp
next
  case (Suc k)
  from Suc.prems have "unat (p_offset ph + of_nat n) < length bytes" by simp
  moreover have "copy_segment bytes ph k (Suc n) img' =
      Inr (sink.put_all (map (\<lambda>i. (copy_address ph i, sint (bytes ! unat (p_offset ph + of_nat i)))) [Suc n..<Suc n + k]) img')"
    for img'
    using Suc.prems by (intro Suc.IH) simp
  moreover have "[n..<n + Suc k] = n # [Suc n..<Suc n + k]"
    by (simp add: upt_conv_Cons)
  ultimately show ?case
    by (simp add: Let_def)
qed

lemma copy_segment_bad:
  "\<not> (\<forall>i \<in> {n..<n + k}. unat (p_offset ph + of_nat i) < length bytes) \<Longrightarrow>
   copy_segment bytes ph k n img = Inl OutOfBounds"
proof (induction k arbitrary: n img)
  case 0
  then show ?case by simp
next
  case (Suc k)
  have eq: "{n..<n + Suc k} = insert n {Suc n..<Suc n + k}" by auto
  show ?case
  proof (cases "unat (p_offset ph + of_nat n) < length bytes")
    case True
    with Suc.prems have "\<not> (\<forall>i \<in> {Suc n..<Suc n + k}. unat (p_offset ph + of_nat i) < length bytes)"
      unfolding eq by auto
    from Suc.IH [OF this] True show ?thesis by (simp add: Let_def)
  next
    case False
    then show ?thesis by (simp add: Let_def)
  qed
qed

lemma copy_segment_eq:
  "copy_segment bytes ph (unat (p_filesz ph)) 0 img =
     (if phdr_inside bytes ph then Inr (sink.put_all (phdr_writes bytes ph) img) else Inl OutOfBounds)"
proof -
  have "phdr_inside bytes ph \<longleftrightarrow>
      (\<forall>i \<in> {0..<0 + unat (p_filesz ph)}. unat (p_offset ph + of_nat i) < length bytes)"
    by (auto simp: phdr_inside_def)
  then show ?thesis
    using copy_segment_ok [of 0 "unat (p_filesz ph)" ph bytes img]
      copy_segment_bad [of 0 "unat (p_filesz ph)" ph bytes img]
    by (simp only: phdr_writes_def add_0_left split: if_split) blast
qed

definition elf_writes :: "u8 list \<Rightarrow> elf_phdr list \<Rightarrow> (int \<times> int) list" where
  "elf_writes bytes phs = concat (map (phdr_writes bytes) (filter phdr_accepted phs))"

definition elf_inside :: "u8 list \<Rightarrow> elf_phdr list \<Rightarrow> bool" where
  "elf_inside bytes phs \<longleftrightarrow> (\<forall>ph \<in> set phs. phdr_accepted ph \<longrightarrow> phdr_inside bytes ph)"

lemma elf_writes_simps:
  "elf_writes bytes [] = []"
  "elf_writes bytes (ph # phs) =
     (if phdr_accepted ph then phdr_writes bytes ph @ elf_writes bytes phs else elf_writes bytes phs)"
  by (simp_all add: elf_writes_def)

lemma elf_inside_simps:
  "elf_inside bytes []"
  "elf_inside bytes (ph # phs) \<longleftrightarrow> (phdr_accepted ph \<longrightarrow> phdr_inside bytes ph) \<and> elf_inside bytes phs"
  by (auto simp: elf_inside_def)

lemma phdr_step_eq:
  assumes "phdr_accepted ph"
  shows "if phdr_inside bytes ph
    then \<exists>img'. phdr_step bytes ph img = Inr img' \<and>
      sink.same_view img' (sink.put_all (phdr_writes bytes ph) img)
    else phdr_step bytes ph img = Inl OutOfBounds"
proof -
  let ?i1 = "if p_paddr ph < img_ro_base img then img\<lparr>img_ro_base := p_paddr ph\<rparr> else img"
  let ?i2 = "if p_paddr ph + p_filesz ph > img_ro_max ?i1
    then ?i1\<lparr>img_ro_max := p_paddr ph + p_filesz ph\<rparr> else ?i1"
  have "sink.same_view ?i2 img"
    by (simp add: sink.same_view_def)
  then have "sink.same_view (sink.put_all (phdr_writes bytes ph) ?i2) (sink.put_all (phdr_writes bytes ph) img)"
    by (rule sink.same_view_put_all)
  moreover have "phdr_step bytes ph img = copy_segment bytes ph (unat (p_filesz ph)) 0 ?i2"
    using assms by (simp only: phdr_step_def Let_def not_not if_True not_True_eq_False if_False)
  ultimately show ?thesis
    by (simp only: copy_segment_eq) (simp del: sink.same_view_def)
qed

lemma phdr_loop_eq:
  "if elf_inside bytes phs
   then \<exists>img'. phdr_loop bytes phs img = Inr img' \<and> sink.same_view img' (sink.put_all (elf_writes bytes phs) img)
   else phdr_loop bytes phs img = Inl OutOfBounds"
proof (induction phs arbitrary: img)
  case Nil
  then show ?case by (simp add: elf_inside_simps elf_writes_simps)
next
  case (Cons ph phs)
  show ?case
  proof (cases "phdr_accepted ph")
    case False
    with Cons.IH [of img] show ?thesis
      by (simp add: elf_inside_simps elf_writes_simps phdr_step_def)
  next
    case True
    show ?thesis
    proof (cases "phdr_inside bytes ph")
      case inside: True
      with phdr_step_eq [OF True, of bytes img] obtain img1
        where img1: "phdr_step bytes ph img = Inr img1"
          "sink.same_view img1 (sink.put_all (phdr_writes bytes ph) img)"
        by auto
      have view: "sink.same_view (sink.put_all (elf_writes bytes phs) img1)
          (sink.put_all (elf_writes bytes (ph # phs)) img)"
        using sink.same_view_put_all [OF img1(2), of "elf_writes bytes phs"] True
        by (simp add: elf_writes_simps sink.put_all_append)
      have ins: "elf_inside bytes (ph # phs) \<longleftrightarrow> elf_inside bytes phs"
        using True inside by (simp add: elf_inside_simps)
      from Cons.IH [of img1] view show ?thesis
        unfolding ins by (auto simp: img1 split: if_splits intro: sink.same_view_trans)
    next
      case outside: False
      with phdr_step_eq [OF True, of bytes img] True show ?thesis
        by (simp add: elf_inside_simps)
    qed
  qed
qed

section \<open>The reference: which byte ends at which address\<close>

text \<open>A header whose ranges, in flash and in the file, do not wrap around the 64-bit address space.\<close>

definition phdr_wf :: "elf_phdr \<Rightarrow> bool" where
  "phdr_wf ph \<longleftrightarrow> unat (p_paddr ph) + unat (p_filesz ph) < 2 ^ 64 \<and>
     unat (p_offset ph) + unat (p_filesz ph) < 2 ^ 64"

definition elf_covers :: "nat \<Rightarrow> elf_phdr \<Rightarrow> bool" where
  "elf_covers a ph \<longleftrightarrow>
     unat (p_paddr ph) \<le> a + 0x40000 \<and> a + 0x40000 < unat (p_paddr ph) + unat (p_filesz ph)"

definition elf_byte :: "u8 list \<Rightarrow> elf_phdr list \<Rightarrow> nat \<Rightarrow> u8" where
  "elf_byte bytes phs a =
     (case find (elf_covers a) (rev (filter phdr_accepted phs)) of
        None \<Rightarrow> 0xff
      | Some ph \<Rightarrow> bytes ! (unat (p_offset ph) + (a + 0x40000 - unat (p_paddr ph))))"

definition elf_addresses :: "elf_phdr list \<Rightarrow> nat set" where
  "elf_addresses phs = {a. a < MEM_SIZE \<and> (\<exists>ph \<in> set phs. phdr_accepted ph \<and> elf_covers a ph)}"

lemma map_of_rev_range:
  "map_of (rev (map (\<lambda>n. (c + int n, h n)) [0..<k])) x =
     (if c \<le> x \<and> x < c + int k then Some (h (nat (x - c))) else None)"
  by (induction k) auto

lemma flash_addrs: "unat flash_start_addr = 0x40000" "unat flash_end_addr = 0x840000"
  by (simp_all add: flash_start_addr_def flash_end_addr_def FLASH_END_def FLASH_END_of_def FLASH_START_def)

lemma accepted_range:
  assumes "phdr_accepted ph" and "unat (p_paddr ph) + unat (p_filesz ph) < 2 ^ 64"
  shows "0x40000 \<le> unat (p_paddr ph)" and "unat (p_paddr ph) + unat (p_filesz ph) < 0x840000"
proof -
  from assms(2) have "unat (p_paddr ph + p_filesz ph) = unat (p_paddr ph) + unat (p_filesz ph)"
    by (intro unat_add_lem [THEN iffD1]) simp
  with assms(1) show "0x40000 \<le> unat (p_paddr ph)"
    and "unat (p_paddr ph) + unat (p_filesz ph) < 0x840000"
    by (simp_all add: phdr_accepted_def word_less_nat_alt word_le_nat_alt flash_addrs)
qed

lemma copy_address_eq:
  assumes "phdr_accepted ph" and "unat (p_paddr ph) + unat (p_filesz ph) < 2 ^ 64" and "n < unat (p_filesz ph)"
  shows "copy_address ph n = (int (unat (p_paddr ph)) - 0x40000) + int n"
proof -
  note r = accepted_range [OF assms(1,2)]
  let ?w = "p_paddr ph + of_nat n - flash_start_addr"
  have n: "unat (p_paddr ph + of_nat n) = unat (p_paddr ph) + n"
    using r assms(3) by (simp add: unat_word_ariths unat_of_nat)
  have "flash_start_addr \<le> p_paddr ph + of_nat n"
    using r by (simp add: word_le_nat_alt n flash_addrs)
  then have "unat ?w = unat (p_paddr ph) + n - 0x40000"
    by (simp only: unat_sub n flash_addrs)
  then have "of_nat (unat ?w) = (of_nat (unat (p_paddr ph) + n - 0x40000) :: u64)"
    by (simp only:)
  then have w: "?w = of_nat (unat (p_paddr ph) + n - 0x40000)"
    by (simp only: of_nat_unat ucast_id)
  have s: "sint (of_nat m :: u32) = int m" if "m < 0x800000" for m
    using that by (simp add: sint_uint unsigned_of_nat signed_take_bit_int_eq_self
      take_bit_int_eq_self take_bit_nat_eq_self)
  have u: "ucast (of_nat m :: u64) = (of_nat m :: u32)" for m
    by (rule bit_word_eqI) (simp add: bit_simps unsigned_of_nat)
  have lt: "unat (p_paddr ph) + n - 0x40000 < 0x800000" and le: "0x40000 \<le> unat (p_paddr ph) + n"
    using r assms(3) by linarith+
  have "copy_address ph n = int (unat (p_paddr ph) + n - 0x40000)"
    unfolding copy_address_def w u by (rule s [OF lt])
  with le show ?thesis by simp
qed

lemma phdr_writes_eq:
  assumes "phdr_accepted ph" and "phdr_wf ph"
  shows "phdr_writes bytes ph =
    map (\<lambda>n. ((int (unat (p_paddr ph)) - 0x40000) + int n, sint (bytes ! (unat (p_offset ph) + n))))
      [0..<unat (p_filesz ph)]"
proof -
  have "unat (p_offset ph + of_nat n) = unat (p_offset ph) + n" if "n < unat (p_filesz ph)" for n
    using assms(2) that by (simp add: phdr_wf_def unat_word_ariths unat_of_nat)
  then show ?thesis
    unfolding phdr_writes_def using copy_address_eq [OF assms(1)] assms(2) by (simp add: phdr_wf_def)
qed

lemma map_of_phdr_writes:
  assumes "phdr_accepted ph" and "phdr_wf ph"
  shows "map_of (rev (phdr_writes bytes ph)) (int a) =
    (if elf_covers a ph then Some (sint (bytes ! (unat (p_offset ph) + (a + 0x40000 - unat (p_paddr ph))))) else None)"
proof -
  obtain p f where p: "unat (p_paddr ph) = p" and f: "unat (p_filesz ph) = f" by simp
  have "nat (int a - (int p - 0x40000)) = a + 0x40000 - p" by linarith
  then show ?thesis
    unfolding phdr_writes_eq [OF assms] map_of_rev_range elf_covers_def p f by auto
qed

lemma map_of_elf_writes:
  assumes "\<forall>ph \<in> set phs. phdr_wf ph"
  shows "(case map_of (rev (elf_writes bytes phs)) (int a) of None \<Rightarrow> 0xff | Some v \<Rightarrow> word_of_int v) =
    elf_byte bytes phs a"
  using assms
proof (induction phs rule: rev_induct)
  case Nil
  then show ?case by (simp add: elf_writes_simps elf_byte_def)
next
  case (snoc ph phs)
  have "elf_writes bytes (phs @ [ph]) =
      elf_writes bytes phs @ (if phdr_accepted ph then phdr_writes bytes ph else [])"
    by (simp add: elf_writes_def)
  with snoc show ?case
    by (auto simp: map_add_def map_of_phdr_writes elf_byte_def split: if_splits)
qed

lemma fst_phdr_writes:
  assumes "phdr_accepted ph" and "unat (p_paddr ph) + unat (p_filesz ph) < 2 ^ 64"
  shows "fst ` set (phdr_writes bytes ph) =
    {int (unat (p_paddr ph)) - 0x40000..<int (unat (p_paddr ph)) + int (unat (p_filesz ph)) - 0x40000}"
proof -
  let ?c = "int (unat (p_paddr ph)) - 0x40000" and ?k = "unat (p_filesz ph)"
  have range: "(\<lambda>n. c + int n) ` {0..<k} = {c..<c + int k}" for c k
  proof (intro equalityI subsetI)
    fix x assume "x \<in> {c..<c + int k}"
    then show "x \<in> (\<lambda>n. c + int n) ` {0..<k}"
      by (intro image_eqI [of _ _ "nat (x - c)"]) auto
  qed auto
  have "fst ` set (phdr_writes bytes ph) = copy_address ph ` {0..<?k}"
    by (simp add: phdr_writes_def image_image)
  also have "\<dots> = (\<lambda>n. ?c + int n) ` {0..<?k}"
    using copy_address_eq [OF assms] by (intro image_cong) simp_all
  also have "\<dots> = {?c..<?c + int ?k}" by (rule range)
  finally show ?thesis by (simp only: diff_add_eq add_diff_eq)
qed

lemma taken_elf_writes:
  assumes "\<forall>ph \<in> set phs. phdr_wf ph"
  shows "sink.taken (elf_writes bytes phs) = int ` elf_addresses phs"
  using assms
proof (induction phs)
  case Nil
  then show ?case by (simp add: elf_writes_simps elf_addresses_def)
next
  case (Cons ph phs)
  show ?case
  proof (cases "phdr_accepted ph")
    case False
    then have "elf_addresses (ph # phs) = elf_addresses phs" by (auto simp: elf_addresses_def)
    with False Cons show ?thesis by (simp add: elf_writes_simps)
  next
    case True
    with Cons.prems have *: "phdr_accepted ph" "phdr_wf ph" by simp_all
    have nowrap: "unat (p_paddr ph) + unat (p_filesz ph) < 2 ^ 64" using *(2) by (simp add: phdr_wf_def)
    have "sink.taken (phdr_writes bytes ph) = int ` {a. a < MEM_SIZE \<and> elf_covers a ph}"
    proof -
      obtain p f where p: "unat (p_paddr ph) = p" and f: "unat (p_filesz ph) = f" by simp
      have "x \<in> int ` {a. a < MEM_SIZE \<and> p \<le> a + 0x40000 \<and> a + 0x40000 < p + f}"
        if "int p - 0x40000 \<le> x" "x < int p + int f - 0x40000" "0 \<le> x" "x < int MEM_SIZE" for x
        using that by (intro image_eqI [of _ _ "nat x"]) auto
      then show ?thesis
        unfolding sink.taken_def fst_phdr_writes [OF *(1) nowrap] elf_covers_def p f by auto
    qed
    moreover have "elf_addresses (ph # phs) = {a. a < MEM_SIZE \<and> elf_covers a ph} \<union> elf_addresses phs"
      using True by (auto simp: elf_addresses_def)
    ultimately show ?thesis
      using True Cons by (simp add: elf_writes_simps sink.taken_append image_Un)
  qed
qed

text \<open>The addresses of a header that is accepted because its end wraps around reach the negative ones.\<close>

lemma copy_address_wrap:
  assumes "2 ^ 64 \<le> unat (p_paddr ph) + unat (p_filesz ph)"
  shows "\<exists>n < unat (p_filesz ph). copy_address ph n < 0"
proof (intro exI conjI)
  let ?n = "2 ^ 64 - 1 - unat (p_paddr ph)"
  have lt: "unat (p_paddr ph) < 2 ^ 64" using unsigned_less [where w = "p_paddr ph"] by simp
  with assms show "?n < unat (p_filesz ph)" by linarith
  have "unat (p_paddr ph) + ?n = 2 ^ 64 - 1" using lt by linarith
  then have "of_nat (unat (p_paddr ph)) + of_nat ?n = (of_nat (2 ^ 64 - 1) :: u64)"
    by (simp only: of_nat_add [symmetric])
  then have "p_paddr ph + of_nat ?n = - 1" by simp
  then show "copy_address ph ?n < 0"
    by (simp only: copy_address_def) (simp add: flash_start_addr_def FLASH_START_def)
qed

lemma phdr_fits:
  "(phdr_accepted ph \<longrightarrow> (\<forall>a \<in> fst ` set (phdr_writes bytes ph). 0 \<le> a \<and> a < int MEM_SIZE)) \<longleftrightarrow>
    (phdr_accepted ph \<and> 0 < unat (p_filesz ph) \<longrightarrow>
       unat (p_paddr ph) + unat (p_filesz ph) \<le> 0x40000 + MEM_SIZE)"
proof (cases "phdr_accepted ph")
  case True
  show ?thesis
  proof (cases "unat (p_paddr ph) + unat (p_filesz ph) < 2 ^ 64")
    case False
    then obtain n where n: "n < unat (p_filesz ph)" "copy_address ph n < 0"
      using copy_address_wrap [of ph] by auto
    then have "copy_address ph n \<in> fst ` set (phdr_writes bytes ph)" by (force simp: phdr_writes_def)
    with n(2) have "\<not> (\<forall>a \<in> fst ` set (phdr_writes bytes ph). 0 \<le> a \<and> a < int MEM_SIZE)"
      by (meson not_less)
    moreover have "0 < unat (p_filesz ph)" using n(1) by linarith
    moreover have "\<not> unat (p_paddr ph) + unat (p_filesz ph) \<le> 0x40000 + MEM_SIZE"
      using False by (simp add: MEM_SIZE_def)
    ultimately show ?thesis using True by blast
  next
    case nowrap: True
    obtain p f where p: "unat (p_paddr ph) = p" and f: "unat (p_filesz ph) = f" by simp
    have r: "0x40000 \<le> p" using accepted_range [OF True nowrap] by (simp add: p)
    have "(\<forall>a \<in> {int p - 0x40000..<int p + int f - 0x40000}. 0 \<le> a \<and> a < int MEM_SIZE) \<longleftrightarrow>
        (0 < f \<longrightarrow> p + f \<le> 0x40000 + MEM_SIZE)"
    proof
      assume *: "\<forall>a \<in> {int p - 0x40000..<int p + int f - 0x40000}. 0 \<le> a \<and> a < int MEM_SIZE"
      show "0 < f \<longrightarrow> p + f \<le> 0x40000 + MEM_SIZE"
        using * [rule_format, of "int p + int f - 0x40000 - 1"] by auto
    qed (use r in auto)
    with True show ?thesis unfolding fst_phdr_writes [OF True nowrap] p f by blast
  qed
qed simp

section \<open>Rounding\<close>

lemma and_not_2047: "x AND NOT 2047 = x div 2048 * 2048" for x :: int
proof -
  have "x AND NOT 2047 = x - (x AND 2047)"
  proof -
    have "x - (x AND 2047) = x AND NOT (x AND 2047)"
      by (rule disjunctive_diff_eq_and_not) (rule bit_eqI, simp add: bit_simps)
    also have "\<dots> = x AND NOT 2047"
      by (rule bit_eqI) (auto simp: bit_simps)
    finally show ?thesis by simp
  qed
  also have "x AND 2047 = x mod 2048"
    using take_bit_eq_mask [of 11 x] by (simp add: take_bit_eq_mod mask_eq_exp_minus_1)
  finally show ?thesis by (simp add: minus_mod_eq_div_mult)
qed

lemma round_2K_above: "int n < round_2K (int n) \<longleftrightarrow> \<not> 2048 dvd n"
proof -
  obtain q r where n: "n = 2048 * q + r" and r: "r < 2048"
    by (metis div_mod_decomp mult.commute mod_less_divisor zero_less_numeral)
  have "(int n + 2047) div 2048 = int q + (int r + 2047) div 2048"
    unfolding n by (simp add: add.assoc)
  moreover have "(int r + 2047) div 2048 = (if r = 0 then 0 else 1)"
    using r by (auto simp: div_if)
  moreover have "2048 dvd n \<longleftrightarrow> r = 0" using r unfolding n by (auto simp: dvd_eq_mod_eq_0)
  ultimately show ?thesis using r by (auto simp: round_2K_def n)
qed

section \<open>The whole of fromElf\<close>

definition elf_readable :: "elf_input \<Rightarrow> bool" where
  "elf_readable inp \<longleftrightarrow> open_ok inp \<and> fstat_ok inp \<and> malloc_ok inp \<and> read_ok inp"

definition elf_magic_ok :: "elf_input \<Rightarrow> bool" where
  "elf_magic_ok inp \<longleftrightarrow> 4 \<le> length (file_bytes inp) \<and> of_le (take 4 (file_bytes inp)) = (0x464c457f :: u32)"

lemma section_step_view: "sink.same_view (section_step shdr img) img"
  by (simp add: section_step_def Let_def sink.same_view_def)

lemma fold_section_view: "sink.same_view (fold section_step shs img) img"
proof (induction shs arbitrary: img)
  case (Cons sh shs)
  from Cons.IH [of "section_step sh img"] section_step_view [of sh img] show ?case
    by (auto intro: sink.same_view_trans)
qed simp

lemma elf_loop_view:
  "elf_inside bytes phs \<Longrightarrow> \<exists>img'. phdr_loop bytes phs (fold section_step shs img) = Inr img' \<and>
     sink.same_view img' (sink.put_all (elf_writes bytes phs) img)"
  using phdr_loop_eq [of bytes phs "fold section_step shs img"]
    sink.same_view_put_all [OF fold_section_view [of shs img], of "elf_writes bytes phs"]
  by (auto intro: sink.same_view_trans)

lemma fromElf_cases:
  "fromElf inp img =
    (if \<not> elf_readable inp then Inr (False, img)
     else if length (file_bytes inp) < 4 then Inl OutOfBounds
     else if \<not> elf_magic_ok inp then Inr (False, img)
     else bind_result (phdr_loop (file_bytes inp) (elf_phdrs inp) (fold section_step (elf_sections inp) img))
          (\<lambda>img. Inr (True, elf_bounds img)))"
  unfolding fromElf_def elf_readable_def elf_magic_ok_def by (simp del: of_le.simps)

text \<open>What a successful run has done, in terms of the writes.\<close>

lemma fromElf_TrueE:
  assumes "fromElf inp img = Inr (True, img')"
  obtains img1 where "img' = elf_bounds img1"
    "sink.same_view img1 (sink.put_all (elf_writes (file_bytes inp) (elf_phdrs inp)) img)"
    "elf_inside (file_bytes inp) (elf_phdrs inp)"
proof -
  let ?b = "file_bytes inp" and ?p = "elf_phdrs inp"
  from assms obtain img1 where l: "phdr_loop ?b ?p (fold section_step (elf_sections inp) img) = Inr img1"
    and i: "img' = elf_bounds img1"
    unfolding fromElf_cases by (auto split: if_splits)
  have ins: "elf_inside ?b ?p"
    using phdr_loop_eq [of ?b ?p "fold section_step (elf_sections inp) img"] l by (auto split: if_splits)
  show ?thesis
    using that [OF i _ ins] elf_loop_view [OF ins, where shs = "elf_sections inp" and img = img] l by simp
qed

lemma elf_bounds_simps [simp]:
  "mem (elf_bounds img) = mem img" "success (elf_bounds img) = success img"
  "highest (elf_bounds img) = round_2K (highest img)" "base (elf_bounds img) = lowest img AND NOT 2047"
  "lowest (elf_bounds img) = lowest img AND NOT 2047"
  by (simp_all add: elf_bounds_def Let_def)

text \<open>C4: Loading an ELF file refines a byte-by-byte reference: after a successful run on a fresh image,
  each of the 512K bytes is the file's byte of the last accepted program header that covers its address, and
  the erased value 0xff where no accepted header covers it. The ranges of the headers must not wrap around the 64-bit
  addresses (\<open>phdr_wf\<close>): the range check of \<open>fromElf\<close> does not exclude that.\<close>

theorem fromElf_memory:
  assumes "fromElf inp Image_init = Inr (True, img)"
    and "\<forall>ph \<in> set (elf_phdrs inp). phdr_wf ph"
    and "a < MEM_SIZE"
  shows "mem img a = elf_byte (file_bytes inp) (elf_phdrs inp) a"
proof -
  from fromElf_TrueE [OF assms(1)] obtain img1 where "img = elf_bounds img1"
    "sink.same_view img1 (sink.put_all (elf_writes (file_bytes inp) (elf_phdrs inp)) Image_init)" .
  then have "mem img a = mem (sink.put_all (elf_writes (file_bytes inp) (elf_phdrs inp)) Image_init) a"
    by (simp add: sink.same_view_def)
  also have "\<dots> = elf_byte (file_bytes inp) (elf_phdrs inp) a"
  proof -
    have "mem Image_init a = 0xff" by (simp add: Image_init_def)
    then show ?thesis
      unfolding sink.content_put_all [OF assms(3)] map_of_elf_writes [OF assms(2), symmetric] by (simp only:)
  qed
  finally show ?thesis .
qed

lemma phdr_inside_iff:
  assumes "length bytes < 2 ^ 64"
  shows "phdr_inside bytes ph \<longleftrightarrow>
    unat (p_filesz ph) = 0 \<or> unat (p_offset ph) + unat (p_filesz ph) \<le> length bytes"
proof -
  obtain k f where k: "unat (p_offset ph) = k" and f: "unat (p_filesz ph) = f" by simp
  have "unat (p_offset ph) < 2 ^ 64" using unsigned_less [where w = "p_offset ph"] by simp
  then have small: "k < 2 ^ 64" unfolding k .
  have at: "unat (p_offset ph + of_nat n) = k + n" if "k + n < 2 ^ 64" for n
    using that by (simp add: unat_word_ariths unat_of_nat k)
  show ?thesis
  proof
    assume inside: "phdr_inside bytes ph"
    have fits: "k + f \<le> 2 ^ 64"
    proof (rule ccontr)
      assume "\<not> k + f \<le> 2 ^ 64"
      with small have "2 ^ 64 - 1 - k < f" and sum: "k + (2 ^ 64 - 1 - k) = 2 ^ 64 - 1" by linarith+
      with inside have "unat (p_offset ph + of_nat (2 ^ 64 - 1 - k)) < length bytes"
        by (simp only: phdr_inside_def f)
      moreover have "unat (p_offset ph + of_nat (2 ^ 64 - 1 - k)) = 2 ^ 64 - 1"
        by (subst at) (simp_all only: sum, simp)
      ultimately show False using assms by simp
    qed
    show "unat (p_filesz ph) = 0 \<or> unat (p_offset ph) + unat (p_filesz ph) \<le> length bytes"
    proof (cases "f = 0")
      case False
      then have "f - 1 < f" and "k + (f - 1) < 2 ^ 64" using fits by linarith+
      with inside at [of "f - 1"] have "k + (f - 1) < length bytes"
        by (auto simp: phdr_inside_def f)
      with False have "k + f \<le> length bytes" by linarith
      then show ?thesis by (simp add: k f)
    qed (simp add: f)
  next
    assume "unat (p_filesz ph) = 0 \<or> unat (p_offset ph) + unat (p_filesz ph) \<le> length bytes"
    with assms show "phdr_inside bytes ph" by (auto simp: phdr_inside_def k f at)
  qed
qed

definition sample_elf :: elf_input where
  "sample_elf =
     \<lparr>open_ok = True, fstat_ok = True, malloc_ok = True, read_ok = True,
      file_bytes = [0x7f, 0x45, 0x4c, 0x46, 1, 2, 3],
      elf_sections = [\<lparr>sh_flags = 6, sh_addr = 0x40800, sh_size = 2\<rparr>],
      elf_phdrs = [\<lparr>p_offset = 0, p_paddr = 0x40000, p_filesz = 7\<rparr>,
                   \<lparr>p_offset = 4, p_paddr = 0x40800, p_filesz = 3\<rparr>,
                   \<lparr>p_offset = 5, p_paddr = 0x40801, p_filesz = 1\<rparr>]\<rparr>"

lemma sample_elf_wf: "\<forall>ph \<in> set (elf_phdrs sample_elf). phdr_wf ph"
  by (simp add: sample_elf_def phdr_wf_def)

lemma sample_elf_runs: "\<exists>img. fromElf sample_elf Image_init = Inr (True, img)"
proof -
  have "elf_inside (file_bytes sample_elf) (elf_phdrs sample_elf)"
    unfolding elf_inside_def by (auto simp: phdr_inside_iff sample_elf_def)
  from elf_loop_view [OF this, where shs = "elf_sections sample_elf" and img = Image_init]
  show ?thesis
    unfolding fromElf_cases by (auto simp: elf_readable_def elf_magic_ok_def sample_elf_def)
qed

lemma sample_elf_addresses: "elf_addresses (elf_phdrs sample_elf) = {0x800, 0x801, 0x802}"
  by (auto simp: sample_elf_def elf_addresses_def elf_covers_def phdr_accepted_def MEM_SIZE_def flash_start_addr_def
        flash_end_addr_def FLASH_END_def FLASH_END_of_def FLASH_START_def)

theorem fromElf_memory_witness:
  "\<exists>img. fromElf sample_elf Image_init = Inr (True, img) \<and> mem img 0x800 = 1 \<and> mem img 0x801 = 2 \<and> mem img 7 = 0xff"
proof -
  from sample_elf_runs obtain img where run: "fromElf sample_elf Image_init = Inr (True, img)" ..
  have "mem img a = elf_byte (file_bytes sample_elf) (elf_phdrs sample_elf) a" if "a < MEM_SIZE" for a
    by (rule fromElf_memory [OF run sample_elf_wf that])
  from this [of "0x800"] this [of "0x801"] this [of 7] run show ?thesis
    by (simp add: MEM_SIZE_def elf_byte_def sample_elf_def elf_covers_def phdr_accepted_def flash_start_addr_def
        flash_end_addr_def FLASH_END_def FLASH_END_of_def FLASH_START_def)
qed

text \<open>C21: The outcome of \<open>fromElf\<close> is determined by the input alone, whatever the program headers
  hold, those included whose ranges wrap around the 64-bit addresses and so pass the range check (the buffer itself is
  smaller than the address space): it fails
  and leaves the image untouched when a call fails or the magic number is missing, reads outside its buffer
  when the file is shorter than the magic number or an accepted segment ends behind the file, and otherwise
  succeeds, even though \<open>store\<close> may have refused bytes: the flag records that no accepted segment
  extends beyond the 512K image, and the result does not consult it.\<close>

theorem fromElf_outcome:
  assumes size: "length (file_bytes inp) < 2 ^ 64"
  shows "case fromElf inp img of
      Inl e \<Rightarrow> e = OutOfBounds \<and> elf_readable inp \<and>
        (length (file_bytes inp) < 4 \<or>
         elf_magic_ok inp \<and> (\<exists>ph \<in> set (elf_phdrs inp). phdr_accepted ph \<and> 0 < unat (p_filesz ph) \<and>
           length (file_bytes inp) < unat (p_offset ph) + unat (p_filesz ph)))
    | Inr (False, img') \<Rightarrow> img' = img \<and> (\<not> elf_readable inp \<or> \<not> elf_magic_ok inp)
    | Inr (True, img') \<Rightarrow> elf_readable inp \<and> elf_magic_ok inp \<and>
        (success img' \<longleftrightarrow> success img \<and> (\<forall>ph \<in> set (elf_phdrs inp).
           phdr_accepted ph \<and> 0 < unat (p_filesz ph) \<longrightarrow>
             unat (p_paddr ph) + unat (p_filesz ph) \<le> 0x40000 + MEM_SIZE))"
proof -
  let ?b = "file_bytes inp" and ?p = "elf_phdrs inp"
  show ?thesis
  proof (cases "elf_readable inp \<and> elf_magic_ok inp")
    case False
    then show ?thesis by (auto simp: fromElf_cases elf_magic_ok_def)
  next
    case True
    then have len: "\<not> length ?b < 4" by (simp add: elf_magic_ok_def)
    show ?thesis
    proof (cases "elf_inside ?b ?p")
      case False
      with phdr_loop_eq [of ?b ?p "fold section_step (elf_sections inp) img"]
      have "phdr_loop ?b ?p (fold section_step (elf_sections inp) img) = Inl OutOfBounds" by simp
      with True len have run: "fromElf inp img = Inl OutOfBounds" by (simp add: fromElf_cases)
      from False size have "\<exists>ph \<in> set ?p. phdr_accepted ph \<and> 0 < unat (p_filesz ph) \<and>
          length ?b < unat (p_offset ph) + unat (p_filesz ph)"
        by (auto simp: elf_inside_def phdr_inside_iff not_le)
      with True show ?thesis by (simp add: run)
    next
      case ins: True
      from elf_loop_view [OF ins, where shs = "elf_sections inp" and img = img] obtain img1
        where l: "phdr_loop ?b ?p (fold section_step (elf_sections inp) img) = Inr img1"
          and v: "sink.same_view img1 (sink.put_all (elf_writes ?b ?p) img)" by blast
      from True len l have run: "fromElf inp img = Inr (True, elf_bounds img1)"
        by (simp add: fromElf_cases)
      have "success img1 \<longleftrightarrow> success img \<and> (\<forall>a \<in> fst ` set (elf_writes ?b ?p). 0 \<le> a \<and> a < int MEM_SIZE)"
        using v by (simp add: sink.same_view_def sink.fine_put_all)
      also have "(\<forall>a \<in> fst ` set (elf_writes ?b ?p). 0 \<le> a \<and> a < int MEM_SIZE) \<longleftrightarrow>
          (\<forall>ph \<in> set ?p. phdr_accepted ph \<longrightarrow>
            (\<forall>a \<in> fst ` set (phdr_writes ?b ph). 0 \<le> a \<and> a < int MEM_SIZE))"
        by (auto simp: elf_writes_def)
      also have "\<dots> \<longleftrightarrow> (\<forall>ph \<in> set ?p. phdr_accepted ph \<and> 0 < unat (p_filesz ph) \<longrightarrow>
             unat (p_paddr ph) + unat (p_filesz ph) \<le> 0x40000 + MEM_SIZE)"
        by (intro ball_cong refl phdr_fits)
      finally show ?thesis using True by (simp add: run)
    qed
  qed
qed

definition elf_too_high :: elf_input where
  "elf_too_high = sample_elf\<lparr>elf_phdrs := [\<lparr>p_offset = 4, p_paddr = 0x40000 + 0x80000 - 1, p_filesz = 2\<rparr>]\<rparr>"

theorem fromElf_outcome_witness:
  "case fromElf elf_too_high Image_init of Inl e \<Rightarrow> False | Inr (r, img) \<Rightarrow> r \<and> \<not> success img"
proof -
  have size: "length (file_bytes elf_too_high) < 2 ^ 64"
    by (simp add: elf_too_high_def sample_elf_def)
  have ok: "elf_readable elf_too_high" "elf_magic_ok elf_too_high" "length (file_bytes elf_too_high) = 7"
    by (simp_all add: elf_too_high_def sample_elf_def elf_readable_def elf_magic_ok_def)
  have "phdr_accepted \<lparr>p_offset = 4, p_paddr = 0x40000 + 0x80000 - 1, p_filesz = 2\<rparr>"
    by (simp add: phdr_accepted_def flash_start_addr_def
        flash_end_addr_def FLASH_END_def FLASH_END_of_def FLASH_START_def)
  with fromElf_outcome [OF size, of Image_init] ok show ?thesis
    by (auto split: sum.splits bool.splits simp: elf_too_high_def MEM_SIZE_def)
qed

lemma elf_loaded_bounds:
  assumes "fromElf inp Image_init = Inr (True, img)"
    and "\<forall>ph \<in> set (elf_phdrs inp). phdr_wf ph"
    and "elf_addresses (elf_phdrs inp) \<noteq> {}"
  shows "base img = int (Min (elf_addresses (elf_phdrs inp))) div 2048 * 2048 \<and>
    highest img = round_2K (int (Max (elf_addresses (elf_phdrs inp)))) \<and>
    (int (Max (elf_addresses (elf_phdrs inp))) < highest img \<longleftrightarrow>
      \<not> 2048 dvd Max (elf_addresses (elf_phdrs inp)))"
proof -
  let ?A = "elf_addresses (elf_phdrs inp)" and ?W = "elf_writes (file_bytes inp) (elf_phdrs inp)"
  have fin: "finite ?A" by (rule finite_subset [of _ "{..<MEM_SIZE}"]) (auto simp: elf_addresses_def)
  from fromElf_TrueE [OF assms(1)] obtain img1 where img: "img = elf_bounds img1"
    and v: "sink.same_view img1 (sink.put_all ?W Image_init)" .
  have tk: "sink.taken ?W = int ` ?A" by (rule taken_elf_writes [OF assms(2)])
  have MinA: "Min (int ` ?A) = int (Min ?A)" and MaxA: "Max (int ` ?A) = int (Max ?A)"
    using fin assms(3) by (simp_all add: mono_Min_commute mono_Max_commute monoI)
  have "Min ?A < MEM_SIZE"
    using Min_in [OF fin assms(3)] by (simp add: elf_addresses_def)
  have lo0: "lowest Image_init = int MEM_SIZE" and hi0: "highest Image_init = 0"
    by (simp_all add: Image_init_def FLASH_END_def FLASH_END_of_def FLASH_START_def MEM_SIZE_def)
  have "lowest img1 = Min (insert (lowest Image_init) (int ` ?A))"
    using v by (simp add: sink.same_view_def sink.bottom_put_all tk)
  then have lo: "lowest img1 = int (Min ?A)"
    using fin assms(3) \<open>Min ?A < MEM_SIZE\<close> by (simp add: lo0 MinA)
  have "highest img1 = Max (insert (highest Image_init) (int ` ?A))"
    using v by (simp add: sink.same_view_def sink.top_put_all tk)
  then have hi: "highest img1 = int (Max ?A)"
    using fin assms(3) by (simp add: hi0 MaxA)
  show ?thesis
    by (simp only: img lo hi elf_bounds_simps and_not_2047 round_2K_above)
qed

text \<open>C22: After a successful load of at least one byte, from headers whose ranges do not wrap around the
  64-bit addresses, the image starts at the lowest loaded address
  rounded down to 2K and ends at the highest loaded address rounded up to 2K. Because \<open>high_\<close> is the last
  address and not the one behind it, the rounded end is above the last loaded byte exactly when that byte's
  address is not itself a multiple of 2K: otherwise the last byte is outside the image.\<close>

theorem fromElf_bounds:
  assumes "fromElf inp Image_init = Inr (True, img)"
    and "\<forall>ph \<in> set (elf_phdrs inp). phdr_wf ph"
    and "elf_addresses (elf_phdrs inp) \<noteq> {}"
  shows "base img = int (Min (elf_addresses (elf_phdrs inp))) div 2048 * 2048 \<and>
    highest img = round_2K (int (Max (elf_addresses (elf_phdrs inp)))) \<and>
    (int (Max (elf_addresses (elf_phdrs inp))) < highest img \<longleftrightarrow>
      \<not> 2048 dvd Max (elf_addresses (elf_phdrs inp)))"
  using assms by (rule elf_loaded_bounds)

theorem fromElf_bounds_witness:
  "\<exists>img. fromElf sample_elf Image_init = Inr (True, img) \<and> base img = 0x800 \<and> highest img = 0x1000"
proof -
  from sample_elf_runs obtain img where run: "fromElf sample_elf Image_init = Inr (True, img)" ..
  from fromElf_bounds [OF run sample_elf_wf] run show ?thesis
    by (simp add: sample_elf_addresses round_2K_def)
qed

section \<open>Filling\<close>

lemma fill_loop_end: "FILL_END \<le> i \<Longrightarrow> fill_loop vals k i m = Inr m"
  by (subst fill_loop.simps) simp

lemma fill_loop_eq:
  assumes "i = FILL_END - 4 * int n" and "0 \<le> i"
  shows "fill_loop vals k i m =
    Inr (\<lambda>a. if i \<le> int a \<and> int a < FILL_END
            then le_bytes 4 (vals (k + (a - nat i) div 4)) ! ((a - nat i) mod 4) else m a)"
  using assms
proof (induction n arbitrary: i k m)
  case 0
  then show ?case by (auto simp: fill_loop_end fun_eq_iff)
next
  case (Suc n)
  let ?m = "mem_write m (nat i) (le_bytes 4 (vals k))"
  have "fill_loop vals k i m = fill_loop vals (Suc k) (i + 4) ?m"
    using Suc.prems by (subst fill_loop.simps) simp
  also have "\<dots> = Inr (\<lambda>a. if i + 4 \<le> int a \<and> int a < FILL_END
            then le_bytes 4 (vals (Suc k + (a - nat (i + 4)) div 4)) ! ((a - nat (i + 4)) mod 4) else ?m a)"
    using Suc.prems by (intro Suc.IH) auto
  also have "\<dots> = Inr (\<lambda>a. if i \<le> int a \<and> int a < FILL_END
            then le_bytes 4 (vals (k + (a - nat i) div 4)) ! ((a - nat i) mod 4) else m a)"
  proof (intro arg_cong [of _ _ Inr] ext)
    fix a :: nat
    obtain j where j: "i = int j" using Suc.prems(2) nonneg_int_cases by blast
    have top: "j + 4 \<le> nat FILL_END" using Suc.prems by (simp add: j FILL_END_def)
    consider "a < j" | "j \<le> a" "a < j + 4" | b where "a = j + 4 + b"
      by (metis less_or_eq_imp_le linorder_not_less nat_le_iff_add)
    then show "(if i + 4 \<le> int a \<and> int a < FILL_END
            then le_bytes 4 (vals (Suc k + (a - nat (i + 4)) div 4)) ! ((a - nat (i + 4)) mod 4) else ?m a) =
        (if i \<le> int a \<and> int a < FILL_END
            then le_bytes 4 (vals (k + (a - nat i) div 4)) ! ((a - nat i) mod 4) else m a)"
    proof cases
      case 1
      then show ?thesis by (simp add: j mem_write_def)
    next
      case 2
      then have "int a < FILL_END" using top by simp
      with 2 show ?thesis by (simp add: j mem_write_def)
    next
      case 3
      then have "a - nat (i + 4) = b" and "a - nat i = 4 + b" by (simp_all add: j nat_add_distrib)
      moreover have "(4 + b) div 4 = Suc (b div 4)" by simp
      ultimately show ?thesis using 3 by (simp add: j mem_write_def)
    qed
  qed
  finally show ?case .
qed

text \<open>C23: \<open>fillPattern\<close> and \<open>fillRandom\<close> write, from the offset
  \<open>high_ - base_\<close> up to the last 2K page of the 512K image, the successive words in little-endian order, and
  change nothing else in memory; in particular the loaded image survives when its base is 0, and when the base is
  positive the bytes from \<open>high_ - base_\<close> to \<open>high_\<close> of the image are overwritten.\<close>

theorem fill_image_memory:
  assumes "0 \<le> highest img - base img" and "highest img - base img \<le> FILL_END"
    and "4 dvd highest img - base img"
  shows "fill_image vals img = Inr (img\<lparr>
    mem := (\<lambda>a. if highest img - base img \<le> int a \<and> int a < FILL_END
        then le_bytes 4 (vals ((a - nat (highest img - base img)) div 4)) ! ((a - nat (highest img - base img)) mod 4)
        else mem img a),
    highest := FILL_END\<rparr>)"
proof -
  let ?i = "highest img - base img"
  have "4 dvd FILL_END - ?i" using assms(3) by (simp add: FILL_END_def dvd_diff)
  then obtain q where q: "FILL_END - ?i = 4 * q" ..
  with assms(2) have "?i = FILL_END - 4 * int (nat q)" by simp
  from fill_loop_eq [OF this assms(1), of vals 0 "mem img"] show ?thesis
    unfolding fill_image_def by (simp only: bind_result_simps add_0)
qed

theorem fill_image_memory_witness:
  "\<exists>img'. fillPattern 0x04030201 (Image_init\<lparr>base := 0x800, highest := 0x1000\<rparr>) = Inr img' \<and>
     mem img' 0x800 = 1 \<and> mem img' 0x803 = 4 \<and> mem img' 0x7ff = 0xff"
  unfolding fillPattern_def
  by (subst fill_image_memory) (simp_all add: FILL_END_def le_bytes_4 Image_init_def)

end
