(* ===== verification/Crypto.thy ===== *)
theory Crypto
  imports Prelude
begin

text \<open>
  The signer's view of OpenSSL and the two small classes around it: \<open>AES\<close>
  (util/signer/aes.cc, common/aes.h) and \<open>ECDH\<close> (util/signer/ecdh.cc, common/ecdh.h).

  OpenSSL itself is not part of the repository. Its functions are the fields of two records that
  every definition using them takes as an argument: \<open>crypto\<close> for hashes, ciphers and the
  curve, \<open>bn_lib\<close> for big numbers, a \<open>BIGNUM\<close> being the natural number it holds.
  \<open>crypto_ok\<close> and \<open>bn_ok\<close> state the documented behaviour a theorem may rely on,
  and \<open>nat_bn\<close> computes the second.
\<close>

section \<open>The library\<close>

record crypto =
  SHA256 :: "u8 list \<Rightarrow> u8 list"
  AES_encrypt :: "u8 list \<Rightarrow> u8 list \<Rightarrow> u8 list"
  AES_decrypt :: "u8 list \<Rightarrow> u8 list \<Rightarrow> u8 list"
  CMAC_aes_128_cbc :: "u8 list \<Rightarrow> u8 list \<Rightarrow> u8 list"
  EC_public_oct :: "nat \<Rightarrow> u8 list"
  EC_mul_oct :: "u8 list \<Rightarrow> nat \<Rightarrow> u8 list"

text \<open>Digests have 32 bytes, blocks and MACs 16, uncompressed points of prime256v1 65.\<close>

definition crypto_ok :: "crypto \<Rightarrow> bool" where
  "crypto_ok cr \<longleftrightarrow>
     (\<forall>m. length (SHA256 cr m) = 32) \<and>
     (\<forall>k b. length k = 16 \<longrightarrow> length b = 16 \<longrightarrow>
        length (AES_encrypt cr k b) = 16 \<and> length (AES_decrypt cr k b) = 16 \<and>
        AES_decrypt cr k (AES_encrypt cr k b) = b) \<and>
     (\<forall>k m. length k = 16 \<longrightarrow> length (CMAC_aes_128_cbc cr k m) = 16) \<and>
     (\<forall>d. length (EC_public_oct cr d) = 65) \<and> (\<forall>p d. length (EC_mul_oct cr p d) = 65)"

record bn_lib =
  BN_div :: "nat \<Rightarrow> nat \<Rightarrow> nat \<times> nat"
  BN_mod_inverse :: "nat \<Rightarrow> nat \<Rightarrow> nat option"
  BN_get_word :: "nat \<Rightarrow> u64"
  BN_num_bytes :: "nat \<Rightarrow> nat"
  BN_bin2bn :: "u8 list \<Rightarrow> nat"
  BN_bn2bin :: "nat \<Rightarrow> u8 list"
  BN_lshift :: "nat \<Rightarrow> nat \<Rightarrow> nat"
  BN_mod_exp :: "nat \<Rightarrow> nat \<Rightarrow> nat \<Rightarrow> nat"

definition be_value :: "u8 list \<Rightarrow> nat" where
  "be_value bs = foldl (\<lambda>v b. v * 256 + unat b) 0 bs"

definition bn_ok :: "bn_lib \<Rightarrow> bool" where
  "bn_ok bn \<longleftrightarrow>
     (\<forall>n d. 0 < d \<longrightarrow> BN_div bn n d = (n div d, n mod d)) \<and>
     (\<forall>a n. 1 < n \<longrightarrow> coprime a n \<longrightarrow> (\<exists>i < n. BN_mod_inverse bn a n = Some i \<and> (a * i) mod n = 1)) \<and>
     (\<forall>n. BN_get_word bn n = (if n < 2 ^ 64 then of_nat n else - 1)) \<and>
     (\<forall>n. n < 256 ^ BN_num_bytes bn n \<and> (0 < n \<longrightarrow> 256 ^ (BN_num_bytes bn n - 1) \<le> n)) \<and>
     (\<forall>bs. BN_bin2bn bn bs = be_value bs) \<and>
     (\<forall>n. length (BN_bn2bin bn n) = BN_num_bytes bn n \<and> be_value (BN_bn2bin bn n) = n) \<and>
     (\<forall>n k. BN_lshift bn n k = n * 2 ^ k) \<and>
     (\<forall>a e n. 0 < n \<longrightarrow> BN_mod_exp bn a e n = a ^ e mod n)"

text \<open>RSA keys and the \<open>EVP_PKEY\<close> around them, as far as the signer reads them.\<close>

record rsa_key =
  rsa_n :: nat
  rsa_e :: nat
  rsa_d :: nat
  rsa_p :: nat
  rsa_q :: nat
  rsa_dmp1 :: nat
  rsa_dmq1 :: nat
  rsa_iqmp :: nat

record evp_pkey =
  evp_rsa :: rsa_key
  evp_is_rsa :: bool
  evp_size :: nat

section \<open>Class AES\<close>

text \<open>The object is its member \<open>key_\<close>; \<open>set_key\<close> copies the 16 bytes at its argument.\<close>

record AES = key_bytes :: "u8 list"

definition AES_set_key :: "u8 list \<Rightarrow> AES \<Rightarrow> AES" where
  "AES_set_key k aes = aes\<lparr>key_bytes := take 16 k\<rparr>"

definition AES_decrypt_block :: "crypto \<Rightarrow> AES \<Rightarrow> u8 list \<Rightarrow> u8 list" where
  "AES_decrypt_block cr aes input = AES_decrypt cr (key_bytes aes) (take 16 input)"

definition AES_encrypt_block :: "crypto \<Rightarrow> AES \<Rightarrow> u8 list \<Rightarrow> u8 list" where
  "AES_encrypt_block cr aes input = AES_encrypt cr (key_bytes aes) (take 16 input)"

definition AES_cmac :: "crypto \<Rightarrow> AES \<Rightarrow> u8 list \<Rightarrow> u8 list" where
  "AES_cmac cr aes input = CMAC_aes_128_cbc cr (key_bytes aes) (SHA256 cr input)"

definition AES_destroy :: "AES \<Rightarrow> AES" where
  "AES_destroy aes = aes\<lparr>key_bytes := replicate 16 0\<rparr>"

section \<open>Class ECDH\<close>

text \<open>The object is its private key, drawn by \<open>EC_KEY_generate_key\<close> in the constructor.\<close>

record ECDH = private_key :: nat

definition ECDH_get_point :: "crypto \<Rightarrow> ECDH \<Rightarrow> u8 list" where
  "ECDH_get_point cr ec = EC_public_oct cr (private_key ec)"

definition ECDH_compute_secret :: "crypto \<Rightarrow> ECDH \<Rightarrow> u8 list \<Rightarrow> u8 list" where
  "ECDH_compute_secret cr ec other =
     (let xbytes = EC_mul_oct cr (take 65 other) (private_key ec)
      in SHA256 cr (take 32 (drop 1 xbytes)))"

lemma crypto_lengths:
  assumes "crypto_ok cr"
  shows "length (SHA256 cr m) = 32"
    and "length (ECDH_get_point cr ec) = 65"
    and "length (ECDH_compute_secret cr ec other) = 32"
    and "length (key_bytes aes) = 16 \<Longrightarrow> length (AES_cmac cr aes m) = 16"
    and "length (key_bytes aes) = 16 \<Longrightarrow> 16 \<le> length m \<Longrightarrow> length (AES_encrypt_block cr aes m) = 16"
    and "length (key_bytes aes) = 16 \<Longrightarrow> 16 \<le> length m \<Longrightarrow> length (AES_decrypt_block cr aes m) = 16"
  using assms by (simp_all add: crypto_ok_def ECDH_get_point_def ECDH_compute_secret_def Let_def
    AES_cmac_def AES_encrypt_block_def AES_decrypt_block_def)

section \<open>Big-endian numbers\<close>

lemma be_value_Nil [simp]: "be_value [] = 0"
  by (simp add: be_value_def)

lemma be_value_snoc [simp]: "be_value (bs @ [b]) = be_value bs * 256 + unat b"
  by (simp add: be_value_def)

fun be_bytes :: "nat \<Rightarrow> u8 list" where
  "be_bytes n = (if n = 0 then [] else be_bytes (n div 256) @ [of_nat (n mod 256)])"

declare be_bytes.simps [simp del]

lemma be_value_be_bytes [simp]: "be_value (be_bytes n) = n"
proof (induction n rule: be_bytes.induct)
  case (1 n)
  show ?case
  proof (cases "n = 0")
    case False
    with 1 show ?thesis
      by (subst be_bytes.simps) (simp add: unat_of_nat)
  qed (simp add: be_bytes.simps)
qed

lemma be_bytes_bounds: "n < 256 ^ length (be_bytes n) \<and> (0 < n \<longrightarrow> 256 ^ (length (be_bytes n) - 1) \<le> n)"
proof (induction n rule: be_bytes.induct)
  case (1 n)
  show ?case
  proof (cases "n = 0")
    case False
    let ?l = "length (be_bytes (n div 256))"
    have l: "length (be_bytes n) = Suc ?l" using False by (subst be_bytes.simps) simp
    from 1 False have ih: "n div 256 < 256 ^ ?l" "0 < n div 256 \<Longrightarrow> 256 ^ (?l - 1) \<le> n div 256" by blast+
    from ih(1) have "n < 256 ^ Suc ?l" by (simp add: div_less_iff_less_mult mult.commute)
    moreover have "256 ^ ?l \<le> n"
    proof (cases ?l)
      case (Suc k)
      then have "0 < n div 256" by (cases "n div 256 = 0") (simp_all add: be_bytes.simps)
      with ih(2) Suc have "256 ^ k * 256 \<le> n div 256 * 256" by simp
      also have "\<dots> \<le> n" by (simp add: div_times_less_eq_dividend)
      finally show ?thesis by (simp add: Suc mult.commute)
    qed (use False in simp)
    ultimately show ?thesis by (simp add: l)
  qed (simp add: be_bytes.simps)
qed

text \<open>A computing instance: the numbers themselves.\<close>

definition nat_mod_inverse :: "nat \<Rightarrow> nat \<Rightarrow> nat option" where
  "nat_mod_inverse a n = find (\<lambda>i. (a * i) mod n = 1) [0..<n]"

definition nat_bn :: bn_lib where
  "nat_bn = \<lparr>
     BN_div = (\<lambda>n d. (n div d, n mod d)),
     BN_mod_inverse = nat_mod_inverse,
     BN_get_word = (\<lambda>n. if n < 2 ^ 64 then of_nat n else - 1),
     BN_num_bytes = (\<lambda>n. length (be_bytes n)),
     BN_bin2bn = be_value,
     BN_bn2bin = be_bytes,
     BN_lshift = (\<lambda>n k. n * 2 ^ k),
     BN_mod_exp = (\<lambda>a e n. a ^ e mod n)\<rparr>"

lemma nat_mod_inverse_ok:
  assumes "1 < n" and "coprime a n"
  shows "\<exists>i < n. nat_mod_inverse a n = Some i \<and> (a * i) mod n = 1"
proof -
  from assms have "a \<noteq> 0" by (cases "a = 0") auto
  then obtain x y where "a * x = n * y + 1"
    using bezout_nat [of a n] assms(2) by (auto simp: coprime_iff_gcd_eq_1)
  then have "(a * x) mod n = (1 + n * y) mod n" by simp
  also have "\<dots> = 1 mod n" by (rule mod_mult_self2)
  finally have "(a * (x mod n)) mod n = 1"
    using assms(1) by (simp add: mod_mult_right_eq)
  moreover have "x mod n < n" using assms(1) by simp
  ultimately have "find (\<lambda>i. (a * i) mod n = 1) [0..<n] \<noteq> None"
    by (auto simp: find_None_iff)
  then obtain i where i: "find (\<lambda>i. (a * i) mod n = 1) [0..<n] = Some i" by auto
  then have "i < n" and "(a * i) mod n = 1"
    by (auto simp: find_Some_iff)
  with i show ?thesis
    by (simp add: nat_mod_inverse_def)
qed

lemma nat_bn_ok: "bn_ok nat_bn"
  using be_bytes_bounds nat_mod_inverse_ok by (simp add: bn_ok_def nat_bn_def)

end
