(* ===== verification/Gnubby.thy ===== *)
theory Gnubby
  imports Crypto
begin

text \<open>
  The security token (util/signer/gnubby.cc, common/gnubby.h): the USB framing, one exchange with
  the device, the lock, wink and APDU commands, the signing protocol \<open>doSign\<close> as a state
  machine over the labels and loops of the source, the loop over the devices in \<open>sign\<close>, and
  the transfer of a private key in \<open>write\<close>.

  The device, the terminal and the file system are the record \<open>gnubby_env\<close>: what each call
  answers in the state \<open>'d\<close> of the outside world. The frames handed to the USB library are
  recorded in \<open>frames\<close>, the newest last. An access outside a buffer is the fault
  \<open>MemoryFault\<close>, the use of a handle that has been closed \<open>ClosedHandle\<close>.
\<close>

section \<open>The outside world\<close>

record 'd gnubby_env =
  usb_out :: "nat \<Rightarrow> u8 list \<Rightarrow> 'd \<Rightarrow> int \<times> 'd"
  usb_in :: "nat \<Rightarrow> 'd \<Rightarrow> int \<times> u8 list \<times> 'd"
  pid :: u32
  getpass :: "'d \<Rightarrow> string \<times> 'd"
  rand32 :: "'d \<Rightarrow> u32 \<times> 'd"
  generate_key :: "'d \<Rightarrow> nat \<times> 'd"
  home_dir :: string
  token_read :: "string \<Rightarrow> 'd \<Rightarrow> u8 list option \<times> 'd"
  token_write :: "string \<Rightarrow> u8 list \<Rightarrow> 'd \<Rightarrow> 'd"
  token_unlink :: "string \<Rightarrow> 'd \<Rightarrow> 'd"

record 'd usb_world =
  frames :: "u8 list list"
  dev :: 'd

datatype gnubby_fault = IFD_COMMUNICATION_ERROR | MemoryFault | ClosedHandle

type_synonym ('d, 'a) usb = "'d usb_world \<Rightarrow> (gnubby_fault + 'a) \<times> 'd usb_world"

definition usb_return :: "'a \<Rightarrow> ('d, 'a) usb" where
  "usb_return x w = (Inr x, w)"

definition usb_bind :: "('d, 'a) usb \<Rightarrow> ('a \<Rightarrow> ('d, 'b) usb) \<Rightarrow> ('d, 'b) usb" where
  "usb_bind m f w = (case m w of (Inl e, w') \<Rightarrow> (Inl e, w') | (Inr x, w') \<Rightarrow> f x w')"

section \<open>Frames\<close>

definition CMD_APDU :: u8 where "CMD_APDU = 0x83"
definition CMD_LOCK :: u8 where "CMD_LOCK = 0x84"
definition CMD_WINK :: u8 where "CMD_WINK = 0x88"

text \<open>
  \<open>construct_usb_frame\<close>: the sum \<open>len + 7\<close> is a \<open>DWORD\<close> and may wrap around, in
  which case the copy runs past the output buffer.
\<close>

definition construct_usb_frame ::
  "u32 \<Rightarrow> u8 \<Rightarrow> u8 list \<Rightarrow> u32 \<Rightarrow> u32 \<Rightarrow> gnubby_fault + u8 list" where
  "construct_usb_frame getpid cmd data len out_len =
     (if out_len < len + 7 then Inl IFD_COMMUNICATION_ERROR
      else if unat out_len < 7 + unat len \<or> length data < unat len then Inl MemoryFault
      else Inr ([ucast getpid, ucast (drop_bit 8 getpid), ucast (drop_bit 16 getpid), ucast (drop_bit 24 getpid),
                 cmd, ucast (drop_bit 8 len), ucast len] @ take (unat len) data))"

definition RCV_SIZE :: nat where "RCV_SIZE = 2048"

definition received :: "u8 list \<Rightarrow> u8 list" where
  "received data = take RCV_SIZE data @ replicate (RCV_SIZE - length data) 0"

definition usb_send :: "'d gnubby_env \<Rightarrow> nat \<Rightarrow> u8 list \<Rightarrow> 'd usb_world \<Rightarrow> int \<times> 'd usb_world" where
  "usb_send env h frame w =
     (let (res, d) = usb_out env h frame (dev w) in (res, w\<lparr>frames := frames w @ [frame], dev := d\<rparr>))"

definition gnubby_exchange :: "'d gnubby_env \<Rightarrow> nat \<Rightarrow> u8 list \<Rightarrow> nat \<Rightarrow> ('d, u8 list) usb" where
  "gnubby_exchange env h buf rsp_len w =
     (let (res, w) = usb_send env h buf w in
      if res < 0 then (Inl IFD_COMMUNICATION_ERROR, w)
      else
        let (res, data, d) = usb_in env h (dev w); w = w\<lparr>dev := d\<rparr>;
            rcv = received data; recv_len = length (take RCV_SIZE data)
        in if res < 0 then (Inl IFD_COMMUNICATION_ERROR, w)
           else if recv_len > 0 then
             if take 5 buf \<noteq> take 5 rcv then (Inl IFD_COMMUNICATION_ERROR, w)
             else
               let plen = unat (rcv ! 5) * 256 + unat (rcv ! 6) in
               if plen + 7 < recv_len then (Inl IFD_COMMUNICATION_ERROR, w)
               else if rsp_len < plen then (Inl IFD_COMMUNICATION_ERROR, w)
               else if RCV_SIZE < 7 + plen then (Inl MemoryFault, w)
               else (Inr (take plen (drop 7 rcv)), w)
           else (Inl IFD_COMMUNICATION_ERROR, w))"

definition lift_frame :: "gnubby_fault + u8 list \<Rightarrow> ('d, u8 list) usb" where
  "lift_frame r w = (r, w)"

definition gnubby_apdu :: "'d gnubby_env \<Rightarrow> nat \<Rightarrow> u8 list \<Rightarrow> nat \<Rightarrow> ('d, u8 list) usb" where
  "gnubby_apdu env h tx rxLen =
     usb_bind (lift_frame (construct_usb_frame (pid env) CMD_APDU tx (of_nat (length tx)) 2048))
       (\<lambda>cmd. gnubby_exchange env h cmd rxLen)"

definition gnubby_lock :: "'d gnubby_env \<Rightarrow> nat \<Rightarrow> u8 \<Rightarrow> ('d, unit) usb" where
  "gnubby_lock env h seconds =
     usb_bind (lift_frame (construct_usb_frame (pid env) CMD_LOCK [seconds] 1 10))
       (\<lambda>cmd. usb_bind (gnubby_exchange env h cmd 10) (\<lambda>rsp w.
          if (length rsp = 1 \<and> rsp ! 0 = 0) \<or> length rsp = 0 then (Inr (), w)
          else (Inl IFD_COMMUNICATION_ERROR, w)))"

definition gnubby_wink :: "'d gnubby_env \<Rightarrow> nat \<Rightarrow> ('d, unit) usb" where
  "gnubby_wink env h =
     usb_bind (lift_frame (construct_usb_frame (pid env) CMD_WINK [] 0 10))
       (\<lambda>cmd. usb_bind (gnubby_exchange env h cmd 10) (\<lambda>rsp. usb_return ()))"

section \<open>PIN and token\<close>

definition getSW12 :: "u8 list \<Rightarrow> nat \<Rightarrow> int" where
  "getSW12 buf buflen =
     (if buflen < 2 then -1 else uint (buf ! (buflen - 2)) * 256 + uint (buf ! (buflen - 1)))"

fun rand_bytes :: "('d \<Rightarrow> u32 \<times> 'd) \<Rightarrow> nat \<Rightarrow> nat \<Rightarrow> 'd \<Rightarrow> u8 list \<times> 'd" where
  "rand_bytes rnd 0 i d = ([], d)"
| "rand_bytes rnd (Suc n) i d =
     (let (r, d) = rnd d; (bs, d) = rand_bytes rnd n (Suc i) d in (ucast (drop_bit (i + 1) r) # bs, d))"

definition getPIN :: "crypto \<Rightarrow> 'd gnubby_env \<Rightarrow> 'd \<Rightarrow> u8 list \<times> 'd" where
  "getPIN cr env d =
     (let (out, d) = rand_bytes (rand32 env) 16 0 d;
          (pin, d) = getpass env d;
          pin6 = (if length pin = 6 then map of_char pin else take 6 (SHA256 cr (map of_char pin)))
      in (pin6 @ drop 6 out, d))"

definition hex_char :: "nat \<Rightarrow> char" where
  "hex_char n = ''0123456789abcdef'' ! n"

definition tokenFilename :: "string \<Rightarrow> u8 list \<Rightarrow> string" where
  "tokenFilename home fp =
     home @ ''/.tmp/'' @
     concat (map (\<lambda>b. [hex_char (unat (drop_bit 4 b)), hex_char (unat (b AND 15))]) (take 32 fp)) @
     ''.token''"

definition getToken :: "'d gnubby_env \<Rightarrow> u8 list \<Rightarrow> 'd \<Rightarrow> u8 list option \<times> 'd" where
  "getToken env fp d =
     (case token_read env (tokenFilename (home_dir env) fp) d of
        (None, d) \<Rightarrow> (None, d)
      | (Some bs, d) \<Rightarrow> (if length (take 16 bs) = 16 then (Some (take 16 bs), d) else (None, d)))"

definition saveToken :: "'d gnubby_env \<Rightarrow> u8 list \<Rightarrow> u8 list \<Rightarrow> 'd \<Rightarrow> 'd" where
  "saveToken env fp token = token_write env (tokenFilename (home_dir env) fp) (take 16 token)"

definition forgetToken :: "'d gnubby_env \<Rightarrow> u8 list \<Rightarrow> 'd \<Rightarrow> 'd" where
  "forgetToken env fp = token_unlink env (tokenFilename (home_dir env) fp)"

section \<open>doSign\<close>

text \<open>
  The program points of \<open>doSign\<close>: its calls before the label \<open>__again\<close>, the label
  itself, the point behind the key comparison, the signing loop, the label \<open>__fail\<close>, the
  return, and the stop after a fault.
\<close>

datatype gnubby_pc = AtLock | AtSelect | AtAgain | AtToken | AtSignLoop | AtFail | AtReturn | AtFault

record 'd gnubby_state =
  pc :: gnubby_pc
  usb :: "'d usb_world"
  resp :: "u8 list"
  resp_len :: nat
  fp :: "u8 list"
  token :: "u8 list"
  result :: int
  sig_out :: "u8 list option"

definition select_apdu :: "u8 list" where
  "select_apdu = [0x00, 0xa4, 0x04, 0x00, 0x06, 0x53, 0x53, 0x48, 0x00, 0x01, 0x01]"

definition read_slot_apdu :: "u8 list" where
  "read_slot_apdu =
     [0x00, 0x43, 0x66, 0x00, 0x00, 0x00, 0x10,
      0xff, 0xee, 0xdd, 0xcc, 0xbb, 0xaa, 0x99, 0x88, 0x77, 0x66, 0x55, 0x44, 0x33, 0x22, 0x11, 0x00]"

definition unlock_apdu :: "crypto \<Rightarrow> ECDH \<Rightarrow> AES \<Rightarrow> u8 list \<Rightarrow> u8 list" where
  "unlock_apdu cr ecdh aes pin =
     [0x00, 0x42, 0x00, 0x00, 0x51] @ ECDH_get_point cr ecdh @ AES_encrypt_block cr aes pin"

definition sign_apdu :: "crypto \<Rightarrow> u8 list \<Rightarrow> u8 list \<Rightarrow> u8 list" where
  "sign_apdu cr tok padded_req =
     [0x00, 0x40, 0x66, 0x00, 0x00, 0x01, 0x10] @
     AES_cmac cr (AES_set_key tok \<lparr>key_bytes = []\<rparr>) (take 256 padded_req) @ take 256 padded_req"

text \<open>One \<open>gnubby_apdu\<close> into \<open>resp\<close>, with the jump to \<open>__fail\<close> when it fails.\<close>

definition do_apdu ::
  "'d gnubby_env \<Rightarrow> nat \<Rightarrow> u8 list \<Rightarrow> ('d gnubby_state \<Rightarrow> 'd gnubby_state) \<Rightarrow> 'd gnubby_state \<Rightarrow> 'd gnubby_state" where
  "do_apdu env h tx k s =
     (case gnubby_apdu env h tx 2048 (usb s) of
        (Inl e, w) \<Rightarrow>
          if e = IFD_COMMUNICATION_ERROR then s\<lparr>pc := AtFail, usb := w, resp_len := 0, result := -1\<rparr>
          else s\<lparr>pc := AtFault, usb := w\<rparr>
      | (Inr payload, w) \<Rightarrow>
          k (s\<lparr>usb := w, resp := payload @ drop (length payload) (resp s), resp_len := length payload,
              result := 0\<rparr>))"

definition sw :: "'d gnubby_state \<Rightarrow> int" where
  "sw s = getSW12 (resp s) (resp_len s)"

definition lock_step :: "'d gnubby_env \<Rightarrow> nat \<Rightarrow> 'd gnubby_state \<Rightarrow> 'd gnubby_state" where
  "lock_step env h s =
     (case gnubby_lock env h 100 (usb s) of
        (Inl e, w) \<Rightarrow>
          if e = IFD_COMMUNICATION_ERROR then s\<lparr>pc := AtFail, usb := w, result := -1\<rparr>
          else s\<lparr>pc := AtFault, usb := w\<rparr>
      | (Inr _, w) \<Rightarrow> s\<lparr>pc := AtSelect, usb := w, result := 0\<rparr>)"

definition select_step :: "'d gnubby_env \<Rightarrow> nat \<Rightarrow> 'd gnubby_state \<Rightarrow> 'd gnubby_state" where
  "select_step env h =
     do_apdu env h select_apdu (\<lambda>s. if sw s \<noteq> 0x9000 then s\<lparr>pc := AtFail\<rparr> else s\<lparr>pc := AtAgain\<rparr>)"

text \<open>
  The comparison of the token's public key with the key; \<open>rsa\<close> is the local variable of that
  name.
\<close>

definition key_matches :: "bn_lib \<Rightarrow> rsa_key option \<Rightarrow> evp_pkey \<Rightarrow> u8 list \<Rightarrow> bool" where
  "key_matches bn rsa k rsp =
     (case rsa of
        None \<Rightarrow> False
      | Some r \<Rightarrow> evp_is_rsa k \<and> evp_size k = 256 \<and> length (BN_bn2bin bn (rsa_n r)) = 256 \<and>
          BN_bn2bin bn (rsa_n r) = take 256 (drop 1 rsp))"

definition slot_step ::
  "bn_lib \<Rightarrow> 'd gnubby_env \<Rightarrow> nat \<Rightarrow> rsa_key option \<Rightarrow> evp_pkey \<Rightarrow> 'd gnubby_state \<Rightarrow> 'd gnubby_state" where
  "slot_step bn env h rsa k =
     do_apdu env h read_slot_apdu (\<lambda>s.
       if sw s \<noteq> 0x9000 then s\<lparr>pc := AtFail\<rparr>
       else
         let s = s\<lparr>fp := take 32 (drop (1 + 256 + 65 + 65) (resp s))\<rparr>
         in if key_matches bn rsa k (resp s) then s\<lparr>pc := AtToken\<rparr> else s\<lparr>pc := AtFail\<rparr>)"

definition pin_step :: "crypto \<Rightarrow> 'd gnubby_env \<Rightarrow> nat \<Rightarrow> ECDH \<Rightarrow> 'd gnubby_state \<Rightarrow> 'd gnubby_state" where
  "pin_step cr env h ecdh s =
     (let (pin, d) = getPIN cr env (dev (usb s));
          s = s\<lparr>usb := (usb s)\<lparr>dev := d\<rparr>\<rparr>;
          secret = ECDH_compute_secret cr ecdh (drop (1 + 256) (resp s));
          aes = AES_set_key secret \<lparr>key_bytes = []\<rparr>
      in do_apdu env h (unlock_apdu cr ecdh aes pin) (\<lambda>s.
           if sw s AND 0xfff0 = 0x63c0 then s\<lparr>pc := AtAgain\<rparr>
           else if sw s \<noteq> 0x9000 then s\<lparr>pc := AtFail\<rparr>
           else
             let aes = AES_set_key (drop 16 secret) aes;
                 tok = AES_decrypt_block cr aes (resp s)
             in s\<lparr>pc := AtSignLoop, token := tok,
                  usb := (usb s)\<lparr>dev := saveToken env (fp s) tok (dev (usb s))\<rparr>\<rparr>) s)"

definition token_step :: "crypto \<Rightarrow> 'd gnubby_env \<Rightarrow> nat \<Rightarrow> ECDH \<Rightarrow> 'd gnubby_state \<Rightarrow> 'd gnubby_state" where
  "token_step cr env h ecdh s =
     (case getToken env (fp s) (dev (usb s)) of
        (Some t, d) \<Rightarrow> s\<lparr>pc := AtSignLoop, token := t, usb := (usb s)\<lparr>dev := d\<rparr>\<rparr>
      | (None, d) \<Rightarrow> pin_step cr env h ecdh (s\<lparr>usb := (usb s)\<lparr>dev := d\<rparr>\<rparr>))"

text \<open>One round of the loop \<open>for (;;)\<close>: touch, PIN, error or signature.\<close>

definition sign_step :: "crypto \<Rightarrow> 'd gnubby_env \<Rightarrow> nat \<Rightarrow> u8 list \<Rightarrow> 'd gnubby_state \<Rightarrow> 'd gnubby_state" where
  "sign_step cr env h padded_req s =
     do_apdu env h (sign_apdu cr (token s) padded_req) (\<lambda>s.
       if sw s = 0x6985 then s\<lparr>usb := snd (gnubby_wink env h (usb s))\<rparr>
       else if sw s = 0x63ca then
         s\<lparr>pc := AtAgain, usb := (usb s)\<lparr>dev := forgetToken env (fp s) (dev (usb s))\<rparr>\<rparr>
       else if sw s \<noteq> 0x9000 then s\<lparr>pc := AtFail\<rparr>
       else s\<lparr>pc := AtFail, sig_out := Some (take 256 (resp s)), result := 1\<rparr>) s"

definition unlock_step :: "'d gnubby_env \<Rightarrow> nat \<Rightarrow> 'd gnubby_state \<Rightarrow> 'd gnubby_state" where
  "unlock_step env h s = s\<lparr>pc := AtReturn, usb := snd (gnubby_lock env h 0 (usb s))\<rparr>"

text \<open>\<open>doSign\<close> declares \<open>rsa\<close> as a null pointer and never assigns it.\<close>

definition local_rsa :: "rsa_key option" where
  "local_rsa = None"

record sign_call =
  call_crypto :: crypto
  call_bn :: bn_lib
  call_handle :: nat
  call_key :: evp_pkey
  call_ecdh :: ECDH
  call_padded :: "u8 list"

definition gnubby_next :: "'d gnubby_env \<Rightarrow> sign_call \<Rightarrow> 'd gnubby_state \<Rightarrow> 'd gnubby_state" where
  "gnubby_next env c s =
     (case pc s of
        AtLock \<Rightarrow> lock_step env (call_handle c) s
      | AtSelect \<Rightarrow> select_step env (call_handle c) s
      | AtAgain \<Rightarrow> slot_step (call_bn c) env (call_handle c) local_rsa (call_key c) s
      | AtToken \<Rightarrow> token_step (call_crypto c) env (call_handle c) (call_ecdh c) s
      | AtSignLoop \<Rightarrow> sign_step (call_crypto c) env (call_handle c) (call_padded c) s
      | AtFail \<Rightarrow> unlock_step env (call_handle c) s
      | AtReturn \<Rightarrow> s
      | AtFault \<Rightarrow> s)"

definition stopped :: "'d gnubby_state \<Rightarrow> bool" where
  "stopped s \<longleftrightarrow> pc s = AtReturn \<or> pc s = AtFault"

inductive gnubby_step :: "'d gnubby_env \<Rightarrow> sign_call \<Rightarrow> 'd gnubby_state \<Rightarrow> 'd gnubby_state \<Rightarrow> bool"
  for env :: "'d gnubby_env" and c :: sign_call where
  lock: "pc s = AtLock \<Longrightarrow> gnubby_step env c s (lock_step env (call_handle c) s)"
| select: "pc s = AtSelect \<Longrightarrow> gnubby_step env c s (select_step env (call_handle c) s)"
| again: "pc s = AtAgain \<Longrightarrow>
    gnubby_step env c s (slot_step (call_bn c) env (call_handle c) local_rsa (call_key c) s)"
| token: "pc s = AtToken \<Longrightarrow>
    gnubby_step env c s (token_step (call_crypto c) env (call_handle c) (call_ecdh c) s)"
| sign: "pc s = AtSignLoop \<Longrightarrow>
    gnubby_step env c s (sign_step (call_crypto c) env (call_handle c) (call_padded c) s)"
| fail: "pc s = AtFail \<Longrightarrow> gnubby_step env c s (unlock_step env (call_handle c) s)"

inductive_cases gnubby_stepE: "gnubby_step env c s s'"

text \<open>The run with fuel: \<open>None\<close> when \<open>n\<close> steps do not reach the return.\<close>

fun gnubby_run :: "nat \<Rightarrow> 'd gnubby_env \<Rightarrow> sign_call \<Rightarrow> 'd gnubby_state \<Rightarrow> 'd gnubby_state option" where
  "gnubby_run 0 env c s = (if stopped s then Some s else None)"
| "gnubby_run (Suc n) env c s = (if stopped s then Some s else gnubby_run n env c (gnubby_next env c s))"

text \<open>The locals at the entry; \<open>junk\<close> is what the uninitialised buffers hold.\<close>

definition doSign_start :: "u8 list \<Rightarrow> 'd usb_world \<Rightarrow> 'd gnubby_state" where
  "doSign_start junk w =
     \<lparr>pc = AtLock, usb = w, resp = take 2048 junk @ replicate (2048 - length junk) 0, resp_len = 0,
      fp = replicate 32 0, token = replicate 16 0, result = -1, sig_out = None\<rparr>"

definition doSign ::
  "nat \<Rightarrow> crypto \<Rightarrow> bn_lib \<Rightarrow> 'd gnubby_env \<Rightarrow> nat \<Rightarrow> u8 list \<Rightarrow> evp_pkey \<Rightarrow> u8 list \<Rightarrow> 'd usb_world \<Rightarrow>
    'd gnubby_state option" where
  "doSign fuel cr bn env h padded_req k junk w =
     (let (priv, d) = generate_key env (dev w)
      in gnubby_run fuel env
           \<lparr>call_crypto = cr, call_bn = bn, call_handle = h, call_key = k,
            call_ecdh = \<lparr>private_key = priv\<rparr>, call_padded = padded_req\<rparr>
           (doSign_start junk (w\<lparr>dev := d\<rparr>)))"

section \<open>sign\<close>

definition patch :: "nat \<Rightarrow> u8 list \<Rightarrow> u8 list \<Rightarrow> u8 list" where
  "patch off bs xs = take off xs @ bs @ drop (off + length bs) xs"

definition asn1_riddle :: "u8 list" where
  "asn1_riddle =
     [0x00, 0x30, 0x31, 0x30, 0x0d] @ [0x06, 0x09, 0x60, 0x86, 0x48, 0x01, 0x65, 0x03, 0x04, 0x02, 0x01] @
     [0x05, 0x00, 0x04, 0x20]"

definition padded_request :: "u8 list \<Rightarrow> u8 list" where
  "padded_request digest =
     (let req = replicate 256 0xff;
          req = req[0 := 0x00, 1 := 0x01];
          req = patch (256 - 32 - 20) asn1_riddle req
      in patch (256 - 32) digest req)"

record usb_device =
  descriptor_rc :: int
  idVendor :: u16
  idProduct :: u16
  open_rc :: int
  claim_rc :: int

definition isGnubby :: "usb_device \<Rightarrow> bool" where
  "isGnubby d \<longleftrightarrow> descriptor_rc d = 0 \<and> idVendor d = 0x1050 \<and> idProduct d = 0x0211"

text \<open>The loop over the device list; the handle of device \<open>i\<close> is \<open>i\<close>.\<close>

fun try_devices ::
  "nat \<Rightarrow> crypto \<Rightarrow> bn_lib \<Rightarrow> 'd gnubby_env \<Rightarrow> u8 list \<Rightarrow> evp_pkey \<Rightarrow> u8 list \<Rightarrow> nat \<Rightarrow> usb_device list \<Rightarrow>
    'd usb_world \<Rightarrow> (gnubby_fault + int \<times> u8 list option \<times> 'd usb_world) option" where
  "try_devices fuel cr bn env req k junk i [] w = Some (Inr (-1, None, w))"
| "try_devices fuel cr bn env req k junk i (d # ds) w =
     (if \<not> isGnubby d \<or> open_rc d \<noteq> 0 \<or> claim_rc d \<noteq> 0
      then try_devices fuel cr bn env req k junk (Suc i) ds w
      else case doSign fuel cr bn env i req k junk w of
             None \<Rightarrow> None
           | Some s \<Rightarrow>
               if pc s = AtFault then Some (Inl MemoryFault)
               else if result s = 1 then Some (Inr (1, sig_out s, usb s))
               else try_devices fuel cr bn env req k junk (Suc i) ds (usb s))"

definition gnubby_sign ::
  "nat \<Rightarrow> crypto \<Rightarrow> bn_lib \<Rightarrow> 'd gnubby_env \<Rightarrow> usb_device list \<Rightarrow> u8 list \<Rightarrow> evp_pkey \<Rightarrow> u8 list \<Rightarrow>
    'd usb_world \<Rightarrow> (gnubby_fault + int \<times> u8 list option \<times> 'd usb_world) option" where
  "gnubby_sign fuel cr bn env devices digest k junk w =
     try_devices fuel cr bn env (padded_request digest) k junk 0 devices w"

section \<open>write\<close>

text \<open>The object: its handle, and whether that handle has been closed.\<close>

record gnubby =
  handle :: "nat option"
  handle_closed :: bool

definition gnubby_new :: gnubby where
  "gnubby_new = \<lparr>handle = None, handle_closed = False\<rparr>"

record 'd usb_access =
  open_vid_pid :: "'d \<Rightarrow> nat option \<times> 'd"
  claim_interface :: "nat option \<Rightarrow> 'd \<Rightarrow> int \<times> 'd"

definition gnubby_open :: "'d usb_access \<Rightarrow> gnubby \<Rightarrow> 'd usb_world \<Rightarrow> int \<times> gnubby \<times> 'd usb_world" where
  "gnubby_open acc g w =
     (let (h, d) = open_vid_pid acc (dev w);
          g = g\<lparr>handle := h, handle_closed := False\<rparr>;
          (rc, d) = claim_interface acc (handle g) d
      in if rc \<noteq> 0 then (-1, (if handle g \<noteq> None then g\<lparr>handle_closed := True\<rparr> else g), w\<lparr>dev := d\<rparr>)
         else (1, g, w\<lparr>dev := d\<rparr>))"

definition write_bn_req :: "u8 \<Rightarrow> nat \<Rightarrow> u8 list \<Rightarrow> u8 list" where
  "write_bn_req p1 len bs = [0x00, 0x66, p1, 0x00, 0x00, of_nat (len div 256), of_nat len] @ bs"

definition write_bn :: "bn_lib \<Rightarrow> 'd gnubby_env \<Rightarrow> nat \<Rightarrow> u8 \<Rightarrow> nat \<Rightarrow> nat \<Rightarrow> ('d, int) usb" where
  "write_bn bn env h p1 n len w =
     (let bs = BN_bn2bin bn n in
      if 1024 < 7 + length bs then (Inl MemoryFault, w)
      else if length bs \<noteq> len then (Inr (-1), w)
      else case gnubby_apdu env h (write_bn_req p1 len bs) 1024 w of
             (Inl e, w) \<Rightarrow> if e = IFD_COMMUNICATION_ERROR then (Inr (-1), w) else (Inl e, w)
           | (Inr rsp, w) \<Rightarrow> if getSW12 rsp (length rsp) \<noteq> 0x9000 then (Inr 1, w) else (Inr 0, w))"

text \<open>The chain \<open>result = result || write_bn(...)\<close>.\<close>

fun write_bns :: "bn_lib \<Rightarrow> 'd gnubby_env \<Rightarrow> nat \<Rightarrow> (u8 \<times> nat \<times> nat) list \<Rightarrow> int \<Rightarrow> ('d, int) usb" where
  "write_bns bn env h [] res w = (Inr res, w)"
| "write_bns bn env h ((p1, n, len) # parts) res w =
     (if res \<noteq> 0 then write_bns bn env h parts 1 w
      else case write_bn bn env h p1 n len w of
             (Inl e, w) \<Rightarrow> (Inl e, w)
           | (Inr r, w) \<Rightarrow> write_bns bn env h parts (if r \<noteq> 0 then 1 else 0) w)"

definition key_parts :: "rsa_key \<Rightarrow> (u8 \<times> nat \<times> nat) list" where
  "key_parts rsa =
     [(0, rsa_p rsa, 128), (1, rsa_q rsa, 128), (2, rsa_dmp1 rsa, 128), (3, rsa_dmq1 rsa, 128),
      (4, rsa_iqmp rsa, 128), (5, rsa_n rsa, 256), (6, rsa_e rsa, 1)]"

text \<open>
  The tail at \<open>__fail\<close>: the unlock, whose outcome is ignored, and the returned value. The
  handle may be one that \<open>open\<close> has closed.
\<close>

definition write_exit :: "'d gnubby_env \<Rightarrow> gnubby \<Rightarrow> int \<Rightarrow> ('d, int) usb" where
  "write_exit env g res w =
     (case handle g of
        None \<Rightarrow> (Inr res, w)
      | Some h \<Rightarrow> if handle_closed g then (Inl ClosedHandle, w) else (Inr res, snd (gnubby_lock env h 0 w)))"

definition write_session :: "bn_lib \<Rightarrow> 'd gnubby_env \<Rightarrow> nat \<Rightarrow> rsa_key \<Rightarrow> ('d, int) usb" where
  "write_session bn env h rsa w =
     (case gnubby_lock env h 100 w of
        (Inl e, w) \<Rightarrow> if e = IFD_COMMUNICATION_ERROR then (Inr (-1), w) else (Inl e, w)
      | (Inr _, w) \<Rightarrow>
          (case gnubby_apdu env h select_apdu 2048 w of
             (Inl e, w) \<Rightarrow> if e = IFD_COMMUNICATION_ERROR then (Inr (-1), w) else (Inl e, w)
           | (Inr rsp, w) \<Rightarrow>
               if getSW12 rsp (length rsp) \<noteq> 0x9000 then (Inr 1, w)
               else write_bns bn env h (key_parts rsa) 0 w))"

definition gnubby_write ::
  "bn_lib \<Rightarrow> 'd gnubby_env \<Rightarrow> 'd usb_access \<Rightarrow> bool \<Rightarrow> rsa_key \<Rightarrow> gnubby \<Rightarrow> ('d, int) usb" where
  "gnubby_write bn env acc dup_ok rsa g w =
     (if \<not> dup_ok then write_exit env g (-1) w
      else
        let (opened, g, w) = (if handle g = None then gnubby_open acc g w else (1, g, w)) in
        if opened \<noteq> 1 then write_exit env g 1 w
        else case handle g of
               None \<Rightarrow> (Inl MemoryFault, w)
             | Some h \<Rightarrow>
                 (case write_session bn env h rsa w of
                    (Inl e, w) \<Rightarrow> (Inl e, w)
                  | (Inr res, w) \<Rightarrow> write_exit env g res w))"

end
