(* ===== verification/GnubbyLink.thy ===== *)
theory GnubbyLink
  imports Gnubby
begin

text \<open>
  The link to the token: what one frame looks like and how it is read back, what an exchange
  returns, and the contract every command of the driver keeps towards the protocol above it: it
  hands a fixed list of frames to the USB library and never rewrites the record of what was sent.
\<close>

section \<open>The contract of a command\<close>

locale usb_command =
  fixes run :: "'d usb_world \<Rightarrow> (gnubby_fault + 'a) \<times> 'd usb_world"
    and sent :: "u8 list list"
  assumes frames_run: "frames (snd (run w)) = frames w @ sent"
begin

lemma frames_after: "run w = (r, w') \<Longrightarrow> frames w' = frames w @ sent"
  using frames_run [of w] by simp

lemma frames_mono: "run w = (r, w') \<Longrightarrow> set (frames w) \<subseteq> set (frames w')"
  by (simp add: frames_after)

lemma last_frame: "run w = (r, w') \<Longrightarrow> sent \<noteq> [] \<Longrightarrow> last (frames w') = last sent"
  by (simp add: frames_after)

end

text \<open>A command with a reply buffer so small that the reply copy stays inside the receive buffer.\<close>

locale safe_command = usb_command +
  assumes fault_free: "fst (run w) = Inl e \<Longrightarrow> e = IFD_COMMUNICATION_ERROR"
begin

lemma fault_free_run: "run w = (Inl e, w') \<Longrightarrow> e = IFD_COMMUNICATION_ERROR"
  using fault_free [of w] by simp

end

section \<open>Frames\<close>

definition usb_frame :: "u32 \<Rightarrow> u8 \<Rightarrow> u8 list \<Rightarrow> u8 list" where
  "usb_frame getpid cmd data =
     le_bytes 4 getpid @ [cmd, of_nat (length data div 256), of_nat (length data)] @ data"

definition parse_usb_frame :: "u8 list \<Rightarrow> (u32 \<times> u8 \<times> u8 list) option" where
  "parse_usb_frame f =
     (if 7 \<le> length f \<and> length f = 7 + unat (f ! 5) * 256 + unat (f ! 6)
      then Some (of_le (take 4 f), f ! 4, drop 7 f) else None)"

lemma drop_bit_8_len: "(ucast (drop_bit 8 (of_nat n :: u32)) :: u8) = of_nat (n div 256)"
proof -
  have "n div 256 = drop_bit 8 n" by (simp add: drop_bit_eq_div)
  then show ?thesis
    by (simp only:) (rule bit_word_eqI, simp add: bit_simps del: drop_bit_eq_div)
qed

lemma construct_usb_frame_ok:
  assumes "length data + 7 \<le> unat cap" and "unat cap \<le> 65536"
  shows "construct_usb_frame p cmd data (of_nat (length data)) cap = Inr (usb_frame p cmd data)"
proof -
  have n: "unat (of_nat (length data) :: u32) = length data"
    using assms by (simp add: unat_of_nat)
  have "unat (of_nat (length data) + 7 :: u32) = length data + 7"
    using assms by (simp add: unat_word_ariths n)
  then have "\<not> cap < of_nat (length data) + 7"
    using assms(1) by (simp add: word_less_nat_alt)
  moreover have "(ucast (of_nat (length data) :: u32) :: u8) = of_nat (length data)"
    by (rule bit_word_eqI) (simp add: bit_simps unsigned_of_nat)
  ultimately show ?thesis
    using assms by (simp add: construct_usb_frame_def usb_frame_def le_bytes_4 drop_bit_8_len n)
qed

lemma parse_usb_frame_frame:
  assumes "length data < 65536"
  shows "parse_usb_frame (usb_frame p cmd data) = Some (p, cmd, data)"
proof -
  have "unat (of_nat (length data div 256) :: u8) = length data div 256"
    using assms by (simp add: unat_of_nat less_mult_imp_div_less)
  moreover have "unat (of_nat (length data) :: u8) = length data mod 256"
    by (simp add: unat_of_nat)
  ultimately show ?thesis
    unfolding parse_usb_frame_def usb_frame_def le_bytes_4
    by (simp add: of_le_4 del: of_le.simps of_nat_div)
qed

text \<open>C20: A frame that \<open>construct_usb_frame\<close> builds in a buffer of at most 64K decodes to
  exactly the channel id, command and payload it was built from, with a length of the payload plus seven that
  fits the buffer, provided the payload's length does not wrap around the 32-bit sum.\<close>

theorem construct_usb_frame_roundtrip:
  assumes "construct_usb_frame p cmd data (of_nat (length data)) cap = Inr f"
    and "length data < 2 ^ 32 - 7" and "unat cap \<le> 65536"
  shows "parse_usb_frame f = Some (p, cmd, data) \<and> length f = 7 + length data \<and> length f \<le> unat cap"
proof -
  have n: "unat (of_nat (length data) :: u32) = length data"
    using assms(2) by (simp add: unat_of_nat)
  have "unat (of_nat (length data) + 7 :: u32) = length data + 7"
    using assms(2) by (simp add: unat_word_ariths n)
  with assms(1) have fits: "length data + 7 \<le> unat cap"
    by (simp add: construct_usb_frame_def word_less_nat_alt split: if_splits)
  from construct_usb_frame_ok [OF this assms(3), of p cmd] assms(1) have "f = usb_frame p cmd data" by simp
  with fits assms(3) show ?thesis
    by (simp add: parse_usb_frame_frame) (simp add: usb_frame_def)
qed

theorem construct_usb_frame_roundtrip_witness:
  "\<exists>f. construct_usb_frame 0x01020304 CMD_LOCK [100] 1 10 = Inr f \<and> parse_usb_frame f = Some (0x01020304, CMD_LOCK, [100])"
proof -
  have run: "construct_usb_frame 0x01020304 CMD_LOCK [100] (of_nat (length [100 :: u8])) 10 =
      Inr [4, 3, 2, 1, CMD_LOCK, 0, 1, 100]"
    by (simp add: construct_usb_frame_def)
  from construct_usb_frame_roundtrip [OF this] run show ?thesis
    by simp
qed

section \<open>One exchange\<close>

lemma length_received [simp]: "length (received data) = RCV_SIZE"
  by (simp add: received_def)

lemma frames_usb_send: "usb_send env h f w = (r, w') \<Longrightarrow> frames w' = frames w @ [f]"
  by (auto simp: usb_send_def Let_def split: prod.splits)

lemma frames_exchange: "frames (snd (gnubby_exchange env h f cap w)) = frames w @ [f]"
  by (auto simp: gnubby_exchange_def Let_def frames_usb_send split: prod.splits)

lemma exchange_InrE:
  assumes "gnubby_exchange env h f cap w = (Inr rsp, w')"
  obtains r1 d1 r2 data d2 where
    "usb_out env h f (dev w) = (r1, d1)" and "0 \<le> r1"
    and "usb_in env h d1 = (r2, data, d2)" and "0 \<le> r2" and "data \<noteq> []"
    and "take 5 f = take 5 (received data)"
    and "length (take RCV_SIZE data) \<le> unat (received data ! 5) * 256 + unat (received data ! 6) + 7"
    and "unat (received data ! 5) * 256 + unat (received data ! 6) \<le> cap"
    and "7 + (unat (received data ! 5) * 256 + unat (received data ! 6)) \<le> RCV_SIZE"
    and "rsp = take (unat (received data ! 5) * 256 + unat (received data ! 6)) (drop 7 (received data))"
proof -
  obtain r1 d1 where o: "usb_out env h f (dev w) = (r1, d1)" by (cases "usb_out env h f (dev w)")
  obtain r2 data d2 where i: "usb_in env h d1 = (r2, data, d2)" by (cases "usb_in env h d1")
  show ?thesis
    using assms
    by (intro that [OF o _ i]) (auto simp: gnubby_exchange_def usb_send_def o i Let_def split: if_splits)
qed

lemma take_padded:
  assumes "length xs \<le> n" and "length xs \<le> k + 7" and "7 + k \<le> n"
  shows "take k (drop 7 (xs @ replicate (n - length xs) z)) = drop 7 xs @ replicate (k - (length xs - 7)) z"
proof -
  have "min (k - (length xs - 7)) (n - length xs - (7 - length xs)) = k - (length xs - 7)"
    using assms by linarith
  then show ?thesis using assms by simp
qed

text \<open>C19: The payload that a successful exchange returns is the reply behind its seven header bytes,
  padded with zeros up to the length that bytes 5 and 6 of the reply announce, the high byte first: a reply whose first five bytes do not echo the request,
  that is longer than announced, or whose announced length exceeds the caller's buffer or the receive buffer is
  never accepted, but one that ends early is.\<close>

theorem gnubby_exchange_payload:
  assumes "gnubby_exchange env h f cap w = (Inr rsp, w')"
  shows "\<exists>r1 d1 r2 reply d2. usb_out env h f (dev w) = (r1, d1) \<and> 0 \<le> r1 \<and>
    usb_in env h d1 = (r2, reply, d2) \<and> 0 \<le> r2 \<and> reply \<noteq> [] \<and>
    take 5 f = take 5 (received reply) \<and>
    length rsp = unat (received reply ! 5) * 256 + unat (received reply ! 6) \<and>
    rsp = drop 7 (take RCV_SIZE reply) @ replicate (length rsp - (length (take RCV_SIZE reply) - 7)) 0 \<and>
    length (take RCV_SIZE reply) \<le> 7 + length rsp \<and>
    length rsp \<le> cap \<and> length rsp + 7 \<le> RCV_SIZE \<and> frames w' = frames w @ [f]"
proof -
  from exchange_InrE [OF assms] obtain r1 d1 r2 reply d2 where
    io: "usb_out env h f (dev w) = (r1, d1)" "0 \<le> r1"
      "usb_in env h d1 = (r2, reply, d2)" "0 \<le> r2" "reply \<noteq> []" "take 5 f = take 5 (received reply)"
    and l: "length (take RCV_SIZE reply) \<le> unat (received reply ! 5) * 256 + unat (received reply ! 6) + 7"
      "unat (received reply ! 5) * 256 + unat (received reply ! 6) \<le> cap"
      "7 + (unat (received reply ! 5) * 256 + unat (received reply ! 6)) \<le> RCV_SIZE"
    and r: "rsp = take (unat (received reply ! 5) * 256 + unat (received reply ! 6)) (drop 7 (received reply))"
    by blast
  let ?n = "unat (received reply ! 5) * 256 + unat (received reply ! 6)"
  have n: "length rsp = ?n" using l(3) by (simp add: r)
  have pad: "rsp = drop 7 (take RCV_SIZE reply) @ replicate (length rsp - (length (take RCV_SIZE reply) - 7)) 0"
  proof -
    have "received reply = take RCV_SIZE reply @ replicate (RCV_SIZE - length (take RCV_SIZE reply)) 0"
      by (simp add: received_def)
    moreover have "rsp = take (length rsp) (drop 7 (received reply))"
      using r n by simp
    ultimately show ?thesis
      using take_padded [of "take RCV_SIZE reply" RCV_SIZE "length rsp"] l(1,3) n
      by (metis add.commute length_take min.cobounded2)
  qed
  have fr: "frames w' = frames w @ [f]"
    using frames_exchange [of env h f cap w] assms by simp
  have len: "length (take RCV_SIZE reply) \<le> 7 + length rsp" "length rsp \<le> cap" "length rsp + 7 \<le> RCV_SIZE"
    using l unfolding n [symmetric] by linarith+
  show ?thesis
    by (intro exI conjI) (rule io n pad len fr)+
qed

lemma replicate_2: "replicate 2 x = [x, x]"
  by (simp add: numeral_2_eq_2)

text \<open>A token that answers every frame with its first five bytes and a given payload.\<close>

definition echo_env :: "u8 list \<Rightarrow> (u8 list) gnubby_env" where
  "echo_env tail =
     \<lparr>usb_out = (\<lambda>h f d. (0, f)), usb_in = (\<lambda>h d. (0, take 5 d @ tail, d)), pid = 0x1234,
      getpass = (\<lambda>d. (''123456'', d)), rand32 = (\<lambda>d. (7, d)), generate_key = (\<lambda>d. (5, d)),
      home_dir = ''/root'', token_read = (\<lambda>n d. (None, d)), token_write = (\<lambda>n t d. d),
      token_unlink = (\<lambda>n d. d)\<rparr>"

theorem gnubby_exchange_payload_witness:
  "\<exists>rsp w'. gnubby_exchange (echo_env [0, 3, 0x90]) 0 [1, 2, 3, 4, 0x83, 0, 0] 10 \<lparr>frames = [], dev = []\<rparr> = (Inr rsp, w') \<and>
     rsp = [0x90, 0, 0] \<and> length rsp \<le> 10"
proof -
  have run: "\<exists>w'. gnubby_exchange (echo_env [0, 3, 0x90]) 0 [1, 2, 3, 4, 0x83, 0, 0] 10 \<lparr>frames = [], dev = []\<rparr> =
      (Inr [0x90, 0, 0], w')"
    by (simp add: gnubby_exchange_def echo_env_def usb_send_def received_def RCV_SIZE_def replicate_2)
  then obtain w' where run: "gnubby_exchange (echo_env [0, 3, 0x90]) 0 [1, 2, 3, 4, 0x83, 0, 0] 10 \<lparr>frames = [], dev = []\<rparr> =
      (Inr [0x90, 0, 0], w')" ..
  from gnubby_exchange_payload [OF run] run show ?thesis by blast
qed

text \<open>The one fault: an announced length that the caller's buffer takes but the receive buffer does not hold.\<close>

lemma exchange_fault:
  assumes "fst (gnubby_exchange env h f cap w) = Inl e"
  shows "e = IFD_COMMUNICATION_ERROR \<or> e = MemoryFault \<and> RCV_SIZE < 7 + cap"
  using assms by (auto simp: gnubby_exchange_def Let_def split: prod.splits if_splits)

section \<open>The commands keep the contract\<close>

definition lock_frame :: "u32 \<Rightarrow> u8 \<Rightarrow> u8 list" where
  "lock_frame p n = usb_frame p CMD_LOCK [n]"

definition wink_frame :: "u32 \<Rightarrow> u8 list" where
  "wink_frame p = usb_frame p CMD_WINK []"

definition apdu_frame :: "u32 \<Rightarrow> u8 list \<Rightarrow> u8 list" where
  "apdu_frame p tx = usb_frame p CMD_APDU tx"

lemma apdu_construct:
  "length tx \<le> 2041 \<Longrightarrow>
    construct_usb_frame p CMD_APDU tx (of_nat (length tx)) 2048 = Inr (apdu_frame p tx)"
  unfolding apdu_frame_def by (rule construct_usb_frame_ok) simp_all

lemma gnubby_apdu_eq:
  "length tx \<le> 2041 \<Longrightarrow> gnubby_apdu env h tx cap = gnubby_exchange env h (apdu_frame (pid env) tx) cap"
  by (rule ext) (simp add: gnubby_apdu_def usb_bind_def lift_frame_def apdu_construct)

lemma lock_construct: "construct_usb_frame p CMD_LOCK [n] 1 10 = Inr (lock_frame p n)"
  using construct_usb_frame_ok [of "[n]" 10 p CMD_LOCK] by (simp add: lock_frame_def)

lemma wink_construct: "construct_usb_frame p CMD_WINK [] 0 10 = Inr (wink_frame p)"
  using construct_usb_frame_ok [of "[]" 10 p CMD_WINK] by (simp add: wink_frame_def)

lemma exchange_frames:
  "gnubby_exchange env h f cap w = (r, w') \<Longrightarrow> frames w' = frames w @ [f]"
  using frames_exchange [of env h f cap w] by simp

interpretation exchange: usb_command "gnubby_exchange env h f cap" "[f]" for env h f cap
  by unfold_locales (rule frames_exchange)

interpretation lock: safe_command "gnubby_lock env h n" "[lock_frame (pid env) n]" for env h n
proof unfold_locales
  show "frames (snd (gnubby_lock env h n w)) = frames w @ [lock_frame (pid env) n]" for w
    by (auto simp: gnubby_lock_def usb_bind_def lift_frame_def lock_construct exchange_frames
      split: prod.splits sum.splits)
  show "fst (gnubby_lock env h n w) = Inl e \<Longrightarrow> e = IFD_COMMUNICATION_ERROR" for w e
    using exchange_fault [of env h "lock_frame (pid env) n" 10 w]
    by (auto simp: gnubby_lock_def usb_bind_def lift_frame_def lock_construct RCV_SIZE_def
      split: prod.splits sum.splits if_splits)
qed

interpretation wink: safe_command "gnubby_wink env h" "[wink_frame (pid env)]" for env h
proof unfold_locales
  show "frames (snd (gnubby_wink env h w)) = frames w @ [wink_frame (pid env)]" for w
    by (auto simp: gnubby_wink_def usb_bind_def usb_return_def lift_frame_def wink_construct exchange_frames
      split: prod.splits sum.splits)
  show "fst (gnubby_wink env h w) = Inl e \<Longrightarrow> e = IFD_COMMUNICATION_ERROR" for w e
    using exchange_fault [of env h "wink_frame (pid env)" 10 w]
    by (auto simp: gnubby_wink_def usb_bind_def usb_return_def lift_frame_def wink_construct RCV_SIZE_def
      split: prod.splits sum.splits)
qed

end
