(* ===== verification/GnubbyProtocol.thy ===== *)
theory GnubbyProtocol
  imports GnubbyLink
begin

text \<open>
  The protocol of \<open>Gnubby::doSign\<close> and the loops around it: the step relation is the one
  function \<open>gnubby_next\<close>, runs follow it, every reachable state keeps the session
  invariant, and what follows for \<open>doSign\<close>, \<open>sign\<close>, \<open>write_bn\<close> and
  \<open>write\<close>.
\<close>

section \<open>The step relation\<close>

inductive_simps gnubby_step_at: "gnubby_step env c s s'"

lemma gnubby_step_iff: "gnubby_step env c s s' \<longleftrightarrow> \<not> stopped s \<and> s' = gnubby_next env c s"
  by (cases "pc s") (auto simp: gnubby_step_at gnubby_next_def stopped_def)

lemma gnubby_run_steps:
  "gnubby_run n env c s = Some s' \<Longrightarrow> (gnubby_step env c)\<^sup>*\<^sup>* s s' \<and> stopped s'"
proof (induction n arbitrary: s)
  case 0
  then show ?case by (simp split: if_splits)
next
  case (Suc n)
  then show ?case
    by (auto split: if_splits intro: converse_rtranclp_into_rtranclp simp: gnubby_step_iff)
qed

section \<open>Lengths\<close>

definition well_sized :: "'d gnubby_state \<Rightarrow> bool" where
  "well_sized s \<longleftrightarrow> length (resp s) = 2048 \<and> length (token s) = 16"

lemma length_rand_bytes: "rand_bytes rnd n i d = (bs, d') \<Longrightarrow> length bs = n"
  by (induction n arbitrary: i d bs d') (auto split: prod.splits simp: Let_def)

lemma length_getPIN:
  assumes "crypto_ok cr" and "getPIN cr env d = (pin, d')"
  shows "length pin = 16"
proof -
  obtain out d1 where r: "rand_bytes (rand32 env) 16 0 d = (out, d1)" by (cases "rand_bytes (rand32 env) 16 0 d")
  obtain p d2 where p: "getpass env d1 = (p, d2)" by (cases "getpass env d1")
  from assms length_rand_bytes [OF r] show ?thesis
    by (auto simp: getPIN_def r p Let_def crypto_lengths)
qed

lemma length_sign_apdu:
  "crypto_ok cr \<Longrightarrow> length tok = 16 \<Longrightarrow> length (sign_apdu cr tok req) \<le> 279"
  by (simp add: sign_apdu_def crypto_lengths AES_set_key_def)

lemma length_unlock_apdu:
  "crypto_ok cr \<Longrightarrow> length (key_bytes a) = 16 \<Longrightarrow> length pin = 16 \<Longrightarrow>
    length (unlock_apdu cr ecdh a pin) = 86"
  by (simp add: unlock_apdu_def crypto_lengths)

lemma length_fixed_apdus: "length select_apdu = 11" "length read_slot_apdu = 23"
  by (simp_all add: select_apdu_def read_slot_apdu_def)

section \<open>One command of the protocol\<close>

lemma exchange_length: "gnubby_exchange env h f cap w = (Inr rsp, w') \<Longrightarrow> length rsp \<le> 2041 \<and> length rsp \<le> cap"
  by (erule exchange_InrE) (simp add: RCV_SIZE_def)

lemma do_apdu_cases:
  assumes "length tx \<le> 2041"
    and fault: "\<And>w. frames w = frames (usb s) @ [apdu_frame (pid env) tx] \<Longrightarrow> P (s\<lparr>pc := AtFault, usb := w\<rparr>)"
    and comm: "\<And>w. frames w = frames (usb s) @ [apdu_frame (pid env) tx] \<Longrightarrow>
      P (s\<lparr>pc := AtFail, usb := w, resp_len := 0, result := -1\<rparr>)"
    and reply: "\<And>w payload. frames w = frames (usb s) @ [apdu_frame (pid env) tx] \<Longrightarrow> length payload \<le> 2041 \<Longrightarrow>
      P (k (s\<lparr>usb := w, resp := payload @ drop (length payload) (resp s), resp_len := length payload, result := 0\<rparr>))"
  shows "P (do_apdu env h tx k s)"
proof -
  obtain r w where x: "gnubby_exchange env h (apdu_frame (pid env) tx) 2048 (usb s) = (r, w)"
    by (cases "gnubby_exchange env h (apdu_frame (pid env) tx) 2048 (usb s)")
  have fr: "frames w = frames (usb s) @ [apdu_frame (pid env) tx]"
    using x by (rule exchange_frames)
  show ?thesis
  proof (cases r)
    case (Inl e)
    then show ?thesis
      using fault [OF fr] comm [OF fr] x assms(1) by (simp add: do_apdu_def gnubby_apdu_eq)
  next
    case (Inr payload)
    then have "length payload \<le> 2041"
      using x exchange_length [of env h _ 2048 "usb s" payload w] by simp
    with Inr show ?thesis
      using reply [OF fr, of payload] x assms(1) by (simp add: do_apdu_def gnubby_apdu_eq)
  qed
qed

text \<open>The first step: what the lock leaves.\<close>

lemma lock_step_cases:
  assumes comm: "\<And>w. frames w = frames (usb s) @ [lock_frame (pid env) 100] \<Longrightarrow> P (s\<lparr>pc := AtFail, usb := w, result := -1\<rparr>)"
    and ok: "\<And>w. frames w = frames (usb s) @ [lock_frame (pid env) 100] \<Longrightarrow> P (s\<lparr>pc := AtSelect, usb := w, result := 0\<rparr>)"
  shows "P (lock_step env h s)"
proof -
  obtain r w where x: "gnubby_lock env h 100 (usb s) = (r, w)" by (cases "gnubby_lock env h 100 (usb s)")
  note fr = lock.frames_after [OF x]
  show ?thesis
  proof (cases r)
    case (Inl e)
    then have "e = IFD_COMMUNICATION_ERROR" using x by (auto intro: lock.fault_free_run)
    with Inl show ?thesis using comm [OF fr] x by (simp add: lock_step_def)
  next
    case (Inr u)
    then show ?thesis using ok [OF fr] x by (simp add: lock_step_def)
  qed
qed

section \<open>doSign as it is: no signature\<close>

lemma not_stopped_simps [simp]:
  "pc s = AtLock \<Longrightarrow> \<not> stopped s" "pc s = AtSelect \<Longrightarrow> \<not> stopped s" "pc s = AtAgain \<Longrightarrow> \<not> stopped s"
  "pc s = AtToken \<Longrightarrow> \<not> stopped s" "pc s = AtSignLoop \<Longrightarrow> \<not> stopped s" "pc s = AtFail \<Longrightarrow> \<not> stopped s"
  "pc s = AtReturn \<Longrightarrow> stopped s" "pc s = AtFault \<Longrightarrow> stopped s"
  by (simp_all add: stopped_def)

definition no_signature :: "'d gnubby_state option \<Rightarrow> bool" where
  "no_signature r \<longleftrightarrow> (\<exists>s. r = Some s \<and> stopped s \<and> result s \<le> 0 \<and> sig_out s = None)"

lemma run_stopped: "stopped s \<Longrightarrow> gnubby_run n env c s = Some s"
  by (cases n) simp_all

lemma run_fail:
  "pc s = AtFail \<Longrightarrow> result s \<le> 0 \<Longrightarrow> sig_out s = None \<Longrightarrow> no_signature (gnubby_run (Suc n) env c s)"
  by (simp add: gnubby_next_def unlock_step_def run_stopped no_signature_def)

lemma run_fault:
  "pc s = AtFault \<Longrightarrow> result s \<le> 0 \<Longrightarrow> sig_out s = None \<Longrightarrow> no_signature (gnubby_run n env c s)"
  by (simp add: run_stopped no_signature_def)

lemma run_again:
  assumes "pc s = AtAgain" and "result s \<le> 0" and "sig_out s = None"
  shows "no_signature (gnubby_run (Suc (Suc n)) env c s)"
proof -
  have "no_signature (gnubby_run (Suc n) env c (slot_step (call_bn c) env (call_handle c) local_rsa (call_key c) s))"
    unfolding slot_step_def
    by (rule do_apdu_cases)
      (use assms in \<open>auto simp: run_fail run_fault length_fixed_apdus key_matches_def local_rsa_def Let_def
        simp del: gnubby_run.simps\<close>)
  then show ?thesis using assms by (simp add: gnubby_next_def)
qed

lemma run_select:
  assumes "pc s = AtSelect" and "result s \<le> 0" and "sig_out s = None"
  shows "no_signature (gnubby_run (Suc (Suc (Suc n))) env c s)"
proof -
  have "no_signature (gnubby_run (Suc (Suc n)) env c (select_step env (call_handle c) s))"
    unfolding select_step_def
    by (rule do_apdu_cases)
      (use assms in \<open>auto simp: run_fail run_fault run_again length_fixed_apdus simp del: gnubby_run.simps\<close>)
  then show ?thesis using assms by (simp add: gnubby_next_def)
qed

lemma doSign_without_rsa:
  "\<exists>s. doSign (4 + n) cr bn env h req k junk w = Some s \<and> stopped s \<and> result s \<le> 0 \<and> sig_out s = None"
proof -
  obtain priv d where g: "generate_key env (dev w) = (priv, d)" by (cases "generate_key env (dev w)")
  define c where "c = \<lparr>call_crypto = cr, call_bn = bn, call_handle = h, call_key = k,
            call_ecdh = \<lparr>private_key = priv\<rparr>, call_padded = req\<rparr>"
  let ?s = "doSign_start junk (w\<lparr>dev := d\<rparr>)"
  have "no_signature (gnubby_run (Suc (Suc (Suc n))) env c (lock_step env h ?s))"
    by (rule lock_step_cases)
      (auto simp: run_fail run_select doSign_start_def c_def simp del: gnubby_run.simps)
  moreover have "pc ?s = AtLock" by (simp add: doSign_start_def)
  ultimately have "no_signature (gnubby_run (Suc (Suc (Suc (Suc n)))) env c ?s)"
    by (simp add: gnubby_next_def c_def)
  moreover have "4 + n = Suc (Suc (Suc (Suc n)))" by simp
  ultimately have "no_signature (gnubby_run (4 + n) env c ?s)" by (simp only:)
  then show ?thesis
    by (simp add: doSign_def g c_def no_signature_def)
qed

text \<open>C15: \<open>doSign\<close> as it is in the source always comes to an end within four commands and
  never produces a signature, whatever the token answers: its local \<open>rsa\<close> stays null, so the comparison of
  the public keys always fails.\<close>

theorem doSign_never_signs:
  "\<exists>s. doSign (4 + n) cr bn env h req k junk w = Some s \<and> stopped s \<and> result s \<le> 0 \<and> sig_out s = None"
  by (rule doSign_without_rsa)

lemma try_devices_none:
  "\<exists>r. try_devices (4 + n) cr bn env req k junk i ds w = Some r \<and> (\<forall>x sg w'. r = Inr (x, sg, w') \<longrightarrow> x = -1 \<and> sg = None)"
proof (induction ds arbitrary: i w)
  case Nil
  then show ?case by simp
next
  case (Cons d ds)
  from doSign_without_rsa [of n cr bn env i req k junk w] obtain s
    where "doSign (4 + n) cr bn env i req k junk w = Some s" "result s \<le> 0" by blast
  with Cons show ?case by auto
qed

lemma gnubby_sign_without_rsa:
  "\<exists>r. gnubby_sign (4 + n) cr bn env devices digest k junk w = Some r \<and>
    (\<forall>x sg w'. r = Inr (x, sg, w') \<longrightarrow> x = -1 \<and> sg = None)"
  unfolding gnubby_sign_def by (rule try_devices_none)

text \<open>\<open>Gnubby::sign\<close> returns -1 on every list of devices (or stops in a fault that a
  reply provokes): no token ever signs.\<close>

theorem gnubby_sign_fails:
  "\<exists>r. gnubby_sign (4 + n) cr bn env devices digest k junk w = Some r \<and>
    (case r of Inl fault \<Rightarrow> True | Inr (x, sg, w') \<Rightarrow> x = -1 \<and> sg = None)"
  using gnubby_sign_without_rsa [of n cr bn env devices digest k junk w] by (auto split: sum.split)

section \<open>The protocol on every path\<close>

text \<open>
  The invariant of every session that started with the frames \<open>f0\<close> sent: buffer sizes, the
  lock as the first frame, and what may hold at which program point.
\<close>

definition session :: "'d gnubby_env \<Rightarrow> u8 list list \<Rightarrow> 'd gnubby_state \<Rightarrow> bool" where
  "session env f0 s \<longleftrightarrow> (\<exists>fs. frames (usb s) = f0 @ fs \<and> (pc s = AtLock \<longrightarrow> fs = []) \<and>
     (pc s \<noteq> AtLock \<longrightarrow> fs \<noteq> [] \<and> hd fs = lock_frame (pid env) 100) \<and>
     (pc s = AtReturn \<longrightarrow> last fs = lock_frame (pid env) 0))"

definition signed :: "'d gnubby_env \<Rightarrow> sign_call \<Rightarrow> 'd gnubby_state \<Rightarrow> bool" where
  "signed env c s \<longleftrightarrow> (\<exists>sg pre tok. sig_out s = Some sg \<and> length sg = 256 \<and> length tok = 16 \<and>
     frames (usb s) = pre @ [apdu_frame (pid env) (sign_apdu (call_crypto c) tok (call_padded c))] @
       (if pc s = AtReturn then [lock_frame (pid env) 0] else []))"

definition gnubby_inv :: "'d gnubby_env \<Rightarrow> sign_call \<Rightarrow> u8 list list \<Rightarrow> 'd gnubby_state \<Rightarrow> bool" where
  "gnubby_inv env c f0 s \<longleftrightarrow> well_sized s \<and> session env f0 s \<and>
     (result s = 1 \<longrightarrow> (pc s = AtFail \<or> pc s = AtReturn) \<and> signed env c s)"

lemma inv_start: "gnubby_inv env c (frames w) (doSign_start junk w)"
  by (simp add: gnubby_inv_def well_sized_def session_def doSign_start_def)

lemma session_frames:
  assumes "session env f0 s" and "pc s \<noteq> AtLock" and "frames (usb s') = frames (usb s) @ fs"
    and "pc s' \<noteq> AtLock" and "pc s' \<noteq> AtReturn"
  shows "session env f0 s'"
  using assms by (auto simp: session_def)

lemma length_overwrite: "length bs \<le> 2041 \<Longrightarrow> length xs = 2048 \<Longrightarrow> length (bs @ drop (length bs) xs) = 2048"
  by simp

lemma inv_facts:
  assumes "gnubby_inv env c f0 s"
  shows "length (resp s) = 2048" and "length (token s) = 16" and "session env f0 s"
    and "pc s \<noteq> AtFail \<Longrightarrow> pc s \<noteq> AtReturn \<Longrightarrow> result s \<noteq> 1"
  using assms by (auto simp: gnubby_inv_def well_sized_def)

text \<open>How a command that does not sign keeps the invariant.\<close>

lemma inv_quiet:
  assumes "gnubby_inv env c f0 s" and "pc s \<noteq> AtLock" and "frames (usb s') = frames (usb s) @ fs"
    and "well_sized s'" and "pc s' \<noteq> AtLock" and "pc s' \<noteq> AtReturn" and "result s' \<noteq> 1"
  shows "gnubby_inv env c f0 s'"
  using assms session_frames [of env f0 s s' fs] by (auto simp: gnubby_inv_def)

lemma inv_lock:
  assumes "gnubby_inv env c f0 s" and "pc s = AtLock"
  shows "gnubby_inv env c f0 (lock_step env h s)"
  by (rule lock_step_cases) (use assms in \<open>auto simp: gnubby_inv_def well_sized_def session_def\<close>)

lemma inv_select:
  assumes "gnubby_inv env c f0 s" and "pc s = AtSelect"
  shows "gnubby_inv env c f0 (select_step env h s)"
  unfolding select_step_def
  by (rule do_apdu_cases)
    (use assms inv_facts [OF assms(1)] in \<open>auto intro!: inv_quiet [OF assms(1)] simp: length_fixed_apdus well_sized_def\<close>)

lemma inv_slot:
  assumes "gnubby_inv env c f0 s" and "pc s = AtAgain"
  shows "gnubby_inv env c f0 (slot_step (call_bn c) env h local_rsa (call_key c) s)"
  unfolding slot_step_def
  by (rule do_apdu_cases)
    (use assms inv_facts [OF assms(1)] in
      \<open>auto intro!: inv_quiet [OF assms(1)] simp: length_fixed_apdus well_sized_def Let_def\<close>)

lemma inv_dev: "gnubby_inv env c f0 (s\<lparr>usb := (usb s)\<lparr>dev := d\<rparr>\<rparr>) \<longleftrightarrow> gnubby_inv env c f0 s"
  by (simp add: gnubby_inv_def well_sized_def session_def signed_def)

lemma inv_pin:
  assumes "crypto_ok cr" and "gnubby_inv env c f0 s" and "pc s = AtToken"
  shows "gnubby_inv env c f0 (pin_step cr env h ecdh s)"
proof -
  obtain pin d where p: "getPIN cr env (dev (usb s)) = (pin, d)" by (cases "getPIN cr env (dev (usb s))")
  note len = length_getPIN [OF assms(1) p]
  define s1 where "s1 = s\<lparr>usb := (usb s)\<lparr>dev := d\<rparr>\<rparr>"
  have s1: "gnubby_inv env c f0 s1" "pc s1 = AtToken" "well_sized s1"
    using assms by (simp_all add: s1_def inv_dev) (simp add: gnubby_inv_def well_sized_def)
  show ?thesis
    unfolding pin_step_def p Let_def prod.case s1_def [symmetric]
    by (rule do_apdu_cases)
      (use assms(1) s1 inv_facts [OF s1(1)] len in \<open>auto intro!: inv_quiet [OF s1(1)]
        simp: length_unlock_apdu crypto_lengths well_sized_def AES_set_key_def\<close>)
qed

lemma inv_token:
  assumes "crypto_ok cr" and "gnubby_inv env c f0 s" and "pc s = AtToken"
  shows "gnubby_inv env c f0 (token_step cr env h ecdh s)"
proof -
  obtain t d where t: "getToken env (fp s) (dev (usb s)) = (t, d)" by (cases "getToken env (fp s) (dev (usb s))")
  show ?thesis
  proof (cases t)
    case None
    have "gnubby_inv env c f0 (s\<lparr>usb := (usb s)\<lparr>dev := d\<rparr>\<rparr>)" using assms(2) by (simp add: inv_dev)
    then show ?thesis
      using inv_pin [OF assms(1), of env c f0 "s\<lparr>usb := (usb s)\<lparr>dev := d\<rparr>\<rparr>"] assms(3)
      by (simp add: token_step_def t None)
  next
    case (Some tok)
    then have "length tok = 16"
      using t by (auto simp: getToken_def split: prod.splits option.splits if_splits)
    then show ?thesis
      using assms(2,3) by (auto simp: token_step_def t Some gnubby_inv_def well_sized_def session_def)
  qed
qed

lemma inv_unlock:
  assumes "gnubby_inv env c f0 s" and "pc s = AtFail"
  shows "gnubby_inv env c f0 (unlock_step env h s)"
proof -
  obtain r w where x: "gnubby_lock env h 0 (usb s) = (r, w)" by (cases "gnubby_lock env h 0 (usb s)")
  note fr = lock.frames_after [OF x]
  show ?thesis
    using assms by (auto simp: unlock_step_def x fr gnubby_inv_def well_sized_def session_def signed_def)
qed

lemma inv_sign:
  assumes "crypto_ok (call_crypto c)" and "gnubby_inv env c f0 s" and "pc s = AtSignLoop"
  shows "gnubby_inv env c f0 (sign_step (call_crypto c) env h (call_padded c) s)"
proof -
  note tok = inv_facts(1,2) [OF assms(2)] and se = inv_facts(3) [OF assms(2)]
  have r: "result s \<noteq> 1" using inv_facts(4) [OF assms(2)] assms(3) by simp
  have sz: "length (sign_apdu (call_crypto c) (token s) (call_padded c)) \<le> 2041"
    using length_sign_apdu [OF assms(1) tok(2), of "call_padded c"] by simp
  show ?thesis
    unfolding sign_step_def
  proof (rule do_apdu_cases [OF sz], goal_cases)
    case (1 w)
    then show ?case using assms(3) tok r by (intro inv_quiet [OF assms(2)]) (auto simp: well_sized_def)
  next
    case (2 w)
    then show ?case using assms(3) tok r by (intro inv_quiet [OF assms(2)]) (auto simp: well_sized_def)
  next
    case (3 w payload)
    let ?s = "s\<lparr>usb := w, resp := payload @ drop (length payload) (resp s), resp_len := length payload, result := 0\<rparr>"
    have ws: "well_sized ?s" using 3 tok by (simp add: well_sized_def)
    have wk: "frames (snd (gnubby_wink env h w)) = frames w @ [wink_frame (pid env)]"
      by (rule wink.frames_run)
    have "gnubby_inv env c f0 (?s\<lparr>usb := snd (gnubby_wink env h w)\<rparr>)"
      using 3 assms(3) ws by (intro inv_quiet [OF assms(2)]) (auto simp: well_sized_def wk)
    moreover have "gnubby_inv env c f0 (?s\<lparr>pc := AtAgain, usb := w\<lparr>dev := forgetToken env (fp s) (dev w)\<rparr>\<rparr>)"
      using 3 assms(3) ws by (intro inv_quiet [OF assms(2)]) (auto simp: well_sized_def)
    moreover have "gnubby_inv env c f0 (?s\<lparr>pc := AtFail\<rparr>)"
      using 3 assms(3) ws by (intro inv_quiet [OF assms(2)]) (auto simp: well_sized_def)
    moreover have "gnubby_inv env c f0
        (?s\<lparr>pc := AtFail, sig_out := Some (take 256 (payload @ drop (length payload) (resp s))), result := 1\<rparr>)"
      using 3 assms(3) tok session_frames [OF se]
      by (auto simp: gnubby_inv_def well_sized_def signed_def)
    ultimately show ?case by simp
  qed
qed

lemma inv_next:
  assumes "crypto_ok (call_crypto c)" and "gnubby_inv env c f0 s" and "gnubby_step env c s s'"
  shows "gnubby_inv env c f0 s'"
  using assms(3)
proof cases
  case lock
  then show ?thesis using inv_lock assms(2) by blast
next
  case select
  then show ?thesis using inv_select assms(2) by blast
next
  case again
  then show ?thesis using inv_slot assms(2) by blast
next
  case token
  then show ?thesis using inv_token assms(1,2) by blast
next
  case sign
  then show ?thesis using inv_sign assms(1,2) by blast
next
  case fail
  then show ?thesis using inv_unlock assms(2) by blast
qed

lemma inv_reachable:
  assumes "crypto_ok (call_crypto c)" and "(gnubby_step env c)\<^sup>*\<^sup>* (doSign_start junk w) s"
  shows "gnubby_inv env c (frames w) s"
  using assms(2) by (induction rule: rtranclp_induct) (auto intro: inv_start inv_next assms(1))

text \<open>C11: Every session of the signing protocol that returns began by locking the token and ended by
  unlocking it, on every path: the first frame it sent is the lock command, the last one the unlock command.\<close>

theorem doSign_locks_and_unlocks:
  assumes "crypto_ok (call_crypto c)"
    and "(gnubby_step env c)\<^sup>*\<^sup>* (doSign_start junk w) s" and "pc s = AtReturn"
  shows "\<exists>fs. frames (usb s) = frames w @ fs \<and> fs \<noteq> [] \<and>
    hd fs = lock_frame (pid env) 100 \<and> last fs = lock_frame (pid env) 0"
  using inv_facts(3) [OF inv_reachable [OF assms(1,2)]] assms(3) by (auto simp: session_def)

section \<open>A token that answers, and one that is unplugged\<close>

definition const_crypto :: crypto where
  "const_crypto =
     \<lparr>SHA256 = (\<lambda>m. replicate 32 1), AES_encrypt = (\<lambda>k b. b), AES_decrypt = (\<lambda>k b. b),
      CMAC_aes_128_cbc = (\<lambda>k m. replicate 16 2), EC_public_oct = (\<lambda>d. replicate 65 3),
      EC_mul_oct = (\<lambda>p d. replicate 65 4)\<rparr>"

lemma const_crypto_ok: "crypto_ok const_crypto"
  by (simp add: crypto_ok_def const_crypto_def)

definition unplugged_env :: "(u8 list) gnubby_env" where
  "unplugged_env = (echo_env [])\<lparr>usb_out := (\<lambda>h f d. (-1, d))\<rparr>"

definition sample_call :: sign_call where
  "sample_call =
     \<lparr>call_crypto = const_crypto, call_bn = nat_bn\<lparr>BN_bn2bin := (\<lambda>n. replicate 256 5)\<rparr>, call_handle = 0,
      call_key = \<lparr>evp_rsa = \<lparr>rsa_n = 15, rsa_e = 3, rsa_d = 3, rsa_p = 3, rsa_q = 5, rsa_dmp1 = 1, rsa_dmq1 = 3, rsa_iqmp = 2\<rparr>,
        evp_is_rsa = True, evp_size = 256\<rparr>,
      call_ecdh = \<lparr>private_key = 1\<rparr>, call_padded = padded_request (replicate 32 1)\<rparr>"

definition fresh_world :: "(u8 list) usb_world" where
  "fresh_world = \<lparr>frames = [], dev = []\<rparr>"

lemma steps_next:
  "(gnubby_step env c)\<^sup>*\<^sup>* s0 s \<Longrightarrow> \<not> stopped s \<Longrightarrow> (gnubby_step env c)\<^sup>*\<^sup>* s0 (gnubby_next env c s)"
  by (rule rtranclp.rtrancl_into_rtrancl) (simp_all add: gnubby_step_iff)

theorem doSign_locks_and_unlocks_witness:
  "\<exists>s fs. (gnubby_step unplugged_env sample_call)\<^sup>*\<^sup>* (doSign_start [] fresh_world) s \<and> result s = -1 \<and>
     frames (usb s) = fs \<and> fs \<noteq> [] \<and> hd fs = lock_frame 0x1234 100 \<and> last fs = lock_frame 0x1234 0"
proof -
  let ?s0 = "doSign_start [] fresh_world"
  let ?s1 = "gnubby_next unplugged_env sample_call ?s0"
  let ?s2 = "gnubby_next unplugged_env sample_call ?s1"
  have s1: "pc ?s0 = AtLock" "pc ?s1 = AtFail" "result ?s1 = -1"
    by (simp_all add: gnubby_next_def doSign_start_def lock_step_def gnubby_lock_def usb_bind_def lift_frame_def
        lock_construct gnubby_exchange_def usb_send_def unplugged_env_def echo_env_def)
  then have s2: "pc ?s2 = AtReturn" "result ?s2 = -1"
    by (simp_all add: gnubby_next_def [of _ _ ?s1] unlock_step_def)
  have "(gnubby_step unplugged_env sample_call)\<^sup>*\<^sup>* ?s0 ?s2"
    using s1 by (intro steps_next rtranclp.rtrancl_refl) simp_all
  moreover from doSign_locks_and_unlocks [OF _ this s2(1)] const_crypto_ok
  have "\<exists>fs. frames (usb ?s2) = frames fresh_world @ fs \<and> fs \<noteq> [] \<and>
    hd fs = lock_frame (pid unplugged_env) 100 \<and> last fs = lock_frame (pid unplugged_env) 0"
    by (simp add: sample_call_def)
  ultimately show ?thesis
    using s2(2) by (auto simp: fresh_world_def unplugged_env_def echo_env_def)
qed

text \<open>A token with the right key and a valid signature, behind a stored pairing token.\<close>

definition token_reply :: "u8 list \<Rightarrow> u8 list" where
  "token_reply f =
     (if f ! 4 = CMD_LOCK then [0, 0]
      else if f ! 8 = 0xa4 then [0, 2, 0x90, 0]
      else if f ! 8 = 0x43 then [1, 165] @ 0 # replicate 256 5 @ replicate 162 6 @ [0x90, 0]
      else [1, 2] @ replicate 256 7 @ [0x90, 0])"

definition signing_env :: "(u8 list) gnubby_env" where
  "signing_env = (echo_env [])\<lparr>usb_out := (\<lambda>h f d. (0, f)), usb_in := (\<lambda>h d. (0, take 5 d @ token_reply d, d)),
     token_read := (\<lambda>n d. (Some (replicate 16 9), d))\<rparr>"

lemma signing_exchange:
  assumes "token_reply f = [hi, lo] @ payload" and "length payload = unat hi * 256 + unat lo"
    and "length payload \<le> cap" and "length payload \<le> 2041" and "5 \<le> length f"
  shows "gnubby_exchange signing_env h f cap w = (Inr payload, w\<lparr>frames := frames w @ [f], dev := f\<rparr>)"
proof -
  have t: "received (take 5 f @ token_reply f) = take 5 f @ [hi, lo] @ payload @ replicate (2041 - length payload) 0"
    using assms by (simp add: received_def RCV_SIZE_def)
  have "received (take 5 f @ token_reply f) ! 5 = hi" "received (take 5 f @ token_reply f) ! 6 = lo"
    "take 5 (received (take 5 f @ token_reply f)) = take 5 f"
    "take (length payload) (drop 7 (received (take 5 f @ token_reply f))) = payload"
    using assms(5) unfolding t by (simp_all add: nth_append)
  moreover have "f \<noteq> []" using assms(5) by auto
  ultimately show ?thesis
    using assms by (simp add: gnubby_exchange_def usb_send_def signing_env_def Let_def RCV_SIZE_def)
qed

lemma frame_nths: "usb_frame p cmd data ! 4 = cmd" "usb_frame p cmd (a # b # bs) ! 8 = b"
  "5 \<le> length (usb_frame p cmd data)"
  by (simp_all add: usb_frame_def le_bytes_4)

lemma signing_lock: "gnubby_lock signing_env h n w =
    (Inr (), w\<lparr>frames := frames w @ [lock_frame 0x1234 n], dev := lock_frame 0x1234 n\<rparr>)"
proof -
  have "token_reply (lock_frame 0x1234 n) = [0, 0] @ []"
    by (simp add: token_reply_def lock_frame_def frame_nths)
  from signing_exchange [OF this, of 10 h w] show ?thesis
    by (simp add: gnubby_lock_def usb_bind_def lift_frame_def lock_construct lock_frame_def frame_nths
      signing_env_def echo_env_def)
qed

section \<open>The padded request\<close>

text \<open>EMSA-PKCS1-v1_5 of RFC 8017: the encoding of a digest of algorithm prefix \<open>info\<close>.\<close>

text \<open>
  The encoding of the standard, built from its grammar: a DER element is its tag, its length (below
  128 here) and its contents, an object identifier is written in base 128, and the padding fills the
  length of the modulus.
\<close>

definition der :: "u8 \<Rightarrow> u8 list \<Rightarrow> u8 list" where
  "der kind body = kind # of_nat (length body) # body"

fun base128 :: "nat \<Rightarrow> u8 list" where
  "base128 n = (if n < 128 then [of_nat n] else map (\<lambda>b. b OR 0x80) (base128 (n div 128)) @ [of_nat (n mod 128)])"

declare base128.simps [simp del]

fun oid_bytes :: "nat list \<Rightarrow> u8 list" where
  "oid_bytes (a # b # arcs) = of_nat (40 * a + b) # concat (map base128 arcs)"
| "oid_bytes arcs = []"

definition digest_info :: "nat list \<Rightarrow> u8 list \<Rightarrow> u8 list" where
  "digest_info oid digest =
     der 0x30 (der 0x30 (der 0x06 (oid_bytes oid) @ der 0x05 []) @ der 0x04 digest)"

definition sha256_oid :: "nat list" where
  "sha256_oid = [2, 16, 840, 1, 101, 3, 4, 2, 1]"

definition emsa_pkcs1_v15 :: "nat \<Rightarrow> u8 list \<Rightarrow> u8 list" where
  "emsa_pkcs1_v15 len t = [0x00, 0x01] @ replicate (len - length t - 3) 0xff @ [0x00] @ t"

lemma sha256_oid_bytes: "oid_bytes sha256_oid = [0x60, 0x86, 0x48, 0x01, 0x65, 0x03, 0x04, 0x02, 0x01]"
  by (simp add: sha256_oid_def base128.simps)

text \<open>C26: The request that \<open>sign\<close> prepares by overwriting a buffer of 0xff bytes is the
  PKCS#1 v1.5 signature encoding of the SHA-256 digest for a 2048-bit modulus.\<close>

theorem padded_request_is_emsa:
  assumes "length digest = 32"
  shows "padded_request digest = emsa_pkcs1_v15 256 (digest_info sha256_oid digest)"
proof -
  have "replicate 256 x = x # x # replicate 254 x" for x :: u8
    using replicate_add [of 2 254 x] by (simp add: replicate_2)
  then show ?thesis
    using assms
    by (simp add: padded_request_def patch_def emsa_pkcs1_v15_def digest_info_def der_def sha256_oid_bytes asn1_riddle_def Let_def)
qed

theorem padded_request_is_emsa_witness:
  "length (padded_request (replicate 32 7)) = 256 \<and> drop 223 (padded_request (replicate 32 7)) = 0x20 # replicate 32 7"
  by (subst (1 2) padded_request_is_emsa) (simp_all add: emsa_pkcs1_v15_def digest_info_def der_def sha256_oid_bytes)

section \<open>Transfer of a private key\<close>

definition write_frame :: "bn_lib \<Rightarrow> u32 \<Rightarrow> u8 \<times> nat \<times> nat \<Rightarrow> u8 list" where
  "write_frame bn p = (\<lambda>(p1, n, len). apdu_frame p (write_bn_req p1 len (BN_bn2bin bn n)))"

lemma write_bn_zeroE:
  assumes "write_bn bn env h p1 n len w = (Inr 0, w')"
  obtains "length (BN_bn2bin bn n) = len" and "frames w' = frames w @ [write_frame bn (pid env) (p1, n, len)]"
proof -
  from assms have sz: "7 + length (BN_bn2bin bn n) \<le> 1024" and len: "length (BN_bn2bin bn n) = len"
    by (auto simp: write_bn_def Let_def split: if_splits)
  have "length (write_bn_req p1 len (BN_bn2bin bn n)) \<le> 2041" using sz by (simp add: write_bn_req_def)
  then have "frames w' = frames w @ [write_frame bn (pid env) (p1, n, len)]"
    using assms sz len
    by (auto simp: write_bn_def Let_def gnubby_apdu_eq write_frame_def exchange_frames
      split: prod.splits sum.splits if_splits)
  with len show ?thesis by (rule that)
qed

lemma write_bns_zeroE:
  assumes "write_bns bn env h parts res w = (Inr 0, w')"
  shows "res = 0 \<and> (\<forall>(p1, n, len) \<in> set parts. length (BN_bn2bin bn n) = len) \<and>
    frames w' = frames w @ map (write_frame bn (pid env)) parts"
  using assms
proof (induction parts arbitrary: res w)
  case Nil
  then show ?case by simp
next
  case (Cons part parts)
  obtain p1 n len where part: "part = (p1, n, len)" by (cases part)
  show ?case
  proof (cases "res = 0")
    case True
    obtain r w1 where b: "write_bn bn env h p1 n len w = (r, w1)" by (cases "write_bn bn env h p1 n len w")
    from Cons.prems True b obtain x where r: "r = Inr x"
      and rest: "write_bns bn env h parts (if x \<noteq> 0 then 1 else 0) w1 = (Inr 0, w')"
      by (cases r) (auto simp: part)
    from Cons.IH [OF rest] have x: "x = 0" by (simp split: if_splits)
    from b r x have "write_bn bn env h p1 n len w = (Inr 0, w1)" by simp
    then show ?thesis
      by (rule write_bn_zeroE) (use Cons.IH [OF rest] True in \<open>simp add: part\<close>)
  next
    case False
    with Cons.prems have "write_bns bn env h parts 1 w = (Inr 0, w')" by (simp add: part)
    from Cons.IH [OF this] show ?thesis by simp
  qed
qed

lemma write_session_zero:
  assumes "write_session bn env h rsa w = (Inr 0, w')"
  shows "(\<forall>(p1, n, len) \<in> set (key_parts rsa). length (BN_bn2bin bn n) = len) \<and>
    frames w' = frames w @ [lock_frame (pid env) 100, apdu_frame (pid env) select_apdu] @
      map (write_frame bn (pid env)) (key_parts rsa)"
proof -
  obtain r1 w1 where l: "gnubby_lock env h 100 w = (r1, w1)" by (cases "gnubby_lock env h 100 w")
  obtain r2 w2 where a: "gnubby_exchange env h (apdu_frame (pid env) select_apdu) 2048 w1 = (r2, w2)"
    by (cases "gnubby_exchange env h (apdu_frame (pid env) select_apdu) 2048 w1")
  from assms l a have "write_bns bn env h (key_parts rsa) 0 w2 = (Inr 0, w')"
    by (auto simp: write_session_def gnubby_apdu_eq length_fixed_apdus split: sum.splits if_splits)
  from write_bns_zeroE [OF this] show ?thesis
    by (simp add: lock.frames_after [OF l] exchange_frames [OF a])
qed

text \<open>C24: When \<open>Gnubby::write\<close> reports success, exactly these frames were sent, in this
  order: lock, applet selection, the seven components of the key, each with exactly the length the token expects,
  and unlock.\<close>

theorem gnubby_write_success:
  assumes "gnubby_write bn env acc dup_ok rsa gnubby_new w = (Inr 0, w')"
  shows "(\<forall>(p1, n, len) \<in> set (key_parts rsa). length (BN_bn2bin bn n) = len) \<and>
    frames w' = frames w @ [lock_frame (pid env) 100, apdu_frame (pid env) select_apdu] @
      map (write_frame bn (pid env)) (key_parts rsa) @ [lock_frame (pid env) 0]"
proof -
  obtain op g w1 where o: "gnubby_open acc gnubby_new w = (op, g, w1)" by (cases "gnubby_open acc gnubby_new w") 
  have f1: "frames w1 = frames w"
    using o by (auto simp: gnubby_open_def Let_def split: prod.splits if_splits)
  from assms o obtain h w2 where h: "handle g = Some h" and s: "write_session bn env h rsa w1 = (Inr 0, w2)"
    and e: "w' = snd (gnubby_lock env h 0 w2)"
    by (auto simp: gnubby_write_def Let_def write_exit_def gnubby_new_def split: if_splits option.splits prod.splits sum.splits)
  have "frames w' = frames w2 @ [lock_frame (pid env) 0]"
    unfolding e by (rule lock.frames_run)
  with write_session_zero [OF s] show ?thesis by (simp add: f1)
qed

definition size_bn :: bn_lib where
  "size_bn = nat_bn\<lparr>BN_bn2bin := (\<lambda>n. replicate n 1)\<rparr>"

definition size_key :: rsa_key where
  "size_key = \<lparr>rsa_n = 256, rsa_e = 1, rsa_d = 256, rsa_p = 128, rsa_q = 128, rsa_dmp1 = 128, rsa_dmq1 = 128, rsa_iqmp = 128\<rparr>"

lemma signing_gnubby_apdu:
  assumes "tx = a # b # bs" and "b \<noteq> 0xa4" and "b \<noteq> 0x43" and "length tx \<le> 2041" and "258 \<le> cap"
  shows "gnubby_apdu signing_env h tx cap w =
    (Inr (replicate 256 7 @ [0x90, 0]), w\<lparr>frames := frames w @ [apdu_frame 0x1234 tx], dev := apdu_frame 0x1234 tx\<rparr>)"
proof -
  have "token_reply (apdu_frame 0x1234 tx) = [1, 2] @ (replicate 256 7 @ [0x90, 0])"
    using assms(1-3) by (simp add: token_reply_def apdu_frame_def frame_nths CMD_APDU_def CMD_LOCK_def)
  moreover have "5 \<le> length (apdu_frame 0x1234 tx)" by (simp add: apdu_frame_def frame_nths)
  moreover have "pid signing_env = 0x1234" by (simp add: signing_env_def echo_env_def)
  ultimately show ?thesis
    using assms(4,5) by (simp add: gnubby_apdu_eq signing_exchange)
qed

lemma signing_write_bn:
  assumes "n \<le> 256"
  shows "\<exists>w'. write_bn size_bn signing_env h p1 n n w = (Inr 0, w')"
  using assms
  by (auto simp: write_bn_def Let_def size_bn_def write_bn_req_def signing_gnubby_apdu [OF refl] getSW12_def nth_append)

lemma signing_write_bns:
  "\<forall>(p1, n, len) \<in> set parts. n = len \<and> n \<le> 256 \<Longrightarrow> \<exists>w'. write_bns size_bn signing_env h parts 0 w = (Inr 0, w')"
proof (induction parts arbitrary: w)
  case (Cons part parts)
  obtain p1 n len where part: "part = (p1, n, len)" by (cases part)
  with Cons.prems signing_write_bn [of n h p1 w] obtain w1
    where "write_bn size_bn signing_env h p1 n len w = (Inr 0, w1)" by auto
  with Cons show ?case by (simp add: part)
qed simp

lemma signing_write:
  "\<exists>w'. gnubby_write size_bn signing_env \<lparr>open_vid_pid = (\<lambda>d. (Some 0, d)), claim_interface = (\<lambda>h d. (0, d))\<rparr>
     True size_key gnubby_new fresh_world = (Inr 0, w')"
proof -
  have sel: "token_reply (apdu_frame 0x1234 select_apdu) = [0, 2] @ [0x90, 0]"
    by (simp add: token_reply_def apdu_frame_def frame_nths CMD_APDU_def CMD_LOCK_def select_apdu_def)
  have pid: "pid signing_env = 0x1234" by (simp add: signing_env_def echo_env_def)
  have "5 \<le> length (apdu_frame 0x1234 select_apdu)" by (simp add: apdu_frame_def frame_nths)
  from signing_exchange [OF sel _ _ _ this, of 2048 0] pid
  have a: "gnubby_apdu signing_env 0 select_apdu 2048 w =
      (Inr [0x90, 0], w\<lparr>frames := frames w @ [apdu_frame 0x1234 select_apdu], dev := apdu_frame 0x1234 select_apdu\<rparr>)" for w
    by (simp add: gnubby_apdu_eq length_fixed_apdus)
  have "\<exists>w'. write_bns size_bn signing_env 0 (key_parts size_key) 0 w = (Inr 0, w')" for w
    by (rule signing_write_bns) (simp add: key_parts_def size_key_def)
  then have "\<exists>w'. write_session size_bn signing_env 0 size_key w = (Inr 0, w')" for w
    by (simp add: write_session_def signing_lock a getSW12_def)
  then obtain w1 where "write_session size_bn signing_env 0 size_key fresh_world = (Inr 0, w1)" by blast
  then show ?thesis
    by (simp add: gnubby_write_def gnubby_new_def gnubby_open_def write_exit_def Let_def)
qed

theorem gnubby_write_success_witness:
  "\<exists>w'. gnubby_write size_bn signing_env \<lparr>open_vid_pid = (\<lambda>d. (Some 0, d)), claim_interface = (\<lambda>h d. (0, d))\<rparr>
     True size_key gnubby_new fresh_world = (Inr 0, w') \<and> length (frames w') = 10 \<and> last (frames w') = lock_frame 0x1234 0"
proof -
  from signing_write obtain w' where
    r: "gnubby_write size_bn signing_env \<lparr>open_vid_pid = (\<lambda>d. (Some 0, d)), claim_interface = (\<lambda>h d. (0, d))\<rparr>
     True size_key gnubby_new fresh_world = (Inr 0, w')" ..
  from gnubby_write_success [OF r] have "frames w' = frames fresh_world @
      [lock_frame (pid signing_env) 100, apdu_frame (pid signing_env) select_apdu] @
      map (write_frame size_bn (pid signing_env)) (key_parts size_key) @ [lock_frame (pid signing_env) 0]" ..
  with r show ?thesis
    by (simp add: fresh_world_def key_parts_def signing_env_def echo_env_def)
qed

lemma apdu_never_closed: "gnubby_apdu env h tx cap w \<noteq> (Inl ClosedHandle, w')"
proof
  assume "gnubby_apdu env h tx cap w = (Inl ClosedHandle, w')"
  then obtain f where "gnubby_exchange env h f cap w = (Inl ClosedHandle, w')"
    by (auto simp: gnubby_apdu_def usb_bind_def lift_frame_def construct_usb_frame_def split: sum.splits if_splits)
  with exchange_fault [of env h f cap w ClosedHandle] show False by simp
qed

lemma write_bns_never_closed: "write_bns bn env h parts res w \<noteq> (Inl ClosedHandle, w')"
proof (induction parts arbitrary: res w)
  case (Cons part parts)
  then show ?case
    using apdu_never_closed [of env h _ 1024]
    by (cases part) (auto simp: write_bn_def Let_def split: sum.splits prod.splits if_splits)
qed simp

lemma write_session_never_closed: "write_session bn env h rsa w \<noteq> (Inl ClosedHandle, w')"
  using apdu_never_closed [of env h select_apdu 2048] write_bns_never_closed [of bn env h]
  by (auto simp: write_session_def dest: lock.fault_free_run split: sum.splits prod.splits if_splits)

text \<open>\<open>write\<close> uses a closed device handle exactly when the token was found but its
  interface could not be claimed: \<open>open\<close> closes the handle and leaves it set, and the exit path unlocks
  through it.\<close>

theorem gnubby_write_closed_handle:
  "fst (gnubby_write bn env acc dup_ok rsa gnubby_new w) = Inl ClosedHandle \<longleftrightarrow>
    dup_ok \<and> (\<exists>h d. open_vid_pid acc (dev w) = (Some h, d) \<and> fst (claim_interface acc (Some h) d) \<noteq> 0)"
proof -
  obtain h d where o: "open_vid_pid acc (dev w) = (h, d)" by (cases "open_vid_pid acc (dev w)")
  obtain rc d' where c: "claim_interface acc h d = (rc, d')" by (cases "claim_interface acc h d")
  show ?thesis
  proof (cases h)
    case None
    with c show ?thesis
      by (simp add: gnubby_write_def write_exit_def gnubby_new_def gnubby_open_def o c Let_def)
  next
    case (Some h')
    obtain r w2 where s: "write_session bn env h' rsa (w\<lparr>dev := d'\<rparr>) = (r, w2)"
      by (cases "write_session bn env h' rsa (w\<lparr>dev := d'\<rparr>)")
    have "r \<noteq> Inl ClosedHandle"
      using s write_session_never_closed [of bn env h' rsa "w\<lparr>dev := d'\<rparr>" w2] by auto
    with s c show ?thesis
      by (auto simp: gnubby_write_def write_exit_def gnubby_new_def gnubby_open_def o Some Let_def split: sum.splits)
  qed
qed

end
