(* ===== verification/PublicKey.thy ===== *)
theory PublicKey
  imports GnubbyProtocol HexText
begin

text \<open>
  The class \<open>PublicKey\<close> (util/signer/publickey.cc, common/publickey.h): loading a key, the
  numbers the boot rom needs (word count, exponent, \<open>n0inv\<close>, the modulus as 32-bit words), the
  C source it prints, and signing with OpenSSL, a security token or a signature already in the
  header. The object's key is an argument where the source dereferences \<open>key_\<close>.

  \<open>EVP_PKEY_get1_RSA\<close> returns a null pointer for a key that is not an RSA key. Only \<open>raw\<close> checks it; the
  others pass it on to \<open>RSA_get0_key\<close>, which dereferences it: their result is then \<open>None\<close>.
\<close>

section \<open>The object\<close>

record public_key =
  key_ptr :: "evp_pkey option"
  publicOnly :: bool

text \<open>
  The constructor: whether the file opens, and what the two PEM readers return.
\<close>

definition PublicKey_new :: "bool \<Rightarrow> evp_pkey option \<Rightarrow> evp_pkey option \<Rightarrow> public_key" where
  "PublicKey_new readable pem_private pem_public =
     (if readable then
        (case pem_private of
           Some k \<Rightarrow> \<lparr>key_ptr = Some k, publicOnly = False\<rparr>
         | None \<Rightarrow> \<lparr>key_ptr = pem_public, publicOnly = True\<rparr>)
      else \<lparr>key_ptr = None, publicOnly = True\<rparr>)"

definition PublicKey_ok :: "public_key \<Rightarrow> bool" where
  "PublicKey_ok pk \<longleftrightarrow> key_ptr pk \<noteq> None"

definition rwords :: nat where "rwords = 96"

definition EVP_PKEY_get1_RSA :: "evp_pkey \<Rightarrow> rsa_key option" where
  "EVP_PKEY_get1_RSA k = (if evp_is_rsa k then Some (evp_rsa k) else None)"

definition nwords :: "bn_lib \<Rightarrow> evp_pkey \<Rightarrow> nat option" where
  "nwords bn k =
     (case EVP_PKEY_get1_RSA k of None \<Rightarrow> None | Some rsa \<Rightarrow> Some ((BN_num_bytes bn (rsa_n rsa) + 3) div 4))"

definition public_exponent :: "bn_lib \<Rightarrow> evp_pkey \<Rightarrow> u32 option" where
  "public_exponent bn k =
     (case EVP_PKEY_get1_RSA k of None \<Rightarrow> None | Some rsa \<Rightarrow> Some (ucast (BN_get_word bn (rsa_e rsa))))"

text \<open>When there is no inverse, the fresh \<open>BIGNUM\<close> stays 0.\<close>

definition n0inv :: "bn_lib \<Rightarrow> evp_pkey \<Rightarrow> u32 option" where
  "n0inv bn k =
     (case EVP_PKEY_get1_RSA k of
        None \<Rightarrow> None
      | Some rsa \<Rightarrow>
          (let r = 2 ^ 32;
               rem = snd (BN_div bn (rsa_n rsa) r);
               inv = (case BN_mod_inverse bn rem r of Some i \<Rightarrow> i | None \<Rightarrow> 0)
           in Some (ucast (0 - BN_get_word bn inv))))"

fun toArray :: "bn_lib \<Rightarrow> nat \<Rightarrow> nat \<Rightarrow> u32 list" where
  "toArray bn 0 N = []"
| "toArray bn (Suc i) N =
     (let (N, rem) = BN_div bn N (2 ^ 32) in ucast (BN_get_word bn rem) # toArray bn i N)"

definition modToArray :: "bn_lib \<Rightarrow> nat \<Rightarrow> evp_pkey \<Rightarrow> u32 list option" where
  "modToArray bn nw k =
     (case EVP_PKEY_get1_RSA k of None \<Rightarrow> None | Some rsa \<Rightarrow> Some (toArray bn nw (rsa_n rsa)))"

lemma key_methods_rsa:
  "n0inv bn k = Some n \<Longrightarrow> evp_is_rsa k" "nwords bn k = Some w \<Longrightarrow> evp_is_rsa k"
  "modToArray bn nw k = Some ws \<Longrightarrow> evp_is_rsa k \<and> ws = toArray bn nw (rsa_n (evp_rsa k))"
  by (auto simp: n0inv_def nwords_def modToArray_def EVP_PKEY_get1_RSA_def split: if_splits)

section \<open>print\<close>

fun hex_digits_x :: "nat \<Rightarrow> string" where
  "hex_digits_x n =
     (if n < 16 then [''0123456789abcdef'' ! n] else hex_digits_x (n div 16) @ [''0123456789abcdef'' ! (n mod 16)])"

declare hex_digits_x.simps [simp del]

text \<open>\<open>%08x\<close> and \<open>%08lx\<close>\<close>

definition fmt_08x :: "u64 \<Rightarrow> string" where
  "fmt_08x w = (let ds = hex_digits_x (unat w) in replicate (8 - length ds) CHR ''0'' @ ds)"

fun fmt_lu :: "nat \<Rightarrow> string" where
  "fmt_lu n = (if n < 10 then [''0123456789'' ! n] else fmt_lu (n div 10) @ [''0123456789'' ! (n mod 10)])"

declare fmt_lu.simps [simp del]

fun print_words :: "bn_lib \<Rightarrow> nat \<Rightarrow> nat \<Rightarrow> nat \<Rightarrow> string" where
  "print_words bn i 0 N = []"
| "print_words bn i (Suc n) N =
     (let (N, rem) = BN_div bn N (2 ^ 32)
      in (if i \<noteq> 0 then '', '' else []) @ ''0x'' @ fmt_08x (BN_get_word bn rem) @ print_words bn (Suc i) n N)"

definition print_bn :: "bn_lib \<Rightarrow> evp_pkey \<Rightarrow> string \<Rightarrow> nat \<Rightarrow> nat \<Rightarrow> string option" where
  "print_bn bn k name nw n =
     (case n0inv bn k of
        None \<Rightarrow> None
      | Some v \<Rightarrow> Some
          (''const uint32_t '' @ name @ ''['' @ fmt_lu nw @ '' + 1] = {'' @ ''0x'' @ fmt_08x (ucast v) @ '', '' @
           print_words bn 0 nw n @ ''};'' @ [CHR 0x0A]))"

definition print_data :: "bn_lib \<Rightarrow> evp_pkey \<Rightarrow> string \<Rightarrow> nat \<Rightarrow> u8 list \<Rightarrow> string option" where
  "print_data bn k name nw data = print_bn bn k name nw (BN_bin2bn bn data)"

definition print_mod :: "bn_lib \<Rightarrow> evp_pkey \<Rightarrow> string \<Rightarrow> string option" where
  "print_mod bn k name =
     (case EVP_PKEY_get1_RSA k of None \<Rightarrow> None | Some rsa \<Rightarrow> print_bn bn k name rwords (rsa_n rsa))"

section \<open>raw\<close>

text \<open>\<open>RSA_get0_key\<close> gives the modulus and the private exponent; \<open>rc\<close> is what \<open>BN_mod_exp\<close> returns.\<close>

definition PublicKey_raw :: "bn_lib \<Rightarrow> int \<Rightarrow> evp_pkey \<Rightarrow> u8 list \<Rightarrow> nat option \<Rightarrow> int \<times> nat option" where
  "PublicKey_raw bn rc k input out =
     (case EVP_PKEY_get1_RSA k of
        None \<Rightarrow> (0, out)
      | Some rsa \<Rightarrow>
          (let m = BN_bin2bn bn input; r = BN_mod_exp bn m (rsa_d rsa) (rsa_n rsa)
           in (rc, if rc = 1 then Some r else out)))"

section \<open>encrypt and decrypt\<close>

text \<open>
  The two calls with RSA_PKCS1_OAEP_PADDING are parameters: from the key and the message, the result and the bytes
  written to \<open>out\<close>. \<open>encrypt\<close> never frees the reference it takes.
\<close>

definition PublicKey_encrypt ::
  "(rsa_key \<Rightarrow> u8 list \<Rightarrow> int \<times> u8 list) \<Rightarrow> evp_pkey \<Rightarrow> u8 list \<Rightarrow> nat \<Rightarrow> (int \<times> u8 list) option" where
  "PublicKey_encrypt RSA_public_encrypt k msg msglen =
     (case EVP_PKEY_get1_RSA k of None \<Rightarrow> None | Some rsa \<Rightarrow> Some (RSA_public_encrypt rsa (take msglen msg)))"

definition PublicKey_decrypt ::
  "(rsa_key \<Rightarrow> u8 list \<Rightarrow> int \<times> u8 list) \<Rightarrow> evp_pkey \<Rightarrow> u8 list \<Rightarrow> nat \<Rightarrow> (int \<times> u8 list) option" where
  "PublicKey_decrypt RSA_private_decrypt k msg msglen =
     (case EVP_PKEY_get1_RSA k of None \<Rightarrow> None | Some rsa \<Rightarrow> Some (RSA_private_decrypt rsa (take msglen msg)))"

text \<open>What one key encrypts it decrypts, where the pair of library functions does.\<close>

lemma decrypt_encrypt:
  assumes "PublicKey_encrypt pub k msg msglen = Some (n, out)" and "0 \<le> n"
    and "\<And>m n out. pub (evp_rsa k) m = (n, out) \<Longrightarrow> 0 \<le> n \<Longrightarrow>
           length out = nat n \<and> priv (evp_rsa k) out = (int (length m), m)"
    and "msglen \<le> length msg"
  shows "PublicKey_decrypt priv k out (nat n) = Some (int msglen, take msglen msg)"
  using assms by (auto simp: PublicKey_encrypt_def PublicKey_decrypt_def EVP_PKEY_get1_RSA_def split: if_splits)

section \<open>sign\<close>

text \<open>The calls of OpenSSL with their outcomes: allocation, digest, signature, shift and reduction.\<close>

record evp_lib =
  md_ctx_ok :: bool
  digest_update_rc :: int
  EVP_SignFinal :: "evp_pkey \<Rightarrow> u8 list \<Rightarrow> int \<times> u8 list"
  lshift_rc :: int
  mod_rc :: int

text \<open>
  What \<open>sign\<close> needs of its surroundings; the random and uninitialised parts of a token session
  are \<open>sign_junk\<close> and the world.
\<close>

record 'd sign_env =
  sign_fuel :: nat
  sign_crypto :: crypto
  sign_bn :: bn_lib
  sign_evp :: evp_lib
  sign_gnubby :: "'d gnubby_env"
  sign_devices :: "usb_device list"
  sign_junk :: "u8 list"
  sign_world :: "'d usb_world"

text \<open>
  The signature bytes with the return value of the branch taken: \<open>siglen\<close> stays 0 when
  the token gives none. The preloaded signature is written to a buffer of \<open>EVP_PKEY_size\<close> bytes. A null
  pointer that is dereferenced is a \<open>MemoryFault\<close> here.
\<close>

definition sign_bytes ::
  "'d sign_env \<Rightarrow> bool \<Rightarrow> evp_pkey \<Rightarrow> u8 list \<Rightarrow> nat \<Rightarrow> (gnubby_fault + int \<times> u8 list) option" where
  "sign_bytes e public_only k msg preloaded =
     (let bn = sign_bn e in
      if public_only then
        (case nwords bn k of
           None \<Rightarrow> Some (Inl MemoryFault)
         | Some nw \<Rightarrow>
             if nw = 64 then
               (case gnubby_sign (sign_fuel e) (sign_crypto e) bn (sign_gnubby e) (sign_devices e)
                       (SHA256 (sign_crypto e) msg) k (sign_junk e) (sign_world e) of
                  None \<Rightarrow> None
                | Some (Inl f) \<Rightarrow> Some (Inl f)
                | Some (Inr (res, sg, w)) \<Rightarrow> Some (Inr (res, case sg of Some bs \<Rightarrow> bs | None \<Rightarrow> [])))
             else
               (let bs = BN_bn2bin bn preloaded
                in if evp_size k < length bs then Some (Inl MemoryFault) else Some (Inr (1, bs))))
      else Some (Inr (EVP_SignFinal (sign_evp e) k msg)))"

definition PublicKey_sign ::
  "'d sign_env \<Rightarrow> bool \<Rightarrow> evp_pkey \<Rightarrow> u8 list \<Rightarrow> nat \<Rightarrow> (gnubby_fault + int \<times> nat) option" where
  "PublicKey_sign e public_only k msg output =
     (let bn = sign_bn e; evp = sign_evp e in
      if \<not> md_ctx_ok evp then Some (Inr (0, output))
      else if digest_update_rc evp \<noteq> 1 then Some (Inr (0, output))
      else case sign_bytes e public_only k msg output of
             None \<Rightarrow> None
           | Some (Inl f) \<Rightarrow> Some (Inl f)
           | Some (Inr (res, sg)) \<Rightarrow>
               if res \<noteq> 1 then Some (Inr (res, output))
               else if lshift_rc evp \<noteq> 1 then Some (Inr (res, output))
               else
                 let tmp = BN_lshift bn (BN_bin2bn bn sg) (rwords * 32)
                 in case EVP_PKEY_get1_RSA k of
                      None \<Rightarrow> Some (Inl MemoryFault)
                    | Some rsa \<Rightarrow>
                        if mod_rc evp \<noteq> 1 then Some (Inr (res, output))
                        else Some (Inr (res, snd (BN_div bn tmp (rsa_n rsa)))))"

text \<open>\<open>Gnubby::write\<close> starts with \<open>RSA_get0_key\<close>, too.\<close>

definition writeToGnubby ::
  "bn_lib \<Rightarrow> 'd gnubby_env \<Rightarrow> 'd usb_access \<Rightarrow> bool \<Rightarrow> public_key \<Rightarrow> evp_pkey \<Rightarrow> ('d, int) usb" where
  "writeToGnubby bn env acc dup_ok pk k w =
     (if publicOnly pk then (Inr (-1), w)
      else case EVP_PKEY_get1_RSA k of
             None \<Rightarrow> (Inl MemoryFault, w)
           | Some rsa \<Rightarrow> gnubby_write bn env acc dup_ok rsa gnubby_new w)"

section \<open>What the boot rom's numbers are\<close>

lemma ucast_minus_down: "(ucast (- w :: u64) :: u32) = - ucast w"
proof -
  have eq: "take_bit 32 (- take_bit 64 i) = take_bit 32 (- i)" for i :: int
    using take_bit_minus [of 32 "take_bit 64 i"] take_bit_minus [of 32 i] by (simp add: take_bit_take_bit)
  show ?thesis
    by transfer (simp add: take_bit_take_bit eq)
qed

lemma n0inv_eq:
  assumes "bn_ok bn" and "odd (rsa_n (evp_rsa k))" and "evp_is_rsa k"
  shows "\<exists>i < 2 ^ 32. (rsa_n (evp_rsa k) mod 2 ^ 32) * i mod 2 ^ 32 = 1 \<and> n0inv bn k = Some (- of_nat i)"
proof -
  let ?n = "rsa_n (evp_rsa k)"
  have "odd (?n mod 2 ^ 32)"
    using assms(2) by (subst dvd_mod_iff) simp_all
  then have "coprime (?n mod 2 ^ 32) (2 ^ 32)"
    by (simp only: coprime_power_right_iff coprime_right_2_iff_odd simp_thms)
  with assms(1) obtain i where i: "i < 2 ^ 32" "BN_mod_inverse bn (?n mod 2 ^ 32) (2 ^ 32) = Some i"
    "(?n mod 2 ^ 32) * i mod 2 ^ 32 = 1"
    unfolding bn_ok_def by (metis one_less_numeral_iff one_less_power semiring_norm(76) zero_less_numeral)
  have "BN_div bn ?n (2 ^ 32) = (?n div 2 ^ 32, ?n mod 2 ^ 32)" and "BN_get_word bn i = of_nat i"
    using assms(1) i(1) by (simp_all add: bn_ok_def)
  then have "n0inv bn k = Some (ucast (- (of_nat i :: u64)))"
    using i(2) assms(3) by (simp add: n0inv_def EVP_PKEY_get1_RSA_def)
  moreover have "(ucast (- (of_nat i :: u64)) :: u32) = - ucast (of_nat i :: u64)"
    by (simp add: ucast_minus_down)
  moreover have "(ucast (of_nat i :: u64) :: u32) = of_nat i"
    by (rule bit_word_eqI) (simp add: bit_simps unsigned_of_nat)
  ultimately show ?thesis using i by auto
qed

text \<open>C14: For an RSA key with an odd modulus, \<open>n0inv\<close> returns minus the inverse of the least significant
  word of the modulus: their product in 32-bit arithmetic is -1, the constant of Montgomery multiplication. For a key
  that is not an RSA key it returns nothing: it dereferences a null pointer.\<close>

theorem n0inv_montgomery:
  assumes "bn_ok bn" and "odd (rsa_n (evp_rsa k))"
  shows "if evp_is_rsa k then \<exists>v. n0inv bn k = Some v \<and> of_nat (rsa_n (evp_rsa k)) * v = (- 1 :: u32)
    else n0inv bn k = None"
proof (cases "evp_is_rsa k")
  case True
  let ?n = "rsa_n (evp_rsa k)"
  from n0inv_eq [OF assms True] obtain i where "(?n mod 2 ^ 32) * i mod 2 ^ 32 = 1" and n: "n0inv bn k = Some (- of_nat i)"
    by blast
  then have "(?n * i) mod 2 ^ 32 = 1" by (simp add: mod_mult_left_eq)
  then have "(of_nat (?n * i) :: u32) = 1"
    by (intro word_unat_eq_iff [THEN iffD2]) (simp add: unat_of_nat del: of_nat_mult)
  then show ?thesis using True by (simp add: n)
qed (simp add: n0inv_def EVP_PKEY_get1_RSA_def)

definition sample_key :: evp_pkey where
  "sample_key = \<lparr>evp_rsa = size_key\<lparr>rsa_n := 15\<rparr>, evp_is_rsa = True, evp_size = 1\<rparr>"

lemma sample_key_odd: "odd (rsa_n (evp_rsa sample_key))"
  by (simp add: sample_key_def)

theorem n0inv_montgomery_witness: "\<exists>v. n0inv nat_bn sample_key = Some v \<and> 15 * v = - 1"
  using n0inv_montgomery [OF nat_bn_ok sample_key_odd] by (simp add: sample_key_def)

text \<open>The little-endian words of a number.\<close>

fun words_value :: "u32 list \<Rightarrow> nat" where
  "words_value [] = 0"
| "words_value (w # ws) = unat w + 2 ^ 32 * words_value ws"

lemma toArray_value:
  assumes "bn_ok bn"
  shows "length (toArray bn nw n) = nw \<and> words_value (toArray bn nw n) = n mod 2 ^ (32 * nw)"
proof (induction nw arbitrary: n)
  case 0
  then show ?case by simp
next
  case (Suc nw)
  have d: "BN_div bn n (2 ^ 32) = (n div 2 ^ 32, n mod 2 ^ 32)"
    and g: "BN_get_word bn (n mod 2 ^ 32) = of_nat (n mod 2 ^ 32)"
    using assms by (simp_all add: bn_ok_def less_trans [of _ "2 ^ 32" "2 ^ 64"])
  have w: "unat (ucast (of_nat (n mod 2 ^ 32) :: u64) :: u32) = n mod 2 ^ 32"
    by (simp add: unsigned_ucast_eq unsigned_of_nat take_bit_eq_mod)
  have "n mod 2 ^ (32 * Suc nw) = n mod 2 ^ 32 + 2 ^ 32 * (n div 2 ^ 32 mod 2 ^ (32 * nw))"
    by (simp only: mult_Suc_right power_add mod_mult2_eq add.commute)
  then show ?case
    using Suc.IH [of "n div 2 ^ 32"] by (simp only: toArray.simps d g Let_def prod.case words_value.simps w list.size) simp
qed

text \<open>C17: For an RSA key \<open>modToArray\<close> writes the modulus as little-endian 32-bit words: the number they
  denote is the modulus modulo 2 to the power of 32 per word, so the 96 words of the header hold every modulus of
  up to 3072 bits exactly. It returns for no other key.\<close>

theorem modToArray_value:
  assumes "bn_ok bn"
  shows "if evp_is_rsa k then \<exists>ws. modToArray bn nw k = Some ws \<and> length ws = nw \<and>
      words_value ws = rsa_n (evp_rsa k) mod 2 ^ (32 * nw)
    else modToArray bn nw k = None"
  using toArray_value [OF assms] by (simp add: modToArray_def EVP_PKEY_get1_RSA_def)

theorem modToArray_value_witness: "\<exists>ws. modToArray nat_bn 96 sample_key = Some ws \<and> words_value ws = 15"
proof -
  have "15 mod 2 ^ 3072 = (15 :: nat)"
    by (rule mod_less) (rule less_le_trans [of _ "2 ^ 4"], simp, rule power_increasing, simp_all)
  then show ?thesis
    using modToArray_value [OF nat_bn_ok, of sample_key 96] by (auto simp: sample_key_def)
qed

section \<open>Signatures\<close>

text \<open>C13: What \<open>sign\<close> returns when it reports success. When the shift and the reduction succeed, too, the key
  is an RSA key and the result is the signature multiplied by the Montgomery factor 2 to the power 3072, reduced
  modulo the key's modulus, where the signature is that of OpenSSL for a private key and the preloaded one for a
  public key that is not 2048 bits long. When one of them fails, \<open>sign\<close> reports success all the same and
  leaves the output as it was. With a 2048-bit public key it never reports success.\<close>

theorem sign_montgomery:
  assumes "PublicKey_sign e public_only k msg preloaded = Some (Inr (1, out))"
    and "bn_ok (sign_bn e)" and "0 < rsa_n (evp_rsa k)" and "4 \<le> sign_fuel e"
  shows "\<exists>sg. (if lshift_rc (sign_evp e) = 1 \<and> mod_rc (sign_evp e) = 1
      then evp_is_rsa k \<and> out = (sg * 2 ^ 3072) mod rsa_n (evp_rsa k) else out = preloaded) \<and>
    (if public_only then nwords (sign_bn e) k \<notin> {None, Some 64} \<and> sg = preloaded
     else fst (EVP_SignFinal (sign_evp e) k msg) = 1 \<and> sg = be_value (snd (EVP_SignFinal (sign_evp e) k msg)))"
proof -
  have up: "md_ctx_ok (sign_evp e)" "digest_update_rc (sign_evp e) = 1"
    using assms(1) by (auto simp: PublicKey_sign_def Let_def split: if_splits)
  obtain bs where sb: "sign_bytes e public_only k msg preloaded = Some (Inr (1, bs))"
    and out: "if lshift_rc (sign_evp e) = 1 \<and> mod_rc (sign_evp e) = 1
      then evp_is_rsa k \<and> out = snd (BN_div (sign_bn e) (BN_lshift (sign_bn e) (BN_bin2bn (sign_bn e) bs) (rwords * 32)) (rsa_n (evp_rsa k)))
      else out = preloaded"
    using assms(1) up
    by (auto simp: PublicKey_sign_def Let_def EVP_PKEY_get1_RSA_def split: option.splits sum.splits if_splits)
  have "if lshift_rc (sign_evp e) = 1 \<and> mod_rc (sign_evp e) = 1
      then evp_is_rsa k \<and> out = (be_value bs * 2 ^ 3072) mod rsa_n (evp_rsa k) else out = preloaded"
    using assms(2,3) out by (simp add: bn_ok_def rwords_def split: if_splits)
  moreover have "if public_only then nwords (sign_bn e) k \<notin> {None, Some 64} \<and> be_value bs = preloaded
     else fst (EVP_SignFinal (sign_evp e) k msg) = 1 \<and> be_value bs = be_value (snd (EVP_SignFinal (sign_evp e) k msg))"
  proof (cases "public_only \<and> nwords (sign_bn e) k = Some 64")
    case True
    obtain n where n: "sign_fuel e = 4 + n" using assms(4) le_Suc_ex by blast
    from gnubby_sign_without_rsa [of n "sign_crypto e" "sign_bn e" "sign_gnubby e" "sign_devices e"
        "SHA256 (sign_crypto e) msg" k "sign_junk e" "sign_world e"]
    show ?thesis
      using sb True by (auto simp: sign_bytes_def Let_def n split: option.splits sum.splits)
  next
    case False
    then show ?thesis
      using sb assms(2) by (auto simp: sign_bytes_def Let_def bn_ok_def split: if_splits option.splits)
  qed
  ultimately show ?thesis by blast
qed

definition sample_sign_env :: "(u8 list) sign_env" where
  "sample_sign_env = \<lparr>sign_fuel = 4, sign_crypto = const_crypto, sign_bn = nat_bn,
     sign_evp = \<lparr>md_ctx_ok = True, digest_update_rc = 1, EVP_SignFinal = (\<lambda>k m. (1, [7])), lshift_rc = 1, mod_rc = 1\<rparr>,
     sign_gnubby = unplugged_env, sign_devices = [], sign_junk = [], sign_world = fresh_world\<rparr>"

theorem sign_montgomery_witness:
  "\<exists>out. PublicKey_sign sample_sign_env False sample_key [1, 2, 3] 0 = Some (Inr (1, out)) \<and> out = 7 * 2 ^ 3072 mod 15"
proof -
  have n: "rsa_n (evp_rsa sample_key) = 15" by (simp add: sample_key_def)
  have "\<exists>out. PublicKey_sign sample_sign_env False sample_key [1, 2, 3] 0 = Some (Inr (1, out))"
    by (simp add: PublicKey_sign_def sign_bytes_def sample_sign_env_def Let_def EVP_PKEY_get1_RSA_def sample_key_def)
  then obtain out where r: "PublicKey_sign sample_sign_env False sample_key [1, 2, 3] 0 = Some (Inr (1, out))" ..
  have h: "bn_ok (sign_bn sample_sign_env)" "0 < rsa_n (evp_rsa sample_key)" "4 \<le> sign_fuel sample_sign_env"
    "lshift_rc (sign_evp sample_sign_env) = 1" "mod_rc (sign_evp sample_sign_env) = 1"
    "be_value (snd (EVP_SignFinal (sign_evp sample_sign_env) sample_key [1, 2, 3])) = 7"
    by (simp_all add: sample_sign_env_def nat_bn_ok n be_value_def)
  from sign_montgomery [OF r h(1-3)] have "out = 7 * 2 ^ 3072 mod 15"
    by (simp only: if_False if_True n h(4-6) simp_thms) blast
  with r show ?thesis by blast
qed

end
