(* ===== verification/ImageSign.thy ===== *)
theory ImageSign
  imports Image PublicKey
begin

text \<open>
  \<open>Image::sign\<close> (util/signer/image.cc): the header is copied in front of the image and
  completed with the size, the modulus, the three checksums and the signature over the three hashes.
  The pointer \<open>hdr\<close> aliases the image memory, so every assignment to a member writes the
  image; here each is a write of the header's bytes.
\<close>

datatype sign_error = ImageError image_error | KeyFault gnubby_fault

text \<open>The little-endian word of the first four bytes of a hash.\<close>

definition hash_word :: "u8 list \<Rightarrow> u32" where
  "hash_word h =
     push_bit 0 (ucast (h ! 0)) OR push_bit 8 (ucast (h ! 1)) OR push_bit 16 (ucast (h ! 2)) OR push_bit 24 (ucast (h ! 3))"

definition put_header :: "SignedHeader \<Rightarrow> image \<Rightarrow> image" where
  "put_header h img = img\<lparr>mem := mem_write (mem img) (nat (base img)) (header_bytes h)\<rparr>"

definition TAG_OFFSET :: nat where "TAG_OFFSET = the (offsetof_SignedHeader ''tag'')"

text \<open>\<open>int size = this->size() - offsetof(SignedHeader, tag)\<close>\<close>

definition signed_size :: "image \<Rightarrow> int" where
  "signed_size img = sint (ucast (img_size img - of_nat TAG_OFFSET) :: u32)"

text \<open>The header before the image is hashed; \<open>key_words\<close> is what \<open>modToArray\<close> wrote.\<close>

definition header_to_hash :: "'d sign_env \<Rightarrow> u32 list \<Rightarrow> u32 list \<Rightarrow> u32 list \<Rightarrow> image \<Rightarrow> SignedHeader \<Rightarrow> SignedHeader" where
  "header_to_hash e key_words fuses info img input_hdr =
     (let h = input_hdr\<lparr>image_size := ucast (img_size img)\<rparr>;
          h = h\<lparr>key := key_words\<rparr>;
          h = h\<lparr>fuses_chk := hash_word (SHA256 (sign_crypto e) (words_bytes fuses))\<rparr>
      in h\<lparr>info_chk := hash_word (SHA256 (sign_crypto e) (words_bytes info))\<rparr>)"

text \<open>
  The result: out of fuel, an error, or what \<open>sign\<close> returns, the image, and what is written to
  the hashes file when it has a name and can be opened.
\<close>

definition Image_sign ::
  "'d sign_env \<Rightarrow> bool \<Rightarrow> evp_pkey \<Rightarrow> SignedHeader \<Rightarrow> u32 list \<Rightarrow> u32 list \<Rightarrow> string \<Rightarrow> bool \<Rightarrow> image \<Rightarrow>
    (sign_error + bool \<times> image \<times> u8 list option) option" where
  "Image_sign e public_only k input_hdr fuses info hashesFilename open_ok img =
     (if base img < 0 \<or> int MEM_SIZE < base img + 1024 then Some (Inl (ImageError OutOfBounds))
      else case modToArray (sign_bn e) rwords k of None \<Rightarrow> Some (Inl (KeyFault MemoryFault)) | Some key_words \<Rightarrow>
        let cr = sign_crypto e; bn = sign_bn e;
            h = header_to_hash e key_words fuses info img input_hdr;
            img = put_header h img;
            size = signed_size img
        in if size < 0 \<or> int MEM_SIZE < base img + int TAG_OFFSET + size then Some (Inl (ImageError OutOfBounds))
           else
             let img_hash = SHA256 cr (mem_read (mem img) (nat (base img) + TAG_OFFSET) (nat size));
                 fuses_hash = SHA256 cr (words_bytes fuses);
                 info_hash = SHA256 cr (words_bytes info);
                 h = h\<lparr>img_chk := hash_word img_hash\<rparr>;
                 img = put_header h img;
                 hashes = img_hash @ fuses_hash @ info_hash;
                 file = (if hashesFilename \<noteq> [] \<and> open_ok then Some hashes else None);
                 sig = BN_bin2bn bn (words_bytes (signature h))
             in case PublicKey_sign e public_only k hashes sig of
                  None \<Rightarrow> None
                | Some (Inl f) \<Rightarrow> Some (Inl (KeyFault f))
                | Some (Inr (res, sig)) \<Rightarrow>
                    if res \<noteq> 1 then Some (Inr (False, img, file))
                    else Some (Inr (True, put_header (h\<lparr>signature := toArray bn rwords sig\<rparr>) img, file)))"

section \<open>The header in the image\<close>

lemma TAG_OFFSET_eq [simp]: "TAG_OFFSET = 392"
  by (simp add: TAG_OFFSET_def offsetof_SignedHeader_def SignedHeader_members_def align_up_def)

definition signed_words :: "SignedHeader \<Rightarrow> u32 list" where
  "signed_words h = drop 98 (header_words h)"

lemma drop_words_bytes: "drop (4 * n) (words_bytes ws) = words_bytes (drop n ws)"
proof (induction n arbitrary: ws)
  case (Suc n)
  then show ?case by (cases ws) simp_all
qed simp

lemma drop_header_bytes: "drop 392 (header_bytes h) = words_bytes (signed_words h)"
  using drop_words_bytes [of 98 "header_words h"] by (simp add: header_bytes_words signed_words_def)

lemma signed_words_unsigned:
  "length (signature h) = 96 \<Longrightarrow> length s = 96 \<Longrightarrow> signed_words (h\<lparr>img_chk := x, signature := s\<rparr>) = signed_words h"
  by (simp add: signed_words_def header_words_def swap_word_def)

lemma put_header_simps [simp]:
  "base (put_header h img) = base img" "highest (put_header h img) = highest img"
  "img_size (put_header h img) = img_size img"
  by (simp_all add: put_header_def img_size_def image_bytes_def)

lemma put_header_read:
  assumes "wf_header h"
  shows "mem_read (mem (put_header h img)) (nat (base img)) 1024 = header_bytes h"
  using mem_read_write_same [of "mem img" "nat (base img)" "header_bytes h"] assms
  by (simp add: put_header_def)

lemma put_header_tail:
  assumes "wf_header h" and "n \<ge> 632"
  shows "mem_read (mem (put_header h img)) (nat (base img) + 392) n =
    drop 392 (header_bytes h) @ mem_read (mem img) (nat (base img) + 1024) (n - 632)"
proof -
  let ?m = "mem (put_header h img)" and ?b = "nat (base img)"
  have "mem_read ?m (?b + 392) (632 + (n - 632)) =
      mem_read ?m (?b + 392) 632 @ mem_read ?m (?b + 392 + 632) (n - 632)"
    by (rule mem_read_append)
  moreover have "mem_read ?m (?b + 392) 632 = drop 392 (header_bytes h)"
    using mem_read_write_sub [of ?b "?b + 392" 632 "header_bytes h" "mem img"] assms(1)
    by (simp add: put_header_def)
  moreover have "mem_read ?m (?b + 392 + 632) (n - 632) = mem_read (mem img) (?b + 1024) (n - 632)"
    using assms(1) by (simp add: put_header_def mem_read_write_disjoint add.assoc)
  ultimately show ?thesis using assms(2) by simp
qed

lemma put_header_put_header:
  "wf_header h \<Longrightarrow> wf_header h' \<Longrightarrow> put_header h' (put_header h img) = put_header h' img"
  by (auto simp: put_header_def mem_write_def fun_eq_iff)

lemma wf_header_to_hash:
  assumes "length ws = 96" and "wf_header h"
  shows "wf_header (header_to_hash e ws fuses info img h)"
  using assms by (simp add: header_to_hash_def Let_def wf_header_def)

lemma ucast_of_int: "(ucast (word_of_int d :: u64) :: u32) = word_of_int d"
  by (rule bit_word_eqI) (simp add: bit_simps unsigned_of_int)

lemma signed_size_eq:
  assumes "392 \<le> highest img - base img" and "highest img - base img < 2 ^ 31"
  shows "signed_size img = highest img - base img - 392"
proof -
  let ?d = "highest img - base img - 392"
  have "img_size img - 392 = word_of_int ?d"
    by (simp add: img_size_def image_bytes_def)
  moreover have "sint (word_of_int d :: u32) = d" if "0 \<le> d" "d < 2 ^ 31" for d
    using that by (simp add: signed_of_int signed_take_bit_int_eq_self)
  from this [of ?d] have "sint (word_of_int ?d :: u32) = ?d"
    using assms by linarith
  ultimately show ?thesis by (simp add: signed_size_def ucast_of_int del: of_int_diff)
qed

text \<open>What a successful run has computed.\<close>

definition unsigned_header :: "'d sign_env \<Rightarrow> u32 list \<Rightarrow> u32 list \<Rightarrow> u32 list \<Rightarrow> image \<Rightarrow> SignedHeader \<Rightarrow> SignedHeader" where
  "unsigned_header e ws fuses info img hdr =
     (let h = header_to_hash e ws fuses info img hdr
      in h\<lparr>img_chk := hash_word (SHA256 (sign_crypto e)
           (mem_read (mem (put_header h img)) (nat (base img) + 392) (nat (signed_size img))))\<rparr>)"

definition signed_hashes :: "'d sign_env \<Rightarrow> u32 list \<Rightarrow> u32 list \<Rightarrow> u32 list \<Rightarrow> image \<Rightarrow> SignedHeader \<Rightarrow> u8 list" where
  "signed_hashes e ws fuses info img hdr =
     SHA256 (sign_crypto e) (mem_read (mem (put_header (header_to_hash e ws fuses info img hdr) img))
       (nat (base img) + 392) (nat (signed_size img))) @
     SHA256 (sign_crypto e) (words_bytes fuses) @ SHA256 (sign_crypto e) (words_bytes info)"

lemma Image_sign_TrueE:
  assumes "Image_sign e public_only k hdr fuses info name ok img = Some (Inr (True, img', file))"
    and "bn_ok (sign_bn e)" and "wf_header hdr"
  obtains ws out where "0 \<le> base img" and "base img + 1024 \<le> int MEM_SIZE" and "modToArray (sign_bn e) rwords k = Some ws"
    and "PublicKey_sign e public_only k (signed_hashes e ws fuses info img hdr) (be_value (words_bytes (signature hdr))) =
      Some (Inr (1, out))"
    and "img' = put_header (unsigned_header e ws fuses info img hdr\<lparr>signature := toArray (sign_bn e) 96 out\<rparr>) img"
proof -
  have bounds: "0 \<le> base img" "base img + 1024 \<le> int MEM_SIZE"
    using assms(1) by (auto simp: Image_sign_def split: if_splits)
  then have nb: "\<not> (base img < 0 \<or> int MEM_SIZE < base img + 1024)" by linarith
  obtain ws where ws: "modToArray (sign_bn e) rwords k = Some ws"
    using assms(1) by (auto simp: Image_sign_def if_not_P [OF nb] split: option.splits)
  then have len: "length ws = 96"
    using key_methods_rsa(3) [OF ws] toArray_value [OF assms(2)] by (simp add: rwords_def)
  let ?h = "header_to_hash e ws fuses info img hdr" and ?u = "unsigned_header e ws fuses info img hdr"
  have sz: "signed_size (put_header ?h img) = signed_size img"
    by (simp add: signed_size_def)
  have sig: "signature ?u = signature hdr"
    by (simp add: unsigned_header_def header_to_hash_def Let_def)
  have u: "?h\<lparr>img_chk := hash_word (SHA256 (sign_crypto e)
      (mem_read (mem (put_header ?h img)) (nat (base img) + 392) (nat (signed_size img))))\<rparr> = ?u"
    by (simp add: unsigned_header_def Let_def)
  have bin: "BN_bin2bn (sign_bn e) bs = be_value bs" for bs
    using assms(2) by (simp add: bn_ok_def)
  note run = assms(1) [unfolded Image_sign_def Let_def if_not_P [OF nb] ws option.case TAG_OFFSET_eq put_header_simps sz u sig bin
    signed_hashes_def [symmetric], unfolded rwords_def]
  from run obtain out where o: "PublicKey_sign e public_only k (signed_hashes e ws fuses info img hdr)
      (be_value (words_bytes (signature hdr))) = Some (Inr (1, out))"
    and i: "img' = put_header (?u\<lparr>signature := toArray (sign_bn e) 96 out\<rparr>) (put_header ?u (put_header ?h img))"
    by (auto split: if_splits option.splits sum.splits prod.splits)
  have wf: "wf_header ?h" by (rule wf_header_to_hash [OF len assms(3)])
  then have wfu: "wf_header ?u" by (simp add: unsigned_header_def Let_def wf_header_def)
  then have "wf_header (?u\<lparr>signature := toArray (sign_bn e) 96 out\<rparr>)"
    using toArray_value [OF assms(2)] by (simp add: wf_header_def)
  with i wf wfu have "img' = put_header (?u\<lparr>signature := toArray (sign_bn e) 96 out\<rparr>) img"
    by (simp add: put_header_put_header)
  with bounds ws o show ?thesis by (rule that)
qed

text \<open>C3: After a successful \<open>sign\<close>, the image carries a header that verifies: its
  size is that of the image, its key the modulus, its fuse and info checksums those of the arrays given, its image
  checksum the hash of the final image from the tag on (although the checksum and the signature are written after
  hashing), its signature the words of what the key produced for exactly these three hashes; every other member is
  that of the input header, and no byte behind the header has changed.\<close>

theorem Image_sign_verifies:
  assumes "Image_sign e public_only k hdr fuses info name ok img = Some (Inr (True, img', file))"
    and "bn_ok (sign_bn e)" and "wf_header hdr"
    and "base img + 1024 \<le> highest img" and "highest img \<le> int MEM_SIZE"
  shows "\<exists>sg. let h = header_of_bytes (mem_read (mem img') (nat (base img)) 1024);
        img_hash = SHA256 (sign_crypto e)
          (mem_read (mem img') (nat (base img) + 392) (nat (highest img - base img) - 392));
        fuses_hash = SHA256 (sign_crypto e) (words_bytes fuses); info_hash = SHA256 (sign_crypto e) (words_bytes info)
      in h = hdr\<lparr>image_size := word_of_int (highest img - base img), key := key h, fuses_chk := hash_word fuses_hash,
           info_chk := hash_word info_hash, img_chk := hash_word img_hash, signature := toArray (sign_bn e) 96 sg\<rparr> \<and>
         words_value (key h) = rsa_n (evp_rsa k) mod 2 ^ 3072 \<and>
         PublicKey_sign e public_only k (img_hash @ fuses_hash @ info_hash) (be_value (words_bytes (signature hdr))) =
           Some (Inr (1, sg)) \<and>
         (\<forall>a. a < nat (base img) \<or> nat (base img) + 1024 \<le> a \<longrightarrow> mem img' a = mem img a)"
proof -
  from Image_sign_TrueE [OF assms(1-3)] obtain ws out where b: "0 \<le> base img"
    and ws: "modToArray (sign_bn e) rwords k = Some ws"
    and s: "PublicKey_sign e public_only k (signed_hashes e ws fuses info img hdr) (be_value (words_bytes (signature hdr))) =
      Some (Inr (1, out))"
    and i: "img' = put_header (unsigned_header e ws fuses info img hdr\<lparr>signature := toArray (sign_bn e) 96 out\<rparr>) img" .
  let ?g = "header_to_hash e ws fuses info img hdr" and ?u = "unsigned_header e ws fuses info img hdr"
  let ?b = "nat (base img)" and ?n = "nat (highest img - base img) - 392"
  have key_ws: "ws = toArray (sign_bn e) 96 (rsa_n (evp_rsa k))"
    using key_methods_rsa(3) [OF ws] by (simp add: rwords_def)
  then have len: "length ws = 96" using toArray_value [OF assms(2)] by simp
  let ?h = "?u\<lparr>signature := toArray (sign_bn e) 96 out\<rparr>"
  have wf0: "wf_header ?g" by (rule wf_header_to_hash [OF len assms(3)])
  then have wf: "wf_header ?h"
    using toArray_value [OF assms(2)] by (simp add: unsigned_header_def Let_def wf_header_def)
  have rd: "header_of_bytes (mem_read (mem img') ?b 1024) = ?h"
    unfolding i put_header_read [OF wf]
    by (simp add: header_of_bytes_def header_bytes_words header_of_header_words [OF wf])
  have "highest img - base img < 2 ^ 31" using assms(5) b by (simp add: MEM_SIZE_def)
  then have n: "nat (signed_size img) = ?n"
    using signed_size_eq [of img] assms(4) by simp
  have n632: "632 \<le> ?n" using assms(4) by simp
  have "signed_words ?h = signed_words ?g"
    using signed_words_unsigned [of ?g "toArray (sign_bn e) 96 out"] wf0 toArray_value [OF assms(2)]
    by (simp add: unsigned_header_def Let_def wf_header_def)
  then have same: "mem_read (mem img') (?b + 392) ?n = mem_read (mem (put_header ?g img)) (?b + 392) ?n"
    unfolding i put_header_tail [OF wf n632] put_header_tail [OF wf0 n632] drop_header_bytes by simp
  have out: "mem img' a = mem img a" if "a < ?b \<or> ?b + 1024 \<le> a" for a
    using that wf by (auto simp: i put_header_def mem_write_def)
  have key: "key ?h = ws"
    by (simp add: unsigned_header_def header_to_hash_def Let_def)
  have kv: "words_value (key ?h) = rsa_n (evp_rsa k) mod 2 ^ 3072"
    unfolding key using toArray_value [OF assms(2), of 96 "rsa_n (evp_rsa k)"] by (simp add: key_ws)
  have hh: "?h = hdr\<lparr>image_size := word_of_int (highest img - base img), key := key ?h,
      fuses_chk := hash_word (SHA256 (sign_crypto e) (words_bytes fuses)),
      info_chk := hash_word (SHA256 (sign_crypto e) (words_bytes info)),
      img_chk := hash_word (SHA256 (sign_crypto e) (mem_read (mem img') (?b + 392) ?n)),
      signature := toArray (sign_bn e) 96 out\<rparr>"
    unfolding same by (simp add: unsigned_header_def header_to_hash_def Let_def n img_size_def image_bytes_def ucast_of_int del: of_int_diff)
  have hs: "signed_hashes e ws fuses info img hdr = SHA256 (sign_crypto e) (mem_read (mem img') (?b + 392) ?n) @
      SHA256 (sign_crypto e) (words_bytes fuses) @ SHA256 (sign_crypto e) (words_bytes info)"
    by (simp only: signed_hashes_def same n)
  show ?thesis
    unfolding rd Let_def
    by (rule exI [of _ out]) (intro conjI allI impI hh kv out s [unfolded hs], assumption)
qed

definition sample_image :: image where
  "sample_image = Image_init\<lparr>base := 0, highest := 2048\<rparr>"

text \<open>An RSA key in software signs when all the calls of OpenSSL succeed.\<close>

definition evp_works :: "evp_lib \<Rightarrow> evp_pkey \<Rightarrow> bool" where
  "evp_works evp k \<longleftrightarrow> md_ctx_ok evp \<and> digest_update_rc evp = 1 \<and> (\<forall>msg. fst (EVP_SignFinal evp k msg) = 1) \<and>
     lshift_rc evp = 1 \<and> mod_rc evp = 1"

lemma PublicKey_sign_works:
  assumes "evp_works (sign_evp e) k" and "evp_is_rsa k"
  shows "\<exists>out. PublicKey_sign e False k msg pre = Some (Inr (1, out))"
proof -
  from assms obtain sg where "EVP_SignFinal (sign_evp e) k msg = (1, sg)"
    by (metis evp_works_def prod.collapse)
  with assms show ?thesis by (simp add: evp_works_def PublicKey_sign_def sign_bytes_def Let_def EVP_PKEY_get1_RSA_def)
qed

lemma Image_sign_works:
  assumes "evp_works (sign_evp e) k" and "evp_is_rsa k"
    and "0 \<le> base img" and "base img + 1024 \<le> highest img" and "highest img \<le> int MEM_SIZE"
  shows "\<exists>img' hs. Image_sign e False k hdr fuses info name ok img =
      Some (Inr (True, img', if name \<noteq> [] \<and> ok then Some hs else None)) \<and>
    base img' = base img \<and> highest img' = highest img"
proof -
  have bounds: "\<not> (base img < 0 \<or> int MEM_SIZE < base img + 1024)"
    using assms(3-5) by linarith
  have "highest img - base img < 2 ^ 31" using assms(3-5) by (simp add: MEM_SIZE_def)
  then have size: "signed_size (put_header h img) = highest img - base img - 392" for h
    using signed_size_eq [of "put_header h img"] assms(4) by simp
  have fits: "\<not> (highest img - base img - 392 < 0 \<or>
      int MEM_SIZE < base img + int TAG_OFFSET + (highest img - base img - 392))"
    using assms(3-5) by simp
  obtain f where f: "PublicKey_sign e False k msg pre = Some (Inr (1, f msg pre))" for msg pre
    using PublicKey_sign_works [OF assms(1,2)] by metis
  have ws: "modToArray (sign_bn e) rwords k = Some (toArray (sign_bn e) rwords (rsa_n (evp_rsa k)))"
    using assms(2) by (simp add: modToArray_def EVP_PKEY_get1_RSA_def)
  show ?thesis
    unfolding Image_sign_def ws option.case Let_def if_not_P [OF bounds] put_header_simps size if_not_P [OF fits] f
    by simp
qed

lemma sample_evp_works: "evp_works (sign_evp sample_sign_env) sample_key" "evp_is_rsa sample_key"
  by (simp_all add: evp_works_def sample_sign_env_def sample_key_def)

lemma sample_image_signs:
  "\<exists>img'. Image_sign sample_sign_env False sample_key zero_header (replicate 128 0) (replicate 128 0) [] False sample_image =
     Some (Inr (True, img', None))"
proof -
  have "0 \<le> base sample_image" "base sample_image + 1024 \<le> highest sample_image" "highest sample_image \<le> int MEM_SIZE"
    by (simp_all add: sample_image_def MEM_SIZE_def)
  from Image_sign_works [OF sample_evp_works this, of zero_header "replicate 128 0" "replicate 128 0" "[]" False]
  show ?thesis by auto
qed

theorem Image_sign_verifies_witness:
  "\<exists>img'. Image_sign sample_sign_env False sample_key zero_header (replicate 128 0) (replicate 128 0) [] False sample_image =
     Some (Inr (True, img', None)) \<and>
   image_size (header_of_bytes (mem_read (mem img') 0 1024)) = 2048 \<and> mem img' 1024 = 0xff"
proof -
  from sample_image_signs obtain img' where
    run: "Image_sign sample_sign_env False sample_key zero_header (replicate 128 0) (replicate 128 0) [] False sample_image =
      Some (Inr (True, img', None))" ..
  have h: "bn_ok (sign_bn sample_sign_env)" "base sample_image + 1024 \<le> highest sample_image"
    "highest sample_image \<le> int MEM_SIZE"
    by (simp_all add: sample_sign_env_def nat_bn_ok sample_image_def MEM_SIZE_def)
  have b: "base sample_image = 0" "highest sample_image = 2048" by (simp_all add: sample_image_def)
  note v = Image_sign_verifies [OF run h(1) wf_zero_header h(2,3), unfolded Let_def b]
  from v have "image_size (header_of_bytes (mem_read (mem img') 0 1024)) = 2048"
    by (elim exE conjE) (drule arg_cong [where f = image_size], simp)
  moreover from v have "mem img' 1024 = mem sample_image 1024"
    by (elim exE conjE) simp
  ultimately show ?thesis using run by (simp add: sample_image_def Image_init_def)
qed

end
