(* ===== verification/StringMap.thy ===== *)
theory StringMap
  imports Prelude "HOL-Library.List_Lexorder" "HOL-Library.Char_ord"
begin

text \<open>
  \<open>std::map<string, uint32_t>\<close>, the container of the code signer: the interface the signer
  uses, its laws, and their proof for sorted association lists. The iteration order of the map is
  the order of its keys.
\<close>

locale string_map =
  fixes lookup :: "'m \<Rightarrow> string \<Rightarrow> u32 option"
    and assign :: "string \<Rightarrow> u32 \<Rightarrow> 'm \<Rightarrow> 'm"
    and entries :: "'m \<Rightarrow> (string \<times> u32) list"
    and valid :: "'m \<Rightarrow> bool"
  assumes lookup_assign: "valid m \<Longrightarrow> lookup (assign k v m) k' = (if k' = k then Some v else lookup m k')"
    and valid_assign: "valid m \<Longrightarrow> valid (assign k v m)"
    and entries_lookup: "valid m \<Longrightarrow> (k, v) \<in> set (entries m) \<longleftrightarrow> lookup m k = Some v"
    and entries_sorted: "valid m \<Longrightarrow> sorted_wrt (<) (map fst (entries m))"
begin

lemma distinct_keys: "valid m \<Longrightarrow> distinct (map fst (entries m))"
  using entries_sorted [of m] strict_sorted_iff by blast

lemma lookup_entries: "valid m \<Longrightarrow> lookup m = map_of (entries m)"
proof (rule ext)
  fix k assume "valid m"
  then have "lookup m k = Some v \<longleftrightarrow> map_of (entries m) k = Some v" for v
    using entries_lookup [of m k v] distinct_keys [of m] by (simp add: map_of_eq_Some_iff)
  then show "lookup m k = map_of (entries m) k"
    by (metis not_None_eq)
qed

text \<open>A sequence of assignments: the last one to a key wins.\<close>

definition assign_all :: "(string \<times> u32) list \<Rightarrow> 'm \<Rightarrow> 'm" where
  "assign_all kvs m = fold (\<lambda>(k, v). assign k v) kvs m"

lemma valid_assign_all: "valid m \<Longrightarrow> valid (assign_all kvs m)"
  by (induction kvs arbitrary: m) (auto simp: assign_all_def valid_assign)

lemma lookup_assign_all:
  "valid m \<Longrightarrow> lookup (assign_all kvs m) k = (case map_of (rev kvs) k of Some v \<Rightarrow> Some v | None \<Rightarrow> lookup m k)"
proof (induction kvs arbitrary: m)
  case (Cons kv kvs)
  obtain k1 v1 where "kv = (k1, v1)" by (cases kv)
  with Cons show ?case
    by (auto simp: assign_all_def valid_assign lookup_assign map_add_def split: option.splits)
qed (simp add: assign_all_def)

end

section \<open>Sorted association lists\<close>

type_synonym smap = "(string \<times> u32) list"

definition smap_valid :: "smap \<Rightarrow> bool" where
  "smap_valid m \<longleftrightarrow> sorted_wrt (<) (map fst m)"

text \<open>\<open>m[k] = v\<close>\<close>

fun smap_assign :: "string \<Rightarrow> u32 \<Rightarrow> smap \<Rightarrow> smap" where
  "smap_assign k v [] = [(k, v)]"
| "smap_assign k v ((k', v') # m) =
     (if k < k' then (k, v) # (k', v') # m
      else if k = k' then (k, v) # m
      else (k', v') # smap_assign k v m)"

text \<open>\<open>m.insert(make_pair(k, v))\<close>, which keeps a value that is there.\<close>

definition smap_insert :: "string \<Rightarrow> u32 \<Rightarrow> smap \<Rightarrow> smap" where
  "smap_insert k v m = (if map_of m k = None then smap_assign k v m else m)"

text \<open>
  The value of \<open>m[k]\<close>: 0 for a missing key. The entry it creates is not iterated over
  anywhere in the signer except to print it.
\<close>

definition smap_at :: "smap \<Rightarrow> string \<Rightarrow> u32" where
  "smap_at m k = (case map_of m k of Some v \<Rightarrow> v | None \<Rightarrow> 0)"

lemma fst_smap_assign: "fst ` set (smap_assign k v m) = insert k (fst ` set m)"
proof (induction m)
  case (Cons kv m)
  then show ?case by (cases kv) (simp add: insert_commute)
qed simp

lemma smap_valid_Cons: "smap_valid ((k, v) # m) \<longleftrightarrow> (\<forall>k' \<in> fst ` set m. k < k') \<and> smap_valid m"
  by (simp add: smap_valid_def)

lemma smap_valid_assign: "smap_valid m \<Longrightarrow> smap_valid (smap_assign k v m)"
proof (induction m)
  case (Cons kv m)
  obtain k1 v1 where "kv = (k1, v1)" by (cases kv)
  with Cons show ?case
    by (auto simp: smap_valid_Cons fst_smap_assign simp del: image_insert intro: less_trans)
qed (simp add: smap_valid_def)

lemma map_of_smap_assign:
  "smap_valid m \<Longrightarrow> map_of (smap_assign k v m) k' = (if k' = k then Some v else map_of m k')"
proof (induction m)
  case (Cons kv m)
  obtain k1 v1 where "kv = (k1, v1)" by (cases kv)
  with Cons show ?case by (auto simp: smap_valid_Cons)
qed simp

lemma smap_valid_Nil [simp]: "smap_valid []"
  by (simp add: smap_valid_def)

interpretation smap: string_map map_of smap_assign "\<lambda>m. m" smap_valid
proof unfold_locales
  fix m :: smap and k v k'
  assume m: "smap_valid m"
  then show "map_of (smap_assign k v m) k' = (if k' = k then Some v else map_of m k')"
    and "smap_valid (smap_assign k v m)"
    by (simp_all add: map_of_smap_assign smap_valid_assign)
  show "sorted_wrt (<) (map fst m)" using m by (simp add: smap_valid_def)
  then have "distinct (map fst m)" using strict_sorted_iff by blast
  then show "(k, v) \<in> set m \<longleftrightarrow> map_of m k = Some v"
    by (auto simp: map_of_eq_Some_iff)
qed

lemma smap_valid_insert: "smap_valid m \<Longrightarrow> smap_valid (smap_insert k v m)"
  by (simp add: smap_insert_def smap_valid_assign)

lemma map_of_smap_insert:
  "smap_valid m \<Longrightarrow> map_of (smap_insert k v m) k' =
    (if k' = k \<and> map_of m k = None then Some v else map_of m k')"
  by (auto simp: smap_insert_def map_of_smap_assign)

end
