(* ===== verification/Manifest.thy ===== *)
theory Manifest
  imports StringMap
begin

text \<open>
  The two input documents of the code signer (util/signer/codesigner.cc): the fuse definitions in
  XML (\<open>get_val\<close>, \<open>get_fuse\<close>, \<open>find_fuses\<close>,
  \<open>find_default_reg_value\<close>, \<open>readXML\<close>) and the signing manifest in JSON
  (\<open>readJSON\<close>).

  Parsing itself is done by libxml2 and rapidjson: the functions start from the parsed document. An
  XML node carries the name, whether it is a text node, what \<open>xmlNodeGetContent\<close> returns for
  it, and its children in order; the parser of JSON is an argument. A call that ends the program is
  a \<open>stop\<close>: a \<open>FATAL\<close>, a failed assertion, the dereference of a null pointer, or a
  JSON value of the wrong type, on which rapidjson asserts.
\<close>

datatype stop = Fatal string | AssertFailed | NullDeref | JsonType | BadShift

section \<open>atoi\<close>

fun digits_value :: "int \<Rightarrow> string \<Rightarrow> int" where
  "digits_value acc [] = acc"
| "digits_value acc (c # cs) =
     (if CHR ''0'' \<le> c \<and> c \<le> CHR ''9'' then digits_value (acc * 10 + (of_char c - 48)) cs else acc)"

definition is_space :: "char \<Rightarrow> bool" where
  "is_space c \<longleftrightarrow> c \<in> {CHR '' '', CHR 0x09, CHR 0x0A, CHR 0x0B, CHR 0x0C, CHR 0x0D}"

text \<open>
  \<open>atoi\<close> is \<open>strtol\<close>, which stops at the limits of \<open>long\<close>, cut to \<open>int\<close>: this is what glibc does with
  numbers that do not fit, for which the standard leaves the result open.
\<close>

definition signed_number :: "string \<Rightarrow> int" where
  "signed_number s =
     (case dropWhile is_space s of
        [] \<Rightarrow> 0
      | c # cs \<Rightarrow>
          if c = CHR ''-'' then - digits_value 0 cs
          else if c = CHR ''+'' then digits_value 0 cs
          else digits_value 0 (c # cs))"

definition atoi :: "string \<Rightarrow> int" where
  "atoi s = (max (- (2 ^ 63)) (min (2 ^ 63 - 1) (signed_number s)) + 2 ^ 31) mod 2 ^ 32 - 2 ^ 31"

lemma atoi_fits: "- (2 ^ 31) \<le> signed_number s \<Longrightarrow> signed_number s < 2 ^ 31 \<Longrightarrow> atoi s = signed_number s"
  by (simp add: atoi_def)

lemma atoi_int: "- (2 ^ 31) \<le> atoi s" "atoi s < 2 ^ 31"
  by (simp_all add: atoi_def)

section \<open>The XML document\<close>

datatype xml_node = XNode (n_name: string) (n_text: bool) (n_content: "string option") (n_children: "xml_node list")

text \<open>
  One child of \<open>get_val\<close>'s loop: a \<open>HashItem\<close> has its key as the second and its value
  as the fourth child (text nodes lie between); fewer children are null pointers. The result
  \<open>Some v\<close> leaves the loop with \<open>val = v\<close>.
\<close>

definition hash_item :: "xml_node \<Rightarrow> string \<Rightarrow> stop + string option option" where
  "hash_item cur k =
     (if n_name cur \<noteq> ''HashItem'' then Inr None
      else case n_children cur of
             _ # key_node # _ # rest \<Rightarrow>
               (let val_data = (case rest of [] \<Rightarrow> None | val_node # _ \<Rightarrow> n_content val_node)
                in case n_content key_node of
                     None \<Rightarrow> Inl NullDeref
                   | Some key_name \<Rightarrow> Inr (if k = key_name then Some val_data else None))
           | _ \<Rightarrow> Inl NullDeref)"

fun get_val :: "xml_node \<Rightarrow> string \<Rightarrow> stop + string option"
  and get_val_loop :: "xml_node list \<Rightarrow> string \<Rightarrow> stop + string option" where
  "get_val (XNode n t c cs) k = get_val_loop cs k"
| "get_val_loop [] k = Inr None"
| "get_val_loop (cur # rest) k =
     bind_result (hash_item cur k) (\<lambda>found.
       case found of
         Some v \<Rightarrow> Inr v
       | None \<Rightarrow>
           bind_result (get_val cur k) (\<lambda>v.
             case v of Some v \<Rightarrow> Inr (Some v) | None \<Rightarrow> get_val_loop rest k))"

text \<open>The maps filled from the XML and the two globals that \<open>get_fuse\<close> updates.\<close>

record xml_state =
  ids :: smap
  bits :: smap
  last_logical_offset :: int
  fuse_index :: nat

definition get_fuse :: "xml_node \<Rightarrow> xml_state \<Rightarrow> stop + (bool \<times> xml_state)" where
  "get_fuse a_node st =
     (if n_name a_node \<noteq> ''HashType'' then Inr (False, st)
      else
        bind_result (get_val a_node ''RegName'') (\<lambda>RegName.
        bind_result (get_val a_node ''Width'') (\<lambda>Width.
        bind_result (get_val a_node ''FuseLogicalOffset'') (\<lambda>FuseLogicalOffset.
          case FuseLogicalOffset of
            None \<Rightarrow> Inl NullDeref
          | Some off \<Rightarrow>
              if atoi off \<ge> last_logical_offset st then
                (case (RegName, Width) of
                   (Some name, Some w) \<Rightarrow>
                     Inr (False, st\<lparr>last_logical_offset := atoi off,
                       ids := smap_insert name (of_nat (fuse_index st)) (ids st), fuse_index := Suc (fuse_index st),
                       bits := smap_insert name (word_of_int (atoi w)) (bits st)\<rparr>)
                 | _ \<Rightarrow> Inl NullDeref)
              else Inr (True, st)))))"

text \<open>
  The traversal of a list of siblings; \<open>parents\<close> are the ancestors of the siblings, the parent
  first. The document node above the root is not among them: it has no name to compare.
\<close>

fun find_fuses :: "xml_node list \<Rightarrow> xml_node list \<Rightarrow> xml_state \<Rightarrow> stop + (bool \<times> xml_state)" where
  "find_fuses parents [] st = Inr (False, st)"
| "find_fuses parents (XNode n t c cs # rest) st =
     bind_result
       (if t \<and> c = Some ''FuseLogicalOffset'' then
          (case drop 2 parents of [] \<Rightarrow> Inl NullDeref | anc # _ \<Rightarrow> get_fuse anc st)
        else Inr (False, st))
       (\<lambda>(finished, st).
          bind_result (if \<not> finished then find_fuses (XNode n t c cs # parents) cs st else Inr (finished, st))
            (\<lambda>(finished, st). if finished then Inr (True, st) else find_fuses parents rest st))"

fun find_default_reg_value ::
  "xml_node list \<Rightarrow> xml_node list \<Rightarrow> string \<Rightarrow> stop + string option" where
  "find_default_reg_value parents [] regname = Inr None"
| "find_default_reg_value parents (XNode n t c cs # rest) regname =
     bind_result
       (if t \<and> c = Some regname then
          (case drop 2 parents of [] \<Rightarrow> Inl NullDeref | anc # _ \<Rightarrow> get_val anc ''Default'')
        else Inr None)
       (\<lambda>found.
          bind_result
            (case found of
               None \<Rightarrow> find_default_reg_value (XNode n t c cs # parents) cs regname
             | Some v \<Rightarrow> Inr (Some v))
            (\<lambda>found. case found of Some v \<Rightarrow> Inr (Some v) | None \<Rightarrow> find_default_reg_value parents rest regname))"

text \<open>\<open>readXML\<close> on the parsed document: its root element with the siblings behind it, or no document.\<close>

definition readXML :: "xml_node list option \<Rightarrow> xml_state \<Rightarrow> u32 \<Rightarrow> stop + (bool \<times> xml_state \<times> u32)" where
  "readXML doc st p4cl =
     (case doc of
        None \<Rightarrow> Inr (False, st, p4cl)
      | Some root \<Rightarrow>
          bind_result (find_fuses [] root st) (\<lambda>(found, st).
          bind_result (find_default_reg_value [] root ''SWDP_P4_LAST_SYNC'') (\<lambda>v.
            case v of
              Some s \<Rightarrow> Inr (found, st, if found then word_of_int (atoi s) else p4cl)
            | None \<Rightarrow> Inr (False, st, p4cl))))"

section \<open>The JSON manifest\<close>

datatype json = JInt int | JString string | JObject "(string \<times> json) list" | JOther

fun strip_comment :: "string \<Rightarrow> string" where
  "strip_comment (c # d # s) = (if c = CHR ''/'' \<and> d = CHR ''/'' then [] else c # strip_comment (d # s))"
| "strip_comment s = s"

fun split_lines :: "string \<Rightarrow> string list" where
  "split_lines [] = [[]]"
| "split_lines (c # s) =
     (if c = CHR 0x0A then [] # split_lines s
      else case split_lines s of [] \<Rightarrow> [[c]] | l # ls \<Rightarrow> (c # l) # ls)"

definition json_text :: "string \<Rightarrow> string" where
  "json_text s = concat (map strip_comment (split_lines s))"

definition as_object :: "json \<Rightarrow> stop + (string \<times> json) list" where
  "as_object j = (case j of JObject ms \<Rightarrow> Inr ms | _ \<Rightarrow> Inl JsonType)"

definition as_int :: "json \<Rightarrow> stop + u32" where
  "as_int j = (case j of JInt i \<Rightarrow> Inr (word_of_int i) | _ \<Rightarrow> Inl JsonType)"

definition as_string :: "json \<Rightarrow> stop + string" where
  "as_string j = (case j of JString s \<Rightarrow> Inr s | _ \<Rightarrow> Inl JsonType)"

definition member :: "(string \<times> json) list \<Rightarrow> string \<Rightarrow> stop + json" where
  "member ms x =
     (case map_of ms x of None \<Rightarrow> Inl (Fatal (''manifest is lacking field '' @ x)) | Some j \<Rightarrow> Inr j)"

fun assign_members :: "(string \<times> json) list \<Rightarrow> smap \<Rightarrow> stop + smap" where
  "assign_members [] m = Inr m"
| "assign_members ((k, j) # ms) m = bind_result (as_int j) (\<lambda>v. assign_members ms (smap_assign k v m))"

fun get_values :: "(string \<times> json) list \<Rightarrow> string list \<Rightarrow> smap \<Rightarrow> stop + smap" where
  "get_values ms [] m = Inr m"
| "get_values ms (x # xs) m =
     bind_result (member ms x) (\<lambda>j. bind_result (as_int j) (\<lambda>v. get_values ms xs (smap_assign x v m)))"

definition manifest_fields :: "string list" where
  "manifest_fields =
     [''keyid'', ''p4cl'', ''epoch'', ''major'', ''minor'', ''applysec'', ''config1'', ''err_response'',
      ''expect_response'']"

text \<open>
  \<open>readJSON\<close>: the content of the file, or \<open>None\<close> when it cannot be opened, and the maps
  it extends; \<open>have_json\<close> is the build option \<open>HAVE_JSON\<close>.
\<close>

definition readJSON ::
  "bool \<Rightarrow> (string \<Rightarrow> json option) \<Rightarrow> string option \<Rightarrow> string \<Rightarrow> smap \<Rightarrow> smap \<Rightarrow> smap \<Rightarrow>
    stop + (bool \<times> string \<times> smap \<times> smap \<times> smap)" where
  "readJSON have_json parse content tag_in values fusemap_in infomap_in =
     (if \<not> have_json then Inl (Fatal ''code signer is not built with JSON support!'')
      else case content of
             None \<Rightarrow> Inr (False, tag_in, values, fusemap_in, infomap_in)
           | Some s \<Rightarrow>
               (case parse (json_text s) of
                  None \<Rightarrow> Inl (Fatal ''parse error'')
                | Some d \<Rightarrow>
                    bind_result (as_object d) (\<lambda>ms.
                    bind_result (member ms ''fuses'') (\<lambda>f. bind_result (as_object f) (\<lambda>fs.
                    bind_result (assign_members fs fusemap_in) (\<lambda>fusemap'.
                    bind_result (member ms ''info'') (\<lambda>i. bind_result (as_object i) (\<lambda>is.
                    bind_result (assign_members is infomap_in) (\<lambda>infomap'.
                    bind_result (get_values ms manifest_fields values) (\<lambda>values'.
                    bind_result (member ms ''tag'') (\<lambda>t. bind_result (as_string t) (\<lambda>tag'.
                      Inr (True, tag', values', fusemap', infomap')))))))))))))"

section \<open>What readXML collects\<close>

text \<open>
  The fuses in the order in which they were met, with name, width and logical offset: the numbers
  are their positions, the first definition of a name counts, and the offsets never decrease.
\<close>

definition xml_start :: xml_state where
  "xml_start = \<lparr>ids = [], bits = [], last_logical_offset = -1, fuse_index = 0\<rparr>"

definition collected :: "(string \<times> u32 \<times> int) list \<Rightarrow> xml_state \<Rightarrow> bool" where
  "collected fs st \<longleftrightarrow>
     fuse_index st = length fs \<and> sorted_wrt (\<le>) (-1 # map (\<lambda>(n, w, off). off) fs) \<and>
     last_logical_offset st = last (-1 # map (\<lambda>(n, w, off). off) fs) \<and>
     smap_valid (ids st) \<and> smap_valid (bits st) \<and>
     map_of (ids st) = map_of (zip (map fst fs) (map of_nat [0..<length fs])) \<and>
     map_of (bits st) = map_of (map (\<lambda>(n, w, off). (n, w)) fs)"

lemma collected_start: "collected [] xml_start"
  by (simp add: collected_def xml_start_def)

lemma map_of_append_single:
  "map_of (xs @ [(k, v)]) k' = (if k' = k \<and> map_of xs k = None then Some v else map_of xs k')"
  by (induction xs) auto

lemma last_le_all:
  fixes xs :: "int list"
  shows "sorted_wrt (\<le>) (x # xs) \<Longrightarrow> last (x # xs) \<le> y \<Longrightarrow> sorted_wrt (\<le>) (x # xs @ [y])"
  by (induction xs arbitrary: x) (auto split: if_splits)

lemma collected_snoc:
  assumes "collected fs st" and "last_logical_offset st \<le> off"
  shows "collected (fs @ [(name, w, off)])
    (st\<lparr>last_logical_offset := off, ids := smap_insert name (of_nat (fuse_index st)) (ids st),
        fuse_index := Suc (fuse_index st), bits := smap_insert name w (bits st)\<rparr>)"
proof -
  have "sorted_wrt (\<le>) (-1 # map (\<lambda>(n, w, off). off) fs @ [off])"
    using assms by (intro last_le_all) (simp_all add: collected_def)
  moreover have "map_of (smap_insert name (of_nat (length fs)) (ids st)) =
      map_of (zip (map fst fs) (map of_nat [0..<length fs]) @ [(name, of_nat (length fs))])"
    and "map_of (smap_insert name w (bits st)) = map_of (map (\<lambda>(n, w, off). (n, w)) fs @ [(name, w)])"
    using assms(1) by (simp_all only: collected_def fun_eq_iff map_of_smap_insert map_of_append_single simp_thms)
  ultimately show ?thesis
    using assms(1) by (simp add: collected_def smap_valid_insert)
qed

text \<open>
  The listings of fuses in document order: every text \<open>FuseLogicalOffset\<close> stands for the node three levels above
  it, if that is a \<open>HashType\<close>.
\<close>

fun fuse_sites :: "xml_node list \<Rightarrow> xml_node list \<Rightarrow> xml_node list" where
  "fuse_sites parents [] = []"
| "fuse_sites parents (XNode n t c cs # rest) =
     (if t \<and> c = Some ''FuseLogicalOffset'' then take 1 (drop 2 parents) else []) @
     fuse_sites (XNode n t c cs # parents) cs @ fuse_sites parents rest"

definition xml_value :: "xml_node \<Rightarrow> string \<Rightarrow> string" where
  "xml_value a k = (case get_val a k of Inr (Some v) \<Rightarrow> v | _ \<Rightarrow> [])"

definition fuse_entry :: "xml_node \<Rightarrow> string \<times> u32 \<times> int" where
  "fuse_entry a = (xml_value a ''RegName'', word_of_int (atoi (xml_value a ''Width'')), atoi (xml_value a ''FuseLogicalOffset''))"

definition fuse_entries :: "xml_node list \<Rightarrow> (string \<times> u32 \<times> int) list" where
  "fuse_entries sites = map fuse_entry (filter (\<lambda>a. n_name a = ''HashType'') sites)"

text \<open>The entries up to the first whose offset falls below the one before it, or below the bound at the start.\<close>

fun rising :: "int \<Rightarrow> (string \<times> u32 \<times> int) list \<Rightarrow> (string \<times> u32 \<times> int) list" where
  "rising b [] = []"
| "rising b ((n, w, off) # es) = (if b \<le> off then (n, w, off) # rising off es else [])"

text \<open>The traversal calls \<open>get_fuse\<close> on the sites one after the other.\<close>

fun collect :: "xml_node list \<Rightarrow> xml_state \<Rightarrow> stop + (bool \<times> xml_state)" where
  "collect [] st = Inr (False, st)"
| "collect (a # as) st = bind_result (get_fuse a st) (\<lambda>(finished, st). if finished then Inr (True, st) else collect as st)"

lemma collect_append:
  "collect (xs @ ys) st = bind_result (collect xs st) (\<lambda>(finished, st). if finished then Inr (True, st) else collect ys st)"
proof (induction xs arbitrary: st)
  case (Cons a xs)
  then show ?case by (cases "get_fuse a st") auto
qed simp

lemma find_fuses_collect:
  "find_fuses parents nodes st = Inr r \<Longrightarrow> collect (fuse_sites parents nodes) st = Inr r"
proof (induction parents nodes st arbitrary: r rule: find_fuses.induct)
  case (2 parents n t c cs rest st)
  let ?here = "if t \<and> c = Some ''FuseLogicalOffset'' then take 1 (drop 2 parents) else []"
  let ?sub = "fuse_sites (XNode n t c cs # parents) cs"
  from "2.prems" obtain f1 st1 where
    s1: "(if t \<and> c = Some ''FuseLogicalOffset'' then
          (case drop 2 parents of [] \<Rightarrow> Inl NullDeref | anc # _ \<Rightarrow> get_fuse anc st)
        else Inr (False, st)) = Inr (f1, st1)"
    and r1: "bind_result (if \<not> f1 then find_fuses (XNode n t c cs # parents) cs st1 else Inr (f1, st1))
            (\<lambda>(finished, st). if finished then Inr (True, st) else find_fuses parents rest st) = Inr r"
    by auto
  have here: "collect ?here st = Inr (f1, st1)"
    using s1 by (cases "drop 2 parents") (auto split: if_splits)
  show ?case
  proof (cases f1)
    case True
    with r1 have "r = (True, st1)" by auto
    with here True show ?thesis by (simp only: fuse_sites.simps collect_append) simp
  next
    case False
    with r1 obtain f2 st2 where s2: "find_fuses (XNode n t c cs # parents) cs st1 = Inr (f2, st2)"
      and r2: "(if f2 then Inr (True, st2) else find_fuses parents rest st2) = Inr r"
      by auto
    have sub: "collect ?sub st1 = Inr (f2, st2)" using "2.IH"(1) [OF _ s2] False by simp
    show ?thesis
    proof (cases f2)
      case True
      with r2 have "r = (True, st2)" by auto
      with here sub False True show ?thesis by (simp only: fuse_sites.simps collect_append) simp
    next
      case f2: False
      with r2 have "find_fuses parents rest st2 = Inr r" by simp
      from "2.IH"(2) [OF f2 this] here sub False f2 show ?thesis
        by (simp only: fuse_sites.simps collect_append) simp
    qed
  qed
qed simp

lemma get_fuse_cases:
  assumes "get_fuse a st = Inr (finished, st')"
  obtains "n_name a \<noteq> ''HashType''" "\<not> finished" "st' = st"
  | n w off where "n_name a = ''HashType''" "fuse_entry a = (n, w, off)" "last_logical_offset st \<le> off" "\<not> finished"
      "st' = st\<lparr>last_logical_offset := off, ids := smap_insert n (of_nat (fuse_index st)) (ids st),
        fuse_index := Suc (fuse_index st), bits := smap_insert n w (bits st)\<rparr>"
  | n w off where "n_name a = ''HashType''" "fuse_entry a = (n, w, off)" "\<not> last_logical_offset st \<le> off" "finished"
      "st' = st"
proof (cases "n_name a = ''HashType''")
  case True
  with assms obtain nm wd off where v: "get_val a ''RegName'' = Inr nm" "get_val a ''Width'' = Inr wd"
    "get_val a ''FuseLogicalOffset'' = Inr (Some off)"
    by (auto simp: get_fuse_def split: option.splits)
  show thesis
  proof (cases "last_logical_offset st \<le> atoi off")
    case le: True
    with assms True v obtain n w where "nm = Some n" "wd = Some w"
      by (auto simp: get_fuse_def split: option.splits)
    with v have e: "fuse_entry a = (n, word_of_int (atoi w), atoi off)" by (simp add: fuse_entry_def xml_value_def)
    from assms True le v \<open>nm = Some n\<close> \<open>wd = Some w\<close>
    show thesis by (intro that(2) [OF True e le]) (auto simp: get_fuse_def)
  next
    case False
    obtain n w where e: "fuse_entry a = (n, w, atoi off)" using v by (simp add: fuse_entry_def xml_value_def)
    from assms True False v show thesis by (intro that(3) [OF True e False]) (auto simp: get_fuse_def)
  qed
qed (use assms that(1) in \<open>auto simp: get_fuse_def\<close>)

lemma collect_collected:
  assumes "collect as st = Inr (finished, st')" and "collected fs st"
  shows "collected (fs @ rising (last_logical_offset st) (fuse_entries as)) st' \<and>
    (finished \<longleftrightarrow> length (rising (last_logical_offset st) (fuse_entries as)) < length (fuse_entries as))"
  using assms
proof (induction as arbitrary: st fs)
  case Nil
  then show ?case by (simp add: fuse_entries_def)
next
  case (Cons a as)
  from Cons.prems(1) obtain f1 st1 where g: "get_fuse a st = Inr (f1, st1)"
    and rest: "(if f1 then Inr (True, st1) else collect as st1) = Inr (finished, st')"
    by auto
  from g show ?case
  proof (cases rule: get_fuse_cases)
    case 1
    with Cons rest show ?thesis by (simp add: fuse_entries_def)
  next
    case (2 n w off)
    have st1: "collected (fs @ [(n, w, off)]) st1" "last_logical_offset st1 = off"
      using collected_snoc [OF Cons.prems(2) 2(3), of n w] 2(5) by simp_all
    have e: "fuse_entries (a # as) = (n, w, off) # fuse_entries as" using 2(1,2) by (simp add: fuse_entries_def)
    have "collect as st1 = Inr (finished, st')" using rest 2(4) by simp
    from Cons.IH [OF this st1(1)] 2(3) show ?thesis by (simp add: e st1(2))
  next
    case (3 n w off)
    have e: "fuse_entries (a # as) = (n, w, off) # fuse_entries as" using 3(1,2) by (simp add: fuse_entries_def)
    with 3 rest Cons.prems(2) show ?thesis by simp
  qed
qed

lemma readXML_collected:
  assumes "readXML (Some root) xml_start p = Inr (found, st, p')"
  shows "collected (rising (- 1) (fuse_entries (fuse_sites [] root))) st"
    and "found \<Longrightarrow> length (rising (- 1) (fuse_entries (fuse_sites [] root))) < length (fuse_entries (fuse_sites [] root))"
proof -
  let ?fs = "rising (- 1) (fuse_entries (fuse_sites [] root))"
  from assms obtain f where "find_fuses [] root xml_start = Inr (f, st)" and "found \<longrightarrow> f"
    by (auto simp: readXML_def split: option.splits)
  with collect_collected [OF find_fuses_collect collected_start]
  have "collected ?fs st \<and> (f \<longleftrightarrow> length ?fs < length (fuse_entries (fuse_sites [] root)))" and "found \<longrightarrow> f"
    by (simp_all add: xml_start_def)
  then show "collected ?fs st" and "found \<Longrightarrow> length ?fs < length (fuse_entries (fuse_sites [] root))" by auto
qed

text \<open>C27: \<open>readXML\<close> collects the fuses that the document lists, in document order, up to the first listing
  whose logical offset falls below the one before it: a name's number is the position of its first listing among
  these, its width that of the same listing, and nothing else is in the two maps. It reports success only
  when the offsets have fallen, that is when the document starts to list the fuses again.\<close>

theorem readXML_numbers_fuses:
  assumes "readXML (Some root) xml_start p = Inr (found, st, p')"
  shows "let listed = fuse_entries (fuse_sites [] root); fs = rising (- 1) listed in
    fuse_index st = length fs \<and> sorted_wrt (\<le>) (map (\<lambda>(n, w, off). off) fs) \<and>
    map_of (ids st) = map_of (zip (map fst fs) (map of_nat [0..<length fs])) \<and>
    map_of (bits st) = map_of (map (\<lambda>(n, w, off). (n, w)) fs) \<and>
    (found \<longrightarrow> length fs < length listed)"
  using readXML_collected [OF assms] by (simp add: collected_def Let_def)

text \<open>A document with two fuses, a second listing of the first, and the sync register.\<close>

definition xml_text :: "string \<Rightarrow> xml_node" where
  "xml_text s = XNode ''text'' True (Some s) []"

definition xml_item :: "string \<Rightarrow> string \<Rightarrow> xml_node" where
  "xml_item k v = XNode ''HashItem'' False None
     [xml_text '' '', XNode ''Key'' False (Some k) [xml_text k], xml_text '' '', XNode ''Value'' False (Some v) [xml_text v]]"

definition xml_fuse :: "string \<Rightarrow> string \<Rightarrow> string \<Rightarrow> xml_node" where
  "xml_fuse n off w = XNode ''HashType'' False None
     [xml_item ''RegName'' n, xml_item ''FuseLogicalOffset'' off, xml_item ''Width'' w]"

definition sample_xml :: "xml_node list" where
  "sample_xml = [XNode ''ArrayType'' False None
     [xml_fuse ''LOCK'' ''0'' ''24'', xml_fuse ''GRP'' ''1'' ''9'', xml_fuse ''LOCK'' ''0'' ''24'',
      XNode ''HashType'' False None [xml_item ''RegName'' ''SWDP_P4_LAST_SYNC'', xml_item ''Default'' ''177'']]]"

lemma sample_xml_reads: "\<exists>st. readXML (Some sample_xml) xml_start 0 = Inr (True, st, 177)"
  by (simp add: readXML_def sample_xml_def xml_fuse_def xml_item_def xml_text_def get_fuse_def hash_item_def
      xml_start_def atoi_def signed_number_def is_space_def less_eq_char_def numeral_2_eq_2)

lemma sample_xml_fuses: "rising (- 1) (fuse_entries (fuse_sites [] sample_xml)) = [(''LOCK'', 24, 0), (''GRP'', 9, 1)]"
  by (simp add: fuse_entries_def fuse_entry_def xml_value_def sample_xml_def xml_fuse_def xml_item_def xml_text_def
      hash_item_def atoi_def signed_number_def is_space_def less_eq_char_def numeral_2_eq_2)

theorem readXML_numbers_fuses_witness:
  "\<exists>st. readXML (Some sample_xml) xml_start 0 = Inr (True, st, 177) \<and> fuse_index st = 2 \<and>
    map_of (ids st) ''GRP'' = Some 1 \<and> map_of (bits st) ''GRP'' = Some 9 \<and> map_of (ids st) ''SWDP_P4_LAST_SYNC'' = None"
proof -
  from sample_xml_reads obtain st where r: "readXML (Some sample_xml) xml_start 0 = Inr (True, st, 177)" by blast
  from readXML_numbers_fuses [OF r] r show ?thesis by (simp add: sample_xml_fuses Let_def upt_rec)
qed

end
