(* ===== verification/CodeSigner.thy ===== *)
theory CodeSigner
  imports ImageElf ImageSign Manifest
begin

text \<open>
  The program (util/signer/codesigner.cc): the command line (\<open>getOptions\<close>) and
  \<open>main\<close>, cut at its comments into the parts it consists of: header, manifest, key id, tag,
  fuse definitions, fuse and info arrays, replaced signature, signing and output. A part that can
  end the program returns a \<open>stop\<close>.
\<close>

section \<open>The command line\<close>

record options =
  inputFilename :: string
  outputFilename :: string
  keyFilename :: string
  xmlFilename :: string
  jsonFilename :: string
  outputFormat :: string
  signatureFilename :: string
  hashesFilename :: string
  opt_fillPattern :: bool
  opt_pattern :: u32
  opt_fillRandom :: bool
  FLAGS_verbose :: bool
  FLAGS_cros :: bool
  FLAGS_dauntless :: bool
  FLAGS_override_keyid :: bool

definition initial_options :: options where
  "initial_options =
     \<lparr>inputFilename = [], outputFilename = [], keyFilename = [], xmlFilename = [], jsonFilename = [],
      outputFormat = [], signatureFilename = [], hashesFilename = [], opt_fillPattern = False, opt_pattern = -1,
      opt_fillRandom = False, FLAGS_verbose = False, FLAGS_cros = False, FLAGS_dauntless = False,
      FLAGS_override_keyid = False\<rparr>"

text \<open>\<open>strtoul(s, NULL, 0)\<close>, reduced to 32 bits by the assignment to \<open>pattern\<close>.\<close>

definition digit_value :: "char \<Rightarrow> nat option" where
  "digit_value c =
     (if CHR ''0'' \<le> c \<and> c \<le> CHR ''9'' then Some (of_char c - 48)
      else if CHR ''a'' \<le> c \<and> c \<le> CHR ''z'' then Some (of_char c - 87)
      else if CHR ''A'' \<le> c \<and> c \<le> CHR ''Z'' then Some (of_char c - 55)
      else None)"

definition is_digit :: "nat \<Rightarrow> char \<Rightarrow> bool" where
  "is_digit radix c = (case digit_value c of Some d \<Rightarrow> d < radix | None \<Rightarrow> False)"

definition number_value :: "nat \<Rightarrow> string \<Rightarrow> nat" where
  "number_value radix s = foldl (\<lambda>v c. v * radix + the (digit_value c)) 0 (takeWhile (is_digit radix) s)"

definition unsigned_value :: "string \<Rightarrow> nat" where
  "unsigned_value s =
     (case s of
        c # x # d # ds \<Rightarrow>
          if c = CHR ''0'' \<and> (x = CHR ''x'' \<or> x = CHR ''X'') \<and> is_digit 16 d then number_value 16 (d # ds)
          else if c = CHR ''0'' then number_value 8 s else number_value 10 s
      | c # cs \<Rightarrow> if c = CHR ''0'' then number_value 8 s else number_value 10 s
      | [] \<Rightarrow> 0)"

definition strtoul :: "string \<Rightarrow> u64" where
  "strtoul s =
     (case dropWhile is_space s of
        [] \<Rightarrow> 0
      | c # cs \<Rightarrow>
          let (neg, body) = (if c = CHR ''-'' then (True, cs) else if c = CHR ''+'' then (False, cs) else (False, c # cs));
              v = unsigned_value body
          in if 2 ^ 64 \<le> v then - 1 else if neg then - of_nat v else of_nat v)"

text \<open>
  One result of \<open>getopt_long\<close>: the value of the option and \<open>optarg\<close>. The first
  component of the result is the return value when the function returns from the loop. The case
  \<open>'K'\<close> has no \<open>break\<close>.
\<close>

definition with_arg :: "string option \<Rightarrow> (string \<Rightarrow> options) \<Rightarrow> stop + int option \<times> options" where
  "with_arg optarg f = (case optarg of None \<Rightarrow> Inl NullDeref | Some s \<Rightarrow> Inr (None, f s))"

definition option_step :: "char \<times> string option \<Rightarrow> options \<Rightarrow> stop + int option \<times> options" where
  "option_step ev opts =
     (let (c, optarg) = ev in
      if c = CHR 0x00 \<or> c = CHR ''b'' then Inr (None, opts)
      else if c = CHR ''c'' then Inr (None, opts\<lparr>FLAGS_cros := True\<rparr>)
      else if c = CHR ''d'' then Inr (None, opts\<lparr>FLAGS_dauntless := True\<rparr>)
      else if c = CHR ''K'' then
        with_arg optarg (\<lambda>s. opts\<lparr>FLAGS_override_keyid := True, inputFilename := s\<rparr>)
      else if c = CHR ''i'' then with_arg optarg (\<lambda>s. opts\<lparr>inputFilename := s\<rparr>)
      else if c = CHR ''o'' then with_arg optarg (\<lambda>s. opts\<lparr>outputFilename := s\<rparr>)
      else if c = CHR ''k'' then with_arg optarg (\<lambda>s. opts\<lparr>keyFilename := s\<rparr>)
      else if c = CHR ''x'' then with_arg optarg (\<lambda>s. opts\<lparr>xmlFilename := s\<rparr>)
      else if c = CHR ''s'' then with_arg optarg (\<lambda>s. opts\<lparr>signatureFilename := s\<rparr>)
      else if c = CHR ''j'' then with_arg optarg (\<lambda>s. opts\<lparr>jsonFilename := s\<rparr>)
      else if c = CHR ''f'' then with_arg optarg (\<lambda>s. opts\<lparr>outputFormat := s\<rparr>)
      else if c = CHR ''H'' then with_arg optarg (\<lambda>s. opts\<lparr>hashesFilename := s\<rparr>)
      else if c = CHR ''r'' then Inr (None, opts\<lparr>opt_fillRandom := True\<rparr>)
      else if c = CHR ''p'' then
        with_arg optarg (\<lambda>s. opts\<lparr>opt_fillPattern := True, opt_pattern := ucast (strtoul s)\<rparr>)
      else if c = CHR ''h'' then Inr (Some 1, opts)
      else if c = CHR ''v'' then Inr (None, opts\<lparr>FLAGS_verbose := True\<rparr>)
      else if c = CHR ''?'' then Inr (Some 1, opts)
      else Inr (None, opts))"

fun option_loop :: "(char \<times> string option) list \<Rightarrow> options \<Rightarrow> stop + int option \<times> options" where
  "option_loop [] opts = Inr (None, opts)"
| "option_loop (ev # evs) opts =
     bind_result (option_step ev opts) (\<lambda>(ret, opts).
       case ret of Some r \<Rightarrow> Inr (Some r, opts) | None \<Rightarrow> option_loop evs opts)"

definition getOptions :: "(char \<times> string option) list \<Rightarrow> options \<Rightarrow> stop + int \<times> options" where
  "getOptions evs opts =
     bind_result (option_loop evs (opts\<lparr>outputFormat := ''hex''\<rparr>)) (\<lambda>(ret, opts).
       case ret of
         Some r \<Rightarrow> Inr (r, opts)
       | None \<Rightarrow>
           if inputFilename opts = [] \<or> outputFilename opts = [] \<or> keyFilename opts = [] \<or>
              (outputFormat opts \<noteq> ''bin'' \<and> outputFormat opts \<noteq> ''hex'')
           then Inr (1, opts) else Inr (0, opts))"

section \<open>The header and the manifest\<close>

definition start_header :: "u32 \<Rightarrow> image \<Rightarrow> u64 \<Rightarrow> SignedHeader \<Rightarrow> SignedHeader" where
  "start_header key_n0inv img now g =
     (SignedHeader_init g)\<lparr>keyid := key_n0inv, ro_base := ucast (img_ro_base img), ro_max := ucast (img_ro_max img),
        rx_base := ucast (img_rx_base img), rx_max := ucast (img_rx_max img) + 12, timestamp := now\<rparr>"

text \<open>The macros of the generated header pmjp.h are \<open>defaults\<close>: epoch, major and minor.\<close>

definition default_values :: "u32 \<Rightarrow> u32 \<times> u32 \<times> u32 \<Rightarrow> smap" where
  "default_values key_n0inv defaults =
     (let (e, ma, mi) = defaults
      in smap_insert ''minor'' mi (smap_insert ''major'' ma (smap_insert ''epoch'' e
           (smap_insert ''keyid'' key_n0inv []))))"

definition BLK6 :: string where "BLK6 = ''FW_DEFINED_DATA_EXTRA_BLK6''"

text \<open>The maps \<open>values\<close>, \<open>fuses\<close>, \<open>infos\<close> and the tag.\<close>

definition load_manifest ::
  "bool \<Rightarrow> (string \<Rightarrow> json option) \<Rightarrow> string option \<Rightarrow> string \<Rightarrow> u32 \<Rightarrow> u32 \<times> u32 \<times> u32 \<Rightarrow>
    stop + (string \<times> smap \<times> smap \<times> smap)" where
  "load_manifest have_json parse content json_name key_n0inv defaults =
     (let values = (if json_name = [] then default_values key_n0inv defaults else []);
          fuses = smap_assign BLK6 0 []
      in if json_name = [] then Inr ([], values, fuses, [])
         else
           bind_result (readJSON have_json parse content [] values fuses []) (\<lambda>(ok, tag, values, fuses, infos).
             if ok then Inr (tag, values, fuses, infos) else Inl (Fatal ''Failed to read JSON'')))"

definition apply_values :: "smap \<Rightarrow> SignedHeader \<Rightarrow> SignedHeader" where
  "apply_values values h =
     (let h = h\<lparr>p4cl := smap_at values ''p4cl'', epoch := smap_at values ''epoch'', major := smap_at values ''major'',
            minor := smap_at values ''minor'', applysec := smap_at values ''applysec'',
            config1 := smap_at values ''config1'', err_response := smap_at values ''err_response'',
            expect_response := smap_at values ''expect_response''\<rparr>;
          h = (if smap_at values ''timestamp'' \<noteq> 0 then h\<lparr>timestamp := ucast (smap_at values ''timestamp'')\<rparr> else h);
          h = (if smap_at values ''board_id'' \<noteq> 0 \<and> smap_at values ''board_id_flags'' \<noteq> 0
               then h\<lparr>board_id_type := smap_at values ''board_id'', board_id_type_mask := smap_at values ''board_id_mask'',
                      board_id_flags := smap_at values ''board_id_flags''\<rparr>
               else h\<lparr>board_id_type := 0, board_id_type_mask := 0, board_id_flags := 0\<rparr>)
      in h\<lparr>board_id_type := board_id_type h XOR SIGNED_HEADER_PADDING,
           board_id_type_mask := board_id_type_mask h XOR SIGNED_HEADER_PADDING,
           board_id_flags := board_id_flags h XOR SIGNED_HEADER_PADDING\<rparr>)"

definition check_keyid :: "bool \<Rightarrow> smap \<Rightarrow> SignedHeader \<Rightarrow> stop + SignedHeader" where
  "check_keyid override values h =
     (if smap_at values ''keyid'' \<noteq> keyid h \<and> \<not> override then Inl (Fatal ''mismatched keyid'')
      else if override then Inr (h\<lparr>keyid := smap_at values ''keyid''\<rparr>)
      else Inr h)"

text \<open>\<open>strncpy\<close> into the 28 bytes of the tag.\<close>

definition strncpy :: "nat \<Rightarrow> string \<Rightarrow> u8 list" where
  "strncpy n s =
     (let bs = map of_char (take n (takeWhile (\<lambda>c. c \<noteq> CHR 0x00) s)) in bs @ replicate (n - length bs) 0)"

definition set_tag :: "bool \<Rightarrow> string \<Rightarrow> SignedHeader \<Rightarrow> stop + SignedHeader" where
  "set_tag cros mtag h =
     (if cros \<and> mtag \<noteq> [] then Inl (Fatal ''--cros whilst also specifying tag per manifest is a no go'')
      else Inr (h\<lparr>tag := bytes_words (strncpy 28 (if cros then [CHR 0x01] else mtag))\<rparr>))"

section \<open>Fuses and info words\<close>

text \<open>The XML, the p4cl check and the definition of the escape-hatch fuse.\<close>

definition load_fuse_definitions ::
  "string \<Rightarrow> xml_node list option \<Rightarrow> smap \<Rightarrow> stop + (smap \<times> smap)" where
  "load_fuse_definitions xml_name doc values =
     bind_result
       (if xml_name = [] then Inr (xml_start, 0)
        else bind_result (readXML doc xml_start 0) (\<lambda>(ok, st, p).
          if ok then Inr (st, p) else Inl (Fatal ''Failed to read XML'')))
       (\<lambda>(st, xml_p4cl).
         if smap_at values ''p4cl'' \<noteq> xml_p4cl then Inl (Fatal ''mismatching p4cl'')
         else if length (ids st) \<ge> FUSE_MAX then Inl AssertFailed
         else if ids st \<noteq> [] \<and> (smap_at (ids st) BLK6 \<noteq> 125 \<or> smap_at (bits st) BLK6 \<noteq> 5) then Inl AssertFailed
         else Inr (smap_assign BLK6 125 (ids st), smap_assign BLK6 5 (bits st)))"

text \<open>\<open>(1ul << n) - 1\<close> in 64 bits, assigned to 32.\<close>

definition width_mask :: "u32 \<Rightarrow> u32" where
  "width_mask n = ucast (push_bit (unat n) (1 :: u64) - 1)"

fun compute_fuses ::
  "(string \<times> u32) list \<Rightarrow> smap \<Rightarrow> smap \<Rightarrow> u32 list \<Rightarrow> SignedHeader \<Rightarrow> stop + (u32 list \<times> SignedHeader)" where
  "compute_fuses [] fuse_ids fuse_bits fuse_values h = Inr (fuse_values, h)"
| "compute_fuses ((name, v) # fuses) fuse_ids fuse_bits fuse_values h =
     (case map_of fuse_ids name of
        None \<Rightarrow> Inl (Fatal (''cannot find definition for fuse '' @ name))
      | Some idx \<Rightarrow>
          if \<not> unat idx < FUSE_MAX then Inl AssertFailed
          else if 64 \<le> unat (smap_at fuse_bits name) then Inl BadShift
          else
            let mask = width_mask (smap_at fuse_bits name)
            in if v AND mask \<noteq> v then Inl (Fatal ''specified fuse value too large'')
               else
                 let val = FUSE_PADDING AND NOT mask; val = val OR v
                 in case markFuse idx h of
                      Inl AssertFail \<Rightarrow> Inl AssertFailed
                    | Inr h \<Rightarrow> compute_fuses fuses fuse_ids fuse_bits (fuse_values[unat idx := val]) h)"

fun compute_infos :: "(string \<times> u32) list \<Rightarrow> u32 list \<Rightarrow> SignedHeader \<Rightarrow> stop + (u32 list \<times> SignedHeader)" where
  "compute_infos [] info_values h = Inr (info_values, h)"
| "compute_infos ((name, v) # infos) info_values h =
     (let index = word_of_int (atoi name) :: u32
      in if \<not> unat index < INFO_MAX then Inl AssertFailed
         else case markInfo index h of
                Inl AssertFail \<Rightarrow> Inl AssertFailed
              | Inr h \<Rightarrow> compute_infos infos (info_values[unat index := info_values ! unat index XOR v]) h)"

text \<open>
  The replaced signature: no file name, a file that cannot be opened (descriptor 0 counts as a
  failure, too), or the bytes that can be read.
\<close>

definition replace_signature :: "string \<Rightarrow> u8 list option \<Rightarrow> SignedHeader \<Rightarrow> stop + SignedHeader" where
  "replace_signature sig_name content h =
     (if sig_name = [] then Inr h
      else case content of
             None \<Rightarrow> Inl (Fatal ''cannot open'')
           | Some bs \<Rightarrow>
               if length (take 384 bs) \<noteq> 384 then Inl (Fatal ''cannot read'')
               else Inr (h\<lparr>signature := bytes_words (take 384 bs)\<rparr>))"

section \<open>main\<close>

text \<open>What the program finds around it.\<close>

record 'd signer_world =
  w_args :: "(char \<times> string option) list"
  pem_readable :: bool
  pem_private :: "evp_pkey option"
  pem_public :: "evp_pkey option"
  w_elf :: elf_input
  w_rand :: "nat \<Rightarrow> u32"
  w_time :: u64
  w_have_json :: bool
  w_json_parse :: "string \<Rightarrow> json option"
  w_json :: "string option"
  w_xml :: "xml_node list option"
  w_sigfile :: "u8 list option"
  w_stack :: SignedHeader
  w_defaults :: "u32 \<times> u32 \<times> u32"
  w_hashes_open :: bool
  w_output_open :: bool
  w_sign :: "'d sign_env"

text \<open>Everything between the loaded image and the call of \<open>sign\<close>: the header and the two arrays.\<close>

definition signer_header ::
  "'d signer_world \<Rightarrow> options \<Rightarrow> evp_pkey \<Rightarrow> image \<Rightarrow> stop + (SignedHeader \<times> u32 list \<times> u32 list)" where
  "signer_header w opts k img =
     bind_result (case n0inv (sign_bn (w_sign w)) k of None \<Rightarrow> Inl NullDeref | Some n \<Rightarrow> Inr n) (\<lambda>key_n0inv.
      let h = start_header key_n0inv img (w_time w) (w_stack w) in
      bind_result (load_manifest (w_have_json w) (w_json_parse w) (w_json w) (jsonFilename opts) key_n0inv (w_defaults w))
        (\<lambda>(mtag, values, fuses, infos).
      let h = apply_values values h in
      bind_result (check_keyid (FLAGS_override_keyid opts) values h) (\<lambda>h.
      bind_result (set_tag (FLAGS_cros opts) mtag h) (\<lambda>h.
      bind_result (load_fuse_definitions (xmlFilename opts) (w_xml w) values) (\<lambda>(fuse_ids, fuse_bits).
      bind_result (compute_fuses fuses fuse_ids fuse_bits (replicate FUSE_MAX FUSE_IGNORE) h) (\<lambda>(fuse_values, h).
      bind_result (compute_infos infos (replicate INFO_MAX INFO_IGNORE) h) (\<lambda>(info_values, h).
      bind_result (replace_signature (signatureFilename opts) (w_sigfile w) h) (\<lambda>h.
        Inr (h, fuse_values, info_values)))))))))"

datatype main_result =
    Exit int "u8 list option" "u8 list option"
  | Stop stop
  | Fault sign_error
  | Timeout

definition fill_requested :: "'d signer_world \<Rightarrow> options \<Rightarrow> image \<Rightarrow> image_error + image" where
  "fill_requested w opts img =
     bind_result (if opt_fillPattern opts then fillPattern (opt_pattern opts) img else Inr img) (\<lambda>img.
       if opt_fillRandom opts then fillRandom (w_rand w) img else Inr img)"

definition sign_and_generate ::
  "'d signer_world \<Rightarrow> options \<Rightarrow> bool \<Rightarrow> evp_pkey \<Rightarrow> image \<Rightarrow> SignedHeader \<Rightarrow> u32 list \<Rightarrow> u32 list \<Rightarrow> main_result" where
  "sign_and_generate w opts public_only k img h fuse_values info_values =
     (case Image_sign (w_sign w) public_only k h fuse_values info_values (hashesFilename opts) (w_hashes_open w) img of
        None \<Rightarrow> Timeout
      | Some (Inl f) \<Rightarrow> Fault f
      | Some (Inr (ok, img, hashes)) \<Rightarrow>
          if \<not> ok then Stop (Fatal ''failed to sign'')
          else case generate (w_output_open w) (outputFormat opts = ''hex'') img of
                 Inl f \<Rightarrow> Fault (ImageError f)
               | Inr out \<Rightarrow> Exit 0 hashes out)"

definition main :: "'d signer_world \<Rightarrow> main_result" where
  "main w =
     (case getOptions (w_args w) initial_options of
        Inl e \<Rightarrow> Stop e
      | Inr (rc, opts) \<Rightarrow>
          if rc \<noteq> 0 then Exit 1 None None
          else
            let pk = PublicKey_new (pem_readable w) (pem_private w) (pem_public w) in
            case key_ptr pk of
              None \<Rightarrow> Exit (-1) None None
            | Some k \<Rightarrow>
                case fromElf (w_elf w) Image_init of
                  Inl f \<Rightarrow> Fault (ImageError f)
                | Inr (loaded, img) \<Rightarrow>
                    if \<not> loaded then Exit (-2) None None
                    else case fill_requested w opts img of
                           Inl f \<Rightarrow> Fault (ImageError f)
                         | Inr img \<Rightarrow>
                             case signer_header w opts k img of
                               Inl e \<Rightarrow> Stop e
                             | Inr (h, fuse_values, info_values) \<Rightarrow>
                                 sign_and_generate w opts (publicOnly pk) k img h fuse_values info_values)"

end
