(* ===== verification/SignerProofs.thy ===== *)
theory SignerProofs
  imports CodeSigner ImageElfLoad
begin

text \<open>
  What the code signer computes: the command line, the header, the fuse and info arrays as functions
  of the manifest and the fuse definitions, and what a run that exits with 0 has done.
\<close>

section \<open>The command line\<close>

lemma option_loop_override:
  assumes "option_loop evs opts = Inr (None, opts')"
  shows "FLAGS_override_keyid opts' \<longrightarrow> FLAGS_override_keyid opts \<or> (\<exists>s. (CHR ''K'', Some s) \<in> set evs)"
    and "(CHR ''K'', None) \<notin> set evs"
proof -
  have "(FLAGS_override_keyid opts' \<longrightarrow> FLAGS_override_keyid opts \<or> (\<exists>s. (CHR ''K'', Some s) \<in> set evs)) \<and>
      (CHR ''K'', None) \<notin> set evs"
    using assms
  proof (induction evs arbitrary: opts)
    case (Cons ev evs)
    obtain c a where ev: "ev = (c, a)" by (cases ev)
    from Cons.prems obtain o1 where s: "option_step ev opts = Inr (None, o1)"
      and r: "option_loop evs o1 = Inr (None, opts')"
      by (auto split: option.splits)
    from s have "FLAGS_override_keyid o1 \<longrightarrow> FLAGS_override_keyid opts \<or> (\<exists>s. ev = (CHR ''K'', Some s))"
      and "ev \<noteq> (CHR ''K'', None)"
      by (auto simp: option_step_def ev with_arg_def split: if_splits option.splits)
    with Cons.IH [OF r] show ?case by auto
  qed simp
  then show "FLAGS_override_keyid opts' \<longrightarrow> FLAGS_override_keyid opts \<or> (\<exists>s. (CHR ''K'', Some s) \<in> set evs)"
    and "(CHR ''K'', None) \<notin> set evs" by blast+
qed

lemma option_loop_return: "option_loop evs opts = Inr (Some r, opts') \<Longrightarrow> r = 1"
proof (induction evs arbitrary: opts)
  case (Cons ev evs)
  from Cons.prems obtain ret o1 where s: "option_step ev opts = Inr (ret, o1)"
    and r: "(case ret of Some r \<Rightarrow> Inr (Some r, o1) | None \<Rightarrow> option_loop evs o1) = Inr (Some r, opts')"
    by auto
  show ?case
  proof (cases ret)
    case None
    with r Cons.IH show ?thesis by simp
  next
    case (Some x)
    with s have "x = 1"
      by (cases ev) (auto simp: option_step_def with_arg_def split: if_splits option.splits)
    with r Some show ?thesis by simp
  qed
qed simp

lemma getOptions_0E:
  assumes "getOptions evs opts = Inr (0, opts')"
  obtains "option_loop evs (opts\<lparr>outputFormat := ''hex''\<rparr>) = Inr (None, opts')"
    and "inputFilename opts' \<noteq> []" and "outputFilename opts' \<noteq> []" and "keyFilename opts' \<noteq> []"
    and "outputFormat opts' = ''bin'' \<or> outputFormat opts' = ''hex''"
proof -
  from assms obtain ret o1 where l: "option_loop evs (opts\<lparr>outputFormat := ''hex''\<rparr>) = Inr (ret, o1)"
    and r: "(case ret of Some r \<Rightarrow> Inr (r, o1)
       | None \<Rightarrow> if inputFilename o1 = [] \<or> outputFilename o1 = [] \<or> keyFilename o1 = [] \<or>
              (outputFormat o1 \<noteq> ''bin'' \<and> outputFormat o1 \<noteq> ''hex'')
           then Inr (1, o1) else Inr (0, o1)) = (Inr (0, opts') :: stop + int \<times> options)"
    unfolding getOptions_def by auto
  have "ret = None"
    using l r option_loop_return [of evs "opts\<lparr>outputFormat := ''hex''\<rparr>"] by (cases ret) auto
  with l r that show ?thesis by (auto split: if_splits)
qed

section \<open>Fuses\<close>

definition fuse_word :: "smap \<Rightarrow> string \<Rightarrow> u32 \<Rightarrow> u32" where
  "fuse_word fuse_bits name v = (FUSE_PADDING AND NOT (width_mask (smap_at fuse_bits name))) OR v"

lemma compute_fuses_spec:
  assumes "compute_fuses fs fids fbits fv h = Inr (fv', h')" and "distinct (map fst fs)"
    and "inj_on (map_of fids) (fst ` set fs)" and "wf_header h" and "length fv = FUSE_MAX"
  shows "length fv' = FUSE_MAX \<and> wf_header h' \<and> h' = h\<lparr>fusemap := fusemap h'\<rparr> \<and>
    (\<forall>(name, v) \<in> set fs. \<exists>idx. map_of fids name = Some idx \<and> unat idx < FUSE_MAX \<and>
       v AND width_mask (smap_at fbits name) = v \<and> fv' ! unat idx = fuse_word fbits name v) \<and>
    (\<forall>i < FUSE_MAX. (\<forall>name \<in> fst ` set fs. map_of fids name \<noteq> Some (of_nat i)) \<longrightarrow> fv' ! i = fv ! i) \<and>
    (\<forall>i < FUSE_MAX. marked (fusemap h') i \<longleftrightarrow>
       marked (fusemap h) i \<or> (\<exists>name \<in> fst ` set fs. map_of fids name = Some (of_nat i)))"
  using assms
proof (induction fs arbitrary: fv h)
  case Nil
  then show ?case by simp
next
  case (Cons f fs)
  obtain name v where f: "f = (name, v)" by (cases f)
  obtain idx h1 where idx: "map_of fids name = Some idx" and lt: "unat idx < FUSE_MAX"
    and fits: "v AND width_mask (smap_at fbits name) = v" and m: "markFuse idx h = Inr h1"
    and run: "compute_fuses fs fids fbits (fv[unat idx := fuse_word fbits name v]) h1 = Inr (fv', h')"
    using Cons.prems(1)
    by (auto simp: f fuse_word_def Let_def split: option.splits if_splits sum.splits assertion.splits)
  have h1: "wf_header h1" "h1 = h\<lparr>fusemap := fusemap h1\<rparr>"
    and mk: "\<And>i. i < FUSE_MAX \<Longrightarrow> marked (fusemap h1) i \<longleftrightarrow> marked (fusemap h) i \<or> i = unat idx"
    using m Cons.prems(4) by (auto simp: markFuse_def FUSE_MAX_def wf_header_def marked_mark_bit split: if_splits)
  have ne: "map_of fids name' \<noteq> Some idx" if "name' \<in> fst ` set fs" for name'
    using that Cons.prems(2,3) idx by (auto simp: f inj_on_def)
  have idx_of: "i = unat idx \<longleftrightarrow> idx = of_nat i" if "i < FUSE_MAX" for i
    using that by (auto simp: FUSE_MAX_def unat_of_nat)
  from Cons.IH [OF run _ _ h1(1)] Cons.prems(2,3,5)
  have ih: "length fv' = FUSE_MAX" "wf_header h'" "h' = h1\<lparr>fusemap := fusemap h'\<rparr>"
    "\<forall>(name, v) \<in> set fs. \<exists>idx. map_of fids name = Some idx \<and> unat idx < FUSE_MAX \<and>
       v AND width_mask (smap_at fbits name) = v \<and> fv' ! unat idx = fuse_word fbits name v"
    "\<forall>i < FUSE_MAX. (\<forall>name \<in> fst ` set fs. map_of fids name \<noteq> Some (of_nat i)) \<longrightarrow>
       fv' ! i = (fv[unat idx := fuse_word fbits name v]) ! i"
    "\<forall>i < FUSE_MAX. marked (fusemap h') i \<longleftrightarrow>
       marked (fusemap h1) i \<or> (\<exists>name \<in> fst ` set fs. map_of fids name = Some (of_nat i))"
    by (simp_all add: f inj_on_def)
  have "fv' ! unat idx = fuse_word fbits name v"
    using ih(5) [rule_format, OF lt] ne Cons.prems(5) lt by (simp add: idx_of [symmetric])
  then have "\<forall>(name, v) \<in> set (f # fs). \<exists>idx. map_of fids name = Some idx \<and> unat idx < FUSE_MAX \<and>
       v AND width_mask (smap_at fbits name) = v \<and> fv' ! unat idx = fuse_word fbits name v"
    using ih(4) idx lt fits by (auto simp: f)
  moreover have "h' = h\<lparr>fusemap := fusemap h'\<rparr>"
    using ih(3) h1(2) by (metis SignedHeader.surjective SignedHeader.update_convs(12))
  moreover have "\<forall>i < FUSE_MAX. (\<forall>name \<in> fst ` set (f # fs). map_of fids name \<noteq> Some (of_nat i)) \<longrightarrow> fv' ! i = fv ! i"
    using ih(5) idx idx_of by (auto simp: f) (metis nth_list_update_neq)
  moreover have "\<forall>i < FUSE_MAX. marked (fusemap h') i \<longleftrightarrow>
       marked (fusemap h) i \<or> (\<exists>name \<in> fst ` set (f # fs). map_of fids name = Some (of_nat i))"
    using ih(6) mk idx idx_of by (auto simp: f)
  ultimately show ?case using ih(1,2) by blast
qed

lemma compute_fuses_defined:
  "compute_fuses fs fids fbits fv h = Inr r \<Longrightarrow> fst ` set fs \<subseteq> dom (map_of fids)"
proof (induction fs arbitrary: fv h)
  case (Cons f fs)
  obtain name v where "f = (name, v)" by (cases f)
  with Cons show ?case
    by (auto simp: Let_def split: option.splits if_splits sum.splits assertion.splits)
qed simp

text \<open>The numbers of the fuses are distinct.\<close>

lemma positions_inj:
  assumes "length ks = n" and "n \<le> 2 ^ 32" and "(m :: string \<rightharpoonup> u32) = map_of (zip ks (map of_nat [0..<n]))"
  shows "inj_on m (dom m)"
proof (rule inj_onI)
  fix a b assume a: "a \<in> dom m" and "b \<in> dom m" and eq: "m a = m b"
  then obtain v where "m a = Some v" "m b = Some v" by auto
  then have "(a, v) \<in> set (zip ks (map of_nat [0..<n]))" "(b, v) \<in> set (zip ks (map of_nat [0..<n]))"
    by (auto simp: assms(3) dest: map_of_SomeD)
  then obtain i j where i: "i < n" "ks ! i = a" "v = of_nat i" and j: "j < n" "ks ! j = b" "v = of_nat j"
    using assms(1) by (auto simp: set_zip)
  have "unat (of_nat i :: u32) = i" "unat (of_nat j :: u32) = j"
    using i(1) j(1) assms(2) by (simp_all add: unat_of_nat)
  with i j have "i = j" by metis
  with i j show "a = b" by simp
qed

lemma xml_ids_inj:
  assumes "readXML doc xml_start p = Inr (ok, st, p')" and "fuse_index st \<le> 2 ^ 32"
  shows "inj_on (map_of (ids st)) (dom (map_of (ids st)))" and "smap_valid (ids st)"
proof -
  have "\<exists>fs. collected fs st"
  proof (cases doc)
    case None
    with assms(1) collected_start show ?thesis by (auto simp: readXML_def)
  next
    case (Some root)
    with readXML_collected(1) [OF assms(1) [unfolded Some]] show ?thesis by blast
  qed
  then obtain fs where c: "collected fs st" ..
  then show "smap_valid (ids st)" by (simp add: collected_def)
  from c have "map_of (ids st) = map_of (zip (map fst fs) (map of_nat [0..<length fs]))"
    and "length fs \<le> 2 ^ 32"
    using assms(2) by (simp_all add: collected_def)
  with positions_inj [of "map fst fs" "length fs" "map_of (ids st)"]
  show "inj_on (map_of (ids st)) (dom (map_of (ids st)))" by simp
qed

lemma fuse_ids_inj:
  assumes "load_fuse_definitions xml doc vals = Inr (fids, fbits)"
    and "\<forall>st p. readXML doc xml_start 0 = Inr (True, st, p) \<longrightarrow> fuse_index st \<le> 2 ^ 32"
  shows "inj_on (map_of fids) (dom (map_of fids))"
proof -
  from assms(1) obtain st p where x: "(if xml = [] then Inr (xml_start, 0)
        else bind_result (readXML doc xml_start 0) (\<lambda>(ok, st, p).
          if ok then Inr (st, p) else Inl (Fatal ''Failed to read XML''))) = Inr (st, p)"
    and f: "fids = smap_assign BLK6 125 (ids st)"
    and c: "ids st = [] \<or> smap_at (ids st) BLK6 = 125"
    unfolding load_fuse_definitions_def by (auto split: if_splits)
  have st: "st = xml_start \<or> readXML doc xml_start 0 = Inr (True, st, p)"
    using x by (auto split: if_splits)
  then have inj: "inj_on (map_of (ids st)) (dom (map_of (ids st)))" and v: "smap_valid (ids st)"
    using xml_ids_inj [of doc 0 True st p] assms(2) by (auto simp: xml_start_def)
  show ?thesis
  proof (cases "ids st = []")
    case True
    then show ?thesis by (simp add: f)
  next
    case False
    with c have "map_of (ids st) BLK6 = Some 125"
      by (auto simp: smap_at_def split: option.splits)
    then have "map_of fids = map_of (ids st)"
      by (auto simp: f map_of_smap_assign [OF v])
    with inj show ?thesis by simp
  qed
qed

text \<open>C30: The options that \<open>getOptions\<close> accepts never include a plain
  \<open>--override-keyid\<close>: the missing \<open>break\<close> makes the case assign its absent argument to
  \<open>inputFilename\<close>, so a run that gets past it had an argument for the option, and the flag is never
  set otherwise.\<close>

theorem getOptions_override_unusable:
  assumes "getOptions evs initial_options = Inr (0, opts)"
  shows "(CHR ''K'', None) \<notin> set evs \<and>
    (FLAGS_override_keyid opts \<longrightarrow> (\<exists>s. (CHR ''K'', Some s) \<in> set evs)) \<and>
    inputFilename opts \<noteq> [] \<and> outputFilename opts \<noteq> [] \<and> keyFilename opts \<noteq> []"
proof -
  from getOptions_0E [OF assms] have l: "option_loop evs (initial_options\<lparr>outputFormat := ''hex''\<rparr>) = Inr (None, opts)"
    and "inputFilename opts \<noteq> []" "outputFilename opts \<noteq> []" "keyFilename opts \<noteq> []" by blast+
  with option_loop_override [OF l] show ?thesis by (simp add: initial_options_def)
qed

theorem getOptions_override_unusable_witness:
  "\<exists>opts. getOptions [(CHR ''i'', Some ''a''), (CHR ''o'', Some ''b''), (CHR ''k'', Some ''c'')] initial_options = Inr (0, opts) \<and>
    \<not> FLAGS_override_keyid opts"
proof -
  have "\<exists>opts. getOptions [(CHR ''i'', Some ''a''), (CHR ''o'', Some ''b''), (CHR ''k'', Some ''c'')] initial_options = Inr (0, opts)"
    by (simp add: getOptions_def option_step_def with_arg_def initial_options_def)
  then obtain opts where r: "getOptions [(CHR ''i'', Some ''a''), (CHR ''o'', Some ''b''), (CHR ''k'', Some ''c'')] initial_options = Inr (0, opts)" ..
  from getOptions_override_unusable [OF r] r show ?thesis by auto
qed

text \<open>C10: The fuse array that is hashed and the fuse map in the header are those of the manifest: each
  fuse it lists has its own word, the hardware's padding bits outside the fuse's width combined with the value, which
  fits the width; every other word is the ignore constant; exactly the words of listed fuses are marked in addition,
  and nothing else in the header changes.\<close>

theorem fuse_array_of_manifest:
  assumes "load_fuse_definitions xml doc vals = Inr (fids, fbits)"
    and "\<forall>st p. readXML doc xml_start 0 = Inr (True, st, p) \<longrightarrow> fuse_index st \<le> 2 ^ 32"
    and "compute_fuses fuses fids fbits (replicate FUSE_MAX FUSE_IGNORE) h = Inr (fv, h')"
    and "smap_valid fuses" and "wf_header h"
  shows "h' = h\<lparr>fusemap := fusemap h'\<rparr> \<and>
    (\<forall>(name, v) \<in> set fuses. \<exists>idx. map_of fids name = Some idx \<and> unat idx < FUSE_MAX \<and>
       v AND width_mask (smap_at fbits name) = v \<and> fv ! unat idx = fuse_word fbits name v) \<and>
    (\<forall>i < FUSE_MAX. (\<forall>name \<in> fst ` set fuses. map_of fids name \<noteq> Some (of_nat i)) \<longrightarrow> fv ! i = FUSE_IGNORE) \<and>
    (\<forall>i < FUSE_MAX. marked (fusemap h') i \<longleftrightarrow>
       marked (fusemap h) i \<or> (\<exists>name \<in> fst ` set fuses. map_of fids name = Some (of_nat i)))"
proof -
  have "inj_on (map_of fids) (fst ` set fuses)"
    using fuse_ids_inj [OF assms(1,2)] compute_fuses_defined [OF assms(3)] by (rule inj_on_subset)
  from compute_fuses_spec [OF assms(3) smap.distinct_keys [OF assms(4)] this assms(5)] show ?thesis
    by simp
qed

theorem fuse_array_of_manifest_witness:
  "\<exists>fv h'. compute_fuses [(BLK6, 3)] [(BLK6, 125)] [(BLK6, 5)] (replicate FUSE_MAX FUSE_IGNORE) zero_header = Inr (fv, h') \<and>
    fv ! 125 = 0x55555543 \<and> fv ! 0 = FUSE_IGNORE"
proof -
  have l: "load_fuse_definitions [] None [] = Inr ([(BLK6, 125)], [(BLK6, 5)])"
    by (simp add: load_fuse_definitions_def xml_start_def smap_at_def FUSE_MAX_def)
  have x: "\<forall>st p. readXML None xml_start 0 = Inr (True, st, p) \<longrightarrow> fuse_index st \<le> 2 ^ 32"
    by (simp add: readXML_def)
  have w: "width_mask 5 = 31" by (simp add: width_mask_def push_bit_eq_mult)
  have "\<exists>fv h'. compute_fuses [(BLK6, 3)] [(BLK6, 125)] [(BLK6, 5)] (replicate FUSE_MAX FUSE_IGNORE) zero_header = Inr (fv, h')"
    by (simp add: smap_at_def w FUSE_MAX_def markFuse_def)
  then obtain fv h' where r: "compute_fuses [(BLK6, 3)] [(BLK6, 125)] [(BLK6, 5)] (replicate FUSE_MAX FUSE_IGNORE) zero_header = Inr (fv, h')"
    by blast
  have v: "smap_valid [(BLK6, 3)]" by (simp add: smap_valid_def)
  from fuse_array_of_manifest [OF l x r v wf_zero_header] r show ?thesis
    by (auto simp: fuse_word_def smap_at_def w FUSE_PADDING_def FUSE_MAX_def)
qed

section \<open>Info words\<close>

definition info_index :: "string \<Rightarrow> nat" where
  "info_index name = unat (word_of_int (atoi name) :: u32)"

definition info_xor :: "(string \<times> u32) list \<Rightarrow> nat \<Rightarrow> u32" where
  "info_xor infos i = foldr (\<lambda>(name, v) x. if info_index name = i then v XOR x else x) infos 0"

lemma compute_infos_spec:
  assumes "compute_infos infos iv h = Inr (iv', h')" and "wf_header h" and "length iv = INFO_MAX"
  shows "length iv' = INFO_MAX \<and> h' = h\<lparr>infomap := infomap h'\<rparr> \<and>
    (\<forall>i < INFO_MAX. iv' ! i = iv ! i XOR info_xor infos i) \<and>
    (\<forall>i < INFO_MAX. marked (infomap h') i \<longleftrightarrow> marked (infomap h) i \<or> (\<exists>name \<in> fst ` set infos. info_index name = i)) \<and>
    (\<forall>name \<in> fst ` set infos. info_index name < INFO_MAX)"
  using assms
proof (induction infos arbitrary: iv h)
  case Nil
  then show ?case by (simp add: info_xor_def)
next
  case (Cons f infos)
  obtain name v where f: "f = (name, v)" by (cases f)
  let ?i = "info_index name"
  obtain h1 where lt: "?i < INFO_MAX" and m: "markInfo (word_of_int (atoi name)) h = Inr h1"
    and run: "compute_infos infos (iv[?i := iv ! ?i XOR v]) h1 = Inr (iv', h')"
    using Cons.prems(1) by (auto simp: f info_index_def Let_def split: if_splits sum.splits assertion.splits)
  have h1: "wf_header h1" "h1 = h\<lparr>infomap := infomap h1\<rparr>"
    and mk: "\<And>i. i < INFO_MAX \<Longrightarrow> marked (infomap h1) i \<longleftrightarrow> marked (infomap h) i \<or> i = ?i"
    using m Cons.prems(2) by (auto simp: markInfo_def INFO_MAX_def wf_header_def marked_mark_bit info_index_def split: if_splits)
  from Cons.IH [OF run h1(1)] Cons.prems(3)
  have ih: "length iv' = INFO_MAX" "h' = h1\<lparr>infomap := infomap h'\<rparr>"
    "\<forall>i < INFO_MAX. iv' ! i = iv[?i := iv ! ?i XOR v] ! i XOR info_xor infos i"
    "\<forall>i < INFO_MAX. marked (infomap h') i \<longleftrightarrow> marked (infomap h1) i \<or> (\<exists>name \<in> fst ` set infos. info_index name = i)"
    "\<forall>name \<in> fst ` set infos. info_index name < INFO_MAX"
    by simp_all
  have "\<forall>i < INFO_MAX. iv' ! i = iv ! i XOR info_xor (f # infos) i"
    using ih(3) Cons.prems(3) by (auto simp: f info_xor_def nth_list_update xor.assoc)
  moreover have "h' = h\<lparr>infomap := infomap h'\<rparr>"
    using ih(2) h1(2) by (metis SignedHeader.surjective SignedHeader.update_convs(13))
  moreover have "\<forall>i < INFO_MAX. marked (infomap h') i \<longleftrightarrow>
      marked (infomap h) i \<or> (\<exists>name \<in> fst ` set (f # infos). info_index name = i)"
    using ih(4) mk by (auto simp: f)
  ultimately show ?case using ih(1,5) lt by (simp add: f)
qed

text \<open>C12: Each word of the info array is the ignore constant combined by exclusive or with the values
  of all manifest entries whose name denotes that word (two spellings of one number are combined, not overwritten);
  exactly the words of listed entries are marked in addition, and nothing else in the header changes.\<close>

theorem info_array_of_manifest:
  assumes "compute_infos infos (replicate INFO_MAX INFO_IGNORE) h = Inr (iv, h')" and "wf_header h"
  shows "h' = h\<lparr>infomap := infomap h'\<rparr> \<and>
    (\<forall>i < INFO_MAX. iv ! i = INFO_IGNORE XOR info_xor infos i) \<and>
    (\<forall>i < INFO_MAX. marked (infomap h') i \<longleftrightarrow>
       marked (infomap h) i \<or> (\<exists>name \<in> fst ` set infos. info_index name = i)) \<and>
    (\<forall>name \<in> fst ` set infos. info_index name < INFO_MAX)"
  using compute_infos_spec [OF assms] by simp

theorem info_array_of_manifest_witness:
  "\<exists>iv h'. compute_infos [(''07'', 1), (''7'', 3)] (replicate INFO_MAX INFO_IGNORE) zero_header = Inr (iv, h') \<and>
    iv ! 7 = INFO_IGNORE XOR 2 \<and> iv ! 8 = INFO_IGNORE"
proof -
  have a: "atoi ''07'' = 7" "atoi ''7'' = 7"
    by (simp_all add: atoi_def signed_number_def is_space_def less_eq_char_def)
  have "\<exists>iv h'. compute_infos [(''07'', 1), (''7'', 3)] (replicate INFO_MAX INFO_IGNORE) zero_header = Inr (iv, h')"
    by (simp add: a INFO_MAX_def markInfo_def Let_def)
  then obtain iv h' where r: "compute_infos [(''07'', 1), (''7'', 3)] (replicate INFO_MAX INFO_IGNORE) zero_header = Inr (iv, h')"
    by blast
  from info_array_of_manifest [OF r wf_zero_header] r show ?thesis
    by (auto simp: info_xor_def info_index_def a INFO_MAX_def)
qed

section \<open>The header\<close>

lemma get_values_dom:
  "get_values ms xs m = Inr m' \<Longrightarrow> dom (map_of m') \<subseteq> dom (map_of m) \<union> set xs"
proof (induction xs arbitrary: m)
  case (Cons x xs)
  then obtain v where "get_values ms xs (smap_assign x v m) = Inr m'" by auto
  from Cons.IH [OF this] show ?case
    by (auto simp: dom_map_of_conv_image_fst fst_smap_assign)
qed simp

lemma manifest_values_dom:
  assumes "load_manifest have_json parse content json_name n defaults = Inr (mtag, vals, fuses, infos)"
  shows "dom (map_of vals) \<subseteq> set manifest_fields"
proof (cases "json_name = []")
  case True
  obtain e ma mi where d: "defaults = (e, ma, mi)" by (cases defaults)
  from True assms show ?thesis
    by (auto simp: load_manifest_def d default_values_def smap_insert_def manifest_fields_def
      dom_map_of_conv_image_fst fst_smap_assign Let_def)
next
  case False
  with assms obtain ok where "readJSON have_json parse content [] [] (smap_assign BLK6 0 []) [] =
      Inr (ok, mtag, vals, fuses, infos)" and ok: "ok"
    by (auto simp: load_manifest_def Let_def split: if_splits)
  then obtain ms where "get_values ms manifest_fields [] = Inr vals"
    by (auto simp: readJSON_def split: if_splits option.splits)
  from get_values_dom [OF this] show ?thesis by simp
qed

lemma manifest_values_absent:
  assumes "load_manifest have_json parse content json_name n defaults = Inr (mtag, vals, fuses, infos)"
    and "k \<notin> set manifest_fields"
  shows "smap_at vals k = 0"
  using manifest_values_dom [OF assms(1)] assms(2) by (auto simp: smap_at_def split: option.splits)

lemma compute_fuses_frame:
  "compute_fuses fs fids fbits fv h = Inr (fv', h') \<Longrightarrow> \<exists>m. h' = h\<lparr>fusemap := m\<rparr>"
proof (induction fs arbitrary: fv h)
  case Nil
  then show ?case by (auto intro!: exI [of _ "fusemap h"])
next
  case (Cons f fs)
  obtain name v where f: "f = (name, v)" by (cases f)
  from Cons.prems obtain idx fv1 h1 where "markFuse idx h = Inr h1" "compute_fuses fs fids fbits fv1 h1 = Inr (fv', h')"
    by (auto simp: f Let_def split: option.splits if_splits sum.splits assertion.splits)
  with Cons.IH [of fv1 h1] show ?case by (auto simp: markFuse_def split: if_splits)
qed

lemma compute_infos_frame:
  "compute_infos fs iv h = Inr (iv', h') \<Longrightarrow> \<exists>m. h' = h\<lparr>infomap := m\<rparr>"
proof (induction fs arbitrary: iv h)
  case Nil
  then show ?case by (auto intro!: exI [of _ "infomap h"])
next
  case (Cons f fs)
  obtain name v where f: "f = (name, v)" by (cases f)
  from Cons.prems obtain idx iv1 h1 where "markInfo idx h = Inr h1" "compute_infos fs iv1 h1 = Inr (iv', h')"
    by (auto simp: f Let_def split: if_splits sum.splits assertion.splits)
  with Cons.IH [of iv1 h1] show ?case by (auto simp: markInfo_def split: if_splits)
qed

lemma replace_signature_frame:
  "replace_signature name content h = Inr h' \<Longrightarrow> \<exists>s. h' = h\<lparr>signature := s\<rparr>"
  by (auto simp: replace_signature_def split: if_splits option.splits intro: exI [of _ "signature h"])

lemma signer_headerE:
  assumes "signer_header w opts k img = Inr (h, fv, iv)"
  obtains n mtag vals fuses infos fids fbits kid t fm im sg where
    "n0inv (sign_bn (w_sign w)) k = Some n"
    and "load_manifest (w_have_json w) (w_json_parse w) (w_json w) (jsonFilename opts) n (w_defaults w) =
      Inr (mtag, vals, fuses, infos)"
    and "load_fuse_definitions (xmlFilename opts) (w_xml w) vals = Inr (fids, fbits)"
    and "kid = (if FLAGS_override_keyid opts then smap_at vals ''keyid'' else n)"
    and "kid = smap_at vals ''keyid''"
    and "h = (apply_values vals (start_header n img (w_time w) (w_stack w)))
      \<lparr>keyid := kid, tag := t, fusemap := fm, infomap := im, signature := sg\<rparr>"
proof -
  from assms obtain n where n: "n0inv (sign_bn (w_sign w)) k = Some n"
    by (auto simp: signer_header_def split: option.splits)
  let ?s = "start_header n img (w_time w) (w_stack w)"
  from assms n obtain mtag vals fuses infos h1 h2 fids fbits h3 h4 where
    m: "load_manifest (w_have_json w) (w_json_parse w) (w_json w) (jsonFilename opts) n (w_defaults w) =
      Inr (mtag, vals, fuses, infos)"
    and k: "check_keyid (FLAGS_override_keyid opts) vals (apply_values vals ?s) = Inr h1"
    and t: "set_tag (FLAGS_cros opts) mtag h1 = Inr h2"
    and d: "load_fuse_definitions (xmlFilename opts) (w_xml w) vals = Inr (fids, fbits)"
    and f: "compute_fuses fuses fids fbits (replicate FUSE_MAX FUSE_IGNORE) h2 = Inr (fv, h3)"
    and i: "compute_infos infos (replicate INFO_MAX INFO_IGNORE) h3 = Inr (iv, h4)"
    and r: "replace_signature (signatureFilename opts) (w_sigfile w) h4 = Inr h"
    unfolding signer_header_def Let_def by auto
  have start: "keyid (apply_values vals ?s) = n"
    by (simp add: apply_values_def start_header_def Let_def)
  define kid where "kid = (if FLAGS_override_keyid opts then smap_at vals ''keyid'' else n)"
  have kid: "kid = smap_at vals ''keyid''" and h1: "h1 = (apply_values vals ?s)\<lparr>keyid := kid\<rparr>"
    using k start by (auto simp: check_keyid_def kid_def split: if_splits)
  obtain t' where h2: "h2 = h1\<lparr>tag := t'\<rparr>" using t by (auto simp: set_tag_def split: if_splits)
  obtain fm where h3: "h3 = h2\<lparr>fusemap := fm\<rparr>" using compute_fuses_frame [OF f] ..
  obtain im where h4: "h4 = h3\<lparr>infomap := im\<rparr>" using compute_infos_frame [OF i] ..
  obtain sg where h: "h = h4\<lparr>signature := sg\<rparr>" using replace_signature_frame [OF r] ..
  show ?thesis
    by (rule that [OF n m d kid_def kid, of sg im fm t']) (simp add: h h4 h3 h2 h1)
qed

lemma apply_values_no_board:
  assumes "smap_at vals ''board_id'' = 0" and "smap_at vals ''timestamp'' = 0"
  shows "apply_values vals h = h\<lparr>p4cl := smap_at vals ''p4cl'', epoch := smap_at vals ''epoch'',
    major := smap_at vals ''major'', minor := smap_at vals ''minor'', applysec := smap_at vals ''applysec'',
    config1 := smap_at vals ''config1'', err_response := smap_at vals ''err_response'',
    expect_response := smap_at vals ''expect_response'', board_id_type := SIGNED_HEADER_PADDING,
    board_id_type_mask := SIGNED_HEADER_PADDING, board_id_flags := SIGNED_HEADER_PADDING\<rparr>"
  using assms by (simp add: apply_values_def Let_def)

lemma signer_header_apply:
  assumes "load_manifest hj parse content name n defaults = Inr (mtag, vals, fuses, infos)"
  shows "apply_values vals h = h\<lparr>p4cl := smap_at vals ''p4cl'', epoch := smap_at vals ''epoch'',
    major := smap_at vals ''major'', minor := smap_at vals ''minor'', applysec := smap_at vals ''applysec'',
    config1 := smap_at vals ''config1'', err_response := smap_at vals ''err_response'',
    expect_response := smap_at vals ''expect_response'', board_id_type := SIGNED_HEADER_PADDING,
    board_id_type_mask := SIGNED_HEADER_PADDING, board_id_flags := SIGNED_HEADER_PADDING\<rparr>"
  by (rule apply_values_no_board) (rule manifest_values_absent [OF assms], simp add: manifest_fields_def)+

text \<open>A run without manifest and XML.\<close>

definition sample_world :: "(u8 list) signer_world" where
  "sample_world =
     \<lparr>w_args = [(CHR ''i'', Some ''rw.elf''), (CHR ''o'', Some ''rw.bin''), (CHR ''k'', Some ''rw.pem''),
        (CHR ''f'', Some ''bin'')],
      pem_readable = True, pem_private = Some sample_key, pem_public = None, w_elf = sample_elf, w_rand = (\<lambda>_. 0),
      w_time = 5, w_have_json = True, w_json_parse = (\<lambda>_. None), w_json = None, w_xml = None, w_sigfile = None,
      w_stack = zero_header, w_defaults = (1, 2, 3), w_hashes_open = False, w_output_open = True,
      w_sign = sample_sign_env\<rparr>"

definition sample_options :: options where
  "sample_options = initial_options\<lparr>inputFilename := ''rw.elf'', outputFilename := ''rw.bin'', keyFilename := ''rw.pem'',
     outputFormat := ''bin''\<rparr>"

lemma sample_world_options: "getOptions (w_args sample_world) initial_options = Inr (0, sample_options)"
  by (simp add: getOptions_def option_step_def with_arg_def sample_world_def sample_options_def initial_options_def)

lemma default_values_at:
  "smap_at (default_values n (e, ma, mi)) ''keyid'' = n" "smap_at (default_values n (e, ma, mi)) ''p4cl'' = 0"
  by (simp_all add: default_values_def smap_at_def map_of_smap_insert smap_valid_insert)

lemma sample_header: "\<exists>h fv iv. signer_header sample_world sample_options sample_key img = Inr (h, fv, iv)"
proof -
  have m: "load_manifest (w_have_json sample_world) (w_json_parse sample_world) (w_json sample_world)
      (jsonFilename sample_options) n (w_defaults sample_world) = Inr ([], default_values n (1, 2, 3), [(BLK6, 0)], [])" for n
    by (simp add: load_manifest_def sample_world_def sample_options_def initial_options_def)
  have d: "load_fuse_definitions (xmlFilename sample_options) (w_xml sample_world) (default_values n (1, 2, 3)) =
      Inr ([(BLK6, 125)], [(BLK6, 5)])" for n
    by (simp add: load_fuse_definitions_def xml_start_def FUSE_MAX_def sample_options_def initial_options_def default_values_at)
  have c: "check_keyid (FLAGS_override_keyid sample_options) (default_values (keyid h) (1, 2, 3)) h = Inr h" for h
    by (simp add: check_keyid_def default_values_at sample_options_def initial_options_def)
  have t: "set_tag (FLAGS_cros sample_options) [] h = Inr (h\<lparr>tag := bytes_words (strncpy 28 [])\<rparr>)" for h
    by (simp add: set_tag_def sample_options_def initial_options_def)
  have f: "\<exists>fv h'. compute_fuses [(BLK6, 0)] [(BLK6, 125)] [(BLK6, 5)] (replicate FUSE_MAX FUSE_IGNORE) h = Inr (fv, h')" for h
    by (simp add: FUSE_MAX_def markFuse_def smap_at_def)
  have r: "replace_signature (signatureFilename sample_options) sf h = Inr h" for sf h
    by (simp add: replace_signature_def sample_options_def initial_options_def)
  from sample_evp_works(2) obtain n where n: "n0inv (sign_bn (w_sign sample_world)) sample_key = Some n"
    by (auto simp: n0inv_def EVP_PKEY_get1_RSA_def)
  let ?n = n
  let ?h = "apply_values (default_values ?n (1, 2, 3)) (start_header ?n img (w_time sample_world) (w_stack sample_world))"
  have k: "keyid ?h = ?n" by (simp add: apply_values_def Let_def start_header_def)
  obtain fv h' where f': "compute_fuses [(BLK6, 0)] [(BLK6, 125)] [(BLK6, 5)] (replicate FUSE_MAX FUSE_IGNORE)
      (?h\<lparr>tag := bytes_words (strncpy 28 [])\<rparr>) = Inr (fv, h')" using f by blast
  have "signer_header sample_world sample_options sample_key img = Inr (h', fv, replicate INFO_MAX INFO_IGNORE)"
    by (simp only: signer_header_def Let_def n option.case m d bind_result_simps prod.case c [of ?h, unfolded k] t f' compute_infos.simps r)
  then show ?thesis by blast
qed

lemma generate_works:
  assumes "0 \<le> base img" and "base img < highest img" and "highest img \<le> int MEM_SIZE"
    and "base img mod 2048 = 0" and "highest img mod 2048 = 0"
  shows "\<exists>out. generate fopen_ok hex_output img = Inr (if fopen_ok then Some out else None)"
proof -
  have "2048 dvd highest img - base img"
    using assms(4,5) by (intro dvd_diff) (simp_all add: mod_eq_0_iff_dvd)
  then have "16 dvd highest img - base img" by (rule dvd_trans [rotated]) simp
  then have "(highest img - base img) mod 16 = 0" by simp
  from toIntelHex_from_defined [OF assms(1,3) this] obtain t where "toIntelHex img = Inr t"
    unfolding toIntelHex_def ..
  with assms(1-3) show ?thesis by (simp add: generate_def)
qed

text \<open>C2: A run with good inputs succeeds: with options that parse, a private key in software whose OpenSSL
  calls succeed, an ELF image that loads and is filled to 2K bounds inside the flash, and a key and a manifest that
  give a header (it holds the key id, so the key is an RSA key: of any other, \<open>n0inv\<close> dereferences a null
  pointer and there is no header), the program exits with 0, in either output format; it has written the output exactly when the output file
  could be opened (a run that could not open it exits with 0 all the same), and the hashes exactly when they have a
  file that could be opened.\<close>

theorem main_completes:
  assumes "getOptions (w_args w) initial_options = Inr (0, opts)"
    and "pem_readable w" and "pem_private w = Some k" and "evp_works (sign_evp (w_sign w)) k"
    and "fromElf (w_elf w) Image_init = Inr (True, img0)" and "fill_requested w opts img0 = Inr img"
    and "0 \<le> base img" and "base img < highest img" and "highest img \<le> int MEM_SIZE"
    and "base img mod 2048 = 0" and "highest img mod 2048 = 0"
    and "signer_header w opts k img = Inr (h, fv, iv)"
  shows "\<exists>hashes out. main w = Exit 0 hashes out \<and> (out \<noteq> None \<longleftrightarrow> w_output_open w) \<and>
    (hashes \<noteq> None \<longleftrightarrow> hashesFilename opts \<noteq> [] \<and> w_hashes_open w)"
proof -
  have rsa: "evp_is_rsa k" using assms(12) by (rule signer_headerE) (rule key_methods_rsa(1))
  have b: "base img + 1024 \<le> highest img"
    using assms(8) zdvd_imp_le [of 2048 "highest img - base img"] assms(10,11)
    by (simp add: mod_eq_0_iff_dvd dvd_diff)
  obtain img' hs where s: "Image_sign (w_sign w) False k h fv iv (hashesFilename opts) (w_hashes_open w) img =
      Some (Inr (True, img', if hashesFilename opts \<noteq> [] \<and> w_hashes_open w then Some hs else None))"
    and i: "base img' = base img" "highest img' = highest img"
    using Image_sign_works [OF assms(4) rsa assms(7) b assms(9)] by blast
  obtain out where g: "generate (w_output_open w) (outputFormat opts = ''hex'') img' = Inr (if w_output_open w then Some out else None)"
    using generate_works [of img'] assms(7-11) i by metis
  have k: "key_ptr (PublicKey_new (pem_readable w) (pem_private w) (pem_public w)) = Some k"
    "\<not> publicOnly (PublicKey_new (pem_readable w) (pem_private w) (pem_public w))"
    using assms(2,3) by (simp_all add: PublicKey_new_def)
  have "main w = Exit 0 (if hashesFilename opts \<noteq> [] \<and> w_hashes_open w then Some hs else None)
      (if w_output_open w then Some out else None)"
    using assms(1,5,6,12) k s g by (simp add: main_def Let_def sign_and_generate_def)
  then show ?thesis by auto
qed

lemma sample_run:
  obtains img h fv iv where "pem_readable sample_world" and "pem_private sample_world = Some sample_key"
    and "evp_works (sign_evp (w_sign sample_world)) sample_key"
    and "fromElf (w_elf sample_world) Image_init = Inr (True, img)"
    and "fill_requested sample_world sample_options img = Inr img"
    and "base img = 2048" and "highest img = 4096"
    and "signer_header sample_world sample_options sample_key img = Inr (h, fv, iv)"
proof -
  from sample_elf_runs obtain img where e: "fromElf (w_elf sample_world) Image_init = Inr (True, img)"
    by (auto simp: sample_world_def)
  then have b: "base img = 2048" "highest img = 4096"
    using elf_loaded_bounds [of sample_elf img] sample_elf_wf
    by (auto simp: sample_world_def sample_elf_addresses round_2K_def)
  have f: "fill_requested sample_world sample_options img = Inr img"
    by (simp add: fill_requested_def sample_options_def initial_options_def)
  from sample_header obtain h fv iv where s: "signer_header sample_world sample_options sample_key img = Inr (h, fv, iv)" by blast
  have "pem_readable sample_world" "pem_private sample_world = Some sample_key"
    "evp_works (sign_evp (w_sign sample_world)) sample_key"
    using sample_evp_works(1) by (simp_all add: sample_world_def)
  from that [OF this e f b s] show thesis .
qed

lemma sample_main: "\<exists>out. main sample_world = Exit 0 None (Some out)"
proof -
  obtain img h fv iv where r: "pem_readable sample_world" "pem_private sample_world = Some sample_key"
    "evp_works (sign_evp (w_sign sample_world)) sample_key" "fromElf (w_elf sample_world) Image_init = Inr (True, img)"
    "fill_requested sample_world sample_options img = Inr img" "base img = 2048" "highest img = 4096"
    "signer_header sample_world sample_options sample_key img = Inr (h, fv, iv)" by (rule sample_run)
  have h: "hashesFilename sample_options = []" "w_hashes_open sample_world = False" "w_output_open sample_world"
    by (simp_all add: sample_options_def sample_world_def initial_options_def)
  obtain img' where g: "Image_sign (w_sign sample_world) False sample_key h fv iv [] False img = Some (Inr (True, img', None))"
      and b': "base img' = 2048" "highest img' = 4096"
    using Image_sign_works [OF r(3) sample_evp_works(2), of img h fv iv "[]" False] r(6,7) by (auto simp: MEM_SIZE_def)
  have "sign_and_generate sample_world sample_options False sample_key img h fv iv =
      Exit 0 None (Some (mem_read (mem img') 2048 2048))"
    using g b' h by (simp add: sign_and_generate_def sample_options_def initial_options_def generate_def
      image_bytes_def MEM_SIZE_def)
  with sample_world_options r show ?thesis
    by (simp add: main_def Let_def PublicKey_new_def)
qed

theorem main_completes_witness: "\<exists>out. main sample_world = Exit 0 None (Some out)"
proof -
  obtain img h fv iv where r: "pem_readable sample_world" "pem_private sample_world = Some sample_key"
    "evp_works (sign_evp (w_sign sample_world)) sample_key" "fromElf (w_elf sample_world) Image_init = Inr (True, img)"
    "fill_requested sample_world sample_options img = Inr img" "base img = 2048" "highest img = 4096"
    "signer_header sample_world sample_options sample_key img = Inr (h, fv, iv)" by (rule sample_run)
  have "0 \<le> base img" "base img < highest img" "highest img \<le> int MEM_SIZE" "base img mod 2048 = 0" "highest img mod 2048 = 0"
    using r(6,7) by (simp_all add: MEM_SIZE_def)
  from main_completes [OF sample_world_options r(1-5) this r(8)] show ?thesis
    by (auto simp: sample_options_def sample_world_def initial_options_def)
qed

text \<open>C29: No manifest sets the board id or the time stamp: the reader never takes the fields
  \<open>board_id\<close>, \<open>board_id_mask\<close>, \<open>board_id_flags\<close> and \<open>timestamp\<close> over, so
  every header to be signed has the padding constant in all three board id members and the current time.\<close>

theorem signer_header_no_board_id:
  assumes "signer_header w opts k img = Inr (h, fv, iv)"
  shows "board_id_type h = SIGNED_HEADER_PADDING \<and> board_id_type_mask h = SIGNED_HEADER_PADDING \<and>
    board_id_flags h = SIGNED_HEADER_PADDING \<and> timestamp h = w_time w"
  using assms by (rule signer_headerE) (simp add: signer_header_apply start_header_def)

theorem signer_header_no_board_id_witness:
  "\<exists>h fv iv. signer_header sample_world sample_options sample_key Image_init = Inr (h, fv, iv) \<and>
    board_id_type h = 0x33333333 \<and> timestamp h = 5"
proof -
  from sample_header obtain h fv iv where r: "signer_header sample_world sample_options sample_key Image_init = Inr (h, fv, iv)" by blast
  from signer_header_no_board_id [OF r] r show ?thesis
    by (simp add: SIGNED_HEADER_PADDING_def sample_world_def)
qed

text \<open>C28: The members that neither the constructor nor \<open>main\<close> initialises reach the signed
  header with whatever the stack held: the union, the swap mark, the product family and the two device id words.\<close>

theorem signer_header_uninitialised:
  assumes "signer_header w opts k img = Inr (h, fv, iv)"
  shows "u_words h = u_words (w_stack w) \<and> swap_size h = swap_size (w_stack w) \<and> swap_offset h = swap_offset (w_stack w) \<and>
    rw_product_family h = rw_product_family (w_stack w) \<and> dev_id0 h = dev_id0 (w_stack w) \<and> dev_id1 h = dev_id1 (w_stack w)"
  using assms by (rule signer_headerE) (simp add: signer_header_apply start_header_def SignedHeader_init_def)

theorem signer_header_uninitialised_witness:
  "\<exists>h fv iv. signer_header sample_world sample_options sample_key Image_init = Inr (h, fv, iv) \<and>
    dev_id0 h = dev_id0 zero_header"
proof -
  from sample_header obtain h fv iv where r: "signer_header sample_world sample_options sample_key Image_init = Inr (h, fv, iv)" by blast
  from signer_header_uninitialised [OF r] r show ?thesis
    by (simp add: sample_world_def)
qed

text \<open>C1: A run that exits with 0 loaded a key and an ELF image, built the header and the arrays, signed
  with them, and wrote exactly the signed image in the requested format. As \<open>getopt\<close> gives the option
  \<open>K\<close> no argument, the key id of the header is that of the key and equals the manifest's.\<close>

theorem main_success:
  assumes "main w = Exit 0 hashes out" and "\<forall>s. (CHR ''K'', Some s) \<notin> set (w_args w)"
  shows "\<exists>opts k img0 img h fv iv img'. getOptions (w_args w) initial_options = Inr (0, opts) \<and>
    key_ptr (PublicKey_new (pem_readable w) (pem_private w) (pem_public w)) = Some k \<and>
    fromElf (w_elf w) Image_init = Inr (True, img0) \<and> fill_requested w opts img0 = Inr img \<and>
    signer_header w opts k img = Inr (h, fv, iv) \<and> n0inv (sign_bn (w_sign w)) k = Some (keyid h) \<and>
    Image_sign (w_sign w) (pem_private w = None) k h fv iv (hashesFilename opts) (w_hashes_open w) img =
      Some (Inr (True, img', hashes)) \<and>
    generate (w_output_open w) (outputFormat opts = ''hex'') img' = Inr out"
proof -
  let ?pk = "PublicKey_new (pem_readable w) (pem_private w) (pem_public w)"
  from assms(1) obtain rc opts where o: "getOptions (w_args w) initial_options = Inr (rc, opts)"
    by (auto simp: main_def split: sum.splits)
  with assms(1) have rc: "rc = 0" by (auto simp: main_def split: if_splits)
  from assms(1) o rc obtain k where k: "key_ptr ?pk = Some k"
    by (auto simp: main_def Let_def split: option.splits)
  from assms(1) o rc k obtain img0 where e: "fromElf (w_elf w) Image_init = Inr (True, img0)"
    by (auto simp: main_def Let_def split: sum.splits if_splits)
  from assms(1) o rc k e obtain img where f: "fill_requested w opts img0 = Inr img"
    by (auto simp: main_def Let_def split: sum.splits)
  from assms(1) o rc k e f obtain h fv iv where s: "signer_header w opts k img = Inr (h, fv, iv)"
    by (auto simp: main_def Let_def split: sum.splits)
  have "sign_and_generate w opts (publicOnly ?pk) k img h fv iv = Exit 0 hashes out"
    using assms(1) o rc k e f s by (simp add: main_def Let_def)
  moreover have "publicOnly ?pk \<longleftrightarrow> pem_private w = None"
    using k by (auto simp: PublicKey_new_def split: if_splits option.splits)
  ultimately obtain img' where
    "Image_sign (w_sign w) (pem_private w = None) k h fv iv (hashesFilename opts) (w_hashes_open w) img =
      Some (Inr (True, img', hashes))"
    and "generate (w_output_open w) (outputFormat opts = ''hex'') img' = Inr out"
    by (auto simp: sign_and_generate_def split: option.splits sum.splits if_splits)
  moreover have "n0inv (sign_bn (w_sign w)) k = Some (keyid h)"
  proof -
    have "\<not> FLAGS_override_keyid opts"
      using o rc assms(2) by (auto elim!: getOptions_0E dest!: option_loop_override(1) simp: initial_options_def)
    with s show ?thesis by (elim signer_headerE) simp
  qed
  ultimately show ?thesis using o rc k e f s by blast
qed

theorem main_success_witness:
  "\<exists>out opts h fv iv img. main sample_world = Exit 0 None (Some out) \<and> getOptions (w_args sample_world) initial_options = Inr (0, opts) \<and>
    signer_header sample_world opts sample_key img = Inr (h, fv, iv) \<and> n0inv nat_bn sample_key = Some (keyid h)"
proof -
  from sample_main obtain out where r: "main sample_world = Exit 0 None (Some out)" ..
  have k: "\<forall>s. (CHR ''K'', Some s) \<notin> set (w_args sample_world)" by (simp add: sample_world_def)
  have "key_ptr (PublicKey_new (pem_readable sample_world) (pem_private sample_world) (pem_public sample_world)) = Some sample_key"
    "sign_bn (w_sign sample_world) = nat_bn"
    by (simp_all add: sample_world_def PublicKey_new_def sample_sign_env_def)
  with main_success [OF r k] obtain opts img and h :: SignedHeader and fv iv where
    "getOptions (w_args sample_world) initial_options = Inr (0, opts)"
    "signer_header sample_world opts sample_key img = Inr (h, fv, iv)" "n0inv nat_bn sample_key = Some (keyid h)"
    by auto
  with r show ?thesis by blast
qed

end
