(* ===== verification/Preprocessor.thy ===== *)
theory Preprocessor
  imports Prelude "HOL-Library.Signed_Division"
begin

text \<open>
  The language the configuration headers of the chip (chip/c) are written in: the directives of the
  C preprocessor they use, with the macro table as the state. \<open>#error\<close> ends a run with its
  message. A controlling expression is evaluated as C prescribes: identifiers that are not macros
  are 0, a macro is replaced by its body, and an expression that is none (an empty body, a division
  by zero, a body that is no arithmetic expression) is an error of its own. What \<open>#include\<close>
  does is an argument; lines that are no directives are collected as output.
\<close>

section \<open>Directives\<close>

datatype pexp =
    Lit int
  | Name string
  | Defined string
  | Not pexp
  | And pexp pexp
  | Or pexp pexp
  | Add pexp pexp
  | Sub pexp pexp
  | Mul pexp pexp
  | Div pexp pexp
  | ShiftRight pexp pexp
  | Less pexp pexp
  | Greater pexp pexp

text \<open>The body of a macro: nothing, an arithmetic expression, other tokens, or parameters and tokens.\<close>

datatype body = Empty | Value pexp | Tokens string | Function "string list" string

datatype directive =
    Define string body
  | Undef string
  | Error string
  | Include string
  | Line string
  | If pexp "directive list" "directive list"

type_synonym macros = "string \<rightharpoonup> body"

record pp_state =
  macros :: macros
  emitted :: "string list"

datatype pp_error = ErrorDirective string | BadExpression

section \<open>Evaluation of a controlling expression\<close>

text \<open>
  The fuel bounds the nesting of macro expansions. It is at most five in the headers modelled
  here; running out of it counts as an error, so it never turns a failing check into a passed one.
\<close>

definition truth :: "bool \<Rightarrow> int" where
  "truth b = (if b then 1 else 0)"

definition strict2 :: "(int \<Rightarrow> int \<Rightarrow> int option) \<Rightarrow> int option \<Rightarrow> int option \<Rightarrow> int option" where
  "strict2 f a b = (case a of None \<Rightarrow> None | Some x \<Rightarrow> (case b of None \<Rightarrow> None | Some y \<Rightarrow> f x y))"

fun peval :: "nat \<Rightarrow> macros \<Rightarrow> pexp \<Rightarrow> int option" where
  "peval k m (Lit i) = Some i"
| "peval k m (Name n) =
     (case m n of
        None \<Rightarrow> Some 0
      | Some (Value e) \<Rightarrow> (case k of 0 \<Rightarrow> None | Suc k' \<Rightarrow> peval k' m e)
      | Some b \<Rightarrow> None)"
| "peval k m (Defined n) = Some (truth (m n \<noteq> None))"
| "peval k m (Not e) = map_option (\<lambda>x. truth (x = 0)) (peval k m e)"
| "peval k m (And a b) =
     (case peval k m a of
        None \<Rightarrow> None
      | Some x \<Rightarrow> if x = 0 then Some 0 else map_option (\<lambda>y. truth (y \<noteq> 0)) (peval k m b))"
| "peval k m (Or a b) =
     (case peval k m a of
        None \<Rightarrow> None
      | Some x \<Rightarrow> if x \<noteq> 0 then Some 1 else map_option (\<lambda>y. truth (y \<noteq> 0)) (peval k m b))"
| "peval k m (Add a b) = strict2 (\<lambda>x y. Some (x + y)) (peval k m a) (peval k m b)"
| "peval k m (Sub a b) = strict2 (\<lambda>x y. Some (x - y)) (peval k m a) (peval k m b)"
| "peval k m (Mul a b) = strict2 (\<lambda>x y. Some (x * y)) (peval k m a) (peval k m b)"
| "peval k m (Div a b) =
     strict2 (\<lambda>x y. if y = 0 then None else Some (x sdiv y)) (peval k m a) (peval k m b)"
| "peval k m (ShiftRight a b) =
     strict2 (\<lambda>x y. if y < 0 then None else Some (drop_bit (nat y) x)) (peval k m a) (peval k m b)"
| "peval k m (Less a b) = strict2 (\<lambda>x y. Some (truth (x < y))) (peval k m a) (peval k m b)"
| "peval k m (Greater a b) = strict2 (\<lambda>x y. Some (truth (y < x))) (peval k m a) (peval k m b)"

definition EXPANSIONS :: nat where "EXPANSIONS = 16"

definition holds :: "macros \<Rightarrow> pexp \<Rightarrow> bool option" where
  "holds m e = map_option (\<lambda>x. x \<noteq> 0) (peval EXPANSIONS m e)"

section \<open>Running directives\<close>

text \<open>
  A state is run as far as compilers go on: an error is an \<open>#error\<close> that is reached or a condition
  that cannot be evaluated. A \<open>#define\<close> of a name that is defined with another body violates a constraint
  of the language; compilers report it with a warning and take the new body, and so does the model.
\<close>

type_synonym inclusion = "string \<Rightarrow> pp_state \<Rightarrow> pp_error + pp_state"

fun run_directive :: "inclusion \<Rightarrow> directive \<Rightarrow> pp_state \<Rightarrow> pp_error + pp_state"
  and run_directives :: "inclusion \<Rightarrow> directive list \<Rightarrow> pp_state \<Rightarrow> pp_error + pp_state" where
  "run_directive inc (Define n b) s = Inr (s\<lparr>macros := (macros s)(n \<mapsto> b)\<rparr>)"
| "run_directive inc (Undef n) s = Inr (s\<lparr>macros := (macros s)(n := None)\<rparr>)"
| "run_directive inc (Error msg) s = Inl (ErrorDirective msg)"
| "run_directive inc (Include f) s = inc f s"
| "run_directive inc (Line l) s = Inr (s\<lparr>emitted := emitted s @ [l]\<rparr>)"
| "run_directive inc (If c ds es) s =
     (case holds (macros s) c of
        None \<Rightarrow> Inl BadExpression
      | Some v \<Rightarrow> if v then run_directives inc ds s else run_directives inc es s)"
| "run_directives inc [] s = Inr s"
| "run_directives inc (d # ds) s = bind_result (run_directive inc d s) (run_directives inc ds)"

lemma run_append:
  "run_directives inc (ds @ es) s = bind_result (run_directives inc ds s) (run_directives inc es)"
  by (induction ds arbitrary: s) (simp_all add: bind_result_def split: sum.split)

text \<open>\<open>#ifdef\<close> and \<open>#ifndef\<close>, and the guard that makes a header's second inclusion empty.\<close>

definition If_defined :: "string \<Rightarrow> directive list \<Rightarrow> directive" where
  "If_defined n ds = If (Defined n) ds []"

definition If_undefined :: "string \<Rightarrow> directive list \<Rightarrow> directive" where
  "If_undefined n ds = If (Not (Defined n)) ds []"

definition guarded :: "string \<Rightarrow> directive list \<Rightarrow> directive list" where
  "guarded n ds = [If_undefined n (Define n Empty # ds)]"

lemma holds_simps [simp]:
  "holds m (Defined n) = Some (m n \<noteq> None)"
  "holds m (Not a) = map_option HOL.Not (holds m a)"
  "holds m (And a b) =
     (case holds m a of None \<Rightarrow> None | Some x \<Rightarrow> if x then holds m b else Some False)"
  "holds m (Or a b) =
     (case holds m a of None \<Rightarrow> None | Some x \<Rightarrow> if x then Some True else holds m b)"
  by (auto simp: holds_def truth_def option.map_comp comp_def split: option.split)

lemma run_if_defined [simp]:
  "run_directive inc (If_defined n ds) s = (if macros s n \<noteq> None then run_directives inc ds s else Inr s)"
  "run_directive inc (If_undefined n ds) s = (if macros s n = None then run_directives inc ds s else Inr s)"
  by (simp_all add: If_defined_def If_undefined_def)

lemma run_guarded:
  "run_directives inc (guarded n ds) s =
     (if macros s n = None then run_directives inc ds (s\<lparr>macros := (macros s)(n \<mapsto> Empty)\<rparr>) else Inr s)"
  by (simp add: guarded_def bind_result_def split: sum.split)

abbreviation on :: "pp_state \<Rightarrow> string \<Rightarrow> bool" where
  "on s n \<equiv> macros s n \<noteq> None"

section \<open>What a run leaves alone\<close>

text \<open>
  The names a run of a directive can change, where \<open>names f\<close> are those of the included file \<open>f\<close>.
\<close>

fun touched :: "(string \<Rightarrow> string set) \<Rightarrow> directive \<Rightarrow> string set" where
  "touched names (Define n b) = {n}"
| "touched names (Undef n) = {n}"
| "touched names (If c ds es) = (\<Union>d \<in> set ds. touched names d) \<union> (\<Union>d \<in> set es. touched names d)"
| "touched names (Include f) = names f"
| "touched names (Error msg) = {}"
| "touched names (Line l) = {}"

definition touched_all :: "(string \<Rightarrow> string set) \<Rightarrow> directive list \<Rightarrow> string set" where
  "touched_all names ds = (\<Union>d \<in> set ds. touched names d)"

lemma touched_all_simps [simp]:
  "touched_all names [] = {}"
  "touched_all names (d # ds) = touched names d \<union> touched_all names ds"
  "touched_all names (ds @ es) = touched_all names ds \<union> touched_all names es"
  by (auto simp: touched_all_def)

lemma touched_if [simp]:
  "touched names (If_defined n ds) = touched_all names ds"
  "touched names (If_undefined n ds) = touched_all names ds"
  "touched_all names (guarded n ds) = insert n (touched_all names ds)"
  by (auto simp: touched_all_def If_defined_def If_undefined_def guarded_def)

text \<open>
  The interface between a header and the files it includes: an inclusion changes at most the names
  announced for the file. Under this contract a run changes at most the names it touches.
\<close>

locale includes_frame =
  fixes inc :: inclusion
    and names :: "string \<Rightarrow> string set"
  assumes include_keeps: "inc f s = Inr s' \<Longrightarrow> n \<notin> names f \<Longrightarrow> macros s' n = macros s n"
begin

lemma keeps_list:
  assumes "\<And>d s s'. d \<in> set ds \<Longrightarrow> run_directive inc d s = Inr s' \<Longrightarrow> n \<notin> touched names d \<Longrightarrow>
      macros s' n = macros s n"
  shows "run_directives inc ds s = Inr s' \<Longrightarrow> n \<notin> touched_all names ds \<Longrightarrow> macros s' n = macros s n"
  using assms
proof (induction ds arbitrary: s)
  case (Cons d ds)
  from Cons.prems(1) obtain t where t: "run_directive inc d s = Inr t" "run_directives inc ds t = Inr s'"
    by (auto simp: bind_result_def split: sum.splits)
  have "macros s' n = macros t n"
    by (rule Cons.IH [OF t(2)]) (use Cons.prems(2,3) in \<open>auto simp: touched_all_def\<close>)
  also have "\<dots> = macros s n"
    using Cons.prems(2) by (intro Cons.prems(3) [OF _ t(1)]) (simp_all add: touched_all_def)
  finally show ?case .
qed simp

lemma keeps_one:
  "run_directive inc d s = Inr s' \<Longrightarrow> n \<notin> touched names d \<Longrightarrow> macros s' n = macros s n"
proof (induction d arbitrary: s s')
  case (If c ds es)
  from If.prems(2) have n: "n \<notin> touched_all names ds" "n \<notin> touched_all names es"
    by (simp_all add: touched_all_def)
  from If.prems(1) obtain v where "holds (macros s) c = Some v"
    and run: "(if v then run_directives inc ds s else run_directives inc es s) = Inr s'"
    by (auto split: option.splits)
  have branch: "macros s' n = macros s n"
    if "run_directives inc xs s = Inr s'" "n \<notin> touched_all names xs"
      and "\<And>d s s'. d \<in> set xs \<Longrightarrow> run_directive inc d s = Inr s' \<Longrightarrow> n \<notin> touched names d \<Longrightarrow>
        macros s' n = macros s n" for xs
    using that(3,1,2) by (rule keeps_list)
  show ?case
  proof (cases v)
    case True
    with run have "run_directives inc ds s = Inr s'" by simp
    then show ?thesis using n(1) If.IH(1) by (rule branch)
  next
    case False
    with run have "run_directives inc es s = Inr s'" by simp
    then show ?thesis using n(2) If.IH(2) by (rule branch)
  qed
qed (auto simp: include_keeps)

lemma keeps: "run_directives inc ds s = Inr s' \<Longrightarrow> n \<notin> touched_all names ds \<Longrightarrow> macros s' n = macros s n"
  by (erule (1) keeps_list [rotated]) (erule (1) keeps_one)

text \<open>A run splits at every part of its list, and later parts keep the names they do not touch.\<close>

lemma run_split:
  assumes "run_directives inc (ds @ mid @ es) s = Inr s'"
  obtains t u where "run_directives inc ds s = Inr t" and "run_directives inc mid t = Inr u"
    and "run_directives inc es u = Inr s'" and "\<And>n. n \<notin> touched_all names es \<Longrightarrow> macros s' n = macros u n"
  using assms keeps by (auto simp: run_append bind_result_def split: sum.splits)

end

section \<open>An analysis that shows a run succeeds\<close>

text \<open>
  A run is followed with nothing but a list of names known to be undefined. The analysis of a
  directive gives the names still undefined behind it, or fails when the directive may fail. A
  condition over \<open>defined\<close> is decided as far as these names decide it. Where they do not, the
  second branch is analysed with what the first one leaves, which is right for either of them.
\<close>

fun and3 :: "bool option \<Rightarrow> bool option \<Rightarrow> bool option" where
  "and3 (Some True) b = b"
| "and3 (Some False) b = Some False"
| "and3 None b = (if b = Some False then Some False else None)"

fun decide :: "string list \<Rightarrow> pexp \<Rightarrow> bool option" where
  "decide N (Defined n) = (if n \<in> set N then Some False else None)"
| "decide N (Not e) = map_option HOL.Not (decide N e)"
| "decide N (And a b) = and3 (decide N a) (decide N b)"
| "decide N (Or a b) = map_option HOL.Not (and3 (map_option HOL.Not (decide N a)) (map_option HOL.Not (decide N b)))"
| "decide N e = None"

fun defined_only :: "pexp \<Rightarrow> bool" where
  "defined_only (Defined n) = True"
| "defined_only (Not e) = defined_only e"
| "defined_only (And a b) = (defined_only a \<and> defined_only b)"
| "defined_only (Or a b) = (defined_only a \<and> defined_only b)"
| "defined_only e = False"

type_synonym analysis = "string \<Rightarrow> string list \<Rightarrow> string list option"

fun analyse :: "analysis \<Rightarrow> directive \<Rightarrow> string list \<Rightarrow> string list option"
  and analyse_all :: "analysis \<Rightarrow> directive list \<Rightarrow> string list \<Rightarrow> string list option" where
  "analyse ainc (Define n b) N = Some (removeAll n N)"
| "analyse ainc (Undef n) N = Some N"
| "analyse ainc (Error msg) N = None"
| "analyse ainc (Include f) N = ainc f N"
| "analyse ainc (Line l) N = Some N"
| "analyse ainc (If c ds es) N =
     (if defined_only c then
        (case decide N c of
           Some v \<Rightarrow> if v then analyse_all ainc ds N else analyse_all ainc es N
         | None \<Rightarrow> (case analyse_all ainc ds N of None \<Rightarrow> None | Some N' \<Rightarrow> analyse_all ainc es N'))
      else None)"
| "analyse_all ainc [] N = Some N"
| "analyse_all ainc (d # ds) N =
     (case analyse ainc d N of None \<Rightarrow> None | Some N' \<Rightarrow> analyse_all ainc ds N')"

definition undefined_in :: "string list \<Rightarrow> pp_state \<Rightarrow> bool" where
  "undefined_in N s \<longleftrightarrow> (\<forall>n \<in> set N. macros s n = None)"

definition reaches :: "pp_error + pp_state \<Rightarrow> string list \<Rightarrow> bool" where
  "reaches r N \<longleftrightarrow> (\<exists>s. r = Inr s \<and> undefined_in N s)"

lemma analyse_append:
  "analyse_all ainc (ds @ es) N =
     (case analyse_all ainc ds N of None \<Rightarrow> None | Some N' \<Rightarrow> analyse_all ainc es N')"
  by (induction ds arbitrary: N) (auto split: option.split)

lemma peval_defined_only: "defined_only c \<Longrightarrow> \<exists>v. peval k m c = Some v"
  by (induction k m c rule: peval.induct) auto

lemma decide_sound:
  assumes "undefined_in N s"
  shows "decide N c = Some v \<Longrightarrow> defined_only c \<Longrightarrow> peval k (macros s) c = Some x \<Longrightarrow> (x \<noteq> 0) = v"
proof (induction c arbitrary: v x)
  case (Defined n)
  then show ?case using assms by (auto simp: undefined_in_def truth_def split: if_splits)
next
  case (Not c)
  then show ?case by (auto simp: truth_def split: if_splits)
next
  case (And a b)
  from And.prems(2) obtain y z where yz: "peval k (macros s) a = Some y" "peval k (macros s) b = Some z"
    using peval_defined_only by (metis defined_only.simps(3))
  have a: "decide N a = Some w \<Longrightarrow> (y \<noteq> 0) = w" for w
    using And.prems(2) yz(1) by (intro And.IH(1)) simp_all
  have b: "decide N b = Some w \<Longrightarrow> (z \<noteq> 0) = w" for w
    using And.prems(2) yz(2) by (intro And.IH(2)) simp_all
  show ?case
    using And.prems(1,3) yz a b
    by (cases "decide N a"; cases "decide N b"; cases "y = 0"; cases "z = 0";
      auto simp: truth_def split: if_split_asm elim!: and3.elims)
next
  case (Or a b)
  from Or.prems(2) obtain y z where yz: "peval k (macros s) a = Some y" "peval k (macros s) b = Some z"
    using peval_defined_only by (metis defined_only.simps(4))
  have a: "decide N a = Some w \<Longrightarrow> (y \<noteq> 0) = w" for w
    using Or.prems(2) yz(1) by (intro Or.IH(1)) simp_all
  have b: "decide N b = Some w \<Longrightarrow> (z \<noteq> 0) = w" for w
    using Or.prems(2) yz(2) by (intro Or.IH(2)) simp_all
  show ?case
    using Or.prems(1,3) yz a b
    by (cases "decide N a"; cases "decide N b"; cases "y = 0"; cases "z = 0";
      auto simp: truth_def split: if_split_asm elim!: and3.elims)
qed simp_all

text \<open>
  The contract of an analysis of \<open>#include\<close>, under which the analysis of a list is sound.
\<close>

locale includes_analysis =
  fixes inc :: inclusion
    and ainc :: analysis
  assumes include_sound: "ainc f N = Some N' \<Longrightarrow> undefined_in N s \<Longrightarrow> reaches (inc f s) N'"
    and include_shrinks: "ainc f N = Some N' \<Longrightarrow> set N' \<subseteq> set N"
begin

lemma shrinks_list:
  assumes "\<And>d N N'. d \<in> set ds \<Longrightarrow> analyse ainc d N = Some N' \<Longrightarrow> set N' \<subseteq> set N"
  shows "analyse_all ainc ds N = Some N' \<Longrightarrow> set N' \<subseteq> set N"
  using assms
proof (induction ds arbitrary: N)
  case (Cons d ds)
  from Cons.prems(1) obtain M where M: "analyse ainc d N = Some M" "analyse_all ainc ds M = Some N'"
    by (auto split: option.splits)
  have "set N' \<subseteq> set M" by (rule Cons.IH [OF M(2)]) (rule Cons.prems(2), simp_all)
  also have "\<dots> \<subseteq> set N" by (rule Cons.prems(2) [OF _ M(1)]) simp
  finally show ?case .
qed simp

lemma shrinks_one: "analyse ainc d N = Some N' \<Longrightarrow> set N' \<subseteq> set N"
proof (induction d arbitrary: N N')
  case (If c ds es)
  have ds: "analyse_all ainc ds N = Some M \<Longrightarrow> set M \<subseteq> set N" for N M
    by (erule shrinks_list [rotated]) (rule If.IH(1))
  have es: "analyse_all ainc es N = Some M \<Longrightarrow> set M \<subseteq> set N" for N M
    by (erule shrinks_list [rotated]) (rule If.IH(2))
  show ?case using If.prems ds es by (auto split: if_splits option.splits; blast)
qed (auto dest: include_shrinks)

lemma shrinks: "analyse_all ainc ds N = Some N' \<Longrightarrow> set N' \<subseteq> set N"
  by (erule shrinks_list [rotated]) (rule shrinks_one)

lemma analysis_sound_list:
  assumes "\<And>d N N' s. d \<in> set ds \<Longrightarrow> analyse ainc d N = Some N' \<Longrightarrow> undefined_in N s \<Longrightarrow>
      reaches (run_directive inc d s) N'"
    and "analyse_all ainc ds N = Some N'" and "undefined_in N s"
  shows "reaches (run_directives inc ds s) N'"
  using assms
proof (induction ds arbitrary: N s)
  case (Cons d ds)
  from Cons.prems(2) obtain M where M: "analyse ainc d N = Some M" "analyse_all ainc ds M = Some N'"
    by (auto split: option.splits)
  from Cons.prems(1) [OF _ M(1) Cons.prems(3)] obtain t where t: "run_directive inc d s = Inr t" "undefined_in M t"
    by (auto simp: reaches_def)
  have "reaches (run_directives inc ds t) N'"
    by (rule Cons.IH [OF _ M(2) t(2)]) (simp add: Cons.prems(1))
  then show ?case using t(1) by (simp add: bind_result_def)
qed (simp add: reaches_def)

lemma analysis_sound_one:
  "analyse ainc d N = Some N' \<Longrightarrow> undefined_in N s \<Longrightarrow> reaches (run_directive inc d s) N'"
proof (induction d arbitrary: N N' s)
  case (If c ds es)
  have branch: "reaches (run_directives inc xs s) M"
    if "analyse_all ainc xs N = Some M" and "undefined_in N s" and
      "\<And>d N N' s. d \<in> set xs \<Longrightarrow> analyse ainc d N = Some N' \<Longrightarrow> undefined_in N s \<Longrightarrow>
        reaches (run_directive inc d s) N'" for xs N M
    using that(3,1,2) by (rule analysis_sound_list)
  from If.prems(1) have c: "defined_only c" by (simp split: if_splits)
  then obtain x where x: "peval EXPANSIONS (macros s) c = Some x" using peval_defined_only by blast
  show ?case
  proof (cases "decide N c")
    case None
    with If.prems(1) c obtain A where A: "analyse_all ainc ds N = Some A" "analyse_all ainc es A = Some N'"
      by (auto split: option.splits)
    then have sub: "set A \<subseteq> set N" "set N' \<subseteq> set A" by (auto dest: shrinks)
    have "reaches (run_directives inc ds s) A" using A(1) If.prems(2) If.IH(1) by (rule branch)
    moreover have "undefined_in A s" using sub(1) If.prems(2) by (auto simp: undefined_in_def)
    with A(2) have "reaches (run_directives inc es s) N'" using If.IH(2) by (rule branch)
    ultimately show ?thesis using x sub(2) by (auto simp: holds_def reaches_def undefined_in_def)
  next
    case (Some v)
    with If.prems(1) c have run: "analyse_all ainc (if v then ds else es) N = Some N'" by (simp split: if_splits)
    have "reaches (run_directives inc (if v then ds else es) s) N'"
      by (rule branch [OF run If.prems(2)]) (auto intro: If.IH split: if_splits)
    moreover have "(x \<noteq> 0) = v" using decide_sound [OF If.prems(2) Some c x] .
    ultimately show ?thesis using x by (cases v) (auto simp: holds_def)
  qed
next
  case (Include f)
  then show ?case using include_sound by simp
qed (auto simp: reaches_def undefined_in_def)

lemma analysis_sound:
  "analyse_all ainc ds N = Some N' \<Longrightarrow> undefined_in N s \<Longrightarrow> reaches (run_directives inc ds s) N'"
  by (erule (1) analysis_sound_list [rotated]) (erule (1) analysis_sound_one)

end

section \<open>Lists of defaults\<close>

text \<open>
  A list without \<open>#error\<close> and \<open>#include\<close> whose conditions only ask what is defined
  always succeeds. A name that it undefines along the list, and defines nowhere, is undefined behind
  it, whatever was predefined.
\<close>

fun harmless :: "directive \<Rightarrow> bool" where
  "harmless (Error msg) = False"
| "harmless (Include f) = False"
| "harmless (If c ds es) = (defined_only c \<and> list_all harmless ds \<and> list_all harmless es)"
| "harmless d = True"

lemma harmless_list:
  assumes "\<And>d s. d \<in> set ds \<Longrightarrow> harmless d \<Longrightarrow> \<exists>s'. run_directive inc d s = Inr s'"
  shows "list_all harmless ds \<Longrightarrow> \<exists>s'. run_directives inc ds s = Inr s'"
  using assms
proof (induction ds arbitrary: s)
  case (Cons d ds)
  from Cons.prems obtain t where "run_directive inc d s = Inr t" by fastforce
  moreover have "\<exists>s'. run_directives inc ds t = Inr s'"
    by (rule Cons.IH) (use Cons.prems in \<open>simp_all\<close>)
  ultimately show ?case by (auto simp: bind_result_def)
qed simp

lemma harmless_run_one: "harmless d \<Longrightarrow> \<exists>s'. run_directive inc d s = Inr s'"
proof (induction d arbitrary: s)
  case (If c ds es)
  then obtain x where "peval EXPANSIONS (macros s) c = Some x" using peval_defined_only by fastforce
  moreover have "\<exists>s'. run_directives inc ds s = Inr s'"
    by (rule harmless_list [OF If.IH(1)]) (use If.prems in simp_all)
  moreover have "\<exists>s'. run_directives inc es s = Inr s'"
    by (rule harmless_list [OF If.IH(2)]) (use If.prems in simp_all)
  ultimately show ?case by (simp add: holds_def)
qed simp_all

lemma harmless_run: "list_all harmless ds \<Longrightarrow> \<exists>s'. run_directives inc ds s = Inr s'"
  by (rule harmless_list [OF harmless_run_one])

fun defined_by :: "directive \<Rightarrow> string set" where
  "defined_by (Define n b) = {n}"
| "defined_by (If c ds es) = (\<Union>d \<in> set ds. defined_by d) \<union> (\<Union>d \<in> set es. defined_by d)"
| "defined_by (Include f) = UNIV"
| "defined_by d = {}"

lemma undefined_list:
  assumes "\<And>d s s'. d \<in> set ds \<Longrightarrow> run_directive inc d s = Inr s' \<Longrightarrow> n \<notin> defined_by d \<Longrightarrow> macros s n = None \<Longrightarrow>
      macros s' n = None"
  shows "run_directives inc ds s = Inr s' \<Longrightarrow> n \<notin> (\<Union>d \<in> set ds. defined_by d) \<Longrightarrow> macros s n = None \<Longrightarrow>
    macros s' n = None"
  using assms
proof (induction ds arbitrary: s)
  case (Cons d ds)
  from Cons.prems(1) obtain t where t: "run_directive inc d s = Inr t" "run_directives inc ds t = Inr s'"
    by (auto simp: bind_result_def split: sum.splits)
  from Cons.prems(2) have n: "n \<notin> defined_by d" "n \<notin> (\<Union>d \<in> set ds. defined_by d)" by auto
  have "macros t n = None" by (rule Cons.prems(4) [OF _ t(1) n(1) Cons.prems(3)]) simp
  with t(2) n(2) show ?case by (rule Cons.IH) (rule Cons.prems(4), simp_all)
qed simp

lemma undefined_one:
  "run_directive inc d s = Inr s' \<Longrightarrow> n \<notin> defined_by d \<Longrightarrow> macros s n = None \<Longrightarrow> macros s' n = None"
proof (induction d arbitrary: s s')
  case (If c ds es)
  from If.prems(2) have n: "n \<notin> (\<Union>d \<in> set ds. defined_by d)" "n \<notin> (\<Union>d \<in> set es. defined_by d)" by auto
  have branch: "macros s' n = None"
    if "run_directives inc xs s = Inr s'" "n \<notin> (\<Union>d \<in> set xs. defined_by d)"
      and "\<And>d s s'. d \<in> set xs \<Longrightarrow> run_directive inc d s = Inr s' \<Longrightarrow> n \<notin> defined_by d \<Longrightarrow> macros s n = None \<Longrightarrow>
        macros s' n = None" for xs
    using that(3,1,2) If.prems(3) by (rule undefined_list)
  show ?case
    using If.prems(1) branch [OF _ n(1) If.IH(1)] branch [OF _ n(2) If.IH(2)] by (auto split: option.splits if_splits)
qed auto

lemma stays_undefined:
  "run_directives inc ds s = Inr s' \<Longrightarrow> n \<notin> (\<Union>d \<in> set ds. defined_by d) \<Longrightarrow> macros s n = None \<Longrightarrow>
    macros s' n = None"
  by (rule undefined_list [OF undefined_one])

lemma reset_undefined:
  assumes "run_directives inc ds s = Inr s'" and "Undef n \<in> set ds" and "n \<notin> (\<Union>d \<in> set ds. defined_by d)"
  shows "macros s' n = None"
proof -
  from assms(2) obtain as bs where ds: "ds = as @ Undef n # bs" by (meson split_list)
  with assms(1) obtain t where "run_directives inc bs (t\<lparr>macros := (macros t)(n := None)\<rparr>) = Inr s'"
    by (auto simp: run_append bind_result_def split: sum.splits)
  then show ?thesis by (rule stays_undefined) (use assms(3) ds in auto)
qed

section \<open>Lists without conditions\<close>

text \<open>
  A list of \<open>#define\<close> and \<open>#undef\<close> always succeeds, and binds each name as its
  last directive for the name says.
\<close>

fun plain_directive :: "directive \<Rightarrow> bool" where
  "plain_directive (Define n b) = True"
| "plain_directive (Undef n) = True"
| "plain_directive d = False"

fun last_binding :: "string \<Rightarrow> directive list \<Rightarrow> body option option" where
  "last_binding n [] = None"
| "last_binding n (d # ds) =
     (case last_binding n ds of
        Some b \<Rightarrow> Some b
      | None \<Rightarrow> (case d of
          Define m b \<Rightarrow> if m = n then Some (Some b) else None
        | Undef m \<Rightarrow> if m = n then Some None else None
        | _ \<Rightarrow> None))"

definition rebind :: "directive list \<Rightarrow> macros \<Rightarrow> macros" where
  "rebind ds m = (\<lambda>n. case last_binding n ds of Some b \<Rightarrow> b | None \<Rightarrow> m n)"

lemma rebind_Nil [simp]: "rebind [] m = m"
  by (simp add: rebind_def)

lemma rebind_append: "rebind (ds @ es) m = rebind es (rebind ds m)"
proof -
  have "last_binding n (ds @ es) = (case last_binding n es of Some b \<Rightarrow> Some b | None \<Rightarrow> last_binding n ds)" for n
    by (induction ds) (auto split: option.split)
  then show ?thesis by (auto simp: rebind_def split: option.split)
qed

lemma rebind_Cons: "rebind (d # ds) m = rebind ds (rebind [d] m)"
  using rebind_append [of "[d]" ds m] by simp

lemma rebind_one [simp]:
  "rebind [Define x b] m = m(x \<mapsto> b)"
  "rebind [Undef x] m = m(x := None)"
  by (auto simp: rebind_def fun_eq_iff)

lemma run_plain:
  "list_all plain_directive ds \<Longrightarrow> run_directives inc ds s = Inr (s\<lparr>macros := rebind ds (macros s)\<rparr>)"
proof (induction ds arbitrary: s)
  case (Cons d ds)
  then show ?case by (subst rebind_Cons) (cases d; simp add: bind_result_def)
qed simp

end
