(* ===== verification/ConfigDefaults.thy ===== *)
theory ConfigDefaults
  imports Preprocessor
begin

text \<open>
  The list of all configuration options with their defaults: chip/c/config.h, lines 21 to 4082,
  directive by directive. Each definition holds the directives that start at the line in its name;
  \<open>config_defaults\<close> is all of them in order. Comments are left out.
\<close>

definition config_h_21 :: "directive list" where
  "config_h_21 =
     [If_defined ''INCLUDE_ENV_CONFIG'' [Include ''env_config.h'']]"

definition config_h_28 :: "directive list" where
  "config_h_28 =
     [Undef ''CONFIG_ACCEL_FIFO'', Undef ''CONFIG_ACCEL_FIFO_SIZE'', Undef ''CONFIG_ACCEL_FIFO_THRES'',
      Undef ''CONFIG_ACCEL_FORCE_MODE_MASK'', Undef ''CONFIG_ACCEL_INTERRUPTS'',
      Define ''CONFIG_ACCEL_SPOOF_MODE'' Empty, Undef ''CONFIG_AON_PERSISTENT_BASE'',
      Undef ''CONFIG_AON_PERSISTENT_SIZE'', Undef ''CONFIG_AON_RAM_BASE'', Undef ''CONFIG_AON_RAM_SIZE'',
      Undef ''CONFIG_MAG_BMM150'', Undef ''CONFIG_MAG_BMI160_BMM150'', Undef ''CONFIG_MAG_BMI160_LIS2MDL'',
      Undef ''CONFIG_BARO_BMP280'', Undef ''CONFIG_BMI160_SEC_I2C'', Undef ''CONFIG_BMI160_ORIENTATION_SENSOR'',
      Undef ''CONFIG_KX022_ORIENTATION_SENSOR'', Undef ''CONFIG_ACCELGYRO_SEC_ADDR_FLAGS'',
      Undef ''CONFIG_ORIENTATION_SENSOR'', Undef ''CONFIG_GESTURE_ORIENTATION'',
      Undef ''CONFIG_ACCEL_STD_REF_FRAME_OLD'', Undef ''CONFIG_ACCELGYRO_BMI160_INT2_OUTPUT'',
      Undef ''CONFIG_GYRO_L3GD20H'', Define ''CONFIG_SENSOR_TIGHT_TIMESTAMPS'' Empty, Undef ''CONFIG_SYNC'',
      Define ''CONFIG_SYNC_QUEUE_SIZE'' (Value (Lit 8)), Undef ''CONFIG_SYNC_COMMAND'']"

definition config_h_175 :: "directive list" where
  "config_h_175 =
     [Undef ''CONFIG_SYNC_INT_EVENT'', Undef ''CONFIG_ADC'', Undef ''CONFIG_ADC_SAMPLE_TIME'',
      Define ''CONFIG_ADC_WATCHDOG'' Empty, Define ''CONFIG_ADC_PROFILE_SINGLE'' Empty,
      Undef ''CONFIG_ADC_PROFILE_FAST_CONTINUOUS'', Undef ''CONFIG_AES'', Undef ''CONFIG_AES_GCM'']"

definition config_h_208 :: "directive list" where
  "config_h_208 =
     [If (Defined ''HAS_TASK_ALS'') [Define ''CONFIG_ALS'' Empty] [Undef ''CONFIG_ALS'']]"

definition config_h_218 :: "directive list" where
  "config_h_218 =
     [Undef ''CONFIG_ALS_AL3010'', Undef ''CONFIG_ALS_BH1730'', Undef ''CONFIG_ALS_BH1730_LUXTH_PARAMS'',
      Undef ''CONFIG_ALS_ISL29035'', Undef ''CONFIG_ALS_OPT3001'', Undef ''CONFIG_ALS_SI114X'',
      Undef ''CONFIG_ALS_SI114X_CHECK_REVISION'', Undef ''CONFIG_ALS_TCS3400'', Undef ''CONFIG_TCS_USE_LUX_TABLE'',
      Undef ''CONFIG_ALS_SI114X_INT_EVENT'', Undef ''CONFIG_ALS_TCS3400_INT_EVENT'',
      Undef ''CONFIG_ALS_SI114X_POLLING'', Undef ''CONFIG_ALS_TCS3400_EMULATED_IRQ_EVENT'',
      Undef ''CONFIG_ALS_LIGHTBAR_DIMMING'', Undef ''CONFIG_LIBCRYPTOC'', Undef ''CONFIG_AP_HANG_DETECT'',
      Undef ''CONFIG_AP_WARM_RESET_INTERRUPT'', Undef ''CONFIG_AUDIO_CODEC'',
      Undef ''CONFIG_AUDIO_CODEC_CAP_WOV_AUDIO_SHM'', Undef ''CONFIG_AUDIO_CODEC_CAP_WOV_LANG_SHM'',
      Undef ''CONFIG_AUDIO_CODEC_DMIC'', Undef ''CONFIG_AUDIO_CODEC_DMIC_SOFTWARE_GAIN'',
      Undef ''CONFIG_AUDIO_CODEC_DMIC_MAX_SOFTWARE_GAIN'', Undef ''CONFIG_AUDIO_CODEC_I2S_RX'',
      Undef ''CONFIG_AUDIO_CODEC_WOV'', Undef ''CONFIG_AUDIO_CODEC_WOV_AUDIO_BUF_LEN'',
      Undef ''CONFIG_AUDIO_CODEC_WOV_AUDIO_BUF_TYPE'', Undef ''CONFIG_AUDIO_CODEC_WOV_LANG_BUF_LEN'',
      Undef ''CONFIG_AUDIO_CODEC_WOV_LANG_BUF_TYPE'', Undef ''CONFIG_EXTENSION_COMMAND'',
      Undef ''CONFIG_BACKLIGHT_LID'', Undef ''CONFIG_BACKLIGHT_LID_ACTIVE_LOW'', Undef ''CONFIG_BACKLIGHT_REQ_GPIO'',
      Undef ''CONFIG_BASE32'', Undef ''CONFIG_BASE64'', Undef ''CONFIG_BATTERY'', Undef ''CONFIG_BATTERY_BQ20Z453'',
      Undef ''CONFIG_BATTERY_BQ27541'', Undef ''CONFIG_BATTERY_BQ27621'', Undef ''CONFIG_BATTERY_BQ4050'',
      Undef ''CONFIG_BATTERY_MAX17055'', Undef ''CONFIG_BATTERY_MM8013'', Undef ''CONFIG_BATTERY_MAX17055_ALERT'',
      Undef ''CONFIG_BATTERY_MAX17055_FULL_MODEL'', Undef ''CONFIG_BATTERY_MOCK'']"

definition config_h_366 :: "directive list" where
  "config_h_366 =
     [Define ''CONFIG_BATTERY_PRECHARGE_TIMEOUT'' (Value (Lit 30)), Undef ''CONFIG_BATTERY_HW_PRESENT_CUSTOM'',
      Undef ''CONFIG_BATTERY_PRESENT_CUSTOM'', Undef ''CONFIG_BATTERY_PRESENT_GPIO'', Undef ''CONFIG_BATTERY_SMART'',
      Undef ''CONFIG_BATTERY_DEVICE_CHEMISTRY'', Undef ''CONFIG_BATTERY_FUEL_GAUGE'',
      Define ''CONFIG_BATTERY_CRITICAL_SHUTDOWN_TIMEOUT'' (Value (Lit 30)),
      Undef ''CONFIG_BATTERY_CRITICAL_SHUTDOWN_CUT_OFF'', Undef ''CONFIG_BATTERY_CHECK_CHARGE_TEMP_LIMITS'',
      Undef ''CONFIG_BATTERY_CUT_OFF'', Undef ''CONFIG_BATTERY_CUTOFF_DELAY_US'',
      Undef ''CONFIG_BATTERY_VENDOR_PARAM'', Undef ''CONFIG_BATTERY_REQUESTS_NIL_WHEN_DEAD'',
      Undef ''CONFIG_BATTERY_REVIVE_DISCONNECT'', Undef ''CONFIG_BATTERY_LEVEL_NEAR_FULL'',
      Undef ''CONFIG_BATTERY_V2'', Undef ''CONFIG_BATTERY_DEAD_UNTIL_VALUE'', Undef ''CONFIG_BATTERY_COUNT'',
      Undef ''CONFIG_BATTERY_MEASURE_IMBALANCE'', Define ''CONFIG_BATT_FULL_FACTOR'' (Value (Lit 98)),
      Define ''CONFIG_BATT_HOST_SHUTDOWN_PERCENTAGE'' (Value (Lit 4))]"

definition config_h_513 :: "directive list" where
  "config_h_513 =
     [Define ''CONFIG_BATT_HOST_FULL_FACTOR'' (Value (Lit 94)), Undef ''CONFIG_CHARGE_STATE_DEBUG'',
      Undef ''CONFIG_BLUETOOTH_LL_DEBUG'', Undef ''CONFIG_BLUETOOTH_HCI_DEBUG'',
      Undef ''CONFIG_BOOT_HEADER_STORAGE_OFF'', Undef ''CONFIG_BOOT_HEADER_STORAGE_SIZE'',
      Undef ''CONFIG_BOOTBLOCK'', Undef ''CONFIG_BOARD_HAS_RTC_RESET'', Undef ''CONFIG_BOARD_HAS_BEFORE_RSMRST'',
      Undef ''CONFIG_BOARD_POST_GPIO_INIT'', Undef ''CONFIG_BOARD_PRE_INIT'', Undef ''CONFIG_BOARD_VERSION'',
      Undef ''CONFIG_BOARD_SPECIFIC_VERSION'', Undef ''CONFIG_BOARD_FORCE_RESET_PIN'',
      Undef ''CONFIG_BOOTCFG_VALUE'', Undef ''CONFIG_BRINGUP'', Undef ''CONFIG_DEBUG_BRINGUP'',
      Undef ''CONFIG_BUTTON_TRIGGERED_RECOVERY'', Undef ''CONFIG_DETACHABLE_BASE'',
      Undef ''CONFIG_DEDICATED_RECOVERY_BUTTON'', Undef ''CONFIG_VOLUME_BUTTONS'',
      Undef ''CONFIG_CASE_CLOSED_DEBUG_V1'', Undef ''CONFIG_CASE_CLOSED_DEBUG_V1_UNSAFE'',
      Undef ''CONFIG_CCD_ITE_PROGRAMMING'', Undef ''CONFIG_CCD_OPEN_PREPVT'', Undef ''CONFIG_CAPSENSE'',
      Undef ''CONFIG_CEC'', Undef ''CONFIG_CHARGE_MANAGER'',
      Define ''CONFIG_DEDICATED_CHARGE_PORT_COUNT'' (Value (Lit 0)), Undef ''CONFIG_CHARGE_MANAGER_DRP_CHARGING'',
      Undef ''CONFIG_CHARGE_MANAGER_EXTERNAL_POWER_LIMIT'', Define ''CONFIG_CHARGE_MANAGER_SAFE_MODE'' Empty]"

definition config_h_663 :: "directive list" where
  "config_h_663 =
     [Define ''CONFIG_CHARGE_MANAGER_BAT_PCT_SAFE_MODE_EXIT'' (Value (Lit 2)), Undef ''CONFIG_CHARGE_RAMP_HW'',
      Undef ''CONFIG_CHARGE_RAMP_SW'', Undef ''CONFIG_CHARGER'', Undef ''CONFIG_CHARGER_BD9995X'',
      Undef ''CONFIG_CHARGER_BQ24707A'', Undef ''CONFIG_CHARGER_BQ24715'', Undef ''CONFIG_CHARGER_BQ24725'',
      Undef ''CONFIG_CHARGER_BQ24735'', Undef ''CONFIG_CHARGER_BQ24738'', Undef ''CONFIG_CHARGER_BQ24770'',
      Undef ''CONFIG_CHARGER_BQ24773'', Undef ''CONFIG_CHARGER_BQ25703'', Undef ''CONFIG_CHARGER_BQ25710'',
      Undef ''CONFIG_CHARGER_BQ25890'', Undef ''CONFIG_CHARGER_BQ25892'', Undef ''CONFIG_CHARGER_BQ25895'',
      Undef ''CONFIG_CHARGER_ISL9237'', Undef ''CONFIG_CHARGER_ISL9238'', Undef ''CONFIG_CHARGER_ISL9241'',
      Undef ''CONFIG_CHARGER_MT6370'', Undef ''CONFIG_CHARGER_RT9466'', Undef ''CONFIG_CHARGER_RT9467'',
      Undef ''CONFIG_CHARGER_SY21612'', Undef ''CONFIG_CHARGER_BD9995X_CHGEN'',
      Undef ''CONFIG_BD9995X_POWER_SAVE_MODE'', Undef ''CONFIG_CHARGER_BATTERY_TSENSE'',
      Undef ''CONFIG_CHARGER_BQ2589X_IR_COMP'', Undef ''CONFIG_CHARGER_BQ2589X_BOOST'',
      Undef ''CONFIG_CHARGER_CURRENT_LIMIT'', Undef ''CONFIG_CHARGER_MT6370_BACKLIGHT'',
      Undef ''CONFIG_CHARGER_MT6370_BC12_GPIO'', Undef ''CONFIG_CHARGER_PSYS'', Undef ''CONFIG_CHARGER_PSYS_READ'',
      Undef ''CONFIG_CHARGER_TERM_CURRENT_LIMIT'', Undef ''CONFIG_CHARGER_DISCHARGE_ON_AC'',
      Undef ''CONFIG_CHARGER_DISCHARGE_ON_AC_CUSTOM'', Undef ''CONFIG_CHARGER_ILIM_PIN_DISABLED'',
      Undef ''CONFIG_CHARGER_INPUT_CURRENT'', Undef ''CONFIG_CHARGER_BQ25710_IDCHG_LIMIT_MA'']"

definition config_h_813 :: "directive list" where
  "config_h_813 =
     [Undef ''CONFIG_CHARGER_MAX_INPUT_CURRENT'', Undef ''CONFIG_CHARGER_MAINTAIN_VBAT'',
      Undef ''CONFIG_CHARGER_MIN_BAT_PCT_FOR_POWER_ON'', Undef ''CONFIG_CHARGER_MIN_BAT_PCT_FOR_POWER_ON_WITH_AC'',
      Undef ''CONFIG_CHARGER_MIN_POWER_MW_FOR_POWER_ON'',
      Undef ''CONFIG_CHARGER_MIN_POWER_MW_FOR_POWER_ON_WITH_BATT'',
      Undef ''CONFIG_CHARGER_MIN_BAT_PCT_IMBALANCED_POWER_ON'', Undef ''CONFIG_BATTERY_MAX_IMBALANCE_MV'',
      Undef ''CONFIG_CHARGER_NARROW_VDC'', Undef ''CONFIG_CHARGER_LIMIT_POWER_THRESH_CHG_MW'',
      Undef ''CONFIG_CHARGER_LIMIT_POWER_THRESH_BAT_PCT'', Undef ''CONFIG_CHARGER_OTG'',
      Undef ''CONFIG_CHARGER_PROFILE_OVERRIDE'', Undef ''CONFIG_CHARGER_PROFILE_OVERRIDE_COMMON'',
      Define ''CONFIG_CHARGER_PROFILE_VOLTAGE_RANGES'' (Value (Lit 2)), Undef ''CONFIG_CHARGER_SENSE_RESISTOR'',
      Undef ''CONFIG_CHARGER_SENSE_RESISTOR_AC'', Undef ''CONFIG_CHARGER_EN_GPIO'',
      Undef ''CONFIG_CHARGER_EN_ACTIVE_LOW'', Undef ''CONFIG_TRICKLE_CHARGING'',
      Undef ''CONFIG_WIRELESS_CHARGER_P9221_R7'', Undef ''CONFIG_CHIP_PRE_INIT'',
      Undef ''CONFIG_CHIPSET_APOLLOLAKE'', Undef ''CONFIG_CHIPSET_BRASWELL'', Undef ''CONFIG_CHIPSET_CANNONLAKE'',
      Undef ''CONFIG_CHIPSET_COMETLAKE'', Undef ''CONFIG_CHIPSET_COMETLAKE_DISCRETE'',
      Undef ''CONFIG_CHIPSET_ECDRIVEN'', Undef ''CONFIG_CHIPSET_GEMINILAKE'', Undef ''CONFIG_CHIPSET_ICELAKE'',
      Undef ''CONFIG_CHIPSET_MT817X'', Undef ''CONFIG_CHIPSET_MT8183'', Undef ''CONFIG_CHIPSET_RK3288'',
      Undef ''CONFIG_CHIPSET_RK3399'', Undef ''CONFIG_CHIPSET_SKYLAKE'', Undef ''CONFIG_CHIPSET_SC7180'',
      Undef ''CONFIG_CHIPSET_SDM845'', Undef ''CONFIG_CHIPSET_STONEY'', Undef ''CONFIG_CHIPSET_TIGERLAKE'']"

definition config_h_961 :: "directive list" where
  "config_h_961 =
     [Undef ''CONFIG_CHIPSET_APL_GLK'', Undef ''CONFIG_CHIPSET_ICL_TGL'', Undef ''CONFIG_CHIPSET_CAN_THROTTLE'',
      Undef ''CONFIG_CHIPSET_DEBUG'', Undef ''CONFIG_CHIPSET_RESET_HOOK'',
      Undef ''CONFIG_CHIPSET_PP3300_RAIL_FIRST'', Undef ''CONFIG_CHIPSET_X86_RSMRST_DELAY'',
      Undef ''CONFIG_CHIPSET_HAS_PLATFORM_PMIC_RESET'', Undef ''CONFIG_CHIPSET_HAS_PRE_INIT_CALLBACK'',
      Define ''CONFIG_CHIPSET_POWER_SEQ_VERSION'' (Value (Lit 0)), Undef ''CONFIG_CLOCK_CRYSTAL'',
      Undef ''CONFIG_STM32_CLOCK_HSE_HZ'', Undef ''CONFIG_STM32_CLOCK_LSE'', Undef ''CONFIG_CLOCK_SRC_EXTERNAL'',
      Undef ''CONFIG_CURVE25519'', Undef ''CONFIG_PMIC_FW_LONG_PRESS_TIMER'', Undef ''CONFIG_PMIC'',
      Undef ''CONFIG_CMD_ACCELS'', Undef ''CONFIG_CMD_ACCEL_FIFO'', Undef ''CONFIG_CMD_ACCEL_INFO'',
      Define ''CONFIG_CMD_ACCELSPOOF'' Empty, Define ''CONFIG_CMD_ADC'' Empty, Undef ''CONFIG_CMD_ALS'',
      Define ''CONFIG_CMD_APTHROTTLE'' Empty, Undef ''CONFIG_CMD_BATDEBUG'', Define ''CONFIG_CMD_BATTFAKE'' Empty,
      Undef ''CONFIG_CMD_BATT_MFG_ACCESS'', Define ''CONFIG_CMD_RETIMER'' Empty, Undef ''CONFIG_CMD_BUTTON'',
      Define ''CONFIG_CMD_CBI'' Empty, Undef ''CONFIG_CMD_CCD_DISABLE'', Undef ''CONFIG_CMD_CHARGEN'',
      Define ''CONFIG_CMD_CHARGER'' Empty, Undef ''CONFIG_CMD_CHARGER_ADC_AMON_BMON'',
      Undef ''CONFIG_CMD_CHARGER_DUMP'', Undef ''CONFIG_CMD_CHARGER_PROFILE_OVERRIDE'',
      Undef ''CONFIG_CMD_CHARGER_PROFILE_OVERRIDE_TEST'', Define ''CONFIG_CMD_CHARGE_SUPPLIER_INFO'' Empty,
      Undef ''CONFIG_CMD_CHGRAMP'', Undef ''CONFIG_CMD_CLOCKGATES'', Undef ''CONFIG_CMD_COMXTEST'',
      Define ''CONFIG_CMD_CRASH'' Empty, Define ''CONFIG_CMD_DEVICE_EVENT'' Empty, Undef ''CONFIG_CMD_DLOG'',
      Define ''CONFIG_CMD_DUMP_NVMEM'' Empty, Undef ''CONFIG_CMD_DUMP_NVCACHE'', Define ''CONFIG_CMD_ECRST'' Empty,
      Undef ''CONFIG_CMD_ECTEMP'', Define ''CONFIG_CMD_FASTCHARGE'' Empty, Undef ''CONFIG_CMD_FLASH'',
      Define ''CONFIG_CMD_FLASHINFO'' Empty, Undef ''CONFIG_CMD_FLASH_LOG'', Undef ''CONFIG_CMD_FLASH_LOG_UNSAFE'',
      Undef ''CONFIG_CMD_FLASH_TRISTATE'', Undef ''CONFIG_CMD_FORCETIME'', Undef ''CONFIG_CMD_GPIO_EXTENDED'',
      Define ''CONFIG_CMD_GPIOCFG'' Empty, Undef ''CONFIG_CMD_GSV'', Undef ''CONFIG_CMD_GT7288'',
      Define ''CONFIG_CMD_HASH'' Empty, Define ''CONFIG_CMD_HCDEBUG'' Empty, Undef ''CONFIG_CMD_HOSTCMD'',
      Undef ''CONFIG_CMD_I2CWEDGE'', Undef ''CONFIG_CMD_I2C_PROTECT'', Define ''CONFIG_CMD_I2C_SCAN'' Empty,
      Undef ''CONFIG_CMD_I2C_STRESS_TEST'', Undef ''CONFIG_CMD_I2C_STRESS_TEST_ACCEL'',
      Undef ''CONFIG_CMD_I2C_STRESS_TEST_ALS'', Undef ''CONFIG_CMD_I2C_STRESS_TEST_BATTERY'',
      Undef ''CONFIG_CMD_I2C_STRESS_TEST_CHARGER'', Undef ''CONFIG_CMD_I2C_STRESS_TEST_TCPC'',
      Define ''CONFIG_CMD_I2C_XFER'' Empty, Define ''CONFIG_CMD_IDLE_STATS'' Empty, Undef ''CONFIG_CMD_ILIM'',
      Define ''CONFIG_CMD_INA'' Empty, Undef ''CONFIG_CMD_JUMPTAGS'', Define ''CONFIG_CMD_KEYBOARD'' Empty,
      Undef ''CONFIG_CMD_LEDTEST'', Undef ''CONFIG_CMD_LID_ANGLE'', Undef ''CONFIG_CMD_MCDP'',
      Define ''CONFIG_CMD_MD'' Empty, Define ''CONFIG_CMD_MEM'' Empty, Define ''CONFIG_CMD_MMAPINFO'' Empty,
      Define ''CONFIG_CMD_PD'' Empty, Undef ''CONFIG_CMD_PD_CONTROL'']"

definition config_h_1111 :: "directive list" where
  "config_h_1111 =
     [Undef ''CONFIG_CMD_PD_DEV_DUMP_INFO'', Undef ''CONFIG_CMD_PD_FLASH'', Define ''CONFIG_CMD_PECI'' Empty,
      Define ''CONFIG_CMD_PINMUX'' Empty, Undef ''CONFIG_CMD_PLL'', Undef ''CONFIG_CMD_PMU'',
      Define ''CONFIG_CMD_POWERINDEBUG'' Empty, Undef ''CONFIG_CMD_POWERLED'', Define ''CONFIG_CMD_PWR_AVG'' Empty,
      Define ''CONFIG_CMD_POWER_AP'' Empty, Undef ''CONFIG_CMD_PPC_DUMP'', Undef ''CONFIG_CMD_RAND'',
      Define ''CONFIG_CMD_REGULATOR'' Empty, Undef ''CONFIG_CMD_ROLLBACK'', Undef ''CONFIG_CMD_RTC'',
      Undef ''CONFIG_CMD_RTC_ALARM'', Define ''CONFIG_CMD_RW'' Empty, Undef ''CONFIG_CMD_SCRATCHPAD'',
      Undef ''CONFIG_CMD_SEVEN_SEG_DISPLAY'', Define ''CONFIG_CMD_SHMEM'' Empty, Undef ''CONFIG_CMD_SLEEP'',
      Define ''CONFIG_CMD_SLEEPMASK'' Empty, Define ''CONFIG_CMD_SLEEPMASK_SET'' Empty,
      Undef ''CONFIG_CMD_SPI_FLASH'', Undef ''CONFIG_CMD_SPI_NOR'', Undef ''CONFIG_CMD_SPI_XFER'',
      Undef ''CONFIG_CMD_STACKOVERFLOW'', Define ''CONFIG_CMD_SYSINFO'' Empty, Define ''CONFIG_CMD_SYSJUMP'' Empty,
      Define ''CONFIG_CMD_SYSLOCK'' Empty, Define ''CONFIG_CMD_SYSRST'' Empty, Undef ''CONFIG_CMD_TASKREADY'',
      Define ''CONFIG_CMD_TEMP_SENSOR'' Empty, Define ''CONFIG_CMD_TIMERINFO'' Empty,
      Define ''CONFIG_CMD_TYPEC'' Empty, Undef ''CONFIG_CMD_USART_INFO'', Define ''CONFIG_CMD_USBMUX'' Empty,
      Undef ''CONFIG_CMD_USB_PD_CABLE'', Undef ''CONFIG_CMD_USB_PD_PE'', Define ''CONFIG_CMD_WAITMS'' Empty,
      Define ''CONFIG_CMD_WP'' Empty, Undef ''CONFIG_CMD_AP_RESET_LOG'', Define ''CONFIG_COMMON_PANIC_OUTPUT'' Empty,
      Undef ''CONFIG_SOFTWARE_PANIC'', Undef ''CONFIG_CHIP_PANIC_BACKUP'', Define ''CONFIG_COMMON_GPIO'' Empty,
      Undef ''CONFIG_COMMON_GPIO_SHORTNAMES'', Define ''CONFIG_COMMON_RUNTIME'' Empty,
      Define ''CONFIG_COMMON_TIMER'' Empty, Define ''CONFIG_CONSOLE_CMDHELP'' Empty,
      Undef ''CONFIG_CONSOLE_COMMAND_FLAGS'', Undef ''CONFIG_RESTRICTED_CONSOLE_COMMANDS'',
      Undef ''CONFIG_CONSOLE_COMMAND_FLAGS_DEFAULT'', Define ''CONFIG_CONSOLE_ENABLE_READ_V1'' Empty,
      Define ''CONFIG_CONSOLE_HISTORY'' (Value (Lit 8)), Define ''CONFIG_CONSOLE_INPUT_LINE_SIZE'' (Value (Lit 80)),
      Define ''CONFIG_CONSOLE_VERBOSE'' Empty, Undef ''CONFIG_EXTRACT_PRINTF_STRINGS'',
      Undef ''CONFIG_AP_RO_VERIFICATION'', Undef ''CONFIG_EC_EFS_SUPPORT'', Undef ''CONFIG_EC_EFS2_VERSION'']"

definition config_h_1256 :: "directive list" where
  "config_h_1256 =
     [Undef ''CONFIG_EXPERIMENTAL_CONSOLE'', Undef ''CONFIG_CRC8'', Undef ''CONFIG_CUSTOMIZED_RO'',
      Undef ''CONFIG_DCRYPTO'', Undef ''CONFIG_DCRYPTO_BOARD'', Undef ''CONFIG_FIPS_UTIL'',
      Undef ''CONFIG_FIPS_CHECKSUM'', Undef ''CONFIG_DCRYPTO_MOCK'', Undef ''CONFIG_DCRYPTO_RSA_SPEEDUP'',
      Undef ''CONFIG_DCRYPTO_SHA512'', Undef ''CONFIG_UPTO_SHA512'', Undef ''CONFIG_SHA512_HW_EQ_SW'',
      Undef ''CONFIG_IGNORE_G_UPDATE_CHECKS'', Undef ''CONFIG_ENABLE_H1_ALERTS'',
      Undef ''CONFIG_ENABLE_H1_ALERTS_CONSOLE'', Define ''CONFIG_DEBUG_ASSERT'' Empty,
      Define ''CONFIG_DEBUG_ASSERT_REBOOTS'' Empty, Undef ''CONFIG_DEBUG_ASSERT_BRIEF'',
      Undef ''CONFIG_DEBUG_DISABLE_WRITE_BUFFER'']"

definition config_h_1390 :: "directive list" where
  "config_h_1390 =
     [Define ''CONFIG_DEBUG_EXCEPTIONS'' Empty, Undef ''CONFIG_DEBUG_ORIENTATION'', Undef ''CONFIG_DEBUG_PRINTF'',
      Define ''CONFIG_DEBUG_STACK_OVERFLOW'' Empty, Undef ''CONFIG_DEVICE_EVENT'', Undef ''CONFIG_DEVICE_STATE'',
      Undef ''CONFIG_DMA'', Define ''CONFIG_DMA_DEFAULT_HANDLERS'' Empty, Undef ''CONFIG_DMA_HELP'',
      Define ''CONFIG_EC_MAX_SENSOR_FREQ_DEFAULT_MILLIHZ'' (Value (Lit 200000)), Undef ''CONFIG_EEPROM'',
      Define ''CONFIG_EXTPOWER'' Empty, Undef ''CONFIG_EXTPOWER_GPIO'',
      Define ''CONFIG_EXTPOWER_DEBOUNCE_MS'' (Value (Lit 30)), Undef ''CONFIG_FACTORY_MODE'', Undef ''CONFIG_FANS'',
      Define ''CONFIG_FAN_INIT_SPEED'' (Value (Lit 100)), Undef ''CONFIG_FAN_DSLEEP'', Undef ''CONFIG_FAN_DYNAMIC'',
      Undef ''CONFIG_FAN_RPM_CUSTOM'', Undef ''CONFIG_FAN_UPDATE_PERIOD'', Define ''CONFIG_FLASH'' Empty,
      Define ''CONFIG_FLASH_PHYSICAL'' Empty, Undef ''CONFIG_FLASH_BANK_SIZE'', Undef ''CONFIG_FLASH_LOG'',
      Undef ''CONFIG_FLASH_LOG_BASE'', Undef ''CONFIG_FLASH_LOG_SPACE'', Undef ''CONFIG_FLASH_ERASED_VALUE32'',
      Undef ''CONFIG_FLASH_ERASE_SIZE'', Undef ''CONFIG_FLASH_ROW_SIZE'', Undef ''CONFIG_FLASH_DEFERRED_ERASE'',
      Undef ''CONFIG_FLASH_SELECT_REQUIRED'', Undef ''CONFIG_PROGRAM_MEMORY_BASE'',
      Undef ''CONFIG_EXTERNAL_STORAGE'', Undef ''CONFIG_INTERNAL_STORAGE'', Define ''CONFIG_MAPPED_STORAGE'' Empty,
      Undef ''CONFIG_MAPPED_STORAGE_BASE'', Undef ''CONFIG_FLASH_PROTECT_NEXT_BOOT'',
      Undef ''CONFIG_FLASH_PROTECT_RW'']"

definition config_h_1535 :: "directive list" where
  "config_h_1535 =
     [Define ''CONFIG_FLASH_PSTATE'' Empty, Define ''CONFIG_FLASH_PSTATE_BANK'' Empty,
      Undef ''CONFIG_FLASH_PSTATE_LOCKED'', Undef ''CONFIG_FLASH_READOUT_PROTECTION'',
      Undef ''CONFIG_FLASH_READOUT_PROTECTION_AS_PSTATE'', Undef ''CONFIG_FLASH_MULTIPLE_REGION'',
      Undef ''CONFIG_FLASH_REGION_TYPE_COUNT'', Undef ''CONFIG_FLASH_SIZE'', Undef ''CONFIG_FLASH_WRITE_SIZE'',
      Undef ''CONFIG_FLASH_WRITE_IDEAL_SIZE'', Undef ''CONFIG_EC_PROTECTED_STORAGE_OFF'',
      Undef ''CONFIG_EC_PROTECTED_STORAGE_SIZE'', Undef ''CONFIG_EC_WRITABLE_STORAGE_OFF'',
      Undef ''CONFIG_EC_WRITABLE_STORAGE_SIZE'', Undef ''CONFIG_FLASH_NVMEM'', Undef ''CONFIG_FLASH_NVMEM_OFFSET_A'',
      Undef ''CONFIG_FLASH_NVMEM_OFFSET_B'', Undef ''CONFIG_FLASH_NVMEM_BASE_A'',
      Undef ''CONFIG_FLASH_NVMEM_BASE_B'', Undef ''CONFIG_FLASH_NEW_NVMEM_BASE_A'',
      Undef ''CONFIG_FLASH_NEW_NVMEM_BASE_B'', Undef ''CONFIG_FLASH_NVMEM_SIZE'', Undef ''CONFIG_FLASH_NVMEM_VARS'',
      Undef ''CONFIG_FLASH_NVMEM_VARS_USER_NUM'', Undef ''CONFIG_FLASH_NVMEM_VARS_USER_SIZE'',
      Define ''CONFIG_FMAP'' Empty, Undef ''CONFIG_FORCE_CONSOLE_RESUME'', Undef ''CONFIG_FPU'',
      Undef ''CONFIG_FW_PSTATE_OFF'', Undef ''CONFIG_FW_PSTATE_SIZE'', Undef ''CONFIG_RO_MEM_OFF'',
      Undef ''CONFIG_RO_STORAGE_OFF'', Undef ''CONFIG_RO_SIZE'', Undef ''CONFIG_RW_MEM_OFF'', Undef ''CONFIG_RW_B'',
      Undef ''CONFIG_RW_B_MEM_OFF'', Undef ''CONFIG_RW_STORAGE_OFF'', Undef ''CONFIG_RW_SIZE'',
      Undef ''CONFIG_RO_HDR_MEM_OFF'', Undef ''CONFIG_RO_HDR_SIZE'', Undef ''CONFIG_WP_STORAGE_OFF'']"

definition config_h_1685 :: "directive list" where
  "config_h_1685 =
     [Undef ''CONFIG_WP_STORAGE_SIZE'', Undef ''CONFIG_ROLLBACK'', Undef ''CONFIG_ROLLBACK_OFF'',
      Undef ''CONFIG_ROLLBACK_SIZE'', Undef ''CONFIG_ROLLBACK_SECRET_SIZE'', Undef ''CONFIG_ROLLBACK_MPU_PROTECT'',
      Undef ''CONFIG_ROLLBACK_SECRET_LOCAL_ENTROPY_SIZE'', Define ''CONFIG_ROLLBACK_UPDATE'' Empty,
      Define ''CONFIG_ROLLBACK_VERSION'' (Value (Lit 0)), Define ''CONFIG_FW_INCLUDE_RO'' Empty,
      Undef ''CONFIG_FW_LIMITED_IMAGE'', Undef ''CONFIG_FW_RESET_VECTOR'', Undef ''CONFIG_GESTURE_DETECTION'',
      Undef ''CONFIG_GESTURE_DETECTION_MASK'', Undef ''CONFIG_GESTURE_SW_DETECTION'',
      Undef ''CONFIG_GESTURE_HOST_DETECTION'', Undef ''CONFIG_GESTURE_SAMPLING_INTERVAL_MS'',
      Undef ''CONFIG_GESTURE_SENSOR_DOUBLE_TAP'', Undef ''CONFIG_GESTURE_SENSOR_DOUBLE_TAP_FOR_HOST'',
      Undef ''CONFIG_GESTURE_TAP_OUTER_WINDOW_T'', Undef ''CONFIG_GESTURE_TAP_INNER_WINDOW_T'',
      Undef ''CONFIG_GESTURE_TAP_MIN_INTERSTICE_T'', Undef ''CONFIG_GESTURE_TAP_MAX_INTERSTICE_T'',
      Undef ''CONFIG_GESTURE_TAP_THRES_MG'', Undef ''CONFIG_GESTURE_SIGMO'', Undef ''CONFIG_GESTURE_SIGMO_PROOF_MS'',
      Undef ''CONFIG_GESTURE_SIGMO_SKIP_MS'', Undef ''CONFIG_GESTURE_SIGMO_THRES_MG'',
      Undef ''CONFIG_GPIO_INIT_POWER_ON_DELAY_MS'', Undef ''CONFIG_GPIO_GET_EXTENDED'',
      Undef ''CONFIG_GPIO_DISABLE_SLEEP'', Undef ''CONFIG_LID_ANGLE'', Undef ''CONFIG_LID_ANGLE_SENSOR_BASE'',
      Undef ''CONFIG_LID_ANGLE_SENSOR_LID'', Undef ''CONFIG_LID_ANGLE_UPDATE'']"

definition config_h_1830 :: "directive list" where
  "config_h_1830 =
     [Define ''CONFIG_MOTION_SENSE_SUSPEND_DELAY_US'' (Value (Lit 0)),
      Define ''CONFIG_MOTION_SENSE_RESUME_DELAY_US'' (Value (Lit 0)), Undef ''CONFIG_DYNAMIC_MOTION_SENSOR_COUNT'',
      Undef ''CONFIG_MOTION_FILL_LPC_SENSE_DATA'', Undef ''CONFIG_H2RAM_BASE'', Undef ''CONFIG_H2RAM_SIZE'',
      Undef ''CONFIG_H2RAM_HOST_LPC_IO_BASE'', Undef ''CONFIG_ISH_BOOT_START'',
      Define ''CONFIG_MOTION_MIN_SENSE_WAIT_TIME'' (Value (Lit 3)), Undef ''CONFIG_HOST_COMMAND_STATUS'',
      Define ''CONFIG_HOST_EVENT_REPORT_MASK'' (Value (Lit 0xffffffff)),
      Define ''CONFIG_HOST_EVENT64_REPORT_MASK'' (Value (Lit 0xffffffffffffffff)),
      Define ''CONFIG_HOST_EVENT64'' Empty, Undef ''CONFIG_HOSTCMD_SECTION_SORTED'',
      Undef ''CONFIG_HOSTCMD_ALIGNED'', Undef ''CONFIG_HOSTCMD_BATTERY_V2'',
      Define ''CONFIG_HOSTCMD_DEBUG_MODE'' (Value (Name ''HCDEBUG_NORMAL''))]"

definition config_h_1909 :: "directive list" where
  "config_h_1909 =
     [If (Defined ''HAS_TASK_HOSTCMD'') [Define ''CONFIG_HOSTCMD_EVENTS'' Empty] [Undef ''CONFIG_HOSTCMD_EVENTS'']]"

definition config_h_1916 :: "directive list" where
  "config_h_1916 =
     [Undef ''CONFIG_HOSTCMD_FLASH_SPI_INFO'',
      Define ''CONFIG_HOSTCMD_RATE_LIMITING_PERIOD'' (Value (Mul (Lit 500) (Name ''MSEC''))),
      Define ''CONFIG_HOSTCMD_RATE_LIMITING_MIN_REST'' (Value (Mul (Lit 3) (Name ''MSEC''))),
      Define ''CONFIG_HOSTCMD_RATE_LIMITING_RECESS'' (Value (Mul (Lit 20) (Name ''MSEC''))),
      Undef ''CONFIG_HOSTCMD_PD'', Define ''CONFIG_EC_CMD_PD_CHIP_INFO'' Empty, Undef ''CONFIG_HOSTCMD_PD_CHG_CTRL'',
      Undef ''CONFIG_HOSTCMD_PD_PANIC'', Undef ''CONFIG_HOSTCMD_RTC'', Undef ''CONFIG_HOSTCMD_AP_RESET'',
      Define ''CONFIG_HOSTCMD_FLASHPD'' Empty, Define ''CONFIG_HOSTCMD_RWHASHPD'' Empty,
      Undef ''CONFIG_SUPPRESSED_HOST_COMMANDS'', Undef ''CONFIG_HOOK_DEBUG'', Undef ''CONFIG_HW_CRC'',
      Undef ''CONFIG_SW_CRC'', Define ''CONFIG_HIBERNATE'' Empty,
      Define ''CONFIG_HIBERNATE_DELAY_SEC'' (Value (Lit 3600)), Undef ''CONFIG_HIBERNATE_BATT_PCT'',
      Undef ''CONFIG_HIBERNATE_BATT_SEC'', Undef ''CONFIG_HIBERNATE_WAKEUP_PINS'',
      Define ''CONFIG_SUPPORT_CHIP_HIBERNATION'' Empty, Undef ''CONFIG_HW_SPECIFIC_UDELAY'', Undef ''CONFIG_I2C'',
      Undef ''CONFIG_I2C_DEBUG'', Undef ''CONFIG_I2C_DEBUG_PASSTHRU'', Undef ''CONFIG_I2C_PASSTHROUGH'',
      Undef ''CONFIG_I2C_PASSTHRU_RESTRICTED'', Undef ''CONFIG_I2C_VIRTUAL_BATTERY'',
      Undef ''CONFIG_I2C_BUS_MAY_BE_UNPOWERED'', Define ''CONFIG_I2C_CHIP_MAX_READ_SIZE'' (Value (Lit 255)),
      Undef ''CONFIG_I2C_XFER_LARGE_READ'', Undef ''CONFIG_I2C_XFER_BOARD_CALLBACK'',
      Undef ''CONFIG_I2C_CONTROLLER'', Undef ''CONFIG_I2C_PERIPH'',
      Define ''CONFIG_I2C_NACK_RETRY_COUNT'' (Value (Lit 0))]"

definition config_h_2061 :: "directive list" where
  "config_h_2061 =
     [Undef ''CONFIG_I2C_SCL_GATE_PORT'', Undef ''CONFIG_I2C_SCL_GATE_ADDR_FLAGS'',
      Undef ''CONFIG_I2C_SCL_GATE_GPIO'', Define ''CONFIG_I2C_EXTRA_PACKET_SIZE'' (Value (Lit 0)),
      Undef ''CONFIG_I2C_MULTI_PORT_CONTROLLER'', Undef ''CONFIG_SMBUS_PEC'', Undef ''CONFIG_IPI'',
      Undef ''CONFIG_IPC_SHARED_OBJ_ADDR'', Undef ''CONFIG_IPC_SHARED_OBJ_BUF_SIZE'',
      Undef ''CONFIG_RPMSG_NAME_SERVICE'', Undef ''CONFIG_INA219'', Undef ''CONFIG_INA231'',
      Undef ''CONFIG_INA3221'', Undef ''CONFIG_INDUCTIVE_CHARGING'', Undef ''CONFIG_IO_EXPANDER_IT8801'',
      Undef ''CONFIG_IO_EXPANDER_NCT38XX'', Undef ''CONFIG_IO_EXPANDER_PCA9534'', Undef ''CONFIG_IRQ_COUNT'',
      Undef ''CONFIG_IT83XX_ENABLE_MOUSE_DEVICE'', Undef ''CONFIG_IT83XX_FLASH_CLOCK_48MHZ'',
      Undef ''CONFIG_IT83XX_SMCLK2_ON_GPC7'', Undef ''CONFIG_ENABLE_JTAG_SELECTION'',
      Undef ''CONFIG_KEYBOARD_COL2_INVERTED'', Undef ''CONFIG_KEYBOARD_REFRESH_ROW3'',
      Define ''CONFIG_KEYBOARD_KSO_BASE'' (Value (Lit 0)), Undef ''CONFIG_KEYBOARD_PWRBTN_ASSERTS_KSI2'',
      Undef ''CONFIG_KEYBOARD_PWRBTN_ASSERTS_KSI3'']"

definition config_h_2210 :: "directive list" where
  "config_h_2210 =
     [Undef ''CONFIG_KEYBOARD_DEBUG'', Undef ''CONFIG_KEYBOARD_NOT_RAW'', Undef ''CONFIG_KEYBOARD_IRQ_GPIO'',
      Undef ''CONFIG_KEYBOARD_PROTOCOL_8042'', Undef ''CONFIG_KEYBOARD_PROTOCOL_MKBP'',
      Undef ''CONFIG_KEYBOARD_FACTORY_TEST'', Undef ''CONFIG_KEYBOARD_BOARD_CONFIG'',
      Define ''CONFIG_KEYBOARD_BOOT_KEYS'' Empty, Undef ''CONFIG_KEYBOARD_ASSISTANT_KEY'',
      Undef ''CONFIG_KEYBOARD_TABLET_MODE_SWITCH'', Undef ''CONFIG_KEYBOARD_POST_SCAN_CLOCKS'',
      Undef ''CONFIG_KEYBOARD_PRINT_SCAN_TIMES'', Define ''CONFIG_KEYBOARD_RUNTIME_KEYS'' Empty,
      Undef ''CONFIG_KEYBOARD_SCANCODE_MUTABLE'', Undef ''CONFIG_KEYBOARD_SCANCODE_CALLBACK'',
      Undef ''CONFIG_KEYBOARD_SUPPRESS_NOISE'', Undef ''CONFIG_KEYBOARD_TEST'',
      Undef ''CONFIG_KEYBOARD_KSO_HIGH_DRIVE'', Undef ''CONFIG_KEYBOARD_LANGUAGE_ID'',
      Undef ''CONFIG_KEYBOARD_KEYPAD'', Undef ''CONFIG_LED_COMMON'', Undef ''CONFIG_LED_POLICY_STD'',
      Undef ''CONFIG_LED_PWM'', Define ''CONFIG_LED_PWM_CHARGE_COLOR'' (Value (Name ''EC_LED_COLOR_AMBER'')),
      Define ''CONFIG_LED_PWM_NEAR_FULL_COLOR'' (Value (Name ''EC_LED_COLOR_GREEN'')),
      Define ''CONFIG_LED_PWM_CHARGE_ERROR_COLOR'' (Value (Name ''EC_LED_COLOR_RED'')),
      Define ''CONFIG_LED_PWM_SOC_ON_COLOR'' (Value (Name ''EC_LED_COLOR_GREEN'')),
      Define ''CONFIG_LED_PWM_SOC_SUSPEND_COLOR'' (Value (Name ''EC_LED_COLOR_GREEN'')),
      Define ''CONFIG_LED_PWM_LOW_BATT_COLOR'' (Value (Name ''EC_LED_COLOR_AMBER'')),
      Undef ''CONFIG_LED_PWM_CHARGE_STATE_ONLY'', Undef ''CONFIG_LED_PWM_ACTIVE_CHARGE_PORT_ONLY'']"

definition config_h_2356 :: "directive list" where
  "config_h_2356 =
     [Undef ''CONFIG_LED_PWM_COUNT'', Undef ''CONFIG_LED_ONOFF_STATES'', Undef ''CONFIG_LED_ONOFF_STATES_BAT_LOW'',
      Undef ''CONFIG_LED_POWER_LED'', Undef ''CONFIG_LED_BAT_ACTIVE_LOW'', Undef ''CONFIG_LED_POWER_ACTIVE_LOW'',
      Undef ''CONFIG_LED_DRIVER_DS2413'', Undef ''CONFIG_LED_DRIVER_LM3509'', Undef ''CONFIG_LED_DRIVER_LM3630A'',
      Undef ''CONFIG_LED_DRIVER_LP5562'', Undef ''CONFIG_LED_DRIVER_OZ554'', Undef ''CONFIG_LFW_OFFSET'',
      Define ''CONFIG_LID_SWITCH'' Empty, Undef ''CONFIG_LID_SWITCH_GPIO_LIST'',
      Undef ''CONFIG_LIGHTBAR_POWER_RAILS'', Undef ''CONFIG_LIGHTBAR_TAP_DIM_LAST_SEGMENT'',
      Undef ''CONFIG_LLSR_TEST'', Undef ''CONFIG_LOADER_MEM_OFF'', Undef ''CONFIG_LOADER_SIZE'',
      Undef ''CONFIG_LOADER_STORAGE_OFF'', Undef ''CONFIG_LOW_POWER_IDLE'', Undef ''CONFIG_LOW_POWER_USE_LFIOSC'',
      Undef ''CONFIG_LOW_POWER_S0'', Undef ''CONFIG_DMA_PAGING'', Undef ''CONFIG_HID_HECI'',
      Undef ''CONFIG_HOSTCMD_HECI'', Undef ''CONFIG_HOSTCMD_X86'', Undef ''CONFIG_HOSTCMD_LPC'',
      Undef ''CONFIG_HOSTCMD_ESPI'', Undef ''CONFIG_HOSTCMD_ESPI_VW_SLP_S3'',
      Undef ''CONFIG_HOSTCMD_ESPI_VW_SLP_S4'', Undef ''CONFIG_HOSTCMD_ESPI_EC_MAX_FREQ'',
      Undef ''CONFIG_HOSTCMD_ESPI_EC_MODE'']"

definition config_h_2505 :: "directive list" where
  "config_h_2505 =
     [Undef ''CONFIG_HOSTCMD_ESPI_EC_CHAN_BITMAP'', Undef ''CONFIG_LPRAM_BASE'', Undef ''CONFIG_LPRAM_SIZE'',
      Undef ''CONFIG_LTO'', Undef ''CONFIG_MALLOC'', Undef ''CONFIG_MATH_UTIL'', Undef ''CONFIG_MAG_CALIBRATE'',
      Undef ''CONFIG_MEC_SRAM_BASE_START'', Undef ''CONFIG_MEC_SRAM_BASE_END'', Undef ''CONFIG_MEC_SRAM_SIZE'',
      Undef ''CONFIG_MCDP28X0'', Undef ''CONFIG_MFT_INPUT_LFCLK'', Define ''CONFIG_MIA_WDT_VEC'' (Value (Lit 0xff)),
      Undef ''CONFIG_MKBP_EVENT'', Undef ''CONFIG_MKBP_USE_HOST_EVENT'', Undef ''CONFIG_MKBP_USE_GPIO'',
      Undef ''CONFIG_MKBP_USE_GPIO_AND_HOST_EVENT'', Undef ''CONFIG_MKBP_USE_HECI'',
      Undef ''CONFIG_MKBP_USE_CUSTOM'', Undef ''CONFIG_MKBP_HOST_EVENT_WAKEUP_MASK'',
      Undef ''CONFIG_MKBP_EVENT_WAKEUP_MASK'', Undef ''CONFIG_MPU'', Undef ''CONFIG_NO_PINHOLD'',
      Undef ''CONFIG_ONEWIRE'', Undef ''CONFIG_PECI'', Undef ''CONFIG_PECI_COMMON'', Undef ''CONFIG_PECI_TJMAX'',
      Undef ''CONFIG_PHYSICAL_PRESENCE'', Undef ''CONFIG_PHYSICAL_PRESENCE_DEBUG_UNSAFE'',
      Undef ''CONFIG_PINWEAVER'', Undef ''CONFIG_PLATFORM_PINWEAVER'', Undef ''CONFIG_PLATFORM_BOOT_PARAM'']"

definition config_h_2651 :: "directive list" where
  "config_h_2651 =
     [Undef ''CONFIG_PMU_HARD_RESET'', Undef ''CONFIG_POLLING_UART'',
      Define ''CONFIG_PORT80_HISTORY_LEN'' (Value (Lit 128)), Define ''CONFIG_PORT80_PRINT_IN_INT'' (Value (Lit 0)),
      Undef ''CONFIG_MAX695X_SEVEN_SEGMENT_DISPLAY'', Undef ''CONFIG_SEVEN_SEG_DISPLAY'',
      Undef ''CONFIG_POWER_BUTTON'', Undef ''CONFIG_POWER_BUTTON_ACTIVE_STATE'',
      Undef ''CONFIG_POWER_BUTTON_IGNORE_LID'', Undef ''CONFIG_POWER_BUTTON_X86'',
      Undef ''CONFIG_POWER_BUTTON_INIT_IDLE'', Define ''CONFIG_POWER_BUTTON_INIT_TIMEOUT'' (Value (Lit 1)),
      Undef ''CONFIG_POWER_COMMON'', Undef ''CONFIG_POWER_PP5000_CONTROL'',
      Undef ''CONFIG_POWER_SHUTDOWN_PAUSE_IN_S5'', Undef ''CONFIG_POWER_SIGNAL_INTERRUPT_STORM_DETECT_THRESHOLD'',
      Undef ''CONFIG_PSTORE'', Undef ''CONFIG_POWER_S0IX'', Undef ''CONFIG_POWER_S0IX_FAILURE_DETECTION'',
      Undef ''CONFIG_POWER_TRACK_HOST_SLEEP_STATE'', Undef ''CONFIG_PRINTF_LEGACY_LI_FORMAT'',
      Undef ''CONFIG_CPU_PROCHOT_ACTIVE_LOW'', Undef ''CONFIG_PWM'', Undef ''CONFIG_PWM_INPUT_LFCLK'',
      Undef ''CONFIG_PWM_DISPLIGHT'', Undef ''CONFIG_KEYBOARD_BACKLIGHT'', Undef ''CONFIG_PWM_KBLIGHT'',
      Undef ''CONFIG_RAM_BANK_SIZE'', Undef ''CONFIG_RAM_BANKS'', Undef ''CONFIG_RAM_BASE'',
      Undef ''CONFIG_DATA_RAM_SIZE'', Undef ''CONFIG_RAM_SIZE'', Undef ''CONFIG_RBOX'']"

definition config_h_2799 :: "directive list" where
  "config_h_2799 =
     [Undef ''CONFIG_RBOX_WAKEUP'', Undef ''CONFIG_RDD'', Undef ''CONFIG_REGULATOR_IR357X'',
      Undef ''CONFIG_RMA_AUTH'', Undef ''CONFIG_RMA_AUTH_USE_P256'', Undef ''CONFIG_RSA'',
      Undef ''CONFIG_RSA_KEY_SIZE'', Undef ''CONFIG_RSA_EXPONENT_3'', Undef ''CONFIG_RSA_OPTIMIZED'',
      Undef ''CONFIG_RWSIG'', Define ''CONFIG_RWSIG_JUMP_TIMEOUT'' (Value (Mul (Lit 1000) (Name ''MSEC''))),
      Undef ''CONFIG_RWSIG_TYPE_RWSIG'', Undef ''CONFIG_RWSIG_TYPE_USBPD1'', Undef ''CONFIG_RO_PUBKEY_ADDR'',
      Undef ''CONFIG_RO_PUBKEY_SIZE'', Undef ''CONFIG_RW_SIG_ADDR'', Undef ''CONFIG_RW_SIG_SIZE'',
      Undef ''CONFIG_SHAREDLIB'', Undef ''CONFIG_SHAREDLIB_SIZE'', Undef ''CONFIG_SHAREDLIB_MEM_OFF'',
      Undef ''CONFIG_SHAREDLIB_STORAGE_OFF'', Undef ''CONFIG_SAVE_VBOOT_HASH'', Undef ''CONFIG_SCI_GPIO'',
      Undef ''CONFIG_SHA1'', Undef ''CONFIG_SHA256'', Undef ''CONFIG_SHA256_UNROLLED'',
      Undef ''CONFIG_SOFTWARE_CLZ'', Undef ''CONFIG_SOFTWARE_CTZ'', Undef ''CONFIG_SPI'', Undef ''CONFIG_SPP'',
      Undef ''CONFIG_SPI_ACCEL_PORT'', Undef ''CONFIG_SPI_FLASH'', Undef ''CONFIG_SPI_FLASH_REGS'',
      Undef ''CONFIG_SPI_FLASH_PORT'', Undef ''CONFIG_SPI_FLASH_GD25LQ40'', Undef ''CONFIG_SPI_FLASH_GD25Q41B'',
      Undef ''CONFIG_SPI_FLASH_W25Q128'', Undef ''CONFIG_SPI_FLASH_W25Q40'']"

definition config_h_2949 :: "directive list" where
  "config_h_2949 =
     [Undef ''CONFIG_SPI_FLASH_W25Q64'', Undef ''CONFIG_SPI_FLASH_W25Q80'', Undef ''CONFIG_SPI_FLASH_W25X40'',
      Undef ''CONFIG_SPI_FLASH_HAS_SR2'', Undef ''CONFIG_SPI_FP_PORT'', Undef ''CONFIG_SPI_NOR'',
      Undef ''CONFIG_SPI_NOR_DEBUG'', Undef ''CONFIG_SPI_NOR_MAX_MESSAGE_SIZE'',
      Undef ''CONFIG_SPI_NOR_MAX_READ_SIZE'', Undef ''CONFIG_SPI_NOR_MAX_WRITE_SIZE'',
      Undef ''CONFIG_SPI_NOR_BLOCK_ERASE'', Undef ''CONFIG_SPI_NOR_SMART_ERASE'', Undef ''CONFIG_SPI_CONTROLLER'',
      Undef ''CONFIG_SPI_HALFDUPLEX'', Undef ''CONFIG_SPI_CONTROLLER_CONFIGURE_GPIOS'',
      Undef ''CONFIG_SPI_CONTROLLER_NO_CS_GPIOS'', Undef ''CONFIG_SPI_HASH'', Undef ''CONFIG_SPP_TEST'',
      Undef ''CONFIG_STACK_SIZE'', Undef ''CONFIG_STM_HWTIMER32'', Undef ''CONFIG_STM32_CHARGER_DETECT'',
      Undef ''CONFIG_STM32L_FAKE_HIBERNATE'', Undef ''CONFIG_SWITCH'', Undef ''CONFIG_SWITCH_DEDICATED_RECOVERY'',
      Undef ''CONFIG_SYSTEM_UNLOCKED'', Undef ''CONFIG_TABLET_MODE'', Undef ''CONFIG_TABLET_MODE_SWITCH'',
      Undef ''CONFIG_GMR_TABLET_MODE'', Undef ''CONFIG_GMR_TABLET_MODE_CUSTOM'',
      Undef ''CONFIG_BASE_ATTACHED_SWITCH'', Undef ''CONFIG_TASK_LIST'']"

definition config_h_3093 :: "directive list" where
  "config_h_3093 =
     [Undef ''CONFIG_TEST_TASK_LIST'', Undef ''CONFIG_CTS_TASK_LIST'', Define ''CONFIG_TASK_PROFILING'' Empty,
      Undef ''CONFIG_TEST_MOCK_LIST'', Undef ''CONFIG_TEMP_SENSOR'', Undef ''CONFIG_TEMP_SENSOR_ADT7481'',
      Undef ''CONFIG_TEMP_SENSOR_BD99992GW'', Undef ''CONFIG_TEMP_SENSOR_EC_ADC'', Undef ''CONFIG_TEMP_SENSOR_G753'',
      Undef ''CONFIG_TEMP_SENSOR_G781'', Undef ''CONFIG_TEMP_SENSOR_G782'', Undef ''CONFIG_TEMP_SENSOR_SB_TSI'',
      Undef ''CONFIG_TEMP_SENSOR_TMP006'', Undef ''CONFIG_TEMP_SENSOR_TMP411'', Undef ''CONFIG_TEMP_SENSOR_TMP432'',
      Undef ''CONFIG_TEMP_SENSOR_TMP468'', Undef ''CONFIG_TEMP_SENSOR_F75303'', Undef ''CONFIG_THERMISTOR'',
      Undef ''CONFIG_THERMISTOR_NCP15WB'', Undef ''CONFIG_STEINHART_HART_3V0_22K6_47K_4050B'',
      Undef ''CONFIG_STEINHART_HART_3V3_13K7_47K_4050B'', Undef ''CONFIG_STEINHART_HART_3V3_51K1_47K_4050B'',
      Undef ''CONFIG_STEINHART_HART_6V0_51K1_47K_4050B'', Undef ''CONFIG_STEINHART_HART_3V3_30K9_47K_4050B'',
      Undef ''CONFIG_TEMP_SENSOR_POWER_GPIO'', Undef ''CONFIG_THROTTLE_AP'',
      Undef ''CONFIG_THROTTLE_AP_ON_BAT_DISCHG_CURRENT'', Undef ''CONFIG_THROTTLE_AP_ON_BAT_VOLTAGE'',
      Undef ''CONFIG_DPTF'', Undef ''CONFIG_DPTF_MOTION_LID_NO_GMR_SENSOR'', Undef ''CONFIG_DPTF_MULTI_PROFILE'',
      Undef ''CONFIG_TOUCHPAD'', Undef ''CONFIG_TOUCHPAD_ELAN'', Undef ''CONFIG_TOUCHPAD_GT7288'',
      Undef ''CONFIG_TOUCHPAD_ST'', Undef ''CONFIG_TOUCHPAD_I2C_PORT'', Undef ''CONFIG_TOUCHPAD_I2C_ADDR_FLAGS'']"

definition config_h_3238 :: "directive list" where
  "config_h_3238 =
     [Undef ''CONFIG_TOUCHPAD_VIRTUAL_SIZE'', Undef ''CONFIG_TOUCHPAD_HASH_FW'', Undef ''CONFIG_TPM_SPP'',
      Undef ''CONFIG_TPM_I2CP'', Undef ''CONFIG_STREAM_USART'', Undef ''CONFIG_STREAM_USART1'',
      Undef ''CONFIG_STREAM_USART2'', Undef ''CONFIG_STREAM_USART3'', Undef ''CONFIG_STREAM_USART4'',
      Undef ''CONFIG_U2F'', Undef ''CONFIG_STREAM_USB'', Define ''CONFIG_UART_BAUD_RATE'' (Value (Lit 115200)),
      Undef ''CONFIG_UART_BITBANG'', Undef ''CONFIG_UART_CONSOLE'', Undef ''CONFIG_UART_HOST'',
      Undef ''CONFIG_UART_INPUT_FILTER'', Define ''CONFIG_UART_RX_BUF_SIZE'' (Value (Lit 128)),
      Undef ''CONFIG_UART_RX_DMA'', Define ''CONFIG_UART_RX_DMA_RECHECKS'' (Value (Lit 5)),
      Define ''CONFIG_UART_TX_BUF_SIZE'' (Value (Lit 512)), Undef ''CONFIG_UART_TX_DMA'',
      Undef ''CONFIG_UART_TX_DMA_CH'', Undef ''CONFIG_UART_RX_DMA_CH'', Undef ''CONFIG_UART_TX_DMA_PH'',
      Undef ''CONFIG_UART_TX_REQ_CH'', Undef ''CONFIG_UART_RX_REQ_CH'', Undef ''CONFIG_USB_POWER_DELIVERY'',
      Undef ''CONFIG_USB_PD_ALT_MODE'', Undef ''CONFIG_USB_PD_ALT_MODE_DFP'',
      Undef ''CONFIG_USB_PD_CHECK_MAX_REQUEST_ALLOWED'', Undef ''CONFIG_USB_PD_COMM_DISABLED'',
      Undef ''CONFIG_USB_PD_COMM_LOCKED'', Define ''CONFIG_USB_PD_DEBUG_DR'' (Value (Name ''PD_ROLE_DFP'')),
      Undef ''CONFIG_USB_PD_DEBUG_LEVEL'', Undef ''CONFIG_USB_PD_DISCHARGE'', Undef ''CONFIG_USB_PD_DISCHARGE_GPIO'',
      Undef ''CONFIG_USB_PD_DISCHARGE_TCPC'', Undef ''CONFIG_USB_PD_DISCHARGE_PPC'']"

definition config_h_3388 :: "directive list" where
  "config_h_3388 =
     [Undef ''CONFIG_USB_PD_DUAL_ROLE'', Undef ''CONFIG_USB_PD_DUAL_ROLE_AUTO_TOGGLE'',
      Undef ''CONFIG_BD9995X_DELAY_INPUT_PORT_SELECT'',
      Define ''CONFIG_USB_PD_INITIAL_DRP_STATE'' (Value (Name ''PD_DRP_TOGGLE_OFF'')),
      Undef ''CONFIG_USB_PD_5V_EN_ACTIVE_LOW'', Undef ''CONFIG_USB_PD_5V_CHARGER_CTRL'',
      Undef ''CONFIG_USB_PD_5V_EN_CUSTOM'', Undef ''CONFIG_USB_PD_DYNAMIC_SRC_CAP'', Undef ''CONFIG_USB_PD_FLASH'',
      Undef ''CONFIG_USB_PD_FLASH_ERASE_CHECK'', Undef ''CONFIG_USB_PD_GIVE_BACK'', Undef ''CONFIG_USB_PD_REV30'',
      Undef ''CONFIG_USB_PD_HW_DEV_ID_BOARD_MAJOR'', Undef ''CONFIG_USB_PD_HW_DEV_ID_BOARD_MINOR'',
      Undef ''CONFIG_USB_PD_IDENTITY_HW_VERS'', Undef ''CONFIG_USB_PD_IDENTITY_SW_VERS'',
      Undef ''CONFIG_USB_PD_INTERNAL_COMP'', Undef ''CONFIG_USB_PD_LOGGING'',
      Define ''CONFIG_EVENT_LOG_SIZE'' (Value (Lit 512)), Define ''CONFIG_USB_PD_LOW_POWER'' Empty,
      Undef ''CONFIG_USB_PD_LOW_POWER_IDLE_WHEN_CONNECTED'', Undef ''CONFIG_USB_PD_PORT_COUNT'',
      Undef ''CONFIG_USB_PD_SIMPLE_DFP'', Define ''CONFIG_USB_PD_RX_COMP_IRQ'' Empty, Undef ''CONFIG_USB_PD_TCPC'',
      Undef ''CONFIG_USB_PD_TCPC_LOW_POWER'', Undef ''CONFIG_USB_PD_DECODE_SOP'',
      Undef ''CONFIG_USB_PD_TCPC_TRACK_VBUS'', Undef ''CONFIG_USB_PD_TCPC_RUNTIME_CONFIG'',
      Undef ''CONFIG_USB_PD_TCPM_STUB'', Undef ''CONFIG_USB_PD_TCPM_TCPCI'', Undef ''CONFIG_USB_PD_TCPM_FUSB302'',
      Undef ''CONFIG_USB_PD_TCPM_ITE83XX'', Undef ''CONFIG_USB_PD_TCPM_ANX3429'',
      Undef ''CONFIG_USB_PD_TCPM_ANX740X'', Undef ''CONFIG_USB_PD_TCPM_ANX741X'',
      Undef ''CONFIG_USB_PD_TCPM_ANX7447'', Undef ''CONFIG_USB_PD_TCPM_ANX7688'',
      Undef ''CONFIG_USB_PD_TCPM_NCT38XX'', Undef ''CONFIG_USB_PD_TCPM_PS8751'', Undef ''CONFIG_USB_PD_TCPM_PS8805'',
      Undef ''CONFIG_USB_PD_TCPM_MT6370'', Undef ''CONFIG_USB_PD_TCPM_TUSB422'', Undef ''CONFIG_USBC_MUX_RETIMER'',
      Undef ''CONFIG_USBC_RETIMER_INTEL_BB'', Undef ''CONFIG_USBC_RETIMER_PI3DPX1207'',
      Undef ''CONFIG_USB_PD_TCPM_ANX7447_OCM_ERASE_COMMAND'', Undef ''CONFIG_USB_PD_TCPM_ANX7447_AUX_PU_PD'',
      Undef ''CONFIG_USB_PD_TCPM_MUX'']"

definition config_h_3537 :: "directive list" where
  "config_h_3537 =
     [Undef ''CONFIG_USB_PD_VBUS_DETECT_TCPC'', Undef ''CONFIG_USB_PD_VBUS_DETECT_CHARGER'',
      Undef ''CONFIG_USB_PD_VBUS_DETECT_GPIO'', Undef ''CONFIG_USB_PD_VBUS_DETECT_PPC'',
      Undef ''CONFIG_USB_PD_VBUS_DETECT_NONE'', Undef ''CONFIG_USB_PD_VBUS_MEASURE_ADC_EACH_PORT'',
      Undef ''CONFIG_USB_PD_VBUS_MEASURE_NOT_PRESENT'',
      Define ''CONFIG_TCPC_I2C_BASE_ADDR_FLAGS'' (Value (Lit 0x4e)), Undef ''CONFIG_USB_PD_TRY_SRC'',
      Define ''CONFIG_USB_PD_TRY_SRC_MIN_BATT_SOC'' (Value (Lit 1)), Undef ''CONFIG_USB_PD_RESET_MIN_BATT_SOC'',
      Undef ''CONFIG_USB_PD_TX_PHY_ONLY'', Undef ''CONFIG_PD_USE_DAC_AS_REF'', Undef ''CONFIG_USB_TYPEC_VPD'',
      Undef ''CONFIG_USB_TYPEC_CTVPD'', Undef ''CONFIG_USB_TYPEC_DRP_ACC_TRYSRC'',
      Undef ''CONFIG_USB_TYPEC_PD_FAST_ROLE_SWAP'', Undef ''CONFIG_USB_PID'', Undef ''CONFIG_USBC_PPC_POLARITY'',
      Undef ''CONFIG_USBC_DISABLE_CHARGE_FROM_RP_DEF'', Undef ''CONFIG_USBC_PPC_AOZ1380'',
      Undef ''CONFIG_USBC_PPC_NX20P3481'', Undef ''CONFIG_USBC_PPC_NX20P3483'', Undef ''CONFIG_USBC_PPC_SN5S330'',
      Undef ''CONFIG_USBC_PPC_SYV682X'', Undef ''CONFIG_USBC_PPC_SBU'', Undef ''CONFIG_USBC_PPC_VCONN'',
      Undef ''CONFIG_USBC_PPC_DEDICATED_INT'', Undef ''CONFIG_USBC_SS_MUX'', Undef ''CONFIG_USBC_SS_MUX_DFP_ONLY'',
      Undef ''CONFIG_USBC_BACKWARDS_COMPATIBLE_DFP'', Undef ''CONFIG_USBC_VCONN'', Undef ''CONFIG_USBC_VCONN_SWAP'',
      Undef ''CONFIG_USB_BOS'', Undef ''CONFIG_USB_BCD_DEV'', Undef ''CONFIG_VIF_TYPE_C_CAN_ACT_AS_HOST'',
      Undef ''CONFIG_VIF_CAPTIVE_CABLE'', Undef ''CONFIG_USB'', Undef ''CONFIG_USB_ISOCHRONOUS'',
      Undef ''CONFIG_USB_BLOB'', Undef ''CONFIG_USB_CHARGER'']"

definition config_h_3684 :: "directive list" where
  "config_h_3684 =
     [Undef ''CONFIG_BC12_DETECT_DATA_ROLE_TRIGGER'', Undef ''CONFIG_BC12_DETECT_MAX14637'',
      Undef ''CONFIG_BC12_DETECT_PI3USB9201'', Undef ''CONFIG_BC12_DETECT_PI3USB9281'',
      Undef ''CONFIG_BC12_DETECT_PI3USB9281_CHIP_COUNT'', Undef ''CONFIG_USB_CONSOLE'',
      Undef ''CONFIG_USB_CONSOLE_DEFAULT_DISABLED'', Undef ''CONFIG_USB_CONSOLE_STREAM'',
      Define ''CONFIG_USB_CONSOLE_TX_BUF_SIZE'' (Value (Lit 2048)), Undef ''CONFIG_USB_CONSOLE_CRC'',
      Undef ''CONFIG_USB_HID'', Undef ''CONFIG_USB_HID_TOUCHPAD'', Undef ''CONFIG_USB_HID_TOUCHPAD_LOGICAL_MAX_X'',
      Undef ''CONFIG_USB_HID_TOUCHPAD_LOGICAL_MAX_Y'', Undef ''CONFIG_USB_HID_TOUCHPAD_LOGICAL_MAX_PRESSURE'',
      Undef ''CONFIG_USB_HID_TOUCHPAD_PHYSICAL_MAX_X'', Undef ''CONFIG_USB_HID_TOUCHPAD_PHYSICAL_MAX_Y'',
      Undef ''CONFIG_USB_RAM_ACCESS_SIZE'', Undef ''CONFIG_USB_RAM_ACCESS_TYPE'', Undef ''CONFIG_USB_RAM_BASE'',
      Undef ''CONFIG_USB_RAM_SIZE'', Undef ''CONFIG_USB_INHIBIT_CONNECT'', Undef ''CONFIG_USB_INHIBIT_INIT'',
      Undef ''CONFIG_USB_SELECT_PHY'', Undef ''CONFIG_USB_SELECT_PHY_DEFAULT'', Undef ''CONFIG_USB_PORT_POWER_DUMB'',
      Undef ''CONFIG_USB_PORT_POWER_SMART'', Undef ''CONFIG_USB_PORT_POWER_SMART_CDP_SDP_ONLY'',
      Undef ''CONFIG_USB_PORT_POWER_SMART_DEFAULT_MODE'', Undef ''CONFIG_USB_PORT_POWER_SMART_SIMPLE'',
      Define ''CONFIG_USB_PORT_POWER_SMART_PORT_COUNT'' (Value (Lit 2)),
      Undef ''CONFIG_USB_PORT_POWER_SMART_INVERTED'', Undef ''CONFIG_USB_REMOTE_WAKEUP'',
      Undef ''CONFIG_USB_SERIALNO'', Define ''CONFIG_USB_MAXPOWER_MA'' (Value (Lit 500)),
      Undef ''CONFIG_USB_SELF_POWERED'', Undef ''CONFIG_USB_SUSPEND'',
      Define ''CONFIG_USB_PD_PULLUP'' (Value (Name ''TYPEC_RP_1A5'')),
      Undef ''CONFIG_USB_PD_MAX_SINGLE_SOURCE_CURRENT'', Undef ''CONFIG_USB_PD_MAX_TOTAL_SOURCE_CURRENT'',
      Undef ''CONFIG_USB_DWC_FS'']"

definition config_h_3833 :: "directive list" where
  "config_h_3833 =
     [Undef ''CONFIG_USB_MUX_AMD_FP5'', Undef ''CONFIG_USB_MUX_IT5205'', Undef ''CONFIG_USB_MUX_PI3USB30532'',
      Undef ''CONFIG_USB_MUX_PS8740'', Undef ''CONFIG_USB_MUX_PS8743'', Undef ''CONFIG_USB_MUX_VIRTUAL'',
      Undef ''CONFIG_USB_GPIO'', Undef ''CONFIG_USB_SPI'', Undef ''CONFIG_USB_SPI_V2'', Undef ''CONFIG_USB_I2C'',
      Define ''CONFIG_USB_I2C_MAX_WRITE_COUNT'' (Value (Lit 60)),
      Define ''CONFIG_USB_I2C_MAX_READ_COUNT'' (Value (Lit 60)), Undef ''CONFIG_USB_POWER'',
      Undef ''CONFIG_STREAM_SIGNATURE'', Undef ''CONFIG_VBOOT_HASH'', Undef ''CONFIG_VSTORE'',
      Undef ''CONFIG_VSTORE_SLOT_COUNT'', Define ''CONFIG_WATCHDOG'' Empty, Undef ''CONFIG_WATCHDOG_HELP'',
      Define ''CONFIG_WATCHDOG_MAX_RETRIES'' (Value (Lit 4)),
      Define ''CONFIG_WATCHDOG_PERIOD_MS'' (Value (Lit 1600)),
      Define ''CONFIG_AUX_TIMER_PERIOD_MS'' (Value (Sub (Name ''CONFIG_WATCHDOG_PERIOD_MS'') (Lit 500))),
      Undef ''CONFIG_WEBUSB_URL'', Undef ''CONFIG_WIRELESS'', Undef ''CONFIG_WIRELESS_SUSPEND'',
      Undef ''CONFIG_WLAN_POWER_ACTIVE_LOW'', Undef ''CONFIG_WAKE_ON_VOICE'', Undef ''CONFIG_WP_ACTIVE_HIGH'',
      Undef ''CONFIG_WP_ALWAYS'', Undef ''CONFIG_RO_HEAD_ROOM'', Undef ''CONFIG_RW_HEAD_ROOM'']"

definition config_h_3980 :: "directive list" where
  "config_h_3980 =
     [Undef ''CONFIG_NON_HC_FW_UPDATE'', Undef ''CONFIG_USB_FW_UPDATE'',
      Define ''CONFIG_UPDATE_PDU_SIZE'' (Value (Lit 1024)), Undef ''CONFIG_PWR_STATE_DISCHARGE_FULL'',
      Undef ''CONFIG_EXTENDED_VERSION_INFO'', Undef ''CONFIG_BOARD_ID_SUPPORT'', Undef ''CONFIG_SN_BITS_SUPPORT'',
      Undef ''CONFIG_CROS_BOARD_INFO'', Undef ''CONFIG_ISH_PM_AONTASK'', Undef ''CONFIG_ISH_PM_D0I1'',
      Undef ''CONFIG_ISH_PM_D0I2'', Undef ''CONFIG_ISH_PM_D0I3'', Undef ''CONFIG_ISH_PM_D3'',
      Undef ''CONFIG_ISH_D0I2_MIN_USEC'', Undef ''CONFIG_ISH_D0I3_MIN_USEC'', Undef ''CONFIG_ISH_PM_RESET_PREP'',
      Undef ''CONFIG_ISH_HOST2ISH_COMBINED_ISR'', Undef ''CONFIG_ISH_CLEAR_FABRIC_ERRORS'',
      Undef ''CONFIG_ISH_DW_UART'', Undef ''CONFIG_INTEL_VIRTUAL_MUX'', Undef ''CONFIG_NVMEM_DEBUG_EPS'']"

definition config_defaults :: "directive list" where
  "config_defaults =
     config_h_21 @ config_h_28 @ config_h_175 @ config_h_208 @ config_h_218 @ config_h_366 @ config_h_513
     @ config_h_663 @ config_h_813 @ config_h_961 @ config_h_1111 @ config_h_1256 @ config_h_1390 @
     config_h_1535 @ config_h_1685 @ config_h_1830 @ config_h_1909 @ config_h_1916 @ config_h_2061 @
     config_h_2210 @ config_h_2356 @ config_h_2505 @ config_h_2651 @ config_h_2799 @ config_h_2949 @
     config_h_3093 @ config_h_3238 @ config_h_3388 @ config_h_3537 @ config_h_3684 @ config_h_3833 @
     config_h_3980"

text \<open>
  Three of the parts are conditional; the other ones are plain lists of \<open>#define\<close> and
  \<open>#undef\<close>.
\<close>

lemmas config_h_defs =
  config_h_21_def config_h_28_def config_h_175_def config_h_208_def config_h_218_def config_h_366_def
  config_h_513_def config_h_663_def config_h_813_def config_h_961_def config_h_1111_def
  config_h_1256_def config_h_1390_def config_h_1535_def config_h_1685_def config_h_1830_def
  config_h_1909_def config_h_1916_def config_h_2061_def config_h_2210_def config_h_2356_def
  config_h_2505_def config_h_2651_def config_h_2799_def config_h_2949_def config_h_3093_def
  config_h_3238_def config_h_3388_def config_h_3537_def config_h_3684_def config_h_3833_def
  config_h_3980_def

end
