(* ===== verification/ConfigHeaders.thy ===== *)
theory ConfigHeaders
  imports ConfigDefaults
begin

text \<open>
  The headers that config.h includes: the chip's configuration (config_chip.h, at its comments cut
  into parts), the board's (board.h), and the overrides of fuzzers and tests (fuzz_config.h,
  test_config.h). Declarations inside them are lines of output.
\<close>

definition config_chip_h_7 :: "directive list" where
  "config_chip_h_7 =
     [Define ''BFD_ARCH'' (Value (Name ''arm'')),
      Define ''BFD_FORMAT'' (Tokens ([CHR 0x22] @ ''elf32-littlearm'' @ [CHR 0x22])),
      Define ''CONFIG_SOFTWARE_PANIC'' Empty, Include ''hw_b1_regdefs.h'',
      Define ''CONFIG_ROM_BASE'' (Value (Lit 0x0)), Define ''CONFIG_ROM_SIZE'' (Value (Lit 0x2000)),
      Define ''CONFIG_RAM_BASE'' (Value (Lit 0x10000)), Define ''CONFIG_RAM_SIZE'' (Value (Lit 0x10000)),
      Define ''CONFIG_FLASH_BANK_SIZE'' (Value (Lit 0x800)), Define ''CONFIG_FLASH_ERASE_SIZE'' (Value (Lit 0x800)),
      Define ''CONFIG_FLASH_WRITE_SIZE'' (Value (Lit 4)), Define ''CONFIG_FLASH_WRITE_IDEAL_SIZE'' (Value (Lit 128)),
      Define ''CONFIG_FLASH_ROW_SIZE'' (Value (Lit 256))]"

definition config_chip_h_40 :: "directive list" where
  "config_chip_h_40 =
     [Define ''CONFIG_PROGRAM_MEMORY_BASE'' (Value (Lit 0x40000)),
      Define ''CONFIG_FLASH_SIZE'' (Value (Mul (Lit 512) (Lit 1024))),
      Define ''CONFIG_FLASH_ERASED_VALUE32'' (Tokens ''(-1U)''), Define ''CONFIG_RO_HEAD_ROOM'' (Value (Lit 1024)),
      Define ''CONFIG_RW_HEAD_ROOM'' (Value (Name ''CONFIG_RO_HEAD_ROOM'')),
      Define ''CONFIG_INTERNAL_STORAGE'' Empty, Define ''CONFIG_MAPPED_STORAGE'' Empty,
      Define ''CONFIG_MAPPED_STORAGE_BASE'' (Value (Name ''CONFIG_PROGRAM_MEMORY_BASE'')),
      Define ''HOOK_TICK_INTERVAL_MS'' (Value (Lit 500)),
      Define ''HOOK_TICK_INTERVAL'' (Value (Mul (Name ''HOOK_TICK_INTERVAL_MS'') (Name ''MSEC''))),
      Define ''CONFIG_STACK_SIZE'' (Value (Lit 1024)), Define ''IDLE_TASK_STACK_SIZE'' (Value (Lit 512)),
      Define ''TASK_STACK_SIZE'' (Value (Lit 488)), Define ''LARGER_TASK_STACK_SIZE'' (Value (Lit 640)),
      Define ''GPIO_PIN'' (Function [''port'', ''index''] ''(port), (1 << (index))''),
      Define ''GPIO_PIN_MASK'' (Function [''port'', ''mask''] ''(port), (mask)''),
      Define ''PLACEHOLDER_GPIO_BANK'' (Value (Lit 0)),
      Define ''PCLK_FREQ'' (Value (Mul (Mul (Lit 24) (Lit 1000)) (Lit 1000))),
      Define ''CONFIG_IRQ_COUNT'' (Value (Sub (Name ''GC_INTERRUPTS_COUNT'') (Lit 15))),
      Define ''CONFIG_EXTENSION_COMMAND'' (Value (Lit 0xbaccd00a)), Define ''CONFIG_CHIP_PRE_INIT'' Empty]"

definition config_chip_h_101 :: "directive list" where
  "config_chip_h_101 =
     [Define ''CHIP_HAS_RO_B'' Empty,
      Define ''CFG_FLASH_HALF'' (Value (ShiftRight (Name ''CONFIG_FLASH_SIZE'') (Lit 1))),
      Define ''CFG_TOP_SIZE'' (Value (Lit 0x3000)),
      Define ''CFG_TOP_A_OFF'' (Value (Sub (Name ''CFG_FLASH_HALF'') (Name ''CFG_TOP_SIZE''))),
      Define ''CFG_TOP_B_OFF'' (Value (Sub (Name ''CONFIG_FLASH_SIZE'') (Name ''CFG_TOP_SIZE''))),
      Define ''CONFIG_RO_MEM_OFF'' (Value (Lit 0)), Define ''CHIP_RO_B_MEM_OFF'' (Value (Name ''CFG_FLASH_HALF'')),
      Define ''CONFIG_RO_SIZE'' (Value (Lit 0x4000)), Define ''CONFIG_RW_MEM_OFF'' (Value (Name ''CONFIG_RO_SIZE'')),
      Define ''CONFIG_RW_B_MEM_OFF'' (Value (Add (Name ''CFG_FLASH_HALF'') (Name ''CONFIG_RW_MEM_OFF''))),
      Define ''CONFIG_RW_SIZE'' (Value (Sub (Sub (Name ''CFG_FLASH_HALF'') (Name ''CONFIG_RW_MEM_OFF'')) (Name
         ''CFG_TOP_SIZE''))),
      Define ''CONFIG_EC_PROTECTED_STORAGE_OFF'' (Value (Lit 0)),
      Define ''CONFIG_EC_PROTECTED_STORAGE_SIZE'' (Value (Name ''CONFIG_FLASH_SIZE'')),
      Define ''CONFIG_EC_WRITABLE_STORAGE_OFF'' (Value (Lit 0)),
      Define ''CONFIG_EC_WRITABLE_STORAGE_SIZE'' (Value (Name ''CONFIG_FLASH_SIZE'')),
      Define ''CONFIG_RO_STORAGE_OFF'' (Value (Lit 0)), Define ''CONFIG_RW_STORAGE_OFF'' (Value (Lit 0)),
      Define ''CONFIG_WP_STORAGE_OFF'' (Value (Lit 0)),
      Define ''CONFIG_WP_STORAGE_SIZE'' (Value (Name ''CONFIG_EC_PROTECTED_STORAGE_SIZE'')),
      Define ''CONFIG_CUSTOMIZED_RO'' Empty, Define ''I2C_PORT_COUNT'' (Value (Lit 2)),
      Define ''CONFIG_FLASH_LOG_SPACE'' (Value (Name ''CONFIG_FLASH_BANK_SIZE'')),
      Define ''CONFIG_FLASH_LOG_BASE'' (Value (Sub (Add (Add (Name ''CONFIG_PROGRAM_MEMORY_BASE'') (Name
         ''CHIP_RO_B_MEM_OFF'')) (Name ''CONFIG_RO_SIZE'')) (Name ''CONFIG_FLASH_LOG_SPACE''))),
      Define ''AP_RO_DATA_SPACE_SIZE'' (Value (Name ''CONFIG_FLASH_BANK_SIZE'')),
      Define ''AP_RO_DATA_SPACE_ADDR'' (Value (Sub (Name ''CONFIG_FLASH_LOG_BASE'') (Name
         ''AP_RO_DATA_SPACE_SIZE''))),
      Define ''MAX_RO_CODE_SIZE'' (Value (Sub (Sub (Name ''CONFIG_RO_SIZE'') (Name ''CONFIG_FLASH_LOG_SPACE'')) (Name
         ''AP_RO_DATA_SPACE_SIZE''))),
      Define ''CONFIG_LIBCRYPTOC'' Empty]"

definition config_chip_h :: "directive list" where
  "config_chip_h = guarded ''__CROS_EC_CONFIG_CHIP_H''
     (config_chip_h_7 @ config_chip_h_40 @ config_chip_h_101)"

definition board_h_body :: "directive list" where
  "board_h_body =
     [Define ''CONFIG_RNG'' Empty]"

definition board_h :: "directive list" where
  "board_h = guarded ''__CROS_EC_BOARD_H''
     (board_h_body)"

definition fuzz_config_h_body :: "directive list" where
  "fuzz_config_h_body =
     [Undef ''CONFIG_HIBERNATE'',
      If_defined ''TEST_PINWEAVER_FUZZ'' [Define ''CONFIG_DCRYPTO'' Empty, Define ''CONFIG_PINWEAVER'' Empty, Define
         ''CONFIG_UPTO_SHA512'' Empty, Define ''SHA512_SUPPORT'' Empty, Define ''CONFIG_MALLOC'' Empty, Define
         ''CFG_FLASH_HALF'' (Value (ShiftRight (Name ''CONFIG_FLASH_SIZE'') (Lit 1))), Define ''CFG_TOP_SIZE'' (Value
         (Lit 0x3000)), Define ''CFG_TOP_A_OFF'' (Value (Sub (Name ''CFG_FLASH_HALF'') (Name ''CFG_TOP_SIZE''))),
         Define ''CFG_TOP_B_OFF'' (Value (Sub (Name ''CONFIG_FLASH_SIZE'') (Name ''CFG_TOP_SIZE''))), Define
         ''CONFIG_CRC8'' Empty, Define ''CONFIG_FLASH_ERASED_VALUE32'' (Tokens ''(-1U)''), Define
         ''CONFIG_FLASH_LOG'' Empty, Define ''CONFIG_FLASH_LOG_BASE'' (Value (Name ''CONFIG_PROGRAM_MEMORY_BASE'')),
         Define ''CONFIG_FLASH_LOG_SPACE'' (Value (Lit 0x800)), Define ''CONFIG_FLASH_NVMEM'' Empty, Define
         ''CONFIG_FLASH_NVMEM_OFFSET_A'' (Value (Name ''CFG_TOP_A_OFF'')), Define ''CONFIG_FLASH_NVMEM_OFFSET_B''
         (Value (Name ''CFG_TOP_B_OFF'')), Define ''CONFIG_FLASH_NVMEM_BASE_A'' (Value (Add (Name
         ''CONFIG_PROGRAM_MEMORY_BASE'') (Name ''CONFIG_FLASH_NVMEM_OFFSET_A''))), Define
         ''CONFIG_FLASH_NVMEM_BASE_B'' (Value (Add (Name ''CONFIG_PROGRAM_MEMORY_BASE'') (Name
         ''CONFIG_FLASH_NVMEM_OFFSET_B''))), Define ''CONFIG_FLASH_NEW_NVMEM_BASE_A'' (Value (Add (Name
         ''CONFIG_FLASH_NVMEM_BASE_A'') (Name ''CONFIG_FLASH_BANK_SIZE''))), Define ''CONFIG_FLASH_NEW_NVMEM_BASE_B''
         (Value (Add (Name ''CONFIG_FLASH_NVMEM_BASE_B'') (Name ''CONFIG_FLASH_BANK_SIZE''))), Define
         ''NVMEM_PARTITION_SIZE'' (Value (Name ''CFG_TOP_SIZE'')), Define ''CONFIG_FLASH_NVMEM_SIZE'' (Value (Mul
         (Name ''NVMEM_PARTITION_SIZE'') (Name ''NVMEM_NUM_PARTITIONS''))), Define ''NEW_NVMEM_PARTITION_SIZE''
         (Value (Sub (Name ''NVMEM_PARTITION_SIZE'') (Name ''CONFIG_FLASH_BANK_SIZE''))), Define
         ''NEW_NVMEM_TOTAL_PAGES'' (Value (Div (Mul (Lit 2) (Name ''NEW_NVMEM_PARTITION_SIZE'')) (Name
         ''CONFIG_FLASH_BANK_SIZE''))), Define ''CONFIG_FLASH_NVMEM_VARS'' Empty, Define ''NVMEM_CR50_SIZE'' (Value
         (Lit 272)), Define ''CONFIG_FLASH_NVMEM_VARS_USER_SIZE'' (Value (Name ''NVMEM_CR50_SIZE'')), If_undefined
         ''__ASSEMBLER__'' [Line ''enum nvmem_users {'', Line ''NVMEM_TPM = 0,'', Line ''NVMEM_CR50,'', Line
         ''NVMEM_NUM_USERS'', Line ''};''], Define ''NVMEM_TPM_SIZE'' (Tokens
         ''(sizeof(((nvmem_partition *)(0))->buffer) - NVMEM_CR50_SIZE)''), Define
         ''CONFIG_FLASH_NVMEM_VARS_USER_NUM'' (Value (Name ''NVMEM_CR50'')), Define ''CONFIG_SW_CRC'' Empty],
      If_defined ''TEST_HOST_COMMAND_FUZZ'' [Undef ''CONFIG_HOSTCMD_DEBUG_MODE'', Define ''FUZZ_HOSTCMD_VERBOSE''
         Empty, If (Defined ''FUZZ_HOSTCMD_VERBOSE'') [Define ''CONFIG_HOSTCMD_DEBUG_MODE'' (Value (Name
         ''HCDEBUG_PARAMS''))] [Define ''CONFIG_HOSTCMD_DEBUG_MODE'' (Value (Name ''HCDEBUG_OFF''))], Define
         ''CONFIG_AES'' Empty, Define ''CONFIG_AES_GCM'' Empty, Define ''CONFIG_ROLLBACK_SECRET_SIZE'' (Value (Lit
         32)), Define ''CONFIG_SHA256'' Empty],
      If_defined ''TEST_U2F_FUZZ'' [Define ''CONFIG_DCRYPTO'' Empty, Define ''CONFIG_U2F'' Empty, Define
         ''CC_EXTENSION'' (Value (Name ''CC_COMMAND''))]]"

definition fuzz_config_h :: "directive list" where
  "fuzz_config_h = guarded ''__FUZZ_FUZZ_CONFIG_H''
     [If_defined ''TEST_FUZZ'' (fuzz_config_h_body)]"

definition test_config_h_9 :: "directive list" where
  "test_config_h_9 =
     [Define ''CONFIG_HOSTCMD_SECTION_SORTED'' Empty, Undef ''CONFIG_VBOOT_HASH'', Undef ''CONFIG_USB_PD_LOGGING'',
      If_defined ''TEST_AES'' [Define ''CONFIG_AES'' Empty, Define ''CONFIG_AES_GCM'' Empty],
      If_defined ''TEST_BASE32'' [Define ''CONFIG_BASE32'' Empty],
      If_defined ''TEST_BASE64'' [Define ''CONFIG_BASE64'' Empty],
      If_defined ''TEST_FLASH_LOG'' [Define ''CONFIG_CRC8'' Empty, Define ''CONFIG_FLASH_ERASED_VALUE32'' (Tokens
         ''(-1U)''), Define ''CONFIG_FLASH_LOG'' Empty, Define ''CONFIG_FLASH_LOG_BASE'' (Value (Add (Name
         ''CONFIG_PROGRAM_MEMORY_BASE'') (Lit 0x800))), Define ''CONFIG_FLASH_LOG_SPACE'' (Value (Lit 0x800)), Define
         ''CONFIG_MALLOC'' Empty],
      If_defined ''TEST_MATH_UTIL'' [Define ''CONFIG_MATH_UTIL'' Empty],
      If_defined ''TEST_FLOAT'' [Define ''CONFIG_FPU'' Empty, Define ''CONFIG_MAG_CALIBRATE'' Empty],
      If_defined ''TEST_FP'' [Undef ''CONFIG_FPU'', Define ''CONFIG_MAG_CALIBRATE'' Empty]]"

definition test_config_h_57 :: "directive list" where
  "test_config_h_57 =
     [If_defined ''TEST_RMA_AUTH'' [Define ''RMA_KEY_BLOB'' (Tokens
         ''{ 0x03, 0xae, 0x2d, 0x2c, 0x06, 0x23, 0xe0, 0x73, 0x0d, 0xd3, 0xb7, 0x92, 0xac, 0x54, 0xc5, 0xfd, 0x7e, 0x9c, 0xf0, 0xa8, 0xeb, 0x7e, 0x2a, 0xb5, 0xdb, 0xf4, 0x79, 0x5f, 0x8a, 0x0f, 0x28, 0x3f, 0x10 }''), Define ''RMA_TEST_SERVER_PRIVATE_KEY'' (Tokens ''{ 0x47, 0x3b, 0xa5, 0xdb, 0xc4, 0xbb, 0xd6, 0x77, 0x20, 0xbd, 0xd8, 0xbd, 0xc8, 0x7a, 0xbb, 0x07, 0x03, 0x79, 0xba, 0x7b, 0x52, 0x8c, 0xec, 0xb3, 0x4d, 0xaa, 0x69, 0xf5, 0x65, 0xb4, 0x31, 0xad}''), Define ''RMA_TEST_SERVER_KEY_ID'' (Value (Lit 0x10)), Define ''CONFIG_BASE32'' Empty, Define ''CONFIG_CURVE25519'' Empty, Define ''CONFIG_RMA_AUTH'' Empty, Define ''CONFIG_RNG'' Empty, Define ''CONFIG_SHA256'' Empty, Define ''CC_EXTENSION'' (Value (Name ''CC_COMMAND''))],
      If_defined ''TEST_CRC32'' [Define ''CONFIG_SW_CRC'' Empty],
      If_defined ''TEST_RSA'' [Define ''CONFIG_RSA'' Empty, Define ''CONFIG_RSA_KEY_SIZE'' (Value (Lit 2048)), Define
         ''CONFIG_RWSIG_TYPE_RWSIG'' Empty],
      If_defined ''TEST_RSA3'' [Define ''CONFIG_RSA'' Empty, Undef ''CONFIG_RSA_KEY_SIZE'', Define
         ''CONFIG_RSA_KEY_SIZE'' (Value (Lit 2048)), Define ''CONFIG_RSA_EXPONENT_3'' Empty, Define
         ''CONFIG_RWSIG_TYPE_RWSIG'' Empty],
      If_defined ''TEST_SHA256'' [Define ''CONFIG_SHA256'' Empty],
      If_defined ''TEST_SHA256_UNROLLED'' [Define ''CONFIG_SHA256'' Empty, Define ''CONFIG_SHA256_UNROLLED'' Empty]]"

definition test_config_h_111 :: "directive list" where
  "test_config_h_111 =
     [If_defined ''TEST_SHMALLOC'' [Define ''CONFIG_MALLOC'' Empty],
      If_defined ''TEST_THERMAL'' [Define ''CONFIG_CHIPSET_CAN_THROTTLE'' Empty, Define ''CONFIG_FANS'' (Value (Lit
         1)), Define ''CONFIG_I2C'' Empty, Define ''CONFIG_I2C_CONTROLLER'' Empty, Define ''CONFIG_TEMP_SENSOR''
         Empty, Define ''CONFIG_THROTTLE_AP'' Empty, Define ''CONFIG_THERMISTOR'' Empty, Define
         ''CONFIG_THERMISTOR_NCP15WB'' Empty, Define ''I2C_PORT_THERMAL'' (Value (Lit 0)), Line
         ''int ncp15wb_calculate_temp(uint16_t adc);''],
      If_defined ''TEST_FAN'' [Define ''CONFIG_FANS'' (Value (Lit 1))],
      If_defined ''TEST_BUTTON'' [Define ''CONFIG_KEYBOARD_PROTOCOL_8042'' Empty, Define ''CONFIG_VOLUME_BUTTONS''
         Empty],
      If_defined ''TEST_CEC'' [Define ''CONFIG_CEC'' Empty],
      If_defined ''TEST_EC_COMM'' [Define ''CONFIG_CRC8'' Empty, Define ''CONFIG_EC_EFS_SUPPORT'' Empty, Define
         ''CONFIG_EC_EFS2_VERSION'' (Value (Lit 0))],
      If_defined ''TEST_EC_COMM21'' [Define ''CONFIG_CRC8'' Empty, Define ''CONFIG_EC_EFS_SUPPORT'' Empty, Define
         ''CONFIG_EC_EFS2_VERSION'' (Value (Lit 1))],
      If (Or (Defined ''TEST_NVMEM'') (Defined ''TEST_NVMEM_VARS'')) [Define ''CONFIG_CRC8'' Empty, Define
         ''CONFIG_FLASH_ERASED_VALUE32'' (Tokens ''(-1U)''), Define ''CONFIG_FLASH_LOG'' Empty, Define
         ''CONFIG_FLASH_LOG_BASE'' (Value (Name ''CONFIG_PROGRAM_MEMORY_BASE'')), Define ''CONFIG_FLASH_LOG_SPACE''
         (Value (Lit 0x800)), Define ''CONFIG_FLASH_NVMEM'' Empty, Define ''CONFIG_FLASH_NVMEM_OFFSET_A'' (Value (Lit
         0x3d000)), Define ''CONFIG_FLASH_NVMEM_OFFSET_B'' (Value (Lit 0x7d000)), Define
         ''CONFIG_FLASH_NVMEM_BASE_A'' (Value (Add (Name ''CONFIG_PROGRAM_MEMORY_BASE'') (Name
         ''CONFIG_FLASH_NVMEM_OFFSET_A''))), Define ''CONFIG_FLASH_NVMEM_BASE_B'' (Value (Add (Name
         ''CONFIG_PROGRAM_MEMORY_BASE'') (Name ''CONFIG_FLASH_NVMEM_OFFSET_B''))), Define
         ''CONFIG_FLASH_NEW_NVMEM_BASE_A'' (Value (Add (Name ''CONFIG_FLASH_NVMEM_BASE_A'') (Lit 0x800))), Define
         ''CONFIG_FLASH_NEW_NVMEM_BASE_B'' (Value (Add (Name ''CONFIG_FLASH_NVMEM_BASE_B'') (Lit 0x800))), Define
         ''CONFIG_MALLOC'' Empty, Define ''NVMEM_PARTITION_SIZE'' (Value (Lit 0x3000)), Define
         ''NEW_FLASH_HALF_NVMEM_SIZE'' (Value (Sub (Name ''NVMEM_PARTITION_SIZE'') (Name
         ''CONFIG_FLASH_BANK_SIZE''))), Define ''NEW_NVMEM_PARTITION_SIZE'' (Value (Sub (Name
         ''NVMEM_PARTITION_SIZE'') (Name ''CONFIG_FLASH_BANK_SIZE''))), Define ''NEW_NVMEM_TOTAL_PAGES'' (Value (Div
         (Mul (Lit 2) (Name ''NEW_NVMEM_PARTITION_SIZE'')) (Name ''CONFIG_FLASH_BANK_SIZE''))), Define
         ''CONFIG_SW_CRC'' Empty, Define ''CONFIG_FLASH_NVMEM_VARS'' Empty, If_undefined ''__ASSEMBLER__'' [Line
         ''enum nvmem_users { NVMEM_TPM = 0, NVMEM_CR50, NVMEM_NUM_USERS };'']] [],
      If_defined ''TEST_PINWEAVER'' [Define ''CONFIG_DCRYPTO_MOCK'' Empty, Define ''CONFIG_PINWEAVER'' Empty, Define
         ''CONFIG_SHA256'' Empty],
      If_defined ''TEST_RTC'' [Define ''CONFIG_HOSTCMD_RTC'' Empty],
      If_defined ''TEST_U2F'' [Define ''CONFIG_DCRYPTO'' Empty, Define ''CONFIG_U2F'' Empty, Define ''CC_EXTENSION''
         (Value (Name ''CC_COMMAND''))],
      If_defined ''TEST_VBOOT'' [Define ''CONFIG_RWSIG'' Empty, Define ''CONFIG_SHA256'' Empty, Define ''CONFIG_RSA''
         Empty, Define ''CONFIG_RWSIG_TYPE_RWSIG'' Empty, Define ''CONFIG_RW_B'' Empty, Define
         ''CONFIG_RW_B_MEM_OFF'' (Value (Name ''CONFIG_RO_MEM_OFF'')), Undef ''CONFIG_RO_SIZE'', Define
         ''CONFIG_RO_SIZE'' (Value (Div (Name ''CONFIG_FLASH_SIZE'') (Lit 4))), Undef ''CONFIG_RW_SIZE'', Define
         ''CONFIG_RW_SIZE'' (Value (Name ''CONFIG_RO_SIZE'')), Define ''CONFIG_RW_A_STORAGE_OFF'' (Value (Name
         ''CONFIG_RW_STORAGE_OFF'')), Define ''CONFIG_RW_B_STORAGE_OFF'' (Value (Add (Name
         ''CONFIG_RW_A_STORAGE_OFF'') (Name ''CONFIG_RW_SIZE''))), Define ''CONFIG_RW_A_SIGN_STORAGE_OFF'' (Value
         (Sub (Add (Name ''CONFIG_RW_A_STORAGE_OFF'') (Name ''CONFIG_RW_SIZE'')) (Name ''CONFIG_RW_SIG_SIZE''))),
         Define ''CONFIG_RW_B_SIGN_STORAGE_OFF'' (Value (Sub (Add (Name ''CONFIG_RW_B_STORAGE_OFF'') (Name
         ''CONFIG_RW_SIZE'')) (Name ''CONFIG_RW_SIG_SIZE'')))],
      If_defined ''TEST_X25519'' [Define ''CONFIG_CURVE25519'' Empty]]"

definition test_config_h :: "directive list" where
  "test_config_h = guarded ''__TEST_TEST_CONFIG_H''
     [If_defined ''TEST_BUILD'' (test_config_h_9 @ test_config_h_57 @ test_config_h_111)]"

section \<open>What the includes do\<close>

text \<open>
  The headers above, and \<open>ext\<close> for the other files: env_config.h, which a build generates, and the
  generated register definitions.
\<close>

definition chip_include :: "inclusion \<Rightarrow> inclusion" where
  "chip_include ext f s =
     (if f = ''config_chip.h'' then run_directives ext config_chip_h s
      else if f = ''board.h'' then run_directives ext board_h s
      else if f = ''fuzz_config.h'' then run_directives ext fuzz_config_h s
      else if f = ''test_config.h'' then run_directives ext test_config_h s
      else ext f s)"

definition header_names :: "(string \<Rightarrow> string set) \<Rightarrow> string \<Rightarrow> string set" where
  "header_names names f =
     (if f = ''config_chip.h'' then touched_all names config_chip_h
      else if f = ''board.h'' then touched_all names board_h
      else if f = ''fuzz_config.h'' then touched_all names fuzz_config_h
      else if f = ''test_config.h'' then touched_all names test_config_h
      else names f)"

definition header_analysis :: "analysis \<Rightarrow> analysis" where
  "header_analysis ainc f N =
     (if f = ''config_chip.h'' then analyse_all ainc config_chip_h N
      else if f = ''board.h'' then analyse_all ainc board_h N
      else if f = ''fuzz_config.h'' then analyse_all ainc fuzz_config_h N
      else if f = ''test_config.h'' then analyse_all ainc test_config_h N
      else ainc f N)"

text \<open>
  What is known of the other files: the register definitions succeed, and define nothing but their
  guard and names that start with \<open>GC_\<close>. Of env_config.h nothing is known.
\<close>

definition regdef_names :: "string set" where
  "regdef_names = {n. take 3 n = ''GC_'' \<or> n = ''__EC_CHIP_G_CR50_FPGA_REGDEFS_H''}"

definition external_names :: "string \<Rightarrow> string set" where
  "external_names f = (if f = ''hw_b1_regdefs.h'' then regdef_names else UNIV)"

definition external_analysis :: analysis where
  "external_analysis f N =
     (if f = ''hw_b1_regdefs.h'' then
        Some (filter (\<lambda>n. take 3 n \<noteq> ''GC_'' \<and> n \<noteq> ''__EC_CHIP_G_CR50_FPGA_REGDEFS_H'') N)
      else None)"

locale external_headers =
  fixes ext :: inclusion
  assumes regdefs_succeed: "\<exists>s'. ext ''hw_b1_regdefs.h'' s = Inr s'"
    and regdefs_keep: "ext ''hw_b1_regdefs.h'' s = Inr s' \<Longrightarrow> n \<notin> regdef_names \<Longrightarrow> macros s' n = macros s n"

sublocale external_headers \<subseteq> ext: includes_frame ext external_names
  by unfold_locales (auto simp: external_names_def dest: regdefs_keep split: if_splits)

sublocale external_headers \<subseteq> ext_analysis: includes_analysis ext external_analysis
proof
  fix f N N' s
  assume f: "external_analysis f N = Some N'" and N: "undefined_in N s"
  from regdefs_succeed obtain s' where s': "ext ''hw_b1_regdefs.h'' s = Inr s'" by blast
  with f N show "reaches (ext f s) N'"
    by (auto simp: external_analysis_def reaches_def undefined_in_def regdef_names_def regdefs_keep split: if_splits)
qed (auto simp: external_analysis_def split: if_splits)

sublocale external_headers \<subseteq> config: includes_frame "chip_include ext" "header_names external_names"
  by unfold_locales (auto simp: chip_include_def header_names_def dest: ext.keeps ext.include_keeps split: if_splits)

sublocale external_headers \<subseteq> config_analysis: includes_analysis "chip_include ext" "header_analysis external_analysis"
  by unfold_locales
    (auto simp: chip_include_def header_analysis_def split: if_splits
      intro: ext_analysis.analysis_sound ext_analysis.include_sound
      dest: ext_analysis.shrinks ext_analysis.include_shrinks)

text \<open>
  The register definitions as far as the configuration uses them: the number of interrupts
  (hw_b1_regdefs.h).
\<close>

definition GC_INTERRUPTS_COUNT :: int where "GC_INTERRUPTS_COUNT = 218"

definition build_headers :: inclusion where
  "build_headers f =
     (if f = ''hw_b1_regdefs.h''
      then run_directive (\<lambda>f s. Inl BadExpression) (Define ''GC_INTERRUPTS_COUNT'' (Value (Lit GC_INTERRUPTS_COUNT)))
      else (\<lambda>s. Inl BadExpression))"

interpretation build: external_headers build_headers
  by unfold_locales (auto simp: build_headers_def regdef_names_def)

end
