(* ===== verification/ConfigChecks.thy ===== *)
theory ConfigChecks
  imports ConfigHeaders
begin

text \<open>
  The second half of chip/c/config.h (lines 4094 to 4643): it includes the chip's and the board's
  headers, derives options from others, and refuses inconsistent combinations. One definition per
  group of its comments. The proofs about it are in ConfigProofs.
\<close>

definition config_includes :: "directive list" where
  "config_includes =
     [If_defined ''__CROS_EC_CONFIG_CHIP_H'' [Error ''Include config.h instead of config_chip.h!''],
      If_defined ''__BOARD_H'' [Error ''Include config.h instead of board.h!''], Include ''config_chip.h'',
      Include ''board.h'']"

definition config_host_bus :: "directive list" where
  "config_host_bus =
     [If (Or (Defined ''CONFIG_HOSTCMD_ESPI_VW_SLP_S3'') (Defined ''CONFIG_HOSTCMD_ESPI_VW_SLP_S4'')) [Define
         ''CONFIG_HOST_ESPI_VW_POWER_SIGNAL'' Empty] [],
      If (And (Defined ''CONFIG_HOST_ESPI_VW_POWER_SIGNAL'') (Not (Defined ''CONFIG_HOSTCMD_ESPI''))) [Error
         ''Must enable eSPI to enable virtual wires.''] [],
      If (Or (Defined ''CONFIG_HOSTCMD_LPC'') (Defined ''CONFIG_HOSTCMD_ESPI'')) [Define ''CONFIG_HOSTCMD_X86''
         Empty] [],
      If (And (Defined ''CONFIG_HOSTCMD_LPC'') (Defined ''CONFIG_HOSTCMD_ESPI'')) [Error
         ''Must select only one type of host communication bus.''] [],
      If (And (And (Defined ''CONFIG_HOSTCMD_X86'') (Not (Defined ''CONFIG_HOSTCMD_LPC''))) (Not (Defined
         ''CONFIG_HOSTCMD_ESPI''))) [Error ''Must select one type of host communication bus.''] []]"

definition config_memory :: "directive list" where
  "config_memory =
     [If_undefined ''CONFIG_DATA_RAM_SIZE'' [Define ''CONFIG_DATA_RAM_SIZE'' (Value (Name ''CONFIG_RAM_SIZE''))],
      If_undefined ''CONFIG_RAM_BANK_SIZE'' [Define ''CONFIG_RAM_BANK_SIZE'' (Value (Name ''CONFIG_RAM_SIZE''))],
      If_undefined ''CONFIG_RAM_BANKS'' [Define ''CONFIG_RAM_BANKS'' (Value (Div (Name ''CONFIG_RAM_SIZE'') (Name
         ''CONFIG_RAM_BANK_SIZE'')))],
      If_undefined ''CONFIG_SHAREDMEM_MINIMUM_SIZE'' [If (Defined ''CONFIG_COMMON_RUNTIME'') [If (Defined
         ''CONFIG_RWSIG'') [Define ''CONFIG_SHAREDMEM_MINIMUM_SIZE_RWSIG'' (Value (Mul (Div (Name
         ''CONFIG_RSA_KEY_SIZE'') (Lit 8)) (Lit 3)))] [Define ''CONFIG_SHAREDMEM_MINIMUM_SIZE_RWSIG'' (Value (Lit
         0))], Define ''BUILD_MAX'' (Function [''x'', ''y''] ''((x) > (y) ? (x) : (y))''), Define
         ''CONFIG_SHAREDMEM_MINIMUM_SIZE'' (Tokens ''BUILD_MAX(1024, CONFIG_SHAREDMEM_MINIMUM_SIZE_RWSIG)'')] [Define
         ''CONFIG_SHAREDMEM_MINIMUM_SIZE'' (Value (Lit 0))]]]"

definition config_console_thermal :: "directive list" where
  "config_console_thermal =
     [If_defined ''CONFIG_EXPERIMENTAL_CONSOLE'' [Undef ''CONFIG_CONSOLE_HISTORY'', Define ''CONFIG_CRC8'' Empty],
      If (And (Defined ''CONFIG_THROTTLE_AP'') (Not (Defined ''CONFIG_TEMP_SENSOR''))) [Define ''CONFIG_TEMP_SENSOR''
         Empty] [],
      If (And (Defined ''CONFIG_DPTF'') (Not (Defined ''CONFIG_TEMP_SENSOR''))) [Define ''CONFIG_TEMP_SENSOR'' Empty]
         []]"

definition config_mkbp_event :: "directive list" where
  "config_mkbp_event =
     [If_defined ''CONFIG_KEYBOARD_PROTOCOL_MKBP'' [Define ''CONFIG_MKBP_EVENT'' Empty]]"

definition config_mkbp_delivery :: "directive list" where
  "config_mkbp_delivery =
     [If_defined ''CONFIG_MKBP_EVENT'' [If (And (And (And (And (Not (Defined ''CONFIG_MKBP_USE_CUSTOM'')) (Not
         (Defined ''CONFIG_MKBP_USE_HOST_EVENT''))) (Not (Defined ''CONFIG_MKBP_USE_GPIO''))) (Not (Defined
         ''CONFIG_MKBP_USE_GPIO_AND_HOST_EVENT''))) (Not (Defined ''CONFIG_MKBP_USE_HECI''))) [Error
         ''Please define one of CONFIG_MKBP_USE_* macro.''] [], If (Greater (Add (Add (Add (Defined
         ''CONFIG_MKBP_USE_CUSTOM'') (Defined ''CONFIG_MKBP_USE_GPIO'')) (Defined ''CONFIG_MKBP_USE_HOST_EVENT''))
         (Defined ''CONFIG_MKBP_USE_HOST_HECI'')) (Lit 1)) [Error
         ''Must select only one type of MKBP event delivery method.''] []]]"

definition config_orientation :: "directive list" where
  "config_orientation =
     [If (Or (Defined ''CONFIG_KX022_ORIENTATION_SENSOR'') (Defined ''CONFIG_BMI160_ORIENTATION_SENSOR''))
         [If_undefined ''CONFIG_ACCEL_FIFO'' [Error
         ''CONFIG_ACCEL_FIFO must be defined to use hw orientation sensor support''], Define
         ''CONFIG_ORIENTATION_SENSOR'' Empty] []]"

definition config_derived :: "directive list" where
  "config_derived =
     [If (Or (Or (Or (Or (Or (Or (Defined ''CONFIG_BATTERY_BQ20Z453'') (Defined ''CONFIG_BATTERY_BQ27541'')) (Defined
         ''CONFIG_BATTERY_BQ27621'')) (Defined ''CONFIG_BATTERY_BQ4050'')) (Defined ''CONFIG_BATTERY_MAX17055''))
         (Defined ''CONFIG_BATTERY_MM8013'')) (Defined ''CONFIG_BATTERY_SMART'')) [Define ''CONFIG_BATTERY'' Empty]
         [],
      If (Or (Or (Defined ''CONFIG_USBC_PPC_AOZ1380'') (Defined ''CONFIG_USBC_PPC_NX20P3483'')) (Defined
         ''CONFIG_USBC_PPC_SN5S330'')) [Define ''CONFIG_USBC_PPC'' Empty] [],
      If_defined ''CONFIG_USBC_PPC_SN5S330'' [Define ''CONFIG_USBC_PPC_POLARITY'' Empty, Define
         ''CONFIG_USBC_PPC_SBU'' Empty, Define ''CONFIG_USBC_PPC_VCONN'' Empty],
      If (Or (Or (Or (Or (Or (Defined ''CONFIG_CHARGER_BD9995X'') (Defined ''CONFIG_CHARGER_RT9466'')) (Defined
         ''CONFIG_CHARGER_RT9467'')) (Defined ''CONFIG_CHARGER_MT6370'')) (Defined ''CONFIG_CHARGER_BQ25710''))
         (Defined ''CONFIG_CHARGER_ISL9241'')) [Define ''CONFIG_USB_PD_VBUS_MEASURE_CHARGER'' Empty] [],
      If (Or (Or (Defined ''CONFIG_CHARGER_ISL9237'') (Defined ''CONFIG_CHARGER_ISL9238'')) (Defined
         ''CONFIG_CHARGER_ISL9241'')) [Define ''CONFIG_CHARGER_NARROW_VDC'' Empty] [],
      If_defined ''CONFIG_DEDICATED_RECOVERY_BUTTON'' [Define ''CONFIG_BUTTON_TRIGGERED_RECOVERY'' Empty],
      If_defined ''CONFIG_LED_PWM_COUNT'' [Define ''CONFIG_LED_PWM'' Empty],
      If_defined ''CONFIG_LED_PWM_ACTIVE_CHARGE_PORT_ONLY'' [Define ''CONFIG_LED_PWM_CHARGE_STATE_ONLY'' Empty]]"

definition config_discharge_common :: "directive list" where
  "config_discharge_common =
     [If (Or (Or (Defined ''CONFIG_USB_PD_DISCHARGE_GPIO'') (Defined ''CONFIG_USB_PD_DISCHARGE_TCPC'')) (Defined
         ''CONFIG_USB_PD_DISCHARGE_PPC'')) [Define ''CONFIG_USB_PD_DISCHARGE'' Empty] []]"

definition config_derived_drivers :: "directive list" where
  "config_derived_drivers =
     [If_defined ''CONFIG_THERMISTOR_NCP15WB'' [Define ''CONFIG_THERMISTOR'' Empty],
      If_defined ''CONFIG_BC12_DETECT_PI3USB9201'' [Define ''CONFIG_BC12_DETECT_DATA_ROLE_TRIGGER'' Empty],
      If (Or (Defined ''CONFIG_USBC_RETIMER_INTEL_BB'') (Defined ''CONFIG_USBC_RETIMER_PI3DPX1207'')) [Define
         ''CONFIG_USBC_MUX_RETIMER'' Empty] [],
      If_defined ''CONFIG_ROLLBACK_SECRET_SIZE'' [Define ''CONFIG_LIBCRYPTOC'' Empty]]"

definition config_tasks :: "directive list" where
  "config_tasks =
     [If_undefined ''HAS_TASK_CHIPSET'' [Undef ''CONFIG_CHIPSET_APOLLOLAKE'', Undef ''CONFIG_CHIPSET_BRASWELL'',
         Undef ''CONFIG_CHIPSET_CANNONLAKE'', Undef ''CONFIG_CHIPSET_COMETLAKE'', Undef
         ''CONFIG_CHIPSET_GEMINILAKE'', Undef ''CONFIG_CHIPSET_ICELAKE'', Undef ''CONFIG_CHIPSET_MT817X'', Undef
         ''CONFIG_CHIPSET_MT8183'', Undef ''CONFIG_CHIPSET_RK3399'', Undef ''CONFIG_CHIPSET_RK3288'', Undef
         ''CONFIG_CHIPSET_SDM845'', Undef ''CONFIG_CHIPSET_SKYLAKE'', Undef ''CONFIG_CHIPSET_STONEY'', Undef
         ''CONFIG_CHIPSET_TIGERLAKE'', Undef ''CONFIG_POWER_COMMON''],
      If_defined ''HAS_TASK_CHIPSET'' [If_undefined ''CONFIG_CHARGER_MIN_POWER_MW_FOR_POWER_ON'' [Define
         ''CONFIG_CHARGER_MIN_POWER_MW_FOR_POWER_ON'' (Value (Lit 15000))]],
      If_defined ''CONFIG_CHARGER_LIMIT_POWER_THRESH_CHG_MW'' [If_undefined
         ''CONFIG_CHARGER_LIMIT_POWER_THRESH_BAT_PCT'' [Define ''CONFIG_CHARGER_LIMIT_POWER_THRESH_BAT_PCT'' (Value
         (Name ''CONFIG_CHARGER_MIN_BAT_PCT_FOR_POWER_ON''))]],
      If_undefined ''CONFIG_CHARGER_MIN_BAT_PCT_IMBALANCED_POWER_ON'' [Define
         ''CONFIG_CHARGER_MIN_BAT_PCT_IMBALANCED_POWER_ON'' (Value (Lit 5))],
      If_undefined ''CONFIG_BATTERY_MAX_IMBALANCE_MV'' [Define ''CONFIG_BATTERY_MAX_IMBALANCE_MV'' (Value (Lit 200))],
      If_undefined ''HAS_TASK_KEYPROTO'' [Undef ''CONFIG_KEYBOARD_PROTOCOL_8042''],
      If_undefined ''HAS_TASK_PDCMD'' [Undef ''CONFIG_HOSTCMD_PD''],
      If_undefined ''CONFIG_BATTERY'' [Undef ''CONFIG_CMD_PWR_AVG''],
      If_undefined ''CONFIG_ADC'' [Undef ''CONFIG_CMD_ADC'']]"

definition config_chipset :: "directive list" where
  "config_chipset =
     [If (Or (Defined ''CONFIG_CHIPSET_APOLLOLAKE'') (Defined ''CONFIG_CHIPSET_GEMINILAKE'')) [Define
         ''CONFIG_CHIPSET_APL_GLK'' Empty] [],
      If (Or (Defined ''CONFIG_CHIPSET_ICELAKE'') (Defined ''CONFIG_CHIPSET_TIGERLAKE'')) [Define
         ''CONFIG_CHIPSET_ICL_TGL'' Empty] [],
      If_defined ''CONFIG_CHIPSET_APL_GLK'' [Define ''CONFIG_CHIPSET_HAS_PRE_INIT_CALLBACK'' Empty],
      If (Or (Or (Or (Or (Or (Or (Or (Or (Defined ''CONFIG_CHIPSET_APOLLOLAKE'') (Defined
         ''CONFIG_CHIPSET_BRASWELL'')) (Defined ''CONFIG_CHIPSET_CANNONLAKE'')) (Defined
         ''CONFIG_CHIPSET_COMETLAKE'')) (Defined ''CONFIG_CHIPSET_COMETLAKE_DISCRETE'')) (Defined
         ''CONFIG_CHIPSET_GEMINILAKE'')) (Defined ''CONFIG_CHIPSET_ICELAKE'')) (Defined ''CONFIG_CHIPSET_SKYLAKE''))
         (Defined ''CONFIG_CHIPSET_TIGERLAKE'')) [Define ''CONFIG_POWER_COMMON'' Empty] [],
      If (Or (Or (Or (Defined ''CONFIG_CHIPSET_CANNONLAKE'') (Defined ''CONFIG_CHIPSET_ICELAKE'')) (Defined
         ''CONFIG_CHIPSET_SKYLAKE'')) (Defined ''CONFIG_CHIPSET_TIGERLAKE'')) [Define
         ''CONFIG_CHIPSET_X86_RSMRST_DELAY'' Empty] [],
      If_defined ''CONFIG_MAX695X_SEVEN_SEGMENT_DISPLAY'' [Define ''CONFIG_SEVEN_SEG_DISPLAY'' Empty]]"

definition config_overrides :: "directive list" where
  "config_overrides =
     [Include ''fuzz_config.h'', Include ''test_config.h'']"

definition config_timers :: "directive list" where
  "config_timers =
     [If (Less (Name ''CONFIG_AUX_TIMER_PERIOD_MS'') (Mul (Name ''HOOK_TICK_INTERVAL_MS'') (Lit 2))) [Error
         ''CONFIG_AUX_TIMER_PERIOD_MS must be at least 2x HOOK_TICK_INTERVAL_MS''] []]"

definition config_magnetometer :: "directive list" where
  "config_magnetometer =
     [If (Or (Defined ''CONFIG_MAG_BMI160_BMM150'') (Defined ''CONFIG_MAG_BMI160_LIS2MDL'')) [Define
         ''CONFIG_BMI160_SEC_I2C'' Empty] [],
      If_defined ''CONFIG_MAG_BMI160_LIS2MDL'' [Define ''CONFIG_MAG_LIS2MDL'' Empty, If_undefined
         ''CONFIG_ACCELGYRO_SEC_ADDR_FLAGS'' [Error ''The i2c address of the magnetometer is not set.'']],
      If_defined ''CONFIG_MAG_BMI160_BMM150'' [Define ''CONFIG_MAG_BMM150'' Empty, If_undefined
         ''CONFIG_ACCELGYRO_SEC_ADDR_FLAGS'' [Error ''The i2c address of the magnetometer is not set.'']]]"

definition config_flash_protection :: "directive list" where
  "config_flash_protection =
     [If_defined ''CONFIG_HOSTCMD_X86'' [Define ''CONFIG_MOTION_FILL_LPC_SENSE_DATA'' Empty],
      If_defined ''CONFIG_FLASH_READOUT_PROTECTION_AS_PSTATE'' [If_defined ''CONFIG_FLASH_PSTATE'' [Error
         ''Flash readout protection and PSTATE may not work as intended.''], If (And (Not (Defined
         ''CHIP_FAMILY_STM32H7'')) (Not (Defined ''CHIP_FAMILY_STM32F4''))) [Error
         ''Flash readout protection only implemented on STM32H7 and STM32F4.''] []]]"

definition config_power_delivery :: "directive list" where
  "config_power_delivery =
     [If (Or (Or (Defined ''CONFIG_USB_PD_TCPM_ANX3429'') (Defined ''CONFIG_USB_PD_TCPM_ANX740X'')) (Defined
         ''CONFIG_USB_PD_TCPM_ANX7471'')) [Define ''CONFIG_USB_PD_TCPM_ANX74XX'' Empty] [],
      If (And (Defined ''CONFIG_DPTF_MULTI_PROFILE'') (Not (Defined ''CONFIG_DPTF''))) [Error
         ''CONFIG_DPTF_MULTI_PROFILE can be set only when CONFIG_DPTF is set.''] [],
      If_undefined ''CONFIG_SLEEP_TIMEOUT_MS'' [Define ''CONFIG_SLEEP_TIMEOUT_MS'' (Value (Lit 10000))],
      If_defined ''CONFIG_PWM_KBLIGHT'' [Define ''CONFIG_KEYBOARD_BACKLIGHT'' Empty]]"

definition config_ish :: "directive list" where
  "config_ish =
     [If (Or (Or (Or (Defined ''CONFIG_ISH_PM_D0I2'') (Defined ''CONFIG_ISH_PM_D0I3'')) (Defined
         ''CONFIG_ISH_PM_D3'')) (Defined ''CONFIG_ISH_PM_RESET_PREP'')) [If_undefined ''CONFIG_LOW_POWER_IDLE''
         [Error ''Must define CONFIG_LOW_POWER_IDLE if enable ISH low power states''], Define
         ''CONFIG_ISH_PM_AONTASK'' Empty] []]"

definition config_accel_fifo :: "directive list" where
  "config_accel_fifo =
     [If_defined ''CONFIG_ACCEL_FIFO'' [If (Or (Not (Defined ''CONFIG_ACCEL_FIFO_SIZE'')) (Not (Defined
         ''CONFIG_ACCEL_FIFO_THRES''))) [Error ''Using CONFIG_ACCEL_FIFO, must define _SIZE and _THRES''] []]]"

definition config_discharge :: "directive list" where
  "config_discharge =
     [If_defined ''CONFIG_USB_PD_DISCHARGE'' [If (Defined ''CONFIG_USB_PD_DISCHARGE_GPIO'') [If_undefined
         ''CONFIG_USB_PD_PORT_COUNT'' [Error ''PD discharge port not defined'']] [If (And (Not (Defined
         ''CONFIG_USB_PD_DISCHARGE_TCPC'')) (Not (Defined ''CONFIG_USB_PD_DISCHARGE_PPC''))) [Error
         ''PD discharge implementation not defined''] []]]]"

definition config_crypto :: "directive list" where
  "config_crypto =
     [If_defined ''CONFIG_AUDIO_CODEC_WOV'' [Define ''CONFIG_SHA256'' Empty],
      If_defined ''CONFIG_SMBUS_PEC'' [Define ''CONFIG_CRC8'' Empty], Undef ''CONFIG_FIPS_RSA2048'',
      Undef ''CONFIG_FIPS_SW_HMAC_DRBG'', Undef ''CONFIG_FIPS_AES_CBC_256'', Undef ''CONFIG_FIPS_ECDSA_PWCT'']"

definition config_checks :: "directive list" where
  "config_checks =
     config_includes @ config_host_bus @ config_memory @ config_console_thermal @ config_mkbp_event @
     config_mkbp_delivery @ config_orientation @ config_derived @ config_discharge_common @
     config_derived_drivers @ config_tasks @ config_chipset @ config_overrides @ config_timers @
     config_magnetometer @ config_flash_protection @ config_power_delivery @ config_ish @
     config_accel_fifo @ config_discharge @ config_crypto"

definition config_h :: "directive list" where
  "config_h = guarded ''__CROS_EC_CONFIG_H'' (config_defaults @ config_checks)"

end
