(* ===== verification/ConfigAnalysis.thy ===== *)
theory ConfigAnalysis
  imports ConfigChecks
begin

text \<open>
  The analysis of Preprocessor, evaluated on every part of config.h for the configuration of this
  chip: none of them reaches an \<open>#error\<close>, and none of them sets one of the options below.
\<close>

text \<open>
  Options that the defaults of config.h undefine and that nothing sets for this chip: those its
  checks look at, and those that add a console channel; the last one undefined comes first.
\<close>

definition chip_resets :: "string list" where
  "chip_resets =
     [''CONFIG_ISH_PM_RESET_PREP'', ''CONFIG_ISH_PM_D3'', ''CONFIG_ISH_PM_D0I3'', ''CONFIG_ISH_PM_D0I2'',
      ''CONFIG_USB_PD_TCPC'', ''CONFIG_USB_PD_DISCHARGE_PPC'', ''CONFIG_USB_PD_DISCHARGE_TCPC'',
      ''CONFIG_USB_PD_DISCHARGE_GPIO'', ''CONFIG_USB_PD_DISCHARGE'', ''CONFIG_USB_POWER_DELIVERY'',
      ''CONFIG_TOUCHPAD'', ''CONFIG_DPTF_MULTI_PROFILE'', ''CONFIG_DPTF'', ''CONFIG_SPP'',
      ''CONFIG_RBOX'', ''CONFIG_PWM'', ''CONFIG_PHYSICAL_PRESENCE'', ''CONFIG_MKBP_EVENT'',
      ''CONFIG_HOSTCMD_ESPI_VW_SLP_S4'', ''CONFIG_HOSTCMD_ESPI_VW_SLP_S3'', ''CONFIG_HOSTCMD_ESPI'',
      ''CONFIG_HOSTCMD_LPC'', ''CONFIG_HOSTCMD_X86'', ''CONFIG_KEYBOARD_PROTOCOL_MKBP'', ''CONFIG_IPI'',
      ''CONFIG_I2C'', ''CONFIG_GESTURE_SW_DETECTION'', ''CONFIG_FLASH_READOUT_PROTECTION_AS_PSTATE'',
      ''CONFIG_FANS'', ''CONFIG_DMA'', ''CONFIG_CEC'', ''CONFIG_AUDIO_CODEC'',
      ''CONFIG_KX022_ORIENTATION_SENSOR'', ''CONFIG_BMI160_ORIENTATION_SENSOR'',
      ''CONFIG_MAG_BMI160_LIS2MDL'', ''CONFIG_MAG_BMI160_BMM150'', ''CONFIG_ACCEL_FIFO'']"

text \<open>
  Build flags and two options without a default: these, and the guard of config_chip.h, a build must
  not predefine.
\<close>

definition build_flags :: "string list" where
  "build_flags =
     [''INCLUDE_ENV_CONFIG'', ''TEST_BUILD'', ''TEST_FUZZ'', ''__BOARD_H'',
      ''CONFIG_HOST_ESPI_VW_POWER_SIGNAL'', ''CONFIG_LPC'']"

definition build_off :: "string list" where
  "build_off = build_flags @ [''__CROS_EC_CONFIG_CHIP_H'']"

definition checks_off :: "string list" where
  "checks_off = chip_resets @ build_flags"

definition chip_off :: "string list" where
  "chip_off = checks_off @ [''__CROS_EC_CONFIG_CHIP_H'']"

lemmas off_lists = chip_off_def checks_off_def build_off_def chip_resets_def build_flags_def

abbreviation chip_analysis :: analysis where
  "chip_analysis \<equiv> header_analysis external_analysis"

section \<open>The names involved\<close>

text \<open>
  Which of the names that config.h and the chip's headers test or define are among these options.
\<close>

lemma tested_resets:
  "''CONFIG_HOSTCMD_ESPI_VW_SLP_S3'' \<in> set chip_resets"
  "''CONFIG_HOSTCMD_ESPI_VW_SLP_S4'' \<in> set chip_resets"
  "''CONFIG_HOSTCMD_ESPI'' \<in> set chip_resets"
  "''CONFIG_HOSTCMD_LPC'' \<in> set chip_resets"
  "''CONFIG_HOSTCMD_X86'' \<in> set chip_resets"
  "''CONFIG_DPTF'' \<in> set chip_resets"
  "''CONFIG_KEYBOARD_PROTOCOL_MKBP'' \<in> set chip_resets"
  "''CONFIG_MKBP_EVENT'' \<in> set chip_resets"
  "''CONFIG_KX022_ORIENTATION_SENSOR'' \<in> set chip_resets"
  "''CONFIG_BMI160_ORIENTATION_SENSOR'' \<in> set chip_resets"
  "''CONFIG_ACCEL_FIFO'' \<in> set chip_resets"
  "''CONFIG_USB_PD_DISCHARGE_GPIO'' \<in> set chip_resets"
  "''CONFIG_USB_PD_DISCHARGE_TCPC'' \<in> set chip_resets"
  "''CONFIG_USB_PD_DISCHARGE_PPC'' \<in> set chip_resets"
  "''CONFIG_USB_PD_DISCHARGE'' \<in> set chip_resets"
  "''CONFIG_MAG_BMI160_BMM150'' \<in> set chip_resets"
  "''CONFIG_MAG_BMI160_LIS2MDL'' \<in> set chip_resets"
  "''CONFIG_FLASH_READOUT_PROTECTION_AS_PSTATE'' \<in> set chip_resets"
  "''CONFIG_DPTF_MULTI_PROFILE'' \<in> set chip_resets"
  "''CONFIG_ISH_PM_D0I2'' \<in> set chip_resets"
  "''CONFIG_ISH_PM_D0I3'' \<in> set chip_resets"
  "''CONFIG_ISH_PM_D3'' \<in> set chip_resets"
  "''CONFIG_ISH_PM_RESET_PREP'' \<in> set chip_resets"
  "''CONFIG_AUDIO_CODEC'' \<in> set chip_resets"
  "''CONFIG_CEC'' \<in> set chip_resets"
  "''CONFIG_PHYSICAL_PRESENCE'' \<in> set chip_resets"
  "''CONFIG_DMA'' \<in> set chip_resets"
  "''CONFIG_GESTURE_SW_DETECTION'' \<in> set chip_resets"
  "''CONFIG_I2C'' \<in> set chip_resets"
  "''CONFIG_IPI'' \<in> set chip_resets"
  "''CONFIG_PWM'' \<in> set chip_resets"
  "''CONFIG_FANS'' \<in> set chip_resets"
  "''CONFIG_RBOX'' \<in> set chip_resets"
  "''CONFIG_SPP'' \<in> set chip_resets"
  "''CONFIG_TOUCHPAD'' \<in> set chip_resets"
  "''CONFIG_USB_POWER_DELIVERY'' \<in> set chip_resets"
  "''CONFIG_USB_PD_TCPC'' \<in> set chip_resets"
  unfolding chip_resets_def by ((rule list.set_intros(1) | rule list.set_intros(2))+)

lemma tested_flags:
  "''CONFIG_HOST_ESPI_VW_POWER_SIGNAL'' \<in> set build_flags"
  "''__BOARD_H'' \<in> set build_flags"
  "''TEST_FUZZ'' \<in> set build_flags"
  "''TEST_BUILD'' \<in> set build_flags"
  "''CONFIG_LPC'' \<in> set build_flags"
  unfolding build_flags_def by ((rule list.set_intros(1) | rule list.set_intros(2))+)

lemma set_offs:
  "n \<in> set chip_resets \<Longrightarrow> n \<in> set checks_off"
  "n \<in> set build_flags \<Longrightarrow> n \<in> set checks_off"
  "n \<in> set checks_off \<Longrightarrow> n \<in> set chip_off"
  by (simp_all add: checks_off_def chip_off_def)

lemmas tested_off = tested_resets [THEN set_offs(1)] tested_flags [THEN set_offs(2)]

lemmas compare_names =
  append.simps list.pred_inject list.set insert_iff empty_iff list.inject list.distinct char.inject simp_thms

lemma other_names_1: "list_all (\<lambda>n. n \<notin> set chip_off)
    [''CONFIG_DATA_RAM_SIZE'', ''CONFIG_RAM_BANK_SIZE'', ''CONFIG_RAM_BANKS'',
     ''CONFIG_SHAREDMEM_MINIMUM_SIZE'', ''CONFIG_COMMON_RUNTIME'', ''CONFIG_RWSIG'',
     ''CONFIG_SHAREDMEM_MINIMUM_SIZE_RWSIG'', ''BUILD_MAX'', ''CONFIG_EXPERIMENTAL_CONSOLE'',
     ''CONFIG_CRC8'', ''CONFIG_THROTTLE_AP'', ''CONFIG_TEMP_SENSOR'', ''CONFIG_MKBP_USE_CUSTOM'',
     ''CONFIG_MKBP_USE_HOST_EVENT'', ''CONFIG_MKBP_USE_GPIO'', ''CONFIG_MKBP_USE_GPIO_AND_HOST_EVENT'',
     ''CONFIG_MKBP_USE_HECI'', ''CONFIG_MKBP_USE_HOST_HECI'', ''CONFIG_ORIENTATION_SENSOR'',
     ''CONFIG_BATTERY_BQ20Z453'', ''CONFIG_BATTERY_BQ27541'', ''CONFIG_BATTERY_BQ27621'',
     ''CONFIG_BATTERY_BQ4050'', ''CONFIG_BATTERY_MAX17055'', ''CONFIG_BATTERY_MM8013'',
     ''CONFIG_BATTERY_SMART'', ''CONFIG_BATTERY'', ''CONFIG_USBC_PPC_AOZ1380'',
     ''CONFIG_USBC_PPC_NX20P3483'', ''CONFIG_USBC_PPC_SN5S330'']"
  by (simp only: off_lists compare_names)

lemma other_names_2: "list_all (\<lambda>n. n \<notin> set chip_off)
    [''CONFIG_USBC_PPC'', ''CONFIG_USBC_PPC_POLARITY'', ''CONFIG_USBC_PPC_SBU'',
     ''CONFIG_USBC_PPC_VCONN'', ''CONFIG_CHARGER_BD9995X'', ''CONFIG_CHARGER_RT9466'',
     ''CONFIG_CHARGER_RT9467'', ''CONFIG_CHARGER_MT6370'', ''CONFIG_CHARGER_BQ25710'',
     ''CONFIG_CHARGER_ISL9241'', ''CONFIG_USB_PD_VBUS_MEASURE_CHARGER'', ''CONFIG_CHARGER_ISL9237'',
     ''CONFIG_CHARGER_ISL9238'', ''CONFIG_CHARGER_NARROW_VDC'', ''CONFIG_DEDICATED_RECOVERY_BUTTON'',
     ''CONFIG_BUTTON_TRIGGERED_RECOVERY'', ''CONFIG_LED_PWM_COUNT'', ''CONFIG_LED_PWM'',
     ''CONFIG_LED_PWM_ACTIVE_CHARGE_PORT_ONLY'', ''CONFIG_LED_PWM_CHARGE_STATE_ONLY'',
     ''CONFIG_THERMISTOR_NCP15WB'', ''CONFIG_THERMISTOR'', ''CONFIG_BC12_DETECT_PI3USB9201'',
     ''CONFIG_BC12_DETECT_DATA_ROLE_TRIGGER'', ''CONFIG_USBC_RETIMER_INTEL_BB'',
     ''CONFIG_USBC_RETIMER_PI3DPX1207'', ''CONFIG_USBC_MUX_RETIMER'', ''CONFIG_ROLLBACK_SECRET_SIZE'',
     ''CONFIG_LIBCRYPTOC'', ''HAS_TASK_CHIPSET'']"
  by (simp only: off_lists compare_names)

lemma other_names_3: "list_all (\<lambda>n. n \<notin> set chip_off)
    [''CONFIG_CHARGER_MIN_POWER_MW_FOR_POWER_ON'', ''CONFIG_CHARGER_LIMIT_POWER_THRESH_CHG_MW'',
     ''CONFIG_CHARGER_LIMIT_POWER_THRESH_BAT_PCT'', ''CONFIG_CHARGER_MIN_BAT_PCT_IMBALANCED_POWER_ON'',
     ''CONFIG_BATTERY_MAX_IMBALANCE_MV'', ''HAS_TASK_KEYPROTO'', ''HAS_TASK_PDCMD'', ''CONFIG_ADC'',
     ''CONFIG_CHIPSET_APOLLOLAKE'', ''CONFIG_CHIPSET_GEMINILAKE'', ''CONFIG_CHIPSET_APL_GLK'',
     ''CONFIG_CHIPSET_ICELAKE'', ''CONFIG_CHIPSET_TIGERLAKE'', ''CONFIG_CHIPSET_ICL_TGL'',
     ''CONFIG_CHIPSET_HAS_PRE_INIT_CALLBACK'', ''CONFIG_CHIPSET_BRASWELL'', ''CONFIG_CHIPSET_CANNONLAKE'',
     ''CONFIG_CHIPSET_COMETLAKE'', ''CONFIG_CHIPSET_COMETLAKE_DISCRETE'', ''CONFIG_CHIPSET_SKYLAKE'',
     ''CONFIG_POWER_COMMON'', ''CONFIG_CHIPSET_X86_RSMRST_DELAY'',
     ''CONFIG_MAX695X_SEVEN_SEGMENT_DISPLAY'', ''CONFIG_SEVEN_SEG_DISPLAY'', ''CONFIG_BMI160_SEC_I2C'',
     ''CONFIG_MAG_LIS2MDL'', ''CONFIG_ACCELGYRO_SEC_ADDR_FLAGS'', ''CONFIG_MAG_BMM150'',
     ''CONFIG_MOTION_FILL_LPC_SENSE_DATA'', ''CONFIG_FLASH_PSTATE'']"
  by (simp only: off_lists compare_names)

lemma other_names_4: "list_all (\<lambda>n. n \<notin> set chip_off)
    [''CHIP_FAMILY_STM32H7'', ''CHIP_FAMILY_STM32F4'', ''CONFIG_USB_PD_TCPM_ANX3429'',
     ''CONFIG_USB_PD_TCPM_ANX740X'', ''CONFIG_USB_PD_TCPM_ANX7471'', ''CONFIG_USB_PD_TCPM_ANX74XX'',
     ''CONFIG_SLEEP_TIMEOUT_MS'', ''CONFIG_PWM_KBLIGHT'', ''CONFIG_KEYBOARD_BACKLIGHT'',
     ''CONFIG_LOW_POWER_IDLE'', ''CONFIG_ISH_PM_AONTASK'', ''CONFIG_ACCEL_FIFO_SIZE'',
     ''CONFIG_ACCEL_FIFO_THRES'', ''CONFIG_USB_PD_PORT_COUNT'', ''CONFIG_AUDIO_CODEC_WOV'',
     ''CONFIG_SHA256'', ''CONFIG_SMBUS_PEC'', ''BFD_ARCH'', ''BFD_FORMAT'', ''CONFIG_SOFTWARE_PANIC'',
     ''CONFIG_ROM_BASE'', ''CONFIG_ROM_SIZE'', ''CONFIG_RAM_BASE'', ''CONFIG_RAM_SIZE'',
     ''CONFIG_FLASH_BANK_SIZE'', ''CONFIG_FLASH_ERASE_SIZE'', ''CONFIG_FLASH_WRITE_SIZE'',
     ''CONFIG_FLASH_WRITE_IDEAL_SIZE'', ''CONFIG_FLASH_ROW_SIZE'', ''CONFIG_PROGRAM_MEMORY_BASE'']"
  by (simp only: off_lists compare_names)

lemma other_names_5: "list_all (\<lambda>n. n \<notin> set chip_off)
    [''CONFIG_FLASH_SIZE'', ''CONFIG_FLASH_ERASED_VALUE32'', ''CONFIG_RO_HEAD_ROOM'',
     ''CONFIG_RW_HEAD_ROOM'', ''CONFIG_INTERNAL_STORAGE'', ''CONFIG_MAPPED_STORAGE'',
     ''CONFIG_MAPPED_STORAGE_BASE'', ''HOOK_TICK_INTERVAL_MS'', ''HOOK_TICK_INTERVAL'',
     ''CONFIG_STACK_SIZE'', ''IDLE_TASK_STACK_SIZE'', ''TASK_STACK_SIZE'', ''LARGER_TASK_STACK_SIZE'',
     ''GPIO_PIN'', ''GPIO_PIN_MASK'', ''PLACEHOLDER_GPIO_BANK'', ''PCLK_FREQ'', ''CONFIG_IRQ_COUNT'',
     ''CONFIG_EXTENSION_COMMAND'', ''CONFIG_CHIP_PRE_INIT'', ''CHIP_HAS_RO_B'', ''CFG_FLASH_HALF'',
     ''CFG_TOP_SIZE'', ''CFG_TOP_A_OFF'', ''CFG_TOP_B_OFF'', ''CONFIG_RO_MEM_OFF'', ''CHIP_RO_B_MEM_OFF'',
     ''CONFIG_RO_SIZE'', ''CONFIG_RW_MEM_OFF'', ''CONFIG_RW_B_MEM_OFF'']"
  by (simp only: off_lists compare_names)

lemma other_names_6: "list_all (\<lambda>n. n \<notin> set chip_off)
    [''CONFIG_RW_SIZE'', ''CONFIG_EC_PROTECTED_STORAGE_OFF'', ''CONFIG_EC_PROTECTED_STORAGE_SIZE'',
     ''CONFIG_EC_WRITABLE_STORAGE_OFF'', ''CONFIG_EC_WRITABLE_STORAGE_SIZE'', ''CONFIG_RO_STORAGE_OFF'',
     ''CONFIG_RW_STORAGE_OFF'', ''CONFIG_WP_STORAGE_OFF'', ''CONFIG_WP_STORAGE_SIZE'',
     ''CONFIG_CUSTOMIZED_RO'', ''I2C_PORT_COUNT'', ''CONFIG_FLASH_LOG_SPACE'', ''CONFIG_FLASH_LOG_BASE'',
     ''AP_RO_DATA_SPACE_SIZE'', ''AP_RO_DATA_SPACE_ADDR'', ''MAX_RO_CODE_SIZE'', ''__CROS_EC_BOARD_H'',
     ''CONFIG_RNG'', ''__FUZZ_FUZZ_CONFIG_H'', ''__TEST_TEST_CONFIG_H'', ''HAS_TASK_FPSENSOR'',
     ''HAS_TASK_HOSTCMD'', ''HAS_TASK_LIGHTBAR'', ''HAS_TASK_IPC_MNG'', ''HAS_TASK_HECI_RX'',
     ''CONFIG_SWITCH'', ''CONFIG_LID_SWITCH'', ''CONFIG_ALS'', ''CONFIG_ACCEL_SPOOF_MODE'',
     ''CONFIG_SENSOR_TIGHT_TIMESTAMPS'']"
  by (simp only: off_lists compare_names)

lemma other_names_7: "list_all (\<lambda>n. n \<notin> set chip_off)
    [''CONFIG_SYNC_QUEUE_SIZE'', ''CONFIG_ADC_WATCHDOG'', ''CONFIG_ADC_PROFILE_SINGLE'',
     ''CONFIG_BATTERY_PRECHARGE_TIMEOUT'', ''CONFIG_BATTERY_CRITICAL_SHUTDOWN_TIMEOUT'',
     ''CONFIG_BATT_FULL_FACTOR'', ''CONFIG_BATT_HOST_SHUTDOWN_PERCENTAGE'',
     ''CONFIG_BATT_HOST_FULL_FACTOR'', ''CONFIG_DEDICATED_CHARGE_PORT_COUNT'',
     ''CONFIG_CHARGE_MANAGER_SAFE_MODE'', ''CONFIG_CHARGE_MANAGER_BAT_PCT_SAFE_MODE_EXIT'',
     ''CONFIG_CHARGER_PROFILE_VOLTAGE_RANGES'', ''CONFIG_CHIPSET_POWER_SEQ_VERSION'',
     ''CONFIG_CMD_ACCELSPOOF'', ''CONFIG_CMD_ADC'', ''CONFIG_CMD_APTHROTTLE'', ''CONFIG_CMD_BATTFAKE'',
     ''CONFIG_CMD_RETIMER'', ''CONFIG_CMD_CBI'', ''CONFIG_CMD_CHARGER'',
     ''CONFIG_CMD_CHARGE_SUPPLIER_INFO'', ''CONFIG_CMD_CRASH'', ''CONFIG_CMD_DEVICE_EVENT'',
     ''CONFIG_CMD_DUMP_NVMEM'', ''CONFIG_CMD_ECRST'', ''CONFIG_CMD_FASTCHARGE'', ''CONFIG_CMD_FLASHINFO'',
     ''CONFIG_CMD_GPIOCFG'', ''CONFIG_CMD_HASH'', ''CONFIG_CMD_HCDEBUG'']"
  by (simp only: off_lists compare_names)

lemma other_names_8: "list_all (\<lambda>n. n \<notin> set chip_off)
    [''CONFIG_CMD_I2C_SCAN'', ''CONFIG_CMD_I2C_XFER'', ''CONFIG_CMD_IDLE_STATS'', ''CONFIG_CMD_INA'',
     ''CONFIG_CMD_KEYBOARD'', ''CONFIG_CMD_MD'', ''CONFIG_CMD_MEM'', ''CONFIG_CMD_MMAPINFO'',
     ''CONFIG_CMD_PD'', ''CONFIG_CMD_PECI'', ''CONFIG_CMD_PINMUX'', ''CONFIG_CMD_POWERINDEBUG'',
     ''CONFIG_CMD_PWR_AVG'', ''CONFIG_CMD_POWER_AP'', ''CONFIG_CMD_REGULATOR'', ''CONFIG_CMD_RW'',
     ''CONFIG_CMD_SHMEM'', ''CONFIG_CMD_SLEEPMASK'', ''CONFIG_CMD_SLEEPMASK_SET'', ''CONFIG_CMD_SYSINFO'',
     ''CONFIG_CMD_SYSJUMP'', ''CONFIG_CMD_SYSLOCK'', ''CONFIG_CMD_SYSRST'', ''CONFIG_CMD_TEMP_SENSOR'',
     ''CONFIG_CMD_TIMERINFO'', ''CONFIG_CMD_TYPEC'', ''CONFIG_CMD_USBMUX'', ''CONFIG_CMD_WAITMS'',
     ''CONFIG_CMD_WP'', ''CONFIG_COMMON_PANIC_OUTPUT'']"
  by (simp only: off_lists compare_names)

lemma other_names_9: "list_all (\<lambda>n. n \<notin> set chip_off)
    [''CONFIG_COMMON_GPIO'', ''CONFIG_COMMON_TIMER'', ''CONFIG_CONSOLE_CMDHELP'',
     ''CONFIG_CONSOLE_ENABLE_READ_V1'', ''CONFIG_CONSOLE_HISTORY'', ''CONFIG_CONSOLE_INPUT_LINE_SIZE'',
     ''CONFIG_CONSOLE_VERBOSE'', ''CONFIG_DEBUG_ASSERT'', ''CONFIG_DEBUG_ASSERT_REBOOTS'',
     ''CONFIG_DEBUG_EXCEPTIONS'', ''CONFIG_DEBUG_STACK_OVERFLOW'', ''CONFIG_DMA_DEFAULT_HANDLERS'',
     ''CONFIG_EC_MAX_SENSOR_FREQ_DEFAULT_MILLIHZ'', ''CONFIG_EXTPOWER'', ''CONFIG_EXTPOWER_DEBOUNCE_MS'',
     ''CONFIG_FAN_INIT_SPEED'', ''CONFIG_FLASH'', ''CONFIG_FLASH_PHYSICAL'', ''CONFIG_FLASH_PSTATE_BANK'',
     ''CONFIG_FMAP'', ''CONFIG_ROLLBACK_UPDATE'', ''CONFIG_ROLLBACK_VERSION'', ''CONFIG_FW_INCLUDE_RO'',
     ''CONFIG_MOTION_SENSE_SUSPEND_DELAY_US'', ''CONFIG_MOTION_SENSE_RESUME_DELAY_US'',
     ''CONFIG_MOTION_MIN_SENSE_WAIT_TIME'', ''CONFIG_HOST_EVENT_REPORT_MASK'',
     ''CONFIG_HOST_EVENT64_REPORT_MASK'', ''CONFIG_HOST_EVENT64'', ''CONFIG_HOSTCMD_DEBUG_MODE'']"
  by (simp only: off_lists compare_names)

lemma other_names_10: "list_all (\<lambda>n. n \<notin> set chip_off)
    [''CONFIG_HOSTCMD_EVENTS'', ''CONFIG_HOSTCMD_RATE_LIMITING_PERIOD'',
     ''CONFIG_HOSTCMD_RATE_LIMITING_MIN_REST'', ''CONFIG_HOSTCMD_RATE_LIMITING_RECESS'',
     ''CONFIG_EC_CMD_PD_CHIP_INFO'', ''CONFIG_HOSTCMD_FLASHPD'', ''CONFIG_HOSTCMD_RWHASHPD'',
     ''CONFIG_HIBERNATE'', ''CONFIG_HIBERNATE_DELAY_SEC'', ''CONFIG_SUPPORT_CHIP_HIBERNATION'',
     ''CONFIG_I2C_CHIP_MAX_READ_SIZE'', ''CONFIG_I2C_NACK_RETRY_COUNT'', ''CONFIG_I2C_EXTRA_PACKET_SIZE'',
     ''CONFIG_KEYBOARD_KSO_BASE'', ''CONFIG_KEYBOARD_BOOT_KEYS'', ''CONFIG_KEYBOARD_RUNTIME_KEYS'',
     ''CONFIG_LED_PWM_CHARGE_COLOR'', ''CONFIG_LED_PWM_NEAR_FULL_COLOR'',
     ''CONFIG_LED_PWM_CHARGE_ERROR_COLOR'', ''CONFIG_LED_PWM_SOC_ON_COLOR'',
     ''CONFIG_LED_PWM_SOC_SUSPEND_COLOR'', ''CONFIG_LED_PWM_LOW_BATT_COLOR'', ''CONFIG_MIA_WDT_VEC'',
     ''CONFIG_PORT80_HISTORY_LEN'', ''CONFIG_PORT80_PRINT_IN_INT'', ''CONFIG_POWER_BUTTON_INIT_TIMEOUT'',
     ''CONFIG_RWSIG_JUMP_TIMEOUT'', ''CONFIG_TASK_PROFILING'', ''CONFIG_UART_BAUD_RATE'',
     ''CONFIG_UART_RX_BUF_SIZE'']"
  by (simp only: off_lists compare_names)

lemma other_names_11: "list_all (\<lambda>n. n \<notin> set chip_off)
    [''CONFIG_UART_RX_DMA_RECHECKS'', ''CONFIG_UART_TX_BUF_SIZE'', ''CONFIG_USB_PD_DEBUG_DR'',
     ''CONFIG_USB_PD_INITIAL_DRP_STATE'', ''CONFIG_EVENT_LOG_SIZE'', ''CONFIG_USB_PD_LOW_POWER'',
     ''CONFIG_USB_PD_RX_COMP_IRQ'', ''CONFIG_TCPC_I2C_BASE_ADDR_FLAGS'',
     ''CONFIG_USB_PD_TRY_SRC_MIN_BATT_SOC'', ''CONFIG_USB_CONSOLE_TX_BUF_SIZE'',
     ''CONFIG_USB_PORT_POWER_SMART_PORT_COUNT'', ''CONFIG_USB_MAXPOWER_MA'', ''CONFIG_USB_PD_PULLUP'',
     ''CONFIG_USB_I2C_MAX_WRITE_COUNT'', ''CONFIG_USB_I2C_MAX_READ_COUNT'', ''CONFIG_WATCHDOG'',
     ''CONFIG_WATCHDOG_MAX_RETRIES'', ''CONFIG_WATCHDOG_PERIOD_MS'', ''CONFIG_AUX_TIMER_PERIOD_MS'',
     ''CONFIG_UPDATE_PDU_SIZE'']"
  by (simp only: off_lists compare_names)

lemmas other_names =
  other_names_1 [unfolded list.pred_inject] other_names_2 [unfolded list.pred_inject] other_names_3
   [unfolded list.pred_inject] other_names_4 [unfolded list.pred_inject] other_names_5 [unfolded
   list.pred_inject] other_names_6 [unfolded list.pred_inject] other_names_7 [unfolded list.pred_inject]
   other_names_8 [unfolded list.pred_inject] other_names_9 [unfolded list.pred_inject] other_names_10
   [unfolded list.pred_inject] other_names_11 [unfolded list.pred_inject]

lemma other_checks: "list_all (\<lambda>n. n \<notin> set chip_off) ns \<Longrightarrow> list_all (\<lambda>n. n \<notin> set checks_off) ns"
  by (auto simp: list_all_iff chip_off_def)

lemmas other_checks_names =
  other_names_1 [THEN other_checks, unfolded list.pred_inject] other_names_2 [THEN other_checks, unfolded
   list.pred_inject] other_names_3 [THEN other_checks, unfolded list.pred_inject] other_names_4 [THEN
   other_checks, unfolded list.pred_inject] other_names_5 [THEN other_checks, unfolded list.pred_inject]
   other_names_6 [THEN other_checks, unfolded list.pred_inject] other_names_7 [THEN other_checks, unfolded
   list.pred_inject] other_names_8 [THEN other_checks, unfolded list.pred_inject] other_names_9 [THEN
   other_checks, unfolded list.pred_inject] other_names_10 [THEN other_checks, unfolded list.pred_inject]
   other_names_11 [THEN other_checks, unfolded list.pred_inject]

lemma chip_guard:
  "''__CROS_EC_CONFIG_CHIP_H'' \<in> set chip_off" "''__CROS_EC_CONFIG_CHIP_H'' \<notin> set checks_off"
  "removeAll ''__CROS_EC_CONFIG_CHIP_H'' chip_off = checks_off"
proof -
  show "''__CROS_EC_CONFIG_CHIP_H'' \<in> set chip_off" by (simp add: chip_off_def)
  show "''__CROS_EC_CONFIG_CHIP_H'' \<notin> set checks_off" by (simp only: off_lists compare_names)
  then show "removeAll ''__CROS_EC_CONFIG_CHIP_H'' chip_off = checks_off" by (simp add: chip_off_def)
qed

lemma external_checks_off: "external_analysis ''hw_b1_regdefs.h'' checks_off = Some checks_off"
  by code_simp

lemmas analysis_eval =
  If_defined_def If_undefined_def guarded_def analyse_append chip_guard external_checks_off tested_off
  tested_off [THEN set_offs(3)] other_checks_names

section \<open>The defaults\<close>

text \<open>
  Behind the first part, which may include env_config.h, the defaults are harmless, define none of
  the options, and undefine those of \<open>chip_resets\<close>.
\<close>

lemma defaults_harmless_1:
  "list_all harmless config_h_28"
  "list_all harmless config_h_175"
  "list_all harmless config_h_208"
  "list_all harmless config_h_218"
  "list_all harmless config_h_366"
  "list_all harmless config_h_513"
  "list_all harmless config_h_663"
  "list_all harmless config_h_813"
  by (simp_all add: config_h_defs If_defined_def If_undefined_def)

lemma defaults_define_1:
  "list_all (\<lambda>d. defined_by d \<inter> set chip_off = {}) config_h_28"
  "list_all (\<lambda>d. defined_by d \<inter> set chip_off = {}) config_h_175"
  "list_all (\<lambda>d. defined_by d \<inter> set chip_off = {}) config_h_208"
  "list_all (\<lambda>d. defined_by d \<inter> set chip_off = {}) config_h_218"
  "list_all (\<lambda>d. defined_by d \<inter> set chip_off = {}) config_h_366"
  "list_all (\<lambda>d. defined_by d \<inter> set chip_off = {}) config_h_513"
  "list_all (\<lambda>d. defined_by d \<inter> set chip_off = {}) config_h_663"
  "list_all (\<lambda>d. defined_by d \<inter> set chip_off = {}) config_h_813"
  by (simp_all add: config_h_defs If_defined_def If_undefined_def other_names Int_Un_distrib2)

lemma defaults_harmless_2:
  "list_all harmless config_h_961"
  "list_all harmless config_h_1111"
  "list_all harmless config_h_1256"
  "list_all harmless config_h_1390"
  "list_all harmless config_h_1535"
  "list_all harmless config_h_1685"
  "list_all harmless config_h_1830"
  "list_all harmless config_h_1909"
  by (simp_all add: config_h_defs If_defined_def If_undefined_def)

lemma defaults_define_2:
  "list_all (\<lambda>d. defined_by d \<inter> set chip_off = {}) config_h_961"
  "list_all (\<lambda>d. defined_by d \<inter> set chip_off = {}) config_h_1111"
  "list_all (\<lambda>d. defined_by d \<inter> set chip_off = {}) config_h_1256"
  "list_all (\<lambda>d. defined_by d \<inter> set chip_off = {}) config_h_1390"
  "list_all (\<lambda>d. defined_by d \<inter> set chip_off = {}) config_h_1535"
  "list_all (\<lambda>d. defined_by d \<inter> set chip_off = {}) config_h_1685"
  "list_all (\<lambda>d. defined_by d \<inter> set chip_off = {}) config_h_1830"
  "list_all (\<lambda>d. defined_by d \<inter> set chip_off = {}) config_h_1909"
  by (simp_all add: config_h_defs If_defined_def If_undefined_def other_names Int_Un_distrib2)

lemma defaults_harmless_3:
  "list_all harmless config_h_1916"
  "list_all harmless config_h_2061"
  "list_all harmless config_h_2210"
  "list_all harmless config_h_2356"
  "list_all harmless config_h_2505"
  "list_all harmless config_h_2651"
  "list_all harmless config_h_2799"
  "list_all harmless config_h_2949"
  by (simp_all add: config_h_defs If_defined_def If_undefined_def)

lemma defaults_define_3:
  "list_all (\<lambda>d. defined_by d \<inter> set chip_off = {}) config_h_1916"
  "list_all (\<lambda>d. defined_by d \<inter> set chip_off = {}) config_h_2061"
  "list_all (\<lambda>d. defined_by d \<inter> set chip_off = {}) config_h_2210"
  "list_all (\<lambda>d. defined_by d \<inter> set chip_off = {}) config_h_2356"
  "list_all (\<lambda>d. defined_by d \<inter> set chip_off = {}) config_h_2505"
  "list_all (\<lambda>d. defined_by d \<inter> set chip_off = {}) config_h_2651"
  "list_all (\<lambda>d. defined_by d \<inter> set chip_off = {}) config_h_2799"
  "list_all (\<lambda>d. defined_by d \<inter> set chip_off = {}) config_h_2949"
  by (simp_all add: config_h_defs If_defined_def If_undefined_def other_names Int_Un_distrib2)

lemma defaults_harmless_4:
  "list_all harmless config_h_3093"
  "list_all harmless config_h_3238"
  "list_all harmless config_h_3388"
  "list_all harmless config_h_3537"
  "list_all harmless config_h_3684"
  "list_all harmless config_h_3833"
  "list_all harmless config_h_3980"
  by (simp_all add: config_h_defs If_defined_def If_undefined_def)

lemma defaults_define_4:
  "list_all (\<lambda>d. defined_by d \<inter> set chip_off = {}) config_h_3093"
  "list_all (\<lambda>d. defined_by d \<inter> set chip_off = {}) config_h_3238"
  "list_all (\<lambda>d. defined_by d \<inter> set chip_off = {}) config_h_3388"
  "list_all (\<lambda>d. defined_by d \<inter> set chip_off = {}) config_h_3537"
  "list_all (\<lambda>d. defined_by d \<inter> set chip_off = {}) config_h_3684"
  "list_all (\<lambda>d. defined_by d \<inter> set chip_off = {}) config_h_3833"
  "list_all (\<lambda>d. defined_by d \<inter> set chip_off = {}) config_h_3980"
  by (simp_all add: config_h_defs If_defined_def If_undefined_def other_names Int_Un_distrib2)

lemma defaults_reset_1:
  "Undef ''CONFIG_ISH_PM_RESET_PREP'' \<in> set config_h_3980"
  "Undef ''CONFIG_ISH_PM_D3'' \<in> set config_h_3980"
  "Undef ''CONFIG_ISH_PM_D0I3'' \<in> set config_h_3980"
  "Undef ''CONFIG_ISH_PM_D0I2'' \<in> set config_h_3980"
  "Undef ''CONFIG_USB_PD_TCPC'' \<in> set config_h_3388"
  "Undef ''CONFIG_USB_PD_DISCHARGE_PPC'' \<in> set config_h_3238"
  "Undef ''CONFIG_USB_PD_DISCHARGE_TCPC'' \<in> set config_h_3238"
  "Undef ''CONFIG_USB_PD_DISCHARGE_GPIO'' \<in> set config_h_3238"
  "Undef ''CONFIG_USB_PD_DISCHARGE'' \<in> set config_h_3238"
  "Undef ''CONFIG_USB_POWER_DELIVERY'' \<in> set config_h_3238"
  unfolding config_h_defs by ((rule list.set_intros(1) | rule list.set_intros(2))+)

lemma defaults_reset_2:
  "Undef ''CONFIG_TOUCHPAD'' \<in> set config_h_3093"
  "Undef ''CONFIG_DPTF_MULTI_PROFILE'' \<in> set config_h_3093"
  "Undef ''CONFIG_DPTF'' \<in> set config_h_3093"
  "Undef ''CONFIG_SPP'' \<in> set config_h_2799"
  "Undef ''CONFIG_RBOX'' \<in> set config_h_2651"
  "Undef ''CONFIG_PWM'' \<in> set config_h_2651"
  "Undef ''CONFIG_PHYSICAL_PRESENCE'' \<in> set config_h_2505"
  "Undef ''CONFIG_MKBP_EVENT'' \<in> set config_h_2505"
  "Undef ''CONFIG_HOSTCMD_ESPI_VW_SLP_S4'' \<in> set config_h_2356"
  "Undef ''CONFIG_HOSTCMD_ESPI_VW_SLP_S3'' \<in> set config_h_2356"
  unfolding config_h_defs by ((rule list.set_intros(1) | rule list.set_intros(2))+)

lemma defaults_reset_3:
  "Undef ''CONFIG_HOSTCMD_ESPI'' \<in> set config_h_2356"
  "Undef ''CONFIG_HOSTCMD_LPC'' \<in> set config_h_2356"
  "Undef ''CONFIG_HOSTCMD_X86'' \<in> set config_h_2356"
  "Undef ''CONFIG_KEYBOARD_PROTOCOL_MKBP'' \<in> set config_h_2210"
  "Undef ''CONFIG_IPI'' \<in> set config_h_2061"
  "Undef ''CONFIG_I2C'' \<in> set config_h_1916"
  "Undef ''CONFIG_GESTURE_SW_DETECTION'' \<in> set config_h_1685"
  "Undef ''CONFIG_FLASH_READOUT_PROTECTION_AS_PSTATE'' \<in> set config_h_1535"
  "Undef ''CONFIG_FANS'' \<in> set config_h_1390"
  "Undef ''CONFIG_DMA'' \<in> set config_h_1390"
  unfolding config_h_defs by ((rule list.set_intros(1) | rule list.set_intros(2))+)

lemma defaults_reset_4:
  "Undef ''CONFIG_CEC'' \<in> set config_h_513"
  "Undef ''CONFIG_AUDIO_CODEC'' \<in> set config_h_218"
  "Undef ''CONFIG_KX022_ORIENTATION_SENSOR'' \<in> set config_h_28"
  "Undef ''CONFIG_BMI160_ORIENTATION_SENSOR'' \<in> set config_h_28"
  "Undef ''CONFIG_MAG_BMI160_LIS2MDL'' \<in> set config_h_28"
  "Undef ''CONFIG_MAG_BMI160_BMM150'' \<in> set config_h_28"
  "Undef ''CONFIG_ACCEL_FIFO'' \<in> set config_h_28"
  unfolding config_h_defs by ((rule list.set_intros(1) | rule list.set_intros(2))+)

lemmas defaults_reset =
  defaults_reset_1 defaults_reset_2 defaults_reset_3 defaults_reset_4

lemmas defaults_facts =
  defaults_harmless_1 defaults_define_1 defaults_harmless_2 defaults_define_2 defaults_harmless_3
   defaults_define_3 defaults_harmless_4 defaults_define_4

lemma first_analysis: "analyse_all chip_analysis config_h_21 build_off = Some build_off"
  by code_simp

section \<open>The checks\<close>

lemma includes_analysis: "analyse_all chip_analysis config_includes chip_off = Some checks_off"
  by (simp add: config_includes_def header_analysis_def config_chip_h_def config_chip_h_7_def config_chip_h_40_def
      config_chip_h_101_def board_h_def board_h_body_def analysis_eval)

lemma checks_analysis_1:
  "analyse_all chip_analysis config_host_bus checks_off = Some checks_off"
  "analyse_all chip_analysis config_memory checks_off = Some checks_off"
  "analyse_all chip_analysis config_console_thermal checks_off = Some checks_off"
  "analyse_all chip_analysis config_mkbp_event checks_off = Some checks_off"
  "analyse_all chip_analysis config_mkbp_delivery checks_off = Some checks_off"
  by (simp_all add: config_host_bus_def config_memory_def config_console_thermal_def config_mkbp_event_def config_mkbp_delivery_def analysis_eval)

lemma checks_analysis_2:
  "analyse_all chip_analysis config_orientation checks_off = Some checks_off"
  "analyse_all chip_analysis config_derived checks_off = Some checks_off"
  "analyse_all chip_analysis config_discharge_common checks_off = Some checks_off"
  "analyse_all chip_analysis config_derived_drivers checks_off = Some checks_off"
  "analyse_all chip_analysis config_tasks checks_off = Some checks_off"
  by (simp_all add: config_orientation_def config_derived_def config_discharge_common_def config_derived_drivers_def config_tasks_def analysis_eval)

lemma checks_analysis_3:
  "analyse_all chip_analysis config_chipset checks_off = Some checks_off"
  "analyse_all chip_analysis config_overrides checks_off = Some checks_off"
  "analyse_all chip_analysis config_magnetometer checks_off = Some checks_off"
  "analyse_all chip_analysis config_flash_protection checks_off = Some checks_off"
  "analyse_all chip_analysis config_power_delivery checks_off = Some checks_off"
  by (simp_all add: config_chipset_def config_overrides_def config_magnetometer_def config_flash_protection_def config_power_delivery_def header_analysis_def fuzz_config_h_def test_config_h_def analysis_eval)

lemma checks_analysis_4:
  "analyse_all chip_analysis config_ish checks_off = Some checks_off"
  "analyse_all chip_analysis config_accel_fifo checks_off = Some checks_off"
  "analyse_all chip_analysis config_discharge checks_off = Some checks_off"
  "analyse_all chip_analysis config_crypto checks_off = Some checks_off"
  by (simp_all add: config_ish_def config_accel_fifo_def config_discharge_def config_crypto_def analysis_eval)

lemmas checks_analysis =
  checks_analysis_1 checks_analysis_2 checks_analysis_3 checks_analysis_4

end
