(* ===== verification/ConfigProofs.thy ===== *)
theory ConfigProofs
  imports ConfigAnalysis
begin

text \<open>
  Proofs about the checks of config.h: which combinations of options they exclude, whatever is
  defined in front of them.
\<close>

section \<open>What config.h excludes\<close>

text \<open>
  The conditions behind the \<open>#error\<close> directives, on the macros at the end of config.h.
\<close>

definition host_bus_ok :: "pp_state \<Rightarrow> bool" where
  "host_bus_ok s \<longleftrightarrow>
     \<not> (on s ''CONFIG_HOSTCMD_LPC'' \<and> on s ''CONFIG_HOSTCMD_ESPI'') \<and>
     (on s ''CONFIG_HOSTCMD_X86'' \<longleftrightarrow> on s ''CONFIG_HOSTCMD_LPC'' \<or> on s ''CONFIG_HOSTCMD_ESPI'') \<and>
     (on s ''CONFIG_HOST_ESPI_VW_POWER_SIGNAL'' \<longrightarrow> on s ''CONFIG_HOSTCMD_ESPI'')"

definition orientation_ok :: "pp_state \<Rightarrow> bool" where
  "orientation_ok s \<longleftrightarrow>
     (on s ''CONFIG_KX022_ORIENTATION_SENSOR'' \<or> on s ''CONFIG_BMI160_ORIENTATION_SENSOR'' \<longrightarrow>
      on s ''CONFIG_ACCEL_FIFO'' \<and> on s ''CONFIG_ORIENTATION_SENSOR'')"

definition magnetometer_ok :: "pp_state \<Rightarrow> bool" where
  "magnetometer_ok s \<longleftrightarrow>
     (on s ''CONFIG_MAG_BMI160_LIS2MDL'' \<or> on s ''CONFIG_MAG_BMI160_BMM150'' \<longrightarrow>
      on s ''CONFIG_ACCELGYRO_SEC_ADDR_FLAGS'' \<and> on s ''CONFIG_BMI160_SEC_I2C'')"

definition flash_protection_ok :: "pp_state \<Rightarrow> bool" where
  "flash_protection_ok s \<longleftrightarrow>
     (on s ''CONFIG_FLASH_READOUT_PROTECTION_AS_PSTATE'' \<longrightarrow>
      \<not> on s ''CONFIG_FLASH_PSTATE'' \<and> (on s ''CHIP_FAMILY_STM32H7'' \<or> on s ''CHIP_FAMILY_STM32F4''))"

definition power_ok :: "pp_state \<Rightarrow> bool" where
  "power_ok s \<longleftrightarrow>
     (on s ''CONFIG_DPTF_MULTI_PROFILE'' \<longrightarrow> on s ''CONFIG_DPTF'') \<and> on s ''CONFIG_SLEEP_TIMEOUT_MS''"

definition ish_ok :: "pp_state \<Rightarrow> bool" where
  "ish_ok s \<longleftrightarrow>
     (on s ''CONFIG_ISH_PM_D0I2'' \<or> on s ''CONFIG_ISH_PM_D0I3'' \<or> on s ''CONFIG_ISH_PM_D3'' \<or>
      on s ''CONFIG_ISH_PM_RESET_PREP'' \<longrightarrow> on s ''CONFIG_LOW_POWER_IDLE'' \<and> on s ''CONFIG_ISH_PM_AONTASK'')"

definition accel_fifo_ok :: "pp_state \<Rightarrow> bool" where
  "accel_fifo_ok s \<longleftrightarrow>
     (on s ''CONFIG_ACCEL_FIFO'' \<longrightarrow> on s ''CONFIG_ACCEL_FIFO_SIZE'' \<and> on s ''CONFIG_ACCEL_FIFO_THRES'')"

definition discharge_ok :: "pp_state \<Rightarrow> bool" where
  "discharge_ok s \<longleftrightarrow>
     (on s ''CONFIG_USB_PD_DISCHARGE'' \<longrightarrow>
      (if on s ''CONFIG_USB_PD_DISCHARGE_GPIO'' then on s ''CONFIG_USB_PD_PORT_COUNT''
       else on s ''CONFIG_USB_PD_DISCHARGE_TCPC'' \<or> on s ''CONFIG_USB_PD_DISCHARGE_PPC''))"

text \<open>Each group of checks establishes its condition where it stands.\<close>

lemma checked:
  "run_directives inc config_host_bus t = Inr u \<Longrightarrow> host_bus_ok u"
  "run_directives inc config_orientation t = Inr u \<Longrightarrow> orientation_ok u"
  "run_directives inc config_magnetometer t = Inr u \<Longrightarrow> magnetometer_ok u"
  "run_directives inc config_flash_protection t = Inr u \<Longrightarrow> flash_protection_ok u"
  "run_directives inc config_power_delivery t = Inr u \<Longrightarrow> power_ok u"
  "run_directives inc config_ish t = Inr u \<Longrightarrow> ish_ok u"
  "run_directives inc config_accel_fifo t = Inr u \<Longrightarrow> accel_fifo_ok u"
  "run_directives inc config_discharge t = Inr u \<Longrightarrow> discharge_ok u"
  by (auto simp: config_host_bus_def host_bus_ok_def config_orientation_def orientation_ok_def
      config_magnetometer_def magnetometer_ok_def config_flash_protection_def flash_protection_ok_def
      config_power_delivery_def power_ok_def config_ish_def ish_ok_def config_accel_fifo_def accel_fifo_ok_def
      config_discharge_def discharge_ok_def bind_result_def split: if_splits)

text \<open>The names that the parts behind a check touch.\<close>

abbreviation config_names :: "string \<Rightarrow> string set" where
  "config_names \<equiv> header_names external_names"

lemmas section_defs =
  config_memory_def config_console_thermal_def config_mkbp_event_def config_mkbp_delivery_def
  config_orientation_def config_derived_def config_discharge_common_def config_derived_drivers_def
  config_tasks_def config_chipset_def config_overrides_def config_timers_def config_magnetometer_def
  config_flash_protection_def config_power_delivery_def config_ish_def config_accel_fifo_def
  config_discharge_def config_crypto_def
  header_names_def fuzz_config_h_def fuzz_config_h_body_def test_config_h_def test_config_h_9_def
  test_config_h_57_def test_config_h_111_def

lemma before_derived_keeps:
  "{''CONFIG_HOSTCMD_LPC'', ''CONFIG_HOSTCMD_ESPI'', ''CONFIG_HOSTCMD_X86'', ''CONFIG_HOST_ESPI_VW_POWER_SIGNAL''} \<inter>
     touched_all config_names (config_memory @ config_console_thermal @ config_mkbp_event @ config_mkbp_delivery @
       config_orientation) = {}"
  by (simp add: section_defs)

definition from_derived :: "directive list" where
  "from_derived =
     config_derived @ config_discharge_common @ config_derived_drivers @ config_tasks @ config_chipset @
     config_overrides @ config_timers @ config_magnetometer @ config_flash_protection @ config_power_delivery @
     config_ish @ config_accel_fifo @ config_discharge @ config_crypto"

lemma from_derived_keeps:
  "{''CONFIG_HOSTCMD_LPC'', ''CONFIG_HOSTCMD_ESPI'', ''CONFIG_HOSTCMD_X86'', ''CONFIG_HOST_ESPI_VW_POWER_SIGNAL'',
    ''CONFIG_MKBP_EVENT'', ''CONFIG_MKBP_USE_CUSTOM'', ''CONFIG_MKBP_USE_HOST_EVENT'', ''CONFIG_MKBP_USE_GPIO'',
    ''CONFIG_MKBP_USE_GPIO_AND_HOST_EVENT'', ''CONFIG_MKBP_USE_HECI'', ''CONFIG_MKBP_USE_HOST_HECI'',
    ''CONFIG_KX022_ORIENTATION_SENSOR'', ''CONFIG_BMI160_ORIENTATION_SENSOR'', ''CONFIG_ACCEL_FIFO'',
    ''CONFIG_ORIENTATION_SENSOR''} \<inter> touched_all config_names from_derived = {}"
  by (simp add: from_derived_def section_defs)

lemma after_checks_keep:
  "touched_all config_names config_crypto =
     {''CONFIG_SHA256'', ''CONFIG_CRC8'', ''CONFIG_FIPS_RSA2048'', ''CONFIG_FIPS_SW_HMAC_DRBG'', ''CONFIG_FIPS_AES_CBC_256'',
      ''CONFIG_FIPS_ECDSA_PWCT''}"
  "touched_all config_names config_discharge = {}"
  "touched_all config_names config_accel_fifo = {}"
  "touched_all config_names config_ish = {''CONFIG_ISH_PM_AONTASK''}"
  "touched_all config_names config_power_delivery =
     {''CONFIG_USB_PD_TCPM_ANX74XX'', ''CONFIG_SLEEP_TIMEOUT_MS'', ''CONFIG_KEYBOARD_BACKLIGHT''}"
  "touched_all config_names config_flash_protection = {''CONFIG_MOTION_FILL_LPC_SENSE_DATA''}"
  by (auto simp: config_crypto_def config_discharge_def config_accel_fifo_def config_ish_def config_power_delivery_def
      config_flash_protection_def)

text \<open>
  The delivery methods of keyboard events: at least one of five names, at most one of four; the two
  lists do not agree.
\<close>

definition mkbp_required :: "string list" where
  "mkbp_required =
     [''CONFIG_MKBP_USE_CUSTOM'', ''CONFIG_MKBP_USE_HOST_EVENT'', ''CONFIG_MKBP_USE_GPIO'',
      ''CONFIG_MKBP_USE_GPIO_AND_HOST_EVENT'', ''CONFIG_MKBP_USE_HECI'']"

definition mkbp_exclusive :: "string list" where
  "mkbp_exclusive =
     [''CONFIG_MKBP_USE_CUSTOM'', ''CONFIG_MKBP_USE_GPIO'', ''CONFIG_MKBP_USE_HOST_EVENT'',
      ''CONFIG_MKBP_USE_HOST_HECI'']"

definition mkbp_ok :: "pp_state \<Rightarrow> bool" where
  "mkbp_ok s \<longleftrightarrow>
     (on s ''CONFIG_MKBP_EVENT'' \<longrightarrow>
      (\<exists>n \<in> set mkbp_required. on s n) \<and> length (filter (on s) mkbp_exclusive) \<le> 1)"

lemma mkbp_ok_cong:
  assumes "\<And>n. n \<in> set (''CONFIG_MKBP_EVENT'' # mkbp_required @ mkbp_exclusive) \<Longrightarrow> macros s n = macros t n"
  shows "mkbp_ok s = mkbp_ok t"
proof -
  have "filter (on s) mkbp_exclusive = filter (on t) mkbp_exclusive"
    using assms by (intro filter_cong) auto
  then show ?thesis using assms by (auto simp: mkbp_ok_def)
qed

lemma holds_sum4:
  "holds m (Greater (Add (Add (Add (Defined a) (Defined b)) (Defined c)) (Defined d)) (Lit 1)) =
     Some (1 < length (filter (\<lambda>n. m n \<noteq> None) [a, b, c, d]))"
  by (simp add: holds_def strict2_def truth_def)

lemma mkbp_delivery_checked:
  "(\<exists>u. run_directives inc config_mkbp_delivery t = Inr u) \<longleftrightarrow> mkbp_ok t"
  "run_directives inc config_mkbp_delivery t = Inr u \<Longrightarrow> u = t"
  unfolding config_mkbp_delivery_def mkbp_ok_def mkbp_required_def mkbp_exclusive_def
  by (simp_all add: holds_sum4 bind_result_def not_less split: if_splits)

text \<open>Each condition depends on the macros of its names only.\<close>

lemmas conditions =
  host_bus_ok_def orientation_ok_def magnetometer_ok_def flash_protection_ok_def power_ok_def ish_ok_def
  accel_fifo_ok_def discharge_ok_def

context external_headers
begin

lemma enforced_at:
  assumes "run_directives (chip_include ext) (ds @ mid @ es) s = Inr s'"
    and "\<And>t u. run_directives (chip_include ext) mid t = Inr u \<Longrightarrow> P u"
    and "\<And>u. (\<And>n. n \<notin> touched_all config_names es \<Longrightarrow> macros s' n = macros u n) \<Longrightarrow> P u \<Longrightarrow> P s'"
  shows "P s'"
  using assms by (elim config.run_split) blast

lemma config_enforced:
  assumes s0: "run_directives (chip_include ext) config_checks s0 = Inr s'"
  shows "host_bus_ok s' \<and> mkbp_ok s' \<and> orientation_ok s' \<and> magnetometer_ok s' \<and> flash_protection_ok s' \<and>
    power_ok s' \<and> ish_ok s' \<and> accel_fifo_ok s' \<and> discharge_ok s'"
proof -
  let ?run = "run_directives (chip_include ext)"
  let ?to_orientation = "config_memory @ config_console_thermal @ config_mkbp_event @ config_mkbp_delivery @
    config_orientation"
  note lists = config_checks_def from_derived_def
  have 1: "?run (config_includes @ config_host_bus @ ?to_orientation @ from_derived) s0 = Inr s'"
    using s0 by (simp add: lists)
  have 2: "?run ((config_includes @ config_host_bus @ config_memory @ config_console_thermal @
      config_mkbp_event) @ config_mkbp_delivery @ config_orientation @ from_derived) s0 = Inr s'"
    using s0 by (simp add: lists)
  have 3: "?run ((config_includes @ config_host_bus @ config_memory @ config_console_thermal @
      config_mkbp_event @ config_mkbp_delivery) @ config_orientation @ from_derived) s0 = Inr s'"
    using s0 by (simp add: lists)
  obtain pre where pre: "config_checks = pre @ config_magnetometer @ config_flash_protection @
      config_power_delivery @ config_ish @ config_accel_fifo @ config_discharge @ config_crypto"
    by (simp add: config_checks_def flip: append_assoc)
  note late = s0 [unfolded pre]
  have "host_bus_ok s'"
    by (rule enforced_at [OF 1, where P = host_bus_ok], erule checked)
      (use before_derived_keeps from_derived_keeps in \<open>simp add: conditions\<close>)
  moreover have "mkbp_ok s'"
  proof (rule enforced_at [OF 2, where P = mkbp_ok])
    show "run_directives (chip_include ext) config_mkbp_delivery t = Inr u \<Longrightarrow> mkbp_ok u" for t u
      using mkbp_delivery_checked by metis
  next
    fix u :: pp_state
    assume u: "\<And>n. n \<notin> touched_all config_names (config_orientation @ from_derived) \<Longrightarrow> macros s' n = macros u n"
    have "mkbp_ok s' = mkbp_ok u"
      by (rule mkbp_ok_cong, rule u)
        (use from_derived_keeps in \<open>auto simp: mkbp_required_def mkbp_exclusive_def config_orientation_def\<close>)
    then show "mkbp_ok u \<Longrightarrow> mkbp_ok s'" by simp
  qed
  moreover have "orientation_ok s'"
    by (rule enforced_at [OF 3, where P = orientation_ok], erule checked)
      (use from_derived_keeps in \<open>simp add: conditions\<close>)
  moreover have "magnetometer_ok s'"
    by (rule enforced_at [OF late, where P = magnetometer_ok], erule checked)
      (simp add: conditions after_checks_keep)
  moreover have "flash_protection_ok s'"
    by (rule enforced_at [of "pre @ config_magnetometer" config_flash_protection
          "config_power_delivery @ config_ish @ config_accel_fifo @ config_discharge @ config_crypto" s0 s' flash_protection_ok],
        use late in simp, erule checked) (simp add: conditions after_checks_keep)
  moreover have "power_ok s'"
    by (rule enforced_at [of "pre @ config_magnetometer @ config_flash_protection" config_power_delivery
          "config_ish @ config_accel_fifo @ config_discharge @ config_crypto" s0 s' power_ok],
        use late in simp, erule checked) (simp add: conditions after_checks_keep)
  moreover have "ish_ok s'"
    by (rule enforced_at [of "pre @ config_magnetometer @ config_flash_protection @ config_power_delivery" config_ish
          "config_accel_fifo @ config_discharge @ config_crypto" s0 s' ish_ok],
        use late in simp, erule checked) (simp add: conditions after_checks_keep)
  moreover have "accel_fifo_ok s'"
    by (rule enforced_at [of "pre @ config_magnetometer @ config_flash_protection @ config_power_delivery @ config_ish" config_accel_fifo
          "config_discharge @ config_crypto" s0 s' accel_fifo_ok],
        use late in simp, erule checked) (simp add: conditions after_checks_keep)
  moreover have "discharge_ok s'"
    by (rule enforced_at [of "pre @ config_magnetometer @ config_flash_protection @ config_power_delivery @ config_ish @ config_accel_fifo" config_discharge
          "config_crypto" s0 s' discharge_ok],
        use late in simp, erule checked) (simp add: conditions after_checks_keep split: if_splits)
  ultimately show ?thesis by simp
qed

end

end
