(* ===== verification/ChipConfig.thy ===== *)
theory ChipConfig
  imports ConfigProofs
begin

text \<open>
  The configuration of this chip: config.h with the headers of chip/c accepts it, whatever tasks the
  build has, and the values of the flash layout and the timers it ends with.
\<close>

section \<open>Values\<close>

text \<open>The macros whose values matter here, with their bodies (config.h, config_chip.h).\<close>

definition timer_values :: "(string \<times> body) list" where
  "timer_values =
     [(''CONFIG_AUX_TIMER_PERIOD_MS'', Value (Sub (Name ''CONFIG_WATCHDOG_PERIOD_MS'') (Lit 500))),
      (''CONFIG_WATCHDOG_PERIOD_MS'', Value (Lit 1600))]"

definition layout_values :: "(string \<times> body) list" where
  "layout_values =
     [(''HOOK_TICK_INTERVAL_MS'', Value (Lit 500)),
      (''CONFIG_IRQ_COUNT'', Value (Sub (Name ''GC_INTERRUPTS_COUNT'') (Lit 15))),
      (''CONFIG_PROGRAM_MEMORY_BASE'', Value (Lit 0x40000)),
      (''CONFIG_FLASH_SIZE'', Value (Mul (Lit 512) (Lit 1024))),
      (''CONFIG_RO_HEAD_ROOM'', Value (Lit 1024)),
      (''CONFIG_RW_HEAD_ROOM'', Value (Name ''CONFIG_RO_HEAD_ROOM'')),
      (''CFG_FLASH_HALF'', Value (ShiftRight (Name ''CONFIG_FLASH_SIZE'') (Lit 1))),
      (''CFG_TOP_SIZE'', Value (Lit 0x3000)),
      (''CFG_TOP_A_OFF'', Value (Sub (Name ''CFG_FLASH_HALF'') (Name ''CFG_TOP_SIZE''))),
      (''CFG_TOP_B_OFF'', Value (Sub (Name ''CONFIG_FLASH_SIZE'') (Name ''CFG_TOP_SIZE''))),
      (''CONFIG_RO_MEM_OFF'', Value (Lit 0)),
      (''CHIP_RO_B_MEM_OFF'', Value (Name ''CFG_FLASH_HALF'')),
      (''CONFIG_RO_SIZE'', Value (Lit 0x4000)),
      (''CONFIG_RW_MEM_OFF'', Value (Name ''CONFIG_RO_SIZE'')),
      (''CONFIG_RW_B_MEM_OFF'', Value (Add (Name ''CFG_FLASH_HALF'') (Name ''CONFIG_RW_MEM_OFF''))),
      (''CONFIG_RW_SIZE'', Value (Sub (Sub (Name ''CFG_FLASH_HALF'') (Name ''CONFIG_RW_MEM_OFF'')) (Name ''CFG_TOP_SIZE''))),
      (''CONFIG_FLASH_LOG_SPACE'', Value (Name ''CONFIG_FLASH_BANK_SIZE'')),
      (''CONFIG_FLASH_LOG_BASE'', Value (Sub (Add (Add (Name ''CONFIG_PROGRAM_MEMORY_BASE'') (Name ''CHIP_RO_B_MEM_OFF''))
         (Name ''CONFIG_RO_SIZE'')) (Name ''CONFIG_FLASH_LOG_SPACE''))),
      (''AP_RO_DATA_SPACE_SIZE'', Value (Name ''CONFIG_FLASH_BANK_SIZE'')),
      (''AP_RO_DATA_SPACE_ADDR'', Value (Sub (Name ''CONFIG_FLASH_LOG_BASE'') (Name ''AP_RO_DATA_SPACE_SIZE''))),
      (''MAX_RO_CODE_SIZE'', Value (Sub (Sub (Name ''CONFIG_RO_SIZE'') (Name ''CONFIG_FLASH_LOG_SPACE''))
         (Name ''AP_RO_DATA_SPACE_SIZE'')))]"

definition bank_values :: "(string \<times> body) list" where
  "bank_values = [(''CONFIG_FLASH_BANK_SIZE'', Value (Lit 0x800))]"

definition binds :: "pp_state \<Rightarrow> (string \<times> body) list \<Rightarrow> bool" where
  "binds s vs \<longleftrightarrow> (\<forall>(n, b) \<in> set vs. macros s n = Some b)"

lemma binds_frame:
  "binds u vs \<Longrightarrow> fst ` set vs \<inter> S = {} \<Longrightarrow> (\<And>n. n \<notin> S \<Longrightarrow> macros s' n = macros u n) \<Longrightarrow> binds s' vs"
  by (fastforce simp: binds_def)

abbreviation all_values :: "(string \<times> body) list" where
  "all_values \<equiv> timer_values @ bank_values @ layout_values"

lemma timer_bindings: "list_all (\<lambda>(n, b). last_binding n config_h_3833 = Some (Some b)) timer_values"
  by code_simp

lemma layout_bindings: "list_all (\<lambda>(n, b). last_binding n (config_chip_h_40 @ config_chip_h_101) = Some (Some b)) layout_values"
  by code_simp

lemma plain_parts: "list_all plain_directive config_h_3833" "list_all plain_directive (config_chip_h_40 @ config_chip_h_101)"
  by code_simp+

lemma timers_kept:
  "fst ` set timer_values \<inter> touched_all config_names (config_h_3980 @ config_includes) = {}"
  by (simp add: timer_values_def config_h_3980_def config_includes_def header_names_def config_chip_h_def config_chip_h_7_def
      config_chip_h_40_def config_chip_h_101_def board_h_def board_h_body_def external_names_def regdef_names_def)

lemma values_kept:
  "fst ` set all_values \<inter> touched_all config_names (config_host_bus @ config_memory @ config_console_thermal @
      config_mkbp_event @ config_mkbp_delivery @ config_orientation @ config_derived @ config_discharge_common @
      config_derived_drivers @ config_tasks @ config_chipset) = {}"
  "fst ` set all_values \<inter> touched_all config_names (config_magnetometer @ config_flash_protection @ config_power_delivery @
      config_ish @ config_accel_fifo @ config_discharge @ config_crypto) = {}"
  by (simp_all add: timer_values_def layout_values_def bank_values_def config_host_bus_def section_defs)

text \<open>The number of interrupts comes from the register definitions; nothing else defines it.\<close>

lemma interrupts_kept:
  "''GC_INTERRUPTS_COUNT'' \<notin> touched_all config_names (config_host_bus @ config_memory @ config_console_thermal @
      config_mkbp_event @ config_mkbp_delivery @ config_orientation @ config_derived @ config_discharge_common @
      config_derived_drivers @ config_tasks @ config_chipset)"
  "''GC_INTERRUPTS_COUNT'' \<notin> touched_all config_names (config_magnetometer @ config_flash_protection @ config_power_delivery @
      config_ish @ config_accel_fifo @ config_discharge @ config_crypto)"
  by (simp_all add: config_host_bus_def section_defs)

section \<open>The run of config.h for this chip\<close>

lemma rebind_binds:
  "list_all (\<lambda>(n, b). last_binding n ds = Some (Some b)) vs \<Longrightarrow> macros s = rebind ds m \<Longrightarrow> binds s vs"
  by (auto simp: binds_def list_all_iff rebind_def)

lemma binds_append [simp]: "binds s (vs @ ws) \<longleftrightarrow> binds s vs \<and> binds s ws"
  by (auto simp: binds_def)

lemma undefined_inD: "undefined_in N s \<Longrightarrow> n \<in> set N \<Longrightarrow> macros s n = None"
  by (simp add: undefined_in_def)

definition checks_to_chipset :: "directive list" where
  "checks_to_chipset =
     config_host_bus @ config_memory @ config_console_thermal @ config_mkbp_event @ config_mkbp_delivery @
     config_orientation @ config_derived @ config_discharge_common @ config_derived_drivers @ config_tasks @
     config_chipset"

definition checks_from_magnetometer :: "directive list" where
  "checks_from_magnetometer =
     config_magnetometer @ config_flash_protection @ config_power_delivery @ config_ish @ config_accel_fifo @
     config_discharge @ config_crypto"

lemma config_checks_split:
  "config_checks = config_includes @ checks_to_chipset @ config_overrides @ config_timers @ checks_from_magnetometer"
  by (simp add: config_checks_def checks_to_chipset_def checks_from_magnetometer_def)

lemma parts_analysis:
  "analyse_all chip_analysis checks_to_chipset checks_off = Some checks_off"
  "analyse_all chip_analysis checks_from_magnetometer checks_off = Some checks_off"
  by (simp_all add: checks_to_chipset_def checks_from_magnetometer_def analyse_append checks_analysis)

definition defaults_rest :: "directive list" where
  "defaults_rest =
     config_h_28 @ config_h_175 @ config_h_208 @ config_h_218 @ config_h_366 @ config_h_513 @
     config_h_663 @ config_h_813 @ config_h_961 @ config_h_1111 @ config_h_1256 @ config_h_1390 @
     config_h_1535 @ config_h_1685 @ config_h_1830 @ config_h_1909 @ config_h_1916 @ config_h_2061 @
     config_h_2210 @ config_h_2356 @ config_h_2505 @ config_h_2651 @ config_h_2799 @ config_h_2949 @
     config_h_3093 @ config_h_3238 @ config_h_3388 @ config_h_3537 @ config_h_3684 @ config_h_3833 @
     config_h_3980"

lemma defaults_rest: "config_defaults = config_h_21 @ defaults_rest"
  by (simp add: config_defaults_def defaults_rest_def)

lemma defaults_rest_facts:
  "list_all harmless defaults_rest"
  "list_all (\<lambda>d. defined_by d \<inter> set chip_off = {}) defaults_rest"
  "list_all (\<lambda>n. Undef n \<in> set defaults_rest) chip_resets"
  by (simp_all add: defaults_rest_def defaults_facts, simp add: chip_resets_def defaults_reset)

lemma timers_pass:
  "binds s timer_values \<Longrightarrow> binds s layout_values \<Longrightarrow> run_directives inc config_timers s = Inr s"
  by (simp add: config_timers_def binds_def timer_values_def layout_values_def holds_def strict2_def EXPANSIONS_def
      truth_def eval_nat_numeral)

lemma overrides_off:
  assumes "undefined_in checks_off s"
  shows "\<exists>s'. run_directives (chip_include ext) config_overrides s = Inr s' \<and>
    (\<forall>n. n \<notin> {''__FUZZ_FUZZ_CONFIG_H'', ''__TEST_TEST_CONFIG_H''} \<longrightarrow> macros s' n = macros s n)"
proof -
  have "macros s ''TEST_FUZZ'' = None" "macros s ''TEST_BUILD'' = None"
    using assms by (auto simp: undefined_in_def tested_off tested_off [THEN set_offs(3)] chip_guard)
  then show ?thesis
    by (simp add: config_overrides_def chip_include_def fuzz_config_h_def test_config_h_def run_guarded bind_result_def)
qed

context external_headers
begin

lemma defaults_reach:
  assumes "undefined_in build_off s"
  shows "reaches (run_directives (chip_include ext) config_defaults s) chip_off"
proof -
  from config_analysis.analysis_sound [OF first_analysis assms] obtain t
    where t: "run_directives (chip_include ext) config_h_21 s = Inr t" "undefined_in build_off t"
    by (auto simp: reaches_def)
  from harmless_run [OF defaults_rest_facts(1)] obtain u
    where u: "run_directives (chip_include ext) defaults_rest t = Inr u" by blast
  have apart: "n \<in> set chip_off \<Longrightarrow> n \<notin> (\<Union>d \<in> set defaults_rest. defined_by d)" for n
    using defaults_rest_facts(2) by (auto simp: list_all_iff)
  have "macros u n = None" if n: "n \<in> set chip_off" for n
  proof (cases "n \<in> set chip_resets")
    case True
    then show ?thesis
      using defaults_rest_facts(3) by (intro reset_undefined [OF u _ apart [OF n]]) (simp add: list_all_iff)
  next
    case False
    with n t(2) show ?thesis
      by (intro stays_undefined [OF u apart [OF n]])
        (auto simp: undefined_in_def chip_off_def checks_off_def build_off_def)
  qed
  with t(1) u show ?thesis
    by (simp add: defaults_rest run_append bind_result_def reaches_def undefined_in_def)
qed

lemma timers_bound:
  assumes "run_directives (chip_include ext) (config_defaults @ config_includes) s = Inr s'"
  shows "binds s' timer_values"
proof -
  obtain pre where "config_defaults @ config_includes = pre @ config_h_3833 @ (config_h_3980 @ config_includes)"
    by (simp add: config_defaults_def flip: append_assoc)
  with assms obtain t u where u: "run_directives (chip_include ext) config_h_3833 t = Inr u"
    and kept: "\<And>n. n \<notin> touched_all config_names (config_h_3980 @ config_includes) \<Longrightarrow> macros s' n = macros u n"
    by (metis config.run_split)
  have "binds u timer_values"
    using u timer_bindings by (intro rebind_binds [of config_h_3833]) (auto simp: run_plain plain_parts)
  then show ?thesis by (rule binds_frame [OF _ timers_kept kept])
qed

lemma layout_bound:
  assumes "run_directives (chip_include ext) config_includes s = Inr s'" and "undefined_in chip_off s"
  shows "binds s' (bank_values @ layout_values) \<and>
    (\<exists>r r'. ext ''hw_b1_regdefs.h'' r = Inr r' \<and> macros s' ''GC_INTERRUPTS_COUNT'' = macros r' ''GC_INTERRUPTS_COUNT'')"
proof -
  have "macros s ''__CROS_EC_CONFIG_CHIP_H'' = None" "macros s ''__BOARD_H'' = None"
    using assms(2) by (auto simp: undefined_in_def tested_off tested_off [THEN set_offs(3)] chip_guard)
  with assms(1) obtain u where u: "run_directives ext (config_chip_h_7 @ config_chip_h_40 @ config_chip_h_101)
        (s\<lparr>macros := (macros s)(''__CROS_EC_CONFIG_CHIP_H'' \<mapsto> Empty)\<rparr>) = Inr u"
    and "run_directives ext board_h u = Inr s'"
    by (auto simp: config_includes_def chip_include_def config_chip_h_def run_guarded bind_result_def
        split: sum.splits)
  then have kept: "n \<notin> {''__CROS_EC_BOARD_H'', ''CONFIG_RNG''} \<Longrightarrow> macros s' n = macros u n" for n
    by (auto simp: board_h_def board_h_body_def run_guarded bind_result_def split: if_splits)
  from u obtain t where t: "run_directives ext config_chip_h_7
        (s\<lparr>macros := (macros s)(''__CROS_EC_CONFIG_CHIP_H'' \<mapsto> Empty)\<rparr>) = Inr t"
    and u': "run_directives ext (config_chip_h_40 @ config_chip_h_101) t = Inr u"
    by (subst (asm) run_append) (auto simp: bind_result_def split: sum.splits)
  from t have bank: "macros t ''CONFIG_FLASH_BANK_SIZE'' = Some (Value (Lit 0x800))"
    by (auto simp: config_chip_h_7_def bind_result_def split: sum.splits)
  from t obtain r r' where r: "ext ''hw_b1_regdefs.h'' r = Inr r'"
    and "macros t ''GC_INTERRUPTS_COUNT'' = macros r' ''GC_INTERRUPTS_COUNT''"
    by (auto simp: config_chip_h_7_def bind_result_def split: sum.splits)
  moreover have "macros s' ''GC_INTERRUPTS_COUNT'' = macros t ''GC_INTERRUPTS_COUNT''"
    using ext.keeps [OF u', of "''GC_INTERRUPTS_COUNT''"]
    by (simp add: kept config_chip_h_40_def config_chip_h_101_def)
  ultimately have gc: "\<exists>r r'. ext ''hw_b1_regdefs.h'' r = Inr r' \<and>
      macros s' ''GC_INTERRUPTS_COUNT'' = macros r' ''GC_INTERRUPTS_COUNT''" by metis
  have "binds u layout_values"
    using u' run_plain [OF plain_parts(2), of ext t] by (intro rebind_binds [OF layout_bindings]) auto
  moreover have "binds u bank_values"
    using ext.keeps [OF u', of "''CONFIG_FLASH_BANK_SIZE''"] bank
    by (simp add: binds_def bank_values_def config_chip_h_40_def config_chip_h_101_def)
  ultimately have "binds u (bank_values @ layout_values)" by simp
  then have "binds s' (bank_values @ layout_values)"
    by (rule binds_frame [where S = "{''__CROS_EC_BOARD_H'', ''CONFIG_RNG''}"])
      (simp_all add: bank_values_def layout_values_def kept)
  with gc show ?thesis by blast
qed

lemma chip_run:
  assumes "undefined_in build_off s" and "macros s ''__CROS_EC_CONFIG_H'' = None"
  shows "\<exists>s' r r'. run_directives (chip_include ext) config_h s = Inr s' \<and> binds s' all_values \<and>
    undefined_in checks_off s' \<and> ext ''hw_b1_regdefs.h'' r = Inr r' \<and>
    macros s' ''GC_INTERRUPTS_COUNT'' = macros r' ''GC_INTERRUPTS_COUNT''"
proof -
  let ?run = "run_directives (chip_include ext)"
  define s0 where "s0 = s\<lparr>macros := (macros s)(''__CROS_EC_CONFIG_H'' \<mapsto> Empty)\<rparr>"
  have "undefined_in build_off s0"
    using assms(1) by (simp add: s0_def undefined_in_def build_off_def build_flags_def)
  from defaults_reach [OF this]
  obtain d where d: "?run config_defaults s0 = Inr d" "undefined_in chip_off d" by (auto simp: reaches_def)
  from config_analysis.analysis_sound [OF includes_analysis d(2)]
  obtain i where i: "?run config_includes d = Inr i" "undefined_in checks_off i" by (auto simp: reaches_def)
  have "?run (config_defaults @ config_includes) s0 = Inr i"
    using d i by (simp add: run_append bind_result_def)
  with layout_bound [OF i(1) d(2)] obtain r r' where i_values: "binds i all_values"
    and r: "ext ''hw_b1_regdefs.h'' r = Inr r'" "macros i ''GC_INTERRUPTS_COUNT'' = macros r' ''GC_INTERRUPTS_COUNT''"
    using timers_bound by auto
  from config_analysis.analysis_sound [OF parts_analysis(1) i(2)]
  obtain c where c: "?run checks_to_chipset i = Inr c" "undefined_in checks_off c" by (auto simp: reaches_def)
  have c_values: "binds c all_values"
    by (rule binds_frame [OF i_values values_kept(1) config.keeps [OF c(1)]]) (simp add: checks_to_chipset_def)
  from overrides_off [OF c(2)] obtain v where v: "?run config_overrides c = Inr v"
    and v_kept: "\<And>n. n \<notin> {''__FUZZ_FUZZ_CONFIG_H'', ''__TEST_TEST_CONFIG_H''} \<Longrightarrow> macros v n = macros c n"
    by metis
  have v_values: "binds v all_values"
    by (rule binds_frame [OF c_values, where S = "{''__FUZZ_FUZZ_CONFIG_H'', ''__TEST_TEST_CONFIG_H''}"])
      (simp_all add: timer_values_def layout_values_def bank_values_def v_kept)
  have v_off: "undefined_in checks_off v"
    using config_analysis.analysis_sound [OF checks_analysis_3(2) c(2)] v by (simp add: reaches_def)
  have w: "?run config_timers v = Inr v" using v_values by (intro timers_pass) auto
  from config_analysis.analysis_sound [OF parts_analysis(2) v_off]
  obtain e where e: "?run checks_from_magnetometer v = Inr e" "undefined_in checks_off e" by (auto simp: reaches_def)
  have "binds e all_values"
    by (rule binds_frame [OF v_values values_kept(2) config.keeps [OF e(1)]]) (simp add: checks_from_magnetometer_def)
  moreover have "?run config_h s = Inr e"
    using assms(2) d(1) i(1) c(1) v w e(1) unfolding config_h_def run_guarded config_checks_split
    by (simp add: run_append bind_result_def flip: s0_def)
  moreover have "macros e ''GC_INTERRUPTS_COUNT'' = macros i ''GC_INTERRUPTS_COUNT''"
    using config.keeps [OF e(1)] v_kept config.keeps [OF c(1)] interrupts_kept
    by (simp add: checks_to_chipset_def checks_from_magnetometer_def)
  ultimately show ?thesis using e(2) r by metis
qed

lemma chip_accepted:
  "undefined_in build_off s \<Longrightarrow> macros s ''__CROS_EC_CONFIG_H'' = None \<Longrightarrow>
     \<exists>s'. run_directives (chip_include ext) config_h s = Inr s' \<and> binds s' all_values \<and> undefined_in checks_off s'"
  using chip_run by blast

end

section \<open>Properties\<close>

text \<open>A state the preprocessor can start in: the build names its tasks and nothing else.\<close>

definition bare_build :: pp_state where
  "bare_build = \<lparr>macros = [''HAS_TASK_CONSOLE'' \<mapsto> Empty, ''HAS_TASK_HOOKS'' \<mapsto> Empty], emitted = []\<rparr>"

lemma bare_build_off: "undefined_in build_off bare_build" "macros bare_build ''__CROS_EC_CONFIG_H'' = None"
  by (simp_all add: bare_build_def undefined_in_def build_off_def build_flags_def)

text \<open>
  C6. What the checks of config.h guarantee, for any board: they run behind the defaults, and a run
  that gets to its end, from any table of macros, leaves a consistent one. There is at most one
  host bus and \<open>CONFIG_HOSTCMD_X86\<close> says whether there is one; keyboard events
  have a way to be delivered; sensors, flash protection, low-power states, accelerometer FIFO and
  discharge of the USB ports have the options they need.
\<close>
theorem config_checks_enforced:
  assumes "external_headers ext" and "run_directives (chip_include ext) config_checks s = Inr s'"
  shows "host_bus_ok s' \<and> mkbp_ok s' \<and> orientation_ok s' \<and> magnetometer_ok s' \<and> flash_protection_ok s' \<and>
    power_ok s' \<and> ish_ok s' \<and> accel_fifo_ok s' \<and> discharge_ok s'"
  using assms by (rule external_headers.config_enforced)

lemma checks_run: "\<exists>t s'. run_directives (chip_include build_headers) config_checks t = Inr s'"
proof -
  obtain s' where "run_directives (chip_include build_headers) config_h bare_build = Inr s'"
    using build.chip_accepted [OF bare_build_off] by blast
  then show ?thesis
    using bare_build_off(2) by (auto simp: config_h_def run_guarded run_append bind_result_def split: sum.splits)
qed

theorem config_checks_enforced_witness:
  "\<exists>t s'. run_directives (chip_include build_headers) config_checks t = Inr s' \<and> power_ok s' \<and> host_bus_ok s' \<and>
     on s' ''CONFIG_SLEEP_TIMEOUT_MS''"
proof -
  obtain t s' where r: "run_directives (chip_include build_headers) config_checks t = Inr s'"
    using checks_run by blast
  from config_checks_enforced [OF build.external_headers_axioms r] have "power_ok s' \<and> host_bus_ok s'" by simp
  with r show ?thesis by (auto simp: power_ok_def)
qed

text \<open>
  C31. The delivery of keyboard events: the checks accept exactly the states in which events are off, or
  one of the five names of \<open>mkbp_required\<close> is defined and at most one of the four names of
  \<open>mkbp_exclusive\<close>. The two lists disagree: two methods at once pass when one of them is
  \<open>CONFIG_MKBP_USE_HECI\<close> or \<open>CONFIG_MKBP_USE_GPIO_AND_HOST_EVENT\<close>, and
  \<open>CONFIG_MKBP_USE_HOST_HECI\<close> alone does not.
\<close>
theorem mkbp_delivery_exact:
  "(\<exists>u. run_directives inc config_mkbp_delivery t = Inr u) = mkbp_ok t \<and>
   (macros t = [''CONFIG_MKBP_EVENT'' \<mapsto> Empty, ''CONFIG_MKBP_USE_HECI'' \<mapsto> Empty, ''CONFIG_MKBP_USE_GPIO'' \<mapsto> Empty] \<longrightarrow>
      run_directives inc config_mkbp_delivery t = Inr t) \<and>
   (macros t = [''CONFIG_MKBP_EVENT'' \<mapsto> Empty, ''CONFIG_MKBP_USE_HOST_HECI'' \<mapsto> Empty] \<longrightarrow>
      run_directives inc config_mkbp_delivery t = Inl (ErrorDirective ''Please define one of CONFIG_MKBP_USE_* macro.''))"
proof (intro conjI impI)
  show "(\<exists>u. run_directives inc config_mkbp_delivery t = Inr u) = mkbp_ok t" by (rule mkbp_delivery_checked)
next
  assume t: "macros t = [''CONFIG_MKBP_EVENT'' \<mapsto> Empty, ''CONFIG_MKBP_USE_HECI'' \<mapsto> Empty, ''CONFIG_MKBP_USE_GPIO'' \<mapsto> Empty]"
  then have "mkbp_ok t" by (simp add: mkbp_ok_def mkbp_required_def mkbp_exclusive_def)
  then show "run_directives inc config_mkbp_delivery t = Inr t" using mkbp_delivery_checked by metis
next
  assume "macros t = [''CONFIG_MKBP_EVENT'' \<mapsto> Empty, ''CONFIG_MKBP_USE_HOST_HECI'' \<mapsto> Empty]"
  then show "run_directives inc config_mkbp_delivery t = Inl (ErrorDirective ''Please define one of CONFIG_MKBP_USE_* macro.'')"
    by (simp add: config_mkbp_delivery_def bind_result_def)
qed

theorem mkbp_delivery_exact_witness:
  "run_directives build_headers config_mkbp_delivery
     \<lparr>macros = [''CONFIG_MKBP_EVENT'' \<mapsto> Empty, ''CONFIG_MKBP_USE_HECI'' \<mapsto> Empty, ''CONFIG_MKBP_USE_GPIO'' \<mapsto> Empty], emitted = []\<rparr> =
   Inr \<lparr>macros = [''CONFIG_MKBP_EVENT'' \<mapsto> Empty, ''CONFIG_MKBP_USE_HECI'' \<mapsto> Empty, ''CONFIG_MKBP_USE_GPIO'' \<mapsto> Empty], emitted = []\<rparr>"
  by (simp add: mkbp_delivery_exact)

end
