(* ===== verification/FlashLayout.thy ===== *)
theory FlashLayout
  imports ChipConfig Image
begin

text \<open>
  The values that config.h ends with for this chip, the layout of the flash they describe
  (the comments of config_chip.h from line 87 on), and how it fits the memory image of the signer.
\<close>

section \<open>Constants\<close>

definition macro_value :: "pp_state \<Rightarrow> string \<Rightarrow> int option" where
  "macro_value s n = peval EXPANSIONS (macros s) (Name n)"

definition chip_constants :: "(string \<times> int) list" where
  "chip_constants =
     [(''CONFIG_AUX_TIMER_PERIOD_MS'', 1100), (''HOOK_TICK_INTERVAL_MS'', 500),
      (''CONFIG_PROGRAM_MEMORY_BASE'', 0x40000), (''CONFIG_FLASH_SIZE'', 0x80000),
      (''CONFIG_FLASH_BANK_SIZE'', 0x800), (''CONFIG_RO_HEAD_ROOM'', 1024), (''CONFIG_RW_HEAD_ROOM'', 1024),
      (''CFG_FLASH_HALF'', 0x40000), (''CFG_TOP_SIZE'', 0x3000), (''CFG_TOP_A_OFF'', 0x3d000),
      (''CFG_TOP_B_OFF'', 0x7d000), (''CONFIG_RO_MEM_OFF'', 0), (''CHIP_RO_B_MEM_OFF'', 0x40000),
      (''CONFIG_RO_SIZE'', 0x4000), (''CONFIG_RW_MEM_OFF'', 0x4000), (''CONFIG_RW_B_MEM_OFF'', 0x44000),
      (''CONFIG_RW_SIZE'', 0x39000), (''CONFIG_FLASH_LOG_SPACE'', 0x800), (''CONFIG_FLASH_LOG_BASE'', 0x83800),
      (''AP_RO_DATA_SPACE_SIZE'', 0x800), (''AP_RO_DATA_SPACE_ADDR'', 0x83000), (''MAX_RO_CODE_SIZE'', 0x3000)]"

lemma chip_constants_of_values:
  "binds s all_values \<Longrightarrow> \<forall>(n, v) \<in> set chip_constants. macro_value s n = Some v"
  by (simp add: binds_def timer_values_def layout_values_def bank_values_def chip_constants_def macro_value_def strict2_def
      EXPANSIONS_def eval_nat_numeral)

section \<open>Regions\<close>

text \<open>
  Each half of the flash has a read-only image, a read-write image and a reserved top. A region is a
  name with the macros of its offset and its size.
\<close>

type_synonym region = "string \<times> string \<times> string"

definition flash_regions :: "region list" where
  "flash_regions =
     [(''RO_A'', ''CONFIG_RO_MEM_OFF'', ''CONFIG_RO_SIZE''),
      (''RW_A'', ''CONFIG_RW_MEM_OFF'', ''CONFIG_RW_SIZE''),
      (''TOP_A'', ''CFG_TOP_A_OFF'', ''CFG_TOP_SIZE''),
      (''RO_B'', ''CHIP_RO_B_MEM_OFF'', ''CONFIG_RO_SIZE''),
      (''RW_B'', ''CONFIG_RW_B_MEM_OFF'', ''CONFIG_RW_SIZE''),
      (''TOP_B'', ''CFG_TOP_B_OFF'', ''CFG_TOP_SIZE'')]"

definition extent :: "pp_state \<Rightarrow> region \<Rightarrow> (int \<times> int) option" where
  "extent s r = (case r of (_, off, len) \<Rightarrow>
     (case (macro_value s off, macro_value s len) of (Some a, Some b) \<Rightarrow> Some (a, a + b) | _ \<Rightarrow> None))"

definition in_region :: "pp_state \<Rightarrow> int \<Rightarrow> region \<Rightarrow> bool" where
  "in_region s x r = (case extent s r of Some (a, b) \<Rightarrow> a \<le> x \<and> x < b | None \<Rightarrow> False)"

lemma flash_extents:
  "binds s all_values \<Longrightarrow>
     map (extent s) flash_regions =
       [Some (0, 0x4000), Some (0x4000, 0x3d000), Some (0x3d000, 0x40000),
        Some (0x40000, 0x44000), Some (0x44000, 0x7d000), Some (0x7d000, 0x80000)]"
  by (drule chip_constants_of_values) (simp add: chip_constants_def flash_regions_def extent_def)

text \<open>Extents that follow each other without a gap contain every address between their ends once.\<close>

fun tiles :: "int \<Rightarrow> (int \<times> int) option list \<Rightarrow> int \<Rightarrow> bool" where
  "tiles a [] b \<longleftrightarrow> a = b"
| "tiles a (Some (x, y) # rs) b \<longleftrightarrow> x = a \<and> x < y \<and> tiles y rs b"
| "tiles a (None # rs) b \<longleftrightarrow> False"

lemma tiles_le: "tiles a es b \<Longrightarrow> a \<le> b"
  by (induction a es b rule: tiles.induct) auto

lemma in_region_extent: "extent s r = Some (a, b) \<Longrightarrow> in_region s x r \<longleftrightarrow> a \<le> x \<and> x < b"
  by (simp add: in_region_def)

lemma tiles_outside: "tiles a (map (extent s) rs) b \<Longrightarrow> x < a \<or> b \<le> x \<Longrightarrow> filter (in_region s x) rs = []"
proof (induction rs arbitrary: a)
  case (Cons r rs)
  from Cons.prems(1) obtain y where r: "extent s r = Some (a, y)" "a < y" "tiles y (map (extent s) rs) b"
    by (cases "extent s r") auto
  from r(2,3) Cons.prems(2) have "x < y \<or> b \<le> x" by auto
  with Cons.IH [OF r(3)] Cons.prems(2) r show ?case
    using tiles_le [OF r(3)] by (auto simp: in_region_extent)
qed simp

lemma tiles_inside:
  "tiles a (map (extent s) rs) b \<Longrightarrow> a \<le> x \<Longrightarrow> x < b \<Longrightarrow> length (filter (in_region s x) rs) = 1"
proof (induction rs arbitrary: a)
  case (Cons r rs)
  from Cons.prems(1) obtain y where r: "extent s r = Some (a, y)" "a < y" "tiles y (map (extent s) rs) b"
    by (cases "extent s r") auto
  show ?case
  proof (cases "x < y")
    case True
    with r Cons.prems(2) tiles_outside [OF r(3), of x] show ?thesis by (simp add: in_region_extent)
  next
    case False
    with r Cons.IH [OF r(3)] Cons.prems(3) show ?thesis by (simp add: in_region_extent)
  qed
qed simp

lemma flash_tiles: "binds s all_values \<Longrightarrow> tiles 0 (map (extent s) flash_regions) 0x80000"
  by (simp only: flash_extents tiles.simps) simp

section \<open>Properties\<close>

text \<open>
  C16. config.h accepts the configuration of this chip, whatever else the build defines before it:
  when neither its own guard nor one of the seven names of \<open>build_off\<close> (build flags, the
  guard of config_chip.h, and two options that the list of defaults forgets) is predefined, no
  \<open>#error\<close> is reached (the auxiliary timer, 1100 ms, is more than two hook ticks), every
  option of \<open>checks_off\<close> is undefined at the end, and the timer and flash constants have
  the values of the table.
\<close>
theorem chip_config_accepted:
  assumes "external_headers ext" and "undefined_in build_off s" and "macros s ''__CROS_EC_CONFIG_H'' = None"
  shows "\<exists>s'. run_directives (chip_include ext) config_h s = Inr s' \<and> undefined_in checks_off s' \<and>
    (\<forall>(n, v) \<in> set chip_constants. macro_value s' n = Some v)"
  using external_headers.chip_accepted [OF assms] chip_constants_of_values by blast

theorem chip_config_accepted_witness:
  "\<exists>s'. run_directives (chip_include build_headers) config_h bare_build = Inr s' \<and> undefined_in checks_off s' \<and>
    (\<forall>(n, v) \<in> set chip_constants. macro_value s' n = Some v)"
  by (rule chip_config_accepted [OF build.external_headers_axioms bare_build_off])

lemma accepted_values:
  assumes "external_headers ext" and "undefined_in build_off s" and "macros s ''__CROS_EC_CONFIG_H'' = None"
    and "run_directives (chip_include ext) config_h s = Inr s'"
  shows "binds s' all_values"
  using external_headers.chip_accepted [OF assms(1-3)] assms(4) by auto

text \<open>
  C5. The flash layout of the configuration: every offset into the memory image of the signer lies in
  exactly one of the six regions, regions start and end on banks, the flash log and the hashes of the
  read-only firmware are the two topmost banks of RO_B, and the largest read-only image leaves them
  alone. The signer works on the same flash: its memory has the size of the flash, its start
  address times 16 is the base of the program memory, and its header fills the head room.
\<close>
theorem flash_layout_partition:
  assumes "external_headers ext" and "undefined_in build_off s" and "macros s ''__CROS_EC_CONFIG_H'' = None"
    and "run_directives (chip_include ext) config_h s = Inr s'"
  shows "(\<forall>x. 0 \<le> x \<and> x < int MEM_SIZE \<longrightarrow> length (filter (in_region s' x) flash_regions) = 1) \<and>
    (\<forall>r \<in> set flash_regions. \<exists>a b. extent s' r = Some (a, b) \<and> 0x800 dvd a \<and> 0x800 dvd b) \<and>
    (\<exists>logs ap code. macro_value s' ''CONFIG_FLASH_LOG_BASE'' = Some logs \<and> macro_value s' ''AP_RO_DATA_SPACE_ADDR'' = Some ap \<and>
       macro_value s' ''MAX_RO_CODE_SIZE'' = Some code \<and>
       extent s' (flash_regions ! 3) = Some (ap - FLASH_START * 16 - code, logs + 0x800 - FLASH_START * 16) \<and>
       logs = ap + 0x800) \<and>
    macro_value s' ''CONFIG_FLASH_SIZE'' = Some (int MEM_SIZE) \<and>
    macro_value s' ''CONFIG_PROGRAM_MEMORY_BASE'' = Some (FLASH_START * 16) \<and>
    macro_value s' ''CONFIG_RO_HEAD_ROOM'' = Some (int sizeof_SignedHeader)"
proof (intro conjI)
  have b: "binds s' all_values" using assms by (rule accepted_values)
  note c = chip_constants_of_values [OF b] and e = flash_extents [OF b]
  show "\<forall>x. 0 \<le> x \<and> x < int MEM_SIZE \<longrightarrow> length (filter (in_region s' x) flash_regions) = 1"
    using tiles_inside [OF flash_tiles [OF b]] by (simp add: MEM_SIZE_def)
  show "\<forall>r \<in> set flash_regions. \<exists>a b. extent s' r = Some (a, b) \<and> 0x800 dvd a \<and> 0x800 dvd b"
    using e by (simp add: flash_regions_def)
  show "\<exists>logs ap code. macro_value s' ''CONFIG_FLASH_LOG_BASE'' = Some logs \<and> macro_value s' ''AP_RO_DATA_SPACE_ADDR'' = Some ap \<and>
       macro_value s' ''MAX_RO_CODE_SIZE'' = Some code \<and>
       extent s' (flash_regions ! 3) = Some (ap - FLASH_START * 16 - code, logs + 0x800 - FLASH_START * 16) \<and>
       logs = ap + 0x800"
    using e c by (simp add: flash_regions_def chip_constants_def FLASH_START_def)
qed (use chip_constants_of_values [OF accepted_values [OF assms]] in
    \<open>simp_all add: chip_constants_def MEM_SIZE_def FLASH_START_def sizeof_SignedHeader_def SignedHeader_members_def
      align_up_def\<close>)

theorem flash_layout_partition_witness:
  "\<exists>s'. run_directives (chip_include build_headers) config_h bare_build = Inr s' \<and>
     length (filter (in_region s' 0x43fff) flash_regions) = 1 \<and>
     macro_value s' ''CONFIG_RO_HEAD_ROOM'' = Some (int sizeof_SignedHeader)"
proof -
  obtain s' where s': "run_directives (chip_include build_headers) config_h bare_build = Inr s'"
    using build.chip_accepted [OF bare_build_off] by blast
  from flash_layout_partition [OF build.external_headers_axioms bare_build_off s'] s' show ?thesis
    by (intro exI [of _ s']) (simp add: MEM_SIZE_def)
qed

end
