(* ===== verification/ConsoleChannels.thy ===== *)
theory ConsoleChannels
  imports ChipConfig "HOL-Library.Word" "HOL-Library.Sublist"
begin

text \<open>
  The channels of the debug console (chip/c/console.h, console_channel.inc): an enumeration that an
  include file lists, as far as the configuration has the options, and the bit of each channel in the
  32-bit channel mask.
\<close>

unbundle bit_operations_syntax

section \<open>The channels\<close>

text \<open>
  console.h defines \<open>CONSOLE_CHANNEL(enumeration, string)\<close> as the enumeration name alone, so
  each use adds one enumerator. \<open>CC_CHANNEL_COUNT\<close> follows the last one.
\<close>

definition CONSOLE_CHANNEL :: "string \<Rightarrow> string \<Rightarrow> directive" where
  "CONSOLE_CHANNEL enumeration str = Line enumeration"

definition console_channel_inc :: "directive list" where
  "console_channel_inc =
     [CONSOLE_CHANNEL ''CC_COMMAND'' ''command'', CONSOLE_CHANNEL ''CC_ACCEL'' ''accel'',
      If_defined ''CONFIG_AUDIO_CODEC'' [CONSOLE_CHANNEL ''CC_AUDIO_CODEC'' ''audio_codec''],
      If_defined ''CONFIG_CEC'' [CONSOLE_CHANNEL ''CC_CEC'' ''cec''],
      If_defined ''CONFIG_EXTENSION_COMMAND'' [CONSOLE_CHANNEL ''CC_EXTENSION'' ''extension''],
      If_defined ''CONFIG_PHYSICAL_PRESENCE'' [CONSOLE_CHANNEL ''CC_CCD'' ''ccd''],
      CONSOLE_CHANNEL ''CC_CHARGER'' ''charger'', CONSOLE_CHANNEL ''CC_CHIPSET'' ''chipset'',
      CONSOLE_CHANNEL ''CC_CLOCK'' ''clock'', If_defined ''CONFIG_DMA'' [CONSOLE_CHANNEL ''CC_DMA'' ''dma''],
      CONSOLE_CHANNEL ''CC_EVENTS'' ''events'',
      If_defined ''HAS_TASK_FPSENSOR'' [CONSOLE_CHANNEL ''CC_FP'' ''fingerprint''],
      If_defined ''CONFIG_GESTURE_SW_DETECTION'' [CONSOLE_CHANNEL ''CC_GESTURE'' ''gesture''],
      CONSOLE_CHANNEL ''CC_GPIO'' ''gpio'',
      If_defined ''HAS_TASK_HOSTCMD'' [CONSOLE_CHANNEL ''CC_HOSTCMD'' ''hostcmd''],
      If_defined ''CONFIG_I2C'' [CONSOLE_CHANNEL ''CC_I2C'' ''i2c''],
      If_defined ''CONFIG_IPI'' [CONSOLE_CHANNEL ''CC_IPI'' ''ipi''], CONSOLE_CHANNEL ''CC_KEYBOARD'' ''keyboard'',
      CONSOLE_CHANNEL ''CC_KEYSCAN'' ''keyscan'', CONSOLE_CHANNEL ''CC_LIDANGLE'' ''lidangle'',
      If_defined ''HAS_TASK_LIGHTBAR'' [CONSOLE_CHANNEL ''CC_LIGHTBAR'' ''lightbar''],
      If (Or (Or (Defined ''CONFIG_LPC'') (Defined ''HAS_TASK_IPC_MNG'')) (Defined ''HAS_TASK_HECI_RX''))
         [CONSOLE_CHANNEL ''CC_LPC'' ''lpc''] [],
      CONSOLE_CHANNEL ''CC_MOTION_LID'' ''motionlid'', CONSOLE_CHANNEL ''CC_MOTION_SENSE'' ''motionsense'',
      If_defined ''HAS_TASK_PDCMD'' [CONSOLE_CHANNEL ''CC_PD_HOST_CMD'' ''pdhostcm''],
      CONSOLE_CHANNEL ''CC_PORT80'' ''port80'',
      If (Or (Defined ''CONFIG_PWM'') (Defined ''CONFIG_FANS'')) [CONSOLE_CHANNEL ''CC_PWM'' ''pwm''] [],
      CONSOLE_CHANNEL ''CC_SPI'' ''spi'', If_defined ''CONFIG_RBOX'' [CONSOLE_CHANNEL ''CC_RBOX'' ''rbox''],
      If_defined ''CONFIG_SPP'' [CONSOLE_CHANNEL ''CC_SPP'' ''spp''],
      If (Or (Defined ''CONFIG_SWITCH'') (Defined ''CONFIG_LID_SWITCH'')) [CONSOLE_CHANNEL ''CC_SWITCH'' ''switch'']
         [],
      CONSOLE_CHANNEL ''CC_SYSTEM'' ''system'', CONSOLE_CHANNEL ''CC_TASK'' ''task'',
      If_defined ''CONFIG_TOUCHPAD'' [CONSOLE_CHANNEL ''CC_TOUCHPAD'' ''touchpad''],
      If_defined ''CONFIG_DPTF'' [CONSOLE_CHANNEL ''CC_DPTF'' ''dptf''],
      If_defined ''CONFIG_ALS'' [CONSOLE_CHANNEL ''CC_ALS'' ''als''], CONSOLE_CHANNEL ''CC_THERMAL'' ''thermal'',
      CONSOLE_CHANNEL ''CC_TPM'' ''tpm'', CONSOLE_CHANNEL ''CC_TPM_REG'' ''tpmreg'',
      CONSOLE_CHANNEL ''CC_USB'' ''usb'', CONSOLE_CHANNEL ''CC_USBCHARGE'' ''usbcharge'',
      If (Or (Defined ''CONFIG_USB_POWER_DELIVERY'') (Defined ''CONFIG_USB_PD_TCPC'')) [CONSOLE_CHANNEL ''CC_USBPD''
         ''usbpd''] [],
      CONSOLE_CHANNEL ''CC_VBOOT'' ''vboot'', CONSOLE_CHANNEL ''CC_HOOK'' ''hook'']"

definition console_channels :: "inclusion \<Rightarrow> pp_state \<Rightarrow> pp_error + string list" where
  "console_channels inc s =
     (case run_directives inc console_channel_inc (s\<lparr>emitted := []\<rparr>) of Inl e \<Rightarrow> Inl e | Inr t \<Rightarrow> Inr (emitted t))"

definition CC_CHANNEL_COUNT :: "string list \<Rightarrow> nat" where
  "CC_CHANNEL_COUNT = length"

text \<open>\<open>(1U << (channel))\<close>: a shift by the width of the type is undefined.\<close>

definition CC_MASK :: "nat \<Rightarrow> 32 word option" where
  "CC_MASK channel = (if channel < 32 then Some (push_bit channel 1) else None)"

definition CC_ALL :: "32 word" where
  "CC_ALL = 0xffffffff"

section \<open>Lists that only print\<close>

fun printing :: "directive \<Rightarrow> bool" where
  "printing (Line l) = True"
| "printing (If c ds es) = (defined_only c \<and> list_all printing ds \<and> list_all printing es)"
| "printing d = False"

fun printed :: "macros \<Rightarrow> directive \<Rightarrow> string list" where
  "printed m (Line l) = [l]"
| "printed m (If c ds es) =
     (if holds m c = Some True then concat (map (printed m) ds) else concat (map (printed m) es))"
| "printed m d = []"

lemma run_printing_list:
  assumes "\<And>d s. d \<in> set ds \<Longrightarrow> printing d \<Longrightarrow>
      run_directive inc d s = Inr (s\<lparr>emitted := emitted s @ printed (macros s) d\<rparr>)"
  shows "list_all printing ds \<Longrightarrow>
    run_directives inc ds s = Inr (s\<lparr>emitted := emitted s @ concat (map (printed (macros s)) ds)\<rparr>)"
  using assms by (induction ds arbitrary: s) (simp_all add: bind_result_def)

lemma run_printing_one:
  "printing d \<Longrightarrow> run_directive inc d s = Inr (s\<lparr>emitted := emitted s @ printed (macros s) d\<rparr>)"
proof (induction d arbitrary: s)
  case (If c ds es)
  from If.prems obtain x where x: "peval EXPANSIONS (macros s) c = Some x" using peval_defined_only by fastforce
  have "run_directives inc ds s = Inr (s\<lparr>emitted := emitted s @ concat (map (printed (macros s)) ds)\<rparr>)"
    by (rule run_printing_list [OF If.IH(1)]) (use If.prems in simp_all)
  moreover have "run_directives inc es s = Inr (s\<lparr>emitted := emitted s @ concat (map (printed (macros s)) es)\<rparr>)"
    by (rule run_printing_list [OF If.IH(2)]) (use If.prems in simp_all)
  ultimately show ?case using x by (simp add: holds_def)
qed simp_all

lemma run_printing:
  "list_all printing ds \<Longrightarrow>
    run_directives inc ds s = Inr (s\<lparr>emitted := emitted s @ concat (map (printed (macros s)) ds)\<rparr>)"
  by (rule run_printing_list [OF run_printing_one])

text \<open>All lines of a list, and how many it prints at most when the names of \<open>N\<close> are undefined.\<close>

fun all_lines :: "directive \<Rightarrow> string list" where
  "all_lines (Line l) = [l]"
| "all_lines (If c ds es) = concat (map all_lines ds) @ concat (map all_lines es)"
| "all_lines d = []"

lemma printed_subseq: "subseq (printed m d) (all_lines d)"
proof (induction d)
  case (If c ds es)
  have sub: "(\<And>d. d \<in> set xs \<Longrightarrow> subseq (printed m d) (all_lines d)) \<Longrightarrow>
      subseq (concat (map (printed m) xs)) (concat (map all_lines xs))" for xs
    by (induction xs) (auto intro: list_emb_append_mono)
  from If sub [of ds] sub [of es] show ?case by (auto intro: list_emb_append2 list_emb_prefix)
qed simp_all

fun at_most :: "string list \<Rightarrow> directive \<Rightarrow> nat" where
  "at_most N (Line l) = 1"
| "at_most N (If c ds es) =
     (case decide N c of
        Some v \<Rightarrow> if v then sum_list (map (at_most N) ds) else sum_list (map (at_most N) es)
      | None \<Rightarrow> max (sum_list (map (at_most N) ds)) (sum_list (map (at_most N) es)))"
| "at_most N d = 0"

lemma printed_at_most:
  assumes "undefined_in N s"
  shows "printing d \<Longrightarrow> length (printed (macros s) d) \<le> at_most N d"
proof (induction d)
  case (If c ds es)
  have len: "(\<And>d. d \<in> set xs \<Longrightarrow> length (printed (macros s) d) \<le> at_most N d) \<Longrightarrow>
      length (concat (map (printed (macros s)) xs)) \<le> sum_list (map (at_most N) xs)" for xs
    by (induction xs) (auto intro: add_mono)
  have ds: "length (concat (map (printed (macros s)) ds)) \<le> sum_list (map (at_most N) ds)"
    and es: "length (concat (map (printed (macros s)) es)) \<le> sum_list (map (at_most N) es)"
    using If by (auto intro!: len simp: list_all_iff)
  from If.prems obtain x where x: "peval EXPANSIONS (macros s) c = Some x" using peval_defined_only by fastforce
  show ?case
  proof (cases "decide N c")
    case None
    with ds es show ?thesis by auto
  next
    case (Some v)
    then have "(x \<noteq> 0) = v" using decide_sound [OF assms Some _ x] If.prems by simp
    with Some x ds es show ?thesis by (auto simp: holds_def)
  qed
qed simp_all

section \<open>The console of this chip\<close>

lemma console_printing: "list_all printing console_channel_inc"
  by (simp add: console_channel_inc_def CONSOLE_CHANNEL_def If_defined_def)

lemma console_channels_eq:
  "console_channels inc s = Inr (concat (map (printed (macros s)) console_channel_inc))"
  by (simp add: console_channels_def run_printing [OF console_printing])

lemma console_lines_distinct: "distinct (concat (map all_lines console_channel_inc))"
  by code_simp

lemma subseq_distinct: "subseq xs ys \<Longrightarrow> distinct ys \<Longrightarrow> distinct xs"
  by (induction rule: list_emb.induct) (auto dest: list_emb_set)

lemma console_subseq:
  "subseq (concat (map (printed m) console_channel_inc)) (concat (map all_lines console_channel_inc))"
proof -
  have "subseq (concat (map (printed m) xs)) (concat (map all_lines xs))" for xs
    by (induction xs) (auto intro: list_emb_append_mono printed_subseq)
  then show ?thesis .
qed

lemma console_at_most: "sum_list (map (at_most checks_off) console_channel_inc) = 31"
  by (simp add: console_channel_inc_def CONSOLE_CHANNEL_def If_defined_def analysis_eval)

lemma console_count:
  assumes "undefined_in checks_off s"
  shows "length (concat (map (printed (macros s)) console_channel_inc)) \<le> 31"
proof -
  have "list_all printing xs \<Longrightarrow>
      length (concat (map (printed (macros s)) xs)) \<le> sum_list (map (at_most checks_off) xs)" for xs
    by (induction xs) (auto intro: add_mono printed_at_most [OF assms])
  from this [OF console_printing] console_at_most show ?thesis by simp
qed

lemma CC_MASK_bit: "CC_MASK i = Some m \<Longrightarrow> bit m k \<longleftrightarrow> k = i \<and> i < 32"
  by (auto simp: CC_MASK_def bit_simps split: if_splits)

lemma CC_MASK_nonzero: "CC_MASK i = Some m \<Longrightarrow> m \<noteq> 0"
  using CC_MASK_bit [of i m i] by (auto simp: CC_MASK_def split: if_splits)

lemma CC_MASK_all: "m AND CC_ALL = m" for m :: "32 word"
proof -
  have "CC_ALL = mask 32" by (simp add: CC_ALL_def mask_eq_exp_minus_1)
  then show ?thesis by (simp add: bit_eq_iff bit_simps)
qed

lemma CC_MASK_disjoint: "CC_MASK i = Some m \<Longrightarrow> CC_MASK j = Some n \<Longrightarrow> i \<noteq> j \<Longrightarrow> m AND n = 0"
  by (rule bit_word_eqI) (auto simp: bit_and_iff CC_MASK_bit)

text \<open>
  C38. In the configuration that config.h ends with for this chip, whatever tasks the build has, the
  console has at most 31 channels, all different, the first of them \<open>CC_COMMAND\<close>; so each
  has a bit of its own in the 32-bit mask, none shared. A build with all the options would have 44
  channels, and from the 33rd on the shift in \<open>CC_MASK\<close> would be undefined.
\<close>
theorem console_channels_fit_mask:
  assumes "external_headers ext" and "undefined_in build_off s" and "macros s ''__CROS_EC_CONFIG_H'' = None"
    and "run_directives (chip_include ext) config_h s = Inr s'"
  shows "\<exists>cs. console_channels (chip_include ext) s' = Inr cs \<and> distinct cs \<and> CC_CHANNEL_COUNT cs \<le> 31 \<and>
    hd cs = ''CC_COMMAND'' \<and>
    (\<forall>i < CC_CHANNEL_COUNT cs. \<exists>m. CC_MASK i = Some m \<and> m \<noteq> 0 \<and> m AND CC_ALL = m \<and>
       (\<forall>j < CC_CHANNEL_COUNT cs. \<exists>n. CC_MASK j = Some n \<and> (i \<noteq> j \<longrightarrow> m AND n = 0))) \<and>
    (\<exists>t all. console_channels (chip_include ext) t = Inr all \<and> CC_CHANNEL_COUNT all = 44 \<and>
       CC_MASK 31 \<noteq> None \<and> CC_MASK 32 = None \<and> CC_MASK 43 = None)"
proof (intro exI conjI allI impI)
  let ?cs = "concat (map (printed (macros s')) console_channel_inc)"
  have off: "undefined_in checks_off s'"
    using external_headers.chip_accepted [OF assms(1-3)] assms(4) by auto
  show "console_channels (chip_include ext) s' = Inr ?cs" by (rule console_channels_eq)
  show "distinct ?cs"
    using console_subseq console_lines_distinct by (rule subseq_distinct)
  show "CC_CHANNEL_COUNT ?cs \<le> 31"
    using console_count [OF off] by (simp add: CC_CHANNEL_COUNT_def)
  then have fits: "CC_MASK i = Some (push_bit i 1)" if "i < CC_CHANNEL_COUNT ?cs" for i
    using that by (simp add: CC_MASK_def)
  show "hd ?cs = ''CC_COMMAND''" by (simp add: console_channel_inc_def CONSOLE_CHANNEL_def)
  fix i assume i: "i < CC_CHANNEL_COUNT ?cs"
  show "CC_MASK i = Some (push_bit i 1)" by (rule fits [OF i])
  then show "push_bit i 1 \<noteq> (0 :: 32 word)" by (rule CC_MASK_nonzero)
  show "push_bit i 1 AND CC_ALL = push_bit i 1" by (rule CC_MASK_all)
  fix j assume j: "j < CC_CHANNEL_COUNT ?cs"
  show "CC_MASK j = Some (push_bit j 1)" by (rule fits [OF j])
  show "push_bit i 1 AND push_bit j 1 = (0 :: 32 word)" if "i \<noteq> j"
    using CC_MASK_disjoint [OF fits [OF i] fits [OF j] that] .
next
  let ?t = "\<lparr>macros = (\<lambda>_. Some Empty), emitted = []\<rparr>"
  show "console_channels (chip_include ext) ?t = Inr (concat (map (printed (macros ?t)) console_channel_inc))"
    by (rule console_channels_eq)
  show "CC_CHANNEL_COUNT (concat (map (printed (macros ?t)) console_channel_inc)) = 44"
    by (simp add: CC_CHANNEL_COUNT_def console_channel_inc_def CONSOLE_CHANNEL_def If_defined_def)
  show "CC_MASK 31 \<noteq> None" "CC_MASK 32 = None" "CC_MASK 43 = None" by (simp_all add: CC_MASK_def)
qed

theorem console_channels_fit_mask_witness:
  "\<exists>s' cs. run_directives (chip_include build_headers) config_h bare_build = Inr s' \<and>
     console_channels (chip_include build_headers) s' = Inr cs \<and> distinct cs \<and> CC_CHANNEL_COUNT cs \<le> 31"
proof -
  obtain s' where s': "run_directives (chip_include build_headers) config_h bare_build = Inr s'"
    using build.chip_accepted [OF bare_build_off] by blast
  from console_channels_fit_mask [OF build.external_headers_axioms bare_build_off s'] s' show ?thesis by blast
qed

end
