(* ===== verification/Registers.thy ===== *)
theory Registers
  imports Prelude
begin

text \<open>
  Access to the registers of the chip (chip/c/common.h, registers.h): the fields of the generated
  register tables, \<open>REG32\<close> on a byte-addressed memory, and the macros that read and write a
  field. A register is taken as storage; what reading or writing does besides, in the device, is not
  part of the headers.
\<close>

unbundle bit_operations_syntax

section \<open>Fields\<close>

text \<open>
  The generated tables give five macros per field (\<open>_LSB\<close>, \<open>_MASK\<close>, \<open>_SIZE\<close>,
  \<open>_DEFAULT\<close>, \<open>_OFFSET\<close>) and two per register (\<open>_OFFSET\<close> and mostly
  \<open>_DEFAULT\<close>); the names drop the prefix \<open>GC_\<close>.
\<close>

datatype reg_field =
  Field (field_name: string) (lsb: nat) (field_mask: int) (width: nat) (reset: int) (field_offset: int)

datatype register = Register (reg_name: string) (reg_offset: int) (reg_reset: "int option")

fun well_formed :: "reg_field \<Rightarrow> bool" where
  "well_formed (Field n l m w d x) \<longleftrightarrow>
     0 < w \<and> l + w \<le> 32 \<and> m = (2 ^ w - 1) * 2 ^ l \<and> 0 \<le> d \<and> d < 2 ^ w \<and> 0 \<le> x \<and> x < 0x20000 \<and> 4 dvd x"

text \<open>
  A table of a module is sorted: by offset, and inside a register by bits, without overlap.
\<close>

fun before :: "reg_field \<Rightarrow> reg_field \<Rightarrow> bool" where
  "before (Field n l m w d x) (Field n' l' m' w' d' x') \<longleftrightarrow> x < x' \<or> x = x' \<and> l + w \<le> l'"

lemma sorted_before_cases:
  "sorted_wrt before fs \<Longrightarrow> f \<in> set fs \<Longrightarrow> g \<in> set fs \<Longrightarrow> f \<noteq> g \<Longrightarrow> before f g \<or> before g f"
  by (induction fs) auto

text \<open>
  A table is checked in one pass over the bits the fields occupy, counted from the start of the
  module.
\<close>

fun extent :: "reg_field \<Rightarrow> int \<times> int" where
  "extent (Field n l m w d x) = (8 * x + int l, 8 * x + int (l + w))"

fun scan :: "int \<Rightarrow> (int \<times> int) list \<Rightarrow> int option" where
  "scan b [] = Some b"
| "scan b ((s, e) # es) = (if b \<le> s then scan e es else None)"

lemma scan_append: "scan b (es @ es') = (case scan b es of None \<Rightarrow> None | Some c \<Rightarrow> scan c es')"
  by (induction b es rule: scan.induct) auto

definition table_ok :: "reg_field list \<Rightarrow> bool" where
  "table_ok fs \<longleftrightarrow> list_all well_formed fs \<and> sorted_wrt before fs"

lemma before_extent:
  assumes "well_formed f" and "well_formed g" and "snd (extent f) \<le> fst (extent g)"
  shows "before f g"
proof (cases f; cases g)
  fix n l m w d x n' l' m' w' d' x'
  assume f: "f = Field n l m w d x" and g: "g = Field n' l' m' w' d' x'"
  with assms have le: "8 * x + int l + int w \<le> 8 * x' + int l'" and "0 < w" "l' + w' \<le> 32" "0 < w'"
    and "4 dvd x" "4 dvd x'"
    by simp_all
  then obtain k k' where k: "x = 4 * k" "x' = 4 * k'" by (elim dvdE)
  from le \<open>0 < w\<close> \<open>l' + w' \<le> 32\<close> \<open>0 < w'\<close> have "8 * x < 8 * x' + 32" by linarith
  with k have "k \<le> k'" by linarith
  with le k show ?thesis by (auto simp: f g)
qed

lemma scan_sorted:
  "scan b (map extent fs) = Some c \<Longrightarrow> list_all well_formed fs \<Longrightarrow>
     sorted_wrt before fs \<and> (\<forall>f \<in> set fs. b \<le> fst (extent f))"
proof (induction fs arbitrary: b)
  case (Cons f fs)
  obtain s e where f: "extent f = (s, e)" by fastforce
  with Cons.prems have b: "b \<le> s" and run: "scan e (map extent fs) = Some c"
    and wf: "well_formed f" "list_all well_formed fs"
    by (simp_all split: if_splits)
  from Cons.IH [OF run wf(2)] have ih: "sorted_wrt before fs" "\<forall>g \<in> set fs. e \<le> fst (extent g)" by simp_all
  have "s \<le> e" using f by (cases f) simp
  have "\<forall>g \<in> set fs. before f g"
    using ih(2) wf f by (auto simp: list_all_iff intro!: before_extent)
  with ih b f \<open>s \<le> e\<close> show ?case by force
qed simp

lemma scan_table: "scan 0 (map extent fs) = Some c \<Longrightarrow> list_all well_formed fs \<Longrightarrow> table_ok fs"
  using scan_sorted by (simp add: table_ok_def)

lemma scan_mono: "scan b (map extent fs) = Some c \<Longrightarrow> list_all well_formed fs \<Longrightarrow> b \<le> c"
proof (induction fs arbitrary: b)
  case (Cons f fs)
  then show ?case by (cases f) (force split: if_splits)
qed simp

lemma scan_bound:
  "scan b (map extent fs) = Some c \<Longrightarrow> list_all well_formed fs \<Longrightarrow> f \<in> set fs \<Longrightarrow> snd (extent f) \<le> c"
proof (induction fs arbitrary: b)
  case (Cons g fs)
  obtain s e where g: "extent g = (s, e)" by fastforce
  with Cons.prems have run: "scan e (map extent fs) = Some c" and wf: "list_all well_formed fs"
    by (simp_all split: if_splits)
  have "e \<le> c" using scan_mono [OF run wf] .
  with Cons.IH [OF run wf] Cons.prems(3) g show ?case by auto
qed simp

text \<open>
  A field belongs to a register of the same offset, whose reset value agrees with that of the field.
  \<open>covered\<close> walks the registers and the fields of a module in step.
\<close>

fun reset_key :: "register \<Rightarrow> int \<times> int option" where
  "reset_key (Register n x d) = (x, d)"

fun field_key :: "reg_field \<Rightarrow> int \<times> int \<times> int \<times> int" where
  "field_key (Field n l m w d x) = (x, 2 ^ l, 2 ^ w, d)"

fun covers :: "int \<times> int option \<Rightarrow> int \<times> int \<times> int \<times> int \<Rightarrow> bool" where
  "covers (x, None) k \<longleftrightarrow> False"
| "covers (x, Some v) (x', p, q, d) \<longleftrightarrow> x = x' \<and> v div p mod q = d"

fun covered :: "(int \<times> int option) list \<Rightarrow> (int \<times> int \<times> int \<times> int) list \<Rightarrow> bool" where
  "covered rs [] \<longleftrightarrow> True"
| "covered [] (f # fs) \<longleftrightarrow> False"
| "covered ((x, v) # rs) ((x', k) # fs) \<longleftrightarrow>
     (if x = x' then covers (x, v) (x', k) \<and> covered ((x, v) # rs) fs else covered rs ((x', k) # fs))"

lemma covered_covers: "covered rs fs \<Longrightarrow> f \<in> set fs \<Longrightarrow> \<exists>r \<in> set rs. covers r f"
  by (induction rs fs rule: covered.induct) (auto split: if_splits)

definition has_register :: "register list \<Rightarrow> reg_field \<Rightarrow> bool" where
  "has_register rs f \<longleftrightarrow> (\<exists>r \<in> set rs. \<exists>v. reg_reset r = Some v \<and> reg_offset r = field_offset f \<and>
     v div 2 ^ lsb f mod 2 ^ width f = reset f)"

lemma covered_has:
  assumes "covered (map reset_key rs) (map field_key fs)" and "set rs \<subseteq> set rs'"
  shows "list_all (has_register rs') fs"
proof -
  have "has_register rs' f" if "f \<in> set fs" for f
  proof -
    have "field_key f \<in> set (map field_key fs)" using that by simp
    from covered_covers [OF assms(1) this]
    obtain r where "r \<in> set rs" "covers (reset_key r) (field_key f)" by auto
    with assms(2) show ?thesis
      unfolding has_register_def
      by (cases f; cases r; cases "reg_reset r") (auto intro!: bexI [of _ r])
  qed
  then show ?thesis by (simp add: list_all_iff)
qed

definition mask_word :: "reg_field \<Rightarrow> u32" where
  "mask_word f = word_of_int (field_mask f)"

lemma bit_mask_word:
  "well_formed f \<Longrightarrow> bit (mask_word f) i \<longleftrightarrow> lsb f \<le> i \<and> i < lsb f + width f"
proof (cases f)
  case (Field n l m w d x)
  assume wf: "well_formed f"
  then have "field_mask f = push_bit l (mask w)"
    by (simp add: Field push_bit_eq_mult mask_eq_exp_minus_1)
  then have "bit (mask_word f) i \<longleftrightarrow> i < 32 \<and> l \<le> i \<and> i < l + w"
    by (auto simp: mask_word_def bit_word_of_int_iff bit_push_bit_iff bit_mask_iff)
  with wf show ?thesis by (auto simp: Field)
qed

section \<open>REG32\<close>

definition REG32 :: "memory \<Rightarrow> u32 \<Rightarrow> u32" where
  "REG32 m addr = of_le (mem_read m (unat addr) 4)"

definition set_REG32 :: "u32 \<Rightarrow> u32 \<Rightarrow> memory \<Rightarrow> memory" where
  "set_REG32 addr v m = mem_write m (unat addr) (le_bytes 4 v)"

text \<open>What the field macros need of the lvalue \<open>REG32(addr)\<close>.\<close>

locale register_file =
  fixes reg :: "'hw \<Rightarrow> u32 \<Rightarrow> u32"
    and set_reg :: "u32 \<Rightarrow> u32 \<Rightarrow> 'hw \<Rightarrow> 'hw"
  assumes reg_same: "reg (set_reg a v s) a = v"
    and reg_other: "unat a + 4 \<le> unat b \<or> unat b + 4 \<le> unat a \<Longrightarrow> reg (set_reg a v s) b = reg s b"

section \<open>The macros\<close>

definition GC_MODULE_OFFSET :: u32 where
  "GC_MODULE_OFFSET = 0x10000"

definition GBASE_I :: "u32 \<Rightarrow> u32 \<Rightarrow> u32" where
  "GBASE_I base i = base + i * GC_MODULE_OFFSET"

definition GREG32_ADDR :: "u32 \<Rightarrow> reg_field \<Rightarrow> u32" where
  "GREG32_ADDR base f = base + word_of_int (field_offset f)"

definition REG_WRITE_MLV :: "u32 \<Rightarrow> u32 \<Rightarrow> nat \<Rightarrow> u32 \<Rightarrow> u32" where
  "REG_WRITE_MLV r msk l val = (r AND NOT msk) OR (push_bit l val AND msk)"

definition GREAD_FIELD :: "('hw \<Rightarrow> u32 \<Rightarrow> u32) \<Rightarrow> u32 \<Rightarrow> reg_field \<Rightarrow> 'hw \<Rightarrow> u32" where
  "GREAD_FIELD reg base f s = drop_bit (lsb f) (reg s (GREG32_ADDR base f) AND mask_word f)"

definition GWRITE_FIELD ::
  "('hw \<Rightarrow> u32 \<Rightarrow> u32) \<Rightarrow> (u32 \<Rightarrow> u32 \<Rightarrow> 'hw \<Rightarrow> 'hw) \<Rightarrow> u32 \<Rightarrow> reg_field \<Rightarrow> u32 \<Rightarrow> 'hw \<Rightarrow> 'hw" where
  "GWRITE_FIELD reg set_reg base f fval s =
     set_reg (GREG32_ADDR base f) (REG_WRITE_MLV (reg s (GREG32_ADDR base f)) (mask_word f) (lsb f) fval) s"

definition GR_FUSE :: "('hw \<Rightarrow> u32 \<Rightarrow> u32) \<Rightarrow> u32 \<Rightarrow> reg_field \<Rightarrow> 'hw \<Rightarrow> u32" where
  "GR_FUSE reg base f s = reg s (GREG32_ADDR base f) AND mask_word f"

lemma bit_REG_WRITE_MLV:
  "bit (REG_WRITE_MLV r m l v) i \<longleftrightarrow> i < 32 \<and> (if bit m i then l \<le> i \<and> bit v (i - l) else bit r i)"
  by (auto simp: REG_WRITE_MLV_def bit_simps dest: bit_imp_le_length)

lemma mlv_read_same:
  assumes "well_formed f"
  shows "drop_bit (lsb f) (REG_WRITE_MLV r (mask_word f) (lsb f) v AND mask_word f) = take_bit (width f) v"
proof (rule bit_word_eqI)
  fix i assume "i < LENGTH(32)"
  have "lsb f + width f \<le> 32" using assms by (cases f) simp
  then show "bit (drop_bit (lsb f) (REG_WRITE_MLV r (mask_word f) (lsb f) v AND mask_word f)) i \<longleftrightarrow>
      bit (take_bit (width f) v) i"
    by (auto simp: bit_simps bit_REG_WRITE_MLV bit_mask_word [OF assms])
qed

lemma mlv_read_other:
  assumes "well_formed f" and "well_formed g" and "lsb f + width f \<le> lsb g \<or> lsb g + width g \<le> lsb f"
  shows "REG_WRITE_MLV r (mask_word f) (lsb f) v AND mask_word g = r AND mask_word g"
proof (rule bit_word_eqI)
  fix i assume "i < LENGTH(32)"
  then show "bit (REG_WRITE_MLV r (mask_word f) (lsb f) v AND mask_word g) i \<longleftrightarrow> bit (r AND mask_word g) i"
    using assms(3) by (auto simp: bit_simps bit_REG_WRITE_MLV bit_mask_word [OF assms(1)] bit_mask_word [OF assms(2)])
qed

text \<open>What a field reads in a register that holds the integer \<open>v\<close>.\<close>

lemma drop_bit_mask_word:
  assumes "well_formed f"
  shows "drop_bit (lsb f) (word_of_int v AND mask_word f) = word_of_int (v div 2 ^ lsb f mod 2 ^ width f)"
proof (rule bit_word_eqI)
  fix i assume "i < LENGTH(32)"
  moreover have "lsb f + width f \<le> 32" using assms by (cases f) simp
  ultimately show "bit (drop_bit (lsb f) (word_of_int v AND mask_word f)) i \<longleftrightarrow>
      bit (word_of_int (v div 2 ^ lsb f mod 2 ^ width f) :: u32) i"
    by (auto simp: bit_simps bit_mask_word [OF assms] simp flip: drop_bit_eq_div take_bit_eq_mod)
qed

text \<open>A base leaves room for the registers of a module (less than 128K) behind it, as those of the chip do.\<close>

definition module_base :: "u32 \<Rightarrow> bool" where
  "module_base base \<longleftrightarrow> unat base + 0x20000 \<le> 2 ^ 32"

lemma unat_address:
  assumes "well_formed f" and "module_base base"
  shows "unat (GREG32_ADDR base f) = unat base + nat (field_offset f)"
proof -
  have x: "0 \<le> field_offset f" "field_offset f < 0x20000" using assms(1) by (cases f; simp)+
  then have "unat (word_of_int (field_offset f) :: u32) = nat (field_offset f)"
    by (simp add: unat_eq_nat_uint uint_word_of_int)
  with x assms(2) show ?thesis
    by (simp add: GREG32_ADDR_def module_base_def unat_word_ariths)
qed

context register_file
begin

lemma read_write_same:
  "well_formed f \<Longrightarrow> GREAD_FIELD reg base f (GWRITE_FIELD reg set_reg base f v s) = take_bit (width f) v"
  unfolding GREAD_FIELD_def GWRITE_FIELD_def reg_same by (rule mlv_read_same)

lemma read_write_apart:
  assumes "unat (GREG32_ADDR b f) + 4 \<le> unat (GREG32_ADDR b' g) \<or> unat (GREG32_ADDR b' g) + 4 \<le> unat (GREG32_ADDR b f)"
  shows "GREAD_FIELD reg b' g (GWRITE_FIELD reg set_reg b f v s) = GREAD_FIELD reg b' g s"
  unfolding GREAD_FIELD_def GWRITE_FIELD_def by (simp only: reg_other [OF assms])

lemma read_write_before:
  assumes "well_formed f" and "well_formed g" and "module_base base" and "before f g \<or> before g f"
  shows "GREAD_FIELD reg base g (GWRITE_FIELD reg set_reg base f v s) = GREAD_FIELD reg base g s"
proof (cases "field_offset f = field_offset g")
  case True
  then have "GREG32_ADDR base g = GREG32_ADDR base f" by (simp add: GREG32_ADDR_def)
  moreover have "lsb f + width f \<le> lsb g \<or> lsb g + width g \<le> lsb f"
    using assms(4) True by (cases f; cases g) auto
  ultimately show ?thesis
    unfolding GREAD_FIELD_def GWRITE_FIELD_def by (simp only: reg_same mlv_read_other [OF assms(1,2)])
next
  case False
  have "4 dvd field_offset f" "4 dvd field_offset g" "0 \<le> field_offset f" "0 \<le> field_offset g"
    using assms(1,2) by (cases f; cases g; simp)+
  with False have "nat (field_offset f) + 4 \<le> nat (field_offset g) \<or> nat (field_offset g) + 4 \<le> nat (field_offset f)"
    by presburger
  then show ?thesis
    using unat_address [OF assms(1,3)] unat_address [OF assms(2,3)] by (intro read_write_apart) linarith
qed

end

interpretation memory_mapped: register_file REG32 set_REG32
proof
  fix a b v :: u32 and s :: memory
  show "REG32 (set_REG32 a v s) a = v"
    using mem_read_write_same [of s "unat a" "le_bytes 4 v"] of_le_le_bytes [of 4 v]
    by (simp add: REG32_def set_REG32_def)
  assume "unat a + 4 \<le> unat b \<or> unat b + 4 \<le> unat a"
  then show "REG32 (set_REG32 a v s) b = REG32 s b"
    by (auto simp: REG32_def set_REG32_def mem_read_write_disjoint)
qed

end
