(* ===== verification/RegdefsFuse.thy ===== *)
theory RegdefsFuse
  imports Registers
begin

text \<open>
  The registers and register fields of the modules CAMO, CRYPTO, DMA, FLASH, FUSE, GLOBALSEC
  (chip/c/hw_b1_regdefs.h, generated): one entry per register with its two macros, one per field
  with its five. A definition holds the entries from the line in its name on; the tables of the
  modules are at the end.
\<close>

definition registers_647 :: "register list" where
  "registers_647 = [
    Register ''CAMO_BREACH_COUNT'' 0x0 (Some 0x0), Register ''CAMO_CLEAR_COUNTER'' 0x4 (Some 0x0), Register
    ''CAMO_VERSION'' 0x8 (Some 0x1014125)]"

definition registers_653 :: "register list" where
  "registers_653 = [
    Register ''CRYPTO_VERSION'' 0x0 (Some 0x101424a), Register ''CRYPTO_CONTROL'' 0x4 (Some 0x0), Register
    ''CRYPTO_PARITY_CFG'' 0x8 (Some 0x10), Register ''CRYPTO_IMEM_SCRUB_RANGE'' 0xc (Some 0x3ff), Register
    ''CRYPTO_DMEM_SCRUB_RANGE'' 0x10 (Some 0x7f), Register ''CRYPTO_INT_ENABLE'' 0x14 (Some 0x0), Register
    ''CRYPTO_INT_STATE'' 0x18 (Some 0x0), Register ''CRYPTO_INT_TEST'' 0x1c (Some 0x0), Register
    ''CRYPTO_HOST_CMD'' 0x20 (Some 0xffffffff), Register ''CRYPTO_INSTR'' 0x24 (Some 0x0), Register
    ''CRYPTO_STATUS'' 0x28 (Some 0x0), Register ''CRYPTO_AUX_CC'' 0x2c (Some 0x0), Register
    ''CRYPTO_RAND_STALL_CTL'' 0x30 (Some 0x5), Register ''CRYPTO_RAND256'' 0x34 (Some 0x1), Register
    ''CRYPTO_IMEM_PARITY_ERRS_CTR_STATE'' 0x38 (Some 0x0), Register ''CRYPTO_DMEM_PARITY_ERRS_CTR_STATE'' 0x3c
    (Some 0x0), Register ''CRYPTO_DRF_PARITY_ERRS_CTR_STATE'' 0x40 (Some 0x0), Register ''CRYPTO_PGM_LFSR'' 0x44
    (Some 0x0), Register ''CRYPTO_DEBUG_BRKPT0'' 0x48 (Some 0x0), Register ''CRYPTO_DEBUG_BRKPT1'' 0x4c (Some
    0x0), Register ''CRYPTO_WIPE_SECRETS'' 0x50 (Some 0x0), Register ''CRYPTO_DMEM_DUMMY'' 0x4000 None, Register
    ''CRYPTO_IMEM_DUMMY'' 0x8000 None]"

definition registers_697 :: "register list" where
  "registers_697 = [
    Register ''DMA_VERSION'' 0x0 (Some 0x101424a), Register ''DMA_INT_ENABLE'' 0x4 (Some 0x0), Register
    ''DMA_INT_STATE'' 0x8 (Some 0x0), Register ''DMA_INT_TEST'' 0xc (Some 0x0), Register ''DMA_START_CHAN0''
    0x100 (Some 0x0), Register ''DMA_STOP_CHAN0'' 0x104 (Some 0x0), Register ''DMA_CTRL_CHAN0'' 0x108 (Some
    0xa), Register ''DMA_SRC_ADDR_CHAN0'' 0x10c (Some 0x0), Register ''DMA_DST_ADDR_CHAN0'' 0x110 (Some 0x0),
    Register ''DMA_NUM_TRANSACTION_COUNT_CHAN0'' 0x114 (Some 0x3ff), Register ''DMA_PROG_COUNT_CHAN0'' 0x118
    (Some 0x0), Register ''DMA_CURRENT_NUM_TRANSACTION_COUNT_CHAN0'' 0x11c (Some 0x0), Register
    ''DMA_MAX_NUM_TIMEOUT_CHAN0'' 0x120 (Some 0xf9f), Register ''DMA_PAUSE_COUNTER_CHAN0'' 0x124 (Some 0x0),
    Register ''DMA_FSM_STATE_CHAN0'' 0x128 (Some 0x1), Register ''DMA_START_CHAN1'' 0x200 (Some 0x0), Register
    ''DMA_STOP_CHAN1'' 0x204 (Some 0x0), Register ''DMA_CTRL_CHAN1'' 0x208 (Some 0xa), Register
    ''DMA_SRC_ADDR_CHAN1'' 0x20c (Some 0x0), Register ''DMA_DST_ADDR_CHAN1'' 0x210 (Some 0x0), Register
    ''DMA_NUM_TRANSACTION_COUNT_CHAN1'' 0x214 (Some 0x3ff), Register ''DMA_PROG_COUNT_CHAN1'' 0x218 (Some 0x0),
    Register ''DMA_CURRENT_NUM_TRANSACTION_COUNT_CHAN1'' 0x21c (Some 0x0), Register
    ''DMA_MAX_NUM_TIMEOUT_CHAN1'' 0x220 (Some 0xf9f), Register ''DMA_PAUSE_COUNTER_CHAN1'' 0x224 (Some 0x0),
    Register ''DMA_FSM_STATE_CHAN1'' 0x228 (Some 0x1), Register ''DMA_START_CHAN2'' 0x300 (Some 0x0), Register
    ''DMA_STOP_CHAN2'' 0x304 (Some 0x0), Register ''DMA_CTRL_CHAN2'' 0x308 (Some 0xa), Register
    ''DMA_SRC_ADDR_CHAN2'' 0x30c (Some 0x0), Register ''DMA_DST_ADDR_CHAN2'' 0x310 (Some 0x0), Register
    ''DMA_NUM_TRANSACTION_COUNT_CHAN2'' 0x314 (Some 0x3ff), Register ''DMA_PROG_COUNT_CHAN2'' 0x318 (Some 0x0),
    Register ''DMA_CURRENT_NUM_TRANSACTION_COUNT_CHAN2'' 0x31c (Some 0x0), Register
    ''DMA_MAX_NUM_TIMEOUT_CHAN2'' 0x320 (Some 0xf9f), Register ''DMA_PAUSE_COUNTER_CHAN2'' 0x324 (Some 0x0),
    Register ''DMA_FSM_STATE_CHAN2'' 0x328 (Some 0x1), Register ''DMA_START_CHAN3'' 0x400 (Some 0x0), Register
    ''DMA_STOP_CHAN3'' 0x404 (Some 0x0), Register ''DMA_CTRL_CHAN3'' 0x408 (Some 0xa)]"

definition registers_777 :: "register list" where
  "registers_777 = [
    Register ''DMA_SRC_ADDR_CHAN3'' 0x40c (Some 0x0), Register ''DMA_DST_ADDR_CHAN3'' 0x410 (Some 0x0), Register
    ''DMA_NUM_TRANSACTION_COUNT_CHAN3'' 0x414 (Some 0x3ff), Register ''DMA_PROG_COUNT_CHAN3'' 0x418 (Some 0x0),
    Register ''DMA_CURRENT_NUM_TRANSACTION_COUNT_CHAN3'' 0x41c (Some 0x0), Register
    ''DMA_MAX_NUM_TIMEOUT_CHAN3'' 0x420 (Some 0xf9f), Register ''DMA_PAUSE_COUNTER_CHAN3'' 0x424 (Some 0x0),
    Register ''DMA_FSM_STATE_CHAN3'' 0x428 (Some 0x1), Register ''DMA_START_CHAN4'' 0x500 (Some 0x0), Register
    ''DMA_STOP_CHAN4'' 0x504 (Some 0x0), Register ''DMA_CTRL_CHAN4'' 0x508 (Some 0xa), Register
    ''DMA_SRC_ADDR_CHAN4'' 0x50c (Some 0x0), Register ''DMA_DST_ADDR_CHAN4'' 0x510 (Some 0x0), Register
    ''DMA_NUM_TRANSACTION_COUNT_CHAN4'' 0x514 (Some 0x3ff), Register ''DMA_PROG_COUNT_CHAN4'' 0x518 (Some 0x0),
    Register ''DMA_CURRENT_NUM_TRANSACTION_COUNT_CHAN4'' 0x51c (Some 0x0), Register
    ''DMA_MAX_NUM_TIMEOUT_CHAN4'' 0x520 (Some 0xf9f), Register ''DMA_PAUSE_COUNTER_CHAN4'' 0x524 (Some 0x0),
    Register ''DMA_FSM_STATE_CHAN4'' 0x528 (Some 0x1), Register ''DMA_START_CHAN5'' 0x600 (Some 0x0), Register
    ''DMA_STOP_CHAN5'' 0x604 (Some 0x0), Register ''DMA_CTRL_CHAN5'' 0x608 (Some 0xa), Register
    ''DMA_SRC_ADDR_CHAN5'' 0x60c (Some 0x0), Register ''DMA_DST_ADDR_CHAN5'' 0x610 (Some 0x0), Register
    ''DMA_NUM_TRANSACTION_COUNT_CHAN5'' 0x614 (Some 0x3ff), Register ''DMA_PROG_COUNT_CHAN5'' 0x618 (Some 0x0),
    Register ''DMA_CURRENT_NUM_TRANSACTION_COUNT_CHAN5'' 0x61c (Some 0x0), Register
    ''DMA_MAX_NUM_TIMEOUT_CHAN5'' 0x620 (Some 0xf9f), Register ''DMA_PAUSE_COUNTER_CHAN5'' 0x624 (Some 0x0),
    Register ''DMA_FSM_STATE_CHAN5'' 0x628 (Some 0x1), Register ''DMA_START_CHAN6'' 0x700 (Some 0x0), Register
    ''DMA_STOP_CHAN6'' 0x704 (Some 0x0), Register ''DMA_CTRL_CHAN6'' 0x708 (Some 0xa), Register
    ''DMA_SRC_ADDR_CHAN6'' 0x70c (Some 0x0), Register ''DMA_DST_ADDR_CHAN6'' 0x710 (Some 0x0), Register
    ''DMA_NUM_TRANSACTION_COUNT_CHAN6'' 0x714 (Some 0x3ff), Register ''DMA_PROG_COUNT_CHAN6'' 0x718 (Some 0x0),
    Register ''DMA_CURRENT_NUM_TRANSACTION_COUNT_CHAN6'' 0x71c (Some 0x0), Register
    ''DMA_MAX_NUM_TIMEOUT_CHAN6'' 0x720 (Some 0xf9f), Register ''DMA_PAUSE_COUNTER_CHAN6'' 0x724 (Some 0x0)]"

definition registers_857 :: "register list" where
  "registers_857 = [
    Register ''DMA_FSM_STATE_CHAN6'' 0x728 (Some 0x1), Register ''DMA_START_CHAN7'' 0x800 (Some 0x0), Register
    ''DMA_STOP_CHAN7'' 0x804 (Some 0x0), Register ''DMA_CTRL_CHAN7'' 0x808 (Some 0xa), Register
    ''DMA_SRC_ADDR_CHAN7'' 0x80c (Some 0x0), Register ''DMA_DST_ADDR_CHAN7'' 0x810 (Some 0x0), Register
    ''DMA_NUM_TRANSACTION_COUNT_CHAN7'' 0x814 (Some 0x3ff), Register ''DMA_PROG_COUNT_CHAN7'' 0x818 (Some 0x0),
    Register ''DMA_CURRENT_NUM_TRANSACTION_COUNT_CHAN7'' 0x81c (Some 0x0), Register
    ''DMA_MAX_NUM_TIMEOUT_CHAN7'' 0x820 (Some 0xf9f), Register ''DMA_PAUSE_COUNTER_CHAN7'' 0x824 (Some 0x0),
    Register ''DMA_FSM_STATE_CHAN7'' 0x828 (Some 0x1)]"

definition registers_881 :: "register list" where
  "registers_881 = [
    Register ''FLASH_FSH_PE_CONTROL0'' 0x0 (Some 0x0), Register ''FLASH_FSH_PE_CONTROL1'' 0x4 (Some 0x0),
    Register ''FLASH_FSH_TRANS'' 0x8 (Some 0x0), Register ''FLASH_FSH_PROTECT_INFO1'' 0xc (Some 0x0), Register
    ''FLASH_FSH_ENABLE_INFO0_SHADOW_READ'' 0x10 (Some 0x0), Register ''FLASH_FSH_ICTRL'' 0x14 (Some 0x0),
    Register ''FLASH_FSH_ISTATE'' 0x18 (Some 0x0), Register ''FLASH_FSH_OVRD0_UNLOCK'' 0x1c (Some 0x0), Register
    ''FLASH_FSH_OVRD1_UNLOCK'' 0x20 (Some 0x0), Register ''FLASH_FSH_OVRD_SIGVAL_DIN'' 0x24 (Some 0x0), Register
    ''FLASH_FSH_OVRD_SIGVAL_OFFSET'' 0x28 (Some 0x0), Register ''FLASH_FSH_OVRD_SIGVAL'' 0x2c (Some 0x0),
    Register ''FLASH_FSH_OVRD_SIGEN'' 0x30 (Some 0x0), Register ''FLASH_FSH_NO_WAIT_ON_BOUT_SEQ'' 0x34 (Some
    0x0), Register ''FLASH_FSH_DOUT_VAL0'' 0x38 (Some 0x0), Register ''FLASH_FSH_OVRD_SIGVAL_TC0'' 0x3c (Some
    0x0), Register ''FLASH_FSH_DOUT_VAL1'' 0x40 (Some 0x0), Register ''FLASH_FSH_OVRD_SIGVAL_TC1'' 0x44 (Some
    0x0), Register ''FLASH_FSH_WR_DATA0'' 0x48 (Some 0x0), Register ''FLASH_FSH_WR_DATA1'' 0x4c (Some 0x0),
    Register ''FLASH_FSH_WR_DATA2'' 0x50 (Some 0x0), Register ''FLASH_FSH_WR_DATA3'' 0x54 (Some 0x0), Register
    ''FLASH_FSH_WR_DATA4'' 0x58 (Some 0x0), Register ''FLASH_FSH_WR_DATA5'' 0x5c (Some 0x0), Register
    ''FLASH_FSH_WR_DATA6'' 0x60 (Some 0x0), Register ''FLASH_FSH_WR_DATA7'' 0x64 (Some 0x0), Register
    ''FLASH_FSH_WR_DATA8'' 0x68 (Some 0x0), Register ''FLASH_FSH_WR_DATA9'' 0x6c (Some 0x0), Register
    ''FLASH_FSH_WR_DATA10'' 0x70 (Some 0x0), Register ''FLASH_FSH_WR_DATA11'' 0x74 (Some 0x0), Register
    ''FLASH_FSH_WR_DATA12'' 0x78 (Some 0x0), Register ''FLASH_FSH_WR_DATA13'' 0x7c (Some 0x0), Register
    ''FLASH_FSH_WR_DATA14'' 0x80 (Some 0x0), Register ''FLASH_FSH_WR_DATA15'' 0x84 (Some 0x0), Register
    ''FLASH_FSH_WR_DATA16'' 0x88 (Some 0x0), Register ''FLASH_FSH_WR_DATA17'' 0x8c (Some 0x0), Register
    ''FLASH_FSH_WR_DATA18'' 0x90 (Some 0x0), Register ''FLASH_FSH_WR_DATA19'' 0x94 (Some 0x0), Register
    ''FLASH_FSH_WR_DATA20'' 0x98 (Some 0x0), Register ''FLASH_FSH_WR_DATA21'' 0x9c (Some 0x0)]"

definition registers_971 :: "register list" where
  "registers_971 = [
    Register ''FLASH_FSH_WR_DATA22'' 0xa0 (Some 0x0), Register ''FLASH_FSH_WR_DATA23'' 0xa4 (Some 0x0), Register
    ''FLASH_FSH_WR_DATA24'' 0xa8 (Some 0x0), Register ''FLASH_FSH_WR_DATA25'' 0xac (Some 0x0), Register
    ''FLASH_FSH_WR_DATA26'' 0xb0 (Some 0x0), Register ''FLASH_FSH_WR_DATA27'' 0xb4 (Some 0x0), Register
    ''FLASH_FSH_WR_DATA28'' 0xb8 (Some 0x0), Register ''FLASH_FSH_WR_DATA29'' 0xbc (Some 0x0), Register
    ''FLASH_FSH_WR_DATA30'' 0xc0 (Some 0x0), Register ''FLASH_FSH_WR_DATA31'' 0xc4 (Some 0x0), Register
    ''FLASH_FSH_PE_EN'' 0xc8 (Some 0x0), Register ''FLASH_FSH_REDUN0'' 0xcc (Some 0x0), Register
    ''FLASH_FSH_REDUN1'' 0xd0 (Some 0x0), Register ''FLASH_FSH_ERROR'' 0xd4 (Some 0x0), Register
    ''FLASH_FSH_TIMING_READ_TOTAL_CYC'' 0xd8 (Some 0x1), Register ''FLASH_FSH_TIMING_READ_XE_FRST_CYC'' 0xdc
    (Some 0x0), Register ''FLASH_FSH_TIMING_READ_XE_LAST_CYC'' 0xe0 (Some 0x0), Register
    ''FLASH_FSH_TIMING_READ_YE_FRST_CYC'' 0xe4 (Some 0x0), Register ''FLASH_FSH_TIMING_READ_YE_LAST_CYC'' 0xe8
    (Some 0x0), Register ''FLASH_FSH_TIMING_READ_SE_FRST_CYC'' 0xec (Some 0x0), Register
    ''FLASH_FSH_TIMING_READ_SE_LAST_CYC'' 0xf0 (Some 0x0), Register ''FLASH_FSH_TIMING_READ_PV_FRST_CYC'' 0xf4
    (Some 0x0), Register ''FLASH_FSH_TIMING_READ_PV_LAST_CYC'' 0xf8 (Some 0x0), Register
    ''FLASH_FSH_TIMING_READ_EV_FRST_CYC'' 0xfc (Some 0x0), Register ''FLASH_FSH_TIMING_READ_EV_LAST_CYC'' 0x100
    (Some 0x0), Register ''FLASH_FSH_TIMING_PROG_SMART_ALGO_ON'' 0x104 (Some 0x1), Register
    ''FLASH_FSH_TIMING_PROG_TOTAL_CYC'' 0x108 (Some 0x37e), Register ''FLASH_FSH_TIMING_PROG_XE_FRST_CYC'' 0x10c
    (Some 0x0), Register ''FLASH_FSH_TIMING_PROG_XE_LAST_CYC'' 0x110 (Some 0x265), Register
    ''FLASH_FSH_TIMING_PROG_YE_FRST_CYC'' 0x114 (Some 0x1a7), Register ''FLASH_FSH_TIMING_PROG_YE_LAST_CYC''
    0x118 (Some 0x1d6), Register ''FLASH_FSH_TIMING_PROG_ONEWRD_FRST_CYC'' 0x11c (Some 0x1a6), Register
    ''FLASH_FSH_TIMING_PROG_ONEWRD_LAST_CYC'' 0x120 (Some 0x1d7), Register
    ''FLASH_FSH_TIMING_PROG_PROGSIG_FRST_CYC'' 0x124 (Some 0x1), Register
    ''FLASH_FSH_TIMING_PROG_PROGSIG_LAST_CYC'' 0x128 (Some 0x1d7), Register
    ''FLASH_FSH_TIMING_PROG_NVSTR_FRST_CYC'' 0x12c (Some 0x8d), Register
    ''FLASH_FSH_TIMING_PROG_NVSTR_LAST_CYC'' 0x130 (Some 0x264), Register
    ''FLASH_FSH_TIMING_ERASE_SMART_ALGO_ON'' 0x134 (Some 0x1), Register ''FLASH_FSH_TIMING_ERASE_TOTAL_CYC''
    0x138 (Some 0xbb12), Register ''FLASH_FSH_TIMING_ERASE_XE_FRST_CYC'' 0x13c (Some 0x0)]"

definition registers_1052 :: "register list" where
  "registers_1052 = [
    Register ''FLASH_FSH_TIMING_ERASE_XE_LAST_CYC'' 0x140 (Some 0xb9f9), Register
    ''FLASH_FSH_TIMING_ERASE_ERASESIG_FRST_CYC'' 0x144 (Some 0x1), Register
    ''FLASH_FSH_TIMING_ERASE_ERASESIG_LAST_CYC'' 0x148 (Some 0xb96b), Register
    ''FLASH_FSH_TIMING_ERASE_NVSTR_FRST_CYC'' 0x14c (Some 0x8d), Register
    ''FLASH_FSH_TIMING_ERASE_NVSTR_LAST_CYC'' 0x150 (Some 0xb9f8), Register
    ''FLASH_FSH_TIMING_BULKERASE_SMART_ALGO_ON'' 0x154 (Some 0x1), Register
    ''FLASH_FSH_TIMING_BULKERASE_TOTAL_CYC'' 0x158 (Some 0xc585), Register
    ''FLASH_FSH_TIMING_BULKERASE_XE_FRST_CYC'' 0x15c (Some 0x0), Register
    ''FLASH_FSH_TIMING_BULKERASE_XE_LAST_CYC'' 0x160 (Some 0xc46c), Register
    ''FLASH_FSH_TIMING_BULKERASE_ERASESIG_FRST_CYC'' 0x164 (Some 0x1), Register
    ''FLASH_FSH_TIMING_BULKERASE_ERASESIG_LAST_CYC'' 0x168 (Some 0xb96b), Register
    ''FLASH_FSH_TIMING_BULKERASE_MAS1_FRST_CYC'' 0x16c (Some 0x0), Register
    ''FLASH_FSH_TIMING_BULKERASE_MAS1_LAST_CYC'' 0x170 (Some 0xc46c), Register
    ''FLASH_FSH_TIMING_BULKERASE_NVSTR_FRST_CYC'' 0x174 (Some 0x8d), Register
    ''FLASH_FSH_TIMING_BULKERASE_NVSTR_LAST_CYC'' 0x178 (Some 0xc46b), Register ''FLASH_FSH_DBG'' 0x17c (Some
    0x0), Register ''FLASH_FSH_ITCR'' 0xf00 (Some 0x0), Register ''FLASH_FSH_ITOP'' 0xf04 (Some 0x0)]"

definition registers_1088 :: "register list" where
  "registers_1088 = [
    Register ''FUSE_STATUS'' 0x0 (Some 0x0), Register ''FUSE_READ_START'' 0x4 (Some 0x0), Register
    ''FUSE_PROG_START'' 0x8 (Some 0x0), Register ''FUSE_OVERRIDE_START'' 0xc (Some 0x0), Register
    ''FUSE_FPGA_MODEL_CTRL'' 0x10 (Some 0x0), Register ''FUSE_SCRUB_PRBS_CLK_DIV'' 0x14 (Some 0xffffff),
    Register ''FUSE_SCRUB_PRBS_THRESHOLD_VAL'' 0x18 (Some 0x7fff), Register ''FUSE_SCRUB_ENABLE'' 0x1c (Some
    0x0), Register ''FUSE_ERROR_INJECT'' 0x20 (Some 0x0), Register ''FUSE_VDDQ_RAMP_TIMING'' 0x24 (Some
    0x1d4c0), Register ''FUSE_ANTEST_EN'' 0x28 (Some 0x0), Register ''FUSE_VERSION'' 0x2c (Some 0x1014125),
    Register ''FUSE_BNK0_INTG_CHKSUM'' 0x30 (Some 0x55000000), Register ''FUSE_BNK0_INTG_LOCK'' 0x34 (Some
    0x55555550), Register ''FUSE_DS_GRP0'' 0x38 (Some 0x55555400), Register ''FUSE_DS_GRP1'' 0x3c (Some
    0x55555400), Register ''FUSE_DS_GRP2'' 0x40 (Some 0x55555400), Register ''FUSE_DEV_ID0'' 0x44 (Some 0x0),
    Register ''FUSE_DEV_ID1'' 0x48 (Some 0x0), Register ''FUSE_BNK1_INTG_CHKSUM'' 0x4c (Some 0x55000000),
    Register ''FUSE_BNK1_INTG_LOCK'' 0x50 (Some 0x55555550), Register ''FUSE_LB0_POST_OVRD'' 0x54 (Some
    0x55555550), Register ''FUSE_LB0_POST_PATCNT'' 0x58 (Some 0x55555554), Register
    ''FUSE_LB0_POST_WARMUP_OVRD'' 0x5c (Some 0x55555550), Register ''FUSE_LB0_POST_WARMUP_CNT'' 0x60 (Some
    0x55555554), Register ''FUSE_LB1_POST_OVRD'' 0x64 (Some 0x55555550), Register ''FUSE_LB1_POST_PATCNT'' 0x68
    (Some 0x55555554), Register ''FUSE_LB1_POST_WARMUP_OVRD'' 0x6c (Some 0x55555550), Register
    ''FUSE_LB1_POST_WARMUP_CNT'' 0x70 (Some 0x55555554), Register ''FUSE_LB2_POST_OVRD'' 0x74 (Some 0x55555550),
    Register ''FUSE_LB2_POST_PATCNT'' 0x78 (Some 0x55555554), Register ''FUSE_LB2_POST_WARMUP_OVRD'' 0x7c (Some
    0x55555550), Register ''FUSE_LB2_POST_WARMUP_CNT'' 0x80 (Some 0x55555554), Register ''FUSE_LB3_POST_OVRD''
    0x84 (Some 0x55555550), Register ''FUSE_LB3_POST_PATCNT'' 0x88 (Some 0x55555554), Register
    ''FUSE_LB3_POST_WARMUP_OVRD'' 0x8c (Some 0x55555550), Register ''FUSE_LB3_POST_WARMUP_CNT'' 0x90 (Some
    0x55555554), Register ''FUSE_LB4_POST_OVRD'' 0x94 (Some 0x55555550), Register ''FUSE_LB4_POST_PATCNT'' 0x98
    (Some 0x55555554), Register ''FUSE_LB4_POST_WARMUP_OVRD'' 0x9c (Some 0x55555550)]"

definition registers_1178 :: "register list" where
  "registers_1178 = [
    Register ''FUSE_LB4_POST_WARMUP_CNT'' 0xa0 (Some 0x55555554), Register ''FUSE_MBIST_POST_SEQ'' 0xa4 (Some
    0x54000000), Register ''FUSE_LBIST_POST_SEQ'' 0xa8 (Some 0x54000000), Register ''FUSE_LBIST_VIA_TAP_DIS''
    0xac (Some 0x55555550), Register ''FUSE_MBIST_VIA_TAP_DIS'' 0xb0 (Some 0x55555550), Register
    ''FUSE_TAP_DISABLE'' 0xb4 (Some 0x55555550), Register ''FUSE_RNGBIST_AR_EN'' 0xb8 (Some 0x55555550),
    Register ''FUSE_TESTMODE_KEYS_EN'' 0xbc (Some 0x55555550), Register ''FUSE_PKG_ID'' 0xc0 (Some 0x55555550),
    Register ''FUSE_BIN_ID'' 0xc4 (Some 0x55555550), Register ''FUSE_RC_JTR_OSC48_CC_TRIM'' 0xc8 (Some
    0x55555500), Register ''FUSE_RC_JTR_OSC48_CC_EN'' 0xcc (Some 0x55555550), Register
    ''FUSE_RC_JTR_OSC60_CC_TRIM'' 0xd0 (Some 0x55555500), Register ''FUSE_RC_JTR_OSC60_CC_EN'' 0xd4 (Some
    0x55555550), Register ''FUSE_RC_TIMER_OSC48_CC_TRIM'' 0xd8 (Some 0x55555500), Register
    ''FUSE_RC_TIMER_OSC48_CC_EN'' 0xdc (Some 0x55555550), Register ''FUSE_RC_TIMER_OSC48_FC_TRIM'' 0xe0 (Some
    0x55555540), Register ''FUSE_RC_TIMER_OSC48_FC_EN'' 0xe4 (Some 0x55555550), Register
    ''FUSE_RC_RTC_OSC256K_CC_TRIM'' 0xe8 (Some 0x55555500), Register ''FUSE_RC_RTC_OSC256K_CC_EN'' 0xec (Some
    0x55555550), Register ''FUSE_SEL_VREG_REG_EN'' 0xf0 (Some 0x55555550), Register ''FUSE_SEL_VREF_REG'' 0xf4
    (Some 0x55555550), Register ''FUSE_SEL_VREF_BATMON_EN'' 0xf8 (Some 0x55555550), Register
    ''FUSE_SEL_VREF_BATMON'' 0xfc (Some 0x55555550), Register ''FUSE_X_OSC_LDO_CTRL_EN'' 0x100 (Some
    0x55555550), Register ''FUSE_X_OSC_LDO_CTRL'' 0x104 (Some 0x55555550), Register ''FUSE_TEMP_OFFSET_CAL''
    0x108 (Some 0x55555000), Register ''FUSE_TRNG_LDO_CTRL_EN'' 0x10c (Some 0x55555550), Register
    ''FUSE_TRNG_LDO_CTRL'' 0x110 (Some 0x55555540), Register ''FUSE_TRNG_ANALOG_CTRL_EN'' 0x114 (Some
    0x55555550), Register ''FUSE_TRNG_ANALOG_CTRL'' 0x118 (Some 0x55555550), Register ''FUSE_EXT_XTAL_PDB''
    0x11c (Some 0x55555554), Register ''FUSE_DIS_EXT_XTAL_CLK_TREE'' 0x120 (Some 0x55555550), Register
    ''FUSE_OBFUSCATION_EN'' 0x124 (Some 0x55555550), Register ''FUSE_HIK_CREATE_LOCK'' 0x128 (Some 0x55555550),
    Register ''FUSE_BNK2_INTG_CHKSUM'' 0x12c (Some 0x55000000), Register ''FUSE_BNK2_INTG_LOCK'' 0x130 (Some
    0x55555550), Register ''FUSE_TESTMODE_OTPW_DIS'' 0x134 (Some 0x55555550), Register
    ''FUSE_HKEY_WDOG_TIMER_EN'' 0x138 (Some 0x55555550), Register ''FUSE_FLASH_PERSO_PAGE_LOCK'' 0x13c (Some
    0x55555550)]"

definition registers_1258 :: "register list" where
  "registers_1258 = [
    Register ''FUSE_ALERT_RSP_CFG'' 0x140 (Some 0x55555500), Register ''FUSE_BNK3_INTG_CHKSUM'' 0x144 (Some
    0x55000000), Register ''FUSE_BNK3_INTG_LOCK'' 0x148 (Some 0x55555550), Register
    ''FUSE_FW_DEFINED_DATA_BLK0'' 0x14c (Some 0x55555500), Register ''FUSE_FW_DEFINED_BROM_ERR_RESPONSE'' 0x150
    (Some 0x55550000), Register ''FUSE_FW_DEFINED_BROM_APPLYSEC'' 0x154 (Some 0x55555000), Register
    ''FUSE_FW_DEFINED_BROM_CONFIG0'' 0x158 (Some 0x55555500), Register ''FUSE_FW_DEFINED_BROM_CONFIG1'' 0x15c
    (Some 0x55555500), Register ''FUSE_RBOX_MODE_DBG_OVRD_DIS'' 0x160 (Some 0x55555554), Register
    ''FUSE_RBOX_MODE_OUTPUT_OVRD_DIS'' 0x164 (Some 0x55555500), Register ''FUSE_RBOX_CLK10HZ_COUNT'' 0x168 (Some
    0x55550000), Register ''FUSE_RBOX_SHORT_DELAY_COUNT'' 0x16c (Some 0x55550000), Register
    ''FUSE_RBOX_LONG_DELAY_COUNT'' 0x170 (Some 0x55555500), Register ''FUSE_RBOX_DEBOUNCE_PERIOD'' 0x174 (Some
    0x55550000), Register ''FUSE_RBOX_DEBOUNCE_BYPASS_PWRB'' 0x178 (Some 0x55555554), Register
    ''FUSE_RBOX_DEBOUNCE_BYPASS_KEY0'' 0x17c (Some 0x55555554), Register ''FUSE_RBOX_DEBOUNCE_BYPASS_KEY1''
    0x180 (Some 0x55555554), Register ''FUSE_RBOX_KEY_COMBO0_VAL'' 0x184 (Some 0x55555500), Register
    ''FUSE_RBOX_KEY_COMBO1_VAL'' 0x188 (Some 0x55555500), Register ''FUSE_RBOX_KEY_COMBO2_VAL'' 0x18c (Some
    0x55555500), Register ''FUSE_RBOX_KEY_COMBO0_HOLD'' 0x190 (Some 0x55555500), Register
    ''FUSE_RBOX_KEY_COMBO1_HOLD'' 0x194 (Some 0x55555500), Register ''FUSE_RBOX_KEY_COMBO2_HOLD'' 0x198 (Some
    0x55555500), Register ''FUSE_RBOX_BLOCK_KEY0_SEL'' 0x19c (Some 0x55555554), Register
    ''FUSE_RBOX_BLOCK_KEY1_SEL'' 0x1a0 (Some 0x55555554), Register ''FUSE_RBOX_BLOCK_KEY0_VAL'' 0x1a4 (Some
    0x55555554), Register ''FUSE_RBOX_BLOCK_KEY1_VAL'' 0x1a8 (Some 0x55555554), Register
    ''FUSE_RBOX_POL_AC_PRESENT'' 0x1ac (Some 0x55555554), Register ''FUSE_RBOX_POL_PWRB_IN'' 0x1b0 (Some
    0x55555554), Register ''FUSE_RBOX_POL_PWRB_OUT'' 0x1b4 (Some 0x55555554), Register ''FUSE_RBOX_POL_KEY0_IN''
    0x1b8 (Some 0x55555554), Register ''FUSE_RBOX_POL_KEY0_OUT'' 0x1bc (Some 0x55555554), Register
    ''FUSE_RBOX_POL_KEY1_IN'' 0x1c0 (Some 0x55555554), Register ''FUSE_RBOX_POL_KEY1_OUT'' 0x1c4 (Some
    0x55555554), Register ''FUSE_RBOX_POL_EC_RST'' 0x1c8 (Some 0x55555554), Register
    ''FUSE_RBOX_POL_BATT_DISABLE'' 0x1cc (Some 0x55555554), Register ''FUSE_RBOX_TERM_AC_PRESENT'' 0x1d0 (Some
    0x55555554), Register ''FUSE_RBOX_TERM_ENTERING_RW'' 0x1d4 (Some 0x55555554), Register
    ''FUSE_RBOX_TERM_PWRB_IN'' 0x1d8 (Some 0x55555554), Register ''FUSE_RBOX_TERM_PWRB_OUT'' 0x1dc (Some
    0x55555554)]"

definition registers_1338 :: "register list" where
  "registers_1338 = [
    Register ''FUSE_RBOX_TERM_KEY0_IN'' 0x1e0 (Some 0x55555554), Register ''FUSE_RBOX_TERM_KEY0_OUT'' 0x1e4
    (Some 0x55555554), Register ''FUSE_RBOX_TERM_KEY1_IN'' 0x1e8 (Some 0x55555554), Register
    ''FUSE_RBOX_TERM_KEY1_OUT'' 0x1ec (Some 0x55555554), Register ''FUSE_RBOX_DRIVE_PWRB_OUT'' 0x1f0 (Some
    0x55555554), Register ''FUSE_RBOX_DRIVE_KEY0_OUT'' 0x1f4 (Some 0x55555554), Register
    ''FUSE_RBOX_DRIVE_KEY1_OUT'' 0x1f8 (Some 0x55555554), Register ''FUSE_RBOX_DRIVE_EC_RST'' 0x1fc (Some
    0x55555554), Register ''FUSE_RBOX_DRIVE_BATT_DISABLE'' 0x200 (Some 0x55555554), Register
    ''FUSE_BNK4_INTG_CHKSUM'' 0x204 (Some 0x55000000), Register ''FUSE_BNK4_INTG_LOCK'' 0x208 (Some 0x55555550),
    Register ''FUSE_FW_DEFINED_DATA_EXTRA_BLK0'' 0x20c (Some 0x55555500), Register
    ''FUSE_FW_DEFINED_DATA_EXTRA_BLK1'' 0x210 (Some 0x55555500), Register ''FUSE_FW_DEFINED_DATA_EXTRA_BLK2''
    0x214 (Some 0x55555500), Register ''FUSE_FW_DEFINED_DATA_EXTRA_BLK3'' 0x218 (Some 0x55555500), Register
    ''FUSE_FW_DEFINED_DATA_EXTRA_BLK4'' 0x21c (Some 0x55555500), Register ''FUSE_FW_DEFINED_DATA_EXTRA_BLK5''
    0x220 (Some 0x55555500), Register ''FUSE_FW_DEFINED_DATA_EXTRA_BLK6'' 0x224 (Some 0x55555540), Register
    ''FUSE_PROG_BNK0_INTG_CHKSUM'' 0x228 (Some 0x0), Register ''FUSE_PROG_BNK0_INTG_LOCK'' 0x22c (Some 0x0),
    Register ''FUSE_PROG_DS_GRP0'' 0x230 (Some 0x0), Register ''FUSE_PROG_DS_GRP1'' 0x234 (Some 0x0), Register
    ''FUSE_PROG_DS_GRP2'' 0x238 (Some 0x0), Register ''FUSE_PROG_DEV_ID0'' 0x23c (Some 0x0), Register
    ''FUSE_PROG_DEV_ID1'' 0x240 (Some 0x0), Register ''FUSE_PROG_BNK1_INTG_CHKSUM'' 0x244 (Some 0x0), Register
    ''FUSE_PROG_BNK1_INTG_LOCK'' 0x248 (Some 0x0), Register ''FUSE_PROG_LB0_POST_OVRD'' 0x24c (Some 0x0),
    Register ''FUSE_PROG_LB0_POST_PATCNT'' 0x250 (Some 0x0), Register ''FUSE_PROG_LB0_POST_WARMUP_OVRD'' 0x254
    (Some 0x0), Register ''FUSE_PROG_LB0_POST_WARMUP_CNT'' 0x258 (Some 0x0), Register
    ''FUSE_PROG_LB1_POST_OVRD'' 0x25c (Some 0x0), Register ''FUSE_PROG_LB1_POST_PATCNT'' 0x260 (Some 0x0),
    Register ''FUSE_PROG_LB1_POST_WARMUP_OVRD'' 0x264 (Some 0x0), Register ''FUSE_PROG_LB1_POST_WARMUP_CNT''
    0x268 (Some 0x0), Register ''FUSE_PROG_LB2_POST_OVRD'' 0x26c (Some 0x0), Register
    ''FUSE_PROG_LB2_POST_PATCNT'' 0x270 (Some 0x0), Register ''FUSE_PROG_LB2_POST_WARMUP_OVRD'' 0x274 (Some
    0x0), Register ''FUSE_PROG_LB2_POST_WARMUP_CNT'' 0x278 (Some 0x0), Register ''FUSE_PROG_LB3_POST_OVRD''
    0x27c (Some 0x0)]"

definition registers_1418 :: "register list" where
  "registers_1418 = [
    Register ''FUSE_PROG_LB3_POST_PATCNT'' 0x280 (Some 0x0), Register ''FUSE_PROG_LB3_POST_WARMUP_OVRD'' 0x284
    (Some 0x0), Register ''FUSE_PROG_LB3_POST_WARMUP_CNT'' 0x288 (Some 0x0), Register
    ''FUSE_PROG_LB4_POST_OVRD'' 0x28c (Some 0x0), Register ''FUSE_PROG_LB4_POST_PATCNT'' 0x290 (Some 0x0),
    Register ''FUSE_PROG_LB4_POST_WARMUP_OVRD'' 0x294 (Some 0x0), Register ''FUSE_PROG_LB4_POST_WARMUP_CNT''
    0x298 (Some 0x0), Register ''FUSE_PROG_MBIST_POST_SEQ'' 0x29c (Some 0x0), Register
    ''FUSE_PROG_LBIST_POST_SEQ'' 0x2a0 (Some 0x0), Register ''FUSE_PROG_LBIST_VIA_TAP_DIS'' 0x2a4 (Some 0x0),
    Register ''FUSE_PROG_MBIST_VIA_TAP_DIS'' 0x2a8 (Some 0x0), Register ''FUSE_PROG_MBIST_BOOTROM_MISR_EN''
    0x2ac (Some 0x0), Register ''FUSE_PROG_MBIST_BOOTROM_MISR'' 0x2b0 (Some 0x0), Register
    ''FUSE_PROG_TAP_DISABLE'' 0x2b4 (Some 0x0), Register ''FUSE_PROG_RNGBIST_AR_EN'' 0x2b8 (Some 0x0), Register
    ''FUSE_PROG_TESTMODE_KEYS_EN'' 0x2bc (Some 0x0), Register ''FUSE_PROG_PKG_ID'' 0x2c0 (Some 0x0), Register
    ''FUSE_PROG_BIN_ID'' 0x2c4 (Some 0x0), Register ''FUSE_PROG_RC_JTR_OSC48_CC_TRIM'' 0x2c8 (Some 0x0),
    Register ''FUSE_PROG_RC_JTR_OSC48_CC_EN'' 0x2cc (Some 0x0), Register ''FUSE_PROG_RC_JTR_OSC60_CC_TRIM''
    0x2d0 (Some 0x0), Register ''FUSE_PROG_RC_JTR_OSC60_CC_EN'' 0x2d4 (Some 0x0), Register
    ''FUSE_PROG_RC_TIMER_OSC48_CC_TRIM'' 0x2d8 (Some 0x0), Register ''FUSE_PROG_RC_TIMER_OSC48_CC_EN'' 0x2dc
    (Some 0x0), Register ''FUSE_PROG_RC_TIMER_OSC48_FC_TRIM'' 0x2e0 (Some 0x0), Register
    ''FUSE_PROG_RC_TIMER_OSC48_FC_EN'' 0x2e4 (Some 0x0), Register ''FUSE_PROG_RC_RTC_OSC256K_CC_TRIM'' 0x2e8
    (Some 0x0), Register ''FUSE_PROG_RC_RTC_OSC256K_CC_EN'' 0x2ec (Some 0x0), Register
    ''FUSE_PROG_SEL_VREG_REG_EN'' 0x2f0 (Some 0x0), Register ''FUSE_PROG_SEL_VREF_REG'' 0x2f4 (Some 0x0),
    Register ''FUSE_PROG_SEL_VREF_BATMON_EN'' 0x2f8 (Some 0x0), Register ''FUSE_PROG_SEL_VREF_BATMON'' 0x2fc
    (Some 0x0), Register ''FUSE_PROG_X_OSC_LDO_CTRL_EN'' 0x300 (Some 0x0), Register ''FUSE_PROG_X_OSC_LDO_CTRL''
    0x304 (Some 0x0), Register ''FUSE_PROG_TEMP_OFFSET_CAL'' 0x308 (Some 0x0), Register
    ''FUSE_PROG_TRNG_LDO_CTRL_EN'' 0x30c (Some 0x0), Register ''FUSE_PROG_TRNG_LDO_CTRL'' 0x310 (Some 0x0),
    Register ''FUSE_PROG_TRNG_ANALOG_CTRL_EN'' 0x314 (Some 0x0), Register ''FUSE_PROG_TRNG_ANALOG_CTRL'' 0x318
    (Some 0x0), Register ''FUSE_PROG_EXT_XTAL_PDB'' 0x31c (Some 0x0)]"

definition registers_1498 :: "register list" where
  "registers_1498 = [
    Register ''FUSE_PROG_DIS_EXT_XTAL_CLK_TREE'' 0x320 (Some 0x0), Register ''FUSE_PROG_OBFUSCATION_EN'' 0x324
    (Some 0x0), Register ''FUSE_PROG_OBS0'' 0x328 (Some 0x0), Register ''FUSE_PROG_OBS1'' 0x32c (Some 0x0),
    Register ''FUSE_PROG_OBS2'' 0x330 (Some 0x0), Register ''FUSE_PROG_OBS3'' 0x334 (Some 0x0), Register
    ''FUSE_PROG_OBS4'' 0x338 (Some 0x0), Register ''FUSE_PROG_OBS5'' 0x33c (Some 0x0), Register
    ''FUSE_PROG_OBS6'' 0x340 (Some 0x0), Register ''FUSE_PROG_OBS7'' 0x344 (Some 0x0), Register
    ''FUSE_PROG_HIK_CREATE_LOCK'' 0x348 (Some 0x0), Register ''FUSE_PROG_BNK2_INTG_CHKSUM'' 0x34c (Some 0x0),
    Register ''FUSE_PROG_BNK2_INTG_LOCK'' 0x350 (Some 0x0), Register ''FUSE_PROG_TESTMODE_OTPW_DIS'' 0x354 (Some
    0x0), Register ''FUSE_PROG_HKEY_WDOG_TIMER_EN'' 0x358 (Some 0x0), Register
    ''FUSE_PROG_FLASH_PERSO_PAGE_LOCK'' 0x35c (Some 0x0), Register ''FUSE_PROG_ALERT_RSP_CFG'' 0x360 (Some 0x0),
    Register ''FUSE_PROG_BNK3_INTG_CHKSUM'' 0x364 (Some 0x0), Register ''FUSE_PROG_BNK3_INTG_LOCK'' 0x368 (Some
    0x0), Register ''FUSE_PROG_FW_DEFINED_DATA_BLK0'' 0x36c (Some 0x0), Register
    ''FUSE_PROG_FW_DEFINED_BROM_ERR_RESPONSE'' 0x370 (Some 0x0), Register ''FUSE_PROG_FW_DEFINED_BROM_APPLYSEC''
    0x374 (Some 0x0), Register ''FUSE_PROG_FW_DEFINED_BROM_CONFIG0'' 0x378 (Some 0x0), Register
    ''FUSE_PROG_FW_DEFINED_BROM_CONFIG1'' 0x37c (Some 0x0), Register ''FUSE_PROG_RBOX_MODE_DBG_OVRD_DIS'' 0x380
    (Some 0x0), Register ''FUSE_PROG_RBOX_MODE_OUTPUT_OVRD_DIS'' 0x384 (Some 0x0), Register
    ''FUSE_PROG_RBOX_CLK10HZ_COUNT'' 0x388 (Some 0x0), Register ''FUSE_PROG_RBOX_SHORT_DELAY_COUNT'' 0x38c (Some
    0x0), Register ''FUSE_PROG_RBOX_LONG_DELAY_COUNT'' 0x390 (Some 0x0), Register
    ''FUSE_PROG_RBOX_DEBOUNCE_PERIOD'' 0x394 (Some 0x0), Register ''FUSE_PROG_RBOX_DEBOUNCE_BYPASS_PWRB'' 0x398
    (Some 0x0), Register ''FUSE_PROG_RBOX_DEBOUNCE_BYPASS_KEY0'' 0x39c (Some 0x0), Register
    ''FUSE_PROG_RBOX_DEBOUNCE_BYPASS_KEY1'' 0x3a0 (Some 0x0), Register ''FUSE_PROG_RBOX_KEY_COMBO0_VAL'' 0x3a4
    (Some 0x0), Register ''FUSE_PROG_RBOX_KEY_COMBO1_VAL'' 0x3a8 (Some 0x0), Register
    ''FUSE_PROG_RBOX_KEY_COMBO2_VAL'' 0x3ac (Some 0x0), Register ''FUSE_PROG_RBOX_KEY_COMBO0_HOLD'' 0x3b0 (Some
    0x0), Register ''FUSE_PROG_RBOX_KEY_COMBO1_HOLD'' 0x3b4 (Some 0x0), Register
    ''FUSE_PROG_RBOX_KEY_COMBO2_HOLD'' 0x3b8 (Some 0x0), Register ''FUSE_PROG_RBOX_BLOCK_KEY0_SEL'' 0x3bc (Some
    0x0)]"

definition registers_1578 :: "register list" where
  "registers_1578 = [
    Register ''FUSE_PROG_RBOX_BLOCK_KEY1_SEL'' 0x3c0 (Some 0x0), Register ''FUSE_PROG_RBOX_BLOCK_KEY0_VAL''
    0x3c4 (Some 0x0), Register ''FUSE_PROG_RBOX_BLOCK_KEY1_VAL'' 0x3c8 (Some 0x0), Register
    ''FUSE_PROG_RBOX_POL_AC_PRESENT'' 0x3cc (Some 0x0), Register ''FUSE_PROG_RBOX_POL_PWRB_IN'' 0x3d0 (Some
    0x0), Register ''FUSE_PROG_RBOX_POL_PWRB_OUT'' 0x3d4 (Some 0x0), Register ''FUSE_PROG_RBOX_POL_KEY0_IN''
    0x3d8 (Some 0x0), Register ''FUSE_PROG_RBOX_POL_KEY0_OUT'' 0x3dc (Some 0x0), Register
    ''FUSE_PROG_RBOX_POL_KEY1_IN'' 0x3e0 (Some 0x0), Register ''FUSE_PROG_RBOX_POL_KEY1_OUT'' 0x3e4 (Some 0x0),
    Register ''FUSE_PROG_RBOX_POL_EC_RST'' 0x3e8 (Some 0x0), Register ''FUSE_PROG_RBOX_POL_BATT_DISABLE'' 0x3ec
    (Some 0x0), Register ''FUSE_PROG_RBOX_TERM_AC_PRESENT'' 0x3f0 (Some 0x0), Register
    ''FUSE_PROG_RBOX_TERM_ENTERING_RW'' 0x3f4 (Some 0x0), Register ''FUSE_PROG_RBOX_TERM_PWRB_IN'' 0x3f8 (Some
    0x0), Register ''FUSE_PROG_RBOX_TERM_PWRB_OUT'' 0x3fc (Some 0x0), Register ''FUSE_PROG_RBOX_TERM_KEY0_IN''
    0x400 (Some 0x0), Register ''FUSE_PROG_RBOX_TERM_KEY0_OUT'' 0x404 (Some 0x0), Register
    ''FUSE_PROG_RBOX_TERM_KEY1_IN'' 0x408 (Some 0x0), Register ''FUSE_PROG_RBOX_TERM_KEY1_OUT'' 0x40c (Some
    0x0), Register ''FUSE_PROG_RBOX_DRIVE_PWRB_OUT'' 0x410 (Some 0x0), Register
    ''FUSE_PROG_RBOX_DRIVE_KEY0_OUT'' 0x414 (Some 0x0), Register ''FUSE_PROG_RBOX_DRIVE_KEY1_OUT'' 0x418 (Some
    0x0), Register ''FUSE_PROG_RBOX_DRIVE_EC_RST'' 0x41c (Some 0x0), Register
    ''FUSE_PROG_RBOX_DRIVE_BATT_DISABLE'' 0x420 (Some 0x0), Register ''FUSE_PROG_BNK4_INTG_CHKSUM'' 0x424 (Some
    0x0), Register ''FUSE_PROG_BNK4_INTG_LOCK'' 0x428 (Some 0x0), Register
    ''FUSE_PROG_FW_DEFINED_DATA_EXTRA_BLK0'' 0x42c (Some 0x0), Register ''FUSE_PROG_FW_DEFINED_DATA_EXTRA_BLK1''
    0x430 (Some 0x0), Register ''FUSE_PROG_FW_DEFINED_DATA_EXTRA_BLK2'' 0x434 (Some 0x0), Register
    ''FUSE_PROG_FW_DEFINED_DATA_EXTRA_BLK3'' 0x438 (Some 0x0), Register ''FUSE_PROG_FW_DEFINED_DATA_EXTRA_BLK4''
    0x43c (Some 0x0), Register ''FUSE_PROG_FW_DEFINED_DATA_EXTRA_BLK5'' 0x440 (Some 0x0), Register
    ''FUSE_PROG_FW_DEFINED_DATA_EXTRA_BLK6'' 0x444 (Some 0x0)]"

definition registers_1646 :: "register list" where
  "registers_1646 = [
    Register ''GLOBALSEC_CPU0_D_REGION0_CTRL'' 0x0 (Some 0x7), Register ''GLOBALSEC_CPU0_D_REGION1_CTRL'' 0x4
    (Some 0x7), Register ''GLOBALSEC_CPU0_D_REGION2_CTRL'' 0x8 (Some 0x7), Register
    ''GLOBALSEC_CPU0_D_REGION3_CTRL'' 0xc (Some 0x7), Register ''GLOBALSEC_CPU0_D_REGION4_CTRL'' 0x10 (Some
    0x7), Register ''GLOBALSEC_CPU0_D_REGION5_CTRL'' 0x14 (Some 0x7), Register ''GLOBALSEC_CPU0_D_REGION6_CTRL''
    0x18 (Some 0x7), Register ''GLOBALSEC_CPU0_D_REGION7_CTRL'' 0x1c (Some 0x7), Register
    ''GLOBALSEC_CPU0_D_REGION0_CTRL_CFG_EN'' 0x20 (Some 0x1), Register ''GLOBALSEC_CPU0_D_REGION1_CTRL_CFG_EN''
    0x24 (Some 0x1), Register ''GLOBALSEC_CPU0_D_REGION2_CTRL_CFG_EN'' 0x28 (Some 0x1), Register
    ''GLOBALSEC_CPU0_D_REGION3_CTRL_CFG_EN'' 0x2c (Some 0x1), Register ''GLOBALSEC_CPU0_D_REGION4_CTRL_CFG_EN''
    0x30 (Some 0x1), Register ''GLOBALSEC_CPU0_D_REGION5_CTRL_CFG_EN'' 0x34 (Some 0x1), Register
    ''GLOBALSEC_CPU0_D_REGION6_CTRL_CFG_EN'' 0x38 (Some 0x1), Register ''GLOBALSEC_CPU0_D_REGION7_CTRL_CFG_EN''
    0x3c (Some 0x1), Register ''GLOBALSEC_CPU0_D_DAP_REGION0_CTRL'' 0x40 (Some 0x7), Register
    ''GLOBALSEC_CPU0_D_DAP_REGION1_CTRL'' 0x44 (Some 0x7), Register ''GLOBALSEC_CPU0_D_DAP_REGION2_CTRL'' 0x48
    (Some 0x7), Register ''GLOBALSEC_CPU0_D_DAP_REGION3_CTRL'' 0x4c (Some 0x7), Register
    ''GLOBALSEC_CPU0_D_DAP_REGION0_CTRL_CFG_EN'' 0x50 (Some 0x1), Register
    ''GLOBALSEC_CPU0_D_DAP_REGION1_CTRL_CFG_EN'' 0x54 (Some 0x1), Register
    ''GLOBALSEC_CPU0_D_DAP_REGION2_CTRL_CFG_EN'' 0x58 (Some 0x1), Register
    ''GLOBALSEC_CPU0_D_DAP_REGION3_CTRL_CFG_EN'' 0x5c (Some 0x1), Register ''GLOBALSEC_CPU0_I_REGION0_CTRL''
    0x60 (Some 0x0), Register ''GLOBALSEC_CPU0_I_REGION1_CTRL'' 0x64 (Some 0x0), Register
    ''GLOBALSEC_CPU0_I_REGION2_CTRL'' 0x68 (Some 0x0), Register ''GLOBALSEC_CPU0_I_REGION3_CTRL'' 0x6c (Some
    0x0), Register ''GLOBALSEC_CPU0_I_REGION4_CTRL'' 0x70 (Some 0x0), Register ''GLOBALSEC_CPU0_I_REGION5_CTRL''
    0x74 (Some 0x0), Register ''GLOBALSEC_CPU0_I_REGION6_CTRL'' 0x78 (Some 0x0), Register
    ''GLOBALSEC_CPU0_I_REGION7_CTRL'' 0x7c (Some 0x0), Register ''GLOBALSEC_DDMA0_REGION0_CTRL'' 0x80 (Some
    0x0), Register ''GLOBALSEC_DDMA0_REGION1_CTRL'' 0x84 (Some 0x0), Register ''GLOBALSEC_DDMA0_REGION2_CTRL''
    0x88 (Some 0x0), Register ''GLOBALSEC_DDMA0_REGION3_CTRL'' 0x8c (Some 0x0), Register
    ''GLOBALSEC_DDMA0_REGION0_CTRL_CFG_EN'' 0x90 (Some 0x1), Register ''GLOBALSEC_DDMA0_REGION1_CTRL_CFG_EN''
    0x94 (Some 0x1), Register ''GLOBALSEC_DDMA0_REGION2_CTRL_CFG_EN'' 0x98 (Some 0x1), Register
    ''GLOBALSEC_DDMA0_REGION3_CTRL_CFG_EN'' 0x9c (Some 0x1)]"

definition registers_1726 :: "register list" where
  "registers_1726 = [
    Register ''GLOBALSEC_DSPS0_REGION0_CTRL'' 0xa0 (Some 0x0), Register ''GLOBALSEC_DSPS0_REGION1_CTRL'' 0xa4
    (Some 0x0), Register ''GLOBALSEC_DSPS0_REGION2_CTRL'' 0xa8 (Some 0x0), Register
    ''GLOBALSEC_DSPS0_REGION3_CTRL'' 0xac (Some 0x0), Register ''GLOBALSEC_DSPS0_REGION0_CTRL_CFG_EN'' 0xb0
    (Some 0x1), Register ''GLOBALSEC_DSPS0_REGION1_CTRL_CFG_EN'' 0xb4 (Some 0x1), Register
    ''GLOBALSEC_DSPS0_REGION2_CTRL_CFG_EN'' 0xb8 (Some 0x1), Register ''GLOBALSEC_DSPS0_REGION3_CTRL_CFG_EN''
    0xbc (Some 0x1), Register ''GLOBALSEC_DUSB0_REGION0_CTRL'' 0xc0 (Some 0x0), Register
    ''GLOBALSEC_DUSB0_REGION1_CTRL'' 0xc4 (Some 0x0), Register ''GLOBALSEC_DUSB0_REGION2_CTRL'' 0xc8 (Some 0x0),
    Register ''GLOBALSEC_DUSB0_REGION3_CTRL'' 0xcc (Some 0x0), Register ''GLOBALSEC_DUSB0_REGION0_CTRL_CFG_EN''
    0xd0 (Some 0x1), Register ''GLOBALSEC_DUSB0_REGION1_CTRL_CFG_EN'' 0xd4 (Some 0x1), Register
    ''GLOBALSEC_DUSB0_REGION2_CTRL_CFG_EN'' 0xd8 (Some 0x1), Register ''GLOBALSEC_DUSB0_REGION3_CTRL_CFG_EN''
    0xdc (Some 0x1), Register ''GLOBALSEC_FLASH_REGION0_CTRL'' 0xe0 (Some 0x0), Register
    ''GLOBALSEC_FLASH_REGION1_CTRL'' 0xe4 (Some 0x0), Register ''GLOBALSEC_FLASH_REGION2_CTRL'' 0xe8 (Some 0x0),
    Register ''GLOBALSEC_FLASH_REGION3_CTRL'' 0xec (Some 0x0), Register ''GLOBALSEC_FLASH_REGION4_CTRL'' 0xf0
    (Some 0x0), Register ''GLOBALSEC_FLASH_REGION5_CTRL'' 0xf4 (Some 0x0), Register
    ''GLOBALSEC_FLASH_REGION6_CTRL'' 0xf8 (Some 0x0), Register ''GLOBALSEC_FLASH_REGION7_CTRL'' 0xfc (Some 0x0),
    Register ''GLOBALSEC_FLASH_REGION0_CTRL_CFG_EN'' 0x100 (Some 0x1), Register
    ''GLOBALSEC_FLASH_REGION1_CTRL_CFG_EN'' 0x104 (Some 0x1), Register ''GLOBALSEC_FLASH_REGION2_CTRL_CFG_EN''
    0x108 (Some 0x1), Register ''GLOBALSEC_FLASH_REGION3_CTRL_CFG_EN'' 0x10c (Some 0x1), Register
    ''GLOBALSEC_FLASH_REGION4_CTRL_CFG_EN'' 0x110 (Some 0x1), Register ''GLOBALSEC_FLASH_REGION5_CTRL_CFG_EN''
    0x114 (Some 0x1), Register ''GLOBALSEC_FLASH_REGION6_CTRL_CFG_EN'' 0x118 (Some 0x1), Register
    ''GLOBALSEC_FLASH_REGION7_CTRL_CFG_EN'' 0x11c (Some 0x1), Register ''GLOBALSEC_FLASH0_BULKERASE_CFG_EN''
    0x120 (Some 0x1), Register ''GLOBALSEC_FLASH0_BULKERASE_CTRL'' 0x124 (Some 0x0), Register
    ''GLOBALSEC_FLASH1_BULKERASE_CFG_EN'' 0x128 (Some 0x1), Register ''GLOBALSEC_FLASH1_BULKERASE_CTRL'' 0x12c
    (Some 0x0), Register ''GLOBALSEC_CPU0_D_REGION0_BASE_ADDR'' 0x130 (Some 0x0), Register
    ''GLOBALSEC_CPU0_D_REGION0_SIZE'' 0x134 (Some 0xffffffff), Register ''GLOBALSEC_CPU0_D_REGION1_BASE_ADDR''
    0x138 (Some 0x0), Register ''GLOBALSEC_CPU0_D_REGION1_SIZE'' 0x13c (Some 0xffffffff)]"

definition registers_1806 :: "register list" where
  "registers_1806 = [
    Register ''GLOBALSEC_CPU0_D_REGION2_BASE_ADDR'' 0x140 (Some 0x0), Register ''GLOBALSEC_CPU0_D_REGION2_SIZE''
    0x144 (Some 0xffffffff), Register ''GLOBALSEC_CPU0_D_REGION3_BASE_ADDR'' 0x148 (Some 0x0), Register
    ''GLOBALSEC_CPU0_D_REGION3_SIZE'' 0x14c (Some 0xffffffff), Register ''GLOBALSEC_CPU0_D_REGION4_BASE_ADDR''
    0x150 (Some 0x0), Register ''GLOBALSEC_CPU0_D_REGION4_SIZE'' 0x154 (Some 0xffffffff), Register
    ''GLOBALSEC_CPU0_D_REGION5_BASE_ADDR'' 0x158 (Some 0x0), Register ''GLOBALSEC_CPU0_D_REGION5_SIZE'' 0x15c
    (Some 0xffffffff), Register ''GLOBALSEC_CPU0_D_REGION6_BASE_ADDR'' 0x160 (Some 0x0), Register
    ''GLOBALSEC_CPU0_D_REGION6_SIZE'' 0x164 (Some 0xffffffff), Register ''GLOBALSEC_CPU0_D_REGION7_BASE_ADDR''
    0x168 (Some 0x0), Register ''GLOBALSEC_CPU0_D_REGION7_SIZE'' 0x16c (Some 0xffffffff), Register
    ''GLOBALSEC_CPU0_D_DAP_REGION0_BASE_ADDR'' 0x170 (Some 0x0), Register ''GLOBALSEC_CPU0_D_DAP_REGION0_SIZE''
    0x174 (Some 0xffffffff), Register ''GLOBALSEC_CPU0_D_DAP_REGION1_BASE_ADDR'' 0x178 (Some 0x0), Register
    ''GLOBALSEC_CPU0_D_DAP_REGION1_SIZE'' 0x17c (Some 0xffffffff), Register
    ''GLOBALSEC_CPU0_D_DAP_REGION2_BASE_ADDR'' 0x180 (Some 0x0), Register ''GLOBALSEC_CPU0_D_DAP_REGION2_SIZE''
    0x184 (Some 0xffffffff), Register ''GLOBALSEC_CPU0_D_DAP_REGION3_BASE_ADDR'' 0x188 (Some 0x0), Register
    ''GLOBALSEC_CPU0_D_DAP_REGION3_SIZE'' 0x18c (Some 0xffffffff), Register
    ''GLOBALSEC_CPU0_I_REGION0_BASE_ADDR'' 0x190 (Some 0x0), Register ''GLOBALSEC_CPU0_I_REGION0_SIZE'' 0x194
    (Some 0xffffffff), Register ''GLOBALSEC_CPU0_I_REGION1_BASE_ADDR'' 0x198 (Some 0x0), Register
    ''GLOBALSEC_CPU0_I_REGION1_SIZE'' 0x19c (Some 0xffffffff), Register ''GLOBALSEC_CPU0_I_REGION2_BASE_ADDR''
    0x1a0 (Some 0x0), Register ''GLOBALSEC_CPU0_I_REGION2_SIZE'' 0x1a4 (Some 0xffffffff), Register
    ''GLOBALSEC_CPU0_I_REGION3_BASE_ADDR'' 0x1a8 (Some 0x0), Register ''GLOBALSEC_CPU0_I_REGION3_SIZE'' 0x1ac
    (Some 0xffffffff), Register ''GLOBALSEC_CPU0_I_REGION4_BASE_ADDR'' 0x1b0 (Some 0x0), Register
    ''GLOBALSEC_CPU0_I_REGION4_SIZE'' 0x1b4 (Some 0xffffffff), Register ''GLOBALSEC_CPU0_I_REGION5_BASE_ADDR''
    0x1b8 (Some 0x0), Register ''GLOBALSEC_CPU0_I_REGION5_SIZE'' 0x1bc (Some 0xffffffff), Register
    ''GLOBALSEC_CPU0_I_REGION6_BASE_ADDR'' 0x1c0 (Some 0x0), Register ''GLOBALSEC_CPU0_I_REGION6_SIZE'' 0x1c4
    (Some 0xffffffff), Register ''GLOBALSEC_CPU0_I_REGION7_BASE_ADDR'' 0x1c8 (Some 0x0), Register
    ''GLOBALSEC_CPU0_I_REGION7_SIZE'' 0x1cc (Some 0xffffffff), Register ''GLOBALSEC_DDMA0_REGION0_BASE_ADDR''
    0x1d0 (Some 0x0), Register ''GLOBALSEC_DDMA0_REGION0_SIZE'' 0x1d4 (Some 0xffffffff), Register
    ''GLOBALSEC_DDMA0_REGION1_BASE_ADDR'' 0x1d8 (Some 0x0), Register ''GLOBALSEC_DDMA0_REGION1_SIZE'' 0x1dc
    (Some 0xffffffff)]"

definition registers_1886 :: "register list" where
  "registers_1886 = [
    Register ''GLOBALSEC_DDMA0_REGION2_BASE_ADDR'' 0x1e0 (Some 0x0), Register ''GLOBALSEC_DDMA0_REGION2_SIZE''
    0x1e4 (Some 0xffffffff), Register ''GLOBALSEC_DDMA0_REGION3_BASE_ADDR'' 0x1e8 (Some 0x0), Register
    ''GLOBALSEC_DDMA0_REGION3_SIZE'' 0x1ec (Some 0xffffffff), Register ''GLOBALSEC_DSPS0_REGION0_BASE_ADDR''
    0x1f0 (Some 0x0), Register ''GLOBALSEC_DSPS0_REGION0_SIZE'' 0x1f4 (Some 0xffffffff), Register
    ''GLOBALSEC_DSPS0_REGION1_BASE_ADDR'' 0x1f8 (Some 0x0), Register ''GLOBALSEC_DSPS0_REGION1_SIZE'' 0x1fc
    (Some 0xffffffff), Register ''GLOBALSEC_DSPS0_REGION2_BASE_ADDR'' 0x200 (Some 0x0), Register
    ''GLOBALSEC_DSPS0_REGION2_SIZE'' 0x204 (Some 0xffffffff), Register ''GLOBALSEC_DSPS0_REGION3_BASE_ADDR''
    0x208 (Some 0x0), Register ''GLOBALSEC_DSPS0_REGION3_SIZE'' 0x20c (Some 0xffffffff), Register
    ''GLOBALSEC_DUSB0_REGION0_BASE_ADDR'' 0x210 (Some 0x0), Register ''GLOBALSEC_DUSB0_REGION0_SIZE'' 0x214
    (Some 0xffffffff), Register ''GLOBALSEC_DUSB0_REGION1_BASE_ADDR'' 0x218 (Some 0x0), Register
    ''GLOBALSEC_DUSB0_REGION1_SIZE'' 0x21c (Some 0xffffffff), Register ''GLOBALSEC_DUSB0_REGION2_BASE_ADDR''
    0x220 (Some 0x0), Register ''GLOBALSEC_DUSB0_REGION2_SIZE'' 0x224 (Some 0xffffffff), Register
    ''GLOBALSEC_DUSB0_REGION3_BASE_ADDR'' 0x228 (Some 0x0), Register ''GLOBALSEC_DUSB0_REGION3_SIZE'' 0x22c
    (Some 0xffffffff), Register ''GLOBALSEC_FLASH_REGION0_BASE_ADDR'' 0x230 (Some 0x0), Register
    ''GLOBALSEC_FLASH_REGION0_SIZE'' 0x234 (Some 0x0), Register ''GLOBALSEC_FLASH_REGION1_BASE_ADDR'' 0x238
    (Some 0x0), Register ''GLOBALSEC_FLASH_REGION1_SIZE'' 0x23c (Some 0x0), Register
    ''GLOBALSEC_FLASH_REGION2_BASE_ADDR'' 0x240 (Some 0x0), Register ''GLOBALSEC_FLASH_REGION2_SIZE'' 0x244
    (Some 0x0), Register ''GLOBALSEC_FLASH_REGION3_BASE_ADDR'' 0x248 (Some 0x0), Register
    ''GLOBALSEC_FLASH_REGION3_SIZE'' 0x24c (Some 0x0), Register ''GLOBALSEC_FLASH_REGION4_BASE_ADDR'' 0x250
    (Some 0x0), Register ''GLOBALSEC_FLASH_REGION4_SIZE'' 0x254 (Some 0x0), Register
    ''GLOBALSEC_FLASH_REGION5_BASE_ADDR'' 0x258 (Some 0x0), Register ''GLOBALSEC_FLASH_REGION5_SIZE'' 0x25c
    (Some 0x0), Register ''GLOBALSEC_FLASH_REGION6_BASE_ADDR'' 0x260 (Some 0x0), Register
    ''GLOBALSEC_FLASH_REGION6_SIZE'' 0x264 (Some 0x0), Register ''GLOBALSEC_FLASH_REGION7_BASE_ADDR'' 0x268
    (Some 0x0), Register ''GLOBALSEC_FLASH_REGION7_SIZE'' 0x26c (Some 0x0), Register
    ''GLOBALSEC_CPU0_I_STAGING_REGION0_CTRL'' 0x270 (Some 0x0), Register
    ''GLOBALSEC_CPU0_I_STAGING_REGION0_BASE_ADDR'' 0x274 (Some 0x0), Register
    ''GLOBALSEC_CPU0_I_STAGING_REGION0_SIZE'' 0x278 (Some 0x0), Register
    ''GLOBALSEC_CPU0_I_STAGING_REGION1_CTRL'' 0x27c (Some 0x0)]"

definition registers_1966 :: "register list" where
  "registers_1966 = [
    Register ''GLOBALSEC_CPU0_I_STAGING_REGION1_BASE_ADDR'' 0x280 (Some 0x0), Register
    ''GLOBALSEC_CPU0_I_STAGING_REGION1_SIZE'' 0x284 (Some 0x0), Register
    ''GLOBALSEC_CPU0_I_STAGING_REGION2_CTRL'' 0x288 (Some 0x0), Register
    ''GLOBALSEC_CPU0_I_STAGING_REGION2_BASE_ADDR'' 0x28c (Some 0x0), Register
    ''GLOBALSEC_CPU0_I_STAGING_REGION2_SIZE'' 0x290 (Some 0x0), Register
    ''GLOBALSEC_CPU0_I_STAGING_REGION3_CTRL'' 0x294 (Some 0x0), Register
    ''GLOBALSEC_CPU0_I_STAGING_REGION3_BASE_ADDR'' 0x298 (Some 0x0), Register
    ''GLOBALSEC_CPU0_I_STAGING_REGION3_SIZE'' 0x29c (Some 0x0), Register
    ''GLOBALSEC_CPU0_I_STAGING_REGION4_CTRL'' 0x2a0 (Some 0x0), Register
    ''GLOBALSEC_CPU0_I_STAGING_REGION4_BASE_ADDR'' 0x2a4 (Some 0x0), Register
    ''GLOBALSEC_CPU0_I_STAGING_REGION4_SIZE'' 0x2a8 (Some 0x0), Register
    ''GLOBALSEC_CPU0_I_STAGING_REGION5_CTRL'' 0x2ac (Some 0x0), Register
    ''GLOBALSEC_CPU0_I_STAGING_REGION5_BASE_ADDR'' 0x2b0 (Some 0x0), Register
    ''GLOBALSEC_CPU0_I_STAGING_REGION5_SIZE'' 0x2b4 (Some 0x0), Register
    ''GLOBALSEC_CPU0_I_STAGING_REGION6_CTRL'' 0x2b8 (Some 0x0), Register
    ''GLOBALSEC_CPU0_I_STAGING_REGION6_BASE_ADDR'' 0x2bc (Some 0x0), Register
    ''GLOBALSEC_CPU0_I_STAGING_REGION6_SIZE'' 0x2c0 (Some 0x0), Register
    ''GLOBALSEC_CPU0_I_STAGING_REGION7_CTRL'' 0x2c4 (Some 0x0), Register
    ''GLOBALSEC_CPU0_I_STAGING_REGION7_BASE_ADDR'' 0x2c8 (Some 0x0), Register
    ''GLOBALSEC_CPU0_I_STAGING_REGION7_SIZE'' 0x2cc (Some 0x0), Register ''GLOBALSEC_CPU0_S_PERMISSION'' 0x2d0
    (Some 0x55), Register ''GLOBALSEC_CPU0_S_DAP_PERMISSION'' 0x2d4 (Some 0x55), Register
    ''GLOBALSEC_DDMA0_PERMISSION'' 0x2d8 (Some 0x55), Register ''GLOBALSEC_SOFTWARE_LVL'' 0x2dc (Some 0x55),
    Register ''GLOBALSEC_SB_COMP_STATUS'' 0x1000 (Some 0x0), Register ''GLOBALSEC_SB_BL_SIG0'' 0x1004 (Some
    0xfacecafe), Register ''GLOBALSEC_SB_BL_SIG1'' 0x1008 (Some 0xfacecafe), Register ''GLOBALSEC_SB_BL_SIG2''
    0x100c (Some 0xfacecafe), Register ''GLOBALSEC_SB_BL_SIG3'' 0x1010 (Some 0xfacecafe), Register
    ''GLOBALSEC_SB_BL_SIG4'' 0x1014 (Some 0xfacecafe), Register ''GLOBALSEC_SB_BL_SIG5'' 0x1018 (Some
    0xfacecafe), Register ''GLOBALSEC_SB_BL_SIG6'' 0x101c (Some 0xfacecafe), Register ''GLOBALSEC_SB_BL_SIG7''
    0x1020 (Some 0xfacecafe), Register ''GLOBALSEC_SIG_UNLOCK'' 0x1024 (Some 0x0), Register
    ''GLOBALSEC_INT_ERR_FLAGS'' 0x1028 (Some 0x0), Register ''GLOBALSEC_ALERT_CFG_LOCK'' 0x102c (Some 0x1),
    Register ''GLOBALSEC_ALERT_FW_TRIGGER'' 0x4000 (Some 0xaa), Register ''GLOBALSEC_ALERT_INTR_STS0'' 0x4004
    (Some 0x0), Register ''GLOBALSEC_ALERT_INTR_STS1'' 0x4008 (Some 0x0), Register ''GLOBALSEC_ALERT_NMI_EN0''
    0x400c (Some 0x0)]"

definition registers_2046 :: "register list" where
  "registers_2046 = [
    Register ''GLOBALSEC_ALERT_NMI_EN1'' 0x4010 (Some 0x0), Register ''GLOBALSEC_ALERT_GROUPA_EN0'' 0x4014 (Some
    0x0), Register ''GLOBALSEC_ALERT_GROUPA_EN1'' 0x4018 (Some 0x0), Register ''GLOBALSEC_ALERT_GROUPB_EN0''
    0x401c (Some 0x0), Register ''GLOBALSEC_ALERT_GROUPB_EN1'' 0x4020 (Some 0x0), Register
    ''GLOBALSEC_ALERT_GROUPC_EN0'' 0x4024 (Some 0x0), Register ''GLOBALSEC_ALERT_GROUPC_EN1'' 0x4028 (Some 0x0),
    Register ''GLOBALSEC_ALERT_DLYCTR0_EN0'' 0x402c (Some 0x0), Register ''GLOBALSEC_ALERT_DLYCTR0_EN1'' 0x4030
    (Some 0x0), Register ''GLOBALSEC_ALERT_DLYCTR1_EN0'' 0x4034 (Some 0x0), Register
    ''GLOBALSEC_ALERT_DLYCTR1_EN1'' 0x4038 (Some 0x0), Register ''GLOBALSEC_ALERT_DLYCTR2_EN0'' 0x403c (Some
    0x0), Register ''GLOBALSEC_ALERT_DLYCTR2_EN1'' 0x4040 (Some 0x0), Register ''GLOBALSEC_ALERT_GROUPA_CTR''
    0x4044 (Some 0x0), Register ''GLOBALSEC_ALERT_GROUPB_CTR'' 0x4048 (Some 0x0), Register
    ''GLOBALSEC_ALERT_GROUPC_CTR'' 0x404c (Some 0x0), Register ''GLOBALSEC_ALERT_GROUPA_THRESHOLD'' 0x4050 (Some
    0x64), Register ''GLOBALSEC_ALERT_GROUPB_THRESHOLD'' 0x4054 (Some 0x64), Register
    ''GLOBALSEC_ALERT_GROUPC_THRESHOLD'' 0x4058 (Some 0x64), Register ''GLOBALSEC_ALERT_CONTROL'' 0x405c (Some
    0x0), Register ''GLOBALSEC_ALERT_DLYCTR0'' 0x4060 (Some 0x0), Register ''GLOBALSEC_ALERT_DLYCTR1'' 0x4064
    (Some 0x0), Register ''GLOBALSEC_ALERT_DLYCTR2'' 0x4068 (Some 0x0), Register ''GLOBALSEC_ALERT_DLYCTR0_LEN''
    0x406c (Some 0xffff), Register ''GLOBALSEC_ALERT_DLYCTR1_LEN'' 0x4070 (Some 0xffff), Register
    ''GLOBALSEC_ALERT_DLYCTR2_LEN'' 0x4074 (Some 0xffff), Register ''GLOBALSEC_ALERT_DLYCTR0_SHUTDOWN_EN''
    0x4078 (Some 0x0), Register ''GLOBALSEC_ALERT_DLYCTR1_SHUTDOWN_EN'' 0x407c (Some 0x0), Register
    ''GLOBALSEC_ALERT_DLYCTR2_SHUTDOWN_EN'' 0x4080 (Some 0x0), Register ''GLOBALSEC_ALERT_DLYCTR0_CLEAR'' 0x4084
    (Some 0x0), Register ''GLOBALSEC_ALERT_DLYCTR1_CLEAR'' 0x4088 (Some 0x0), Register
    ''GLOBALSEC_ALERT_DLYCTR2_CLEAR'' 0x408c (Some 0x0), Register ''GLOBALSEC_CPU0_D_ERROR_HISTORY'' 0x4090
    (Some 0x0), Register ''GLOBALSEC_CPU0_D_ERROR_HISTORY_EMPTY'' 0x4094 (Some 0x0), Register
    ''GLOBALSEC_CPU0_I_ERROR_HISTORY'' 0x4098 (Some 0x0), Register ''GLOBALSEC_CPU0_I_ERROR_HISTORY_EMPTY''
    0x409c (Some 0x0), Register ''GLOBALSEC_CPU0_S_ERROR_HISTORY'' 0x40a0 (Some 0x0), Register
    ''GLOBALSEC_CPU0_S_ERROR_HISTORY_EMPTY'' 0x40a4 (Some 0x0), Register ''GLOBALSEC_DSPS0_ERROR_HISTORY''
    0x40a8 (Some 0x0), Register ''GLOBALSEC_DSPS0_ERROR_HISTORY_EMPTY'' 0x40ac (Some 0x0)]"

definition registers_2126 :: "register list" where
  "registers_2126 = [
    Register ''GLOBALSEC_DUSB0_ERROR_HISTORY'' 0x40b0 (Some 0x0), Register
    ''GLOBALSEC_DUSB0_ERROR_HISTORY_EMPTY'' 0x40b4 (Some 0x0), Register ''GLOBALSEC_OBFS_SW_EN'' 0x40b8 (Some
    0x0), Register ''GLOBALSEC_TRANSMISSION_PARITY_EN'' 0x40bc (Some 0x0), Register
    ''GLOBALSEC_SRAM_PARITY_CHECK_ENABLE'' 0x40c0 (Some 0x0), Register ''GLOBALSEC_SRAM_PARITY_SCRUB_FREQ''
    0x40c4 (Some 0x0), Register ''GLOBALSEC_SRAM_PARITY_SCRUB_ERROR_COUNT'' 0x40c8 (Some 0x0), Register
    ''GLOBALSEC_SRAM_PARITY_SCRUB_ERROR_ADDR'' 0x40cc (Some 0x0), Register ''GLOBALSEC_HIDE_ROM'' 0x40d0 (Some
    0x0), Register ''GLOBALSEC_ANTEST_SEN_LSR_INPUT'' 0x40d4 (Some 0x2f), Register
    ''GLOBALSEC_ANTEST_SEN_LSR_OUTPUT'' 0x40d8 (Some 0x0), Register ''GLOBALSEC_VERSION'' 0x40dc (Some
    0x59010913), Register ''GLOBALSEC_DUMMYKEY0'' 0x9598 (Some 0x0), Register ''GLOBALSEC_DBG_CONTROL'' 0xa6d0
    (Some 0x0), Register ''GLOBALSEC_DUMMYKEY1'' 0xaf04 (Some 0x0), Register ''GLOBALSEC_DUMMYKEY2'' 0xb2ac
    (Some 0x0)]"

definition regdefs_6293 :: "reg_field list" where
  "regdefs_6293 = [
    Field ''CAMO_VERSION_CHANGE'' 0 0xffffff 24 0x14125 0x8, Field ''CAMO_VERSION_REVISION'' 24 0xff000000 8 0x1
    0x8]"

definition regdefs_6303 :: "reg_field list" where
  "regdefs_6303 = [
    Field ''CRYPTO_VERSION_CHANGE'' 0 0xffffff 24 0x1424a 0x0, Field ''CRYPTO_VERSION_REVISION'' 24 0xff000000 8
    0x1 0x0, Field ''CRYPTO_CONTROL_RESET'' 0 0x1 1 0x0 0x4, Field ''CRYPTO_CONTROL_BREAK'' 1 0x2 1 0x0 0x4,
    Field ''CRYPTO_CONTROL_RESUME'' 2 0x4 1 0x0 0x4, Field ''CRYPTO_PARITY_CFG_IMEM_SCRUB_EN'' 0 0x1 1 0x0 0x8,
    Field ''CRYPTO_PARITY_CFG_DMEM_SCRUB_EN'' 1 0x2 1 0x0 0x8, Field ''CRYPTO_PARITY_CFG_IMEM_INV'' 2 0x4 1 0x0
    0x8, Field ''CRYPTO_PARITY_CFG_DMEM_INV'' 3 0x8 1 0x0 0x8, Field ''CRYPTO_PARITY_CFG_SCRUB_FREQ'' 4 0x30 2
    0x1 0x8, Field ''CRYPTO_PARITY_CFG_DMEM_EN'' 6 0x40 1 0x0 0x8, Field ''CRYPTO_PARITY_CFG_IMEM_EN'' 7 0x80 1
    0x0 0x8, Field ''CRYPTO_PARITY_CFG_DRF_EN'' 8 0x100 1 0x0 0x8, Field ''CRYPTO_IMEM_SCRUB_RANGE_HIGH_ADDR'' 0
    0x3ff 10 0x3ff 0xc, Field ''CRYPTO_IMEM_SCRUB_RANGE_LOW_ADDR'' 10 0xffc00 10 0x0 0xc, Field
    ''CRYPTO_DMEM_SCRUB_RANGE_HIGH_ADDR'' 0 0x7f 7 0x7f 0x10, Field ''CRYPTO_DMEM_SCRUB_RANGE_LOW_ADDR'' 7
    0x3f80 7 0x0 0x10, Field ''CRYPTO_INT_ENABLE_HOST_CMD_RECV'' 0 0x1 1 0x0 0x14, Field
    ''CRYPTO_INT_ENABLE_HOST_CMD_DONE'' 1 0x2 1 0x0 0x14, Field ''CRYPTO_INT_ENABLE_PC_STACK_OVERFLOW'' 2 0x4 1
    0x0 0x14, Field ''CRYPTO_INT_ENABLE_LOOP_STACK_OVERFLOW'' 3 0x8 1 0x0 0x14, Field
    ''CRYPTO_INT_ENABLE_LOOP_STACK_UNDERFLOW'' 4 0x10 1 0x0 0x14, Field ''CRYPTO_INT_ENABLE_DMEM_PTRS_OVERFLOW''
    5 0x20 1 0x0 0x14, Field ''CRYPTO_INT_ENABLE_DRF_PTRS_OVERFLOW'' 6 0x40 1 0x0 0x14, Field
    ''CRYPTO_INT_ENABLE_BREAK'' 7 0x80 1 0x0 0x14, Field ''CRYPTO_INT_ENABLE_TRAP'' 8 0x100 1 0x0 0x14, Field
    ''CRYPTO_INT_ENABLE_DONE_WIPE_SECRETS'' 9 0x200 1 0x0 0x14, Field ''CRYPTO_INT_ENABLE_PGM_FAULT'' 10 0x400 1
    0x0 0x14, Field ''CRYPTO_INT_ENABLE_MOD_OPERAND_OUT_OF_RANGE'' 11 0x800 1 0x0 0x14]"

definition regdefs_6448 :: "reg_field list" where
  "regdefs_6448 = [
    Field ''CRYPTO_INT_STATE_HOST_CMD_RECV'' 0 0x1 1 0x0 0x18, Field ''CRYPTO_INT_STATE_HOST_CMD_DONE'' 1 0x2 1
    0x0 0x18, Field ''CRYPTO_INT_STATE_PC_STACK_OVERFLOW'' 2 0x4 1 0x0 0x18, Field
    ''CRYPTO_INT_STATE_LOOP_STACK_OVERFLOW'' 3 0x8 1 0x0 0x18, Field ''CRYPTO_INT_STATE_LOOP_STACK_UNDERFLOW'' 4
    0x10 1 0x0 0x18, Field ''CRYPTO_INT_STATE_DMEM_PTRS_OVERFLOW'' 5 0x20 1 0x0 0x18, Field
    ''CRYPTO_INT_STATE_DRF_PTRS_OVERFLOW'' 6 0x40 1 0x0 0x18, Field ''CRYPTO_INT_STATE_BREAK'' 7 0x80 1 0x0
    0x18, Field ''CRYPTO_INT_STATE_TRAP'' 8 0x100 1 0x0 0x18, Field ''CRYPTO_INT_STATE_DONE_WIPE_SECRETS'' 9
    0x200 1 0x0 0x18, Field ''CRYPTO_INT_STATE_PGM_FAULT'' 10 0x400 1 0x0 0x18, Field
    ''CRYPTO_INT_STATE_MOD_OPERAND_OUT_OF_RANGE'' 11 0x800 1 0x0 0x18, Field ''CRYPTO_INT_TEST_HOST_CMD_RECV'' 0
    0x1 1 0x0 0x1c, Field ''CRYPTO_INT_TEST_HOST_CMD_DONE'' 1 0x2 1 0x0 0x1c, Field
    ''CRYPTO_INT_TEST_PC_STACK_OVERFLOW'' 2 0x4 1 0x0 0x1c, Field ''CRYPTO_INT_TEST_LOOP_STACK_OVERFLOW'' 3 0x8
    1 0x0 0x1c, Field ''CRYPTO_INT_TEST_LOOP_STACK_UNDERFLOW'' 4 0x10 1 0x0 0x1c, Field
    ''CRYPTO_INT_TEST_DMEM_PTRS_OVERFLOW'' 5 0x20 1 0x0 0x1c, Field ''CRYPTO_INT_TEST_DRF_PTRS_OVERFLOW'' 6 0x40
    1 0x0 0x1c, Field ''CRYPTO_INT_TEST_BREAK'' 7 0x80 1 0x0 0x1c, Field ''CRYPTO_INT_TEST_TRAP'' 8 0x100 1 0x0
    0x1c, Field ''CRYPTO_INT_TEST_DONE_WIPE_SECRETS'' 9 0x200 1 0x0 0x1c, Field ''CRYPTO_INT_TEST_PGM_FAULT'' 10
    0x400 1 0x0 0x1c, Field ''CRYPTO_INT_TEST_MOD_OPERAND_OUT_OF_RANGE'' 11 0x800 1 0x0 0x1c, Field
    ''CRYPTO_HOST_CMD_INSTR'' 0 0xffffffff 32 0xffffffff 0x20, Field ''CRYPTO_INSTR_PC'' 0 0x3ff 10 0x0 0x24]"

definition regdefs_6578 :: "reg_field list" where
  "regdefs_6578 = [
    Field ''CRYPTO_STATUS_STATE'' 0 0x3 2 0x0 0x28, Field ''CRYPTO_STATUS_L'' 2 0x4 1 0x0 0x28, Field
    ''CRYPTO_STATUS_M'' 3 0x8 1 0x0 0x28, Field ''CRYPTO_STATUS_Z'' 4 0x10 1 0x0 0x28, Field ''CRYPTO_STATUS_C''
    5 0x20 1 0x0 0x28, Field ''CRYPTO_AUX_CC_L'' 0 0x1 1 0x0 0x2c, Field ''CRYPTO_AUX_CC_M'' 1 0x2 1 0x0 0x2c,
    Field ''CRYPTO_AUX_CC_Z'' 2 0x4 1 0x0 0x2c, Field ''CRYPTO_AUX_CC_C'' 3 0x8 1 0x0 0x2c, Field
    ''CRYPTO_RAND_STALL_CTL_STALL_EN'' 0 0x1 1 0x1 0x30, Field ''CRYPTO_RAND_STALL_CTL_FREQ'' 1 0x6 2 0x2 0x30,
    Field ''CRYPTO_RAND256_SHIFT_EN'' 0 0x1 1 0x1 0x34, Field ''CRYPTO_PGM_LFSR_SIG'' 0 0xffffff 24 0x0 0x44,
    Field ''CRYPTO_DEBUG_BRKPT0_PC'' 0 0x3ff 10 0x0 0x48, Field ''CRYPTO_DEBUG_BRKPT0_EN'' 31 0x80000000 1 0x0
    0x48, Field ''CRYPTO_DEBUG_BRKPT1_PC'' 0 0x3ff 10 0x0 0x4c, Field ''CRYPTO_DEBUG_BRKPT1_EN'' 31 0x80000000 1
    0x0 0x4c]"

definition regdefs_6663 :: "reg_field list" where
  "regdefs_6663 = [
    Field ''DMA_VERSION_CHANGE'' 0 0xffffff 24 0x1424a 0x0, Field ''DMA_VERSION_REVISION'' 24 0xff000000 8 0x1
    0x0, Field ''DMA_INT_ENABLE_INTR_COMPLETE_CHAN'' 0 0xff 8 0x0 0x4, Field ''DMA_INT_ENABLE_INTR_PROG_CHAN'' 8
    0xff00 8 0x0 0x4, Field ''DMA_INT_ENABLE_INTR_TIMEOUT_CHAN'' 16 0xff0000 8 0x0 0x4, Field
    ''DMA_INT_ENABLE_INTR_ERROR_CHAN'' 24 0xff000000 8 0x0 0x4, Field ''DMA_INT_STATE_INTR_COMPLETE_CHAN'' 0
    0xff 8 0x0 0x8, Field ''DMA_INT_STATE_INTR_PROG_CHAN'' 8 0xff00 8 0x0 0x8, Field
    ''DMA_INT_STATE_INTR_TIMEOUT_CHAN'' 16 0xff0000 8 0x0 0x8, Field ''DMA_INT_STATE_INTR_ERROR_CHAN'' 24
    0xff000000 8 0x0 0x8, Field ''DMA_INT_TEST_INTR_COMPLETE_CHAN'' 0 0xff 8 0x0 0xc, Field
    ''DMA_INT_TEST_INTR_PROG_CHAN'' 8 0xff00 8 0x0 0xc, Field ''DMA_INT_TEST_INTR_TIMEOUT_CHAN'' 16 0xff0000 8
    0x0 0xc, Field ''DMA_INT_TEST_INTR_ERROR_CHAN'' 24 0xff000000 8 0x0 0xc, Field ''DMA_CTRL_CHAN0_CLR_ERROR''
    0 0x1 1 0x0 0x108, Field ''DMA_CTRL_CHAN0_BYTE_NONWORD_MODE'' 1 0x2 1 0x1 0x108, Field
    ''DMA_CTRL_CHAN0_WRAP_MODE'' 2 0x4 1 0x0 0x108, Field ''DMA_CTRL_CHAN0_SRC_FIFO_MODE'' 3 0x8 1 0x1 0x108,
    Field ''DMA_CTRL_CHAN0_DST_FIFO_MODE'' 4 0x10 1 0x0 0x108, Field ''DMA_CTRL_CHAN0_NCHK_EMPTY'' 5 0x20 1 0x0
    0x108, Field ''DMA_CTRL_CHAN0_NCHK_FULL'' 6 0x40 1 0x0 0x108, Field ''DMA_CTRL_CHAN0_SRC_EMPTY_VECTOR_BIT''
    7 0x380 3 0x0 0x108, Field ''DMA_CTRL_CHAN0_DST_FULL_VECTOR_BIT'' 10 0x1c00 3 0x0 0x108]"

definition regdefs_6778 :: "reg_field list" where
  "regdefs_6778 = [
    Field ''DMA_FSM_STATE_CHAN0_IDLE'' 0 0x1 1 0x1 0x128, Field ''DMA_FSM_STATE_CHAN0_BID_READ'' 1 0x2 1 0x0
    0x128, Field ''DMA_FSM_STATE_CHAN0_BID_WRITE'' 2 0x4 1 0x0 0x128, Field ''DMA_FSM_STATE_CHAN0_CHECK_EMPTY''
    3 0x8 1 0x0 0x128, Field ''DMA_FSM_STATE_CHAN0_CHECK_FULL'' 4 0x10 1 0x0 0x128, Field
    ''DMA_FSM_STATE_CHAN0_READ'' 5 0x20 1 0x0 0x128, Field ''DMA_FSM_STATE_CHAN0_WRITE'' 6 0x40 1 0x0 0x128,
    Field ''DMA_FSM_STATE_CHAN0_ERROR'' 7 0x80 1 0x0 0x128, Field ''DMA_FSM_STATE_CHAN0_PAUSE'' 8 0x100 1 0x0
    0x128, Field ''DMA_CTRL_CHAN1_CLR_ERROR'' 0 0x1 1 0x0 0x208, Field ''DMA_CTRL_CHAN1_BYTE_NONWORD_MODE'' 1
    0x2 1 0x1 0x208, Field ''DMA_CTRL_CHAN1_WRAP_MODE'' 2 0x4 1 0x0 0x208, Field
    ''DMA_CTRL_CHAN1_SRC_FIFO_MODE'' 3 0x8 1 0x1 0x208, Field ''DMA_CTRL_CHAN1_DST_FIFO_MODE'' 4 0x10 1 0x0
    0x208, Field ''DMA_CTRL_CHAN1_NCHK_EMPTY'' 5 0x20 1 0x0 0x208, Field ''DMA_CTRL_CHAN1_NCHK_FULL'' 6 0x40 1
    0x0 0x208, Field ''DMA_CTRL_CHAN1_SRC_EMPTY_VECTOR_BIT'' 7 0x380 3 0x0 0x208, Field
    ''DMA_CTRL_CHAN1_DST_FULL_VECTOR_BIT'' 10 0x1c00 3 0x0 0x208, Field ''DMA_FSM_STATE_CHAN1_IDLE'' 0 0x1 1 0x1
    0x228, Field ''DMA_FSM_STATE_CHAN1_BID_READ'' 1 0x2 1 0x0 0x228, Field ''DMA_FSM_STATE_CHAN1_BID_WRITE'' 2
    0x4 1 0x0 0x228, Field ''DMA_FSM_STATE_CHAN1_CHECK_EMPTY'' 3 0x8 1 0x0 0x228, Field
    ''DMA_FSM_STATE_CHAN1_CHECK_FULL'' 4 0x10 1 0x0 0x228, Field ''DMA_FSM_STATE_CHAN1_READ'' 5 0x20 1 0x0
    0x228, Field ''DMA_FSM_STATE_CHAN1_WRITE'' 6 0x40 1 0x0 0x228, Field ''DMA_FSM_STATE_CHAN1_ERROR'' 7 0x80 1
    0x0 0x228, Field ''DMA_FSM_STATE_CHAN1_PAUSE'' 8 0x100 1 0x0 0x228]"

definition regdefs_6913 :: "reg_field list" where
  "regdefs_6913 = [
    Field ''DMA_CTRL_CHAN2_CLR_ERROR'' 0 0x1 1 0x0 0x308, Field ''DMA_CTRL_CHAN2_BYTE_NONWORD_MODE'' 1 0x2 1 0x1
    0x308, Field ''DMA_CTRL_CHAN2_WRAP_MODE'' 2 0x4 1 0x0 0x308, Field ''DMA_CTRL_CHAN2_SRC_FIFO_MODE'' 3 0x8 1
    0x1 0x308, Field ''DMA_CTRL_CHAN2_DST_FIFO_MODE'' 4 0x10 1 0x0 0x308, Field ''DMA_CTRL_CHAN2_NCHK_EMPTY'' 5
    0x20 1 0x0 0x308, Field ''DMA_CTRL_CHAN2_NCHK_FULL'' 6 0x40 1 0x0 0x308, Field
    ''DMA_CTRL_CHAN2_SRC_EMPTY_VECTOR_BIT'' 7 0x380 3 0x0 0x308, Field ''DMA_CTRL_CHAN2_DST_FULL_VECTOR_BIT'' 10
    0x1c00 3 0x0 0x308, Field ''DMA_FSM_STATE_CHAN2_IDLE'' 0 0x1 1 0x1 0x328, Field
    ''DMA_FSM_STATE_CHAN2_BID_READ'' 1 0x2 1 0x0 0x328, Field ''DMA_FSM_STATE_CHAN2_BID_WRITE'' 2 0x4 1 0x0
    0x328, Field ''DMA_FSM_STATE_CHAN2_CHECK_EMPTY'' 3 0x8 1 0x0 0x328, Field ''DMA_FSM_STATE_CHAN2_CHECK_FULL''
    4 0x10 1 0x0 0x328, Field ''DMA_FSM_STATE_CHAN2_READ'' 5 0x20 1 0x0 0x328, Field
    ''DMA_FSM_STATE_CHAN2_WRITE'' 6 0x40 1 0x0 0x328, Field ''DMA_FSM_STATE_CHAN2_ERROR'' 7 0x80 1 0x0 0x328,
    Field ''DMA_FSM_STATE_CHAN2_PAUSE'' 8 0x100 1 0x0 0x328, Field ''DMA_CTRL_CHAN3_CLR_ERROR'' 0 0x1 1 0x0
    0x408, Field ''DMA_CTRL_CHAN3_BYTE_NONWORD_MODE'' 1 0x2 1 0x1 0x408, Field ''DMA_CTRL_CHAN3_WRAP_MODE'' 2
    0x4 1 0x0 0x408, Field ''DMA_CTRL_CHAN3_SRC_FIFO_MODE'' 3 0x8 1 0x1 0x408, Field
    ''DMA_CTRL_CHAN3_DST_FIFO_MODE'' 4 0x10 1 0x0 0x408, Field ''DMA_CTRL_CHAN3_NCHK_EMPTY'' 5 0x20 1 0x0 0x408,
    Field ''DMA_CTRL_CHAN3_NCHK_FULL'' 6 0x40 1 0x0 0x408, Field ''DMA_CTRL_CHAN3_SRC_EMPTY_VECTOR_BIT'' 7 0x380
    3 0x0 0x408, Field ''DMA_CTRL_CHAN3_DST_FULL_VECTOR_BIT'' 10 0x1c00 3 0x0 0x408]"

definition regdefs_7048 :: "reg_field list" where
  "regdefs_7048 = [
    Field ''DMA_FSM_STATE_CHAN3_IDLE'' 0 0x1 1 0x1 0x428, Field ''DMA_FSM_STATE_CHAN3_BID_READ'' 1 0x2 1 0x0
    0x428, Field ''DMA_FSM_STATE_CHAN3_BID_WRITE'' 2 0x4 1 0x0 0x428, Field ''DMA_FSM_STATE_CHAN3_CHECK_EMPTY''
    3 0x8 1 0x0 0x428, Field ''DMA_FSM_STATE_CHAN3_CHECK_FULL'' 4 0x10 1 0x0 0x428, Field
    ''DMA_FSM_STATE_CHAN3_READ'' 5 0x20 1 0x0 0x428, Field ''DMA_FSM_STATE_CHAN3_WRITE'' 6 0x40 1 0x0 0x428,
    Field ''DMA_FSM_STATE_CHAN3_ERROR'' 7 0x80 1 0x0 0x428, Field ''DMA_FSM_STATE_CHAN3_PAUSE'' 8 0x100 1 0x0
    0x428, Field ''DMA_CTRL_CHAN4_CLR_ERROR'' 0 0x1 1 0x0 0x508, Field ''DMA_CTRL_CHAN4_BYTE_NONWORD_MODE'' 1
    0x2 1 0x1 0x508, Field ''DMA_CTRL_CHAN4_WRAP_MODE'' 2 0x4 1 0x0 0x508, Field
    ''DMA_CTRL_CHAN4_SRC_FIFO_MODE'' 3 0x8 1 0x1 0x508, Field ''DMA_CTRL_CHAN4_DST_FIFO_MODE'' 4 0x10 1 0x0
    0x508, Field ''DMA_CTRL_CHAN4_NCHK_EMPTY'' 5 0x20 1 0x0 0x508, Field ''DMA_CTRL_CHAN4_NCHK_FULL'' 6 0x40 1
    0x0 0x508, Field ''DMA_CTRL_CHAN4_SRC_EMPTY_VECTOR_BIT'' 7 0x380 3 0x0 0x508, Field
    ''DMA_CTRL_CHAN4_DST_FULL_VECTOR_BIT'' 10 0x1c00 3 0x0 0x508, Field ''DMA_FSM_STATE_CHAN4_IDLE'' 0 0x1 1 0x1
    0x528, Field ''DMA_FSM_STATE_CHAN4_BID_READ'' 1 0x2 1 0x0 0x528, Field ''DMA_FSM_STATE_CHAN4_BID_WRITE'' 2
    0x4 1 0x0 0x528, Field ''DMA_FSM_STATE_CHAN4_CHECK_EMPTY'' 3 0x8 1 0x0 0x528, Field
    ''DMA_FSM_STATE_CHAN4_CHECK_FULL'' 4 0x10 1 0x0 0x528, Field ''DMA_FSM_STATE_CHAN4_READ'' 5 0x20 1 0x0
    0x528, Field ''DMA_FSM_STATE_CHAN4_WRITE'' 6 0x40 1 0x0 0x528, Field ''DMA_FSM_STATE_CHAN4_ERROR'' 7 0x80 1
    0x0 0x528, Field ''DMA_FSM_STATE_CHAN4_PAUSE'' 8 0x100 1 0x0 0x528]"

definition regdefs_7183 :: "reg_field list" where
  "regdefs_7183 = [
    Field ''DMA_CTRL_CHAN5_CLR_ERROR'' 0 0x1 1 0x0 0x608, Field ''DMA_CTRL_CHAN5_BYTE_NONWORD_MODE'' 1 0x2 1 0x1
    0x608, Field ''DMA_CTRL_CHAN5_WRAP_MODE'' 2 0x4 1 0x0 0x608, Field ''DMA_CTRL_CHAN5_SRC_FIFO_MODE'' 3 0x8 1
    0x1 0x608, Field ''DMA_CTRL_CHAN5_DST_FIFO_MODE'' 4 0x10 1 0x0 0x608, Field ''DMA_CTRL_CHAN5_NCHK_EMPTY'' 5
    0x20 1 0x0 0x608, Field ''DMA_CTRL_CHAN5_NCHK_FULL'' 6 0x40 1 0x0 0x608, Field
    ''DMA_CTRL_CHAN5_SRC_EMPTY_VECTOR_BIT'' 7 0x380 3 0x0 0x608, Field ''DMA_CTRL_CHAN5_DST_FULL_VECTOR_BIT'' 10
    0x1c00 3 0x0 0x608, Field ''DMA_FSM_STATE_CHAN5_IDLE'' 0 0x1 1 0x1 0x628, Field
    ''DMA_FSM_STATE_CHAN5_BID_READ'' 1 0x2 1 0x0 0x628, Field ''DMA_FSM_STATE_CHAN5_BID_WRITE'' 2 0x4 1 0x0
    0x628, Field ''DMA_FSM_STATE_CHAN5_CHECK_EMPTY'' 3 0x8 1 0x0 0x628, Field ''DMA_FSM_STATE_CHAN5_CHECK_FULL''
    4 0x10 1 0x0 0x628, Field ''DMA_FSM_STATE_CHAN5_READ'' 5 0x20 1 0x0 0x628, Field
    ''DMA_FSM_STATE_CHAN5_WRITE'' 6 0x40 1 0x0 0x628, Field ''DMA_FSM_STATE_CHAN5_ERROR'' 7 0x80 1 0x0 0x628,
    Field ''DMA_FSM_STATE_CHAN5_PAUSE'' 8 0x100 1 0x0 0x628, Field ''DMA_CTRL_CHAN6_CLR_ERROR'' 0 0x1 1 0x0
    0x708, Field ''DMA_CTRL_CHAN6_BYTE_NONWORD_MODE'' 1 0x2 1 0x1 0x708, Field ''DMA_CTRL_CHAN6_WRAP_MODE'' 2
    0x4 1 0x0 0x708, Field ''DMA_CTRL_CHAN6_SRC_FIFO_MODE'' 3 0x8 1 0x1 0x708, Field
    ''DMA_CTRL_CHAN6_DST_FIFO_MODE'' 4 0x10 1 0x0 0x708, Field ''DMA_CTRL_CHAN6_NCHK_EMPTY'' 5 0x20 1 0x0 0x708,
    Field ''DMA_CTRL_CHAN6_NCHK_FULL'' 6 0x40 1 0x0 0x708, Field ''DMA_CTRL_CHAN6_SRC_EMPTY_VECTOR_BIT'' 7 0x380
    3 0x0 0x708, Field ''DMA_CTRL_CHAN6_DST_FULL_VECTOR_BIT'' 10 0x1c00 3 0x0 0x708]"

definition regdefs_7318 :: "reg_field list" where
  "regdefs_7318 = [
    Field ''DMA_FSM_STATE_CHAN6_IDLE'' 0 0x1 1 0x1 0x728, Field ''DMA_FSM_STATE_CHAN6_BID_READ'' 1 0x2 1 0x0
    0x728, Field ''DMA_FSM_STATE_CHAN6_BID_WRITE'' 2 0x4 1 0x0 0x728, Field ''DMA_FSM_STATE_CHAN6_CHECK_EMPTY''
    3 0x8 1 0x0 0x728, Field ''DMA_FSM_STATE_CHAN6_CHECK_FULL'' 4 0x10 1 0x0 0x728, Field
    ''DMA_FSM_STATE_CHAN6_READ'' 5 0x20 1 0x0 0x728, Field ''DMA_FSM_STATE_CHAN6_WRITE'' 6 0x40 1 0x0 0x728,
    Field ''DMA_FSM_STATE_CHAN6_ERROR'' 7 0x80 1 0x0 0x728, Field ''DMA_FSM_STATE_CHAN6_PAUSE'' 8 0x100 1 0x0
    0x728, Field ''DMA_CTRL_CHAN7_CLR_ERROR'' 0 0x1 1 0x0 0x808, Field ''DMA_CTRL_CHAN7_BYTE_NONWORD_MODE'' 1
    0x2 1 0x1 0x808, Field ''DMA_CTRL_CHAN7_WRAP_MODE'' 2 0x4 1 0x0 0x808, Field
    ''DMA_CTRL_CHAN7_SRC_FIFO_MODE'' 3 0x8 1 0x1 0x808, Field ''DMA_CTRL_CHAN7_DST_FIFO_MODE'' 4 0x10 1 0x0
    0x808, Field ''DMA_CTRL_CHAN7_NCHK_EMPTY'' 5 0x20 1 0x0 0x808, Field ''DMA_CTRL_CHAN7_NCHK_FULL'' 6 0x40 1
    0x0 0x808, Field ''DMA_CTRL_CHAN7_SRC_EMPTY_VECTOR_BIT'' 7 0x380 3 0x0 0x808, Field
    ''DMA_CTRL_CHAN7_DST_FULL_VECTOR_BIT'' 10 0x1c00 3 0x0 0x808, Field ''DMA_FSM_STATE_CHAN7_IDLE'' 0 0x1 1 0x1
    0x828, Field ''DMA_FSM_STATE_CHAN7_BID_READ'' 1 0x2 1 0x0 0x828, Field ''DMA_FSM_STATE_CHAN7_BID_WRITE'' 2
    0x4 1 0x0 0x828, Field ''DMA_FSM_STATE_CHAN7_CHECK_EMPTY'' 3 0x8 1 0x0 0x828, Field
    ''DMA_FSM_STATE_CHAN7_CHECK_FULL'' 4 0x10 1 0x0 0x828, Field ''DMA_FSM_STATE_CHAN7_READ'' 5 0x20 1 0x0
    0x828, Field ''DMA_FSM_STATE_CHAN7_WRITE'' 6 0x40 1 0x0 0x828, Field ''DMA_FSM_STATE_CHAN7_ERROR'' 7 0x80 1
    0x0 0x828, Field ''DMA_FSM_STATE_CHAN7_PAUSE'' 8 0x100 1 0x0 0x828]"

definition regdefs_7453 :: "reg_field list" where
  "regdefs_7453 = [
    Field ''FLASH_FSH_TRANS_OFFSET'' 0 0xffff 16 0x0 0x8, Field ''FLASH_FSH_TRANS_MAINB'' 16 0x10000 1 0x0 0x8,
    Field ''FLASH_FSH_TRANS_SIZE'' 17 0x3e0000 5 0x0 0x8, Field ''FLASH_FSH_PROTECT_INFO1_ERASE'' 0 0x1 1 0x0
    0xc, Field ''FLASH_FSH_PROTECT_INFO1_PROG_REGION0'' 1 0x2 1 0x0 0xc, Field
    ''FLASH_FSH_PROTECT_INFO1_PROG_REGION1'' 2 0x4 1 0x0 0xc, Field ''FLASH_FSH_PROTECT_INFO1_PROG_REGION2'' 3
    0x8 1 0x0 0xc, Field ''FLASH_FSH_PROTECT_INFO1_PROG_REGION3'' 4 0x10 1 0x0 0xc, Field
    ''FLASH_FSH_PROTECT_INFO1_READ_REGION0'' 5 0x20 1 0x0 0xc, Field ''FLASH_FSH_PROTECT_INFO1_READ_REGION1'' 6
    0x40 1 0x0 0xc, Field ''FLASH_FSH_PROTECT_INFO1_READ_REGION2'' 7 0x80 1 0x0 0xc, Field
    ''FLASH_FSH_PROTECT_INFO1_READ_REGION3'' 8 0x100 1 0x0 0xc, Field ''FLASH_FSH_ICTRL_EDONE'' 0 0x1 1 0x0
    0x14, Field ''FLASH_FSH_ICTRL_PDONE'' 1 0x2 1 0x0 0x14, Field ''FLASH_FSH_ISTATE_EDONE'' 0 0x1 1 0x0 0x18,
    Field ''FLASH_FSH_ISTATE_PDONE'' 1 0x2 1 0x0 0x18, Field ''FLASH_FSH_OVRD_SIGVAL_IFREN'' 0 0x1 1 0x0 0x2c,
    Field ''FLASH_FSH_OVRD_SIGVAL_IFREN1'' 1 0x2 1 0x0 0x2c, Field ''FLASH_FSH_OVRD_SIGVAL_REDEN'' 2 0x4 1 0x0
    0x2c, Field ''FLASH_FSH_OVRD_SIGVAL_TMR'' 3 0x8 1 0x0 0x2c, Field ''FLASH_FSH_OVRD_SIGVAL_XE'' 4 0x10 1 0x0
    0x2c, Field ''FLASH_FSH_OVRD_SIGVAL_YE'' 5 0x20 1 0x0 0x2c, Field ''FLASH_FSH_OVRD_SIGVAL_SE'' 6 0x40 1 0x0
    0x2c, Field ''FLASH_FSH_OVRD_SIGVAL_ERASE'' 7 0x80 1 0x0 0x2c, Field ''FLASH_FSH_OVRD_SIGVAL_PROG'' 8 0x100
    1 0x0 0x2c, Field ''FLASH_FSH_OVRD_SIGVAL_MAS1'' 9 0x200 1 0x0 0x2c, Field ''FLASH_FSH_OVRD_SIGVAL_NVSTR''
    10 0x400 1 0x0 0x2c, Field ''FLASH_FSH_OVRD_SIGVAL_PV'' 11 0x800 1 0x0 0x2c, Field
    ''FLASH_FSH_OVRD_SIGVAL_EV'' 12 0x1000 1 0x0 0x2c]"

definition regdefs_7598 :: "reg_field list" where
  "regdefs_7598 = [
    Field ''FLASH_FSH_OVRD_SIGEN_IFREN'' 0 0x1 1 0x0 0x30, Field ''FLASH_FSH_OVRD_SIGEN_IFREN1'' 1 0x2 1 0x0
    0x30, Field ''FLASH_FSH_OVRD_SIGEN_REDEN'' 2 0x4 1 0x0 0x30, Field ''FLASH_FSH_OVRD_SIGEN_TMR'' 3 0x8 1 0x0
    0x30, Field ''FLASH_FSH_OVRD_SIGEN_XE'' 4 0x10 1 0x0 0x30, Field ''FLASH_FSH_OVRD_SIGEN_YE'' 5 0x20 1 0x0
    0x30, Field ''FLASH_FSH_OVRD_SIGEN_SE'' 6 0x40 1 0x0 0x30, Field ''FLASH_FSH_OVRD_SIGEN_ERASE'' 7 0x80 1 0x0
    0x30, Field ''FLASH_FSH_OVRD_SIGEN_PROG'' 8 0x100 1 0x0 0x30, Field ''FLASH_FSH_OVRD_SIGEN_MAS1'' 9 0x200 1
    0x0 0x30, Field ''FLASH_FSH_OVRD_SIGEN_NVSTR'' 10 0x400 1 0x0 0x30, Field ''FLASH_FSH_OVRD_SIGEN_PV'' 11
    0x800 1 0x0 0x30, Field ''FLASH_FSH_OVRD_SIGEN_EV'' 12 0x1000 1 0x0 0x30, Field ''FLASH_FSH_OVRD_SIGEN_DIN''
    13 0x2000 1 0x0 0x30, Field ''FLASH_FSH_OVRD_SIGEN_OFFSET'' 14 0x4000 1 0x0 0x30, Field
    ''FLASH_FSH_OVRD_SIGEN_DOUT'' 15 0x8000 1 0x0 0x30, Field ''FLASH_FSH_OVRD_SIGEN_TC'' 16 0x10000 1 0x0 0x30,
    Field ''FLASH_FSH_REDUN0_EN'' 0 0x1 1 0x0 0xcc, Field ''FLASH_FSH_REDUN0_REMAP'' 1 0xfe 7 0x0 0xcc, Field
    ''FLASH_FSH_REDUN1_EN'' 0 0x1 1 0x0 0xd0, Field ''FLASH_FSH_REDUN1_REMAP'' 1 0xfe 7 0x0 0xd0, Field
    ''FLASH_FSH_DBG_STATE'' 0 0xf 4 0x0 0x17c, Field ''FLASH_FSH_ITOP_PDONEINT'' 0 0x1 1 0x0 0xf04, Field
    ''FLASH_FSH_ITOP_EDONEINT'' 1 0x2 1 0x0 0xf04]"

definition regdefs_7718 :: "reg_field list" where
  "regdefs_7718 = [
    Field ''FUSE_STATUS_VALID'' 0 0x1 1 0x0 0x0, Field ''FUSE_STATUS_DEFAULTS_VALID'' 1 0x2 1 0x0 0x0, Field
    ''FUSE_STATUS_READ_DONE'' 2 0x4 1 0x0 0x0, Field ''FUSE_STATUS_READ_DONE_ERR'' 3 0x8 1 0x0 0x0, Field
    ''FUSE_STATUS_PROG_VERIFY_DONE'' 4 0x10 1 0x0 0x0, Field ''FUSE_STATUS_PROG_VERIFY_DONE_ERR'' 5 0x20 1 0x0
    0x0, Field ''FUSE_STATUS_OVERRIDE_DONE'' 6 0x40 1 0x0 0x0, Field ''FUSE_STATUS_BUSY'' 7 0x80 1 0x0 0x0,
    Field ''FUSE_FPGA_MODEL_CTRL_ERASE'' 0 0x1 1 0x0 0x10, Field ''FUSE_ANTEST_EN_SW0'' 0 0x1 1 0x0 0x28, Field
    ''FUSE_ANTEST_EN_SW1'' 1 0x2 1 0x0 0x28, Field ''FUSE_ANTEST_EN_SW2'' 2 0x4 1 0x0 0x28, Field
    ''FUSE_ANTEST_EN_SW3'' 3 0x8 1 0x0 0x28, Field ''FUSE_VERSION_CHANGE'' 0 0xffffff 24 0x14125 0x2c, Field
    ''FUSE_VERSION_REVISION'' 24 0xff000000 8 0x1 0x2c, Field ''FUSE_BNK0_INTG_CHKSUM_VAL'' 0 0xffffff 24 0x0
    0x30, Field ''FUSE_BNK0_INTG_LOCK_VAL'' 0 0x7 3 0x0 0x34, Field ''FUSE_DS_GRP0_VAL'' 0 0x1ff 9 0x0 0x38,
    Field ''FUSE_DS_GRP1_VAL'' 0 0x1ff 9 0x0 0x3c, Field ''FUSE_DS_GRP2_VAL'' 0 0x1ff 9 0x0 0x40, Field
    ''FUSE_DEV_ID0_VAL'' 0 0xffffffff 32 0x0 0x44, Field ''FUSE_DEV_ID1_VAL'' 0 0xffffffff 32 0x0 0x48, Field
    ''FUSE_BNK1_INTG_CHKSUM_VAL'' 0 0xffffff 24 0x0 0x4c, Field ''FUSE_BNK1_INTG_LOCK_VAL'' 0 0x7 3 0x0 0x50,
    Field ''FUSE_LB0_POST_OVRD_VAL'' 0 0x7 3 0x0 0x54, Field ''FUSE_LB0_POST_PATCNT_VAL'' 0 0x3 2 0x0 0x58,
    Field ''FUSE_LB0_POST_WARMUP_OVRD_VAL'' 0 0x7 3 0x0 0x5c, Field ''FUSE_LB0_POST_WARMUP_CNT_VAL'' 0 0x3 2 0x0
    0x60, Field ''FUSE_LB1_POST_OVRD_VAL'' 0 0x7 3 0x0 0x64, Field ''FUSE_LB1_POST_PATCNT_VAL'' 0 0x3 2 0x0 0x68]"

definition regdefs_7868 :: "reg_field list" where
  "regdefs_7868 = [
    Field ''FUSE_LB1_POST_WARMUP_OVRD_VAL'' 0 0x7 3 0x0 0x6c, Field ''FUSE_LB1_POST_WARMUP_CNT_VAL'' 0 0x3 2 0x0
    0x70, Field ''FUSE_LB2_POST_OVRD_VAL'' 0 0x7 3 0x0 0x74, Field ''FUSE_LB2_POST_PATCNT_VAL'' 0 0x3 2 0x0
    0x78, Field ''FUSE_LB2_POST_WARMUP_OVRD_VAL'' 0 0x7 3 0x0 0x7c, Field ''FUSE_LB2_POST_WARMUP_CNT_VAL'' 0 0x3
    2 0x0 0x80, Field ''FUSE_LB3_POST_OVRD_VAL'' 0 0x7 3 0x0 0x84, Field ''FUSE_LB3_POST_PATCNT_VAL'' 0 0x3 2
    0x0 0x88, Field ''FUSE_LB3_POST_WARMUP_OVRD_VAL'' 0 0x7 3 0x0 0x8c, Field ''FUSE_LB3_POST_WARMUP_CNT_VAL'' 0
    0x3 2 0x0 0x90, Field ''FUSE_LB4_POST_OVRD_VAL'' 0 0x7 3 0x0 0x94, Field ''FUSE_LB4_POST_PATCNT_VAL'' 0 0x3
    2 0x0 0x98, Field ''FUSE_LB4_POST_WARMUP_OVRD_VAL'' 0 0x7 3 0x0 0x9c, Field ''FUSE_LB4_POST_WARMUP_CNT_VAL''
    0 0x3 2 0x0 0xa0, Field ''FUSE_MBIST_POST_SEQ_VAL'' 0 0x1ffffff 25 0x0 0xa4, Field
    ''FUSE_LBIST_POST_SEQ_VAL'' 0 0x1ffffff 25 0x0 0xa8, Field ''FUSE_LBIST_VIA_TAP_DIS_VAL'' 0 0x7 3 0x0 0xac,
    Field ''FUSE_MBIST_VIA_TAP_DIS_VAL'' 0 0x7 3 0x0 0xb0, Field ''FUSE_TAP_DISABLE_VAL'' 0 0x7 3 0x0 0xb4,
    Field ''FUSE_RNGBIST_AR_EN_VAL'' 0 0x7 3 0x0 0xb8, Field ''FUSE_TESTMODE_KEYS_EN_VAL'' 0 0x7 3 0x0 0xbc,
    Field ''FUSE_PKG_ID_VAL'' 0 0x7 3 0x0 0xc0, Field ''FUSE_BIN_ID_VAL'' 0 0x7 3 0x0 0xc4, Field
    ''FUSE_RC_JTR_OSC48_CC_TRIM_VAL'' 0 0xff 8 0x0 0xc8, Field ''FUSE_RC_JTR_OSC48_CC_EN_VAL'' 0 0x7 3 0x0 0xcc,
    Field ''FUSE_RC_JTR_OSC60_CC_TRIM_VAL'' 0 0xff 8 0x0 0xd0, Field ''FUSE_RC_JTR_OSC60_CC_EN_VAL'' 0 0x7 3 0x0
    0xd4, Field ''FUSE_RC_TIMER_OSC48_CC_TRIM_VAL'' 0 0xff 8 0x0 0xd8, Field ''FUSE_RC_TIMER_OSC48_CC_EN_VAL'' 0
    0x7 3 0x0 0xdc, Field ''FUSE_RC_TIMER_OSC48_FC_TRIM_VAL'' 0 0x1f 5 0x0 0xe0]"

definition regdefs_8018 :: "reg_field list" where
  "regdefs_8018 = [
    Field ''FUSE_RC_TIMER_OSC48_FC_EN_VAL'' 0 0x7 3 0x0 0xe4, Field ''FUSE_RC_RTC_OSC256K_CC_TRIM_VAL'' 0 0xff 8
    0x0 0xe8, Field ''FUSE_RC_RTC_OSC256K_CC_EN_VAL'' 0 0x7 3 0x0 0xec, Field ''FUSE_SEL_VREG_REG_EN_VAL'' 0 0x7
    3 0x0 0xf0, Field ''FUSE_SEL_VREF_REG_VAL'' 0 0xf 4 0x0 0xf4, Field ''FUSE_SEL_VREF_BATMON_EN_VAL'' 0 0x7 3
    0x0 0xf8, Field ''FUSE_SEL_VREF_BATMON_VAL'' 0 0x7 3 0x0 0xfc, Field ''FUSE_X_OSC_LDO_CTRL_EN_VAL'' 0 0x7 3
    0x0 0x100, Field ''FUSE_X_OSC_LDO_CTRL_VAL'' 0 0xf 4 0x0 0x104, Field ''FUSE_TEMP_OFFSET_CAL_VAL'' 0 0xfff
    12 0x0 0x108, Field ''FUSE_TRNG_LDO_CTRL_EN_VAL'' 0 0x7 3 0x0 0x10c, Field ''FUSE_TRNG_LDO_CTRL_VAL'' 0 0x1f
    5 0x0 0x110, Field ''FUSE_TRNG_ANALOG_CTRL_EN_VAL'' 0 0x7 3 0x0 0x114, Field ''FUSE_TRNG_ANALOG_CTRL_VAL'' 0
    0xf 4 0x0 0x118, Field ''FUSE_EXT_XTAL_PDB_VAL'' 0 0x3 2 0x0 0x11c, Field ''FUSE_DIS_EXT_XTAL_CLK_TREE_VAL''
    0 0x7 3 0x0 0x120, Field ''FUSE_OBFUSCATION_EN_VAL'' 0 0x7 3 0x0 0x124, Field ''FUSE_HIK_CREATE_LOCK_VAL'' 0
    0x7 3 0x0 0x128, Field ''FUSE_BNK2_INTG_CHKSUM_VAL'' 0 0xffffff 24 0x0 0x12c, Field
    ''FUSE_BNK2_INTG_LOCK_VAL'' 0 0x7 3 0x0 0x130, Field ''FUSE_TESTMODE_OTPW_DIS_VAL'' 0 0x7 3 0x0 0x134, Field
    ''FUSE_HKEY_WDOG_TIMER_EN_VAL'' 0 0x7 3 0x0 0x138, Field ''FUSE_FLASH_PERSO_PAGE_LOCK_VAL'' 0 0x7 3 0x0
    0x13c, Field ''FUSE_ALERT_RSP_CFG_VAL'' 0 0xff 8 0x0 0x140, Field ''FUSE_BNK3_INTG_CHKSUM_VAL'' 0 0xffffff
    24 0x0 0x144, Field ''FUSE_BNK3_INTG_LOCK_VAL'' 0 0x7 3 0x0 0x148, Field ''FUSE_FW_DEFINED_DATA_BLK0_VAL'' 0
    0xff 8 0x0 0x14c, Field ''FUSE_FW_DEFINED_BROM_ERR_RESPONSE_VAL'' 0 0xffff 16 0x0 0x150, Field
    ''FUSE_FW_DEFINED_BROM_APPLYSEC_VAL'' 0 0xfff 12 0x0 0x154, Field ''FUSE_FW_DEFINED_BROM_CONFIG0_VAL'' 0
    0xff 8 0x0 0x158]"

definition regdefs_8168 :: "reg_field list" where
  "regdefs_8168 = [
    Field ''FUSE_FW_DEFINED_BROM_CONFIG1_VAL'' 0 0xff 8 0x0 0x15c, Field ''FUSE_RBOX_MODE_DBG_OVRD_DIS_VAL'' 0
    0x1 1 0x0 0x160, Field ''FUSE_RBOX_MODE_OUTPUT_OVRD_DIS_VAL'' 0 0x7f 7 0x0 0x164, Field
    ''FUSE_RBOX_CLK10HZ_COUNT_VAL'' 0 0xffff 16 0x0 0x168, Field ''FUSE_RBOX_SHORT_DELAY_COUNT_VAL'' 0 0xffff 16
    0x0 0x16c, Field ''FUSE_RBOX_LONG_DELAY_COUNT_VAL'' 0 0xff 8 0x0 0x170, Field
    ''FUSE_RBOX_DEBOUNCE_PERIOD_VAL'' 0 0xffff 16 0x0 0x174, Field ''FUSE_RBOX_DEBOUNCE_BYPASS_PWRB_VAL'' 0 0x1
    1 0x0 0x178, Field ''FUSE_RBOX_DEBOUNCE_BYPASS_KEY0_VAL'' 0 0x1 1 0x0 0x17c, Field
    ''FUSE_RBOX_DEBOUNCE_BYPASS_KEY1_VAL'' 0 0x1 1 0x0 0x180, Field ''FUSE_RBOX_KEY_COMBO0_VAL_VAL'' 0 0xff 8
    0x0 0x184, Field ''FUSE_RBOX_KEY_COMBO1_VAL_VAL'' 0 0xff 8 0x0 0x188, Field ''FUSE_RBOX_KEY_COMBO2_VAL_VAL''
    0 0xff 8 0x0 0x18c, Field ''FUSE_RBOX_KEY_COMBO0_HOLD_VAL'' 0 0xff 8 0x0 0x190, Field
    ''FUSE_RBOX_KEY_COMBO1_HOLD_VAL'' 0 0xff 8 0x0 0x194, Field ''FUSE_RBOX_KEY_COMBO2_HOLD_VAL'' 0 0xff 8 0x0
    0x198, Field ''FUSE_RBOX_BLOCK_KEY0_SEL_VAL'' 0 0x1 1 0x0 0x19c, Field ''FUSE_RBOX_BLOCK_KEY1_SEL_VAL'' 0
    0x1 1 0x0 0x1a0, Field ''FUSE_RBOX_BLOCK_KEY0_VAL_VAL'' 0 0x1 1 0x0 0x1a4, Field
    ''FUSE_RBOX_BLOCK_KEY1_VAL_VAL'' 0 0x1 1 0x0 0x1a8, Field ''FUSE_RBOX_POL_AC_PRESENT_VAL'' 0 0x1 1 0x0
    0x1ac, Field ''FUSE_RBOX_POL_PWRB_IN_VAL'' 0 0x1 1 0x0 0x1b0, Field ''FUSE_RBOX_POL_PWRB_OUT_VAL'' 0 0x1 1
    0x0 0x1b4, Field ''FUSE_RBOX_POL_KEY0_IN_VAL'' 0 0x1 1 0x0 0x1b8, Field ''FUSE_RBOX_POL_KEY0_OUT_VAL'' 0 0x1
    1 0x0 0x1bc, Field ''FUSE_RBOX_POL_KEY1_IN_VAL'' 0 0x1 1 0x0 0x1c0, Field ''FUSE_RBOX_POL_KEY1_OUT_VAL'' 0
    0x1 1 0x0 0x1c4, Field ''FUSE_RBOX_POL_EC_RST_VAL'' 0 0x1 1 0x0 0x1c8, Field
    ''FUSE_RBOX_POL_BATT_DISABLE_VAL'' 0 0x1 1 0x0 0x1cc, Field ''FUSE_RBOX_TERM_AC_PRESENT_VAL'' 0 0x3 2 0x0
    0x1d0]"

definition regdefs_8318 :: "reg_field list" where
  "regdefs_8318 = [
    Field ''FUSE_RBOX_TERM_ENTERING_RW_VAL'' 0 0x3 2 0x0 0x1d4, Field ''FUSE_RBOX_TERM_PWRB_IN_VAL'' 0 0x3 2 0x0
    0x1d8, Field ''FUSE_RBOX_TERM_PWRB_OUT_VAL'' 0 0x3 2 0x0 0x1dc, Field ''FUSE_RBOX_TERM_KEY0_IN_VAL'' 0 0x3 2
    0x0 0x1e0, Field ''FUSE_RBOX_TERM_KEY0_OUT_VAL'' 0 0x3 2 0x0 0x1e4, Field ''FUSE_RBOX_TERM_KEY1_IN_VAL'' 0
    0x3 2 0x0 0x1e8, Field ''FUSE_RBOX_TERM_KEY1_OUT_VAL'' 0 0x3 2 0x0 0x1ec, Field
    ''FUSE_RBOX_DRIVE_PWRB_OUT_VAL'' 0 0x3 2 0x0 0x1f0, Field ''FUSE_RBOX_DRIVE_KEY0_OUT_VAL'' 0 0x3 2 0x0
    0x1f4, Field ''FUSE_RBOX_DRIVE_KEY1_OUT_VAL'' 0 0x3 2 0x0 0x1f8, Field ''FUSE_RBOX_DRIVE_EC_RST_VAL'' 0 0x3
    2 0x0 0x1fc, Field ''FUSE_RBOX_DRIVE_BATT_DISABLE_VAL'' 0 0x3 2 0x0 0x200, Field
    ''FUSE_BNK4_INTG_CHKSUM_VAL'' 0 0xffffff 24 0x0 0x204, Field ''FUSE_BNK4_INTG_LOCK_VAL'' 0 0x7 3 0x0 0x208,
    Field ''FUSE_FW_DEFINED_DATA_EXTRA_BLK0_VAL'' 0 0xff 8 0x0 0x20c, Field
    ''FUSE_FW_DEFINED_DATA_EXTRA_BLK1_VAL'' 0 0xff 8 0x0 0x210, Field ''FUSE_FW_DEFINED_DATA_EXTRA_BLK2_VAL'' 0
    0xff 8 0x0 0x214, Field ''FUSE_FW_DEFINED_DATA_EXTRA_BLK3_VAL'' 0 0xff 8 0x0 0x218, Field
    ''FUSE_FW_DEFINED_DATA_EXTRA_BLK4_VAL'' 0 0xff 8 0x0 0x21c, Field ''FUSE_FW_DEFINED_DATA_EXTRA_BLK5_VAL'' 0
    0xff 8 0x0 0x220, Field ''FUSE_FW_DEFINED_DATA_EXTRA_BLK6_VAL'' 0 0x1f 5 0x0 0x224, Field
    ''FUSE_PROG_BNK0_INTG_CHKSUM_VAL'' 0 0xffffff 24 0x0 0x228, Field ''FUSE_PROG_BNK0_INTG_LOCK_VAL'' 0 0x7 3
    0x0 0x22c, Field ''FUSE_PROG_DS_GRP0_VAL'' 0 0x1ff 9 0x0 0x230, Field ''FUSE_PROG_DS_GRP1_VAL'' 0 0x1ff 9
    0x0 0x234, Field ''FUSE_PROG_DS_GRP2_VAL'' 0 0x1ff 9 0x0 0x238, Field ''FUSE_PROG_DEV_ID0_VAL'' 0 0xffffffff
    32 0x0 0x23c, Field ''FUSE_PROG_DEV_ID1_VAL'' 0 0xffffffff 32 0x0 0x240, Field
    ''FUSE_PROG_BNK1_INTG_CHKSUM_VAL'' 0 0xffffff 24 0x0 0x244, Field ''FUSE_PROG_BNK1_INTG_LOCK_VAL'' 0 0x7 3
    0x0 0x248]"

definition regdefs_8468 :: "reg_field list" where
  "regdefs_8468 = [
    Field ''FUSE_PROG_LB0_POST_OVRD_VAL'' 0 0x7 3 0x0 0x24c, Field ''FUSE_PROG_LB0_POST_PATCNT_VAL'' 0 0x3 2 0x0
    0x250, Field ''FUSE_PROG_LB0_POST_WARMUP_OVRD_VAL'' 0 0x7 3 0x0 0x254, Field
    ''FUSE_PROG_LB0_POST_WARMUP_CNT_VAL'' 0 0x3 2 0x0 0x258, Field ''FUSE_PROG_LB1_POST_OVRD_VAL'' 0 0x7 3 0x0
    0x25c, Field ''FUSE_PROG_LB1_POST_PATCNT_VAL'' 0 0x3 2 0x0 0x260, Field
    ''FUSE_PROG_LB1_POST_WARMUP_OVRD_VAL'' 0 0x7 3 0x0 0x264, Field ''FUSE_PROG_LB1_POST_WARMUP_CNT_VAL'' 0 0x3
    2 0x0 0x268, Field ''FUSE_PROG_LB2_POST_OVRD_VAL'' 0 0x7 3 0x0 0x26c, Field
    ''FUSE_PROG_LB2_POST_PATCNT_VAL'' 0 0x3 2 0x0 0x270, Field ''FUSE_PROG_LB2_POST_WARMUP_OVRD_VAL'' 0 0x7 3
    0x0 0x274, Field ''FUSE_PROG_LB2_POST_WARMUP_CNT_VAL'' 0 0x3 2 0x0 0x278, Field
    ''FUSE_PROG_LB3_POST_OVRD_VAL'' 0 0x7 3 0x0 0x27c, Field ''FUSE_PROG_LB3_POST_PATCNT_VAL'' 0 0x3 2 0x0
    0x280, Field ''FUSE_PROG_LB3_POST_WARMUP_OVRD_VAL'' 0 0x7 3 0x0 0x284, Field
    ''FUSE_PROG_LB3_POST_WARMUP_CNT_VAL'' 0 0x3 2 0x0 0x288, Field ''FUSE_PROG_LB4_POST_OVRD_VAL'' 0 0x7 3 0x0
    0x28c, Field ''FUSE_PROG_LB4_POST_PATCNT_VAL'' 0 0x3 2 0x0 0x290, Field
    ''FUSE_PROG_LB4_POST_WARMUP_OVRD_VAL'' 0 0x7 3 0x0 0x294, Field ''FUSE_PROG_LB4_POST_WARMUP_CNT_VAL'' 0 0x3
    2 0x0 0x298, Field ''FUSE_PROG_MBIST_POST_SEQ_VAL'' 0 0x1ffffff 25 0x0 0x29c, Field
    ''FUSE_PROG_LBIST_POST_SEQ_VAL'' 0 0x1ffffff 25 0x0 0x2a0, Field ''FUSE_PROG_LBIST_VIA_TAP_DIS_VAL'' 0 0x7 3
    0x0 0x2a4, Field ''FUSE_PROG_MBIST_VIA_TAP_DIS_VAL'' 0 0x7 3 0x0 0x2a8, Field
    ''FUSE_PROG_MBIST_BOOTROM_MISR_EN_VAL'' 0 0x7 3 0x0 0x2ac, Field ''FUSE_PROG_MBIST_BOOTROM_MISR_VAL'' 0
    0xffffffff 32 0x0 0x2b0, Field ''FUSE_PROG_TAP_DISABLE_VAL'' 0 0x7 3 0x0 0x2b4, Field
    ''FUSE_PROG_RNGBIST_AR_EN_VAL'' 0 0x7 3 0x0 0x2b8, Field ''FUSE_PROG_TESTMODE_KEYS_EN_VAL'' 0 0x7 3 0x0
    0x2bc, Field ''FUSE_PROG_PKG_ID_VAL'' 0 0x7 3 0x0 0x2c0]"

definition regdefs_8618 :: "reg_field list" where
  "regdefs_8618 = [
    Field ''FUSE_PROG_BIN_ID_VAL'' 0 0x7 3 0x0 0x2c4, Field ''FUSE_PROG_RC_JTR_OSC48_CC_TRIM_VAL'' 0 0xff 8 0x0
    0x2c8, Field ''FUSE_PROG_RC_JTR_OSC48_CC_EN_VAL'' 0 0x7 3 0x0 0x2cc, Field
    ''FUSE_PROG_RC_JTR_OSC60_CC_TRIM_VAL'' 0 0xff 8 0x0 0x2d0, Field ''FUSE_PROG_RC_JTR_OSC60_CC_EN_VAL'' 0 0x7
    3 0x0 0x2d4, Field ''FUSE_PROG_RC_TIMER_OSC48_CC_TRIM_VAL'' 0 0xff 8 0x0 0x2d8, Field
    ''FUSE_PROG_RC_TIMER_OSC48_CC_EN_VAL'' 0 0x7 3 0x0 0x2dc, Field ''FUSE_PROG_RC_TIMER_OSC48_FC_TRIM_VAL'' 0
    0x1f 5 0x0 0x2e0, Field ''FUSE_PROG_RC_TIMER_OSC48_FC_EN_VAL'' 0 0x7 3 0x0 0x2e4, Field
    ''FUSE_PROG_RC_RTC_OSC256K_CC_TRIM_VAL'' 0 0xff 8 0x0 0x2e8, Field ''FUSE_PROG_RC_RTC_OSC256K_CC_EN_VAL'' 0
    0x7 3 0x0 0x2ec, Field ''FUSE_PROG_SEL_VREG_REG_EN_VAL'' 0 0x7 3 0x0 0x2f0, Field
    ''FUSE_PROG_SEL_VREF_REG_VAL'' 0 0xf 4 0x0 0x2f4, Field ''FUSE_PROG_SEL_VREF_BATMON_EN_VAL'' 0 0x7 3 0x0
    0x2f8, Field ''FUSE_PROG_SEL_VREF_BATMON_VAL'' 0 0x7 3 0x0 0x2fc, Field ''FUSE_PROG_X_OSC_LDO_CTRL_EN_VAL''
    0 0x7 3 0x0 0x300, Field ''FUSE_PROG_X_OSC_LDO_CTRL_VAL'' 0 0xf 4 0x0 0x304, Field
    ''FUSE_PROG_TEMP_OFFSET_CAL_VAL'' 0 0xfff 12 0x0 0x308, Field ''FUSE_PROG_TRNG_LDO_CTRL_EN_VAL'' 0 0x7 3 0x0
    0x30c, Field ''FUSE_PROG_TRNG_LDO_CTRL_VAL'' 0 0x1f 5 0x0 0x310, Field ''FUSE_PROG_TRNG_ANALOG_CTRL_EN_VAL''
    0 0x7 3 0x0 0x314, Field ''FUSE_PROG_TRNG_ANALOG_CTRL_VAL'' 0 0xf 4 0x0 0x318, Field
    ''FUSE_PROG_EXT_XTAL_PDB_VAL'' 0 0x3 2 0x0 0x31c, Field ''FUSE_PROG_DIS_EXT_XTAL_CLK_TREE_VAL'' 0 0x7 3 0x0
    0x320, Field ''FUSE_PROG_OBFUSCATION_EN_VAL'' 0 0x7 3 0x0 0x324, Field ''FUSE_PROG_OBS0_VAL'' 0 0xffffffff
    32 0x0 0x328, Field ''FUSE_PROG_OBS1_VAL'' 0 0xffffffff 32 0x0 0x32c, Field ''FUSE_PROG_OBS2_VAL'' 0
    0xffffffff 32 0x0 0x330, Field ''FUSE_PROG_OBS3_VAL'' 0 0xffffffff 32 0x0 0x334, Field
    ''FUSE_PROG_OBS4_VAL'' 0 0xffffffff 32 0x0 0x338]"

definition regdefs_8768 :: "reg_field list" where
  "regdefs_8768 = [
    Field ''FUSE_PROG_OBS5_VAL'' 0 0xffffffff 32 0x0 0x33c, Field ''FUSE_PROG_OBS6_VAL'' 0 0xffffffff 32 0x0
    0x340, Field ''FUSE_PROG_OBS7_VAL'' 0 0xffffffff 32 0x0 0x344, Field ''FUSE_PROG_HIK_CREATE_LOCK_VAL'' 0 0x7
    3 0x0 0x348, Field ''FUSE_PROG_BNK2_INTG_CHKSUM_VAL'' 0 0xffffff 24 0x0 0x34c, Field
    ''FUSE_PROG_BNK2_INTG_LOCK_VAL'' 0 0x7 3 0x0 0x350, Field ''FUSE_PROG_TESTMODE_OTPW_DIS_VAL'' 0 0x7 3 0x0
    0x354, Field ''FUSE_PROG_HKEY_WDOG_TIMER_EN_VAL'' 0 0x7 3 0x0 0x358, Field
    ''FUSE_PROG_FLASH_PERSO_PAGE_LOCK_VAL'' 0 0x7 3 0x0 0x35c, Field ''FUSE_PROG_ALERT_RSP_CFG_VAL'' 0 0xff 8
    0x0 0x360, Field ''FUSE_PROG_BNK3_INTG_CHKSUM_VAL'' 0 0xffffff 24 0x0 0x364, Field
    ''FUSE_PROG_BNK3_INTG_LOCK_VAL'' 0 0x7 3 0x0 0x368, Field ''FUSE_PROG_FW_DEFINED_DATA_BLK0_VAL'' 0 0xff 8
    0x0 0x36c, Field ''FUSE_PROG_FW_DEFINED_BROM_ERR_RESPONSE_VAL'' 0 0xffff 16 0x0 0x370, Field
    ''FUSE_PROG_FW_DEFINED_BROM_APPLYSEC_VAL'' 0 0xfff 12 0x0 0x374, Field
    ''FUSE_PROG_FW_DEFINED_BROM_CONFIG0_VAL'' 0 0xff 8 0x0 0x378, Field
    ''FUSE_PROG_FW_DEFINED_BROM_CONFIG1_VAL'' 0 0xff 8 0x0 0x37c, Field ''FUSE_PROG_RBOX_MODE_DBG_OVRD_DIS_VAL''
    0 0x1 1 0x0 0x380, Field ''FUSE_PROG_RBOX_MODE_OUTPUT_OVRD_DIS_VAL'' 0 0x7f 7 0x0 0x384, Field
    ''FUSE_PROG_RBOX_CLK10HZ_COUNT_VAL'' 0 0xffff 16 0x0 0x388, Field ''FUSE_PROG_RBOX_SHORT_DELAY_COUNT_VAL'' 0
    0xffff 16 0x0 0x38c, Field ''FUSE_PROG_RBOX_LONG_DELAY_COUNT_VAL'' 0 0xff 8 0x0 0x390, Field
    ''FUSE_PROG_RBOX_DEBOUNCE_PERIOD_VAL'' 0 0xffff 16 0x0 0x394, Field
    ''FUSE_PROG_RBOX_DEBOUNCE_BYPASS_PWRB_VAL'' 0 0x1 1 0x0 0x398, Field
    ''FUSE_PROG_RBOX_DEBOUNCE_BYPASS_KEY0_VAL'' 0 0x1 1 0x0 0x39c, Field
    ''FUSE_PROG_RBOX_DEBOUNCE_BYPASS_KEY1_VAL'' 0 0x1 1 0x0 0x3a0, Field ''FUSE_PROG_RBOX_KEY_COMBO0_VAL_VAL'' 0
    0xff 8 0x0 0x3a4, Field ''FUSE_PROG_RBOX_KEY_COMBO1_VAL_VAL'' 0 0xff 8 0x0 0x3a8, Field
    ''FUSE_PROG_RBOX_KEY_COMBO2_VAL_VAL'' 0 0xff 8 0x0 0x3ac, Field ''FUSE_PROG_RBOX_KEY_COMBO0_HOLD_VAL'' 0
    0xff 8 0x0 0x3b0]"

definition regdefs_8918 :: "reg_field list" where
  "regdefs_8918 = [
    Field ''FUSE_PROG_RBOX_KEY_COMBO1_HOLD_VAL'' 0 0xff 8 0x0 0x3b4, Field
    ''FUSE_PROG_RBOX_KEY_COMBO2_HOLD_VAL'' 0 0xff 8 0x0 0x3b8, Field ''FUSE_PROG_RBOX_BLOCK_KEY0_SEL_VAL'' 0 0x1
    1 0x0 0x3bc, Field ''FUSE_PROG_RBOX_BLOCK_KEY1_SEL_VAL'' 0 0x1 1 0x0 0x3c0, Field
    ''FUSE_PROG_RBOX_BLOCK_KEY0_VAL_VAL'' 0 0x1 1 0x0 0x3c4, Field ''FUSE_PROG_RBOX_BLOCK_KEY1_VAL_VAL'' 0 0x1 1
    0x0 0x3c8, Field ''FUSE_PROG_RBOX_POL_AC_PRESENT_VAL'' 0 0x1 1 0x0 0x3cc, Field
    ''FUSE_PROG_RBOX_POL_PWRB_IN_VAL'' 0 0x1 1 0x0 0x3d0, Field ''FUSE_PROG_RBOX_POL_PWRB_OUT_VAL'' 0 0x1 1 0x0
    0x3d4, Field ''FUSE_PROG_RBOX_POL_KEY0_IN_VAL'' 0 0x1 1 0x0 0x3d8, Field ''FUSE_PROG_RBOX_POL_KEY0_OUT_VAL''
    0 0x1 1 0x0 0x3dc, Field ''FUSE_PROG_RBOX_POL_KEY1_IN_VAL'' 0 0x1 1 0x0 0x3e0, Field
    ''FUSE_PROG_RBOX_POL_KEY1_OUT_VAL'' 0 0x1 1 0x0 0x3e4, Field ''FUSE_PROG_RBOX_POL_EC_RST_VAL'' 0 0x1 1 0x0
    0x3e8, Field ''FUSE_PROG_RBOX_POL_BATT_DISABLE_VAL'' 0 0x1 1 0x0 0x3ec, Field
    ''FUSE_PROG_RBOX_TERM_AC_PRESENT_VAL'' 0 0x3 2 0x0 0x3f0, Field ''FUSE_PROG_RBOX_TERM_ENTERING_RW_VAL'' 0
    0x3 2 0x0 0x3f4, Field ''FUSE_PROG_RBOX_TERM_PWRB_IN_VAL'' 0 0x3 2 0x0 0x3f8, Field
    ''FUSE_PROG_RBOX_TERM_PWRB_OUT_VAL'' 0 0x3 2 0x0 0x3fc, Field ''FUSE_PROG_RBOX_TERM_KEY0_IN_VAL'' 0 0x3 2
    0x0 0x400, Field ''FUSE_PROG_RBOX_TERM_KEY0_OUT_VAL'' 0 0x3 2 0x0 0x404, Field
    ''FUSE_PROG_RBOX_TERM_KEY1_IN_VAL'' 0 0x3 2 0x0 0x408, Field ''FUSE_PROG_RBOX_TERM_KEY1_OUT_VAL'' 0 0x3 2
    0x0 0x40c, Field ''FUSE_PROG_RBOX_DRIVE_PWRB_OUT_VAL'' 0 0x3 2 0x0 0x410, Field
    ''FUSE_PROG_RBOX_DRIVE_KEY0_OUT_VAL'' 0 0x3 2 0x0 0x414, Field ''FUSE_PROG_RBOX_DRIVE_KEY1_OUT_VAL'' 0 0x3 2
    0x0 0x418, Field ''FUSE_PROG_RBOX_DRIVE_EC_RST_VAL'' 0 0x3 2 0x0 0x41c, Field
    ''FUSE_PROG_RBOX_DRIVE_BATT_DISABLE_VAL'' 0 0x3 2 0x0 0x420, Field ''FUSE_PROG_BNK4_INTG_CHKSUM_VAL'' 0
    0xffffff 24 0x0 0x424, Field ''FUSE_PROG_BNK4_INTG_LOCK_VAL'' 0 0x7 3 0x0 0x428]"

definition regdefs_9068 :: "reg_field list" where
  "regdefs_9068 = [
    Field ''FUSE_PROG_FW_DEFINED_DATA_EXTRA_BLK0_VAL'' 0 0xff 8 0x0 0x42c, Field
    ''FUSE_PROG_FW_DEFINED_DATA_EXTRA_BLK1_VAL'' 0 0xff 8 0x0 0x430, Field
    ''FUSE_PROG_FW_DEFINED_DATA_EXTRA_BLK2_VAL'' 0 0xff 8 0x0 0x434, Field
    ''FUSE_PROG_FW_DEFINED_DATA_EXTRA_BLK3_VAL'' 0 0xff 8 0x0 0x438, Field
    ''FUSE_PROG_FW_DEFINED_DATA_EXTRA_BLK4_VAL'' 0 0xff 8 0x0 0x43c, Field
    ''FUSE_PROG_FW_DEFINED_DATA_EXTRA_BLK5_VAL'' 0 0xff 8 0x0 0x440, Field
    ''FUSE_PROG_FW_DEFINED_DATA_EXTRA_BLK6_VAL'' 0 0x1f 5 0x0 0x444]"

definition regdefs_9103 :: "reg_field list" where
  "regdefs_9103 = [
    Field ''GLOBALSEC_CPU0_D_REGION0_CTRL_EN'' 0 0x1 1 0x1 0x0, Field ''GLOBALSEC_CPU0_D_REGION0_CTRL_RD_EN'' 1
    0x2 1 0x1 0x0, Field ''GLOBALSEC_CPU0_D_REGION0_CTRL_WR_EN'' 2 0x4 1 0x1 0x0, Field
    ''GLOBALSEC_CPU0_D_REGION1_CTRL_EN'' 0 0x1 1 0x1 0x4, Field ''GLOBALSEC_CPU0_D_REGION1_CTRL_RD_EN'' 1 0x2 1
    0x1 0x4, Field ''GLOBALSEC_CPU0_D_REGION1_CTRL_WR_EN'' 2 0x4 1 0x1 0x4, Field
    ''GLOBALSEC_CPU0_D_REGION2_CTRL_EN'' 0 0x1 1 0x1 0x8, Field ''GLOBALSEC_CPU0_D_REGION2_CTRL_RD_EN'' 1 0x2 1
    0x1 0x8, Field ''GLOBALSEC_CPU0_D_REGION2_CTRL_WR_EN'' 2 0x4 1 0x1 0x8, Field
    ''GLOBALSEC_CPU0_D_REGION3_CTRL_EN'' 0 0x1 1 0x1 0xc, Field ''GLOBALSEC_CPU0_D_REGION3_CTRL_RD_EN'' 1 0x2 1
    0x1 0xc, Field ''GLOBALSEC_CPU0_D_REGION3_CTRL_WR_EN'' 2 0x4 1 0x1 0xc, Field
    ''GLOBALSEC_CPU0_D_REGION4_CTRL_EN'' 0 0x1 1 0x1 0x10, Field ''GLOBALSEC_CPU0_D_REGION4_CTRL_RD_EN'' 1 0x2 1
    0x1 0x10, Field ''GLOBALSEC_CPU0_D_REGION4_CTRL_WR_EN'' 2 0x4 1 0x1 0x10, Field
    ''GLOBALSEC_CPU0_D_REGION5_CTRL_EN'' 0 0x1 1 0x1 0x14, Field ''GLOBALSEC_CPU0_D_REGION5_CTRL_RD_EN'' 1 0x2 1
    0x1 0x14, Field ''GLOBALSEC_CPU0_D_REGION5_CTRL_WR_EN'' 2 0x4 1 0x1 0x14, Field
    ''GLOBALSEC_CPU0_D_REGION6_CTRL_EN'' 0 0x1 1 0x1 0x18, Field ''GLOBALSEC_CPU0_D_REGION6_CTRL_RD_EN'' 1 0x2 1
    0x1 0x18, Field ''GLOBALSEC_CPU0_D_REGION6_CTRL_WR_EN'' 2 0x4 1 0x1 0x18, Field
    ''GLOBALSEC_CPU0_D_REGION7_CTRL_EN'' 0 0x1 1 0x1 0x1c, Field ''GLOBALSEC_CPU0_D_REGION7_CTRL_RD_EN'' 1 0x2 1
    0x1 0x1c, Field ''GLOBALSEC_CPU0_D_REGION7_CTRL_WR_EN'' 2 0x4 1 0x1 0x1c, Field
    ''GLOBALSEC_CPU0_D_DAP_REGION0_CTRL_EN'' 0 0x1 1 0x1 0x40, Field ''GLOBALSEC_CPU0_D_DAP_REGION0_CTRL_RD_EN''
    1 0x2 1 0x1 0x40, Field ''GLOBALSEC_CPU0_D_DAP_REGION0_CTRL_WR_EN'' 2 0x4 1 0x1 0x40, Field
    ''GLOBALSEC_CPU0_D_DAP_REGION1_CTRL_EN'' 0 0x1 1 0x1 0x44, Field ''GLOBALSEC_CPU0_D_DAP_REGION1_CTRL_RD_EN''
    1 0x2 1 0x1 0x44, Field ''GLOBALSEC_CPU0_D_DAP_REGION1_CTRL_WR_EN'' 2 0x4 1 0x1 0x44]"

definition regdefs_9253 :: "reg_field list" where
  "regdefs_9253 = [
    Field ''GLOBALSEC_CPU0_D_DAP_REGION2_CTRL_EN'' 0 0x1 1 0x1 0x48, Field
    ''GLOBALSEC_CPU0_D_DAP_REGION2_CTRL_RD_EN'' 1 0x2 1 0x1 0x48, Field
    ''GLOBALSEC_CPU0_D_DAP_REGION2_CTRL_WR_EN'' 2 0x4 1 0x1 0x48, Field ''GLOBALSEC_CPU0_D_DAP_REGION3_CTRL_EN''
    0 0x1 1 0x1 0x4c, Field ''GLOBALSEC_CPU0_D_DAP_REGION3_CTRL_RD_EN'' 1 0x2 1 0x1 0x4c, Field
    ''GLOBALSEC_CPU0_D_DAP_REGION3_CTRL_WR_EN'' 2 0x4 1 0x1 0x4c, Field ''GLOBALSEC_CPU0_I_REGION0_CTRL_EN'' 0
    0x1 1 0x0 0x60, Field ''GLOBALSEC_CPU0_I_REGION0_CTRL_RD_EN'' 1 0x2 1 0x0 0x60, Field
    ''GLOBALSEC_CPU0_I_REGION0_CTRL_WR_EN'' 2 0x4 1 0x0 0x60, Field ''GLOBALSEC_CPU0_I_REGION1_CTRL_EN'' 0 0x1 1
    0x0 0x64, Field ''GLOBALSEC_CPU0_I_REGION1_CTRL_RD_EN'' 1 0x2 1 0x0 0x64, Field
    ''GLOBALSEC_CPU0_I_REGION1_CTRL_WR_EN'' 2 0x4 1 0x0 0x64, Field ''GLOBALSEC_CPU0_I_REGION2_CTRL_EN'' 0 0x1 1
    0x0 0x68, Field ''GLOBALSEC_CPU0_I_REGION2_CTRL_RD_EN'' 1 0x2 1 0x0 0x68, Field
    ''GLOBALSEC_CPU0_I_REGION2_CTRL_WR_EN'' 2 0x4 1 0x0 0x68, Field ''GLOBALSEC_CPU0_I_REGION3_CTRL_EN'' 0 0x1 1
    0x0 0x6c, Field ''GLOBALSEC_CPU0_I_REGION3_CTRL_RD_EN'' 1 0x2 1 0x0 0x6c, Field
    ''GLOBALSEC_CPU0_I_REGION3_CTRL_WR_EN'' 2 0x4 1 0x0 0x6c, Field ''GLOBALSEC_CPU0_I_REGION4_CTRL_EN'' 0 0x1 1
    0x0 0x70, Field ''GLOBALSEC_CPU0_I_REGION4_CTRL_RD_EN'' 1 0x2 1 0x0 0x70, Field
    ''GLOBALSEC_CPU0_I_REGION4_CTRL_WR_EN'' 2 0x4 1 0x0 0x70, Field ''GLOBALSEC_CPU0_I_REGION5_CTRL_EN'' 0 0x1 1
    0x0 0x74, Field ''GLOBALSEC_CPU0_I_REGION5_CTRL_RD_EN'' 1 0x2 1 0x0 0x74, Field
    ''GLOBALSEC_CPU0_I_REGION5_CTRL_WR_EN'' 2 0x4 1 0x0 0x74, Field ''GLOBALSEC_CPU0_I_REGION6_CTRL_EN'' 0 0x1 1
    0x0 0x78, Field ''GLOBALSEC_CPU0_I_REGION6_CTRL_RD_EN'' 1 0x2 1 0x0 0x78, Field
    ''GLOBALSEC_CPU0_I_REGION6_CTRL_WR_EN'' 2 0x4 1 0x0 0x78, Field ''GLOBALSEC_CPU0_I_REGION7_CTRL_EN'' 0 0x1 1
    0x0 0x7c, Field ''GLOBALSEC_CPU0_I_REGION7_CTRL_RD_EN'' 1 0x2 1 0x0 0x7c, Field
    ''GLOBALSEC_CPU0_I_REGION7_CTRL_WR_EN'' 2 0x4 1 0x0 0x7c]"

definition regdefs_9403 :: "reg_field list" where
  "regdefs_9403 = [
    Field ''GLOBALSEC_DDMA0_REGION0_CTRL_EN'' 0 0x1 1 0x0 0x80, Field ''GLOBALSEC_DDMA0_REGION0_CTRL_RD_EN'' 1
    0x2 1 0x0 0x80, Field ''GLOBALSEC_DDMA0_REGION0_CTRL_WR_EN'' 2 0x4 1 0x0 0x80, Field
    ''GLOBALSEC_DDMA0_REGION1_CTRL_EN'' 0 0x1 1 0x0 0x84, Field ''GLOBALSEC_DDMA0_REGION1_CTRL_RD_EN'' 1 0x2 1
    0x0 0x84, Field ''GLOBALSEC_DDMA0_REGION1_CTRL_WR_EN'' 2 0x4 1 0x0 0x84, Field
    ''GLOBALSEC_DDMA0_REGION2_CTRL_EN'' 0 0x1 1 0x0 0x88, Field ''GLOBALSEC_DDMA0_REGION2_CTRL_RD_EN'' 1 0x2 1
    0x0 0x88, Field ''GLOBALSEC_DDMA0_REGION2_CTRL_WR_EN'' 2 0x4 1 0x0 0x88, Field
    ''GLOBALSEC_DDMA0_REGION3_CTRL_EN'' 0 0x1 1 0x0 0x8c, Field ''GLOBALSEC_DDMA0_REGION3_CTRL_RD_EN'' 1 0x2 1
    0x0 0x8c, Field ''GLOBALSEC_DDMA0_REGION3_CTRL_WR_EN'' 2 0x4 1 0x0 0x8c, Field
    ''GLOBALSEC_DSPS0_REGION0_CTRL_EN'' 0 0x1 1 0x0 0xa0, Field ''GLOBALSEC_DSPS0_REGION0_CTRL_RD_EN'' 1 0x2 1
    0x0 0xa0, Field ''GLOBALSEC_DSPS0_REGION0_CTRL_WR_EN'' 2 0x4 1 0x0 0xa0, Field
    ''GLOBALSEC_DSPS0_REGION1_CTRL_EN'' 0 0x1 1 0x0 0xa4, Field ''GLOBALSEC_DSPS0_REGION1_CTRL_RD_EN'' 1 0x2 1
    0x0 0xa4, Field ''GLOBALSEC_DSPS0_REGION1_CTRL_WR_EN'' 2 0x4 1 0x0 0xa4, Field
    ''GLOBALSEC_DSPS0_REGION2_CTRL_EN'' 0 0x1 1 0x0 0xa8, Field ''GLOBALSEC_DSPS0_REGION2_CTRL_RD_EN'' 1 0x2 1
    0x0 0xa8, Field ''GLOBALSEC_DSPS0_REGION2_CTRL_WR_EN'' 2 0x4 1 0x0 0xa8, Field
    ''GLOBALSEC_DSPS0_REGION3_CTRL_EN'' 0 0x1 1 0x0 0xac, Field ''GLOBALSEC_DSPS0_REGION3_CTRL_RD_EN'' 1 0x2 1
    0x0 0xac, Field ''GLOBALSEC_DSPS0_REGION3_CTRL_WR_EN'' 2 0x4 1 0x0 0xac, Field
    ''GLOBALSEC_DUSB0_REGION0_CTRL_EN'' 0 0x1 1 0x0 0xc0, Field ''GLOBALSEC_DUSB0_REGION0_CTRL_RD_EN'' 1 0x2 1
    0x0 0xc0, Field ''GLOBALSEC_DUSB0_REGION0_CTRL_WR_EN'' 2 0x4 1 0x0 0xc0, Field
    ''GLOBALSEC_DUSB0_REGION1_CTRL_EN'' 0 0x1 1 0x0 0xc4, Field ''GLOBALSEC_DUSB0_REGION1_CTRL_RD_EN'' 1 0x2 1
    0x0 0xc4, Field ''GLOBALSEC_DUSB0_REGION1_CTRL_WR_EN'' 2 0x4 1 0x0 0xc4]"

definition regdefs_9553 :: "reg_field list" where
  "regdefs_9553 = [
    Field ''GLOBALSEC_DUSB0_REGION2_CTRL_EN'' 0 0x1 1 0x0 0xc8, Field ''GLOBALSEC_DUSB0_REGION2_CTRL_RD_EN'' 1
    0x2 1 0x0 0xc8, Field ''GLOBALSEC_DUSB0_REGION2_CTRL_WR_EN'' 2 0x4 1 0x0 0xc8, Field
    ''GLOBALSEC_DUSB0_REGION3_CTRL_EN'' 0 0x1 1 0x0 0xcc, Field ''GLOBALSEC_DUSB0_REGION3_CTRL_RD_EN'' 1 0x2 1
    0x0 0xcc, Field ''GLOBALSEC_DUSB0_REGION3_CTRL_WR_EN'' 2 0x4 1 0x0 0xcc, Field
    ''GLOBALSEC_FLASH_REGION0_CTRL_EN'' 0 0x1 1 0x0 0xe0, Field ''GLOBALSEC_FLASH_REGION0_CTRL_RD_EN'' 1 0x2 1
    0x0 0xe0, Field ''GLOBALSEC_FLASH_REGION0_CTRL_WR_EN'' 2 0x4 1 0x0 0xe0, Field
    ''GLOBALSEC_FLASH_REGION1_CTRL_EN'' 0 0x1 1 0x0 0xe4, Field ''GLOBALSEC_FLASH_REGION1_CTRL_RD_EN'' 1 0x2 1
    0x0 0xe4, Field ''GLOBALSEC_FLASH_REGION1_CTRL_WR_EN'' 2 0x4 1 0x0 0xe4, Field
    ''GLOBALSEC_FLASH_REGION2_CTRL_EN'' 0 0x1 1 0x0 0xe8, Field ''GLOBALSEC_FLASH_REGION2_CTRL_RD_EN'' 1 0x2 1
    0x0 0xe8, Field ''GLOBALSEC_FLASH_REGION2_CTRL_WR_EN'' 2 0x4 1 0x0 0xe8, Field
    ''GLOBALSEC_FLASH_REGION3_CTRL_EN'' 0 0x1 1 0x0 0xec, Field ''GLOBALSEC_FLASH_REGION3_CTRL_RD_EN'' 1 0x2 1
    0x0 0xec, Field ''GLOBALSEC_FLASH_REGION3_CTRL_WR_EN'' 2 0x4 1 0x0 0xec, Field
    ''GLOBALSEC_FLASH_REGION4_CTRL_EN'' 0 0x1 1 0x0 0xf0, Field ''GLOBALSEC_FLASH_REGION4_CTRL_RD_EN'' 1 0x2 1
    0x0 0xf0, Field ''GLOBALSEC_FLASH_REGION4_CTRL_WR_EN'' 2 0x4 1 0x0 0xf0, Field
    ''GLOBALSEC_FLASH_REGION5_CTRL_EN'' 0 0x1 1 0x0 0xf4, Field ''GLOBALSEC_FLASH_REGION5_CTRL_RD_EN'' 1 0x2 1
    0x0 0xf4, Field ''GLOBALSEC_FLASH_REGION5_CTRL_WR_EN'' 2 0x4 1 0x0 0xf4, Field
    ''GLOBALSEC_FLASH_REGION6_CTRL_EN'' 0 0x1 1 0x0 0xf8, Field ''GLOBALSEC_FLASH_REGION6_CTRL_RD_EN'' 1 0x2 1
    0x0 0xf8, Field ''GLOBALSEC_FLASH_REGION6_CTRL_WR_EN'' 2 0x4 1 0x0 0xf8, Field
    ''GLOBALSEC_FLASH_REGION7_CTRL_EN'' 0 0x1 1 0x0 0xfc, Field ''GLOBALSEC_FLASH_REGION7_CTRL_RD_EN'' 1 0x2 1
    0x0 0xfc, Field ''GLOBALSEC_FLASH_REGION7_CTRL_WR_EN'' 2 0x4 1 0x0 0xfc]"

definition regdefs_9703 :: "reg_field list" where
  "regdefs_9703 = [
    Field ''GLOBALSEC_CPU0_I_STAGING_REGION0_CTRL_EN'' 0 0x1 1 0x0 0x270, Field
    ''GLOBALSEC_CPU0_I_STAGING_REGION0_CTRL_RD_EN'' 1 0x2 1 0x0 0x270, Field
    ''GLOBALSEC_CPU0_I_STAGING_REGION0_CTRL_WR_EN'' 2 0x4 1 0x0 0x270, Field
    ''GLOBALSEC_CPU0_I_STAGING_REGION1_CTRL_EN'' 0 0x1 1 0x0 0x27c, Field
    ''GLOBALSEC_CPU0_I_STAGING_REGION1_CTRL_RD_EN'' 1 0x2 1 0x0 0x27c, Field
    ''GLOBALSEC_CPU0_I_STAGING_REGION1_CTRL_WR_EN'' 2 0x4 1 0x0 0x27c, Field
    ''GLOBALSEC_CPU0_I_STAGING_REGION2_CTRL_EN'' 0 0x1 1 0x0 0x288, Field
    ''GLOBALSEC_CPU0_I_STAGING_REGION2_CTRL_RD_EN'' 1 0x2 1 0x0 0x288, Field
    ''GLOBALSEC_CPU0_I_STAGING_REGION2_CTRL_WR_EN'' 2 0x4 1 0x0 0x288, Field
    ''GLOBALSEC_CPU0_I_STAGING_REGION3_CTRL_EN'' 0 0x1 1 0x0 0x294, Field
    ''GLOBALSEC_CPU0_I_STAGING_REGION3_CTRL_RD_EN'' 1 0x2 1 0x0 0x294, Field
    ''GLOBALSEC_CPU0_I_STAGING_REGION3_CTRL_WR_EN'' 2 0x4 1 0x0 0x294, Field
    ''GLOBALSEC_CPU0_I_STAGING_REGION4_CTRL_EN'' 0 0x1 1 0x0 0x2a0, Field
    ''GLOBALSEC_CPU0_I_STAGING_REGION4_CTRL_RD_EN'' 1 0x2 1 0x0 0x2a0, Field
    ''GLOBALSEC_CPU0_I_STAGING_REGION4_CTRL_WR_EN'' 2 0x4 1 0x0 0x2a0, Field
    ''GLOBALSEC_CPU0_I_STAGING_REGION5_CTRL_EN'' 0 0x1 1 0x0 0x2ac, Field
    ''GLOBALSEC_CPU0_I_STAGING_REGION5_CTRL_RD_EN'' 1 0x2 1 0x0 0x2ac, Field
    ''GLOBALSEC_CPU0_I_STAGING_REGION5_CTRL_WR_EN'' 2 0x4 1 0x0 0x2ac, Field
    ''GLOBALSEC_CPU0_I_STAGING_REGION6_CTRL_EN'' 0 0x1 1 0x0 0x2b8, Field
    ''GLOBALSEC_CPU0_I_STAGING_REGION6_CTRL_RD_EN'' 1 0x2 1 0x0 0x2b8, Field
    ''GLOBALSEC_CPU0_I_STAGING_REGION6_CTRL_WR_EN'' 2 0x4 1 0x0 0x2b8, Field
    ''GLOBALSEC_CPU0_I_STAGING_REGION7_CTRL_EN'' 0 0x1 1 0x0 0x2c4, Field
    ''GLOBALSEC_CPU0_I_STAGING_REGION7_CTRL_RD_EN'' 1 0x2 1 0x0 0x2c4, Field
    ''GLOBALSEC_CPU0_I_STAGING_REGION7_CTRL_WR_EN'' 2 0x4 1 0x0 0x2c4, Field
    ''GLOBALSEC_SB_COMP_STATUS_SB_BL_SIG_MATCH'' 0 0x1 1 0x0 0x1000, Field
    ''GLOBALSEC_INT_ERR_FLAGS_DEV_ST_DEC_ERR'' 24 0x1000000 1 0x0 0x1028]"

definition regdefs_9833 :: "reg_field list" where
  "regdefs_9833 = [
    Field ''GLOBALSEC_ALERT_INTR_STS0_CAMO0_BREACH_ALERT'' 0 0x1 1 0x0 0x4004, Field
    ''GLOBALSEC_ALERT_INTR_STS0_CRYPTO0_DMEM_PARITY_ALERT'' 1 0x2 1 0x0 0x4004, Field
    ''GLOBALSEC_ALERT_INTR_STS0_CRYPTO0_DRF_PARITY_ALERT'' 2 0x4 1 0x0 0x4004, Field
    ''GLOBALSEC_ALERT_INTR_STS0_CRYPTO0_IMEM_PARITY_ALERT'' 3 0x8 1 0x0 0x4004, Field
    ''GLOBALSEC_ALERT_INTR_STS0_CRYPTO0_PGM_FAULT_ALERT'' 4 0x10 1 0x0 0x4004, Field
    ''GLOBALSEC_ALERT_INTR_STS0_DBCTRL_CPU0_D_IF_BUS_ERR_ALERT'' 5 0x20 1 0x0 0x4004, Field
    ''GLOBALSEC_ALERT_INTR_STS0_DBCTRL_CPU0_D_IF_UPDATE_WATCHDOG_ALERT'' 6 0x40 1 0x0 0x4004, Field
    ''GLOBALSEC_ALERT_INTR_STS0_DBCTRL_CPU0_I_IF_BUS_ERR_ALERT'' 7 0x80 1 0x0 0x4004, Field
    ''GLOBALSEC_ALERT_INTR_STS0_DBCTRL_CPU0_I_IF_UPDATE_WATCHDOG_ALERT'' 8 0x100 1 0x0 0x4004, Field
    ''GLOBALSEC_ALERT_INTR_STS0_DBCTRL_CPU0_S_IF_BUS_ERR_ALERT'' 9 0x200 1 0x0 0x4004, Field
    ''GLOBALSEC_ALERT_INTR_STS0_DBCTRL_CPU0_S_IF_UPDATE_WATCHDOG_ALERT'' 10 0x400 1 0x0 0x4004, Field
    ''GLOBALSEC_ALERT_INTR_STS0_DBCTRL_DDMA0_IF_BUS_ERR_ALERT'' 11 0x800 1 0x0 0x4004, Field
    ''GLOBALSEC_ALERT_INTR_STS0_DBCTRL_DDMA0_IF_UPDATE_WATCHDOG_ALERT'' 12 0x1000 1 0x0 0x4004, Field
    ''GLOBALSEC_ALERT_INTR_STS0_DBCTRL_DSPS0_IF_BUS_ERR_ALERT'' 13 0x2000 1 0x0 0x4004, Field
    ''GLOBALSEC_ALERT_INTR_STS0_DBCTRL_DSPS0_IF_UPDATE_WATCHDOG_ALERT'' 14 0x4000 1 0x0 0x4004, Field
    ''GLOBALSEC_ALERT_INTR_STS0_DBCTRL_DUSB0_IF_BUS_ERR_ALERT'' 15 0x8000 1 0x0 0x4004, Field
    ''GLOBALSEC_ALERT_INTR_STS0_DBCTRL_DUSB0_IF_UPDATE_WATCHDOG_ALERT'' 16 0x10000 1 0x0 0x4004, Field
    ''GLOBALSEC_ALERT_INTR_STS0_FUSE0_FUSE_DEFAULTS_ALERT'' 17 0x20000 1 0x0 0x4004, Field
    ''GLOBALSEC_ALERT_INTR_STS0_GLOBALSEC_DIFF_FAIL_ALERT'' 18 0x40000 1 0x0 0x4004, Field
    ''GLOBALSEC_ALERT_INTR_STS0_GLOBALSEC_FW0_ALERT'' 19 0x80000 1 0x0 0x4004, Field
    ''GLOBALSEC_ALERT_INTR_STS0_GLOBALSEC_FW1_ALERT'' 20 0x100000 1 0x0 0x4004, Field
    ''GLOBALSEC_ALERT_INTR_STS0_GLOBALSEC_FW2_ALERT'' 21 0x200000 1 0x0 0x4004, Field
    ''GLOBALSEC_ALERT_INTR_STS0_GLOBALSEC_FW3_ALERT'' 22 0x400000 1 0x0 0x4004, Field
    ''GLOBALSEC_ALERT_INTR_STS0_GLOBALSEC_HEARTBEAT_FAIL_ALERT'' 23 0x800000 1 0x0 0x4004, Field
    ''GLOBALSEC_ALERT_INTR_STS0_GLOBALSEC_PROC_OPCODE_HASH_ALERT'' 24 0x1000000 1 0x0 0x4004, Field
    ''GLOBALSEC_ALERT_INTR_STS0_GLOBALSEC_SRAM_PARITY_SCRUB_ALERT'' 25 0x2000000 1 0x0 0x4004, Field
    ''GLOBALSEC_ALERT_INTR_STS0_KEYMGR0_AES_EXEC_CTR_MAX_ALERT'' 26 0x4000000 1 0x0 0x4004, Field
    ''GLOBALSEC_ALERT_INTR_STS0_KEYMGR0_AES_HKEY_ALERT'' 27 0x8000000 1 0x0 0x4004, Field
    ''GLOBALSEC_ALERT_INTR_STS0_KEYMGR0_CERT_LOOKUP_ALERT'' 28 0x10000000 1 0x0 0x4004, Field
    ''GLOBALSEC_ALERT_INTR_STS0_KEYMGR0_FLASH_ENTRY_ALERT'' 29 0x20000000 1 0x0 0x4004]"

definition regdefs_9983 :: "reg_field list" where
  "regdefs_9983 = [
    Field ''GLOBALSEC_ALERT_INTR_STS0_KEYMGR0_PW_ALERT'' 30 0x40000000 1 0x0 0x4004, Field
    ''GLOBALSEC_ALERT_INTR_STS0_KEYMGR0_SHA_EXEC_CTR_MAX_ALERT'' 31 0x80000000 1 0x0 0x4004, Field
    ''GLOBALSEC_ALERT_INTR_STS1_KEYMGR0_SHA_FAULT_ALERT'' 0 0x1 1 0x0 0x4008, Field
    ''GLOBALSEC_ALERT_INTR_STS1_KEYMGR0_SHA_HKEY_ALERT'' 1 0x2 1 0x0 0x4008, Field
    ''GLOBALSEC_ALERT_INTR_STS1_PMU_BATTERY_MON_ALERT'' 2 0x4 1 0x0 0x4008, Field
    ''GLOBALSEC_ALERT_INTR_STS1_PMU_PMU_WDOG_ALERT'' 3 0x8 1 0x0 0x4008, Field
    ''GLOBALSEC_ALERT_INTR_STS1_RTC0_RTC_DEAD_ALERT'' 4 0x10 1 0x0 0x4008, Field
    ''GLOBALSEC_ALERT_INTR_STS1_TEMP0_MAX_TEMP_ALERT'' 5 0x20 1 0x0 0x4008, Field
    ''GLOBALSEC_ALERT_INTR_STS1_TEMP0_MAX_TEMP_DIFF_ALERT'' 6 0x40 1 0x0 0x4008, Field
    ''GLOBALSEC_ALERT_INTR_STS1_TEMP0_MIN_TEMP_ALERT'' 7 0x80 1 0x0 0x4008, Field
    ''GLOBALSEC_ALERT_INTR_STS1_TRNG0_OUT_OF_SPEC_ALERT'' 8 0x100 1 0x0 0x4008, Field
    ''GLOBALSEC_ALERT_INTR_STS1_TRNG0_TIMEOUT_ALERT'' 9 0x200 1 0x0 0x4008, Field
    ''GLOBALSEC_ALERT_INTR_STS1_VOLT0_VOLT_ERR_ALERT'' 10 0x400 1 0x0 0x4008, Field
    ''GLOBALSEC_ALERT_INTR_STS1_XO0_JITTERY_TRIM_DIS_ALERT'' 11 0x800 1 0x0 0x4008]"

definition regdefs_10053 :: "reg_field list" where
  "regdefs_10053 = [
    Field ''GLOBALSEC_ALERT_NMI_EN0_CAMO0_BREACH_ALERT'' 0 0x1 1 0x0 0x400c, Field
    ''GLOBALSEC_ALERT_NMI_EN0_CRYPTO0_DMEM_PARITY_ALERT'' 1 0x2 1 0x0 0x400c, Field
    ''GLOBALSEC_ALERT_NMI_EN0_CRYPTO0_DRF_PARITY_ALERT'' 2 0x4 1 0x0 0x400c, Field
    ''GLOBALSEC_ALERT_NMI_EN0_CRYPTO0_IMEM_PARITY_ALERT'' 3 0x8 1 0x0 0x400c, Field
    ''GLOBALSEC_ALERT_NMI_EN0_CRYPTO0_PGM_FAULT_ALERT'' 4 0x10 1 0x0 0x400c, Field
    ''GLOBALSEC_ALERT_NMI_EN0_DBCTRL_CPU0_D_IF_BUS_ERR_ALERT'' 5 0x20 1 0x0 0x400c, Field
    ''GLOBALSEC_ALERT_NMI_EN0_DBCTRL_CPU0_D_IF_UPDATE_WATCHDOG_ALERT'' 6 0x40 1 0x0 0x400c, Field
    ''GLOBALSEC_ALERT_NMI_EN0_DBCTRL_CPU0_I_IF_BUS_ERR_ALERT'' 7 0x80 1 0x0 0x400c, Field
    ''GLOBALSEC_ALERT_NMI_EN0_DBCTRL_CPU0_I_IF_UPDATE_WATCHDOG_ALERT'' 8 0x100 1 0x0 0x400c, Field
    ''GLOBALSEC_ALERT_NMI_EN0_DBCTRL_CPU0_S_IF_BUS_ERR_ALERT'' 9 0x200 1 0x0 0x400c, Field
    ''GLOBALSEC_ALERT_NMI_EN0_DBCTRL_CPU0_S_IF_UPDATE_WATCHDOG_ALERT'' 10 0x400 1 0x0 0x400c, Field
    ''GLOBALSEC_ALERT_NMI_EN0_DBCTRL_DDMA0_IF_BUS_ERR_ALERT'' 11 0x800 1 0x0 0x400c, Field
    ''GLOBALSEC_ALERT_NMI_EN0_DBCTRL_DDMA0_IF_UPDATE_WATCHDOG_ALERT'' 12 0x1000 1 0x0 0x400c, Field
    ''GLOBALSEC_ALERT_NMI_EN0_DBCTRL_DSPS0_IF_BUS_ERR_ALERT'' 13 0x2000 1 0x0 0x400c, Field
    ''GLOBALSEC_ALERT_NMI_EN0_DBCTRL_DSPS0_IF_UPDATE_WATCHDOG_ALERT'' 14 0x4000 1 0x0 0x400c, Field
    ''GLOBALSEC_ALERT_NMI_EN0_DBCTRL_DUSB0_IF_BUS_ERR_ALERT'' 15 0x8000 1 0x0 0x400c, Field
    ''GLOBALSEC_ALERT_NMI_EN0_DBCTRL_DUSB0_IF_UPDATE_WATCHDOG_ALERT'' 16 0x10000 1 0x0 0x400c, Field
    ''GLOBALSEC_ALERT_NMI_EN0_FUSE0_FUSE_DEFAULTS_ALERT'' 17 0x20000 1 0x0 0x400c, Field
    ''GLOBALSEC_ALERT_NMI_EN0_GLOBALSEC_DIFF_FAIL_ALERT'' 18 0x40000 1 0x0 0x400c, Field
    ''GLOBALSEC_ALERT_NMI_EN0_GLOBALSEC_FW0_ALERT'' 19 0x80000 1 0x0 0x400c, Field
    ''GLOBALSEC_ALERT_NMI_EN0_GLOBALSEC_FW1_ALERT'' 20 0x100000 1 0x0 0x400c, Field
    ''GLOBALSEC_ALERT_NMI_EN0_GLOBALSEC_FW2_ALERT'' 21 0x200000 1 0x0 0x400c, Field
    ''GLOBALSEC_ALERT_NMI_EN0_GLOBALSEC_FW3_ALERT'' 22 0x400000 1 0x0 0x400c, Field
    ''GLOBALSEC_ALERT_NMI_EN0_GLOBALSEC_HEARTBEAT_FAIL_ALERT'' 23 0x800000 1 0x0 0x400c, Field
    ''GLOBALSEC_ALERT_NMI_EN0_GLOBALSEC_PROC_OPCODE_HASH_ALERT'' 24 0x1000000 1 0x0 0x400c, Field
    ''GLOBALSEC_ALERT_NMI_EN0_GLOBALSEC_SRAM_PARITY_SCRUB_ALERT'' 25 0x2000000 1 0x0 0x400c, Field
    ''GLOBALSEC_ALERT_NMI_EN0_KEYMGR0_AES_EXEC_CTR_MAX_ALERT'' 26 0x4000000 1 0x0 0x400c, Field
    ''GLOBALSEC_ALERT_NMI_EN0_KEYMGR0_AES_HKEY_ALERT'' 27 0x8000000 1 0x0 0x400c, Field
    ''GLOBALSEC_ALERT_NMI_EN0_KEYMGR0_CERT_LOOKUP_ALERT'' 28 0x10000000 1 0x0 0x400c, Field
    ''GLOBALSEC_ALERT_NMI_EN0_KEYMGR0_FLASH_ENTRY_ALERT'' 29 0x20000000 1 0x0 0x400c]"

definition regdefs_10203 :: "reg_field list" where
  "regdefs_10203 = [
    Field ''GLOBALSEC_ALERT_NMI_EN0_KEYMGR0_PW_ALERT'' 30 0x40000000 1 0x0 0x400c, Field
    ''GLOBALSEC_ALERT_NMI_EN0_KEYMGR0_SHA_EXEC_CTR_MAX_ALERT'' 31 0x80000000 1 0x0 0x400c, Field
    ''GLOBALSEC_ALERT_NMI_EN1_KEYMGR0_SHA_FAULT_ALERT'' 0 0x1 1 0x0 0x4010, Field
    ''GLOBALSEC_ALERT_NMI_EN1_KEYMGR0_SHA_HKEY_ALERT'' 1 0x2 1 0x0 0x4010, Field
    ''GLOBALSEC_ALERT_NMI_EN1_PMU_BATTERY_MON_ALERT'' 2 0x4 1 0x0 0x4010, Field
    ''GLOBALSEC_ALERT_NMI_EN1_PMU_PMU_WDOG_ALERT'' 3 0x8 1 0x0 0x4010, Field
    ''GLOBALSEC_ALERT_NMI_EN1_RTC0_RTC_DEAD_ALERT'' 4 0x10 1 0x0 0x4010, Field
    ''GLOBALSEC_ALERT_NMI_EN1_TEMP0_MAX_TEMP_ALERT'' 5 0x20 1 0x0 0x4010, Field
    ''GLOBALSEC_ALERT_NMI_EN1_TEMP0_MAX_TEMP_DIFF_ALERT'' 6 0x40 1 0x0 0x4010, Field
    ''GLOBALSEC_ALERT_NMI_EN1_TEMP0_MIN_TEMP_ALERT'' 7 0x80 1 0x0 0x4010, Field
    ''GLOBALSEC_ALERT_NMI_EN1_TRNG0_OUT_OF_SPEC_ALERT'' 8 0x100 1 0x0 0x4010, Field
    ''GLOBALSEC_ALERT_NMI_EN1_TRNG0_TIMEOUT_ALERT'' 9 0x200 1 0x0 0x4010, Field
    ''GLOBALSEC_ALERT_NMI_EN1_VOLT0_VOLT_ERR_ALERT'' 10 0x400 1 0x0 0x4010, Field
    ''GLOBALSEC_ALERT_NMI_EN1_XO0_JITTERY_TRIM_DIS_ALERT'' 11 0x800 1 0x0 0x4010]"

definition regdefs_10273 :: "reg_field list" where
  "regdefs_10273 = [
    Field ''GLOBALSEC_ALERT_GROUPA_EN0_CAMO0_BREACH_ALERT'' 0 0x1 1 0x0 0x4014, Field
    ''GLOBALSEC_ALERT_GROUPA_EN0_CRYPTO0_DMEM_PARITY_ALERT'' 1 0x2 1 0x0 0x4014, Field
    ''GLOBALSEC_ALERT_GROUPA_EN0_CRYPTO0_DRF_PARITY_ALERT'' 2 0x4 1 0x0 0x4014, Field
    ''GLOBALSEC_ALERT_GROUPA_EN0_CRYPTO0_IMEM_PARITY_ALERT'' 3 0x8 1 0x0 0x4014, Field
    ''GLOBALSEC_ALERT_GROUPA_EN0_CRYPTO0_PGM_FAULT_ALERT'' 4 0x10 1 0x0 0x4014, Field
    ''GLOBALSEC_ALERT_GROUPA_EN0_DBCTRL_CPU0_D_IF_BUS_ERR_ALERT'' 5 0x20 1 0x0 0x4014, Field
    ''GLOBALSEC_ALERT_GROUPA_EN0_DBCTRL_CPU0_D_IF_UPDATE_WATCHDOG_ALERT'' 6 0x40 1 0x0 0x4014, Field
    ''GLOBALSEC_ALERT_GROUPA_EN0_DBCTRL_CPU0_I_IF_BUS_ERR_ALERT'' 7 0x80 1 0x0 0x4014, Field
    ''GLOBALSEC_ALERT_GROUPA_EN0_DBCTRL_CPU0_I_IF_UPDATE_WATCHDOG_ALERT'' 8 0x100 1 0x0 0x4014, Field
    ''GLOBALSEC_ALERT_GROUPA_EN0_DBCTRL_CPU0_S_IF_BUS_ERR_ALERT'' 9 0x200 1 0x0 0x4014, Field
    ''GLOBALSEC_ALERT_GROUPA_EN0_DBCTRL_CPU0_S_IF_UPDATE_WATCHDOG_ALERT'' 10 0x400 1 0x0 0x4014, Field
    ''GLOBALSEC_ALERT_GROUPA_EN0_DBCTRL_DDMA0_IF_BUS_ERR_ALERT'' 11 0x800 1 0x0 0x4014, Field
    ''GLOBALSEC_ALERT_GROUPA_EN0_DBCTRL_DDMA0_IF_UPDATE_WATCHDOG_ALERT'' 12 0x1000 1 0x0 0x4014, Field
    ''GLOBALSEC_ALERT_GROUPA_EN0_DBCTRL_DSPS0_IF_BUS_ERR_ALERT'' 13 0x2000 1 0x0 0x4014, Field
    ''GLOBALSEC_ALERT_GROUPA_EN0_DBCTRL_DSPS0_IF_UPDATE_WATCHDOG_ALERT'' 14 0x4000 1 0x0 0x4014, Field
    ''GLOBALSEC_ALERT_GROUPA_EN0_DBCTRL_DUSB0_IF_BUS_ERR_ALERT'' 15 0x8000 1 0x0 0x4014, Field
    ''GLOBALSEC_ALERT_GROUPA_EN0_DBCTRL_DUSB0_IF_UPDATE_WATCHDOG_ALERT'' 16 0x10000 1 0x0 0x4014, Field
    ''GLOBALSEC_ALERT_GROUPA_EN0_FUSE0_FUSE_DEFAULTS_ALERT'' 17 0x20000 1 0x0 0x4014, Field
    ''GLOBALSEC_ALERT_GROUPA_EN0_GLOBALSEC_DIFF_FAIL_ALERT'' 18 0x40000 1 0x0 0x4014, Field
    ''GLOBALSEC_ALERT_GROUPA_EN0_GLOBALSEC_FW0_ALERT'' 19 0x80000 1 0x0 0x4014, Field
    ''GLOBALSEC_ALERT_GROUPA_EN0_GLOBALSEC_FW1_ALERT'' 20 0x100000 1 0x0 0x4014, Field
    ''GLOBALSEC_ALERT_GROUPA_EN0_GLOBALSEC_FW2_ALERT'' 21 0x200000 1 0x0 0x4014, Field
    ''GLOBALSEC_ALERT_GROUPA_EN0_GLOBALSEC_FW3_ALERT'' 22 0x400000 1 0x0 0x4014, Field
    ''GLOBALSEC_ALERT_GROUPA_EN0_GLOBALSEC_HEARTBEAT_FAIL_ALERT'' 23 0x800000 1 0x0 0x4014, Field
    ''GLOBALSEC_ALERT_GROUPA_EN0_GLOBALSEC_PROC_OPCODE_HASH_ALERT'' 24 0x1000000 1 0x0 0x4014, Field
    ''GLOBALSEC_ALERT_GROUPA_EN0_GLOBALSEC_SRAM_PARITY_SCRUB_ALERT'' 25 0x2000000 1 0x0 0x4014, Field
    ''GLOBALSEC_ALERT_GROUPA_EN0_KEYMGR0_AES_EXEC_CTR_MAX_ALERT'' 26 0x4000000 1 0x0 0x4014, Field
    ''GLOBALSEC_ALERT_GROUPA_EN0_KEYMGR0_AES_HKEY_ALERT'' 27 0x8000000 1 0x0 0x4014, Field
    ''GLOBALSEC_ALERT_GROUPA_EN0_KEYMGR0_CERT_LOOKUP_ALERT'' 28 0x10000000 1 0x0 0x4014, Field
    ''GLOBALSEC_ALERT_GROUPA_EN0_KEYMGR0_FLASH_ENTRY_ALERT'' 29 0x20000000 1 0x0 0x4014]"

definition regdefs_10423 :: "reg_field list" where
  "regdefs_10423 = [
    Field ''GLOBALSEC_ALERT_GROUPA_EN0_KEYMGR0_PW_ALERT'' 30 0x40000000 1 0x0 0x4014, Field
    ''GLOBALSEC_ALERT_GROUPA_EN0_KEYMGR0_SHA_EXEC_CTR_MAX_ALERT'' 31 0x80000000 1 0x0 0x4014, Field
    ''GLOBALSEC_ALERT_GROUPA_EN1_KEYMGR0_SHA_FAULT_ALERT'' 0 0x1 1 0x0 0x4018, Field
    ''GLOBALSEC_ALERT_GROUPA_EN1_KEYMGR0_SHA_HKEY_ALERT'' 1 0x2 1 0x0 0x4018, Field
    ''GLOBALSEC_ALERT_GROUPA_EN1_PMU_BATTERY_MON_ALERT'' 2 0x4 1 0x0 0x4018, Field
    ''GLOBALSEC_ALERT_GROUPA_EN1_PMU_PMU_WDOG_ALERT'' 3 0x8 1 0x0 0x4018, Field
    ''GLOBALSEC_ALERT_GROUPA_EN1_RTC0_RTC_DEAD_ALERT'' 4 0x10 1 0x0 0x4018, Field
    ''GLOBALSEC_ALERT_GROUPA_EN1_TEMP0_MAX_TEMP_ALERT'' 5 0x20 1 0x0 0x4018, Field
    ''GLOBALSEC_ALERT_GROUPA_EN1_TEMP0_MAX_TEMP_DIFF_ALERT'' 6 0x40 1 0x0 0x4018, Field
    ''GLOBALSEC_ALERT_GROUPA_EN1_TEMP0_MIN_TEMP_ALERT'' 7 0x80 1 0x0 0x4018, Field
    ''GLOBALSEC_ALERT_GROUPA_EN1_TRNG0_OUT_OF_SPEC_ALERT'' 8 0x100 1 0x0 0x4018, Field
    ''GLOBALSEC_ALERT_GROUPA_EN1_TRNG0_TIMEOUT_ALERT'' 9 0x200 1 0x0 0x4018, Field
    ''GLOBALSEC_ALERT_GROUPA_EN1_VOLT0_VOLT_ERR_ALERT'' 10 0x400 1 0x0 0x4018, Field
    ''GLOBALSEC_ALERT_GROUPA_EN1_XO0_JITTERY_TRIM_DIS_ALERT'' 11 0x800 1 0x0 0x4018]"

definition regdefs_10493 :: "reg_field list" where
  "regdefs_10493 = [
    Field ''GLOBALSEC_ALERT_GROUPB_EN0_CAMO0_BREACH_ALERT'' 0 0x1 1 0x0 0x401c, Field
    ''GLOBALSEC_ALERT_GROUPB_EN0_CRYPTO0_DMEM_PARITY_ALERT'' 1 0x2 1 0x0 0x401c, Field
    ''GLOBALSEC_ALERT_GROUPB_EN0_CRYPTO0_DRF_PARITY_ALERT'' 2 0x4 1 0x0 0x401c, Field
    ''GLOBALSEC_ALERT_GROUPB_EN0_CRYPTO0_IMEM_PARITY_ALERT'' 3 0x8 1 0x0 0x401c, Field
    ''GLOBALSEC_ALERT_GROUPB_EN0_CRYPTO0_PGM_FAULT_ALERT'' 4 0x10 1 0x0 0x401c, Field
    ''GLOBALSEC_ALERT_GROUPB_EN0_DBCTRL_CPU0_D_IF_BUS_ERR_ALERT'' 5 0x20 1 0x0 0x401c, Field
    ''GLOBALSEC_ALERT_GROUPB_EN0_DBCTRL_CPU0_D_IF_UPDATE_WATCHDOG_ALERT'' 6 0x40 1 0x0 0x401c, Field
    ''GLOBALSEC_ALERT_GROUPB_EN0_DBCTRL_CPU0_I_IF_BUS_ERR_ALERT'' 7 0x80 1 0x0 0x401c, Field
    ''GLOBALSEC_ALERT_GROUPB_EN0_DBCTRL_CPU0_I_IF_UPDATE_WATCHDOG_ALERT'' 8 0x100 1 0x0 0x401c, Field
    ''GLOBALSEC_ALERT_GROUPB_EN0_DBCTRL_CPU0_S_IF_BUS_ERR_ALERT'' 9 0x200 1 0x0 0x401c, Field
    ''GLOBALSEC_ALERT_GROUPB_EN0_DBCTRL_CPU0_S_IF_UPDATE_WATCHDOG_ALERT'' 10 0x400 1 0x0 0x401c, Field
    ''GLOBALSEC_ALERT_GROUPB_EN0_DBCTRL_DDMA0_IF_BUS_ERR_ALERT'' 11 0x800 1 0x0 0x401c, Field
    ''GLOBALSEC_ALERT_GROUPB_EN0_DBCTRL_DDMA0_IF_UPDATE_WATCHDOG_ALERT'' 12 0x1000 1 0x0 0x401c, Field
    ''GLOBALSEC_ALERT_GROUPB_EN0_DBCTRL_DSPS0_IF_BUS_ERR_ALERT'' 13 0x2000 1 0x0 0x401c, Field
    ''GLOBALSEC_ALERT_GROUPB_EN0_DBCTRL_DSPS0_IF_UPDATE_WATCHDOG_ALERT'' 14 0x4000 1 0x0 0x401c, Field
    ''GLOBALSEC_ALERT_GROUPB_EN0_DBCTRL_DUSB0_IF_BUS_ERR_ALERT'' 15 0x8000 1 0x0 0x401c, Field
    ''GLOBALSEC_ALERT_GROUPB_EN0_DBCTRL_DUSB0_IF_UPDATE_WATCHDOG_ALERT'' 16 0x10000 1 0x0 0x401c, Field
    ''GLOBALSEC_ALERT_GROUPB_EN0_FUSE0_FUSE_DEFAULTS_ALERT'' 17 0x20000 1 0x0 0x401c, Field
    ''GLOBALSEC_ALERT_GROUPB_EN0_GLOBALSEC_DIFF_FAIL_ALERT'' 18 0x40000 1 0x0 0x401c, Field
    ''GLOBALSEC_ALERT_GROUPB_EN0_GLOBALSEC_FW0_ALERT'' 19 0x80000 1 0x0 0x401c, Field
    ''GLOBALSEC_ALERT_GROUPB_EN0_GLOBALSEC_FW1_ALERT'' 20 0x100000 1 0x0 0x401c, Field
    ''GLOBALSEC_ALERT_GROUPB_EN0_GLOBALSEC_FW2_ALERT'' 21 0x200000 1 0x0 0x401c, Field
    ''GLOBALSEC_ALERT_GROUPB_EN0_GLOBALSEC_FW3_ALERT'' 22 0x400000 1 0x0 0x401c, Field
    ''GLOBALSEC_ALERT_GROUPB_EN0_GLOBALSEC_HEARTBEAT_FAIL_ALERT'' 23 0x800000 1 0x0 0x401c, Field
    ''GLOBALSEC_ALERT_GROUPB_EN0_GLOBALSEC_PROC_OPCODE_HASH_ALERT'' 24 0x1000000 1 0x0 0x401c, Field
    ''GLOBALSEC_ALERT_GROUPB_EN0_GLOBALSEC_SRAM_PARITY_SCRUB_ALERT'' 25 0x2000000 1 0x0 0x401c, Field
    ''GLOBALSEC_ALERT_GROUPB_EN0_KEYMGR0_AES_EXEC_CTR_MAX_ALERT'' 26 0x4000000 1 0x0 0x401c, Field
    ''GLOBALSEC_ALERT_GROUPB_EN0_KEYMGR0_AES_HKEY_ALERT'' 27 0x8000000 1 0x0 0x401c, Field
    ''GLOBALSEC_ALERT_GROUPB_EN0_KEYMGR0_CERT_LOOKUP_ALERT'' 28 0x10000000 1 0x0 0x401c, Field
    ''GLOBALSEC_ALERT_GROUPB_EN0_KEYMGR0_FLASH_ENTRY_ALERT'' 29 0x20000000 1 0x0 0x401c]"

definition regdefs_10643 :: "reg_field list" where
  "regdefs_10643 = [
    Field ''GLOBALSEC_ALERT_GROUPB_EN0_KEYMGR0_PW_ALERT'' 30 0x40000000 1 0x0 0x401c, Field
    ''GLOBALSEC_ALERT_GROUPB_EN0_KEYMGR0_SHA_EXEC_CTR_MAX_ALERT'' 31 0x80000000 1 0x0 0x401c, Field
    ''GLOBALSEC_ALERT_GROUPB_EN1_KEYMGR0_SHA_FAULT_ALERT'' 0 0x1 1 0x0 0x4020, Field
    ''GLOBALSEC_ALERT_GROUPB_EN1_KEYMGR0_SHA_HKEY_ALERT'' 1 0x2 1 0x0 0x4020, Field
    ''GLOBALSEC_ALERT_GROUPB_EN1_PMU_BATTERY_MON_ALERT'' 2 0x4 1 0x0 0x4020, Field
    ''GLOBALSEC_ALERT_GROUPB_EN1_PMU_PMU_WDOG_ALERT'' 3 0x8 1 0x0 0x4020, Field
    ''GLOBALSEC_ALERT_GROUPB_EN1_RTC0_RTC_DEAD_ALERT'' 4 0x10 1 0x0 0x4020, Field
    ''GLOBALSEC_ALERT_GROUPB_EN1_TEMP0_MAX_TEMP_ALERT'' 5 0x20 1 0x0 0x4020, Field
    ''GLOBALSEC_ALERT_GROUPB_EN1_TEMP0_MAX_TEMP_DIFF_ALERT'' 6 0x40 1 0x0 0x4020, Field
    ''GLOBALSEC_ALERT_GROUPB_EN1_TEMP0_MIN_TEMP_ALERT'' 7 0x80 1 0x0 0x4020, Field
    ''GLOBALSEC_ALERT_GROUPB_EN1_TRNG0_OUT_OF_SPEC_ALERT'' 8 0x100 1 0x0 0x4020, Field
    ''GLOBALSEC_ALERT_GROUPB_EN1_TRNG0_TIMEOUT_ALERT'' 9 0x200 1 0x0 0x4020, Field
    ''GLOBALSEC_ALERT_GROUPB_EN1_VOLT0_VOLT_ERR_ALERT'' 10 0x400 1 0x0 0x4020, Field
    ''GLOBALSEC_ALERT_GROUPB_EN1_XO0_JITTERY_TRIM_DIS_ALERT'' 11 0x800 1 0x0 0x4020]"

definition regdefs_10713 :: "reg_field list" where
  "regdefs_10713 = [
    Field ''GLOBALSEC_ALERT_GROUPC_EN0_CAMO0_BREACH_ALERT'' 0 0x1 1 0x0 0x4024, Field
    ''GLOBALSEC_ALERT_GROUPC_EN0_CRYPTO0_DMEM_PARITY_ALERT'' 1 0x2 1 0x0 0x4024, Field
    ''GLOBALSEC_ALERT_GROUPC_EN0_CRYPTO0_DRF_PARITY_ALERT'' 2 0x4 1 0x0 0x4024, Field
    ''GLOBALSEC_ALERT_GROUPC_EN0_CRYPTO0_IMEM_PARITY_ALERT'' 3 0x8 1 0x0 0x4024, Field
    ''GLOBALSEC_ALERT_GROUPC_EN0_CRYPTO0_PGM_FAULT_ALERT'' 4 0x10 1 0x0 0x4024, Field
    ''GLOBALSEC_ALERT_GROUPC_EN0_DBCTRL_CPU0_D_IF_BUS_ERR_ALERT'' 5 0x20 1 0x0 0x4024, Field
    ''GLOBALSEC_ALERT_GROUPC_EN0_DBCTRL_CPU0_D_IF_UPDATE_WATCHDOG_ALERT'' 6 0x40 1 0x0 0x4024, Field
    ''GLOBALSEC_ALERT_GROUPC_EN0_DBCTRL_CPU0_I_IF_BUS_ERR_ALERT'' 7 0x80 1 0x0 0x4024, Field
    ''GLOBALSEC_ALERT_GROUPC_EN0_DBCTRL_CPU0_I_IF_UPDATE_WATCHDOG_ALERT'' 8 0x100 1 0x0 0x4024, Field
    ''GLOBALSEC_ALERT_GROUPC_EN0_DBCTRL_CPU0_S_IF_BUS_ERR_ALERT'' 9 0x200 1 0x0 0x4024, Field
    ''GLOBALSEC_ALERT_GROUPC_EN0_DBCTRL_CPU0_S_IF_UPDATE_WATCHDOG_ALERT'' 10 0x400 1 0x0 0x4024, Field
    ''GLOBALSEC_ALERT_GROUPC_EN0_DBCTRL_DDMA0_IF_BUS_ERR_ALERT'' 11 0x800 1 0x0 0x4024, Field
    ''GLOBALSEC_ALERT_GROUPC_EN0_DBCTRL_DDMA0_IF_UPDATE_WATCHDOG_ALERT'' 12 0x1000 1 0x0 0x4024, Field
    ''GLOBALSEC_ALERT_GROUPC_EN0_DBCTRL_DSPS0_IF_BUS_ERR_ALERT'' 13 0x2000 1 0x0 0x4024, Field
    ''GLOBALSEC_ALERT_GROUPC_EN0_DBCTRL_DSPS0_IF_UPDATE_WATCHDOG_ALERT'' 14 0x4000 1 0x0 0x4024, Field
    ''GLOBALSEC_ALERT_GROUPC_EN0_DBCTRL_DUSB0_IF_BUS_ERR_ALERT'' 15 0x8000 1 0x0 0x4024, Field
    ''GLOBALSEC_ALERT_GROUPC_EN0_DBCTRL_DUSB0_IF_UPDATE_WATCHDOG_ALERT'' 16 0x10000 1 0x0 0x4024, Field
    ''GLOBALSEC_ALERT_GROUPC_EN0_FUSE0_FUSE_DEFAULTS_ALERT'' 17 0x20000 1 0x0 0x4024, Field
    ''GLOBALSEC_ALERT_GROUPC_EN0_GLOBALSEC_DIFF_FAIL_ALERT'' 18 0x40000 1 0x0 0x4024, Field
    ''GLOBALSEC_ALERT_GROUPC_EN0_GLOBALSEC_FW0_ALERT'' 19 0x80000 1 0x0 0x4024, Field
    ''GLOBALSEC_ALERT_GROUPC_EN0_GLOBALSEC_FW1_ALERT'' 20 0x100000 1 0x0 0x4024, Field
    ''GLOBALSEC_ALERT_GROUPC_EN0_GLOBALSEC_FW2_ALERT'' 21 0x200000 1 0x0 0x4024, Field
    ''GLOBALSEC_ALERT_GROUPC_EN0_GLOBALSEC_FW3_ALERT'' 22 0x400000 1 0x0 0x4024, Field
    ''GLOBALSEC_ALERT_GROUPC_EN0_GLOBALSEC_HEARTBEAT_FAIL_ALERT'' 23 0x800000 1 0x0 0x4024, Field
    ''GLOBALSEC_ALERT_GROUPC_EN0_GLOBALSEC_PROC_OPCODE_HASH_ALERT'' 24 0x1000000 1 0x0 0x4024, Field
    ''GLOBALSEC_ALERT_GROUPC_EN0_GLOBALSEC_SRAM_PARITY_SCRUB_ALERT'' 25 0x2000000 1 0x0 0x4024, Field
    ''GLOBALSEC_ALERT_GROUPC_EN0_KEYMGR0_AES_EXEC_CTR_MAX_ALERT'' 26 0x4000000 1 0x0 0x4024, Field
    ''GLOBALSEC_ALERT_GROUPC_EN0_KEYMGR0_AES_HKEY_ALERT'' 27 0x8000000 1 0x0 0x4024, Field
    ''GLOBALSEC_ALERT_GROUPC_EN0_KEYMGR0_CERT_LOOKUP_ALERT'' 28 0x10000000 1 0x0 0x4024, Field
    ''GLOBALSEC_ALERT_GROUPC_EN0_KEYMGR0_FLASH_ENTRY_ALERT'' 29 0x20000000 1 0x0 0x4024]"

definition regdefs_10863 :: "reg_field list" where
  "regdefs_10863 = [
    Field ''GLOBALSEC_ALERT_GROUPC_EN0_KEYMGR0_PW_ALERT'' 30 0x40000000 1 0x0 0x4024, Field
    ''GLOBALSEC_ALERT_GROUPC_EN0_KEYMGR0_SHA_EXEC_CTR_MAX_ALERT'' 31 0x80000000 1 0x0 0x4024, Field
    ''GLOBALSEC_ALERT_GROUPC_EN1_KEYMGR0_SHA_FAULT_ALERT'' 0 0x1 1 0x0 0x4028, Field
    ''GLOBALSEC_ALERT_GROUPC_EN1_KEYMGR0_SHA_HKEY_ALERT'' 1 0x2 1 0x0 0x4028, Field
    ''GLOBALSEC_ALERT_GROUPC_EN1_PMU_BATTERY_MON_ALERT'' 2 0x4 1 0x0 0x4028, Field
    ''GLOBALSEC_ALERT_GROUPC_EN1_PMU_PMU_WDOG_ALERT'' 3 0x8 1 0x0 0x4028, Field
    ''GLOBALSEC_ALERT_GROUPC_EN1_RTC0_RTC_DEAD_ALERT'' 4 0x10 1 0x0 0x4028, Field
    ''GLOBALSEC_ALERT_GROUPC_EN1_TEMP0_MAX_TEMP_ALERT'' 5 0x20 1 0x0 0x4028, Field
    ''GLOBALSEC_ALERT_GROUPC_EN1_TEMP0_MAX_TEMP_DIFF_ALERT'' 6 0x40 1 0x0 0x4028, Field
    ''GLOBALSEC_ALERT_GROUPC_EN1_TEMP0_MIN_TEMP_ALERT'' 7 0x80 1 0x0 0x4028, Field
    ''GLOBALSEC_ALERT_GROUPC_EN1_TRNG0_OUT_OF_SPEC_ALERT'' 8 0x100 1 0x0 0x4028, Field
    ''GLOBALSEC_ALERT_GROUPC_EN1_TRNG0_TIMEOUT_ALERT'' 9 0x200 1 0x0 0x4028, Field
    ''GLOBALSEC_ALERT_GROUPC_EN1_VOLT0_VOLT_ERR_ALERT'' 10 0x400 1 0x0 0x4028, Field
    ''GLOBALSEC_ALERT_GROUPC_EN1_XO0_JITTERY_TRIM_DIS_ALERT'' 11 0x800 1 0x0 0x4028]"

definition regdefs_10933 :: "reg_field list" where
  "regdefs_10933 = [
    Field ''GLOBALSEC_ALERT_DLYCTR0_EN0_CAMO0_BREACH_ALERT'' 0 0x1 1 0x0 0x402c, Field
    ''GLOBALSEC_ALERT_DLYCTR0_EN0_CRYPTO0_DMEM_PARITY_ALERT'' 1 0x2 1 0x0 0x402c, Field
    ''GLOBALSEC_ALERT_DLYCTR0_EN0_CRYPTO0_DRF_PARITY_ALERT'' 2 0x4 1 0x0 0x402c, Field
    ''GLOBALSEC_ALERT_DLYCTR0_EN0_CRYPTO0_IMEM_PARITY_ALERT'' 3 0x8 1 0x0 0x402c, Field
    ''GLOBALSEC_ALERT_DLYCTR0_EN0_CRYPTO0_PGM_FAULT_ALERT'' 4 0x10 1 0x0 0x402c, Field
    ''GLOBALSEC_ALERT_DLYCTR0_EN0_DBCTRL_CPU0_D_IF_BUS_ERR_ALERT'' 5 0x20 1 0x0 0x402c, Field
    ''GLOBALSEC_ALERT_DLYCTR0_EN0_DBCTRL_CPU0_D_IF_UPDATE_WATCHDOG_ALERT'' 6 0x40 1 0x0 0x402c, Field
    ''GLOBALSEC_ALERT_DLYCTR0_EN0_DBCTRL_CPU0_I_IF_BUS_ERR_ALERT'' 7 0x80 1 0x0 0x402c, Field
    ''GLOBALSEC_ALERT_DLYCTR0_EN0_DBCTRL_CPU0_I_IF_UPDATE_WATCHDOG_ALERT'' 8 0x100 1 0x0 0x402c, Field
    ''GLOBALSEC_ALERT_DLYCTR0_EN0_DBCTRL_CPU0_S_IF_BUS_ERR_ALERT'' 9 0x200 1 0x0 0x402c, Field
    ''GLOBALSEC_ALERT_DLYCTR0_EN0_DBCTRL_CPU0_S_IF_UPDATE_WATCHDOG_ALERT'' 10 0x400 1 0x0 0x402c, Field
    ''GLOBALSEC_ALERT_DLYCTR0_EN0_DBCTRL_DDMA0_IF_BUS_ERR_ALERT'' 11 0x800 1 0x0 0x402c, Field
    ''GLOBALSEC_ALERT_DLYCTR0_EN0_DBCTRL_DDMA0_IF_UPDATE_WATCHDOG_ALERT'' 12 0x1000 1 0x0 0x402c, Field
    ''GLOBALSEC_ALERT_DLYCTR0_EN0_DBCTRL_DSPS0_IF_BUS_ERR_ALERT'' 13 0x2000 1 0x0 0x402c, Field
    ''GLOBALSEC_ALERT_DLYCTR0_EN0_DBCTRL_DSPS0_IF_UPDATE_WATCHDOG_ALERT'' 14 0x4000 1 0x0 0x402c, Field
    ''GLOBALSEC_ALERT_DLYCTR0_EN0_DBCTRL_DUSB0_IF_BUS_ERR_ALERT'' 15 0x8000 1 0x0 0x402c, Field
    ''GLOBALSEC_ALERT_DLYCTR0_EN0_DBCTRL_DUSB0_IF_UPDATE_WATCHDOG_ALERT'' 16 0x10000 1 0x0 0x402c, Field
    ''GLOBALSEC_ALERT_DLYCTR0_EN0_FUSE0_FUSE_DEFAULTS_ALERT'' 17 0x20000 1 0x0 0x402c, Field
    ''GLOBALSEC_ALERT_DLYCTR0_EN0_GLOBALSEC_DIFF_FAIL_ALERT'' 18 0x40000 1 0x0 0x402c, Field
    ''GLOBALSEC_ALERT_DLYCTR0_EN0_GLOBALSEC_FW0_ALERT'' 19 0x80000 1 0x0 0x402c, Field
    ''GLOBALSEC_ALERT_DLYCTR0_EN0_GLOBALSEC_FW1_ALERT'' 20 0x100000 1 0x0 0x402c, Field
    ''GLOBALSEC_ALERT_DLYCTR0_EN0_GLOBALSEC_FW2_ALERT'' 21 0x200000 1 0x0 0x402c, Field
    ''GLOBALSEC_ALERT_DLYCTR0_EN0_GLOBALSEC_FW3_ALERT'' 22 0x400000 1 0x0 0x402c, Field
    ''GLOBALSEC_ALERT_DLYCTR0_EN0_GLOBALSEC_HEARTBEAT_FAIL_ALERT'' 23 0x800000 1 0x0 0x402c, Field
    ''GLOBALSEC_ALERT_DLYCTR0_EN0_GLOBALSEC_PROC_OPCODE_HASH_ALERT'' 24 0x1000000 1 0x0 0x402c, Field
    ''GLOBALSEC_ALERT_DLYCTR0_EN0_GLOBALSEC_SRAM_PARITY_SCRUB_ALERT'' 25 0x2000000 1 0x0 0x402c, Field
    ''GLOBALSEC_ALERT_DLYCTR0_EN0_KEYMGR0_AES_EXEC_CTR_MAX_ALERT'' 26 0x4000000 1 0x0 0x402c, Field
    ''GLOBALSEC_ALERT_DLYCTR0_EN0_KEYMGR0_AES_HKEY_ALERT'' 27 0x8000000 1 0x0 0x402c, Field
    ''GLOBALSEC_ALERT_DLYCTR0_EN0_KEYMGR0_CERT_LOOKUP_ALERT'' 28 0x10000000 1 0x0 0x402c, Field
    ''GLOBALSEC_ALERT_DLYCTR0_EN0_KEYMGR0_FLASH_ENTRY_ALERT'' 29 0x20000000 1 0x0 0x402c]"

definition regdefs_11083 :: "reg_field list" where
  "regdefs_11083 = [
    Field ''GLOBALSEC_ALERT_DLYCTR0_EN0_KEYMGR0_PW_ALERT'' 30 0x40000000 1 0x0 0x402c, Field
    ''GLOBALSEC_ALERT_DLYCTR0_EN0_KEYMGR0_SHA_EXEC_CTR_MAX_ALERT'' 31 0x80000000 1 0x0 0x402c, Field
    ''GLOBALSEC_ALERT_DLYCTR0_EN1_KEYMGR0_SHA_FAULT_ALERT'' 0 0x1 1 0x0 0x4030, Field
    ''GLOBALSEC_ALERT_DLYCTR0_EN1_KEYMGR0_SHA_HKEY_ALERT'' 1 0x2 1 0x0 0x4030, Field
    ''GLOBALSEC_ALERT_DLYCTR0_EN1_PMU_BATTERY_MON_ALERT'' 2 0x4 1 0x0 0x4030, Field
    ''GLOBALSEC_ALERT_DLYCTR0_EN1_PMU_PMU_WDOG_ALERT'' 3 0x8 1 0x0 0x4030, Field
    ''GLOBALSEC_ALERT_DLYCTR0_EN1_RTC0_RTC_DEAD_ALERT'' 4 0x10 1 0x0 0x4030, Field
    ''GLOBALSEC_ALERT_DLYCTR0_EN1_TEMP0_MAX_TEMP_ALERT'' 5 0x20 1 0x0 0x4030, Field
    ''GLOBALSEC_ALERT_DLYCTR0_EN1_TEMP0_MAX_TEMP_DIFF_ALERT'' 6 0x40 1 0x0 0x4030, Field
    ''GLOBALSEC_ALERT_DLYCTR0_EN1_TEMP0_MIN_TEMP_ALERT'' 7 0x80 1 0x0 0x4030, Field
    ''GLOBALSEC_ALERT_DLYCTR0_EN1_TRNG0_OUT_OF_SPEC_ALERT'' 8 0x100 1 0x0 0x4030, Field
    ''GLOBALSEC_ALERT_DLYCTR0_EN1_TRNG0_TIMEOUT_ALERT'' 9 0x200 1 0x0 0x4030, Field
    ''GLOBALSEC_ALERT_DLYCTR0_EN1_VOLT0_VOLT_ERR_ALERT'' 10 0x400 1 0x0 0x4030, Field
    ''GLOBALSEC_ALERT_DLYCTR0_EN1_XO0_JITTERY_TRIM_DIS_ALERT'' 11 0x800 1 0x0 0x4030]"

definition regdefs_11153 :: "reg_field list" where
  "regdefs_11153 = [
    Field ''GLOBALSEC_ALERT_DLYCTR1_EN0_CAMO0_BREACH_ALERT'' 0 0x1 1 0x0 0x4034, Field
    ''GLOBALSEC_ALERT_DLYCTR1_EN0_CRYPTO0_DMEM_PARITY_ALERT'' 1 0x2 1 0x0 0x4034, Field
    ''GLOBALSEC_ALERT_DLYCTR1_EN0_CRYPTO0_DRF_PARITY_ALERT'' 2 0x4 1 0x0 0x4034, Field
    ''GLOBALSEC_ALERT_DLYCTR1_EN0_CRYPTO0_IMEM_PARITY_ALERT'' 3 0x8 1 0x0 0x4034, Field
    ''GLOBALSEC_ALERT_DLYCTR1_EN0_CRYPTO0_PGM_FAULT_ALERT'' 4 0x10 1 0x0 0x4034, Field
    ''GLOBALSEC_ALERT_DLYCTR1_EN0_DBCTRL_CPU0_D_IF_BUS_ERR_ALERT'' 5 0x20 1 0x0 0x4034, Field
    ''GLOBALSEC_ALERT_DLYCTR1_EN0_DBCTRL_CPU0_D_IF_UPDATE_WATCHDOG_ALERT'' 6 0x40 1 0x0 0x4034, Field
    ''GLOBALSEC_ALERT_DLYCTR1_EN0_DBCTRL_CPU0_I_IF_BUS_ERR_ALERT'' 7 0x80 1 0x0 0x4034, Field
    ''GLOBALSEC_ALERT_DLYCTR1_EN0_DBCTRL_CPU0_I_IF_UPDATE_WATCHDOG_ALERT'' 8 0x100 1 0x0 0x4034, Field
    ''GLOBALSEC_ALERT_DLYCTR1_EN0_DBCTRL_CPU0_S_IF_BUS_ERR_ALERT'' 9 0x200 1 0x0 0x4034, Field
    ''GLOBALSEC_ALERT_DLYCTR1_EN0_DBCTRL_CPU0_S_IF_UPDATE_WATCHDOG_ALERT'' 10 0x400 1 0x0 0x4034, Field
    ''GLOBALSEC_ALERT_DLYCTR1_EN0_DBCTRL_DDMA0_IF_BUS_ERR_ALERT'' 11 0x800 1 0x0 0x4034, Field
    ''GLOBALSEC_ALERT_DLYCTR1_EN0_DBCTRL_DDMA0_IF_UPDATE_WATCHDOG_ALERT'' 12 0x1000 1 0x0 0x4034, Field
    ''GLOBALSEC_ALERT_DLYCTR1_EN0_DBCTRL_DSPS0_IF_BUS_ERR_ALERT'' 13 0x2000 1 0x0 0x4034, Field
    ''GLOBALSEC_ALERT_DLYCTR1_EN0_DBCTRL_DSPS0_IF_UPDATE_WATCHDOG_ALERT'' 14 0x4000 1 0x0 0x4034, Field
    ''GLOBALSEC_ALERT_DLYCTR1_EN0_DBCTRL_DUSB0_IF_BUS_ERR_ALERT'' 15 0x8000 1 0x0 0x4034, Field
    ''GLOBALSEC_ALERT_DLYCTR1_EN0_DBCTRL_DUSB0_IF_UPDATE_WATCHDOG_ALERT'' 16 0x10000 1 0x0 0x4034, Field
    ''GLOBALSEC_ALERT_DLYCTR1_EN0_FUSE0_FUSE_DEFAULTS_ALERT'' 17 0x20000 1 0x0 0x4034, Field
    ''GLOBALSEC_ALERT_DLYCTR1_EN0_GLOBALSEC_DIFF_FAIL_ALERT'' 18 0x40000 1 0x0 0x4034, Field
    ''GLOBALSEC_ALERT_DLYCTR1_EN0_GLOBALSEC_FW0_ALERT'' 19 0x80000 1 0x0 0x4034, Field
    ''GLOBALSEC_ALERT_DLYCTR1_EN0_GLOBALSEC_FW1_ALERT'' 20 0x100000 1 0x0 0x4034, Field
    ''GLOBALSEC_ALERT_DLYCTR1_EN0_GLOBALSEC_FW2_ALERT'' 21 0x200000 1 0x0 0x4034, Field
    ''GLOBALSEC_ALERT_DLYCTR1_EN0_GLOBALSEC_FW3_ALERT'' 22 0x400000 1 0x0 0x4034, Field
    ''GLOBALSEC_ALERT_DLYCTR1_EN0_GLOBALSEC_HEARTBEAT_FAIL_ALERT'' 23 0x800000 1 0x0 0x4034, Field
    ''GLOBALSEC_ALERT_DLYCTR1_EN0_GLOBALSEC_PROC_OPCODE_HASH_ALERT'' 24 0x1000000 1 0x0 0x4034, Field
    ''GLOBALSEC_ALERT_DLYCTR1_EN0_GLOBALSEC_SRAM_PARITY_SCRUB_ALERT'' 25 0x2000000 1 0x0 0x4034, Field
    ''GLOBALSEC_ALERT_DLYCTR1_EN0_KEYMGR0_AES_EXEC_CTR_MAX_ALERT'' 26 0x4000000 1 0x0 0x4034, Field
    ''GLOBALSEC_ALERT_DLYCTR1_EN0_KEYMGR0_AES_HKEY_ALERT'' 27 0x8000000 1 0x0 0x4034, Field
    ''GLOBALSEC_ALERT_DLYCTR1_EN0_KEYMGR0_CERT_LOOKUP_ALERT'' 28 0x10000000 1 0x0 0x4034, Field
    ''GLOBALSEC_ALERT_DLYCTR1_EN0_KEYMGR0_FLASH_ENTRY_ALERT'' 29 0x20000000 1 0x0 0x4034]"

definition regdefs_11303 :: "reg_field list" where
  "regdefs_11303 = [
    Field ''GLOBALSEC_ALERT_DLYCTR1_EN0_KEYMGR0_PW_ALERT'' 30 0x40000000 1 0x0 0x4034, Field
    ''GLOBALSEC_ALERT_DLYCTR1_EN0_KEYMGR0_SHA_EXEC_CTR_MAX_ALERT'' 31 0x80000000 1 0x0 0x4034, Field
    ''GLOBALSEC_ALERT_DLYCTR1_EN1_KEYMGR0_SHA_FAULT_ALERT'' 0 0x1 1 0x0 0x4038, Field
    ''GLOBALSEC_ALERT_DLYCTR1_EN1_KEYMGR0_SHA_HKEY_ALERT'' 1 0x2 1 0x0 0x4038, Field
    ''GLOBALSEC_ALERT_DLYCTR1_EN1_PMU_BATTERY_MON_ALERT'' 2 0x4 1 0x0 0x4038, Field
    ''GLOBALSEC_ALERT_DLYCTR1_EN1_PMU_PMU_WDOG_ALERT'' 3 0x8 1 0x0 0x4038, Field
    ''GLOBALSEC_ALERT_DLYCTR1_EN1_RTC0_RTC_DEAD_ALERT'' 4 0x10 1 0x0 0x4038, Field
    ''GLOBALSEC_ALERT_DLYCTR1_EN1_TEMP0_MAX_TEMP_ALERT'' 5 0x20 1 0x0 0x4038, Field
    ''GLOBALSEC_ALERT_DLYCTR1_EN1_TEMP0_MAX_TEMP_DIFF_ALERT'' 6 0x40 1 0x0 0x4038, Field
    ''GLOBALSEC_ALERT_DLYCTR1_EN1_TEMP0_MIN_TEMP_ALERT'' 7 0x80 1 0x0 0x4038, Field
    ''GLOBALSEC_ALERT_DLYCTR1_EN1_TRNG0_OUT_OF_SPEC_ALERT'' 8 0x100 1 0x0 0x4038, Field
    ''GLOBALSEC_ALERT_DLYCTR1_EN1_TRNG0_TIMEOUT_ALERT'' 9 0x200 1 0x0 0x4038, Field
    ''GLOBALSEC_ALERT_DLYCTR1_EN1_VOLT0_VOLT_ERR_ALERT'' 10 0x400 1 0x0 0x4038, Field
    ''GLOBALSEC_ALERT_DLYCTR1_EN1_XO0_JITTERY_TRIM_DIS_ALERT'' 11 0x800 1 0x0 0x4038]"

definition regdefs_11373 :: "reg_field list" where
  "regdefs_11373 = [
    Field ''GLOBALSEC_ALERT_DLYCTR2_EN0_CAMO0_BREACH_ALERT'' 0 0x1 1 0x0 0x403c, Field
    ''GLOBALSEC_ALERT_DLYCTR2_EN0_CRYPTO0_DMEM_PARITY_ALERT'' 1 0x2 1 0x0 0x403c, Field
    ''GLOBALSEC_ALERT_DLYCTR2_EN0_CRYPTO0_DRF_PARITY_ALERT'' 2 0x4 1 0x0 0x403c, Field
    ''GLOBALSEC_ALERT_DLYCTR2_EN0_CRYPTO0_IMEM_PARITY_ALERT'' 3 0x8 1 0x0 0x403c, Field
    ''GLOBALSEC_ALERT_DLYCTR2_EN0_CRYPTO0_PGM_FAULT_ALERT'' 4 0x10 1 0x0 0x403c, Field
    ''GLOBALSEC_ALERT_DLYCTR2_EN0_DBCTRL_CPU0_D_IF_BUS_ERR_ALERT'' 5 0x20 1 0x0 0x403c, Field
    ''GLOBALSEC_ALERT_DLYCTR2_EN0_DBCTRL_CPU0_D_IF_UPDATE_WATCHDOG_ALERT'' 6 0x40 1 0x0 0x403c, Field
    ''GLOBALSEC_ALERT_DLYCTR2_EN0_DBCTRL_CPU0_I_IF_BUS_ERR_ALERT'' 7 0x80 1 0x0 0x403c, Field
    ''GLOBALSEC_ALERT_DLYCTR2_EN0_DBCTRL_CPU0_I_IF_UPDATE_WATCHDOG_ALERT'' 8 0x100 1 0x0 0x403c, Field
    ''GLOBALSEC_ALERT_DLYCTR2_EN0_DBCTRL_CPU0_S_IF_BUS_ERR_ALERT'' 9 0x200 1 0x0 0x403c, Field
    ''GLOBALSEC_ALERT_DLYCTR2_EN0_DBCTRL_CPU0_S_IF_UPDATE_WATCHDOG_ALERT'' 10 0x400 1 0x0 0x403c, Field
    ''GLOBALSEC_ALERT_DLYCTR2_EN0_DBCTRL_DDMA0_IF_BUS_ERR_ALERT'' 11 0x800 1 0x0 0x403c, Field
    ''GLOBALSEC_ALERT_DLYCTR2_EN0_DBCTRL_DDMA0_IF_UPDATE_WATCHDOG_ALERT'' 12 0x1000 1 0x0 0x403c, Field
    ''GLOBALSEC_ALERT_DLYCTR2_EN0_DBCTRL_DSPS0_IF_BUS_ERR_ALERT'' 13 0x2000 1 0x0 0x403c, Field
    ''GLOBALSEC_ALERT_DLYCTR2_EN0_DBCTRL_DSPS0_IF_UPDATE_WATCHDOG_ALERT'' 14 0x4000 1 0x0 0x403c, Field
    ''GLOBALSEC_ALERT_DLYCTR2_EN0_DBCTRL_DUSB0_IF_BUS_ERR_ALERT'' 15 0x8000 1 0x0 0x403c, Field
    ''GLOBALSEC_ALERT_DLYCTR2_EN0_DBCTRL_DUSB0_IF_UPDATE_WATCHDOG_ALERT'' 16 0x10000 1 0x0 0x403c, Field
    ''GLOBALSEC_ALERT_DLYCTR2_EN0_FUSE0_FUSE_DEFAULTS_ALERT'' 17 0x20000 1 0x0 0x403c, Field
    ''GLOBALSEC_ALERT_DLYCTR2_EN0_GLOBALSEC_DIFF_FAIL_ALERT'' 18 0x40000 1 0x0 0x403c, Field
    ''GLOBALSEC_ALERT_DLYCTR2_EN0_GLOBALSEC_FW0_ALERT'' 19 0x80000 1 0x0 0x403c, Field
    ''GLOBALSEC_ALERT_DLYCTR2_EN0_GLOBALSEC_FW1_ALERT'' 20 0x100000 1 0x0 0x403c, Field
    ''GLOBALSEC_ALERT_DLYCTR2_EN0_GLOBALSEC_FW2_ALERT'' 21 0x200000 1 0x0 0x403c, Field
    ''GLOBALSEC_ALERT_DLYCTR2_EN0_GLOBALSEC_FW3_ALERT'' 22 0x400000 1 0x0 0x403c, Field
    ''GLOBALSEC_ALERT_DLYCTR2_EN0_GLOBALSEC_HEARTBEAT_FAIL_ALERT'' 23 0x800000 1 0x0 0x403c, Field
    ''GLOBALSEC_ALERT_DLYCTR2_EN0_GLOBALSEC_PROC_OPCODE_HASH_ALERT'' 24 0x1000000 1 0x0 0x403c, Field
    ''GLOBALSEC_ALERT_DLYCTR2_EN0_GLOBALSEC_SRAM_PARITY_SCRUB_ALERT'' 25 0x2000000 1 0x0 0x403c, Field
    ''GLOBALSEC_ALERT_DLYCTR2_EN0_KEYMGR0_AES_EXEC_CTR_MAX_ALERT'' 26 0x4000000 1 0x0 0x403c, Field
    ''GLOBALSEC_ALERT_DLYCTR2_EN0_KEYMGR0_AES_HKEY_ALERT'' 27 0x8000000 1 0x0 0x403c, Field
    ''GLOBALSEC_ALERT_DLYCTR2_EN0_KEYMGR0_CERT_LOOKUP_ALERT'' 28 0x10000000 1 0x0 0x403c, Field
    ''GLOBALSEC_ALERT_DLYCTR2_EN0_KEYMGR0_FLASH_ENTRY_ALERT'' 29 0x20000000 1 0x0 0x403c]"

definition regdefs_11523 :: "reg_field list" where
  "regdefs_11523 = [
    Field ''GLOBALSEC_ALERT_DLYCTR2_EN0_KEYMGR0_PW_ALERT'' 30 0x40000000 1 0x0 0x403c, Field
    ''GLOBALSEC_ALERT_DLYCTR2_EN0_KEYMGR0_SHA_EXEC_CTR_MAX_ALERT'' 31 0x80000000 1 0x0 0x403c, Field
    ''GLOBALSEC_ALERT_DLYCTR2_EN1_KEYMGR0_SHA_FAULT_ALERT'' 0 0x1 1 0x0 0x4040, Field
    ''GLOBALSEC_ALERT_DLYCTR2_EN1_KEYMGR0_SHA_HKEY_ALERT'' 1 0x2 1 0x0 0x4040, Field
    ''GLOBALSEC_ALERT_DLYCTR2_EN1_PMU_BATTERY_MON_ALERT'' 2 0x4 1 0x0 0x4040, Field
    ''GLOBALSEC_ALERT_DLYCTR2_EN1_PMU_PMU_WDOG_ALERT'' 3 0x8 1 0x0 0x4040, Field
    ''GLOBALSEC_ALERT_DLYCTR2_EN1_RTC0_RTC_DEAD_ALERT'' 4 0x10 1 0x0 0x4040, Field
    ''GLOBALSEC_ALERT_DLYCTR2_EN1_TEMP0_MAX_TEMP_ALERT'' 5 0x20 1 0x0 0x4040, Field
    ''GLOBALSEC_ALERT_DLYCTR2_EN1_TEMP0_MAX_TEMP_DIFF_ALERT'' 6 0x40 1 0x0 0x4040, Field
    ''GLOBALSEC_ALERT_DLYCTR2_EN1_TEMP0_MIN_TEMP_ALERT'' 7 0x80 1 0x0 0x4040, Field
    ''GLOBALSEC_ALERT_DLYCTR2_EN1_TRNG0_OUT_OF_SPEC_ALERT'' 8 0x100 1 0x0 0x4040, Field
    ''GLOBALSEC_ALERT_DLYCTR2_EN1_TRNG0_TIMEOUT_ALERT'' 9 0x200 1 0x0 0x4040, Field
    ''GLOBALSEC_ALERT_DLYCTR2_EN1_VOLT0_VOLT_ERR_ALERT'' 10 0x400 1 0x0 0x4040, Field
    ''GLOBALSEC_ALERT_DLYCTR2_EN1_XO0_JITTERY_TRIM_DIS_ALERT'' 11 0x800 1 0x0 0x4040]"

definition regdefs_11593 :: "reg_field list" where
  "regdefs_11593 = [
    Field ''GLOBALSEC_ALERT_CONTROL_GROUPA_NMI_EN'' 0 0x1 1 0x0 0x405c, Field
    ''GLOBALSEC_ALERT_CONTROL_GROUPA_DLYCTR0_EN'' 1 0x2 1 0x0 0x405c, Field
    ''GLOBALSEC_ALERT_CONTROL_GROUPA_DLYCTR1_EN'' 2 0x4 1 0x0 0x405c, Field
    ''GLOBALSEC_ALERT_CONTROL_GROUPA_DLYCTR2_EN'' 3 0x8 1 0x0 0x405c, Field
    ''GLOBALSEC_ALERT_CONTROL_GROUPB_NMI_EN'' 4 0x10 1 0x0 0x405c, Field
    ''GLOBALSEC_ALERT_CONTROL_GROUPB_DLYCTR0_EN'' 5 0x20 1 0x0 0x405c, Field
    ''GLOBALSEC_ALERT_CONTROL_GROUPB_DLYCTR1_EN'' 6 0x40 1 0x0 0x405c, Field
    ''GLOBALSEC_ALERT_CONTROL_GROUPB_DLYCTR2_EN'' 7 0x80 1 0x0 0x405c, Field
    ''GLOBALSEC_ALERT_CONTROL_GROUPC_NMI_EN'' 8 0x100 1 0x0 0x405c, Field
    ''GLOBALSEC_ALERT_CONTROL_GROUPC_DLYCTR0_EN'' 9 0x200 1 0x0 0x405c, Field
    ''GLOBALSEC_ALERT_CONTROL_GROUPC_DLYCTR1_EN'' 10 0x400 1 0x0 0x405c, Field
    ''GLOBALSEC_ALERT_CONTROL_GROUPC_DLYCTR2_EN'' 11 0x800 1 0x0 0x405c, Field
    ''GLOBALSEC_ALERT_CONTROL_DLYCTR0_WDOG_DIS'' 12 0x1000 1 0x0 0x405c, Field
    ''GLOBALSEC_ALERT_CONTROL_DLYCTR0_SHUTDOWN_EN'' 13 0x2000 1 0x0 0x405c, Field
    ''GLOBALSEC_ALERT_CONTROL_DLYCTR1_WDOG_DIS'' 14 0x4000 1 0x0 0x405c, Field
    ''GLOBALSEC_ALERT_CONTROL_DLYCTR1_SHUTDOWN_EN'' 15 0x8000 1 0x0 0x405c, Field
    ''GLOBALSEC_ALERT_CONTROL_DLYCTR2_WDOG_DIS'' 16 0x10000 1 0x0 0x405c, Field
    ''GLOBALSEC_ALERT_CONTROL_DLYCTR2_SHUTDOWN_EN'' 17 0x20000 1 0x0 0x405c, Field
    ''GLOBALSEC_ALERT_CONTROL_WATCHDOG_RESET_SHUTDOWN_EN'' 18 0x40000 1 0x0 0x405c, Field
    ''GLOBALSEC_ALERT_CONTROL_WATCHDOG_RESET_FIREWALL_EN'' 19 0x80000 1 0x0 0x405c, Field
    ''GLOBALSEC_ALERT_CONTROL_PROC_LOCKUP_SHUTDOWN_EN'' 20 0x100000 1 0x0 0x405c, Field
    ''GLOBALSEC_ALERT_CONTROL_PROC_LOCKUP_FIREWALL_EN'' 21 0x200000 1 0x0 0x405c, Field
    ''GLOBALSEC_ANTEST_SEN_LSR_INPUT_DIG_IN'' 0 0x3 2 0x3 0x40d4, Field ''GLOBALSEC_ANTEST_SEN_LSR_INPUT_ENB'' 2
    0xc 2 0x3 0x40d4, Field ''GLOBALSEC_ANTEST_SEN_LSR_INPUT_PWR_RDY'' 4 0x10 1 0x0 0x40d4, Field
    ''GLOBALSEC_ANTEST_SEN_LSR_INPUT_PWR_SW_ENB'' 5 0x20 1 0x1 0x40d4, Field
    ''GLOBALSEC_ANTEST_SEN_LSR_INPUT_RST'' 6 0x40 1 0x0 0x40d4, Field ''GLOBALSEC_ANTEST_SEN_LSR_INPUT_SEL'' 7
    0x380 3 0x0 0x40d4, Field ''GLOBALSEC_VERSION_CHANGE'' 0 0xffffff 24 0x10913 0x40dc, Field
    ''GLOBALSEC_VERSION_REVISION'' 24 0xff000000 8 0x59 0x40dc]"

section \<open>Tables\<close>

definition registers_CAMO :: "register list" where
  "registers_CAMO =
     registers_647"

definition registers_CRYPTO :: "register list" where
  "registers_CRYPTO =
     registers_653"

definition registers_DMA :: "register list" where
  "registers_DMA =
     registers_697 @ registers_777 @ registers_857"

definition registers_FLASH :: "register list" where
  "registers_FLASH =
     registers_881 @ registers_971 @ registers_1052"

definition registers_FUSE :: "register list" where
  "registers_FUSE =
     registers_1088 @ registers_1178 @ registers_1258 @ registers_1338 @ registers_1418 @ registers_1498
     @ registers_1578"

definition registers_GLOBALSEC :: "register list" where
  "registers_GLOBALSEC =
     registers_1646 @ registers_1726 @ registers_1806 @ registers_1886 @ registers_1966 @ registers_2046
     @ registers_2126"

definition fields_CAMO :: "reg_field list" where
  "fields_CAMO =
     regdefs_6293"

definition fields_CRYPTO :: "reg_field list" where
  "fields_CRYPTO =
     regdefs_6303 @ regdefs_6448 @ regdefs_6578"

definition fields_DMA :: "reg_field list" where
  "fields_DMA =
     regdefs_6663 @ regdefs_6778 @ regdefs_6913 @ regdefs_7048 @ regdefs_7183 @ regdefs_7318"

definition fields_FLASH :: "reg_field list" where
  "fields_FLASH =
     regdefs_7453 @ regdefs_7598"

definition fields_FUSE :: "reg_field list" where
  "fields_FUSE =
     regdefs_7718 @ regdefs_7868 @ regdefs_8018 @ regdefs_8168 @ regdefs_8318 @ regdefs_8468 @
     regdefs_8618 @ regdefs_8768 @ regdefs_8918 @ regdefs_9068"

definition fields_GLOBALSEC :: "reg_field list" where
  "fields_GLOBALSEC =
     regdefs_9103 @ regdefs_9253 @ regdefs_9403 @ regdefs_9553 @ regdefs_9703 @ regdefs_9833 @
     regdefs_9983 @ regdefs_10053 @ regdefs_10203 @ regdefs_10273 @ regdefs_10423 @ regdefs_10493 @
     regdefs_10643 @ regdefs_10713 @ regdefs_10863 @ regdefs_10933 @ regdefs_11083 @ regdefs_11153 @
     regdefs_11303 @ regdefs_11373 @ regdefs_11523 @ regdefs_11593"

text \<open>
  Every table of fields is well-formed and sorted, and the fields are those of the registers.
\<close>

lemma scan_CAMO_1:
  "list_all well_formed regdefs_6293" "scan 0 (map extent regdefs_6293) = Some 96"
  by (simp_all add:
    regdefs_6293_def)

lemma fields_CAMO_scan: "list_all well_formed fields_CAMO" "scan 0 (map extent fields_CAMO) = Some 96"
  unfolding fields_CAMO_def
  by (simp_all only: map_append scan_append list_all_append option.case simp_thms
    scan_CAMO_1)

lemma covered_CAMO_1:
  "covered (map reset_key (registers_647)) (map field_key regdefs_6293)"
  by (simp_all add:
    registers_647_def regdefs_6293_def)

lemma registers_CAMO_parts:
  "set registers_647 \<subseteq> set registers_CAMO"
  by (auto simp: registers_CAMO_def)

lemma fields_CAMO_registers: "list_all (has_register registers_CAMO) fields_CAMO"
  unfolding fields_CAMO_def
  by (simp only: list_all_append set_append Un_subset_iff simp_thms registers_CAMO_parts
    covered_CAMO_1 [THEN covered_has])

lemma scan_CRYPTO_1:
  "list_all well_formed regdefs_6303" "scan 0 (map extent regdefs_6303) = Some 172"
  "list_all well_formed regdefs_6448" "scan 172 (map extent regdefs_6448) = Some 298"
  "list_all well_formed regdefs_6578" "scan 298 (map extent regdefs_6578) = Some 640"
  by (simp_all add:
    regdefs_6303_def regdefs_6448_def regdefs_6578_def)

lemma fields_CRYPTO_scan: "list_all well_formed fields_CRYPTO" "scan 0 (map extent fields_CRYPTO) = Some 640"
  unfolding fields_CRYPTO_def
  by (simp_all only: map_append scan_append list_all_append option.case simp_thms
    scan_CRYPTO_1)

lemma covered_CRYPTO_1:
  "covered (map reset_key (registers_653)) (map field_key regdefs_6303)"
  "covered (map reset_key (registers_653)) (map field_key regdefs_6448)"
  "covered (map reset_key (registers_653)) (map field_key regdefs_6578)"
  by (simp_all add:
    registers_653_def regdefs_6303_def regdefs_6448_def regdefs_6578_def)

lemma registers_CRYPTO_parts:
  "set registers_653 \<subseteq> set registers_CRYPTO"
  by (auto simp: registers_CRYPTO_def)

lemma fields_CRYPTO_registers: "list_all (has_register registers_CRYPTO) fields_CRYPTO"
  unfolding fields_CRYPTO_def
  by (simp only: list_all_append set_append Un_subset_iff simp_thms registers_CRYPTO_parts
    covered_CRYPTO_1 [THEN covered_has])

lemma scan_DMA_1:
  "list_all well_formed regdefs_6663" "scan 0 (map extent regdefs_6663) = Some 2125"
  "list_all well_formed regdefs_6778" "scan 2125 (map extent regdefs_6778) = Some 4425"
  "list_all well_formed regdefs_6913" "scan 4425 (map extent regdefs_6913) = Some 8269"
  "list_all well_formed regdefs_7048" "scan 8269 (map extent regdefs_7048) = Some 10569"
  "list_all well_formed regdefs_7183" "scan 10569 (map extent regdefs_7183) = Some 14413"
  "list_all well_formed regdefs_7318" "scan 14413 (map extent regdefs_7318) = Some 16713"
  by (simp_all add:
    regdefs_6663_def regdefs_6778_def regdefs_6913_def regdefs_7048_def regdefs_7183_def
    regdefs_7318_def)

lemma fields_DMA_scan: "list_all well_formed fields_DMA" "scan 0 (map extent fields_DMA) = Some 16713"
  unfolding fields_DMA_def
  by (simp_all only: map_append scan_append list_all_append option.case simp_thms
    scan_DMA_1)

lemma covered_DMA_1:
  "covered (map reset_key (registers_697)) (map field_key regdefs_6663)"
  "covered (map reset_key (registers_697)) (map field_key regdefs_6778)"
  "covered (map reset_key (registers_697)) (map field_key regdefs_6913)"
  "covered (map reset_key (registers_777)) (map field_key regdefs_7048)"
  "covered (map reset_key (registers_777)) (map field_key regdefs_7183)"
  "covered (map reset_key (registers_857)) (map field_key regdefs_7318)"
  by (simp_all add:
    registers_697_def registers_777_def registers_857_def regdefs_6663_def regdefs_6778_def
    regdefs_6913_def regdefs_7048_def regdefs_7183_def regdefs_7318_def)

lemma registers_DMA_parts:
  "set registers_697 \<subseteq> set registers_DMA"
  "set registers_777 \<subseteq> set registers_DMA"
  "set registers_857 \<subseteq> set registers_DMA"
  by (auto simp: registers_DMA_def)

lemma fields_DMA_registers: "list_all (has_register registers_DMA) fields_DMA"
  unfolding fields_DMA_def
  by (simp only: list_all_append set_append Un_subset_iff simp_thms registers_DMA_parts
    covered_DMA_1 [THEN covered_has])

lemma scan_FLASH_1:
  "list_all well_formed regdefs_7453" "scan 0 (map extent regdefs_7453) = Some 365"
  "list_all well_formed regdefs_7598" "scan 365 (map extent regdefs_7598) = Some 30754"
  by (simp_all add:
    regdefs_7453_def regdefs_7598_def)

lemma fields_FLASH_scan: "list_all well_formed fields_FLASH" "scan 0 (map extent fields_FLASH) = Some 30754"
  unfolding fields_FLASH_def
  by (simp_all only: map_append scan_append list_all_append option.case simp_thms
    scan_FLASH_1)

lemma covered_FLASH_1:
  "covered (map reset_key (registers_881)) (map field_key regdefs_7453)"
  "covered (map reset_key (registers_881 @ registers_971 @ registers_1052)) (map field_key regdefs_7598)"
  by (simp_all add:
    registers_881_def registers_971_def registers_1052_def regdefs_7453_def regdefs_7598_def)

lemma registers_FLASH_parts:
  "set registers_881 \<subseteq> set registers_FLASH"
  "set registers_971 \<subseteq> set registers_FLASH"
  "set registers_1052 \<subseteq> set registers_FLASH"
  by (auto simp: registers_FLASH_def)

lemma fields_FLASH_registers: "list_all (has_register registers_FLASH) fields_FLASH"
  unfolding fields_FLASH_def
  by (simp only: list_all_append set_append Un_subset_iff simp_thms registers_FLASH_parts
    covered_FLASH_1 [THEN covered_has])

lemma scan_FUSE_1:
  "list_all well_formed regdefs_7718" "scan 0 (map extent regdefs_7718) = Some 834"
  "list_all well_formed regdefs_7868" "scan 834 (map extent regdefs_7868) = Some 1797"
  "list_all well_formed regdefs_8018" "scan 1797 (map extent regdefs_8018) = Some 2760"
  "list_all well_formed regdefs_8168" "scan 2760 (map extent regdefs_8168) = Some 3714"
  "list_all well_formed regdefs_8318" "scan 3714 (map extent regdefs_8318) = Some 4675"
  "list_all well_formed regdefs_8468" "scan 4675 (map extent regdefs_8468) = Some 5635"
  "list_all well_formed regdefs_8618" "scan 5635 (map extent regdefs_8618) = Some 6624"
  "list_all well_formed regdefs_8768" "scan 6624 (map extent regdefs_8768) = Some 7560"
  "list_all well_formed regdefs_8918" "scan 7560 (map extent regdefs_8918) = Some 8515"
  "list_all well_formed regdefs_9068" "scan 8515 (map extent regdefs_9068) = Some 8741"
  by (simp_all add:
    regdefs_7718_def regdefs_7868_def regdefs_8018_def regdefs_8168_def regdefs_8318_def
    regdefs_8468_def regdefs_8618_def regdefs_8768_def regdefs_8918_def regdefs_9068_def)

lemma fields_FUSE_scan: "list_all well_formed fields_FUSE" "scan 0 (map extent fields_FUSE) = Some 8741"
  unfolding fields_FUSE_def
  by (simp_all only: map_append scan_append list_all_append option.case simp_thms
    scan_FUSE_1)

lemma covered_FUSE_1:
  "covered (map reset_key (registers_1088)) (map field_key regdefs_7718)"
  "covered (map reset_key (registers_1088 @ registers_1178)) (map field_key regdefs_7868)"
  "covered (map reset_key (registers_1178 @ registers_1258)) (map field_key regdefs_8018)"
  "covered (map reset_key (registers_1258)) (map field_key regdefs_8168)"
  "covered (map reset_key (registers_1258 @ registers_1338)) (map field_key regdefs_8318)"
  "covered (map reset_key (registers_1338 @ registers_1418)) (map field_key regdefs_8468)"
  by (simp_all add:
    registers_1088_def registers_1178_def registers_1258_def registers_1338_def registers_1418_def
    regdefs_7718_def regdefs_7868_def regdefs_8018_def regdefs_8168_def regdefs_8318_def
    regdefs_8468_def)

lemma covered_FUSE_2:
  "covered (map reset_key (registers_1418 @ registers_1498)) (map field_key regdefs_8618)"
  "covered (map reset_key (registers_1498)) (map field_key regdefs_8768)"
  "covered (map reset_key (registers_1498 @ registers_1578)) (map field_key regdefs_8918)"
  "covered (map reset_key (registers_1578)) (map field_key regdefs_9068)"
  by (simp_all add:
    registers_1418_def registers_1498_def registers_1578_def regdefs_8618_def regdefs_8768_def
    regdefs_8918_def regdefs_9068_def)

lemma registers_FUSE_parts:
  "set registers_1088 \<subseteq> set registers_FUSE"
  "set registers_1178 \<subseteq> set registers_FUSE"
  "set registers_1258 \<subseteq> set registers_FUSE"
  "set registers_1338 \<subseteq> set registers_FUSE"
  "set registers_1418 \<subseteq> set registers_FUSE"
  "set registers_1498 \<subseteq> set registers_FUSE"
  "set registers_1578 \<subseteq> set registers_FUSE"
  by (auto simp: registers_FUSE_def)

lemma fields_FUSE_registers: "list_all (has_register registers_FUSE) fields_FUSE"
  unfolding fields_FUSE_def
  by (simp only: list_all_append set_append Un_subset_iff simp_thms registers_FUSE_parts
    covered_FUSE_1 [THEN covered_has] covered_FUSE_2 [THEN covered_has])

lemma scan_GLOBALSEC_1:
  "list_all well_formed regdefs_9103" "scan 0 (map extent regdefs_9103) = Some 547"
  "list_all well_formed regdefs_9253" "scan 547 (map extent regdefs_9253) = Some 995"
  "list_all well_formed regdefs_9403" "scan 995 (map extent regdefs_9403) = Some 1571"
  "list_all well_formed regdefs_9553" "scan 1571 (map extent regdefs_9553) = Some 2019"
  "list_all well_formed regdefs_9703" "scan 2019 (map extent regdefs_9703) = Some 33113"
  "list_all well_formed regdefs_9833" "scan 33113 (map extent regdefs_9833) = Some 131134"
  "list_all well_formed regdefs_9983" "scan 131134 (map extent regdefs_9983) = Some 131148"
  "list_all well_formed regdefs_10053" "scan 131148 (map extent regdefs_10053) = Some 131198"
  "list_all well_formed regdefs_10203" "scan 131198 (map extent regdefs_10203) = Some 131212"
  "list_all well_formed regdefs_10273" "scan 131212 (map extent regdefs_10273) = Some 131262"
  "list_all well_formed regdefs_10423" "scan 131262 (map extent regdefs_10423) = Some 131276"
  "list_all well_formed regdefs_10493" "scan 131276 (map extent regdefs_10493) = Some 131326"
  by (simp_all add:
    regdefs_9103_def regdefs_9253_def regdefs_9403_def regdefs_9553_def regdefs_9703_def
    regdefs_9833_def regdefs_9983_def regdefs_10053_def regdefs_10203_def regdefs_10273_def
    regdefs_10423_def regdefs_10493_def)

lemma scan_GLOBALSEC_2:
  "list_all well_formed regdefs_10643" "scan 131326 (map extent regdefs_10643) = Some 131340"
  "list_all well_formed regdefs_10713" "scan 131340 (map extent regdefs_10713) = Some 131390"
  "list_all well_formed regdefs_10863" "scan 131390 (map extent regdefs_10863) = Some 131404"
  "list_all well_formed regdefs_10933" "scan 131404 (map extent regdefs_10933) = Some 131454"
  "list_all well_formed regdefs_11083" "scan 131454 (map extent regdefs_11083) = Some 131468"
  "list_all well_formed regdefs_11153" "scan 131468 (map extent regdefs_11153) = Some 131518"
  "list_all well_formed regdefs_11303" "scan 131518 (map extent regdefs_11303) = Some 131532"
  "list_all well_formed regdefs_11373" "scan 131532 (map extent regdefs_11373) = Some 131582"
  "list_all well_formed regdefs_11523" "scan 131582 (map extent regdefs_11523) = Some 131596"
  "list_all well_formed regdefs_11593" "scan 131596 (map extent regdefs_11593) = Some 132864"
  by (simp_all add:
    regdefs_10643_def regdefs_10713_def regdefs_10863_def regdefs_10933_def regdefs_11083_def
    regdefs_11153_def regdefs_11303_def regdefs_11373_def regdefs_11523_def regdefs_11593_def)

lemma fields_GLOBALSEC_scan: "list_all well_formed fields_GLOBALSEC" "scan 0 (map extent fields_GLOBALSEC) = Some 132864"
  unfolding fields_GLOBALSEC_def
  by (simp_all only: map_append scan_append list_all_append option.case simp_thms
    scan_GLOBALSEC_1 scan_GLOBALSEC_2)

lemma covered_GLOBALSEC_1:
  "covered (map reset_key (registers_1646)) (map field_key regdefs_9103)"
  "covered (map reset_key (registers_1646)) (map field_key regdefs_9253)"
  "covered (map reset_key (registers_1646 @ registers_1726)) (map field_key regdefs_9403)"
  "covered (map reset_key (registers_1726)) (map field_key regdefs_9553)"
  "covered (map reset_key (registers_1886 @ registers_1966)) (map field_key regdefs_9703)"
  "covered (map reset_key (registers_1966)) (map field_key regdefs_9833)"
  by (simp_all add:
    registers_1646_def registers_1726_def registers_1886_def registers_1966_def regdefs_9103_def
    regdefs_9253_def regdefs_9403_def regdefs_9553_def regdefs_9703_def regdefs_9833_def)

lemma covered_GLOBALSEC_2:
  "covered (map reset_key (registers_1966)) (map field_key regdefs_9983)"
  "covered (map reset_key (registers_1966)) (map field_key regdefs_10053)"
  "covered (map reset_key (registers_1966 @ registers_2046)) (map field_key regdefs_10203)"
  "covered (map reset_key (registers_2046)) (map field_key regdefs_10273)"
  "covered (map reset_key (registers_2046)) (map field_key regdefs_10423)"
  "covered (map reset_key (registers_2046)) (map field_key regdefs_10493)"
  by (simp_all add:
    registers_1966_def registers_2046_def regdefs_9983_def regdefs_10053_def regdefs_10203_def
    regdefs_10273_def regdefs_10423_def regdefs_10493_def)

lemma covered_GLOBALSEC_3:
  "covered (map reset_key (registers_2046)) (map field_key regdefs_10643)"
  "covered (map reset_key (registers_2046)) (map field_key regdefs_10713)"
  "covered (map reset_key (registers_2046)) (map field_key regdefs_10863)"
  "covered (map reset_key (registers_2046)) (map field_key regdefs_10933)"
  "covered (map reset_key (registers_2046)) (map field_key regdefs_11083)"
  "covered (map reset_key (registers_2046)) (map field_key regdefs_11153)"
  by (simp_all add:
    registers_2046_def regdefs_10643_def regdefs_10713_def regdefs_10863_def regdefs_10933_def
    regdefs_11083_def regdefs_11153_def)

lemma covered_GLOBALSEC_4:
  "covered (map reset_key (registers_2046)) (map field_key regdefs_11303)"
  "covered (map reset_key (registers_2046)) (map field_key regdefs_11373)"
  "covered (map reset_key (registers_2046)) (map field_key regdefs_11523)"
  "covered (map reset_key (registers_2046 @ registers_2126)) (map field_key regdefs_11593)"
  by (simp_all add:
    registers_2046_def registers_2126_def regdefs_11303_def regdefs_11373_def regdefs_11523_def
    regdefs_11593_def)

lemma registers_GLOBALSEC_parts:
  "set registers_1646 \<subseteq> set registers_GLOBALSEC"
  "set registers_1726 \<subseteq> set registers_GLOBALSEC"
  "set registers_1806 \<subseteq> set registers_GLOBALSEC"
  "set registers_1886 \<subseteq> set registers_GLOBALSEC"
  "set registers_1966 \<subseteq> set registers_GLOBALSEC"
  "set registers_2046 \<subseteq> set registers_GLOBALSEC"
  "set registers_2126 \<subseteq> set registers_GLOBALSEC"
  by (auto simp: registers_GLOBALSEC_def)

lemma fields_GLOBALSEC_registers: "list_all (has_register registers_GLOBALSEC) fields_GLOBALSEC"
  unfolding fields_GLOBALSEC_def
  by (simp only: list_all_append set_append Un_subset_iff simp_thms registers_GLOBALSEC_parts
    covered_GLOBALSEC_1 [THEN covered_has] covered_GLOBALSEC_2 [THEN covered_has] covered_GLOBALSEC_3
    [THEN covered_has] covered_GLOBALSEC_4 [THEN covered_has])

end
