(* ===== verification/FuseRegisters.thy ===== *)
theory FuseRegisters
  imports RegdefsFuse SignerProofs
begin

text \<open>
  The fuses, seen from both sides. The signer writes an array of fuse words that the boot ROM compares
  with the chip; the firmware reads the same fuses through shadow registers, with \<open>GR_FUSE\<close>
  (registers.h). Fuse \<open>i\<close> of the signer is the \<open>i\<close>-th of 126 registers from
  offset 0x30 of the fuse module on.
\<close>

unbundle bit_operations_syntax

section \<open>Shadow registers\<close>

definition GC_FUSE_BASE_ADDR :: u32 where
  "GC_FUSE_BASE_ADDR = 0x40450000"

definition is_shadow :: "reg_field \<Rightarrow> bool" where
  "is_shadow f \<longleftrightarrow> 0x30 \<le> field_offset f \<and> field_offset f < 0x30 + 4 * 126"

definition is_shadow_register :: "register \<Rightarrow> bool" where
  "is_shadow_register r \<longleftrightarrow> 0x30 \<le> reg_offset r \<and> reg_offset r < 0x30 + 4 * 126"

definition fuse_fields :: "reg_field list" where
  "fuse_fields = filter is_shadow fields_FUSE"

definition fuse_registers :: "register list" where
  "fuse_registers = filter is_shadow_register registers_FUSE"

definition place :: "reg_field \<Rightarrow> int \<times> nat \<times> nat" where
  "place f = (field_offset f, lsb f, width f)"

lemma shadow_parts:
  "map place (filter is_shadow regdefs_7718) =
     [(48, 0, 24), (52, 0, 3), (56, 0, 9), (60, 0, 9), (64, 0, 9), (68, 0, 32), (72, 0, 32), (76, 0,
      24), (80, 0, 3), (84, 0, 3), (88, 0, 2), (92, 0, 3), (96, 0, 2), (100, 0, 3), (104, 0, 2)]"
  "map place (filter is_shadow regdefs_7868) =
     [(108, 0, 3), (112, 0, 2), (116, 0, 3), (120, 0, 2), (124, 0, 3), (128, 0, 2), (132, 0, 3), (136,
      0, 2), (140, 0, 3), (144, 0, 2), (148, 0, 3), (152, 0, 2), (156, 0, 3), (160, 0, 2), (164, 0, 25),
      (168, 0, 25), (172, 0, 3), (176, 0, 3), (180, 0, 3), (184, 0, 3), (188, 0, 3), (192, 0, 3), (196,
      0, 3), (200, 0, 8), (204, 0, 3), (208, 0, 8), (212, 0, 3), (216, 0, 8), (220, 0, 3), (224, 0, 5)]"
  "map place (filter is_shadow regdefs_8018) =
     [(228, 0, 3), (232, 0, 8), (236, 0, 3), (240, 0, 3), (244, 0, 4), (248, 0, 3), (252, 0, 3), (256,
      0, 3), (260, 0, 4), (264, 0, 12), (268, 0, 3), (272, 0, 5), (276, 0, 3), (280, 0, 4), (284, 0, 2),
      (288, 0, 3), (292, 0, 3), (296, 0, 3), (300, 0, 24), (304, 0, 3), (308, 0, 3), (312, 0, 3), (316,
      0, 3), (320, 0, 8), (324, 0, 24), (328, 0, 3), (332, 0, 8), (336, 0, 16), (340, 0, 12), (344, 0,
      8)]"
  "map place (filter is_shadow regdefs_8168) =
     [(348, 0, 8), (352, 0, 1), (356, 0, 7), (360, 0, 16), (364, 0, 16), (368, 0, 8), (372, 0, 16),
      (376, 0, 1), (380, 0, 1), (384, 0, 1), (388, 0, 8), (392, 0, 8), (396, 0, 8), (400, 0, 8), (404,
      0, 8), (408, 0, 8), (412, 0, 1), (416, 0, 1), (420, 0, 1), (424, 0, 1), (428, 0, 1), (432, 0, 1),
      (436, 0, 1), (440, 0, 1), (444, 0, 1), (448, 0, 1), (452, 0, 1), (456, 0, 1), (460, 0, 1), (464,
      0, 2)]"
  "map place (filter is_shadow regdefs_8318) =
     [(468, 0, 2), (472, 0, 2), (476, 0, 2), (480, 0, 2), (484, 0, 2), (488, 0, 2), (492, 0, 2), (496,
      0, 2), (500, 0, 2), (504, 0, 2), (508, 0, 2), (512, 0, 2), (516, 0, 24), (520, 0, 3), (524, 0, 8),
      (528, 0, 8), (532, 0, 8), (536, 0, 8), (540, 0, 8), (544, 0, 8), (548, 0, 5)]"
  "map place (filter is_shadow regdefs_8468) =
     []"
  "map place (filter is_shadow regdefs_8618) =
     []"
  "map place (filter is_shadow regdefs_8768) =
     []"
  "map place (filter is_shadow regdefs_8918) =
     []"
  "map place (filter is_shadow regdefs_9068) =
     []"
  by (simp_all add: is_shadow_def place_def
    regdefs_7718_def regdefs_7868_def regdefs_8018_def regdefs_8168_def regdefs_8318_def
     regdefs_8468_def regdefs_8618_def regdefs_8768_def regdefs_8918_def regdefs_9068_def)

lemma shadow_register_parts:
  "map reset_key (filter is_shadow_register registers_1088) =
     [(48, Some 0x55000000), (52, Some 0x55555550), (56, Some 0x55555400), (60, Some 0x55555400), (64,
      Some 0x55555400), (68, Some 0x0), (72, Some 0x0), (76, Some 0x55000000), (80, Some 0x55555550),
      (84, Some 0x55555550), (88, Some 0x55555554), (92, Some 0x55555550), (96, Some 0x55555554), (100,
      Some 0x55555550), (104, Some 0x55555554), (108, Some 0x55555550), (112, Some 0x55555554), (116,
      Some 0x55555550), (120, Some 0x55555554), (124, Some 0x55555550), (128, Some 0x55555554), (132,
      Some 0x55555550), (136, Some 0x55555554), (140, Some 0x55555550), (144, Some 0x55555554), (148,
      Some 0x55555550), (152, Some 0x55555554), (156, Some 0x55555550)]"
  "map reset_key (filter is_shadow_register registers_1178) =
     [(160, Some 0x55555554), (164, Some 0x54000000), (168, Some 0x54000000), (172, Some 0x55555550),
      (176, Some 0x55555550), (180, Some 0x55555550), (184, Some 0x55555550), (188, Some 0x55555550),
      (192, Some 0x55555550), (196, Some 0x55555550), (200, Some 0x55555500), (204, Some 0x55555550),
      (208, Some 0x55555500), (212, Some 0x55555550), (216, Some 0x55555500), (220, Some 0x55555550),
      (224, Some 0x55555540), (228, Some 0x55555550), (232, Some 0x55555500), (236, Some 0x55555550),
      (240, Some 0x55555550), (244, Some 0x55555550), (248, Some 0x55555550), (252, Some 0x55555550),
      (256, Some 0x55555550), (260, Some 0x55555550), (264, Some 0x55555000), (268, Some 0x55555550),
      (272, Some 0x55555540), (276, Some 0x55555550), (280, Some 0x55555550), (284, Some 0x55555554),
      (288, Some 0x55555550), (292, Some 0x55555550), (296, Some 0x55555550), (300, Some 0x55000000),
      (304, Some 0x55555550), (308, Some 0x55555550), (312, Some 0x55555550), (316, Some 0x55555550)]"
  "map reset_key (filter is_shadow_register registers_1258) =
     [(320, Some 0x55555500), (324, Some 0x55000000), (328, Some 0x55555550), (332, Some 0x55555500),
      (336, Some 0x55550000), (340, Some 0x55555000), (344, Some 0x55555500), (348, Some 0x55555500),
      (352, Some 0x55555554), (356, Some 0x55555500), (360, Some 0x55550000), (364, Some 0x55550000),
      (368, Some 0x55555500), (372, Some 0x55550000), (376, Some 0x55555554), (380, Some 0x55555554),
      (384, Some 0x55555554), (388, Some 0x55555500), (392, Some 0x55555500), (396, Some 0x55555500),
      (400, Some 0x55555500), (404, Some 0x55555500), (408, Some 0x55555500), (412, Some 0x55555554),
      (416, Some 0x55555554), (420, Some 0x55555554), (424, Some 0x55555554), (428, Some 0x55555554),
      (432, Some 0x55555554), (436, Some 0x55555554), (440, Some 0x55555554), (444, Some 0x55555554),
      (448, Some 0x55555554), (452, Some 0x55555554), (456, Some 0x55555554), (460, Some 0x55555554),
      (464, Some 0x55555554), (468, Some 0x55555554), (472, Some 0x55555554), (476, Some 0x55555554)]"
  "map reset_key (filter is_shadow_register registers_1338) =
     [(480, Some 0x55555554), (484, Some 0x55555554), (488, Some 0x55555554), (492, Some 0x55555554),
      (496, Some 0x55555554), (500, Some 0x55555554), (504, Some 0x55555554), (508, Some 0x55555554),
      (512, Some 0x55555554), (516, Some 0x55000000), (520, Some 0x55555550), (524, Some 0x55555500),
      (528, Some 0x55555500), (532, Some 0x55555500), (536, Some 0x55555500), (540, Some 0x55555500),
      (544, Some 0x55555500), (548, Some 0x55555540)]"
  "map reset_key (filter is_shadow_register registers_1418) =
     []"
  "map reset_key (filter is_shadow_register registers_1498) =
     []"
  "map reset_key (filter is_shadow_register registers_1578) =
     []"
  by (simp_all add: is_shadow_register_def
    registers_1088_def registers_1178_def registers_1258_def registers_1338_def registers_1418_def
     registers_1498_def registers_1578_def)

lemma length_fuse_fields: "length fuse_fields = 126"
proof -
  have "length (map place fuse_fields) = 126"
    by (simp only: fuse_fields_def fields_FUSE_def filter_append map_append shadow_parts) simp
  then show ?thesis by simp
qed

lemma fuse_fields_layout: "map (\<lambda>(x, l, w). (x, l)) (map place fuse_fields) = map (\<lambda>i. (48 + 4 * int i, 0)) [0..<126]"
  by (simp only: fuse_fields_def fields_FUSE_def filter_append map_append shadow_parts) (simp add: upt_rec)

lemma fuse_field:
  assumes "i < 126"
  shows "field_offset (fuse_fields ! i) = 48 + 4 * int i" and "lsb (fuse_fields ! i) = 0"
    and "well_formed (fuse_fields ! i)"
proof -
  have "map (\<lambda>(x, l, w). (x, l)) (map place fuse_fields) ! i = (48 + 4 * int i, 0)"
    using assms by (simp only: fuse_fields_layout) simp
  then show "field_offset (fuse_fields ! i) = 48 + 4 * int i" and "lsb (fuse_fields ! i) = 0"
    using assms by (simp_all add: length_fuse_fields place_def)
  have "fuse_fields ! i \<in> set fuse_fields" using assms by (simp add: length_fuse_fields)
  then have "fuse_fields ! i \<in> set fields_FUSE" by (simp add: fuse_fields_def)
  then show "well_formed (fuse_fields ! i)"
    using fields_FUSE_scan(1) by (simp add: list_all_iff)
qed

lemma fuse_widths: "map (\<lambda>(x, l, w). w) (map place fuse_fields) = map width fuse_fields"
  by (induction fuse_fields) (auto simp: place_def)

section \<open>Words of fuses\<close>

text \<open>The word the signer expects of a fuse of the given width that holds \<open>v\<close>.\<close>

definition padded_fuse :: "nat \<Rightarrow> u32 \<Rightarrow> u32" where
  "padded_fuse w v = (FUSE_PADDING AND NOT (mask w)) OR v"

text \<open>The chip comes out of reset with every fuse zero, padded the same way.\<close>

lemma shadow_resets:
  "map reset_key fuse_registers =
     map (\<lambda>(x, l, w). (x, Some (uint (padded_fuse w 0)))) (map place fuse_fields)"
  by (simp only: fuse_registers_def registers_FUSE_def fuse_fields_def fields_FUSE_def filter_append
      map_append shadow_register_parts shadow_parts) (simp add: padded_fuse_def FUSE_PADDING_def mask_eq_exp_minus_1)

lemma width_mask_eq: "unat n \<le> 32 \<Longrightarrow> width_mask n = mask (unat n)"
  by (rule bit_word_eqI)
    (auto simp: width_mask_def bit_simps push_bit_eq_mult simp flip: mask_eq_exp_minus_1)

lemma fuse_word_padded:
  "unat (smap_at fbits name) \<le> 32 \<Longrightarrow> fuse_word fbits name v = padded_fuse (unat (smap_at fbits name)) v"
  by (simp add: fuse_word_def padded_fuse_def width_mask_eq)

lemma mask_word_low:
  assumes "well_formed f" and "lsb f = 0"
  shows "mask_word f = mask (width f)"
proof (rule bit_word_eqI)
  fix i assume "i < LENGTH(32)"
  then show "bit (mask_word f) i \<longleftrightarrow> bit (mask (width f) :: u32) i"
    using assms(2) by (simp add: bit_mask_word [OF assms(1)] bit_simps)
qed

lemma padded_fuse_value:
  "v AND mask w = v \<Longrightarrow> padded_fuse w v AND mask w = v"
  by (simp add: padded_fuse_def bit.conj_disj_distrib2 and.assoc)

lemma GR_FUSE_padded:
  assumes "well_formed f" and "lsb f = 0" and "v AND mask (width f) = v"
    and "reg s (GREG32_ADDR b f) = padded_fuse (width f) v"
  shows "GR_FUSE reg b f s = v"
  using assms by (simp add: GR_FUSE_def mask_word_low padded_fuse_value)

lemma shadow_address:
  assumes "i < 126"
  shows "GREG32_ADDR GC_FUSE_BASE_ADDR (fuse_fields ! i) = GC_FUSE_BASE_ADDR + 0x30 + 4 * of_nat i"
  by (simp add: GREG32_ADDR_def fuse_field [OF assms])

text \<open>
  C7. The two sides of a fuse meet. Let the signer compute its array from a fuse table of fewer
  than \<open>2 ^ 32\<close> entries whose widths are those of the registers of the chip, and let the
  shadow registers of a chip hold the array, word \<open>i\<close> at offset 0x30 + 4 i of the fuse
  module. Then \<open>GR_FUSE\<close> of the register of every fuse of the manifest that has one (the signer
  has 128 fuse words, the chip 126 registers, BLK6 the last) reads the value the manifest gave it: the
  0x5 padding the signer puts into the
  unused bits is exactly what the masks of the generated table cut off.
\<close>

theorem signed_fuses_readable:
  assumes "load_fuse_definitions xml doc vals = Inr (fids, fbits)"
    and "\<forall>st p. readXML doc xml_start 0 = Inr (True, st, p) \<longrightarrow> fuse_index st \<le> 2 ^ 32"
    and "compute_fuses fuses fids fbits (replicate FUSE_MAX FUSE_IGNORE) h = Inr (fv, h')"
    and "smap_valid fuses" and "wf_header h"
    and "\<forall>i < 126. REG32 m (GC_FUSE_BASE_ADDR + 0x30 + 4 * of_nat i) = fv ! i"
    and "\<forall>(name, v) \<in> set fuses. \<forall>idx. map_of fids name = Some idx \<and> unat idx < 126 \<longrightarrow>
      unat (smap_at fbits name) = width (fuse_fields ! unat idx)"
  shows "\<forall>(name, v) \<in> set fuses. \<exists>idx. map_of fids name = Some idx \<and> (unat idx < 126 \<longrightarrow>
    GR_FUSE REG32 GC_FUSE_BASE_ADDR (fuse_fields ! unat idx) m = v)"
proof safe
  fix name v assume f: "(name, v) \<in> set fuses"
  have inj: "inj_on (map_of fids) (fst ` set fuses)"
    using fuse_ids_inj [OF assms(1,2)] compute_fuses_defined [OF assms(3)] by (rule inj_on_subset)
  have "\<exists>idx. map_of fids name = Some idx \<and> unat idx < FUSE_MAX \<and>
      v AND width_mask (smap_at fbits name) = v \<and> fv ! unat idx = fuse_word fbits name v"
    using compute_fuses_spec [OF assms(3) smap.distinct_keys [OF assms(4)] inj assms(5)] f by auto
  then obtain idx where idx: "map_of fids name = Some idx"
    and v: "v AND width_mask (smap_at fbits name) = v" "fv ! unat idx = fuse_word fbits name v"
    by blast
  have "GR_FUSE REG32 GC_FUSE_BASE_ADDR (fuse_fields ! unat idx) m = v" if lt: "unat idx < 126"
  proof -
    have w: "unat (smap_at fbits name) = width (fuse_fields ! unat idx)" using assms(7) f idx lt by fastforce
    have "width (fuse_fields ! unat idx) \<le> 32"
      using fuse_field(3) [OF lt] by (cases "fuse_fields ! unat idx") simp
    with w v have "v AND mask (width (fuse_fields ! unat idx)) = v"
      and "fv ! unat idx = padded_fuse (width (fuse_fields ! unat idx)) v"
      by (simp_all add: width_mask_eq fuse_word_padded)
    moreover have "REG32 m (GREG32_ADDR GC_FUSE_BASE_ADDR (fuse_fields ! unat idx)) = fv ! unat idx"
      using assms(6) [rule_format, OF lt] by (simp add: shadow_address [OF lt])
    ultimately show ?thesis using lt by (auto intro: GR_FUSE_padded fuse_field)
  qed
  with idx show "\<exists>idx. map_of fids name = Some idx \<and> (unat idx < 126 \<longrightarrow>
      GR_FUSE REG32 GC_FUSE_BASE_ADDR (fuse_fields ! unat idx) m = v)"
    by blast
qed

text \<open>A memory whose shadow registers hold given words.\<close>

definition shadow_memory :: "u32 list \<Rightarrow> memory" where
  "shadow_memory fv a = le_bytes 4 (fv ! ((a - 0x40450030) div 4)) ! ((a - 0x40450030) mod 4)"

lemma shadow_memory_word:
  assumes "i < 126"
  shows "REG32 (shadow_memory fv) (GC_FUSE_BASE_ADDR + 0x30 + 4 * of_nat i) = fv ! i"
proof -
  have a: "unat (GC_FUSE_BASE_ADDR + 0x30 + 4 * of_nat i) = 0x40450030 + 4 * i"
    using assms by (simp add: GC_FUSE_BASE_ADDR_def unat_word_ariths unat_of_nat)
  have "mem_read (shadow_memory fv) (0x40450030 + 4 * i) 4 = le_bytes 4 (fv ! i)"
    by (rule nth_equalityI) (simp_all add: mem_read_def shadow_memory_def)
  then show ?thesis by (simp add: REG32_def a of_le_le_bytes)
qed

theorem signed_fuses_readable_witness:
  "\<exists>fv h'. compute_fuses [(BLK6, 3)] [(BLK6, 125)] [(BLK6, 5)] (replicate FUSE_MAX FUSE_IGNORE) zero_header = Inr (fv, h') \<and>
    GR_FUSE REG32 GC_FUSE_BASE_ADDR (fuse_fields ! 125) (shadow_memory fv) = 3"
proof -
  have l: "load_fuse_definitions [] None [] = Inr ([(BLK6, 125)], [(BLK6, 5)])"
    by (simp add: load_fuse_definitions_def xml_start_def smap_at_def FUSE_MAX_def)
  have x: "\<forall>st p. readXML None xml_start 0 = Inr (True, st, p) \<longrightarrow> fuse_index st \<le> 2 ^ 32"
    by (simp add: readXML_def)
  have wm: "width_mask 5 = 31" by (simp add: width_mask_def push_bit_eq_mult)
  have "\<exists>fv h'. compute_fuses [(BLK6, 3)] [(BLK6, 125)] [(BLK6, 5)] (replicate FUSE_MAX FUSE_IGNORE) zero_header = Inr (fv, h')"
    by (simp add: smap_at_def wm FUSE_MAX_def markFuse_def)
  then obtain fv h' where r: "compute_fuses [(BLK6, 3)] [(BLK6, 125)] [(BLK6, 5)] (replicate FUSE_MAX FUSE_IGNORE) zero_header = Inr (fv, h')"
    by blast
  have v: "smap_valid [(BLK6, 3)]" by (simp add: smap_valid_def)
  have m: "\<forall>i < 126. REG32 (shadow_memory fv) (GC_FUSE_BASE_ADDR + 0x30 + 4 * of_nat i) = fv ! i"
    by (simp add: shadow_memory_word)
  have "map width fuse_fields ! 125 = 5"
    unfolding fuse_widths [symmetric]
    by (simp only: fuse_fields_def fields_FUSE_def filter_append map_append shadow_parts) simp
  then have "width (fuse_fields ! 125) = 5" by (simp add: length_fuse_fields)
  then have w: "\<forall>(name, v) \<in> set [(BLK6, 3)]. \<forall>idx. map_of [(BLK6, 125 :: u32)] name = Some idx \<and> unat idx < 126 \<longrightarrow>
      unat (smap_at [(BLK6, 5)] name) = width (fuse_fields ! unat idx)"
    by (auto simp: smap_at_def)
  from signed_fuses_readable [OF l x r v wf_zero_header m w] r show ?thesis by auto
qed

end
