(* ===== verification/RegisterWindows.thy ===== *)
theory RegisterWindows
  imports Registers
begin

text \<open>
  The peripherals of a chip: base addresses with the tables of their modules. When the tables are
  sound and the peripherals lie apart, the field macros of registers.h act on one field of the chip
  each, and a chip whose registers hold their reset values reads every field at the reset value of the
  field. The two revisions of the chip are instances.
\<close>

text \<open>One entry per address: the instances of a module (UART0, UART1 and UART2) share its tables.\<close>

datatype peripheral =
  Peripheral (periph_name: string) (periph_base: u32) (periph_registers: "register list") (periph_fields: "reg_field list")

section \<open>Registers and windows\<close>

text \<open>The word of a register, and the last offset of a table.\<close>

definition slot :: "register \<Rightarrow> int \<times> int" where
  "slot r = (reg_offset r, reg_offset r + 4)"

definition reach :: "register list \<Rightarrow> int" where
  "reach rs = foldr (\<lambda>r. max (reg_offset r)) rs 0"

lemma reach_nonneg: "0 \<le> reach rs"
  by (induction rs) (auto simp: reach_def)

lemma reach_append: "reach (rs @ rs') = max (reach rs) (reach rs')"
proof (induction rs)
  case Nil
  then show ?case using reach_nonneg [of rs'] by (simp add: reach_def)
next
  case (Cons r rs)
  then show ?case by (simp add: reach_def max.assoc)
qed

lemma reach_upper: "r \<in> set rs \<Longrightarrow> reg_offset r \<le> reach rs"
  by (induction rs) (auto simp: reach_def)

lemma scan_slot [simp]:
  "scan b (slot r # es) = (if b \<le> reg_offset r then scan (reg_offset r + 4) es else None)"
  by (simp add: slot_def)

lemma scan_slots_mono: "scan b (map slot rs) = Some e \<Longrightarrow> b \<le> e"
  by (induction rs arbitrary: b) (fastforce split: if_splits)+

lemma scan_slots: "scan b (map slot rs) = Some e \<Longrightarrow> 0 \<le> b \<Longrightarrow> b \<le> e \<and> (b < e \<longrightarrow> reach rs = e - 4)"
proof (induction rs arbitrary: b)
  case (Cons r rs)
  then have b: "b \<le> reg_offset r" and run: "scan (reg_offset r + 4) (map slot rs) = Some e"
    by (auto split: if_splits)
  from Cons.IH [OF run] b Cons.prems(2)
  have e: "reg_offset r + 4 \<le> e" and ih: "reg_offset r + 4 < e \<longrightarrow> reach rs = e - 4" by simp_all
  have "reach (r # rs) = e - 4"
  proof (cases "rs = []")
    case True
    with run b Cons.prems(2) show ?thesis by (simp add: reach_def)
  next
    case False
    then obtain q qs where q: "rs = q # qs" by (cases rs) simp_all
    with run have "reg_offset r + 4 \<le> reg_offset q" and "scan (reg_offset q + 4) (map slot qs) = Some e"
      by (auto split: if_splits)
    moreover from this(2) have "reg_offset q + 4 \<le> e"
      by (rule scan_slots_mono)
    ultimately have "reach rs = e - 4" using ih by simp
    with e show ?thesis by (simp add: reach_def)
  qed
  with b e show ?case by simp
qed simp

lemma reach_scan: "scan 0 (map slot rs) = Some e \<Longrightarrow> 0 < e \<Longrightarrow> reach rs = e - 4"
  using scan_slots [of 0 rs e] by simp

text \<open>
  The registers with a name of their own for the address of another one, the data of the other
  direction or of the ROM: the only ones that a table has out of order.
\<close>

definition own_address :: "register \<Rightarrow> bool" where
  "own_address r \<longleftrightarrow> reg_name r \<noteq> ''SPI_TX_DATA'' \<and> reg_name r \<noteq> ''SPS_TX_DATA'' \<and> reg_name r \<noteq> ''SPS_ROM_SP''"

definition ordered_registers :: "peripheral \<Rightarrow> register list" where
  "ordered_registers p =
     (if periph_name p = ''SPI0'' \<or> periph_name p = ''SPI1'' \<or> periph_name p = ''SPS0''
      then filter own_address (periph_registers p) else periph_registers p)"

text \<open>
  The bytes of a peripheral: from its base to 4K behind the offset of its last register, so that the
  arrays that begin at a register (the largest \<open>_SIZE\<close> macro of one is 0x1000) are inside.
\<close>

definition window :: "peripheral \<Rightarrow> int \<times> int" where
  "window p = (uint (periph_base p), uint (periph_base p) + reach (periph_registers p) + 0x1000)"

definition apart :: "int \<times> int \<Rightarrow> int \<times> int \<Rightarrow> bool" where
  "apart v w \<longleftrightarrow> snd v \<le> fst w \<or> snd w \<le> fst v"

lemma apart_cases:
  "sorted_wrt apart (map window ps) \<Longrightarrow> p \<in> set ps \<Longrightarrow> q \<in> set ps \<Longrightarrow> p \<noteq> q \<Longrightarrow> apart (window p) (window q)"
  by (induction ps) (auto simp: apart_def)

lemma nat_int_order: "int a + 4 \<le> e \<Longrightarrow> e \<le> s \<Longrightarrow> s \<le> int b \<Longrightarrow> a + 4 \<le> b"
  by linarith

text \<open>
  A map of registers is sound: every field of every peripheral lies in its 32-bit register, has the mask
  of its position and width and a reset value that fits, no two fields of a module overlap, every field is
  a part of a register of its module whose reset value has that of the field in its bits, the registers of
  a module are in ascending order with a word each, and the windows are disjoint and end below 2^32.
\<close>

definition map_sound :: "peripheral list \<Rightarrow> bool" where
  "map_sound ps \<longleftrightarrow>
     list_all (\<lambda>p. table_ok (periph_fields p) \<and> list_all (has_register (periph_registers p)) (periph_fields p)) ps \<and>
     list_all (\<lambda>p. scan 0 (map slot (ordered_registers p)) \<noteq> None) ps \<and>
     sorted_wrt apart (map window ps) \<and> list_all (\<lambda>(s, e). e \<le> 2 ^ 32) (map window ps)"

text \<open>What a map has to be checked for, table by table.\<close>

locale register_map =
  fixes ps :: "peripheral list"
  assumes tables: "list_all (\<lambda>p. list_all well_formed (periph_fields p)) ps"
    and registers: "list_all (\<lambda>p. list_all (has_register (periph_registers p)) (periph_fields p)) ps"
    and scans: "list_all (\<lambda>p. scan 0 (map extent (periph_fields p)) \<noteq> None) ps"
    and orders: "list_all (\<lambda>p. scan 0 (map slot (ordered_registers p)) \<noteq> None) ps"
    and windows_apart: "sorted_wrt apart (map window ps)"
    and windows_fit: "list_all (\<lambda>(s, e). s + 0x20000 \<le> 2 ^ 32 \<and> e \<le> 2 ^ 32) (map window ps)"
begin

lemma peripheral_field:
  assumes "p \<in> set ps" and "f \<in> set (periph_fields p)"
  shows "well_formed f" and "module_base (periph_base p)" and "table_ok (periph_fields p)"
    and "has_register (periph_registers p) f"
    and "fst (window p) \<le> int (unat (GREG32_ADDR (periph_base p) f))"
    and "int (unat (GREG32_ADDR (periph_base p) f)) + 4 \<le> snd (window p)"
proof -
  have wf: "list_all well_formed (periph_fields p)" and fit: "uint (periph_base p) + 0x20000 \<le> 2 ^ 32"
    using tables windows_fit assms(1) by (auto simp: list_all_iff window_def)
  then show f: "well_formed f" using assms(2) by (simp add: list_all_iff)
  show b: "module_base (periph_base p)" 
  proof -
    have "int (unat (periph_base p)) + 0x20000 \<le> 0x100000000" using fit by simp
    then have "unat (periph_base p) + 0x20000 \<le> 0x100000000" by linarith
    then show ?thesis by (simp add: module_base_def)
  qed
  obtain c where c: "scan 0 (map extent (periph_fields p)) = Some c"
    using scans assms(1) by (auto simp: list_all_iff)
  show "table_ok (periph_fields p)" using c wf by (rule scan_table)
  show "has_register (periph_registers p) f"
    using registers assms by (auto simp: list_all_iff)
  have a: "int (unat (GREG32_ADDR (periph_base p) f)) = uint (periph_base p) + field_offset f"
    using unat_address [OF f b] f by (cases f) simp
  then show "fst (window p) \<le> int (unat (GREG32_ADDR (periph_base p) f))"
    using f by (cases f) (simp only: window_def fst_conv well_formed.simps reg_field.sel, linarith)
  have "field_offset f \<le> reach (periph_registers p)"
    using registers assms reach_upper by (fastforce simp: list_all_iff has_register_def)
  then show "int (unat (GREG32_ADDR (periph_base p) f)) + 4 \<le> snd (window p)"
    using a by (simp add: window_def)
qed

lemma sound: "map_sound ps"
proof -
  have "table_ok (periph_fields p)" if "p \<in> set ps" for p
    using peripheral_field(3) [OF that] by (cases "periph_fields p") (auto simp: table_ok_def)
  then show ?thesis
    using registers orders windows_apart windows_fit by (auto simp: map_sound_def list_all_iff)
qed

lemma field_macros:
  assumes "p \<in> set ps" and "f \<in> set (periph_fields p)"
    and "q \<in> set ps" and "g \<in> set (periph_fields q)"
  shows "GREAD_FIELD REG32 (periph_base p) f (GWRITE_FIELD REG32 set_REG32 (periph_base p) f v m) = take_bit (width f) v \<and>
    (p = q \<and> f = g \<or>
     GREAD_FIELD REG32 (periph_base q) g (GWRITE_FIELD REG32 set_REG32 (periph_base p) f v m) =
       GREAD_FIELD REG32 (periph_base q) g m)"
proof -
  note F = peripheral_field [OF assms(1,2)] and G = peripheral_field [OF assms(3,4)]
  have "GREAD_FIELD REG32 (periph_base q) g (GWRITE_FIELD REG32 set_REG32 (periph_base p) f v m) =
      GREAD_FIELD REG32 (periph_base q) g m" if ne: "\<not> (p = q \<and> f = g)"
  proof (cases "p = q")
    case True
    with ne have "before f g \<or> before g f"
      using F(3) assms(2,4) by (intro sorted_before_cases) (auto simp: table_ok_def)
    with True show ?thesis using memory_mapped.read_write_before [OF F(1) G(1) F(2)] by simp
  next
    case False
    then have "apart (window p) (window q)" using windows_apart assms(1,3) by (intro apart_cases)
    then consider "snd (window p) \<le> fst (window q)" | "snd (window q) \<le> fst (window p)"
      by (auto simp: apart_def)
    then show ?thesis
    proof cases
      case 1
      then show ?thesis by (intro memory_mapped.read_write_apart disjI1 nat_int_order [OF F(6) _ G(5)])
    next
      case 2
      then show ?thesis by (intro memory_mapped.read_write_apart disjI2 nat_int_order [OF G(6) _ F(5)])
    qed
  qed
  with memory_mapped.read_write_same [OF F(1)] show ?thesis by blast
qed

lemma reset_values:
  assumes "p \<in> set ps"
    and "\<forall>r \<in> set (periph_registers p). \<forall>d. reg_reset r = Some d \<longrightarrow>
      REG32 m (periph_base p + word_of_int (reg_offset r)) = word_of_int d"
  shows "\<forall>f \<in> set (periph_fields p). GREAD_FIELD REG32 (periph_base p) f m = word_of_int (reset f)"
proof
  fix f assume f: "f \<in> set (periph_fields p)"
  note F = peripheral_field [OF assms(1) f]
  from F(4) obtain r v where "r \<in> set (periph_registers p)" "reg_reset r = Some v"
    and o: "reg_offset r = field_offset f" and v: "v div 2 ^ lsb f mod 2 ^ width f = reset f"
    by (auto simp: has_register_def)
  with assms(2) have "REG32 m (GREG32_ADDR (periph_base p) f) = word_of_int v" by (auto simp: GREG32_ADDR_def)
  with v show "GREAD_FIELD REG32 (periph_base p) f m = word_of_int (reset f)"
    by (simp only: GREAD_FIELD_def drop_bit_mask_word [OF F(1)])
qed

end

end
