(* ===== verification/RegdefsPower.thy ===== *)
theory RegdefsPower
  imports Registers
begin

text \<open>
  The registers and register fields of the modules I2C, I2CS, KEYMGR, PINMUX, PMU, RBOX
  (chip/c/hw_b1_regdefs.h, generated): one entry per register with its two macros, one per field
  with its five. A definition holds the entries from the line in its name on; the tables of the
  modules are at the end.
\<close>

definition registers_3232 :: "register list" where
  "registers_3232 = [
    Register ''I2C_CTRL_MODE'' 0x0 (Some 0x0), Register ''I2C_CTRL_CLKDIV'' 0x4 (Some 0xa), Register
    ''I2C_CTRL_PHASESTEPS'' 0x8 (Some 0x188186), Register ''I2C_CTRL_SDA_VAL'' 0xc (Some 0x1897f0f), Register
    ''I2C_CTRL_SDA_OVRD'' 0x10 (Some 0x300), Register ''I2C_CTRL_SCL_VAL'' 0x14 (Some 0x67666e), Register
    ''I2C_CTRL_SCL_OVRD'' 0x18 (Some 0x600), Register ''I2C_CTRL_INT_EN'' 0x1c (Some 0x1), Register
    ''I2C_CTRL_AL'' 0x20 (Some 0x1f), Register ''I2C_CTRL_CS'' 0x24 (Some 0x13883), Register ''I2C_INST'' 0x28
    (Some 0x0), Register ''I2C_STATUS'' 0x2c (Some 0x0), Register ''I2C_FW'' 0x30 (Some 0x0), Register
    ''I2C_RW_PTR'' 0x34 (Some 0x0), Register ''I2C_RW0'' 0x38 (Some 0x0), Register ''I2C_RW1'' 0x3c (Some 0x0),
    Register ''I2C_RW2'' 0x40 (Some 0x0), Register ''I2C_RW3'' 0x44 (Some 0x0), Register ''I2C_RW4'' 0x48 (Some
    0x0), Register ''I2C_RW5'' 0x4c (Some 0x0), Register ''I2C_RW6'' 0x50 (Some 0x0), Register ''I2C_RW7'' 0x54
    (Some 0x0), Register ''I2C_RW8'' 0x58 (Some 0x0), Register ''I2C_RW9'' 0x5c (Some 0x0), Register
    ''I2C_RW10'' 0x60 (Some 0x0), Register ''I2C_RW11'' 0x64 (Some 0x0), Register ''I2C_RW12'' 0x68 (Some 0x0),
    Register ''I2C_RW13'' 0x6c (Some 0x0), Register ''I2C_RW14'' 0x70 (Some 0x0), Register ''I2C_RW15'' 0x74
    (Some 0x0), Register ''I2C_READVAL'' 0x78 (Some 0x0), Register ''I2C_CTRL_MSR'' 0x7c (Some 0xa), Register
    ''I2C_ITCR'' 0xf00 (Some 0x0), Register ''I2C_ITOP'' 0xf04 (Some 0x0)]"

definition registers_3300 :: "register list" where
  "registers_3300 = [
    Register ''I2CS_VERSION'' 0x0 (Some 0x101424a), Register ''I2CS_INT_ENABLE'' 0x4 (Some 0x0), Register
    ''I2CS_INT_STATE'' 0x8 (Some 0x0), Register ''I2CS_INT_TEST'' 0xc (Some 0x0), Register ''I2CS_CTRL_SDA_VAL''
    0x10 (Some 0x3d), Register ''I2CS_SLAVE_DEVADDRVAL'' 0x14 (Some 0x0), Register ''I2CS_CLOCK_STRETCH'' 0x18
    (Some 0x0), Register ''I2CS_AUTO_WAIT_AFTER_WRITE_MODE'' 0x1c (Some 0x0), Register
    ''I2CS_CLOCK_STRETCH_MODE'' 0x20 (Some 0x0), Register ''I2CS_READ_PTR'' 0x24 (Some 0x0), Register
    ''I2CS_WRITE_PTR'' 0x28 (Some 0x0), Register ''I2CS_READVAL'' 0x2c (Some 0x0), Register ''I2CS_CTRL_MSR''
    0x30 (Some 0xa), Register ''I2CS_READ_BUFFER0'' 0x34 (Some 0x0), Register ''I2CS_READ_BUFFER1'' 0x38 (Some
    0x0), Register ''I2CS_READ_BUFFER2'' 0x3c (Some 0x0), Register ''I2CS_READ_BUFFER3'' 0x40 (Some 0x0),
    Register ''I2CS_READ_BUFFER4'' 0x44 (Some 0x0), Register ''I2CS_READ_BUFFER5'' 0x48 (Some 0x0), Register
    ''I2CS_READ_BUFFER6'' 0x4c (Some 0x0), Register ''I2CS_READ_BUFFER7'' 0x50 (Some 0x0), Register
    ''I2CS_READ_BUFFER8'' 0x54 (Some 0x0), Register ''I2CS_READ_BUFFER9'' 0x58 (Some 0x0), Register
    ''I2CS_READ_BUFFER10'' 0x5c (Some 0x0), Register ''I2CS_READ_BUFFER11'' 0x60 (Some 0x0), Register
    ''I2CS_READ_BUFFER12'' 0x64 (Some 0x0), Register ''I2CS_READ_BUFFER13'' 0x68 (Some 0x0), Register
    ''I2CS_READ_BUFFER14'' 0x6c (Some 0x0), Register ''I2CS_READ_BUFFER15'' 0x70 (Some 0x0), Register
    ''I2CS_WRITE_BUFFER0'' 0x74 (Some 0x0), Register ''I2CS_WRITE_BUFFER1'' 0x78 (Some 0x0), Register
    ''I2CS_WRITE_BUFFER2'' 0x7c (Some 0x0), Register ''I2CS_WRITE_BUFFER3'' 0x80 (Some 0x0), Register
    ''I2CS_WRITE_BUFFER4'' 0x84 (Some 0x0), Register ''I2CS_WRITE_BUFFER5'' 0x88 (Some 0x0), Register
    ''I2CS_WRITE_BUFFER6'' 0x8c (Some 0x0), Register ''I2CS_WRITE_BUFFER7'' 0x90 (Some 0x0), Register
    ''I2CS_WRITE_BUFFER8'' 0x94 (Some 0x0), Register ''I2CS_WRITE_BUFFER9'' 0x98 (Some 0x0), Register
    ''I2CS_WRITE_BUFFER10'' 0x9c (Some 0x0)]"

definition registers_3380 :: "register list" where
  "registers_3380 = [
    Register ''I2CS_WRITE_BUFFER11'' 0xa0 (Some 0x0), Register ''I2CS_WRITE_BUFFER12'' 0xa4 (Some 0x0), Register
    ''I2CS_WRITE_BUFFER13'' 0xa8 (Some 0x0), Register ''I2CS_WRITE_BUFFER14'' 0xac (Some 0x0), Register
    ''I2CS_WRITE_BUFFER15'' 0xb0 (Some 0x0)]"

definition registers_3390 :: "register list" where
  "registers_3390 = [
    Register ''KEYMGR_AES_CTRL'' 0x0 (Some 0x0), Register ''KEYMGR_AES_WFIFO_DATA'' 0x8 (Some 0xdeadbeef),
    Register ''KEYMGR_AES_RFIFO_DATA'' 0xc (Some 0xdeadbeef), Register ''KEYMGR_AES_KEY0'' 0x2c (Some 0x0),
    Register ''KEYMGR_AES_KEY1'' 0x30 (Some 0x0), Register ''KEYMGR_AES_KEY2'' 0x34 (Some 0x0), Register
    ''KEYMGR_AES_KEY3'' 0x38 (Some 0x0), Register ''KEYMGR_AES_KEY4'' 0x3c (Some 0x0), Register
    ''KEYMGR_AES_KEY5'' 0x40 (Some 0x0), Register ''KEYMGR_AES_KEY6'' 0x44 (Some 0x0), Register
    ''KEYMGR_AES_KEY7'' 0x48 (Some 0x0), Register ''KEYMGR_AES_KEY_START'' 0x4c (Some 0x0), Register
    ''KEYMGR_AES_CTR0'' 0x50 (Some 0x0), Register ''KEYMGR_AES_CTR1'' 0x54 (Some 0x0), Register
    ''KEYMGR_AES_CTR2'' 0x58 (Some 0x0), Register ''KEYMGR_AES_CTR3'' 0x5c (Some 0x0), Register
    ''KEYMGR_AES_RAND_STALL_CTL'' 0x60 (Some 0x7), Register ''KEYMGR_AES_WFIFO_LEVEL'' 0x64 (Some 0x0), Register
    ''KEYMGR_AES_WFIFO_FULL'' 0x68 (Some 0x0), Register ''KEYMGR_AES_RFIFO_LEVEL'' 0x6c (Some 0x0), Register
    ''KEYMGR_AES_RFIFO_EMPTY'' 0x70 (Some 0x1), Register ''KEYMGR_AES_EXECUTE_COUNT_STATE'' 0x74 (Some 0x0),
    Register ''KEYMGR_AES_EXECUTE_COUNT_MAX'' 0x78 (Some 0x0), Register ''KEYMGR_GCM_DO_ACC'' 0x7c (Some 0x0),
    Register ''KEYMGR_GCM_H0'' 0x80 (Some 0x0), Register ''KEYMGR_GCM_H1'' 0x84 (Some 0x0), Register
    ''KEYMGR_GCM_H2'' 0x88 (Some 0x0), Register ''KEYMGR_GCM_H3'' 0x8c (Some 0x0), Register ''KEYMGR_GCM_MAC0''
    0x90 (Some 0x0), Register ''KEYMGR_GCM_MAC1'' 0x94 (Some 0x0), Register ''KEYMGR_GCM_MAC2'' 0x98 (Some 0x0),
    Register ''KEYMGR_GCM_MAC3'' 0x9c (Some 0x0), Register ''KEYMGR_GCM_HASH_IN0'' 0xa0 (Some 0x0), Register
    ''KEYMGR_GCM_HASH_IN1'' 0xa4 (Some 0x0), Register ''KEYMGR_GCM_HASH_IN2'' 0xa8 (Some 0x0), Register
    ''KEYMGR_GCM_HASH_IN3'' 0xac (Some 0x0), Register ''KEYMGR_AES_WIPE_SECRETS'' 0xb0 (Some 0x0), Register
    ''KEYMGR_AES_INT_ENABLE'' 0xb4 (Some 0x0), Register ''KEYMGR_AES_INT_STATE'' 0xb8 (Some 0x0), Register
    ''KEYMGR_AES_INT_TEST'' 0xbc (Some 0x0)]"

definition registers_3470 :: "register list" where
  "registers_3470 = [
    Register ''KEYMGR_AES_USE_HIDDEN_KEY'' 0xc0 (Some 0x0), Register ''KEYMGR_INT_ENABLE'' 0xc4 (Some 0x0),
    Register ''KEYMGR_INT_STATE'' 0xc8 (Some 0x0), Register ''KEYMGR_INT_TEST'' 0xcc (Some 0x0), Register
    ''KEYMGR_SHA_CFG_MSGLEN_LO'' 0x400 (Some 0x0), Register ''KEYMGR_SHA_CFG_MSGLEN_HI'' 0x404 (Some 0x0),
    Register ''KEYMGR_SHA_CFG_EN'' 0x408 (Some 0x1), Register ''KEYMGR_SHA_CFG_WR_EN'' 0x40c (Some 0x1),
    Register ''KEYMGR_SHA_TRIG'' 0x410 (Some 0x0), Register ''KEYMGR_SHA_INPUT_FIFO'' 0x440 (Some 0x0), Register
    ''KEYMGR_SHA_STS_H0'' 0x444 (Some 0x0), Register ''KEYMGR_SHA_STS_H1'' 0x448 (Some 0x0), Register
    ''KEYMGR_SHA_STS_H2'' 0x44c (Some 0x0), Register ''KEYMGR_SHA_STS_H3'' 0x450 (Some 0x0), Register
    ''KEYMGR_SHA_STS_H4'' 0x454 (Some 0x0), Register ''KEYMGR_SHA_STS_H5'' 0x458 (Some 0x0), Register
    ''KEYMGR_SHA_STS_H6'' 0x45c (Some 0x0), Register ''KEYMGR_SHA_STS_H7'' 0x460 (Some 0x0), Register
    ''KEYMGR_SHA_KEY_W0'' 0x464 (Some 0x0), Register ''KEYMGR_SHA_KEY_W1'' 0x468 (Some 0x0), Register
    ''KEYMGR_SHA_KEY_W2'' 0x46c (Some 0x0), Register ''KEYMGR_SHA_KEY_W3'' 0x470 (Some 0x0), Register
    ''KEYMGR_SHA_KEY_W4'' 0x474 (Some 0x0), Register ''KEYMGR_SHA_KEY_W5'' 0x478 (Some 0x0), Register
    ''KEYMGR_SHA_KEY_W6'' 0x47c (Some 0x0), Register ''KEYMGR_SHA_KEY_W7'' 0x480 (Some 0x0), Register
    ''KEYMGR_SHA_STS'' 0x484 (Some 0x0), Register ''KEYMGR_SHA_ITCR'' 0x488 (Some 0x0), Register
    ''KEYMGR_SHA_ITOP'' 0x48c (Some 0x0), Register ''KEYMGR_SHA_USE_HIDDEN_KEY'' 0x490 (Some 0x0), Register
    ''KEYMGR_SHA_USE_CERT'' 0x494 (Some 0x0), Register ''KEYMGR_SHA_CERT_OVERRIDE'' 0x498 (Some 0x0), Register
    ''KEYMGR_SHA_RAND_STALL_CTL'' 0x49c (Some 0x7), Register ''KEYMGR_SHA_EXECUTE_COUNT_STATE'' 0x4a0 (Some
    0x0), Register ''KEYMGR_SHA_EXECUTE_COUNT_MAX'' 0x4a4 (Some 0x0), Register ''KEYMGR_CERT_REVOKE_CTRL0''
    0x4a8 (Some 0xaaaaaaaa), Register ''KEYMGR_CERT_REVOKE_CTRL1'' 0x4ac (Some 0xaaaaaaaa), Register
    ''KEYMGR_CERT_REVOKE_CTRL2'' 0x4b0 (Some 0xaaaa), Register ''KEYMGR_TM_PW_ATTEMPT0'' 0x2100 (Some 0x0),
    Register ''KEYMGR_TM_PW_ATTEMPT1'' 0x2104 (Some 0x0)]"

definition registers_3550 :: "register list" where
  "registers_3550 = [
    Register ''KEYMGR_TM_PW_ATTEMPT2'' 0x2108 (Some 0x0), Register ''KEYMGR_TM_PW_ATTEMPT3'' 0x210c (Some 0x0),
    Register ''KEYMGR_TM_PW_ATTEMPT4'' 0x2110 (Some 0x0), Register ''KEYMGR_TM_PW_ATTEMPT5'' 0x2114 (Some 0x0),
    Register ''KEYMGR_TM_PW_ATTEMPT6'' 0x2118 (Some 0x0), Register ''KEYMGR_TM_PW_ATTEMPT7'' 0x211c (Some 0x0),
    Register ''KEYMGR_TM_PW_UNLOCK'' 0x2120 (Some 0x0), Register ''KEYMGR_HKEY_RWR0'' 0x3000 (Some 0x0),
    Register ''KEYMGR_HKEY_RWR1'' 0x3004 (Some 0x0), Register ''KEYMGR_HKEY_RWR2'' 0x3008 (Some 0x0), Register
    ''KEYMGR_HKEY_RWR3'' 0x300c (Some 0x0), Register ''KEYMGR_HKEY_RWR4'' 0x3010 (Some 0x0), Register
    ''KEYMGR_HKEY_RWR5'' 0x3014 (Some 0x0), Register ''KEYMGR_HKEY_RWR6'' 0x3018 (Some 0x0), Register
    ''KEYMGR_HKEY_RWR7'' 0x301c (Some 0x0), Register ''KEYMGR_RWR_VLD'' 0x3020 (Some 0x1), Register
    ''KEYMGR_RWR_LOCK'' 0x3024 (Some 0x1), Register ''KEYMGR_HKEY_FWR0'' 0x3100 (Some 0x0), Register
    ''KEYMGR_HKEY_FWR1'' 0x3104 (Some 0x0), Register ''KEYMGR_HKEY_FWR2'' 0x3108 (Some 0x0), Register
    ''KEYMGR_HKEY_FWR3'' 0x310c (Some 0x0), Register ''KEYMGR_HKEY_FWR4'' 0x3110 (Some 0x0), Register
    ''KEYMGR_HKEY_FWR5'' 0x3114 (Some 0x0), Register ''KEYMGR_HKEY_FWR6'' 0x3118 (Some 0x0), Register
    ''KEYMGR_HKEY_FWR7'' 0x311c (Some 0x0), Register ''KEYMGR_FWR_VLD'' 0x3120 (Some 0x1), Register
    ''KEYMGR_FW_MAJOR_VERSION'' 0x3124 (Some 0x0), Register ''KEYMGR_FWR_LOCK'' 0x3128 (Some 0x1), Register
    ''KEYMGR_HKEY_HWR0'' 0x3200 (Some 0x0), Register ''KEYMGR_HKEY_HWR1'' 0x3204 (Some 0x0), Register
    ''KEYMGR_HKEY_HWR2'' 0x3208 (Some 0x0), Register ''KEYMGR_HKEY_HWR3'' 0x320c (Some 0x0), Register
    ''KEYMGR_HKEY_HWR4'' 0x3210 (Some 0x0), Register ''KEYMGR_HKEY_HWR5'' 0x3214 (Some 0x0), Register
    ''KEYMGR_HKEY_HWR6'' 0x3218 (Some 0x0), Register ''KEYMGR_HKEY_HWR7'' 0x321c (Some 0x0), Register
    ''KEYMGR_HWR_VLD'' 0x3220 (Some 0x1), Register ''KEYMGR_HWR_LOCK'' 0x3224 (Some 0x1), Register
    ''KEYMGR_HKEY_FRR0'' 0x3300 (Some 0x0), Register ''KEYMGR_HKEY_FRR1'' 0x3304 (Some 0x0)]"

definition registers_3630 :: "register list" where
  "registers_3630 = [
    Register ''KEYMGR_HKEY_FRR2'' 0x3308 (Some 0x0), Register ''KEYMGR_HKEY_FRR3'' 0x330c (Some 0x0), Register
    ''KEYMGR_HKEY_FRR4'' 0x3310 (Some 0x0), Register ''KEYMGR_HKEY_FRR5'' 0x3314 (Some 0x0), Register
    ''KEYMGR_HKEY_FRR6'' 0x3318 (Some 0x0), Register ''KEYMGR_HKEY_FRR7'' 0x331c (Some 0x0), Register
    ''KEYMGR_FLASH_RCV_WIPE'' 0x3320 (Some 0x0), Register ''KEYMGR_HKEY_ERR_FLAGS'' 0x3324 (Some 0x0), Register
    ''KEYMGR_HKEY_ERR_CTRL'' 0x3328 (Some 0x0), Register ''KEYMGR_HKEY_FLASH_RCV_STATUS'' 0x332c (Some 0x0),
    Register ''KEYMGR_HKEY_TESTMODE_UNLOCKED_STATUS'' 0x3330 (Some 0x0)]"

definition registers_3652 :: "register list" where
  "registers_3652 = [
    Register ''PINMUX_DIOM0_SEL'' 0x0 (Some 0x0), Register ''PINMUX_DIOM0_CTL'' 0x4 (Some 0x3), Register
    ''PINMUX_DIOM1_SEL'' 0x8 (Some 0x0), Register ''PINMUX_DIOM1_CTL'' 0xc (Some 0x3), Register
    ''PINMUX_DIOM2_SEL'' 0x10 (Some 0x0), Register ''PINMUX_DIOM2_CTL'' 0x14 (Some 0x3), Register
    ''PINMUX_DIOM3_SEL'' 0x18 (Some 0x0), Register ''PINMUX_DIOM3_CTL'' 0x1c (Some 0x3), Register
    ''PINMUX_DIOM4_SEL'' 0x20 (Some 0x0), Register ''PINMUX_DIOM4_CTL'' 0x24 (Some 0x3), Register
    ''PINMUX_DIOA0_SEL'' 0x28 (Some 0x0), Register ''PINMUX_DIOA0_CTL'' 0x2c (Some 0x3), Register
    ''PINMUX_DIOA1_SEL'' 0x30 (Some 0x0), Register ''PINMUX_DIOA1_CTL'' 0x34 (Some 0x3), Register
    ''PINMUX_DIOA2_SEL'' 0x38 (Some 0x0), Register ''PINMUX_DIOA2_CTL'' 0x3c (Some 0x3), Register
    ''PINMUX_DIOA3_SEL'' 0x40 (Some 0x0), Register ''PINMUX_DIOA3_CTL'' 0x44 (Some 0x3), Register
    ''PINMUX_DIOA4_SEL'' 0x48 (Some 0x0), Register ''PINMUX_DIOA4_CTL'' 0x4c (Some 0x3), Register
    ''PINMUX_DIOA5_SEL'' 0x50 (Some 0x0), Register ''PINMUX_DIOA5_CTL'' 0x54 (Some 0x3), Register
    ''PINMUX_DIOA6_SEL'' 0x58 (Some 0x0), Register ''PINMUX_DIOA6_CTL'' 0x5c (Some 0x3), Register
    ''PINMUX_DIOA7_SEL'' 0x60 (Some 0x0), Register ''PINMUX_DIOA7_CTL'' 0x64 (Some 0x3), Register
    ''PINMUX_DIOA8_SEL'' 0x68 (Some 0x0), Register ''PINMUX_DIOA8_CTL'' 0x6c (Some 0x3), Register
    ''PINMUX_DIOA9_SEL'' 0x70 (Some 0x0), Register ''PINMUX_DIOA9_CTL'' 0x74 (Some 0x3), Register
    ''PINMUX_DIOA10_SEL'' 0x78 (Some 0x0), Register ''PINMUX_DIOA10_CTL'' 0x7c (Some 0x3), Register
    ''PINMUX_DIOA11_SEL'' 0x80 (Some 0x0), Register ''PINMUX_DIOA11_CTL'' 0x84 (Some 0x3), Register
    ''PINMUX_DIOA12_SEL'' 0x88 (Some 0x0), Register ''PINMUX_DIOA12_CTL'' 0x8c (Some 0x3), Register
    ''PINMUX_DIOA13_SEL'' 0x90 (Some 0x0), Register ''PINMUX_DIOA13_CTL'' 0x94 (Some 0x3), Register
    ''PINMUX_DIOA14_SEL'' 0x98 (Some 0x0), Register ''PINMUX_DIOA14_CTL'' 0x9c (Some 0x3)]"

definition registers_3732 :: "register list" where
  "registers_3732 = [
    Register ''PINMUX_DIOB0_SEL'' 0xa0 (Some 0x0), Register ''PINMUX_DIOB0_CTL'' 0xa4 (Some 0x3), Register
    ''PINMUX_DIOB1_SEL'' 0xa8 (Some 0x0), Register ''PINMUX_DIOB1_CTL'' 0xac (Some 0x3), Register
    ''PINMUX_DIOB2_SEL'' 0xb0 (Some 0x0), Register ''PINMUX_DIOB2_CTL'' 0xb4 (Some 0x3), Register
    ''PINMUX_DIOB3_SEL'' 0xb8 (Some 0x0), Register ''PINMUX_DIOB3_CTL'' 0xbc (Some 0x3), Register
    ''PINMUX_DIOB4_SEL'' 0xc0 (Some 0x0), Register ''PINMUX_DIOB4_CTL'' 0xc4 (Some 0x3), Register
    ''PINMUX_DIOB5_SEL'' 0xc8 (Some 0x0), Register ''PINMUX_DIOB5_CTL'' 0xcc (Some 0x3), Register
    ''PINMUX_DIOB6_SEL'' 0xd0 (Some 0x0), Register ''PINMUX_DIOB6_CTL'' 0xd4 (Some 0x3), Register
    ''PINMUX_DIOB7_SEL'' 0xd8 (Some 0x0), Register ''PINMUX_DIOB7_CTL'' 0xdc (Some 0x3), Register
    ''PINMUX_RESETB_SEL'' 0xe0 (Some 0x0), Register ''PINMUX_RESETB_CTL'' 0xe4 (Some 0x7), Register
    ''PINMUX_VIO0_SEL'' 0xe8 (Some 0x0), Register ''PINMUX_VIO0_CTL'' 0xec (Some 0x3), Register
    ''PINMUX_VIO1_SEL'' 0xf0 (Some 0x0), Register ''PINMUX_VIO1_CTL'' 0xf4 (Some 0x3), Register
    ''PINMUX_GPIO0_GPIO0_SEL'' 0xf8 (Some 0x0), Register ''PINMUX_GPIO0_GPIO1_SEL'' 0xfc (Some 0x0), Register
    ''PINMUX_GPIO0_GPIO2_SEL'' 0x100 (Some 0x0), Register ''PINMUX_GPIO0_GPIO3_SEL'' 0x104 (Some 0x0), Register
    ''PINMUX_GPIO0_GPIO4_SEL'' 0x108 (Some 0x0), Register ''PINMUX_GPIO0_GPIO5_SEL'' 0x10c (Some 0x0), Register
    ''PINMUX_GPIO0_GPIO6_SEL'' 0x110 (Some 0x0), Register ''PINMUX_GPIO0_GPIO7_SEL'' 0x114 (Some 0x0), Register
    ''PINMUX_GPIO0_GPIO8_SEL'' 0x118 (Some 0x0), Register ''PINMUX_GPIO0_GPIO9_SEL'' 0x11c (Some 0x0), Register
    ''PINMUX_GPIO0_GPIO10_SEL'' 0x120 (Some 0x0), Register ''PINMUX_GPIO0_GPIO11_SEL'' 0x124 (Some 0x0),
    Register ''PINMUX_GPIO0_GPIO12_SEL'' 0x128 (Some 0x0), Register ''PINMUX_GPIO0_GPIO13_SEL'' 0x12c (Some
    0x0), Register ''PINMUX_GPIO0_GPIO14_SEL'' 0x130 (Some 0x0), Register ''PINMUX_GPIO0_GPIO15_SEL'' 0x134
    (Some 0x0), Register ''PINMUX_GPIO1_GPIO0_SEL'' 0x138 (Some 0x0), Register ''PINMUX_GPIO1_GPIO1_SEL'' 0x13c
    (Some 0x0)]"

definition registers_3812 :: "register list" where
  "registers_3812 = [
    Register ''PINMUX_GPIO1_GPIO2_SEL'' 0x140 (Some 0x0), Register ''PINMUX_GPIO1_GPIO3_SEL'' 0x144 (Some 0x0),
    Register ''PINMUX_GPIO1_GPIO4_SEL'' 0x148 (Some 0x0), Register ''PINMUX_GPIO1_GPIO5_SEL'' 0x14c (Some 0x0),
    Register ''PINMUX_GPIO1_GPIO6_SEL'' 0x150 (Some 0x0), Register ''PINMUX_GPIO1_GPIO7_SEL'' 0x154 (Some 0x0),
    Register ''PINMUX_GPIO1_GPIO8_SEL'' 0x158 (Some 0x0), Register ''PINMUX_GPIO1_GPIO9_SEL'' 0x15c (Some 0x0),
    Register ''PINMUX_GPIO1_GPIO10_SEL'' 0x160 (Some 0x0), Register ''PINMUX_GPIO1_GPIO11_SEL'' 0x164 (Some
    0x0), Register ''PINMUX_GPIO1_GPIO12_SEL'' 0x168 (Some 0x0), Register ''PINMUX_GPIO1_GPIO13_SEL'' 0x16c
    (Some 0x0), Register ''PINMUX_GPIO1_GPIO14_SEL'' 0x170 (Some 0x0), Register ''PINMUX_GPIO1_GPIO15_SEL''
    0x174 (Some 0x0), Register ''PINMUX_I2C0_SCL_SEL'' 0x178 (Some 0x0), Register ''PINMUX_I2C0_SDA_SEL'' 0x17c
    (Some 0x0), Register ''PINMUX_I2C1_SCL_SEL'' 0x180 (Some 0x0), Register ''PINMUX_I2C1_SDA_SEL'' 0x184 (Some
    0x0), Register ''PINMUX_I2CS0_SCL_SEL'' 0x188 (Some 0x0), Register ''PINMUX_I2CS0_SDA_SEL'' 0x18c (Some
    0x0), Register ''PINMUX_PMU_BROWNOUT_DET_SEL'' 0x190 (Some 0x0), Register ''PINMUX_PMU_TESTBUS0_SEL'' 0x194
    (Some 0x0), Register ''PINMUX_PMU_TESTBUS1_SEL'' 0x198 (Some 0x0), Register ''PINMUX_PMU_TESTBUS2_SEL''
    0x19c (Some 0x0), Register ''PINMUX_PMU_TESTBUS3_SEL'' 0x1a0 (Some 0x0), Register
    ''PINMUX_PMU_TESTBUS4_SEL'' 0x1a4 (Some 0x0), Register ''PINMUX_PMU_TESTBUS5_SEL'' 0x1a8 (Some 0x0),
    Register ''PINMUX_PMU_TESTBUS6_SEL'' 0x1ac (Some 0x0), Register ''PINMUX_PMU_TESTBUS7_SEL'' 0x1b0 (Some
    0x0), Register ''PINMUX_RTC0_RTC_CLK_TEST_SEL'' 0x1b4 (Some 0x0), Register ''PINMUX_SPI1_SPICLK_SEL'' 0x1b8
    (Some 0x0), Register ''PINMUX_SPI1_SPICSB_SEL'' 0x1bc (Some 0x0), Register ''PINMUX_SPI1_SPIMISO_SEL'' 0x1c0
    (Some 0x0), Register ''PINMUX_SPI1_SPIMOSI_SEL'' 0x1c4 (Some 0x0), Register ''PINMUX_SPS0_TESTBUS0_SEL''
    0x1c8 (Some 0x0), Register ''PINMUX_SPS0_TESTBUS1_SEL'' 0x1cc (Some 0x0), Register
    ''PINMUX_SPS0_TESTBUS2_SEL'' 0x1d0 (Some 0x0), Register ''PINMUX_SPS0_TESTBUS3_SEL'' 0x1d4 (Some 0x0),
    Register ''PINMUX_SPS0_TESTBUS4_SEL'' 0x1d8 (Some 0x0), Register ''PINMUX_SPS0_TESTBUS5_SEL'' 0x1dc (Some
    0x0)]"

definition registers_3892 :: "register list" where
  "registers_3892 = [
    Register ''PINMUX_SPS0_TESTBUS6_SEL'' 0x1e0 (Some 0x0), Register ''PINMUX_SPS0_TESTBUS7_SEL'' 0x1e4 (Some
    0x0), Register ''PINMUX_TEMP0_TST_ADC_CLK_SEL'' 0x1e8 (Some 0x0), Register
    ''PINMUX_TEMP0_TST_ADC_HI_SER_SEL'' 0x1ec (Some 0x0), Register ''PINMUX_TEMP0_TST_ADC_LO_SER_SEL'' 0x1f0
    (Some 0x0), Register ''PINMUX_TEMP0_TST_ADC_VLD_SER_SEL'' 0x1f4 (Some 0x0), Register
    ''PINMUX_TRNG0_TRNG_RO_DIV_SEL'' 0x1f8 (Some 0x0), Register ''PINMUX_TRNG0_TRNG_RO_REF_DIV_SEL'' 0x1fc (Some
    0x0), Register ''PINMUX_UART0_CTS_SEL'' 0x200 (Some 0x0), Register ''PINMUX_UART0_RTS_SEL'' 0x204 (Some
    0x0), Register ''PINMUX_UART0_RX_SEL'' 0x208 (Some 0x0), Register ''PINMUX_UART0_TX_SEL'' 0x20c (Some 0x0),
    Register ''PINMUX_UART1_CTS_SEL'' 0x210 (Some 0x0), Register ''PINMUX_UART1_RTS_SEL'' 0x214 (Some 0x0),
    Register ''PINMUX_UART1_RX_SEL'' 0x218 (Some 0x0), Register ''PINMUX_UART1_TX_SEL'' 0x21c (Some 0x0),
    Register ''PINMUX_UART2_CTS_SEL'' 0x220 (Some 0x0), Register ''PINMUX_UART2_RTS_SEL'' 0x224 (Some 0x0),
    Register ''PINMUX_UART2_RX_SEL'' 0x228 (Some 0x0), Register ''PINMUX_UART2_TX_SEL'' 0x22c (Some 0x0),
    Register ''PINMUX_USB0_EXT_DM_PULLUP_EN_SEL'' 0x230 (Some 0x0), Register ''PINMUX_USB0_EXT_DP_RPU1_ENB_SEL''
    0x234 (Some 0x0), Register ''PINMUX_USB0_EXT_DP_RPU2_ENB_SEL'' 0x238 (Some 0x0), Register
    ''PINMUX_USB0_EXT_FS_EDGE_SEL_SEL'' 0x23c (Some 0x0), Register ''PINMUX_USB0_EXT_RX_DMI_SEL'' 0x240 (Some
    0x0), Register ''PINMUX_USB0_EXT_RX_DPI_SEL'' 0x244 (Some 0x0), Register ''PINMUX_USB0_EXT_RX_RCV_SEL''
    0x248 (Some 0x0), Register ''PINMUX_USB0_EXT_SUSPENDB_SEL'' 0x24c (Some 0x0), Register
    ''PINMUX_USB0_EXT_TX_DMO_SEL'' 0x250 (Some 0x0), Register ''PINMUX_USB0_EXT_TX_DPO_SEL'' 0x254 (Some 0x0),
    Register ''PINMUX_USB0_EXT_TX_OEB_SEL'' 0x258 (Some 0x0), Register ''PINMUX_VOLT0_TST_NEG_GLITCH_DET_SEL''
    0x25c (Some 0x0), Register ''PINMUX_VOLT0_TST_POS_GLITCH_DET_SEL'' 0x260 (Some 0x0), Register
    ''PINMUX_XO0_TESTBUS0_SEL'' 0x264 (Some 0x0), Register ''PINMUX_XO0_TESTBUS1_SEL'' 0x268 (Some 0x0),
    Register ''PINMUX_XO0_TESTBUS2_SEL'' 0x26c (Some 0x0), Register ''PINMUX_XO0_TESTBUS3_SEL'' 0x270 (Some
    0x0), Register ''PINMUX_XO0_TESTBUS4_SEL'' 0x274 (Some 0x0), Register ''PINMUX_XO0_TESTBUS5_SEL'' 0x278
    (Some 0x0), Register ''PINMUX_XO0_TESTBUS6_SEL'' 0x27c (Some 0x0)]"

definition registers_3972 :: "register list" where
  "registers_3972 = [
    Register ''PINMUX_XO0_TESTBUS7_SEL'' 0x280 (Some 0x0), Register ''PINMUX_EXITEN0'' 0x284 (Some 0x0),
    Register ''PINMUX_EXITEDGE0'' 0x288 (Some 0x0), Register ''PINMUX_EXITINV0'' 0x28c (Some 0x0), Register
    ''PINMUX_HOLD'' 0x290 (Some 0x0)]"

definition registers_3982 :: "register list" where
  "registers_3982 = [
    Register ''PMU_RESET'' 0x0 (Some 0x3), Register ''PMU_SETRST'' 0x4 (Some 0x0), Register ''PMU_CLRRST'' 0x8
    (Some 0x0), Register ''PMU_RSTSRC'' 0xc (Some 0x0), Register ''PMU_GLOBAL_RESET'' 0x10 (Some 0x0), Register
    ''PMU_LOW_POWER_DIS'' 0x14 (Some 0x1e), Register ''PMU_LOW_POWER_BYPASS'' 0x18 (Some 0x0), Register
    ''PMU_LOW_POWER_BYPASS_VALUE'' 0x1c (Some 0x0), Register ''PMU_SETWIC'' 0x20 (Some 0x0), Register
    ''PMU_CLRWIC'' 0x24 (Some 0x0), Register ''PMU_SYSVTOR'' 0x28 (Some 0xffffffff), Register ''PMU_NAP_EN''
    0x2c (Some 0x0), Register ''PMU_SW_PDB'' 0x30 (Some 0x0), Register ''PMU_SW_PDB_SECURE'' 0x34 (Some 0x0),
    Register ''PMU_VREF'' 0x38 (Some 0xdb), Register ''PMU_XTL_OSC_BYPASS'' 0x3c (Some 0x0), Register
    ''PMU_FLASH_TM0_TEST_EN_BYPASS'' 0x40 (Some 0x0), Register ''PMU_BAT_LVL_OK'' 0x44 (Some 0x0), Register
    ''PMU_B_REG_DIG_CTRL'' 0x48 (Some 0x2), Register ''PMU_EXITPD_MASK'' 0x4c (Some 0x0), Register
    ''PMU_EXITPD_SRC'' 0x50 (Some 0x0), Register ''PMU_EXITPD_MON'' 0x54 (Some 0x0), Register ''PMU_OSC_CTRL''
    0x58 (Some 0x1), Register ''PMU_MEMCLKSET'' 0x5c (Some 0x7f), Register ''PMU_MEMCLKCLR'' 0x60 (Some 0x7f),
    Register ''PMU_PERICLKSET0'' 0x64 (Some 0xff3fe0fb), Register ''PMU_PERICLKCLR0'' 0x68 (Some 0xff3fe0fb),
    Register ''PMU_PERICLKSET1'' 0x6c (Some 0xff10), Register ''PMU_PERICLKCLR1'' 0x70 (Some 0xff10), Register
    ''PMU_CLK_RO_MASK0'' 0x74 (Some 0x800fc0e1), Register ''PMU_CLK_RO_MASK1'' 0x78 (Some 0xcc00), Register
    ''PMU_PERIGATEONSLEEPSET0'' 0x7c (Some 0x0), Register ''PMU_PERIGATEONSLEEPCLR0'' 0x80 (Some 0x0), Register
    ''PMU_PERIGATEONSLEEPSET1'' 0x84 (Some 0x0), Register ''PMU_PERIGATEONSLEEPCLR1'' 0x88 (Some 0x0), Register
    ''PMU_CLK0'' 0x8c (Some 0x1f), Register ''PMU_RST0_WR_EN'' 0x90 (Some 0x1), Register ''PMU_RST0'' 0x94 (Some
    0x0), Register ''PMU_RST1_WR_EN'' 0x98 (Some 0x1), Register ''PMU_RST1'' 0x9c (Some 0x0)]"

definition registers_4063 :: "register list" where
  "registers_4063 = [
    Register ''PMU_PWRDN_SCRATCH0'' 0xa0 (Some 0x7020eceb), Register ''PMU_PWRDN_SCRATCH1'' 0xa4 (Some
    0x2ebe9116), Register ''PMU_PWRDN_SCRATCH2'' 0xa8 (Some 0x13b4a4d9), Register ''PMU_PWRDN_SCRATCH3'' 0xac
    (Some 0x3d2dd072), Register ''PMU_PWRDN_SCRATCH4'' 0xb0 (Some 0x13eda68b), Register ''PMU_PWRDN_SCRATCH5''
    0xb4 (Some 0x295c9f66), Register ''PMU_PWRDN_SCRATCH6'' 0xb8 (Some 0x2a23c2db), Register
    ''PMU_PWRDN_SCRATCH7'' 0xbc (Some 0x8ef4ab68), Register ''PMU_PWRDN_SCRATCH8'' 0xc0 (Some 0x35057fa1),
    Register ''PMU_PWRDN_SCRATCH9'' 0xc4 (Some 0x4bfc60a3), Register ''PMU_PWRDN_SCRATCH10'' 0xc8 (Some
    0xa82ff9e), Register ''PMU_PWRDN_SCRATCH11'' 0xcc (Some 0x3898bda0), Register ''PMU_PWRDN_SCRATCH12'' 0xd0
    (Some 0x3c64367b), Register ''PMU_PWRDN_SCRATCH13'' 0xd4 (Some 0x1f653095), Register ''PMU_PWRDN_SCRATCH14''
    0xd8 (Some 0x21d285ad), Register ''PMU_PWRDN_SCRATCH15'' 0xdc (Some 0x2fe32196), Register
    ''PMU_PWRDN_SCRATCH16'' 0xe0 (Some 0x0), Register ''PMU_PWRDN_SCRATCH17'' 0xe4 (Some 0x0), Register
    ''PMU_PWRDN_SCRATCH18'' 0xe8 (Some 0x0), Register ''PMU_PWRDN_SCRATCH19'' 0xec (Some 0x0), Register
    ''PMU_PWRDN_SCRATCH20'' 0xf0 (Some 0x0), Register ''PMU_PWRDN_SCRATCH21'' 0xf4 (Some 0x0), Register
    ''PMU_PWRDN_SCRATCH22'' 0xf8 (Some 0x0), Register ''PMU_PWRDN_SCRATCH23'' 0xfc (Some 0x0), Register
    ''PMU_PWRDN_SCRATCH24'' 0x100 (Some 0x0), Register ''PMU_PWRDN_SCRATCH25'' 0x104 (Some 0x0), Register
    ''PMU_PWRDN_SCRATCH26'' 0x108 (Some 0x0), Register ''PMU_PWRDN_SCRATCH27'' 0x10c (Some 0x0), Register
    ''PMU_PWRDN_SCRATCH28'' 0x110 (Some 0x0), Register ''PMU_PWRDN_SCRATCH29'' 0x114 (Some 0x0), Register
    ''PMU_PWRDN_SCRATCH30'' 0x118 (Some 0x0), Register ''PMU_PWRDN_SCRATCH31'' 0x11c (Some 0x0), Register
    ''PMU_PWRDN_SCRATCH_LOCK'' 0x120 (Some 0x0), Register ''PMU_PWRDN_SCRATCH_LOCK1'' 0x124 (Some 0x0), Register
    ''PMU_LONG_LIFE_SCRATCH_WR_EN'' 0x128 (Some 0x0), Register ''PMU_LONG_LIFE_SCRATCH0'' 0x12c (Some 0x0),
    Register ''PMU_LONG_LIFE_SCRATCH1'' 0x130 (Some 0x0), Register ''PMU_LONG_LIFE_SCRATCH2'' 0x134 (Some 0x0),
    Register ''PMU_LONG_LIFE_SCRATCH3'' 0x138 (Some 0x0), Register ''PMU_INT_ENABLE'' 0x13c (Some 0x0)]"

definition registers_4143 :: "register list" where
  "registers_4143 = [
    Register ''PMU_INT_STATE'' 0x140 (Some 0x0), Register ''PMU_INT_TEST'' 0x144 (Some 0x0), Register
    ''PMU_ANTEST_TOP_CTRL'' 0x1008 (Some 0x3), Register ''PMU_ANTEST_REGDIG'' 0x1010 (Some 0x0), Register
    ''PMU_TESTBUS_CTRL_BOUT_EN'' 0x2000 (Some 0x0), Register ''PMU_TESTBUS_CTRL'' 0x2004 (Some 0x0), Register
    ''PMU_TESTBUS_STATUS'' 0x2008 (Some 0x0), Register ''PMU_CHIP_ID'' 0x1fff8 (Some 0x1485694d), Register
    ''PMU_VERSION'' 0x1fffc (Some 0x24011f6d)]"

definition registers_4161 :: "register list" where
  "registers_4161 = [
    Register ''RBOX_INT_ENABLE'' 0x0 (Some 0x0), Register ''RBOX_INT_STATE'' 0x4 (Some 0x0), Register
    ''RBOX_INT_TEST'' 0x8 (Some 0x0), Register ''RBOX_EC_WP_L'' 0xc (Some 0x0), Register ''RBOX_ASSERT_EC_RST''
    0x10 (Some 0x0), Register ''RBOX_OVERRIDE_OUTPUT'' 0x14 (Some 0x2e80), Register ''RBOX_CHECK_INPUT'' 0x18
    (Some 0x0), Register ''RBOX_CHECK_OUTPUT'' 0x1c (Some 0x0), Register ''RBOX_CHECK_OEN'' 0x20 (Some 0x0),
    Register ''RBOX_CHECK_TERM'' 0x24 (Some 0x0), Register ''RBOX_STATUS'' 0x28 (Some 0x0), Register
    ''RBOX_FUSE_CTRL'' 0x2c (Some 0x0), Register ''RBOX_DEBUG_DEBOUNCE'' 0x30 (Some 0x70000), Register
    ''RBOX_DEBUG_KEY_COMBO0'' 0x34 (Some 0xc0), Register ''RBOX_DEBUG_KEY_COMBO1'' 0x38 (Some 0x0), Register
    ''RBOX_DEBUG_KEY_COMBO2'' 0x3c (Some 0x0), Register ''RBOX_DEBUG_BLOCK_OUTPUT'' 0x40 (Some 0x0), Register
    ''RBOX_DEBUG_POL'' 0x44 (Some 0x1), Register ''RBOX_DEBUG_TERM'' 0x48 (Some 0x0), Register
    ''RBOX_DEBUG_DRIVE'' 0x4c (Some 0x17f), Register ''RBOX_DEBUG_CLK10HZ_COUNT'' 0x50 (Some 0x63ff), Register
    ''RBOX_DEBUG_SHORT_DELAY_COUNT'' 0x54 (Some 0x4ff), Register ''RBOX_DEBUG_LONG_DELAY_COUNT'' 0x58 (Some
    0x31), Register ''RBOX_CHECK_STATE_ENABLE'' 0x5c (Some 0x0), Register ''RBOX_CHECK_STATE0'' 0x60 (Some 0x0),
    Register ''RBOX_CHECK_STATE1'' 0x64 (Some 0x0), Register ''RBOX_CHECK_STATE2'' 0x68 (Some 0x0), Register
    ''RBOX_CONFIG_DEBOUNCE'' 0x6c (Some 0x0), Register ''RBOX_CONFIG_KEY_COMBO0'' 0x70 (Some 0x0), Register
    ''RBOX_CONFIG_KEY_COMBO1'' 0x74 (Some 0x0), Register ''RBOX_CONFIG_KEY_COMBO2'' 0x78 (Some 0x0), Register
    ''RBOX_CONFIG_BLOCK_OUTPUT'' 0x7c (Some 0x0), Register ''RBOX_CONFIG_POL'' 0x80 (Some 0x1), Register
    ''RBOX_CONFIG_TERM'' 0x84 (Some 0x0), Register ''RBOX_CONFIG_DRIVE'' 0x88 (Some 0x0), Register
    ''RBOX_CONFIG_CLK10HZ_COUNT'' 0x8c (Some 0x0), Register ''RBOX_CONFIG_SHORT_DELAY_COUNT'' 0x90 (Some 0x0),
    Register ''RBOX_CONFIG_LONG_DELAY_COUNT'' 0x94 (Some 0x0), Register ''RBOX_WAKEUP'' 0x98 (Some 0x0),
    Register ''RBOX_WAKEUP_INTR'' 0x9c (Some 0x0)]"

definition registers_4241 :: "register list" where
  "registers_4241 = [
    Register ''RBOX_VERSION'' 0xa0 (Some 0x1014125)]"

definition regdefs_11743 :: "reg_field list" where
  "regdefs_11743 = [
    Field ''I2C_CTRL_PHASESTEPS_P0'' 0 0x3f 6 0x6 0x8, Field ''I2C_CTRL_PHASESTEPS_P1'' 6 0xfc0 6 0x6 0x8, Field
    ''I2C_CTRL_PHASESTEPS_P2'' 12 0x3f000 6 0x8 0x8, Field ''I2C_CTRL_PHASESTEPS_P3'' 18 0xfc0000 6 0x6 0x8,
    Field ''I2C_CTRL_SDA_VAL_FREE_BUS_PHASE0'' 0 0x1 1 0x1 0xc, Field ''I2C_CTRL_SDA_VAL_FREE_BUS_PHASE1'' 1 0x2
    1 0x1 0xc, Field ''I2C_CTRL_SDA_VAL_FREE_BUS_PHASE2'' 2 0x4 1 0x1 0xc, Field ''I2C_CTRL_SDA_VAL_FREE_BUS'' 3
    0x8 1 0x1 0xc, Field ''I2C_CTRL_SDA_VAL_WRITE0_PHASE0'' 4 0x10 1 0x0 0xc, Field
    ''I2C_CTRL_SDA_VAL_WRITE0_PHASE1'' 5 0x20 1 0x0 0xc, Field ''I2C_CTRL_SDA_VAL_WRITE0_PHASE2'' 6 0x40 1 0x0
    0xc, Field ''I2C_CTRL_SDA_VAL_STANDBY_VAL0'' 7 0x80 1 0x0 0xc, Field ''I2C_CTRL_SDA_VAL_WRITE1_PHASE0'' 8
    0x100 1 0x1 0xc, Field ''I2C_CTRL_SDA_VAL_WRITE1_PHASE1'' 9 0x200 1 0x1 0xc, Field
    ''I2C_CTRL_SDA_VAL_WRITE1_PHASE2'' 10 0x400 1 0x1 0xc, Field ''I2C_CTRL_SDA_VAL_STANDBY_VAL1'' 11 0x800 1
    0x1 0xc, Field ''I2C_CTRL_SDA_VAL_READ_PHASE0'' 12 0x1000 1 0x1 0xc, Field ''I2C_CTRL_SDA_VAL_READ_PHASE1''
    13 0x2000 1 0x1 0xc, Field ''I2C_CTRL_SDA_VAL_READ_PHASE2'' 14 0x4000 1 0x1 0xc, Field
    ''I2C_CTRL_SDA_VAL_HOLD0_PHASE0'' 15 0x8000 1 0x0 0xc, Field ''I2C_CTRL_SDA_VAL_START_PHASE0'' 16 0x10000 1
    0x1 0xc, Field ''I2C_CTRL_SDA_VAL_START_PHASE1'' 17 0x20000 1 0x0 0xc, Field
    ''I2C_CTRL_SDA_VAL_START_PHASE2'' 18 0x40000 1 0x0 0xc, Field ''I2C_CTRL_SDA_VAL_ERROR_SCL_CONFLICT'' 19
    0x80000 1 0x1 0xc, Field ''I2C_CTRL_SDA_VAL_STOP_PHASE0'' 20 0x100000 1 0x0 0xc, Field
    ''I2C_CTRL_SDA_VAL_STOP_PHASE1'' 21 0x200000 1 0x0 0xc, Field ''I2C_CTRL_SDA_VAL_STOP_PHASE2'' 22 0x400000 1
    0x0 0xc, Field ''I2C_CTRL_SDA_VAL_ERROR_SDA_CONFLICT'' 23 0x800000 1 0x1 0xc, Field
    ''I2C_CTRL_SDA_VAL_SCL0_PHASE0'' 24 0x1000000 1 0x1 0xc]"

definition regdefs_11888 :: "reg_field list" where
  "regdefs_11888 = [
    Field ''I2C_CTRL_SDA_OVRD_HOLD0_PHASE0'' 0 0x1 1 0x0 0x10, Field ''I2C_CTRL_SDA_OVRD_READ_PHASE0'' 1 0x2 1
    0x0 0x10, Field ''I2C_CTRL_SDA_OVRD_SCL0_PHASE0'' 2 0x4 1 0x0 0x10, Field ''I2C_CTRL_SDA_OVRD_START_PHASE0''
    3 0x8 1 0x0 0x10, Field ''I2C_CTRL_SDA_OVRD_STOP_PHASE0'' 4 0x10 1 0x0 0x10, Field
    ''I2C_CTRL_SDA_OVRD_WRITE0_PHASE0'' 5 0x20 1 0x0 0x10, Field ''I2C_CTRL_SDA_OVRD_WRITE1_PHASE0'' 6 0x40 1
    0x0 0x10, Field ''I2C_CTRL_SDA_OVRD_FREE_BUS_PHASE0'' 7 0x80 1 0x0 0x10, Field
    ''I2C_CTRL_SDA_OVRD_FREE_BUS_PHASE1'' 8 0x100 1 0x1 0x10, Field ''I2C_CTRL_SDA_OVRD_FREE_BUS_PHASE2'' 9
    0x200 1 0x1 0x10, Field ''I2C_CTRL_SDA_OVRD_ERROR_SDA_CONFLICT'' 10 0x400 1 0x0 0x10]"

definition regdefs_11943 :: "reg_field list" where
  "regdefs_11943 = [
    Field ''I2C_CTRL_SCL_VAL_FREE_BUS_PHASE0'' 0 0x1 1 0x0 0x14, Field ''I2C_CTRL_SCL_VAL_FREE_BUS_PHASE1'' 1
    0x2 1 0x1 0x14, Field ''I2C_CTRL_SCL_VAL_FREE_BUS_PHASE2'' 2 0x4 1 0x1 0x14, Field
    ''I2C_CTRL_SCL_VAL_FREE_BUS'' 3 0x8 1 0x1 0x14, Field ''I2C_CTRL_SCL_VAL_WRITE0_PHASE0'' 4 0x10 1 0x0 0x14,
    Field ''I2C_CTRL_SCL_VAL_WRITE0_PHASE1'' 5 0x20 1 0x1 0x14, Field ''I2C_CTRL_SCL_VAL_WRITE0_PHASE2'' 6 0x40
    1 0x1 0x14, Field ''I2C_CTRL_SCL_VAL_STANDBY_VAL0'' 7 0x80 1 0x0 0x14, Field
    ''I2C_CTRL_SCL_VAL_WRITE1_PHASE0'' 8 0x100 1 0x0 0x14, Field ''I2C_CTRL_SCL_VAL_WRITE1_PHASE1'' 9 0x200 1
    0x1 0x14, Field ''I2C_CTRL_SCL_VAL_WRITE1_PHASE2'' 10 0x400 1 0x1 0x14, Field
    ''I2C_CTRL_SCL_VAL_STANDBY_VAL1'' 11 0x800 1 0x0 0x14, Field ''I2C_CTRL_SCL_VAL_READ_PHASE0'' 12 0x1000 1
    0x0 0x14, Field ''I2C_CTRL_SCL_VAL_READ_PHASE1'' 13 0x2000 1 0x1 0x14, Field
    ''I2C_CTRL_SCL_VAL_READ_PHASE2'' 14 0x4000 1 0x1 0x14, Field ''I2C_CTRL_SCL_VAL_HOLD0_PHASE0'' 15 0x8000 1
    0x0 0x14, Field ''I2C_CTRL_SCL_VAL_START_PHASE0'' 16 0x10000 1 0x1 0x14, Field
    ''I2C_CTRL_SCL_VAL_START_PHASE1'' 17 0x20000 1 0x1 0x14, Field ''I2C_CTRL_SCL_VAL_START_PHASE2'' 18 0x40000
    1 0x1 0x14, Field ''I2C_CTRL_SCL_VAL_ERROR_SCL_CONFLICT'' 19 0x80000 1 0x0 0x14, Field
    ''I2C_CTRL_SCL_VAL_STOP_PHASE0'' 20 0x100000 1 0x0 0x14, Field ''I2C_CTRL_SCL_VAL_STOP_PHASE1'' 21 0x200000
    1 0x1 0x14, Field ''I2C_CTRL_SCL_VAL_STOP_PHASE2'' 22 0x400000 1 0x1 0x14, Field
    ''I2C_CTRL_SCL_VAL_ERROR_SDA_CONFLICT'' 23 0x800000 1 0x0 0x14, Field ''I2C_CTRL_SCL_VAL_SCL0_PHASE0'' 24
    0x1000000 1 0x0 0x14]"

definition regdefs_12068 :: "reg_field list" where
  "regdefs_12068 = [
    Field ''I2C_CTRL_SCL_OVRD_HOLD0_PHASE0'' 0 0x1 1 0x0 0x18, Field ''I2C_CTRL_SCL_OVRD_READ_PHASE0'' 1 0x2 1
    0x0 0x18, Field ''I2C_CTRL_SCL_OVRD_SCL0_PHASE0'' 2 0x4 1 0x0 0x18, Field ''I2C_CTRL_SCL_OVRD_START_PHASE0''
    3 0x8 1 0x0 0x18, Field ''I2C_CTRL_SCL_OVRD_STOP_PHASE0'' 4 0x10 1 0x0 0x18, Field
    ''I2C_CTRL_SCL_OVRD_WRITE0_PHASE0'' 5 0x20 1 0x0 0x18, Field ''I2C_CTRL_SCL_OVRD_WRITE1_PHASE0'' 6 0x40 1
    0x0 0x18, Field ''I2C_CTRL_SCL_OVRD_FREE_BUS_PHASE0'' 7 0x80 1 0x0 0x18, Field
    ''I2C_CTRL_SCL_OVRD_FREE_BUS_PHASE1'' 8 0x100 1 0x0 0x18, Field ''I2C_CTRL_SCL_OVRD_FREE_BUS_PHASE2'' 9
    0x200 1 0x1 0x18, Field ''I2C_CTRL_SCL_OVRD_ERROR_SDA_CONFLICT'' 10 0x400 1 0x1 0x18, Field
    ''I2C_CTRL_AL_EN'' 0 0x1 1 0x1 0x20, Field ''I2C_CTRL_AL_PHASEMASK'' 1 0x1e 4 0xf 0x20, Field
    ''I2C_CTRL_CS_EN'' 0 0x1 1 0x1 0x24, Field ''I2C_CTRL_CS_TIMEOUTEN'' 1 0x2 1 0x1 0x24, Field
    ''I2C_CTRL_CS_TIMEOUTVAL'' 2 0x3ffffc 20 0x4e20 0x24]"

definition regdefs_12148 :: "reg_field list" where
  "regdefs_12148 = [
    Field ''I2C_INST_RESERVED0'' 0 0x1 1 0x0 0x28, Field ''I2C_INST_START'' 1 0x2 1 0x0 0x28, Field
    ''I2C_INST_FWDEVADDR'' 2 0x4 1 0x0 0x28, Field ''I2C_INST_FWBYTESCOUNT'' 3 0x38 3 0x0 0x28, Field
    ''I2C_INST_SCL0'' 6 0x40 1 0x0 0x28, Field ''I2C_INST_FREE_BUS'' 7 0x80 1 0x0 0x28, Field
    ''I2C_INST_FIRSTSTOP'' 8 0x100 1 0x0 0x28, Field ''I2C_INST_REPEATEDSTART'' 9 0x200 1 0x0 0x28, Field
    ''I2C_INST_RWDEVADDR'' 10 0x400 1 0x0 0x28, Field ''I2C_INST_RWDEVADDR_RWB'' 11 0x800 1 0x0 0x28, Field
    ''I2C_INST_RWBYTESCOUNT'' 12 0x7f000 7 0x0 0x28, Field ''I2C_INST_FINALNA'' 19 0x80000 1 0x0 0x28, Field
    ''I2C_INST_RWBIT'' 20 0x300000 2 0x0 0x28, Field ''I2C_INST_HOLD0'' 22 0x400000 1 0x0 0x28, Field
    ''I2C_INST_FINALSTOP'' 23 0x800000 1 0x0 0x28, Field ''I2C_INST_RESETB_RWPTR'' 24 0x1000000 1 0x0 0x28,
    Field ''I2C_INST_DEVADDRVAL'' 25 0xfe000000 7 0x0 0x28]"

definition regdefs_12233 :: "reg_field list" where
  "regdefs_12233 = [
    Field ''I2C_STATUS_RESERVED0'' 0 0x1 1 0x0 0x2c, Field ''I2C_STATUS_START'' 1 0x2 1 0x0 0x2c, Field
    ''I2C_STATUS_FWDEVADDR'' 2 0x4 1 0x0 0x2c, Field ''I2C_STATUS_FWBYTESCOUNT'' 3 0x38 3 0x0 0x2c, Field
    ''I2C_STATUS_SCL0'' 6 0x40 1 0x0 0x2c, Field ''I2C_STATUS_FREE_BUS'' 7 0x80 1 0x0 0x2c, Field
    ''I2C_STATUS_FIRSTSTOP'' 8 0x100 1 0x0 0x2c, Field ''I2C_STATUS_REPEATEDSTART'' 9 0x200 1 0x0 0x2c, Field
    ''I2C_STATUS_RWDEVADDR'' 10 0x400 1 0x0 0x2c, Field ''I2C_STATUS_RWDEVADDR_RWB'' 11 0x800 1 0x0 0x2c, Field
    ''I2C_STATUS_RWBYTESCOUNT'' 12 0x7f000 7 0x0 0x2c, Field ''I2C_STATUS_FINALNA'' 19 0x80000 1 0x0 0x2c, Field
    ''I2C_STATUS_RWBIT'' 20 0x300000 2 0x0 0x2c, Field ''I2C_STATUS_HOLD0'' 22 0x400000 1 0x0 0x2c, Field
    ''I2C_STATUS_FINALSTOP'' 23 0x800000 1 0x0 0x2c, Field ''I2C_STATUS_INTB'' 24 0x1000000 1 0x0 0x2c, Field
    ''I2C_STATUS_CA_NACK'' 25 0x2000000 1 0x0 0x2c, Field ''I2C_STATUS_AL'' 26 0x4000000 1 0x0 0x2c, Field
    ''I2C_STATUS_ALBITPTR'' 27 0x78000000 4 0x0 0x2c, Field ''I2C_STATUS_CSTIMEOUT'' 31 0x80000000 1 0x0 0x2c,
    Field ''I2C_READVAL_SDA'' 0 0x1 1 0x0 0x78, Field ''I2C_READVAL_SCL'' 1 0x2 1 0x0 0x78, Field
    ''I2C_CTRL_MSR_SDA'' 0 0x3 2 0x2 0x7c, Field ''I2C_CTRL_MSR_SCL'' 2 0xc 2 0x2 0x7c]"

definition regdefs_12353 :: "reg_field list" where
  "regdefs_12353 = [
    Field ''I2CS_VERSION_CHANGE'' 0 0xffffff 24 0x1424a 0x0, Field ''I2CS_VERSION_REVISION'' 24 0xff000000 8 0x1
    0x0, Field ''I2CS_INT_ENABLE_INTR_READ_BEGIN'' 0 0x1 1 0x0 0x4, Field ''I2CS_INT_ENABLE_INTR_READ_COMPLETE''
    1 0x2 1 0x0 0x4, Field ''I2CS_INT_ENABLE_INTR_WRITE_COMPLETE'' 2 0x4 1 0x0 0x4, Field
    ''I2CS_INT_STATE_INTR_READ_BEGIN'' 0 0x1 1 0x0 0x8, Field ''I2CS_INT_STATE_INTR_READ_COMPLETE'' 1 0x2 1 0x0
    0x8, Field ''I2CS_INT_STATE_INTR_WRITE_COMPLETE'' 2 0x4 1 0x0 0x8, Field ''I2CS_INT_TEST_INTR_READ_BEGIN'' 0
    0x1 1 0x0 0xc, Field ''I2CS_INT_TEST_INTR_READ_COMPLETE'' 1 0x2 1 0x0 0xc, Field
    ''I2CS_INT_TEST_INTR_WRITE_COMPLETE'' 2 0x4 1 0x0 0xc, Field ''I2CS_CTRL_SDA_VAL_FREE_BUS_S'' 0 0x1 1 0x1
    0x10, Field ''I2CS_CTRL_SDA_VAL_READ0_S'' 1 0x2 1 0x0 0x10, Field ''I2CS_CTRL_SDA_VAL_READ1_S'' 2 0x4 1 0x1
    0x10, Field ''I2CS_CTRL_SDA_VAL_WRITE_S'' 3 0x8 1 0x1 0x10, Field ''I2CS_CTRL_SDA_VAL_START_S'' 4 0x10 1 0x1
    0x10, Field ''I2CS_CTRL_SDA_VAL_STOP_S'' 5 0x20 1 0x1 0x10, Field ''I2CS_READVAL_SDA'' 0 0x1 1 0x0 0x2c,
    Field ''I2CS_READVAL_SCL'' 1 0x2 1 0x0 0x2c, Field ''I2CS_CTRL_MSR_SDA'' 0 0x3 2 0x2 0x30, Field
    ''I2CS_CTRL_MSR_SCL'' 2 0xc 2 0x2 0x30]"

definition regdefs_12458 :: "reg_field list" where
  "regdefs_12458 = [
    Field ''KEYMGR_AES_CTRL_RESET'' 0 0x1 1 0x0 0x0, Field ''KEYMGR_AES_CTRL_KEYSIZE'' 1 0x6 2 0x0 0x0, Field
    ''KEYMGR_AES_CTRL_CIPHER_MODE'' 3 0x18 2 0x0 0x0, Field ''KEYMGR_AES_CTRL_ENC_MODE'' 5 0x20 1 0x0 0x0, Field
    ''KEYMGR_AES_CTRL_CTR_ENDIAN'' 6 0x40 1 0x0 0x0, Field ''KEYMGR_AES_CTRL_ENABLE'' 7 0x80 1 0x0 0x0, Field
    ''KEYMGR_AES_RAND_STALL_CTL_STALL_EN'' 0 0x1 1 0x1 0x60, Field ''KEYMGR_AES_RAND_STALL_CTL_FREQ'' 1 0x6 2
    0x3 0x60, Field ''KEYMGR_AES_INT_ENABLE_AES_WFIFO_OVERFLOW'' 0 0x1 1 0x0 0xb4, Field
    ''KEYMGR_AES_INT_ENABLE_AES_RFIFO_OVERFLOW'' 1 0x2 1 0x0 0xb4, Field
    ''KEYMGR_AES_INT_ENABLE_AES_RFIFO_UNDERFLOW'' 2 0x4 1 0x0 0xb4, Field
    ''KEYMGR_AES_INT_ENABLE_AES_DONE_CIPHER'' 3 0x8 1 0x0 0xb4, Field
    ''KEYMGR_AES_INT_ENABLE_AES_DONE_KEYEXPANSION'' 4 0x10 1 0x0 0xb4, Field
    ''KEYMGR_AES_INT_ENABLE_AES_DONE_WIPE_SECRETS'' 5 0x20 1 0x0 0xb4, Field
    ''KEYMGR_AES_INT_STATE_AES_WFIFO_OVERFLOW'' 0 0x1 1 0x0 0xb8, Field
    ''KEYMGR_AES_INT_STATE_AES_RFIFO_OVERFLOW'' 1 0x2 1 0x0 0xb8, Field
    ''KEYMGR_AES_INT_STATE_AES_RFIFO_UNDERFLOW'' 2 0x4 1 0x0 0xb8, Field
    ''KEYMGR_AES_INT_STATE_AES_DONE_CIPHER'' 3 0x8 1 0x0 0xb8, Field
    ''KEYMGR_AES_INT_STATE_AES_DONE_KEYEXPANSION'' 4 0x10 1 0x0 0xb8, Field
    ''KEYMGR_AES_INT_STATE_AES_DONE_WIPE_SECRETS'' 5 0x20 1 0x0 0xb8, Field
    ''KEYMGR_AES_INT_TEST_AES_WFIFO_OVERFLOW'' 0 0x1 1 0x0 0xbc, Field
    ''KEYMGR_AES_INT_TEST_AES_RFIFO_OVERFLOW'' 1 0x2 1 0x0 0xbc, Field
    ''KEYMGR_AES_INT_TEST_AES_RFIFO_UNDERFLOW'' 2 0x4 1 0x0 0xbc, Field ''KEYMGR_AES_INT_TEST_AES_DONE_CIPHER''
    3 0x8 1 0x0 0xbc, Field ''KEYMGR_AES_INT_TEST_AES_DONE_KEYEXPANSION'' 4 0x10 1 0x0 0xbc, Field
    ''KEYMGR_AES_INT_TEST_AES_DONE_WIPE_SECRETS'' 5 0x20 1 0x0 0xbc, Field ''KEYMGR_AES_USE_HIDDEN_KEY_INDEX'' 0
    0x3ff 10 0x0 0xc0, Field ''KEYMGR_AES_USE_HIDDEN_KEY_ENABLE'' 10 0x400 1 0x0 0xc0, Field
    ''KEYMGR_INT_ENABLE_SHA_WFIFO_FULL'' 0 0x1 1 0x0 0xc4, Field ''KEYMGR_INT_STATE_SHA_WFIFO_FULL'' 0 0x1 1 0x0
    0xc8]"

definition regdefs_12608 :: "reg_field list" where
  "regdefs_12608 = [
    Field ''KEYMGR_INT_TEST_SHA_WFIFO_FULL'' 0 0x1 1 0x0 0xcc, Field ''KEYMGR_SHA_CFG_EN_BIG_ENDIAN'' 0 0x1 1
    0x1 0x408, Field ''KEYMGR_SHA_CFG_EN_SHA1'' 1 0x2 1 0x0 0x408, Field ''KEYMGR_SHA_CFG_EN_BUS_ERROR'' 3 0x8 1
    0x0 0x408, Field ''KEYMGR_SHA_CFG_EN_LIVESTREAM'' 4 0x10 1 0x0 0x408, Field ''KEYMGR_SHA_CFG_EN_HMAC'' 5
    0x20 1 0x0 0x408, Field ''KEYMGR_SHA_CFG_EN_INT_EN_DONE'' 16 0x10000 1 0x0 0x408, Field
    ''KEYMGR_SHA_CFG_EN_INT_MASK_DONE'' 17 0x20000 1 0x0 0x408, Field ''KEYMGR_SHA_TRIG_TRIG_GO'' 0 0x1 1 0x0
    0x410, Field ''KEYMGR_SHA_TRIG_TRIG_RESET'' 1 0x2 1 0x0 0x410, Field ''KEYMGR_SHA_TRIG_TRIG_STEP'' 2 0x4 1
    0x0 0x410, Field ''KEYMGR_SHA_TRIG_TRIG_STOP'' 3 0x8 1 0x0 0x410, Field ''KEYMGR_SHA_STS_FIFO_EMPTY'' 0 0x1
    1 0x0 0x484, Field ''KEYMGR_SHA_STS_FIFO_FULL'' 1 0x2 1 0x0 0x484, Field ''KEYMGR_SHA_STS_ERROR'' 2 0x4 1
    0x0 0x484, Field ''KEYMGR_SHA_USE_HIDDEN_KEY_INDEX'' 0 0x3ff 10 0x0 0x490, Field
    ''KEYMGR_SHA_USE_HIDDEN_KEY_ENABLE'' 10 0x400 1 0x0 0x490, Field ''KEYMGR_SHA_USE_CERT_INDEX'' 0 0x3f 6 0x0
    0x494, Field ''KEYMGR_SHA_USE_CERT_ENABLE'' 6 0x40 1 0x0 0x494, Field ''KEYMGR_SHA_USE_CERT_CHECK_ONLY'' 7
    0x80 1 0x0 0x494, Field ''KEYMGR_SHA_CERT_OVERRIDE_DIGEST_PTR'' 0 0x3f 6 0x0 0x498, Field
    ''KEYMGR_SHA_CERT_OVERRIDE_KEY_PTR'' 16 0x3f0000 6 0x0 0x498, Field ''KEYMGR_SHA_RAND_STALL_CTL_STALL_EN'' 0
    0x1 1 0x1 0x49c, Field ''KEYMGR_SHA_RAND_STALL_CTL_FREQ'' 1 0x6 2 0x3 0x49c]"

definition regdefs_12728 :: "reg_field list" where
  "regdefs_12728 = [
    Field ''KEYMGR_CERT_REVOKE_CTRL0_DERIVE_PHIK'' 0 0x3 2 0x2 0x4a8, Field
    ''KEYMGR_CERT_REVOKE_CTRL0_DERIVE_PHIK_SIGNATURE'' 2 0xc 2 0x2 0x4a8, Field
    ''KEYMGR_CERT_REVOKE_CTRL0_DERIVE_EXPORT_INTEGRITY_PHIK'' 4 0x30 2 0x2 0x4a8, Field
    ''KEYMGR_CERT_REVOKE_CTRL0_DERIVE_HIK_CREATION_PHIK'' 6 0xc0 2 0x2 0x4a8, Field
    ''KEYMGR_CERT_REVOKE_CTRL0_CHURN_OBS_FBS'' 8 0x300 2 0x2 0x4a8, Field
    ''KEYMGR_CERT_REVOKE_CTRL0_DERIVE_HIK_ROOTKEY'' 10 0xc00 2 0x2 0x4a8, Field
    ''KEYMGR_CERT_REVOKE_CTRL0_DERIVE_HIK_RT_SIGNATURE'' 12 0x3000 2 0x2 0x4a8, Field
    ''KEYMGR_CERT_REVOKE_CTRL0_DERIVE_BOOT_LOADER_HIK'' 14 0xc000 2 0x2 0x4a8, Field
    ''KEYMGR_CERT_REVOKE_CTRL0_DERIVE_HIK_PRIVATE_KEY'' 16 0x30000 2 0x2 0x4a8, Field
    ''KEYMGR_CERT_REVOKE_CTRL0_DERIVE_HIK0_FOR_EXPORT'' 18 0xc0000 2 0x2 0x4a8, Field
    ''KEYMGR_CERT_REVOKE_CTRL0_DERIVE_HIK1_FOR_EXPORT'' 20 0x300000 2 0x2 0x4a8, Field
    ''KEYMGR_CERT_REVOKE_CTRL0_DERIVE_HIK2_FOR_EXPORT'' 22 0xc00000 2 0x2 0x4a8, Field
    ''KEYMGR_CERT_REVOKE_CTRL0_DERIVE_ENCRYPTED_PERSO_PAYLOAD_MAC'' 24 0x3000000 2 0x2 0x4a8, Field
    ''KEYMGR_CERT_REVOKE_CTRL0_DERIVE_HIK0'' 26 0xc000000 2 0x2 0x4a8, Field
    ''KEYMGR_CERT_REVOKE_CTRL0_DERIVE_HIK1'' 28 0x30000000 2 0x2 0x4a8, Field
    ''KEYMGR_CERT_REVOKE_CTRL0_DERIVE_HIK2'' 30 0xc0000000 2 0x2 0x4a8]"

definition regdefs_12808 :: "reg_field list" where
  "regdefs_12808 = [
    Field ''KEYMGR_CERT_REVOKE_CTRL1_DERIVE_TESTMODE_PASSWORD_ROOTKEY'' 0 0x3 2 0x2 0x4ac, Field
    ''KEYMGR_CERT_REVOKE_CTRL1_DERIVE_TESTMODE_PASSWORD'' 2 0xc 2 0x2 0x4ac, Field
    ''KEYMGR_CERT_REVOKE_CTRL1_DERIVE_STAGE2_FIRMWARE_HIK0'' 4 0x30 2 0x2 0x4ac, Field
    ''KEYMGR_CERT_REVOKE_CTRL1_DERIVE_STAGE2_FIRMWARE_HIK1'' 6 0xc0 2 0x2 0x4ac, Field
    ''KEYMGR_CERT_REVOKE_CTRL1_DERIVE_STAGE2_FIRMWARE_HIK2'' 8 0x300 2 0x2 0x4ac, Field
    ''KEYMGR_CERT_REVOKE_CTRL1_STAGE2_HIK0_FIRMWARE_HASH_CHAIN'' 10 0xc00 2 0x2 0x4ac, Field
    ''KEYMGR_CERT_REVOKE_CTRL1_FW2_HIK0_CHAIN_LAST_LINK_EXPORT'' 12 0x3000 2 0x2 0x4ac, Field
    ''KEYMGR_CERT_REVOKE_CTRL1_STAGE2_HIK1_FIRMWARE_HASH_CHAIN'' 14 0xc000 2 0x2 0x4ac, Field
    ''KEYMGR_CERT_REVOKE_CTRL1_FW2_HIK1_CHAIN_LAST_LINK_EXPORT'' 16 0x30000 2 0x2 0x4ac, Field
    ''KEYMGR_CERT_REVOKE_CTRL1_STAGE2_HIK2_FIRMWARE_HASH_CHAIN'' 18 0xc0000 2 0x2 0x4ac, Field
    ''KEYMGR_CERT_REVOKE_CTRL1_FW2_HIK2_CHAIN_LAST_LINK_EXPORT'' 20 0x300000 2 0x2 0x4ac, Field
    ''KEYMGR_CERT_REVOKE_CTRL1_GET_STIRRED_RANDOM_DATA'' 22 0xc00000 2 0x2 0x4ac, Field
    ''KEYMGR_CERT_REVOKE_CTRL1_STIR_RANDOM_DATA_AND_UPDATE_RSR'' 24 0x3000000 2 0x2 0x4ac, Field
    ''KEYMGR_CERT_REVOKE_CTRL1_STIR_RANDOM_DATA_INTO_USRS'' 26 0xc000000 2 0x2 0x4ac, Field
    ''KEYMGR_CERT_REVOKE_CTRL1_HIK0_ISR0_KEYS'' 28 0x30000000 2 0x2 0x4ac, Field
    ''KEYMGR_CERT_REVOKE_CTRL1_HIK0_USR_KEYS'' 30 0xc0000000 2 0x2 0x4ac, Field
    ''KEYMGR_CERT_REVOKE_CTRL2_HIK1_ISR1_KEYS'' 0 0x3 2 0x2 0x4b0, Field
    ''KEYMGR_CERT_REVOKE_CTRL2_HIK1_USR_KEYS'' 2 0xc 2 0x2 0x4b0, Field
    ''KEYMGR_CERT_REVOKE_CTRL2_HIK2_ISR2_KEYS'' 4 0x30 2 0x2 0x4b0, Field
    ''KEYMGR_CERT_REVOKE_CTRL2_HIK2_USR_KEYS'' 6 0xc0 2 0x2 0x4b0, Field
    ''KEYMGR_CERT_REVOKE_CTRL2_HIK0_HMAC_USER_DATA'' 8 0x300 2 0x2 0x4b0, Field
    ''KEYMGR_CERT_REVOKE_CTRL2_HIK1_HMAC_USER_DATA'' 10 0xc00 2 0x2 0x4b0, Field
    ''KEYMGR_CERT_REVOKE_CTRL2_HIK2_HMAC_USER_DATA'' 12 0x3000 2 0x2 0x4b0, Field
    ''KEYMGR_CERT_REVOKE_CTRL2_HASH_ROM_FOR_RBC'' 14 0xc000 2 0x2 0x4b0]"

definition regdefs_12928 :: "reg_field list" where
  "regdefs_12928 = [
    Field ''KEYMGR_HKEY_ERR_FLAGS_AES_ALL_0S_ERR'' 0 0x1 1 0x0 0x3324, Field
    ''KEYMGR_HKEY_ERR_FLAGS_AES_ALL_1S_ERR'' 1 0x2 1 0x0 0x3324, Field
    ''KEYMGR_HKEY_ERR_FLAGS_AES_SLOT_VLD_ERR'' 2 0x4 1 0x0 0x3324, Field
    ''KEYMGR_HKEY_ERR_FLAGS_DIGEST_ADDR_ERR'' 3 0x8 1 0x0 0x3324, Field
    ''KEYMGR_HKEY_ERR_FLAGS_DIGEST_ALL_0S_ERR'' 4 0x10 1 0x0 0x3324, Field
    ''KEYMGR_HKEY_ERR_FLAGS_DIGEST_ALL_1S_ERR'' 5 0x20 1 0x0 0x3324, Field
    ''KEYMGR_HKEY_ERR_FLAGS_OVFL_GEN_ERR'' 6 0x40 1 0x0 0x3324, Field ''KEYMGR_HKEY_ERR_FLAGS_SHA_ALL_0S_ERR'' 7
    0x80 1 0x0 0x3324, Field ''KEYMGR_HKEY_ERR_FLAGS_SHA_ALL_1S_ERR'' 8 0x100 1 0x0 0x3324, Field
    ''KEYMGR_HKEY_ERR_FLAGS_SHA_SLOT_VLD_ERR'' 9 0x200 1 0x0 0x3324, Field
    ''KEYMGR_HKEY_ERR_FLAGS_SLOT_CMP_FAIL_ERR'' 10 0x400 1 0x0 0x3324, Field
    ''KEYMGR_HKEY_ERR_FLAGS_SLOT_WRG_GEN_ERR'' 11 0x800 1 0x0 0x3324, Field
    ''KEYMGR_HKEY_ERR_FLAGS_SLOT_WRG_ID_ERR'' 12 0x1000 1 0x0 0x3324, Field
    ''KEYMGR_HKEY_ERR_FLAGS_PW_ALL_0S_ERR'' 13 0x2000 1 0x0 0x3324, Field
    ''KEYMGR_HKEY_ERR_FLAGS_PW_ALL_1S_ERR'' 14 0x4000 1 0x0 0x3324, Field
    ''KEYMGR_HKEY_ERR_FLAGS_UNLOCK_TRYS_ERR'' 15 0x8000 1 0x0 0x3324, Field
    ''KEYMGR_HKEY_ERR_FLAGS_FLASH_FBS_ERR'' 16 0x10000 1 0x0 0x3324, Field
    ''KEYMGR_HKEY_ERR_FLAGS_FLASH_RSR_ERR'' 17 0x20000 1 0x0 0x3324, Field ''KEYMGR_HKEY_ERR_CTRL_LONG0_CHK_EN''
    0 0x1 1 0x0 0x3328, Field ''KEYMGR_HKEY_ERR_CTRL_LONG1_CHK_EN'' 1 0x2 1 0x0 0x3328, Field
    ''KEYMGR_HKEY_ERR_CTRL_TM_LONG0_CHK_EN'' 2 0x4 1 0x0 0x3328, Field ''KEYMGR_HKEY_ERR_CTRL_TM_LONG1_CHK_EN''
    3 0x8 1 0x0 0x3328, Field ''KEYMGR_HKEY_FLASH_RCV_STATUS_FBS_START'' 0 0x1 1 0x0 0x332c, Field
    ''KEYMGR_HKEY_FLASH_RCV_STATUS_FBS_SUCCESS'' 1 0x2 1 0x0 0x332c, Field
    ''KEYMGR_HKEY_FLASH_RCV_STATUS_RSR_START'' 2 0x4 1 0x0 0x332c, Field
    ''KEYMGR_HKEY_FLASH_RCV_STATUS_RSR_SUCCESS'' 3 0x8 1 0x0 0x332c]"

definition regdefs_13058 :: "reg_field list" where
  "regdefs_13058 = [
    Field ''PINMUX_DIOM0_CTL_DS'' 0 0x3 2 0x3 0x4, Field ''PINMUX_DIOM0_CTL_IE'' 2 0x4 1 0x0 0x4, Field
    ''PINMUX_DIOM0_CTL_PD'' 3 0x8 1 0x0 0x4, Field ''PINMUX_DIOM0_CTL_PU'' 4 0x10 1 0x0 0x4, Field
    ''PINMUX_DIOM0_CTL_INV'' 5 0x20 1 0x0 0x4, Field ''PINMUX_DIOM1_CTL_DS'' 0 0x3 2 0x3 0xc, Field
    ''PINMUX_DIOM1_CTL_IE'' 2 0x4 1 0x0 0xc, Field ''PINMUX_DIOM1_CTL_PD'' 3 0x8 1 0x0 0xc, Field
    ''PINMUX_DIOM1_CTL_PU'' 4 0x10 1 0x0 0xc, Field ''PINMUX_DIOM1_CTL_INV'' 5 0x20 1 0x0 0xc, Field
    ''PINMUX_DIOM2_CTL_DS'' 0 0x3 2 0x3 0x14, Field ''PINMUX_DIOM2_CTL_IE'' 2 0x4 1 0x0 0x14, Field
    ''PINMUX_DIOM2_CTL_PD'' 3 0x8 1 0x0 0x14, Field ''PINMUX_DIOM2_CTL_PU'' 4 0x10 1 0x0 0x14, Field
    ''PINMUX_DIOM2_CTL_INV'' 5 0x20 1 0x0 0x14, Field ''PINMUX_DIOM3_CTL_DS'' 0 0x3 2 0x3 0x1c, Field
    ''PINMUX_DIOM3_CTL_IE'' 2 0x4 1 0x0 0x1c, Field ''PINMUX_DIOM3_CTL_PD'' 3 0x8 1 0x0 0x1c, Field
    ''PINMUX_DIOM3_CTL_PU'' 4 0x10 1 0x0 0x1c, Field ''PINMUX_DIOM3_CTL_INV'' 5 0x20 1 0x0 0x1c, Field
    ''PINMUX_DIOM4_CTL_DS'' 0 0x3 2 0x3 0x24, Field ''PINMUX_DIOM4_CTL_IE'' 2 0x4 1 0x0 0x24, Field
    ''PINMUX_DIOM4_CTL_PD'' 3 0x8 1 0x0 0x24, Field ''PINMUX_DIOM4_CTL_PU'' 4 0x10 1 0x0 0x24, Field
    ''PINMUX_DIOM4_CTL_INV'' 5 0x20 1 0x0 0x24, Field ''PINMUX_DIOA0_CTL_DS'' 0 0x3 2 0x3 0x2c, Field
    ''PINMUX_DIOA0_CTL_IE'' 2 0x4 1 0x0 0x2c, Field ''PINMUX_DIOA0_CTL_PD'' 3 0x8 1 0x0 0x2c, Field
    ''PINMUX_DIOA0_CTL_PU'' 4 0x10 1 0x0 0x2c, Field ''PINMUX_DIOA0_CTL_INV'' 5 0x20 1 0x0 0x2c]"

definition regdefs_13208 :: "reg_field list" where
  "regdefs_13208 = [
    Field ''PINMUX_DIOA1_CTL_DS'' 0 0x3 2 0x3 0x34, Field ''PINMUX_DIOA1_CTL_IE'' 2 0x4 1 0x0 0x34, Field
    ''PINMUX_DIOA1_CTL_PD'' 3 0x8 1 0x0 0x34, Field ''PINMUX_DIOA1_CTL_PU'' 4 0x10 1 0x0 0x34, Field
    ''PINMUX_DIOA1_CTL_INV'' 5 0x20 1 0x0 0x34, Field ''PINMUX_DIOA2_CTL_DS'' 0 0x3 2 0x3 0x3c, Field
    ''PINMUX_DIOA2_CTL_IE'' 2 0x4 1 0x0 0x3c, Field ''PINMUX_DIOA2_CTL_PD'' 3 0x8 1 0x0 0x3c, Field
    ''PINMUX_DIOA2_CTL_PU'' 4 0x10 1 0x0 0x3c, Field ''PINMUX_DIOA2_CTL_INV'' 5 0x20 1 0x0 0x3c, Field
    ''PINMUX_DIOA3_CTL_DS'' 0 0x3 2 0x3 0x44, Field ''PINMUX_DIOA3_CTL_IE'' 2 0x4 1 0x0 0x44, Field
    ''PINMUX_DIOA3_CTL_PD'' 3 0x8 1 0x0 0x44, Field ''PINMUX_DIOA3_CTL_PU'' 4 0x10 1 0x0 0x44, Field
    ''PINMUX_DIOA3_CTL_INV'' 5 0x20 1 0x0 0x44, Field ''PINMUX_DIOA4_CTL_DS'' 0 0x3 2 0x3 0x4c, Field
    ''PINMUX_DIOA4_CTL_IE'' 2 0x4 1 0x0 0x4c, Field ''PINMUX_DIOA4_CTL_PD'' 3 0x8 1 0x0 0x4c, Field
    ''PINMUX_DIOA4_CTL_PU'' 4 0x10 1 0x0 0x4c, Field ''PINMUX_DIOA4_CTL_INV'' 5 0x20 1 0x0 0x4c, Field
    ''PINMUX_DIOA5_CTL_DS'' 0 0x3 2 0x3 0x54, Field ''PINMUX_DIOA5_CTL_IE'' 2 0x4 1 0x0 0x54, Field
    ''PINMUX_DIOA5_CTL_PD'' 3 0x8 1 0x0 0x54, Field ''PINMUX_DIOA5_CTL_PU'' 4 0x10 1 0x0 0x54, Field
    ''PINMUX_DIOA5_CTL_INV'' 5 0x20 1 0x0 0x54, Field ''PINMUX_DIOA6_CTL_DS'' 0 0x3 2 0x3 0x5c, Field
    ''PINMUX_DIOA6_CTL_IE'' 2 0x4 1 0x0 0x5c, Field ''PINMUX_DIOA6_CTL_PD'' 3 0x8 1 0x0 0x5c, Field
    ''PINMUX_DIOA6_CTL_PU'' 4 0x10 1 0x0 0x5c, Field ''PINMUX_DIOA6_CTL_INV'' 5 0x20 1 0x0 0x5c]"

definition regdefs_13358 :: "reg_field list" where
  "regdefs_13358 = [
    Field ''PINMUX_DIOA7_CTL_DS'' 0 0x3 2 0x3 0x64, Field ''PINMUX_DIOA7_CTL_IE'' 2 0x4 1 0x0 0x64, Field
    ''PINMUX_DIOA7_CTL_PD'' 3 0x8 1 0x0 0x64, Field ''PINMUX_DIOA7_CTL_PU'' 4 0x10 1 0x0 0x64, Field
    ''PINMUX_DIOA7_CTL_INV'' 5 0x20 1 0x0 0x64, Field ''PINMUX_DIOA8_CTL_DS'' 0 0x3 2 0x3 0x6c, Field
    ''PINMUX_DIOA8_CTL_IE'' 2 0x4 1 0x0 0x6c, Field ''PINMUX_DIOA8_CTL_PD'' 3 0x8 1 0x0 0x6c, Field
    ''PINMUX_DIOA8_CTL_PU'' 4 0x10 1 0x0 0x6c, Field ''PINMUX_DIOA8_CTL_INV'' 5 0x20 1 0x0 0x6c, Field
    ''PINMUX_DIOA9_CTL_DS'' 0 0x3 2 0x3 0x74, Field ''PINMUX_DIOA9_CTL_IE'' 2 0x4 1 0x0 0x74, Field
    ''PINMUX_DIOA9_CTL_PD'' 3 0x8 1 0x0 0x74, Field ''PINMUX_DIOA9_CTL_PU'' 4 0x10 1 0x0 0x74, Field
    ''PINMUX_DIOA9_CTL_INV'' 5 0x20 1 0x0 0x74, Field ''PINMUX_DIOA10_CTL_DS'' 0 0x3 2 0x3 0x7c, Field
    ''PINMUX_DIOA10_CTL_IE'' 2 0x4 1 0x0 0x7c, Field ''PINMUX_DIOA10_CTL_PD'' 3 0x8 1 0x0 0x7c, Field
    ''PINMUX_DIOA10_CTL_PU'' 4 0x10 1 0x0 0x7c, Field ''PINMUX_DIOA10_CTL_INV'' 5 0x20 1 0x0 0x7c, Field
    ''PINMUX_DIOA11_CTL_DS'' 0 0x3 2 0x3 0x84, Field ''PINMUX_DIOA11_CTL_IE'' 2 0x4 1 0x0 0x84, Field
    ''PINMUX_DIOA11_CTL_PD'' 3 0x8 1 0x0 0x84, Field ''PINMUX_DIOA11_CTL_PU'' 4 0x10 1 0x0 0x84, Field
    ''PINMUX_DIOA11_CTL_INV'' 5 0x20 1 0x0 0x84, Field ''PINMUX_DIOA12_CTL_DS'' 0 0x3 2 0x3 0x8c, Field
    ''PINMUX_DIOA12_CTL_IE'' 2 0x4 1 0x0 0x8c, Field ''PINMUX_DIOA12_CTL_PD'' 3 0x8 1 0x0 0x8c, Field
    ''PINMUX_DIOA12_CTL_PU'' 4 0x10 1 0x0 0x8c, Field ''PINMUX_DIOA12_CTL_INV'' 5 0x20 1 0x0 0x8c]"

definition regdefs_13508 :: "reg_field list" where
  "regdefs_13508 = [
    Field ''PINMUX_DIOA13_CTL_DS'' 0 0x3 2 0x3 0x94, Field ''PINMUX_DIOA13_CTL_IE'' 2 0x4 1 0x0 0x94, Field
    ''PINMUX_DIOA13_CTL_PD'' 3 0x8 1 0x0 0x94, Field ''PINMUX_DIOA13_CTL_PU'' 4 0x10 1 0x0 0x94, Field
    ''PINMUX_DIOA13_CTL_INV'' 5 0x20 1 0x0 0x94, Field ''PINMUX_DIOA14_CTL_DS'' 0 0x3 2 0x3 0x9c, Field
    ''PINMUX_DIOA14_CTL_IE'' 2 0x4 1 0x0 0x9c, Field ''PINMUX_DIOA14_CTL_PD'' 3 0x8 1 0x0 0x9c, Field
    ''PINMUX_DIOA14_CTL_PU'' 4 0x10 1 0x0 0x9c, Field ''PINMUX_DIOA14_CTL_INV'' 5 0x20 1 0x0 0x9c, Field
    ''PINMUX_DIOB0_CTL_DS'' 0 0x3 2 0x3 0xa4, Field ''PINMUX_DIOB0_CTL_IE'' 2 0x4 1 0x0 0xa4, Field
    ''PINMUX_DIOB0_CTL_PD'' 3 0x8 1 0x0 0xa4, Field ''PINMUX_DIOB0_CTL_PU'' 4 0x10 1 0x0 0xa4, Field
    ''PINMUX_DIOB0_CTL_INV'' 5 0x20 1 0x0 0xa4, Field ''PINMUX_DIOB1_CTL_DS'' 0 0x3 2 0x3 0xac, Field
    ''PINMUX_DIOB1_CTL_IE'' 2 0x4 1 0x0 0xac, Field ''PINMUX_DIOB1_CTL_PD'' 3 0x8 1 0x0 0xac, Field
    ''PINMUX_DIOB1_CTL_PU'' 4 0x10 1 0x0 0xac, Field ''PINMUX_DIOB1_CTL_INV'' 5 0x20 1 0x0 0xac, Field
    ''PINMUX_DIOB2_CTL_DS'' 0 0x3 2 0x3 0xb4, Field ''PINMUX_DIOB2_CTL_IE'' 2 0x4 1 0x0 0xb4, Field
    ''PINMUX_DIOB2_CTL_PD'' 3 0x8 1 0x0 0xb4, Field ''PINMUX_DIOB2_CTL_PU'' 4 0x10 1 0x0 0xb4, Field
    ''PINMUX_DIOB2_CTL_INV'' 5 0x20 1 0x0 0xb4, Field ''PINMUX_DIOB3_CTL_DS'' 0 0x3 2 0x3 0xbc, Field
    ''PINMUX_DIOB3_CTL_IE'' 2 0x4 1 0x0 0xbc, Field ''PINMUX_DIOB3_CTL_PD'' 3 0x8 1 0x0 0xbc, Field
    ''PINMUX_DIOB3_CTL_PU'' 4 0x10 1 0x0 0xbc, Field ''PINMUX_DIOB3_CTL_INV'' 5 0x20 1 0x0 0xbc]"

definition regdefs_13658 :: "reg_field list" where
  "regdefs_13658 = [
    Field ''PINMUX_DIOB4_CTL_DS'' 0 0x3 2 0x3 0xc4, Field ''PINMUX_DIOB4_CTL_IE'' 2 0x4 1 0x0 0xc4, Field
    ''PINMUX_DIOB4_CTL_PD'' 3 0x8 1 0x0 0xc4, Field ''PINMUX_DIOB4_CTL_PU'' 4 0x10 1 0x0 0xc4, Field
    ''PINMUX_DIOB4_CTL_INV'' 5 0x20 1 0x0 0xc4, Field ''PINMUX_DIOB5_CTL_DS'' 0 0x3 2 0x3 0xcc, Field
    ''PINMUX_DIOB5_CTL_IE'' 2 0x4 1 0x0 0xcc, Field ''PINMUX_DIOB5_CTL_PD'' 3 0x8 1 0x0 0xcc, Field
    ''PINMUX_DIOB5_CTL_PU'' 4 0x10 1 0x0 0xcc, Field ''PINMUX_DIOB5_CTL_INV'' 5 0x20 1 0x0 0xcc, Field
    ''PINMUX_DIOB6_CTL_DS'' 0 0x3 2 0x3 0xd4, Field ''PINMUX_DIOB6_CTL_IE'' 2 0x4 1 0x0 0xd4, Field
    ''PINMUX_DIOB6_CTL_PD'' 3 0x8 1 0x0 0xd4, Field ''PINMUX_DIOB6_CTL_PU'' 4 0x10 1 0x0 0xd4, Field
    ''PINMUX_DIOB6_CTL_INV'' 5 0x20 1 0x0 0xd4, Field ''PINMUX_DIOB7_CTL_DS'' 0 0x3 2 0x3 0xdc, Field
    ''PINMUX_DIOB7_CTL_IE'' 2 0x4 1 0x0 0xdc, Field ''PINMUX_DIOB7_CTL_PD'' 3 0x8 1 0x0 0xdc, Field
    ''PINMUX_DIOB7_CTL_PU'' 4 0x10 1 0x0 0xdc, Field ''PINMUX_DIOB7_CTL_INV'' 5 0x20 1 0x0 0xdc, Field
    ''PINMUX_RESETB_CTL_DS'' 0 0x3 2 0x3 0xe4, Field ''PINMUX_RESETB_CTL_IE'' 2 0x4 1 0x1 0xe4, Field
    ''PINMUX_RESETB_CTL_PD'' 3 0x8 1 0x0 0xe4, Field ''PINMUX_RESETB_CTL_PU'' 4 0x10 1 0x0 0xe4, Field
    ''PINMUX_RESETB_CTL_INV'' 5 0x20 1 0x0 0xe4, Field ''PINMUX_VIO0_CTL_DS'' 0 0x3 2 0x3 0xec, Field
    ''PINMUX_VIO0_CTL_IE'' 2 0x4 1 0x0 0xec, Field ''PINMUX_VIO0_CTL_PD'' 3 0x8 1 0x0 0xec, Field
    ''PINMUX_VIO0_CTL_PU'' 4 0x10 1 0x0 0xec, Field ''PINMUX_VIO0_CTL_INV'' 5 0x20 1 0x0 0xec]"

definition regdefs_13808 :: "reg_field list" where
  "regdefs_13808 = [
    Field ''PINMUX_VIO1_CTL_DS'' 0 0x3 2 0x3 0xf4, Field ''PINMUX_VIO1_CTL_IE'' 2 0x4 1 0x0 0xf4, Field
    ''PINMUX_VIO1_CTL_PD'' 3 0x8 1 0x0 0xf4, Field ''PINMUX_VIO1_CTL_PU'' 4 0x10 1 0x0 0xf4, Field
    ''PINMUX_VIO1_CTL_INV'' 5 0x20 1 0x0 0xf4]"

definition regdefs_13833 :: "reg_field list" where
  "regdefs_13833 = [
    Field ''PINMUX_EXITEN0_DIOM0'' 0 0x1 1 0x0 0x284, Field ''PINMUX_EXITEN0_DIOM1'' 1 0x2 1 0x0 0x284, Field
    ''PINMUX_EXITEN0_DIOM2'' 2 0x4 1 0x0 0x284, Field ''PINMUX_EXITEN0_DIOM3'' 3 0x8 1 0x0 0x284, Field
    ''PINMUX_EXITEN0_DIOM4'' 4 0x10 1 0x0 0x284, Field ''PINMUX_EXITEN0_DIOA0'' 5 0x20 1 0x0 0x284, Field
    ''PINMUX_EXITEN0_DIOA1'' 6 0x40 1 0x0 0x284, Field ''PINMUX_EXITEN0_DIOA2'' 7 0x80 1 0x0 0x284, Field
    ''PINMUX_EXITEN0_DIOA3'' 8 0x100 1 0x0 0x284, Field ''PINMUX_EXITEN0_DIOA4'' 9 0x200 1 0x0 0x284, Field
    ''PINMUX_EXITEN0_DIOA5'' 10 0x400 1 0x0 0x284, Field ''PINMUX_EXITEN0_DIOA6'' 11 0x800 1 0x0 0x284, Field
    ''PINMUX_EXITEN0_DIOA7'' 12 0x1000 1 0x0 0x284, Field ''PINMUX_EXITEN0_DIOA8'' 13 0x2000 1 0x0 0x284, Field
    ''PINMUX_EXITEN0_DIOA9'' 14 0x4000 1 0x0 0x284, Field ''PINMUX_EXITEN0_DIOA10'' 15 0x8000 1 0x0 0x284, Field
    ''PINMUX_EXITEN0_DIOA11'' 16 0x10000 1 0x0 0x284, Field ''PINMUX_EXITEN0_DIOA12'' 17 0x20000 1 0x0 0x284,
    Field ''PINMUX_EXITEN0_DIOA13'' 18 0x40000 1 0x0 0x284, Field ''PINMUX_EXITEN0_DIOA14'' 19 0x80000 1 0x0
    0x284, Field ''PINMUX_EXITEN0_DIOB0'' 20 0x100000 1 0x0 0x284, Field ''PINMUX_EXITEN0_DIOB1'' 21 0x200000 1
    0x0 0x284, Field ''PINMUX_EXITEN0_DIOB2'' 22 0x400000 1 0x0 0x284, Field ''PINMUX_EXITEN0_DIOB3'' 23
    0x800000 1 0x0 0x284, Field ''PINMUX_EXITEN0_DIOB4'' 24 0x1000000 1 0x0 0x284, Field
    ''PINMUX_EXITEN0_DIOB5'' 25 0x2000000 1 0x0 0x284, Field ''PINMUX_EXITEN0_DIOB6'' 26 0x4000000 1 0x0 0x284,
    Field ''PINMUX_EXITEN0_DIOB7'' 27 0x8000000 1 0x0 0x284, Field ''PINMUX_EXITEN0_VIO0'' 28 0x10000000 1 0x0
    0x284, Field ''PINMUX_EXITEN0_VIO1'' 29 0x20000000 1 0x0 0x284]"

definition regdefs_13983 :: "reg_field list" where
  "regdefs_13983 = [
    Field ''PINMUX_EXITEDGE0_DIOM0'' 0 0x1 1 0x0 0x288, Field ''PINMUX_EXITEDGE0_DIOM1'' 1 0x2 1 0x0 0x288,
    Field ''PINMUX_EXITEDGE0_DIOM2'' 2 0x4 1 0x0 0x288, Field ''PINMUX_EXITEDGE0_DIOM3'' 3 0x8 1 0x0 0x288,
    Field ''PINMUX_EXITEDGE0_DIOM4'' 4 0x10 1 0x0 0x288, Field ''PINMUX_EXITEDGE0_DIOA0'' 5 0x20 1 0x0 0x288,
    Field ''PINMUX_EXITEDGE0_DIOA1'' 6 0x40 1 0x0 0x288, Field ''PINMUX_EXITEDGE0_DIOA2'' 7 0x80 1 0x0 0x288,
    Field ''PINMUX_EXITEDGE0_DIOA3'' 8 0x100 1 0x0 0x288, Field ''PINMUX_EXITEDGE0_DIOA4'' 9 0x200 1 0x0 0x288,
    Field ''PINMUX_EXITEDGE0_DIOA5'' 10 0x400 1 0x0 0x288, Field ''PINMUX_EXITEDGE0_DIOA6'' 11 0x800 1 0x0
    0x288, Field ''PINMUX_EXITEDGE0_DIOA7'' 12 0x1000 1 0x0 0x288, Field ''PINMUX_EXITEDGE0_DIOA8'' 13 0x2000 1
    0x0 0x288, Field ''PINMUX_EXITEDGE0_DIOA9'' 14 0x4000 1 0x0 0x288, Field ''PINMUX_EXITEDGE0_DIOA10'' 15
    0x8000 1 0x0 0x288, Field ''PINMUX_EXITEDGE0_DIOA11'' 16 0x10000 1 0x0 0x288, Field
    ''PINMUX_EXITEDGE0_DIOA12'' 17 0x20000 1 0x0 0x288, Field ''PINMUX_EXITEDGE0_DIOA13'' 18 0x40000 1 0x0
    0x288, Field ''PINMUX_EXITEDGE0_DIOA14'' 19 0x80000 1 0x0 0x288, Field ''PINMUX_EXITEDGE0_DIOB0'' 20
    0x100000 1 0x0 0x288, Field ''PINMUX_EXITEDGE0_DIOB1'' 21 0x200000 1 0x0 0x288, Field
    ''PINMUX_EXITEDGE0_DIOB2'' 22 0x400000 1 0x0 0x288, Field ''PINMUX_EXITEDGE0_DIOB3'' 23 0x800000 1 0x0
    0x288, Field ''PINMUX_EXITEDGE0_DIOB4'' 24 0x1000000 1 0x0 0x288, Field ''PINMUX_EXITEDGE0_DIOB5'' 25
    0x2000000 1 0x0 0x288, Field ''PINMUX_EXITEDGE0_DIOB6'' 26 0x4000000 1 0x0 0x288, Field
    ''PINMUX_EXITEDGE0_DIOB7'' 27 0x8000000 1 0x0 0x288, Field ''PINMUX_EXITEDGE0_VIO0'' 28 0x10000000 1 0x0
    0x288, Field ''PINMUX_EXITEDGE0_VIO1'' 29 0x20000000 1 0x0 0x288]"

definition regdefs_14133 :: "reg_field list" where
  "regdefs_14133 = [
    Field ''PINMUX_EXITINV0_DIOM0'' 0 0x1 1 0x0 0x28c, Field ''PINMUX_EXITINV0_DIOM1'' 1 0x2 1 0x0 0x28c, Field
    ''PINMUX_EXITINV0_DIOM2'' 2 0x4 1 0x0 0x28c, Field ''PINMUX_EXITINV0_DIOM3'' 3 0x8 1 0x0 0x28c, Field
    ''PINMUX_EXITINV0_DIOM4'' 4 0x10 1 0x0 0x28c, Field ''PINMUX_EXITINV0_DIOA0'' 5 0x20 1 0x0 0x28c, Field
    ''PINMUX_EXITINV0_DIOA1'' 6 0x40 1 0x0 0x28c, Field ''PINMUX_EXITINV0_DIOA2'' 7 0x80 1 0x0 0x28c, Field
    ''PINMUX_EXITINV0_DIOA3'' 8 0x100 1 0x0 0x28c, Field ''PINMUX_EXITINV0_DIOA4'' 9 0x200 1 0x0 0x28c, Field
    ''PINMUX_EXITINV0_DIOA5'' 10 0x400 1 0x0 0x28c, Field ''PINMUX_EXITINV0_DIOA6'' 11 0x800 1 0x0 0x28c, Field
    ''PINMUX_EXITINV0_DIOA7'' 12 0x1000 1 0x0 0x28c, Field ''PINMUX_EXITINV0_DIOA8'' 13 0x2000 1 0x0 0x28c,
    Field ''PINMUX_EXITINV0_DIOA9'' 14 0x4000 1 0x0 0x28c, Field ''PINMUX_EXITINV0_DIOA10'' 15 0x8000 1 0x0
    0x28c, Field ''PINMUX_EXITINV0_DIOA11'' 16 0x10000 1 0x0 0x28c, Field ''PINMUX_EXITINV0_DIOA12'' 17 0x20000
    1 0x0 0x28c, Field ''PINMUX_EXITINV0_DIOA13'' 18 0x40000 1 0x0 0x28c, Field ''PINMUX_EXITINV0_DIOA14'' 19
    0x80000 1 0x0 0x28c, Field ''PINMUX_EXITINV0_DIOB0'' 20 0x100000 1 0x0 0x28c, Field
    ''PINMUX_EXITINV0_DIOB1'' 21 0x200000 1 0x0 0x28c, Field ''PINMUX_EXITINV0_DIOB2'' 22 0x400000 1 0x0 0x28c,
    Field ''PINMUX_EXITINV0_DIOB3'' 23 0x800000 1 0x0 0x28c, Field ''PINMUX_EXITINV0_DIOB4'' 24 0x1000000 1 0x0
    0x28c, Field ''PINMUX_EXITINV0_DIOB5'' 25 0x2000000 1 0x0 0x28c, Field ''PINMUX_EXITINV0_DIOB6'' 26
    0x4000000 1 0x0 0x28c, Field ''PINMUX_EXITINV0_DIOB7'' 27 0x8000000 1 0x0 0x28c, Field
    ''PINMUX_EXITINV0_VIO0'' 28 0x10000000 1 0x0 0x28c, Field ''PINMUX_EXITINV0_VIO1'' 29 0x20000000 1 0x0 0x28c]"

definition regdefs_14283 :: "reg_field list" where
  "regdefs_14283 = [
    Field ''PMU_RESET_PORESETB1'' 0 0x1 1 0x1 0x0, Field ''PMU_RESET_DAPRESETB1'' 1 0x2 1 0x1 0x0, Field
    ''PMU_SETRST_SRC'' 0 0x1 1 0x0 0x4, Field ''PMU_CLRRST_SRC'' 0 0x1 1 0x0 0x8, Field ''PMU_RSTSRC_POR'' 0 0x1
    1 0x0 0xc, Field ''PMU_RSTSRC_EXIT'' 1 0x2 1 0x0 0xc, Field ''PMU_RSTSRC_WDOG'' 2 0x4 1 0x0 0xc, Field
    ''PMU_RSTSRC_LOCKUP'' 3 0x8 1 0x0 0xc, Field ''PMU_RSTSRC_SYSRESET'' 4 0x10 1 0x0 0xc, Field
    ''PMU_RSTSRC_SOFTWARE'' 5 0x20 1 0x0 0xc, Field ''PMU_RSTSRC_FST_BRNOUT'' 6 0x40 1 0x0 0xc, Field
    ''PMU_RSTSRC_SEC_THREAT'' 7 0x80 1 0x0 0xc, Field ''PMU_LOW_POWER_DIS_START'' 0 0x1 1 0x0 0x14, Field
    ''PMU_LOW_POWER_DIS_VDDL'' 1 0x2 1 0x1 0x14, Field ''PMU_LOW_POWER_DIS_VDDIOF'' 2 0x4 1 0x1 0x14, Field
    ''PMU_LOW_POWER_DIS_VDDXO'' 3 0x8 1 0x1 0x14, Field ''PMU_LOW_POWER_DIS_JTR_RC'' 4 0x10 1 0x1 0x14, Field
    ''PMU_LOW_POWER_BYPASS_VDDL'' 0 0x1 1 0x0 0x18, Field ''PMU_LOW_POWER_BYPASS_VDDIOF'' 1 0x2 1 0x0 0x18,
    Field ''PMU_LOW_POWER_BYPASS_VDDXO'' 2 0x4 1 0x0 0x18, Field ''PMU_LOW_POWER_BYPASS_VDDXO_COMP'' 3 0x8 1 0x0
    0x18, Field ''PMU_LOW_POWER_BYPASS_JTR_RC'' 4 0x10 1 0x0 0x18, Field ''PMU_LOW_POWER_BYPASS_TIMER_RC'' 5
    0x20 1 0x0 0x18, Field ''PMU_LOW_POWER_BYPASS_PDM25'' 6 0x40 1 0x0 0x18, Field
    ''PMU_LOW_POWER_BYPASS_VDDL_ISO'' 7 0x80 1 0x0 0x18, Field ''PMU_LOW_POWER_BYPASS_VDDXO_ISO'' 8 0x100 1 0x0
    0x18]"

definition regdefs_14413 :: "reg_field list" where
  "regdefs_14413 = [
    Field ''PMU_LOW_POWER_BYPASS_VALUE_VDDL'' 0 0x1 1 0x0 0x1c, Field ''PMU_LOW_POWER_BYPASS_VALUE_VDDIOF'' 1
    0x2 1 0x0 0x1c, Field ''PMU_LOW_POWER_BYPASS_VALUE_VDDXO'' 2 0x4 1 0x0 0x1c, Field
    ''PMU_LOW_POWER_BYPASS_VALUE_VDDXO_COMP'' 3 0x8 1 0x0 0x1c, Field ''PMU_LOW_POWER_BYPASS_VALUE_JTR_RC'' 4
    0x10 1 0x0 0x1c, Field ''PMU_LOW_POWER_BYPASS_VALUE_TIMER_RC'' 5 0x20 1 0x0 0x1c, Field
    ''PMU_LOW_POWER_BYPASS_VALUE_PDM25'' 6 0x40 1 0x0 0x1c, Field ''PMU_LOW_POWER_BYPASS_VALUE_VDDL_ISO'' 7 0x80
    1 0x0 0x1c, Field ''PMU_LOW_POWER_BYPASS_VALUE_VDDXO_ISO'' 8 0x100 1 0x0 0x1c, Field ''PMU_SETWIC_PROC0'' 0
    0x1 1 0x0 0x20, Field ''PMU_CLRWIC_PROC0'' 0 0x1 1 0x0 0x24, Field ''PMU_SW_PDB_TIMER_RC'' 0 0x1 1 0x0 0x30,
    Field ''PMU_SW_PDB_FST_BRNOUT_PWR'' 1 0x2 1 0x0 0x30, Field ''PMU_SW_PDB_FST_BRNOUT'' 2 0x4 1 0x0 0x30,
    Field ''PMU_SW_PDB_SECURE_BATMON'' 0 0x1 1 0x0 0x34, Field ''PMU_SW_PDB_SECURE_BATMON_EN'' 1 0x2 1 0x0 0x34,
    Field ''PMU_SW_PDB_SECURE_XTL'' 2 0x4 1 0x0 0x34, Field ''PMU_VREF_REG'' 0 0xf 4 0xb 0x38, Field
    ''PMU_VREF_LDOXO'' 4 0xf0 4 0xd 0x38, Field ''PMU_VREF_BATMON'' 8 0x700 3 0x0 0x38, Field
    ''PMU_B_REG_DIG_CTRL_RBANK_SEL'' 0 0x3 2 0x2 0x48, Field ''PMU_B_REG_DIG_CTRL_SPARE'' 2 0x3c 4 0x0 0x48,
    Field ''PMU_EXITPD_MASK_PIN_PD_EXIT'' 0 0x1 1 0x0 0x4c, Field ''PMU_EXITPD_MASK_UTMI_SUSPEND_N'' 1 0x2 1 0x0
    0x4c, Field ''PMU_EXITPD_MASK_RDD0_PD_EXIT_TIMER'' 2 0x4 1 0x0 0x4c, Field
    ''PMU_EXITPD_MASK_TIMELS0_PD_EXIT_TIMER0'' 3 0x8 1 0x0 0x4c, Field
    ''PMU_EXITPD_MASK_TIMELS0_PD_EXIT_TIMER1'' 4 0x10 1 0x0 0x4c, Field ''PMU_EXITPD_MASK_RBOX_WAKEUP'' 5 0x20 1
    0x0 0x4c]"

definition regdefs_14561 :: "reg_field list" where
  "regdefs_14561 = [
    Field ''PMU_EXITPD_SRC_PIN_PD_EXIT'' 0 0x1 1 0x0 0x50, Field ''PMU_EXITPD_SRC_UTMI_SUSPEND_N'' 1 0x2 1 0x0
    0x50, Field ''PMU_EXITPD_SRC_RDD0_PD_EXIT_TIMER'' 2 0x4 1 0x0 0x50, Field
    ''PMU_EXITPD_SRC_TIMELS0_PD_EXIT_TIMER0'' 3 0x8 1 0x0 0x50, Field ''PMU_EXITPD_SRC_TIMELS0_PD_EXIT_TIMER1''
    4 0x10 1 0x0 0x50, Field ''PMU_EXITPD_SRC_RBOX_WAKEUP'' 5 0x20 1 0x0 0x50, Field
    ''PMU_EXITPD_MON_PIN_PD_EXIT'' 0 0x1 1 0x0 0x54, Field ''PMU_EXITPD_MON_UTMI_SUSPEND_N'' 1 0x2 1 0x0 0x54,
    Field ''PMU_EXITPD_MON_RDD0_PD_EXIT_TIMER'' 2 0x4 1 0x0 0x54, Field
    ''PMU_EXITPD_MON_TIMELS0_PD_EXIT_TIMER0'' 3 0x8 1 0x0 0x54, Field ''PMU_EXITPD_MON_TIMELS0_PD_EXIT_TIMER1''
    4 0x10 1 0x0 0x54, Field ''PMU_EXITPD_MON_RBOX_WAKEUP'' 5 0x20 1 0x0 0x54, Field ''PMU_OSC_CTRL_XTL_READYB''
    0 0x1 1 0x1 0x58, Field ''PMU_MEMCLKSET_MEM_BANK_CLK0'' 0 0x1 1 0x1 0x5c, Field
    ''PMU_MEMCLKSET_MEM_BANK_CLK1'' 1 0x2 1 0x1 0x5c, Field ''PMU_MEMCLKSET_MEM_BANK_CLK2'' 2 0x4 1 0x1 0x5c,
    Field ''PMU_MEMCLKSET_MEM_BANK_CLK3'' 3 0x8 1 0x1 0x5c, Field ''PMU_MEMCLKSET_MEM_BANK_CLK4'' 4 0x10 1 0x1
    0x5c, Field ''PMU_MEMCLKSET_MEM_BANK_CLK5'' 5 0x20 1 0x1 0x5c, Field ''PMU_MEMCLKSET_MEM_BANK_CLK6'' 6 0x40
    1 0x1 0x5c, Field ''PMU_MEMCLKCLR_MEM_BANK_CLK0'' 0 0x1 1 0x1 0x60, Field ''PMU_MEMCLKCLR_MEM_BANK_CLK1'' 1
    0x2 1 0x1 0x60, Field ''PMU_MEMCLKCLR_MEM_BANK_CLK2'' 2 0x4 1 0x1 0x60, Field
    ''PMU_MEMCLKCLR_MEM_BANK_CLK3'' 3 0x8 1 0x1 0x60, Field ''PMU_MEMCLKCLR_MEM_BANK_CLK4'' 4 0x10 1 0x1 0x60,
    Field ''PMU_MEMCLKCLR_MEM_BANK_CLK5'' 5 0x20 1 0x1 0x60, Field ''PMU_MEMCLKCLR_MEM_BANK_CLK6'' 6 0x40 1 0x1
    0x60]"

definition regdefs_14696 :: "reg_field list" where
  "regdefs_14696 = [
    Field ''PMU_PERICLKSET0_DCAMO0_CLK'' 0 0x1 1 0x1 0x64, Field ''PMU_PERICLKSET0_DCRYPTO0_CLK'' 1 0x2 1 0x1
    0x64, Field ''PMU_PERICLKSET0_DDMA0_CLK'' 2 0x4 1 0x0 0x64, Field ''PMU_PERICLKSET0_DFLASH0_CLK'' 3 0x8 1
    0x1 0x64, Field ''PMU_PERICLKSET0_DFUSE0_CLK'' 4 0x10 1 0x1 0x64, Field ''PMU_PERICLKSET0_DGLOBALSEC_CLK'' 5
    0x20 1 0x1 0x64, Field ''PMU_PERICLKSET0_DGLOBALSEC_CLK_TIMER'' 6 0x40 1 0x1 0x64, Field
    ''PMU_PERICLKSET0_DGLOBALSEC_CLK_HS'' 7 0x80 1 0x1 0x64, Field ''PMU_PERICLKSET0_DGPIO0_CLK'' 8 0x100 1 0x0
    0x64, Field ''PMU_PERICLKSET0_DGPIO1_CLK'' 9 0x200 1 0x0 0x64, Field ''PMU_PERICLKSET0_DI2C0_CLK_TIMER'' 10
    0x400 1 0x0 0x64, Field ''PMU_PERICLKSET0_DI2C1_CLK_TIMER'' 11 0x800 1 0x0 0x64, Field
    ''PMU_PERICLKSET0_DI2CS0_CLK'' 12 0x1000 1 0x0 0x64, Field ''PMU_PERICLKSET0_DKEYMGR0_CLK'' 13 0x2000 1 0x1
    0x64, Field ''PMU_PERICLKSET0_DPERI_APB0_CLK'' 14 0x4000 1 0x1 0x64, Field
    ''PMU_PERICLKSET0_DPERI_APB1_CLK'' 15 0x8000 1 0x1 0x64, Field ''PMU_PERICLKSET0_DPERI_APB2_CLK'' 16 0x10000
    1 0x1 0x64, Field ''PMU_PERICLKSET0_DPERI_APB2_CLK_TIMER'' 17 0x20000 1 0x1 0x64, Field
    ''PMU_PERICLKSET0_DPERI_APB3_CLK'' 18 0x40000 1 0x1 0x64, Field ''PMU_PERICLKSET0_DPERI_APB3_CLK_HS'' 19
    0x80000 1 0x1 0x64, Field ''PMU_PERICLKSET0_DPINMUX_CLK'' 20 0x100000 1 0x1 0x64, Field
    ''PMU_PERICLKSET0_DPMU_CLK'' 21 0x200000 1 0x1 0x64, Field ''PMU_PERICLKSET0_DRBOX0_CLK'' 22 0x400000 1 0x0
    0x64, Field ''PMU_PERICLKSET0_DRDD0_CLK'' 23 0x800000 1 0x0 0x64, Field ''PMU_PERICLKSET0_DRTC0_CLK'' 24
    0x1000000 1 0x1 0x64, Field ''PMU_PERICLKSET0_DRTC0_CLK_TIMER'' 25 0x2000000 1 0x1 0x64, Field
    ''PMU_PERICLKSET0_DSPI0_CLK_HS'' 26 0x4000000 1 0x1 0x64, Field ''PMU_PERICLKSET0_DSPI1_CLK_HS'' 27
    0x8000000 1 0x1 0x64, Field ''PMU_PERICLKSET0_DSPS0_CLK'' 28 0x10000000 1 0x1 0x64, Field
    ''PMU_PERICLKSET0_DSPS0_CLK_TIMER_HS'' 29 0x20000000 1 0x1 0x64]"

definition regdefs_14846 :: "reg_field list" where
  "regdefs_14846 = [
    Field ''PMU_PERICLKSET0_DSWDP0_CLK'' 30 0x40000000 1 0x1 0x64, Field ''PMU_PERICLKSET0_DTEMP0_CLK'' 31
    0x80000000 1 0x1 0x64]"

definition regdefs_14856 :: "reg_field list" where
  "regdefs_14856 = [
    Field ''PMU_PERICLKCLR0_DCAMO0_CLK'' 0 0x1 1 0x1 0x68, Field ''PMU_PERICLKCLR0_DCRYPTO0_CLK'' 1 0x2 1 0x1
    0x68, Field ''PMU_PERICLKCLR0_DDMA0_CLK'' 2 0x4 1 0x0 0x68, Field ''PMU_PERICLKCLR0_DFLASH0_CLK'' 3 0x8 1
    0x1 0x68, Field ''PMU_PERICLKCLR0_DFUSE0_CLK'' 4 0x10 1 0x1 0x68, Field ''PMU_PERICLKCLR0_DGLOBALSEC_CLK'' 5
    0x20 1 0x1 0x68, Field ''PMU_PERICLKCLR0_DGLOBALSEC_CLK_TIMER'' 6 0x40 1 0x1 0x68, Field
    ''PMU_PERICLKCLR0_DGLOBALSEC_CLK_HS'' 7 0x80 1 0x1 0x68, Field ''PMU_PERICLKCLR0_DGPIO0_CLK'' 8 0x100 1 0x0
    0x68, Field ''PMU_PERICLKCLR0_DGPIO1_CLK'' 9 0x200 1 0x0 0x68, Field ''PMU_PERICLKCLR0_DI2C0_CLK_TIMER'' 10
    0x400 1 0x0 0x68, Field ''PMU_PERICLKCLR0_DI2C1_CLK_TIMER'' 11 0x800 1 0x0 0x68, Field
    ''PMU_PERICLKCLR0_DI2CS0_CLK'' 12 0x1000 1 0x0 0x68, Field ''PMU_PERICLKCLR0_DKEYMGR0_CLK'' 13 0x2000 1 0x1
    0x68, Field ''PMU_PERICLKCLR0_DPERI_APB0_CLK'' 14 0x4000 1 0x1 0x68, Field
    ''PMU_PERICLKCLR0_DPERI_APB1_CLK'' 15 0x8000 1 0x1 0x68, Field ''PMU_PERICLKCLR0_DPERI_APB2_CLK'' 16 0x10000
    1 0x1 0x68, Field ''PMU_PERICLKCLR0_DPERI_APB2_CLK_TIMER'' 17 0x20000 1 0x1 0x68, Field
    ''PMU_PERICLKCLR0_DPERI_APB3_CLK'' 18 0x40000 1 0x1 0x68, Field ''PMU_PERICLKCLR0_DPERI_APB3_CLK_HS'' 19
    0x80000 1 0x1 0x68, Field ''PMU_PERICLKCLR0_DPINMUX_CLK'' 20 0x100000 1 0x1 0x68, Field
    ''PMU_PERICLKCLR0_DPMU_CLK'' 21 0x200000 1 0x1 0x68, Field ''PMU_PERICLKCLR0_DRBOX0_CLK'' 22 0x400000 1 0x0
    0x68, Field ''PMU_PERICLKCLR0_DRDD0_CLK'' 23 0x800000 1 0x0 0x68, Field ''PMU_PERICLKCLR0_DRTC0_CLK'' 24
    0x1000000 1 0x1 0x68, Field ''PMU_PERICLKCLR0_DRTC0_CLK_TIMER'' 25 0x2000000 1 0x1 0x68, Field
    ''PMU_PERICLKCLR0_DSPI0_CLK_HS'' 26 0x4000000 1 0x1 0x68, Field ''PMU_PERICLKCLR0_DSPI1_CLK_HS'' 27
    0x8000000 1 0x1 0x68, Field ''PMU_PERICLKCLR0_DSPS0_CLK'' 28 0x10000000 1 0x1 0x68, Field
    ''PMU_PERICLKCLR0_DSPS0_CLK_TIMER_HS'' 29 0x20000000 1 0x1 0x68]"

definition regdefs_15006 :: "reg_field list" where
  "regdefs_15006 = [
    Field ''PMU_PERICLKCLR0_DSWDP0_CLK'' 30 0x40000000 1 0x1 0x68, Field ''PMU_PERICLKCLR0_DTEMP0_CLK'' 31
    0x80000000 1 0x1 0x68, Field ''PMU_PERICLKSET1_DTIMEHS0_CLK_TIMER'' 0 0x1 1 0x0 0x6c, Field
    ''PMU_PERICLKSET1_DTIMEHS1_CLK_TIMER'' 1 0x2 1 0x0 0x6c, Field ''PMU_PERICLKSET1_DTIMELS0_CLK'' 2 0x4 1 0x0
    0x6c, Field ''PMU_PERICLKSET1_DTIMEUS0_CLK_TIMER'' 3 0x8 1 0x0 0x6c, Field ''PMU_PERICLKSET1_DTRNG0_CLK'' 4
    0x10 1 0x1 0x6c, Field ''PMU_PERICLKSET1_DUART0_CLK_TIMER'' 5 0x20 1 0x0 0x6c, Field
    ''PMU_PERICLKSET1_DUART1_CLK_TIMER'' 6 0x40 1 0x0 0x6c, Field ''PMU_PERICLKSET1_DUART2_CLK_TIMER'' 7 0x80 1
    0x0 0x6c, Field ''PMU_PERICLKSET1_DUSB0_CLK'' 8 0x100 1 0x1 0x6c, Field
    ''PMU_PERICLKSET1_DUSB0_CLK_TIMER_HS'' 9 0x200 1 0x1 0x6c, Field ''PMU_PERICLKSET1_DVOLT0_CLK'' 10 0x400 1
    0x1 0x6c, Field ''PMU_PERICLKSET1_DWATCHDOG0_CLK'' 11 0x800 1 0x1 0x6c, Field ''PMU_PERICLKSET1_DXO0_CLK''
    12 0x1000 1 0x1 0x6c, Field ''PMU_PERICLKSET1_DXO0_CLK_TIMER'' 13 0x2000 1 0x1 0x6c, Field
    ''PMU_PERICLKSET1_PERI_MASTER_MATRIX_CLK'' 14 0x4000 1 0x1 0x6c, Field ''PMU_PERICLKSET1_PERI_MATRIX_CLK''
    15 0x8000 1 0x1 0x6c]"

definition regdefs_15096 :: "reg_field list" where
  "regdefs_15096 = [
    Field ''PMU_PERICLKCLR1_DTIMEHS0_CLK_TIMER'' 0 0x1 1 0x0 0x70, Field ''PMU_PERICLKCLR1_DTIMEHS1_CLK_TIMER''
    1 0x2 1 0x0 0x70, Field ''PMU_PERICLKCLR1_DTIMELS0_CLK'' 2 0x4 1 0x0 0x70, Field
    ''PMU_PERICLKCLR1_DTIMEUS0_CLK_TIMER'' 3 0x8 1 0x0 0x70, Field ''PMU_PERICLKCLR1_DTRNG0_CLK'' 4 0x10 1 0x1
    0x70, Field ''PMU_PERICLKCLR1_DUART0_CLK_TIMER'' 5 0x20 1 0x0 0x70, Field
    ''PMU_PERICLKCLR1_DUART1_CLK_TIMER'' 6 0x40 1 0x0 0x70, Field ''PMU_PERICLKCLR1_DUART2_CLK_TIMER'' 7 0x80 1
    0x0 0x70, Field ''PMU_PERICLKCLR1_DUSB0_CLK'' 8 0x100 1 0x1 0x70, Field
    ''PMU_PERICLKCLR1_DUSB0_CLK_TIMER_HS'' 9 0x200 1 0x1 0x70, Field ''PMU_PERICLKCLR1_DVOLT0_CLK'' 10 0x400 1
    0x1 0x70, Field ''PMU_PERICLKCLR1_DWATCHDOG0_CLK'' 11 0x800 1 0x1 0x70, Field ''PMU_PERICLKCLR1_DXO0_CLK''
    12 0x1000 1 0x1 0x70, Field ''PMU_PERICLKCLR1_DXO0_CLK_TIMER'' 13 0x2000 1 0x1 0x70, Field
    ''PMU_PERICLKCLR1_PERI_MASTER_MATRIX_CLK'' 14 0x4000 1 0x1 0x70, Field ''PMU_PERICLKCLR1_PERI_MATRIX_CLK''
    15 0x8000 1 0x1 0x70]"

definition regdefs_15176 :: "reg_field list" where
  "regdefs_15176 = [
    Field ''PMU_CLK_RO_MASK0_DCAMO0_CLK'' 0 0x1 1 0x1 0x74, Field ''PMU_CLK_RO_MASK0_DCRYPTO0_CLK'' 1 0x2 1 0x0
    0x74, Field ''PMU_CLK_RO_MASK0_DDMA0_CLK'' 2 0x4 1 0x0 0x74, Field ''PMU_CLK_RO_MASK0_DFLASH0_CLK'' 3 0x8 1
    0x0 0x74, Field ''PMU_CLK_RO_MASK0_DFUSE0_CLK'' 4 0x10 1 0x0 0x74, Field ''PMU_CLK_RO_MASK0_DGLOBALSEC_CLK''
    5 0x20 1 0x1 0x74, Field ''PMU_CLK_RO_MASK0_DGLOBALSEC_CLK_TIMER'' 6 0x40 1 0x1 0x74, Field
    ''PMU_CLK_RO_MASK0_DGLOBALSEC_CLK_HS'' 7 0x80 1 0x1 0x74, Field ''PMU_CLK_RO_MASK0_DGPIO0_CLK'' 8 0x100 1
    0x0 0x74, Field ''PMU_CLK_RO_MASK0_DGPIO1_CLK'' 9 0x200 1 0x0 0x74, Field
    ''PMU_CLK_RO_MASK0_DI2C0_CLK_TIMER'' 10 0x400 1 0x0 0x74, Field ''PMU_CLK_RO_MASK0_DI2C1_CLK_TIMER'' 11
    0x800 1 0x0 0x74, Field ''PMU_CLK_RO_MASK0_DI2CS0_CLK'' 12 0x1000 1 0x0 0x74, Field
    ''PMU_CLK_RO_MASK0_DKEYMGR0_CLK'' 13 0x2000 1 0x0 0x74, Field ''PMU_CLK_RO_MASK0_DPERI_APB0_CLK'' 14 0x4000
    1 0x1 0x74, Field ''PMU_CLK_RO_MASK0_DPERI_APB1_CLK'' 15 0x8000 1 0x1 0x74, Field
    ''PMU_CLK_RO_MASK0_DPERI_APB2_CLK'' 16 0x10000 1 0x1 0x74, Field ''PMU_CLK_RO_MASK0_DPERI_APB2_CLK_TIMER''
    17 0x20000 1 0x1 0x74, Field ''PMU_CLK_RO_MASK0_DPERI_APB3_CLK'' 18 0x40000 1 0x1 0x74, Field
    ''PMU_CLK_RO_MASK0_DPERI_APB3_CLK_HS'' 19 0x80000 1 0x1 0x74, Field ''PMU_CLK_RO_MASK0_DPINMUX_CLK'' 20
    0x100000 1 0x0 0x74, Field ''PMU_CLK_RO_MASK0_DPMU_CLK'' 21 0x200000 1 0x0 0x74, Field
    ''PMU_CLK_RO_MASK0_DRBOX0_CLK'' 22 0x400000 1 0x0 0x74, Field ''PMU_CLK_RO_MASK0_DRDD0_CLK'' 23 0x800000 1
    0x0 0x74, Field ''PMU_CLK_RO_MASK0_DRTC0_CLK'' 24 0x1000000 1 0x0 0x74, Field
    ''PMU_CLK_RO_MASK0_DRTC0_CLK_TIMER'' 25 0x2000000 1 0x0 0x74, Field ''PMU_CLK_RO_MASK0_DSPI0_CLK_HS'' 26
    0x4000000 1 0x0 0x74, Field ''PMU_CLK_RO_MASK0_DSPI1_CLK_HS'' 27 0x8000000 1 0x0 0x74, Field
    ''PMU_CLK_RO_MASK0_DSPS0_CLK'' 28 0x10000000 1 0x0 0x74, Field ''PMU_CLK_RO_MASK0_DSPS0_CLK_TIMER_HS'' 29
    0x20000000 1 0x0 0x74]"

definition regdefs_15326 :: "reg_field list" where
  "regdefs_15326 = [
    Field ''PMU_CLK_RO_MASK0_DSWDP0_CLK'' 30 0x40000000 1 0x0 0x74, Field ''PMU_CLK_RO_MASK0_DTEMP0_CLK'' 31
    0x80000000 1 0x1 0x74, Field ''PMU_CLK_RO_MASK1_DTIMEHS0_CLK_TIMER'' 0 0x1 1 0x0 0x78, Field
    ''PMU_CLK_RO_MASK1_DTIMEHS1_CLK_TIMER'' 1 0x2 1 0x0 0x78, Field ''PMU_CLK_RO_MASK1_DTIMELS0_CLK'' 2 0x4 1
    0x0 0x78, Field ''PMU_CLK_RO_MASK1_DTIMEUS0_CLK_TIMER'' 3 0x8 1 0x0 0x78, Field
    ''PMU_CLK_RO_MASK1_DTRNG0_CLK'' 4 0x10 1 0x0 0x78, Field ''PMU_CLK_RO_MASK1_DUART0_CLK_TIMER'' 5 0x20 1 0x0
    0x78, Field ''PMU_CLK_RO_MASK1_DUART1_CLK_TIMER'' 6 0x40 1 0x0 0x78, Field
    ''PMU_CLK_RO_MASK1_DUART2_CLK_TIMER'' 7 0x80 1 0x0 0x78, Field ''PMU_CLK_RO_MASK1_DUSB0_CLK'' 8 0x100 1 0x0
    0x78, Field ''PMU_CLK_RO_MASK1_DUSB0_CLK_TIMER_HS'' 9 0x200 1 0x0 0x78, Field
    ''PMU_CLK_RO_MASK1_DVOLT0_CLK'' 10 0x400 1 0x1 0x78, Field ''PMU_CLK_RO_MASK1_DWATCHDOG0_CLK'' 11 0x800 1
    0x1 0x78, Field ''PMU_CLK_RO_MASK1_DXO0_CLK'' 12 0x1000 1 0x0 0x78, Field
    ''PMU_CLK_RO_MASK1_DXO0_CLK_TIMER'' 13 0x2000 1 0x0 0x78, Field ''PMU_CLK_RO_MASK1_PERI_MASTER_MATRIX_CLK''
    14 0x4000 1 0x1 0x78, Field ''PMU_CLK_RO_MASK1_PERI_MATRIX_CLK'' 15 0x8000 1 0x1 0x78]"

definition regdefs_15416 :: "reg_field list" where
  "regdefs_15416 = [
    Field ''PMU_PERIGATEONSLEEPSET0_DCAMO0_CLK'' 0 0x1 1 0x0 0x7c, Field
    ''PMU_PERIGATEONSLEEPSET0_DCRYPTO0_CLK'' 1 0x2 1 0x0 0x7c, Field ''PMU_PERIGATEONSLEEPSET0_DDMA0_CLK'' 2 0x4
    1 0x0 0x7c, Field ''PMU_PERIGATEONSLEEPSET0_DFLASH0_CLK'' 3 0x8 1 0x0 0x7c, Field
    ''PMU_PERIGATEONSLEEPSET0_DFUSE0_CLK'' 4 0x10 1 0x0 0x7c, Field ''PMU_PERIGATEONSLEEPSET0_DGLOBALSEC_CLK'' 5
    0x20 1 0x0 0x7c, Field ''PMU_PERIGATEONSLEEPSET0_DGLOBALSEC_CLK_TIMER'' 6 0x40 1 0x0 0x7c, Field
    ''PMU_PERIGATEONSLEEPSET0_DGLOBALSEC_CLK_HS'' 7 0x80 1 0x0 0x7c, Field
    ''PMU_PERIGATEONSLEEPSET0_DGPIO0_CLK'' 8 0x100 1 0x0 0x7c, Field ''PMU_PERIGATEONSLEEPSET0_DGPIO1_CLK'' 9
    0x200 1 0x0 0x7c, Field ''PMU_PERIGATEONSLEEPSET0_DI2C0_CLK_TIMER'' 10 0x400 1 0x0 0x7c, Field
    ''PMU_PERIGATEONSLEEPSET0_DI2C1_CLK_TIMER'' 11 0x800 1 0x0 0x7c, Field
    ''PMU_PERIGATEONSLEEPSET0_DI2CS0_CLK'' 12 0x1000 1 0x0 0x7c, Field ''PMU_PERIGATEONSLEEPSET0_DKEYMGR0_CLK''
    13 0x2000 1 0x0 0x7c, Field ''PMU_PERIGATEONSLEEPSET0_DPERI_APB0_CLK'' 14 0x4000 1 0x0 0x7c, Field
    ''PMU_PERIGATEONSLEEPSET0_DPERI_APB1_CLK'' 15 0x8000 1 0x0 0x7c, Field
    ''PMU_PERIGATEONSLEEPSET0_DPERI_APB2_CLK'' 16 0x10000 1 0x0 0x7c, Field
    ''PMU_PERIGATEONSLEEPSET0_DPERI_APB2_CLK_TIMER'' 17 0x20000 1 0x0 0x7c, Field
    ''PMU_PERIGATEONSLEEPSET0_DPERI_APB3_CLK'' 18 0x40000 1 0x0 0x7c, Field
    ''PMU_PERIGATEONSLEEPSET0_DPERI_APB3_CLK_HS'' 19 0x80000 1 0x0 0x7c, Field
    ''PMU_PERIGATEONSLEEPSET0_DPINMUX_CLK'' 20 0x100000 1 0x0 0x7c, Field ''PMU_PERIGATEONSLEEPSET0_DPMU_CLK''
    21 0x200000 1 0x0 0x7c, Field ''PMU_PERIGATEONSLEEPSET0_DRBOX0_CLK'' 22 0x400000 1 0x0 0x7c, Field
    ''PMU_PERIGATEONSLEEPSET0_DRDD0_CLK'' 23 0x800000 1 0x0 0x7c, Field ''PMU_PERIGATEONSLEEPSET0_DRTC0_CLK'' 24
    0x1000000 1 0x0 0x7c, Field ''PMU_PERIGATEONSLEEPSET0_DRTC0_CLK_TIMER'' 25 0x2000000 1 0x0 0x7c, Field
    ''PMU_PERIGATEONSLEEPSET0_DSPI0_CLK_HS'' 26 0x4000000 1 0x0 0x7c, Field
    ''PMU_PERIGATEONSLEEPSET0_DSPI1_CLK_HS'' 27 0x8000000 1 0x0 0x7c, Field
    ''PMU_PERIGATEONSLEEPSET0_DSPS0_CLK'' 28 0x10000000 1 0x0 0x7c, Field
    ''PMU_PERIGATEONSLEEPSET0_DSPS0_CLK_TIMER_HS'' 29 0x20000000 1 0x0 0x7c]"

definition regdefs_15566 :: "reg_field list" where
  "regdefs_15566 = [
    Field ''PMU_PERIGATEONSLEEPSET0_DSWDP0_CLK'' 30 0x40000000 1 0x0 0x7c, Field
    ''PMU_PERIGATEONSLEEPSET0_DTEMP0_CLK'' 31 0x80000000 1 0x0 0x7c]"

definition regdefs_15576 :: "reg_field list" where
  "regdefs_15576 = [
    Field ''PMU_PERIGATEONSLEEPCLR0_DCAMO0_CLK'' 0 0x1 1 0x0 0x80, Field
    ''PMU_PERIGATEONSLEEPCLR0_DCRYPTO0_CLK'' 1 0x2 1 0x0 0x80, Field ''PMU_PERIGATEONSLEEPCLR0_DDMA0_CLK'' 2 0x4
    1 0x0 0x80, Field ''PMU_PERIGATEONSLEEPCLR0_DFLASH0_CLK'' 3 0x8 1 0x0 0x80, Field
    ''PMU_PERIGATEONSLEEPCLR0_DFUSE0_CLK'' 4 0x10 1 0x0 0x80, Field ''PMU_PERIGATEONSLEEPCLR0_DGLOBALSEC_CLK'' 5
    0x20 1 0x0 0x80, Field ''PMU_PERIGATEONSLEEPCLR0_DGLOBALSEC_CLK_TIMER'' 6 0x40 1 0x0 0x80, Field
    ''PMU_PERIGATEONSLEEPCLR0_DGLOBALSEC_CLK_HS'' 7 0x80 1 0x0 0x80, Field
    ''PMU_PERIGATEONSLEEPCLR0_DGPIO0_CLK'' 8 0x100 1 0x0 0x80, Field ''PMU_PERIGATEONSLEEPCLR0_DGPIO1_CLK'' 9
    0x200 1 0x0 0x80, Field ''PMU_PERIGATEONSLEEPCLR0_DI2C0_CLK_TIMER'' 10 0x400 1 0x0 0x80, Field
    ''PMU_PERIGATEONSLEEPCLR0_DI2C1_CLK_TIMER'' 11 0x800 1 0x0 0x80, Field
    ''PMU_PERIGATEONSLEEPCLR0_DI2CS0_CLK'' 12 0x1000 1 0x0 0x80, Field ''PMU_PERIGATEONSLEEPCLR0_DKEYMGR0_CLK''
    13 0x2000 1 0x0 0x80, Field ''PMU_PERIGATEONSLEEPCLR0_DPERI_APB0_CLK'' 14 0x4000 1 0x0 0x80, Field
    ''PMU_PERIGATEONSLEEPCLR0_DPERI_APB1_CLK'' 15 0x8000 1 0x0 0x80, Field
    ''PMU_PERIGATEONSLEEPCLR0_DPERI_APB2_CLK'' 16 0x10000 1 0x0 0x80, Field
    ''PMU_PERIGATEONSLEEPCLR0_DPERI_APB2_CLK_TIMER'' 17 0x20000 1 0x0 0x80, Field
    ''PMU_PERIGATEONSLEEPCLR0_DPERI_APB3_CLK'' 18 0x40000 1 0x0 0x80, Field
    ''PMU_PERIGATEONSLEEPCLR0_DPERI_APB3_CLK_HS'' 19 0x80000 1 0x0 0x80, Field
    ''PMU_PERIGATEONSLEEPCLR0_DPINMUX_CLK'' 20 0x100000 1 0x0 0x80, Field ''PMU_PERIGATEONSLEEPCLR0_DPMU_CLK''
    21 0x200000 1 0x0 0x80, Field ''PMU_PERIGATEONSLEEPCLR0_DRBOX0_CLK'' 22 0x400000 1 0x0 0x80, Field
    ''PMU_PERIGATEONSLEEPCLR0_DRDD0_CLK'' 23 0x800000 1 0x0 0x80, Field ''PMU_PERIGATEONSLEEPCLR0_DRTC0_CLK'' 24
    0x1000000 1 0x0 0x80, Field ''PMU_PERIGATEONSLEEPCLR0_DRTC0_CLK_TIMER'' 25 0x2000000 1 0x0 0x80, Field
    ''PMU_PERIGATEONSLEEPCLR0_DSPI0_CLK_HS'' 26 0x4000000 1 0x0 0x80, Field
    ''PMU_PERIGATEONSLEEPCLR0_DSPI1_CLK_HS'' 27 0x8000000 1 0x0 0x80, Field
    ''PMU_PERIGATEONSLEEPCLR0_DSPS0_CLK'' 28 0x10000000 1 0x0 0x80, Field
    ''PMU_PERIGATEONSLEEPCLR0_DSPS0_CLK_TIMER_HS'' 29 0x20000000 1 0x0 0x80]"

definition regdefs_15726 :: "reg_field list" where
  "regdefs_15726 = [
    Field ''PMU_PERIGATEONSLEEPCLR0_DSWDP0_CLK'' 30 0x40000000 1 0x0 0x80, Field
    ''PMU_PERIGATEONSLEEPCLR0_DTEMP0_CLK'' 31 0x80000000 1 0x0 0x80, Field
    ''PMU_PERIGATEONSLEEPSET1_DTIMEHS0_CLK_TIMER'' 0 0x1 1 0x0 0x84, Field
    ''PMU_PERIGATEONSLEEPSET1_DTIMEHS1_CLK_TIMER'' 1 0x2 1 0x0 0x84, Field
    ''PMU_PERIGATEONSLEEPSET1_DTIMELS0_CLK'' 2 0x4 1 0x0 0x84, Field
    ''PMU_PERIGATEONSLEEPSET1_DTIMEUS0_CLK_TIMER'' 3 0x8 1 0x0 0x84, Field
    ''PMU_PERIGATEONSLEEPSET1_DTRNG0_CLK'' 4 0x10 1 0x0 0x84, Field ''PMU_PERIGATEONSLEEPSET1_DUART0_CLK_TIMER''
    5 0x20 1 0x0 0x84, Field ''PMU_PERIGATEONSLEEPSET1_DUART1_CLK_TIMER'' 6 0x40 1 0x0 0x84, Field
    ''PMU_PERIGATEONSLEEPSET1_DUART2_CLK_TIMER'' 7 0x80 1 0x0 0x84, Field ''PMU_PERIGATEONSLEEPSET1_DUSB0_CLK''
    8 0x100 1 0x0 0x84, Field ''PMU_PERIGATEONSLEEPSET1_DUSB0_CLK_TIMER_HS'' 9 0x200 1 0x0 0x84, Field
    ''PMU_PERIGATEONSLEEPSET1_DVOLT0_CLK'' 10 0x400 1 0x0 0x84, Field ''PMU_PERIGATEONSLEEPSET1_DWATCHDOG0_CLK''
    11 0x800 1 0x0 0x84, Field ''PMU_PERIGATEONSLEEPSET1_DXO0_CLK'' 12 0x1000 1 0x0 0x84, Field
    ''PMU_PERIGATEONSLEEPSET1_DXO0_CLK_TIMER'' 13 0x2000 1 0x0 0x84, Field
    ''PMU_PERIGATEONSLEEPSET1_PERI_MASTER_MATRIX_CLK'' 14 0x4000 1 0x0 0x84, Field
    ''PMU_PERIGATEONSLEEPSET1_PERI_MATRIX_CLK'' 15 0x8000 1 0x0 0x84]"

definition regdefs_15816 :: "reg_field list" where
  "regdefs_15816 = [
    Field ''PMU_PERIGATEONSLEEPCLR1_DTIMEHS0_CLK_TIMER'' 0 0x1 1 0x0 0x88, Field
    ''PMU_PERIGATEONSLEEPCLR1_DTIMEHS1_CLK_TIMER'' 1 0x2 1 0x0 0x88, Field
    ''PMU_PERIGATEONSLEEPCLR1_DTIMELS0_CLK'' 2 0x4 1 0x0 0x88, Field
    ''PMU_PERIGATEONSLEEPCLR1_DTIMEUS0_CLK_TIMER'' 3 0x8 1 0x0 0x88, Field
    ''PMU_PERIGATEONSLEEPCLR1_DTRNG0_CLK'' 4 0x10 1 0x0 0x88, Field ''PMU_PERIGATEONSLEEPCLR1_DUART0_CLK_TIMER''
    5 0x20 1 0x0 0x88, Field ''PMU_PERIGATEONSLEEPCLR1_DUART1_CLK_TIMER'' 6 0x40 1 0x0 0x88, Field
    ''PMU_PERIGATEONSLEEPCLR1_DUART2_CLK_TIMER'' 7 0x80 1 0x0 0x88, Field ''PMU_PERIGATEONSLEEPCLR1_DUSB0_CLK''
    8 0x100 1 0x0 0x88, Field ''PMU_PERIGATEONSLEEPCLR1_DUSB0_CLK_TIMER_HS'' 9 0x200 1 0x0 0x88, Field
    ''PMU_PERIGATEONSLEEPCLR1_DVOLT0_CLK'' 10 0x400 1 0x0 0x88, Field ''PMU_PERIGATEONSLEEPCLR1_DWATCHDOG0_CLK''
    11 0x800 1 0x0 0x88, Field ''PMU_PERIGATEONSLEEPCLR1_DXO0_CLK'' 12 0x1000 1 0x0 0x88, Field
    ''PMU_PERIGATEONSLEEPCLR1_DXO0_CLK_TIMER'' 13 0x2000 1 0x0 0x88, Field
    ''PMU_PERIGATEONSLEEPCLR1_PERI_MASTER_MATRIX_CLK'' 14 0x4000 1 0x0 0x88, Field
    ''PMU_PERIGATEONSLEEPCLR1_PERI_MATRIX_CLK'' 15 0x8000 1 0x0 0x88, Field ''PMU_CLK0_HCLKGATEEN'' 0 0x1 1 0x1
    0x8c, Field ''PMU_CLK0_DAPCLKGATEEN'' 1 0x2 1 0x1 0x8c, Field ''PMU_CLK0_TPIUGATEEN'' 2 0x4 1 0x1 0x8c,
    Field ''PMU_CLK0_FCLKEN'' 3 0x8 1 0x1 0x8c, Field ''PMU_CLK0_DAPCLKEN'' 4 0x10 1 0x1 0x8c, Field
    ''PMU_CLK0_TPIUCLKEN'' 5 0x20 1 0x0 0x8c, Field ''PMU_CLK0_TRACECLKEN'' 6 0x40 1 0x0 0x8c]"

definition regdefs_15931 :: "reg_field list" where
  "regdefs_15931 = [
    Field ''PMU_RST0_DCAMO0_AON'' 0 0x1 1 0x0 0x94, Field ''PMU_RST0_DCRYPTO0'' 1 0x2 1 0x0 0x94, Field
    ''PMU_RST0_DDMA0'' 2 0x4 1 0x0 0x94, Field ''PMU_RST0_DFLASH0'' 3 0x8 1 0x0 0x94, Field ''PMU_RST0_DFUSE0''
    4 0x10 1 0x0 0x94, Field ''PMU_RST0_DGLOBALSEC'' 5 0x20 1 0x0 0x94, Field ''PMU_RST0_DGLOBALSEC_CLK_TIMER''
    6 0x40 1 0x0 0x94, Field ''PMU_RST0_DGLOBALSEC_CLK_HS'' 7 0x80 1 0x0 0x94, Field ''PMU_RST0_DGPIO0'' 8 0x100
    1 0x0 0x94, Field ''PMU_RST0_DGPIO1'' 9 0x200 1 0x0 0x94, Field ''PMU_RST0_DI2C0_CLK_TIMER'' 10 0x400 1 0x0
    0x94, Field ''PMU_RST0_DI2C1_CLK_TIMER'' 11 0x800 1 0x0 0x94, Field ''PMU_RST0_DI2CS0'' 12 0x1000 1 0x0
    0x94, Field ''PMU_RST0_DKEYMGR0'' 13 0x2000 1 0x0 0x94, Field ''PMU_RST0_DPERI_APB0'' 14 0x4000 1 0x0 0x94,
    Field ''PMU_RST0_DPERI_APB1'' 15 0x8000 1 0x0 0x94, Field ''PMU_RST0_DPERI_APB2'' 16 0x10000 1 0x0 0x94,
    Field ''PMU_RST0_DPERI_APB2_CLK_TIMER'' 17 0x20000 1 0x0 0x94, Field ''PMU_RST0_DPERI_APB3'' 18 0x40000 1
    0x0 0x94, Field ''PMU_RST0_DPERI_APB3_CLK_HS'' 19 0x80000 1 0x0 0x94, Field ''PMU_RST0_DPINMUX_AON'' 20
    0x100000 1 0x0 0x94, Field ''PMU_RST0_DPMU_AON'' 21 0x200000 1 0x0 0x94, Field ''PMU_RST0_DRBOX0_AON'' 22
    0x400000 1 0x0 0x94, Field ''PMU_RST0_DRDD0_AON'' 23 0x800000 1 0x0 0x94, Field ''PMU_RST0_DRTC0_AON'' 24
    0x1000000 1 0x0 0x94, Field ''PMU_RST0_DRTC0_CLK_TIMER_AON'' 25 0x2000000 1 0x0 0x94, Field
    ''PMU_RST0_DSPI0_CLK_HS'' 26 0x4000000 1 0x0 0x94, Field ''PMU_RST0_DSPI1_CLK_HS'' 27 0x8000000 1 0x0 0x94,
    Field ''PMU_RST0_DSPS0'' 28 0x10000000 1 0x0 0x94, Field ''PMU_RST0_DSPS0_CLK_TIMER_HS'' 29 0x20000000 1 0x0
    0x94]"

definition regdefs_16081 :: "reg_field list" where
  "regdefs_16081 = [
    Field ''PMU_RST0_DSWDP0'' 30 0x40000000 1 0x0 0x94, Field ''PMU_RST0_DTEMP0'' 31 0x80000000 1 0x0 0x94,
    Field ''PMU_RST1_DTIMEHS0_CLK_TIMER'' 0 0x1 1 0x0 0x9c, Field ''PMU_RST1_DTIMEHS1_CLK_TIMER'' 1 0x2 1 0x0
    0x9c, Field ''PMU_RST1_DTIMELS0_AON'' 2 0x4 1 0x0 0x9c, Field ''PMU_RST1_DTIMEUS0_CLK_TIMER'' 3 0x8 1 0x0
    0x9c, Field ''PMU_RST1_DTRNG0'' 4 0x10 1 0x0 0x9c, Field ''PMU_RST1_DUART0_CLK_TIMER'' 5 0x20 1 0x0 0x9c,
    Field ''PMU_RST1_DUART1_CLK_TIMER'' 6 0x40 1 0x0 0x9c, Field ''PMU_RST1_DUART2_CLK_TIMER'' 7 0x80 1 0x0
    0x9c, Field ''PMU_RST1_DUSB0'' 8 0x100 1 0x0 0x9c, Field ''PMU_RST1_DUSB0_AON'' 9 0x200 1 0x0 0x9c, Field
    ''PMU_RST1_DUSB0_CLK_TIMER_HS'' 10 0x400 1 0x0 0x9c, Field ''PMU_RST1_DUSB0_CLK_TIMER_HS_AON'' 11 0x800 1
    0x0 0x9c, Field ''PMU_RST1_DVOLT0'' 12 0x1000 1 0x0 0x9c, Field ''PMU_RST1_DWATCHDOG0'' 13 0x2000 1 0x0
    0x9c, Field ''PMU_RST1_DXO0_AON'' 14 0x4000 1 0x0 0x9c, Field ''PMU_RST1_DXO0_CLK_TIMER_AON'' 15 0x8000 1
    0x0 0x9c, Field ''PMU_RST1_PERI_MASTER_MATRIX'' 16 0x10000 1 0x0 0x9c, Field ''PMU_RST1_PERI_MATRIX'' 17
    0x20000 1 0x0 0x9c, Field ''PMU_RST1_SEC_FABRIC'' 18 0x40000 1 0x0 0x9c, Field
    ''PMU_RST1_SEC_FABRIC_CLK_TIMER'' 19 0x80000 1 0x0 0x9c, Field ''PMU_RST1_SEC_FABRIC_CLK_HS'' 20 0x100000 1
    0x0 0x9c, Field ''PMU_LONG_LIFE_SCRATCH_WR_EN_REG0'' 0 0x1 1 0x0 0x128, Field
    ''PMU_LONG_LIFE_SCRATCH_WR_EN_REG1'' 1 0x2 1 0x0 0x128, Field ''PMU_LONG_LIFE_SCRATCH_WR_EN_REG2'' 2 0x4 1
    0x0 0x128, Field ''PMU_LONG_LIFE_SCRATCH_WR_EN_REG3'' 3 0x8 1 0x0 0x128, Field
    ''PMU_INT_ENABLE_INTR_WAKEUP'' 0 0x1 1 0x0 0x13c, Field ''PMU_INT_STATE_INTR_WAKEUP'' 0 0x1 1 0x0 0x140,
    Field ''PMU_INT_TEST_INTR_WAKEUP'' 0 0x1 1 0x0 0x144]"

definition regdefs_16231 :: "reg_field list" where
  "regdefs_16231 = [
    Field ''PMU_ANTEST_TOP_CTRL_ATEST_PAD_ENB'' 0 0x1 1 0x1 0x1008, Field ''PMU_ANTEST_TOP_CTRL_ATEST_CLAMP_EN''
    1 0x2 1 0x1 0x1008, Field ''PMU_CHIP_ID_JTAG_STANDARD'' 0 0x1 1 0x1 0x1fff8, Field ''PMU_CHIP_ID_MFG_ID'' 1
    0xffe 11 0x4a6 0x1fff8, Field ''PMU_CHIP_ID_PART_NUM'' 12 0xffff000 16 0x4856 0x1fff8, Field
    ''PMU_CHIP_ID_REVISION'' 28 0xf0000000 4 0x1 0x1fff8, Field ''PMU_VERSION_CHANGE'' 0 0xffffff 24 0x11f6d
    0x1fffc, Field ''PMU_VERSION_REVISION'' 24 0xff000000 8 0x24 0x1fffc]"

definition regdefs_16271 :: "reg_field list" where
  "regdefs_16271 = [
    Field ''RBOX_INT_ENABLE_INTR_AC_PRESENT_RED'' 0 0x1 1 0x0 0x0, Field ''RBOX_INT_ENABLE_INTR_AC_PRESENT_FED''
    1 0x2 1 0x0 0x0, Field ''RBOX_INT_ENABLE_INTR_ENTERING_RW_RED'' 2 0x4 1 0x0 0x0, Field
    ''RBOX_INT_ENABLE_INTR_ENTERING_RW_FED'' 3 0x8 1 0x0 0x0, Field ''RBOX_INT_ENABLE_INTR_PWRB_IN_RED'' 4 0x10
    1 0x0 0x0, Field ''RBOX_INT_ENABLE_INTR_PWRB_IN_FED'' 5 0x20 1 0x0 0x0, Field
    ''RBOX_INT_ENABLE_INTR_KEY0_IN_RED'' 6 0x40 1 0x0 0x0, Field ''RBOX_INT_ENABLE_INTR_KEY0_IN_FED'' 7 0x80 1
    0x0 0x0, Field ''RBOX_INT_ENABLE_INTR_KEY1_IN_RED'' 8 0x100 1 0x0 0x0, Field
    ''RBOX_INT_ENABLE_INTR_KEY1_IN_FED'' 9 0x200 1 0x0 0x0, Field ''RBOX_INT_ENABLE_INTR_EC_RST_RED'' 10 0x400 1
    0x0 0x0, Field ''RBOX_INT_ENABLE_INTR_EC_RST_FED'' 11 0x800 1 0x0 0x0, Field
    ''RBOX_INT_ENABLE_INTR_BUTTON_COMBO0_RDY'' 12 0x1000 1 0x0 0x0, Field
    ''RBOX_INT_ENABLE_INTR_BUTTON_COMBO1_RDY'' 13 0x2000 1 0x0 0x0, Field
    ''RBOX_INT_ENABLE_INTR_BUTTON_COMBO2_RDY'' 14 0x4000 1 0x0 0x0, Field ''RBOX_INT_STATE_INTR_AC_PRESENT_RED''
    0 0x1 1 0x0 0x4, Field ''RBOX_INT_STATE_INTR_AC_PRESENT_FED'' 1 0x2 1 0x0 0x4, Field
    ''RBOX_INT_STATE_INTR_ENTERING_RW_RED'' 2 0x4 1 0x0 0x4, Field ''RBOX_INT_STATE_INTR_ENTERING_RW_FED'' 3 0x8
    1 0x0 0x4, Field ''RBOX_INT_STATE_INTR_PWRB_IN_RED'' 4 0x10 1 0x0 0x4, Field
    ''RBOX_INT_STATE_INTR_PWRB_IN_FED'' 5 0x20 1 0x0 0x4, Field ''RBOX_INT_STATE_INTR_KEY0_IN_RED'' 6 0x40 1 0x0
    0x4, Field ''RBOX_INT_STATE_INTR_KEY0_IN_FED'' 7 0x80 1 0x0 0x4, Field ''RBOX_INT_STATE_INTR_KEY1_IN_RED'' 8
    0x100 1 0x0 0x4, Field ''RBOX_INT_STATE_INTR_KEY1_IN_FED'' 9 0x200 1 0x0 0x4, Field
    ''RBOX_INT_STATE_INTR_EC_RST_RED'' 10 0x400 1 0x0 0x4, Field ''RBOX_INT_STATE_INTR_EC_RST_FED'' 11 0x800 1
    0x0 0x4, Field ''RBOX_INT_STATE_INTR_BUTTON_COMBO0_RDY'' 12 0x1000 1 0x0 0x4, Field
    ''RBOX_INT_STATE_INTR_BUTTON_COMBO1_RDY'' 13 0x2000 1 0x0 0x4, Field
    ''RBOX_INT_STATE_INTR_BUTTON_COMBO2_RDY'' 14 0x4000 1 0x0 0x4]"

definition regdefs_16421 :: "reg_field list" where
  "regdefs_16421 = [
    Field ''RBOX_INT_TEST_INTR_AC_PRESENT_RED'' 0 0x1 1 0x0 0x8, Field ''RBOX_INT_TEST_INTR_AC_PRESENT_FED'' 1
    0x2 1 0x0 0x8, Field ''RBOX_INT_TEST_INTR_ENTERING_RW_RED'' 2 0x4 1 0x0 0x8, Field
    ''RBOX_INT_TEST_INTR_ENTERING_RW_FED'' 3 0x8 1 0x0 0x8, Field ''RBOX_INT_TEST_INTR_PWRB_IN_RED'' 4 0x10 1
    0x0 0x8, Field ''RBOX_INT_TEST_INTR_PWRB_IN_FED'' 5 0x20 1 0x0 0x8, Field ''RBOX_INT_TEST_INTR_KEY0_IN_RED''
    6 0x40 1 0x0 0x8, Field ''RBOX_INT_TEST_INTR_KEY0_IN_FED'' 7 0x80 1 0x0 0x8, Field
    ''RBOX_INT_TEST_INTR_KEY1_IN_RED'' 8 0x100 1 0x0 0x8, Field ''RBOX_INT_TEST_INTR_KEY1_IN_FED'' 9 0x200 1 0x0
    0x8, Field ''RBOX_INT_TEST_INTR_EC_RST_RED'' 10 0x400 1 0x0 0x8, Field ''RBOX_INT_TEST_INTR_EC_RST_FED'' 11
    0x800 1 0x0 0x8, Field ''RBOX_INT_TEST_INTR_BUTTON_COMBO0_RDY'' 12 0x1000 1 0x0 0x8, Field
    ''RBOX_INT_TEST_INTR_BUTTON_COMBO1_RDY'' 13 0x2000 1 0x0 0x8, Field ''RBOX_INT_TEST_INTR_BUTTON_COMBO2_RDY''
    14 0x4000 1 0x0 0x8, Field ''RBOX_OVERRIDE_OUTPUT_EN'' 0 0x7f 7 0x0 0x14, Field ''RBOX_OVERRIDE_OUTPUT_VAL''
    7 0x3f80 7 0x5d 0x14, Field ''RBOX_OVERRIDE_OUTPUT_OEN'' 14 0x1fc000 7 0x0 0x14, Field
    ''RBOX_CHECK_INPUT_AC_PRESENT'' 0 0x1 1 0x0 0x18, Field ''RBOX_CHECK_INPUT_ENTERING_RW'' 1 0x2 1 0x0 0x18,
    Field ''RBOX_CHECK_INPUT_PWRB_IN'' 2 0x4 1 0x0 0x18, Field ''RBOX_CHECK_INPUT_KEY0_IN'' 3 0x8 1 0x0 0x18,
    Field ''RBOX_CHECK_INPUT_KEY1_IN'' 4 0x10 1 0x0 0x18, Field ''RBOX_CHECK_INPUT_EC_RST'' 5 0x20 1 0x0 0x18]"

definition regdefs_16541 :: "reg_field list" where
  "regdefs_16541 = [
    Field ''RBOX_CHECK_OUTPUT_BATT_DISABLE'' 0 0x1 1 0x0 0x1c, Field ''RBOX_CHECK_OUTPUT_EC_IN_RW'' 1 0x2 1 0x0
    0x1c, Field ''RBOX_CHECK_OUTPUT_PWRB_OUT'' 2 0x4 1 0x0 0x1c, Field ''RBOX_CHECK_OUTPUT_KEY0_OUT'' 3 0x8 1
    0x0 0x1c, Field ''RBOX_CHECK_OUTPUT_KEY1_OUT'' 4 0x10 1 0x0 0x1c, Field ''RBOX_CHECK_OUTPUT_EC_WP_L'' 5 0x20
    1 0x0 0x1c, Field ''RBOX_CHECK_OUTPUT_EC_RST'' 6 0x40 1 0x0 0x1c, Field ''RBOX_CHECK_OEN_BATT_DISABLE'' 0
    0x1 1 0x0 0x20, Field ''RBOX_CHECK_OEN_EC_IN_RW'' 1 0x2 1 0x0 0x20, Field ''RBOX_CHECK_OEN_PWRB_OUT'' 2 0x4
    1 0x0 0x20, Field ''RBOX_CHECK_OEN_KEY0_OUT'' 3 0x8 1 0x0 0x20, Field ''RBOX_CHECK_OEN_KEY1_OUT'' 4 0x10 1
    0x0 0x20, Field ''RBOX_CHECK_OEN_EC_WP_L'' 5 0x20 1 0x0 0x20, Field ''RBOX_CHECK_OEN_EC_RST'' 6 0x40 1 0x0
    0x20]"

definition regdefs_16611 :: "reg_field list" where
  "regdefs_16611 = [
    Field ''RBOX_CHECK_TERM_PU_AC_PRESENT'' 0 0x1 1 0x0 0x24, Field ''RBOX_CHECK_TERM_PD_AC_PRESENT'' 1 0x2 1
    0x0 0x24, Field ''RBOX_CHECK_TERM_PU_ENTERING_RW'' 2 0x4 1 0x0 0x24, Field
    ''RBOX_CHECK_TERM_PD_ENTERING_RW'' 3 0x8 1 0x0 0x24, Field ''RBOX_CHECK_TERM_PU_PWRB_IN'' 4 0x10 1 0x0 0x24,
    Field ''RBOX_CHECK_TERM_PD_PWRB_IN'' 5 0x20 1 0x0 0x24, Field ''RBOX_CHECK_TERM_PU_KEY0_IN'' 6 0x40 1 0x0
    0x24, Field ''RBOX_CHECK_TERM_PD_KEY0_IN'' 7 0x80 1 0x0 0x24, Field ''RBOX_CHECK_TERM_PU_KEY1_IN'' 8 0x100 1
    0x0 0x24, Field ''RBOX_CHECK_TERM_PD_KEY1_IN'' 9 0x200 1 0x0 0x24, Field ''RBOX_CHECK_TERM_PU_EC_RST'' 10
    0x400 1 0x0 0x24, Field ''RBOX_CHECK_TERM_PD_EC_RST'' 11 0x800 1 0x0 0x24, Field
    ''RBOX_CHECK_TERM_PU_BATT_DISABLE'' 12 0x1000 1 0x0 0x24, Field ''RBOX_CHECK_TERM_PD_BATT_DISABLE'' 13
    0x2000 1 0x0 0x24, Field ''RBOX_CHECK_TERM_PU_EC_IN_RW'' 14 0x4000 1 0x0 0x24, Field
    ''RBOX_CHECK_TERM_PD_EC_IN_RW'' 15 0x8000 1 0x0 0x24, Field ''RBOX_CHECK_TERM_PU_PWRB_OUT'' 16 0x10000 1 0x0
    0x24, Field ''RBOX_CHECK_TERM_PD_PWRB_OUT'' 17 0x20000 1 0x0 0x24, Field ''RBOX_CHECK_TERM_PU_KEY0_OUT'' 18
    0x40000 1 0x0 0x24, Field ''RBOX_CHECK_TERM_PD_KEY0_OUT'' 19 0x80000 1 0x0 0x24, Field
    ''RBOX_CHECK_TERM_PU_KEY1_OUT'' 20 0x100000 1 0x0 0x24, Field ''RBOX_CHECK_TERM_PD_KEY1_OUT'' 21 0x200000 1
    0x0 0x24, Field ''RBOX_CHECK_TERM_PU_EC_WP_L'' 22 0x400000 1 0x0 0x24, Field ''RBOX_CHECK_TERM_PD_EC_WP_L''
    23 0x800000 1 0x0 0x24, Field ''RBOX_STATUS_FUSE_READY'' 0 0x1 1 0x0 0x28, Field
    ''RBOX_STATUS_DISABLE_FUSE_OVERRIDE'' 1 0x2 1 0x0 0x28, Field ''RBOX_STATUS_DISABLE_OUTPUT_OVERRIDE'' 2
    0x1fc 7 0x0 0x28]"

definition regdefs_16746 :: "reg_field list" where
  "regdefs_16746 = [
    Field ''RBOX_FUSE_CTRL_OVERRIDE_FUSE'' 0 0x1 1 0x0 0x2c, Field ''RBOX_FUSE_CTRL_OVERRIDE_FUSE_READY'' 1 0x2
    1 0x0 0x2c, Field ''RBOX_FUSE_CTRL_USE_SILEGO'' 2 0x4 1 0x0 0x2c, Field ''RBOX_FUSE_CTRL_SILEGO_CHOICE'' 3
    0x8 1 0x0 0x2c, Field ''RBOX_DEBUG_DEBOUNCE_PERIOD'' 0 0xffff 16 0x0 0x30, Field
    ''RBOX_DEBUG_DEBOUNCE_BYPASS_PWRB'' 16 0x10000 1 0x1 0x30, Field ''RBOX_DEBUG_DEBOUNCE_BYPASS_KEY0'' 17
    0x20000 1 0x1 0x30, Field ''RBOX_DEBUG_DEBOUNCE_BYPASS_KEY1'' 18 0x40000 1 0x1 0x30, Field
    ''RBOX_DEBUG_KEY_COMBO0_VAL'' 0 0xff 8 0xc0 0x34, Field ''RBOX_DEBUG_KEY_COMBO0_HOLD'' 8 0xff00 8 0x0 0x34,
    Field ''RBOX_DEBUG_KEY_COMBO1_VAL'' 0 0xff 8 0x0 0x38, Field ''RBOX_DEBUG_KEY_COMBO1_HOLD'' 8 0xff00 8 0x0
    0x38, Field ''RBOX_DEBUG_KEY_COMBO2_VAL'' 0 0xff 8 0x0 0x3c, Field ''RBOX_DEBUG_KEY_COMBO2_HOLD'' 8 0xff00 8
    0x0 0x3c, Field ''RBOX_DEBUG_BLOCK_OUTPUT_KEY0_SEL'' 0 0x1 1 0x0 0x40, Field
    ''RBOX_DEBUG_BLOCK_OUTPUT_KEY1_SEL'' 1 0x2 1 0x0 0x40, Field ''RBOX_DEBUG_BLOCK_OUTPUT_KEY0_VAL'' 2 0x4 1
    0x0 0x40, Field ''RBOX_DEBUG_BLOCK_OUTPUT_KEY1_VAL'' 3 0x8 1 0x0 0x40, Field ''RBOX_DEBUG_POL_AC_PRESENT'' 0
    0x1 1 0x1 0x44, Field ''RBOX_DEBUG_POL_PWRB_IN'' 1 0x2 1 0x0 0x44, Field ''RBOX_DEBUG_POL_PWRB_OUT'' 2 0x4 1
    0x0 0x44, Field ''RBOX_DEBUG_POL_KEY0_IN'' 3 0x8 1 0x0 0x44, Field ''RBOX_DEBUG_POL_KEY0_OUT'' 4 0x10 1 0x0
    0x44, Field ''RBOX_DEBUG_POL_KEY1_IN'' 5 0x20 1 0x0 0x44, Field ''RBOX_DEBUG_POL_KEY1_OUT'' 6 0x40 1 0x0
    0x44, Field ''RBOX_DEBUG_POL_EC_RST'' 7 0x80 1 0x0 0x44, Field ''RBOX_DEBUG_POL_BATT_DISABLE'' 8 0x100 1 0x0
    0x44]"

definition regdefs_16881 :: "reg_field list" where
  "regdefs_16881 = [
    Field ''RBOX_DEBUG_TERM_AC_PRESENT'' 0 0x3 2 0x0 0x48, Field ''RBOX_DEBUG_TERM_ENTERING_RW'' 2 0xc 2 0x0
    0x48, Field ''RBOX_DEBUG_TERM_PWRB_IN'' 4 0x30 2 0x0 0x48, Field ''RBOX_DEBUG_TERM_PWRB_OUT'' 6 0xc0 2 0x0
    0x48, Field ''RBOX_DEBUG_TERM_KEY0_IN'' 8 0x300 2 0x0 0x48, Field ''RBOX_DEBUG_TERM_KEY0_OUT'' 10 0xc00 2
    0x0 0x48, Field ''RBOX_DEBUG_TERM_KEY1_IN'' 12 0x3000 2 0x0 0x48, Field ''RBOX_DEBUG_TERM_KEY1_OUT'' 14
    0xc000 2 0x0 0x48, Field ''RBOX_DEBUG_DRIVE_PWRB_OUT'' 0 0x3 2 0x3 0x4c, Field ''RBOX_DEBUG_DRIVE_KEY0_OUT''
    2 0xc 2 0x3 0x4c, Field ''RBOX_DEBUG_DRIVE_KEY1_OUT'' 4 0x30 2 0x3 0x4c, Field ''RBOX_DEBUG_DRIVE_EC_RST'' 6
    0xc0 2 0x1 0x4c, Field ''RBOX_DEBUG_DRIVE_BATT_DISABLE'' 8 0x300 2 0x1 0x4c, Field
    ''RBOX_CONFIG_DEBOUNCE_PERIOD'' 0 0xffff 16 0x0 0x6c, Field ''RBOX_CONFIG_DEBOUNCE_BYPASS_PWRB'' 16 0x10000
    1 0x0 0x6c, Field ''RBOX_CONFIG_DEBOUNCE_BYPASS_KEY0'' 17 0x20000 1 0x0 0x6c, Field
    ''RBOX_CONFIG_DEBOUNCE_BYPASS_KEY1'' 18 0x40000 1 0x0 0x6c, Field ''RBOX_CONFIG_KEY_COMBO0_VAL'' 0 0xff 8
    0x0 0x70, Field ''RBOX_CONFIG_KEY_COMBO0_HOLD'' 8 0xff00 8 0x0 0x70, Field ''RBOX_CONFIG_KEY_COMBO1_VAL'' 0
    0xff 8 0x0 0x74, Field ''RBOX_CONFIG_KEY_COMBO1_HOLD'' 8 0xff00 8 0x0 0x74, Field
    ''RBOX_CONFIG_KEY_COMBO2_VAL'' 0 0xff 8 0x0 0x78, Field ''RBOX_CONFIG_KEY_COMBO2_HOLD'' 8 0xff00 8 0x0 0x78,
    Field ''RBOX_CONFIG_BLOCK_OUTPUT_KEY0_SEL'' 0 0x1 1 0x0 0x7c, Field ''RBOX_CONFIG_BLOCK_OUTPUT_KEY1_SEL'' 1
    0x2 1 0x0 0x7c, Field ''RBOX_CONFIG_BLOCK_OUTPUT_KEY0_VAL'' 2 0x4 1 0x0 0x7c, Field
    ''RBOX_CONFIG_BLOCK_OUTPUT_KEY1_VAL'' 3 0x8 1 0x0 0x7c]"

definition regdefs_17016 :: "reg_field list" where
  "regdefs_17016 = [
    Field ''RBOX_CONFIG_POL_AC_PRESENT'' 0 0x1 1 0x1 0x80, Field ''RBOX_CONFIG_POL_PWRB_IN'' 1 0x2 1 0x0 0x80,
    Field ''RBOX_CONFIG_POL_PWRB_OUT'' 2 0x4 1 0x0 0x80, Field ''RBOX_CONFIG_POL_KEY0_IN'' 3 0x8 1 0x0 0x80,
    Field ''RBOX_CONFIG_POL_KEY0_OUT'' 4 0x10 1 0x0 0x80, Field ''RBOX_CONFIG_POL_KEY1_IN'' 5 0x20 1 0x0 0x80,
    Field ''RBOX_CONFIG_POL_KEY1_OUT'' 6 0x40 1 0x0 0x80, Field ''RBOX_CONFIG_POL_EC_RST'' 7 0x80 1 0x0 0x80,
    Field ''RBOX_CONFIG_POL_BATT_DISABLE'' 8 0x100 1 0x0 0x80, Field ''RBOX_CONFIG_TERM_AC_PRESENT'' 0 0x3 2 0x0
    0x84, Field ''RBOX_CONFIG_TERM_ENTERING_RW'' 2 0xc 2 0x0 0x84, Field ''RBOX_CONFIG_TERM_PWRB_IN'' 4 0x30 2
    0x0 0x84, Field ''RBOX_CONFIG_TERM_PWRB_OUT'' 6 0xc0 2 0x0 0x84, Field ''RBOX_CONFIG_TERM_KEY0_IN'' 8 0x300
    2 0x0 0x84, Field ''RBOX_CONFIG_TERM_KEY0_OUT'' 10 0xc00 2 0x0 0x84, Field ''RBOX_CONFIG_TERM_KEY1_IN'' 12
    0x3000 2 0x0 0x84, Field ''RBOX_CONFIG_TERM_KEY1_OUT'' 14 0xc000 2 0x0 0x84, Field
    ''RBOX_CONFIG_DRIVE_PWRB_OUT'' 0 0x3 2 0x0 0x88, Field ''RBOX_CONFIG_DRIVE_KEY0_OUT'' 2 0xc 2 0x0 0x88,
    Field ''RBOX_CONFIG_DRIVE_KEY1_OUT'' 4 0x30 2 0x0 0x88, Field ''RBOX_CONFIG_DRIVE_EC_RST'' 6 0xc0 2 0x0
    0x88, Field ''RBOX_CONFIG_DRIVE_BATT_DISABLE'' 8 0x300 2 0x0 0x88, Field ''RBOX_WAKEUP_ENABLE'' 0 0x1 1 0x0
    0x98, Field ''RBOX_WAKEUP_CLEAR'' 1 0x2 1 0x0 0x98, Field ''RBOX_WAKEUP_MASK'' 2 0x4 1 0x0 0x98]"

definition regdefs_17141 :: "reg_field list" where
  "regdefs_17141 = [
    Field ''RBOX_WAKEUP_INTR_AC_PRESENT_RED'' 0 0x1 1 0x0 0x9c, Field ''RBOX_WAKEUP_INTR_AC_PRESENT_FED'' 1 0x2
    1 0x0 0x9c, Field ''RBOX_WAKEUP_INTR_ENTERING_RW_RED'' 2 0x4 1 0x0 0x9c, Field
    ''RBOX_WAKEUP_INTR_ENTERING_RW_FED'' 3 0x8 1 0x0 0x9c, Field ''RBOX_WAKEUP_INTR_PWRB_IN_RED'' 4 0x10 1 0x0
    0x9c, Field ''RBOX_WAKEUP_INTR_PWRB_IN_FED'' 5 0x20 1 0x0 0x9c, Field ''RBOX_WAKEUP_INTR_KEY0_IN_RED'' 6
    0x40 1 0x0 0x9c, Field ''RBOX_WAKEUP_INTR_KEY0_IN_FED'' 7 0x80 1 0x0 0x9c, Field
    ''RBOX_WAKEUP_INTR_KEY1_IN_RED'' 8 0x100 1 0x0 0x9c, Field ''RBOX_WAKEUP_INTR_KEY1_IN_FED'' 9 0x200 1 0x0
    0x9c, Field ''RBOX_WAKEUP_INTR_EC_RST_RED'' 10 0x400 1 0x0 0x9c, Field ''RBOX_WAKEUP_INTR_EC_RST_FED'' 11
    0x800 1 0x0 0x9c, Field ''RBOX_WAKEUP_INTR_BUTTON_COMBO0_RDY'' 12 0x1000 1 0x0 0x9c, Field
    ''RBOX_WAKEUP_INTR_BUTTON_COMBO1_RDY'' 13 0x2000 1 0x0 0x9c, Field ''RBOX_WAKEUP_INTR_BUTTON_COMBO2_RDY'' 14
    0x4000 1 0x0 0x9c, Field ''RBOX_VERSION_CHANGE'' 0 0xffffff 24 0x14125 0xa0, Field ''RBOX_VERSION_REVISION''
    24 0xff000000 8 0x1 0xa0]"

section \<open>Tables\<close>

definition registers_I2C :: "register list" where
  "registers_I2C =
     registers_3232"

definition registers_I2CS :: "register list" where
  "registers_I2CS =
     registers_3300 @ registers_3380"

definition registers_KEYMGR :: "register list" where
  "registers_KEYMGR =
     registers_3390 @ registers_3470 @ registers_3550 @ registers_3630"

definition registers_PINMUX :: "register list" where
  "registers_PINMUX =
     registers_3652 @ registers_3732 @ registers_3812 @ registers_3892 @ registers_3972"

definition registers_PMU :: "register list" where
  "registers_PMU =
     registers_3982 @ registers_4063 @ registers_4143"

definition registers_RBOX :: "register list" where
  "registers_RBOX =
     registers_4161 @ registers_4241"

definition fields_I2C :: "reg_field list" where
  "fields_I2C =
     regdefs_11743 @ regdefs_11888 @ regdefs_11943 @ regdefs_12068 @ regdefs_12148 @ regdefs_12233"

definition fields_I2CS :: "reg_field list" where
  "fields_I2CS =
     regdefs_12353"

definition fields_KEYMGR :: "reg_field list" where
  "fields_KEYMGR =
     regdefs_12458 @ regdefs_12608 @ regdefs_12728 @ regdefs_12808 @ regdefs_12928"

definition fields_PINMUX :: "reg_field list" where
  "fields_PINMUX =
     regdefs_13058 @ regdefs_13208 @ regdefs_13358 @ regdefs_13508 @ regdefs_13658 @ regdefs_13808 @
     regdefs_13833 @ regdefs_13983 @ regdefs_14133"

definition fields_PMU :: "reg_field list" where
  "fields_PMU =
     regdefs_14283 @ regdefs_14413 @ regdefs_14561 @ regdefs_14696 @ regdefs_14846 @ regdefs_14856 @
     regdefs_15006 @ regdefs_15096 @ regdefs_15176 @ regdefs_15326 @ regdefs_15416 @ regdefs_15566 @
     regdefs_15576 @ regdefs_15726 @ regdefs_15816 @ regdefs_15931 @ regdefs_16081 @ regdefs_16231"

definition fields_RBOX :: "reg_field list" where
  "fields_RBOX =
     regdefs_16271 @ regdefs_16421 @ regdefs_16541 @ regdefs_16611 @ regdefs_16746 @ regdefs_16881 @
     regdefs_17016 @ regdefs_17141"

text \<open>
  Every table of fields is well-formed and sorted, and the fields are those of the registers.
\<close>

lemma scan_I2C_1:
  "list_all well_formed regdefs_11743" "scan 0 (map extent regdefs_11743) = Some 121"
  "list_all well_formed regdefs_11888" "scan 121 (map extent regdefs_11888) = Some 139"
  "list_all well_formed regdefs_11943" "scan 139 (map extent regdefs_11943) = Some 185"
  "list_all well_formed regdefs_12068" "scan 185 (map extent regdefs_12068) = Some 310"
  "list_all well_formed regdefs_12148" "scan 310 (map extent regdefs_12148) = Some 352"
  "list_all well_formed regdefs_12233" "scan 352 (map extent regdefs_12233) = Some 996"
  by (simp_all add:
    regdefs_11743_def regdefs_11888_def regdefs_11943_def regdefs_12068_def regdefs_12148_def
    regdefs_12233_def)

lemma fields_I2C_scan: "list_all well_formed fields_I2C" "scan 0 (map extent fields_I2C) = Some 996"
  unfolding fields_I2C_def
  by (simp_all only: map_append scan_append list_all_append option.case simp_thms
    scan_I2C_1)

lemma covered_I2C_1:
  "covered (map reset_key (registers_3232)) (map field_key regdefs_11743)"
  "covered (map reset_key (registers_3232)) (map field_key regdefs_11888)"
  "covered (map reset_key (registers_3232)) (map field_key regdefs_11943)"
  "covered (map reset_key (registers_3232)) (map field_key regdefs_12068)"
  "covered (map reset_key (registers_3232)) (map field_key regdefs_12148)"
  "covered (map reset_key (registers_3232)) (map field_key regdefs_12233)"
  by (simp_all add:
    registers_3232_def regdefs_11743_def regdefs_11888_def regdefs_11943_def regdefs_12068_def
    regdefs_12148_def regdefs_12233_def)

lemma registers_I2C_parts:
  "set registers_3232 \<subseteq> set registers_I2C"
  by (auto simp: registers_I2C_def)

lemma fields_I2C_registers: "list_all (has_register registers_I2C) fields_I2C"
  unfolding fields_I2C_def
  by (simp only: list_all_append set_append Un_subset_iff simp_thms registers_I2C_parts
    covered_I2C_1 [THEN covered_has])

lemma scan_I2CS_1:
  "list_all well_formed regdefs_12353" "scan 0 (map extent regdefs_12353) = Some 388"
  by (simp_all add:
    regdefs_12353_def)

lemma fields_I2CS_scan: "list_all well_formed fields_I2CS" "scan 0 (map extent fields_I2CS) = Some 388"
  unfolding fields_I2CS_def
  by (simp_all only: map_append scan_append list_all_append option.case simp_thms
    scan_I2CS_1)

lemma covered_I2CS_1:
  "covered (map reset_key (registers_3300)) (map field_key regdefs_12353)"
  by (simp_all add:
    registers_3300_def regdefs_12353_def)

lemma registers_I2CS_parts:
  "set registers_3300 \<subseteq> set registers_I2CS"
  "set registers_3380 \<subseteq> set registers_I2CS"
  by (auto simp: registers_I2CS_def)

lemma fields_I2CS_registers: "list_all (has_register registers_I2CS) fields_I2CS"
  unfolding fields_I2CS_def
  by (simp only: list_all_append set_append Un_subset_iff simp_thms registers_I2CS_parts
    covered_I2CS_1 [THEN covered_has])

lemma scan_KEYMGR_1:
  "list_all well_formed regdefs_12458" "scan 0 (map extent regdefs_12458) = Some 1601"
  "list_all well_formed regdefs_12608" "scan 1601 (map extent regdefs_12608) = Some 9443"
  "list_all well_formed regdefs_12728" "scan 9443 (map extent regdefs_12728) = Some 9568"
  "list_all well_formed regdefs_12808" "scan 9568 (map extent regdefs_12808) = Some 9616"
  "list_all well_formed regdefs_12928" "scan 9616 (map extent regdefs_12928) = Some 104804"
  by (simp_all add:
    regdefs_12458_def regdefs_12608_def regdefs_12728_def regdefs_12808_def regdefs_12928_def)

lemma fields_KEYMGR_scan: "list_all well_formed fields_KEYMGR" "scan 0 (map extent fields_KEYMGR) = Some 104804"
  unfolding fields_KEYMGR_def
  by (simp_all only: map_append scan_append list_all_append option.case simp_thms
    scan_KEYMGR_1)

lemma covered_KEYMGR_1:
  "covered (map reset_key (registers_3390 @ registers_3470)) (map field_key regdefs_12458)"
  "covered (map reset_key (registers_3470)) (map field_key regdefs_12608)"
  "covered (map reset_key (registers_3470)) (map field_key regdefs_12728)"
  "covered (map reset_key (registers_3470)) (map field_key regdefs_12808)"
  "covered (map reset_key (registers_3630)) (map field_key regdefs_12928)"
  by (simp_all add:
    registers_3390_def registers_3470_def registers_3630_def regdefs_12458_def regdefs_12608_def
    regdefs_12728_def regdefs_12808_def regdefs_12928_def)

lemma registers_KEYMGR_parts:
  "set registers_3390 \<subseteq> set registers_KEYMGR"
  "set registers_3470 \<subseteq> set registers_KEYMGR"
  "set registers_3550 \<subseteq> set registers_KEYMGR"
  "set registers_3630 \<subseteq> set registers_KEYMGR"
  by (auto simp: registers_KEYMGR_def)

lemma fields_KEYMGR_registers: "list_all (has_register registers_KEYMGR) fields_KEYMGR"
  unfolding fields_KEYMGR_def
  by (simp only: list_all_append set_append Un_subset_iff simp_thms registers_KEYMGR_parts
    covered_KEYMGR_1 [THEN covered_has])

lemma scan_PINMUX_1:
  "list_all well_formed regdefs_13058" "scan 0 (map extent regdefs_13058) = Some 358"
  "list_all well_formed regdefs_13208" "scan 358 (map extent regdefs_13208) = Some 742"
  "list_all well_formed regdefs_13358" "scan 742 (map extent regdefs_13358) = Some 1126"
  "list_all well_formed regdefs_13508" "scan 1126 (map extent regdefs_13508) = Some 1510"
  "list_all well_formed regdefs_13658" "scan 1510 (map extent regdefs_13658) = Some 1894"
  "list_all well_formed regdefs_13808" "scan 1894 (map extent regdefs_13808) = Some 1958"
  "list_all well_formed regdefs_13833" "scan 1958 (map extent regdefs_13833) = Some 5182"
  "list_all well_formed regdefs_13983" "scan 5182 (map extent regdefs_13983) = Some 5214"
  "list_all well_formed regdefs_14133" "scan 5214 (map extent regdefs_14133) = Some 5246"
  by (simp_all add:
    regdefs_13058_def regdefs_13208_def regdefs_13358_def regdefs_13508_def regdefs_13658_def
    regdefs_13808_def regdefs_13833_def regdefs_13983_def regdefs_14133_def)

lemma fields_PINMUX_scan: "list_all well_formed fields_PINMUX" "scan 0 (map extent fields_PINMUX) = Some 5246"
  unfolding fields_PINMUX_def
  by (simp_all only: map_append scan_append list_all_append option.case simp_thms
    scan_PINMUX_1)

lemma covered_PINMUX_1:
  "covered (map reset_key (registers_3652)) (map field_key regdefs_13058)"
  "covered (map reset_key (registers_3652)) (map field_key regdefs_13208)"
  "covered (map reset_key (registers_3652)) (map field_key regdefs_13358)"
  "covered (map reset_key (registers_3652 @ registers_3732)) (map field_key regdefs_13508)"
  "covered (map reset_key (registers_3732)) (map field_key regdefs_13658)"
  "covered (map reset_key (registers_3732)) (map field_key regdefs_13808)"
  by (simp_all add:
    registers_3652_def registers_3732_def regdefs_13058_def regdefs_13208_def regdefs_13358_def
    regdefs_13508_def regdefs_13658_def regdefs_13808_def)

lemma covered_PINMUX_2:
  "covered (map reset_key (registers_3972)) (map field_key regdefs_13833)"
  "covered (map reset_key (registers_3972)) (map field_key regdefs_13983)"
  "covered (map reset_key (registers_3972)) (map field_key regdefs_14133)"
  by (simp_all add:
    registers_3972_def regdefs_13833_def regdefs_13983_def regdefs_14133_def)

lemma registers_PINMUX_parts:
  "set registers_3652 \<subseteq> set registers_PINMUX"
  "set registers_3732 \<subseteq> set registers_PINMUX"
  "set registers_3812 \<subseteq> set registers_PINMUX"
  "set registers_3892 \<subseteq> set registers_PINMUX"
  "set registers_3972 \<subseteq> set registers_PINMUX"
  by (auto simp: registers_PINMUX_def)

lemma fields_PINMUX_registers: "list_all (has_register registers_PINMUX) fields_PINMUX"
  unfolding fields_PINMUX_def
  by (simp only: list_all_append set_append Un_subset_iff simp_thms registers_PINMUX_parts
    covered_PINMUX_1 [THEN covered_has] covered_PINMUX_2 [THEN covered_has])

lemma scan_PMU_1:
  "list_all well_formed regdefs_14283" "scan 0 (map extent regdefs_14283) = Some 201"
  "list_all well_formed regdefs_14413" "scan 201 (map extent regdefs_14413) = Some 614"
  "list_all well_formed regdefs_14561" "scan 614 (map extent regdefs_14561) = Some 775"
  "list_all well_formed regdefs_14696" "scan 775 (map extent regdefs_14696) = Some 830"
  "list_all well_formed regdefs_14846" "scan 830 (map extent regdefs_14846) = Some 832"
  "list_all well_formed regdefs_14856" "scan 832 (map extent regdefs_14856) = Some 862"
  "list_all well_formed regdefs_15006" "scan 862 (map extent regdefs_15006) = Some 880"
  "list_all well_formed regdefs_15096" "scan 880 (map extent regdefs_15096) = Some 912"
  "list_all well_formed regdefs_15176" "scan 912 (map extent regdefs_15176) = Some 958"
  "list_all well_formed regdefs_15326" "scan 958 (map extent regdefs_15326) = Some 976"
  "list_all well_formed regdefs_15416" "scan 976 (map extent regdefs_15416) = Some 1022"
  "list_all well_formed regdefs_15566" "scan 1022 (map extent regdefs_15566) = Some 1024"
  by (simp_all add:
    regdefs_14283_def regdefs_14413_def regdefs_14561_def regdefs_14696_def regdefs_14846_def
    regdefs_14856_def regdefs_15006_def regdefs_15096_def regdefs_15176_def regdefs_15326_def
    regdefs_15416_def regdefs_15566_def)

lemma scan_PMU_2:
  "list_all well_formed regdefs_15576" "scan 1024 (map extent regdefs_15576) = Some 1054"
  "list_all well_formed regdefs_15726" "scan 1054 (map extent regdefs_15726) = Some 1072"
  "list_all well_formed regdefs_15816" "scan 1072 (map extent regdefs_15816) = Some 1127"
  "list_all well_formed regdefs_15931" "scan 1127 (map extent regdefs_15931) = Some 1214"
  "list_all well_formed regdefs_16081" "scan 1214 (map extent regdefs_16081) = Some 2593"
  "list_all well_formed regdefs_16231" "scan 2593 (map extent regdefs_16231) = Some 1048576"
  by (simp_all add:
    regdefs_15576_def regdefs_15726_def regdefs_15816_def regdefs_15931_def regdefs_16081_def
    regdefs_16231_def)

lemma fields_PMU_scan: "list_all well_formed fields_PMU" "scan 0 (map extent fields_PMU) = Some 1048576"
  unfolding fields_PMU_def
  by (simp_all only: map_append scan_append list_all_append option.case simp_thms
    scan_PMU_1 scan_PMU_2)

lemma covered_PMU_1:
  "covered (map reset_key (registers_3982)) (map field_key regdefs_14283)"
  "covered (map reset_key (registers_3982)) (map field_key regdefs_14413)"
  "covered (map reset_key (registers_3982)) (map field_key regdefs_14561)"
  "covered (map reset_key (registers_3982)) (map field_key regdefs_14696)"
  "covered (map reset_key (registers_3982)) (map field_key regdefs_14846)"
  "covered (map reset_key (registers_3982)) (map field_key regdefs_14856)"
  by (simp_all add:
    registers_3982_def regdefs_14283_def regdefs_14413_def regdefs_14561_def regdefs_14696_def
    regdefs_14846_def regdefs_14856_def)

lemma covered_PMU_2:
  "covered (map reset_key (registers_3982)) (map field_key regdefs_15006)"
  "covered (map reset_key (registers_3982)) (map field_key regdefs_15096)"
  "covered (map reset_key (registers_3982)) (map field_key regdefs_15176)"
  "covered (map reset_key (registers_3982)) (map field_key regdefs_15326)"
  "covered (map reset_key (registers_3982)) (map field_key regdefs_15416)"
  "covered (map reset_key (registers_3982)) (map field_key regdefs_15566)"
  by (simp_all add:
    registers_3982_def regdefs_15006_def regdefs_15096_def regdefs_15176_def regdefs_15326_def
    regdefs_15416_def regdefs_15566_def)

lemma covered_PMU_3:
  "covered (map reset_key (registers_3982)) (map field_key regdefs_15576)"
  "covered (map reset_key (registers_3982)) (map field_key regdefs_15726)"
  "covered (map reset_key (registers_3982)) (map field_key regdefs_15816)"
  "covered (map reset_key (registers_3982)) (map field_key regdefs_15931)"
  "covered (map reset_key (registers_3982 @ registers_4063 @ registers_4143)) (map field_key regdefs_16081)"
  "covered (map reset_key (registers_4143)) (map field_key regdefs_16231)"
  by (simp_all add:
    registers_3982_def registers_4063_def registers_4143_def regdefs_15576_def regdefs_15726_def
    regdefs_15816_def regdefs_15931_def regdefs_16081_def regdefs_16231_def)

lemma registers_PMU_parts:
  "set registers_3982 \<subseteq> set registers_PMU"
  "set registers_4063 \<subseteq> set registers_PMU"
  "set registers_4143 \<subseteq> set registers_PMU"
  by (auto simp: registers_PMU_def)

lemma fields_PMU_registers: "list_all (has_register registers_PMU) fields_PMU"
  unfolding fields_PMU_def
  by (simp only: list_all_append set_append Un_subset_iff simp_thms registers_PMU_parts
    covered_PMU_1 [THEN covered_has] covered_PMU_2 [THEN covered_has] covered_PMU_3 [THEN covered_has])

lemma scan_RBOX_1:
  "list_all well_formed regdefs_16271" "scan 0 (map extent regdefs_16271) = Some 47"
  "list_all well_formed regdefs_16421" "scan 47 (map extent regdefs_16421) = Some 198"
  "list_all well_formed regdefs_16541" "scan 198 (map extent regdefs_16541) = Some 263"
  "list_all well_formed regdefs_16611" "scan 263 (map extent regdefs_16611) = Some 329"
  "list_all well_formed regdefs_16746" "scan 329 (map extent regdefs_16746) = Some 553"
  "list_all well_formed regdefs_16881" "scan 553 (map extent regdefs_16881) = Some 996"
  "list_all well_formed regdefs_17016" "scan 996 (map extent regdefs_17016) = Some 1219"
  "list_all well_formed regdefs_17141" "scan 1219 (map extent regdefs_17141) = Some 1312"
  by (simp_all add:
    regdefs_16271_def regdefs_16421_def regdefs_16541_def regdefs_16611_def regdefs_16746_def
    regdefs_16881_def regdefs_17016_def regdefs_17141_def)

lemma fields_RBOX_scan: "list_all well_formed fields_RBOX" "scan 0 (map extent fields_RBOX) = Some 1312"
  unfolding fields_RBOX_def
  by (simp_all only: map_append scan_append list_all_append option.case simp_thms
    scan_RBOX_1)

lemma covered_RBOX_1:
  "covered (map reset_key (registers_4161)) (map field_key regdefs_16271)"
  "covered (map reset_key (registers_4161)) (map field_key regdefs_16421)"
  "covered (map reset_key (registers_4161)) (map field_key regdefs_16541)"
  "covered (map reset_key (registers_4161)) (map field_key regdefs_16611)"
  "covered (map reset_key (registers_4161)) (map field_key regdefs_16746)"
  "covered (map reset_key (registers_4161)) (map field_key regdefs_16881)"
  by (simp_all add:
    registers_4161_def regdefs_16271_def regdefs_16421_def regdefs_16541_def regdefs_16611_def
    regdefs_16746_def regdefs_16881_def)

lemma covered_RBOX_2:
  "covered (map reset_key (registers_4161)) (map field_key regdefs_17016)"
  "covered (map reset_key (registers_4161 @ registers_4241)) (map field_key regdefs_17141)"
  by (simp_all add:
    registers_4161_def registers_4241_def regdefs_17016_def regdefs_17141_def)

lemma registers_RBOX_parts:
  "set registers_4161 \<subseteq> set registers_RBOX"
  "set registers_4241 \<subseteq> set registers_RBOX"
  by (auto simp: registers_RBOX_def)

lemma fields_RBOX_registers: "list_all (has_register registers_RBOX) fields_RBOX"
  unfolding fields_RBOX_def
  by (simp only: list_all_append set_append Un_subset_iff simp_thms registers_RBOX_parts
    covered_RBOX_1 [THEN covered_has] covered_RBOX_2 [THEN covered_has])

end
