(* ===== verification/RegdefsUsb.thy ===== *)
theory RegdefsUsb
  imports Registers
begin

text \<open>
  The registers and register fields of the modules GPIO, USB (chip/c/hw_b1_regdefs.h, generated):
  one entry per register with its two macros, one per field with its five. A definition holds the
  entries from the line in its name on; the tables of the modules are at the end.
\<close>

definition registers_2158 :: "register list" where
  "registers_2158 = [
    Register ''GPIO_DATAIN'' 0x0 (Some 0x0), Register ''GPIO_DOUT'' 0x4 (Some 0x0), Register ''GPIO_SETDOUTEN''
    0x10 (Some 0x0), Register ''GPIO_CLRDOUTEN'' 0x14 (Some 0x0), Register ''GPIO_RESERVED0'' 0x18 (Some 0x0),
    Register ''GPIO_RESERVED1'' 0x1c (Some 0x0), Register ''GPIO_SETINTEN'' 0x20 (Some 0x0), Register
    ''GPIO_CLRINTEN'' 0x24 (Some 0x0), Register ''GPIO_SETINTTYPE'' 0x28 (Some 0x0), Register
    ''GPIO_CLRINTTYPE'' 0x2c (Some 0x0), Register ''GPIO_SETINTPOL'' 0x30 (Some 0x0), Register
    ''GPIO_CLRINTPOL'' 0x34 (Some 0x0), Register ''GPIO_CLRINTSTAT'' 0x38 (Some 0x0), Register
    ''GPIO_MASKLOWBYTE_400'' 0x400 (Some 0x0), Register ''GPIO_MASKLOWBYTE_404'' 0x404 (Some 0x0), Register
    ''GPIO_MASKLOWBYTE_408'' 0x408 (Some 0x0), Register ''GPIO_MASKLOWBYTE_40C'' 0x40c (Some 0x0), Register
    ''GPIO_MASKLOWBYTE_410'' 0x410 (Some 0x0), Register ''GPIO_MASKLOWBYTE_414'' 0x414 (Some 0x0), Register
    ''GPIO_MASKLOWBYTE_418'' 0x418 (Some 0x0), Register ''GPIO_MASKLOWBYTE_41C'' 0x41c (Some 0x0), Register
    ''GPIO_MASKLOWBYTE_420'' 0x420 (Some 0x0), Register ''GPIO_MASKLOWBYTE_424'' 0x424 (Some 0x0), Register
    ''GPIO_MASKLOWBYTE_428'' 0x428 (Some 0x0), Register ''GPIO_MASKLOWBYTE_42C'' 0x42c (Some 0x0), Register
    ''GPIO_MASKLOWBYTE_430'' 0x430 (Some 0x0), Register ''GPIO_MASKLOWBYTE_434'' 0x434 (Some 0x0), Register
    ''GPIO_MASKLOWBYTE_438'' 0x438 (Some 0x0), Register ''GPIO_MASKLOWBYTE_43C'' 0x43c (Some 0x0), Register
    ''GPIO_MASKLOWBYTE_440'' 0x440 (Some 0x0), Register ''GPIO_MASKLOWBYTE_444'' 0x444 (Some 0x0), Register
    ''GPIO_MASKLOWBYTE_448'' 0x448 (Some 0x0), Register ''GPIO_MASKLOWBYTE_44C'' 0x44c (Some 0x0), Register
    ''GPIO_MASKLOWBYTE_450'' 0x450 (Some 0x0), Register ''GPIO_MASKLOWBYTE_454'' 0x454 (Some 0x0), Register
    ''GPIO_MASKLOWBYTE_458'' 0x458 (Some 0x0), Register ''GPIO_MASKLOWBYTE_45C'' 0x45c (Some 0x0), Register
    ''GPIO_MASKLOWBYTE_460'' 0x460 (Some 0x0), Register ''GPIO_MASKLOWBYTE_464'' 0x464 (Some 0x0), Register
    ''GPIO_MASKLOWBYTE_468'' 0x468 (Some 0x0)]"

definition registers_2238 :: "register list" where
  "registers_2238 = [
    Register ''GPIO_MASKLOWBYTE_46C'' 0x46c (Some 0x0), Register ''GPIO_MASKLOWBYTE_470'' 0x470 (Some 0x0),
    Register ''GPIO_MASKLOWBYTE_474'' 0x474 (Some 0x0), Register ''GPIO_MASKLOWBYTE_478'' 0x478 (Some 0x0),
    Register ''GPIO_MASKLOWBYTE_47C'' 0x47c (Some 0x0), Register ''GPIO_MASKLOWBYTE_480'' 0x480 (Some 0x0),
    Register ''GPIO_MASKLOWBYTE_484'' 0x484 (Some 0x0), Register ''GPIO_MASKLOWBYTE_488'' 0x488 (Some 0x0),
    Register ''GPIO_MASKLOWBYTE_48C'' 0x48c (Some 0x0), Register ''GPIO_MASKLOWBYTE_490'' 0x490 (Some 0x0),
    Register ''GPIO_MASKLOWBYTE_494'' 0x494 (Some 0x0), Register ''GPIO_MASKLOWBYTE_498'' 0x498 (Some 0x0),
    Register ''GPIO_MASKLOWBYTE_49C'' 0x49c (Some 0x0), Register ''GPIO_MASKLOWBYTE_4A0'' 0x4a0 (Some 0x0),
    Register ''GPIO_MASKLOWBYTE_4A4'' 0x4a4 (Some 0x0), Register ''GPIO_MASKLOWBYTE_4A8'' 0x4a8 (Some 0x0),
    Register ''GPIO_MASKLOWBYTE_4AC'' 0x4ac (Some 0x0), Register ''GPIO_MASKLOWBYTE_4B0'' 0x4b0 (Some 0x0),
    Register ''GPIO_MASKLOWBYTE_4B4'' 0x4b4 (Some 0x0), Register ''GPIO_MASKLOWBYTE_4B8'' 0x4b8 (Some 0x0),
    Register ''GPIO_MASKLOWBYTE_4BC'' 0x4bc (Some 0x0), Register ''GPIO_MASKLOWBYTE_4C0'' 0x4c0 (Some 0x0),
    Register ''GPIO_MASKLOWBYTE_4C4'' 0x4c4 (Some 0x0), Register ''GPIO_MASKLOWBYTE_4C8'' 0x4c8 (Some 0x0),
    Register ''GPIO_MASKLOWBYTE_4CC'' 0x4cc (Some 0x0), Register ''GPIO_MASKLOWBYTE_4D0'' 0x4d0 (Some 0x0),
    Register ''GPIO_MASKLOWBYTE_4D4'' 0x4d4 (Some 0x0), Register ''GPIO_MASKLOWBYTE_4D8'' 0x4d8 (Some 0x0),
    Register ''GPIO_MASKLOWBYTE_4DC'' 0x4dc (Some 0x0), Register ''GPIO_MASKLOWBYTE_4E0'' 0x4e0 (Some 0x0),
    Register ''GPIO_MASKLOWBYTE_4E4'' 0x4e4 (Some 0x0), Register ''GPIO_MASKLOWBYTE_4E8'' 0x4e8 (Some 0x0),
    Register ''GPIO_MASKLOWBYTE_4EC'' 0x4ec (Some 0x0), Register ''GPIO_MASKLOWBYTE_4F0'' 0x4f0 (Some 0x0),
    Register ''GPIO_MASKLOWBYTE_4F4'' 0x4f4 (Some 0x0), Register ''GPIO_MASKLOWBYTE_4F8'' 0x4f8 (Some 0x0),
    Register ''GPIO_MASKLOWBYTE_4FC'' 0x4fc (Some 0x0), Register ''GPIO_MASKLOWBYTE_500'' 0x500 (Some 0x0),
    Register ''GPIO_MASKLOWBYTE_504'' 0x504 (Some 0x0), Register ''GPIO_MASKLOWBYTE_508'' 0x508 (Some 0x0)]"

definition registers_2318 :: "register list" where
  "registers_2318 = [
    Register ''GPIO_MASKLOWBYTE_50C'' 0x50c (Some 0x0), Register ''GPIO_MASKLOWBYTE_510'' 0x510 (Some 0x0),
    Register ''GPIO_MASKLOWBYTE_514'' 0x514 (Some 0x0), Register ''GPIO_MASKLOWBYTE_518'' 0x518 (Some 0x0),
    Register ''GPIO_MASKLOWBYTE_51C'' 0x51c (Some 0x0), Register ''GPIO_MASKLOWBYTE_520'' 0x520 (Some 0x0),
    Register ''GPIO_MASKLOWBYTE_524'' 0x524 (Some 0x0), Register ''GPIO_MASKLOWBYTE_528'' 0x528 (Some 0x0),
    Register ''GPIO_MASKLOWBYTE_52C'' 0x52c (Some 0x0), Register ''GPIO_MASKLOWBYTE_530'' 0x530 (Some 0x0),
    Register ''GPIO_MASKLOWBYTE_534'' 0x534 (Some 0x0), Register ''GPIO_MASKLOWBYTE_538'' 0x538 (Some 0x0),
    Register ''GPIO_MASKLOWBYTE_53C'' 0x53c (Some 0x0), Register ''GPIO_MASKLOWBYTE_540'' 0x540 (Some 0x0),
    Register ''GPIO_MASKLOWBYTE_544'' 0x544 (Some 0x0), Register ''GPIO_MASKLOWBYTE_548'' 0x548 (Some 0x0),
    Register ''GPIO_MASKLOWBYTE_54C'' 0x54c (Some 0x0), Register ''GPIO_MASKLOWBYTE_550'' 0x550 (Some 0x0),
    Register ''GPIO_MASKLOWBYTE_554'' 0x554 (Some 0x0), Register ''GPIO_MASKLOWBYTE_558'' 0x558 (Some 0x0),
    Register ''GPIO_MASKLOWBYTE_55C'' 0x55c (Some 0x0), Register ''GPIO_MASKLOWBYTE_560'' 0x560 (Some 0x0),
    Register ''GPIO_MASKLOWBYTE_564'' 0x564 (Some 0x0), Register ''GPIO_MASKLOWBYTE_568'' 0x568 (Some 0x0),
    Register ''GPIO_MASKLOWBYTE_56C'' 0x56c (Some 0x0), Register ''GPIO_MASKLOWBYTE_570'' 0x570 (Some 0x0),
    Register ''GPIO_MASKLOWBYTE_574'' 0x574 (Some 0x0), Register ''GPIO_MASKLOWBYTE_578'' 0x578 (Some 0x0),
    Register ''GPIO_MASKLOWBYTE_57C'' 0x57c (Some 0x0), Register ''GPIO_MASKLOWBYTE_580'' 0x580 (Some 0x0),
    Register ''GPIO_MASKLOWBYTE_584'' 0x584 (Some 0x0), Register ''GPIO_MASKLOWBYTE_588'' 0x588 (Some 0x0),
    Register ''GPIO_MASKLOWBYTE_58C'' 0x58c (Some 0x0), Register ''GPIO_MASKLOWBYTE_590'' 0x590 (Some 0x0),
    Register ''GPIO_MASKLOWBYTE_594'' 0x594 (Some 0x0), Register ''GPIO_MASKLOWBYTE_598'' 0x598 (Some 0x0),
    Register ''GPIO_MASKLOWBYTE_59C'' 0x59c (Some 0x0), Register ''GPIO_MASKLOWBYTE_5A0'' 0x5a0 (Some 0x0),
    Register ''GPIO_MASKLOWBYTE_5A4'' 0x5a4 (Some 0x0), Register ''GPIO_MASKLOWBYTE_5A8'' 0x5a8 (Some 0x0)]"

definition registers_2398 :: "register list" where
  "registers_2398 = [
    Register ''GPIO_MASKLOWBYTE_5AC'' 0x5ac (Some 0x0), Register ''GPIO_MASKLOWBYTE_5B0'' 0x5b0 (Some 0x0),
    Register ''GPIO_MASKLOWBYTE_5B4'' 0x5b4 (Some 0x0), Register ''GPIO_MASKLOWBYTE_5B8'' 0x5b8 (Some 0x0),
    Register ''GPIO_MASKLOWBYTE_5BC'' 0x5bc (Some 0x0), Register ''GPIO_MASKLOWBYTE_5C0'' 0x5c0 (Some 0x0),
    Register ''GPIO_MASKLOWBYTE_5C4'' 0x5c4 (Some 0x0), Register ''GPIO_MASKLOWBYTE_5C8'' 0x5c8 (Some 0x0),
    Register ''GPIO_MASKLOWBYTE_5CC'' 0x5cc (Some 0x0), Register ''GPIO_MASKLOWBYTE_5D0'' 0x5d0 (Some 0x0),
    Register ''GPIO_MASKLOWBYTE_5D4'' 0x5d4 (Some 0x0), Register ''GPIO_MASKLOWBYTE_5D8'' 0x5d8 (Some 0x0),
    Register ''GPIO_MASKLOWBYTE_5DC'' 0x5dc (Some 0x0), Register ''GPIO_MASKLOWBYTE_5E0'' 0x5e0 (Some 0x0),
    Register ''GPIO_MASKLOWBYTE_5E4'' 0x5e4 (Some 0x0), Register ''GPIO_MASKLOWBYTE_5E8'' 0x5e8 (Some 0x0),
    Register ''GPIO_MASKLOWBYTE_5EC'' 0x5ec (Some 0x0), Register ''GPIO_MASKLOWBYTE_5F0'' 0x5f0 (Some 0x0),
    Register ''GPIO_MASKLOWBYTE_5F4'' 0x5f4 (Some 0x0), Register ''GPIO_MASKLOWBYTE_5F8'' 0x5f8 (Some 0x0),
    Register ''GPIO_MASKLOWBYTE_5FC'' 0x5fc (Some 0x0), Register ''GPIO_MASKLOWBYTE_600'' 0x600 (Some 0x0),
    Register ''GPIO_MASKLOWBYTE_604'' 0x604 (Some 0x0), Register ''GPIO_MASKLOWBYTE_608'' 0x608 (Some 0x0),
    Register ''GPIO_MASKLOWBYTE_60C'' 0x60c (Some 0x0), Register ''GPIO_MASKLOWBYTE_610'' 0x610 (Some 0x0),
    Register ''GPIO_MASKLOWBYTE_614'' 0x614 (Some 0x0), Register ''GPIO_MASKLOWBYTE_618'' 0x618 (Some 0x0),
    Register ''GPIO_MASKLOWBYTE_61C'' 0x61c (Some 0x0), Register ''GPIO_MASKLOWBYTE_620'' 0x620 (Some 0x0),
    Register ''GPIO_MASKLOWBYTE_624'' 0x624 (Some 0x0), Register ''GPIO_MASKLOWBYTE_628'' 0x628 (Some 0x0),
    Register ''GPIO_MASKLOWBYTE_62C'' 0x62c (Some 0x0), Register ''GPIO_MASKLOWBYTE_630'' 0x630 (Some 0x0),
    Register ''GPIO_MASKLOWBYTE_634'' 0x634 (Some 0x0), Register ''GPIO_MASKLOWBYTE_638'' 0x638 (Some 0x0),
    Register ''GPIO_MASKLOWBYTE_63C'' 0x63c (Some 0x0), Register ''GPIO_MASKLOWBYTE_640'' 0x640 (Some 0x0),
    Register ''GPIO_MASKLOWBYTE_644'' 0x644 (Some 0x0), Register ''GPIO_MASKLOWBYTE_648'' 0x648 (Some 0x0)]"

definition registers_2478 :: "register list" where
  "registers_2478 = [
    Register ''GPIO_MASKLOWBYTE_64C'' 0x64c (Some 0x0), Register ''GPIO_MASKLOWBYTE_650'' 0x650 (Some 0x0),
    Register ''GPIO_MASKLOWBYTE_654'' 0x654 (Some 0x0), Register ''GPIO_MASKLOWBYTE_658'' 0x658 (Some 0x0),
    Register ''GPIO_MASKLOWBYTE_65C'' 0x65c (Some 0x0), Register ''GPIO_MASKLOWBYTE_660'' 0x660 (Some 0x0),
    Register ''GPIO_MASKLOWBYTE_664'' 0x664 (Some 0x0), Register ''GPIO_MASKLOWBYTE_668'' 0x668 (Some 0x0),
    Register ''GPIO_MASKLOWBYTE_66C'' 0x66c (Some 0x0), Register ''GPIO_MASKLOWBYTE_670'' 0x670 (Some 0x0),
    Register ''GPIO_MASKLOWBYTE_674'' 0x674 (Some 0x0), Register ''GPIO_MASKLOWBYTE_678'' 0x678 (Some 0x0),
    Register ''GPIO_MASKLOWBYTE_67C'' 0x67c (Some 0x0), Register ''GPIO_MASKLOWBYTE_680'' 0x680 (Some 0x0),
    Register ''GPIO_MASKLOWBYTE_684'' 0x684 (Some 0x0), Register ''GPIO_MASKLOWBYTE_688'' 0x688 (Some 0x0),
    Register ''GPIO_MASKLOWBYTE_68C'' 0x68c (Some 0x0), Register ''GPIO_MASKLOWBYTE_690'' 0x690 (Some 0x0),
    Register ''GPIO_MASKLOWBYTE_694'' 0x694 (Some 0x0), Register ''GPIO_MASKLOWBYTE_698'' 0x698 (Some 0x0),
    Register ''GPIO_MASKLOWBYTE_69C'' 0x69c (Some 0x0), Register ''GPIO_MASKLOWBYTE_6A0'' 0x6a0 (Some 0x0),
    Register ''GPIO_MASKLOWBYTE_6A4'' 0x6a4 (Some 0x0), Register ''GPIO_MASKLOWBYTE_6A8'' 0x6a8 (Some 0x0),
    Register ''GPIO_MASKLOWBYTE_6AC'' 0x6ac (Some 0x0), Register ''GPIO_MASKLOWBYTE_6B0'' 0x6b0 (Some 0x0),
    Register ''GPIO_MASKLOWBYTE_6B4'' 0x6b4 (Some 0x0), Register ''GPIO_MASKLOWBYTE_6B8'' 0x6b8 (Some 0x0),
    Register ''GPIO_MASKLOWBYTE_6BC'' 0x6bc (Some 0x0), Register ''GPIO_MASKLOWBYTE_6C0'' 0x6c0 (Some 0x0),
    Register ''GPIO_MASKLOWBYTE_6C4'' 0x6c4 (Some 0x0), Register ''GPIO_MASKLOWBYTE_6C8'' 0x6c8 (Some 0x0),
    Register ''GPIO_MASKLOWBYTE_6CC'' 0x6cc (Some 0x0), Register ''GPIO_MASKLOWBYTE_6D0'' 0x6d0 (Some 0x0),
    Register ''GPIO_MASKLOWBYTE_6D4'' 0x6d4 (Some 0x0), Register ''GPIO_MASKLOWBYTE_6D8'' 0x6d8 (Some 0x0),
    Register ''GPIO_MASKLOWBYTE_6DC'' 0x6dc (Some 0x0), Register ''GPIO_MASKLOWBYTE_6E0'' 0x6e0 (Some 0x0),
    Register ''GPIO_MASKLOWBYTE_6E4'' 0x6e4 (Some 0x0), Register ''GPIO_MASKLOWBYTE_6E8'' 0x6e8 (Some 0x0)]"

definition registers_2558 :: "register list" where
  "registers_2558 = [
    Register ''GPIO_MASKLOWBYTE_6EC'' 0x6ec (Some 0x0), Register ''GPIO_MASKLOWBYTE_6F0'' 0x6f0 (Some 0x0),
    Register ''GPIO_MASKLOWBYTE_6F4'' 0x6f4 (Some 0x0), Register ''GPIO_MASKLOWBYTE_6F8'' 0x6f8 (Some 0x0),
    Register ''GPIO_MASKLOWBYTE_6FC'' 0x6fc (Some 0x0), Register ''GPIO_MASKLOWBYTE_700'' 0x700 (Some 0x0),
    Register ''GPIO_MASKLOWBYTE_704'' 0x704 (Some 0x0), Register ''GPIO_MASKLOWBYTE_708'' 0x708 (Some 0x0),
    Register ''GPIO_MASKLOWBYTE_70C'' 0x70c (Some 0x0), Register ''GPIO_MASKLOWBYTE_710'' 0x710 (Some 0x0),
    Register ''GPIO_MASKLOWBYTE_714'' 0x714 (Some 0x0), Register ''GPIO_MASKLOWBYTE_718'' 0x718 (Some 0x0),
    Register ''GPIO_MASKLOWBYTE_71C'' 0x71c (Some 0x0), Register ''GPIO_MASKLOWBYTE_720'' 0x720 (Some 0x0),
    Register ''GPIO_MASKLOWBYTE_724'' 0x724 (Some 0x0), Register ''GPIO_MASKLOWBYTE_728'' 0x728 (Some 0x0),
    Register ''GPIO_MASKLOWBYTE_72C'' 0x72c (Some 0x0), Register ''GPIO_MASKLOWBYTE_730'' 0x730 (Some 0x0),
    Register ''GPIO_MASKLOWBYTE_734'' 0x734 (Some 0x0), Register ''GPIO_MASKLOWBYTE_738'' 0x738 (Some 0x0),
    Register ''GPIO_MASKLOWBYTE_73C'' 0x73c (Some 0x0), Register ''GPIO_MASKLOWBYTE_740'' 0x740 (Some 0x0),
    Register ''GPIO_MASKLOWBYTE_744'' 0x744 (Some 0x0), Register ''GPIO_MASKLOWBYTE_748'' 0x748 (Some 0x0),
    Register ''GPIO_MASKLOWBYTE_74C'' 0x74c (Some 0x0), Register ''GPIO_MASKLOWBYTE_750'' 0x750 (Some 0x0),
    Register ''GPIO_MASKLOWBYTE_754'' 0x754 (Some 0x0), Register ''GPIO_MASKLOWBYTE_758'' 0x758 (Some 0x0),
    Register ''GPIO_MASKLOWBYTE_75C'' 0x75c (Some 0x0), Register ''GPIO_MASKLOWBYTE_760'' 0x760 (Some 0x0),
    Register ''GPIO_MASKLOWBYTE_764'' 0x764 (Some 0x0), Register ''GPIO_MASKLOWBYTE_768'' 0x768 (Some 0x0),
    Register ''GPIO_MASKLOWBYTE_76C'' 0x76c (Some 0x0), Register ''GPIO_MASKLOWBYTE_770'' 0x770 (Some 0x0),
    Register ''GPIO_MASKLOWBYTE_774'' 0x774 (Some 0x0), Register ''GPIO_MASKLOWBYTE_778'' 0x778 (Some 0x0),
    Register ''GPIO_MASKLOWBYTE_77C'' 0x77c (Some 0x0), Register ''GPIO_MASKLOWBYTE_780'' 0x780 (Some 0x0),
    Register ''GPIO_MASKLOWBYTE_784'' 0x784 (Some 0x0), Register ''GPIO_MASKLOWBYTE_788'' 0x788 (Some 0x0)]"

definition registers_2638 :: "register list" where
  "registers_2638 = [
    Register ''GPIO_MASKLOWBYTE_78C'' 0x78c (Some 0x0), Register ''GPIO_MASKLOWBYTE_790'' 0x790 (Some 0x0),
    Register ''GPIO_MASKLOWBYTE_794'' 0x794 (Some 0x0), Register ''GPIO_MASKLOWBYTE_798'' 0x798 (Some 0x0),
    Register ''GPIO_MASKLOWBYTE_79C'' 0x79c (Some 0x0), Register ''GPIO_MASKLOWBYTE_7A0'' 0x7a0 (Some 0x0),
    Register ''GPIO_MASKLOWBYTE_7A4'' 0x7a4 (Some 0x0), Register ''GPIO_MASKLOWBYTE_7A8'' 0x7a8 (Some 0x0),
    Register ''GPIO_MASKLOWBYTE_7AC'' 0x7ac (Some 0x0), Register ''GPIO_MASKLOWBYTE_7B0'' 0x7b0 (Some 0x0),
    Register ''GPIO_MASKLOWBYTE_7B4'' 0x7b4 (Some 0x0), Register ''GPIO_MASKLOWBYTE_7B8'' 0x7b8 (Some 0x0),
    Register ''GPIO_MASKLOWBYTE_7BC'' 0x7bc (Some 0x0), Register ''GPIO_MASKLOWBYTE_7C0'' 0x7c0 (Some 0x0),
    Register ''GPIO_MASKLOWBYTE_7C4'' 0x7c4 (Some 0x0), Register ''GPIO_MASKLOWBYTE_7C8'' 0x7c8 (Some 0x0),
    Register ''GPIO_MASKLOWBYTE_7CC'' 0x7cc (Some 0x0), Register ''GPIO_MASKLOWBYTE_7D0'' 0x7d0 (Some 0x0),
    Register ''GPIO_MASKLOWBYTE_7D4'' 0x7d4 (Some 0x0), Register ''GPIO_MASKLOWBYTE_7D8'' 0x7d8 (Some 0x0),
    Register ''GPIO_MASKLOWBYTE_7DC'' 0x7dc (Some 0x0), Register ''GPIO_MASKLOWBYTE_7E0'' 0x7e0 (Some 0x0),
    Register ''GPIO_MASKLOWBYTE_7E4'' 0x7e4 (Some 0x0), Register ''GPIO_MASKLOWBYTE_7E8'' 0x7e8 (Some 0x0),
    Register ''GPIO_MASKLOWBYTE_7EC'' 0x7ec (Some 0x0), Register ''GPIO_MASKLOWBYTE_7F0'' 0x7f0 (Some 0x0),
    Register ''GPIO_MASKLOWBYTE_7F4'' 0x7f4 (Some 0x0), Register ''GPIO_MASKLOWBYTE_7F8'' 0x7f8 (Some 0x0),
    Register ''GPIO_MASKLOWBYTE_7FC'' 0x7fc (Some 0x0), Register ''GPIO_MASKHIGHBYTE_800'' 0x800 (Some 0x0),
    Register ''GPIO_MASKHIGHBYTE_804'' 0x804 (Some 0x0), Register ''GPIO_MASKHIGHBYTE_808'' 0x808 (Some 0x0),
    Register ''GPIO_MASKHIGHBYTE_80C'' 0x80c (Some 0x0), Register ''GPIO_MASKHIGHBYTE_810'' 0x810 (Some 0x0),
    Register ''GPIO_MASKHIGHBYTE_814'' 0x814 (Some 0x0), Register ''GPIO_MASKHIGHBYTE_818'' 0x818 (Some 0x0),
    Register ''GPIO_MASKHIGHBYTE_81C'' 0x81c (Some 0x0), Register ''GPIO_MASKHIGHBYTE_820'' 0x820 (Some 0x0),
    Register ''GPIO_MASKHIGHBYTE_824'' 0x824 (Some 0x0), Register ''GPIO_MASKHIGHBYTE_828'' 0x828 (Some 0x0)]"

definition registers_2718 :: "register list" where
  "registers_2718 = [
    Register ''GPIO_MASKHIGHBYTE_82C'' 0x82c (Some 0x0), Register ''GPIO_MASKHIGHBYTE_830'' 0x830 (Some 0x0),
    Register ''GPIO_MASKHIGHBYTE_834'' 0x834 (Some 0x0), Register ''GPIO_MASKHIGHBYTE_838'' 0x838 (Some 0x0),
    Register ''GPIO_MASKHIGHBYTE_83C'' 0x83c (Some 0x0), Register ''GPIO_MASKHIGHBYTE_840'' 0x840 (Some 0x0),
    Register ''GPIO_MASKHIGHBYTE_844'' 0x844 (Some 0x0), Register ''GPIO_MASKHIGHBYTE_848'' 0x848 (Some 0x0),
    Register ''GPIO_MASKHIGHBYTE_84C'' 0x84c (Some 0x0), Register ''GPIO_MASKHIGHBYTE_850'' 0x850 (Some 0x0),
    Register ''GPIO_MASKHIGHBYTE_854'' 0x854 (Some 0x0), Register ''GPIO_MASKHIGHBYTE_858'' 0x858 (Some 0x0),
    Register ''GPIO_MASKHIGHBYTE_85C'' 0x85c (Some 0x0), Register ''GPIO_MASKHIGHBYTE_860'' 0x860 (Some 0x0),
    Register ''GPIO_MASKHIGHBYTE_864'' 0x864 (Some 0x0), Register ''GPIO_MASKHIGHBYTE_868'' 0x868 (Some 0x0),
    Register ''GPIO_MASKHIGHBYTE_86C'' 0x86c (Some 0x0), Register ''GPIO_MASKHIGHBYTE_870'' 0x870 (Some 0x0),
    Register ''GPIO_MASKHIGHBYTE_874'' 0x874 (Some 0x0), Register ''GPIO_MASKHIGHBYTE_878'' 0x878 (Some 0x0),
    Register ''GPIO_MASKHIGHBYTE_87C'' 0x87c (Some 0x0), Register ''GPIO_MASKHIGHBYTE_880'' 0x880 (Some 0x0),
    Register ''GPIO_MASKHIGHBYTE_884'' 0x884 (Some 0x0), Register ''GPIO_MASKHIGHBYTE_888'' 0x888 (Some 0x0),
    Register ''GPIO_MASKHIGHBYTE_88C'' 0x88c (Some 0x0), Register ''GPIO_MASKHIGHBYTE_890'' 0x890 (Some 0x0),
    Register ''GPIO_MASKHIGHBYTE_894'' 0x894 (Some 0x0), Register ''GPIO_MASKHIGHBYTE_898'' 0x898 (Some 0x0),
    Register ''GPIO_MASKHIGHBYTE_89C'' 0x89c (Some 0x0), Register ''GPIO_MASKHIGHBYTE_8A0'' 0x8a0 (Some 0x0),
    Register ''GPIO_MASKHIGHBYTE_8A4'' 0x8a4 (Some 0x0), Register ''GPIO_MASKHIGHBYTE_8A8'' 0x8a8 (Some 0x0),
    Register ''GPIO_MASKHIGHBYTE_8AC'' 0x8ac (Some 0x0), Register ''GPIO_MASKHIGHBYTE_8B0'' 0x8b0 (Some 0x0),
    Register ''GPIO_MASKHIGHBYTE_8B4'' 0x8b4 (Some 0x0), Register ''GPIO_MASKHIGHBYTE_8B8'' 0x8b8 (Some 0x0),
    Register ''GPIO_MASKHIGHBYTE_8BC'' 0x8bc (Some 0x0), Register ''GPIO_MASKHIGHBYTE_8C0'' 0x8c0 (Some 0x0),
    Register ''GPIO_MASKHIGHBYTE_8C4'' 0x8c4 (Some 0x0), Register ''GPIO_MASKHIGHBYTE_8C8'' 0x8c8 (Some 0x0)]"

definition registers_2798 :: "register list" where
  "registers_2798 = [
    Register ''GPIO_MASKHIGHBYTE_8CC'' 0x8cc (Some 0x0), Register ''GPIO_MASKHIGHBYTE_8D0'' 0x8d0 (Some 0x0),
    Register ''GPIO_MASKHIGHBYTE_8D4'' 0x8d4 (Some 0x0), Register ''GPIO_MASKHIGHBYTE_8D8'' 0x8d8 (Some 0x0),
    Register ''GPIO_MASKHIGHBYTE_8DC'' 0x8dc (Some 0x0), Register ''GPIO_MASKHIGHBYTE_8E0'' 0x8e0 (Some 0x0),
    Register ''GPIO_MASKHIGHBYTE_8E4'' 0x8e4 (Some 0x0), Register ''GPIO_MASKHIGHBYTE_8E8'' 0x8e8 (Some 0x0),
    Register ''GPIO_MASKHIGHBYTE_8EC'' 0x8ec (Some 0x0), Register ''GPIO_MASKHIGHBYTE_8F0'' 0x8f0 (Some 0x0),
    Register ''GPIO_MASKHIGHBYTE_8F4'' 0x8f4 (Some 0x0), Register ''GPIO_MASKHIGHBYTE_8F8'' 0x8f8 (Some 0x0),
    Register ''GPIO_MASKHIGHBYTE_8FC'' 0x8fc (Some 0x0), Register ''GPIO_MASKHIGHBYTE_900'' 0x900 (Some 0x0),
    Register ''GPIO_MASKHIGHBYTE_904'' 0x904 (Some 0x0), Register ''GPIO_MASKHIGHBYTE_908'' 0x908 (Some 0x0),
    Register ''GPIO_MASKHIGHBYTE_90C'' 0x90c (Some 0x0), Register ''GPIO_MASKHIGHBYTE_910'' 0x910 (Some 0x0),
    Register ''GPIO_MASKHIGHBYTE_914'' 0x914 (Some 0x0), Register ''GPIO_MASKHIGHBYTE_918'' 0x918 (Some 0x0),
    Register ''GPIO_MASKHIGHBYTE_91C'' 0x91c (Some 0x0), Register ''GPIO_MASKHIGHBYTE_920'' 0x920 (Some 0x0),
    Register ''GPIO_MASKHIGHBYTE_924'' 0x924 (Some 0x0), Register ''GPIO_MASKHIGHBYTE_928'' 0x928 (Some 0x0),
    Register ''GPIO_MASKHIGHBYTE_92C'' 0x92c (Some 0x0), Register ''GPIO_MASKHIGHBYTE_930'' 0x930 (Some 0x0),
    Register ''GPIO_MASKHIGHBYTE_934'' 0x934 (Some 0x0), Register ''GPIO_MASKHIGHBYTE_938'' 0x938 (Some 0x0),
    Register ''GPIO_MASKHIGHBYTE_93C'' 0x93c (Some 0x0), Register ''GPIO_MASKHIGHBYTE_940'' 0x940 (Some 0x0),
    Register ''GPIO_MASKHIGHBYTE_944'' 0x944 (Some 0x0), Register ''GPIO_MASKHIGHBYTE_948'' 0x948 (Some 0x0),
    Register ''GPIO_MASKHIGHBYTE_94C'' 0x94c (Some 0x0), Register ''GPIO_MASKHIGHBYTE_950'' 0x950 (Some 0x0),
    Register ''GPIO_MASKHIGHBYTE_954'' 0x954 (Some 0x0), Register ''GPIO_MASKHIGHBYTE_958'' 0x958 (Some 0x0),
    Register ''GPIO_MASKHIGHBYTE_95C'' 0x95c (Some 0x0), Register ''GPIO_MASKHIGHBYTE_960'' 0x960 (Some 0x0),
    Register ''GPIO_MASKHIGHBYTE_964'' 0x964 (Some 0x0), Register ''GPIO_MASKHIGHBYTE_968'' 0x968 (Some 0x0)]"

definition registers_2878 :: "register list" where
  "registers_2878 = [
    Register ''GPIO_MASKHIGHBYTE_96C'' 0x96c (Some 0x0), Register ''GPIO_MASKHIGHBYTE_970'' 0x970 (Some 0x0),
    Register ''GPIO_MASKHIGHBYTE_974'' 0x974 (Some 0x0), Register ''GPIO_MASKHIGHBYTE_978'' 0x978 (Some 0x0),
    Register ''GPIO_MASKHIGHBYTE_97C'' 0x97c (Some 0x0), Register ''GPIO_MASKHIGHBYTE_980'' 0x980 (Some 0x0),
    Register ''GPIO_MASKHIGHBYTE_984'' 0x984 (Some 0x0), Register ''GPIO_MASKHIGHBYTE_988'' 0x988 (Some 0x0),
    Register ''GPIO_MASKHIGHBYTE_98C'' 0x98c (Some 0x0), Register ''GPIO_MASKHIGHBYTE_990'' 0x990 (Some 0x0),
    Register ''GPIO_MASKHIGHBYTE_994'' 0x994 (Some 0x0), Register ''GPIO_MASKHIGHBYTE_998'' 0x998 (Some 0x0),
    Register ''GPIO_MASKHIGHBYTE_99C'' 0x99c (Some 0x0), Register ''GPIO_MASKHIGHBYTE_9A0'' 0x9a0 (Some 0x0),
    Register ''GPIO_MASKHIGHBYTE_9A4'' 0x9a4 (Some 0x0), Register ''GPIO_MASKHIGHBYTE_9A8'' 0x9a8 (Some 0x0),
    Register ''GPIO_MASKHIGHBYTE_9AC'' 0x9ac (Some 0x0), Register ''GPIO_MASKHIGHBYTE_9B0'' 0x9b0 (Some 0x0),
    Register ''GPIO_MASKHIGHBYTE_9B4'' 0x9b4 (Some 0x0), Register ''GPIO_MASKHIGHBYTE_9B8'' 0x9b8 (Some 0x0),
    Register ''GPIO_MASKHIGHBYTE_9BC'' 0x9bc (Some 0x0), Register ''GPIO_MASKHIGHBYTE_9C0'' 0x9c0 (Some 0x0),
    Register ''GPIO_MASKHIGHBYTE_9C4'' 0x9c4 (Some 0x0), Register ''GPIO_MASKHIGHBYTE_9C8'' 0x9c8 (Some 0x0),
    Register ''GPIO_MASKHIGHBYTE_9CC'' 0x9cc (Some 0x0), Register ''GPIO_MASKHIGHBYTE_9D0'' 0x9d0 (Some 0x0),
    Register ''GPIO_MASKHIGHBYTE_9D4'' 0x9d4 (Some 0x0), Register ''GPIO_MASKHIGHBYTE_9D8'' 0x9d8 (Some 0x0),
    Register ''GPIO_MASKHIGHBYTE_9DC'' 0x9dc (Some 0x0), Register ''GPIO_MASKHIGHBYTE_9E0'' 0x9e0 (Some 0x0),
    Register ''GPIO_MASKHIGHBYTE_9E4'' 0x9e4 (Some 0x0), Register ''GPIO_MASKHIGHBYTE_9E8'' 0x9e8 (Some 0x0),
    Register ''GPIO_MASKHIGHBYTE_9EC'' 0x9ec (Some 0x0), Register ''GPIO_MASKHIGHBYTE_9F0'' 0x9f0 (Some 0x0),
    Register ''GPIO_MASKHIGHBYTE_9F4'' 0x9f4 (Some 0x0), Register ''GPIO_MASKHIGHBYTE_9F8'' 0x9f8 (Some 0x0),
    Register ''GPIO_MASKHIGHBYTE_9FC'' 0x9fc (Some 0x0), Register ''GPIO_MASKHIGHBYTE_A00'' 0xa00 (Some 0x0),
    Register ''GPIO_MASKHIGHBYTE_A04'' 0xa04 (Some 0x0), Register ''GPIO_MASKHIGHBYTE_A08'' 0xa08 (Some 0x0)]"

definition registers_2958 :: "register list" where
  "registers_2958 = [
    Register ''GPIO_MASKHIGHBYTE_A0C'' 0xa0c (Some 0x0), Register ''GPIO_MASKHIGHBYTE_A10'' 0xa10 (Some 0x0),
    Register ''GPIO_MASKHIGHBYTE_A14'' 0xa14 (Some 0x0), Register ''GPIO_MASKHIGHBYTE_A18'' 0xa18 (Some 0x0),
    Register ''GPIO_MASKHIGHBYTE_A1C'' 0xa1c (Some 0x0), Register ''GPIO_MASKHIGHBYTE_A20'' 0xa20 (Some 0x0),
    Register ''GPIO_MASKHIGHBYTE_A24'' 0xa24 (Some 0x0), Register ''GPIO_MASKHIGHBYTE_A28'' 0xa28 (Some 0x0),
    Register ''GPIO_MASKHIGHBYTE_A2C'' 0xa2c (Some 0x0), Register ''GPIO_MASKHIGHBYTE_A30'' 0xa30 (Some 0x0),
    Register ''GPIO_MASKHIGHBYTE_A34'' 0xa34 (Some 0x0), Register ''GPIO_MASKHIGHBYTE_A38'' 0xa38 (Some 0x0),
    Register ''GPIO_MASKHIGHBYTE_A3C'' 0xa3c (Some 0x0), Register ''GPIO_MASKHIGHBYTE_A40'' 0xa40 (Some 0x0),
    Register ''GPIO_MASKHIGHBYTE_A44'' 0xa44 (Some 0x0), Register ''GPIO_MASKHIGHBYTE_A48'' 0xa48 (Some 0x0),
    Register ''GPIO_MASKHIGHBYTE_A4C'' 0xa4c (Some 0x0), Register ''GPIO_MASKHIGHBYTE_A50'' 0xa50 (Some 0x0),
    Register ''GPIO_MASKHIGHBYTE_A54'' 0xa54 (Some 0x0), Register ''GPIO_MASKHIGHBYTE_A58'' 0xa58 (Some 0x0),
    Register ''GPIO_MASKHIGHBYTE_A5C'' 0xa5c (Some 0x0), Register ''GPIO_MASKHIGHBYTE_A60'' 0xa60 (Some 0x0),
    Register ''GPIO_MASKHIGHBYTE_A64'' 0xa64 (Some 0x0), Register ''GPIO_MASKHIGHBYTE_A68'' 0xa68 (Some 0x0),
    Register ''GPIO_MASKHIGHBYTE_A6C'' 0xa6c (Some 0x0), Register ''GPIO_MASKHIGHBYTE_A70'' 0xa70 (Some 0x0),
    Register ''GPIO_MASKHIGHBYTE_A74'' 0xa74 (Some 0x0), Register ''GPIO_MASKHIGHBYTE_A78'' 0xa78 (Some 0x0),
    Register ''GPIO_MASKHIGHBYTE_A7C'' 0xa7c (Some 0x0), Register ''GPIO_MASKHIGHBYTE_A80'' 0xa80 (Some 0x0),
    Register ''GPIO_MASKHIGHBYTE_A84'' 0xa84 (Some 0x0), Register ''GPIO_MASKHIGHBYTE_A88'' 0xa88 (Some 0x0),
    Register ''GPIO_MASKHIGHBYTE_A8C'' 0xa8c (Some 0x0), Register ''GPIO_MASKHIGHBYTE_A90'' 0xa90 (Some 0x0),
    Register ''GPIO_MASKHIGHBYTE_A94'' 0xa94 (Some 0x0), Register ''GPIO_MASKHIGHBYTE_A98'' 0xa98 (Some 0x0),
    Register ''GPIO_MASKHIGHBYTE_A9C'' 0xa9c (Some 0x0), Register ''GPIO_MASKHIGHBYTE_AA0'' 0xaa0 (Some 0x0),
    Register ''GPIO_MASKHIGHBYTE_AA4'' 0xaa4 (Some 0x0), Register ''GPIO_MASKHIGHBYTE_AA8'' 0xaa8 (Some 0x0)]"

definition registers_3038 :: "register list" where
  "registers_3038 = [
    Register ''GPIO_MASKHIGHBYTE_AAC'' 0xaac (Some 0x0), Register ''GPIO_MASKHIGHBYTE_AB0'' 0xab0 (Some 0x0),
    Register ''GPIO_MASKHIGHBYTE_AB4'' 0xab4 (Some 0x0), Register ''GPIO_MASKHIGHBYTE_AB8'' 0xab8 (Some 0x0),
    Register ''GPIO_MASKHIGHBYTE_ABC'' 0xabc (Some 0x0), Register ''GPIO_MASKHIGHBYTE_AC0'' 0xac0 (Some 0x0),
    Register ''GPIO_MASKHIGHBYTE_AC4'' 0xac4 (Some 0x0), Register ''GPIO_MASKHIGHBYTE_AC8'' 0xac8 (Some 0x0),
    Register ''GPIO_MASKHIGHBYTE_ACC'' 0xacc (Some 0x0), Register ''GPIO_MASKHIGHBYTE_AD0'' 0xad0 (Some 0x0),
    Register ''GPIO_MASKHIGHBYTE_AD4'' 0xad4 (Some 0x0), Register ''GPIO_MASKHIGHBYTE_AD8'' 0xad8 (Some 0x0),
    Register ''GPIO_MASKHIGHBYTE_ADC'' 0xadc (Some 0x0), Register ''GPIO_MASKHIGHBYTE_AE0'' 0xae0 (Some 0x0),
    Register ''GPIO_MASKHIGHBYTE_AE4'' 0xae4 (Some 0x0), Register ''GPIO_MASKHIGHBYTE_AE8'' 0xae8 (Some 0x0),
    Register ''GPIO_MASKHIGHBYTE_AEC'' 0xaec (Some 0x0), Register ''GPIO_MASKHIGHBYTE_AF0'' 0xaf0 (Some 0x0),
    Register ''GPIO_MASKHIGHBYTE_AF4'' 0xaf4 (Some 0x0), Register ''GPIO_MASKHIGHBYTE_AF8'' 0xaf8 (Some 0x0),
    Register ''GPIO_MASKHIGHBYTE_AFC'' 0xafc (Some 0x0), Register ''GPIO_MASKHIGHBYTE_B00'' 0xb00 (Some 0x0),
    Register ''GPIO_MASKHIGHBYTE_B04'' 0xb04 (Some 0x0), Register ''GPIO_MASKHIGHBYTE_B08'' 0xb08 (Some 0x0),
    Register ''GPIO_MASKHIGHBYTE_B0C'' 0xb0c (Some 0x0), Register ''GPIO_MASKHIGHBYTE_B10'' 0xb10 (Some 0x0),
    Register ''GPIO_MASKHIGHBYTE_B14'' 0xb14 (Some 0x0), Register ''GPIO_MASKHIGHBYTE_B18'' 0xb18 (Some 0x0),
    Register ''GPIO_MASKHIGHBYTE_B1C'' 0xb1c (Some 0x0), Register ''GPIO_MASKHIGHBYTE_B20'' 0xb20 (Some 0x0),
    Register ''GPIO_MASKHIGHBYTE_B24'' 0xb24 (Some 0x0), Register ''GPIO_MASKHIGHBYTE_B28'' 0xb28 (Some 0x0),
    Register ''GPIO_MASKHIGHBYTE_B2C'' 0xb2c (Some 0x0), Register ''GPIO_MASKHIGHBYTE_B30'' 0xb30 (Some 0x0),
    Register ''GPIO_MASKHIGHBYTE_B34'' 0xb34 (Some 0x0), Register ''GPIO_MASKHIGHBYTE_B38'' 0xb38 (Some 0x0),
    Register ''GPIO_MASKHIGHBYTE_B3C'' 0xb3c (Some 0x0), Register ''GPIO_MASKHIGHBYTE_B40'' 0xb40 (Some 0x0),
    Register ''GPIO_MASKHIGHBYTE_B44'' 0xb44 (Some 0x0), Register ''GPIO_MASKHIGHBYTE_B48'' 0xb48 (Some 0x0)]"

definition registers_3118 :: "register list" where
  "registers_3118 = [
    Register ''GPIO_MASKHIGHBYTE_B4C'' 0xb4c (Some 0x0), Register ''GPIO_MASKHIGHBYTE_B50'' 0xb50 (Some 0x0),
    Register ''GPIO_MASKHIGHBYTE_B54'' 0xb54 (Some 0x0), Register ''GPIO_MASKHIGHBYTE_B58'' 0xb58 (Some 0x0),
    Register ''GPIO_MASKHIGHBYTE_B5C'' 0xb5c (Some 0x0), Register ''GPIO_MASKHIGHBYTE_B60'' 0xb60 (Some 0x0),
    Register ''GPIO_MASKHIGHBYTE_B64'' 0xb64 (Some 0x0), Register ''GPIO_MASKHIGHBYTE_B68'' 0xb68 (Some 0x0),
    Register ''GPIO_MASKHIGHBYTE_B6C'' 0xb6c (Some 0x0), Register ''GPIO_MASKHIGHBYTE_B70'' 0xb70 (Some 0x0),
    Register ''GPIO_MASKHIGHBYTE_B74'' 0xb74 (Some 0x0), Register ''GPIO_MASKHIGHBYTE_B78'' 0xb78 (Some 0x0),
    Register ''GPIO_MASKHIGHBYTE_B7C'' 0xb7c (Some 0x0), Register ''GPIO_MASKHIGHBYTE_B80'' 0xb80 (Some 0x0),
    Register ''GPIO_MASKHIGHBYTE_B84'' 0xb84 (Some 0x0), Register ''GPIO_MASKHIGHBYTE_B88'' 0xb88 (Some 0x0),
    Register ''GPIO_MASKHIGHBYTE_B8C'' 0xb8c (Some 0x0), Register ''GPIO_MASKHIGHBYTE_B90'' 0xb90 (Some 0x0),
    Register ''GPIO_MASKHIGHBYTE_B94'' 0xb94 (Some 0x0), Register ''GPIO_MASKHIGHBYTE_B98'' 0xb98 (Some 0x0),
    Register ''GPIO_MASKHIGHBYTE_B9C'' 0xb9c (Some 0x0), Register ''GPIO_MASKHIGHBYTE_BA0'' 0xba0 (Some 0x0),
    Register ''GPIO_MASKHIGHBYTE_BA4'' 0xba4 (Some 0x0), Register ''GPIO_MASKHIGHBYTE_BA8'' 0xba8 (Some 0x0),
    Register ''GPIO_MASKHIGHBYTE_BAC'' 0xbac (Some 0x0), Register ''GPIO_MASKHIGHBYTE_BB0'' 0xbb0 (Some 0x0),
    Register ''GPIO_MASKHIGHBYTE_BB4'' 0xbb4 (Some 0x0), Register ''GPIO_MASKHIGHBYTE_BB8'' 0xbb8 (Some 0x0),
    Register ''GPIO_MASKHIGHBYTE_BBC'' 0xbbc (Some 0x0), Register ''GPIO_MASKHIGHBYTE_BC0'' 0xbc0 (Some 0x0),
    Register ''GPIO_MASKHIGHBYTE_BC4'' 0xbc4 (Some 0x0), Register ''GPIO_MASKHIGHBYTE_BC8'' 0xbc8 (Some 0x0),
    Register ''GPIO_MASKHIGHBYTE_BCC'' 0xbcc (Some 0x0), Register ''GPIO_MASKHIGHBYTE_BD0'' 0xbd0 (Some 0x0),
    Register ''GPIO_MASKHIGHBYTE_BD4'' 0xbd4 (Some 0x0), Register ''GPIO_MASKHIGHBYTE_BD8'' 0xbd8 (Some 0x0),
    Register ''GPIO_MASKHIGHBYTE_BDC'' 0xbdc (Some 0x0), Register ''GPIO_MASKHIGHBYTE_BE0'' 0xbe0 (Some 0x0),
    Register ''GPIO_MASKHIGHBYTE_BE4'' 0xbe4 (Some 0x0), Register ''GPIO_MASKHIGHBYTE_BE8'' 0xbe8 (Some 0x0)]"

definition registers_3198 :: "register list" where
  "registers_3198 = [
    Register ''GPIO_MASKHIGHBYTE_BEC'' 0xbec (Some 0x0), Register ''GPIO_MASKHIGHBYTE_BF0'' 0xbf0 (Some 0x0),
    Register ''GPIO_MASKHIGHBYTE_BF4'' 0xbf4 (Some 0x0), Register ''GPIO_MASKHIGHBYTE_BF8'' 0xbf8 (Some 0x0),
    Register ''GPIO_MASKHIGHBYTE_BFC'' 0xbfc (Some 0x0), Register ''GPIO_ARMPID4'' 0xfd0 (Some 0x4), Register
    ''GPIO_ARMPID5'' 0xfd4 (Some 0x0), Register ''GPIO_ARMPID6'' 0xfd8 (Some 0x0), Register ''GPIO_ARMPID7''
    0xfdc (Some 0x0), Register ''GPIO_ARMPID0'' 0xfe0 (Some 0x20), Register ''GPIO_ARMPID1'' 0xfe4 (Some 0xb8),
    Register ''GPIO_ARMPID2'' 0xfe8 (Some 0xb), Register ''GPIO_ARMPID3'' 0xfec (Some 0x0), Register
    ''GPIO_ARMCID0'' 0xff0 (Some 0xd), Register ''GPIO_ARMCID1'' 0xff4 (Some 0xf0), Register ''GPIO_ARMCID2''
    0xff8 (Some 0x5), Register ''GPIO_ARMCID3'' 0xffc (Some 0xb1)]"

definition registers_4887 :: "register list" where
  "registers_4887 = [
    Register ''USB_GOTGCTL'' 0x0 (Some 0x0), Register ''USB_GOTGINT'' 0x4 (Some 0x0), Register ''USB_GAHBCFG''
    0x8 (Some 0x0), Register ''USB_GUSBCFG'' 0xc (Some 0x0), Register ''USB_GRSTCTL'' 0x10 (Some 0x0), Register
    ''USB_GINTSTS'' 0x14 (Some 0x0), Register ''USB_GINTMSK'' 0x18 (Some 0x0), Register ''USB_GRXSTSR'' 0x1c
    (Some 0x0), Register ''USB_GRXSTSP'' 0x20 (Some 0x0), Register ''USB_GRXFSIZ'' 0x24 (Some 0x0), Register
    ''USB_GNPTXFSIZ'' 0x28 (Some 0x0), Register ''USB_GGPIO'' 0x38 (Some 0x0), Register ''USB_GUID'' 0x3c (Some
    0x0), Register ''USB_GSNPSID'' 0x40 (Some 0x0), Register ''USB_GHWCFG1'' 0x44 (Some 0x0), Register
    ''USB_GHWCFG2'' 0x48 (Some 0x0), Register ''USB_GHWCFG3'' 0x4c (Some 0x0), Register ''USB_GHWCFG4'' 0x50
    (Some 0x0), Register ''USB_GDFIFOCFG'' 0x5c (Some 0x0), Register ''USB_DIEPTXF1'' 0x104 (Some 0x1000),
    Register ''USB_DIEPTXF2'' 0x108 (Some 0x0), Register ''USB_DIEPTXF3'' 0x10c (Some 0x0), Register
    ''USB_DIEPTXF4'' 0x110 (Some 0x0), Register ''USB_DIEPTXF5'' 0x114 (Some 0x0), Register ''USB_DIEPTXF6''
    0x118 (Some 0x0), Register ''USB_DIEPTXF7'' 0x11c (Some 0x0), Register ''USB_DIEPTXF8'' 0x120 (Some 0x0),
    Register ''USB_DIEPTXF9'' 0x124 (Some 0x0), Register ''USB_DIEPTXF10'' 0x128 (Some 0x0), Register
    ''USB_DIEPTXF11'' 0x12c (Some 0x0), Register ''USB_DIEPTXF12'' 0x130 (Some 0x0), Register ''USB_DIEPTXF13''
    0x134 (Some 0x0), Register ''USB_DIEPTXF14'' 0x138 (Some 0x0), Register ''USB_DIEPTXF15'' 0x13c (Some 0x0),
    Register ''USB_DCFG'' 0x800 (Some 0x8000000), Register ''USB_DCTL'' 0x804 (Some 0x0), Register ''USB_DSTS''
    0x808 (Some 0x0), Register ''USB_DIEPMSK'' 0x810 (Some 0x80), Register ''USB_DOEPMSK'' 0x814 (Some 0x0),
    Register ''USB_DAINT'' 0x818 (Some 0x0)]"

definition registers_4967 :: "register list" where
  "registers_4967 = [
    Register ''USB_DAINTMSK'' 0x81c (Some 0x0), Register ''USB_DVBUSDIS'' 0x828 (Some 0x0), Register
    ''USB_DVBUSPULSE'' 0x82c (Some 0x0), Register ''USB_DTHRCTL'' 0x830 (Some 0x0), Register ''USB_DIEPEMPMSK''
    0x834 (Some 0x0), Register ''USB_DIEPCTL0'' 0x900 (Some 0x0), Register ''USB_DIEPINT0'' 0x908 (Some 0x0),
    Register ''USB_DIEPTSIZ0'' 0x910 (Some 0x0), Register ''USB_DIEPDMA0'' 0x914 (Some 0x0), Register
    ''USB_DTXFSTS0'' 0x918 (Some 0x0), Register ''USB_DIEPDMAB0'' 0x91c (Some 0x0), Register ''USB_DIEPCTL1''
    0x920 (Some 0x0), Register ''USB_DIEPINT1'' 0x928 (Some 0x0), Register ''USB_DIEPTSIZ1'' 0x930 (Some 0x0),
    Register ''USB_DIEPDMA1'' 0x934 (Some 0x0), Register ''USB_DTXFSTS1'' 0x938 (Some 0x0), Register
    ''USB_DIEPDMAB1'' 0x93c (Some 0x0), Register ''USB_DIEPCTL2'' 0x940 (Some 0x0), Register ''USB_DIEPINT2''
    0x948 (Some 0x0), Register ''USB_DIEPTSIZ2'' 0x950 (Some 0x0), Register ''USB_DIEPDMA2'' 0x954 (Some 0x0),
    Register ''USB_DTXFSTS2'' 0x958 (Some 0x0), Register ''USB_DIEPDMAB2'' 0x95c (Some 0x0), Register
    ''USB_DIEPCTL3'' 0x960 (Some 0x0), Register ''USB_DIEPINT3'' 0x968 (Some 0x0), Register ''USB_DIEPTSIZ3''
    0x970 (Some 0x0), Register ''USB_DIEPDMA3'' 0x974 (Some 0x0), Register ''USB_DTXFSTS3'' 0x978 (Some 0x0),
    Register ''USB_DIEPDMAB3'' 0x97c (Some 0x0), Register ''USB_DIEPCTL4'' 0x980 (Some 0x0), Register
    ''USB_DIEPINT4'' 0x988 (Some 0x0), Register ''USB_DIEPTSIZ4'' 0x990 (Some 0x0), Register ''USB_DIEPDMA4''
    0x994 (Some 0x0), Register ''USB_DTXFSTS4'' 0x998 (Some 0x0), Register ''USB_DIEPDMAB4'' 0x99c (Some 0x0),
    Register ''USB_DIEPCTL5'' 0x9a0 (Some 0x0), Register ''USB_DIEPINT5'' 0x9a8 (Some 0x0), Register
    ''USB_DIEPTSIZ5'' 0x9b0 (Some 0x0), Register ''USB_DIEPDMA5'' 0x9b4 (Some 0x0), Register ''USB_DTXFSTS5''
    0x9b8 (Some 0x0)]"

definition registers_5047 :: "register list" where
  "registers_5047 = [
    Register ''USB_DIEPDMAB5'' 0x9bc (Some 0x0), Register ''USB_DIEPCTL6'' 0x9c0 (Some 0x0), Register
    ''USB_DIEPINT6'' 0x9c8 (Some 0x0), Register ''USB_DIEPTSIZ6'' 0x9d0 (Some 0x0), Register ''USB_DIEPDMA6''
    0x9d4 (Some 0x0), Register ''USB_DTXFSTS6'' 0x9d8 (Some 0x0), Register ''USB_DIEPDMAB6'' 0x9dc (Some 0x0),
    Register ''USB_DIEPCTL7'' 0x9e0 (Some 0x0), Register ''USB_DIEPINT7'' 0x9e8 (Some 0x0), Register
    ''USB_DIEPTSIZ7'' 0x9f0 (Some 0x0), Register ''USB_DIEPDMA7'' 0x9f4 (Some 0x0), Register ''USB_DTXFSTS7''
    0x9f8 (Some 0x0), Register ''USB_DIEPDMAB7'' 0x9fc (Some 0x0), Register ''USB_DIEPCTL8'' 0xa00 (Some 0x0),
    Register ''USB_DIEPINT8'' 0xa08 (Some 0x0), Register ''USB_DIEPTSIZ8'' 0xa10 (Some 0x0), Register
    ''USB_DIEPDMA8'' 0xa14 (Some 0x0), Register ''USB_DTXFSTS8'' 0xa18 (Some 0x0), Register ''USB_DIEPDMAB8''
    0xa1c (Some 0x0), Register ''USB_DIEPCTL9'' 0xa20 (Some 0x0), Register ''USB_DIEPINT9'' 0xa28 (Some 0x0),
    Register ''USB_DIEPTSIZ9'' 0xa30 (Some 0x0), Register ''USB_DIEPDMA9'' 0xa34 (Some 0x0), Register
    ''USB_DTXFSTS9'' 0xa38 (Some 0x0), Register ''USB_DIEPDMAB9'' 0xa3c (Some 0x0), Register ''USB_DIEPCTL10''
    0xa40 (Some 0x0), Register ''USB_DIEPINT10'' 0xa48 (Some 0x0), Register ''USB_DIEPTSIZ10'' 0xa50 (Some 0x0),
    Register ''USB_DIEPDMA10'' 0xa54 (Some 0x0), Register ''USB_DTXFSTS10'' 0xa58 (Some 0x0), Register
    ''USB_DIEPDMAB10'' 0xa5c (Some 0x0), Register ''USB_DIEPCTL11'' 0xa60 (Some 0x0), Register ''USB_DIEPINT11''
    0xa68 (Some 0x0), Register ''USB_DIEPTSIZ11'' 0xa70 (Some 0x0), Register ''USB_DIEPDMA11'' 0xa74 (Some 0x0),
    Register ''USB_DTXFSTS11'' 0xa78 (Some 0x0), Register ''USB_DIEPDMAB11'' 0xa7c (Some 0x0), Register
    ''USB_DIEPCTL12'' 0xa80 (Some 0x0), Register ''USB_DIEPINT12'' 0xa88 (Some 0x0), Register ''USB_DIEPTSIZ12''
    0xa90 (Some 0x0)]"

definition registers_5127 :: "register list" where
  "registers_5127 = [
    Register ''USB_DIEPDMA12'' 0xa94 (Some 0x0), Register ''USB_DTXFSTS12'' 0xa98 (Some 0x0), Register
    ''USB_DIEPDMAB12'' 0xa9c (Some 0x0), Register ''USB_DIEPCTL13'' 0xaa0 (Some 0x0), Register ''USB_DIEPINT13''
    0xaa8 (Some 0x0), Register ''USB_DIEPTSIZ13'' 0xab0 (Some 0x0), Register ''USB_DIEPDMA13'' 0xab4 (Some 0x0),
    Register ''USB_DTXFSTS13'' 0xab8 (Some 0x0), Register ''USB_DIEPDMAB13'' 0xabc (Some 0x0), Register
    ''USB_DIEPCTL14'' 0xac0 (Some 0x0), Register ''USB_DIEPINT14'' 0xac8 (Some 0x0), Register ''USB_DIEPTSIZ14''
    0xad0 (Some 0x0), Register ''USB_DIEPDMA14'' 0xad4 (Some 0x0), Register ''USB_DTXFSTS14'' 0xad8 (Some 0x0),
    Register ''USB_DIEPDMAB14'' 0xadc (Some 0x0), Register ''USB_DIEPCTL15'' 0xae0 (Some 0x0), Register
    ''USB_DIEPINT15'' 0xae8 (Some 0x0), Register ''USB_DIEPTSIZ15'' 0xaf0 (Some 0x0), Register ''USB_DIEPDMA15''
    0xaf4 (Some 0x0), Register ''USB_DTXFSTS15'' 0xaf8 (Some 0x0), Register ''USB_DIEPDMAB15'' 0xafc (Some 0x0),
    Register ''USB_DOEPCTL0'' 0xb00 (Some 0x0), Register ''USB_DOEPINT0'' 0xb08 (Some 0x0), Register
    ''USB_DOEPTSIZ0'' 0xb10 (Some 0x0), Register ''USB_DOEPDMA0'' 0xb14 (Some 0x0), Register ''USB_DOEPDMAB0''
    0xb1c (Some 0x0), Register ''USB_DOEPCTL1'' 0xb20 (Some 0x0), Register ''USB_DOEPINT1'' 0xb28 (Some 0x0),
    Register ''USB_DOEPTSIZ1'' 0xb30 (Some 0x0), Register ''USB_DOEPDMA1'' 0xb34 (Some 0x0), Register
    ''USB_DOEPDMAB1'' 0xb3c (Some 0x0), Register ''USB_DOEPCTL2'' 0xb40 (Some 0x0), Register ''USB_DOEPINT2''
    0xb48 (Some 0x0), Register ''USB_DOEPTSIZ2'' 0xb50 (Some 0x0), Register ''USB_DOEPDMA2'' 0xb54 (Some 0x0),
    Register ''USB_DOEPDMAB2'' 0xb5c (Some 0x0), Register ''USB_DOEPCTL3'' 0xb60 (Some 0x0), Register
    ''USB_DOEPINT3'' 0xb68 (Some 0x0), Register ''USB_DOEPTSIZ3'' 0xb70 (Some 0x0), Register ''USB_DOEPDMA3''
    0xb74 (Some 0x0)]"

definition registers_5207 :: "register list" where
  "registers_5207 = [
    Register ''USB_DOEPDMAB3'' 0xb7c (Some 0x0), Register ''USB_DOEPCTL4'' 0xb80 (Some 0x0), Register
    ''USB_DOEPINT4'' 0xb88 (Some 0x0), Register ''USB_DOEPTSIZ4'' 0xb90 (Some 0x0), Register ''USB_DOEPDMA4''
    0xb94 (Some 0x0), Register ''USB_DOEPDMAB4'' 0xb9c (Some 0x0), Register ''USB_DOEPCTL5'' 0xba0 (Some 0x0),
    Register ''USB_DOEPINT5'' 0xba8 (Some 0x0), Register ''USB_DOEPTSIZ5'' 0xbb0 (Some 0x0), Register
    ''USB_DOEPDMA5'' 0xbb4 (Some 0x0), Register ''USB_DOEPDMAB5'' 0xbbc (Some 0x0), Register ''USB_DOEPCTL6''
    0xbc0 (Some 0x0), Register ''USB_DOEPINT6'' 0xbc8 (Some 0x0), Register ''USB_DOEPTSIZ6'' 0xbd0 (Some 0x0),
    Register ''USB_DOEPDMA6'' 0xbd4 (Some 0x0), Register ''USB_DOEPDMAB6'' 0xbdc (Some 0x0), Register
    ''USB_DOEPCTL7'' 0xbe0 (Some 0x0), Register ''USB_DOEPINT7'' 0xbe8 (Some 0x0), Register ''USB_DOEPTSIZ7''
    0xbf0 (Some 0x0), Register ''USB_DOEPDMA7'' 0xbf4 (Some 0x0), Register ''USB_DOEPDMAB7'' 0xbfc (Some 0x0),
    Register ''USB_DOEPCTL8'' 0xc00 (Some 0x0), Register ''USB_DOEPINT8'' 0xc08 (Some 0x0), Register
    ''USB_DOEPTSIZ8'' 0xc10 (Some 0x0), Register ''USB_DOEPDMA8'' 0xc14 (Some 0x0), Register ''USB_DOEPDMAB8''
    0xc1c (Some 0x0), Register ''USB_DOEPCTL9'' 0xc20 (Some 0x0), Register ''USB_DOEPINT9'' 0xc28 (Some 0x0),
    Register ''USB_DOEPTSIZ9'' 0xc30 (Some 0x0), Register ''USB_DOEPDMA9'' 0xc34 (Some 0x0), Register
    ''USB_DOEPDMAB9'' 0xc3c (Some 0x0), Register ''USB_DOEPCTL10'' 0xc40 (Some 0x0), Register ''USB_DOEPINT10''
    0xc48 (Some 0x0), Register ''USB_DOEPTSIZ10'' 0xc50 (Some 0x0), Register ''USB_DOEPDMA10'' 0xc54 (Some 0x0),
    Register ''USB_DOEPDMAB10'' 0xc5c (Some 0x0), Register ''USB_DOEPCTL11'' 0xc60 (Some 0x0), Register
    ''USB_DOEPINT11'' 0xc68 (Some 0x0), Register ''USB_DOEPTSIZ11'' 0xc70 (Some 0x0), Register ''USB_DOEPDMA11''
    0xc74 (Some 0x0)]"

definition registers_5287 :: "register list" where
  "registers_5287 = [
    Register ''USB_DOEPDMAB11'' 0xc7c (Some 0x0), Register ''USB_DOEPCTL12'' 0xc80 (Some 0x0), Register
    ''USB_DOEPINT12'' 0xc88 (Some 0x0), Register ''USB_DOEPTSIZ12'' 0xc90 (Some 0x0), Register ''USB_DOEPDMA12''
    0xc94 (Some 0x0), Register ''USB_DOEPDMAB12'' 0xc9c (Some 0x0), Register ''USB_DOEPCTL13'' 0xca0 (Some 0x0),
    Register ''USB_DOEPINT13'' 0xca8 (Some 0x0), Register ''USB_DOEPTSIZ13'' 0xcb0 (Some 0x0), Register
    ''USB_DOEPDMA13'' 0xcb4 (Some 0x0), Register ''USB_DOEPDMAB13'' 0xcbc (Some 0x0), Register ''USB_DOEPCTL14''
    0xcc0 (Some 0x0), Register ''USB_DOEPINT14'' 0xcc8 (Some 0x0), Register ''USB_DOEPTSIZ14'' 0xcd0 (Some 0x0),
    Register ''USB_DOEPDMA14'' 0xcd4 (Some 0x0), Register ''USB_DOEPDMAB14'' 0xcdc (Some 0x0), Register
    ''USB_DOEPCTL15'' 0xce0 (Some 0x0), Register ''USB_DOEPINT15'' 0xce8 (Some 0x0), Register ''USB_DOEPTSIZ15''
    0xcf0 (Some 0x0), Register ''USB_DOEPDMA15'' 0xcf4 (Some 0x0), Register ''USB_DOEPDMAB15'' 0xcfc (Some 0x0),
    Register ''USB_PCGCCTL'' 0xe00 (Some 0x0), Register ''USB_DFIFO'' 0x20000 None]"

definition regdefs_19216 :: "reg_field list" where
  "regdefs_19216 = [
    Field ''USB_GOTGCTL_BVALIDOVEN'' 6 0x40 1 0x0 0x0, Field ''USB_GOTGCTL_BVALIDOVVAL'' 7 0x80 1 0x0 0x0, Field
    ''USB_GOTGCTL_CONIDSTS'' 16 0x10000 1 0x0 0x0, Field ''USB_GOTGCTL_BSESVLD'' 19 0x80000 1 0x0 0x0, Field
    ''USB_GOTGCTL_OTGVER'' 20 0x100000 1 0x0 0x0, Field ''USB_GOTGCTL_CURMOD'' 21 0x200000 1 0x0 0x0, Field
    ''USB_GOTGINT_SESENDDET'' 2 0x4 1 0x0 0x4, Field ''USB_GOTGINT_SESREQSUCSTSCHNG'' 8 0x100 1 0x0 0x4, Field
    ''USB_GOTGINT_HSTNEGSUCSTSCHNG'' 9 0x200 1 0x0 0x4, Field ''USB_GOTGINT_HSTNEGDET'' 17 0x20000 1 0x0 0x4,
    Field ''USB_GOTGINT_ADEVTOUTCHG'' 18 0x40000 1 0x0 0x4, Field ''USB_GAHBCFG_GLBLINTRMSK'' 0 0x1 1 0x0 0x8,
    Field ''USB_GAHBCFG_HBSTLEN'' 1 0x1e 4 0x0 0x8, Field ''USB_GAHBCFG_DMAEN'' 5 0x20 1 0x0 0x8, Field
    ''USB_GAHBCFG_NPTXFEMPLVL'' 7 0x80 1 0x0 0x8, Field ''USB_GAHBCFG_REMMEMSUPP'' 21 0x200000 1 0x0 0x8, Field
    ''USB_GAHBCFG_NOTIALLDMAWRIT'' 22 0x400000 1 0x0 0x8, Field ''USB_GAHBCFG_AHBSINGLE'' 23 0x800000 1 0x0 0x8,
    Field ''USB_GAHBCFG_INVDESCENDIANESS'' 24 0x1000000 1 0x0 0x8]"

definition regdefs_19311 :: "reg_field list" where
  "regdefs_19311 = [
    Field ''USB_GUSBCFG_TOUTCAL'' 0 0x7 3 0x0 0xc, Field ''USB_GUSBCFG_PHYIF'' 3 0x8 1 0x0 0xc, Field
    ''USB_GUSBCFG_ULPI_UTMI_SEL'' 4 0x10 1 0x0 0xc, Field ''USB_GUSBCFG_FSINTF'' 5 0x20 1 0x0 0xc, Field
    ''USB_GUSBCFG_PHYSEL'' 6 0x40 1 0x0 0xc, Field ''USB_GUSBCFG_DDRSEL'' 7 0x80 1 0x0 0xc, Field
    ''USB_GUSBCFG_USBTRDTIM'' 10 0x3c00 4 0x0 0xc, Field ''USB_GUSBCFG_PHYLPWRCLKSEL'' 15 0x8000 1 0x0 0xc,
    Field ''USB_GUSBCFG_ULPIFSLS'' 17 0x20000 1 0x0 0xc, Field ''USB_GUSBCFG_ULPIAUTORES'' 18 0x40000 1 0x0 0xc,
    Field ''USB_GUSBCFG_ULPICLKSUSM'' 19 0x80000 1 0x0 0xc, Field ''USB_GUSBCFG_TERMSELDLPULSE'' 22 0x400000 1
    0x0 0xc, Field ''USB_GUSBCFG_IC_USBCAP'' 26 0x4000000 1 0x0 0xc, Field ''USB_GUSBCFG_TXENDDELAY'' 28
    0x10000000 1 0x0 0xc, Field ''USB_GUSBCFG_CORRUPTTXPKT'' 31 0x80000000 1 0x0 0xc, Field
    ''USB_GRSTCTL_CSFTRST'' 0 0x1 1 0x0 0x10, Field ''USB_GRSTCTL_PIUFSSFTRST'' 1 0x2 1 0x0 0x10, Field
    ''USB_GRSTCTL_RXFFLSH'' 4 0x10 1 0x0 0x10, Field ''USB_GRSTCTL_TXFFLSH'' 5 0x20 1 0x0 0x10, Field
    ''USB_GRSTCTL_TXFNUM'' 6 0x7c0 5 0x0 0x10, Field ''USB_GRSTCTL_DMAREQ'' 30 0x40000000 1 0x0 0x10, Field
    ''USB_GRSTCTL_AHBIDLE'' 31 0x80000000 1 0x0 0x10]"

definition regdefs_19421 :: "reg_field list" where
  "regdefs_19421 = [
    Field ''USB_GINTSTS_CURMOD'' 0 0x1 1 0x0 0x14, Field ''USB_GINTSTS_MODEMIS'' 1 0x2 1 0x0 0x14, Field
    ''USB_GINTSTS_OTGINT'' 2 0x4 1 0x0 0x14, Field ''USB_GINTSTS_SOF'' 3 0x8 1 0x0 0x14, Field
    ''USB_GINTSTS_RXFLVL'' 4 0x10 1 0x0 0x14, Field ''USB_GINTSTS_GINNAKEFF'' 6 0x40 1 0x0 0x14, Field
    ''USB_GINTSTS_GOUTNAKEFF'' 7 0x80 1 0x0 0x14, Field ''USB_GINTSTS_ERLYSUSP'' 10 0x400 1 0x0 0x14, Field
    ''USB_GINTSTS_USBSUSP'' 11 0x800 1 0x0 0x14, Field ''USB_GINTSTS_USBRST'' 12 0x1000 1 0x0 0x14, Field
    ''USB_GINTSTS_ENUMDONE'' 13 0x2000 1 0x0 0x14, Field ''USB_GINTSTS_ISOOUTDROP'' 14 0x4000 1 0x0 0x14, Field
    ''USB_GINTSTS_EOPF'' 15 0x8000 1 0x0 0x14, Field ''USB_GINTSTS_EPMIS'' 17 0x20000 1 0x0 0x14, Field
    ''USB_GINTSTS_IEPINT'' 18 0x40000 1 0x0 0x14, Field ''USB_GINTSTS_OEPINT'' 19 0x80000 1 0x0 0x14, Field
    ''USB_GINTSTS_INCOMPISOIN'' 20 0x100000 1 0x0 0x14, Field ''USB_GINTSTS_INCOMPLP'' 21 0x200000 1 0x0 0x14,
    Field ''USB_GINTSTS_FETSUSP'' 22 0x400000 1 0x0 0x14, Field ''USB_GINTSTS_RESETDET'' 23 0x800000 1 0x0 0x14,
    Field ''USB_GINTSTS_CONIDSTSCHNG'' 28 0x10000000 1 0x0 0x14, Field ''USB_GINTSTS_SESSREQINT'' 30 0x40000000
    1 0x0 0x14, Field ''USB_GINTSTS_WKUPINT'' 31 0x80000000 1 0x0 0x14]"

definition regdefs_19536 :: "reg_field list" where
  "regdefs_19536 = [
    Field ''USB_GINTMSK_MODEMISMSK'' 1 0x2 1 0x0 0x18, Field ''USB_GINTMSK_OTGINTMSK'' 2 0x4 1 0x0 0x18, Field
    ''USB_GINTMSK_SOFMSK'' 3 0x8 1 0x0 0x18, Field ''USB_GINTMSK_RXFLVLMSK'' 4 0x10 1 0x0 0x18, Field
    ''USB_GINTMSK_UNKNOWN5'' 5 0x20 1 0x0 0x18, Field ''USB_GINTMSK_GINNAKEFFMSK'' 6 0x40 1 0x0 0x18, Field
    ''USB_GINTMSK_GOUTNAKEFFMSK'' 7 0x80 1 0x0 0x18, Field ''USB_GINTMSK_ERLYSUSPMSK'' 10 0x400 1 0x0 0x18,
    Field ''USB_GINTMSK_USBSUSPMSK'' 11 0x800 1 0x0 0x18, Field ''USB_GINTMSK_USBRSTMSK'' 12 0x1000 1 0x0 0x18,
    Field ''USB_GINTMSK_ENUMDONEMSK'' 13 0x2000 1 0x0 0x18, Field ''USB_GINTMSK_ISOOUTDROPMSK'' 14 0x4000 1 0x0
    0x18, Field ''USB_GINTMSK_EOPFMSK'' 15 0x8000 1 0x0 0x18, Field ''USB_GINTMSK_UNKNOWN16'' 16 0x10000 1 0x0
    0x18, Field ''USB_GINTMSK_EPMISMSK'' 17 0x20000 1 0x0 0x18, Field ''USB_GINTMSK_IEPINTMSK'' 18 0x40000 1 0x0
    0x18, Field ''USB_GINTMSK_OEPINTMSK'' 19 0x80000 1 0x0 0x18, Field ''USB_GINTMSK_INCOMPISOINMSK'' 20
    0x100000 1 0x0 0x18, Field ''USB_GINTMSK_INCOMPLISOOUTMSK'' 21 0x200000 1 0x0 0x18, Field
    ''USB_GINTMSK_FETSUSPMSK'' 22 0x400000 1 0x0 0x18, Field ''USB_GINTMSK_RESETDETMSK'' 23 0x800000 1 0x0 0x18,
    Field ''USB_GINTMSK_CONIDSTSCHNGMSK'' 28 0x10000000 1 0x0 0x18, Field ''USB_GINTMSK_DISCONNINTMSK'' 29
    0x20000000 1 0x0 0x18, Field ''USB_GINTMSK_SESSREQINTMSK'' 30 0x40000000 1 0x0 0x18, Field
    ''USB_GINTMSK_WKUPINTMSK'' 31 0x80000000 1 0x0 0x18, Field ''USB_GRXSTSR_CHNUM'' 0 0xf 4 0x0 0x1c, Field
    ''USB_GRXSTSR_BCNT'' 4 0x7ff0 11 0x0 0x1c, Field ''USB_GRXSTSR_DPID'' 15 0x18000 2 0x0 0x1c, Field
    ''USB_GRXSTSR_PKTSTS'' 17 0x1e0000 4 0x0 0x1c, Field ''USB_GRXSTSR_FN'' 21 0x1e00000 4 0x0 0x1c]"

definition regdefs_19686 :: "reg_field list" where
  "regdefs_19686 = [
    Field ''USB_GRXSTSP_CHNUM'' 0 0xf 4 0x0 0x20, Field ''USB_GRXSTSP_BCNT'' 4 0x7ff0 11 0x0 0x20, Field
    ''USB_GRXSTSP_DPID'' 15 0x18000 2 0x0 0x20, Field ''USB_GRXSTSP_PKTSTS'' 17 0x1e0000 4 0x0 0x20, Field
    ''USB_GRXSTSP_FN'' 21 0x1e00000 4 0x0 0x20, Field ''USB_GRXFSIZ_RXFDEP'' 0 0x7ff 11 0x0 0x24, Field
    ''USB_GNPTXFSIZ_INEPTXF0STADDR'' 0 0xffff 16 0x0 0x28, Field ''USB_GNPTXFSIZ_INEPTXF0DEP'' 16 0xffff0000 16
    0x0 0x28, Field ''USB_GGPIO_GPI'' 0 0xffff 16 0x0 0x38, Field ''USB_GGPIO_GPO'' 16 0xffff0000 16 0x0 0x38,
    Field ''USB_GUID_GUID'' 0 0xffffffff 32 0x0 0x3c, Field ''USB_GSNPSID_SYNOPSYSID'' 0 0xffffffff 32 0x0 0x40,
    Field ''USB_GHWCFG1_EPDIR'' 0 0xffffffff 32 0x0 0x44, Field ''USB_GHWCFG2_OTGMODE'' 0 0x7 3 0x0 0x48, Field
    ''USB_GHWCFG2_OTGARCH'' 3 0x18 2 0x0 0x48, Field ''USB_GHWCFG2_SINGPNT'' 5 0x20 1 0x0 0x48, Field
    ''USB_GHWCFG2_HSPHYTYPE'' 6 0xc0 2 0x0 0x48, Field ''USB_GHWCFG2_FSPHYTYPE'' 8 0x300 2 0x0 0x48, Field
    ''USB_GHWCFG2_NUMDEVEPS'' 10 0x3c00 4 0x0 0x48, Field ''USB_GHWCFG2_NUMHSTCHNL'' 14 0x3c000 4 0x0 0x48,
    Field ''USB_GHWCFG2_PERIOSUPPORT'' 18 0x40000 1 0x0 0x48, Field ''USB_GHWCFG2_DYNFIFOSIZING'' 19 0x80000 1
    0x0 0x48, Field ''USB_GHWCFG2_MULTIPROCINTRPT'' 20 0x100000 1 0x0 0x48, Field ''USB_GHWCFG2_NPTXQDEPTH'' 22
    0xc00000 2 0x0 0x48, Field ''USB_GHWCFG2_PTXQDEPTH'' 24 0x3000000 2 0x0 0x48, Field
    ''USB_GHWCFG2_TKNQDEPTH'' 26 0x7c000000 5 0x0 0x48]"

definition regdefs_19816 :: "reg_field list" where
  "regdefs_19816 = [
    Field ''USB_GHWCFG3_XFERSIZEWIDTH'' 0 0xf 4 0x0 0x4c, Field ''USB_GHWCFG3_PKTSIZEWIDTH'' 4 0x70 3 0x0 0x4c,
    Field ''USB_GHWCFG3_OTGEN'' 7 0x80 1 0x0 0x4c, Field ''USB_GHWCFG3_I2CINTSEL'' 8 0x100 1 0x0 0x4c, Field
    ''USB_GHWCFG3_VNDCTLSUPT'' 9 0x200 1 0x0 0x4c, Field ''USB_GHWCFG3_OPTFEATURE'' 10 0x400 1 0x0 0x4c, Field
    ''USB_GHWCFG3_RSTTYPE'' 11 0x800 1 0x0 0x4c, Field ''USB_GHWCFG3_ADPSUPPORT'' 12 0x1000 1 0x0 0x4c, Field
    ''USB_GHWCFG3_HSICMODE'' 13 0x2000 1 0x0 0x4c, Field ''USB_GHWCFG3_BCSUPPORT'' 14 0x4000 1 0x0 0x4c, Field
    ''USB_GHWCFG3_LPMMODE'' 15 0x8000 1 0x0 0x4c, Field ''USB_GHWCFG3_DFIFODEPTH'' 16 0xffff0000 16 0x0 0x4c,
    Field ''USB_GHWCFG4_NUMDEVPERIOEPS'' 0 0xf 4 0x0 0x50, Field ''USB_GHWCFG4_PARTIALPWRDN'' 4 0x10 1 0x0 0x50,
    Field ''USB_GHWCFG4_AHBFREQ'' 5 0x20 1 0x0 0x50, Field ''USB_GHWCFG4_HIBERNATION'' 6 0x40 1 0x0 0x50, Field
    ''USB_GHWCFG4_EXTENDEDHIBERNATION'' 7 0x80 1 0x0 0x50, Field ''USB_GHWCFG4_PHYDATAWIDTH'' 14 0xc000 2 0x0
    0x50, Field ''USB_GHWCFG4_NUMCTLEPS'' 16 0xf0000 4 0x0 0x50, Field ''USB_GHWCFG4_IDDGFLTR'' 20 0x100000 1
    0x0 0x50, Field ''USB_GHWCFG4_VBUSVALIDFLTR'' 21 0x200000 1 0x0 0x50, Field ''USB_GHWCFG4_AVALIDFLTR'' 22
    0x400000 1 0x0 0x50, Field ''USB_GHWCFG4_BVALIDFLTR'' 23 0x800000 1 0x0 0x50, Field
    ''USB_GHWCFG4_SESSENDFLTR'' 24 0x1000000 1 0x0 0x50, Field ''USB_GHWCFG4_DEDFIFOMODE'' 25 0x2000000 1 0x0
    0x50, Field ''USB_GHWCFG4_INEPS'' 26 0x3c000000 4 0x0 0x50, Field ''USB_GHWCFG4_DESCDMAENABLED'' 30
    0x40000000 1 0x0 0x50, Field ''USB_GHWCFG4_DESCDMA'' 31 0x80000000 1 0x0 0x50, Field
    ''USB_GDFIFOCFG_GDFIFOCFG'' 0 0xffff 16 0x0 0x5c, Field ''USB_GDFIFOCFG_EPINFOBASEADDR'' 16 0xffff0000 16
    0x0 0x5c]"

definition regdefs_19966 :: "reg_field list" where
  "regdefs_19966 = [
    Field ''USB_DIEPTXF1_INEPNTXFSTADDR'' 0 0x7ff 11 0x0 0x104, Field ''USB_DIEPTXF1_RESERVED11'' 12 0x1000 1
    0x1 0x104, Field ''USB_DIEPTXF1_INEPNTXFDEP'' 16 0x3f0000 6 0x0 0x104, Field ''USB_DIEPTXF2_INEPNTXFSTADDR''
    0 0x7ff 11 0x0 0x108, Field ''USB_DIEPTXF2_INEPNTXFDEP'' 16 0x3f0000 6 0x0 0x108, Field
    ''USB_DIEPTXF3_INEPNTXFSTADDR'' 0 0x7ff 11 0x0 0x10c, Field ''USB_DIEPTXF3_INEPNTXFDEP'' 16 0x3f0000 6 0x0
    0x10c, Field ''USB_DIEPTXF4_INEPNTXFSTADDR'' 0 0x7ff 11 0x0 0x110, Field ''USB_DIEPTXF4_INEPNTXFDEP'' 16
    0x3f0000 6 0x0 0x110, Field ''USB_DIEPTXF5_INEPNTXFSTADDR'' 0 0x7ff 11 0x0 0x114, Field
    ''USB_DIEPTXF5_INEPNTXFDEP'' 16 0x3f0000 6 0x0 0x114, Field ''USB_DIEPTXF6_INEPNTXFSTADDR'' 0 0x7ff 11 0x0
    0x118, Field ''USB_DIEPTXF6_INEPNTXFDEP'' 16 0x3f0000 6 0x0 0x118, Field ''USB_DIEPTXF7_INEPNTXFSTADDR'' 0
    0x7ff 11 0x0 0x11c, Field ''USB_DIEPTXF7_INEPNTXFDEP'' 16 0x3f0000 6 0x0 0x11c, Field
    ''USB_DIEPTXF8_INEPNTXFSTADDR'' 0 0x7ff 11 0x0 0x120, Field ''USB_DIEPTXF8_INEPNTXFDEP'' 16 0x3f0000 6 0x0
    0x120, Field ''USB_DIEPTXF9_INEPNTXFSTADDR'' 0 0x7ff 11 0x0 0x124, Field ''USB_DIEPTXF9_INEPNTXFDEP'' 16
    0x3f0000 6 0x0 0x124, Field ''USB_DIEPTXF10_INEPNTXFSTADDR'' 0 0x7ff 11 0x0 0x128, Field
    ''USB_DIEPTXF10_INEPNTXFDEP'' 16 0x3f0000 6 0x0 0x128, Field ''USB_DIEPTXF11_INEPNTXFSTADDR'' 0 0x7ff 11 0x0
    0x12c, Field ''USB_DIEPTXF11_INEPNTXFDEP'' 16 0x3f0000 6 0x0 0x12c, Field ''USB_DIEPTXF12_INEPNTXFSTADDR'' 0
    0x7ff 11 0x0 0x130, Field ''USB_DIEPTXF12_INEPNTXFDEP'' 16 0x3f0000 6 0x0 0x130, Field
    ''USB_DIEPTXF13_INEPNTXFSTADDR'' 0 0x7ff 11 0x0 0x134, Field ''USB_DIEPTXF13_INEPNTXFDEP'' 16 0x3f0000 6 0x0
    0x134, Field ''USB_DIEPTXF14_INEPNTXFSTADDR'' 0 0x7ff 11 0x0 0x138, Field ''USB_DIEPTXF14_INEPNTXFDEP'' 16
    0x3f0000 6 0x0 0x138]"

definition regdefs_20111 :: "reg_field list" where
  "regdefs_20111 = [
    Field ''USB_DIEPTXF15_INEPNTXFSTADDR'' 0 0x7ff 11 0x0 0x13c, Field ''USB_DIEPTXF15_INEPNTXFDEP'' 16 0x3f0000
    6 0x0 0x13c, Field ''USB_DCFG_DEVSPD'' 0 0x3 2 0x0 0x800, Field ''USB_DCFG_NZSTSOUTHSHK'' 2 0x4 1 0x0 0x800,
    Field ''USB_DCFG_ENA32KHZSUSP'' 3 0x8 1 0x0 0x800, Field ''USB_DCFG_DEVADDR'' 4 0x7f0 7 0x0 0x800, Field
    ''USB_DCFG_PERFRINT'' 11 0x1800 2 0x0 0x800, Field ''USB_DCFG_ENDEVOUTNAK'' 13 0x2000 1 0x0 0x800, Field
    ''USB_DCFG_XCVRDLY'' 14 0x4000 1 0x0 0x800, Field ''USB_DCFG_ERRATICINTMSK'' 15 0x8000 1 0x0 0x800, Field
    ''USB_DCFG_DESCDMA'' 23 0x800000 1 0x0 0x800, Field ''USB_DCFG_PERSCHINTVL'' 24 0x3000000 2 0x0 0x800, Field
    ''USB_DCFG_RESVALID'' 26 0xfc000000 6 0x2 0x800, Field ''USB_DCTL_RMTWKUPSIG'' 0 0x1 1 0x0 0x804, Field
    ''USB_DCTL_SFTDISCON'' 1 0x2 1 0x0 0x804, Field ''USB_DCTL_GNPINNAKSTS'' 2 0x4 1 0x0 0x804, Field
    ''USB_DCTL_GOUTNAKSTS'' 3 0x8 1 0x0 0x804, Field ''USB_DCTL_TSTCTL'' 4 0x70 3 0x0 0x804, Field
    ''USB_DCTL_SGNPINNAK'' 7 0x80 1 0x0 0x804, Field ''USB_DCTL_CGNPINNAK'' 8 0x100 1 0x0 0x804, Field
    ''USB_DCTL_SGOUTNAK'' 9 0x200 1 0x0 0x804, Field ''USB_DCTL_CGOUTNAK'' 10 0x400 1 0x0 0x804, Field
    ''USB_DCTL_PWRONPRGDONE'' 11 0x800 1 0x0 0x804, Field ''USB_DCTL_GMC'' 13 0x6000 2 0x0 0x804, Field
    ''USB_DCTL_IGNRFRMNUM'' 15 0x8000 1 0x0 0x804, Field ''USB_DCTL_NAKONBBLE'' 16 0x10000 1 0x0 0x804, Field
    ''USB_DCTL_ENCONTONBNA'' 17 0x20000 1 0x0 0x804]"

definition regdefs_20246 :: "reg_field list" where
  "regdefs_20246 = [
    Field ''USB_DSTS_SUSPSTS'' 0 0x1 1 0x0 0x808, Field ''USB_DSTS_ENUMSPD'' 1 0x6 2 0x0 0x808, Field
    ''USB_DSTS_ERRTICERR'' 3 0x8 1 0x0 0x808, Field ''USB_DSTS_SOFFN'' 8 0x3fff00 14 0x0 0x808, Field
    ''USB_DSTS_DEVLNSTS'' 22 0xc00000 2 0x0 0x808, Field ''USB_DIEPMSK_XFERCOMPLMSK'' 0 0x1 1 0x0 0x810, Field
    ''USB_DIEPMSK_EPDISBLDMSK'' 1 0x2 1 0x0 0x810, Field ''USB_DIEPMSK_AHBERRMSK'' 2 0x4 1 0x0 0x810, Field
    ''USB_DIEPMSK_TIMEOUTMSK'' 3 0x8 1 0x0 0x810, Field ''USB_DIEPMSK_INTKNTXFEMPMSK'' 4 0x10 1 0x0 0x810, Field
    ''USB_DIEPMSK_INTKNEPMISMSK'' 5 0x20 1 0x0 0x810, Field ''USB_DIEPMSK_INEPNAKEFFMSK'' 6 0x40 1 0x0 0x810,
    Field ''USB_DIEPMSK_RESERVED7'' 7 0x80 1 0x1 0x810, Field ''USB_DIEPMSK_TXFIFOUNDRNMSK'' 8 0x100 1 0x0
    0x810, Field ''USB_DIEPMSK_BNAININTRMSK'' 9 0x200 1 0x0 0x810, Field ''USB_DIEPMSK_NAKMSK'' 13 0x2000 1 0x0
    0x810, Field ''USB_DOEPMSK_XFERCOMPLMSK'' 0 0x1 1 0x0 0x814, Field ''USB_DOEPMSK_EPDISBLDMSK'' 1 0x2 1 0x0
    0x814, Field ''USB_DOEPMSK_AHBERRMSK'' 2 0x4 1 0x0 0x814, Field ''USB_DOEPMSK_SETUPMSK'' 3 0x8 1 0x0 0x814,
    Field ''USB_DOEPMSK_OUTTKNEPDISMSK'' 4 0x10 1 0x0 0x814, Field ''USB_DOEPMSK_STSPHSERCVDMSK'' 5 0x20 1 0x0
    0x814, Field ''USB_DOEPMSK_BACK2BACKSETUP'' 6 0x40 1 0x0 0x814, Field ''USB_DOEPMSK_OUTPKTERRMSK'' 8 0x100 1
    0x0 0x814, Field ''USB_DOEPMSK_BNAOUTINTRMSK'' 9 0x200 1 0x0 0x814, Field ''USB_DOEPMSK_BBLEERRMSK'' 12
    0x1000 1 0x0 0x814, Field ''USB_DOEPMSK_NAKMSK'' 13 0x2000 1 0x0 0x814, Field ''USB_DOEPMSK_NYETMSK'' 14
    0x4000 1 0x0 0x814]"

definition regdefs_20386 :: "reg_field list" where
  "regdefs_20386 = [
    Field ''USB_DAINT_INEPINT0'' 0 0x1 1 0x0 0x818, Field ''USB_DAINT_INEPINT1'' 1 0x2 1 0x0 0x818, Field
    ''USB_DAINT_INEPINT2'' 2 0x4 1 0x0 0x818, Field ''USB_DAINT_INEPINT3'' 3 0x8 1 0x0 0x818, Field
    ''USB_DAINT_INEPINT4'' 4 0x10 1 0x0 0x818, Field ''USB_DAINT_INEPINT5'' 5 0x20 1 0x0 0x818, Field
    ''USB_DAINT_INEPINT6'' 6 0x40 1 0x0 0x818, Field ''USB_DAINT_INEPINT7'' 7 0x80 1 0x0 0x818, Field
    ''USB_DAINT_INEPINT8'' 8 0x100 1 0x0 0x818, Field ''USB_DAINT_INEPINT9'' 9 0x200 1 0x0 0x818, Field
    ''USB_DAINT_INEPINT10'' 10 0x400 1 0x0 0x818, Field ''USB_DAINT_INEPINT11'' 11 0x800 1 0x0 0x818, Field
    ''USB_DAINT_INEPINT12'' 12 0x1000 1 0x0 0x818, Field ''USB_DAINT_INEPINT13'' 13 0x2000 1 0x0 0x818, Field
    ''USB_DAINT_INEPINT14'' 14 0x4000 1 0x0 0x818, Field ''USB_DAINT_INEPINT15'' 15 0x8000 1 0x0 0x818, Field
    ''USB_DAINT_OUTEPINT0'' 16 0x10000 1 0x0 0x818, Field ''USB_DAINT_OUTEPINT1'' 17 0x20000 1 0x0 0x818, Field
    ''USB_DAINT_OUTEPINT2'' 18 0x40000 1 0x0 0x818, Field ''USB_DAINT_OUTEPINT3'' 19 0x80000 1 0x0 0x818, Field
    ''USB_DAINT_OUTEPINT4'' 20 0x100000 1 0x0 0x818, Field ''USB_DAINT_OUTEPINT5'' 21 0x200000 1 0x0 0x818,
    Field ''USB_DAINT_OUTEPINT6'' 22 0x400000 1 0x0 0x818, Field ''USB_DAINT_OUTEPINT7'' 23 0x800000 1 0x0
    0x818, Field ''USB_DAINT_OUTEPINT8'' 24 0x1000000 1 0x0 0x818, Field ''USB_DAINT_OUTEPINT9'' 25 0x2000000 1
    0x0 0x818, Field ''USB_DAINT_OUTEPINT10'' 26 0x4000000 1 0x0 0x818, Field ''USB_DAINT_OUTEPINT11'' 27
    0x8000000 1 0x0 0x818, Field ''USB_DAINT_OUTEPINT12'' 28 0x10000000 1 0x0 0x818, Field
    ''USB_DAINT_OUTEPINT13'' 29 0x20000000 1 0x0 0x818]"

definition regdefs_20536 :: "reg_field list" where
  "regdefs_20536 = [
    Field ''USB_DAINT_OUTEPINT14'' 30 0x40000000 1 0x0 0x818, Field ''USB_DAINT_OUTEPINT15'' 31 0x80000000 1 0x0
    0x818]"

definition regdefs_20546 :: "reg_field list" where
  "regdefs_20546 = [
    Field ''USB_DAINTMSK_INEPMSK0'' 0 0x1 1 0x0 0x81c, Field ''USB_DAINTMSK_INEPMSK1'' 1 0x2 1 0x0 0x81c, Field
    ''USB_DAINTMSK_INEPMSK2'' 2 0x4 1 0x0 0x81c, Field ''USB_DAINTMSK_INEPMSK3'' 3 0x8 1 0x0 0x81c, Field
    ''USB_DAINTMSK_INEPMSK4'' 4 0x10 1 0x0 0x81c, Field ''USB_DAINTMSK_INEPMSK5'' 5 0x20 1 0x0 0x81c, Field
    ''USB_DAINTMSK_INEPMSK6'' 6 0x40 1 0x0 0x81c, Field ''USB_DAINTMSK_INEPMSK7'' 7 0x80 1 0x0 0x81c, Field
    ''USB_DAINTMSK_INEPMSK8'' 8 0x100 1 0x0 0x81c, Field ''USB_DAINTMSK_INEPMSK9'' 9 0x200 1 0x0 0x81c, Field
    ''USB_DAINTMSK_INEPMSK10'' 10 0x400 1 0x0 0x81c, Field ''USB_DAINTMSK_INEPMSK11'' 11 0x800 1 0x0 0x81c,
    Field ''USB_DAINTMSK_INEPMSK12'' 12 0x1000 1 0x0 0x81c, Field ''USB_DAINTMSK_INEPMSK13'' 13 0x2000 1 0x0
    0x81c, Field ''USB_DAINTMSK_INEPMSK14'' 14 0x4000 1 0x0 0x81c, Field ''USB_DAINTMSK_INEPMSK15'' 15 0x8000 1
    0x0 0x81c, Field ''USB_DAINTMSK_OUTEPMSK0'' 16 0x10000 1 0x0 0x81c, Field ''USB_DAINTMSK_OUTEPMSK1'' 17
    0x20000 1 0x0 0x81c, Field ''USB_DAINTMSK_OUTEPMSK2'' 18 0x40000 1 0x0 0x81c, Field
    ''USB_DAINTMSK_OUTEPMSK3'' 19 0x80000 1 0x0 0x81c, Field ''USB_DAINTMSK_OUTEPMSK4'' 20 0x100000 1 0x0 0x81c,
    Field ''USB_DAINTMSK_OUTEPMSK5'' 21 0x200000 1 0x0 0x81c, Field ''USB_DAINTMSK_OUTEPMSK6'' 22 0x400000 1 0x0
    0x81c, Field ''USB_DAINTMSK_OUTEPMSK7'' 23 0x800000 1 0x0 0x81c, Field ''USB_DAINTMSK_OUTEPMSK8'' 24
    0x1000000 1 0x0 0x81c, Field ''USB_DAINTMSK_OUTEPMSK9'' 25 0x2000000 1 0x0 0x81c, Field
    ''USB_DAINTMSK_OUTEPMSK10'' 26 0x4000000 1 0x0 0x81c, Field ''USB_DAINTMSK_OUTEPMSK11'' 27 0x8000000 1 0x0
    0x81c, Field ''USB_DAINTMSK_OUTEPMSK12'' 28 0x10000000 1 0x0 0x81c, Field ''USB_DAINTMSK_OUTEPMSK13'' 29
    0x20000000 1 0x0 0x81c]"

definition regdefs_20696 :: "reg_field list" where
  "regdefs_20696 = [
    Field ''USB_DAINTMSK_OUTEPMSK14'' 30 0x40000000 1 0x0 0x81c, Field ''USB_DAINTMSK_OUTEPMSK15'' 31 0x80000000
    1 0x0 0x81c, Field ''USB_DVBUSDIS_DVBUSDIS'' 0 0xffff 16 0x0 0x828, Field ''USB_DVBUSPULSE_DVBUSPULSE'' 0
    0xfff 12 0x0 0x82c, Field ''USB_DTHRCTL_NONISOTHREN'' 0 0x1 1 0x0 0x830, Field ''USB_DTHRCTL_ISOTHREN'' 1
    0x2 1 0x0 0x830, Field ''USB_DTHRCTL_TXTHRLEN'' 2 0x7fc 9 0x0 0x830, Field ''USB_DTHRCTL_AHBTHRRATIO'' 11
    0x1800 2 0x0 0x830, Field ''USB_DTHRCTL_RXTHREN'' 16 0x10000 1 0x0 0x830, Field ''USB_DTHRCTL_RXTHRLEN'' 17
    0x3fe0000 9 0x0 0x830, Field ''USB_DTHRCTL_ARBPRKEN'' 27 0x8000000 1 0x0 0x830, Field
    ''USB_DIEPEMPMSK_INEPTXFEMPMSK'' 0 0xffff 16 0x0 0x834, Field ''USB_DIEPCTL0_MPS'' 0 0x3 2 0x0 0x900, Field
    ''USB_DIEPCTL0_USBACTEP'' 15 0x8000 1 0x0 0x900, Field ''USB_DIEPCTL0_NAKSTS'' 17 0x20000 1 0x0 0x900, Field
    ''USB_DIEPCTL0_EPTYPE'' 18 0xc0000 2 0x0 0x900, Field ''USB_DIEPCTL0_STALL'' 21 0x200000 1 0x0 0x900, Field
    ''USB_DIEPCTL0_TXFNUM'' 22 0x3c00000 4 0x0 0x900, Field ''USB_DIEPCTL0_CNAK'' 26 0x4000000 1 0x0 0x900,
    Field ''USB_DIEPCTL0_SNAK'' 27 0x8000000 1 0x0 0x900, Field ''USB_DIEPCTL0_EPDIS'' 30 0x40000000 1 0x0
    0x900, Field ''USB_DIEPCTL0_EPENA'' 31 0x80000000 1 0x0 0x900]"

definition regdefs_20806 :: "reg_field list" where
  "regdefs_20806 = [
    Field ''USB_DIEPINT0_XFERCOMPL'' 0 0x1 1 0x0 0x908, Field ''USB_DIEPINT0_EPDISBLD'' 1 0x2 1 0x0 0x908, Field
    ''USB_DIEPINT0_AHBERR'' 2 0x4 1 0x0 0x908, Field ''USB_DIEPINT0_TIMEOUT'' 3 0x8 1 0x0 0x908, Field
    ''USB_DIEPINT0_INTKNTXFEMP'' 4 0x10 1 0x0 0x908, Field ''USB_DIEPINT0_INTKNEPMIS'' 5 0x20 1 0x0 0x908, Field
    ''USB_DIEPINT0_INEPNAKEFF'' 6 0x40 1 0x0 0x908, Field ''USB_DIEPINT0_TXFEMP'' 7 0x80 1 0x0 0x908, Field
    ''USB_DIEPINT0_TXFIFOUNDRN'' 8 0x100 1 0x0 0x908, Field ''USB_DIEPINT0_BNAINTR'' 9 0x200 1 0x0 0x908, Field
    ''USB_DIEPINT0_PKTDRPSTS'' 11 0x800 1 0x0 0x908, Field ''USB_DIEPINT0_BBLEERR'' 12 0x1000 1 0x0 0x908, Field
    ''USB_DIEPINT0_NAKINTRPT'' 13 0x2000 1 0x0 0x908, Field ''USB_DIEPINT0_NYETINTRPT'' 14 0x4000 1 0x0 0x908,
    Field ''USB_DIEPTSIZ0_XFERSIZE'' 0 0x7f 7 0x0 0x910, Field ''USB_DIEPTSIZ0_PKTCNT'' 19 0x180000 2 0x0 0x910,
    Field ''USB_DIEPDMA0_DMAADDR'' 0 0xffffffff 32 0x0 0x914, Field ''USB_DTXFSTS0_INEPTXFSPCAVAIL'' 0 0xffff 16
    0x0 0x918, Field ''USB_DIEPDMAB0_DMABUFFERADDR'' 0 0xffffffff 32 0x0 0x91c]"

definition regdefs_20901 :: "reg_field list" where
  "regdefs_20901 = [
    Field ''USB_DIEPCTL1_MPS'' 0 0x7ff 11 0x0 0x920, Field ''USB_DIEPCTL1_USBACTEP'' 15 0x8000 1 0x0 0x920,
    Field ''USB_DIEPCTL1_DPID'' 16 0x10000 1 0x0 0x920, Field ''USB_DIEPCTL1_NAKSTS'' 17 0x20000 1 0x0 0x920,
    Field ''USB_DIEPCTL1_EPTYPE'' 18 0xc0000 2 0x0 0x920, Field ''USB_DIEPCTL1_STALL'' 21 0x200000 1 0x0 0x920,
    Field ''USB_DIEPCTL1_TXFNUM'' 22 0x3c00000 4 0x0 0x920, Field ''USB_DIEPCTL1_CNAK'' 26 0x4000000 1 0x0
    0x920, Field ''USB_DIEPCTL1_SNAK'' 27 0x8000000 1 0x0 0x920, Field ''USB_DIEPCTL1_SETD0PID'' 28 0x10000000 1
    0x0 0x920, Field ''USB_DIEPCTL1_SETD1PID'' 29 0x20000000 1 0x0 0x920, Field ''USB_DIEPCTL1_EPDIS'' 30
    0x40000000 1 0x0 0x920, Field ''USB_DIEPCTL1_EPENA'' 31 0x80000000 1 0x0 0x920, Field
    ''USB_DIEPINT1_XFERCOMPL'' 0 0x1 1 0x0 0x928, Field ''USB_DIEPINT1_EPDISBLD'' 1 0x2 1 0x0 0x928, Field
    ''USB_DIEPINT1_AHBERR'' 2 0x4 1 0x0 0x928, Field ''USB_DIEPINT1_TIMEOUT'' 3 0x8 1 0x0 0x928, Field
    ''USB_DIEPINT1_INTKNTXFEMP'' 4 0x10 1 0x0 0x928, Field ''USB_DIEPINT1_INTKNEPMIS'' 5 0x20 1 0x0 0x928, Field
    ''USB_DIEPINT1_INEPNAKEFF'' 6 0x40 1 0x0 0x928, Field ''USB_DIEPINT1_TXFEMP'' 7 0x80 1 0x0 0x928, Field
    ''USB_DIEPINT1_TXFIFOUNDRN'' 8 0x100 1 0x0 0x928, Field ''USB_DIEPINT1_BNAINTR'' 9 0x200 1 0x0 0x928, Field
    ''USB_DIEPINT1_PKTDRPSTS'' 11 0x800 1 0x0 0x928, Field ''USB_DIEPINT1_BBLEERR'' 12 0x1000 1 0x0 0x928, Field
    ''USB_DIEPINT1_NAKINTRPT'' 13 0x2000 1 0x0 0x928, Field ''USB_DIEPINT1_NYETINTRPT'' 14 0x4000 1 0x0 0x928,
    Field ''USB_DIEPTSIZ1_XFERSIZE'' 0 0x7ffff 19 0x0 0x930, Field ''USB_DIEPTSIZ1_PKTCNT'' 19 0x1ff80000 10 0x0
    0x930, Field ''USB_DIEPTSIZ1_MC'' 29 0x60000000 2 0x0 0x930]"

definition regdefs_21051 :: "reg_field list" where
  "regdefs_21051 = [
    Field ''USB_DIEPDMA1_DMAADDR'' 0 0xffffffff 32 0x0 0x934, Field ''USB_DTXFSTS1_INEPTXFSPCAVAIL'' 0 0xffff 16
    0x0 0x938, Field ''USB_DIEPDMAB1_DMABUFFERADDR'' 0 0xffffffff 32 0x0 0x93c, Field ''USB_DIEPCTL2_MPS'' 0
    0x7ff 11 0x0 0x940, Field ''USB_DIEPCTL2_USBACTEP'' 15 0x8000 1 0x0 0x940, Field ''USB_DIEPCTL2_DPID'' 16
    0x10000 1 0x0 0x940, Field ''USB_DIEPCTL2_NAKSTS'' 17 0x20000 1 0x0 0x940, Field ''USB_DIEPCTL2_EPTYPE'' 18
    0xc0000 2 0x0 0x940, Field ''USB_DIEPCTL2_STALL'' 21 0x200000 1 0x0 0x940, Field ''USB_DIEPCTL2_TXFNUM'' 22
    0x3c00000 4 0x0 0x940, Field ''USB_DIEPCTL2_CNAK'' 26 0x4000000 1 0x0 0x940, Field ''USB_DIEPCTL2_SNAK'' 27
    0x8000000 1 0x0 0x940, Field ''USB_DIEPCTL2_SETD0PID'' 28 0x10000000 1 0x0 0x940, Field
    ''USB_DIEPCTL2_SETD1PID'' 29 0x20000000 1 0x0 0x940, Field ''USB_DIEPCTL2_EPDIS'' 30 0x40000000 1 0x0 0x940,
    Field ''USB_DIEPCTL2_EPENA'' 31 0x80000000 1 0x0 0x940, Field ''USB_DIEPINT2_XFERCOMPL'' 0 0x1 1 0x0 0x948,
    Field ''USB_DIEPINT2_EPDISBLD'' 1 0x2 1 0x0 0x948, Field ''USB_DIEPINT2_AHBERR'' 2 0x4 1 0x0 0x948, Field
    ''USB_DIEPINT2_TIMEOUT'' 3 0x8 1 0x0 0x948, Field ''USB_DIEPINT2_INTKNTXFEMP'' 4 0x10 1 0x0 0x948, Field
    ''USB_DIEPINT2_INTKNEPMIS'' 5 0x20 1 0x0 0x948, Field ''USB_DIEPINT2_INEPNAKEFF'' 6 0x40 1 0x0 0x948, Field
    ''USB_DIEPINT2_TXFEMP'' 7 0x80 1 0x0 0x948, Field ''USB_DIEPINT2_TXFIFOUNDRN'' 8 0x100 1 0x0 0x948, Field
    ''USB_DIEPINT2_BNAINTR'' 9 0x200 1 0x0 0x948, Field ''USB_DIEPINT2_PKTDRPSTS'' 11 0x800 1 0x0 0x948, Field
    ''USB_DIEPINT2_BBLEERR'' 12 0x1000 1 0x0 0x948, Field ''USB_DIEPINT2_NAKINTRPT'' 13 0x2000 1 0x0 0x948,
    Field ''USB_DIEPINT2_NYETINTRPT'' 14 0x4000 1 0x0 0x948]"

definition regdefs_21201 :: "reg_field list" where
  "regdefs_21201 = [
    Field ''USB_DIEPTSIZ2_XFERSIZE'' 0 0x7ffff 19 0x0 0x950, Field ''USB_DIEPTSIZ2_PKTCNT'' 19 0x1ff80000 10 0x0
    0x950, Field ''USB_DIEPTSIZ2_MC'' 29 0x60000000 2 0x0 0x950, Field ''USB_DIEPDMA2_DMAADDR'' 0 0xffffffff 32
    0x0 0x954, Field ''USB_DTXFSTS2_INEPTXFSPCAVAIL'' 0 0xffff 16 0x0 0x958, Field
    ''USB_DIEPDMAB2_DMABUFFERADDR'' 0 0xffffffff 32 0x0 0x95c, Field ''USB_DIEPCTL3_MPS'' 0 0x7ff 11 0x0 0x960,
    Field ''USB_DIEPCTL3_USBACTEP'' 15 0x8000 1 0x0 0x960, Field ''USB_DIEPCTL3_DPID'' 16 0x10000 1 0x0 0x960,
    Field ''USB_DIEPCTL3_NAKSTS'' 17 0x20000 1 0x0 0x960, Field ''USB_DIEPCTL3_EPTYPE'' 18 0xc0000 2 0x0 0x960,
    Field ''USB_DIEPCTL3_STALL'' 21 0x200000 1 0x0 0x960, Field ''USB_DIEPCTL3_TXFNUM'' 22 0x3c00000 4 0x0
    0x960, Field ''USB_DIEPCTL3_CNAK'' 26 0x4000000 1 0x0 0x960, Field ''USB_DIEPCTL3_SNAK'' 27 0x8000000 1 0x0
    0x960, Field ''USB_DIEPCTL3_SETD0PID'' 28 0x10000000 1 0x0 0x960, Field ''USB_DIEPCTL3_SETD1PID'' 29
    0x20000000 1 0x0 0x960, Field ''USB_DIEPCTL3_EPDIS'' 30 0x40000000 1 0x0 0x960, Field ''USB_DIEPCTL3_EPENA''
    31 0x80000000 1 0x0 0x960]"

definition regdefs_21296 :: "reg_field list" where
  "regdefs_21296 = [
    Field ''USB_DIEPINT3_XFERCOMPL'' 0 0x1 1 0x0 0x968, Field ''USB_DIEPINT3_EPDISBLD'' 1 0x2 1 0x0 0x968, Field
    ''USB_DIEPINT3_AHBERR'' 2 0x4 1 0x0 0x968, Field ''USB_DIEPINT3_TIMEOUT'' 3 0x8 1 0x0 0x968, Field
    ''USB_DIEPINT3_INTKNTXFEMP'' 4 0x10 1 0x0 0x968, Field ''USB_DIEPINT3_INTKNEPMIS'' 5 0x20 1 0x0 0x968, Field
    ''USB_DIEPINT3_INEPNAKEFF'' 6 0x40 1 0x0 0x968, Field ''USB_DIEPINT3_TXFEMP'' 7 0x80 1 0x0 0x968, Field
    ''USB_DIEPINT3_TXFIFOUNDRN'' 8 0x100 1 0x0 0x968, Field ''USB_DIEPINT3_BNAINTR'' 9 0x200 1 0x0 0x968, Field
    ''USB_DIEPINT3_PKTDRPSTS'' 11 0x800 1 0x0 0x968, Field ''USB_DIEPINT3_BBLEERR'' 12 0x1000 1 0x0 0x968, Field
    ''USB_DIEPINT3_NAKINTRPT'' 13 0x2000 1 0x0 0x968, Field ''USB_DIEPINT3_NYETINTRPT'' 14 0x4000 1 0x0 0x968,
    Field ''USB_DIEPTSIZ3_XFERSIZE'' 0 0x7ffff 19 0x0 0x970, Field ''USB_DIEPTSIZ3_PKTCNT'' 19 0x1ff80000 10 0x0
    0x970, Field ''USB_DIEPTSIZ3_MC'' 29 0x60000000 2 0x0 0x970, Field ''USB_DIEPDMA3_DMAADDR'' 0 0xffffffff 32
    0x0 0x974, Field ''USB_DTXFSTS3_INEPTXFSPCAVAIL'' 0 0xffff 16 0x0 0x978, Field
    ''USB_DIEPDMAB3_DMABUFFERADDR'' 0 0xffffffff 32 0x0 0x97c]"

definition regdefs_21396 :: "reg_field list" where
  "regdefs_21396 = [
    Field ''USB_DIEPCTL4_MPS'' 0 0x7ff 11 0x0 0x980, Field ''USB_DIEPCTL4_USBACTEP'' 15 0x8000 1 0x0 0x980,
    Field ''USB_DIEPCTL4_DPID'' 16 0x10000 1 0x0 0x980, Field ''USB_DIEPCTL4_NAKSTS'' 17 0x20000 1 0x0 0x980,
    Field ''USB_DIEPCTL4_EPTYPE'' 18 0xc0000 2 0x0 0x980, Field ''USB_DIEPCTL4_STALL'' 21 0x200000 1 0x0 0x980,
    Field ''USB_DIEPCTL4_TXFNUM'' 22 0x3c00000 4 0x0 0x980, Field ''USB_DIEPCTL4_CNAK'' 26 0x4000000 1 0x0
    0x980, Field ''USB_DIEPCTL4_SNAK'' 27 0x8000000 1 0x0 0x980, Field ''USB_DIEPCTL4_SETD0PID'' 28 0x10000000 1
    0x0 0x980, Field ''USB_DIEPCTL4_SETD1PID'' 29 0x20000000 1 0x0 0x980, Field ''USB_DIEPCTL4_EPDIS'' 30
    0x40000000 1 0x0 0x980, Field ''USB_DIEPCTL4_EPENA'' 31 0x80000000 1 0x0 0x980, Field
    ''USB_DIEPINT4_XFERCOMPL'' 0 0x1 1 0x0 0x988, Field ''USB_DIEPINT4_EPDISBLD'' 1 0x2 1 0x0 0x988, Field
    ''USB_DIEPINT4_AHBERR'' 2 0x4 1 0x0 0x988, Field ''USB_DIEPINT4_TIMEOUT'' 3 0x8 1 0x0 0x988, Field
    ''USB_DIEPINT4_INTKNTXFEMP'' 4 0x10 1 0x0 0x988, Field ''USB_DIEPINT4_INTKNEPMIS'' 5 0x20 1 0x0 0x988, Field
    ''USB_DIEPINT4_INEPNAKEFF'' 6 0x40 1 0x0 0x988, Field ''USB_DIEPINT4_TXFEMP'' 7 0x80 1 0x0 0x988, Field
    ''USB_DIEPINT4_TXFIFOUNDRN'' 8 0x100 1 0x0 0x988, Field ''USB_DIEPINT4_BNAINTR'' 9 0x200 1 0x0 0x988, Field
    ''USB_DIEPINT4_PKTDRPSTS'' 11 0x800 1 0x0 0x988, Field ''USB_DIEPINT4_BBLEERR'' 12 0x1000 1 0x0 0x988, Field
    ''USB_DIEPINT4_NAKINTRPT'' 13 0x2000 1 0x0 0x988, Field ''USB_DIEPINT4_NYETINTRPT'' 14 0x4000 1 0x0 0x988,
    Field ''USB_DIEPTSIZ4_XFERSIZE'' 0 0x7ffff 19 0x0 0x990, Field ''USB_DIEPTSIZ4_PKTCNT'' 19 0x1ff80000 10 0x0
    0x990, Field ''USB_DIEPTSIZ4_MC'' 29 0x60000000 2 0x0 0x990]"

definition regdefs_21546 :: "reg_field list" where
  "regdefs_21546 = [
    Field ''USB_DIEPDMA4_DMAADDR'' 0 0xffffffff 32 0x0 0x994, Field ''USB_DTXFSTS4_INEPTXFSPCAVAIL'' 0 0xffff 16
    0x0 0x998, Field ''USB_DIEPDMAB4_DMABUFFERADDR'' 0 0xffffffff 32 0x0 0x99c, Field ''USB_DIEPCTL5_MPS'' 0
    0x7ff 11 0x0 0x9a0, Field ''USB_DIEPCTL5_USBACTEP'' 15 0x8000 1 0x0 0x9a0, Field ''USB_DIEPCTL5_DPID'' 16
    0x10000 1 0x0 0x9a0, Field ''USB_DIEPCTL5_NAKSTS'' 17 0x20000 1 0x0 0x9a0, Field ''USB_DIEPCTL5_EPTYPE'' 18
    0xc0000 2 0x0 0x9a0, Field ''USB_DIEPCTL5_STALL'' 21 0x200000 1 0x0 0x9a0, Field ''USB_DIEPCTL5_TXFNUM'' 22
    0x3c00000 4 0x0 0x9a0, Field ''USB_DIEPCTL5_CNAK'' 26 0x4000000 1 0x0 0x9a0, Field ''USB_DIEPCTL5_SNAK'' 27
    0x8000000 1 0x0 0x9a0, Field ''USB_DIEPCTL5_SETD0PID'' 28 0x10000000 1 0x0 0x9a0, Field
    ''USB_DIEPCTL5_SETD1PID'' 29 0x20000000 1 0x0 0x9a0, Field ''USB_DIEPCTL5_EPDIS'' 30 0x40000000 1 0x0 0x9a0,
    Field ''USB_DIEPCTL5_EPENA'' 31 0x80000000 1 0x0 0x9a0, Field ''USB_DIEPINT5_XFERCOMPL'' 0 0x1 1 0x0 0x9a8,
    Field ''USB_DIEPINT5_EPDISBLD'' 1 0x2 1 0x0 0x9a8, Field ''USB_DIEPINT5_AHBERR'' 2 0x4 1 0x0 0x9a8, Field
    ''USB_DIEPINT5_TIMEOUT'' 3 0x8 1 0x0 0x9a8, Field ''USB_DIEPINT5_INTKNTXFEMP'' 4 0x10 1 0x0 0x9a8, Field
    ''USB_DIEPINT5_INTKNEPMIS'' 5 0x20 1 0x0 0x9a8, Field ''USB_DIEPINT5_INEPNAKEFF'' 6 0x40 1 0x0 0x9a8, Field
    ''USB_DIEPINT5_TXFEMP'' 7 0x80 1 0x0 0x9a8, Field ''USB_DIEPINT5_TXFIFOUNDRN'' 8 0x100 1 0x0 0x9a8, Field
    ''USB_DIEPINT5_BNAINTR'' 9 0x200 1 0x0 0x9a8, Field ''USB_DIEPINT5_PKTDRPSTS'' 11 0x800 1 0x0 0x9a8, Field
    ''USB_DIEPINT5_BBLEERR'' 12 0x1000 1 0x0 0x9a8, Field ''USB_DIEPINT5_NAKINTRPT'' 13 0x2000 1 0x0 0x9a8,
    Field ''USB_DIEPINT5_NYETINTRPT'' 14 0x4000 1 0x0 0x9a8]"

definition regdefs_21696 :: "reg_field list" where
  "regdefs_21696 = [
    Field ''USB_DIEPTSIZ5_XFERSIZE'' 0 0x7ffff 19 0x0 0x9b0, Field ''USB_DIEPTSIZ5_PKTCNT'' 19 0x1ff80000 10 0x0
    0x9b0, Field ''USB_DIEPTSIZ5_MC'' 29 0x60000000 2 0x0 0x9b0, Field ''USB_DIEPDMA5_DMAADDR'' 0 0xffffffff 32
    0x0 0x9b4, Field ''USB_DTXFSTS5_INEPTXFSPCAVAIL'' 0 0xffff 16 0x0 0x9b8, Field
    ''USB_DIEPDMAB5_DMABUFFERADDR'' 0 0xffffffff 32 0x0 0x9bc, Field ''USB_DIEPCTL6_MPS'' 0 0x7ff 11 0x0 0x9c0,
    Field ''USB_DIEPCTL6_USBACTEP'' 15 0x8000 1 0x0 0x9c0, Field ''USB_DIEPCTL6_DPID'' 16 0x10000 1 0x0 0x9c0,
    Field ''USB_DIEPCTL6_NAKSTS'' 17 0x20000 1 0x0 0x9c0, Field ''USB_DIEPCTL6_EPTYPE'' 18 0xc0000 2 0x0 0x9c0,
    Field ''USB_DIEPCTL6_STALL'' 21 0x200000 1 0x0 0x9c0, Field ''USB_DIEPCTL6_TXFNUM'' 22 0x3c00000 4 0x0
    0x9c0, Field ''USB_DIEPCTL6_CNAK'' 26 0x4000000 1 0x0 0x9c0, Field ''USB_DIEPCTL6_SNAK'' 27 0x8000000 1 0x0
    0x9c0, Field ''USB_DIEPCTL6_SETD0PID'' 28 0x10000000 1 0x0 0x9c0, Field ''USB_DIEPCTL6_SETD1PID'' 29
    0x20000000 1 0x0 0x9c0, Field ''USB_DIEPCTL6_EPDIS'' 30 0x40000000 1 0x0 0x9c0, Field ''USB_DIEPCTL6_EPENA''
    31 0x80000000 1 0x0 0x9c0]"

definition regdefs_21791 :: "reg_field list" where
  "regdefs_21791 = [
    Field ''USB_DIEPINT6_XFERCOMPL'' 0 0x1 1 0x0 0x9c8, Field ''USB_DIEPINT6_EPDISBLD'' 1 0x2 1 0x0 0x9c8, Field
    ''USB_DIEPINT6_AHBERR'' 2 0x4 1 0x0 0x9c8, Field ''USB_DIEPINT6_TIMEOUT'' 3 0x8 1 0x0 0x9c8, Field
    ''USB_DIEPINT6_INTKNTXFEMP'' 4 0x10 1 0x0 0x9c8, Field ''USB_DIEPINT6_INTKNEPMIS'' 5 0x20 1 0x0 0x9c8, Field
    ''USB_DIEPINT6_INEPNAKEFF'' 6 0x40 1 0x0 0x9c8, Field ''USB_DIEPINT6_TXFEMP'' 7 0x80 1 0x0 0x9c8, Field
    ''USB_DIEPINT6_TXFIFOUNDRN'' 8 0x100 1 0x0 0x9c8, Field ''USB_DIEPINT6_BNAINTR'' 9 0x200 1 0x0 0x9c8, Field
    ''USB_DIEPINT6_PKTDRPSTS'' 11 0x800 1 0x0 0x9c8, Field ''USB_DIEPINT6_BBLEERR'' 12 0x1000 1 0x0 0x9c8, Field
    ''USB_DIEPINT6_NAKINTRPT'' 13 0x2000 1 0x0 0x9c8, Field ''USB_DIEPINT6_NYETINTRPT'' 14 0x4000 1 0x0 0x9c8,
    Field ''USB_DIEPTSIZ6_XFERSIZE'' 0 0x7ffff 19 0x0 0x9d0, Field ''USB_DIEPTSIZ6_PKTCNT'' 19 0x1ff80000 10 0x0
    0x9d0, Field ''USB_DIEPTSIZ6_MC'' 29 0x60000000 2 0x0 0x9d0, Field ''USB_DIEPDMA6_DMAADDR'' 0 0xffffffff 32
    0x0 0x9d4, Field ''USB_DTXFSTS6_INEPTXFSPCAVAIL'' 0 0xffff 16 0x0 0x9d8, Field
    ''USB_DIEPDMAB6_DMABUFFERADDR'' 0 0xffffffff 32 0x0 0x9dc]"

definition regdefs_21891 :: "reg_field list" where
  "regdefs_21891 = [
    Field ''USB_DIEPCTL7_MPS'' 0 0x7ff 11 0x0 0x9e0, Field ''USB_DIEPCTL7_USBACTEP'' 15 0x8000 1 0x0 0x9e0,
    Field ''USB_DIEPCTL7_DPID'' 16 0x10000 1 0x0 0x9e0, Field ''USB_DIEPCTL7_NAKSTS'' 17 0x20000 1 0x0 0x9e0,
    Field ''USB_DIEPCTL7_EPTYPE'' 18 0xc0000 2 0x0 0x9e0, Field ''USB_DIEPCTL7_STALL'' 21 0x200000 1 0x0 0x9e0,
    Field ''USB_DIEPCTL7_TXFNUM'' 22 0x3c00000 4 0x0 0x9e0, Field ''USB_DIEPCTL7_CNAK'' 26 0x4000000 1 0x0
    0x9e0, Field ''USB_DIEPCTL7_SNAK'' 27 0x8000000 1 0x0 0x9e0, Field ''USB_DIEPCTL7_SETD0PID'' 28 0x10000000 1
    0x0 0x9e0, Field ''USB_DIEPCTL7_SETD1PID'' 29 0x20000000 1 0x0 0x9e0, Field ''USB_DIEPCTL7_EPDIS'' 30
    0x40000000 1 0x0 0x9e0, Field ''USB_DIEPCTL7_EPENA'' 31 0x80000000 1 0x0 0x9e0, Field
    ''USB_DIEPINT7_XFERCOMPL'' 0 0x1 1 0x0 0x9e8, Field ''USB_DIEPINT7_EPDISBLD'' 1 0x2 1 0x0 0x9e8, Field
    ''USB_DIEPINT7_AHBERR'' 2 0x4 1 0x0 0x9e8, Field ''USB_DIEPINT7_TIMEOUT'' 3 0x8 1 0x0 0x9e8, Field
    ''USB_DIEPINT7_INTKNTXFEMP'' 4 0x10 1 0x0 0x9e8, Field ''USB_DIEPINT7_INTKNEPMIS'' 5 0x20 1 0x0 0x9e8, Field
    ''USB_DIEPINT7_INEPNAKEFF'' 6 0x40 1 0x0 0x9e8, Field ''USB_DIEPINT7_TXFEMP'' 7 0x80 1 0x0 0x9e8, Field
    ''USB_DIEPINT7_TXFIFOUNDRN'' 8 0x100 1 0x0 0x9e8, Field ''USB_DIEPINT7_BNAINTR'' 9 0x200 1 0x0 0x9e8, Field
    ''USB_DIEPINT7_PKTDRPSTS'' 11 0x800 1 0x0 0x9e8, Field ''USB_DIEPINT7_BBLEERR'' 12 0x1000 1 0x0 0x9e8, Field
    ''USB_DIEPINT7_NAKINTRPT'' 13 0x2000 1 0x0 0x9e8, Field ''USB_DIEPINT7_NYETINTRPT'' 14 0x4000 1 0x0 0x9e8,
    Field ''USB_DIEPTSIZ7_XFERSIZE'' 0 0x7ffff 19 0x0 0x9f0, Field ''USB_DIEPTSIZ7_PKTCNT'' 19 0x1ff80000 10 0x0
    0x9f0, Field ''USB_DIEPTSIZ7_MC'' 29 0x60000000 2 0x0 0x9f0]"

definition regdefs_22041 :: "reg_field list" where
  "regdefs_22041 = [
    Field ''USB_DIEPDMA7_DMAADDR'' 0 0xffffffff 32 0x0 0x9f4, Field ''USB_DTXFSTS7_INEPTXFSPCAVAIL'' 0 0xffff 16
    0x0 0x9f8, Field ''USB_DIEPDMAB7_DMABUFFERADDR'' 0 0xffffffff 32 0x0 0x9fc, Field ''USB_DIEPCTL8_MPS'' 0
    0x7ff 11 0x0 0xa00, Field ''USB_DIEPCTL8_USBACTEP'' 15 0x8000 1 0x0 0xa00, Field ''USB_DIEPCTL8_DPID'' 16
    0x10000 1 0x0 0xa00, Field ''USB_DIEPCTL8_NAKSTS'' 17 0x20000 1 0x0 0xa00, Field ''USB_DIEPCTL8_EPTYPE'' 18
    0xc0000 2 0x0 0xa00, Field ''USB_DIEPCTL8_STALL'' 21 0x200000 1 0x0 0xa00, Field ''USB_DIEPCTL8_TXFNUM'' 22
    0x3c00000 4 0x0 0xa00, Field ''USB_DIEPCTL8_CNAK'' 26 0x4000000 1 0x0 0xa00, Field ''USB_DIEPCTL8_SNAK'' 27
    0x8000000 1 0x0 0xa00, Field ''USB_DIEPCTL8_SETD0PID'' 28 0x10000000 1 0x0 0xa00, Field
    ''USB_DIEPCTL8_SETD1PID'' 29 0x20000000 1 0x0 0xa00, Field ''USB_DIEPCTL8_EPDIS'' 30 0x40000000 1 0x0 0xa00,
    Field ''USB_DIEPCTL8_EPENA'' 31 0x80000000 1 0x0 0xa00, Field ''USB_DIEPINT8_XFERCOMPL'' 0 0x1 1 0x0 0xa08,
    Field ''USB_DIEPINT8_EPDISBLD'' 1 0x2 1 0x0 0xa08, Field ''USB_DIEPINT8_AHBERR'' 2 0x4 1 0x0 0xa08, Field
    ''USB_DIEPINT8_TIMEOUT'' 3 0x8 1 0x0 0xa08, Field ''USB_DIEPINT8_INTKNTXFEMP'' 4 0x10 1 0x0 0xa08, Field
    ''USB_DIEPINT8_INTKNEPMIS'' 5 0x20 1 0x0 0xa08, Field ''USB_DIEPINT8_INEPNAKEFF'' 6 0x40 1 0x0 0xa08, Field
    ''USB_DIEPINT8_TXFEMP'' 7 0x80 1 0x0 0xa08, Field ''USB_DIEPINT8_TXFIFOUNDRN'' 8 0x100 1 0x0 0xa08, Field
    ''USB_DIEPINT8_BNAINTR'' 9 0x200 1 0x0 0xa08, Field ''USB_DIEPINT8_PKTDRPSTS'' 11 0x800 1 0x0 0xa08, Field
    ''USB_DIEPINT8_BBLEERR'' 12 0x1000 1 0x0 0xa08, Field ''USB_DIEPINT8_NAKINTRPT'' 13 0x2000 1 0x0 0xa08,
    Field ''USB_DIEPINT8_NYETINTRPT'' 14 0x4000 1 0x0 0xa08]"

definition regdefs_22191 :: "reg_field list" where
  "regdefs_22191 = [
    Field ''USB_DIEPTSIZ8_XFERSIZE'' 0 0x7ffff 19 0x0 0xa10, Field ''USB_DIEPTSIZ8_PKTCNT'' 19 0x1ff80000 10 0x0
    0xa10, Field ''USB_DIEPTSIZ8_MC'' 29 0x60000000 2 0x0 0xa10, Field ''USB_DIEPDMA8_DMAADDR'' 0 0xffffffff 32
    0x0 0xa14, Field ''USB_DTXFSTS8_INEPTXFSPCAVAIL'' 0 0xffff 16 0x0 0xa18, Field
    ''USB_DIEPDMAB8_DMABUFFERADDR'' 0 0xffffffff 32 0x0 0xa1c, Field ''USB_DIEPCTL9_MPS'' 0 0x7ff 11 0x0 0xa20,
    Field ''USB_DIEPCTL9_USBACTEP'' 15 0x8000 1 0x0 0xa20, Field ''USB_DIEPCTL9_DPID'' 16 0x10000 1 0x0 0xa20,
    Field ''USB_DIEPCTL9_NAKSTS'' 17 0x20000 1 0x0 0xa20, Field ''USB_DIEPCTL9_EPTYPE'' 18 0xc0000 2 0x0 0xa20,
    Field ''USB_DIEPCTL9_STALL'' 21 0x200000 1 0x0 0xa20, Field ''USB_DIEPCTL9_TXFNUM'' 22 0x3c00000 4 0x0
    0xa20, Field ''USB_DIEPCTL9_CNAK'' 26 0x4000000 1 0x0 0xa20, Field ''USB_DIEPCTL9_SNAK'' 27 0x8000000 1 0x0
    0xa20, Field ''USB_DIEPCTL9_SETD0PID'' 28 0x10000000 1 0x0 0xa20, Field ''USB_DIEPCTL9_SETD1PID'' 29
    0x20000000 1 0x0 0xa20, Field ''USB_DIEPCTL9_EPDIS'' 30 0x40000000 1 0x0 0xa20, Field ''USB_DIEPCTL9_EPENA''
    31 0x80000000 1 0x0 0xa20]"

definition regdefs_22286 :: "reg_field list" where
  "regdefs_22286 = [
    Field ''USB_DIEPINT9_XFERCOMPL'' 0 0x1 1 0x0 0xa28, Field ''USB_DIEPINT9_EPDISBLD'' 1 0x2 1 0x0 0xa28, Field
    ''USB_DIEPINT9_AHBERR'' 2 0x4 1 0x0 0xa28, Field ''USB_DIEPINT9_TIMEOUT'' 3 0x8 1 0x0 0xa28, Field
    ''USB_DIEPINT9_INTKNTXFEMP'' 4 0x10 1 0x0 0xa28, Field ''USB_DIEPINT9_INTKNEPMIS'' 5 0x20 1 0x0 0xa28, Field
    ''USB_DIEPINT9_INEPNAKEFF'' 6 0x40 1 0x0 0xa28, Field ''USB_DIEPINT9_TXFEMP'' 7 0x80 1 0x0 0xa28, Field
    ''USB_DIEPINT9_TXFIFOUNDRN'' 8 0x100 1 0x0 0xa28, Field ''USB_DIEPINT9_BNAINTR'' 9 0x200 1 0x0 0xa28, Field
    ''USB_DIEPINT9_PKTDRPSTS'' 11 0x800 1 0x0 0xa28, Field ''USB_DIEPINT9_BBLEERR'' 12 0x1000 1 0x0 0xa28, Field
    ''USB_DIEPINT9_NAKINTRPT'' 13 0x2000 1 0x0 0xa28, Field ''USB_DIEPINT9_NYETINTRPT'' 14 0x4000 1 0x0 0xa28,
    Field ''USB_DIEPTSIZ9_XFERSIZE'' 0 0x7ffff 19 0x0 0xa30, Field ''USB_DIEPTSIZ9_PKTCNT'' 19 0x1ff80000 10 0x0
    0xa30, Field ''USB_DIEPTSIZ9_MC'' 29 0x60000000 2 0x0 0xa30, Field ''USB_DIEPDMA9_DMAADDR'' 0 0xffffffff 32
    0x0 0xa34, Field ''USB_DTXFSTS9_INEPTXFSPCAVAIL'' 0 0xffff 16 0x0 0xa38, Field
    ''USB_DIEPDMAB9_DMABUFFERADDR'' 0 0xffffffff 32 0x0 0xa3c]"

definition regdefs_22386 :: "reg_field list" where
  "regdefs_22386 = [
    Field ''USB_DIEPCTL10_MPS'' 0 0x7ff 11 0x0 0xa40, Field ''USB_DIEPCTL10_USBACTEP'' 15 0x8000 1 0x0 0xa40,
    Field ''USB_DIEPCTL10_DPID'' 16 0x10000 1 0x0 0xa40, Field ''USB_DIEPCTL10_NAKSTS'' 17 0x20000 1 0x0 0xa40,
    Field ''USB_DIEPCTL10_EPTYPE'' 18 0xc0000 2 0x0 0xa40, Field ''USB_DIEPCTL10_STALL'' 21 0x200000 1 0x0
    0xa40, Field ''USB_DIEPCTL10_TXFNUM'' 22 0x3c00000 4 0x0 0xa40, Field ''USB_DIEPCTL10_CNAK'' 26 0x4000000 1
    0x0 0xa40, Field ''USB_DIEPCTL10_SNAK'' 27 0x8000000 1 0x0 0xa40, Field ''USB_DIEPCTL10_SETD0PID'' 28
    0x10000000 1 0x0 0xa40, Field ''USB_DIEPCTL10_SETD1PID'' 29 0x20000000 1 0x0 0xa40, Field
    ''USB_DIEPCTL10_EPDIS'' 30 0x40000000 1 0x0 0xa40, Field ''USB_DIEPCTL10_EPENA'' 31 0x80000000 1 0x0 0xa40,
    Field ''USB_DIEPINT10_XFERCOMPL'' 0 0x1 1 0x0 0xa48, Field ''USB_DIEPINT10_EPDISBLD'' 1 0x2 1 0x0 0xa48,
    Field ''USB_DIEPINT10_AHBERR'' 2 0x4 1 0x0 0xa48, Field ''USB_DIEPINT10_TIMEOUT'' 3 0x8 1 0x0 0xa48, Field
    ''USB_DIEPINT10_INTKNTXFEMP'' 4 0x10 1 0x0 0xa48, Field ''USB_DIEPINT10_INTKNEPMIS'' 5 0x20 1 0x0 0xa48,
    Field ''USB_DIEPINT10_INEPNAKEFF'' 6 0x40 1 0x0 0xa48, Field ''USB_DIEPINT10_TXFEMP'' 7 0x80 1 0x0 0xa48,
    Field ''USB_DIEPINT10_TXFIFOUNDRN'' 8 0x100 1 0x0 0xa48, Field ''USB_DIEPINT10_BNAINTR'' 9 0x200 1 0x0
    0xa48, Field ''USB_DIEPINT10_PKTDRPSTS'' 11 0x800 1 0x0 0xa48, Field ''USB_DIEPINT10_BBLEERR'' 12 0x1000 1
    0x0 0xa48, Field ''USB_DIEPINT10_NAKINTRPT'' 13 0x2000 1 0x0 0xa48, Field ''USB_DIEPINT10_NYETINTRPT'' 14
    0x4000 1 0x0 0xa48, Field ''USB_DIEPTSIZ10_XFERSIZE'' 0 0x7ffff 19 0x0 0xa50, Field
    ''USB_DIEPTSIZ10_PKTCNT'' 19 0x1ff80000 10 0x0 0xa50, Field ''USB_DIEPTSIZ10_MC'' 29 0x60000000 2 0x0 0xa50]"

definition regdefs_22536 :: "reg_field list" where
  "regdefs_22536 = [
    Field ''USB_DIEPDMA10_DMAADDR'' 0 0xffffffff 32 0x0 0xa54, Field ''USB_DTXFSTS10_INEPTXFSPCAVAIL'' 0 0xffff
    16 0x0 0xa58, Field ''USB_DIEPDMAB10_DMABUFFERADDR'' 0 0xffffffff 32 0x0 0xa5c, Field ''USB_DIEPCTL11_MPS''
    0 0x7ff 11 0x0 0xa60, Field ''USB_DIEPCTL11_USBACTEP'' 15 0x8000 1 0x0 0xa60, Field ''USB_DIEPCTL11_DPID''
    16 0x10000 1 0x0 0xa60, Field ''USB_DIEPCTL11_NAKSTS'' 17 0x20000 1 0x0 0xa60, Field
    ''USB_DIEPCTL11_EPTYPE'' 18 0xc0000 2 0x0 0xa60, Field ''USB_DIEPCTL11_STALL'' 21 0x200000 1 0x0 0xa60,
    Field ''USB_DIEPCTL11_TXFNUM'' 22 0x3c00000 4 0x0 0xa60, Field ''USB_DIEPCTL11_CNAK'' 26 0x4000000 1 0x0
    0xa60, Field ''USB_DIEPCTL11_SNAK'' 27 0x8000000 1 0x0 0xa60, Field ''USB_DIEPCTL11_SETD0PID'' 28 0x10000000
    1 0x0 0xa60, Field ''USB_DIEPCTL11_SETD1PID'' 29 0x20000000 1 0x0 0xa60, Field ''USB_DIEPCTL11_EPDIS'' 30
    0x40000000 1 0x0 0xa60, Field ''USB_DIEPCTL11_EPENA'' 31 0x80000000 1 0x0 0xa60, Field
    ''USB_DIEPINT11_XFERCOMPL'' 0 0x1 1 0x0 0xa68, Field ''USB_DIEPINT11_EPDISBLD'' 1 0x2 1 0x0 0xa68, Field
    ''USB_DIEPINT11_AHBERR'' 2 0x4 1 0x0 0xa68, Field ''USB_DIEPINT11_TIMEOUT'' 3 0x8 1 0x0 0xa68, Field
    ''USB_DIEPINT11_INTKNTXFEMP'' 4 0x10 1 0x0 0xa68, Field ''USB_DIEPINT11_INTKNEPMIS'' 5 0x20 1 0x0 0xa68,
    Field ''USB_DIEPINT11_INEPNAKEFF'' 6 0x40 1 0x0 0xa68, Field ''USB_DIEPINT11_TXFEMP'' 7 0x80 1 0x0 0xa68,
    Field ''USB_DIEPINT11_TXFIFOUNDRN'' 8 0x100 1 0x0 0xa68, Field ''USB_DIEPINT11_BNAINTR'' 9 0x200 1 0x0
    0xa68, Field ''USB_DIEPINT11_PKTDRPSTS'' 11 0x800 1 0x0 0xa68, Field ''USB_DIEPINT11_BBLEERR'' 12 0x1000 1
    0x0 0xa68, Field ''USB_DIEPINT11_NAKINTRPT'' 13 0x2000 1 0x0 0xa68, Field ''USB_DIEPINT11_NYETINTRPT'' 14
    0x4000 1 0x0 0xa68]"

definition regdefs_22686 :: "reg_field list" where
  "regdefs_22686 = [
    Field ''USB_DIEPTSIZ11_XFERSIZE'' 0 0x7ffff 19 0x0 0xa70, Field ''USB_DIEPTSIZ11_PKTCNT'' 19 0x1ff80000 10
    0x0 0xa70, Field ''USB_DIEPTSIZ11_MC'' 29 0x60000000 2 0x0 0xa70, Field ''USB_DIEPDMA11_DMAADDR'' 0
    0xffffffff 32 0x0 0xa74, Field ''USB_DTXFSTS11_INEPTXFSPCAVAIL'' 0 0xffff 16 0x0 0xa78, Field
    ''USB_DIEPDMAB11_DMABUFFERADDR'' 0 0xffffffff 32 0x0 0xa7c, Field ''USB_DIEPCTL12_MPS'' 0 0x7ff 11 0x0
    0xa80, Field ''USB_DIEPCTL12_USBACTEP'' 15 0x8000 1 0x0 0xa80, Field ''USB_DIEPCTL12_DPID'' 16 0x10000 1 0x0
    0xa80, Field ''USB_DIEPCTL12_NAKSTS'' 17 0x20000 1 0x0 0xa80, Field ''USB_DIEPCTL12_EPTYPE'' 18 0xc0000 2
    0x0 0xa80, Field ''USB_DIEPCTL12_STALL'' 21 0x200000 1 0x0 0xa80, Field ''USB_DIEPCTL12_TXFNUM'' 22
    0x3c00000 4 0x0 0xa80, Field ''USB_DIEPCTL12_CNAK'' 26 0x4000000 1 0x0 0xa80, Field ''USB_DIEPCTL12_SNAK''
    27 0x8000000 1 0x0 0xa80, Field ''USB_DIEPCTL12_SETD0PID'' 28 0x10000000 1 0x0 0xa80, Field
    ''USB_DIEPCTL12_SETD1PID'' 29 0x20000000 1 0x0 0xa80, Field ''USB_DIEPCTL12_EPDIS'' 30 0x40000000 1 0x0
    0xa80, Field ''USB_DIEPCTL12_EPENA'' 31 0x80000000 1 0x0 0xa80]"

definition regdefs_22781 :: "reg_field list" where
  "regdefs_22781 = [
    Field ''USB_DIEPINT12_XFERCOMPL'' 0 0x1 1 0x0 0xa88, Field ''USB_DIEPINT12_EPDISBLD'' 1 0x2 1 0x0 0xa88,
    Field ''USB_DIEPINT12_AHBERR'' 2 0x4 1 0x0 0xa88, Field ''USB_DIEPINT12_TIMEOUT'' 3 0x8 1 0x0 0xa88, Field
    ''USB_DIEPINT12_INTKNTXFEMP'' 4 0x10 1 0x0 0xa88, Field ''USB_DIEPINT12_INTKNEPMIS'' 5 0x20 1 0x0 0xa88,
    Field ''USB_DIEPINT12_INEPNAKEFF'' 6 0x40 1 0x0 0xa88, Field ''USB_DIEPINT12_TXFEMP'' 7 0x80 1 0x0 0xa88,
    Field ''USB_DIEPINT12_TXFIFOUNDRN'' 8 0x100 1 0x0 0xa88, Field ''USB_DIEPINT12_BNAINTR'' 9 0x200 1 0x0
    0xa88, Field ''USB_DIEPINT12_PKTDRPSTS'' 11 0x800 1 0x0 0xa88, Field ''USB_DIEPINT12_BBLEERR'' 12 0x1000 1
    0x0 0xa88, Field ''USB_DIEPINT12_NAKINTRPT'' 13 0x2000 1 0x0 0xa88, Field ''USB_DIEPINT12_NYETINTRPT'' 14
    0x4000 1 0x0 0xa88, Field ''USB_DIEPTSIZ12_XFERSIZE'' 0 0x7ffff 19 0x0 0xa90, Field
    ''USB_DIEPTSIZ12_PKTCNT'' 19 0x1ff80000 10 0x0 0xa90, Field ''USB_DIEPTSIZ12_MC'' 29 0x60000000 2 0x0 0xa90,
    Field ''USB_DIEPDMA12_DMAADDR'' 0 0xffffffff 32 0x0 0xa94, Field ''USB_DTXFSTS12_INEPTXFSPCAVAIL'' 0 0xffff
    16 0x0 0xa98, Field ''USB_DIEPDMAB12_DMABUFFERADDR'' 0 0xffffffff 32 0x0 0xa9c]"

definition regdefs_22881 :: "reg_field list" where
  "regdefs_22881 = [
    Field ''USB_DIEPCTL13_MPS'' 0 0x7ff 11 0x0 0xaa0, Field ''USB_DIEPCTL13_USBACTEP'' 15 0x8000 1 0x0 0xaa0,
    Field ''USB_DIEPCTL13_DPID'' 16 0x10000 1 0x0 0xaa0, Field ''USB_DIEPCTL13_NAKSTS'' 17 0x20000 1 0x0 0xaa0,
    Field ''USB_DIEPCTL13_EPTYPE'' 18 0xc0000 2 0x0 0xaa0, Field ''USB_DIEPCTL13_STALL'' 21 0x200000 1 0x0
    0xaa0, Field ''USB_DIEPCTL13_TXFNUM'' 22 0x3c00000 4 0x0 0xaa0, Field ''USB_DIEPCTL13_CNAK'' 26 0x4000000 1
    0x0 0xaa0, Field ''USB_DIEPCTL13_SNAK'' 27 0x8000000 1 0x0 0xaa0, Field ''USB_DIEPCTL13_SETD0PID'' 28
    0x10000000 1 0x0 0xaa0, Field ''USB_DIEPCTL13_SETD1PID'' 29 0x20000000 1 0x0 0xaa0, Field
    ''USB_DIEPCTL13_EPDIS'' 30 0x40000000 1 0x0 0xaa0, Field ''USB_DIEPCTL13_EPENA'' 31 0x80000000 1 0x0 0xaa0,
    Field ''USB_DIEPINT13_XFERCOMPL'' 0 0x1 1 0x0 0xaa8, Field ''USB_DIEPINT13_EPDISBLD'' 1 0x2 1 0x0 0xaa8,
    Field ''USB_DIEPINT13_AHBERR'' 2 0x4 1 0x0 0xaa8, Field ''USB_DIEPINT13_TIMEOUT'' 3 0x8 1 0x0 0xaa8, Field
    ''USB_DIEPINT13_INTKNTXFEMP'' 4 0x10 1 0x0 0xaa8, Field ''USB_DIEPINT13_INTKNEPMIS'' 5 0x20 1 0x0 0xaa8,
    Field ''USB_DIEPINT13_INEPNAKEFF'' 6 0x40 1 0x0 0xaa8, Field ''USB_DIEPINT13_TXFEMP'' 7 0x80 1 0x0 0xaa8,
    Field ''USB_DIEPINT13_TXFIFOUNDRN'' 8 0x100 1 0x0 0xaa8, Field ''USB_DIEPINT13_BNAINTR'' 9 0x200 1 0x0
    0xaa8, Field ''USB_DIEPINT13_PKTDRPSTS'' 11 0x800 1 0x0 0xaa8, Field ''USB_DIEPINT13_BBLEERR'' 12 0x1000 1
    0x0 0xaa8, Field ''USB_DIEPINT13_NAKINTRPT'' 13 0x2000 1 0x0 0xaa8, Field ''USB_DIEPINT13_NYETINTRPT'' 14
    0x4000 1 0x0 0xaa8, Field ''USB_DIEPTSIZ13_XFERSIZE'' 0 0x7ffff 19 0x0 0xab0, Field
    ''USB_DIEPTSIZ13_PKTCNT'' 19 0x1ff80000 10 0x0 0xab0, Field ''USB_DIEPTSIZ13_MC'' 29 0x60000000 2 0x0 0xab0]"

definition regdefs_23031 :: "reg_field list" where
  "regdefs_23031 = [
    Field ''USB_DIEPDMA13_DMAADDR'' 0 0xffffffff 32 0x0 0xab4, Field ''USB_DTXFSTS13_INEPTXFSPCAVAIL'' 0 0xffff
    16 0x0 0xab8, Field ''USB_DIEPDMAB13_DMABUFFERADDR'' 0 0xffffffff 32 0x0 0xabc, Field ''USB_DIEPCTL14_MPS''
    0 0x7ff 11 0x0 0xac0, Field ''USB_DIEPCTL14_USBACTEP'' 15 0x8000 1 0x0 0xac0, Field ''USB_DIEPCTL14_DPID''
    16 0x10000 1 0x0 0xac0, Field ''USB_DIEPCTL14_NAKSTS'' 17 0x20000 1 0x0 0xac0, Field
    ''USB_DIEPCTL14_EPTYPE'' 18 0xc0000 2 0x0 0xac0, Field ''USB_DIEPCTL14_STALL'' 21 0x200000 1 0x0 0xac0,
    Field ''USB_DIEPCTL14_TXFNUM'' 22 0x3c00000 4 0x0 0xac0, Field ''USB_DIEPCTL14_CNAK'' 26 0x4000000 1 0x0
    0xac0, Field ''USB_DIEPCTL14_SNAK'' 27 0x8000000 1 0x0 0xac0, Field ''USB_DIEPCTL14_SETD0PID'' 28 0x10000000
    1 0x0 0xac0, Field ''USB_DIEPCTL14_SETD1PID'' 29 0x20000000 1 0x0 0xac0, Field ''USB_DIEPCTL14_EPDIS'' 30
    0x40000000 1 0x0 0xac0, Field ''USB_DIEPCTL14_EPENA'' 31 0x80000000 1 0x0 0xac0, Field
    ''USB_DIEPINT14_XFERCOMPL'' 0 0x1 1 0x0 0xac8, Field ''USB_DIEPINT14_EPDISBLD'' 1 0x2 1 0x0 0xac8, Field
    ''USB_DIEPINT14_AHBERR'' 2 0x4 1 0x0 0xac8, Field ''USB_DIEPINT14_TIMEOUT'' 3 0x8 1 0x0 0xac8, Field
    ''USB_DIEPINT14_INTKNTXFEMP'' 4 0x10 1 0x0 0xac8, Field ''USB_DIEPINT14_INTKNEPMIS'' 5 0x20 1 0x0 0xac8,
    Field ''USB_DIEPINT14_INEPNAKEFF'' 6 0x40 1 0x0 0xac8, Field ''USB_DIEPINT14_TXFEMP'' 7 0x80 1 0x0 0xac8,
    Field ''USB_DIEPINT14_TXFIFOUNDRN'' 8 0x100 1 0x0 0xac8, Field ''USB_DIEPINT14_BNAINTR'' 9 0x200 1 0x0
    0xac8, Field ''USB_DIEPINT14_PKTDRPSTS'' 11 0x800 1 0x0 0xac8, Field ''USB_DIEPINT14_BBLEERR'' 12 0x1000 1
    0x0 0xac8, Field ''USB_DIEPINT14_NAKINTRPT'' 13 0x2000 1 0x0 0xac8, Field ''USB_DIEPINT14_NYETINTRPT'' 14
    0x4000 1 0x0 0xac8]"

definition regdefs_23181 :: "reg_field list" where
  "regdefs_23181 = [
    Field ''USB_DIEPTSIZ14_XFERSIZE'' 0 0x7ffff 19 0x0 0xad0, Field ''USB_DIEPTSIZ14_PKTCNT'' 19 0x1ff80000 10
    0x0 0xad0, Field ''USB_DIEPTSIZ14_MC'' 29 0x60000000 2 0x0 0xad0, Field ''USB_DIEPDMA14_DMAADDR'' 0
    0xffffffff 32 0x0 0xad4, Field ''USB_DTXFSTS14_INEPTXFSPCAVAIL'' 0 0xffff 16 0x0 0xad8, Field
    ''USB_DIEPDMAB14_DMABUFFERADDR'' 0 0xffffffff 32 0x0 0xadc, Field ''USB_DIEPCTL15_MPS'' 0 0x7ff 11 0x0
    0xae0, Field ''USB_DIEPCTL15_USBACTEP'' 15 0x8000 1 0x0 0xae0, Field ''USB_DIEPCTL15_DPID'' 16 0x10000 1 0x0
    0xae0, Field ''USB_DIEPCTL15_NAKSTS'' 17 0x20000 1 0x0 0xae0, Field ''USB_DIEPCTL15_EPTYPE'' 18 0xc0000 2
    0x0 0xae0, Field ''USB_DIEPCTL15_STALL'' 21 0x200000 1 0x0 0xae0, Field ''USB_DIEPCTL15_TXFNUM'' 22
    0x3c00000 4 0x0 0xae0, Field ''USB_DIEPCTL15_CNAK'' 26 0x4000000 1 0x0 0xae0, Field ''USB_DIEPCTL15_SNAK''
    27 0x8000000 1 0x0 0xae0, Field ''USB_DIEPCTL15_SETD0PID'' 28 0x10000000 1 0x0 0xae0, Field
    ''USB_DIEPCTL15_SETD1PID'' 29 0x20000000 1 0x0 0xae0, Field ''USB_DIEPCTL15_EPDIS'' 30 0x40000000 1 0x0
    0xae0, Field ''USB_DIEPCTL15_EPENA'' 31 0x80000000 1 0x0 0xae0]"

definition regdefs_23276 :: "reg_field list" where
  "regdefs_23276 = [
    Field ''USB_DIEPINT15_XFERCOMPL'' 0 0x1 1 0x0 0xae8, Field ''USB_DIEPINT15_EPDISBLD'' 1 0x2 1 0x0 0xae8,
    Field ''USB_DIEPINT15_AHBERR'' 2 0x4 1 0x0 0xae8, Field ''USB_DIEPINT15_TIMEOUT'' 3 0x8 1 0x0 0xae8, Field
    ''USB_DIEPINT15_INTKNTXFEMP'' 4 0x10 1 0x0 0xae8, Field ''USB_DIEPINT15_INTKNEPMIS'' 5 0x20 1 0x0 0xae8,
    Field ''USB_DIEPINT15_INEPNAKEFF'' 6 0x40 1 0x0 0xae8, Field ''USB_DIEPINT15_TXFEMP'' 7 0x80 1 0x0 0xae8,
    Field ''USB_DIEPINT15_TXFIFOUNDRN'' 8 0x100 1 0x0 0xae8, Field ''USB_DIEPINT15_BNAINTR'' 9 0x200 1 0x0
    0xae8, Field ''USB_DIEPINT15_PKTDRPSTS'' 11 0x800 1 0x0 0xae8, Field ''USB_DIEPINT15_BBLEERR'' 12 0x1000 1
    0x0 0xae8, Field ''USB_DIEPINT15_NAKINTRPT'' 13 0x2000 1 0x0 0xae8, Field ''USB_DIEPINT15_NYETINTRPT'' 14
    0x4000 1 0x0 0xae8, Field ''USB_DIEPTSIZ15_XFERSIZE'' 0 0x7ffff 19 0x0 0xaf0, Field
    ''USB_DIEPTSIZ15_PKTCNT'' 19 0x1ff80000 10 0x0 0xaf0, Field ''USB_DIEPTSIZ15_MC'' 29 0x60000000 2 0x0 0xaf0,
    Field ''USB_DIEPDMA15_DMAADDR'' 0 0xffffffff 32 0x0 0xaf4, Field ''USB_DTXFSTS15_INEPTXFSPCAVAIL'' 0 0xffff
    16 0x0 0xaf8, Field ''USB_DIEPDMAB15_DMABUFFERADDR'' 0 0xffffffff 32 0x0 0xafc, Field ''USB_DOEPCTL0_MPS'' 0
    0x3 2 0x0 0xb00, Field ''USB_DOEPCTL0_USBACTEP'' 15 0x8000 1 0x0 0xb00, Field ''USB_DOEPCTL0_NAKSTS'' 17
    0x20000 1 0x0 0xb00, Field ''USB_DOEPCTL0_EPTYPE'' 18 0xc0000 2 0x0 0xb00, Field ''USB_DOEPCTL0_SNP'' 20
    0x100000 1 0x0 0xb00, Field ''USB_DOEPCTL0_STALL'' 21 0x200000 1 0x0 0xb00, Field ''USB_DOEPCTL0_CNAK'' 26
    0x4000000 1 0x0 0xb00, Field ''USB_DOEPCTL0_SNAK'' 27 0x8000000 1 0x0 0xb00, Field ''USB_DOEPCTL0_EPDIS'' 30
    0x40000000 1 0x0 0xb00, Field ''USB_DOEPCTL0_EPENA'' 31 0x80000000 1 0x0 0xb00]"

definition regdefs_23426 :: "reg_field list" where
  "regdefs_23426 = [
    Field ''USB_DOEPINT0_XFERCOMPL'' 0 0x1 1 0x0 0xb08, Field ''USB_DOEPINT0_EPDISBLD'' 1 0x2 1 0x0 0xb08, Field
    ''USB_DOEPINT0_AHBERR'' 2 0x4 1 0x0 0xb08, Field ''USB_DOEPINT0_SETUP'' 3 0x8 1 0x0 0xb08, Field
    ''USB_DOEPINT0_OUTTKNEPDIS'' 4 0x10 1 0x0 0xb08, Field ''USB_DOEPINT0_STSPHSERCVD'' 5 0x20 1 0x0 0xb08,
    Field ''USB_DOEPINT0_BACK2BACKSETUP'' 6 0x40 1 0x0 0xb08, Field ''USB_DOEPINT0_OUTPKTERR'' 8 0x100 1 0x0
    0xb08, Field ''USB_DOEPINT0_BNAINTR'' 9 0x200 1 0x0 0xb08, Field ''USB_DOEPINT0_PKTDRPSTS'' 11 0x800 1 0x0
    0xb08, Field ''USB_DOEPINT0_BBLEERR'' 12 0x1000 1 0x0 0xb08, Field ''USB_DOEPINT0_NAKINTRPT'' 13 0x2000 1
    0x0 0xb08, Field ''USB_DOEPINT0_NYETINTRPT'' 14 0x4000 1 0x0 0xb08, Field ''USB_DOEPINT0_STUPPKTRCVD'' 15
    0x8000 1 0x0 0xb08, Field ''USB_DOEPTSIZ0_XFERSIZE'' 0 0x7f 7 0x0 0xb10, Field ''USB_DOEPTSIZ0_PKTCNT'' 19
    0x80000 1 0x0 0xb10, Field ''USB_DOEPTSIZ0_SUPCNT'' 29 0x60000000 2 0x0 0xb10, Field
    ''USB_DOEPDMA0_DMAADDR'' 0 0xffffffff 32 0x0 0xb14, Field ''USB_DOEPDMAB0_DMABUFFERADDR'' 0 0xffffffff 32
    0x0 0xb1c]"

definition regdefs_23521 :: "reg_field list" where
  "regdefs_23521 = [
    Field ''USB_DOEPCTL1_MPS'' 0 0x7ff 11 0x0 0xb20, Field ''USB_DOEPCTL1_USBACTEP'' 15 0x8000 1 0x0 0xb20,
    Field ''USB_DOEPCTL1_DPID'' 16 0x10000 1 0x0 0xb20, Field ''USB_DOEPCTL1_NAKSTS'' 17 0x20000 1 0x0 0xb20,
    Field ''USB_DOEPCTL1_EPTYPE'' 18 0xc0000 2 0x0 0xb20, Field ''USB_DOEPCTL1_SNP'' 20 0x100000 1 0x0 0xb20,
    Field ''USB_DOEPCTL1_STALL'' 21 0x200000 1 0x0 0xb20, Field ''USB_DOEPCTL1_CNAK'' 26 0x4000000 1 0x0 0xb20,
    Field ''USB_DOEPCTL1_SNAK'' 27 0x8000000 1 0x0 0xb20, Field ''USB_DOEPCTL1_SETD0PID'' 28 0x10000000 1 0x0
    0xb20, Field ''USB_DOEPCTL1_SETD1PID'' 29 0x20000000 1 0x0 0xb20, Field ''USB_DOEPCTL1_EPDIS'' 30 0x40000000
    1 0x0 0xb20, Field ''USB_DOEPCTL1_EPENA'' 31 0x80000000 1 0x0 0xb20, Field ''USB_DOEPINT1_XFERCOMPL'' 0 0x1
    1 0x0 0xb28, Field ''USB_DOEPINT1_EPDISBLD'' 1 0x2 1 0x0 0xb28, Field ''USB_DOEPINT1_AHBERR'' 2 0x4 1 0x0
    0xb28, Field ''USB_DOEPINT1_SETUP'' 3 0x8 1 0x0 0xb28, Field ''USB_DOEPINT1_OUTTKNEPDIS'' 4 0x10 1 0x0
    0xb28, Field ''USB_DOEPINT1_STSPHSERCVD'' 5 0x20 1 0x0 0xb28, Field ''USB_DOEPINT1_BACK2BACKSETUP'' 6 0x40 1
    0x0 0xb28, Field ''USB_DOEPINT1_OUTPKTERR'' 8 0x100 1 0x0 0xb28, Field ''USB_DOEPINT1_BNAINTR'' 9 0x200 1
    0x0 0xb28, Field ''USB_DOEPINT1_PKTDRPSTS'' 11 0x800 1 0x0 0xb28, Field ''USB_DOEPINT1_BBLEERR'' 12 0x1000 1
    0x0 0xb28, Field ''USB_DOEPINT1_NAKINTRPT'' 13 0x2000 1 0x0 0xb28, Field ''USB_DOEPINT1_NYETINTRPT'' 14
    0x4000 1 0x0 0xb28, Field ''USB_DOEPINT1_STUPPKTRCVD'' 15 0x8000 1 0x0 0xb28, Field
    ''USB_DOEPTSIZ1_XFERSIZE'' 0 0x7ffff 19 0x0 0xb30, Field ''USB_DOEPTSIZ1_PKTCNT'' 19 0x1ff80000 10 0x0
    0xb30, Field ''USB_DOEPTSIZ1_RXDPID'' 29 0x60000000 2 0x0 0xb30]"

definition regdefs_23671 :: "reg_field list" where
  "regdefs_23671 = [
    Field ''USB_DOEPDMA1_DMAADDR'' 0 0xffffffff 32 0x0 0xb34, Field ''USB_DOEPDMAB1_DMABUFFERADDR'' 0 0xffffffff
    32 0x0 0xb3c, Field ''USB_DOEPCTL2_MPS'' 0 0x7ff 11 0x0 0xb40, Field ''USB_DOEPCTL2_USBACTEP'' 15 0x8000 1
    0x0 0xb40, Field ''USB_DOEPCTL2_DPID'' 16 0x10000 1 0x0 0xb40, Field ''USB_DOEPCTL2_NAKSTS'' 17 0x20000 1
    0x0 0xb40, Field ''USB_DOEPCTL2_EPTYPE'' 18 0xc0000 2 0x0 0xb40, Field ''USB_DOEPCTL2_SNP'' 20 0x100000 1
    0x0 0xb40, Field ''USB_DOEPCTL2_STALL'' 21 0x200000 1 0x0 0xb40, Field ''USB_DOEPCTL2_CNAK'' 26 0x4000000 1
    0x0 0xb40, Field ''USB_DOEPCTL2_SNAK'' 27 0x8000000 1 0x0 0xb40, Field ''USB_DOEPCTL2_SETD0PID'' 28
    0x10000000 1 0x0 0xb40, Field ''USB_DOEPCTL2_SETD1PID'' 29 0x20000000 1 0x0 0xb40, Field
    ''USB_DOEPCTL2_EPDIS'' 30 0x40000000 1 0x0 0xb40, Field ''USB_DOEPCTL2_EPENA'' 31 0x80000000 1 0x0 0xb40,
    Field ''USB_DOEPINT2_XFERCOMPL'' 0 0x1 1 0x0 0xb48, Field ''USB_DOEPINT2_EPDISBLD'' 1 0x2 1 0x0 0xb48, Field
    ''USB_DOEPINT2_AHBERR'' 2 0x4 1 0x0 0xb48, Field ''USB_DOEPINT2_SETUP'' 3 0x8 1 0x0 0xb48, Field
    ''USB_DOEPINT2_OUTTKNEPDIS'' 4 0x10 1 0x0 0xb48, Field ''USB_DOEPINT2_STSPHSERCVD'' 5 0x20 1 0x0 0xb48,
    Field ''USB_DOEPINT2_BACK2BACKSETUP'' 6 0x40 1 0x0 0xb48, Field ''USB_DOEPINT2_OUTPKTERR'' 8 0x100 1 0x0
    0xb48, Field ''USB_DOEPINT2_BNAINTR'' 9 0x200 1 0x0 0xb48, Field ''USB_DOEPINT2_PKTDRPSTS'' 11 0x800 1 0x0
    0xb48, Field ''USB_DOEPINT2_BBLEERR'' 12 0x1000 1 0x0 0xb48, Field ''USB_DOEPINT2_NAKINTRPT'' 13 0x2000 1
    0x0 0xb48, Field ''USB_DOEPINT2_NYETINTRPT'' 14 0x4000 1 0x0 0xb48, Field ''USB_DOEPINT2_STUPPKTRCVD'' 15
    0x8000 1 0x0 0xb48]"

definition regdefs_23816 :: "reg_field list" where
  "regdefs_23816 = [
    Field ''USB_DOEPTSIZ2_XFERSIZE'' 0 0x7ffff 19 0x0 0xb50, Field ''USB_DOEPTSIZ2_PKTCNT'' 19 0x1ff80000 10 0x0
    0xb50, Field ''USB_DOEPTSIZ2_RXDPID'' 29 0x60000000 2 0x0 0xb50, Field ''USB_DOEPDMA2_DMAADDR'' 0 0xffffffff
    32 0x0 0xb54, Field ''USB_DOEPDMAB2_DMABUFFERADDR'' 0 0xffffffff 32 0x0 0xb5c, Field ''USB_DOEPCTL3_MPS'' 0
    0x7ff 11 0x0 0xb60, Field ''USB_DOEPCTL3_USBACTEP'' 15 0x8000 1 0x0 0xb60, Field ''USB_DOEPCTL3_DPID'' 16
    0x10000 1 0x0 0xb60, Field ''USB_DOEPCTL3_NAKSTS'' 17 0x20000 1 0x0 0xb60, Field ''USB_DOEPCTL3_EPTYPE'' 18
    0xc0000 2 0x0 0xb60, Field ''USB_DOEPCTL3_SNP'' 20 0x100000 1 0x0 0xb60, Field ''USB_DOEPCTL3_STALL'' 21
    0x200000 1 0x0 0xb60, Field ''USB_DOEPCTL3_CNAK'' 26 0x4000000 1 0x0 0xb60, Field ''USB_DOEPCTL3_SNAK'' 27
    0x8000000 1 0x0 0xb60, Field ''USB_DOEPCTL3_SETD0PID'' 28 0x10000000 1 0x0 0xb60, Field
    ''USB_DOEPCTL3_SETD1PID'' 29 0x20000000 1 0x0 0xb60, Field ''USB_DOEPCTL3_EPDIS'' 30 0x40000000 1 0x0 0xb60,
    Field ''USB_DOEPCTL3_EPENA'' 31 0x80000000 1 0x0 0xb60]"

definition regdefs_23906 :: "reg_field list" where
  "regdefs_23906 = [
    Field ''USB_DOEPINT3_XFERCOMPL'' 0 0x1 1 0x0 0xb68, Field ''USB_DOEPINT3_EPDISBLD'' 1 0x2 1 0x0 0xb68, Field
    ''USB_DOEPINT3_AHBERR'' 2 0x4 1 0x0 0xb68, Field ''USB_DOEPINT3_SETUP'' 3 0x8 1 0x0 0xb68, Field
    ''USB_DOEPINT3_OUTTKNEPDIS'' 4 0x10 1 0x0 0xb68, Field ''USB_DOEPINT3_STSPHSERCVD'' 5 0x20 1 0x0 0xb68,
    Field ''USB_DOEPINT3_BACK2BACKSETUP'' 6 0x40 1 0x0 0xb68, Field ''USB_DOEPINT3_OUTPKTERR'' 8 0x100 1 0x0
    0xb68, Field ''USB_DOEPINT3_BNAINTR'' 9 0x200 1 0x0 0xb68, Field ''USB_DOEPINT3_PKTDRPSTS'' 11 0x800 1 0x0
    0xb68, Field ''USB_DOEPINT3_BBLEERR'' 12 0x1000 1 0x0 0xb68, Field ''USB_DOEPINT3_NAKINTRPT'' 13 0x2000 1
    0x0 0xb68, Field ''USB_DOEPINT3_NYETINTRPT'' 14 0x4000 1 0x0 0xb68, Field ''USB_DOEPINT3_STUPPKTRCVD'' 15
    0x8000 1 0x0 0xb68, Field ''USB_DOEPTSIZ3_XFERSIZE'' 0 0x7ffff 19 0x0 0xb70, Field ''USB_DOEPTSIZ3_PKTCNT''
    19 0x1ff80000 10 0x0 0xb70, Field ''USB_DOEPTSIZ3_RXDPID'' 29 0x60000000 2 0x0 0xb70, Field
    ''USB_DOEPDMA3_DMAADDR'' 0 0xffffffff 32 0x0 0xb74, Field ''USB_DOEPDMAB3_DMABUFFERADDR'' 0 0xffffffff 32
    0x0 0xb7c]"

definition regdefs_24001 :: "reg_field list" where
  "regdefs_24001 = [
    Field ''USB_DOEPCTL4_MPS'' 0 0x7ff 11 0x0 0xb80, Field ''USB_DOEPCTL4_USBACTEP'' 15 0x8000 1 0x0 0xb80,
    Field ''USB_DOEPCTL4_DPID'' 16 0x10000 1 0x0 0xb80, Field ''USB_DOEPCTL4_NAKSTS'' 17 0x20000 1 0x0 0xb80,
    Field ''USB_DOEPCTL4_EPTYPE'' 18 0xc0000 2 0x0 0xb80, Field ''USB_DOEPCTL4_SNP'' 20 0x100000 1 0x0 0xb80,
    Field ''USB_DOEPCTL4_STALL'' 21 0x200000 1 0x0 0xb80, Field ''USB_DOEPCTL4_CNAK'' 26 0x4000000 1 0x0 0xb80,
    Field ''USB_DOEPCTL4_SNAK'' 27 0x8000000 1 0x0 0xb80, Field ''USB_DOEPCTL4_SETD0PID'' 28 0x10000000 1 0x0
    0xb80, Field ''USB_DOEPCTL4_SETD1PID'' 29 0x20000000 1 0x0 0xb80, Field ''USB_DOEPCTL4_EPDIS'' 30 0x40000000
    1 0x0 0xb80, Field ''USB_DOEPCTL4_EPENA'' 31 0x80000000 1 0x0 0xb80, Field ''USB_DOEPINT4_XFERCOMPL'' 0 0x1
    1 0x0 0xb88, Field ''USB_DOEPINT4_EPDISBLD'' 1 0x2 1 0x0 0xb88, Field ''USB_DOEPINT4_AHBERR'' 2 0x4 1 0x0
    0xb88, Field ''USB_DOEPINT4_SETUP'' 3 0x8 1 0x0 0xb88, Field ''USB_DOEPINT4_OUTTKNEPDIS'' 4 0x10 1 0x0
    0xb88, Field ''USB_DOEPINT4_STSPHSERCVD'' 5 0x20 1 0x0 0xb88, Field ''USB_DOEPINT4_BACK2BACKSETUP'' 6 0x40 1
    0x0 0xb88, Field ''USB_DOEPINT4_OUTPKTERR'' 8 0x100 1 0x0 0xb88, Field ''USB_DOEPINT4_BNAINTR'' 9 0x200 1
    0x0 0xb88, Field ''USB_DOEPINT4_PKTDRPSTS'' 11 0x800 1 0x0 0xb88, Field ''USB_DOEPINT4_BBLEERR'' 12 0x1000 1
    0x0 0xb88, Field ''USB_DOEPINT4_NAKINTRPT'' 13 0x2000 1 0x0 0xb88, Field ''USB_DOEPINT4_NYETINTRPT'' 14
    0x4000 1 0x0 0xb88, Field ''USB_DOEPINT4_STUPPKTRCVD'' 15 0x8000 1 0x0 0xb88, Field
    ''USB_DOEPTSIZ4_XFERSIZE'' 0 0x7ffff 19 0x0 0xb90, Field ''USB_DOEPTSIZ4_PKTCNT'' 19 0x1ff80000 10 0x0
    0xb90, Field ''USB_DOEPTSIZ4_RXDPID'' 29 0x60000000 2 0x0 0xb90]"

definition regdefs_24151 :: "reg_field list" where
  "regdefs_24151 = [
    Field ''USB_DOEPDMA4_DMAADDR'' 0 0xffffffff 32 0x0 0xb94, Field ''USB_DOEPDMAB4_DMABUFFERADDR'' 0 0xffffffff
    32 0x0 0xb9c, Field ''USB_DOEPCTL5_MPS'' 0 0x7ff 11 0x0 0xba0, Field ''USB_DOEPCTL5_USBACTEP'' 15 0x8000 1
    0x0 0xba0, Field ''USB_DOEPCTL5_DPID'' 16 0x10000 1 0x0 0xba0, Field ''USB_DOEPCTL5_NAKSTS'' 17 0x20000 1
    0x0 0xba0, Field ''USB_DOEPCTL5_EPTYPE'' 18 0xc0000 2 0x0 0xba0, Field ''USB_DOEPCTL5_SNP'' 20 0x100000 1
    0x0 0xba0, Field ''USB_DOEPCTL5_STALL'' 21 0x200000 1 0x0 0xba0, Field ''USB_DOEPCTL5_CNAK'' 26 0x4000000 1
    0x0 0xba0, Field ''USB_DOEPCTL5_SNAK'' 27 0x8000000 1 0x0 0xba0, Field ''USB_DOEPCTL5_SETD0PID'' 28
    0x10000000 1 0x0 0xba0, Field ''USB_DOEPCTL5_SETD1PID'' 29 0x20000000 1 0x0 0xba0, Field
    ''USB_DOEPCTL5_EPDIS'' 30 0x40000000 1 0x0 0xba0, Field ''USB_DOEPCTL5_EPENA'' 31 0x80000000 1 0x0 0xba0,
    Field ''USB_DOEPINT5_XFERCOMPL'' 0 0x1 1 0x0 0xba8, Field ''USB_DOEPINT5_EPDISBLD'' 1 0x2 1 0x0 0xba8, Field
    ''USB_DOEPINT5_AHBERR'' 2 0x4 1 0x0 0xba8, Field ''USB_DOEPINT5_SETUP'' 3 0x8 1 0x0 0xba8, Field
    ''USB_DOEPINT5_OUTTKNEPDIS'' 4 0x10 1 0x0 0xba8, Field ''USB_DOEPINT5_STSPHSERCVD'' 5 0x20 1 0x0 0xba8,
    Field ''USB_DOEPINT5_BACK2BACKSETUP'' 6 0x40 1 0x0 0xba8, Field ''USB_DOEPINT5_OUTPKTERR'' 8 0x100 1 0x0
    0xba8, Field ''USB_DOEPINT5_BNAINTR'' 9 0x200 1 0x0 0xba8, Field ''USB_DOEPINT5_PKTDRPSTS'' 11 0x800 1 0x0
    0xba8, Field ''USB_DOEPINT5_BBLEERR'' 12 0x1000 1 0x0 0xba8, Field ''USB_DOEPINT5_NAKINTRPT'' 13 0x2000 1
    0x0 0xba8, Field ''USB_DOEPINT5_NYETINTRPT'' 14 0x4000 1 0x0 0xba8, Field ''USB_DOEPINT5_STUPPKTRCVD'' 15
    0x8000 1 0x0 0xba8]"

definition regdefs_24296 :: "reg_field list" where
  "regdefs_24296 = [
    Field ''USB_DOEPTSIZ5_XFERSIZE'' 0 0x7ffff 19 0x0 0xbb0, Field ''USB_DOEPTSIZ5_PKTCNT'' 19 0x1ff80000 10 0x0
    0xbb0, Field ''USB_DOEPTSIZ5_RXDPID'' 29 0x60000000 2 0x0 0xbb0, Field ''USB_DOEPDMA5_DMAADDR'' 0 0xffffffff
    32 0x0 0xbb4, Field ''USB_DOEPDMAB5_DMABUFFERADDR'' 0 0xffffffff 32 0x0 0xbbc, Field ''USB_DOEPCTL6_MPS'' 0
    0x7ff 11 0x0 0xbc0, Field ''USB_DOEPCTL6_USBACTEP'' 15 0x8000 1 0x0 0xbc0, Field ''USB_DOEPCTL6_DPID'' 16
    0x10000 1 0x0 0xbc0, Field ''USB_DOEPCTL6_NAKSTS'' 17 0x20000 1 0x0 0xbc0, Field ''USB_DOEPCTL6_EPTYPE'' 18
    0xc0000 2 0x0 0xbc0, Field ''USB_DOEPCTL6_SNP'' 20 0x100000 1 0x0 0xbc0, Field ''USB_DOEPCTL6_STALL'' 21
    0x200000 1 0x0 0xbc0, Field ''USB_DOEPCTL6_CNAK'' 26 0x4000000 1 0x0 0xbc0, Field ''USB_DOEPCTL6_SNAK'' 27
    0x8000000 1 0x0 0xbc0, Field ''USB_DOEPCTL6_SETD0PID'' 28 0x10000000 1 0x0 0xbc0, Field
    ''USB_DOEPCTL6_SETD1PID'' 29 0x20000000 1 0x0 0xbc0, Field ''USB_DOEPCTL6_EPDIS'' 30 0x40000000 1 0x0 0xbc0,
    Field ''USB_DOEPCTL6_EPENA'' 31 0x80000000 1 0x0 0xbc0]"

definition regdefs_24386 :: "reg_field list" where
  "regdefs_24386 = [
    Field ''USB_DOEPINT6_XFERCOMPL'' 0 0x1 1 0x0 0xbc8, Field ''USB_DOEPINT6_EPDISBLD'' 1 0x2 1 0x0 0xbc8, Field
    ''USB_DOEPINT6_AHBERR'' 2 0x4 1 0x0 0xbc8, Field ''USB_DOEPINT6_SETUP'' 3 0x8 1 0x0 0xbc8, Field
    ''USB_DOEPINT6_OUTTKNEPDIS'' 4 0x10 1 0x0 0xbc8, Field ''USB_DOEPINT6_STSPHSERCVD'' 5 0x20 1 0x0 0xbc8,
    Field ''USB_DOEPINT6_BACK2BACKSETUP'' 6 0x40 1 0x0 0xbc8, Field ''USB_DOEPINT6_OUTPKTERR'' 8 0x100 1 0x0
    0xbc8, Field ''USB_DOEPINT6_BNAINTR'' 9 0x200 1 0x0 0xbc8, Field ''USB_DOEPINT6_PKTDRPSTS'' 11 0x800 1 0x0
    0xbc8, Field ''USB_DOEPINT6_BBLEERR'' 12 0x1000 1 0x0 0xbc8, Field ''USB_DOEPINT6_NAKINTRPT'' 13 0x2000 1
    0x0 0xbc8, Field ''USB_DOEPINT6_NYETINTRPT'' 14 0x4000 1 0x0 0xbc8, Field ''USB_DOEPINT6_STUPPKTRCVD'' 15
    0x8000 1 0x0 0xbc8, Field ''USB_DOEPTSIZ6_XFERSIZE'' 0 0x7ffff 19 0x0 0xbd0, Field ''USB_DOEPTSIZ6_PKTCNT''
    19 0x1ff80000 10 0x0 0xbd0, Field ''USB_DOEPTSIZ6_RXDPID'' 29 0x60000000 2 0x0 0xbd0, Field
    ''USB_DOEPDMA6_DMAADDR'' 0 0xffffffff 32 0x0 0xbd4, Field ''USB_DOEPDMAB6_DMABUFFERADDR'' 0 0xffffffff 32
    0x0 0xbdc]"

definition regdefs_24481 :: "reg_field list" where
  "regdefs_24481 = [
    Field ''USB_DOEPCTL7_MPS'' 0 0x7ff 11 0x0 0xbe0, Field ''USB_DOEPCTL7_USBACTEP'' 15 0x8000 1 0x0 0xbe0,
    Field ''USB_DOEPCTL7_DPID'' 16 0x10000 1 0x0 0xbe0, Field ''USB_DOEPCTL7_NAKSTS'' 17 0x20000 1 0x0 0xbe0,
    Field ''USB_DOEPCTL7_EPTYPE'' 18 0xc0000 2 0x0 0xbe0, Field ''USB_DOEPCTL7_SNP'' 20 0x100000 1 0x0 0xbe0,
    Field ''USB_DOEPCTL7_STALL'' 21 0x200000 1 0x0 0xbe0, Field ''USB_DOEPCTL7_CNAK'' 26 0x4000000 1 0x0 0xbe0,
    Field ''USB_DOEPCTL7_SNAK'' 27 0x8000000 1 0x0 0xbe0, Field ''USB_DOEPCTL7_SETD0PID'' 28 0x10000000 1 0x0
    0xbe0, Field ''USB_DOEPCTL7_SETD1PID'' 29 0x20000000 1 0x0 0xbe0, Field ''USB_DOEPCTL7_EPDIS'' 30 0x40000000
    1 0x0 0xbe0, Field ''USB_DOEPCTL7_EPENA'' 31 0x80000000 1 0x0 0xbe0, Field ''USB_DOEPINT7_XFERCOMPL'' 0 0x1
    1 0x0 0xbe8, Field ''USB_DOEPINT7_EPDISBLD'' 1 0x2 1 0x0 0xbe8, Field ''USB_DOEPINT7_AHBERR'' 2 0x4 1 0x0
    0xbe8, Field ''USB_DOEPINT7_SETUP'' 3 0x8 1 0x0 0xbe8, Field ''USB_DOEPINT7_OUTTKNEPDIS'' 4 0x10 1 0x0
    0xbe8, Field ''USB_DOEPINT7_STSPHSERCVD'' 5 0x20 1 0x0 0xbe8, Field ''USB_DOEPINT7_BACK2BACKSETUP'' 6 0x40 1
    0x0 0xbe8, Field ''USB_DOEPINT7_OUTPKTERR'' 8 0x100 1 0x0 0xbe8, Field ''USB_DOEPINT7_BNAINTR'' 9 0x200 1
    0x0 0xbe8, Field ''USB_DOEPINT7_PKTDRPSTS'' 11 0x800 1 0x0 0xbe8, Field ''USB_DOEPINT7_BBLEERR'' 12 0x1000 1
    0x0 0xbe8, Field ''USB_DOEPINT7_NAKINTRPT'' 13 0x2000 1 0x0 0xbe8, Field ''USB_DOEPINT7_NYETINTRPT'' 14
    0x4000 1 0x0 0xbe8, Field ''USB_DOEPINT7_STUPPKTRCVD'' 15 0x8000 1 0x0 0xbe8, Field
    ''USB_DOEPTSIZ7_XFERSIZE'' 0 0x7ffff 19 0x0 0xbf0, Field ''USB_DOEPTSIZ7_PKTCNT'' 19 0x1ff80000 10 0x0
    0xbf0, Field ''USB_DOEPTSIZ7_RXDPID'' 29 0x60000000 2 0x0 0xbf0]"

definition regdefs_24631 :: "reg_field list" where
  "regdefs_24631 = [
    Field ''USB_DOEPDMA7_DMAADDR'' 0 0xffffffff 32 0x0 0xbf4, Field ''USB_DOEPDMAB7_DMABUFFERADDR'' 0 0xffffffff
    32 0x0 0xbfc, Field ''USB_DOEPCTL8_MPS'' 0 0x7ff 11 0x0 0xc00, Field ''USB_DOEPCTL8_USBACTEP'' 15 0x8000 1
    0x0 0xc00, Field ''USB_DOEPCTL8_DPID'' 16 0x10000 1 0x0 0xc00, Field ''USB_DOEPCTL8_NAKSTS'' 17 0x20000 1
    0x0 0xc00, Field ''USB_DOEPCTL8_EPTYPE'' 18 0xc0000 2 0x0 0xc00, Field ''USB_DOEPCTL8_SNP'' 20 0x100000 1
    0x0 0xc00, Field ''USB_DOEPCTL8_STALL'' 21 0x200000 1 0x0 0xc00, Field ''USB_DOEPCTL8_CNAK'' 26 0x4000000 1
    0x0 0xc00, Field ''USB_DOEPCTL8_SNAK'' 27 0x8000000 1 0x0 0xc00, Field ''USB_DOEPCTL8_SETD0PID'' 28
    0x10000000 1 0x0 0xc00, Field ''USB_DOEPCTL8_SETD1PID'' 29 0x20000000 1 0x0 0xc00, Field
    ''USB_DOEPCTL8_EPDIS'' 30 0x40000000 1 0x0 0xc00, Field ''USB_DOEPCTL8_EPENA'' 31 0x80000000 1 0x0 0xc00,
    Field ''USB_DOEPINT8_XFERCOMPL'' 0 0x1 1 0x0 0xc08, Field ''USB_DOEPINT8_EPDISBLD'' 1 0x2 1 0x0 0xc08, Field
    ''USB_DOEPINT8_AHBERR'' 2 0x4 1 0x0 0xc08, Field ''USB_DOEPINT8_SETUP'' 3 0x8 1 0x0 0xc08, Field
    ''USB_DOEPINT8_OUTTKNEPDIS'' 4 0x10 1 0x0 0xc08, Field ''USB_DOEPINT8_STSPHSERCVD'' 5 0x20 1 0x0 0xc08,
    Field ''USB_DOEPINT8_BACK2BACKSETUP'' 6 0x40 1 0x0 0xc08, Field ''USB_DOEPINT8_OUTPKTERR'' 8 0x100 1 0x0
    0xc08, Field ''USB_DOEPINT8_BNAINTR'' 9 0x200 1 0x0 0xc08, Field ''USB_DOEPINT8_PKTDRPSTS'' 11 0x800 1 0x0
    0xc08, Field ''USB_DOEPINT8_BBLEERR'' 12 0x1000 1 0x0 0xc08, Field ''USB_DOEPINT8_NAKINTRPT'' 13 0x2000 1
    0x0 0xc08, Field ''USB_DOEPINT8_NYETINTRPT'' 14 0x4000 1 0x0 0xc08, Field ''USB_DOEPINT8_STUPPKTRCVD'' 15
    0x8000 1 0x0 0xc08]"

definition regdefs_24776 :: "reg_field list" where
  "regdefs_24776 = [
    Field ''USB_DOEPTSIZ8_XFERSIZE'' 0 0x7ffff 19 0x0 0xc10, Field ''USB_DOEPTSIZ8_PKTCNT'' 19 0x1ff80000 10 0x0
    0xc10, Field ''USB_DOEPTSIZ8_RXDPID'' 29 0x60000000 2 0x0 0xc10, Field ''USB_DOEPDMA8_DMAADDR'' 0 0xffffffff
    32 0x0 0xc14, Field ''USB_DOEPDMAB8_DMABUFFERADDR'' 0 0xffffffff 32 0x0 0xc1c, Field ''USB_DOEPCTL9_MPS'' 0
    0x7ff 11 0x0 0xc20, Field ''USB_DOEPCTL9_USBACTEP'' 15 0x8000 1 0x0 0xc20, Field ''USB_DOEPCTL9_DPID'' 16
    0x10000 1 0x0 0xc20, Field ''USB_DOEPCTL9_NAKSTS'' 17 0x20000 1 0x0 0xc20, Field ''USB_DOEPCTL9_EPTYPE'' 18
    0xc0000 2 0x0 0xc20, Field ''USB_DOEPCTL9_SNP'' 20 0x100000 1 0x0 0xc20, Field ''USB_DOEPCTL9_STALL'' 21
    0x200000 1 0x0 0xc20, Field ''USB_DOEPCTL9_CNAK'' 26 0x4000000 1 0x0 0xc20, Field ''USB_DOEPCTL9_SNAK'' 27
    0x8000000 1 0x0 0xc20, Field ''USB_DOEPCTL9_SETD0PID'' 28 0x10000000 1 0x0 0xc20, Field
    ''USB_DOEPCTL9_SETD1PID'' 29 0x20000000 1 0x0 0xc20, Field ''USB_DOEPCTL9_EPDIS'' 30 0x40000000 1 0x0 0xc20,
    Field ''USB_DOEPCTL9_EPENA'' 31 0x80000000 1 0x0 0xc20]"

definition regdefs_24866 :: "reg_field list" where
  "regdefs_24866 = [
    Field ''USB_DOEPINT9_XFERCOMPL'' 0 0x1 1 0x0 0xc28, Field ''USB_DOEPINT9_EPDISBLD'' 1 0x2 1 0x0 0xc28, Field
    ''USB_DOEPINT9_AHBERR'' 2 0x4 1 0x0 0xc28, Field ''USB_DOEPINT9_SETUP'' 3 0x8 1 0x0 0xc28, Field
    ''USB_DOEPINT9_OUTTKNEPDIS'' 4 0x10 1 0x0 0xc28, Field ''USB_DOEPINT9_STSPHSERCVD'' 5 0x20 1 0x0 0xc28,
    Field ''USB_DOEPINT9_BACK2BACKSETUP'' 6 0x40 1 0x0 0xc28, Field ''USB_DOEPINT9_OUTPKTERR'' 8 0x100 1 0x0
    0xc28, Field ''USB_DOEPINT9_BNAINTR'' 9 0x200 1 0x0 0xc28, Field ''USB_DOEPINT9_PKTDRPSTS'' 11 0x800 1 0x0
    0xc28, Field ''USB_DOEPINT9_BBLEERR'' 12 0x1000 1 0x0 0xc28, Field ''USB_DOEPINT9_NAKINTRPT'' 13 0x2000 1
    0x0 0xc28, Field ''USB_DOEPINT9_NYETINTRPT'' 14 0x4000 1 0x0 0xc28, Field ''USB_DOEPINT9_STUPPKTRCVD'' 15
    0x8000 1 0x0 0xc28, Field ''USB_DOEPTSIZ9_XFERSIZE'' 0 0x7ffff 19 0x0 0xc30, Field ''USB_DOEPTSIZ9_PKTCNT''
    19 0x1ff80000 10 0x0 0xc30, Field ''USB_DOEPTSIZ9_RXDPID'' 29 0x60000000 2 0x0 0xc30, Field
    ''USB_DOEPDMA9_DMAADDR'' 0 0xffffffff 32 0x0 0xc34, Field ''USB_DOEPDMAB9_DMABUFFERADDR'' 0 0xffffffff 32
    0x0 0xc3c]"

definition regdefs_24961 :: "reg_field list" where
  "regdefs_24961 = [
    Field ''USB_DOEPCTL10_MPS'' 0 0x7ff 11 0x0 0xc40, Field ''USB_DOEPCTL10_USBACTEP'' 15 0x8000 1 0x0 0xc40,
    Field ''USB_DOEPCTL10_DPID'' 16 0x10000 1 0x0 0xc40, Field ''USB_DOEPCTL10_NAKSTS'' 17 0x20000 1 0x0 0xc40,
    Field ''USB_DOEPCTL10_EPTYPE'' 18 0xc0000 2 0x0 0xc40, Field ''USB_DOEPCTL10_SNP'' 20 0x100000 1 0x0 0xc40,
    Field ''USB_DOEPCTL10_STALL'' 21 0x200000 1 0x0 0xc40, Field ''USB_DOEPCTL10_CNAK'' 26 0x4000000 1 0x0
    0xc40, Field ''USB_DOEPCTL10_SNAK'' 27 0x8000000 1 0x0 0xc40, Field ''USB_DOEPCTL10_SETD0PID'' 28 0x10000000
    1 0x0 0xc40, Field ''USB_DOEPCTL10_SETD1PID'' 29 0x20000000 1 0x0 0xc40, Field ''USB_DOEPCTL10_EPDIS'' 30
    0x40000000 1 0x0 0xc40, Field ''USB_DOEPCTL10_EPENA'' 31 0x80000000 1 0x0 0xc40, Field
    ''USB_DOEPINT10_XFERCOMPL'' 0 0x1 1 0x0 0xc48, Field ''USB_DOEPINT10_EPDISBLD'' 1 0x2 1 0x0 0xc48, Field
    ''USB_DOEPINT10_AHBERR'' 2 0x4 1 0x0 0xc48, Field ''USB_DOEPINT10_SETUP'' 3 0x8 1 0x0 0xc48, Field
    ''USB_DOEPINT10_OUTTKNEPDIS'' 4 0x10 1 0x0 0xc48, Field ''USB_DOEPINT10_STSPHSERCVD'' 5 0x20 1 0x0 0xc48,
    Field ''USB_DOEPINT10_BACK2BACKSETUP'' 6 0x40 1 0x0 0xc48, Field ''USB_DOEPINT10_OUTPKTERR'' 8 0x100 1 0x0
    0xc48, Field ''USB_DOEPINT10_BNAINTR'' 9 0x200 1 0x0 0xc48, Field ''USB_DOEPINT10_PKTDRPSTS'' 11 0x800 1 0x0
    0xc48, Field ''USB_DOEPINT10_BBLEERR'' 12 0x1000 1 0x0 0xc48, Field ''USB_DOEPINT10_NAKINTRPT'' 13 0x2000 1
    0x0 0xc48, Field ''USB_DOEPINT10_NYETINTRPT'' 14 0x4000 1 0x0 0xc48, Field ''USB_DOEPINT10_STUPPKTRCVD'' 15
    0x8000 1 0x0 0xc48, Field ''USB_DOEPTSIZ10_XFERSIZE'' 0 0x7ffff 19 0x0 0xc50, Field
    ''USB_DOEPTSIZ10_PKTCNT'' 19 0x1ff80000 10 0x0 0xc50, Field ''USB_DOEPTSIZ10_RXDPID'' 29 0x60000000 2 0x0
    0xc50]"

definition regdefs_25111 :: "reg_field list" where
  "regdefs_25111 = [
    Field ''USB_DOEPDMA10_DMAADDR'' 0 0xffffffff 32 0x0 0xc54, Field ''USB_DOEPDMAB10_DMABUFFERADDR'' 0
    0xffffffff 32 0x0 0xc5c, Field ''USB_DOEPCTL11_MPS'' 0 0x7ff 11 0x0 0xc60, Field ''USB_DOEPCTL11_USBACTEP''
    15 0x8000 1 0x0 0xc60, Field ''USB_DOEPCTL11_DPID'' 16 0x10000 1 0x0 0xc60, Field ''USB_DOEPCTL11_NAKSTS''
    17 0x20000 1 0x0 0xc60, Field ''USB_DOEPCTL11_EPTYPE'' 18 0xc0000 2 0x0 0xc60, Field ''USB_DOEPCTL11_SNP''
    20 0x100000 1 0x0 0xc60, Field ''USB_DOEPCTL11_STALL'' 21 0x200000 1 0x0 0xc60, Field ''USB_DOEPCTL11_CNAK''
    26 0x4000000 1 0x0 0xc60, Field ''USB_DOEPCTL11_SNAK'' 27 0x8000000 1 0x0 0xc60, Field
    ''USB_DOEPCTL11_SETD0PID'' 28 0x10000000 1 0x0 0xc60, Field ''USB_DOEPCTL11_SETD1PID'' 29 0x20000000 1 0x0
    0xc60, Field ''USB_DOEPCTL11_EPDIS'' 30 0x40000000 1 0x0 0xc60, Field ''USB_DOEPCTL11_EPENA'' 31 0x80000000
    1 0x0 0xc60, Field ''USB_DOEPINT11_XFERCOMPL'' 0 0x1 1 0x0 0xc68, Field ''USB_DOEPINT11_EPDISBLD'' 1 0x2 1
    0x0 0xc68, Field ''USB_DOEPINT11_AHBERR'' 2 0x4 1 0x0 0xc68, Field ''USB_DOEPINT11_SETUP'' 3 0x8 1 0x0
    0xc68, Field ''USB_DOEPINT11_OUTTKNEPDIS'' 4 0x10 1 0x0 0xc68, Field ''USB_DOEPINT11_STSPHSERCVD'' 5 0x20 1
    0x0 0xc68, Field ''USB_DOEPINT11_BACK2BACKSETUP'' 6 0x40 1 0x0 0xc68, Field ''USB_DOEPINT11_OUTPKTERR'' 8
    0x100 1 0x0 0xc68, Field ''USB_DOEPINT11_BNAINTR'' 9 0x200 1 0x0 0xc68, Field ''USB_DOEPINT11_PKTDRPSTS'' 11
    0x800 1 0x0 0xc68, Field ''USB_DOEPINT11_BBLEERR'' 12 0x1000 1 0x0 0xc68, Field ''USB_DOEPINT11_NAKINTRPT''
    13 0x2000 1 0x0 0xc68, Field ''USB_DOEPINT11_NYETINTRPT'' 14 0x4000 1 0x0 0xc68, Field
    ''USB_DOEPINT11_STUPPKTRCVD'' 15 0x8000 1 0x0 0xc68]"

definition regdefs_25256 :: "reg_field list" where
  "regdefs_25256 = [
    Field ''USB_DOEPTSIZ11_XFERSIZE'' 0 0x7ffff 19 0x0 0xc70, Field ''USB_DOEPTSIZ11_PKTCNT'' 19 0x1ff80000 10
    0x0 0xc70, Field ''USB_DOEPTSIZ11_RXDPID'' 29 0x60000000 2 0x0 0xc70, Field ''USB_DOEPDMA11_DMAADDR'' 0
    0xffffffff 32 0x0 0xc74, Field ''USB_DOEPDMAB11_DMABUFFERADDR'' 0 0xffffffff 32 0x0 0xc7c, Field
    ''USB_DOEPCTL12_MPS'' 0 0x7ff 11 0x0 0xc80, Field ''USB_DOEPCTL12_USBACTEP'' 15 0x8000 1 0x0 0xc80, Field
    ''USB_DOEPCTL12_DPID'' 16 0x10000 1 0x0 0xc80, Field ''USB_DOEPCTL12_NAKSTS'' 17 0x20000 1 0x0 0xc80, Field
    ''USB_DOEPCTL12_EPTYPE'' 18 0xc0000 2 0x0 0xc80, Field ''USB_DOEPCTL12_SNP'' 20 0x100000 1 0x0 0xc80, Field
    ''USB_DOEPCTL12_STALL'' 21 0x200000 1 0x0 0xc80, Field ''USB_DOEPCTL12_CNAK'' 26 0x4000000 1 0x0 0xc80,
    Field ''USB_DOEPCTL12_SNAK'' 27 0x8000000 1 0x0 0xc80, Field ''USB_DOEPCTL12_SETD0PID'' 28 0x10000000 1 0x0
    0xc80, Field ''USB_DOEPCTL12_SETD1PID'' 29 0x20000000 1 0x0 0xc80, Field ''USB_DOEPCTL12_EPDIS'' 30
    0x40000000 1 0x0 0xc80, Field ''USB_DOEPCTL12_EPENA'' 31 0x80000000 1 0x0 0xc80]"

definition regdefs_25346 :: "reg_field list" where
  "regdefs_25346 = [
    Field ''USB_DOEPINT12_XFERCOMPL'' 0 0x1 1 0x0 0xc88, Field ''USB_DOEPINT12_EPDISBLD'' 1 0x2 1 0x0 0xc88,
    Field ''USB_DOEPINT12_AHBERR'' 2 0x4 1 0x0 0xc88, Field ''USB_DOEPINT12_SETUP'' 3 0x8 1 0x0 0xc88, Field
    ''USB_DOEPINT12_OUTTKNEPDIS'' 4 0x10 1 0x0 0xc88, Field ''USB_DOEPINT12_STSPHSERCVD'' 5 0x20 1 0x0 0xc88,
    Field ''USB_DOEPINT12_BACK2BACKSETUP'' 6 0x40 1 0x0 0xc88, Field ''USB_DOEPINT12_OUTPKTERR'' 8 0x100 1 0x0
    0xc88, Field ''USB_DOEPINT12_BNAINTR'' 9 0x200 1 0x0 0xc88, Field ''USB_DOEPINT12_PKTDRPSTS'' 11 0x800 1 0x0
    0xc88, Field ''USB_DOEPINT12_BBLEERR'' 12 0x1000 1 0x0 0xc88, Field ''USB_DOEPINT12_NAKINTRPT'' 13 0x2000 1
    0x0 0xc88, Field ''USB_DOEPINT12_NYETINTRPT'' 14 0x4000 1 0x0 0xc88, Field ''USB_DOEPINT12_STUPPKTRCVD'' 15
    0x8000 1 0x0 0xc88, Field ''USB_DOEPTSIZ12_XFERSIZE'' 0 0x7ffff 19 0x0 0xc90, Field
    ''USB_DOEPTSIZ12_PKTCNT'' 19 0x1ff80000 10 0x0 0xc90, Field ''USB_DOEPTSIZ12_RXDPID'' 29 0x60000000 2 0x0
    0xc90, Field ''USB_DOEPDMA12_DMAADDR'' 0 0xffffffff 32 0x0 0xc94, Field ''USB_DOEPDMAB12_DMABUFFERADDR'' 0
    0xffffffff 32 0x0 0xc9c]"

definition regdefs_25441 :: "reg_field list" where
  "regdefs_25441 = [
    Field ''USB_DOEPCTL13_MPS'' 0 0x7ff 11 0x0 0xca0, Field ''USB_DOEPCTL13_USBACTEP'' 15 0x8000 1 0x0 0xca0,
    Field ''USB_DOEPCTL13_DPID'' 16 0x10000 1 0x0 0xca0, Field ''USB_DOEPCTL13_NAKSTS'' 17 0x20000 1 0x0 0xca0,
    Field ''USB_DOEPCTL13_EPTYPE'' 18 0xc0000 2 0x0 0xca0, Field ''USB_DOEPCTL13_SNP'' 20 0x100000 1 0x0 0xca0,
    Field ''USB_DOEPCTL13_STALL'' 21 0x200000 1 0x0 0xca0, Field ''USB_DOEPCTL13_CNAK'' 26 0x4000000 1 0x0
    0xca0, Field ''USB_DOEPCTL13_SNAK'' 27 0x8000000 1 0x0 0xca0, Field ''USB_DOEPCTL13_SETD0PID'' 28 0x10000000
    1 0x0 0xca0, Field ''USB_DOEPCTL13_SETD1PID'' 29 0x20000000 1 0x0 0xca0, Field ''USB_DOEPCTL13_EPDIS'' 30
    0x40000000 1 0x0 0xca0, Field ''USB_DOEPCTL13_EPENA'' 31 0x80000000 1 0x0 0xca0, Field
    ''USB_DOEPINT13_XFERCOMPL'' 0 0x1 1 0x0 0xca8, Field ''USB_DOEPINT13_EPDISBLD'' 1 0x2 1 0x0 0xca8, Field
    ''USB_DOEPINT13_AHBERR'' 2 0x4 1 0x0 0xca8, Field ''USB_DOEPINT13_SETUP'' 3 0x8 1 0x0 0xca8, Field
    ''USB_DOEPINT13_OUTTKNEPDIS'' 4 0x10 1 0x0 0xca8, Field ''USB_DOEPINT13_STSPHSERCVD'' 5 0x20 1 0x0 0xca8,
    Field ''USB_DOEPINT13_BACK2BACKSETUP'' 6 0x40 1 0x0 0xca8, Field ''USB_DOEPINT13_OUTPKTERR'' 8 0x100 1 0x0
    0xca8, Field ''USB_DOEPINT13_BNAINTR'' 9 0x200 1 0x0 0xca8, Field ''USB_DOEPINT13_PKTDRPSTS'' 11 0x800 1 0x0
    0xca8, Field ''USB_DOEPINT13_BBLEERR'' 12 0x1000 1 0x0 0xca8, Field ''USB_DOEPINT13_NAKINTRPT'' 13 0x2000 1
    0x0 0xca8, Field ''USB_DOEPINT13_NYETINTRPT'' 14 0x4000 1 0x0 0xca8, Field ''USB_DOEPINT13_STUPPKTRCVD'' 15
    0x8000 1 0x0 0xca8, Field ''USB_DOEPTSIZ13_XFERSIZE'' 0 0x7ffff 19 0x0 0xcb0, Field
    ''USB_DOEPTSIZ13_PKTCNT'' 19 0x1ff80000 10 0x0 0xcb0, Field ''USB_DOEPTSIZ13_RXDPID'' 29 0x60000000 2 0x0
    0xcb0]"

definition regdefs_25591 :: "reg_field list" where
  "regdefs_25591 = [
    Field ''USB_DOEPDMA13_DMAADDR'' 0 0xffffffff 32 0x0 0xcb4, Field ''USB_DOEPDMAB13_DMABUFFERADDR'' 0
    0xffffffff 32 0x0 0xcbc, Field ''USB_DOEPCTL14_MPS'' 0 0x7ff 11 0x0 0xcc0, Field ''USB_DOEPCTL14_USBACTEP''
    15 0x8000 1 0x0 0xcc0, Field ''USB_DOEPCTL14_DPID'' 16 0x10000 1 0x0 0xcc0, Field ''USB_DOEPCTL14_NAKSTS''
    17 0x20000 1 0x0 0xcc0, Field ''USB_DOEPCTL14_EPTYPE'' 18 0xc0000 2 0x0 0xcc0, Field ''USB_DOEPCTL14_SNP''
    20 0x100000 1 0x0 0xcc0, Field ''USB_DOEPCTL14_STALL'' 21 0x200000 1 0x0 0xcc0, Field ''USB_DOEPCTL14_CNAK''
    26 0x4000000 1 0x0 0xcc0, Field ''USB_DOEPCTL14_SNAK'' 27 0x8000000 1 0x0 0xcc0, Field
    ''USB_DOEPCTL14_SETD0PID'' 28 0x10000000 1 0x0 0xcc0, Field ''USB_DOEPCTL14_SETD1PID'' 29 0x20000000 1 0x0
    0xcc0, Field ''USB_DOEPCTL14_EPDIS'' 30 0x40000000 1 0x0 0xcc0, Field ''USB_DOEPCTL14_EPENA'' 31 0x80000000
    1 0x0 0xcc0, Field ''USB_DOEPINT14_XFERCOMPL'' 0 0x1 1 0x0 0xcc8, Field ''USB_DOEPINT14_EPDISBLD'' 1 0x2 1
    0x0 0xcc8, Field ''USB_DOEPINT14_AHBERR'' 2 0x4 1 0x0 0xcc8, Field ''USB_DOEPINT14_SETUP'' 3 0x8 1 0x0
    0xcc8, Field ''USB_DOEPINT14_OUTTKNEPDIS'' 4 0x10 1 0x0 0xcc8, Field ''USB_DOEPINT14_STSPHSERCVD'' 5 0x20 1
    0x0 0xcc8, Field ''USB_DOEPINT14_BACK2BACKSETUP'' 6 0x40 1 0x0 0xcc8, Field ''USB_DOEPINT14_OUTPKTERR'' 8
    0x100 1 0x0 0xcc8, Field ''USB_DOEPINT14_BNAINTR'' 9 0x200 1 0x0 0xcc8, Field ''USB_DOEPINT14_PKTDRPSTS'' 11
    0x800 1 0x0 0xcc8, Field ''USB_DOEPINT14_BBLEERR'' 12 0x1000 1 0x0 0xcc8, Field ''USB_DOEPINT14_NAKINTRPT''
    13 0x2000 1 0x0 0xcc8, Field ''USB_DOEPINT14_NYETINTRPT'' 14 0x4000 1 0x0 0xcc8, Field
    ''USB_DOEPINT14_STUPPKTRCVD'' 15 0x8000 1 0x0 0xcc8]"

definition regdefs_25736 :: "reg_field list" where
  "regdefs_25736 = [
    Field ''USB_DOEPTSIZ14_XFERSIZE'' 0 0x7ffff 19 0x0 0xcd0, Field ''USB_DOEPTSIZ14_PKTCNT'' 19 0x1ff80000 10
    0x0 0xcd0, Field ''USB_DOEPTSIZ14_RXDPID'' 29 0x60000000 2 0x0 0xcd0, Field ''USB_DOEPDMA14_DMAADDR'' 0
    0xffffffff 32 0x0 0xcd4, Field ''USB_DOEPDMAB14_DMABUFFERADDR'' 0 0xffffffff 32 0x0 0xcdc, Field
    ''USB_DOEPCTL15_MPS'' 0 0x7ff 11 0x0 0xce0, Field ''USB_DOEPCTL15_USBACTEP'' 15 0x8000 1 0x0 0xce0, Field
    ''USB_DOEPCTL15_DPID'' 16 0x10000 1 0x0 0xce0, Field ''USB_DOEPCTL15_NAKSTS'' 17 0x20000 1 0x0 0xce0, Field
    ''USB_DOEPCTL15_EPTYPE'' 18 0xc0000 2 0x0 0xce0, Field ''USB_DOEPCTL15_SNP'' 20 0x100000 1 0x0 0xce0, Field
    ''USB_DOEPCTL15_STALL'' 21 0x200000 1 0x0 0xce0, Field ''USB_DOEPCTL15_CNAK'' 26 0x4000000 1 0x0 0xce0,
    Field ''USB_DOEPCTL15_SNAK'' 27 0x8000000 1 0x0 0xce0, Field ''USB_DOEPCTL15_SETD0PID'' 28 0x10000000 1 0x0
    0xce0, Field ''USB_DOEPCTL15_SETD1PID'' 29 0x20000000 1 0x0 0xce0, Field ''USB_DOEPCTL15_EPDIS'' 30
    0x40000000 1 0x0 0xce0, Field ''USB_DOEPCTL15_EPENA'' 31 0x80000000 1 0x0 0xce0]"

definition regdefs_25826 :: "reg_field list" where
  "regdefs_25826 = [
    Field ''USB_DOEPINT15_XFERCOMPL'' 0 0x1 1 0x0 0xce8, Field ''USB_DOEPINT15_EPDISBLD'' 1 0x2 1 0x0 0xce8,
    Field ''USB_DOEPINT15_AHBERR'' 2 0x4 1 0x0 0xce8, Field ''USB_DOEPINT15_SETUP'' 3 0x8 1 0x0 0xce8, Field
    ''USB_DOEPINT15_OUTTKNEPDIS'' 4 0x10 1 0x0 0xce8, Field ''USB_DOEPINT15_STSPHSERCVD'' 5 0x20 1 0x0 0xce8,
    Field ''USB_DOEPINT15_BACK2BACKSETUP'' 6 0x40 1 0x0 0xce8, Field ''USB_DOEPINT15_OUTPKTERR'' 8 0x100 1 0x0
    0xce8, Field ''USB_DOEPINT15_BNAINTR'' 9 0x200 1 0x0 0xce8, Field ''USB_DOEPINT15_PKTDRPSTS'' 11 0x800 1 0x0
    0xce8, Field ''USB_DOEPINT15_BBLEERR'' 12 0x1000 1 0x0 0xce8, Field ''USB_DOEPINT15_NAKINTRPT'' 13 0x2000 1
    0x0 0xce8, Field ''USB_DOEPINT15_NYETINTRPT'' 14 0x4000 1 0x0 0xce8, Field ''USB_DOEPINT15_STUPPKTRCVD'' 15
    0x8000 1 0x0 0xce8, Field ''USB_DOEPTSIZ15_XFERSIZE'' 0 0x7ffff 19 0x0 0xcf0, Field
    ''USB_DOEPTSIZ15_PKTCNT'' 19 0x1ff80000 10 0x0 0xcf0, Field ''USB_DOEPTSIZ15_RXDPID'' 29 0x60000000 2 0x0
    0xcf0, Field ''USB_DOEPDMA15_DMAADDR'' 0 0xffffffff 32 0x0 0xcf4, Field ''USB_DOEPDMAB15_DMABUFFERADDR'' 0
    0xffffffff 32 0x0 0xcfc, Field ''USB_PCGCCTL_STOPPCLK'' 0 0x1 1 0x0 0xe00, Field ''USB_PCGCCTL_GATEHCLK'' 1
    0x2 1 0x0 0xe00, Field ''USB_PCGCCTL_PWRCLMP'' 2 0x4 1 0x0 0xe00, Field ''USB_PCGCCTL_RSTPDWNMODULE'' 3 0x8
    1 0x0 0xe00, Field ''USB_PCGCCTL_PHYSLEEP'' 6 0x40 1 0x0 0xe00, Field ''USB_PCGCCTL_L1SUSPENDED'' 7 0x80 1
    0x0 0xe00]"

section \<open>Tables\<close>

definition registers_GPIO :: "register list" where
  "registers_GPIO =
     registers_2158 @ registers_2238 @ registers_2318 @ registers_2398 @ registers_2478 @ registers_2558
     @ registers_2638 @ registers_2718 @ registers_2798 @ registers_2878 @ registers_2958 @
     registers_3038 @ registers_3118 @ registers_3198"

definition registers_USB :: "register list" where
  "registers_USB =
     registers_4887 @ registers_4967 @ registers_5047 @ registers_5127 @ registers_5207 @ registers_5287"

definition fields_GPIO :: "reg_field list" where
  "fields_GPIO =
     []"

definition fields_USB :: "reg_field list" where
  "fields_USB =
     regdefs_19216 @ regdefs_19311 @ regdefs_19421 @ regdefs_19536 @ regdefs_19686 @ regdefs_19816 @
     regdefs_19966 @ regdefs_20111 @ regdefs_20246 @ regdefs_20386 @ regdefs_20536 @ regdefs_20546 @
     regdefs_20696 @ regdefs_20806 @ regdefs_20901 @ regdefs_21051 @ regdefs_21201 @ regdefs_21296 @
     regdefs_21396 @ regdefs_21546 @ regdefs_21696 @ regdefs_21791 @ regdefs_21891 @ regdefs_22041 @
     regdefs_22191 @ regdefs_22286 @ regdefs_22386 @ regdefs_22536 @ regdefs_22686 @ regdefs_22781 @
     regdefs_22881 @ regdefs_23031 @ regdefs_23181 @ regdefs_23276 @ regdefs_23426 @ regdefs_23521 @
     regdefs_23671 @ regdefs_23816 @ regdefs_23906 @ regdefs_24001 @ regdefs_24151 @ regdefs_24296 @
     regdefs_24386 @ regdefs_24481 @ regdefs_24631 @ regdefs_24776 @ regdefs_24866 @ regdefs_24961 @
     regdefs_25111 @ regdefs_25256 @ regdefs_25346 @ regdefs_25441 @ regdefs_25591 @ regdefs_25736 @
     regdefs_25826"

text \<open>
  Every table of fields is well-formed and sorted, and the fields are those of the registers.
\<close>

lemma fields_GPIO_scan: "list_all well_formed fields_GPIO" "scan 0 (map extent fields_GPIO) = Some 0"
  by (simp_all add: fields_GPIO_def)

lemma fields_GPIO_registers: "list_all (has_register registers_GPIO) fields_GPIO"
  by (simp add: fields_GPIO_def)

lemma scan_USB_1:
  "list_all well_formed regdefs_19216" "scan 0 (map extent regdefs_19216) = Some 89"
  "list_all well_formed regdefs_19311" "scan 89 (map extent regdefs_19311) = Some 160"
  "list_all well_formed regdefs_19421" "scan 160 (map extent regdefs_19421) = Some 192"
  "list_all well_formed regdefs_19536" "scan 192 (map extent regdefs_19536) = Some 249"
  "list_all well_formed regdefs_19686" "scan 249 (map extent regdefs_19686) = Some 607"
  "list_all well_formed regdefs_19816" "scan 607 (map extent regdefs_19816) = Some 768"
  "list_all well_formed regdefs_19966" "scan 768 (map extent regdefs_19966) = Some 2518"
  "list_all well_formed regdefs_20111" "scan 2518 (map extent regdefs_20111) = Some 16434"
  "list_all well_formed regdefs_20246" "scan 16434 (map extent regdefs_20246) = Some 16559"
  "list_all well_formed regdefs_20386" "scan 16559 (map extent regdefs_20386) = Some 16606"
  "list_all well_formed regdefs_20536" "scan 16606 (map extent regdefs_20536) = Some 16608"
  "list_all well_formed regdefs_20546" "scan 16608 (map extent regdefs_20546) = Some 16638"
  by (simp_all add:
    regdefs_19216_def regdefs_19311_def regdefs_19421_def regdefs_19536_def regdefs_19686_def
    regdefs_19816_def regdefs_19966_def regdefs_20111_def regdefs_20246_def regdefs_20386_def
    regdefs_20536_def regdefs_20546_def)

lemma scan_USB_2:
  "list_all well_formed regdefs_20696" "scan 16638 (map extent regdefs_20696) = Some 18464"
  "list_all well_formed regdefs_20806" "scan 18464 (map extent regdefs_20806) = Some 18688"
  "list_all well_formed regdefs_20901" "scan 18688 (map extent regdefs_20901) = Some 18847"
  "list_all well_formed regdefs_21051" "scan 18847 (map extent regdefs_21051) = Some 19023"
  "list_all well_formed regdefs_21201" "scan 19023 (map extent regdefs_21201) = Some 19232"
  "list_all well_formed regdefs_21296" "scan 19232 (map extent regdefs_21296) = Some 19456"
  "list_all well_formed regdefs_21396" "scan 19456 (map extent regdefs_21396) = Some 19615"
  "list_all well_formed regdefs_21546" "scan 19615 (map extent regdefs_21546) = Some 19791"
  "list_all well_formed regdefs_21696" "scan 19791 (map extent regdefs_21696) = Some 20000"
  "list_all well_formed regdefs_21791" "scan 20000 (map extent regdefs_21791) = Some 20224"
  "list_all well_formed regdefs_21891" "scan 20224 (map extent regdefs_21891) = Some 20383"
  "list_all well_formed regdefs_22041" "scan 20383 (map extent regdefs_22041) = Some 20559"
  by (simp_all add:
    regdefs_20696_def regdefs_20806_def regdefs_20901_def regdefs_21051_def regdefs_21201_def
    regdefs_21296_def regdefs_21396_def regdefs_21546_def regdefs_21696_def regdefs_21791_def
    regdefs_21891_def regdefs_22041_def)

lemma scan_USB_3:
  "list_all well_formed regdefs_22191" "scan 20559 (map extent regdefs_22191) = Some 20768"
  "list_all well_formed regdefs_22286" "scan 20768 (map extent regdefs_22286) = Some 20992"
  "list_all well_formed regdefs_22386" "scan 20992 (map extent regdefs_22386) = Some 21151"
  "list_all well_formed regdefs_22536" "scan 21151 (map extent regdefs_22536) = Some 21327"
  "list_all well_formed regdefs_22686" "scan 21327 (map extent regdefs_22686) = Some 21536"
  "list_all well_formed regdefs_22781" "scan 21536 (map extent regdefs_22781) = Some 21760"
  "list_all well_formed regdefs_22881" "scan 21760 (map extent regdefs_22881) = Some 21919"
  "list_all well_formed regdefs_23031" "scan 21919 (map extent regdefs_23031) = Some 22095"
  "list_all well_formed regdefs_23181" "scan 22095 (map extent regdefs_23181) = Some 22304"
  "list_all well_formed regdefs_23276" "scan 22304 (map extent regdefs_23276) = Some 22560"
  "list_all well_formed regdefs_23426" "scan 22560 (map extent regdefs_23426) = Some 22784"
  "list_all well_formed regdefs_23521" "scan 22784 (map extent regdefs_23521) = Some 22943"
  by (simp_all add:
    regdefs_22191_def regdefs_22286_def regdefs_22386_def regdefs_22536_def regdefs_22686_def
    regdefs_22781_def regdefs_22881_def regdefs_23031_def regdefs_23181_def regdefs_23276_def
    regdefs_23426_def regdefs_23521_def)

lemma scan_USB_4:
  "list_all well_formed regdefs_23671" "scan 22943 (map extent regdefs_23671) = Some 23120"
  "list_all well_formed regdefs_23816" "scan 23120 (map extent regdefs_23816) = Some 23328"
  "list_all well_formed regdefs_23906" "scan 23328 (map extent regdefs_23906) = Some 23552"
  "list_all well_formed regdefs_24001" "scan 23552 (map extent regdefs_24001) = Some 23711"
  "list_all well_formed regdefs_24151" "scan 23711 (map extent regdefs_24151) = Some 23888"
  "list_all well_formed regdefs_24296" "scan 23888 (map extent regdefs_24296) = Some 24096"
  "list_all well_formed regdefs_24386" "scan 24096 (map extent regdefs_24386) = Some 24320"
  "list_all well_formed regdefs_24481" "scan 24320 (map extent regdefs_24481) = Some 24479"
  "list_all well_formed regdefs_24631" "scan 24479 (map extent regdefs_24631) = Some 24656"
  "list_all well_formed regdefs_24776" "scan 24656 (map extent regdefs_24776) = Some 24864"
  "list_all well_formed regdefs_24866" "scan 24864 (map extent regdefs_24866) = Some 25088"
  "list_all well_formed regdefs_24961" "scan 25088 (map extent regdefs_24961) = Some 25247"
  by (simp_all add:
    regdefs_23671_def regdefs_23816_def regdefs_23906_def regdefs_24001_def regdefs_24151_def
    regdefs_24296_def regdefs_24386_def regdefs_24481_def regdefs_24631_def regdefs_24776_def
    regdefs_24866_def regdefs_24961_def)

lemma scan_USB_5:
  "list_all well_formed regdefs_25111" "scan 25247 (map extent regdefs_25111) = Some 25424"
  "list_all well_formed regdefs_25256" "scan 25424 (map extent regdefs_25256) = Some 25632"
  "list_all well_formed regdefs_25346" "scan 25632 (map extent regdefs_25346) = Some 25856"
  "list_all well_formed regdefs_25441" "scan 25856 (map extent regdefs_25441) = Some 26015"
  "list_all well_formed regdefs_25591" "scan 26015 (map extent regdefs_25591) = Some 26192"
  "list_all well_formed regdefs_25736" "scan 26192 (map extent regdefs_25736) = Some 26400"
  "list_all well_formed regdefs_25826" "scan 26400 (map extent regdefs_25826) = Some 28680"
  by (simp_all add:
    regdefs_25111_def regdefs_25256_def regdefs_25346_def regdefs_25441_def regdefs_25591_def
    regdefs_25736_def regdefs_25826_def)

lemma fields_USB_scan: "list_all well_formed fields_USB" "scan 0 (map extent fields_USB) = Some 28680"
  unfolding fields_USB_def
  by (simp_all only: map_append scan_append list_all_append option.case simp_thms
    scan_USB_1 scan_USB_2 scan_USB_3 scan_USB_4 scan_USB_5)

lemma covered_USB_1:
  "covered (map reset_key (registers_4887)) (map field_key regdefs_19216)"
  "covered (map reset_key (registers_4887)) (map field_key regdefs_19311)"
  "covered (map reset_key (registers_4887)) (map field_key regdefs_19421)"
  "covered (map reset_key (registers_4887)) (map field_key regdefs_19536)"
  "covered (map reset_key (registers_4887)) (map field_key regdefs_19686)"
  "covered (map reset_key (registers_4887)) (map field_key regdefs_19816)"
  by (simp_all add:
    registers_4887_def regdefs_19216_def regdefs_19311_def regdefs_19421_def regdefs_19536_def
    regdefs_19686_def regdefs_19816_def)

lemma covered_USB_2:
  "covered (map reset_key (registers_4887)) (map field_key regdefs_19966)"
  "covered (map reset_key (registers_4887)) (map field_key regdefs_20111)"
  "covered (map reset_key (registers_4887)) (map field_key regdefs_20246)"
  "covered (map reset_key (registers_4887)) (map field_key regdefs_20386)"
  "covered (map reset_key (registers_4887)) (map field_key regdefs_20536)"
  "covered (map reset_key (registers_4967)) (map field_key regdefs_20546)"
  by (simp_all add:
    registers_4887_def registers_4967_def regdefs_19966_def regdefs_20111_def regdefs_20246_def
    regdefs_20386_def regdefs_20536_def regdefs_20546_def)

lemma covered_USB_3:
  "covered (map reset_key (registers_4967)) (map field_key regdefs_20696)"
  "covered (map reset_key (registers_4967)) (map field_key regdefs_20806)"
  "covered (map reset_key (registers_4967)) (map field_key regdefs_20901)"
  "covered (map reset_key (registers_4967)) (map field_key regdefs_21051)"
  "covered (map reset_key (registers_4967)) (map field_key regdefs_21201)"
  "covered (map reset_key (registers_4967)) (map field_key regdefs_21296)"
  by (simp_all add:
    registers_4967_def regdefs_20696_def regdefs_20806_def regdefs_20901_def regdefs_21051_def
    regdefs_21201_def regdefs_21296_def)

lemma covered_USB_4:
  "covered (map reset_key (registers_4967)) (map field_key regdefs_21396)"
  "covered (map reset_key (registers_4967)) (map field_key regdefs_21546)"
  "covered (map reset_key (registers_4967 @ registers_5047)) (map field_key regdefs_21696)"
  "covered (map reset_key (registers_5047)) (map field_key regdefs_21791)"
  "covered (map reset_key (registers_5047)) (map field_key regdefs_21891)"
  "covered (map reset_key (registers_5047)) (map field_key regdefs_22041)"
  by (simp_all add:
    registers_4967_def registers_5047_def regdefs_21396_def regdefs_21546_def regdefs_21696_def
    regdefs_21791_def regdefs_21891_def regdefs_22041_def)

lemma covered_USB_5:
  "covered (map reset_key (registers_5047)) (map field_key regdefs_22191)"
  "covered (map reset_key (registers_5047)) (map field_key regdefs_22286)"
  "covered (map reset_key (registers_5047)) (map field_key regdefs_22386)"
  "covered (map reset_key (registers_5047)) (map field_key regdefs_22536)"
  "covered (map reset_key (registers_5047)) (map field_key regdefs_22686)"
  "covered (map reset_key (registers_5047 @ registers_5127)) (map field_key regdefs_22781)"
  by (simp_all add:
    registers_5047_def registers_5127_def regdefs_22191_def regdefs_22286_def regdefs_22386_def
    regdefs_22536_def regdefs_22686_def regdefs_22781_def)

lemma covered_USB_6:
  "covered (map reset_key (registers_5127)) (map field_key regdefs_22881)"
  "covered (map reset_key (registers_5127)) (map field_key regdefs_23031)"
  "covered (map reset_key (registers_5127)) (map field_key regdefs_23181)"
  "covered (map reset_key (registers_5127)) (map field_key regdefs_23276)"
  "covered (map reset_key (registers_5127)) (map field_key regdefs_23426)"
  "covered (map reset_key (registers_5127)) (map field_key regdefs_23521)"
  by (simp_all add:
    registers_5127_def regdefs_22881_def regdefs_23031_def regdefs_23181_def regdefs_23276_def
    regdefs_23426_def regdefs_23521_def)

lemma covered_USB_7:
  "covered (map reset_key (registers_5127)) (map field_key regdefs_23671)"
  "covered (map reset_key (registers_5127)) (map field_key regdefs_23816)"
  "covered (map reset_key (registers_5127 @ registers_5207)) (map field_key regdefs_23906)"
  "covered (map reset_key (registers_5207)) (map field_key regdefs_24001)"
  "covered (map reset_key (registers_5207)) (map field_key regdefs_24151)"
  "covered (map reset_key (registers_5207)) (map field_key regdefs_24296)"
  by (simp_all add:
    registers_5127_def registers_5207_def regdefs_23671_def regdefs_23816_def regdefs_23906_def
    regdefs_24001_def regdefs_24151_def regdefs_24296_def)

lemma covered_USB_8:
  "covered (map reset_key (registers_5207)) (map field_key regdefs_24386)"
  "covered (map reset_key (registers_5207)) (map field_key regdefs_24481)"
  "covered (map reset_key (registers_5207)) (map field_key regdefs_24631)"
  "covered (map reset_key (registers_5207)) (map field_key regdefs_24776)"
  "covered (map reset_key (registers_5207)) (map field_key regdefs_24866)"
  "covered (map reset_key (registers_5207)) (map field_key regdefs_24961)"
  by (simp_all add:
    registers_5207_def regdefs_24386_def regdefs_24481_def regdefs_24631_def regdefs_24776_def
    regdefs_24866_def regdefs_24961_def)

lemma covered_USB_9:
  "covered (map reset_key (registers_5207)) (map field_key regdefs_25111)"
  "covered (map reset_key (registers_5207 @ registers_5287)) (map field_key regdefs_25256)"
  "covered (map reset_key (registers_5287)) (map field_key regdefs_25346)"
  "covered (map reset_key (registers_5287)) (map field_key regdefs_25441)"
  "covered (map reset_key (registers_5287)) (map field_key regdefs_25591)"
  "covered (map reset_key (registers_5287)) (map field_key regdefs_25736)"
  by (simp_all add:
    registers_5207_def registers_5287_def regdefs_25111_def regdefs_25256_def regdefs_25346_def
    regdefs_25441_def regdefs_25591_def regdefs_25736_def)

lemma covered_USB_10:
  "covered (map reset_key (registers_5287)) (map field_key regdefs_25826)"
  by (simp_all add:
    registers_5287_def regdefs_25826_def)

lemma registers_USB_parts:
  "set registers_4887 \<subseteq> set registers_USB"
  "set registers_4967 \<subseteq> set registers_USB"
  "set registers_5047 \<subseteq> set registers_USB"
  "set registers_5127 \<subseteq> set registers_USB"
  "set registers_5207 \<subseteq> set registers_USB"
  "set registers_5287 \<subseteq> set registers_USB"
  by (auto simp: registers_USB_def)

lemma fields_USB_registers: "list_all (has_register registers_USB) fields_USB"
  unfolding fields_USB_def
  by (simp only: list_all_append set_append Un_subset_iff simp_thms registers_USB_parts
    covered_USB_1 [THEN covered_has] covered_USB_2 [THEN covered_has] covered_USB_3 [THEN covered_has]
    covered_USB_4 [THEN covered_has] covered_USB_5 [THEN covered_has] covered_USB_6 [THEN covered_has]
    covered_USB_7 [THEN covered_has] covered_USB_8 [THEN covered_has] covered_USB_9 [THEN covered_has]
    covered_USB_10 [THEN covered_has])

end
