(* ===== verification/RegdefsTimer.thy ===== *)
theory RegdefsTimer
  imports Registers
begin

text \<open>
  The registers and register fields of the modules RDD, RTC, SPI, SPS, SWDP, TEMP, TIMEHS, TIMELS,
  TIMEUS, TRNG, UART, VOLT, WATCHDOG, XO, M3 (chip/c/hw_b1_regdefs.h, generated): one entry per
  register with its two macros, one per field with its five. A definition holds the entries from the
  line in its name on; the tables of the modules are at the end.
\<close>

definition registers_4243 :: "register list" where
  "registers_4243 = [
    Register ''RDD_VERSION'' 0x0 (Some 0x24011f09), Register ''RDD_INT_ENABLE'' 0x4 (Some 0x0), Register
    ''RDD_INT_STATE'' 0x8 (Some 0x0), Register ''RDD_INT_TEST'' 0xc (Some 0x0), Register ''RDD_POWER_DOWN_B''
    0x10 (Some 0x0), Register ''RDD_ANTEST'' 0x14 (Some 0x0), Register ''RDD_MAX_WAIT_TIME_COUNTER'' 0x18 (Some
    0xc80), Register ''RDD_CUR_WAIT_TIME_COUNTER'' 0x1c (Some 0x0), Register ''RDD_REF_ADJ'' 0x20 (Some 0x15),
    Register ''RDD_INPUT_PIN_VALUES'' 0x24 (Some 0x18), Register ''RDD_PROG_DEBUG_STATE_MAP'' 0x28 (Some 0x420),
    Register ''RDD_CUR_STABLE_STATE'' 0x2c (Some 0x2)]"

definition registers_4267 :: "register list" where
  "registers_4267 = [
    Register ''RTC_CTRL'' 0x0 (Some 0x0), Register ''RTC_PINMUX_EN'' 0x4 (Some 0x0), Register
    ''RTC_PULSE_STRETCH'' 0x8 (Some 0x0), Register ''RTC_SW_TRIM_EN'' 0xc (Some 0x0), Register
    ''RTC_SW_TRIM_COUNTER'' 0x10 (Some 0x0)]"

definition registers_4277 :: "register list" where
  "registers_4277 = [
    Register ''SPI_CTRL'' 0x0 (Some 0x2800800), Register ''SPI_XACT'' 0x4 (Some 0xe), Register ''SPI_ICTRL'' 0x8
    (Some 0x0), Register ''SPI_ISTATE'' 0xc (Some 0x0), Register ''SPI_ISTATE_CLR'' 0x10 (Some 0x0), Register
    ''SPI_OVRD'' 0x14 (Some 0x8), Register ''SPI_VAL'' 0x18 (Some 0x0), Register ''SPI_ITCR'' 0xf00 (Some 0x0),
    Register ''SPI_ITOP'' 0xf04 (Some 0x0), Register ''SPI_DATA'' 0x1000 None, Register ''SPI_TX_DATA'' 0x1000
    None, Register ''SPI_RX_DATA'' 0x1080 None]"

definition registers_4298 :: "register list" where
  "registers_4298 = [
    Register ''SPS_CTRL'' 0x0 (Some 0x1), Register ''SPS_DUMMY_WORD'' 0x4 (Some 0xff), Register ''SPS_STATUS01''
    0x8 (Some 0x0), Register ''SPS_STATUS23'' 0xc (Some 0x0), Register ''SPS_STATUS45'' 0x10 (Some 0x0),
    Register ''SPS_STATUS67'' 0x14 (Some 0x0), Register ''SPS_CTRL01'' 0x18 (Some 0x0), Register ''SPS_CTRL23''
    0x1c (Some 0x0), Register ''SPS_CTRL45'' 0x20 (Some 0x0), Register ''SPS_CTRL67'' 0x24 (Some 0x0), Register
    ''SPS_FIFO_CTRL'' 0x28 (Some 0x0), Register ''SPS_TXFIFO_SIZE'' 0x2c (Some 0x0), Register
    ''SPS_TXFIFO_RPTR'' 0x30 (Some 0x0), Register ''SPS_TXFIFO_WPTR'' 0x34 (Some 0x0), Register
    ''SPS_TXFIFO_THRESHOLD'' 0x38 (Some 0x0), Register ''SPS_RXFIFO_SIZE'' 0x3c (Some 0x0), Register
    ''SPS_RXFIFO_RPTR'' 0x40 (Some 0x0), Register ''SPS_RXFIFO_WPTR'' 0x44 (Some 0x0), Register
    ''SPS_RXFIFO_THRESHOLD'' 0x48 (Some 0x0), Register ''SPS_OVRD'' 0x4c (Some 0x0), Register ''SPS_VAL'' 0x50
    (Some 0x0), Register ''SPS_ISTATE'' 0x54 (Some 0x0), Register ''SPS_ISTATE_CLR'' 0x58 (Some 0x0), Register
    ''SPS_ITCR'' 0x5c (Some 0x0), Register ''SPS_ITOP'' 0x60 (Some 0x0), Register ''SPS_ICTRL'' 0x64 (Some 0x0),
    Register ''SPS_EEPROM_CTRL'' 0x400 (Some 0x480), Register ''SPS_MAILBOX_RD_OPCODE'' 0x404 (Some 0x0),
    Register ''SPS_FAST_DUAL_RD_OPCODE'' 0x408 (Some 0x3b), Register ''SPS_BUSY_OPCODE0'' 0x40c (Some 0x0),
    Register ''SPS_BUSY_OPCODE1'' 0x410 (Some 0x0), Register ''SPS_BUSY_OPCODE2'' 0x414 (Some 0x0), Register
    ''SPS_BUSY_OPCODE3'' 0x418 (Some 0x0), Register ''SPS_BUSY_OPCODE4'' 0x41c (Some 0x0), Register
    ''SPS_BUSY_OPCODE5'' 0x420 (Some 0x0), Register ''SPS_BUSY_OPCODE6'' 0x424 (Some 0x0), Register
    ''SPS_BUSY_OPCODE7'' 0x428 (Some 0x0), Register ''SPS_EEPROM_STATUS'' 0x42c (Some 0x0), Register
    ''SPS_EEPROM_BUSY_STATUS'' 0x430 (Some 0x0), Register ''SPS_EEPROM_BUSY_BIT_VECTOR'' 0x434 (Some 0x1)]"

definition registers_4378 :: "register list" where
  "registers_4378 = [
    Register ''SPS_EEPROM_WEL_STATUS'' 0x438 (Some 0x0), Register ''SPS_JEDEC_ID0'' 0x43c (Some 0x0), Register
    ''SPS_JEDEC_ID1'' 0x440 (Some 0x0), Register ''SPS_JEDEC_ID2'' 0x444 (Some 0x0), Register
    ''SPS_SELF_DISCV_PARAM0'' 0x448 (Some 0x0), Register ''SPS_SELF_DISCV_PARAM1'' 0x44c (Some 0x0), Register
    ''SPS_SELF_DISCV_PARAM2'' 0x450 (Some 0x0), Register ''SPS_SELF_DISCV_PARAM3'' 0x454 (Some 0x0), Register
    ''SPS_SELF_DISCV_PARAM4'' 0x458 (Some 0x0), Register ''SPS_SELF_DISCV_PARAM5'' 0x45c (Some 0x0), Register
    ''SPS_SELF_DISCV_PARAM6'' 0x460 (Some 0x0), Register ''SPS_SELF_DISCV_PARAM7'' 0x464 (Some 0x0), Register
    ''SPS_SELF_DISCV_PARAM8'' 0x468 (Some 0x0), Register ''SPS_SELF_DISCV_PARAM9'' 0x46c (Some 0x0), Register
    ''SPS_SELF_DISCV_PARAM10'' 0x470 (Some 0x0), Register ''SPS_SELF_DISCV_PARAM11'' 0x474 (Some 0x0), Register
    ''SPS_SELF_DISCV_PARAM12'' 0x478 (Some 0x0), Register ''SPS_SELF_DISCV_PARAM13'' 0x47c (Some 0x0), Register
    ''SPS_SELF_DISCV_PARAM14'' 0x480 (Some 0x0), Register ''SPS_SELF_DISCV_PARAM15'' 0x484 (Some 0x0), Register
    ''SPS_SELF_DISCV_PARAM16'' 0x488 (Some 0x0), Register ''SPS_SELF_DISCV_PARAM17'' 0x48c (Some 0x0), Register
    ''SPS_SELF_DISCV_PARAM18'' 0x490 (Some 0x0), Register ''SPS_SELF_DISCV_PARAM19'' 0x494 (Some 0x0), Register
    ''SPS_SELF_DISCV_PARAM20'' 0x498 (Some 0x0), Register ''SPS_SELF_DISCV_PARAM21'' 0x49c (Some 0x0), Register
    ''SPS_SELF_DISCV_PARAM22'' 0x4a0 (Some 0x0), Register ''SPS_SELF_DISCV_PARAM23'' 0x4a4 (Some 0x0), Register
    ''SPS_SELF_DISCV_PARAM24'' 0x4a8 (Some 0x0), Register ''SPS_SELF_DISCV_PARAM25'' 0x4ac (Some 0x0), Register
    ''SPS_SELF_DISCV_PARAM26'' 0x4b0 (Some 0x0), Register ''SPS_SELF_DISCV_PARAM27'' 0x4b4 (Some 0x0), Register
    ''SPS_SELF_DISCV_PARAM28'' 0x4b8 (Some 0x0), Register ''SPS_SELF_DISCV_PARAM29'' 0x4bc (Some 0x0), Register
    ''SPS_SELF_DISCV_PARAM30'' 0x4c0 (Some 0x0), Register ''SPS_SELF_DISCV_PARAM31'' 0x4c4 (Some 0x0), Register
    ''SPS_UNMAPPED_RETURN_VAL'' 0x4c8 (Some 0x0), Register ''SPS_RAM_VIRTUAL_PAGE0'' 0x4cc (Some 0x0), Register
    ''SPS_RAM_VIRTUAL_PAGE1'' 0x4d0 (Some 0x0), Register ''SPS_RAM_VIRTUAL_PAGE2'' 0x4d4 (Some 0x0)]"

definition registers_4458 :: "register list" where
  "registers_4458 = [
    Register ''SPS_RAM_VIRTUAL_PAGE3'' 0x4d8 (Some 0x0), Register ''SPS_RAM_CTRL_PAGE0'' 0x4dc (Some 0x0),
    Register ''SPS_RAM_CTRL_PAGE1'' 0x4e0 (Some 0x0), Register ''SPS_RAM_CTRL_PAGE2'' 0x4e4 (Some 0x0), Register
    ''SPS_RAM_CTRL_PAGE3'' 0x4e8 (Some 0x0), Register ''SPS_INT_FLASH_BASE_PAGE'' 0x4ec (Some 0x0), Register
    ''SPS_INT_FLASH_LIMIT_PAGE'' 0x4f0 (Some 0x0), Register ''SPS_EXT_FLASH_BASE_PAGE'' 0x4f4 (Some 0x0),
    Register ''SPS_EXT_FLASH_LIMIT_PAGE'' 0x4f8 (Some 0x0), Register ''SPS_INT_FLASH_TRANS_BIT_VECTOR'' 0x4fc
    (Some 0x0), Register ''SPS_INT_FLASH_TRANS_ADDR'' 0x500 (Some 0x0), Register
    ''SPS_EXT_FLASH_TRANS_BIT_VECTOR'' 0x504 (Some 0x0), Register ''SPS_EXT_FLASH_TRANS_ADDR'' 0x508 (Some 0x0),
    Register ''SPS_CMD_MEM_RPTR'' 0x50c (Some 0x0), Register ''SPS_CMD_ADDR_FIFO'' 0x510 (Some 0x0), Register
    ''SPS_CMD_ADDR_FIFO_EMPTY'' 0x514 (Some 0x0), Register ''SPS_FDA_MSB_ROTATE_BASE_ADDR'' 0x518 (Some 0x0),
    Register ''SPS_FDA_MSB_LEVEL2_ROTATE_BASE_ADDR'' 0x51c (Some 0x0), Register ''SPS_PASSTHRU_FILTER_RULE0''
    0x520 (Some 0x0), Register ''SPS_PASSTHRU_FILTER_RULE1'' 0x524 (Some 0x0), Register
    ''SPS_PASSTHRU_FILTER_RULE2'' 0x528 (Some 0x0), Register ''SPS_PASSTHRU_FILTER_RULE3'' 0x52c (Some 0x0),
    Register ''SPS_PASSTHRU_FILTER_RULE4'' 0x530 (Some 0x0), Register ''SPS_PASSTHRU_FILTER_RULE5'' 0x534 (Some
    0x0), Register ''SPS_PASSTHRU_FILTER_RULE6'' 0x538 (Some 0x0), Register ''SPS_PASSTHRU_FILTER_RULE7'' 0x53c
    (Some 0x0), Register ''SPS_PASSTHRU_FILTER_RULE8'' 0x540 (Some 0x0), Register ''SPS_PASSTHRU_FILTER_RULE9''
    0x544 (Some 0x0), Register ''SPS_PASSTHRU_FILTER_RULE10'' 0x548 (Some 0x0), Register
    ''SPS_PASSTHRU_FILTER_RULE11'' 0x54c (Some 0x0), Register ''SPS_PASSTHRU_FILTER_RULE12'' 0x550 (Some 0x0),
    Register ''SPS_PASSTHRU_FILTER_RULE13'' 0x554 (Some 0x0), Register ''SPS_PASSTHRU_FILTER_RULE14'' 0x558
    (Some 0x0), Register ''SPS_PASSTHRU_FILTER_RULE15'' 0x55c (Some 0x0), Register ''SPS_VIRTUAL_ADDR_FILTER''
    0x560 (Some 0xffffffff), Register ''SPS_DEBUG_CS_CNT'' 0x564 (Some 0x0), Register ''SPS_TESTBUS_SEL'' 0x568
    (Some 0x0), Register ''SPS_DPU_TESTBUS'' 0x56c (Some 0x0), Register ''SPS_RD_CMD_TESTBUS'' 0x570 (Some 0x0),
    Register ''SPS_CMD_PASSTHRU_TESTBUS'' 0x574 (Some 0x0)]"

definition registers_4538 :: "register list" where
  "registers_4538 = [
    Register ''SPS_EEPROM_INT_ENABLE'' 0x578 (Some 0x0), Register ''SPS_EEPROM_INT_STATE'' 0x57c (Some 0x0),
    Register ''SPS_EEPROM_INT_TEST'' 0x580 (Some 0x0), Register ''SPS_DATA'' 0x1000 None, Register
    ''SPS_TX_DATA'' 0x1000 None, Register ''SPS_RX_DATA'' 0x1400 None, Register ''SPS_ROM_SP'' 0x1000 None,
    Register ''SPS_ROM_CMD'' 0x2000 None]"

definition registers_4549 :: "register list" where
  "registers_4549 = [
    Register ''SWDP_TRICKBOX_HALT'' 0x0 (Some 0x0), Register ''SWDP_TRICKBOX_UART'' 0x4 (Some 0x0), Register
    ''SWDP_TRICKBOX_ERROR'' 0x8 (Some 0x0), Register ''SWDP_TRICKBOX_FATAL'' 0xc (Some 0x0), Register
    ''SWDP_SCRATCH_REG0'' 0x10 (Some 0x0), Register ''SWDP_SCRATCH_REG1'' 0x14 (Some 0x0), Register
    ''SWDP_SCRATCH_REG2'' 0x18 (Some 0x0), Register ''SWDP_SCRATCH_REG3'' 0x1c (Some 0x0), Register
    ''SWDP_APPSVTOR'' 0x20 (Some 0xffffffff), Register ''SWDP_XML_MD5SUM'' 0x24 (Some 0x0), Register
    ''SWDP_HEADER_MD5SUM'' 0x28 (Some 0x0), Register ''SWDP_P4_LAST_SYNC'' 0x2c (Some 0x0), Register
    ''SWDP_BUILD_DATE'' 0x30 (Some 0x0), Register ''SWDP_BUILD_TIME'' 0x34 (Some 0x0), Register
    ''SWDP_TEST_PORT_DISABLE'' 0x38 (Some 0x0)]"

definition registers_4579 :: "register list" where
  "registers_4579 = [
    Register ''TEMP_VERSION'' 0x0 (Some 0x1014125), Register ''TEMP_ADC_INT_ENABLE'' 0x4 (Some 0x0), Register
    ''TEMP_ADC_INT_STATE'' 0x8 (Some 0x0), Register ''TEMP_ADC_INT_TEST'' 0xc (Some 0x0), Register
    ''TEMP_SENSE_CAL_OFFSET'' 0x10 (Some 0x0), Register ''TEMP_ADC_ANALOG_CTRL'' 0x14 (Some 0x35), Register
    ''TEMP_ADC_FSM_CTRL'' 0x18 (Some 0x38864), Register ''TEMP_ADC_CLKDIV2_ENABLE'' 0x1c (Some 0x0), Register
    ''TEMP_ADC_ONESHOT_ACQ'' 0x20 (Some 0x0), Register ''TEMP_ADC_POWER_DOWN_B'' 0x24 (Some 0x0), Register
    ''TEMP_ADC_OPERATION'' 0x28 (Some 0x0), Register ''TEMP_ADC_IOUT'' 0x2c (Some 0x0), Register
    ''TEMP_ADC_SUM2'' 0x30 (Some 0x0), Register ''TEMP_ADC_SUM4'' 0x34 (Some 0x0), Register ''TEMP_ADC_SUM8''
    0x38 (Some 0x0), Register ''TEMP_ADC_REF_CHOP'' 0x3c (Some 0x0), Register ''TEMP_ADC_CONFIG'' 0x40 (Some
    0x0), Register ''TEMP_ABS_LIMIT'' 0x44 (Some 0x0), Register ''TEMP_DIFF_PARAM'' 0x48 (Some 0x0), Register
    ''TEMP_METRIC'' 0x4c (Some 0x0), Register ''TEMP_SAMPLE_CTR_STATE'' 0x50 (Some 0x0), Register
    ''TEMP_ANTEST_EN'' 0x54 (Some 0x0)]"

definition registers_4623 :: "register list" where
  "registers_4623 = [
    Register ''TIMEHS_TIMER1LOAD'' 0x0 (Some 0x0), Register ''TIMEHS_TIMER1VALUE'' 0x4 (Some 0x0), Register
    ''TIMEHS_TIMER1CONTROL'' 0x8 (Some 0x20), Register ''TIMEHS_TIMER1INTCLR'' 0xc (Some 0x0), Register
    ''TIMEHS_TIMER1RIS'' 0x10 (Some 0x0), Register ''TIMEHS_TIMER1MIS'' 0x14 (Some 0x0), Register
    ''TIMEHS_TIMER1BGLOAD'' 0x18 (Some 0x0), Register ''TIMEHS_TIMER2LOAD'' 0x20 (Some 0x0), Register
    ''TIMEHS_TIMER2VALUE'' 0x24 (Some 0x0), Register ''TIMEHS_TIMER2CONTROL'' 0x28 (Some 0x20), Register
    ''TIMEHS_TIMER2INTCLR'' 0x2c (Some 0x0), Register ''TIMEHS_TIMER2RIS'' 0x30 (Some 0x0), Register
    ''TIMEHS_TIMER2MIS'' 0x34 (Some 0x0), Register ''TIMEHS_TIMER2BGLOAD'' 0x38 (Some 0x0), Register
    ''TIMEHS_TIMERITCR'' 0xf00 (Some 0x0), Register ''TIMEHS_TIMERITOP'' 0xf04 (Some 0x0), Register
    ''TIMEHS_TIMERPERIPHID4'' 0xfd0 (Some 0x4), Register ''TIMEHS_TIMERPERIPHID5'' 0xfd4 (Some 0x0), Register
    ''TIMEHS_TIMERPERIPHID6'' 0xfd8 (Some 0x0), Register ''TIMEHS_TIMERPERIPHID7'' 0xfdc (Some 0x0), Register
    ''TIMEHS_TIMERPERIPHID0'' 0xfe0 (Some 0x23), Register ''TIMEHS_TIMERPERIPHID1'' 0xfe4 (Some 0xb8), Register
    ''TIMEHS_TIMERPERIPHID2'' 0xfe8 (Some 0xb), Register ''TIMEHS_TIMERPERIPHID3'' 0xfec (Some 0x0), Register
    ''TIMEHS_TIMERPCELLID0'' 0xff0 (Some 0xd), Register ''TIMEHS_TIMERPCELLID1'' 0xff4 (Some 0xf0), Register
    ''TIMEHS_TIMERPCELLID2'' 0xff8 (Some 0x5), Register ''TIMEHS_TIMERPCELLID3'' 0xffc (Some 0xb1)]"

definition registers_4679 :: "register list" where
  "registers_4679 = [
    Register ''TIMELS_TIMER0_CONTROL'' 0x0 (Some 0x0), Register ''TIMELS_TIMER0_STATUS'' 0x4 (Some 0x0),
    Register ''TIMELS_TIMER0_LOAD'' 0x8 (Some 0x0), Register ''TIMELS_TIMER0_RELOADVAL'' 0xc (Some 0xffffffff),
    Register ''TIMELS_TIMER0_VALUE'' 0x10 (Some 0x0), Register ''TIMELS_TIMER0_STEP'' 0x14 (Some 0x0), Register
    ''TIMELS_TIMER0_IER'' 0x18 (Some 0x0), Register ''TIMELS_TIMER0_ISR'' 0x1c (Some 0x0), Register
    ''TIMELS_TIMER0_IPR'' 0x20 (Some 0x0), Register ''TIMELS_TIMER0_IAR'' 0x24 (Some 0x0), Register
    ''TIMELS_TIMER0_WAKEUP_ACK'' 0x28 (Some 0x0), Register ''TIMELS_TIMER1_CONTROL'' 0x40 (Some 0x0), Register
    ''TIMELS_TIMER1_STATUS'' 0x44 (Some 0x0), Register ''TIMELS_TIMER1_LOAD'' 0x48 (Some 0x0), Register
    ''TIMELS_TIMER1_RELOADVAL'' 0x4c (Some 0xffffffff), Register ''TIMELS_TIMER1_VALUE'' 0x50 (Some 0x0),
    Register ''TIMELS_TIMER1_STEP'' 0x54 (Some 0x0), Register ''TIMELS_TIMER1_IER'' 0x58 (Some 0x0), Register
    ''TIMELS_TIMER1_ISR'' 0x5c (Some 0x0), Register ''TIMELS_TIMER1_IPR'' 0x60 (Some 0x0), Register
    ''TIMELS_TIMER1_IAR'' 0x64 (Some 0x0), Register ''TIMELS_TIMER1_WAKEUP_ACK'' 0x68 (Some 0x0), Register
    ''TIMELS_ITCR'' 0xf00 (Some 0x0), Register ''TIMELS_ITOP'' 0xf04 (Some 0x0)]"

definition registers_4727 :: "register list" where
  "registers_4727 = [
    Register ''TIMEUS_VERSION'' 0x0 (Some 0x101424a), Register ''TIMEUS_INT_ENABLE'' 0x4 (Some 0x0), Register
    ''TIMEUS_INT_STATE'' 0x8 (Some 0x0), Register ''TIMEUS_INT_TEST'' 0xc (Some 0x0), Register
    ''TIMEUS_ENABLE_CNTR0'' 0x100 (Some 0x0), Register ''TIMEUS_ONESHOT_MODE_CNTR0'' 0x104 (Some 0x0), Register
    ''TIMEUS_MAXVAL_CNTR0'' 0x108 (Some 0x2710), Register ''TIMEUS_PROGVAL_CNTR0'' 0x10c (Some 0x3e8), Register
    ''TIMEUS_DIVIDER_CNTR0'' 0x110 (Some 0x1), Register ''TIMEUS_CUR_MAJOR_CNTR0'' 0x114 (Some 0x0), Register
    ''TIMEUS_CUR_MINOR_CNTR0'' 0x118 (Some 0x0), Register ''TIMEUS_ENABLE_CNTR1'' 0x200 (Some 0x0), Register
    ''TIMEUS_ONESHOT_MODE_CNTR1'' 0x204 (Some 0x0), Register ''TIMEUS_MAXVAL_CNTR1'' 0x208 (Some 0x2710),
    Register ''TIMEUS_PROGVAL_CNTR1'' 0x20c (Some 0x3e8), Register ''TIMEUS_DIVIDER_CNTR1'' 0x210 (Some 0x1),
    Register ''TIMEUS_CUR_MAJOR_CNTR1'' 0x214 (Some 0x0), Register ''TIMEUS_CUR_MINOR_CNTR1'' 0x218 (Some 0x0),
    Register ''TIMEUS_ENABLE_CNTR2'' 0x300 (Some 0x0), Register ''TIMEUS_ONESHOT_MODE_CNTR2'' 0x304 (Some 0x0),
    Register ''TIMEUS_MAXVAL_CNTR2'' 0x308 (Some 0x2710), Register ''TIMEUS_PROGVAL_CNTR2'' 0x30c (Some 0x3e8),
    Register ''TIMEUS_DIVIDER_CNTR2'' 0x310 (Some 0x1), Register ''TIMEUS_CUR_MAJOR_CNTR2'' 0x314 (Some 0x0),
    Register ''TIMEUS_CUR_MINOR_CNTR2'' 0x318 (Some 0x0), Register ''TIMEUS_ENABLE_CNTR3'' 0x400 (Some 0x0),
    Register ''TIMEUS_ONESHOT_MODE_CNTR3'' 0x404 (Some 0x0), Register ''TIMEUS_MAXVAL_CNTR3'' 0x408 (Some
    0x2710), Register ''TIMEUS_PROGVAL_CNTR3'' 0x40c (Some 0x3e8), Register ''TIMEUS_DIVIDER_CNTR3'' 0x410 (Some
    0x1), Register ''TIMEUS_CUR_MAJOR_CNTR3'' 0x414 (Some 0x0), Register ''TIMEUS_CUR_MINOR_CNTR3'' 0x418 (Some
    0x0)]"

definition registers_4791 :: "register list" where
  "registers_4791 = [
    Register ''TRNG_VERSION'' 0x0 (Some 0x1014125), Register ''TRNG_INT_ENABLE'' 0x4 (Some 0x0), Register
    ''TRNG_INT_STATE'' 0x8 (Some 0x0), Register ''TRNG_INT_TEST'' 0xc (Some 0x0), Register
    ''TRNG_SECURE_POST_PROCESSING_CTRL'' 0x10 (Some 0x1), Register ''TRNG_POST_PROCESSING_CTRL'' 0x14 (Some
    0xf), Register ''TRNG_GO_EVENT'' 0x18 (Some 0x0), Register ''TRNG_TIMEOUT_COUNTER'' 0x1c (Some 0x7d0),
    Register ''TRNG_TIMEOUT_MAX_TRY_NUM'' 0x20 (Some 0x4), Register ''TRNG_OUTPUT_TIME_COUNTER'' 0x24 (Some
    0x10000), Register ''TRNG_STOP_WORK'' 0x28 (Some 0x0), Register ''TRNG_FSM_STATE'' 0x2c (Some 0x1), Register
    ''TRNG_ALLOWED_VALUES'' 0x30 (Some 0x21), Register ''TRNG_TIMER_COUNTER'' 0x34 (Some 0x0), Register
    ''TRNG_SLICE_MAX_UPPER_LIMIT'' 0x38 (Some 0xf), Register ''TRNG_SLICE_MIN_LOWER_LIMIT'' 0x3c (Some 0x0),
    Register ''TRNG_MAX_VALUE'' 0x40 (Some 0x0), Register ''TRNG_MIN_VALUE'' 0x44 (Some 0x0), Register
    ''TRNG_LDO_CTRL'' 0x48 (Some 0x5), Register ''TRNG_POWER_DOWN_B'' 0x4c (Some 0x0), Register
    ''TRNG_PROC_LOCK_POWER_DOWN_B'' 0x50 (Some 0x1), Register ''TRNG_ANTEST'' 0x54 (Some 0x0), Register
    ''TRNG_ANALOG_SEN_LSR_INPUT'' 0x58 (Some 0xb), Register ''TRNG_ANALOG_SEN_LSR_OUTPUT'' 0x5c (Some 0x0),
    Register ''TRNG_ANALOG_TEST'' 0x60 (Some 0x0), Register ''TRNG_ANALOG_CTRL'' 0x64 (Some 0x0), Register
    ''TRNG_ONE_SHOT_MODE'' 0x68 (Some 0x0), Register ''TRNG_ONE_SHOT_REG'' 0x6c (Some 0x0), Register
    ''TRNG_READ_DATA'' 0x70 (Some 0x0), Register ''TRNG_FREQUENCY_CALLS'' 0x74 (Some 0x0), Register
    ''TRNG_CUR_NUM_ONES'' 0x78 (Some 0x0), Register ''TRNG_EMPTY'' 0x7c (Some 0x1)]"

definition registers_4855 :: "register list" where
  "registers_4855 = [
    Register ''UART_RDATA'' 0x0 (Some 0x0), Register ''UART_WDATA'' 0x4 (Some 0x0), Register ''UART_NCO'' 0x8
    (Some 0x0), Register ''UART_CTRL'' 0xc (Some 0x0), Register ''UART_ICTRL'' 0x10 (Some 0x0), Register
    ''UART_STATE'' 0x14 (Some 0x90), Register ''UART_STATECLR'' 0x18 (Some 0x0), Register ''UART_ISTATE'' 0x1c
    (Some 0x0), Register ''UART_ISTATECLR'' 0x20 (Some 0x0), Register ''UART_FIFO'' 0x24 (Some 0x0), Register
    ''UART_RFIFO'' 0x28 (Some 0x0), Register ''UART_OVRD'' 0x2c (Some 0x0), Register ''UART_VAL'' 0x30 (Some
    0x0), Register ''UART_RXTO'' 0x34 (Some 0x0), Register ''UART_ITCR'' 0xf00 (Some 0x0), Register
    ''UART_ITOP'' 0xf04 (Some 0x0)]"

definition registers_5332 :: "register list" where
  "registers_5332 = [
    Register ''VOLT_VERSION'' 0x0 (Some 0x1014125), Register ''VOLT_ANALOG_POWER_DOWN_B'' 0x4 (Some 0x0),
    Register ''VOLT_ANALOG_CONTROL'' 0x8 (Some 0xb916), Register ''VOLT_CONFIG'' 0xc (Some 0x0), Register
    ''VOLT_GLITCH_DET_CTR_STATE'' 0x10 (Some 0x0), Register ''VOLT_ILLEGAL_VALS_CTR_STATE'' 0x14 (Some 0x0)]"

definition registers_5344 :: "register list" where
  "registers_5344 = [
    Register ''WATCHDOG_WDOGLOAD'' 0x0 (Some 0xffffffff), Register ''WATCHDOG_WDOGVALUE'' 0x4 (Some 0xffffffff),
    Register ''WATCHDOG_WDOGCONTROL'' 0x8 (Some 0x0), Register ''WATCHDOG_WDOGINTCLR'' 0xc (Some 0x0), Register
    ''WATCHDOG_WDOGRIS'' 0x10 (Some 0x0), Register ''WATCHDOG_WDOGMIS'' 0x14 (Some 0x0), Register
    ''WATCHDOG_WDOGLOCK'' 0xc00 (Some 0x0), Register ''WATCHDOG_WDOGITCR'' 0xf00 (Some 0x0), Register
    ''WATCHDOG_WDOGITOP'' 0xf04 (Some 0x0), Register ''WATCHDOG_WDOGPERIPHID4'' 0xfd0 (Some 0x4), Register
    ''WATCHDOG_WDOGPERIPHID5'' 0xfd4 (Some 0x0), Register ''WATCHDOG_WDOGPERIPHID6'' 0xfd8 (Some 0x0), Register
    ''WATCHDOG_WDOGPERIPHID7'' 0xfdc (Some 0x0), Register ''WATCHDOG_WDOGPERIPHID0'' 0xfe0 (Some 0x24), Register
    ''WATCHDOG_WDOGPERIPHID1'' 0xfe4 (Some 0xb8), Register ''WATCHDOG_WDOGPERIPHID2'' 0xfe8 (Some 0xb), Register
    ''WATCHDOG_WDOGPERIPHID3'' 0xfec (Some 0x0), Register ''WATCHDOG_WDOGPCELLID0'' 0xff0 (Some 0xd), Register
    ''WATCHDOG_WDOGPCELLID1'' 0xff4 (Some 0xf0), Register ''WATCHDOG_WDOGPCELLID2'' 0xff8 (Some 0x5), Register
    ''WATCHDOG_WDOGPCELLID3'' 0xffc (Some 0xb1)]"

definition registers_5386 :: "register list" where
  "registers_5386 = [
    Register ''XO_VERSION'' 0x0 (Some 0x101424a), Register ''XO_CFG_WR_EN'' 0x4 (Some 0x1), Register
    ''XO_JTR_CTRL_EN'' 0x8 (Some 0x1), Register ''XO_CLK_JTR_CTRL'' 0xc (Some 0x3), Register
    ''XO_CLK_JTR_RC_COARSE_ATE_TRIM'' 0x10 (Some 0x0), Register ''XO_CLK_JTR_RC_FINE_ATE_TRIM'' 0x14 (Some 0x0),
    Register ''XO_CLK_JTR_CURRENT'' 0x18 (Some 0x0), Register ''XO_CLK_JTR_SYNC_CONTENTS'' 0x1c (Some 0x0),
    Register ''XO_CLK_JTR_TRIM_CTRL'' 0x20 (Some 0x1e), Register ''XO_CLK_JTR_JITTERY_TRIM_EN'' 0x24 (Some 0x0),
    Register ''XO_CLK_JTR_JITTERY_TRIM_DIS_SIGNATURE'' 0x28 (Some 0x0), Register
    ''XO_CLK_JTR_JITTERY_TRIM_RELOAD_PERIOD'' 0x2c (Some 0xff), Register
    ''XO_CLK_JTR_JITTERY_TRIM_RANDOM_SEED_EN'' 0x30 (Some 0x0), Register ''XO_CLK_JTR_JITTERY_TRIM_BANK0'' 0x34
    (Some 0x0), Register ''XO_CLK_JTR_JITTERY_TRIM_BANK1'' 0x38 (Some 0x0), Register
    ''XO_CLK_JTR_JITTERY_TRIM_BANK2'' 0x3c (Some 0x0), Register ''XO_CLK_JTR_JITTERY_TRIM_BANK3'' 0x40 (Some
    0x0), Register ''XO_CLK_JTR_JITTERY_TRIM_BANK4'' 0x44 (Some 0x0), Register ''XO_CLK_JTR_JITTERY_TRIM_BANK5''
    0x48 (Some 0x0), Register ''XO_CLK_JTR_JITTERY_TRIM_BANK6'' 0x4c (Some 0x0), Register
    ''XO_CLK_JTR_JITTERY_TRIM_BANK7'' 0x50 (Some 0x0), Register ''XO_CLK_JTR_JITTERY_TRIM_BANK8'' 0x54 (Some
    0x0), Register ''XO_CLK_JTR_JITTERY_TRIM_BANK9'' 0x58 (Some 0x0), Register
    ''XO_CLK_JTR_JITTERY_TRIM_BANK10'' 0x5c (Some 0x0), Register ''XO_CLK_JTR_JITTERY_TRIM_BANK11'' 0x60 (Some
    0x0), Register ''XO_CLK_JTR_JITTERY_TRIM_BANK12'' 0x64 (Some 0x0), Register
    ''XO_CLK_JTR_JITTERY_TRIM_BANK13'' 0x68 (Some 0x0), Register ''XO_CLK_JTR_JITTERY_TRIM_BANK14'' 0x6c (Some
    0x0), Register ''XO_CLK_JTR_JITTERY_TRIM_BANK15'' 0x70 (Some 0x0), Register ''XO_CLK_JTR_CALIB_TRIM_CTRL''
    0x74 (Some 0x0), Register ''XO_CLK_JTR_CALIB_NOP_SEEN'' 0x78 (Some 0x0), Register
    ''XO_CLK_JTR_SLOW_TRIM_CLK_CNT'' 0x7c (Some 0x0), Register ''XO_CLK_JTR_FAST_TRIM_CLK_CNT'' 0x80 (Some 0x0),
    Register ''XO_CLK_JTR_FAST_CALIB0'' 0x84 (Some 0x0), Register ''XO_CLK_JTR_FAST_CALIB1'' 0x88 (Some 0x0),
    Register ''XO_CLK_JTR_FAST_CALIB2'' 0x8c (Some 0x0), Register ''XO_CLK_JTR_FAST_CALIB3'' 0x90 (Some 0x0),
    Register ''XO_CLK_JTR_FAST_CALIB4'' 0x94 (Some 0x0), Register ''XO_CLK_JTR_FAST_CALIB5'' 0x98 (Some 0x0),
    Register ''XO_CLK_JTR_FAST_CALIB6'' 0x9c (Some 0x0)]"

definition registers_5466 :: "register list" where
  "registers_5466 = [
    Register ''XO_CLK_JTR_FAST_CALIB7'' 0xa0 (Some 0x0), Register ''XO_CLK_JTR_FAST_CALIB_CTRL0'' 0xa4 (Some
    0x0), Register ''XO_CLK_JTR_FAST_CALIB_CTRL1'' 0xa8 (Some 0x0), Register ''XO_CLK_JTR_FAST_CALIB_CTRL2''
    0xac (Some 0x0), Register ''XO_CLK_JTR_FAST_CALIB_CTRL3'' 0xb0 (Some 0x0), Register
    ''XO_CLK_JTR_FAST_CALIB_CTRL4'' 0xb4 (Some 0x0), Register ''XO_CLK_JTR_FAST_CALIB_CTRL5'' 0xb8 (Some 0x0),
    Register ''XO_CLK_JTR_FAST_CALIB_CTRL6'' 0xbc (Some 0x0), Register ''XO_CLK_JTR_FAST_CALIB_CTRL7'' 0xc0
    (Some 0x0), Register ''XO_CLK_JTR_FAST_CALIB_CTRL8'' 0xc4 (Some 0x0), Register ''XO_CLK_JTR_SLOW_CALIB0''
    0xc8 (Some 0x0), Register ''XO_CLK_JTR_SLOW_CALIB1'' 0xcc (Some 0x0), Register ''XO_CLK_JTR_SLOW_CALIB2''
    0xd0 (Some 0x0), Register ''XO_CLK_JTR_SLOW_CALIB3'' 0xd4 (Some 0x0), Register ''XO_CLK_JTR_SLOW_CALIB4''
    0xd8 (Some 0x0), Register ''XO_CLK_JTR_SLOW_CALIB5'' 0xdc (Some 0x0), Register ''XO_CLK_JTR_SLOW_CALIB6''
    0xe0 (Some 0x0), Register ''XO_CLK_JTR_SLOW_CALIB7'' 0xe4 (Some 0x0), Register
    ''XO_CLK_JTR_SLOW_CALIB_CTRL0'' 0xe8 (Some 0x0), Register ''XO_CLK_JTR_SLOW_CALIB_CTRL1'' 0xec (Some 0x0),
    Register ''XO_CLK_JTR_SLOW_CALIB_CTRL2'' 0xf0 (Some 0x0), Register ''XO_CLK_JTR_SLOW_CALIB_CTRL3'' 0xf4
    (Some 0x0), Register ''XO_CLK_JTR_SLOW_CALIB_CTRL4'' 0xf8 (Some 0x0), Register
    ''XO_CLK_JTR_SLOW_CALIB_CTRL5'' 0xfc (Some 0x0), Register ''XO_CLK_JTR_SLOW_CALIB_CTRL6'' 0x100 (Some 0x0),
    Register ''XO_CLK_JTR_SLOW_CALIB_CTRL7'' 0x104 (Some 0x0), Register ''XO_CLK_JTR_SLOW_CALIB_CTRL8'' 0x108
    (Some 0x0), Register ''XO_CLK_JTR_ENABLE_SW_TRIM'' 0x10c (Some 0x0), Register ''XO_CLK_JTR_SW_TRIM_COUNTER''
    0x110 (Some 0x0), Register ''XO_CLK_TIMER_CTRL'' 0x114 (Some 0x3), Register
    ''XO_CLK_TIMER_RC_COARSE_ATE_TRIM'' 0x118 (Some 0x0), Register ''XO_CLK_TIMER_RC_FINE_ATE_TRIM'' 0x11c (Some
    0x0), Register ''XO_CLK_TIMER_CURRENT'' 0x120 (Some 0x0), Register ''XO_CLK_TIMER_SYNC_CONTENTS'' 0x124
    (Some 0x0), Register ''XO_CLK_TIMER_TRIM_CTRL'' 0x128 (Some 0x1e), Register ''XO_CLK_TIMER_CALIB_TRIM_CTRL''
    0x12c (Some 0x0), Register ''XO_CLK_TIMER_CALIB_NOP_SEEN'' 0x130 (Some 0x0), Register
    ''XO_CLK_TIMER_SLOW_TRIM_CLK_CNT'' 0x134 (Some 0x0), Register ''XO_CLK_TIMER_FAST_TRIM_CLK_CNT'' 0x138 (Some
    0x0), Register ''XO_CLK_TIMER_FAST_CALIB0'' 0x13c (Some 0x0)]"

definition registers_5546 :: "register list" where
  "registers_5546 = [
    Register ''XO_CLK_TIMER_FAST_CALIB1'' 0x140 (Some 0x0), Register ''XO_CLK_TIMER_FAST_CALIB2'' 0x144 (Some
    0x0), Register ''XO_CLK_TIMER_FAST_CALIB3'' 0x148 (Some 0x0), Register ''XO_CLK_TIMER_FAST_CALIB4'' 0x14c
    (Some 0x0), Register ''XO_CLK_TIMER_FAST_CALIB5'' 0x150 (Some 0x0), Register ''XO_CLK_TIMER_FAST_CALIB6''
    0x154 (Some 0x0), Register ''XO_CLK_TIMER_FAST_CALIB7'' 0x158 (Some 0x0), Register
    ''XO_CLK_TIMER_FAST_CALIB_CTRL0'' 0x15c (Some 0x0), Register ''XO_CLK_TIMER_FAST_CALIB_CTRL1'' 0x160 (Some
    0x0), Register ''XO_CLK_TIMER_FAST_CALIB_CTRL2'' 0x164 (Some 0x0), Register
    ''XO_CLK_TIMER_FAST_CALIB_CTRL3'' 0x168 (Some 0x0), Register ''XO_CLK_TIMER_FAST_CALIB_CTRL4'' 0x16c (Some
    0x0), Register ''XO_CLK_TIMER_FAST_CALIB_CTRL5'' 0x170 (Some 0x0), Register
    ''XO_CLK_TIMER_FAST_CALIB_CTRL6'' 0x174 (Some 0x0), Register ''XO_CLK_TIMER_FAST_CALIB_CTRL7'' 0x178 (Some
    0x0), Register ''XO_CLK_TIMER_FAST_CALIB_CTRL8'' 0x17c (Some 0x0), Register ''XO_CLK_TIMER_SLOW_CALIB0''
    0x180 (Some 0x0), Register ''XO_CLK_TIMER_SLOW_CALIB1'' 0x184 (Some 0x0), Register
    ''XO_CLK_TIMER_SLOW_CALIB2'' 0x188 (Some 0x0), Register ''XO_CLK_TIMER_SLOW_CALIB3'' 0x18c (Some 0x0),
    Register ''XO_CLK_TIMER_SLOW_CALIB4'' 0x190 (Some 0x0), Register ''XO_CLK_TIMER_SLOW_CALIB5'' 0x194 (Some
    0x0), Register ''XO_CLK_TIMER_SLOW_CALIB6'' 0x198 (Some 0x0), Register ''XO_CLK_TIMER_SLOW_CALIB7'' 0x19c
    (Some 0x0), Register ''XO_CLK_TIMER_SLOW_CALIB_CTRL0'' 0x1a0 (Some 0x0), Register
    ''XO_CLK_TIMER_SLOW_CALIB_CTRL1'' 0x1a4 (Some 0x0), Register ''XO_CLK_TIMER_SLOW_CALIB_CTRL2'' 0x1a8 (Some
    0x0), Register ''XO_CLK_TIMER_SLOW_CALIB_CTRL3'' 0x1ac (Some 0x0), Register
    ''XO_CLK_TIMER_SLOW_CALIB_CTRL4'' 0x1b0 (Some 0x0), Register ''XO_CLK_TIMER_SLOW_CALIB_CTRL5'' 0x1b4 (Some
    0x0), Register ''XO_CLK_TIMER_SLOW_CALIB_CTRL6'' 0x1b8 (Some 0x0), Register
    ''XO_CLK_TIMER_SLOW_CALIB_CTRL7'' 0x1bc (Some 0x0), Register ''XO_CLK_TIMER_SLOW_CALIB_CTRL8'' 0x1c0 (Some
    0x0), Register ''XO_CLK_TIMER_ENABLE_SW_TRIM'' 0x1c4 (Some 0x0), Register ''XO_CLK_TIMER_SW_TRIM_COUNTER''
    0x1c8 (Some 0x0), Register ''XO_OSC_XTL_FREQ2X'' 0x1cc (Some 0x7), Register ''XO_OSC_XTL_FREQ2X_STAT'' 0x1d0
    (Some 0x6), Register ''XO_OSC_XTL_TRIMD'' 0x1d4 (Some 0x7f), Register ''XO_OSC_XTL_TRIMG'' 0x1d8 (Some
    0x7f), Register ''XO_OSC_XTL_CTRL'' 0x1dc (Some 0x0)]"

definition registers_5626 :: "register list" where
  "registers_5626 = [
    Register ''XO_OSC_XTL_RC_FLTR'' 0x1e0 (Some 0x15), Register ''XO_OSC_XTL_OVRD'' 0x1e4 (Some 0x17), Register
    ''XO_OSC_XTL_OVRD_HOLDB'' 0x1e8 (Some 0x1), Register ''XO_OSC_XTL_TRIM'' 0x1ec (Some 0x0), Register
    ''XO_OSC_XTL_TRIM_STAT'' 0x1f0 (Some 0x0), Register ''XO_OSC_XTL_FSM_EN'' 0x1f4 (Some 0x0), Register
    ''XO_OSC_XTL_FSM_RESETB'' 0x1f8 (Some 0x0), Register ''XO_OSC_XTL_FSM'' 0x1fc (Some 0x0), Register
    ''XO_OSC_XTL_FSM_CFG'' 0x200 (Some 0xd7488), Register ''XO_OSC_TEST'' 0x204 (Some 0x0), Register
    ''XO_TESTBUS_SEL'' 0x208 (Some 0x0), Register ''XO_CLK_JTR_TESTBUS_RD'' 0x20c (Some 0x0), Register
    ''XO_CLK_TIMER_TESTBUS_RD'' 0x210 (Some 0x0), Register ''XO_ANTEST_CTRL'' 0x214 (Some 0x0), Register
    ''XO_DXO_INT_ENABLE'' 0x218 (Some 0x0), Register ''XO_DXO_INT_STATE'' 0x21c (Some 0x0), Register
    ''XO_DXO_INT_TEST'' 0x220 (Some 0x0)]"

definition registers_5661 :: "register list" where
  "registers_5661 = [
    Register ''M3_ITM_STIM0'' 0x0 (Some 0x0), Register ''M3_ITM_STIM1'' 0x4 (Some 0x0), Register
    ''M3_ITM_STIM2'' 0x8 (Some 0x0), Register ''M3_ITM_STIM3'' 0xc (Some 0x0), Register ''M3_ITM_STIM4'' 0x10
    (Some 0x0), Register ''M3_ITM_STIM5'' 0x14 (Some 0x0), Register ''M3_ITM_STIM6'' 0x18 (Some 0x0), Register
    ''M3_ITM_STIM7'' 0x1c (Some 0x0), Register ''M3_ITM_STIM8'' 0x20 (Some 0x0), Register ''M3_ITM_STIM9'' 0x24
    (Some 0x0), Register ''M3_ITM_STIM10'' 0x28 (Some 0x0), Register ''M3_ITM_STIM11'' 0x2c (Some 0x0), Register
    ''M3_ITM_STIM12'' 0x30 (Some 0x0), Register ''M3_ITM_STIM13'' 0x34 (Some 0x0), Register ''M3_ITM_STIM14''
    0x38 (Some 0x0), Register ''M3_ITM_STIM15'' 0x3c (Some 0x0), Register ''M3_ITM_STIM16'' 0x40 (Some 0x0),
    Register ''M3_ITM_STIM17'' 0x44 (Some 0x0), Register ''M3_ITM_STIM18'' 0x48 (Some 0x0), Register
    ''M3_ITM_STIM19'' 0x4c (Some 0x0), Register ''M3_ITM_STIM20'' 0x50 (Some 0x0), Register ''M3_ITM_STIM21''
    0x54 (Some 0x0), Register ''M3_ITM_STIM22'' 0x58 (Some 0x0), Register ''M3_ITM_STIM23'' 0x5c (Some 0x0),
    Register ''M3_ITM_STIM24'' 0x60 (Some 0x0), Register ''M3_ITM_STIM25'' 0x64 (Some 0x0), Register
    ''M3_ITM_STIM26'' 0x68 (Some 0x0), Register ''M3_ITM_STIM27'' 0x6c (Some 0x0), Register ''M3_ITM_STIM28''
    0x70 (Some 0x0), Register ''M3_ITM_STIM29'' 0x74 (Some 0x0), Register ''M3_ITM_STIM30'' 0x78 (Some 0x0),
    Register ''M3_ITM_STIM31'' 0x7c (Some 0x0), Register ''M3_ITM_TER'' 0xe00 (Some 0x0), Register
    ''M3_ITM_TPR'' 0xe40 (Some 0x0), Register ''M3_ITM_TCR'' 0xe80 (Some 0x0), Register ''M3_ITM_INTWREG'' 0xef8
    (Some 0x0), Register ''M3_ITM_INTRREG'' 0xefc (Some 0x0), Register ''M3_ITM_INTMREG'' 0xf00 (Some 0x0),
    Register ''M3_ITM_LOCKCREG'' 0xfb0 (Some 0x0), Register ''M3_ITM_LOCKSREG'' 0xfb4 (Some 0x0)]"

definition registers_5741 :: "register list" where
  "registers_5741 = [
    Register ''M3_ITM_PID4'' 0xfd0 (Some 0x4), Register ''M3_ITM_PID5'' 0xfd4 (Some 0x0), Register
    ''M3_ITM_PID6'' 0xfd8 (Some 0x0), Register ''M3_ITM_PID7'' 0xfdc (Some 0x0), Register ''M3_ITM_PID0'' 0xfe0
    (Some 0x1), Register ''M3_ITM_PID1'' 0xfe4 (Some 0xb0), Register ''M3_ITM_PID2'' 0xfe8 (Some 0x1b), Register
    ''M3_ITM_PID3'' 0xfec (Some 0x0), Register ''M3_ITM_CID0'' 0xff0 (Some 0xd), Register ''M3_ITM_CID1'' 0xff4
    (Some 0xe0), Register ''M3_ITM_CID2'' 0xff8 (Some 0x5), Register ''M3_ITM_CID3'' 0xffc (Some 0xb1), Register
    ''M3_DWT_CTRL'' 0x1000 (Some 0x40000000), Register ''M3_DWT_CYCCNT'' 0x1004 (Some 0x0), Register
    ''M3_DWT_CPICNT'' 0x1008 (Some 0x0), Register ''M3_DWT_EXCCNT'' 0x100c (Some 0x0), Register
    ''M3_DWT_SLEEPCNT'' 0x1010 (Some 0x0), Register ''M3_DWT_LSUCNT'' 0x1014 (Some 0x0), Register
    ''M3_DWT_FOLDCNT'' 0x1018 (Some 0x0), Register ''M3_DWT_PCSR'' 0x101c (Some 0x0), Register ''M3_DWT_COMP0''
    0x1020 (Some 0x0), Register ''M3_DWT_MASK0'' 0x1024 (Some 0x0), Register ''M3_DWT_FUNCTION0'' 0x1028 (Some
    0x0), Register ''M3_DWT_COMP1'' 0x1030 (Some 0x0), Register ''M3_DWT_MASK1'' 0x1034 (Some 0x0), Register
    ''M3_DWT_FUNCTION1'' 0x1038 (Some 0x0), Register ''M3_DWT_COMP2'' 0x1040 (Some 0x0), Register
    ''M3_DWT_MASK2'' 0x1044 (Some 0x0), Register ''M3_DWT_FUNCTION2'' 0x1048 (Some 0x0), Register
    ''M3_DWT_COMP3'' 0x1050 (Some 0x0), Register ''M3_DWT_MASK3'' 0x1054 (Some 0x0), Register
    ''M3_DWT_FUNCTION3'' 0x1058 (Some 0x0), Register ''M3_DWT_PID4'' 0x1fd0 (Some 0x4), Register ''M3_DWT_PID5''
    0x1fd4 (Some 0x0), Register ''M3_DWT_PID6'' 0x1fd8 (Some 0x0), Register ''M3_DWT_PID7'' 0x1fdc (Some 0x0),
    Register ''M3_DWT_PID0'' 0x1fe0 (Some 0x2), Register ''M3_DWT_PID1'' 0x1fe4 (Some 0xb0), Register
    ''M3_DWT_PID2'' 0x1fe8 (Some 0x1b), Register ''M3_DWT_PID3'' 0x1fec (Some 0x0)]"

definition registers_5821 :: "register list" where
  "registers_5821 = [
    Register ''M3_DWT_CID0'' 0x1ff0 (Some 0xd), Register ''M3_DWT_CID1'' 0x1ff4 (Some 0xe0), Register
    ''M3_DWT_CID2'' 0x1ff8 (Some 0x5), Register ''M3_DWT_CID3'' 0x1ffc (Some 0xb1), Register ''M3_FP_CTRL''
    0x2000 (Some 0x260), Register ''M3_FP_REMAP'' 0x2004 (Some 0x0), Register ''M3_FP_COMP0'' 0x2008 (Some 0x0),
    Register ''M3_FP_COMP1'' 0x200c (Some 0x0), Register ''M3_FP_COMP2'' 0x2010 (Some 0x0), Register
    ''M3_FP_COMP3'' 0x2014 (Some 0x0), Register ''M3_FP_COMP4'' 0x2018 (Some 0x0), Register ''M3_FP_COMP5''
    0x201c (Some 0x0), Register ''M3_FP_COMP6'' 0x2020 (Some 0x0), Register ''M3_FP_COMP7'' 0x2024 (Some 0x0),
    Register ''M3_FP_PID4'' 0x2fd0 (Some 0x4), Register ''M3_FP_PID5'' 0x2fd4 (Some 0x0), Register
    ''M3_FP_PID6'' 0x2fd8 (Some 0x0), Register ''M3_FP_PID7'' 0x2fdc (Some 0x0), Register ''M3_FP_PID0'' 0x2fe0
    (Some 0x3), Register ''M3_FP_PID1'' 0x2fe4 (Some 0xb0), Register ''M3_FP_PID2'' 0x2fe8 (Some 0xb), Register
    ''M3_FP_PID3'' 0x2fec (Some 0x0), Register ''M3_FP_CID0'' 0x2ff0 (Some 0xd), Register ''M3_FP_CID1'' 0x2ff4
    (Some 0xe0), Register ''M3_FP_CID2'' 0x2ff8 (Some 0x5), Register ''M3_FP_CID3'' 0x2ffc (Some 0xb1), Register
    ''M3_ICTR'' 0xe004 (Some 0x7), Register ''M3_SYST_CSR'' 0xe010 (Some 0x4), Register ''M3_SYST_RVR'' 0xe014
    (Some 0x0), Register ''M3_SYST_CVR'' 0xe018 (Some 0x0), Register ''M3_SYST_CALIB'' 0xe01c (Some 0x3f79f),
    Register ''M3_NVIC_ISER0'' 0xe100 (Some 0x0), Register ''M3_NVIC_ISER1'' 0xe104 (Some 0x0), Register
    ''M3_NVIC_ISER2'' 0xe108 (Some 0x0), Register ''M3_NVIC_ISER3'' 0xe10c (Some 0x0), Register
    ''M3_NVIC_ISER4'' 0xe110 (Some 0x0), Register ''M3_NVIC_ISER5'' 0xe114 (Some 0x0), Register
    ''M3_NVIC_ISER6'' 0xe118 (Some 0x0), Register ''M3_NVIC_ISER7'' 0xe11c (Some 0x0), Register
    ''M3_NVIC_ICER0'' 0xe180 (Some 0x0)]"

definition registers_5901 :: "register list" where
  "registers_5901 = [
    Register ''M3_NVIC_ICER1'' 0xe184 (Some 0x0), Register ''M3_NVIC_ICER2'' 0xe188 (Some 0x0), Register
    ''M3_NVIC_ICER3'' 0xe18c (Some 0x0), Register ''M3_NVIC_ICER4'' 0xe190 (Some 0x0), Register
    ''M3_NVIC_ICER5'' 0xe194 (Some 0x0), Register ''M3_NVIC_ICER6'' 0xe198 (Some 0x0), Register
    ''M3_NVIC_ICER7'' 0xe19c (Some 0x0), Register ''M3_NVIC_ISPR0'' 0xe200 (Some 0x0), Register
    ''M3_NVIC_ISPR1'' 0xe204 (Some 0x0), Register ''M3_NVIC_ISPR2'' 0xe208 (Some 0x0), Register
    ''M3_NVIC_ISPR3'' 0xe20c (Some 0x0), Register ''M3_NVIC_ISPR4'' 0xe210 (Some 0x0), Register
    ''M3_NVIC_ISPR5'' 0xe214 (Some 0x0), Register ''M3_NVIC_ISPR6'' 0xe218 (Some 0x0), Register
    ''M3_NVIC_ISPR7'' 0xe21c (Some 0x0), Register ''M3_NVIC_ICPR0'' 0xe280 (Some 0x0), Register
    ''M3_NVIC_ICPR1'' 0xe284 (Some 0x0), Register ''M3_NVIC_ICPR2'' 0xe288 (Some 0x0), Register
    ''M3_NVIC_ICPR3'' 0xe28c (Some 0x0), Register ''M3_NVIC_ICPR4'' 0xe290 (Some 0x0), Register
    ''M3_NVIC_ICPR5'' 0xe294 (Some 0x0), Register ''M3_NVIC_ICPR6'' 0xe298 (Some 0x0), Register
    ''M3_NVIC_ICPR7'' 0xe29c (Some 0x0), Register ''M3_NVIC_IABR0'' 0xe300 (Some 0x0), Register
    ''M3_NVIC_IABR1'' 0xe304 (Some 0x0), Register ''M3_NVIC_IABR2'' 0xe308 (Some 0x0), Register
    ''M3_NVIC_IABR3'' 0xe30c (Some 0x0), Register ''M3_NVIC_IABR4'' 0xe310 (Some 0x0), Register
    ''M3_NVIC_IABR5'' 0xe314 (Some 0x0), Register ''M3_NVIC_IABR6'' 0xe318 (Some 0x0), Register
    ''M3_NVIC_IABR7'' 0xe31c (Some 0x0), Register ''M3_NVIC_IPR0'' 0xe400 (Some 0x0), Register ''M3_NVIC_IPR1''
    0xe404 (Some 0x0), Register ''M3_NVIC_IPR2'' 0xe408 (Some 0x0), Register ''M3_NVIC_IPR3'' 0xe40c (Some 0x0),
    Register ''M3_NVIC_IPR4'' 0xe410 (Some 0x0), Register ''M3_NVIC_IPR5'' 0xe414 (Some 0x0), Register
    ''M3_NVIC_IPR6'' 0xe418 (Some 0x0), Register ''M3_NVIC_IPR7'' 0xe41c (Some 0x0), Register ''M3_CPUID''
    0xed00 (Some 0x412fc231)]"

definition registers_5981 :: "register list" where
  "registers_5981 = [
    Register ''M3_ICSR'' 0xed04 (Some 0x0), Register ''M3_VTOR'' 0xed08 (Some 0x0), Register ''M3_AIRCR'' 0xed0c
    (Some 0x0), Register ''M3_SCR'' 0xed10 (Some 0x0), Register ''M3_CCR'' 0xed14 (Some 0x0), Register
    ''M3_SHPR1'' 0xed18 (Some 0x0), Register ''M3_SHPR2'' 0xed1c (Some 0x0), Register ''M3_SHPR3'' 0xed20 (Some
    0x0), Register ''M3_SHCSR'' 0xed24 (Some 0x0), Register ''M3_CFSR'' 0xed28 (Some 0x0), Register ''M3_HFSR''
    0xed2c (Some 0x0), Register ''M3_DFSR'' 0xed30 (Some 0x0), Register ''M3_MMFAR'' 0xed34 (Some 0x0), Register
    ''M3_BFAR'' 0xed38 (Some 0x0), Register ''M3_AFSR'' 0xed3c (Some 0x0), Register ''M3_MPU_TYPE'' 0xed90 (Some
    0x800), Register ''M3_MPU_CTRL'' 0xed94 (Some 0x0), Register ''M3_MPU_RNR'' 0xed98 (Some 0x0), Register
    ''M3_MPU_RBAR'' 0xed9c (Some 0x0), Register ''M3_MPU_RASR'' 0xeda0 (Some 0x0), Register ''M3_MPU_RBAR_A1''
    0xeda4 (Some 0x0), Register ''M3_MPU_RASR_A1'' 0xeda8 (Some 0x0), Register ''M3_MPU_RBAR_A2'' 0xedac (Some
    0x0), Register ''M3_MPU_RASR_A2'' 0xedb0 (Some 0x0), Register ''M3_MPU_RBAR_A3'' 0xedb4 (Some 0x0), Register
    ''M3_MPU_RASR_A3'' 0xedb8 (Some 0x0), Register ''M3_DHCSR'' 0xedf0 (Some 0x0), Register ''M3_DCRSR'' 0xedf4
    (Some 0x0), Register ''M3_DCRDR'' 0xedf8 (Some 0x0), Register ''M3_DEMCR'' 0xedfc (Some 0x0), Register
    ''M3_ITCMCR'' 0xef90 (Some 0x0), Register ''M3_TPIU_SSPSR'' 0x40000 (Some 0x0), Register ''M3_TPIU_CSPSR''
    0x40004 (Some 0x1), Register ''M3_TPIU_ACPR'' 0x40010 (Some 0x0), Register ''M3_TPIU_SPPR'' 0x400f0 (Some
    0x1), Register ''M3_TPIU_FFSR'' 0x40300 (Some 0x8), Register ''M3_TPIU_FFCR'' 0x40304 (Some 0x0), Register
    ''M3_TPIU_FSCR'' 0x40308 (Some 0x0), Register ''M3_TRIGGER'' 0x41ee8 (Some 0x0), Register ''M3_ITATBCTR2''
    0x41ef0 (Some 0x0)]"

definition registers_6061 :: "register list" where
  "registers_6061 = [
    Register ''M3_ITATBCTR0'' 0x41ef8 (Some 0x0), Register ''M3_ITCTRL'' 0x41f00 (Some 0x0), Register
    ''M3_CLAIMSET'' 0x41fa0 (Some 0x0), Register ''M3_CLAIMCLR'' 0x41fa4 (Some 0x0), Register ''M3_DEVID''
    0x41fc8 (Some 0xca0), Register ''M3_DEVTYPE'' 0x41fcc (Some 0x11), Register ''M3_HASHER_LOAD'' 0xaa008 (Some
    0x0), Register ''M3_HASHER_START'' 0xaa010 (Some 0x0), Register ''M3_HASHER_STOP'' 0xaa018 (Some 0x0),
    Register ''M3_HASHER_CHECK'' 0xaa020 (Some 0x0), Register ''M3_HASHER_VALUE'' 0xaa028 (Some 0x0)]"

definition regdefs_17226 :: "reg_field list" where
  "regdefs_17226 = [
    Field ''RDD_VERSION_CHANGE'' 0 0xffffff 24 0x11f09 0x0, Field ''RDD_VERSION_REVISION'' 24 0xff000000 8 0x24
    0x0, Field ''RDD_INT_ENABLE_INTR_DEBUG_STATE_DETECTED'' 0 0x1 1 0x0 0x4, Field
    ''RDD_INT_STATE_INTR_DEBUG_STATE_DETECTED'' 0 0x1 1 0x0 0x8, Field
    ''RDD_INT_TEST_INTR_DEBUG_STATE_DETECTED'' 0 0x1 1 0x0 0xc, Field ''RDD_ANTEST_EN'' 0 0x1 1 0x0 0x14, Field
    ''RDD_REF_ADJ_LVL0P2V'' 0 0x3 2 0x1 0x20, Field ''RDD_REF_ADJ_LVL0P4V'' 2 0xc 2 0x1 0x20, Field
    ''RDD_REF_ADJ_LVL2P0V'' 4 0x30 2 0x1 0x20, Field ''RDD_INPUT_PIN_VALUES_CC1'' 0 0x7 3 0x0 0x24, Field
    ''RDD_INPUT_PIN_VALUES_CC2'' 3 0x38 3 0x3 0x24, Field ''RDD_CUR_STABLE_STATE_DEBUG'' 0 0x1 1 0x0 0x2c, Field
    ''RDD_CUR_STABLE_STATE_INVALID'' 1 0x2 1 0x1 0x2c]"

definition regdefs_17291 :: "reg_field list" where
  "regdefs_17291 = [
    Field ''RTC_CTRL_X_RTC_RC_CTRL'' 0 0xff 8 0x0 0x0, Field ''RTC_PULSE_STRETCH_CNT'' 0 0xffff 16 0x0 0x8,
    Field ''RTC_PULSE_STRETCH_EN'' 16 0x10000 1 0x0 0x8, Field ''RTC_SW_TRIM_COUNTER_VALUE'' 0 0xffffff 24 0x0
    0x10, Field ''RTC_SW_TRIM_COUNTER_DONE'' 24 0x1000000 1 0x0 0x10]"

definition regdefs_17316 :: "reg_field list" where
  "regdefs_17316 = [
    Field ''SPI_CTRL_CPOL'' 0 0x1 1 0x0 0x0, Field ''SPI_CTRL_CPHA'' 1 0x2 1 0x0 0x0, Field ''SPI_CTRL_CSBSU'' 2
    0x3c 4 0x0 0x0, Field ''SPI_CTRL_CSBHLD'' 6 0x3c0 4 0x0 0x0, Field ''SPI_CTRL_IDIV'' 10 0x3ffc00 12 0x2 0x0,
    Field ''SPI_CTRL_CSBPOL'' 22 0x400000 1 0x0 0x0, Field ''SPI_CTRL_TXBITOR'' 23 0x800000 1 0x1 0x0, Field
    ''SPI_CTRL_TXBYTOR'' 24 0x1000000 1 0x0 0x0, Field ''SPI_CTRL_RXBITOR'' 25 0x2000000 1 0x1 0x0, Field
    ''SPI_CTRL_RXBYTOR'' 26 0x4000000 1 0x0 0x0, Field ''SPI_CTRL_ENPASSTHRU'' 27 0x8000000 1 0x0 0x0, Field
    ''SPI_XACT_START'' 0 0x1 1 0x0 0x4, Field ''SPI_XACT_BCNT'' 1 0xe 3 0x7 0x4, Field ''SPI_XACT_SIZE'' 4 0x7f0
    7 0x0 0x4, Field ''SPI_XACT_RDY_POLL'' 11 0x800 1 0x0 0x4, Field ''SPI_XACT_RDY_POLL_DLY'' 12 0x1f000 5 0x0
    0x4, Field ''SPI_ICTRL_TXDONE'' 0 0x1 1 0x0 0x8, Field ''SPI_ISTATE_TXDONE'' 0 0x1 1 0x0 0xc, Field
    ''SPI_ISTATE_CLR_TXDONE'' 0 0x1 1 0x0 0x10, Field ''SPI_OVRD_SCKEN'' 0 0x1 1 0x0 0x14, Field
    ''SPI_OVRD_SCKVAL'' 1 0x2 1 0x0 0x14, Field ''SPI_OVRD_CSBEN'' 2 0x4 1 0x0 0x14, Field ''SPI_OVRD_CSBVAL'' 3
    0x8 1 0x1 0x14, Field ''SPI_OVRD_MOSIEN'' 4 0x10 1 0x0 0x14, Field ''SPI_OVRD_MOSIVAL'' 5 0x20 1 0x0 0x14,
    Field ''SPI_VAL_MISO'' 0 0x1 1 0x0 0x18, Field ''SPI_VAL_MOSI'' 1 0x2 1 0x0 0x18, Field ''SPI_VAL_CSB'' 2
    0x4 1 0x0 0x18, Field ''SPI_VAL_SCK'' 3 0x8 1 0x0 0x18, Field ''SPI_ITOP_TXDONE'' 0 0x1 1 0x0 0xf04]"

definition regdefs_17466 :: "reg_field list" where
  "regdefs_17466 = [
    Field ''SPS_CTRL_MODE'' 0 0x3 2 0x1 0x0, Field ''SPS_CTRL_CPHA'' 2 0x4 1 0x0 0x0, Field ''SPS_CTRL_CPOL'' 3
    0x8 1 0x0 0x0, Field ''SPS_CTRL_IDLE_LVL'' 4 0x10 1 0x0 0x0, Field ''SPS_CTRL_TXBITOR'' 5 0x20 1 0x0 0x0,
    Field ''SPS_CTRL_RXBITOR'' 6 0x40 1 0x0 0x0, Field ''SPS_STATUS01_STATUS0L'' 0 0xff 8 0x0 0x8, Field
    ''SPS_STATUS01_STATUS0H'' 8 0xff00 8 0x0 0x8, Field ''SPS_STATUS01_STATUS1'' 16 0xffff0000 16 0x0 0x8, Field
    ''SPS_STATUS23_STATUS2'' 0 0xffff 16 0x0 0xc, Field ''SPS_STATUS23_STATUS3'' 16 0xffff0000 16 0x0 0xc, Field
    ''SPS_STATUS45_STATUS4'' 0 0xffff 16 0x0 0x10, Field ''SPS_STATUS45_STATUS5'' 16 0xffff0000 16 0x0 0x10,
    Field ''SPS_STATUS67_STATUS6'' 0 0xffff 16 0x0 0x14, Field ''SPS_STATUS67_STATUS7'' 16 0xffff0000 16 0x0
    0x14, Field ''SPS_CTRL01_CTRL0'' 0 0xffff 16 0x0 0x18, Field ''SPS_CTRL01_CTRL1'' 16 0xffff0000 16 0x0 0x18,
    Field ''SPS_CTRL23_CTRL2'' 0 0xffff 16 0x0 0x1c, Field ''SPS_CTRL23_CTRL3'' 16 0xffff0000 16 0x0 0x1c, Field
    ''SPS_CTRL45_CTRL4'' 0 0xffff 16 0x0 0x20, Field ''SPS_CTRL45_CTRL5'' 16 0xffff0000 16 0x0 0x20, Field
    ''SPS_CTRL67_CTRL6'' 0 0xffff 16 0x0 0x24, Field ''SPS_CTRL67_CTRL7'' 16 0xffff0000 16 0x0 0x24, Field
    ''SPS_FIFO_CTRL_TXFIFO_RST'' 0 0x1 1 0x0 0x28, Field ''SPS_FIFO_CTRL_TXFIFO_EN'' 1 0x2 1 0x0 0x28, Field
    ''SPS_FIFO_CTRL_TXFIFO_AUTO_DIS'' 2 0x4 1 0x0 0x28, Field ''SPS_FIFO_CTRL_RXFIFO_RST'' 3 0x8 1 0x0 0x28,
    Field ''SPS_FIFO_CTRL_RXFIFO_EN'' 4 0x10 1 0x0 0x28, Field ''SPS_FIFO_CTRL_RXFIFO_AUTO_DIS'' 5 0x20 1 0x0
    0x28]"

definition regdefs_17611 :: "reg_field list" where
  "regdefs_17611 = [
    Field ''SPS_OVRD_MISOEN'' 0 0x1 1 0x0 0x4c, Field ''SPS_OVRD_MISOVAL'' 1 0x2 1 0x0 0x4c, Field
    ''SPS_VAL_MISO'' 0 0x1 1 0x0 0x50, Field ''SPS_VAL_MOSI'' 1 0x2 1 0x0 0x50, Field ''SPS_VAL_CSB'' 2 0x4 1
    0x0 0x50, Field ''SPS_VAL_SCK'' 3 0x8 1 0x0 0x50, Field ''SPS_ISTATE_CTLWR0'' 0 0x1 1 0x0 0x54, Field
    ''SPS_ISTATE_CTLWR1'' 1 0x2 1 0x0 0x54, Field ''SPS_ISTATE_CTLWR2'' 2 0x4 1 0x0 0x54, Field
    ''SPS_ISTATE_CTLWR3'' 3 0x8 1 0x0 0x54, Field ''SPS_ISTATE_CTLWR4'' 4 0x10 1 0x0 0x54, Field
    ''SPS_ISTATE_CTLWR5'' 5 0x20 1 0x0 0x54, Field ''SPS_ISTATE_CTLWR6'' 6 0x40 1 0x0 0x54, Field
    ''SPS_ISTATE_CTLWR7'' 7 0x80 1 0x0 0x54, Field ''SPS_ISTATE_CS_ASSERT'' 8 0x100 1 0x0 0x54, Field
    ''SPS_ISTATE_CS_DEASSERT'' 9 0x200 1 0x0 0x54, Field ''SPS_ISTATE_RXFIFO_OVERFLOW'' 10 0x400 1 0x0 0x54,
    Field ''SPS_ISTATE_TXFIFO_EMPTY'' 11 0x800 1 0x0 0x54, Field ''SPS_ISTATE_TXFIFO_FULL'' 12 0x1000 1 0x0
    0x54, Field ''SPS_ISTATE_TXFIFO_LVL'' 13 0x2000 1 0x0 0x54, Field ''SPS_ISTATE_RXFIFO_LVL'' 14 0x4000 1 0x0
    0x54]"

definition regdefs_17716 :: "reg_field list" where
  "regdefs_17716 = [
    Field ''SPS_ISTATE_CLR_CTLWR0'' 0 0x1 1 0x0 0x58, Field ''SPS_ISTATE_CLR_CTLWR1'' 1 0x2 1 0x0 0x58, Field
    ''SPS_ISTATE_CLR_CTLWR2'' 2 0x4 1 0x0 0x58, Field ''SPS_ISTATE_CLR_CTLWR3'' 3 0x8 1 0x0 0x58, Field
    ''SPS_ISTATE_CLR_CTLWR4'' 4 0x10 1 0x0 0x58, Field ''SPS_ISTATE_CLR_CTLWR5'' 5 0x20 1 0x0 0x58, Field
    ''SPS_ISTATE_CLR_CTLWR6'' 6 0x40 1 0x0 0x58, Field ''SPS_ISTATE_CLR_CTLWR7'' 7 0x80 1 0x0 0x58, Field
    ''SPS_ISTATE_CLR_CS_ASSERT'' 8 0x100 1 0x0 0x58, Field ''SPS_ISTATE_CLR_CS_DEASSERT'' 9 0x200 1 0x0 0x58,
    Field ''SPS_ISTATE_CLR_RXFIFO_OVERFLOW'' 10 0x400 1 0x0 0x58, Field ''SPS_ITOP_CTRLINT0'' 0 0x1 1 0x0 0x60,
    Field ''SPS_ITOP_CTRLINT1'' 1 0x2 1 0x0 0x60, Field ''SPS_ITOP_CTRLINT2'' 2 0x4 1 0x0 0x60, Field
    ''SPS_ITOP_CTRLINT3'' 3 0x8 1 0x0 0x60, Field ''SPS_ITOP_CTRLINT4'' 4 0x10 1 0x0 0x60, Field
    ''SPS_ITOP_CTRLINT5'' 5 0x20 1 0x0 0x60, Field ''SPS_ITOP_CTRLINT6'' 6 0x40 1 0x0 0x60, Field
    ''SPS_ITOP_CTRLINT7'' 7 0x80 1 0x0 0x60, Field ''SPS_ITOP_CS_ASSERT'' 8 0x100 1 0x0 0x60, Field
    ''SPS_ITOP_CS_DEASSERT'' 9 0x200 1 0x0 0x60, Field ''SPS_ITOP_RXFIFO_OVERFLOW'' 10 0x400 1 0x0 0x60, Field
    ''SPS_ITOP_TXFIFO_EMPTY'' 11 0x800 1 0x0 0x60, Field ''SPS_ITOP_TXFIFO_FULL'' 12 0x1000 1 0x0 0x60, Field
    ''SPS_ITOP_TXFIFO_LVL'' 13 0x2000 1 0x0 0x60, Field ''SPS_ITOP_RXFIFO_LVL'' 14 0x4000 1 0x0 0x60]"

definition regdefs_17846 :: "reg_field list" where
  "regdefs_17846 = [
    Field ''SPS_ICTRL_CTLWR0'' 0 0x1 1 0x0 0x64, Field ''SPS_ICTRL_CTLWR1'' 1 0x2 1 0x0 0x64, Field
    ''SPS_ICTRL_CTLWR2'' 2 0x4 1 0x0 0x64, Field ''SPS_ICTRL_CTLWR3'' 3 0x8 1 0x0 0x64, Field
    ''SPS_ICTRL_CTLWR4'' 4 0x10 1 0x0 0x64, Field ''SPS_ICTRL_CTLWR5'' 5 0x20 1 0x0 0x64, Field
    ''SPS_ICTRL_CTLWR6'' 6 0x40 1 0x0 0x64, Field ''SPS_ICTRL_CTLWR7'' 7 0x80 1 0x0 0x64, Field
    ''SPS_ICTRL_CS_ASSERT'' 8 0x100 1 0x0 0x64, Field ''SPS_ICTRL_CS_DEASSERT'' 9 0x200 1 0x0 0x64, Field
    ''SPS_ICTRL_RXFIFO_OVERFLOW'' 10 0x400 1 0x0 0x64, Field ''SPS_ICTRL_TXFIFO_EMPTY'' 11 0x800 1 0x0 0x64,
    Field ''SPS_ICTRL_TXFIFO_FULL'' 12 0x1000 1 0x0 0x64, Field ''SPS_ICTRL_TXFIFO_LVL'' 13 0x2000 1 0x0 0x64,
    Field ''SPS_ICTRL_RXFIFO_LVL'' 14 0x4000 1 0x0 0x64, Field ''SPS_EEPROM_CTRL_ADDR_MODE'' 0 0x1 1 0x0 0x400,
    Field ''SPS_EEPROM_CTRL_PASSTHRU_DIS'' 1 0x2 1 0x0 0x400, Field ''SPS_EEPROM_CTRL_EXT_FLASH_DIS'' 2 0x4 1
    0x0 0x400, Field ''SPS_EEPROM_CTRL_INT_FLASH_DIS'' 3 0x8 1 0x0 0x400, Field ''SPS_EEPROM_CTRL_RAM_DIS'' 4
    0x10 1 0x0 0x400, Field ''SPS_EEPROM_CTRL_MAILBOX_EN'' 5 0x20 1 0x0 0x400, Field
    ''SPS_EEPROM_CTRL_FIFO_PREFETCH_LIMIT'' 6 0x3c0 4 0x2 0x400, Field ''SPS_EEPROM_CTRL_FAST_DUAL_RD_EN'' 10
    0x400 1 0x1 0x400, Field ''SPS_EEPROM_CTRL_VIRTUAL_ADDR_FILTER_EN'' 11 0x800 1 0x0 0x400, Field
    ''SPS_BUSY_OPCODE0_EN'' 0 0x1 1 0x0 0x40c, Field ''SPS_BUSY_OPCODE0_VALUE'' 1 0x1fe 8 0x0 0x40c, Field
    ''SPS_BUSY_OPCODE1_EN'' 0 0x1 1 0x0 0x410, Field ''SPS_BUSY_OPCODE1_VALUE'' 1 0x1fe 8 0x0 0x410, Field
    ''SPS_BUSY_OPCODE2_EN'' 0 0x1 1 0x0 0x414, Field ''SPS_BUSY_OPCODE2_VALUE'' 1 0x1fe 8 0x0 0x414]"

definition regdefs_17996 :: "reg_field list" where
  "regdefs_17996 = [
    Field ''SPS_BUSY_OPCODE3_EN'' 0 0x1 1 0x0 0x418, Field ''SPS_BUSY_OPCODE3_VALUE'' 1 0x1fe 8 0x0 0x418, Field
    ''SPS_BUSY_OPCODE4_EN'' 0 0x1 1 0x0 0x41c, Field ''SPS_BUSY_OPCODE4_VALUE'' 1 0x1fe 8 0x0 0x41c, Field
    ''SPS_BUSY_OPCODE5_EN'' 0 0x1 1 0x0 0x420, Field ''SPS_BUSY_OPCODE5_VALUE'' 1 0x1fe 8 0x0 0x420, Field
    ''SPS_BUSY_OPCODE6_EN'' 0 0x1 1 0x0 0x424, Field ''SPS_BUSY_OPCODE6_VALUE'' 1 0x1fe 8 0x0 0x424, Field
    ''SPS_BUSY_OPCODE7_EN'' 0 0x1 1 0x0 0x428, Field ''SPS_BUSY_OPCODE7_VALUE'' 1 0x1fe 8 0x0 0x428, Field
    ''SPS_RAM_CTRL_PAGE0_WRAP_MODE'' 0 0x1 1 0x0 0x4dc, Field ''SPS_RAM_CTRL_PAGE0_INT_LVL'' 1 0x3fe 9 0x0
    0x4dc, Field ''SPS_RAM_CTRL_PAGE1_WRAP_MODE'' 0 0x1 1 0x0 0x4e0, Field ''SPS_RAM_CTRL_PAGE1_INT_LVL'' 1
    0x3fe 9 0x0 0x4e0, Field ''SPS_RAM_CTRL_PAGE2_WRAP_MODE'' 0 0x1 1 0x0 0x4e4, Field
    ''SPS_RAM_CTRL_PAGE2_INT_LVL'' 1 0x3fe 9 0x0 0x4e4, Field ''SPS_RAM_CTRL_PAGE3_WRAP_MODE'' 0 0x1 1 0x0
    0x4e8, Field ''SPS_RAM_CTRL_PAGE3_INT_LVL'' 1 0x3fe 9 0x0 0x4e8, Field
    ''SPS_EEPROM_INT_ENABLE_INTR_CMD_ADDR_FIFO_NOT_EMPTY'' 0 0x1 1 0x0 0x578, Field
    ''SPS_EEPROM_INT_ENABLE_INTR_CMD_ADDR_FIFO_OVFL'' 1 0x2 1 0x0 0x578, Field
    ''SPS_EEPROM_INT_ENABLE_INTR_CMD_MEM_OVFL'' 2 0x4 1 0x0 0x578, Field
    ''SPS_EEPROM_INT_ENABLE_INTR_RAM_PAGE0_LVL'' 3 0x8 1 0x0 0x578, Field
    ''SPS_EEPROM_INT_ENABLE_INTR_RAM_PAGE1_LVL'' 4 0x10 1 0x0 0x578, Field
    ''SPS_EEPROM_INT_ENABLE_INTR_RAM_PAGE2_LVL'' 5 0x20 1 0x0 0x578, Field
    ''SPS_EEPROM_INT_ENABLE_INTR_RAM_PAGE3_LVL'' 6 0x40 1 0x0 0x578]"

definition regdefs_18121 :: "reg_field list" where
  "regdefs_18121 = [
    Field ''SPS_EEPROM_INT_STATE_INTR_CMD_ADDR_FIFO_NOT_EMPTY'' 0 0x1 1 0x0 0x57c, Field
    ''SPS_EEPROM_INT_STATE_INTR_CMD_ADDR_FIFO_OVFL'' 1 0x2 1 0x0 0x57c, Field
    ''SPS_EEPROM_INT_STATE_INTR_CMD_MEM_OVFL'' 2 0x4 1 0x0 0x57c, Field
    ''SPS_EEPROM_INT_STATE_INTR_RAM_PAGE0_LVL'' 3 0x8 1 0x0 0x57c, Field
    ''SPS_EEPROM_INT_STATE_INTR_RAM_PAGE1_LVL'' 4 0x10 1 0x0 0x57c, Field
    ''SPS_EEPROM_INT_STATE_INTR_RAM_PAGE2_LVL'' 5 0x20 1 0x0 0x57c, Field
    ''SPS_EEPROM_INT_STATE_INTR_RAM_PAGE3_LVL'' 6 0x40 1 0x0 0x57c, Field
    ''SPS_EEPROM_INT_TEST_INTR_CMD_ADDR_FIFO_NOT_EMPTY'' 0 0x1 1 0x0 0x580, Field
    ''SPS_EEPROM_INT_TEST_INTR_CMD_ADDR_FIFO_OVFL'' 1 0x2 1 0x0 0x580, Field
    ''SPS_EEPROM_INT_TEST_INTR_CMD_MEM_OVFL'' 2 0x4 1 0x0 0x580, Field
    ''SPS_EEPROM_INT_TEST_INTR_RAM_PAGE0_LVL'' 3 0x8 1 0x0 0x580, Field
    ''SPS_EEPROM_INT_TEST_INTR_RAM_PAGE1_LVL'' 4 0x10 1 0x0 0x580, Field
    ''SPS_EEPROM_INT_TEST_INTR_RAM_PAGE2_LVL'' 5 0x20 1 0x0 0x580, Field
    ''SPS_EEPROM_INT_TEST_INTR_RAM_PAGE3_LVL'' 6 0x40 1 0x0 0x580]"

definition regdefs_18191 :: "reg_field list" where
  "regdefs_18191 = [
    Field ''SWDP_TEST_PORT_DISABLE_SWD'' 0 0x1 1 0x0 0x38, Field ''SWDP_TEST_PORT_DISABLE_TAP'' 1 0x2 1 0x0 0x38]"

definition regdefs_18201 :: "reg_field list" where
  "regdefs_18201 = [
    Field ''TEMP_VERSION_CHANGE'' 0 0xffffff 24 0x14125 0x0, Field ''TEMP_VERSION_REVISION'' 24 0xff000000 8 0x1
    0x0, Field ''TEMP_ADC_INT_ENABLE_ADC_ICLKDV'' 0 0x1 1 0x0 0x4, Field ''TEMP_ADC_INT_ENABLE_COMP_OVERFLOW'' 1
    0x2 1 0x0 0x4, Field ''TEMP_ADC_INT_STATE_ADC_ICLKDV'' 0 0x1 1 0x0 0x8, Field
    ''TEMP_ADC_INT_STATE_COMP_OVERFLOW'' 1 0x2 1 0x0 0x8, Field ''TEMP_ADC_INT_TEST_ADC_ICLKDV'' 0 0x1 1 0x0
    0xc, Field ''TEMP_ADC_INT_TEST_COMP_OVERFLOW'' 1 0x2 1 0x0 0xc, Field ''TEMP_ADC_ANALOG_CTRL_REFERENCE'' 0
    0x7 3 0x5 0x14, Field ''TEMP_ADC_ANALOG_CTRL_COMMON_MODE'' 4 0x70 3 0x3 0x14, Field
    ''TEMP_ADC_FSM_CTRL_SYNC_IQ'' 0 0x1 1 0x0 0x18, Field ''TEMP_ADC_FSM_CTRL_ONESHOT_MODE'' 1 0x2 1 0x0 0x18,
    Field ''TEMP_ADC_FSM_CTRL_SINGLE_MODE'' 2 0x4 1 0x1 0x18, Field ''TEMP_ADC_FSM_CTRL_SINGLE_SIDE'' 3 0x8 1
    0x0 0x18, Field ''TEMP_ADC_FSM_CTRL_MUX_CTRL'' 4 0x70 3 0x6 0x18, Field ''TEMP_ADC_FSM_CTRL_SMPL_DUR_FINE''
    7 0x780 4 0x0 0x18, Field ''TEMP_ADC_FSM_CTRL_SMPL_DUR_COARSE'' 11 0x7800 4 0x1 0x18, Field
    ''TEMP_ADC_FSM_CTRL_CHOP_REFBUF_AMP'' 15 0x8000 1 0x1 0x18, Field ''TEMP_ADC_FSM_CTRL_CHOP_CURRENT_MIRROR''
    16 0x10000 1 0x1 0x18, Field ''TEMP_ADC_FSM_CTRL_CHOP_FEEDBACK_AMP'' 17 0x20000 1 0x1 0x18, Field
    ''TEMP_ADC_OPERATION_RESET_B'' 0 0x1 1 0x0 0x28, Field ''TEMP_ADC_OPERATION_ENABLE'' 1 0x2 1 0x0 0x28, Field
    ''TEMP_ADC_CONFIG_SAMPLE_SELECT'' 0 0x3 2 0x0 0x40, Field ''TEMP_ABS_LIMIT_MIN'' 0 0xfff 12 0x0 0x44, Field
    ''TEMP_ABS_LIMIT_MAX'' 12 0xfff000 12 0x0 0x44, Field ''TEMP_DIFF_PARAM_MAX'' 0 0xfff 12 0x0 0x48, Field
    ''TEMP_DIFF_PARAM_PERIOD'' 12 0xfffff000 20 0x0 0x48, Field ''TEMP_METRIC_DIFF'' 0 0xfff 12 0x0 0x4c, Field
    ''TEMP_METRIC_CTR'' 12 0xfffff000 20 0x0 0x4c]"

definition regdefs_18371 :: "reg_field list" where
  "regdefs_18371 = [
    Field ''TEMP_ANTEST_EN_INPUTS'' 0 0x1 1 0x0 0x54, Field ''TEMP_ANTEST_EN_REF'' 1 0x2 1 0x0 0x54, Field
    ''TEMP_ANTEST_EN_VPTAT'' 2 0x4 1 0x0 0x54, Field ''TEMP_ANTEST_EN_CM'' 3 0x8 1 0x0 0x54]"

definition regdefs_18391 :: "reg_field list" where
  "regdefs_18391 = [
    Field ''TIMEHS_TIMER1CONTROL_ONESHOT'' 0 0x1 1 0x0 0x8, Field ''TIMEHS_TIMER1CONTROL_SIZE'' 1 0x2 1 0x0 0x8,
    Field ''TIMEHS_TIMER1CONTROL_PRE'' 2 0xc 2 0x0 0x8, Field ''TIMEHS_TIMER1CONTROL_RESERVED'' 4 0x10 1 0x0
    0x8, Field ''TIMEHS_TIMER1CONTROL_INTENABLE'' 5 0x20 1 0x1 0x8, Field ''TIMEHS_TIMER1CONTROL_MODE'' 6 0x40 1
    0x0 0x8, Field ''TIMEHS_TIMER1CONTROL_ENABLE'' 7 0x80 1 0x0 0x8, Field ''TIMEHS_TIMER2CONTROL_ONESHOT'' 0
    0x1 1 0x0 0x28, Field ''TIMEHS_TIMER2CONTROL_SIZE'' 1 0x2 1 0x0 0x28, Field ''TIMEHS_TIMER2CONTROL_PRE'' 2
    0xc 2 0x0 0x28, Field ''TIMEHS_TIMER2CONTROL_RESERVED'' 4 0x10 1 0x0 0x28, Field
    ''TIMEHS_TIMER2CONTROL_INTENABLE'' 5 0x20 1 0x1 0x28, Field ''TIMEHS_TIMER2CONTROL_MODE'' 6 0x40 1 0x0 0x28,
    Field ''TIMEHS_TIMER2CONTROL_ENABLE'' 7 0x80 1 0x0 0x28, Field ''TIMEHS_TIMERITOP_TIMINT1'' 0 0x1 1 0x0
    0xf04, Field ''TIMEHS_TIMERITOP_TIMINT2'' 1 0x2 1 0x0 0xf04]"

definition regdefs_18471 :: "reg_field list" where
  "regdefs_18471 = [
    Field ''TIMELS_TIMER0_CONTROL_ENABLE'' 0 0x1 1 0x0 0x0, Field ''TIMELS_TIMER0_CONTROL_RELOAD'' 1 0x2 1 0x0
    0x0, Field ''TIMELS_TIMER0_CONTROL_WRAP'' 2 0x4 1 0x0 0x0, Field ''TIMELS_TIMER0_CONTROL_TEST'' 3 0x8 1 0x0
    0x0, Field ''TIMELS_TIMER0_STATUS_SYNCING_LOAD'' 0 0x1 1 0x0 0x4, Field
    ''TIMELS_TIMER0_STATUS_WAITING_LOAD'' 1 0x2 1 0x0 0x4, Field ''TIMELS_TIMER0_STATUS_PENDING_LOAD'' 2 0x4 1
    0x0 0x4, Field ''TIMELS_TIMER0_STATUS_SYNCING_RELOAD'' 3 0x8 1 0x0 0x4, Field
    ''TIMELS_TIMER0_STATUS_WAITING_RELOAD'' 4 0x10 1 0x0 0x4, Field ''TIMELS_TIMER0_STATUS_PENDING_RELOAD'' 5
    0x20 1 0x0 0x4, Field ''TIMELS_TIMER0_STATUS_WRAPPED'' 6 0x40 1 0x0 0x4, Field
    ''TIMELS_TIMER1_CONTROL_ENABLE'' 0 0x1 1 0x0 0x40, Field ''TIMELS_TIMER1_CONTROL_RELOAD'' 1 0x2 1 0x0 0x40,
    Field ''TIMELS_TIMER1_CONTROL_WRAP'' 2 0x4 1 0x0 0x40, Field ''TIMELS_TIMER1_CONTROL_TEST'' 3 0x8 1 0x0
    0x40, Field ''TIMELS_TIMER1_STATUS_SYNCING_LOAD'' 0 0x1 1 0x0 0x44, Field
    ''TIMELS_TIMER1_STATUS_WAITING_LOAD'' 1 0x2 1 0x0 0x44, Field ''TIMELS_TIMER1_STATUS_PENDING_LOAD'' 2 0x4 1
    0x0 0x44, Field ''TIMELS_TIMER1_STATUS_SYNCING_RELOAD'' 3 0x8 1 0x0 0x44, Field
    ''TIMELS_TIMER1_STATUS_WAITING_RELOAD'' 4 0x10 1 0x0 0x44, Field ''TIMELS_TIMER1_STATUS_PENDING_RELOAD'' 5
    0x20 1 0x0 0x44, Field ''TIMELS_TIMER1_STATUS_WRAPPED'' 6 0x40 1 0x0 0x44, Field ''TIMELS_ITOP_TIMINT0'' 0
    0x1 1 0x0 0xf04, Field ''TIMELS_ITOP_TIMINT1'' 1 0x2 1 0x0 0xf04]"

definition regdefs_18591 :: "reg_field list" where
  "regdefs_18591 = [
    Field ''TIMEUS_VERSION_CHANGE'' 0 0xffffff 24 0x1424a 0x0, Field ''TIMEUS_VERSION_REVISION'' 24 0xff000000 8
    0x1 0x0, Field ''TIMEUS_INT_ENABLE_INTR_PROG_COUNT_HIT0'' 0 0x1 1 0x0 0x4, Field
    ''TIMEUS_INT_ENABLE_INTR_MAX_COUNT_HIT0'' 1 0x2 1 0x0 0x4, Field ''TIMEUS_INT_ENABLE_INTR_PROG_COUNT_HIT1''
    2 0x4 1 0x0 0x4, Field ''TIMEUS_INT_ENABLE_INTR_MAX_COUNT_HIT1'' 3 0x8 1 0x0 0x4, Field
    ''TIMEUS_INT_ENABLE_INTR_PROG_COUNT_HIT2'' 4 0x10 1 0x0 0x4, Field ''TIMEUS_INT_ENABLE_INTR_MAX_COUNT_HIT2''
    5 0x20 1 0x0 0x4, Field ''TIMEUS_INT_ENABLE_INTR_PROG_COUNT_HIT3'' 6 0x40 1 0x0 0x4, Field
    ''TIMEUS_INT_ENABLE_INTR_MAX_COUNT_HIT3'' 7 0x80 1 0x0 0x4, Field ''TIMEUS_INT_STATE_INTR_PROG_COUNT_HIT0''
    0 0x1 1 0x0 0x8, Field ''TIMEUS_INT_STATE_INTR_MAX_COUNT_HIT0'' 1 0x2 1 0x0 0x8, Field
    ''TIMEUS_INT_STATE_INTR_PROG_COUNT_HIT1'' 2 0x4 1 0x0 0x8, Field ''TIMEUS_INT_STATE_INTR_MAX_COUNT_HIT1'' 3
    0x8 1 0x0 0x8, Field ''TIMEUS_INT_STATE_INTR_PROG_COUNT_HIT2'' 4 0x10 1 0x0 0x8, Field
    ''TIMEUS_INT_STATE_INTR_MAX_COUNT_HIT2'' 5 0x20 1 0x0 0x8, Field ''TIMEUS_INT_STATE_INTR_PROG_COUNT_HIT3'' 6
    0x40 1 0x0 0x8, Field ''TIMEUS_INT_STATE_INTR_MAX_COUNT_HIT3'' 7 0x80 1 0x0 0x8, Field
    ''TIMEUS_INT_TEST_INTR_PROG_COUNT_HIT0'' 0 0x1 1 0x0 0xc, Field ''TIMEUS_INT_TEST_INTR_MAX_COUNT_HIT0'' 1
    0x2 1 0x0 0xc, Field ''TIMEUS_INT_TEST_INTR_PROG_COUNT_HIT1'' 2 0x4 1 0x0 0xc, Field
    ''TIMEUS_INT_TEST_INTR_MAX_COUNT_HIT1'' 3 0x8 1 0x0 0xc, Field ''TIMEUS_INT_TEST_INTR_PROG_COUNT_HIT2'' 4
    0x10 1 0x0 0xc, Field ''TIMEUS_INT_TEST_INTR_MAX_COUNT_HIT2'' 5 0x20 1 0x0 0xc, Field
    ''TIMEUS_INT_TEST_INTR_PROG_COUNT_HIT3'' 6 0x40 1 0x0 0xc, Field ''TIMEUS_INT_TEST_INTR_MAX_COUNT_HIT3'' 7
    0x80 1 0x0 0xc]"

definition regdefs_18721 :: "reg_field list" where
  "regdefs_18721 = [
    Field ''TRNG_VERSION_CHANGE'' 0 0xffffff 24 0x14125 0x0, Field ''TRNG_VERSION_REVISION'' 24 0xff000000 8 0x1
    0x0, Field ''TRNG_INT_ENABLE_INTR_BUFFER_FULL'' 0 0x1 1 0x0 0x4, Field
    ''TRNG_INT_ENABLE_INTR_ONE_SHOT_DONE'' 1 0x2 1 0x0 0x4, Field ''TRNG_INT_ENABLE_INTR_READ_EMPTY'' 2 0x4 1
    0x0 0x4, Field ''TRNG_INT_STATE_INTR_BUFFER_FULL'' 0 0x1 1 0x0 0x8, Field
    ''TRNG_INT_STATE_INTR_ONE_SHOT_DONE'' 1 0x2 1 0x0 0x8, Field ''TRNG_INT_STATE_INTR_READ_EMPTY'' 2 0x4 1 0x0
    0x8, Field ''TRNG_INT_TEST_INTR_BUFFER_FULL'' 0 0x1 1 0x0 0xc, Field ''TRNG_INT_TEST_INTR_ONE_SHOT_DONE'' 1
    0x2 1 0x0 0xc, Field ''TRNG_INT_TEST_INTR_READ_EMPTY'' 2 0x4 1 0x0 0xc, Field
    ''TRNG_SECURE_POST_PROCESSING_CTRL_REJECT_EXTREME_VALUES'' 0 0x1 1 0x1 0x10, Field
    ''TRNG_POST_PROCESSING_CTRL_XOR_SLICE_LIMIT'' 0 0x1 1 0x1 0x14, Field
    ''TRNG_POST_PROCESSING_CTRL_SHUFFLE_BITS'' 1 0x2 1 0x1 0x14, Field ''TRNG_POST_PROCESSING_CTRL_VON_NEUMANN''
    2 0x4 1 0x1 0x14, Field ''TRNG_POST_PROCESSING_CTRL_CHURN_MODE'' 3 0x8 1 0x1 0x14, Field
    ''TRNG_FSM_STATE_FSM_IDLE'' 0 0x1 1 0x1 0x2c, Field ''TRNG_FSM_STATE_FSM_PRECHARGE'' 1 0x2 1 0x0 0x2c, Field
    ''TRNG_FSM_STATE_FSM_WAIT'' 2 0x4 1 0x0 0x2c, Field ''TRNG_FSM_STATE_FSM_TIMEOUT'' 3 0x8 1 0x0 0x2c, Field
    ''TRNG_FSM_STATE_FSM_CAPTURE'' 4 0x10 1 0x0 0x2c, Field ''TRNG_FSM_STATE_FSM_FULL'' 5 0x20 1 0x0 0x2c, Field
    ''TRNG_ALLOWED_VALUES_MIN'' 0 0x7 3 0x1 0x30, Field ''TRNG_ALLOWED_VALUES_MAX'' 3 0x38 3 0x4 0x30, Field
    ''TRNG_ANTEST_VLDO_EN'' 0 0x1 1 0x0 0x54, Field ''TRNG_ANALOG_SEN_LSR_INPUT_DIG_IN'' 0 0x1 1 0x1 0x58, Field
    ''TRNG_ANALOG_SEN_LSR_INPUT_ENB'' 1 0x2 1 0x1 0x58, Field ''TRNG_ANALOG_SEN_LSR_INPUT_PWR_RDY'' 2 0x4 1 0x0
    0x58, Field ''TRNG_ANALOG_SEN_LSR_INPUT_PWR_SW_ENB'' 3 0x8 1 0x1 0x58, Field
    ''TRNG_ANALOG_SEN_LSR_INPUT_RST'' 4 0x10 1 0x0 0x58]"

definition regdefs_18871 :: "reg_field list" where
  "regdefs_18871 = [
    Field ''TRNG_ANALOG_SEN_LSR_OUTPUT_OUT'' 0 0x1 1 0x0 0x5c, Field ''TRNG_ANALOG_TEST_DIV_EN'' 0 0x1 1 0x0
    0x60, Field ''TRNG_ANALOG_TEST_RO_CALIBRATION_MODE'' 1 0x2 1 0x0 0x60, Field ''TRNG_ANALOG_CTRL_EN_RO_LONG''
    0 0x1 1 0x0 0x64, Field ''TRNG_ANALOG_CTRL_RO_REF_SHORT_BYP_DIVB'' 1 0x2 1 0x0 0x64, Field
    ''TRNG_ANALOG_CTRL_BLD_RES_CTRL'' 2 0xc 2 0x0 0x64]"

definition regdefs_18901 :: "reg_field list" where
  "regdefs_18901 = [
    Field ''UART_CTRL_TX'' 0 0x1 1 0x0 0xc, Field ''UART_CTRL_RX'' 1 0x2 1 0x0 0xc, Field ''UART_CTRL_CTS'' 2
    0x4 1 0x0 0xc, Field ''UART_CTRL_RTS'' 3 0x8 1 0x0 0xc, Field ''UART_CTRL_SLPBK'' 4 0x10 1 0x0 0xc, Field
    ''UART_CTRL_LLPBK'' 5 0x20 1 0x0 0xc, Field ''UART_CTRL_RCOS'' 6 0x40 1 0x0 0xc, Field ''UART_CTRL_NF'' 7
    0x80 1 0x0 0xc, Field ''UART_ICTRL_TX'' 0 0x1 1 0x0 0x10, Field ''UART_ICTRL_RX'' 1 0x2 1 0x0 0x10, Field
    ''UART_ICTRL_TXO'' 2 0x4 1 0x0 0x10, Field ''UART_ICTRL_RXO'' 3 0x8 1 0x0 0x10, Field ''UART_ICTRL_RXF'' 4
    0x10 1 0x0 0x10, Field ''UART_ICTRL_RXB'' 5 0x20 1 0x0 0x10, Field ''UART_ICTRL_RXBLVL'' 6 0xc0 2 0x0 0x10,
    Field ''UART_ICTRL_RXTO'' 8 0x100 1 0x0 0x10, Field ''UART_STATE_TX'' 0 0x1 1 0x0 0x14, Field
    ''UART_STATE_RX'' 1 0x2 1 0x0 0x14, Field ''UART_STATE_TXO'' 2 0x4 1 0x0 0x14, Field ''UART_STATE_RXO'' 3
    0x8 1 0x0 0x14, Field ''UART_STATE_TXEMPTY'' 4 0x10 1 0x1 0x14, Field ''UART_STATE_TXIDLE'' 5 0x20 1 0x0
    0x14, Field ''UART_STATE_RXIDLE'' 6 0x40 1 0x0 0x14, Field ''UART_STATE_RXEMPTY'' 7 0x80 1 0x1 0x14, Field
    ''UART_STATECLR_RES0'' 0 0x1 1 0x0 0x18, Field ''UART_STATECLR_RES1'' 1 0x2 1 0x0 0x18, Field
    ''UART_STATECLR_TXO'' 2 0x4 1 0x0 0x18, Field ''UART_STATECLR_RXO'' 3 0x8 1 0x0 0x18]"

definition regdefs_19041 :: "reg_field list" where
  "regdefs_19041 = [
    Field ''UART_ISTATE_TX'' 0 0x1 1 0x0 0x1c, Field ''UART_ISTATE_RX'' 1 0x2 1 0x0 0x1c, Field
    ''UART_ISTATE_TXO'' 2 0x4 1 0x0 0x1c, Field ''UART_ISTATE_RXO'' 3 0x8 1 0x0 0x1c, Field ''UART_ISTATE_RXF''
    4 0x10 1 0x0 0x1c, Field ''UART_ISTATE_RXB'' 5 0x20 1 0x0 0x1c, Field ''UART_ISTATE_RXTO'' 6 0x40 1 0x0
    0x1c, Field ''UART_ISTATECLR_TX'' 0 0x1 1 0x0 0x20, Field ''UART_ISTATECLR_RX'' 1 0x2 1 0x0 0x20, Field
    ''UART_ISTATECLR_TXO'' 2 0x4 1 0x0 0x20, Field ''UART_ISTATECLR_RXO'' 3 0x8 1 0x0 0x20, Field
    ''UART_ISTATECLR_RXF'' 4 0x10 1 0x0 0x20, Field ''UART_ISTATECLR_RXB'' 5 0x20 1 0x0 0x20, Field
    ''UART_ISTATECLR_RXTO'' 6 0x40 1 0x0 0x20, Field ''UART_FIFO_RXRST'' 0 0x1 1 0x0 0x24, Field
    ''UART_FIFO_TXRST'' 1 0x2 1 0x0 0x24, Field ''UART_FIFO_RXILVL'' 2 0x1c 3 0x0 0x24, Field
    ''UART_FIFO_TXILVL'' 5 0x60 2 0x0 0x24, Field ''UART_RFIFO_TXLVL'' 0 0x3f 6 0x0 0x28, Field
    ''UART_RFIFO_RXLVL'' 6 0xfc0 6 0x0 0x28, Field ''UART_OVRD_TXEN'' 0 0x1 1 0x0 0x2c, Field
    ''UART_OVRD_TXVAL'' 1 0x2 1 0x0 0x2c, Field ''UART_OVRD_RTSEN'' 2 0x4 1 0x0 0x2c, Field ''UART_OVRD_RTSVAL''
    3 0x8 1 0x0 0x2c, Field ''UART_VAL_RX'' 0 0xffff 16 0x0 0x30, Field ''UART_VAL_CTS'' 16 0xffff0000 16 0x0
    0x30, Field ''UART_RXTO_EN'' 0 0x1 1 0x0 0x34, Field ''UART_RXTO_VAL'' 1 0x1fffffe 24 0x0 0x34]"

definition regdefs_19181 :: "reg_field list" where
  "regdefs_19181 = [
    Field ''UART_ITOP_TX'' 0 0x1 1 0x0 0xf04, Field ''UART_ITOP_RX'' 1 0x2 1 0x0 0xf04, Field ''UART_ITOP_TXO''
    2 0x4 1 0x0 0xf04, Field ''UART_ITOP_RXO'' 3 0x8 1 0x0 0xf04, Field ''UART_ITOP_RXF'' 4 0x10 1 0x0 0xf04,
    Field ''UART_ITOP_RXB'' 5 0x20 1 0x0 0xf04, Field ''UART_ITOP_RXTO'' 6 0x40 1 0x0 0xf04]"

definition regdefs_25951 :: "reg_field list" where
  "regdefs_25951 = [
    Field ''VOLT_VERSION_CHANGE'' 0 0xffffff 24 0x14125 0x0, Field ''VOLT_VERSION_REVISION'' 24 0xff000000 8 0x1
    0x0, Field ''VOLT_ANALOG_CONTROL_VSEN_RSTB'' 0 0x1 1 0x0 0x8, Field
    ''VOLT_ANALOG_CONTROL_SEL_VSEN_INPUTDC_NEG'' 1 0x3e 5 0xb 0x8, Field
    ''VOLT_ANALOG_CONTROL_SEL_VSEN_INPUTDC_POS'' 6 0x1c0 3 0x4 0x8, Field
    ''VOLT_ANALOG_CONTROL_SEL_VSEN_TH_NEG'' 9 0xe00 3 0x4 0x8, Field ''VOLT_ANALOG_CONTROL_SEL_VSEN_TH_POS'' 12
    0x1f000 5 0xb 0x8, Field ''VOLT_CONFIG_SERIAL_TEST_EN'' 0 0x1 1 0x0 0xc]"

definition regdefs_25991 :: "reg_field list" where
  "regdefs_25991 = [
    Field ''WATCHDOG_WDOGCONTROL_INTEN'' 0 0x1 1 0x0 0x8, Field ''WATCHDOG_WDOGCONTROL_RESEN'' 1 0x2 1 0x0 0x8,
    Field ''WATCHDOG_WDOGITOP_WDOGRES'' 0 0x1 1 0x0 0xf04, Field ''WATCHDOG_WDOGITOP_WDOGINT'' 1 0x2 1 0x0 0xf04]"

definition regdefs_26011 :: "reg_field list" where
  "regdefs_26011 = [
    Field ''XO_VERSION_CHANGE'' 0 0xffffff 24 0x1424a 0x0, Field ''XO_VERSION_REVISION'' 24 0xff000000 8 0x1
    0x0, Field ''XO_CLK_JTR_CTRL_HS_SEL'' 0 0x1 1 0x1 0xc, Field ''XO_CLK_JTR_CTRL_SEL'' 1 0x2 1 0x1 0xc, Field
    ''XO_CLK_JTR_CURRENT_COARSE_TRIM'' 0 0xff 8 0x0 0x18, Field ''XO_CLK_JTR_CURRENT_FINE_TRIM'' 8 0xff00 8 0x0
    0x18, Field ''XO_CLK_JTR_TRIM_CTRL_RC_TRIM_EN'' 0 0x1 1 0x0 0x20, Field
    ''XO_CLK_JTR_TRIM_CTRL_RC_INITIAL_TRIM_PERIOD'' 1 0x1fe 8 0xf 0x20, Field
    ''XO_CLK_JTR_TRIM_CTRL_RC_FINE_TRIM_SRC'' 9 0x200 1 0x0 0x20, Field
    ''XO_CLK_JTR_TRIM_CTRL_RC_COARSE_TRIM_SRC'' 10 0xc00 2 0x0 0x20, Field
    ''XO_CLK_JTR_CALIB_TRIM_CTRL_ENABLE_FAST'' 0 0x1 1 0x0 0x74, Field
    ''XO_CLK_JTR_CALIB_TRIM_CTRL_ENABLE_SLOW'' 1 0x2 1 0x0 0x74, Field
    ''XO_CLK_JTR_CALIB_TRIM_CTRL_SLOW_MODE_SEL'' 2 0x4 1 0x0 0x74, Field
    ''XO_CLK_JTR_CALIB_TRIM_CTRL_MAX_TRIM_SEL'' 3 0x8 1 0x0 0x74, Field
    ''XO_CLK_JTR_CALIB_TRIM_CTRL_STOP_ON_NOP'' 4 0x10 1 0x0 0x74, Field ''XO_CLK_JTR_FAST_CALIB0_UPPER_COUNT'' 0
    0xffff 16 0x0 0x84, Field ''XO_CLK_JTR_FAST_CALIB1_UPPER_COUNT'' 0 0xffff 16 0x0 0x88, Field
    ''XO_CLK_JTR_FAST_CALIB2_UPPER_COUNT'' 0 0xffff 16 0x0 0x8c, Field ''XO_CLK_JTR_FAST_CALIB3_UPPER_COUNT'' 0
    0xffff 16 0x0 0x90, Field ''XO_CLK_JTR_FAST_CALIB4_UPPER_COUNT'' 0 0xffff 16 0x0 0x94, Field
    ''XO_CLK_JTR_FAST_CALIB5_UPPER_COUNT'' 0 0xffff 16 0x0 0x98, Field ''XO_CLK_JTR_FAST_CALIB6_UPPER_COUNT'' 0
    0xffff 16 0x0 0x9c, Field ''XO_CLK_JTR_FAST_CALIB7_UPPER_COUNT'' 0 0xffff 16 0x0 0xa0, Field
    ''XO_CLK_JTR_FAST_CALIB_CTRL0_OP'' 0 0xf 4 0x0 0xa4, Field ''XO_CLK_JTR_FAST_CALIB_CTRL0_OPERAND'' 4 0xf0 4
    0x0 0xa4, Field ''XO_CLK_JTR_FAST_CALIB_CTRL1_OP'' 0 0xf 4 0x0 0xa8, Field
    ''XO_CLK_JTR_FAST_CALIB_CTRL1_OPERAND'' 4 0xf0 4 0x0 0xa8, Field ''XO_CLK_JTR_FAST_CALIB_CTRL2_OP'' 0 0xf 4
    0x0 0xac, Field ''XO_CLK_JTR_FAST_CALIB_CTRL2_OPERAND'' 4 0xf0 4 0x0 0xac]"

definition regdefs_26156 :: "reg_field list" where
  "regdefs_26156 = [
    Field ''XO_CLK_JTR_FAST_CALIB_CTRL3_OP'' 0 0xf 4 0x0 0xb0, Field ''XO_CLK_JTR_FAST_CALIB_CTRL3_OPERAND'' 4
    0xf0 4 0x0 0xb0, Field ''XO_CLK_JTR_FAST_CALIB_CTRL4_OP'' 0 0xf 4 0x0 0xb4, Field
    ''XO_CLK_JTR_FAST_CALIB_CTRL4_OPERAND'' 4 0xf0 4 0x0 0xb4, Field ''XO_CLK_JTR_FAST_CALIB_CTRL5_OP'' 0 0xf 4
    0x0 0xb8, Field ''XO_CLK_JTR_FAST_CALIB_CTRL5_OPERAND'' 4 0xf0 4 0x0 0xb8, Field
    ''XO_CLK_JTR_FAST_CALIB_CTRL6_OP'' 0 0xf 4 0x0 0xbc, Field ''XO_CLK_JTR_FAST_CALIB_CTRL6_OPERAND'' 4 0xf0 4
    0x0 0xbc, Field ''XO_CLK_JTR_FAST_CALIB_CTRL7_OP'' 0 0xf 4 0x0 0xc0, Field
    ''XO_CLK_JTR_FAST_CALIB_CTRL7_OPERAND'' 4 0xf0 4 0x0 0xc0, Field ''XO_CLK_JTR_FAST_CALIB_CTRL8_OP'' 0 0xf 4
    0x0 0xc4, Field ''XO_CLK_JTR_FAST_CALIB_CTRL8_OPERAND'' 4 0xf0 4 0x0 0xc4, Field
    ''XO_CLK_JTR_SLOW_CALIB0_UPPER_COUNT'' 0 0xffff 16 0x0 0xc8, Field ''XO_CLK_JTR_SLOW_CALIB1_UPPER_COUNT'' 0
    0xffff 16 0x0 0xcc, Field ''XO_CLK_JTR_SLOW_CALIB2_UPPER_COUNT'' 0 0xffff 16 0x0 0xd0, Field
    ''XO_CLK_JTR_SLOW_CALIB3_UPPER_COUNT'' 0 0xffff 16 0x0 0xd4, Field ''XO_CLK_JTR_SLOW_CALIB4_UPPER_COUNT'' 0
    0xffff 16 0x0 0xd8, Field ''XO_CLK_JTR_SLOW_CALIB5_UPPER_COUNT'' 0 0xffff 16 0x0 0xdc, Field
    ''XO_CLK_JTR_SLOW_CALIB6_UPPER_COUNT'' 0 0xffff 16 0x0 0xe0, Field ''XO_CLK_JTR_SLOW_CALIB7_UPPER_COUNT'' 0
    0xffff 16 0x0 0xe4, Field ''XO_CLK_JTR_SLOW_CALIB_CTRL0_OP'' 0 0xf 4 0x0 0xe8, Field
    ''XO_CLK_JTR_SLOW_CALIB_CTRL0_OPERAND'' 4 0xf0 4 0x0 0xe8, Field ''XO_CLK_JTR_SLOW_CALIB_CTRL1_OP'' 0 0xf 4
    0x0 0xec, Field ''XO_CLK_JTR_SLOW_CALIB_CTRL1_OPERAND'' 4 0xf0 4 0x0 0xec, Field
    ''XO_CLK_JTR_SLOW_CALIB_CTRL2_OP'' 0 0xf 4 0x0 0xf0, Field ''XO_CLK_JTR_SLOW_CALIB_CTRL2_OPERAND'' 4 0xf0 4
    0x0 0xf0, Field ''XO_CLK_JTR_SLOW_CALIB_CTRL3_OP'' 0 0xf 4 0x0 0xf4, Field
    ''XO_CLK_JTR_SLOW_CALIB_CTRL3_OPERAND'' 4 0xf0 4 0x0 0xf4, Field ''XO_CLK_JTR_SLOW_CALIB_CTRL4_OP'' 0 0xf 4
    0x0 0xf8, Field ''XO_CLK_JTR_SLOW_CALIB_CTRL4_OPERAND'' 4 0xf0 4 0x0 0xf8]"

definition regdefs_26306 :: "reg_field list" where
  "regdefs_26306 = [
    Field ''XO_CLK_JTR_SLOW_CALIB_CTRL5_OP'' 0 0xf 4 0x0 0xfc, Field ''XO_CLK_JTR_SLOW_CALIB_CTRL5_OPERAND'' 4
    0xf0 4 0x0 0xfc, Field ''XO_CLK_JTR_SLOW_CALIB_CTRL6_OP'' 0 0xf 4 0x0 0x100, Field
    ''XO_CLK_JTR_SLOW_CALIB_CTRL6_OPERAND'' 4 0xf0 4 0x0 0x100, Field ''XO_CLK_JTR_SLOW_CALIB_CTRL7_OP'' 0 0xf 4
    0x0 0x104, Field ''XO_CLK_JTR_SLOW_CALIB_CTRL7_OPERAND'' 4 0xf0 4 0x0 0x104, Field
    ''XO_CLK_JTR_SLOW_CALIB_CTRL8_OP'' 0 0xf 4 0x0 0x108, Field ''XO_CLK_JTR_SLOW_CALIB_CTRL8_OPERAND'' 4 0xf0 4
    0x0 0x108, Field ''XO_CLK_JTR_SW_TRIM_COUNTER_VALUE'' 0 0xffffff 24 0x0 0x110, Field
    ''XO_CLK_JTR_SW_TRIM_COUNTER_DONE'' 24 0x1000000 1 0x0 0x110, Field ''XO_CLK_TIMER_CTRL_HS_SEL'' 0 0x1 1 0x1
    0x114, Field ''XO_CLK_TIMER_CTRL_SEL'' 1 0x2 1 0x1 0x114, Field ''XO_CLK_TIMER_CURRENT_COARSE_TRIM'' 0 0xff
    8 0x0 0x120, Field ''XO_CLK_TIMER_CURRENT_FINE_TRIM'' 8 0xff00 8 0x0 0x120, Field
    ''XO_CLK_TIMER_TRIM_CTRL_RC_TRIM_EN'' 0 0x1 1 0x0 0x128, Field
    ''XO_CLK_TIMER_TRIM_CTRL_RC_INITIAL_TRIM_PERIOD'' 1 0x1fe 8 0xf 0x128, Field
    ''XO_CLK_TIMER_TRIM_CTRL_RC_FINE_TRIM_SRC'' 9 0x200 1 0x0 0x128, Field
    ''XO_CLK_TIMER_TRIM_CTRL_RC_COARSE_TRIM_SRC'' 10 0xc00 2 0x0 0x128, Field
    ''XO_CLK_TIMER_CALIB_TRIM_CTRL_ENABLE_FAST'' 0 0x1 1 0x0 0x12c, Field
    ''XO_CLK_TIMER_CALIB_TRIM_CTRL_ENABLE_SLOW'' 1 0x2 1 0x0 0x12c, Field
    ''XO_CLK_TIMER_CALIB_TRIM_CTRL_SLOW_MODE_SEL'' 2 0x4 1 0x0 0x12c, Field
    ''XO_CLK_TIMER_CALIB_TRIM_CTRL_MAX_TRIM_SEL'' 3 0x8 1 0x0 0x12c, Field
    ''XO_CLK_TIMER_CALIB_TRIM_CTRL_STOP_ON_NOP'' 4 0x10 1 0x0 0x12c, Field
    ''XO_CLK_TIMER_FAST_CALIB0_UPPER_COUNT'' 0 0xffff 16 0x0 0x13c, Field
    ''XO_CLK_TIMER_FAST_CALIB1_UPPER_COUNT'' 0 0xffff 16 0x0 0x140, Field
    ''XO_CLK_TIMER_FAST_CALIB2_UPPER_COUNT'' 0 0xffff 16 0x0 0x144, Field
    ''XO_CLK_TIMER_FAST_CALIB3_UPPER_COUNT'' 0 0xffff 16 0x0 0x148, Field
    ''XO_CLK_TIMER_FAST_CALIB4_UPPER_COUNT'' 0 0xffff 16 0x0 0x14c, Field
    ''XO_CLK_TIMER_FAST_CALIB5_UPPER_COUNT'' 0 0xffff 16 0x0 0x150, Field
    ''XO_CLK_TIMER_FAST_CALIB6_UPPER_COUNT'' 0 0xffff 16 0x0 0x154]"

definition regdefs_26456 :: "reg_field list" where
  "regdefs_26456 = [
    Field ''XO_CLK_TIMER_FAST_CALIB7_UPPER_COUNT'' 0 0xffff 16 0x0 0x158, Field
    ''XO_CLK_TIMER_FAST_CALIB_CTRL0_OP'' 0 0xf 4 0x0 0x15c, Field ''XO_CLK_TIMER_FAST_CALIB_CTRL0_OPERAND'' 4
    0xf0 4 0x0 0x15c, Field ''XO_CLK_TIMER_FAST_CALIB_CTRL1_OP'' 0 0xf 4 0x0 0x160, Field
    ''XO_CLK_TIMER_FAST_CALIB_CTRL1_OPERAND'' 4 0xf0 4 0x0 0x160, Field ''XO_CLK_TIMER_FAST_CALIB_CTRL2_OP'' 0
    0xf 4 0x0 0x164, Field ''XO_CLK_TIMER_FAST_CALIB_CTRL2_OPERAND'' 4 0xf0 4 0x0 0x164, Field
    ''XO_CLK_TIMER_FAST_CALIB_CTRL3_OP'' 0 0xf 4 0x0 0x168, Field ''XO_CLK_TIMER_FAST_CALIB_CTRL3_OPERAND'' 4
    0xf0 4 0x0 0x168, Field ''XO_CLK_TIMER_FAST_CALIB_CTRL4_OP'' 0 0xf 4 0x0 0x16c, Field
    ''XO_CLK_TIMER_FAST_CALIB_CTRL4_OPERAND'' 4 0xf0 4 0x0 0x16c, Field ''XO_CLK_TIMER_FAST_CALIB_CTRL5_OP'' 0
    0xf 4 0x0 0x170, Field ''XO_CLK_TIMER_FAST_CALIB_CTRL5_OPERAND'' 4 0xf0 4 0x0 0x170, Field
    ''XO_CLK_TIMER_FAST_CALIB_CTRL6_OP'' 0 0xf 4 0x0 0x174, Field ''XO_CLK_TIMER_FAST_CALIB_CTRL6_OPERAND'' 4
    0xf0 4 0x0 0x174, Field ''XO_CLK_TIMER_FAST_CALIB_CTRL7_OP'' 0 0xf 4 0x0 0x178, Field
    ''XO_CLK_TIMER_FAST_CALIB_CTRL7_OPERAND'' 4 0xf0 4 0x0 0x178, Field ''XO_CLK_TIMER_FAST_CALIB_CTRL8_OP'' 0
    0xf 4 0x0 0x17c, Field ''XO_CLK_TIMER_FAST_CALIB_CTRL8_OPERAND'' 4 0xf0 4 0x0 0x17c, Field
    ''XO_CLK_TIMER_SLOW_CALIB0_UPPER_COUNT'' 0 0xffff 16 0x0 0x180, Field
    ''XO_CLK_TIMER_SLOW_CALIB1_UPPER_COUNT'' 0 0xffff 16 0x0 0x184, Field
    ''XO_CLK_TIMER_SLOW_CALIB2_UPPER_COUNT'' 0 0xffff 16 0x0 0x188, Field
    ''XO_CLK_TIMER_SLOW_CALIB3_UPPER_COUNT'' 0 0xffff 16 0x0 0x18c, Field
    ''XO_CLK_TIMER_SLOW_CALIB4_UPPER_COUNT'' 0 0xffff 16 0x0 0x190, Field
    ''XO_CLK_TIMER_SLOW_CALIB5_UPPER_COUNT'' 0 0xffff 16 0x0 0x194, Field
    ''XO_CLK_TIMER_SLOW_CALIB6_UPPER_COUNT'' 0 0xffff 16 0x0 0x198, Field
    ''XO_CLK_TIMER_SLOW_CALIB7_UPPER_COUNT'' 0 0xffff 16 0x0 0x19c, Field ''XO_CLK_TIMER_SLOW_CALIB_CTRL0_OP'' 0
    0xf 4 0x0 0x1a0, Field ''XO_CLK_TIMER_SLOW_CALIB_CTRL0_OPERAND'' 4 0xf0 4 0x0 0x1a0]"

definition regdefs_26601 :: "reg_field list" where
  "regdefs_26601 = [
    Field ''XO_CLK_TIMER_SLOW_CALIB_CTRL1_OP'' 0 0xf 4 0x0 0x1a4, Field
    ''XO_CLK_TIMER_SLOW_CALIB_CTRL1_OPERAND'' 4 0xf0 4 0x0 0x1a4, Field ''XO_CLK_TIMER_SLOW_CALIB_CTRL2_OP'' 0
    0xf 4 0x0 0x1a8, Field ''XO_CLK_TIMER_SLOW_CALIB_CTRL2_OPERAND'' 4 0xf0 4 0x0 0x1a8, Field
    ''XO_CLK_TIMER_SLOW_CALIB_CTRL3_OP'' 0 0xf 4 0x0 0x1ac, Field ''XO_CLK_TIMER_SLOW_CALIB_CTRL3_OPERAND'' 4
    0xf0 4 0x0 0x1ac, Field ''XO_CLK_TIMER_SLOW_CALIB_CTRL4_OP'' 0 0xf 4 0x0 0x1b0, Field
    ''XO_CLK_TIMER_SLOW_CALIB_CTRL4_OPERAND'' 4 0xf0 4 0x0 0x1b0, Field ''XO_CLK_TIMER_SLOW_CALIB_CTRL5_OP'' 0
    0xf 4 0x0 0x1b4, Field ''XO_CLK_TIMER_SLOW_CALIB_CTRL5_OPERAND'' 4 0xf0 4 0x0 0x1b4, Field
    ''XO_CLK_TIMER_SLOW_CALIB_CTRL6_OP'' 0 0xf 4 0x0 0x1b8, Field ''XO_CLK_TIMER_SLOW_CALIB_CTRL6_OPERAND'' 4
    0xf0 4 0x0 0x1b8, Field ''XO_CLK_TIMER_SLOW_CALIB_CTRL7_OP'' 0 0xf 4 0x0 0x1bc, Field
    ''XO_CLK_TIMER_SLOW_CALIB_CTRL7_OPERAND'' 4 0xf0 4 0x0 0x1bc, Field ''XO_CLK_TIMER_SLOW_CALIB_CTRL8_OP'' 0
    0xf 4 0x0 0x1c0, Field ''XO_CLK_TIMER_SLOW_CALIB_CTRL8_OPERAND'' 4 0xf0 4 0x0 0x1c0, Field
    ''XO_CLK_TIMER_SW_TRIM_COUNTER_VALUE'' 0 0xffffff 24 0x0 0x1c8, Field ''XO_CLK_TIMER_SW_TRIM_COUNTER_DONE''
    24 0x1000000 1 0x0 0x1c8, Field ''XO_OSC_XTL_FREQ2X_CAL_CNTL'' 0 0xf 4 0x7 0x1cc, Field
    ''XO_OSC_XTL_FREQ2X_CAL_EN'' 4 0x10 1 0x0 0x1cc, Field ''XO_OSC_XTL_FREQ2X_SELB'' 5 0x20 1 0x0 0x1cc, Field
    ''XO_OSC_XTL_FREQ2X_STAT_CAL_CNTL'' 0 0xf 4 0x6 0x1d0, Field ''XO_OSC_XTL_FREQ2X_STAT_CAL_EN'' 4 0x10 1 0x0
    0x1d0, Field ''XO_OSC_XTL_FREQ2X_STAT_SELB'' 5 0x20 1 0x0 0x1d0, Field ''XO_OSC_XTL_RC_FLTR_TRIM'' 0 0xf 4
    0x5 0x1e0, Field ''XO_OSC_XTL_RC_FLTR_BYPASS'' 4 0x10 1 0x1 0x1e0, Field ''XO_OSC_XTL_OVRD_TRIM'' 0 0xf 4
    0x7 0x1e4, Field ''XO_OSC_XTL_OVRD_ENB'' 4 0x10 1 0x1 0x1e4, Field ''XO_OSC_XTL_TRIM_CODE'' 0 0xf 4 0x0
    0x1ec, Field ''XO_OSC_XTL_TRIM_EN'' 4 0x10 1 0x0 0x1ec]"

definition regdefs_26751 :: "reg_field list" where
  "regdefs_26751 = [
    Field ''XO_OSC_XTL_TRIM_STAT_CODE'' 0 0xf 4 0x0 0x1f0, Field ''XO_OSC_XTL_TRIM_STAT_EN'' 4 0x10 1 0x0 0x1f0,
    Field ''XO_OSC_XTL_FSM_DONE'' 0 0x1 1 0x0 0x1fc, Field ''XO_OSC_XTL_FSM_TRIM'' 1 0x1e 4 0x0 0x1fc, Field
    ''XO_OSC_XTL_FSM_STATUS'' 5 0x20 1 0x0 0x1fc, Field ''XO_OSC_XTL_FSM_STATE'' 6 0x3c0 4 0x0 0x1fc, Field
    ''XO_OSC_XTL_FSM_LVL_DET_SYNC'' 10 0x400 1 0x0 0x1fc, Field ''XO_OSC_XTL_FSM_CFG_TRIM_MAX'' 0 0xf 4 0x8
    0x200, Field ''XO_OSC_XTL_FSM_CFG_LVL_DET_SNIFF'' 4 0x30 2 0x0 0x200, Field
    ''XO_OSC_XTL_FSM_CFG_LVL_DET_SENSE'' 6 0xc0 2 0x2 0x200, Field ''XO_OSC_XTL_FSM_CFG_PWRUP_REG_MAX'' 8 0x700
    3 0x4 0x200, Field ''XO_OSC_XTL_FSM_CFG_SNIFF_REG_MAX'' 11 0xf800 5 0xe 0x200, Field
    ''XO_OSC_XTL_FSM_CFG_SENSE_REG_MAX'' 16 0x1f0000 5 0xd 0x200, Field ''XO_OSC_TEST_CLK2X_EN'' 0 0x1 1 0x0
    0x204, Field ''XO_OSC_TEST_CLK_JTR_EN'' 1 0x2 1 0x0 0x204, Field ''XO_OSC_TEST_CLK_TIMER_EN'' 2 0x4 1 0x0
    0x204, Field ''XO_ANTEST_CTRL_LDO_EN'' 0 0x1 1 0x0 0x214, Field ''XO_DXO_INT_ENABLE_FAST_CALIB_OVERFLOW'' 0
    0x1 1 0x0 0x218, Field ''XO_DXO_INT_ENABLE_FAST_CALIB_UNDERRUN'' 1 0x2 1 0x0 0x218, Field
    ''XO_DXO_INT_ENABLE_SLOW_CALIB_OVERFLOW'' 2 0x4 1 0x0 0x218, Field ''XO_DXO_INT_ENABLE_SLOW_CALIB_UNDERRUN''
    3 0x8 1 0x0 0x218, Field ''XO_DXO_INT_ENABLE_CLK_JTR_NOP_SEEN'' 4 0x10 1 0x0 0x218, Field
    ''XO_DXO_INT_ENABLE_CLK_TIMER_NOP_SEEN'' 5 0x20 1 0x0 0x218, Field
    ''XO_DXO_INT_ENABLE_CLK_JTR_SW_TRIM_DONE'' 6 0x40 1 0x0 0x218, Field
    ''XO_DXO_INT_ENABLE_CLK_TIMER_SW_TRIM_DONE'' 7 0x80 1 0x0 0x218]"

definition regdefs_26876 :: "reg_field list" where
  "regdefs_26876 = [
    Field ''XO_DXO_INT_STATE_FAST_CALIB_OVERFLOW'' 0 0x1 1 0x0 0x21c, Field
    ''XO_DXO_INT_STATE_FAST_CALIB_UNDERRUN'' 1 0x2 1 0x0 0x21c, Field ''XO_DXO_INT_STATE_SLOW_CALIB_OVERFLOW'' 2
    0x4 1 0x0 0x21c, Field ''XO_DXO_INT_STATE_SLOW_CALIB_UNDERRUN'' 3 0x8 1 0x0 0x21c, Field
    ''XO_DXO_INT_STATE_CLK_JTR_NOP_SEEN'' 4 0x10 1 0x0 0x21c, Field ''XO_DXO_INT_STATE_CLK_TIMER_NOP_SEEN'' 5
    0x20 1 0x0 0x21c, Field ''XO_DXO_INT_STATE_CLK_JTR_SW_TRIM_DONE'' 6 0x40 1 0x0 0x21c, Field
    ''XO_DXO_INT_STATE_CLK_TIMER_SW_TRIM_DONE'' 7 0x80 1 0x0 0x21c, Field
    ''XO_DXO_INT_TEST_FAST_CALIB_OVERFLOW'' 0 0x1 1 0x0 0x220, Field ''XO_DXO_INT_TEST_FAST_CALIB_UNDERRUN'' 1
    0x2 1 0x0 0x220, Field ''XO_DXO_INT_TEST_SLOW_CALIB_OVERFLOW'' 2 0x4 1 0x0 0x220, Field
    ''XO_DXO_INT_TEST_SLOW_CALIB_UNDERRUN'' 3 0x8 1 0x0 0x220, Field ''XO_DXO_INT_TEST_CLK_JTR_NOP_SEEN'' 4 0x10
    1 0x0 0x220, Field ''XO_DXO_INT_TEST_CLK_TIMER_NOP_SEEN'' 5 0x20 1 0x0 0x220, Field
    ''XO_DXO_INT_TEST_CLK_JTR_SW_TRIM_DONE'' 6 0x40 1 0x0 0x220, Field
    ''XO_DXO_INT_TEST_CLK_TIMER_SW_TRIM_DONE'' 7 0x80 1 0x0 0x220]"

definition regdefs_26956 :: "reg_field list" where
  "regdefs_26956 = [
    Field ''M3_ITM_TCR_ITMENA'' 0 0x1 1 0x0 0xe80, Field ''M3_ITM_TCR_TSENA'' 1 0x2 1 0x0 0xe80, Field
    ''M3_ITM_TCR_SYNCENA'' 2 0x4 1 0x0 0xe80, Field ''M3_ITM_TCR_DWTENA'' 3 0x8 1 0x0 0xe80, Field
    ''M3_ITM_TCR_SWOENA'' 4 0x10 1 0x0 0xe80, Field ''M3_ITM_TCR_TSPRESCALE'' 8 0x300 2 0x0 0xe80, Field
    ''M3_ITM_TCR_ATBID'' 16 0x7f0000 7 0x0 0xe80, Field ''M3_ITM_TCR_BUSY'' 23 0x800000 1 0x0 0xe80, Field
    ''M3_ITM_LOCKSREG_PRESENT'' 0 0x1 1 0x0 0xfb4, Field ''M3_ITM_LOCKSREG_ACCESS'' 1 0x2 1 0x0 0xfb4, Field
    ''M3_ITM_LOCKSREG_BYTEACC'' 2 0x4 1 0x0 0xfb4, Field ''M3_DWT_CTRL_CYCCNTENA'' 0 0x1 1 0x0 0x1000, Field
    ''M3_DWT_CTRL_POSTRESET'' 1 0x1e 4 0x0 0x1000, Field ''M3_DWT_CTRL_POSTCNT'' 5 0x1e0 4 0x0 0x1000, Field
    ''M3_DWT_CTRL_CYCTAP'' 9 0x200 1 0x0 0x1000, Field ''M3_DWT_CTRL_SYNCTAP'' 10 0xc00 2 0x0 0x1000, Field
    ''M3_DWT_CTRL_PCSAMPLENA'' 12 0x1000 1 0x0 0x1000, Field ''M3_DWT_CTRL_EXCTRCENA'' 16 0x10000 1 0x0 0x1000,
    Field ''M3_DWT_CTRL_CPIEVTENA'' 17 0x20000 1 0x0 0x1000, Field ''M3_DWT_CTRL_EXCEVTENA'' 18 0x40000 1 0x0
    0x1000, Field ''M3_DWT_CTRL_SLEEPEVTENA'' 19 0x80000 1 0x0 0x1000, Field ''M3_DWT_CTRL_LSUEVTENA'' 20
    0x100000 1 0x0 0x1000, Field ''M3_DWT_CTRL_FOLDEVTENA'' 21 0x200000 1 0x0 0x1000, Field
    ''M3_DWT_CTRL_CYCEVTENA'' 22 0x400000 1 0x0 0x1000, Field ''M3_DWT_CTRL_NUMCOMP'' 28 0xf0000000 4 0x4 0x1000]"

definition regdefs_27081 :: "reg_field list" where
  "regdefs_27081 = [
    Field ''M3_DWT_FUNCTION0_FUNCTION'' 0 0xf 4 0x0 0x1028, Field ''M3_DWT_FUNCTION0_EMITRANGE'' 5 0x20 1 0x0
    0x1028, Field ''M3_DWT_FUNCTION0_CYCMATCH'' 7 0x80 1 0x0 0x1028, Field ''M3_DWT_FUNCTION0_LNK1ENA'' 9 0x200
    1 0x0 0x1028, Field ''M3_DWT_FUNCTION0_DATAVSIZE'' 10 0xc00 2 0x0 0x1028, Field ''M3_DWT_FUNCTION0_MATCHED''
    24 0x1000000 1 0x0 0x1028, Field ''M3_DWT_FUNCTION1_FUNCTION'' 0 0xf 4 0x0 0x1038, Field
    ''M3_DWT_FUNCTION1_EMITRANGE'' 5 0x20 1 0x0 0x1038, Field ''M3_DWT_FUNCTION1_DATAVMATCH'' 8 0x100 1 0x0
    0x1038, Field ''M3_DWT_FUNCTION1_LNK1ENA'' 9 0x200 1 0x0 0x1038, Field ''M3_DWT_FUNCTION1_DATAVSIZE'' 10
    0xc00 2 0x0 0x1038, Field ''M3_DWT_FUNCTION1_DATAVADDR0'' 12 0xf000 4 0x0 0x1038, Field
    ''M3_DWT_FUNCTION1_DATAVADDR1'' 16 0xf0000 4 0x0 0x1038, Field ''M3_DWT_FUNCTION1_MATCHED'' 24 0x1000000 1
    0x0 0x1038, Field ''M3_DWT_FUNCTION2_FUNCTION'' 0 0xf 4 0x0 0x1048, Field ''M3_DWT_FUNCTION2_EMITRANGE'' 5
    0x20 1 0x0 0x1048, Field ''M3_DWT_FUNCTION2_LNK1ENA'' 9 0x200 1 0x0 0x1048, Field
    ''M3_DWT_FUNCTION2_DATAVSIZE'' 10 0xc00 2 0x0 0x1048, Field ''M3_DWT_FUNCTION2_MATCHED'' 24 0x1000000 1 0x0
    0x1048, Field ''M3_DWT_FUNCTION3_FUNCTION'' 0 0xf 4 0x0 0x1058, Field ''M3_DWT_FUNCTION3_EMITRANGE'' 5 0x20
    1 0x0 0x1058, Field ''M3_DWT_FUNCTION3_LNK1ENA'' 9 0x200 1 0x0 0x1058, Field ''M3_DWT_FUNCTION3_DATAVSIZE''
    10 0xc00 2 0x0 0x1058, Field ''M3_DWT_FUNCTION3_MATCHED'' 24 0x1000000 1 0x0 0x1058, Field
    ''M3_FP_CTRL_ENABLE'' 0 0x1 1 0x0 0x2000, Field ''M3_FP_CTRL_KEY'' 1 0x2 1 0x0 0x2000, Field
    ''M3_FP_CTRL_NUM_CODE1'' 4 0xf0 4 0x6 0x2000, Field ''M3_FP_CTRL_NUM_LIT'' 8 0xf00 4 0x2 0x2000, Field
    ''M3_FP_CTRL_NUM_CODE2'' 12 0x3000 2 0x0 0x2000, Field ''M3_FP_REMAP_REMAP'' 5 0x1fffffe0 24 0x0 0x2004]"

definition regdefs_27231 :: "reg_field list" where
  "regdefs_27231 = [
    Field ''M3_FP_COMP0_ENABLE'' 0 0x1 1 0x0 0x2008, Field ''M3_FP_COMP0_COMP'' 2 0x1ffffffc 27 0x0 0x2008,
    Field ''M3_FP_COMP0_REPLACE'' 30 0xc0000000 2 0x0 0x2008, Field ''M3_FP_COMP1_ENABLE'' 0 0x1 1 0x0 0x200c,
    Field ''M3_FP_COMP1_COMP'' 2 0x1ffffffc 27 0x0 0x200c, Field ''M3_FP_COMP1_REPLACE'' 30 0xc0000000 2 0x0
    0x200c, Field ''M3_FP_COMP2_ENABLE'' 0 0x1 1 0x0 0x2010, Field ''M3_FP_COMP2_COMP'' 2 0x1ffffffc 27 0x0
    0x2010, Field ''M3_FP_COMP2_REPLACE'' 30 0xc0000000 2 0x0 0x2010, Field ''M3_FP_COMP3_ENABLE'' 0 0x1 1 0x0
    0x2014, Field ''M3_FP_COMP3_COMP'' 2 0x1ffffffc 27 0x0 0x2014, Field ''M3_FP_COMP3_REPLACE'' 30 0xc0000000 2
    0x0 0x2014, Field ''M3_FP_COMP4_ENABLE'' 0 0x1 1 0x0 0x2018, Field ''M3_FP_COMP4_COMP'' 2 0x1ffffffc 27 0x0
    0x2018, Field ''M3_FP_COMP4_REPLACE'' 30 0xc0000000 2 0x0 0x2018, Field ''M3_FP_COMP5_ENABLE'' 0 0x1 1 0x0
    0x201c, Field ''M3_FP_COMP5_COMP'' 2 0x1ffffffc 27 0x0 0x201c, Field ''M3_FP_COMP5_REPLACE'' 30 0xc0000000 2
    0x0 0x201c, Field ''M3_FP_COMP6_ENABLE'' 0 0x1 1 0x0 0x2020, Field ''M3_FP_COMP6_COMP'' 2 0x1ffffffc 27 0x0
    0x2020, Field ''M3_FP_COMP6_REPLACE'' 30 0xc0000000 2 0x0 0x2020, Field ''M3_FP_COMP7_ENABLE'' 0 0x1 1 0x0
    0x2024, Field ''M3_FP_COMP7_COMP'' 2 0x1ffffffc 27 0x0 0x2024, Field ''M3_FP_COMP7_REPLACE'' 30 0xc0000000 2
    0x0 0x2024, Field ''M3_ICTR_INTLINESNUM'' 0 0xf 4 0x7 0xe004, Field ''M3_SYST_CSR_ENABLE'' 0 0x1 1 0x0
    0xe010, Field ''M3_SYST_CSR_TICKINT'' 1 0x2 1 0x0 0xe010, Field ''M3_SYST_CSR_CLKSOURCE'' 2 0x4 1 0x1
    0xe010, Field ''M3_SYST_CSR_COUNTFLAG'' 16 0x10000 1 0x0 0xe010, Field ''M3_SYST_RVR_RELOAD'' 0 0xffffff 24
    0x0 0xe014]"

definition regdefs_27381 :: "reg_field list" where
  "regdefs_27381 = [
    Field ''M3_SYST_CVR_CURRENT'' 0 0xffffffff 32 0x0 0xe018, Field ''M3_SYST_CALIB_TENMS'' 0 0xffffff 24
    0x3f79f 0xe01c, Field ''M3_SYST_CALIB_SKEW'' 30 0x40000000 1 0x0 0xe01c, Field ''M3_SYST_CALIB_NOREF'' 31
    0x80000000 1 0x0 0xe01c, Field ''M3_CPUID_REVISION'' 0 0xf 4 0x1 0xed00, Field ''M3_CPUID_PARTNO'' 4 0xfff0
    12 0xc23 0xed00, Field ''M3_CPUID_CONSTANT'' 16 0xf0000 4 0xf 0xed00, Field ''M3_CPUID_VARIANT'' 20 0xf00000
    4 0x2 0xed00, Field ''M3_CPUID_IMPLEMENTER'' 24 0xff000000 8 0x41 0xed00, Field ''M3_ICSR_VECTACTIVE'' 0
    0x1ff 9 0x0 0xed04, Field ''M3_ICSR_RETTOBASE'' 11 0x800 1 0x0 0xed04, Field ''M3_ICSR_VECTPENDING'' 12
    0x3ff000 10 0x0 0xed04, Field ''M3_ICSR_ISRPENDING'' 22 0x400000 1 0x0 0xed04, Field ''M3_ICSR_ISRPREEMPT''
    23 0x800000 1 0x0 0xed04, Field ''M3_ICSR_PENDSTCLR'' 25 0x2000000 1 0x0 0xed04, Field ''M3_ICSR_PENDSTSET''
    26 0x4000000 1 0x0 0xed04, Field ''M3_ICSR_PENDSVCLR'' 27 0x8000000 1 0x0 0xed04, Field
    ''M3_ICSR_PENDSVSET'' 28 0x10000000 1 0x0 0xed04, Field ''M3_ICSR_NMIPENDSET'' 31 0x80000000 1 0x0 0xed04,
    Field ''M3_SCR_SLEEPONEXIT'' 1 0x2 1 0x0 0xed10, Field ''M3_SCR_SLEEPDEEP'' 2 0x4 1 0x0 0xed10, Field
    ''M3_SCR_SEVONPEND'' 4 0x10 1 0x0 0xed10, Field ''M3_CCR_NONEBASETHRDENA'' 0 0x1 1 0x0 0xed14, Field
    ''M3_CCR_USERSETMPEND'' 1 0x2 1 0x0 0xed14, Field ''M3_CCR_UNALIGN_TRP'' 3 0x8 1 0x0 0xed14, Field
    ''M3_CCR_DIV_0_TRP'' 4 0x10 1 0x0 0xed14, Field ''M3_CCR_BFHFNMIGN'' 8 0x100 1 0x0 0xed14, Field
    ''M3_CCR_STKALIGN'' 9 0x200 1 0x0 0xed14]"

definition regdefs_27521 :: "reg_field list" where
  "regdefs_27521 = [
    Field ''M3_DEMCR_VC_CORERESET'' 0 0x1 1 0x0 0xedfc, Field ''M3_DEMCR_VC_MMERR'' 4 0x10 1 0x0 0xedfc, Field
    ''M3_DEMCR_VC_NOCPERR'' 5 0x20 1 0x0 0xedfc, Field ''M3_DEMCR_VC_CHKERR'' 6 0x40 1 0x0 0xedfc, Field
    ''M3_DEMCR_VC_STATERR'' 7 0x80 1 0x0 0xedfc, Field ''M3_DEMCR_VC_BUSERR'' 8 0x100 1 0x0 0xedfc, Field
    ''M3_DEMCR_VC_INTERR'' 9 0x200 1 0x0 0xedfc, Field ''M3_DEMCR_VC_HARDERR'' 10 0x400 1 0x0 0xedfc, Field
    ''M3_DEMCR_MON_EN'' 16 0x10000 1 0x0 0xedfc, Field ''M3_DEMCR_MON_PEND'' 17 0x20000 1 0x0 0xedfc, Field
    ''M3_DEMCR_MON_STEP'' 18 0x40000 1 0x0 0xedfc, Field ''M3_DEMCR_MON_REQ'' 19 0x80000 1 0x0 0xedfc, Field
    ''M3_DEMCR_TRCENA'' 24 0x1000000 1 0x0 0xedfc]"

section \<open>Tables\<close>

definition registers_RDD :: "register list" where
  "registers_RDD =
     registers_4243"

definition registers_RTC :: "register list" where
  "registers_RTC =
     registers_4267"

definition registers_SPI :: "register list" where
  "registers_SPI =
     registers_4277"

definition registers_SPS :: "register list" where
  "registers_SPS =
     registers_4298 @ registers_4378 @ registers_4458 @ registers_4538"

definition registers_SWDP :: "register list" where
  "registers_SWDP =
     registers_4549"

definition registers_TEMP :: "register list" where
  "registers_TEMP =
     registers_4579"

definition registers_TIMEHS :: "register list" where
  "registers_TIMEHS =
     registers_4623"

definition registers_TIMELS :: "register list" where
  "registers_TIMELS =
     registers_4679"

definition registers_TIMEUS :: "register list" where
  "registers_TIMEUS =
     registers_4727"

definition registers_TRNG :: "register list" where
  "registers_TRNG =
     registers_4791"

definition registers_UART :: "register list" where
  "registers_UART =
     registers_4855"

definition registers_VOLT :: "register list" where
  "registers_VOLT =
     registers_5332"

definition registers_WATCHDOG :: "register list" where
  "registers_WATCHDOG =
     registers_5344"

definition registers_XO :: "register list" where
  "registers_XO =
     registers_5386 @ registers_5466 @ registers_5546 @ registers_5626"

definition registers_M3 :: "register list" where
  "registers_M3 =
     registers_5661 @ registers_5741 @ registers_5821 @ registers_5901 @ registers_5981 @ registers_6061"

definition fields_RDD :: "reg_field list" where
  "fields_RDD =
     regdefs_17226"

definition fields_RTC :: "reg_field list" where
  "fields_RTC =
     regdefs_17291"

definition fields_SPI :: "reg_field list" where
  "fields_SPI =
     regdefs_17316"

definition fields_SPS :: "reg_field list" where
  "fields_SPS =
     regdefs_17466 @ regdefs_17611 @ regdefs_17716 @ regdefs_17846 @ regdefs_17996 @ regdefs_18121"

definition fields_SWDP :: "reg_field list" where
  "fields_SWDP =
     regdefs_18191"

definition fields_TEMP :: "reg_field list" where
  "fields_TEMP =
     regdefs_18201 @ regdefs_18371"

definition fields_TIMEHS :: "reg_field list" where
  "fields_TIMEHS =
     regdefs_18391"

definition fields_TIMELS :: "reg_field list" where
  "fields_TIMELS =
     regdefs_18471"

definition fields_TIMEUS :: "reg_field list" where
  "fields_TIMEUS =
     regdefs_18591"

definition fields_TRNG :: "reg_field list" where
  "fields_TRNG =
     regdefs_18721 @ regdefs_18871"

definition fields_UART :: "reg_field list" where
  "fields_UART =
     regdefs_18901 @ regdefs_19041 @ regdefs_19181"

definition fields_VOLT :: "reg_field list" where
  "fields_VOLT =
     regdefs_25951"

definition fields_WATCHDOG :: "reg_field list" where
  "fields_WATCHDOG =
     regdefs_25991"

definition fields_XO :: "reg_field list" where
  "fields_XO =
     regdefs_26011 @ regdefs_26156 @ regdefs_26306 @ regdefs_26456 @ regdefs_26601 @ regdefs_26751 @
     regdefs_26876"

definition fields_M3 :: "reg_field list" where
  "fields_M3 =
     regdefs_26956 @ regdefs_27081 @ regdefs_27231 @ regdefs_27381 @ regdefs_27521"

text \<open>
  Every table of fields is well-formed and sorted, and the fields are those of the registers.
\<close>

lemma scan_RDD_1:
  "list_all well_formed regdefs_17226" "scan 0 (map extent regdefs_17226) = Some 354"
  by (simp_all add:
    regdefs_17226_def)

lemma fields_RDD_scan: "list_all well_formed fields_RDD" "scan 0 (map extent fields_RDD) = Some 354"
  unfolding fields_RDD_def
  by (simp_all only: map_append scan_append list_all_append option.case simp_thms
    scan_RDD_1)

lemma covered_RDD_1:
  "covered (map reset_key (registers_4243)) (map field_key regdefs_17226)"
  by (simp_all add:
    registers_4243_def regdefs_17226_def)

lemma registers_RDD_parts:
  "set registers_4243 \<subseteq> set registers_RDD"
  by (auto simp: registers_RDD_def)

lemma fields_RDD_registers: "list_all (has_register registers_RDD) fields_RDD"
  unfolding fields_RDD_def
  by (simp only: list_all_append set_append Un_subset_iff simp_thms registers_RDD_parts
    covered_RDD_1 [THEN covered_has])

lemma scan_RTC_1:
  "list_all well_formed regdefs_17291" "scan 0 (map extent regdefs_17291) = Some 153"
  by (simp_all add:
    regdefs_17291_def)

lemma fields_RTC_scan: "list_all well_formed fields_RTC" "scan 0 (map extent fields_RTC) = Some 153"
  unfolding fields_RTC_def
  by (simp_all only: map_append scan_append list_all_append option.case simp_thms
    scan_RTC_1)

lemma covered_RTC_1:
  "covered (map reset_key (registers_4267)) (map field_key regdefs_17291)"
  by (simp_all add:
    registers_4267_def regdefs_17291_def)

lemma registers_RTC_parts:
  "set registers_4267 \<subseteq> set registers_RTC"
  by (auto simp: registers_RTC_def)

lemma fields_RTC_registers: "list_all (has_register registers_RTC) fields_RTC"
  unfolding fields_RTC_def
  by (simp only: list_all_append set_append Un_subset_iff simp_thms registers_RTC_parts
    covered_RTC_1 [THEN covered_has])

lemma scan_SPI_1:
  "list_all well_formed regdefs_17316" "scan 0 (map extent regdefs_17316) = Some 30753"
  by (simp_all add:
    regdefs_17316_def)

lemma fields_SPI_scan: "list_all well_formed fields_SPI" "scan 0 (map extent fields_SPI) = Some 30753"
  unfolding fields_SPI_def
  by (simp_all only: map_append scan_append list_all_append option.case simp_thms
    scan_SPI_1)

lemma covered_SPI_1:
  "covered (map reset_key (registers_4277)) (map field_key regdefs_17316)"
  by (simp_all add:
    registers_4277_def regdefs_17316_def)

lemma registers_SPI_parts:
  "set registers_4277 \<subseteq> set registers_SPI"
  by (auto simp: registers_SPI_def)

lemma fields_SPI_registers: "list_all (has_register registers_SPI) fields_SPI"
  unfolding fields_SPI_def
  by (simp only: list_all_append set_append Un_subset_iff simp_thms registers_SPI_parts
    covered_SPI_1 [THEN covered_has])

lemma scan_SPS_1:
  "list_all well_formed regdefs_17466" "scan 0 (map extent regdefs_17466) = Some 326"
  "list_all well_formed regdefs_17611" "scan 326 (map extent regdefs_17611) = Some 687"
  "list_all well_formed regdefs_17716" "scan 687 (map extent regdefs_17716) = Some 783"
  "list_all well_formed regdefs_17846" "scan 783 (map extent regdefs_17846) = Some 8361"
  "list_all well_formed regdefs_17996" "scan 8361 (map extent regdefs_17996) = Some 11207"
  "list_all well_formed regdefs_18121" "scan 11207 (map extent regdefs_18121) = Some 11271"
  by (simp_all add:
    regdefs_17466_def regdefs_17611_def regdefs_17716_def regdefs_17846_def regdefs_17996_def
    regdefs_18121_def)

lemma fields_SPS_scan: "list_all well_formed fields_SPS" "scan 0 (map extent fields_SPS) = Some 11271"
  unfolding fields_SPS_def
  by (simp_all only: map_append scan_append list_all_append option.case simp_thms
    scan_SPS_1)

lemma covered_SPS_1:
  "covered (map reset_key (registers_4298)) (map field_key regdefs_17466)"
  "covered (map reset_key (registers_4298)) (map field_key regdefs_17611)"
  "covered (map reset_key (registers_4298)) (map field_key regdefs_17716)"
  "covered (map reset_key (registers_4298)) (map field_key regdefs_17846)"
  "covered (map reset_key (registers_4298 @ registers_4458 @ registers_4538)) (map field_key regdefs_17996)"
  "covered (map reset_key (registers_4538)) (map field_key regdefs_18121)"
  by (simp_all add:
    registers_4298_def registers_4458_def registers_4538_def regdefs_17466_def regdefs_17611_def
    regdefs_17716_def regdefs_17846_def regdefs_17996_def regdefs_18121_def)

lemma registers_SPS_parts:
  "set registers_4298 \<subseteq> set registers_SPS"
  "set registers_4378 \<subseteq> set registers_SPS"
  "set registers_4458 \<subseteq> set registers_SPS"
  "set registers_4538 \<subseteq> set registers_SPS"
  by (auto simp: registers_SPS_def)

lemma fields_SPS_registers: "list_all (has_register registers_SPS) fields_SPS"
  unfolding fields_SPS_def
  by (simp only: list_all_append set_append Un_subset_iff simp_thms registers_SPS_parts
    covered_SPS_1 [THEN covered_has])

lemma scan_SWDP_1:
  "list_all well_formed regdefs_18191" "scan 0 (map extent regdefs_18191) = Some 450"
  by (simp_all add:
    regdefs_18191_def)

lemma fields_SWDP_scan: "list_all well_formed fields_SWDP" "scan 0 (map extent fields_SWDP) = Some 450"
  unfolding fields_SWDP_def
  by (simp_all only: map_append scan_append list_all_append option.case simp_thms
    scan_SWDP_1)

lemma covered_SWDP_1:
  "covered (map reset_key (registers_4549)) (map field_key regdefs_18191)"
  by (simp_all add:
    registers_4549_def regdefs_18191_def)

lemma registers_SWDP_parts:
  "set registers_4549 \<subseteq> set registers_SWDP"
  by (auto simp: registers_SWDP_def)

lemma fields_SWDP_registers: "list_all (has_register registers_SWDP) fields_SWDP"
  unfolding fields_SWDP_def
  by (simp only: list_all_append set_append Un_subset_iff simp_thms registers_SWDP_parts
    covered_SWDP_1 [THEN covered_has])

lemma scan_TEMP_1:
  "list_all well_formed regdefs_18201" "scan 0 (map extent regdefs_18201) = Some 640"
  "list_all well_formed regdefs_18371" "scan 640 (map extent regdefs_18371) = Some 676"
  by (simp_all add:
    regdefs_18201_def regdefs_18371_def)

lemma fields_TEMP_scan: "list_all well_formed fields_TEMP" "scan 0 (map extent fields_TEMP) = Some 676"
  unfolding fields_TEMP_def
  by (simp_all only: map_append scan_append list_all_append option.case simp_thms
    scan_TEMP_1)

lemma covered_TEMP_1:
  "covered (map reset_key (registers_4579)) (map field_key regdefs_18201)"
  "covered (map reset_key (registers_4579)) (map field_key regdefs_18371)"
  by (simp_all add:
    registers_4579_def regdefs_18201_def regdefs_18371_def)

lemma registers_TEMP_parts:
  "set registers_4579 \<subseteq> set registers_TEMP"
  by (auto simp: registers_TEMP_def)

lemma fields_TEMP_registers: "list_all (has_register registers_TEMP) fields_TEMP"
  unfolding fields_TEMP_def
  by (simp only: list_all_append set_append Un_subset_iff simp_thms registers_TEMP_parts
    covered_TEMP_1 [THEN covered_has])

lemma scan_TIMEHS_1:
  "list_all well_formed regdefs_18391" "scan 0 (map extent regdefs_18391) = Some 30754"
  by (simp_all add:
    regdefs_18391_def)

lemma fields_TIMEHS_scan: "list_all well_formed fields_TIMEHS" "scan 0 (map extent fields_TIMEHS) = Some 30754"
  unfolding fields_TIMEHS_def
  by (simp_all only: map_append scan_append list_all_append option.case simp_thms
    scan_TIMEHS_1)

lemma covered_TIMEHS_1:
  "covered (map reset_key (registers_4623)) (map field_key regdefs_18391)"
  by (simp_all add:
    registers_4623_def regdefs_18391_def)

lemma registers_TIMEHS_parts:
  "set registers_4623 \<subseteq> set registers_TIMEHS"
  by (auto simp: registers_TIMEHS_def)

lemma fields_TIMEHS_registers: "list_all (has_register registers_TIMEHS) fields_TIMEHS"
  unfolding fields_TIMEHS_def
  by (simp only: list_all_append set_append Un_subset_iff simp_thms registers_TIMEHS_parts
    covered_TIMEHS_1 [THEN covered_has])

lemma scan_TIMELS_1:
  "list_all well_formed regdefs_18471" "scan 0 (map extent regdefs_18471) = Some 30754"
  by (simp_all add:
    regdefs_18471_def)

lemma fields_TIMELS_scan: "list_all well_formed fields_TIMELS" "scan 0 (map extent fields_TIMELS) = Some 30754"
  unfolding fields_TIMELS_def
  by (simp_all only: map_append scan_append list_all_append option.case simp_thms
    scan_TIMELS_1)

lemma covered_TIMELS_1:
  "covered (map reset_key (registers_4679)) (map field_key regdefs_18471)"
  by (simp_all add:
    registers_4679_def regdefs_18471_def)

lemma registers_TIMELS_parts:
  "set registers_4679 \<subseteq> set registers_TIMELS"
  by (auto simp: registers_TIMELS_def)

lemma fields_TIMELS_registers: "list_all (has_register registers_TIMELS) fields_TIMELS"
  unfolding fields_TIMELS_def
  by (simp only: list_all_append set_append Un_subset_iff simp_thms registers_TIMELS_parts
    covered_TIMELS_1 [THEN covered_has])

lemma scan_TIMEUS_1:
  "list_all well_formed regdefs_18591" "scan 0 (map extent regdefs_18591) = Some 104"
  by (simp_all add:
    regdefs_18591_def)

lemma fields_TIMEUS_scan: "list_all well_formed fields_TIMEUS" "scan 0 (map extent fields_TIMEUS) = Some 104"
  unfolding fields_TIMEUS_def
  by (simp_all only: map_append scan_append list_all_append option.case simp_thms
    scan_TIMEUS_1)

lemma covered_TIMEUS_1:
  "covered (map reset_key (registers_4727)) (map field_key regdefs_18591)"
  by (simp_all add:
    registers_4727_def regdefs_18591_def)

lemma registers_TIMEUS_parts:
  "set registers_4727 \<subseteq> set registers_TIMEUS"
  by (auto simp: registers_TIMEUS_def)

lemma fields_TIMEUS_registers: "list_all (has_register registers_TIMEUS) fields_TIMEUS"
  unfolding fields_TIMEUS_def
  by (simp only: list_all_append set_append Un_subset_iff simp_thms registers_TIMEUS_parts
    covered_TIMEUS_1 [THEN covered_has])

lemma scan_TRNG_1:
  "list_all well_formed regdefs_18721" "scan 0 (map extent regdefs_18721) = Some 709"
  "list_all well_formed regdefs_18871" "scan 709 (map extent regdefs_18871) = Some 804"
  by (simp_all add:
    regdefs_18721_def regdefs_18871_def)

lemma fields_TRNG_scan: "list_all well_formed fields_TRNG" "scan 0 (map extent fields_TRNG) = Some 804"
  unfolding fields_TRNG_def
  by (simp_all only: map_append scan_append list_all_append option.case simp_thms
    scan_TRNG_1)

lemma covered_TRNG_1:
  "covered (map reset_key (registers_4791)) (map field_key regdefs_18721)"
  "covered (map reset_key (registers_4791)) (map field_key regdefs_18871)"
  by (simp_all add:
    registers_4791_def regdefs_18721_def regdefs_18871_def)

lemma registers_TRNG_parts:
  "set registers_4791 \<subseteq> set registers_TRNG"
  by (auto simp: registers_TRNG_def)

lemma fields_TRNG_registers: "list_all (has_register registers_TRNG) fields_TRNG"
  unfolding fields_TRNG_def
  by (simp only: list_all_append set_append Un_subset_iff simp_thms registers_TRNG_parts
    covered_TRNG_1 [THEN covered_has])

lemma scan_UART_1:
  "list_all well_formed regdefs_18901" "scan 0 (map extent regdefs_18901) = Some 196"
  "list_all well_formed regdefs_19041" "scan 196 (map extent regdefs_19041) = Some 441"
  "list_all well_formed regdefs_19181" "scan 441 (map extent regdefs_19181) = Some 30759"
  by (simp_all add:
    regdefs_18901_def regdefs_19041_def regdefs_19181_def)

lemma fields_UART_scan: "list_all well_formed fields_UART" "scan 0 (map extent fields_UART) = Some 30759"
  unfolding fields_UART_def
  by (simp_all only: map_append scan_append list_all_append option.case simp_thms
    scan_UART_1)

lemma covered_UART_1:
  "covered (map reset_key (registers_4855)) (map field_key regdefs_18901)"
  "covered (map reset_key (registers_4855)) (map field_key regdefs_19041)"
  "covered (map reset_key (registers_4855)) (map field_key regdefs_19181)"
  by (simp_all add:
    registers_4855_def regdefs_18901_def regdefs_19041_def regdefs_19181_def)

lemma registers_UART_parts:
  "set registers_4855 \<subseteq> set registers_UART"
  by (auto simp: registers_UART_def)

lemma fields_UART_registers: "list_all (has_register registers_UART) fields_UART"
  unfolding fields_UART_def
  by (simp only: list_all_append set_append Un_subset_iff simp_thms registers_UART_parts
    covered_UART_1 [THEN covered_has])

lemma scan_VOLT_1:
  "list_all well_formed regdefs_25951" "scan 0 (map extent regdefs_25951) = Some 97"
  by (simp_all add:
    regdefs_25951_def)

lemma fields_VOLT_scan: "list_all well_formed fields_VOLT" "scan 0 (map extent fields_VOLT) = Some 97"
  unfolding fields_VOLT_def
  by (simp_all only: map_append scan_append list_all_append option.case simp_thms
    scan_VOLT_1)

lemma covered_VOLT_1:
  "covered (map reset_key (registers_5332)) (map field_key regdefs_25951)"
  by (simp_all add:
    registers_5332_def regdefs_25951_def)

lemma registers_VOLT_parts:
  "set registers_5332 \<subseteq> set registers_VOLT"
  by (auto simp: registers_VOLT_def)

lemma fields_VOLT_registers: "list_all (has_register registers_VOLT) fields_VOLT"
  unfolding fields_VOLT_def
  by (simp only: list_all_append set_append Un_subset_iff simp_thms registers_VOLT_parts
    covered_VOLT_1 [THEN covered_has])

lemma scan_WATCHDOG_1:
  "list_all well_formed regdefs_25991" "scan 0 (map extent regdefs_25991) = Some 30754"
  by (simp_all add:
    regdefs_25991_def)

lemma fields_WATCHDOG_scan: "list_all well_formed fields_WATCHDOG" "scan 0 (map extent fields_WATCHDOG) = Some 30754"
  unfolding fields_WATCHDOG_def
  by (simp_all only: map_append scan_append list_all_append option.case simp_thms
    scan_WATCHDOG_1)

lemma covered_WATCHDOG_1:
  "covered (map reset_key (registers_5344)) (map field_key regdefs_25991)"
  by (simp_all add:
    registers_5344_def regdefs_25991_def)

lemma registers_WATCHDOG_parts:
  "set registers_5344 \<subseteq> set registers_WATCHDOG"
  by (auto simp: registers_WATCHDOG_def)

lemma fields_WATCHDOG_registers: "list_all (has_register registers_WATCHDOG) fields_WATCHDOG"
  unfolding fields_WATCHDOG_def
  by (simp only: list_all_append set_append Un_subset_iff simp_thms registers_WATCHDOG_parts
    covered_WATCHDOG_1 [THEN covered_has])

lemma scan_XO_1:
  "list_all well_formed regdefs_26011" "scan 0 (map extent regdefs_26011) = Some 1384"
  "list_all well_formed regdefs_26156" "scan 1384 (map extent regdefs_26156) = Some 1992"
  "list_all well_formed regdefs_26306" "scan 1992 (map extent regdefs_26306) = Some 2736"
  "list_all well_formed regdefs_26456" "scan 2736 (map extent regdefs_26456) = Some 3336"
  "list_all well_formed regdefs_26601" "scan 3336 (map extent regdefs_26601) = Some 3941"
  "list_all well_formed regdefs_26751" "scan 3941 (map extent regdefs_26751) = Some 4296"
  "list_all well_formed regdefs_26876" "scan 4296 (map extent regdefs_26876) = Some 4360"
  by (simp_all add:
    regdefs_26011_def regdefs_26156_def regdefs_26306_def regdefs_26456_def regdefs_26601_def
    regdefs_26751_def regdefs_26876_def)

lemma fields_XO_scan: "list_all well_formed fields_XO" "scan 0 (map extent fields_XO) = Some 4360"
  unfolding fields_XO_def
  by (simp_all only: map_append scan_append list_all_append option.case simp_thms
    scan_XO_1)

lemma covered_XO_1:
  "covered (map reset_key (registers_5386 @ registers_5466)) (map field_key regdefs_26011)"
  "covered (map reset_key (registers_5466)) (map field_key regdefs_26156)"
  "covered (map reset_key (registers_5466 @ registers_5546)) (map field_key regdefs_26306)"
  "covered (map reset_key (registers_5546)) (map field_key regdefs_26456)"
  "covered (map reset_key (registers_5546 @ registers_5626)) (map field_key regdefs_26601)"
  "covered (map reset_key (registers_5626)) (map field_key regdefs_26751)"
  by (simp_all add:
    registers_5386_def registers_5466_def registers_5546_def registers_5626_def regdefs_26011_def
    regdefs_26156_def regdefs_26306_def regdefs_26456_def regdefs_26601_def regdefs_26751_def)

lemma covered_XO_2:
  "covered (map reset_key (registers_5626)) (map field_key regdefs_26876)"
  by (simp_all add:
    registers_5626_def regdefs_26876_def)

lemma registers_XO_parts:
  "set registers_5386 \<subseteq> set registers_XO"
  "set registers_5466 \<subseteq> set registers_XO"
  "set registers_5546 \<subseteq> set registers_XO"
  "set registers_5626 \<subseteq> set registers_XO"
  by (auto simp: registers_XO_def)

lemma fields_XO_registers: "list_all (has_register registers_XO) fields_XO"
  unfolding fields_XO_def
  by (simp only: list_all_append set_append Un_subset_iff simp_thms registers_XO_parts
    covered_XO_1 [THEN covered_has] covered_XO_2 [THEN covered_has])

lemma scan_M3_1:
  "list_all well_formed regdefs_26956" "scan 0 (map extent regdefs_26956) = Some 32800"
  "list_all well_formed regdefs_27081" "scan 32800 (map extent regdefs_27081) = Some 65597"
  "list_all well_formed regdefs_27231" "scan 65597 (map extent regdefs_27231) = Some 458936"
  "list_all well_formed regdefs_27381" "scan 458936 (map extent regdefs_27381) = Some 485546"
  "list_all well_formed regdefs_27521" "scan 485546 (map extent regdefs_27521) = Some 487417"
  by (simp_all add:
    regdefs_26956_def regdefs_27081_def regdefs_27231_def regdefs_27381_def regdefs_27521_def)

lemma fields_M3_scan: "list_all well_formed fields_M3" "scan 0 (map extent fields_M3) = Some 487417"
  unfolding fields_M3_def
  by (simp_all only: map_append scan_append list_all_append option.case simp_thms
    scan_M3_1)

lemma covered_M3_1:
  "covered (map reset_key (registers_5661 @ registers_5741)) (map field_key regdefs_26956)"
  "covered (map reset_key (registers_5741 @ registers_5821)) (map field_key regdefs_27081)"
  "covered (map reset_key (registers_5821)) (map field_key regdefs_27231)"
  "covered (map reset_key (registers_5821 @ registers_5901 @ registers_5981)) (map field_key regdefs_27381)"
  "covered (map reset_key (registers_5981)) (map field_key regdefs_27521)"
  by (simp_all add:
    registers_5661_def registers_5741_def registers_5821_def registers_5901_def registers_5981_def
    regdefs_26956_def regdefs_27081_def regdefs_27231_def regdefs_27381_def regdefs_27521_def)

lemma registers_M3_parts:
  "set registers_5661 \<subseteq> set registers_M3"
  "set registers_5741 \<subseteq> set registers_M3"
  "set registers_5821 \<subseteq> set registers_M3"
  "set registers_5901 \<subseteq> set registers_M3"
  "set registers_5981 \<subseteq> set registers_M3"
  "set registers_6061 \<subseteq> set registers_M3"
  by (auto simp: registers_M3_def)

lemma fields_M3_registers: "list_all (has_register registers_M3) fields_M3"
  unfolding fields_M3_def
  by (simp only: list_all_append set_append Un_subset_iff simp_thms registers_M3_parts
    covered_M3_1 [THEN covered_has])

end
