(* ===== verification/RegisterOrder.thy ===== *)
theory RegisterOrder
  imports RegisterWindows RegdefsFuse RegdefsPower RegdefsUsb RegdefsTimer
begin

text \<open>
  The register tables of the second revision (chip/c/hw_b1_regdefs.h) are in ascending order, each
  register behind the word of the one before it (the three registers that share the address of
  another left out), and the last offset of each table.
\<close>

lemma slots_CAMO_1:
  "scan 0 (map slot registers_647) = Some 12"
  by (simp_all add:
    registers_647_def)

lemma registers_CAMO_order: "scan 0 (map slot registers_CAMO) = Some 12"
  unfolding registers_CAMO_def
  by (simp only: map_append filter_append scan_append option.case
    slots_CAMO_1)

lemma registers_CAMO_reach: "reach registers_CAMO = 8"
  using reach_scan [OF registers_CAMO_order] by simp

lemma slots_CRYPTO_1:
  "scan 0 (map slot registers_653) = Some 32772"
  by (simp_all add:
    registers_653_def)

lemma registers_CRYPTO_order: "scan 0 (map slot registers_CRYPTO) = Some 32772"
  unfolding registers_CRYPTO_def
  by (simp only: map_append filter_append scan_append option.case
    slots_CRYPTO_1)

lemma registers_CRYPTO_reach: "reach registers_CRYPTO = 32768"
  using reach_scan [OF registers_CRYPTO_order] by simp

lemma slots_DMA_1:
  "scan 0 (map slot registers_697) = Some 1036"
  "scan 1036 (map slot registers_777) = Some 1832"
  "scan 1832 (map slot registers_857) = Some 2092"
  by (simp_all add:
    registers_697_def registers_777_def registers_857_def)

lemma registers_DMA_order: "scan 0 (map slot registers_DMA) = Some 2092"
  unfolding registers_DMA_def
  by (simp only: map_append filter_append scan_append option.case
    slots_DMA_1)

lemma registers_DMA_reach: "reach registers_DMA = 2088"
  using reach_scan [OF registers_DMA_order] by simp

lemma slots_FLASH_1:
  "scan 0 (map slot registers_881) = Some 160"
  "scan 160 (map slot registers_971) = Some 320"
  "scan 320 (map slot registers_1052) = Some 3848"
  by (simp_all add:
    registers_881_def registers_971_def registers_1052_def)

lemma registers_FLASH_order: "scan 0 (map slot registers_FLASH) = Some 3848"
  unfolding registers_FLASH_def
  by (simp only: map_append filter_append scan_append option.case
    slots_FLASH_1)

lemma registers_FLASH_reach: "reach registers_FLASH = 3844"
  using reach_scan [OF registers_FLASH_order] by simp

lemma slots_FUSE_1:
  "scan 0 (map slot registers_1088) = Some 160"
  "scan 160 (map slot registers_1178) = Some 320"
  "scan 320 (map slot registers_1258) = Some 480"
  "scan 480 (map slot registers_1338) = Some 640"
  "scan 640 (map slot registers_1418) = Some 800"
  "scan 800 (map slot registers_1498) = Some 960"
  "scan 960 (map slot registers_1578) = Some 1096"
  by (simp_all add:
    registers_1088_def registers_1178_def registers_1258_def registers_1338_def registers_1418_def
    registers_1498_def registers_1578_def)

lemma registers_FUSE_order: "scan 0 (map slot registers_FUSE) = Some 1096"
  unfolding registers_FUSE_def
  by (simp only: map_append filter_append scan_append option.case
    slots_FUSE_1)

lemma registers_FUSE_reach: "reach registers_FUSE = 1092"
  using reach_scan [OF registers_FUSE_order] by simp

lemma slots_GLOBALSEC_1:
  "scan 0 (map slot registers_1646) = Some 160"
  "scan 160 (map slot registers_1726) = Some 320"
  "scan 320 (map slot registers_1806) = Some 480"
  "scan 480 (map slot registers_1886) = Some 640"
  "scan 640 (map slot registers_1966) = Some 16400"
  "scan 16400 (map slot registers_2046) = Some 16560"
  "scan 16560 (map slot registers_2126) = Some 45744"
  by (simp_all add:
    registers_1646_def registers_1726_def registers_1806_def registers_1886_def registers_1966_def
    registers_2046_def registers_2126_def)

lemma registers_GLOBALSEC_order: "scan 0 (map slot registers_GLOBALSEC) = Some 45744"
  unfolding registers_GLOBALSEC_def
  by (simp only: map_append filter_append scan_append option.case
    slots_GLOBALSEC_1)

lemma registers_GLOBALSEC_reach: "reach registers_GLOBALSEC = 45740"
  using reach_scan [OF registers_GLOBALSEC_order] by simp

lemma slots_GPIO_1:
  "scan 0 (map slot registers_2158) = Some 1132"
  "scan 1132 (map slot registers_2238) = Some 1292"
  "scan 1292 (map slot registers_2318) = Some 1452"
  "scan 1452 (map slot registers_2398) = Some 1612"
  "scan 1612 (map slot registers_2478) = Some 1772"
  "scan 1772 (map slot registers_2558) = Some 1932"
  "scan 1932 (map slot registers_2638) = Some 2092"
  by (simp_all add:
    registers_2158_def registers_2238_def registers_2318_def registers_2398_def registers_2478_def
    registers_2558_def registers_2638_def)

lemma slots_GPIO_2:
  "scan 2092 (map slot registers_2718) = Some 2252"
  "scan 2252 (map slot registers_2798) = Some 2412"
  "scan 2412 (map slot registers_2878) = Some 2572"
  "scan 2572 (map slot registers_2958) = Some 2732"
  "scan 2732 (map slot registers_3038) = Some 2892"
  "scan 2892 (map slot registers_3118) = Some 3052"
  "scan 3052 (map slot registers_3198) = Some 4096"
  by (simp_all add:
    registers_2718_def registers_2798_def registers_2878_def registers_2958_def registers_3038_def
    registers_3118_def registers_3198_def)

lemma registers_GPIO_order: "scan 0 (map slot registers_GPIO) = Some 4096"
  unfolding registers_GPIO_def
  by (simp only: map_append filter_append scan_append option.case
    slots_GPIO_1 slots_GPIO_2)

lemma registers_GPIO_reach: "reach registers_GPIO = 4092"
  using reach_scan [OF registers_GPIO_order] by simp

lemma slots_I2C_1:
  "scan 0 (map slot registers_3232) = Some 3848"
  by (simp_all add:
    registers_3232_def)

lemma registers_I2C_order: "scan 0 (map slot registers_I2C) = Some 3848"
  unfolding registers_I2C_def
  by (simp only: map_append filter_append scan_append option.case
    slots_I2C_1)

lemma registers_I2C_reach: "reach registers_I2C = 3844"
  using reach_scan [OF registers_I2C_order] by simp

lemma slots_I2CS_1:
  "scan 0 (map slot registers_3300) = Some 160"
  "scan 160 (map slot registers_3380) = Some 180"
  by (simp_all add:
    registers_3300_def registers_3380_def)

lemma registers_I2CS_order: "scan 0 (map slot registers_I2CS) = Some 180"
  unfolding registers_I2CS_def
  by (simp only: map_append filter_append scan_append option.case
    slots_I2CS_1)

lemma registers_I2CS_reach: "reach registers_I2CS = 176"
  using reach_scan [OF registers_I2CS_order] by simp

lemma slots_KEYMGR_1:
  "scan 0 (map slot registers_3390) = Some 192"
  "scan 192 (map slot registers_3470) = Some 8456"
  "scan 8456 (map slot registers_3550) = Some 13064"
  "scan 13064 (map slot registers_3630) = Some 13108"
  by (simp_all add:
    registers_3390_def registers_3470_def registers_3550_def registers_3630_def)

lemma registers_KEYMGR_order: "scan 0 (map slot registers_KEYMGR) = Some 13108"
  unfolding registers_KEYMGR_def
  by (simp only: map_append filter_append scan_append option.case
    slots_KEYMGR_1)

lemma registers_KEYMGR_reach: "reach registers_KEYMGR = 13104"
  using reach_scan [OF registers_KEYMGR_order] by simp

lemma slots_PINMUX_1:
  "scan 0 (map slot registers_3652) = Some 160"
  "scan 160 (map slot registers_3732) = Some 320"
  "scan 320 (map slot registers_3812) = Some 480"
  "scan 480 (map slot registers_3892) = Some 640"
  "scan 640 (map slot registers_3972) = Some 660"
  by (simp_all add:
    registers_3652_def registers_3732_def registers_3812_def registers_3892_def registers_3972_def)

lemma registers_PINMUX_order: "scan 0 (map slot registers_PINMUX) = Some 660"
  unfolding registers_PINMUX_def
  by (simp only: map_append filter_append scan_append option.case
    slots_PINMUX_1)

lemma registers_PINMUX_reach: "reach registers_PINMUX = 656"
  using reach_scan [OF registers_PINMUX_order] by simp

lemma slots_PMU_1:
  "scan 0 (map slot registers_3982) = Some 160"
  "scan 160 (map slot registers_4063) = Some 320"
  "scan 320 (map slot registers_4143) = Some 131072"
  by (simp_all add:
    registers_3982_def registers_4063_def registers_4143_def)

lemma registers_PMU_order: "scan 0 (map slot registers_PMU) = Some 131072"
  unfolding registers_PMU_def
  by (simp only: map_append filter_append scan_append option.case
    slots_PMU_1)

lemma registers_PMU_reach: "reach registers_PMU = 131068"
  using reach_scan [OF registers_PMU_order] by simp

lemma slots_M3_1:
  "scan 0 (map slot registers_5661) = Some 4024"
  "scan 4024 (map slot registers_5741) = Some 8176"
  "scan 8176 (map slot registers_5821) = Some 57732"
  "scan 57732 (map slot registers_5901) = Some 60676"
  "scan 60676 (map slot registers_5981) = Some 270068"
  "scan 270068 (map slot registers_6061) = Some 696364"
  by (simp_all add:
    registers_5661_def registers_5741_def registers_5821_def registers_5901_def registers_5981_def
    registers_6061_def)

lemma registers_M3_order: "scan 0 (map slot registers_M3) = Some 696364"
  unfolding registers_M3_def
  by (simp only: map_append filter_append scan_append option.case
    slots_M3_1)

lemma registers_M3_reach: "reach registers_M3 = 696360"
  using reach_scan [OF registers_M3_order] by simp

lemma slots_RBOX_1:
  "scan 0 (map slot registers_4161) = Some 160"
  "scan 160 (map slot registers_4241) = Some 164"
  by (simp_all add:
    registers_4161_def registers_4241_def)

lemma registers_RBOX_order: "scan 0 (map slot registers_RBOX) = Some 164"
  unfolding registers_RBOX_def
  by (simp only: map_append filter_append scan_append option.case
    slots_RBOX_1)

lemma registers_RBOX_reach: "reach registers_RBOX = 160"
  using reach_scan [OF registers_RBOX_order] by simp

lemma slots_RDD_1:
  "scan 0 (map slot registers_4243) = Some 48"
  by (simp_all add:
    registers_4243_def)

lemma registers_RDD_order: "scan 0 (map slot registers_RDD) = Some 48"
  unfolding registers_RDD_def
  by (simp only: map_append filter_append scan_append option.case
    slots_RDD_1)

lemma registers_RDD_reach: "reach registers_RDD = 44"
  using reach_scan [OF registers_RDD_order] by simp

lemma slots_RTC_1:
  "scan 0 (map slot registers_4267) = Some 20"
  by (simp_all add:
    registers_4267_def)

lemma registers_RTC_order: "scan 0 (map slot registers_RTC) = Some 20"
  unfolding registers_RTC_def
  by (simp only: map_append filter_append scan_append option.case
    slots_RTC_1)

lemma registers_RTC_reach: "reach registers_RTC = 16"
  using reach_scan [OF registers_RTC_order] by simp

lemma slots_SPI_1:
  "scan 0 (map slot (filter own_address registers_4277)) = Some 4228"
  by (simp_all add: own_address_def
    registers_4277_def)

lemma registers_SPI_order: "scan 0 (map slot (filter own_address registers_SPI)) = Some 4228"
  unfolding registers_SPI_def
  by (simp only: map_append filter_append scan_append option.case
    slots_SPI_1)

lemma reach_SPI_parts:
  "reach registers_4277 = 4224"
  by (simp_all add: reach_def
    registers_4277_def)

lemma registers_SPI_reach: "reach registers_SPI = 4224"
  by (simp add: registers_SPI_def reach_append reach_SPI_parts)

lemma slots_SPS_1:
  "scan 0 (map slot (filter own_address registers_4298)) = Some 1080"
  "scan 1080 (map slot (filter own_address registers_4378)) = Some 1240"
  "scan 1240 (map slot (filter own_address registers_4458)) = Some 1400"
  "scan 1400 (map slot (filter own_address registers_4538)) = Some 8196"
  by (simp_all add: own_address_def
    registers_4298_def registers_4378_def registers_4458_def registers_4538_def)

lemma registers_SPS_order: "scan 0 (map slot (filter own_address registers_SPS)) = Some 8196"
  unfolding registers_SPS_def
  by (simp only: map_append filter_append scan_append option.case
    slots_SPS_1)

lemma reach_SPS_parts:
  "reach registers_4298 = 1076"
  "reach registers_4378 = 1236"
  "reach registers_4458 = 1396"
  "reach registers_4538 = 8192"
  by (simp_all add: reach_def
    registers_4298_def registers_4378_def registers_4458_def registers_4538_def)

lemma registers_SPS_reach: "reach registers_SPS = 8192"
  by (simp add: registers_SPS_def reach_append reach_SPS_parts)

lemma slots_SWDP_1:
  "scan 0 (map slot registers_4549) = Some 60"
  by (simp_all add:
    registers_4549_def)

lemma registers_SWDP_order: "scan 0 (map slot registers_SWDP) = Some 60"
  unfolding registers_SWDP_def
  by (simp only: map_append filter_append scan_append option.case
    slots_SWDP_1)

lemma registers_SWDP_reach: "reach registers_SWDP = 56"
  using reach_scan [OF registers_SWDP_order] by simp

lemma slots_TEMP_1:
  "scan 0 (map slot registers_4579) = Some 88"
  by (simp_all add:
    registers_4579_def)

lemma registers_TEMP_order: "scan 0 (map slot registers_TEMP) = Some 88"
  unfolding registers_TEMP_def
  by (simp only: map_append filter_append scan_append option.case
    slots_TEMP_1)

lemma registers_TEMP_reach: "reach registers_TEMP = 84"
  using reach_scan [OF registers_TEMP_order] by simp

lemma slots_TIMEHS_1:
  "scan 0 (map slot registers_4623) = Some 4096"
  by (simp_all add:
    registers_4623_def)

lemma registers_TIMEHS_order: "scan 0 (map slot registers_TIMEHS) = Some 4096"
  unfolding registers_TIMEHS_def
  by (simp only: map_append filter_append scan_append option.case
    slots_TIMEHS_1)

lemma registers_TIMEHS_reach: "reach registers_TIMEHS = 4092"
  using reach_scan [OF registers_TIMEHS_order] by simp

lemma slots_TIMELS_1:
  "scan 0 (map slot registers_4679) = Some 3848"
  by (simp_all add:
    registers_4679_def)

lemma registers_TIMELS_order: "scan 0 (map slot registers_TIMELS) = Some 3848"
  unfolding registers_TIMELS_def
  by (simp only: map_append filter_append scan_append option.case
    slots_TIMELS_1)

lemma registers_TIMELS_reach: "reach registers_TIMELS = 3844"
  using reach_scan [OF registers_TIMELS_order] by simp

lemma slots_TIMEUS_1:
  "scan 0 (map slot registers_4727) = Some 1052"
  by (simp_all add:
    registers_4727_def)

lemma registers_TIMEUS_order: "scan 0 (map slot registers_TIMEUS) = Some 1052"
  unfolding registers_TIMEUS_def
  by (simp only: map_append filter_append scan_append option.case
    slots_TIMEUS_1)

lemma registers_TIMEUS_reach: "reach registers_TIMEUS = 1048"
  using reach_scan [OF registers_TIMEUS_order] by simp

lemma slots_TRNG_1:
  "scan 0 (map slot registers_4791) = Some 128"
  by (simp_all add:
    registers_4791_def)

lemma registers_TRNG_order: "scan 0 (map slot registers_TRNG) = Some 128"
  unfolding registers_TRNG_def
  by (simp only: map_append filter_append scan_append option.case
    slots_TRNG_1)

lemma registers_TRNG_reach: "reach registers_TRNG = 124"
  using reach_scan [OF registers_TRNG_order] by simp

lemma slots_UART_1:
  "scan 0 (map slot registers_4855) = Some 3848"
  by (simp_all add:
    registers_4855_def)

lemma registers_UART_order: "scan 0 (map slot registers_UART) = Some 3848"
  unfolding registers_UART_def
  by (simp only: map_append filter_append scan_append option.case
    slots_UART_1)

lemma registers_UART_reach: "reach registers_UART = 3844"
  using reach_scan [OF registers_UART_order] by simp

lemma slots_USB_1:
  "scan 0 (map slot registers_4887) = Some 2076"
  "scan 2076 (map slot registers_4967) = Some 2492"
  "scan 2492 (map slot registers_5047) = Some 2708"
  "scan 2708 (map slot registers_5127) = Some 2936"
  "scan 2936 (map slot registers_5207) = Some 3192"
  "scan 3192 (map slot registers_5287) = Some 131076"
  by (simp_all add:
    registers_4887_def registers_4967_def registers_5047_def registers_5127_def registers_5207_def
    registers_5287_def)

lemma registers_USB_order: "scan 0 (map slot registers_USB) = Some 131076"
  unfolding registers_USB_def
  by (simp only: map_append filter_append scan_append option.case
    slots_USB_1)

lemma registers_USB_reach: "reach registers_USB = 131072"
  using reach_scan [OF registers_USB_order] by simp

lemma slots_VOLT_1:
  "scan 0 (map slot registers_5332) = Some 24"
  by (simp_all add:
    registers_5332_def)

lemma registers_VOLT_order: "scan 0 (map slot registers_VOLT) = Some 24"
  unfolding registers_VOLT_def
  by (simp only: map_append filter_append scan_append option.case
    slots_VOLT_1)

lemma registers_VOLT_reach: "reach registers_VOLT = 20"
  using reach_scan [OF registers_VOLT_order] by simp

lemma slots_WATCHDOG_1:
  "scan 0 (map slot registers_5344) = Some 4096"
  by (simp_all add:
    registers_5344_def)

lemma registers_WATCHDOG_order: "scan 0 (map slot registers_WATCHDOG) = Some 4096"
  unfolding registers_WATCHDOG_def
  by (simp only: map_append filter_append scan_append option.case
    slots_WATCHDOG_1)

lemma registers_WATCHDOG_reach: "reach registers_WATCHDOG = 4092"
  using reach_scan [OF registers_WATCHDOG_order] by simp

lemma slots_XO_1:
  "scan 0 (map slot registers_5386) = Some 160"
  "scan 160 (map slot registers_5466) = Some 320"
  "scan 320 (map slot registers_5546) = Some 480"
  "scan 480 (map slot registers_5626) = Some 548"
  by (simp_all add:
    registers_5386_def registers_5466_def registers_5546_def registers_5626_def)

lemma registers_XO_order: "scan 0 (map slot registers_XO) = Some 548"
  unfolding registers_XO_def
  by (simp only: map_append filter_append scan_append option.case
    slots_XO_1)

lemma registers_XO_reach: "reach registers_XO = 544"
  using reach_scan [OF registers_XO_order] by simp

end
