(* ===== verification/RegisterMap.thy ===== *)
theory RegisterMap
  imports RegisterOrder
begin

text \<open>
  The peripherals of the second revision of the chip, the one registers.h includes: the base
  addresses of chip/c/hw_b1_regdefs.h with the tables of their modules. There is one entry per
  address: the instances of a module (UART0, UART1 and UART2) share its tables.
\<close>

text \<open>\<open>GBASE\<close>: the \<open>_BASE_ADDR\<close> macros.\<close>

definition base_addresses :: "(string \<times> u32) list" where
  "base_addresses = [
    (''CAMO0'', 0x40560000), (''CAMO'', 0x40560000), (''CRYPTO0'', 0x40420000), (''CRYPTO'',
    0x40420000), (''DMA0'', 0x40430000), (''DMA'', 0x40430000), (''FLASH0'', 0x40720000), (''FLASH'',
    0x40720000), (''FUSE0'', 0x40450000), (''FUSE'', 0x40450000), (''GLOBALSEC'', 0x40090000),
    (''GPIO0'', 0x40200000), (''GPIO'', 0x40200000), (''GPIO1'', 0x40210000), (''I2C0'', 0x40630000),
    (''I2C'', 0x40630000), (''I2C1'', 0x40640000), (''I2CS0'', 0x40530000), (''I2CS'', 0x40530000),
    (''KEYMGR0'', 0x40570000), (''KEYMGR'', 0x40570000), (''PINMUX'', 0x40060000), (''PMU'',
    0x40000000), (''M3'', 0xe0000000), (''RBOX0'', 0x40550000), (''RBOX'', 0x40550000), (''RDD0'',
    0x40440000), (''RDD'', 0x40440000), (''RTC0'', 0x400a0000), (''RTC'', 0x400a0000), (''SPI0'',
    0x40700000), (''SPI'', 0x40700000), (''SPI1'', 0x40710000), (''SPS0'', 0x40510000), (''SPS'',
    0x40510000), (''SWDP0'', 0x40520000), (''SWDP'', 0x40520000), (''TEMP0'', 0x40400000), (''TEMP'',
    0x40400000), (''TIMEHS0'', 0x40650000), (''TIMEHS'', 0x40650000), (''TIMEHS1'', 0x40660000),
    (''TIMELS0'', 0x40540000), (''TIMELS'', 0x40540000), (''TIMEUS0'', 0x40670000), (''TIMEUS'',
    0x40670000), (''TRNG0'', 0x40410000), (''TRNG'', 0x40410000), (''UART0'', 0x40600000), (''UART'',
    0x40600000), (''UART1'', 0x40610000), (''UART2'', 0x40620000), (''USB0'', 0x40300000), (''USB'',
    0x40300000), (''VOLT0'', 0x40460000), (''VOLT'', 0x40460000), (''WATCHDOG0'', 0x40500000),
    (''WATCHDOG'', 0x40500000), (''XO0'', 0x400b0000), (''XO'', 0x400b0000)]"

definition peripherals :: "peripheral list" where
  "peripherals = [
    Peripheral ''CAMO0'' 0x40560000 registers_CAMO fields_CAMO,
    Peripheral ''CRYPTO0'' 0x40420000 registers_CRYPTO fields_CRYPTO,
    Peripheral ''DMA0'' 0x40430000 registers_DMA fields_DMA,
    Peripheral ''FLASH0'' 0x40720000 registers_FLASH fields_FLASH,
    Peripheral ''FUSE0'' 0x40450000 registers_FUSE fields_FUSE,
    Peripheral ''GLOBALSEC'' 0x40090000 registers_GLOBALSEC fields_GLOBALSEC,
    Peripheral ''GPIO0'' 0x40200000 registers_GPIO fields_GPIO,
    Peripheral ''GPIO1'' 0x40210000 registers_GPIO fields_GPIO,
    Peripheral ''I2C0'' 0x40630000 registers_I2C fields_I2C,
    Peripheral ''I2C1'' 0x40640000 registers_I2C fields_I2C,
    Peripheral ''I2CS0'' 0x40530000 registers_I2CS fields_I2CS,
    Peripheral ''KEYMGR0'' 0x40570000 registers_KEYMGR fields_KEYMGR,
    Peripheral ''PINMUX'' 0x40060000 registers_PINMUX fields_PINMUX,
    Peripheral ''PMU'' 0x40000000 registers_PMU fields_PMU,
    Peripheral ''M3'' 0xe0000000 registers_M3 fields_M3,
    Peripheral ''RBOX0'' 0x40550000 registers_RBOX fields_RBOX,
    Peripheral ''RDD0'' 0x40440000 registers_RDD fields_RDD,
    Peripheral ''RTC0'' 0x400a0000 registers_RTC fields_RTC,
    Peripheral ''SPI0'' 0x40700000 registers_SPI fields_SPI,
    Peripheral ''SPI1'' 0x40710000 registers_SPI fields_SPI,
    Peripheral ''SPS0'' 0x40510000 registers_SPS fields_SPS,
    Peripheral ''SWDP0'' 0x40520000 registers_SWDP fields_SWDP,
    Peripheral ''TEMP0'' 0x40400000 registers_TEMP fields_TEMP,
    Peripheral ''TIMEHS0'' 0x40650000 registers_TIMEHS fields_TIMEHS,
    Peripheral ''TIMEHS1'' 0x40660000 registers_TIMEHS fields_TIMEHS,
    Peripheral ''TIMELS0'' 0x40540000 registers_TIMELS fields_TIMELS,
    Peripheral ''TIMEUS0'' 0x40670000 registers_TIMEUS fields_TIMEUS,
    Peripheral ''TRNG0'' 0x40410000 registers_TRNG fields_TRNG,
    Peripheral ''UART0'' 0x40600000 registers_UART fields_UART,
    Peripheral ''UART1'' 0x40610000 registers_UART fields_UART,
    Peripheral ''UART2'' 0x40620000 registers_UART fields_UART,
    Peripheral ''USB0'' 0x40300000 registers_USB fields_USB,
    Peripheral ''VOLT0'' 0x40460000 registers_VOLT fields_VOLT,
    Peripheral ''WATCHDOG0'' 0x40500000 registers_WATCHDOG fields_WATCHDOG,
    Peripheral ''XO0'' 0x400b0000 registers_XO fields_XO]"

text \<open>The checks of the tables carry over to the peripherals.\<close>

lemma peripheral_tables:
  "list_all (\<lambda>p. list_all well_formed (periph_fields p)) peripherals"
  "list_all (\<lambda>p. list_all (has_register (periph_registers p)) (periph_fields p)) peripherals"
  by (simp_all add: peripherals_def
    fields_CAMO_scan fields_CRYPTO_scan fields_DMA_scan fields_FLASH_scan fields_FUSE_scan
    fields_GLOBALSEC_scan fields_GPIO_scan fields_I2C_scan fields_I2CS_scan fields_KEYMGR_scan
    fields_PINMUX_scan fields_PMU_scan fields_RBOX_scan fields_RDD_scan fields_RTC_scan fields_SPI_scan
    fields_SPS_scan fields_SWDP_scan fields_TEMP_scan fields_TIMEHS_scan fields_TIMELS_scan
    fields_TIMEUS_scan fields_TRNG_scan fields_UART_scan fields_USB_scan fields_VOLT_scan
    fields_WATCHDOG_scan fields_XO_scan fields_M3_scan
    fields_CAMO_registers fields_CRYPTO_registers fields_DMA_registers fields_FLASH_registers
    fields_FUSE_registers fields_GLOBALSEC_registers fields_GPIO_registers fields_I2C_registers
    fields_I2CS_registers fields_KEYMGR_registers fields_PINMUX_registers fields_PMU_registers
    fields_RBOX_registers fields_RDD_registers fields_RTC_registers fields_SPI_registers
    fields_SPS_registers fields_SWDP_registers fields_TEMP_registers fields_TIMEHS_registers
    fields_TIMELS_registers fields_TIMEUS_registers fields_TRNG_registers fields_UART_registers
    fields_USB_registers fields_VOLT_registers fields_WATCHDOG_registers fields_XO_registers
    fields_M3_registers)

lemma peripheral_scans: "list_all (\<lambda>p. scan 0 (map extent (periph_fields p)) \<noteq> None) peripherals"
  by (simp add: peripherals_def
    fields_CAMO_scan fields_CRYPTO_scan fields_DMA_scan fields_FLASH_scan fields_FUSE_scan
    fields_GLOBALSEC_scan fields_GPIO_scan fields_I2C_scan fields_I2CS_scan fields_KEYMGR_scan
    fields_PINMUX_scan fields_PMU_scan fields_RBOX_scan fields_RDD_scan fields_RTC_scan fields_SPI_scan
    fields_SPS_scan fields_SWDP_scan fields_TEMP_scan fields_TIMEHS_scan fields_TIMELS_scan
    fields_TIMEUS_scan fields_TRNG_scan fields_UART_scan fields_USB_scan fields_VOLT_scan
    fields_WATCHDOG_scan fields_XO_scan fields_M3_scan)

lemma register_orders: "list_all (\<lambda>p. scan 0 (map slot (ordered_registers p)) \<noteq> None) peripherals"
  by (simp add: peripherals_def ordered_registers_def
    registers_CAMO_order registers_CRYPTO_order registers_DMA_order registers_FLASH_order
    registers_FUSE_order registers_GLOBALSEC_order registers_GPIO_order registers_I2C_order
    registers_I2CS_order registers_KEYMGR_order registers_PINMUX_order registers_PMU_order
    registers_M3_order registers_RBOX_order registers_RDD_order registers_RTC_order
    registers_SPI_order registers_SPS_order registers_SWDP_order registers_TEMP_order
    registers_TIMEHS_order registers_TIMELS_order registers_TIMEUS_order registers_TRNG_order
    registers_UART_order registers_USB_order registers_VOLT_order registers_WATCHDOG_order
    registers_XO_order)

lemma windows_apart: "sorted_wrt apart (map window peripherals)"
  by (simp add: peripherals_def window_def apart_def
    registers_CAMO_reach registers_CRYPTO_reach registers_DMA_reach registers_FLASH_reach
    registers_FUSE_reach registers_GLOBALSEC_reach registers_GPIO_reach registers_I2C_reach
    registers_I2CS_reach registers_KEYMGR_reach registers_PINMUX_reach registers_PMU_reach
    registers_M3_reach registers_RBOX_reach registers_RDD_reach registers_RTC_reach
    registers_SPI_reach registers_SPS_reach registers_SWDP_reach registers_TEMP_reach
    registers_TIMEHS_reach registers_TIMELS_reach registers_TIMEUS_reach registers_TRNG_reach
    registers_UART_reach registers_USB_reach registers_VOLT_reach registers_WATCHDOG_reach
    registers_XO_reach)

lemma windows_fit: "list_all (\<lambda>(s, e). s + 0x20000 \<le> 2 ^ 32 \<and> e \<le> 2 ^ 32) (map window peripherals)"
  by (simp add: peripherals_def window_def
    registers_CAMO_reach registers_CRYPTO_reach registers_DMA_reach registers_FLASH_reach
    registers_FUSE_reach registers_GLOBALSEC_reach registers_GPIO_reach registers_I2C_reach
    registers_I2CS_reach registers_KEYMGR_reach registers_PINMUX_reach registers_PMU_reach
    registers_M3_reach registers_RBOX_reach registers_RDD_reach registers_RTC_reach
    registers_SPI_reach registers_SPS_reach registers_SWDP_reach registers_TEMP_reach
    registers_TIMEHS_reach registers_TIMELS_reach registers_TIMEUS_reach registers_TRNG_reach
    registers_UART_reach registers_USB_reach registers_VOLT_reach registers_WATCHDOG_reach
    registers_XO_reach)

interpretation chip: register_map peripherals
  by unfold_locales (fact peripheral_tables peripheral_scans register_orders windows_apart windows_fit)+

abbreviation CAMO0 :: peripheral where
  "CAMO0 \<equiv> Peripheral ''CAMO0'' 0x40560000 registers_CAMO fields_CAMO"

lemma CAMO0_peripheral: "CAMO0 \<in> set peripherals"
  unfolding peripherals_def by (rule list.set_intros(1))

lemma CAMO0_version:
  "fields_CAMO = [Field ''CAMO_VERSION_CHANGE'' 0 0xffffff 24 0x14125 0x8, Field ''CAMO_VERSION_REVISION'' 24 0xff000000 8 0x1 0x8]"
  by (simp add: fields_CAMO_def regdefs_6293_def)

end
