(* ===== verification/RegisterAliases.thy ===== *)
theory RegisterAliases
  imports RegisterMap
begin

text \<open>
  The names of chip/c/registers.h. A macro with one register behind it is an entry of a table, the
  macros and functions that compute an address are functions, and both are compared with the generated
  tables of chip/c/hw_b1_regdefs.h, which registers.h includes.
\<close>

section \<open>Names\<close>

text \<open>
  The macros with one register each, or one per instance, by module: the name and the register whose
  \<open>_OFFSET\<close> it uses.
\<close>

definition PMU_aliases :: "(string \<times> string) list" where
  "PMU_aliases = [
    (''GR_PMU_RESET'', ''PMU_RESET''), (''GR_PMU_SETRST'', ''PMU_SETRST''), (''GR_PMU_CLRRST'',
    ''PMU_CLRRST''), (''GR_PMU_RSTSRC'', ''PMU_RSTSRC''), (''GR_PMU_GLOBAL_RESET'',
    ''PMU_GLOBAL_RESET''), (''GR_PMU_LOW_POWER_DIS'', ''PMU_LOW_POWER_DIS''), (''GR_PMU_SETDIS'',
    ''PMU_SETDIS''), (''GR_PMU_CLRDIS'', ''PMU_CLRDIS''), (''GR_PMU_STATDIS'', ''PMU_STATDIS''),
    (''GR_PMU_SETWIC'', ''PMU_SETWIC''), (''GR_PMU_CLRWIC'', ''PMU_CLRWIC''), (''GR_PMU_SYSVTOR'',
    ''PMU_SYSVTOR''), (''GR_PMU_EXCLUSIVE'', ''PMU_EXCLUSIVE''), (''GR_PMU_DAP_ID0'', ''PMU_DAP_ID0''),
    (''GR_PMU_DAP_EN'', ''PMU_DAP_EN''), (''GR_PMU_DAP_LOCK'', ''PMU_DAP_LOCK''),
    (''GR_PMU_DAP_UNLOCK'', ''PMU_DAP_UNLOCK''), (''GR_PMU_NAP_EN'', ''PMU_NAP_EN''), (''GR_PMU_VREF'',
    ''PMU_VREF''), (''GR_PMU_VREFCMP'', ''PMU_VREFCMP''), (''GR_PMU_RBIAS'', ''PMU_RBIAS''),
    (''GR_PMU_RBIASLO'', ''PMU_RBIASLO''), (''GR_PMU_RBIASHI'', ''PMU_RBIASHI''),
    (''GR_PMU_SETHOLDVREF'', ''PMU_SETHOLDVREF''), (''GR_PMU_CLRHOLDVREF'', ''PMU_CLRHOLDVREF''),
    (''GR_PMU_BAT_LVL_OK'', ''PMU_BAT_LVL_OK''), (''GR_PMU_B_REG_DIG_CTRL'', ''PMU_B_REG_DIG_CTRL''),
    (''GR_PMU_B_REG_DIG_LATCH_CTRL'', ''PMU_B_REG_DIG_LATCH_CTRL''), (''GR_PMU_EXITPD_HOLD_SET'',
    ''PMU_EXITPD_HOLD_SET''), (''GR_PMU_EXITPD_HOLD_CLR'', ''PMU_EXITPD_HOLD_CLR''),
    (''GR_PMU_EXITPD_MASK'', ''PMU_EXITPD_MASK''), (''GR_PMU_EXITPD_SRC'', ''PMU_EXITPD_SRC''),
    (''GR_PMU_EXITPD_MON'', ''PMU_EXITPD_MON''), (''GR_PMU_OSC_HOLD_SET'', ''PMU_OSC_HOLD_SET''),
    (''GR_PMU_OSC_HOLD_CLR'', ''PMU_OSC_HOLD_CLR''), (''GR_PMU_OSC_SELECT'', ''PMU_OSC_SELECT''),
    (''GR_PMU_OSC_SELECT_STAT'', ''PMU_OSC_SELECT_STAT''), (''GR_PMU_OSC_CTRL'', ''PMU_OSC_CTRL''),
    (''GR_PMU_MEMCLKSET'', ''PMU_MEMCLKSET''), (''GR_PMU_MEMCLKCLR'', ''PMU_MEMCLKCLR''),
    (''GR_PMU_PERICLKSET0'', ''PMU_PERICLKSET0''), (''GR_PMU_PERICLKCLR0'', ''PMU_PERICLKCLR0''),
    (''GR_PMU_PERICLKSET1'', ''PMU_PERICLKSET1''), (''GR_PMU_PERICLKCLR1'', ''PMU_PERICLKCLR1''),
    (''GR_PMU_PERIGATEONSLEEPSET0'', ''PMU_PERIGATEONSLEEPSET0''), (''GR_PMU_PERIGATEONSLEEPCLR0'',
    ''PMU_PERIGATEONSLEEPCLR0''), (''GR_PMU_PERIGATEONSLEEPSET1'', ''PMU_PERIGATEONSLEEPSET1''),
    (''GR_PMU_PERIGATEONSLEEPCLR1'', ''PMU_PERIGATEONSLEEPCLR1''), (''GR_PMU_CLK0'', ''PMU_CLK0''),
    (''GR_PMU_CLK1'', ''PMU_CLK1''), (''GR_PMU_RST0'', ''PMU_RST0''), (''GR_PMU_RST1'', ''PMU_RST1''),
    (''GR_PMU_PWRDN_SCRATCH_HOLD_SET'', ''PMU_PWRDN_SCRATCH_HOLD_SET''),
    (''GR_PMU_PWRDN_SCRATCH_HOLD_CLR'', ''PMU_PWRDN_SCRATCH_HOLD_CLR''), (''GR_PMU_PWRDN_SCRATCH0'',
    ''PMU_PWRDN_SCRATCH0''), (''GR_PMU_PWRDN_SCRATCH1'', ''PMU_PWRDN_SCRATCH1''),
    (''GR_PMU_PWRDN_SCRATCH2'', ''PMU_PWRDN_SCRATCH2''), (''GR_PMU_PWRDN_SCRATCH3'',
    ''PMU_PWRDN_SCRATCH3''), (''GR_PMU_FUSE_RD_RC_OSC_26MHZ'', ''PMU_FUSE_RD_RC_OSC_26MHZ''),
    (''GR_PMU_FUSE_RD_XTL_OSC_26MHZ'', ''PMU_FUSE_RD_XTL_OSC_26MHZ'')]"

definition UART_aliases :: "(string \<times> string) list" where
  "UART_aliases = [
    (''GR_UART_RDATA'', ''UART_RDATA''), (''GR_UART_WDATA'', ''UART_WDATA''), (''GR_UART_NCO'',
    ''UART_NCO''), (''GR_UART_CTRL'', ''UART_CTRL''), (''GR_UART_ICTRL'', ''UART_ICTRL''),
    (''GR_UART_STATE'', ''UART_STATE''), (''GR_UART_STATECLR'', ''UART_STATECLR''), (''GR_UART_ISTATE'',
    ''UART_ISTATE''), (''GR_UART_ISTATECLR'', ''UART_ISTATECLR''), (''GR_UART_FIFO'', ''UART_FIFO''),
    (''GR_UART_RFIFO'', ''UART_RFIFO''), (''GR_UART_VAL'', ''UART_VAL'')]"

definition GPIO_aliases :: "(string \<times> string) list" where
  "GPIO_aliases = [
    (''GR_GPIO_DATAIN'', ''GPIO_DATAIN''), (''GR_GPIO_DOUT'', ''GPIO_DOUT''), (''GR_GPIO_SETDOUTEN'',
    ''GPIO_SETDOUTEN''), (''GR_GPIO_CLRDOUTEN'', ''GPIO_CLRDOUTEN''), (''GR_GPIO_SETINTEN'',
    ''GPIO_SETINTEN''), (''GR_GPIO_CLRINTEN'', ''GPIO_CLRINTEN''), (''GR_GPIO_SETINTTYPE'',
    ''GPIO_SETINTTYPE''), (''GR_GPIO_CLRINTTYPE'', ''GPIO_CLRINTTYPE''), (''GR_GPIO_SETINTPOL'',
    ''GPIO_SETINTPOL''), (''GR_GPIO_CLRINTPOL'', ''GPIO_CLRINTPOL''), (''GR_GPIO_CLRINTSTAT'',
    ''GPIO_CLRINTSTAT'')]"

definition TIMEHS_aliases :: "(string \<times> string) list" where
  "TIMEHS_aliases = [
    (''GR_TIMEHS_LOAD'', ''TIMEHS_TIMER1LOAD''), (''GR_TIMEHS_VALUE'', ''TIMEHS_TIMER1VALUE''),
    (''GR_TIMEHS_CONTROL'', ''TIMEHS_TIMER1CONTROL''), (''GR_TIMEHS_INTCLR'', ''TIMEHS_TIMER1INTCLR''),
    (''GR_TIMEHS_RIS'', ''TIMEHS_TIMER1RIS''), (''GR_TIMEHS_MIS'', ''TIMEHS_TIMER1MIS''),
    (''GR_TIMEHS_BGLOAD'', ''TIMEHS_TIMER1BGLOAD'')]"

definition WATCHDOG_aliases :: "(string \<times> string) list" where
  "WATCHDOG_aliases = [
    (''GR_WATCHDOG_LOAD'', ''WATCHDOG_WDOGLOAD''), (''GR_WATCHDOG_VALUE'', ''WATCHDOG_WDOGVALUE''),
    (''GR_WATCHDOG_CTL'', ''WATCHDOG_WDOGCONTROL''), (''GR_WATCHDOG_ICR'', ''WATCHDOG_WDOGINTCLR''),
    (''GR_WATCHDOG_RIS'', ''WATCHDOG_WDOGRIS''), (''GR_WATCHDOG_LOCK'', ''WATCHDOG_WDOGLOCK''),
    (''GR_WATCHDOG_ITCR'', ''WATCHDOG_WDOGITCR''), (''GR_WATCHDOG_ITOP'', ''WATCHDOG_WDOGITOP'')]"

definition XO_aliases :: "(string \<times> string) list" where
  "XO_aliases = [
    (''GR_XO_OSC_CLKOUT'', ''XO_OSC_CLKOUT''), (''GR_XO_OSC_ADC_CAL_FREQ2X'',
    ''XO_OSC_ADC_CAL_FREQ2X''), (''GR_XO_OSC_ADC_CAL_FREQ2X_STAT'', ''XO_OSC_ADC_CAL_FREQ2X_STAT''),
    (''GR_XO_OSC_24_48B_SEL'', ''XO_OSC_24_48B_SEL''), (''GR_XO_OSC_TEST'', ''XO_OSC_TEST''),
    (''GR_XO_OSC_RC_CAL_RSTB'', ''XO_OSC_RC_CAL_RSTB''), (''GR_XO_OSC_RC_CAL_LOAD'',
    ''XO_OSC_RC_CAL_LOAD''), (''GR_XO_OSC_RC_CAL_START'', ''XO_OSC_RC_CAL_START''),
    (''GR_XO_OSC_RC_CAL_DONE'', ''XO_OSC_RC_CAL_DONE''), (''GR_XO_OSC_RC_CAL_COUNT'',
    ''XO_OSC_RC_CAL_COUNT''), (''GR_XO_OSC_RC'', ''XO_OSC_RC''), (''GR_XO_OSC_RC_STATUS'',
    ''XO_OSC_RC_STATUS''), (''GR_XO_OSC_XTL_TRIMD'', ''XO_OSC_XTL_TRIMD''), (''GR_XO_OSC_XTL_TRIMG'',
    ''XO_OSC_XTL_TRIMG''), (''GR_XO_OSC_XTL_CTRL'', ''XO_OSC_XTL_CTRL''), (''GR_XO_OSC_XTL_RC_FLTR'',
    ''XO_OSC_XTL_RC_FLTR''), (''GR_XO_OSC_XTL_OVRD'', ''XO_OSC_XTL_OVRD''),
    (''GR_XO_OSC_XTL_OVRD_HOLDB'', ''XO_OSC_XTL_OVRD_HOLDB''), (''GR_XO_OSC_XTL_TRIM'',
    ''XO_OSC_XTL_TRIM''), (''GR_XO_OSC_XTL_TRIM_STAT'', ''XO_OSC_XTL_TRIM_STAT''),
    (''GR_XO_OSC_XTL_FSM_EN'', ''XO_OSC_XTL_FSM_EN''), (''GR_XO_OSC_XTL_FSM'', ''XO_OSC_XTL_FSM''),
    (''GR_XO_OSC_XTL_FSM_CFG'', ''XO_OSC_XTL_FSM_CFG''), (''GR_XO_OSC_SETHOLD'', ''XO_OSC_SETHOLD''),
    (''GR_XO_OSC_CLRHOLD'', ''XO_OSC_CLRHOLD'')]"

definition USB_aliases :: "(string \<times> string) list" where
  "USB_aliases = [
    (''GR_USB_GAHBCFG'', ''USB_GAHBCFG''), (''GR_USB_GUSBCFG'', ''USB_GUSBCFG''), (''GR_USB_GRSTCTL'',
    ''USB_GRSTCTL''), (''GR_USB_GINTSTS'', ''USB_GINTSTS''), (''GR_USB_GINTMSK'', ''USB_GINTMSK''),
    (''GR_USB_GRXSTSR'', ''USB_GRXSTSR''), (''GR_USB_GRXSTSP'', ''USB_GRXSTSP''), (''GR_USB_GRXFSIZ'',
    ''USB_GRXFSIZ''), (''GR_USB_GNPTXFSIZ'', ''USB_GNPTXFSIZ''), (''GR_USB_GGPIO'', ''USB_GGPIO''),
    (''GR_USB_GSNPSID'', ''USB_GSNPSID''), (''GR_USB_GHWCFG1'', ''USB_GHWCFG1''), (''GR_USB_GHWCFG2'',
    ''USB_GHWCFG2''), (''GR_USB_GHWCFG3'', ''USB_GHWCFG3''), (''GR_USB_GHWCFG4'', ''USB_GHWCFG4''),
    (''GR_USB_GDFIFOCFG'', ''USB_GDFIFOCFG''), (''GR_USB_DCFG'', ''USB_DCFG''), (''GR_USB_DCTL'',
    ''USB_DCTL''), (''GR_USB_DSTS'', ''USB_DSTS''), (''GR_USB_DIEPMSK'', ''USB_DIEPMSK''),
    (''GR_USB_DOEPMSK'', ''USB_DOEPMSK''), (''GR_USB_DAINT'', ''USB_DAINT''), (''GR_USB_DAINTMSK'',
    ''USB_DAINTMSK''), (''GR_USB_DTHRCTL'', ''USB_DTHRCTL''), (''GR_USB_DIEPEMPMSK'',
    ''USB_DIEPEMPMSK'')]"


definition has_name :: "register list \<Rightarrow> string \<Rightarrow> bool" where
  "has_name rs n \<longleftrightarrow> n \<in> set (map reg_name rs)"

definition dangling :: "register list \<Rightarrow> (string \<times> string) list \<Rightarrow> string list" where
  "dangling rs as = map fst (filter (\<lambda>(a, n). \<not> has_name rs n) as)"

text \<open>The names without a register.\<close>

definition dangling_PMU :: "string list" where
  "dangling_PMU =
    [''GR_PMU_SETDIS'', ''GR_PMU_CLRDIS'', ''GR_PMU_STATDIS'', ''GR_PMU_EXCLUSIVE'',
      ''GR_PMU_DAP_ID0'', ''GR_PMU_DAP_EN'', ''GR_PMU_DAP_LOCK'', ''GR_PMU_DAP_UNLOCK'',
      ''GR_PMU_VREFCMP'', ''GR_PMU_RBIAS'', ''GR_PMU_RBIASLO'', ''GR_PMU_RBIASHI'',
      ''GR_PMU_SETHOLDVREF'', ''GR_PMU_CLRHOLDVREF'', ''GR_PMU_B_REG_DIG_LATCH_CTRL'',
      ''GR_PMU_EXITPD_HOLD_SET'', ''GR_PMU_EXITPD_HOLD_CLR'', ''GR_PMU_OSC_HOLD_SET'',
      ''GR_PMU_OSC_HOLD_CLR'', ''GR_PMU_OSC_SELECT'', ''GR_PMU_OSC_SELECT_STAT'', ''GR_PMU_CLK1'',
      ''GR_PMU_PWRDN_SCRATCH_HOLD_SET'', ''GR_PMU_PWRDN_SCRATCH_HOLD_CLR'',
      ''GR_PMU_FUSE_RD_RC_OSC_26MHZ'', ''GR_PMU_FUSE_RD_XTL_OSC_26MHZ'']"

definition dangling_XO :: "string list" where
  "dangling_XO =
    [''GR_XO_OSC_CLKOUT'', ''GR_XO_OSC_ADC_CAL_FREQ2X'', ''GR_XO_OSC_ADC_CAL_FREQ2X_STAT'',
      ''GR_XO_OSC_24_48B_SEL'', ''GR_XO_OSC_RC_CAL_RSTB'', ''GR_XO_OSC_RC_CAL_LOAD'',
      ''GR_XO_OSC_RC_CAL_START'', ''GR_XO_OSC_RC_CAL_DONE'', ''GR_XO_OSC_RC_CAL_COUNT'',
      ''GR_XO_OSC_RC'', ''GR_XO_OSC_RC_STATUS'', ''GR_XO_OSC_SETHOLD'', ''GR_XO_OSC_CLRHOLD'']"

section \<open>Computed addresses\<close>

definition GBASE :: "string \<Rightarrow> u32" where
  "GBASE mname = the (map_of base_addresses mname)"

text \<open>The functions of the headers compute in \<open>int\<close>; the addresses are below 2^31.\<close>

definition x_uart_addr :: "u32 \<Rightarrow> u32 \<Rightarrow> u32" where
  "x_uart_addr ch offset = offset + GBASE ''UART0'' + (GBASE ''UART1'' - GBASE ''UART0'') * ch"

definition GC_TIMEHS_TIMER1LOAD_OFFSET :: u32 where "GC_TIMEHS_TIMER1LOAD_OFFSET = 0x0"
definition GC_TIMEHS_TIMER2LOAD_OFFSET :: u32 where "GC_TIMEHS_TIMER2LOAD_OFFSET = 0x20"

definition x_timehs_addr :: "u32 \<Rightarrow> u32 \<Rightarrow> u32 \<Rightarrow> u32" where
  "x_timehs_addr module timer offset =
     GBASE ''TIMEHS0'' + (GBASE ''TIMEHS1'' - GBASE ''TIMEHS0'') * module + GC_TIMEHS_TIMER1LOAD_OFFSET +
     (GC_TIMEHS_TIMER2LOAD_OFFSET - GC_TIMEHS_TIMER1LOAD_OFFSET) * (timer - 1) + offset"

definition GR_GPIO_REG :: "u32 \<Rightarrow> u32 \<Rightarrow> u32" where
  "GR_GPIO_REG n off = GBASE ''GPIO0'' + n * 0x10000 + off"

definition GC_PINMUX_GPIO0_GPIO0_SEL_OFFSET :: u32 where "GC_PINMUX_GPIO0_GPIO0_SEL_OFFSET = 0xf8"

definition GET_GPIO_SEL_REG :: "u32 \<Rightarrow> u32 \<Rightarrow> u32" where
  "GET_GPIO_SEL_REG port bitnum =
     GBASE ''PINMUX'' + GC_PINMUX_GPIO0_GPIO0_SEL_OFFSET + 64 * port + 4 * bitnum"

definition GR_XO_JTR_JITTERY_TRIM_BANK :: "u32 \<Rightarrow> u32" where
  "GR_XO_JTR_JITTERY_TRIM_BANK n = GBASE ''XO0'' + (0x34 + n * 4)"

definition GR_USB_REG :: "u32 \<Rightarrow> u32" where
  "GR_USB_REG off = GBASE ''USB0'' + off"

definition GC_USB_DIEPTXF1_OFFSET :: u32 where "GC_USB_DIEPTXF1_OFFSET = 0x104"

definition GR_USB_DIEPTXF :: "u32 \<Rightarrow> u32" where
  "GR_USB_DIEPTXF n = GR_USB_REG (GC_USB_DIEPTXF1_OFFSET - 4 + n * 4)"

definition GR_USB_EPIREG :: "u32 \<Rightarrow> u32 \<Rightarrow> u32" where
  "GR_USB_EPIREG off n = GR_USB_REG (0x900 + n * 0x20 + off)"

definition GR_USB_EPOREG :: "u32 \<Rightarrow> u32 \<Rightarrow> u32" where
  "GR_USB_EPOREG off n = GR_USB_REG (0xb00 + n * 0x20 + off)"

text \<open>The registers of an endpoint.\<close>

definition in_endpoint :: "u32 \<Rightarrow> (string \<times> u32) list" where
  "in_endpoint n =
    [(''DIEPCTL'', GR_USB_EPIREG 0x00 n), (''DIEPINT'', GR_USB_EPIREG 0x08 n), (''DIEPTSIZ'', GR_USB_EPIREG 0x10 n),
     (''DIEPDMA'', GR_USB_EPIREG 0x14 n), (''DTXFSTS'', GR_USB_EPIREG 0x18 n), (''DIEPDMAB'', GR_USB_EPIREG 0x1c n)]"

definition out_endpoint :: "u32 \<Rightarrow> (string \<times> u32) list" where
  "out_endpoint n =
    [(''DOEPCTL'', GR_USB_EPOREG 0x00 n), (''DOEPINT'', GR_USB_EPOREG 0x08 n), (''DOEPTSIZ'', GR_USB_EPOREG 0x10 n),
     (''DOEPDMA'', GR_USB_EPOREG 0x14 n), (''DOEPDMAB'', GR_USB_EPOREG 0x1c n)]"

section \<open>Comparison with the tables\<close>

definition decimal :: "nat \<Rightarrow> string" where
  "decimal n = (if n < 10 then [] else [''0123456789'' ! (n div 10)]) @ [''0123456789'' ! (n mod 10)]"

definition indices :: "nat \<Rightarrow> nat \<Rightarrow> (nat \<Rightarrow> (string \<times> u32) list) \<Rightarrow> (string \<times> u32) list" where
  "indices a b f = concat (map f [a..<b])"

text \<open>The registers of a table between two offsets, at the addresses they have behind a base.\<close>

definition between :: "int \<Rightarrow> int \<Rightarrow> u32 \<Rightarrow> register list \<Rightarrow> (string \<times> u32) list" where
  "between lo hi b rs =
     map (\<lambda>r. (reg_name r, b + word_of_int (reg_offset r))) (filter (\<lambda>r. lo \<le> reg_offset r \<and> reg_offset r < hi) rs)"

lemma GBASE_simps:
  "GBASE ''UART0'' = 0x40600000" "GBASE ''UART1'' = 0x40610000" "GBASE ''UART2'' = 0x40620000"
  "GBASE ''TIMEHS0'' = 0x40650000" "GBASE ''TIMEHS1'' = 0x40660000" "GBASE ''GPIO0'' = 0x40200000"
  "GBASE ''GPIO1'' = 0x40210000" "GBASE ''PINMUX'' = 0x40060000" "GBASE ''XO0'' = 0x400b0000" "GBASE ''USB0'' = 0x40300000"
  by (simp_all add: GBASE_def base_addresses_def)

text \<open>
  A name that a table has is found in a part of the table; one that it does not have has another hash
  than all the names of the table.
\<close>

fun hash :: "int \<Rightarrow> string \<Rightarrow> int" where
  "hash h [] = h"
| "hash h (c # cs) = hash ((31 * h + of_char c) mod 65537) cs"

definition name_hash :: "register \<Rightarrow> int" where
  "name_hash r = hash 0 (reg_name r)"

lemma name_hash_simp [simp]: "name_hash (Register n x d) = hash 0 n"
  by (simp add: name_hash_def)

fun misses :: "int list \<Rightarrow> string list \<Rightarrow> bool" where
  "misses ks [] \<longleftrightarrow> True"
| "misses ks (n # ns) \<longleftrightarrow> hash 0 n \<notin> set ks \<and> misses ks ns"

lemma misses_names: "misses (map name_hash rs) ns \<Longrightarrow> list_all (\<lambda>n. \<not> has_name rs n) ns"
  by (induction ns) (auto simp: has_name_def name_hash_def)

lemma has_name_append: "has_name (rs @ rs') n \<longleftrightarrow> has_name rs n \<or> has_name rs' n"
  by (simp add: has_name_def)

lemma names_PMU:
  "list_all (has_name registers_3982)
    [''PMU_RESET'', ''PMU_SETRST'', ''PMU_CLRRST'', ''PMU_RSTSRC'', ''PMU_GLOBAL_RESET'',
      ''PMU_LOW_POWER_DIS'', ''PMU_SETWIC'', ''PMU_CLRWIC'', ''PMU_SYSVTOR'', ''PMU_NAP_EN'',
      ''PMU_VREF'', ''PMU_BAT_LVL_OK'', ''PMU_B_REG_DIG_CTRL'', ''PMU_EXITPD_MASK'', ''PMU_EXITPD_SRC'',
      ''PMU_EXITPD_MON'', ''PMU_OSC_CTRL'', ''PMU_MEMCLKSET'', ''PMU_MEMCLKCLR'', ''PMU_PERICLKSET0'',
      ''PMU_PERICLKCLR0'', ''PMU_PERICLKSET1'', ''PMU_PERICLKCLR1'', ''PMU_PERIGATEONSLEEPSET0'',
      ''PMU_PERIGATEONSLEEPCLR0'', ''PMU_PERIGATEONSLEEPSET1'', ''PMU_PERIGATEONSLEEPCLR1'',
      ''PMU_CLK0'', ''PMU_RST0'', ''PMU_RST1'']"
  "list_all (has_name registers_4063)
    [''PMU_PWRDN_SCRATCH0'', ''PMU_PWRDN_SCRATCH1'', ''PMU_PWRDN_SCRATCH2'', ''PMU_PWRDN_SCRATCH3'']"
  by (simp_all add: has_name_def
    registers_3982_def registers_4063_def)

lemma no_names_PMU_3982:
  "misses (map name_hash registers_3982)
    [''PMU_SETDIS'', ''PMU_CLRDIS'', ''PMU_STATDIS'', ''PMU_EXCLUSIVE'', ''PMU_DAP_ID0'',
      ''PMU_DAP_EN'', ''PMU_DAP_LOCK'', ''PMU_DAP_UNLOCK'', ''PMU_VREFCMP'', ''PMU_RBIAS'',
      ''PMU_RBIASLO'', ''PMU_RBIASHI'', ''PMU_SETHOLDVREF'', ''PMU_CLRHOLDVREF'',
      ''PMU_B_REG_DIG_LATCH_CTRL'', ''PMU_EXITPD_HOLD_SET'', ''PMU_EXITPD_HOLD_CLR'',
      ''PMU_OSC_HOLD_SET'', ''PMU_OSC_HOLD_CLR'', ''PMU_OSC_SELECT'', ''PMU_OSC_SELECT_STAT'',
      ''PMU_CLK1'', ''PMU_PWRDN_SCRATCH_HOLD_SET'', ''PMU_PWRDN_SCRATCH_HOLD_CLR'',
      ''PMU_FUSE_RD_RC_OSC_26MHZ'', ''PMU_FUSE_RD_XTL_OSC_26MHZ'']"
  by (simp add: registers_3982_def)

lemma no_names_PMU_4063:
  "misses (map name_hash registers_4063)
    [''PMU_SETDIS'', ''PMU_CLRDIS'', ''PMU_STATDIS'', ''PMU_EXCLUSIVE'', ''PMU_DAP_ID0'',
      ''PMU_DAP_EN'', ''PMU_DAP_LOCK'', ''PMU_DAP_UNLOCK'', ''PMU_VREFCMP'', ''PMU_RBIAS'',
      ''PMU_RBIASLO'', ''PMU_RBIASHI'', ''PMU_SETHOLDVREF'', ''PMU_CLRHOLDVREF'',
      ''PMU_B_REG_DIG_LATCH_CTRL'', ''PMU_EXITPD_HOLD_SET'', ''PMU_EXITPD_HOLD_CLR'',
      ''PMU_OSC_HOLD_SET'', ''PMU_OSC_HOLD_CLR'', ''PMU_OSC_SELECT'', ''PMU_OSC_SELECT_STAT'',
      ''PMU_CLK1'', ''PMU_PWRDN_SCRATCH_HOLD_SET'', ''PMU_PWRDN_SCRATCH_HOLD_CLR'',
      ''PMU_FUSE_RD_RC_OSC_26MHZ'', ''PMU_FUSE_RD_XTL_OSC_26MHZ'']"
  by (simp add: registers_4063_def)

lemma no_names_PMU_4143:
  "misses (map name_hash registers_4143)
    [''PMU_SETDIS'', ''PMU_CLRDIS'', ''PMU_STATDIS'', ''PMU_EXCLUSIVE'', ''PMU_DAP_ID0'',
      ''PMU_DAP_EN'', ''PMU_DAP_LOCK'', ''PMU_DAP_UNLOCK'', ''PMU_VREFCMP'', ''PMU_RBIAS'',
      ''PMU_RBIASLO'', ''PMU_RBIASHI'', ''PMU_SETHOLDVREF'', ''PMU_CLRHOLDVREF'',
      ''PMU_B_REG_DIG_LATCH_CTRL'', ''PMU_EXITPD_HOLD_SET'', ''PMU_EXITPD_HOLD_CLR'',
      ''PMU_OSC_HOLD_SET'', ''PMU_OSC_HOLD_CLR'', ''PMU_OSC_SELECT'', ''PMU_OSC_SELECT_STAT'',
      ''PMU_CLK1'', ''PMU_PWRDN_SCRATCH_HOLD_SET'', ''PMU_PWRDN_SCRATCH_HOLD_CLR'',
      ''PMU_FUSE_RD_RC_OSC_26MHZ'', ''PMU_FUSE_RD_XTL_OSC_26MHZ'']"
  by (simp add: registers_4143_def)

lemma named_PMU: "dangling registers_PMU PMU_aliases = dangling_PMU"
  using no_names_PMU_3982 [THEN misses_names] no_names_PMU_4063 [THEN misses_names] no_names_PMU_4143 [THEN misses_names]
    names_PMU
  by (simp add: dangling_def PMU_aliases_def dangling_PMU_def registers_PMU_def has_name_append)

lemma names_UART:
  "list_all (has_name registers_4855)
    [''UART_RDATA'', ''UART_WDATA'', ''UART_NCO'', ''UART_CTRL'', ''UART_ICTRL'', ''UART_STATE'',
      ''UART_STATECLR'', ''UART_ISTATE'', ''UART_ISTATECLR'', ''UART_FIFO'', ''UART_RFIFO'',
      ''UART_VAL'']"
  by (simp_all add: has_name_def
    registers_4855_def)

lemma named_UART: "dangling registers_UART UART_aliases = []"
  using names_UART
  by (simp add: dangling_def UART_aliases_def registers_UART_def has_name_append)

lemma names_GPIO:
  "list_all (has_name registers_2158)
    [''GPIO_DATAIN'', ''GPIO_DOUT'', ''GPIO_SETDOUTEN'', ''GPIO_CLRDOUTEN'', ''GPIO_SETINTEN'',
      ''GPIO_CLRINTEN'', ''GPIO_SETINTTYPE'', ''GPIO_CLRINTTYPE'', ''GPIO_SETINTPOL'',
      ''GPIO_CLRINTPOL'', ''GPIO_CLRINTSTAT'']"
  by (simp_all add: has_name_def
    registers_2158_def)

lemma named_GPIO: "dangling registers_GPIO GPIO_aliases = []"
  using names_GPIO
  by (simp add: dangling_def GPIO_aliases_def registers_GPIO_def has_name_append)

lemma names_TIMEHS:
  "list_all (has_name registers_4623)
    [''TIMEHS_TIMER1LOAD'', ''TIMEHS_TIMER1VALUE'', ''TIMEHS_TIMER1CONTROL'', ''TIMEHS_TIMER1INTCLR'',
      ''TIMEHS_TIMER1RIS'', ''TIMEHS_TIMER1MIS'', ''TIMEHS_TIMER1BGLOAD'']"
  by (simp_all add: has_name_def
    registers_4623_def)

lemma named_TIMEHS: "dangling registers_TIMEHS TIMEHS_aliases = []"
  using names_TIMEHS
  by (simp add: dangling_def TIMEHS_aliases_def registers_TIMEHS_def has_name_append)

lemma names_WATCHDOG:
  "list_all (has_name registers_5344)
    [''WATCHDOG_WDOGLOAD'', ''WATCHDOG_WDOGVALUE'', ''WATCHDOG_WDOGCONTROL'', ''WATCHDOG_WDOGINTCLR'',
      ''WATCHDOG_WDOGRIS'', ''WATCHDOG_WDOGLOCK'', ''WATCHDOG_WDOGITCR'', ''WATCHDOG_WDOGITOP'']"
  by (simp_all add: has_name_def
    registers_5344_def)

lemma named_WATCHDOG: "dangling registers_WATCHDOG WATCHDOG_aliases = []"
  using names_WATCHDOG
  by (simp add: dangling_def WATCHDOG_aliases_def registers_WATCHDOG_def has_name_append)

lemma names_XO:
  "list_all (has_name registers_5546)
    [''XO_OSC_XTL_TRIMD'', ''XO_OSC_XTL_TRIMG'', ''XO_OSC_XTL_CTRL'']"
  "list_all (has_name registers_5626)
    [''XO_OSC_TEST'', ''XO_OSC_XTL_RC_FLTR'', ''XO_OSC_XTL_OVRD'', ''XO_OSC_XTL_OVRD_HOLDB'',
      ''XO_OSC_XTL_TRIM'', ''XO_OSC_XTL_TRIM_STAT'', ''XO_OSC_XTL_FSM_EN'', ''XO_OSC_XTL_FSM'',
      ''XO_OSC_XTL_FSM_CFG'']"
  by (simp_all add: has_name_def
    registers_5546_def registers_5626_def)

lemma no_names_XO_5386:
  "misses (map name_hash registers_5386)
    [''XO_OSC_CLKOUT'', ''XO_OSC_ADC_CAL_FREQ2X'', ''XO_OSC_ADC_CAL_FREQ2X_STAT'',
      ''XO_OSC_24_48B_SEL'', ''XO_OSC_RC_CAL_RSTB'', ''XO_OSC_RC_CAL_LOAD'', ''XO_OSC_RC_CAL_START'',
      ''XO_OSC_RC_CAL_DONE'', ''XO_OSC_RC_CAL_COUNT'', ''XO_OSC_RC'', ''XO_OSC_RC_STATUS'',
      ''XO_OSC_SETHOLD'', ''XO_OSC_CLRHOLD'']"
  by (simp add: registers_5386_def)

lemma no_names_XO_5466:
  "misses (map name_hash registers_5466)
    [''XO_OSC_CLKOUT'', ''XO_OSC_ADC_CAL_FREQ2X'', ''XO_OSC_ADC_CAL_FREQ2X_STAT'',
      ''XO_OSC_24_48B_SEL'', ''XO_OSC_RC_CAL_RSTB'', ''XO_OSC_RC_CAL_LOAD'', ''XO_OSC_RC_CAL_START'',
      ''XO_OSC_RC_CAL_DONE'', ''XO_OSC_RC_CAL_COUNT'', ''XO_OSC_RC'', ''XO_OSC_RC_STATUS'',
      ''XO_OSC_SETHOLD'', ''XO_OSC_CLRHOLD'']"
  by (simp add: registers_5466_def)

lemma no_names_XO_5546:
  "misses (map name_hash registers_5546)
    [''XO_OSC_CLKOUT'', ''XO_OSC_ADC_CAL_FREQ2X'', ''XO_OSC_ADC_CAL_FREQ2X_STAT'',
      ''XO_OSC_24_48B_SEL'', ''XO_OSC_RC_CAL_RSTB'', ''XO_OSC_RC_CAL_LOAD'', ''XO_OSC_RC_CAL_START'',
      ''XO_OSC_RC_CAL_DONE'', ''XO_OSC_RC_CAL_COUNT'', ''XO_OSC_RC'', ''XO_OSC_RC_STATUS'',
      ''XO_OSC_SETHOLD'', ''XO_OSC_CLRHOLD'']"
  by (simp add: registers_5546_def)

lemma no_names_XO_5626:
  "misses (map name_hash registers_5626)
    [''XO_OSC_CLKOUT'', ''XO_OSC_ADC_CAL_FREQ2X'', ''XO_OSC_ADC_CAL_FREQ2X_STAT'',
      ''XO_OSC_24_48B_SEL'', ''XO_OSC_RC_CAL_RSTB'', ''XO_OSC_RC_CAL_LOAD'', ''XO_OSC_RC_CAL_START'',
      ''XO_OSC_RC_CAL_DONE'', ''XO_OSC_RC_CAL_COUNT'', ''XO_OSC_RC'', ''XO_OSC_RC_STATUS'',
      ''XO_OSC_SETHOLD'', ''XO_OSC_CLRHOLD'']"
  by (simp add: registers_5626_def)

lemma named_XO: "dangling registers_XO XO_aliases = dangling_XO"
  using no_names_XO_5386 [THEN misses_names] no_names_XO_5466 [THEN misses_names] no_names_XO_5546 [THEN misses_names] no_names_XO_5626 [THEN misses_names]
    names_XO
  by (simp add: dangling_def XO_aliases_def dangling_XO_def registers_XO_def has_name_append)

lemma names_USB:
  "list_all (has_name registers_4887)
    [''USB_GAHBCFG'', ''USB_GUSBCFG'', ''USB_GRSTCTL'', ''USB_GINTSTS'', ''USB_GINTMSK'',
      ''USB_GRXSTSR'', ''USB_GRXSTSP'', ''USB_GRXFSIZ'', ''USB_GNPTXFSIZ'', ''USB_GGPIO'',
      ''USB_GSNPSID'', ''USB_GHWCFG1'', ''USB_GHWCFG2'', ''USB_GHWCFG3'', ''USB_GHWCFG4'',
      ''USB_GDFIFOCFG'', ''USB_DCFG'', ''USB_DCTL'', ''USB_DSTS'', ''USB_DIEPMSK'', ''USB_DOEPMSK'',
      ''USB_DAINT'']"
  "list_all (has_name registers_4967)
    [''USB_DAINTMSK'', ''USB_DTHRCTL'', ''USB_DIEPEMPMSK'']"
  by (simp_all add: has_name_def
    registers_4887_def registers_4967_def)

lemma named_USB: "dangling registers_USB USB_aliases = []"
  using names_USB
  by (simp add: dangling_def USB_aliases_def registers_USB_def has_name_append)

lemma uart_instances:
  "x_uart_addr 0 off = GBASE ''UART0'' + off" "x_uart_addr 1 off = GBASE ''UART1'' + off"
  "x_uart_addr 2 off = GBASE ''UART2'' + off"
  by (simp_all add: x_uart_addr_def GBASE_simps)

lemma in_endpoints:
  "between 0x900 0xb00 (GBASE ''USB0'') registers_USB =
     indices 0 16 (\<lambda>n. map (\<lambda>(s, a). (''USB_'' @ s @ decimal n, a)) (in_endpoint (of_nat n)))"
  unfolding between_def registers_USB_def filter_append map_append
  by (simp add: GBASE_simps indices_def in_endpoint_def GR_USB_EPIREG_def GR_USB_REG_def decimal_def upt_rec
    registers_4887_def registers_4967_def registers_5047_def registers_5127_def registers_5207_def
    registers_5287_def)

lemma out_endpoints:
  "between 0xb00 0xd00 (GBASE ''USB0'') registers_USB =
     indices 0 16 (\<lambda>n. map (\<lambda>(s, a). (''USB_'' @ s @ decimal n, a)) (out_endpoint (of_nat n)))"
  unfolding between_def registers_USB_def filter_append map_append
  by (simp add: GBASE_simps indices_def out_endpoint_def GR_USB_EPOREG_def GR_USB_REG_def decimal_def upt_rec
    registers_4887_def registers_4967_def registers_5047_def registers_5127_def registers_5207_def
    registers_5287_def)

lemma transmit_fifos:
  "between 0x104 0x140 (GBASE ''USB0'') registers_USB =
     indices 1 16 (\<lambda>n. [(''USB_DIEPTXF'' @ decimal n, GR_USB_DIEPTXF (of_nat n))])"
  unfolding between_def registers_USB_def filter_append map_append
  by (simp add: GBASE_simps indices_def GR_USB_DIEPTXF_def GC_USB_DIEPTXF1_OFFSET_def GR_USB_REG_def decimal_def upt_rec
    registers_4887_def registers_4967_def registers_5047_def registers_5127_def registers_5207_def
    registers_5287_def)

lemma gpio_instances: "GR_GPIO_REG 1 off = GBASE ''GPIO1'' + off"
  by (simp add: GR_GPIO_REG_def GBASE_simps)

lemma gpio_selectors:
  "between 0xf8 0x178 (GBASE ''PINMUX'') registers_PINMUX =
     indices 0 2 (\<lambda>p. indices 0 16 (\<lambda>b. [(''PINMUX_GPIO'' @ decimal p @ ''_GPIO'' @ decimal b @ ''_SEL'', GET_GPIO_SEL_REG (of_nat p) (of_nat b))]))"
  unfolding between_def registers_PINMUX_def filter_append map_append
  by (simp add: GBASE_simps indices_def GET_GPIO_SEL_REG_def GC_PINMUX_GPIO0_GPIO0_SEL_OFFSET_def decimal_def upt_rec
    registers_3652_def registers_3732_def registers_3812_def registers_3892_def registers_3972_def)

lemma trim_banks:
  "between 0x34 0x74 (GBASE ''XO0'') registers_XO =
     indices 0 16 (\<lambda>n. [(''XO_CLK_JTR_JITTERY_TRIM_BANK'' @ decimal n, GR_XO_JTR_JITTERY_TRIM_BANK (of_nat n))])"
  unfolding between_def registers_XO_def filter_append map_append
  by (simp add: GBASE_simps indices_def GR_XO_JTR_JITTERY_TRIM_BANK_def decimal_def upt_rec
    registers_5386_def registers_5466_def registers_5546_def registers_5626_def)

definition timer_registers :: "(string \<times> u32) list" where
  "timer_registers = [(''LOAD'', 0x0), (''VALUE'', 0x4), (''CONTROL'', 0x8), (''INTCLR'', 0xc), (''RIS'', 0x10),
    (''MIS'', 0x14), (''BGLOAD'', 0x18)]"

lemma timers:
  "between 0x0 0x40 (GBASE ''TIMEHS0'') registers_TIMEHS =
     indices 1 3 (\<lambda>t. map (\<lambda>(s, a). (''TIMEHS_TIMER'' @ decimal t @ s, x_timehs_addr 0 (of_nat t) a)) timer_registers)"
  "x_timehs_addr 1 t off = x_timehs_addr 0 t off + (GBASE ''TIMEHS1'' - GBASE ''TIMEHS0'')"
  unfolding between_def registers_TIMEHS_def filter_append map_append
  by (simp_all add: GBASE_simps indices_def x_timehs_addr_def timer_registers_def
    GC_TIMEHS_TIMER1LOAD_OFFSET_def GC_TIMEHS_TIMER2LOAD_OFFSET_def decimal_def upt_rec
    registers_4623_def)

end
