(* ===== verification/RegdefsA1Power.thy ===== *)
theory RegdefsA1Power
  imports Registers
begin

text \<open>
  The registers and register fields of the modules AES, CAMO, FLASH, GLOBALSEC, MAU, PAU, PINMUX,
  PMU, RBOX, SHA of the first revision of the chip (chip/c/hw_a1_regdefs.h, generated), in the form
  of the tables of the other revision.
\<close>

definition a1_registers_431 :: "register list" where
  "a1_registers_431 = [
    Register ''AES_CTRL'' 0x0 (Some 0x0), Register ''AES_B0_START'' 0x4 (Some 0x0), Register ''AES_B0_DATA0''
    0x8 (Some 0x0), Register ''AES_B0_DATA1'' 0xc (Some 0x0), Register ''AES_B0_DATA2'' 0x10 (Some 0x0),
    Register ''AES_B0_DATA3'' 0x14 (Some 0x0), Register ''AES_B1_START'' 0x18 (Some 0x0), Register
    ''AES_B1_DATA0'' 0x1c (Some 0x0), Register ''AES_B1_DATA1'' 0x20 (Some 0x0), Register ''AES_B1_DATA2'' 0x24
    (Some 0x0), Register ''AES_B1_DATA3'' 0x28 (Some 0x0), Register ''AES_KEY0'' 0x2c (Some 0x0), Register
    ''AES_KEY1'' 0x30 (Some 0x0), Register ''AES_KEY2'' 0x34 (Some 0x0), Register ''AES_KEY3'' 0x38 (Some 0x0),
    Register ''AES_KEY4'' 0x3c (Some 0x0), Register ''AES_KEY5'' 0x40 (Some 0x0), Register ''AES_KEY6'' 0x44
    (Some 0x0), Register ''AES_KEY7'' 0x48 (Some 0x0), Register ''AES_KEY_START'' 0x4c (Some 0x0), Register
    ''AES_CTR0'' 0x50 (Some 0x0), Register ''AES_CTR1'' 0x54 (Some 0x0), Register ''AES_CTR2'' 0x58 (Some 0x0),
    Register ''AES_CTR3'' 0x5c (Some 0x0), Register ''AES_LFSR_CTL'' 0x60 (Some 0x1f), Register ''AES_VERSION''
    0x64 (Some 0x800be5c)]"

definition a1_registers_483 :: "register list" where
  "a1_registers_483 = [
    Register ''CAMO_CLKPERIOD_X256'' 0x0 (Some 0x4), Register ''CAMO_RESTART_PRBS'' 0x4 (Some 0x0), Register
    ''CAMO_INT_ENABLE'' 0x8 (Some 0x0), Register ''CAMO_INT_STATE'' 0xc (Some 0x0), Register ''CAMO_INT_TEST''
    0x10 (Some 0x0), Register ''CAMO_BREACH_COUNT'' 0x14 (Some 0x0), Register ''CAMO_CUR_VAL0'' 0x18 (Some 0x0),
    Register ''CAMO_CUR_VAL1'' 0x1c (Some 0x0), Register ''CAMO_CUR_VAL2'' 0x20 (Some 0x0), Register
    ''CAMO_CUR_VAL3'' 0x24 (Some 0x0), Register ''CAMO_VERSION'' 0x28 (Some 0x500ba73)]"

definition a1_registers_505 :: "register list" where
  "a1_registers_505 = [
    Register ''FLASH_FSH_PE_CONTROL0'' 0x0 (Some 0x0), Register ''FLASH_FSH_PE_CONTROL1'' 0x4 (Some 0x0),
    Register ''FLASH_FSH_TRANS'' 0x8 (Some 0x0), Register ''FLASH_FSH_ICTRL'' 0xc (Some 0x0), Register
    ''FLASH_FSH_ISTATE'' 0x10 (Some 0x0), Register ''FLASH_FSH_OVRD0_UNLOCK'' 0x14 (Some 0x0), Register
    ''FLASH_FSH_OVRD1_UNLOCK'' 0x18 (Some 0x0), Register ''FLASH_FSH_OVRD_SIGVAL_DIN'' 0x1c (Some 0x0), Register
    ''FLASH_FSH_OVRD_SIGVAL_OFFSET'' 0x20 (Some 0x0), Register ''FLASH_FSH_OVRD_SIGVAL'' 0x24 (Some 0x0),
    Register ''FLASH_FSH_OVRD_SIGEN'' 0x28 (Some 0x0), Register ''FLASH_FSH_NO_WAIT_ON_BOUT_SEQ'' 0x2c (Some
    0x0), Register ''FLASH_FSH_DOUT_VAL0'' 0x30 (Some 0x0), Register ''FLASH_FSH_DOUT_VAL1'' 0x34 (Some 0x0),
    Register ''FLASH_FSH_WR_DATA0'' 0x38 (Some 0x0), Register ''FLASH_FSH_WR_DATA1'' 0x3c (Some 0x0), Register
    ''FLASH_FSH_WR_DATA2'' 0x40 (Some 0x0), Register ''FLASH_FSH_WR_DATA3'' 0x44 (Some 0x0), Register
    ''FLASH_FSH_WR_DATA4'' 0x48 (Some 0x0), Register ''FLASH_FSH_WR_DATA5'' 0x4c (Some 0x0), Register
    ''FLASH_FSH_WR_DATA6'' 0x50 (Some 0x0), Register ''FLASH_FSH_WR_DATA7'' 0x54 (Some 0x0), Register
    ''FLASH_FSH_WR_DATA8'' 0x58 (Some 0x0), Register ''FLASH_FSH_WR_DATA9'' 0x5c (Some 0x0), Register
    ''FLASH_FSH_WR_DATA10'' 0x60 (Some 0x0), Register ''FLASH_FSH_WR_DATA11'' 0x64 (Some 0x0), Register
    ''FLASH_FSH_WR_DATA12'' 0x68 (Some 0x0), Register ''FLASH_FSH_WR_DATA13'' 0x6c (Some 0x0), Register
    ''FLASH_FSH_WR_DATA14'' 0x70 (Some 0x0), Register ''FLASH_FSH_WR_DATA15'' 0x74 (Some 0x0), Register
    ''FLASH_FSH_WR_DATA16'' 0x78 (Some 0x0), Register ''FLASH_FSH_WR_DATA17'' 0x7c (Some 0x0), Register
    ''FLASH_FSH_WR_DATA18'' 0x80 (Some 0x0), Register ''FLASH_FSH_WR_DATA19'' 0x84 (Some 0x0), Register
    ''FLASH_FSH_WR_DATA20'' 0x88 (Some 0x0), Register ''FLASH_FSH_WR_DATA21'' 0x8c (Some 0x0), Register
    ''FLASH_FSH_WR_DATA22'' 0x90 (Some 0x0), Register ''FLASH_FSH_WR_DATA23'' 0x94 (Some 0x0), Register
    ''FLASH_FSH_WR_DATA24'' 0x98 (Some 0x0), Register ''FLASH_FSH_WR_DATA25'' 0x9c (Some 0x0)]"

definition a1_registers_595 :: "register list" where
  "a1_registers_595 = [
    Register ''FLASH_FSH_WR_DATA26'' 0xa0 (Some 0x0), Register ''FLASH_FSH_WR_DATA27'' 0xa4 (Some 0x0), Register
    ''FLASH_FSH_WR_DATA28'' 0xa8 (Some 0x0), Register ''FLASH_FSH_WR_DATA29'' 0xac (Some 0x0), Register
    ''FLASH_FSH_WR_DATA30'' 0xb0 (Some 0x0), Register ''FLASH_FSH_WR_DATA31'' 0xb4 (Some 0x0), Register
    ''FLASH_FSH_PE_EN'' 0xb8 (Some 0x0), Register ''FLASH_FSH_REDUN0'' 0xbc (Some 0x0), Register
    ''FLASH_FSH_REDUN1'' 0xc0 (Some 0x0), Register ''FLASH_FSH_ERROR'' 0xc4 (Some 0x0), Register
    ''FLASH_FSH_TIMING_READ_TOTAL_CYC'' 0xc8 (Some 0x1), Register ''FLASH_FSH_TIMING_READ_XE_FRST_CYC'' 0xcc
    (Some 0x0), Register ''FLASH_FSH_TIMING_READ_XE_LAST_CYC'' 0xd0 (Some 0x0), Register
    ''FLASH_FSH_TIMING_READ_YE_FRST_CYC'' 0xd4 (Some 0x0), Register ''FLASH_FSH_TIMING_READ_YE_LAST_CYC'' 0xd8
    (Some 0x0), Register ''FLASH_FSH_TIMING_READ_SE_FRST_CYC'' 0xdc (Some 0x0), Register
    ''FLASH_FSH_TIMING_READ_SE_LAST_CYC'' 0xe0 (Some 0x0), Register ''FLASH_FSH_TIMING_READ_PV_FRST_CYC'' 0xe4
    (Some 0x0), Register ''FLASH_FSH_TIMING_READ_PV_LAST_CYC'' 0xe8 (Some 0x0), Register
    ''FLASH_FSH_TIMING_READ_EV_FRST_CYC'' 0xec (Some 0x0), Register ''FLASH_FSH_TIMING_READ_EV_LAST_CYC'' 0xf0
    (Some 0x0), Register ''FLASH_FSH_TIMING_PROG_SMART_ALGO_ON'' 0xf4 (Some 0x1), Register
    ''FLASH_FSH_TIMING_PROG_TOTAL_CYC'' 0xf8 (Some 0x30e), Register ''FLASH_FSH_TIMING_PROG_XE_FRST_CYC'' 0xfc
    (Some 0x0), Register ''FLASH_FSH_TIMING_PROG_XE_LAST_CYC'' 0x100 (Some 0x21b), Register
    ''FLASH_FSH_TIMING_PROG_YE_FRST_CYC'' 0x104 (Some 0x16e), Register ''FLASH_FSH_TIMING_PROG_YE_LAST_CYC''
    0x108 (Some 0x19f), Register ''FLASH_FSH_TIMING_PROG_ONEWRD_FRST_CYC'' 0x10c (Some 0x16d), Register
    ''FLASH_FSH_TIMING_PROG_ONEWRD_LAST_CYC'' 0x110 (Some 0x1a0), Register
    ''FLASH_FSH_TIMING_PROG_PROGSIG_FRST_CYC'' 0x114 (Some 0x1), Register
    ''FLASH_FSH_TIMING_PROG_PROGSIG_LAST_CYC'' 0x118 (Some 0x1a0), Register
    ''FLASH_FSH_TIMING_PROG_NVSTR_FRST_CYC'' 0x11c (Some 0x7a), Register
    ''FLASH_FSH_TIMING_PROG_NVSTR_LAST_CYC'' 0x120 (Some 0x21a), Register
    ''FLASH_FSH_TIMING_ERASE_SMART_ALGO_ON'' 0x124 (Some 0x1), Register ''FLASH_FSH_TIMING_ERASE_TOTAL_CYC''
    0x128 (Some 0xc075), Register ''FLASH_FSH_TIMING_ERASE_XE_FRST_CYC'' 0x12c (Some 0x0), Register
    ''FLASH_FSH_TIMING_ERASE_XE_LAST_CYC'' 0x130 (Some 0xbf82), Register
    ''FLASH_FSH_TIMING_ERASE_ERASESIG_FRST_CYC'' 0x134 (Some 0x1), Register
    ''FLASH_FSH_TIMING_ERASE_ERASESIG_LAST_CYC'' 0x138 (Some 0xbf07), Register
    ''FLASH_FSH_TIMING_ERASE_NVSTR_FRST_CYC'' 0x13c (Some 0x7a)]"

definition a1_registers_676 :: "register list" where
  "a1_registers_676 = [
    Register ''FLASH_FSH_TIMING_ERASE_NVSTR_LAST_CYC'' 0x140 (Some 0xbf81), Register
    ''FLASH_FSH_TIMING_BULKERASE_SMART_ALGO_ON'' 0x144 (Some 0x1), Register
    ''FLASH_FSH_TIMING_BULKERASE_TOTAL_CYC'' 0x148 (Some 0xc982), Register
    ''FLASH_FSH_TIMING_BULKERASE_XE_FRST_CYC'' 0x14c (Some 0x0), Register
    ''FLASH_FSH_TIMING_BULKERASE_XE_LAST_CYC'' 0x150 (Some 0xc88f), Register
    ''FLASH_FSH_TIMING_BULKERASE_ERASESIG_FRST_CYC'' 0x154 (Some 0x1), Register
    ''FLASH_FSH_TIMING_BULKERASE_ERASESIG_LAST_CYC'' 0x158 (Some 0xbf07), Register
    ''FLASH_FSH_TIMING_BULKERASE_MAS1_FRST_CYC'' 0x15c (Some 0x0), Register
    ''FLASH_FSH_TIMING_BULKERASE_MAS1_LAST_CYC'' 0x160 (Some 0xc88f), Register
    ''FLASH_FSH_TIMING_BULKERASE_NVSTR_FRST_CYC'' 0x164 (Some 0x7a), Register
    ''FLASH_FSH_TIMING_BULKERASE_NVSTR_LAST_CYC'' 0x168 (Some 0xc88e), Register ''FLASH_FSH_DBG'' 0x16c (Some
    0x0), Register ''FLASH_FSH_ITCR'' 0xf00 (Some 0x0), Register ''FLASH_FSH_ITOP'' 0xf04 (Some 0x0)]"

definition a1_registers_704 :: "register list" where
  "a1_registers_704 = [
    Register ''GLOBALSEC_NEED_ZERO_REG'' 0x0 (Some 0x0), Register ''GLOBALSEC_DUMMYKEY0'' 0x1598 (Some 0x0),
    Register ''GLOBALSEC_SEC_CONTROL'' 0x26d0 (Some 0x0), Register ''GLOBALSEC_LFSR_WR_DATA'' 0x317c (Some 0x0),
    Register ''GLOBALSEC_SEC_MONITOR'' 0x3724 (Some 0x0), Register ''GLOBALSEC_PERR'' 0x49a8 (Some 0x0),
    Register ''GLOBALSEC_INTERNAL_STATE0'' 0x4ee8 (Some 0x0), Register ''GLOBALSEC_INTERNAL_STATE1'' 0x6614
    (Some 0x0), Register ''GLOBALSEC_INTERNAL_STATE2'' 0x6fe4 (Some 0x0), Register ''GLOBALSEC_INTERNAL_STATE3''
    0x77fc (Some 0x0), Register ''GLOBALSEC_INTERNAL_STATE4'' 0x8284 (Some 0x0), Register
    ''GLOBALSEC_DUMMYKEY1'' 0xaf04 (Some 0x0), Register ''GLOBALSEC_DBG_CONTROL'' 0xb1dc (Some 0x0), Register
    ''GLOBALSEC_DUMMYKEY2'' 0xb2ac (Some 0x0), Register ''GLOBALSEC_VERSION'' 0xb2b0 (Some 0x100b407)]"

definition a1_registers_1960 :: "register list" where
  "a1_registers_1960 = [
    Register ''MAU_EN'' 0x0 (Some 0x3), Register ''MAU_TRACECLR'' 0x4 (Some 0x3), Register ''MAU_TRACEIDX'' 0x8
    (Some 0x3), Register ''MAU_TRACE_SYSIBUS'' 0xc (Some 0x0), Register ''MAU_TRACE_SYSDBUS'' 0x10 (Some 0x0)]"

definition a1_registers_1970 :: "register list" where
  "a1_registers_1970 = [
    Register ''PAU_EN'' 0x0 (Some 0x1), Register ''PAU_TRACECLR'' 0x4 (Some 0x1), Register ''PAU_TRACEIDX'' 0x8
    (Some 0x1), Register ''PAU_TRACE_SYSSBUS'' 0xc (Some 0x0)]"

definition a1_registers_1978 :: "register list" where
  "a1_registers_1978 = [
    Register ''PINMUX_DIOM0_SEL'' 0x0 (Some 0x0), Register ''PINMUX_DIOM0_CTL'' 0x4 (Some 0x3), Register
    ''PINMUX_DIOM1_SEL'' 0x8 (Some 0x0), Register ''PINMUX_DIOM1_CTL'' 0xc (Some 0x3), Register
    ''PINMUX_DIOM2_SEL'' 0x10 (Some 0x0), Register ''PINMUX_DIOM2_CTL'' 0x14 (Some 0x3), Register
    ''PINMUX_DIOM3_SEL'' 0x18 (Some 0x0), Register ''PINMUX_DIOM3_CTL'' 0x1c (Some 0x3), Register
    ''PINMUX_DIOM4_SEL'' 0x20 (Some 0x0), Register ''PINMUX_DIOM4_CTL'' 0x24 (Some 0x3), Register
    ''PINMUX_DIOA0_SEL'' 0x28 (Some 0x0), Register ''PINMUX_DIOA0_CTL'' 0x2c (Some 0x3), Register
    ''PINMUX_DIOA1_SEL'' 0x30 (Some 0x0), Register ''PINMUX_DIOA1_CTL'' 0x34 (Some 0x3), Register
    ''PINMUX_DIOA2_SEL'' 0x38 (Some 0x0), Register ''PINMUX_DIOA2_CTL'' 0x3c (Some 0x3), Register
    ''PINMUX_DIOA3_SEL'' 0x40 (Some 0x0), Register ''PINMUX_DIOA3_CTL'' 0x44 (Some 0x3), Register
    ''PINMUX_DIOA4_SEL'' 0x48 (Some 0x0), Register ''PINMUX_DIOA4_CTL'' 0x4c (Some 0x3), Register
    ''PINMUX_DIOA5_SEL'' 0x50 (Some 0x0), Register ''PINMUX_DIOA5_CTL'' 0x54 (Some 0x3), Register
    ''PINMUX_DIOA6_SEL'' 0x58 (Some 0x0), Register ''PINMUX_DIOA6_CTL'' 0x5c (Some 0x3), Register
    ''PINMUX_DIOA7_SEL'' 0x60 (Some 0x0), Register ''PINMUX_DIOA7_CTL'' 0x64 (Some 0x3), Register
    ''PINMUX_DIOA8_SEL'' 0x68 (Some 0x0), Register ''PINMUX_DIOA8_CTL'' 0x6c (Some 0x3), Register
    ''PINMUX_DIOA9_SEL'' 0x70 (Some 0x0), Register ''PINMUX_DIOA9_CTL'' 0x74 (Some 0x3), Register
    ''PINMUX_DIOA10_SEL'' 0x78 (Some 0x0), Register ''PINMUX_DIOA10_CTL'' 0x7c (Some 0x3), Register
    ''PINMUX_DIOA11_SEL'' 0x80 (Some 0x0), Register ''PINMUX_DIOA11_CTL'' 0x84 (Some 0x3), Register
    ''PINMUX_DIOA12_SEL'' 0x88 (Some 0x0), Register ''PINMUX_DIOA12_CTL'' 0x8c (Some 0x3), Register
    ''PINMUX_DIOA13_SEL'' 0x90 (Some 0x0), Register ''PINMUX_DIOA13_CTL'' 0x94 (Some 0x3), Register
    ''PINMUX_DIOA14_SEL'' 0x98 (Some 0x0), Register ''PINMUX_DIOA14_CTL'' 0x9c (Some 0x3)]"

definition a1_registers_2058 :: "register list" where
  "a1_registers_2058 = [
    Register ''PINMUX_DIOB0_SEL'' 0xa0 (Some 0x0), Register ''PINMUX_DIOB0_CTL'' 0xa4 (Some 0x3), Register
    ''PINMUX_DIOB1_SEL'' 0xa8 (Some 0x0), Register ''PINMUX_DIOB1_CTL'' 0xac (Some 0x3), Register
    ''PINMUX_DIOB2_SEL'' 0xb0 (Some 0x0), Register ''PINMUX_DIOB2_CTL'' 0xb4 (Some 0x3), Register
    ''PINMUX_DIOB3_SEL'' 0xb8 (Some 0x0), Register ''PINMUX_DIOB3_CTL'' 0xbc (Some 0x3), Register
    ''PINMUX_DIOB4_SEL'' 0xc0 (Some 0x0), Register ''PINMUX_DIOB4_CTL'' 0xc4 (Some 0x3), Register
    ''PINMUX_DIOB5_SEL'' 0xc8 (Some 0x0), Register ''PINMUX_DIOB5_CTL'' 0xcc (Some 0x3), Register
    ''PINMUX_DIOB6_SEL'' 0xd0 (Some 0x0), Register ''PINMUX_DIOB6_CTL'' 0xd4 (Some 0x3), Register
    ''PINMUX_DIOB7_SEL'' 0xd8 (Some 0x0), Register ''PINMUX_DIOB7_CTL'' 0xdc (Some 0x3), Register
    ''PINMUX_DIOB8_SEL'' 0xe0 (Some 0x0), Register ''PINMUX_DIOB8_CTL'' 0xe4 (Some 0x3), Register
    ''PINMUX_RTCXOP_SEL'' 0xe8 (Some 0x0), Register ''PINMUX_RTCXOP_CTL'' 0xec (Some 0x3), Register
    ''PINMUX_SWDPTRACE_SEL'' 0xf0 (Some 0x0), Register ''PINMUX_SWDPTRACE_CTL'' 0xf4 (Some 0x3), Register
    ''PINMUX_SWDPDATA_SEL'' 0xf8 (Some 0x0), Register ''PINMUX_SWDPDATA_CTL'' 0xfc (Some 0x7), Register
    ''PINMUX_TESTMODE_SEL'' 0x100 (Some 0x0), Register ''PINMUX_TESTMODE_CTL'' 0x104 (Some 0x7), Register
    ''PINMUX_RESETB_SEL'' 0x108 (Some 0x0), Register ''PINMUX_RESETB_CTL'' 0x10c (Some 0x7), Register
    ''PINMUX_VIO0_SEL'' 0x110 (Some 0x0), Register ''PINMUX_VIO0_CTL'' 0x114 (Some 0x3), Register
    ''PINMUX_VIO1_SEL'' 0x118 (Some 0x0), Register ''PINMUX_VIO1_CTL'' 0x11c (Some 0x3), Register
    ''PINMUX_TDI_SEL'' 0x120 (Some 0x0), Register ''PINMUX_TDI_CTL'' 0x124 (Some 0x3), Register
    ''PINMUX_TMS_SEL'' 0x128 (Some 0x0), Register ''PINMUX_TMS_CTL'' 0x12c (Some 0x3), Register
    ''PINMUX_TCK_SEL'' 0x130 (Some 0x0), Register ''PINMUX_TCK_CTL'' 0x134 (Some 0x3), Register
    ''PINMUX_TDO_SEL'' 0x138 (Some 0x0), Register ''PINMUX_TDO_CTL'' 0x13c (Some 0x3)]"

definition a1_registers_2138 :: "register list" where
  "a1_registers_2138 = [
    Register ''PINMUX_SETHOLD0'' 0x140 (Some 0x0), Register ''PINMUX_SETHOLD1'' 0x144 (Some 0x0), Register
    ''PINMUX_CLRHOLD0'' 0x148 (Some 0x0), Register ''PINMUX_CLRHOLD1'' 0x14c (Some 0x0), Register
    ''PINMUX_GPIO0_GPIO0_SEL'' 0x150 (Some 0x0), Register ''PINMUX_GPIO0_GPIO1_SEL'' 0x154 (Some 0x0), Register
    ''PINMUX_GPIO0_GPIO2_SEL'' 0x158 (Some 0x0), Register ''PINMUX_GPIO0_GPIO3_SEL'' 0x15c (Some 0x0), Register
    ''PINMUX_GPIO0_GPIO4_SEL'' 0x160 (Some 0x0), Register ''PINMUX_GPIO0_GPIO5_SEL'' 0x164 (Some 0x0), Register
    ''PINMUX_GPIO0_GPIO6_SEL'' 0x168 (Some 0x0), Register ''PINMUX_GPIO0_GPIO7_SEL'' 0x16c (Some 0x0), Register
    ''PINMUX_GPIO0_GPIO8_SEL'' 0x170 (Some 0x0), Register ''PINMUX_GPIO0_GPIO9_SEL'' 0x174 (Some 0x0), Register
    ''PINMUX_GPIO0_GPIO10_SEL'' 0x178 (Some 0x0), Register ''PINMUX_GPIO0_GPIO11_SEL'' 0x17c (Some 0x0),
    Register ''PINMUX_GPIO0_GPIO12_SEL'' 0x180 (Some 0x0), Register ''PINMUX_GPIO0_GPIO13_SEL'' 0x184 (Some
    0x0), Register ''PINMUX_GPIO0_GPIO14_SEL'' 0x188 (Some 0x0), Register ''PINMUX_GPIO0_GPIO15_SEL'' 0x18c
    (Some 0x0), Register ''PINMUX_GPIO1_GPIO0_SEL'' 0x190 (Some 0x0), Register ''PINMUX_GPIO1_GPIO1_SEL'' 0x194
    (Some 0x0), Register ''PINMUX_GPIO1_GPIO2_SEL'' 0x198 (Some 0x0), Register ''PINMUX_GPIO1_GPIO3_SEL'' 0x19c
    (Some 0x0), Register ''PINMUX_GPIO1_GPIO4_SEL'' 0x1a0 (Some 0x0), Register ''PINMUX_GPIO1_GPIO5_SEL'' 0x1a4
    (Some 0x0), Register ''PINMUX_GPIO1_GPIO6_SEL'' 0x1a8 (Some 0x0), Register ''PINMUX_GPIO1_GPIO7_SEL'' 0x1ac
    (Some 0x0), Register ''PINMUX_GPIO1_GPIO8_SEL'' 0x1b0 (Some 0x0), Register ''PINMUX_GPIO1_GPIO9_SEL'' 0x1b4
    (Some 0x0), Register ''PINMUX_GPIO1_GPIO10_SEL'' 0x1b8 (Some 0x0), Register ''PINMUX_GPIO1_GPIO11_SEL''
    0x1bc (Some 0x0), Register ''PINMUX_GPIO1_GPIO12_SEL'' 0x1c0 (Some 0x0), Register
    ''PINMUX_GPIO1_GPIO13_SEL'' 0x1c4 (Some 0x0), Register ''PINMUX_GPIO1_GPIO14_SEL'' 0x1c8 (Some 0x0),
    Register ''PINMUX_GPIO1_GPIO15_SEL'' 0x1cc (Some 0x0), Register ''PINMUX_I2CS0_SCL_SEL'' 0x1d0 (Some 0x0),
    Register ''PINMUX_I2CS0_SDA_SEL'' 0x1d4 (Some 0x0), Register ''PINMUX_I2C0_SCL_SEL'' 0x1d8 (Some 0x0),
    Register ''PINMUX_I2C0_SDA_SEL'' 0x1dc (Some 0x0)]"

definition a1_registers_2218 :: "register list" where
  "a1_registers_2218 = [
    Register ''PINMUX_I2C1_SCL_SEL'' 0x1e0 (Some 0x0), Register ''PINMUX_I2C1_SDA_SEL'' 0x1e4 (Some 0x0),
    Register ''PINMUX_PMU_TESTBUS0_SEL'' 0x1e8 (Some 0x0), Register ''PINMUX_PMU_TESTBUS1_SEL'' 0x1ec (Some
    0x0), Register ''PINMUX_PMU_TESTBUS2_SEL'' 0x1f0 (Some 0x0), Register ''PINMUX_PMU_TESTBUS3_SEL'' 0x1f4
    (Some 0x0), Register ''PINMUX_PMU_TESTBUS4_SEL'' 0x1f8 (Some 0x0), Register ''PINMUX_PMU_TESTBUS5_SEL''
    0x1fc (Some 0x0), Register ''PINMUX_PMU_TESTBUS6_SEL'' 0x200 (Some 0x0), Register
    ''PINMUX_PMU_TESTBUS7_SEL'' 0x204 (Some 0x0), Register ''PINMUX_RBOX0_AC_PRESENT_SEL'' 0x208 (Some 0x0),
    Register ''PINMUX_RBOX0_BATT_EN_SEL'' 0x20c (Some 0x0), Register ''PINMUX_RBOX0_EC_IN_RW_SEL'' 0x210 (Some
    0x0), Register ''PINMUX_RBOX0_EC_RST_L_SEL'' 0x214 (Some 0x0), Register ''PINMUX_RBOX0_EC_WP_L_SEL'' 0x218
    (Some 0x0), Register ''PINMUX_RBOX0_ENTERING_RW_SEL'' 0x21c (Some 0x0), Register
    ''PINMUX_RBOX0_FW_WP_L_SEL'' 0x220 (Some 0x0), Register ''PINMUX_RBOX0_KSI_SEL'' 0x224 (Some 0x0), Register
    ''PINMUX_RBOX0_KSI_SW_SEL'' 0x228 (Some 0x0), Register ''PINMUX_RBOX0_KSO_INV_SEL'' 0x22c (Some 0x0),
    Register ''PINMUX_RBOX0_KSO_SW_SEL'' 0x230 (Some 0x0), Register ''PINMUX_RBOX0_PWR_BTN_L_SEL'' 0x234 (Some
    0x0), Register ''PINMUX_RBOX0_PWR_BTNO_L_SEL'' 0x238 (Some 0x0), Register ''PINMUX_RTC0_X_RTC_CLK_SEL''
    0x23c (Some 0x0), Register ''PINMUX_SPI0_SPICLK_SEL'' 0x240 (Some 0x0), Register ''PINMUX_SPI0_SPICSB_SEL''
    0x244 (Some 0x0), Register ''PINMUX_SPI0_SPIMISO_SEL'' 0x248 (Some 0x0), Register
    ''PINMUX_SPI0_SPIMOSI_SEL'' 0x24c (Some 0x0), Register ''PINMUX_SPS0_SPICLK_SEL'' 0x250 (Some 0x0), Register
    ''PINMUX_SPS0_SPICSB_SEL'' 0x254 (Some 0x0), Register ''PINMUX_SPS0_SPIMISO_SEL'' 0x258 (Some 0x0), Register
    ''PINMUX_SPS0_SPIMOSI_SEL'' 0x25c (Some 0x0), Register ''PINMUX_SWDP0_TRACE_SEL'' 0x260 (Some 0x0), Register
    ''PINMUX_SWDP0_TRACE2_SEL'' 0x264 (Some 0x0), Register ''PINMUX_TEMP0_TST_ADC_CLK_SEL'' 0x268 (Some 0x0),
    Register ''PINMUX_TEMP0_TST_ADC_HI_SER_SEL'' 0x26c (Some 0x0), Register ''PINMUX_TEMP0_TST_ADC_LO_SER_SEL''
    0x270 (Some 0x0), Register ''PINMUX_TEMP0_TST_ADC_VLD_SER_SEL'' 0x274 (Some 0x0), Register
    ''PINMUX_TRNG0_TRNG_RO_DIV_SEL'' 0x278 (Some 0x0), Register ''PINMUX_TRNG0_TRNG_RO_REF_DIV_SEL'' 0x27c (Some
    0x0)]"

definition a1_registers_2298 :: "register list" where
  "a1_registers_2298 = [
    Register ''PINMUX_UART0_CTS_SEL'' 0x280 (Some 0x0), Register ''PINMUX_UART0_RTS_SEL'' 0x284 (Some 0x0),
    Register ''PINMUX_UART0_RX_SEL'' 0x288 (Some 0x0), Register ''PINMUX_UART0_TX_SEL'' 0x28c (Some 0x0),
    Register ''PINMUX_UART1_CTS_SEL'' 0x290 (Some 0x0), Register ''PINMUX_UART1_RTS_SEL'' 0x294 (Some 0x0),
    Register ''PINMUX_UART1_RX_SEL'' 0x298 (Some 0x0), Register ''PINMUX_UART1_TX_SEL'' 0x29c (Some 0x0),
    Register ''PINMUX_UART2_CTS_SEL'' 0x2a0 (Some 0x0), Register ''PINMUX_UART2_RTS_SEL'' 0x2a4 (Some 0x0),
    Register ''PINMUX_UART2_RX_SEL'' 0x2a8 (Some 0x0), Register ''PINMUX_UART2_TX_SEL'' 0x2ac (Some 0x0),
    Register ''PINMUX_USB0_EXT_DM_PULLUP_EN_SEL'' 0x2b0 (Some 0x0), Register ''PINMUX_USB0_EXT_DP_RPU1_ENB_SEL''
    0x2b4 (Some 0x0), Register ''PINMUX_USB0_EXT_DP_RPU2_ENB_SEL'' 0x2b8 (Some 0x0), Register
    ''PINMUX_USB0_EXT_FS_EDGE_SEL_SEL'' 0x2bc (Some 0x0), Register ''PINMUX_USB0_EXT_RX_DMI_SEL'' 0x2c0 (Some
    0x0), Register ''PINMUX_USB0_EXT_RX_DPI_SEL'' 0x2c4 (Some 0x0), Register ''PINMUX_USB0_EXT_RX_RCV_SEL''
    0x2c8 (Some 0x0), Register ''PINMUX_USB0_EXT_SUSPENDB_SEL'' 0x2cc (Some 0x0), Register
    ''PINMUX_USB0_EXT_TX_DMO_SEL'' 0x2d0 (Some 0x0), Register ''PINMUX_USB0_EXT_TX_DPO_SEL'' 0x2d4 (Some 0x0),
    Register ''PINMUX_USB0_EXT_TX_OEB_SEL'' 0x2d8 (Some 0x0), Register ''PINMUX_XO0_TESTCLK_SEL'' 0x2dc (Some
    0x0), Register ''PINMUX_EXITEN0'' 0x2e0 (Some 0x0), Register ''PINMUX_EXITEN1'' 0x2e4 (Some 0x0), Register
    ''PINMUX_EXITEDGE0'' 0x2e8 (Some 0x0), Register ''PINMUX_EXITEDGE1'' 0x2ec (Some 0x0), Register
    ''PINMUX_EXITINV0'' 0x2f0 (Some 0x0), Register ''PINMUX_EXITINV1'' 0x2f4 (Some 0x0)]"

definition a1_registers_2358 :: "register list" where
  "a1_registers_2358 = [
    Register ''PMU_RESET'' 0x0 (Some 0x3), Register ''PMU_SETRST'' 0x4 (Some 0x0), Register ''PMU_CLRRST'' 0x8
    (Some 0x0), Register ''PMU_RSTSRC'' 0xc (Some 0x0), Register ''PMU_GLOBAL_RESET'' 0x10 (Some 0x0), Register
    ''PMU_SETDIS'' 0x14 (Some 0x0), Register ''PMU_CLRDIS'' 0x18 (Some 0x0), Register ''PMU_STATDIS'' 0x1c (Some
    0xec000), Register ''PMU_SETWIC'' 0x20 (Some 0x0), Register ''PMU_CLRWIC'' 0x24 (Some 0x0), Register
    ''PMU_SYSVTOR'' 0x28 (Some 0xffffffff), Register ''PMU_EXCLUSIVE'' 0x2c (Some 0x0), Register ''PMU_DAP_ID0''
    0x30 (Some 0x0), Register ''PMU_DAP_EN'' 0x34 (Some 0x0), Register ''PMU_DAP_LOCK'' 0x38 (Some 0x1),
    Register ''PMU_DAP_UNLOCK'' 0x3c (Some 0x0), Register ''PMU_NAP_EN'' 0x40 (Some 0x0), Register ''PMUU_ADC''
    0x44 (Some 0x0), Register ''PMUSETU_ADC'' 0x48 (Some 0x0), Register ''PMUCLRU_ADC'' 0x4c (Some 0x0),
    Register ''PMUSETU_TRNG_TOP'' 0x50 (Some 0x0), Register ''PMUCLRU_TRNG_TOP'' 0x54 (Some 0x0), Register
    ''PMUSETRTC'' 0x58 (Some 0x0), Register ''PMUCLRRTC'' 0x5c (Some 0x0), Register ''PMU_VREF'' 0x60 (Some
    0xffff88), Register ''PMU_VREFCMP'' 0x64 (Some 0x0), Register ''PMU_RBIAS'' 0x68 (Some 0x0), Register
    ''PMU_RBIASLO'' 0x6c (Some 0x0), Register ''PMU_RBIASHI'' 0x70 (Some 0x0), Register ''PMU_SETHOLDVREF'' 0x74
    (Some 0x0), Register ''PMU_CLRHOLDVREF'' 0x78 (Some 0x0), Register ''PMU_BAT_LVL_OK'' 0x7c (Some 0x0),
    Register ''PMU_B_REG_DIG_CTRL'' 0x80 (Some 0x0), Register ''PMU_B_REG_DIG_LATCH_CTRL'' 0x84 (Some 0x0),
    Register ''PMU_EXITPD_HOLD_SET'' 0x88 (Some 0x0), Register ''PMU_EXITPD_HOLD_CLR'' 0x8c (Some 0x0), Register
    ''PMU_EXITPD_MASK'' 0x90 (Some 0x7), Register ''PMU_EXITPD_SRC'' 0x94 (Some 0x0), Register
    ''PMU_EXITPD_MON'' 0x98 (Some 0x0), Register ''PMU_OSC_HOLD_SET'' 0x9c (Some 0x0)]"

definition a1_registers_2440 :: "register list" where
  "a1_registers_2440 = [
    Register ''PMU_OSC_HOLD_CLR'' 0xa0 (Some 0x0), Register ''PMU_OSC_SELECT'' 0xa4 (Some 0x3), Register
    ''PMU_OSC_SELECT_STAT'' 0xa8 (Some 0x3), Register ''PMU_OSC_CTRL'' 0xac (Some 0x3), Register
    ''PMU_MEMCLKSET'' 0xb0 (Some 0x7f), Register ''PMU_MEMCLKCLR'' 0xb4 (Some 0x7f), Register
    ''PMU_PERICLKSET0'' 0xb8 (Some 0x3c08), Register ''PMU_PERICLKCLR0'' 0xbc (Some 0x3c08), Register
    ''PMU_PERICLKSET1'' 0xc0 (Some 0x7), Register ''PMU_PERICLKCLR1'' 0xc4 (Some 0x7), Register
    ''PMU_PERIGATEONSLEEPSET0'' 0xc8 (Some 0x80089c00), Register ''PMU_PERIGATEONSLEEPCLR0'' 0xcc (Some
    0x80089c00), Register ''PMU_PERIGATEONSLEEPSET1'' 0xd0 (Some 0x7), Register ''PMU_PERIGATEONSLEEPCLR1'' 0xd4
    (Some 0x7), Register ''PMU_CLK0'' 0xd8 (Some 0x1f), Register ''PMU_CLK1'' 0xdc (Some 0x1f), Register
    ''PMU_RST0'' 0xe0 (Some 0x0), Register ''PMU_RST1'' 0xe4 (Some 0x0), Register ''PMU_PWRDN_SCRATCH_HOLD_SET''
    0xe8 (Some 0x0), Register ''PMU_PWRDN_SCRATCH_HOLD_CLR'' 0xec (Some 0x0), Register ''PMU_PWRDN_SCRATCH0''
    0xf0 (Some 0x0), Register ''PMU_PWRDN_SCRATCH1'' 0xf4 (Some 0x0), Register ''PMU_PWRDN_SCRATCH2'' 0xf8 (Some
    0x0), Register ''PMU_PWRDN_SCRATCH3'' 0xfc (Some 0x0), Register ''PMU_FUSE_EN_SET'' 0x100 (Some 0x0),
    Register ''PMU_FUSE_EN_CLR'' 0x104 (Some 0x0), Register ''PMU_FUSE_START'' 0x108 (Some 0x0), Register
    ''PMU_FUSE_CTRL'' 0x10c (Some 0x0), Register ''PMU_FUSE_WR_DEV_UID0'' 0x110 (Some 0x0), Register
    ''PMU_FUSE_WR_DEV_UID1'' 0x114 (Some 0x0), Register ''PMU_FUSE_WR_ID'' 0x118 (Some 0x0), Register
    ''PMU_FUSE_WR_RC_OSC_26MHZ'' 0x11c (Some 0x0), Register ''PMU_FUSE_WR_RC_OSC_32KHZ'' 0x120 (Some 0x0),
    Register ''PMU_FUSE_WR_XTL_OSC_26MHZ'' 0x124 (Some 0x0), Register ''PMU_FUSE_WR_LOCK'' 0x128 (Some 0x0),
    Register ''PMU_FUSE_WR_RSRV1'' 0x12c (Some 0x0), Register ''PMU_FUSE_WR_RSRV2'' 0x130 (Some 0x0), Register
    ''PMU_FUSE_WR_RSRV3'' 0x134 (Some 0x0), Register ''PMU_FUSE_WR_RSRV4'' 0x138 (Some 0x0), Register
    ''PMU_FUSE_WR_RSRV5'' 0x13c (Some 0x0)]"

definition a1_registers_2527 :: "register list" where
  "a1_registers_2527 = [
    Register ''PMU_FUSE_RD_DEV_UID0'' 0x140 (Some 0x0), Register ''PMU_FUSE_RD_DEV_UID1'' 0x144 (Some 0x0),
    Register ''PMU_FUSE_RD_ID'' 0x148 (Some 0x0), Register ''PMU_FUSE_RD_RC_OSC_26MHZ'' 0x14c (Some 0x0),
    Register ''PMU_FUSE_RD_RC_OSC_32KHZ'' 0x150 (Some 0x0), Register ''PMU_FUSE_RD_XTL_OSC_26MHZ'' 0x154 (Some
    0x0), Register ''PMU_FUSE_RD_LOCK'' 0x158 (Some 0x2), Register ''PMU_FUSE_RD_RSRV1'' 0x15c (Some 0x0),
    Register ''PMU_FUSE_RD_RSRV2'' 0x160 (Some 0x0), Register ''PMU_FUSE_RD_RSRV3'' 0x164 (Some 0x0), Register
    ''PMU_FUSE_RD_RSRV4'' 0x168 (Some 0x0), Register ''PMU_FUSE_RD_RSRV5'' 0x16c (Some 0x0), Register
    ''PMU_FUSE_TIMING'' 0x170 (Some 0x8007d), Register ''PMU_FUSE_OVRD_EN'' 0x174 (Some 0x0), Register
    ''PMU_FUSE_OVRD'' 0x178 (Some 0x1), Register ''PMU_FUSE_DBG'' 0x17c (Some 0x0), Register ''PMU_ICTRL'' 0x180
    (Some 0x0), Register ''PMU_ISTAT'' 0x184 (Some 0x0), Register ''PMU_ITCR'' 0xf00 (Some 0x0), Register
    ''PMU_ITOP'' 0xf04 (Some 0x0), Register ''PMU_ANTEST_TOP_CTRL'' 0x1008 (Some 0x3), Register
    ''PMU_ANTEST1_REGDIG'' 0x1010 (Some 0x0), Register ''PMU_ANTEST_FUSE'' 0x1018 (Some 0x0), Register
    ''PMU_HW_CONTROLS'' 0x101c (Some 0x0), Register ''PMU_HW_BYPASS'' 0x1020 (Some 0x0), Register
    ''PMU_ANTEST_TRNG'' 0x1024 (Some 0x0), Register ''PMU_ANTEST_TEMP'' 0x1028 (Some 0x0), Register
    ''PMU_TESTBUS_CTRL'' 0x2000 (Some 0x0), Register ''PMU_CHIP_ID'' 0x1fff8 (Some 0x1485694d), Register
    ''PMU_VERSION'' 0x1fffc (Some 0x1100c244)]"

definition a1_registers_2588 :: "register list" where
  "a1_registers_2588 = [
    Register ''RBOX_OVERRIDE'' 0x0 (Some 0x0), Register ''RBOX_OVERRIDE_VALUES'' 0x4 (Some 0x0), Register
    ''RBOX_INPUT_VALUES'' 0x8 (Some 0x0), Register ''RBOX_EC_WP_L'' 0xc (Some 0x0), Register ''RBOX_FW_WP_L''
    0x10 (Some 0x0), Register ''RBOX_RESET'' 0x14 (Some 0x0), Register ''RBOX_VERSION'' 0x18 (Some 0x600c16f)]"

definition a1_registers_2610 :: "register list" where
  "a1_registers_2610 = [
    Register ''SHA_CFG_MSGLEN_LO'' 0x0 (Some 0x0), Register ''SHA_CFG_MSGLEN_HI'' 0x4 (Some 0x0), Register
    ''SHA_CFG_EN'' 0x8 (Some 0x1), Register ''SHA_TRIG'' 0xc (Some 0x2), Register ''SHA_INPUT_FIFO'' 0x10 (Some
    0x0), Register ''SHA_STS_H0'' 0x14 (Some 0x0), Register ''SHA_STS_H1'' 0x18 (Some 0x0), Register
    ''SHA_STS_H2'' 0x1c (Some 0x0), Register ''SHA_STS_H3'' 0x20 (Some 0x0), Register ''SHA_STS_H4'' 0x24 (Some
    0x0), Register ''SHA_STS_H5'' 0x28 (Some 0x0), Register ''SHA_STS_H6'' 0x2c (Some 0x0), Register
    ''SHA_STS_H7'' 0x30 (Some 0x0), Register ''SHA_STS_W0'' 0x34 (Some 0x0), Register ''SHA_STS_W1'' 0x38 (Some
    0x0), Register ''SHA_STS_W2'' 0x3c (Some 0x0), Register ''SHA_STS_W3'' 0x40 (Some 0x0), Register
    ''SHA_STS_W4'' 0x44 (Some 0x0), Register ''SHA_STS_W5'' 0x48 (Some 0x0), Register ''SHA_STS_W6'' 0x4c (Some
    0x0), Register ''SHA_STS_W7'' 0x50 (Some 0x0), Register ''SHA_STS_W8'' 0x54 (Some 0x0), Register
    ''SHA_STS_W9'' 0x58 (Some 0x0), Register ''SHA_STS_W10'' 0x5c (Some 0x0), Register ''SHA_STS_W11'' 0x60
    (Some 0x0), Register ''SHA_STS_W12'' 0x64 (Some 0x0), Register ''SHA_STS_W13'' 0x68 (Some 0x0), Register
    ''SHA_STS_W14'' 0x6c (Some 0x0), Register ''SHA_STS_W15'' 0x70 (Some 0x0), Register ''SHA_STS_A'' 0x74 (Some
    0x0), Register ''SHA_STS_B'' 0x78 (Some 0x0), Register ''SHA_STS_C'' 0x7c (Some 0x0), Register ''SHA_STS_D''
    0x80 (Some 0x0), Register ''SHA_STS_E'' 0x84 (Some 0x0), Register ''SHA_STS_F'' 0x88 (Some 0x0), Register
    ''SHA_STS_G'' 0x8c (Some 0x0), Register ''SHA_STS_H'' 0x90 (Some 0x0), Register ''SHA_ITCR'' 0xf00 (Some
    0x0), Register ''SHA_ITOP'' 0xf04 (Some 0x0)]"

definition a1_regdefs_4427 :: "reg_field list" where
  "a1_regdefs_4427 = [
    Field ''AES_CTRL_KEYSIZE'' 0 0x3 2 0x0 0x0, Field ''AES_CTRL_CTR_MODE'' 2 0x4 1 0x0 0x0, Field
    ''AES_CTRL_ENC_MODE'' 3 0x8 1 0x0 0x0, Field ''AES_CTRL_CTR_ENDIAN'' 4 0x10 1 0x0 0x0, Field
    ''AES_LFSR_CTL_STALL_EN'' 0 0x1 1 0x1 0x60, Field ''AES_LFSR_CTL_WIDTH'' 1 0x6 2 0x3 0x60, Field
    ''AES_LFSR_CTL_FREQ'' 3 0x18 2 0x3 0x60, Field ''AES_VERSION_CHANGE'' 0 0xffffff 24 0xbe5c 0x64, Field
    ''AES_VERSION_REVISION'' 24 0xff000000 8 0x8 0x64]"

definition a1_regdefs_4472 :: "reg_field list" where
  "a1_regdefs_4472 = [
    Field ''CAMO_INT_ENABLE_BREACH'' 0 0x1 1 0x0 0x8, Field ''CAMO_INT_STATE_BREACH'' 0 0x1 1 0x0 0xc, Field
    ''CAMO_INT_TEST_BREACH'' 0 0x1 1 0x0 0x10, Field ''CAMO_VERSION_CHANGE'' 0 0xffffff 24 0xba73 0x28, Field
    ''CAMO_VERSION_REVISION'' 24 0xff000000 8 0x5 0x28]"

definition a1_regdefs_4497 :: "reg_field list" where
  "a1_regdefs_4497 = [
    Field ''FLASH_FSH_TRANS_OFFSET'' 0 0xffff 16 0x0 0x8, Field ''FLASH_FSH_TRANS_MAINB'' 16 0x10000 1 0x0 0x8,
    Field ''FLASH_FSH_TRANS_SIZE'' 17 0x3e0000 5 0x0 0x8, Field ''FLASH_FSH_ICTRL_EDONE'' 0 0x1 1 0x0 0xc, Field
    ''FLASH_FSH_ICTRL_PDONE'' 1 0x2 1 0x0 0xc, Field ''FLASH_FSH_ISTATE_EDONE'' 0 0x1 1 0x0 0x10, Field
    ''FLASH_FSH_ISTATE_PDONE'' 1 0x2 1 0x0 0x10, Field ''FLASH_FSH_OVRD_SIGVAL_IFREN'' 0 0x1 1 0x0 0x24, Field
    ''FLASH_FSH_OVRD_SIGVAL_IFREN1'' 1 0x2 1 0x0 0x24, Field ''FLASH_FSH_OVRD_SIGVAL_REDEN'' 2 0x4 1 0x0 0x24,
    Field ''FLASH_FSH_OVRD_SIGVAL_TMR'' 3 0x8 1 0x0 0x24, Field ''FLASH_FSH_OVRD_SIGVAL_XE'' 4 0x10 1 0x0 0x24,
    Field ''FLASH_FSH_OVRD_SIGVAL_YE'' 5 0x20 1 0x0 0x24, Field ''FLASH_FSH_OVRD_SIGVAL_SE'' 6 0x40 1 0x0 0x24,
    Field ''FLASH_FSH_OVRD_SIGVAL_ERASE'' 7 0x80 1 0x0 0x24, Field ''FLASH_FSH_OVRD_SIGVAL_PROG'' 8 0x100 1 0x0
    0x24, Field ''FLASH_FSH_OVRD_SIGVAL_MAS1'' 9 0x200 1 0x0 0x24, Field ''FLASH_FSH_OVRD_SIGVAL_NVSTR'' 10
    0x400 1 0x0 0x24, Field ''FLASH_FSH_OVRD_SIGVAL_PV'' 11 0x800 1 0x0 0x24, Field ''FLASH_FSH_OVRD_SIGVAL_EV''
    12 0x1000 1 0x0 0x24]"

definition a1_regdefs_4597 :: "reg_field list" where
  "a1_regdefs_4597 = [
    Field ''FLASH_FSH_OVRD_SIGEN_IFREN'' 0 0x1 1 0x0 0x28, Field ''FLASH_FSH_OVRD_SIGEN_IFREN1'' 1 0x2 1 0x0
    0x28, Field ''FLASH_FSH_OVRD_SIGEN_REDEN'' 2 0x4 1 0x0 0x28, Field ''FLASH_FSH_OVRD_SIGEN_TMR'' 3 0x8 1 0x0
    0x28, Field ''FLASH_FSH_OVRD_SIGEN_XE'' 4 0x10 1 0x0 0x28, Field ''FLASH_FSH_OVRD_SIGEN_YE'' 5 0x20 1 0x0
    0x28, Field ''FLASH_FSH_OVRD_SIGEN_SE'' 6 0x40 1 0x0 0x28, Field ''FLASH_FSH_OVRD_SIGEN_ERASE'' 7 0x80 1 0x0
    0x28, Field ''FLASH_FSH_OVRD_SIGEN_PROG'' 8 0x100 1 0x0 0x28, Field ''FLASH_FSH_OVRD_SIGEN_MAS1'' 9 0x200 1
    0x0 0x28, Field ''FLASH_FSH_OVRD_SIGEN_NVSTR'' 10 0x400 1 0x0 0x28, Field ''FLASH_FSH_OVRD_SIGEN_PV'' 11
    0x800 1 0x0 0x28, Field ''FLASH_FSH_OVRD_SIGEN_EV'' 12 0x1000 1 0x0 0x28, Field ''FLASH_FSH_OVRD_SIGEN_DIN''
    13 0x2000 1 0x0 0x28, Field ''FLASH_FSH_OVRD_SIGEN_OFFSET'' 14 0x4000 1 0x0 0x28, Field
    ''FLASH_FSH_OVRD_SIGEN_DOUT'' 15 0x8000 1 0x0 0x28, Field ''FLASH_FSH_REDUN0_EN'' 0 0x1 1 0x0 0xbc, Field
    ''FLASH_FSH_REDUN0_REMAP'' 1 0xfe 7 0x0 0xbc, Field ''FLASH_FSH_REDUN1_EN'' 0 0x1 1 0x0 0xc0, Field
    ''FLASH_FSH_REDUN1_REMAP'' 1 0xfe 7 0x0 0xc0, Field ''FLASH_FSH_DBG_STATE'' 0 0xf 4 0x0 0x16c, Field
    ''FLASH_FSH_ITOP_PDONEINT'' 0 0x1 1 0x0 0xf04, Field ''FLASH_FSH_ITOP_EDONEINT'' 1 0x2 1 0x0 0xf04]"

definition a1_regdefs_4712 :: "reg_field list" where
  "a1_regdefs_4712 = [
    Field ''GLOBALSEC_SEC_CONTROL_PSCU_LFSR_RNG'' 0 0xf 4 0x0 0x26d0, Field
    ''GLOBALSEC_SEC_CONTROL_RBIU_LFSR_RNG'' 4 0xf0 4 0x0 0x26d0, Field ''GLOBALSEC_SEC_CONTROL_CGOU_LFSR_RNG'' 8
    0xf00 4 0x0 0x26d0, Field ''GLOBALSEC_SEC_CONTROL_SEC_MONITOR_MODE'' 12 0x1000 1 0x0 0x26d0, Field
    ''GLOBALSEC_SEC_CONTROL_SEC_MONITOR_CLR'' 13 0x2000 1 0x0 0x26d0, Field ''GLOBALSEC_SEC_CONTROL_PERR_CLR''
    14 0x4000 1 0x0 0x26d0, Field ''GLOBALSEC_SEC_CONTROL_PSCU_LFSR_EN'' 16 0x10000 1 0x0 0x26d0, Field
    ''GLOBALSEC_SEC_CONTROL_PSCU_SEED_LFSR'' 17 0x20000 1 0x0 0x26d0, Field
    ''GLOBALSEC_SEC_CONTROL_RBIU_LFSR_EN'' 18 0x40000 1 0x0 0x26d0, Field
    ''GLOBALSEC_SEC_CONTROL_RBIU_SEED_LFSR'' 19 0x80000 1 0x0 0x26d0, Field
    ''GLOBALSEC_SEC_CONTROL_CGOU_LFSR_EN'' 20 0x100000 1 0x0 0x26d0, Field
    ''GLOBALSEC_SEC_CONTROL_CGOU_SEED_LFSR'' 21 0x200000 1 0x0 0x26d0, Field ''GLOBALSEC_SEC_CONTROL_PPBLOCK''
    24 0x3f000000 6 0x0 0x26d0, Field ''GLOBALSEC_SEC_CONTROL_REG_BANK_CLR'' 31 0x80000000 1 0x0 0x26d0, Field
    ''GLOBALSEC_DBG_CONTROL_DISABLEDEBUG'' 0 0x1 1 0x0 0xb1dc, Field ''GLOBALSEC_DBG_CONTROL_DISABLETRACE'' 1
    0x2 1 0x0 0xb1dc, Field ''GLOBALSEC_VERSION_CHANGE'' 0 0xffffff 24 0xb407 0xb2b0, Field
    ''GLOBALSEC_VERSION_REVISION'' 24 0xff000000 8 0x1 0xb2b0]"

definition a1_regdefs_5517 :: "reg_field list" where
  "a1_regdefs_5517 = [
    Field ''MAU_EN_SYSIBUS'' 0 0x1 1 0x1 0x0, Field ''MAU_EN_SYSDBUS'' 1 0x2 1 0x1 0x0, Field
    ''MAU_TRACECLR_SYSIBUS'' 0 0x1 1 0x1 0x4, Field ''MAU_TRACECLR_SYSDBUS'' 1 0x2 1 0x1 0x4, Field
    ''MAU_TRACEIDX_SYSIBUS'' 0 0x1 1 0x1 0x8, Field ''MAU_TRACEIDX_SYSDBUS'' 1 0x2 1 0x1 0x8]"

definition a1_regdefs_5547 :: "reg_field list" where
  "a1_regdefs_5547 = [
    Field ''PAU_EN_SYSSBUS'' 0 0x1 1 0x1 0x0, Field ''PAU_TRACECLR_SYSSBUS'' 0 0x1 1 0x1 0x4, Field
    ''PAU_TRACEIDX_SYSSBUS'' 0 0x1 1 0x1 0x8]"

definition a1_regdefs_5562 :: "reg_field list" where
  "a1_regdefs_5562 = [
    Field ''PINMUX_DIOM0_CTL_DS'' 0 0x3 2 0x3 0x4, Field ''PINMUX_DIOM0_CTL_IE'' 2 0x4 1 0x0 0x4, Field
    ''PINMUX_DIOM0_CTL_PD'' 3 0x8 1 0x0 0x4, Field ''PINMUX_DIOM0_CTL_PU'' 4 0x10 1 0x0 0x4, Field
    ''PINMUX_DIOM0_CTL_INV'' 5 0x20 1 0x0 0x4, Field ''PINMUX_DIOM1_CTL_DS'' 0 0x3 2 0x3 0xc, Field
    ''PINMUX_DIOM1_CTL_IE'' 2 0x4 1 0x0 0xc, Field ''PINMUX_DIOM1_CTL_PD'' 3 0x8 1 0x0 0xc, Field
    ''PINMUX_DIOM1_CTL_PU'' 4 0x10 1 0x0 0xc, Field ''PINMUX_DIOM1_CTL_INV'' 5 0x20 1 0x0 0xc, Field
    ''PINMUX_DIOM2_CTL_DS'' 0 0x3 2 0x3 0x14, Field ''PINMUX_DIOM2_CTL_IE'' 2 0x4 1 0x0 0x14, Field
    ''PINMUX_DIOM2_CTL_PD'' 3 0x8 1 0x0 0x14, Field ''PINMUX_DIOM2_CTL_PU'' 4 0x10 1 0x0 0x14, Field
    ''PINMUX_DIOM2_CTL_INV'' 5 0x20 1 0x0 0x14, Field ''PINMUX_DIOM3_CTL_DS'' 0 0x3 2 0x3 0x1c, Field
    ''PINMUX_DIOM3_CTL_IE'' 2 0x4 1 0x0 0x1c, Field ''PINMUX_DIOM3_CTL_PD'' 3 0x8 1 0x0 0x1c, Field
    ''PINMUX_DIOM3_CTL_PU'' 4 0x10 1 0x0 0x1c, Field ''PINMUX_DIOM3_CTL_INV'' 5 0x20 1 0x0 0x1c, Field
    ''PINMUX_DIOM4_CTL_DS'' 0 0x3 2 0x3 0x24, Field ''PINMUX_DIOM4_CTL_IE'' 2 0x4 1 0x0 0x24, Field
    ''PINMUX_DIOM4_CTL_PD'' 3 0x8 1 0x0 0x24, Field ''PINMUX_DIOM4_CTL_PU'' 4 0x10 1 0x0 0x24, Field
    ''PINMUX_DIOM4_CTL_INV'' 5 0x20 1 0x0 0x24, Field ''PINMUX_DIOA0_CTL_DS'' 0 0x3 2 0x3 0x2c, Field
    ''PINMUX_DIOA0_CTL_IE'' 2 0x4 1 0x0 0x2c, Field ''PINMUX_DIOA0_CTL_PD'' 3 0x8 1 0x0 0x2c, Field
    ''PINMUX_DIOA0_CTL_PU'' 4 0x10 1 0x0 0x2c, Field ''PINMUX_DIOA0_CTL_INV'' 5 0x20 1 0x0 0x2c]"

definition a1_regdefs_5712 :: "reg_field list" where
  "a1_regdefs_5712 = [
    Field ''PINMUX_DIOA1_CTL_DS'' 0 0x3 2 0x3 0x34, Field ''PINMUX_DIOA1_CTL_IE'' 2 0x4 1 0x0 0x34, Field
    ''PINMUX_DIOA1_CTL_PD'' 3 0x8 1 0x0 0x34, Field ''PINMUX_DIOA1_CTL_PU'' 4 0x10 1 0x0 0x34, Field
    ''PINMUX_DIOA1_CTL_INV'' 5 0x20 1 0x0 0x34, Field ''PINMUX_DIOA2_CTL_DS'' 0 0x3 2 0x3 0x3c, Field
    ''PINMUX_DIOA2_CTL_IE'' 2 0x4 1 0x0 0x3c, Field ''PINMUX_DIOA2_CTL_PD'' 3 0x8 1 0x0 0x3c, Field
    ''PINMUX_DIOA2_CTL_PU'' 4 0x10 1 0x0 0x3c, Field ''PINMUX_DIOA2_CTL_INV'' 5 0x20 1 0x0 0x3c, Field
    ''PINMUX_DIOA3_CTL_DS'' 0 0x3 2 0x3 0x44, Field ''PINMUX_DIOA3_CTL_IE'' 2 0x4 1 0x0 0x44, Field
    ''PINMUX_DIOA3_CTL_PD'' 3 0x8 1 0x0 0x44, Field ''PINMUX_DIOA3_CTL_PU'' 4 0x10 1 0x0 0x44, Field
    ''PINMUX_DIOA3_CTL_INV'' 5 0x20 1 0x0 0x44, Field ''PINMUX_DIOA4_CTL_DS'' 0 0x3 2 0x3 0x4c, Field
    ''PINMUX_DIOA4_CTL_IE'' 2 0x4 1 0x0 0x4c, Field ''PINMUX_DIOA4_CTL_PD'' 3 0x8 1 0x0 0x4c, Field
    ''PINMUX_DIOA4_CTL_PU'' 4 0x10 1 0x0 0x4c, Field ''PINMUX_DIOA4_CTL_INV'' 5 0x20 1 0x0 0x4c, Field
    ''PINMUX_DIOA5_CTL_DS'' 0 0x3 2 0x3 0x54, Field ''PINMUX_DIOA5_CTL_IE'' 2 0x4 1 0x0 0x54, Field
    ''PINMUX_DIOA5_CTL_PD'' 3 0x8 1 0x0 0x54, Field ''PINMUX_DIOA5_CTL_PU'' 4 0x10 1 0x0 0x54, Field
    ''PINMUX_DIOA5_CTL_INV'' 5 0x20 1 0x0 0x54, Field ''PINMUX_DIOA6_CTL_DS'' 0 0x3 2 0x3 0x5c, Field
    ''PINMUX_DIOA6_CTL_IE'' 2 0x4 1 0x0 0x5c, Field ''PINMUX_DIOA6_CTL_PD'' 3 0x8 1 0x0 0x5c, Field
    ''PINMUX_DIOA6_CTL_PU'' 4 0x10 1 0x0 0x5c, Field ''PINMUX_DIOA6_CTL_INV'' 5 0x20 1 0x0 0x5c]"

definition a1_regdefs_5862 :: "reg_field list" where
  "a1_regdefs_5862 = [
    Field ''PINMUX_DIOA7_CTL_DS'' 0 0x3 2 0x3 0x64, Field ''PINMUX_DIOA7_CTL_IE'' 2 0x4 1 0x0 0x64, Field
    ''PINMUX_DIOA7_CTL_PD'' 3 0x8 1 0x0 0x64, Field ''PINMUX_DIOA7_CTL_PU'' 4 0x10 1 0x0 0x64, Field
    ''PINMUX_DIOA7_CTL_INV'' 5 0x20 1 0x0 0x64, Field ''PINMUX_DIOA8_CTL_DS'' 0 0x3 2 0x3 0x6c, Field
    ''PINMUX_DIOA8_CTL_IE'' 2 0x4 1 0x0 0x6c, Field ''PINMUX_DIOA8_CTL_PD'' 3 0x8 1 0x0 0x6c, Field
    ''PINMUX_DIOA8_CTL_PU'' 4 0x10 1 0x0 0x6c, Field ''PINMUX_DIOA8_CTL_INV'' 5 0x20 1 0x0 0x6c, Field
    ''PINMUX_DIOA9_CTL_DS'' 0 0x3 2 0x3 0x74, Field ''PINMUX_DIOA9_CTL_IE'' 2 0x4 1 0x0 0x74, Field
    ''PINMUX_DIOA9_CTL_PD'' 3 0x8 1 0x0 0x74, Field ''PINMUX_DIOA9_CTL_PU'' 4 0x10 1 0x0 0x74, Field
    ''PINMUX_DIOA9_CTL_INV'' 5 0x20 1 0x0 0x74, Field ''PINMUX_DIOA10_CTL_DS'' 0 0x3 2 0x3 0x7c, Field
    ''PINMUX_DIOA10_CTL_IE'' 2 0x4 1 0x0 0x7c, Field ''PINMUX_DIOA10_CTL_PD'' 3 0x8 1 0x0 0x7c, Field
    ''PINMUX_DIOA10_CTL_PU'' 4 0x10 1 0x0 0x7c, Field ''PINMUX_DIOA10_CTL_INV'' 5 0x20 1 0x0 0x7c, Field
    ''PINMUX_DIOA11_CTL_DS'' 0 0x3 2 0x3 0x84, Field ''PINMUX_DIOA11_CTL_IE'' 2 0x4 1 0x0 0x84, Field
    ''PINMUX_DIOA11_CTL_PD'' 3 0x8 1 0x0 0x84, Field ''PINMUX_DIOA11_CTL_PU'' 4 0x10 1 0x0 0x84, Field
    ''PINMUX_DIOA11_CTL_INV'' 5 0x20 1 0x0 0x84, Field ''PINMUX_DIOA12_CTL_DS'' 0 0x3 2 0x3 0x8c, Field
    ''PINMUX_DIOA12_CTL_IE'' 2 0x4 1 0x0 0x8c, Field ''PINMUX_DIOA12_CTL_PD'' 3 0x8 1 0x0 0x8c, Field
    ''PINMUX_DIOA12_CTL_PU'' 4 0x10 1 0x0 0x8c, Field ''PINMUX_DIOA12_CTL_INV'' 5 0x20 1 0x0 0x8c]"

definition a1_regdefs_6012 :: "reg_field list" where
  "a1_regdefs_6012 = [
    Field ''PINMUX_DIOA13_CTL_DS'' 0 0x3 2 0x3 0x94, Field ''PINMUX_DIOA13_CTL_IE'' 2 0x4 1 0x0 0x94, Field
    ''PINMUX_DIOA13_CTL_PD'' 3 0x8 1 0x0 0x94, Field ''PINMUX_DIOA13_CTL_PU'' 4 0x10 1 0x0 0x94, Field
    ''PINMUX_DIOA13_CTL_INV'' 5 0x20 1 0x0 0x94, Field ''PINMUX_DIOA14_CTL_DS'' 0 0x3 2 0x3 0x9c, Field
    ''PINMUX_DIOA14_CTL_IE'' 2 0x4 1 0x0 0x9c, Field ''PINMUX_DIOA14_CTL_PD'' 3 0x8 1 0x0 0x9c, Field
    ''PINMUX_DIOA14_CTL_PU'' 4 0x10 1 0x0 0x9c, Field ''PINMUX_DIOA14_CTL_INV'' 5 0x20 1 0x0 0x9c, Field
    ''PINMUX_DIOB0_CTL_DS'' 0 0x3 2 0x3 0xa4, Field ''PINMUX_DIOB0_CTL_IE'' 2 0x4 1 0x0 0xa4, Field
    ''PINMUX_DIOB0_CTL_PD'' 3 0x8 1 0x0 0xa4, Field ''PINMUX_DIOB0_CTL_PU'' 4 0x10 1 0x0 0xa4, Field
    ''PINMUX_DIOB0_CTL_INV'' 5 0x20 1 0x0 0xa4, Field ''PINMUX_DIOB1_CTL_DS'' 0 0x3 2 0x3 0xac, Field
    ''PINMUX_DIOB1_CTL_IE'' 2 0x4 1 0x0 0xac, Field ''PINMUX_DIOB1_CTL_PD'' 3 0x8 1 0x0 0xac, Field
    ''PINMUX_DIOB1_CTL_PU'' 4 0x10 1 0x0 0xac, Field ''PINMUX_DIOB1_CTL_INV'' 5 0x20 1 0x0 0xac, Field
    ''PINMUX_DIOB2_CTL_DS'' 0 0x3 2 0x3 0xb4, Field ''PINMUX_DIOB2_CTL_IE'' 2 0x4 1 0x0 0xb4, Field
    ''PINMUX_DIOB2_CTL_PD'' 3 0x8 1 0x0 0xb4, Field ''PINMUX_DIOB2_CTL_PU'' 4 0x10 1 0x0 0xb4, Field
    ''PINMUX_DIOB2_CTL_INV'' 5 0x20 1 0x0 0xb4, Field ''PINMUX_DIOB3_CTL_DS'' 0 0x3 2 0x3 0xbc, Field
    ''PINMUX_DIOB3_CTL_IE'' 2 0x4 1 0x0 0xbc, Field ''PINMUX_DIOB3_CTL_PD'' 3 0x8 1 0x0 0xbc, Field
    ''PINMUX_DIOB3_CTL_PU'' 4 0x10 1 0x0 0xbc, Field ''PINMUX_DIOB3_CTL_INV'' 5 0x20 1 0x0 0xbc]"

definition a1_regdefs_6162 :: "reg_field list" where
  "a1_regdefs_6162 = [
    Field ''PINMUX_DIOB4_CTL_DS'' 0 0x3 2 0x3 0xc4, Field ''PINMUX_DIOB4_CTL_IE'' 2 0x4 1 0x0 0xc4, Field
    ''PINMUX_DIOB4_CTL_PD'' 3 0x8 1 0x0 0xc4, Field ''PINMUX_DIOB4_CTL_PU'' 4 0x10 1 0x0 0xc4, Field
    ''PINMUX_DIOB4_CTL_INV'' 5 0x20 1 0x0 0xc4, Field ''PINMUX_DIOB5_CTL_DS'' 0 0x3 2 0x3 0xcc, Field
    ''PINMUX_DIOB5_CTL_IE'' 2 0x4 1 0x0 0xcc, Field ''PINMUX_DIOB5_CTL_PD'' 3 0x8 1 0x0 0xcc, Field
    ''PINMUX_DIOB5_CTL_PU'' 4 0x10 1 0x0 0xcc, Field ''PINMUX_DIOB5_CTL_INV'' 5 0x20 1 0x0 0xcc, Field
    ''PINMUX_DIOB6_CTL_DS'' 0 0x3 2 0x3 0xd4, Field ''PINMUX_DIOB6_CTL_IE'' 2 0x4 1 0x0 0xd4, Field
    ''PINMUX_DIOB6_CTL_PD'' 3 0x8 1 0x0 0xd4, Field ''PINMUX_DIOB6_CTL_PU'' 4 0x10 1 0x0 0xd4, Field
    ''PINMUX_DIOB6_CTL_INV'' 5 0x20 1 0x0 0xd4, Field ''PINMUX_DIOB7_CTL_DS'' 0 0x3 2 0x3 0xdc, Field
    ''PINMUX_DIOB7_CTL_IE'' 2 0x4 1 0x0 0xdc, Field ''PINMUX_DIOB7_CTL_PD'' 3 0x8 1 0x0 0xdc, Field
    ''PINMUX_DIOB7_CTL_PU'' 4 0x10 1 0x0 0xdc, Field ''PINMUX_DIOB7_CTL_INV'' 5 0x20 1 0x0 0xdc, Field
    ''PINMUX_DIOB8_CTL_DS'' 0 0x3 2 0x3 0xe4, Field ''PINMUX_DIOB8_CTL_IE'' 2 0x4 1 0x0 0xe4, Field
    ''PINMUX_DIOB8_CTL_PD'' 3 0x8 1 0x0 0xe4, Field ''PINMUX_DIOB8_CTL_PU'' 4 0x10 1 0x0 0xe4, Field
    ''PINMUX_DIOB8_CTL_INV'' 5 0x20 1 0x0 0xe4, Field ''PINMUX_RTCXOP_CTL_DS'' 0 0x3 2 0x3 0xec, Field
    ''PINMUX_RTCXOP_CTL_IE'' 2 0x4 1 0x0 0xec, Field ''PINMUX_RTCXOP_CTL_PD'' 3 0x8 1 0x0 0xec, Field
    ''PINMUX_RTCXOP_CTL_PU'' 4 0x10 1 0x0 0xec, Field ''PINMUX_RTCXOP_CTL_INV'' 5 0x20 1 0x0 0xec]"

definition a1_regdefs_6312 :: "reg_field list" where
  "a1_regdefs_6312 = [
    Field ''PINMUX_SWDPTRACE_CTL_DS'' 0 0x3 2 0x3 0xf4, Field ''PINMUX_SWDPTRACE_CTL_IE'' 2 0x4 1 0x0 0xf4,
    Field ''PINMUX_SWDPTRACE_CTL_PD'' 3 0x8 1 0x0 0xf4, Field ''PINMUX_SWDPTRACE_CTL_PU'' 4 0x10 1 0x0 0xf4,
    Field ''PINMUX_SWDPTRACE_CTL_INV'' 5 0x20 1 0x0 0xf4, Field ''PINMUX_SWDPDATA_CTL_DS'' 0 0x3 2 0x3 0xfc,
    Field ''PINMUX_SWDPDATA_CTL_IE'' 2 0x4 1 0x1 0xfc, Field ''PINMUX_SWDPDATA_CTL_PD'' 3 0x8 1 0x0 0xfc, Field
    ''PINMUX_SWDPDATA_CTL_PU'' 4 0x10 1 0x0 0xfc, Field ''PINMUX_SWDPDATA_CTL_INV'' 5 0x20 1 0x0 0xfc, Field
    ''PINMUX_TESTMODE_CTL_DS'' 0 0x3 2 0x3 0x104, Field ''PINMUX_TESTMODE_CTL_IE'' 2 0x4 1 0x1 0x104, Field
    ''PINMUX_TESTMODE_CTL_PD'' 3 0x8 1 0x0 0x104, Field ''PINMUX_TESTMODE_CTL_PU'' 4 0x10 1 0x0 0x104, Field
    ''PINMUX_TESTMODE_CTL_INV'' 5 0x20 1 0x0 0x104, Field ''PINMUX_RESETB_CTL_DS'' 0 0x3 2 0x3 0x10c, Field
    ''PINMUX_RESETB_CTL_IE'' 2 0x4 1 0x1 0x10c, Field ''PINMUX_RESETB_CTL_PD'' 3 0x8 1 0x0 0x10c, Field
    ''PINMUX_RESETB_CTL_PU'' 4 0x10 1 0x0 0x10c, Field ''PINMUX_RESETB_CTL_INV'' 5 0x20 1 0x0 0x10c, Field
    ''PINMUX_VIO0_CTL_DS'' 0 0x3 2 0x3 0x114, Field ''PINMUX_VIO0_CTL_IE'' 2 0x4 1 0x0 0x114, Field
    ''PINMUX_VIO0_CTL_PD'' 3 0x8 1 0x0 0x114, Field ''PINMUX_VIO0_CTL_PU'' 4 0x10 1 0x0 0x114, Field
    ''PINMUX_VIO0_CTL_INV'' 5 0x20 1 0x0 0x114, Field ''PINMUX_VIO1_CTL_DS'' 0 0x3 2 0x3 0x11c, Field
    ''PINMUX_VIO1_CTL_IE'' 2 0x4 1 0x0 0x11c, Field ''PINMUX_VIO1_CTL_PD'' 3 0x8 1 0x0 0x11c, Field
    ''PINMUX_VIO1_CTL_PU'' 4 0x10 1 0x0 0x11c, Field ''PINMUX_VIO1_CTL_INV'' 5 0x20 1 0x0 0x11c]"

definition a1_regdefs_6462 :: "reg_field list" where
  "a1_regdefs_6462 = [
    Field ''PINMUX_TDI_CTL_DS'' 0 0x3 2 0x3 0x124, Field ''PINMUX_TDI_CTL_IE'' 2 0x4 1 0x0 0x124, Field
    ''PINMUX_TDI_CTL_PD'' 3 0x8 1 0x0 0x124, Field ''PINMUX_TDI_CTL_PU'' 4 0x10 1 0x0 0x124, Field
    ''PINMUX_TDI_CTL_INV'' 5 0x20 1 0x0 0x124, Field ''PINMUX_TMS_CTL_DS'' 0 0x3 2 0x3 0x12c, Field
    ''PINMUX_TMS_CTL_IE'' 2 0x4 1 0x0 0x12c, Field ''PINMUX_TMS_CTL_PD'' 3 0x8 1 0x0 0x12c, Field
    ''PINMUX_TMS_CTL_PU'' 4 0x10 1 0x0 0x12c, Field ''PINMUX_TMS_CTL_INV'' 5 0x20 1 0x0 0x12c, Field
    ''PINMUX_TCK_CTL_DS'' 0 0x3 2 0x3 0x134, Field ''PINMUX_TCK_CTL_IE'' 2 0x4 1 0x0 0x134, Field
    ''PINMUX_TCK_CTL_PD'' 3 0x8 1 0x0 0x134, Field ''PINMUX_TCK_CTL_PU'' 4 0x10 1 0x0 0x134, Field
    ''PINMUX_TCK_CTL_INV'' 5 0x20 1 0x0 0x134, Field ''PINMUX_TDO_CTL_DS'' 0 0x3 2 0x3 0x13c, Field
    ''PINMUX_TDO_CTL_IE'' 2 0x4 1 0x0 0x13c, Field ''PINMUX_TDO_CTL_PD'' 3 0x8 1 0x0 0x13c, Field
    ''PINMUX_TDO_CTL_PU'' 4 0x10 1 0x0 0x13c, Field ''PINMUX_TDO_CTL_INV'' 5 0x20 1 0x0 0x13c]"

definition a1_regdefs_6562 :: "reg_field list" where
  "a1_regdefs_6562 = [
    Field ''PINMUX_SETHOLD0_DIOM0'' 0 0x1 1 0x0 0x140, Field ''PINMUX_SETHOLD0_DIOM1'' 1 0x2 1 0x0 0x140, Field
    ''PINMUX_SETHOLD0_DIOM2'' 2 0x4 1 0x0 0x140, Field ''PINMUX_SETHOLD0_DIOM3'' 3 0x8 1 0x0 0x140, Field
    ''PINMUX_SETHOLD0_DIOM4'' 4 0x10 1 0x0 0x140, Field ''PINMUX_SETHOLD0_DIOA0'' 5 0x20 1 0x0 0x140, Field
    ''PINMUX_SETHOLD0_DIOA1'' 6 0x40 1 0x0 0x140, Field ''PINMUX_SETHOLD0_DIOA2'' 7 0x80 1 0x0 0x140, Field
    ''PINMUX_SETHOLD0_DIOA3'' 8 0x100 1 0x0 0x140, Field ''PINMUX_SETHOLD0_DIOA4'' 9 0x200 1 0x0 0x140, Field
    ''PINMUX_SETHOLD0_DIOA5'' 10 0x400 1 0x0 0x140, Field ''PINMUX_SETHOLD0_DIOA6'' 11 0x800 1 0x0 0x140, Field
    ''PINMUX_SETHOLD0_DIOA7'' 12 0x1000 1 0x0 0x140, Field ''PINMUX_SETHOLD0_DIOA8'' 13 0x2000 1 0x0 0x140,
    Field ''PINMUX_SETHOLD0_DIOA9'' 14 0x4000 1 0x0 0x140, Field ''PINMUX_SETHOLD0_DIOA10'' 15 0x8000 1 0x0
    0x140, Field ''PINMUX_SETHOLD0_DIOA11'' 16 0x10000 1 0x0 0x140, Field ''PINMUX_SETHOLD0_DIOA12'' 17 0x20000
    1 0x0 0x140, Field ''PINMUX_SETHOLD0_DIOA13'' 18 0x40000 1 0x0 0x140, Field ''PINMUX_SETHOLD0_DIOA14'' 19
    0x80000 1 0x0 0x140, Field ''PINMUX_SETHOLD0_DIOB0'' 20 0x100000 1 0x0 0x140, Field
    ''PINMUX_SETHOLD0_DIOB1'' 21 0x200000 1 0x0 0x140, Field ''PINMUX_SETHOLD0_DIOB2'' 22 0x400000 1 0x0 0x140,
    Field ''PINMUX_SETHOLD0_DIOB3'' 23 0x800000 1 0x0 0x140, Field ''PINMUX_SETHOLD0_DIOB4'' 24 0x1000000 1 0x0
    0x140, Field ''PINMUX_SETHOLD0_DIOB5'' 25 0x2000000 1 0x0 0x140, Field ''PINMUX_SETHOLD0_DIOB6'' 26
    0x4000000 1 0x0 0x140, Field ''PINMUX_SETHOLD0_DIOB7'' 27 0x8000000 1 0x0 0x140, Field
    ''PINMUX_SETHOLD0_DIOB8'' 28 0x10000000 1 0x0 0x140]"

definition a1_regdefs_6707 :: "reg_field list" where
  "a1_regdefs_6707 = [
    Field ''PINMUX_SETHOLD1_RTCXOP'' 12 0x1000 1 0x0 0x144, Field ''PINMUX_SETHOLD1_SWDPTRACE'' 13 0x2000 1 0x0
    0x144, Field ''PINMUX_SETHOLD1_SWDPDATA'' 14 0x4000 1 0x0 0x144, Field ''PINMUX_SETHOLD1_VIO0'' 18 0x40000 1
    0x0 0x144, Field ''PINMUX_SETHOLD1_VIO1'' 19 0x80000 1 0x0 0x144, Field ''PINMUX_SETHOLD1_TDO'' 23 0x800000
    1 0x0 0x144]"

definition a1_regdefs_6737 :: "reg_field list" where
  "a1_regdefs_6737 = [
    Field ''PINMUX_CLRHOLD0_DIOM0'' 0 0x1 1 0x0 0x148, Field ''PINMUX_CLRHOLD0_DIOM1'' 1 0x2 1 0x0 0x148, Field
    ''PINMUX_CLRHOLD0_DIOM2'' 2 0x4 1 0x0 0x148, Field ''PINMUX_CLRHOLD0_DIOM3'' 3 0x8 1 0x0 0x148, Field
    ''PINMUX_CLRHOLD0_DIOM4'' 4 0x10 1 0x0 0x148, Field ''PINMUX_CLRHOLD0_DIOA0'' 5 0x20 1 0x0 0x148, Field
    ''PINMUX_CLRHOLD0_DIOA1'' 6 0x40 1 0x0 0x148, Field ''PINMUX_CLRHOLD0_DIOA2'' 7 0x80 1 0x0 0x148, Field
    ''PINMUX_CLRHOLD0_DIOA3'' 8 0x100 1 0x0 0x148, Field ''PINMUX_CLRHOLD0_DIOA4'' 9 0x200 1 0x0 0x148, Field
    ''PINMUX_CLRHOLD0_DIOA5'' 10 0x400 1 0x0 0x148, Field ''PINMUX_CLRHOLD0_DIOA6'' 11 0x800 1 0x0 0x148, Field
    ''PINMUX_CLRHOLD0_DIOA7'' 12 0x1000 1 0x0 0x148, Field ''PINMUX_CLRHOLD0_DIOA8'' 13 0x2000 1 0x0 0x148,
    Field ''PINMUX_CLRHOLD0_DIOA9'' 14 0x4000 1 0x0 0x148, Field ''PINMUX_CLRHOLD0_DIOA10'' 15 0x8000 1 0x0
    0x148, Field ''PINMUX_CLRHOLD0_DIOA11'' 16 0x10000 1 0x0 0x148, Field ''PINMUX_CLRHOLD0_DIOA12'' 17 0x20000
    1 0x0 0x148, Field ''PINMUX_CLRHOLD0_DIOA13'' 18 0x40000 1 0x0 0x148, Field ''PINMUX_CLRHOLD0_DIOA14'' 19
    0x80000 1 0x0 0x148, Field ''PINMUX_CLRHOLD0_DIOB0'' 20 0x100000 1 0x0 0x148, Field
    ''PINMUX_CLRHOLD0_DIOB1'' 21 0x200000 1 0x0 0x148, Field ''PINMUX_CLRHOLD0_DIOB2'' 22 0x400000 1 0x0 0x148,
    Field ''PINMUX_CLRHOLD0_DIOB3'' 23 0x800000 1 0x0 0x148, Field ''PINMUX_CLRHOLD0_DIOB4'' 24 0x1000000 1 0x0
    0x148, Field ''PINMUX_CLRHOLD0_DIOB5'' 25 0x2000000 1 0x0 0x148, Field ''PINMUX_CLRHOLD0_DIOB6'' 26
    0x4000000 1 0x0 0x148, Field ''PINMUX_CLRHOLD0_DIOB7'' 27 0x8000000 1 0x0 0x148, Field
    ''PINMUX_CLRHOLD0_DIOB8'' 28 0x10000000 1 0x0 0x148]"

definition a1_regdefs_6882 :: "reg_field list" where
  "a1_regdefs_6882 = [
    Field ''PINMUX_CLRHOLD1_RTCXOP'' 12 0x1000 1 0x0 0x14c, Field ''PINMUX_CLRHOLD1_SWDPTRACE'' 13 0x2000 1 0x0
    0x14c, Field ''PINMUX_CLRHOLD1_SWDPDATA'' 14 0x4000 1 0x0 0x14c, Field ''PINMUX_CLRHOLD1_VIO0'' 18 0x40000 1
    0x0 0x14c, Field ''PINMUX_CLRHOLD1_VIO1'' 19 0x80000 1 0x0 0x14c, Field ''PINMUX_CLRHOLD1_TDO'' 23 0x800000
    1 0x0 0x14c]"

definition a1_regdefs_6912 :: "reg_field list" where
  "a1_regdefs_6912 = [
    Field ''PINMUX_EXITEN0_DIOM0'' 0 0x1 1 0x0 0x2e0, Field ''PINMUX_EXITEN0_DIOM1'' 1 0x2 1 0x0 0x2e0, Field
    ''PINMUX_EXITEN0_DIOM2'' 2 0x4 1 0x0 0x2e0, Field ''PINMUX_EXITEN0_DIOM3'' 3 0x8 1 0x0 0x2e0, Field
    ''PINMUX_EXITEN0_DIOM4'' 4 0x10 1 0x0 0x2e0, Field ''PINMUX_EXITEN0_DIOA0'' 5 0x20 1 0x0 0x2e0, Field
    ''PINMUX_EXITEN0_DIOA1'' 6 0x40 1 0x0 0x2e0, Field ''PINMUX_EXITEN0_DIOA2'' 7 0x80 1 0x0 0x2e0, Field
    ''PINMUX_EXITEN0_DIOA3'' 8 0x100 1 0x0 0x2e0, Field ''PINMUX_EXITEN0_DIOA4'' 9 0x200 1 0x0 0x2e0, Field
    ''PINMUX_EXITEN0_DIOA5'' 10 0x400 1 0x0 0x2e0, Field ''PINMUX_EXITEN0_DIOA6'' 11 0x800 1 0x0 0x2e0, Field
    ''PINMUX_EXITEN0_DIOA7'' 12 0x1000 1 0x0 0x2e0, Field ''PINMUX_EXITEN0_DIOA8'' 13 0x2000 1 0x0 0x2e0, Field
    ''PINMUX_EXITEN0_DIOA9'' 14 0x4000 1 0x0 0x2e0, Field ''PINMUX_EXITEN0_DIOA10'' 15 0x8000 1 0x0 0x2e0, Field
    ''PINMUX_EXITEN0_DIOA11'' 16 0x10000 1 0x0 0x2e0, Field ''PINMUX_EXITEN0_DIOA12'' 17 0x20000 1 0x0 0x2e0,
    Field ''PINMUX_EXITEN0_DIOA13'' 18 0x40000 1 0x0 0x2e0, Field ''PINMUX_EXITEN0_DIOA14'' 19 0x80000 1 0x0
    0x2e0, Field ''PINMUX_EXITEN0_DIOB0'' 20 0x100000 1 0x0 0x2e0, Field ''PINMUX_EXITEN0_DIOB1'' 21 0x200000 1
    0x0 0x2e0, Field ''PINMUX_EXITEN0_DIOB2'' 22 0x400000 1 0x0 0x2e0, Field ''PINMUX_EXITEN0_DIOB3'' 23
    0x800000 1 0x0 0x2e0, Field ''PINMUX_EXITEN0_DIOB4'' 24 0x1000000 1 0x0 0x2e0, Field
    ''PINMUX_EXITEN0_DIOB5'' 25 0x2000000 1 0x0 0x2e0, Field ''PINMUX_EXITEN0_DIOB6'' 26 0x4000000 1 0x0 0x2e0,
    Field ''PINMUX_EXITEN0_DIOB7'' 27 0x8000000 1 0x0 0x2e0, Field ''PINMUX_EXITEN0_DIOB8'' 28 0x10000000 1 0x0
    0x2e0]"

definition a1_regdefs_7057 :: "reg_field list" where
  "a1_regdefs_7057 = [
    Field ''PINMUX_EXITEN1_RTCXOP'' 12 0x1000 1 0x0 0x2e4, Field ''PINMUX_EXITEN1_SWDPTRACE'' 13 0x2000 1 0x0
    0x2e4, Field ''PINMUX_EXITEN1_SWDPDATA'' 14 0x4000 1 0x0 0x2e4, Field ''PINMUX_EXITEN1_VIO0'' 18 0x40000 1
    0x0 0x2e4, Field ''PINMUX_EXITEN1_VIO1'' 19 0x80000 1 0x0 0x2e4, Field ''PINMUX_EXITEN1_TDO'' 23 0x800000 1
    0x0 0x2e4]"

definition a1_regdefs_7087 :: "reg_field list" where
  "a1_regdefs_7087 = [
    Field ''PINMUX_EXITEDGE0_DIOM0'' 0 0x1 1 0x0 0x2e8, Field ''PINMUX_EXITEDGE0_DIOM1'' 1 0x2 1 0x0 0x2e8,
    Field ''PINMUX_EXITEDGE0_DIOM2'' 2 0x4 1 0x0 0x2e8, Field ''PINMUX_EXITEDGE0_DIOM3'' 3 0x8 1 0x0 0x2e8,
    Field ''PINMUX_EXITEDGE0_DIOM4'' 4 0x10 1 0x0 0x2e8, Field ''PINMUX_EXITEDGE0_DIOA0'' 5 0x20 1 0x0 0x2e8,
    Field ''PINMUX_EXITEDGE0_DIOA1'' 6 0x40 1 0x0 0x2e8, Field ''PINMUX_EXITEDGE0_DIOA2'' 7 0x80 1 0x0 0x2e8,
    Field ''PINMUX_EXITEDGE0_DIOA3'' 8 0x100 1 0x0 0x2e8, Field ''PINMUX_EXITEDGE0_DIOA4'' 9 0x200 1 0x0 0x2e8,
    Field ''PINMUX_EXITEDGE0_DIOA5'' 10 0x400 1 0x0 0x2e8, Field ''PINMUX_EXITEDGE0_DIOA6'' 11 0x800 1 0x0
    0x2e8, Field ''PINMUX_EXITEDGE0_DIOA7'' 12 0x1000 1 0x0 0x2e8, Field ''PINMUX_EXITEDGE0_DIOA8'' 13 0x2000 1
    0x0 0x2e8, Field ''PINMUX_EXITEDGE0_DIOA9'' 14 0x4000 1 0x0 0x2e8, Field ''PINMUX_EXITEDGE0_DIOA10'' 15
    0x8000 1 0x0 0x2e8, Field ''PINMUX_EXITEDGE0_DIOA11'' 16 0x10000 1 0x0 0x2e8, Field
    ''PINMUX_EXITEDGE0_DIOA12'' 17 0x20000 1 0x0 0x2e8, Field ''PINMUX_EXITEDGE0_DIOA13'' 18 0x40000 1 0x0
    0x2e8, Field ''PINMUX_EXITEDGE0_DIOA14'' 19 0x80000 1 0x0 0x2e8, Field ''PINMUX_EXITEDGE0_DIOB0'' 20
    0x100000 1 0x0 0x2e8, Field ''PINMUX_EXITEDGE0_DIOB1'' 21 0x200000 1 0x0 0x2e8, Field
    ''PINMUX_EXITEDGE0_DIOB2'' 22 0x400000 1 0x0 0x2e8, Field ''PINMUX_EXITEDGE0_DIOB3'' 23 0x800000 1 0x0
    0x2e8, Field ''PINMUX_EXITEDGE0_DIOB4'' 24 0x1000000 1 0x0 0x2e8, Field ''PINMUX_EXITEDGE0_DIOB5'' 25
    0x2000000 1 0x0 0x2e8, Field ''PINMUX_EXITEDGE0_DIOB6'' 26 0x4000000 1 0x0 0x2e8, Field
    ''PINMUX_EXITEDGE0_DIOB7'' 27 0x8000000 1 0x0 0x2e8, Field ''PINMUX_EXITEDGE0_DIOB8'' 28 0x10000000 1 0x0
    0x2e8]"

definition a1_regdefs_7232 :: "reg_field list" where
  "a1_regdefs_7232 = [
    Field ''PINMUX_EXITEDGE1_RTCXOP'' 12 0x1000 1 0x0 0x2ec, Field ''PINMUX_EXITEDGE1_SWDPTRACE'' 13 0x2000 1
    0x0 0x2ec, Field ''PINMUX_EXITEDGE1_SWDPDATA'' 14 0x4000 1 0x0 0x2ec, Field ''PINMUX_EXITEDGE1_VIO0'' 18
    0x40000 1 0x0 0x2ec, Field ''PINMUX_EXITEDGE1_VIO1'' 19 0x80000 1 0x0 0x2ec, Field ''PINMUX_EXITEDGE1_TDO''
    23 0x800000 1 0x0 0x2ec]"

definition a1_regdefs_7262 :: "reg_field list" where
  "a1_regdefs_7262 = [
    Field ''PINMUX_EXITINV0_DIOM0'' 0 0x1 1 0x0 0x2f0, Field ''PINMUX_EXITINV0_DIOM1'' 1 0x2 1 0x0 0x2f0, Field
    ''PINMUX_EXITINV0_DIOM2'' 2 0x4 1 0x0 0x2f0, Field ''PINMUX_EXITINV0_DIOM3'' 3 0x8 1 0x0 0x2f0, Field
    ''PINMUX_EXITINV0_DIOM4'' 4 0x10 1 0x0 0x2f0, Field ''PINMUX_EXITINV0_DIOA0'' 5 0x20 1 0x0 0x2f0, Field
    ''PINMUX_EXITINV0_DIOA1'' 6 0x40 1 0x0 0x2f0, Field ''PINMUX_EXITINV0_DIOA2'' 7 0x80 1 0x0 0x2f0, Field
    ''PINMUX_EXITINV0_DIOA3'' 8 0x100 1 0x0 0x2f0, Field ''PINMUX_EXITINV0_DIOA4'' 9 0x200 1 0x0 0x2f0, Field
    ''PINMUX_EXITINV0_DIOA5'' 10 0x400 1 0x0 0x2f0, Field ''PINMUX_EXITINV0_DIOA6'' 11 0x800 1 0x0 0x2f0, Field
    ''PINMUX_EXITINV0_DIOA7'' 12 0x1000 1 0x0 0x2f0, Field ''PINMUX_EXITINV0_DIOA8'' 13 0x2000 1 0x0 0x2f0,
    Field ''PINMUX_EXITINV0_DIOA9'' 14 0x4000 1 0x0 0x2f0, Field ''PINMUX_EXITINV0_DIOA10'' 15 0x8000 1 0x0
    0x2f0, Field ''PINMUX_EXITINV0_DIOA11'' 16 0x10000 1 0x0 0x2f0, Field ''PINMUX_EXITINV0_DIOA12'' 17 0x20000
    1 0x0 0x2f0, Field ''PINMUX_EXITINV0_DIOA13'' 18 0x40000 1 0x0 0x2f0, Field ''PINMUX_EXITINV0_DIOA14'' 19
    0x80000 1 0x0 0x2f0, Field ''PINMUX_EXITINV0_DIOB0'' 20 0x100000 1 0x0 0x2f0, Field
    ''PINMUX_EXITINV0_DIOB1'' 21 0x200000 1 0x0 0x2f0, Field ''PINMUX_EXITINV0_DIOB2'' 22 0x400000 1 0x0 0x2f0,
    Field ''PINMUX_EXITINV0_DIOB3'' 23 0x800000 1 0x0 0x2f0, Field ''PINMUX_EXITINV0_DIOB4'' 24 0x1000000 1 0x0
    0x2f0, Field ''PINMUX_EXITINV0_DIOB5'' 25 0x2000000 1 0x0 0x2f0, Field ''PINMUX_EXITINV0_DIOB6'' 26
    0x4000000 1 0x0 0x2f0, Field ''PINMUX_EXITINV0_DIOB7'' 27 0x8000000 1 0x0 0x2f0, Field
    ''PINMUX_EXITINV0_DIOB8'' 28 0x10000000 1 0x0 0x2f0]"

definition a1_regdefs_7407 :: "reg_field list" where
  "a1_regdefs_7407 = [
    Field ''PINMUX_EXITINV1_RTCXOP'' 12 0x1000 1 0x0 0x2f4, Field ''PINMUX_EXITINV1_SWDPTRACE'' 13 0x2000 1 0x0
    0x2f4, Field ''PINMUX_EXITINV1_SWDPDATA'' 14 0x4000 1 0x0 0x2f4, Field ''PINMUX_EXITINV1_VIO0'' 18 0x40000 1
    0x0 0x2f4, Field ''PINMUX_EXITINV1_VIO1'' 19 0x80000 1 0x0 0x2f4, Field ''PINMUX_EXITINV1_TDO'' 23 0x800000
    1 0x0 0x2f4]"

definition a1_regdefs_7437 :: "reg_field list" where
  "a1_regdefs_7437 = [
    Field ''PMU_RESET_PORESETB1'' 0 0x1 1 0x1 0x0, Field ''PMU_RESET_DAPRESETB1'' 1 0x2 1 0x1 0x0, Field
    ''PMU_SETRST_SRC'' 0 0x1 1 0x0 0x4, Field ''PMU_CLRRST_SRC'' 0 0x1 1 0x0 0x8, Field ''PMU_RSTSRC_POR'' 0 0x1
    1 0x0 0xc, Field ''PMU_RSTSRC_RESETB'' 1 0x2 1 0x0 0xc, Field ''PMU_RSTSRC_EXIT'' 2 0x4 1 0x0 0xc, Field
    ''PMU_RSTSRC_WDOG'' 3 0x8 1 0x0 0xc, Field ''PMU_RSTSRC_LOCKUP'' 4 0x10 1 0x0 0xc, Field
    ''PMU_RSTSRC_SYSRESET'' 5 0x20 1 0x0 0xc, Field ''PMU_RSTSRC_SOFTWARE'' 6 0x40 1 0x0 0xc, Field
    ''PMU_RSTSRC_FST_BRNOUT'' 7 0x80 1 0x0 0xc]"

definition a1_regdefs_7497 :: "reg_field list" where
  "a1_regdefs_7497 = [
    Field ''PMU_SETDIS_START'' 0 0x1 1 0x0 0x14, Field ''PMU_SETDIS_VDDL'' 1 0x2 1 0x0 0x14, Field
    ''PMU_SETDIS_VDDA'' 2 0x4 1 0x0 0x14, Field ''PMU_SETDIS_VDDSRM'' 3 0x8 1 0x0 0x14, Field
    ''PMU_SETDIS_VDDIOF'' 4 0x10 1 0x0 0x14, Field ''PMU_SETDIS_VDDLK'' 5 0x20 1 0x0 0x14, Field
    ''PMU_SETDIS_VDDSK'' 6 0x40 1 0x0 0x14, Field ''PMU_SETDIS_VDDSRK'' 7 0x80 1 0x0 0x14, Field
    ''PMU_SETDIS_RETCOMPREF'' 8 0x100 1 0x0 0x14, Field ''PMU_SETDIS_BIAS'' 9 0x200 1 0x0 0x14, Field
    ''PMU_SETDIS_BGAP'' 10 0x400 1 0x0 0x14, Field ''PMU_SETDIS_VDDXO'' 11 0x800 1 0x0 0x14, Field
    ''PMU_SETDIS_VDDXOLP'' 12 0x1000 1 0x0 0x14, Field ''PMU_SETDIS_SEL_VDDXOLP'' 13 0x2000 1 0x0 0x14, Field
    ''PMU_SETDIS_XTL'' 14 0x4000 1 0x0 0x14, Field ''PMU_SETDIS_RC_TRIM'' 15 0x8000 1 0x0 0x14, Field
    ''PMU_SETDIS_RC_NOTRIM'' 16 0x10000 1 0x0 0x14, Field ''PMU_SETDIS_BATMON'' 17 0x20000 1 0x0 0x14, Field
    ''PMU_SETDIS_FST_BRNOUT_PWR'' 18 0x40000 1 0x0 0x14, Field ''PMU_SETDIS_FST_BRNOUT'' 19 0x80000 1 0x0 0x14]"

definition a1_regdefs_7597 :: "reg_field list" where
  "a1_regdefs_7597 = [
    Field ''PMU_CLRDIS_START'' 0 0x1 1 0x0 0x18, Field ''PMU_CLRDIS_VDDL'' 1 0x2 1 0x0 0x18, Field
    ''PMU_CLRDIS_VDDA'' 2 0x4 1 0x0 0x18, Field ''PMU_CLRDIS_VDDSRM'' 3 0x8 1 0x0 0x18, Field
    ''PMU_CLRDIS_VDDIOF'' 4 0x10 1 0x0 0x18, Field ''PMU_CLRDIS_VDDLK'' 5 0x20 1 0x0 0x18, Field
    ''PMU_CLRDIS_VDDSK'' 6 0x40 1 0x0 0x18, Field ''PMU_CLRDIS_VDDSRK'' 7 0x80 1 0x0 0x18, Field
    ''PMU_CLRDIS_RETCOMPREF'' 8 0x100 1 0x0 0x18, Field ''PMU_CLRDIS_BIAS'' 9 0x200 1 0x0 0x18, Field
    ''PMU_CLRDIS_BGAP'' 10 0x400 1 0x0 0x18, Field ''PMU_CLRDIS_VDDXO'' 11 0x800 1 0x0 0x18, Field
    ''PMU_CLRDIS_VDDXOLP'' 12 0x1000 1 0x0 0x18, Field ''PMU_CLRDIS_SEL_VDDXOLP'' 13 0x2000 1 0x0 0x18, Field
    ''PMU_CLRDIS_XTL'' 14 0x4000 1 0x0 0x18, Field ''PMU_CLRDIS_RC_TRIM'' 15 0x8000 1 0x0 0x18, Field
    ''PMU_CLRDIS_RC_NOTRIM'' 16 0x10000 1 0x0 0x18, Field ''PMU_CLRDIS_BATMON'' 17 0x20000 1 0x0 0x18, Field
    ''PMU_CLRDIS_FST_BRNOUT_PWR'' 18 0x40000 1 0x0 0x18, Field ''PMU_CLRDIS_FST_BRNOUT'' 19 0x80000 1 0x0 0x18]"

definition a1_regdefs_7697 :: "reg_field list" where
  "a1_regdefs_7697 = [
    Field ''PMU_STATDIS_START'' 0 0x1 1 0x0 0x1c, Field ''PMU_STATDIS_VDDL'' 1 0x2 1 0x0 0x1c, Field
    ''PMU_STATDIS_VDDA'' 2 0x4 1 0x0 0x1c, Field ''PMU_STATDIS_VDDSRM'' 3 0x8 1 0x0 0x1c, Field
    ''PMU_STATDIS_VDDIOF'' 4 0x10 1 0x0 0x1c, Field ''PMU_STATDIS_VDDLK'' 5 0x20 1 0x0 0x1c, Field
    ''PMU_STATDIS_VDDSK'' 6 0x40 1 0x0 0x1c, Field ''PMU_STATDIS_VDDSRK'' 7 0x80 1 0x0 0x1c, Field
    ''PMU_STATDIS_RETCOMPREF'' 8 0x100 1 0x0 0x1c, Field ''PMU_STATDIS_BIAS'' 9 0x200 1 0x0 0x1c, Field
    ''PMU_STATDIS_BGAP'' 10 0x400 1 0x0 0x1c, Field ''PMU_STATDIS_VDDXO'' 11 0x800 1 0x0 0x1c, Field
    ''PMU_STATDIS_VDDXOLP'' 12 0x1000 1 0x0 0x1c, Field ''PMU_STATDIS_SEL_VDDXOLP'' 13 0x2000 1 0x0 0x1c, Field
    ''PMU_STATDIS_XTL'' 14 0x4000 1 0x1 0x1c, Field ''PMU_STATDIS_RC_TRIM'' 15 0x8000 1 0x1 0x1c, Field
    ''PMU_STATDIS_RC_NOTRIM'' 16 0x10000 1 0x0 0x1c, Field ''PMU_STATDIS_BATMON'' 17 0x20000 1 0x1 0x1c, Field
    ''PMU_STATDIS_FST_BRNOUT_PWR'' 18 0x40000 1 0x1 0x1c, Field ''PMU_STATDIS_FST_BRNOUT'' 19 0x80000 1 0x1
    0x1c, Field ''PMU_SETWIC_PROC0'' 0 0x1 1 0x0 0x20, Field ''PMU_CLRWIC_PROC0'' 0 0x1 1 0x0 0x24, Field
    ''PMU_EXCLUSIVE_PROC0'' 0 0x1 1 0x0 0x2c, Field ''PMUU_ADC_ADC_PDB'' 0 0x1 1 0x0 0x44, Field
    ''PMUSETU_ADC_ADC_PDB_3P3'' 0 0x1 1 0x0 0x48, Field ''PMUCLRU_ADC_ADC_PDB_3P3'' 0 0x1 1 0x0 0x4c, Field
    ''PMUSETU_TRNG_TOP_TRNG_LDO_PDB_3P3'' 0 0x1 1 0x0 0x50, Field ''PMUCLRU_TRNG_TOP_TRNG_LDO_PDB_3P3'' 0 0x1 1
    0x0 0x54, Field ''PMUSETRTC_X_RTC_RC_PDB_3P3'' 0 0x1 1 0x0 0x58, Field ''PMUSETRTC_X_RTC_XTL_PDB_3P3'' 1 0x2
    1 0x0 0x58]"

definition a1_regdefs_7847 :: "reg_field list" where
  "a1_regdefs_7847 = [
    Field ''PMUCLRRTC_X_RTC_RC_PDB_3P3'' 0 0x1 1 0x0 0x5c, Field ''PMUCLRRTC_X_RTC_XTL_PDB_3P3'' 1 0x2 1 0x0
    0x5c, Field ''PMU_VREF_REG'' 0 0xf 4 0x8 0x60, Field ''PMU_VREF_RET'' 4 0xf0 4 0x8 0x60, Field
    ''PMU_VREF_RLDOCTRL'' 8 0xf00 4 0xf 0x60, Field ''PMU_VREF_RLDOLNA'' 12 0xf000 4 0xf 0x60, Field
    ''PMU_VREF_RLDOLO'' 16 0xf0000 4 0xf 0x60, Field ''PMU_VREF_LDOXO'' 20 0xf00000 4 0xf 0x60, Field
    ''PMU_VREF_BATMON'' 24 0x7000000 3 0x0 0x60, Field ''PMU_VREFCMP_CMP1'' 0 0x1f 5 0x0 0x64, Field
    ''PMU_VREFCMP_CMP2'' 5 0x3e0 5 0x0 0x64, Field ''PMU_VREFCMP_VHYSTCMP1'' 10 0x1c00 3 0x0 0x64, Field
    ''PMU_VREFCMP_VHYSTCMP2'' 13 0xe000 3 0x0 0x64, Field ''PMU_RBIAS_CTRL'' 0 0xff 8 0x0 0x68, Field
    ''PMU_RBIASLO_TUNEIR10ADC'' 0 0x3 2 0x0 0x6c, Field ''PMU_RBIASLO_TUNEIR10ADC2'' 2 0xc 2 0x0 0x6c, Field
    ''PMU_RBIASLO_TUNEIR10ADC3'' 4 0x30 2 0x0 0x6c, Field ''PMU_RBIASLO_TUNEIR10XOPKDT'' 6 0xc0 2 0x0 0x6c,
    Field ''PMU_RBIASLO_TUNEIR10ADC4'' 8 0x300 2 0x0 0x6c, Field ''PMU_RBIASLO_TUNEIR10COMP'' 10 0xc00 2 0x0
    0x6c, Field ''PMU_RBIASLO_TUNEIR10COMP2'' 12 0x3000 2 0x0 0x6c, Field ''PMU_RBIASLO_TUNEIR10REGXO'' 14
    0xc000 2 0x0 0x6c, Field ''PMU_RBIASLO_TUNEIR10REGXOREF'' 16 0x30000 2 0x0 0x6c, Field
    ''PMU_RBIASLO_TUNEIR10REGSRAMRET'' 18 0xc0000 2 0x0 0x6c, Field ''PMU_RBIASLO_TUNEIR10REGSRAM'' 20 0x300000
    2 0x0 0x6c, Field ''PMU_RBIASLO_TUNEIR10REGREF'' 22 0xc00000 2 0x0 0x6c, Field
    ''PMU_RBIASLO_TUNEIR10REGLOGRET'' 24 0x3000000 2 0x0 0x6c, Field ''PMU_RBIASLO_TUNEIR10REGLOG'' 26 0xc000000
    2 0x0 0x6c, Field ''PMU_RBIASLO_TUNEIR10REGLNAREF'' 28 0x30000000 2 0x0 0x6c, Field
    ''PMU_RBIASLO_TUNEIR10REGLNA'' 30 0xc0000000 2 0x0 0x6c]"

definition a1_regdefs_8005 :: "reg_field list" where
  "a1_regdefs_8005 = [
    Field ''PMU_RBIASHI_TUNEIR10REGLOREF'' 0 0x3 2 0x0 0x70, Field ''PMU_RBIASHI_TUNEIR10REGLO'' 2 0xc 2 0x0
    0x70, Field ''PMU_RBIASHI_TUNEIR10REGAREF'' 4 0x30 2 0x0 0x70, Field ''PMU_RBIASHI_TUNEIR10REGA'' 6 0xc0 2
    0x0 0x70, Field ''PMU_RBIASHI_TUNEIR10REG6'' 8 0x300 2 0x0 0x70, Field ''PMU_RBIASHI_TUNEIR10REG7'' 10 0xc00
    2 0x0 0x70, Field ''PMU_RBIASHI_TUNEIR10REG8'' 12 0x3000 2 0x0 0x70, Field ''PMU_RBIASHI_TUNEIR10REG9'' 14
    0xc000 2 0x0 0x70, Field ''PMU_RBIASHI_TUNEIR10OPAMP'' 16 0x30000 2 0x0 0x70, Field ''PMU_SETHOLDVREF_REG''
    0 0x1 1 0x0 0x74, Field ''PMU_SETHOLDVREF_RET'' 1 0x2 1 0x0 0x74, Field ''PMU_SETHOLDVREF_BIASCTRL'' 2 0x4 1
    0x0 0x74, Field ''PMU_SETHOLDVREF_BIASTUNER'' 3 0x8 1 0x0 0x74, Field ''PMU_SETHOLDVREF_LDOLNA'' 4 0x10 1
    0x0 0x74, Field ''PMU_SETHOLDVREF_LDOLO'' 5 0x20 1 0x0 0x74, Field ''PMU_SETHOLDVREF_LDOCTRL'' 6 0x40 1 0x0
    0x74, Field ''PMU_SETHOLDVREF_LDOXO'' 7 0x80 1 0x0 0x74, Field ''PMU_SETHOLDVREF_BATMON'' 8 0x100 1 0x0
    0x74, Field ''PMU_SETHOLDVREF_CMP1'' 9 0x200 1 0x0 0x74, Field ''PMU_SETHOLDVREF_CMP2'' 10 0x400 1 0x0 0x74,
    Field ''PMU_SETHOLDVREF_VHYSTCMP1'' 11 0x800 1 0x0 0x74, Field ''PMU_SETHOLDVREF_VHYSTCMP2'' 12 0x1000 1 0x0
    0x74]"

definition a1_regdefs_8115 :: "reg_field list" where
  "a1_regdefs_8115 = [
    Field ''PMU_CLRHOLDVREF_REG'' 0 0x1 1 0x0 0x78, Field ''PMU_CLRHOLDVREF_RET'' 1 0x2 1 0x0 0x78, Field
    ''PMU_CLRHOLDVREF_BIASCTRL'' 2 0x4 1 0x0 0x78, Field ''PMU_CLRHOLDVREF_BIASTUNER'' 3 0x8 1 0x0 0x78, Field
    ''PMU_CLRHOLDVREF_LDOLNA'' 4 0x10 1 0x0 0x78, Field ''PMU_CLRHOLDVREF_LDOLO'' 5 0x20 1 0x0 0x78, Field
    ''PMU_CLRHOLDVREF_LDOCTRL'' 6 0x40 1 0x0 0x78, Field ''PMU_CLRHOLDVREF_LDOXO'' 7 0x80 1 0x0 0x78, Field
    ''PMU_CLRHOLDVREF_BATMON'' 8 0x100 1 0x0 0x78, Field ''PMU_CLRHOLDVREF_CMP1'' 9 0x200 1 0x0 0x78, Field
    ''PMU_CLRHOLDVREF_CMP2'' 10 0x400 1 0x0 0x78, Field ''PMU_CLRHOLDVREF_VHYSTCMP1'' 11 0x800 1 0x0 0x78, Field
    ''PMU_CLRHOLDVREF_VHYSTCMP2'' 12 0x1000 1 0x0 0x78, Field ''PMU_B_REG_DIG_CTRL_RBANK_SEL'' 0 0x3 2 0x0 0x80,
    Field ''PMU_B_REG_DIG_CTRL_SPARE'' 2 0x3c 4 0x0 0x80, Field ''PMU_B_REG_DIG_LATCH_CTRL_WR_EN'' 0 0x1 1 0x0
    0x84, Field ''PMU_EXITPD_MASK_PD_EXIT'' 0 0x1 1 0x1 0x90, Field ''PMU_EXITPD_MASK_TIMELS0_PD_EXIT_TIMER0'' 1
    0x2 1 0x1 0x90, Field ''PMU_EXITPD_MASK_TIMELS0_PD_EXIT_TIMER1'' 2 0x4 1 0x1 0x90, Field
    ''PMU_EXITPD_SRC_PD_EXIT'' 0 0x1 1 0x0 0x94, Field ''PMU_EXITPD_SRC_TIMELS0_PD_EXIT_TIMER0'' 1 0x2 1 0x0
    0x94, Field ''PMU_EXITPD_SRC_TIMELS0_PD_EXIT_TIMER1'' 2 0x4 1 0x0 0x94, Field ''PMU_EXITPD_MON_PD_EXIT'' 0
    0x1 1 0x0 0x98, Field ''PMU_EXITPD_MON_TIMELS0_PD_EXIT_TIMER0'' 1 0x2 1 0x0 0x98, Field
    ''PMU_EXITPD_MON_TIMELS0_PD_EXIT_TIMER1'' 2 0x4 1 0x0 0x98, Field ''PMU_OSC_CTRL_XTL_READYB'' 0 0x1 1 0x1
    0xac, Field ''PMU_OSC_CTRL_RC_TRIM_READYB'' 1 0x2 1 0x1 0xac]"

definition a1_regdefs_8250 :: "reg_field list" where
  "a1_regdefs_8250 = [
    Field ''PMU_MEMCLKSET_MEM_BANK_CLK0'' 0 0x1 1 0x1 0xb0, Field ''PMU_MEMCLKSET_MEM_BANK_CLK1'' 1 0x2 1 0x1
    0xb0, Field ''PMU_MEMCLKSET_MEM_BANK_CLK2'' 2 0x4 1 0x1 0xb0, Field ''PMU_MEMCLKSET_MEM_BANK_CLK3'' 3 0x8 1
    0x1 0xb0, Field ''PMU_MEMCLKSET_MEM_BANK_CLK4'' 4 0x10 1 0x1 0xb0, Field ''PMU_MEMCLKSET_MEM_BANK_CLK5'' 5
    0x20 1 0x1 0xb0, Field ''PMU_MEMCLKSET_MEM_BANK_CLK6'' 6 0x40 1 0x1 0xb0, Field
    ''PMU_MEMCLKCLR_MEM_BANK_CLK0'' 0 0x1 1 0x1 0xb4, Field ''PMU_MEMCLKCLR_MEM_BANK_CLK1'' 1 0x2 1 0x1 0xb4,
    Field ''PMU_MEMCLKCLR_MEM_BANK_CLK2'' 2 0x4 1 0x1 0xb4, Field ''PMU_MEMCLKCLR_MEM_BANK_CLK3'' 3 0x8 1 0x1
    0xb4, Field ''PMU_MEMCLKCLR_MEM_BANK_CLK4'' 4 0x10 1 0x1 0xb4, Field ''PMU_MEMCLKCLR_MEM_BANK_CLK5'' 5 0x20
    1 0x1 0xb4, Field ''PMU_MEMCLKCLR_MEM_BANK_CLK6'' 6 0x40 1 0x1 0xb4]"

definition a1_regdefs_8320 :: "reg_field list" where
  "a1_regdefs_8320 = [
    Field ''PMU_PERICLKSET0_DAES0'' 0 0x1 1 0x0 0xb8, Field ''PMU_PERICLKSET0_DAES1'' 1 0x2 1 0x0 0xb8, Field
    ''PMU_PERICLKSET0_DCAMO0'' 2 0x4 1 0x0 0xb8, Field ''PMU_PERICLKSET0_DFLASH0'' 3 0x8 1 0x1 0xb8, Field
    ''PMU_PERICLKSET0_DGLOBALSEC0'' 4 0x10 1 0x0 0xb8, Field ''PMU_PERICLKSET0_DGPIO0'' 5 0x20 1 0x0 0xb8, Field
    ''PMU_PERICLKSET0_DGPIO1'' 6 0x40 1 0x0 0xb8, Field ''PMU_PERICLKSET0_DI2C0'' 7 0x80 1 0x0 0xb8, Field
    ''PMU_PERICLKSET0_DI2C1'' 8 0x100 1 0x0 0xb8, Field ''PMU_PERICLKSET0_DI2CS0'' 9 0x200 1 0x0 0xb8, Field
    ''PMU_PERICLKSET0_DMAU'' 10 0x400 1 0x1 0xb8, Field ''PMU_PERICLKSET0_DPAU'' 11 0x800 1 0x1 0xb8, Field
    ''PMU_PERICLKSET0_DPINMUX'' 12 0x1000 1 0x1 0xb8, Field ''PMU_PERICLKSET0_DPMU'' 13 0x2000 1 0x1 0xb8, Field
    ''PMU_PERICLKSET0_DRBOX0'' 14 0x4000 1 0x0 0xb8, Field ''PMU_PERICLKSET0_DRTC0'' 15 0x8000 1 0x0 0xb8, Field
    ''PMU_PERICLKSET0_DSHA0'' 16 0x10000 1 0x0 0xb8, Field ''PMU_PERICLKSET0_DSPI0'' 17 0x20000 1 0x0 0xb8,
    Field ''PMU_PERICLKSET0_DSPS0'' 18 0x40000 1 0x0 0xb8, Field ''PMU_PERICLKSET0_DSWDP0'' 19 0x80000 1 0x0
    0xb8, Field ''PMU_PERICLKSET0_DTEMP0'' 20 0x100000 1 0x0 0xb8, Field ''PMU_PERICLKSET0_DTIMEHS0'' 21
    0x200000 1 0x0 0xb8, Field ''PMU_PERICLKSET0_DTIMEHS1'' 22 0x400000 1 0x0 0xb8, Field
    ''PMU_PERICLKSET0_DTIMELS0'' 23 0x800000 1 0x0 0xb8, Field ''PMU_PERICLKSET0_DTRNG0'' 24 0x1000000 1 0x0
    0xb8, Field ''PMU_PERICLKSET0_DUART0'' 25 0x2000000 1 0x0 0xb8, Field ''PMU_PERICLKSET0_DUART1'' 26
    0x4000000 1 0x0 0xb8, Field ''PMU_PERICLKSET0_DUART2'' 27 0x8000000 1 0x0 0xb8, Field
    ''PMU_PERICLKSET0_DUSB0'' 28 0x10000000 1 0x0 0xb8, Field ''PMU_PERICLKSET0_DUSB0_USB_PHY'' 29 0x20000000 1
    0x0 0xb8]"

definition a1_regdefs_8470 :: "reg_field list" where
  "a1_regdefs_8470 = [
    Field ''PMU_PERICLKSET0_DWATCHDOG0'' 30 0x40000000 1 0x0 0xb8, Field ''PMU_PERICLKSET0_DXO0'' 31 0x80000000
    1 0x0 0xb8]"

definition a1_regdefs_8480 :: "reg_field list" where
  "a1_regdefs_8480 = [
    Field ''PMU_PERICLKCLR0_DAES0'' 0 0x1 1 0x0 0xbc, Field ''PMU_PERICLKCLR0_DAES1'' 1 0x2 1 0x0 0xbc, Field
    ''PMU_PERICLKCLR0_DCAMO0'' 2 0x4 1 0x0 0xbc, Field ''PMU_PERICLKCLR0_DFLASH0'' 3 0x8 1 0x1 0xbc, Field
    ''PMU_PERICLKCLR0_DGLOBALSEC0'' 4 0x10 1 0x0 0xbc, Field ''PMU_PERICLKCLR0_DGPIO0'' 5 0x20 1 0x0 0xbc, Field
    ''PMU_PERICLKCLR0_DGPIO1'' 6 0x40 1 0x0 0xbc, Field ''PMU_PERICLKCLR0_DI2C0'' 7 0x80 1 0x0 0xbc, Field
    ''PMU_PERICLKCLR0_DI2C1'' 8 0x100 1 0x0 0xbc, Field ''PMU_PERICLKCLR0_DI2CS0'' 9 0x200 1 0x0 0xbc, Field
    ''PMU_PERICLKCLR0_DMAU'' 10 0x400 1 0x1 0xbc, Field ''PMU_PERICLKCLR0_DPAU'' 11 0x800 1 0x1 0xbc, Field
    ''PMU_PERICLKCLR0_DPINMUX'' 12 0x1000 1 0x1 0xbc, Field ''PMU_PERICLKCLR0_DPMU'' 13 0x2000 1 0x1 0xbc, Field
    ''PMU_PERICLKCLR0_DRBOX0'' 14 0x4000 1 0x0 0xbc, Field ''PMU_PERICLKCLR0_DRTC0'' 15 0x8000 1 0x0 0xbc, Field
    ''PMU_PERICLKCLR0_DSHA0'' 16 0x10000 1 0x0 0xbc, Field ''PMU_PERICLKCLR0_DSPI0'' 17 0x20000 1 0x0 0xbc,
    Field ''PMU_PERICLKCLR0_DSPS0'' 18 0x40000 1 0x0 0xbc, Field ''PMU_PERICLKCLR0_DSWDP0'' 19 0x80000 1 0x0
    0xbc, Field ''PMU_PERICLKCLR0_DTEMP0'' 20 0x100000 1 0x0 0xbc, Field ''PMU_PERICLKCLR0_DTIMEHS0'' 21
    0x200000 1 0x0 0xbc, Field ''PMU_PERICLKCLR0_DTIMEHS1'' 22 0x400000 1 0x0 0xbc, Field
    ''PMU_PERICLKCLR0_DTIMELS0'' 23 0x800000 1 0x0 0xbc, Field ''PMU_PERICLKCLR0_DTRNG0'' 24 0x1000000 1 0x0
    0xbc, Field ''PMU_PERICLKCLR0_DUART0'' 25 0x2000000 1 0x0 0xbc, Field ''PMU_PERICLKCLR0_DUART1'' 26
    0x4000000 1 0x0 0xbc, Field ''PMU_PERICLKCLR0_DUART2'' 27 0x8000000 1 0x0 0xbc, Field
    ''PMU_PERICLKCLR0_DUSB0'' 28 0x10000000 1 0x0 0xbc, Field ''PMU_PERICLKCLR0_DUSB0_USB_PHY'' 29 0x20000000 1
    0x0 0xbc]"

definition a1_regdefs_8630 :: "reg_field list" where
  "a1_regdefs_8630 = [
    Field ''PMU_PERICLKCLR0_DWATCHDOG0'' 30 0x40000000 1 0x0 0xbc, Field ''PMU_PERICLKCLR0_DXO0'' 31 0x80000000
    1 0x0 0xbc, Field ''PMU_PERICLKSET1_PERI0'' 0 0x1 1 0x1 0xc0, Field ''PMU_PERICLKSET1_PERI1'' 1 0x2 1 0x1
    0xc0, Field ''PMU_PERICLKSET1_PERI_MATRIX'' 2 0x4 1 0x1 0xc0, Field ''PMU_PERICLKCLR1_PERI0'' 0 0x1 1 0x1
    0xc4, Field ''PMU_PERICLKCLR1_PERI1'' 1 0x2 1 0x1 0xc4, Field ''PMU_PERICLKCLR1_PERI_MATRIX'' 2 0x4 1 0x1
    0xc4]"

definition a1_regdefs_8670 :: "reg_field list" where
  "a1_regdefs_8670 = [
    Field ''PMU_PERIGATEONSLEEPSET0_DAES0'' 0 0x1 1 0x0 0xc8, Field ''PMU_PERIGATEONSLEEPSET0_DAES1'' 1 0x2 1
    0x0 0xc8, Field ''PMU_PERIGATEONSLEEPSET0_DCAMO0'' 2 0x4 1 0x0 0xc8, Field
    ''PMU_PERIGATEONSLEEPSET0_DFLASH0'' 3 0x8 1 0x0 0xc8, Field ''PMU_PERIGATEONSLEEPSET0_DGLOBALSEC0'' 4 0x10 1
    0x0 0xc8, Field ''PMU_PERIGATEONSLEEPSET0_DGPIO0'' 5 0x20 1 0x0 0xc8, Field
    ''PMU_PERIGATEONSLEEPSET0_DGPIO1'' 6 0x40 1 0x0 0xc8, Field ''PMU_PERIGATEONSLEEPSET0_DI2C0'' 7 0x80 1 0x0
    0xc8, Field ''PMU_PERIGATEONSLEEPSET0_DI2C1'' 8 0x100 1 0x0 0xc8, Field ''PMU_PERIGATEONSLEEPSET0_DI2CS0'' 9
    0x200 1 0x0 0xc8, Field ''PMU_PERIGATEONSLEEPSET0_DMAU'' 10 0x400 1 0x1 0xc8, Field
    ''PMU_PERIGATEONSLEEPSET0_DPAU'' 11 0x800 1 0x1 0xc8, Field ''PMU_PERIGATEONSLEEPSET0_DPINMUX'' 12 0x1000 1
    0x1 0xc8, Field ''PMU_PERIGATEONSLEEPSET0_DPMU'' 13 0x2000 1 0x0 0xc8, Field
    ''PMU_PERIGATEONSLEEPSET0_DRBOX0'' 14 0x4000 1 0x0 0xc8, Field ''PMU_PERIGATEONSLEEPSET0_DRTC0'' 15 0x8000 1
    0x1 0xc8, Field ''PMU_PERIGATEONSLEEPSET0_DSHA0'' 16 0x10000 1 0x0 0xc8, Field
    ''PMU_PERIGATEONSLEEPSET0_DSPI0'' 17 0x20000 1 0x0 0xc8, Field ''PMU_PERIGATEONSLEEPSET0_DSPS0'' 18 0x40000
    1 0x0 0xc8, Field ''PMU_PERIGATEONSLEEPSET0_DSWDP0'' 19 0x80000 1 0x1 0xc8, Field
    ''PMU_PERIGATEONSLEEPSET0_DTEMP0'' 20 0x100000 1 0x0 0xc8, Field ''PMU_PERIGATEONSLEEPSET0_DTIMEHS0'' 21
    0x200000 1 0x0 0xc8, Field ''PMU_PERIGATEONSLEEPSET0_DTIMEHS1'' 22 0x400000 1 0x0 0xc8, Field
    ''PMU_PERIGATEONSLEEPSET0_DTIMELS0'' 23 0x800000 1 0x0 0xc8, Field ''PMU_PERIGATEONSLEEPSET0_DTRNG0'' 24
    0x1000000 1 0x0 0xc8, Field ''PMU_PERIGATEONSLEEPSET0_DUART0'' 25 0x2000000 1 0x0 0xc8, Field
    ''PMU_PERIGATEONSLEEPSET0_DUART1'' 26 0x4000000 1 0x0 0xc8, Field ''PMU_PERIGATEONSLEEPSET0_DUART2'' 27
    0x8000000 1 0x0 0xc8, Field ''PMU_PERIGATEONSLEEPSET0_DUSB0'' 28 0x10000000 1 0x0 0xc8, Field
    ''PMU_PERIGATEONSLEEPSET0_DUSB0_USB_PHY'' 29 0x20000000 1 0x0 0xc8]"

definition a1_regdefs_8820 :: "reg_field list" where
  "a1_regdefs_8820 = [
    Field ''PMU_PERIGATEONSLEEPSET0_DWATCHDOG0'' 30 0x40000000 1 0x0 0xc8, Field
    ''PMU_PERIGATEONSLEEPSET0_DXO0'' 31 0x80000000 1 0x1 0xc8]"

definition a1_regdefs_8830 :: "reg_field list" where
  "a1_regdefs_8830 = [
    Field ''PMU_PERIGATEONSLEEPCLR0_DAES0'' 0 0x1 1 0x0 0xcc, Field ''PMU_PERIGATEONSLEEPCLR0_DAES1'' 1 0x2 1
    0x0 0xcc, Field ''PMU_PERIGATEONSLEEPCLR0_DCAMO0'' 2 0x4 1 0x0 0xcc, Field
    ''PMU_PERIGATEONSLEEPCLR0_DFLASH0'' 3 0x8 1 0x0 0xcc, Field ''PMU_PERIGATEONSLEEPCLR0_DGLOBALSEC0'' 4 0x10 1
    0x0 0xcc, Field ''PMU_PERIGATEONSLEEPCLR0_DGPIO0'' 5 0x20 1 0x0 0xcc, Field
    ''PMU_PERIGATEONSLEEPCLR0_DGPIO1'' 6 0x40 1 0x0 0xcc, Field ''PMU_PERIGATEONSLEEPCLR0_DI2C0'' 7 0x80 1 0x0
    0xcc, Field ''PMU_PERIGATEONSLEEPCLR0_DI2C1'' 8 0x100 1 0x0 0xcc, Field ''PMU_PERIGATEONSLEEPCLR0_DI2CS0'' 9
    0x200 1 0x0 0xcc, Field ''PMU_PERIGATEONSLEEPCLR0_DMAU'' 10 0x400 1 0x1 0xcc, Field
    ''PMU_PERIGATEONSLEEPCLR0_DPAU'' 11 0x800 1 0x1 0xcc, Field ''PMU_PERIGATEONSLEEPCLR0_DPINMUX'' 12 0x1000 1
    0x1 0xcc, Field ''PMU_PERIGATEONSLEEPCLR0_DPMU'' 13 0x2000 1 0x0 0xcc, Field
    ''PMU_PERIGATEONSLEEPCLR0_DRBOX0'' 14 0x4000 1 0x0 0xcc, Field ''PMU_PERIGATEONSLEEPCLR0_DRTC0'' 15 0x8000 1
    0x1 0xcc, Field ''PMU_PERIGATEONSLEEPCLR0_DSHA0'' 16 0x10000 1 0x0 0xcc, Field
    ''PMU_PERIGATEONSLEEPCLR0_DSPI0'' 17 0x20000 1 0x0 0xcc, Field ''PMU_PERIGATEONSLEEPCLR0_DSPS0'' 18 0x40000
    1 0x0 0xcc, Field ''PMU_PERIGATEONSLEEPCLR0_DSWDP0'' 19 0x80000 1 0x1 0xcc, Field
    ''PMU_PERIGATEONSLEEPCLR0_DTEMP0'' 20 0x100000 1 0x0 0xcc, Field ''PMU_PERIGATEONSLEEPCLR0_DTIMEHS0'' 21
    0x200000 1 0x0 0xcc, Field ''PMU_PERIGATEONSLEEPCLR0_DTIMEHS1'' 22 0x400000 1 0x0 0xcc, Field
    ''PMU_PERIGATEONSLEEPCLR0_DTIMELS0'' 23 0x800000 1 0x0 0xcc, Field ''PMU_PERIGATEONSLEEPCLR0_DTRNG0'' 24
    0x1000000 1 0x0 0xcc, Field ''PMU_PERIGATEONSLEEPCLR0_DUART0'' 25 0x2000000 1 0x0 0xcc, Field
    ''PMU_PERIGATEONSLEEPCLR0_DUART1'' 26 0x4000000 1 0x0 0xcc, Field ''PMU_PERIGATEONSLEEPCLR0_DUART2'' 27
    0x8000000 1 0x0 0xcc, Field ''PMU_PERIGATEONSLEEPCLR0_DUSB0'' 28 0x10000000 1 0x0 0xcc, Field
    ''PMU_PERIGATEONSLEEPCLR0_DUSB0_USB_PHY'' 29 0x20000000 1 0x0 0xcc]"

definition a1_regdefs_8980 :: "reg_field list" where
  "a1_regdefs_8980 = [
    Field ''PMU_PERIGATEONSLEEPCLR0_DWATCHDOG0'' 30 0x40000000 1 0x0 0xcc, Field
    ''PMU_PERIGATEONSLEEPCLR0_DXO0'' 31 0x80000000 1 0x1 0xcc, Field ''PMU_PERIGATEONSLEEPSET1_PERI0'' 0 0x1 1
    0x1 0xd0, Field ''PMU_PERIGATEONSLEEPSET1_PERI1'' 1 0x2 1 0x1 0xd0, Field
    ''PMU_PERIGATEONSLEEPSET1_PERI_MATRIX'' 2 0x4 1 0x1 0xd0, Field ''PMU_PERIGATEONSLEEPCLR1_PERI0'' 0 0x1 1
    0x1 0xd4, Field ''PMU_PERIGATEONSLEEPCLR1_PERI1'' 1 0x2 1 0x1 0xd4, Field
    ''PMU_PERIGATEONSLEEPCLR1_PERI_MATRIX'' 2 0x4 1 0x1 0xd4, Field ''PMU_CLK0_HCLKGATEEN'' 0 0x1 1 0x1 0xd8,
    Field ''PMU_CLK0_DAPCLKGATEEN'' 1 0x2 1 0x1 0xd8, Field ''PMU_CLK0_TPIUGATEEN'' 2 0x4 1 0x1 0xd8, Field
    ''PMU_CLK0_FCLKEN'' 3 0x8 1 0x1 0xd8, Field ''PMU_CLK0_DAPCLKEN'' 4 0x10 1 0x1 0xd8, Field
    ''PMU_CLK0_TPIUCLKEN'' 5 0x20 1 0x0 0xd8, Field ''PMU_CLK0_TRACECLKEN'' 6 0x40 1 0x0 0xd8, Field
    ''PMU_CLK1_HCLKGATEEN'' 0 0x1 1 0x1 0xdc, Field ''PMU_CLK1_DAPCLKGATEEN'' 1 0x2 1 0x1 0xdc, Field
    ''PMU_CLK1_TPIUGATEEN'' 2 0x4 1 0x1 0xdc, Field ''PMU_CLK1_FCLKEN'' 3 0x8 1 0x1 0xdc, Field
    ''PMU_CLK1_DAPCLKEN'' 4 0x10 1 0x1 0xdc, Field ''PMU_CLK1_TPIUCLKEN'' 5 0x20 1 0x0 0xdc, Field
    ''PMU_CLK1_TRACECLKEN'' 6 0x40 1 0x0 0xdc]"

definition a1_regdefs_9090 :: "reg_field list" where
  "a1_regdefs_9090 = [
    Field ''PMU_RST0_DXO0'' 0 0x1 1 0x0 0xe0, Field ''PMU_RST0_DSPI0'' 1 0x2 1 0x0 0xe0, Field
    ''PMU_RST0_DAES0'' 2 0x4 1 0x0 0xe0, Field ''PMU_RST0_PERI0'' 3 0x8 1 0x0 0xe0, Field ''PMU_RST0_DI2CS0'' 4
    0x10 1 0x0 0xe0, Field ''PMU_RST0_DUART0'' 5 0x20 1 0x0 0xe0, Field ''PMU_RST0_DI2C1'' 6 0x40 1 0x0 0xe0,
    Field ''PMU_RST0_DAES1'' 7 0x80 1 0x0 0xe0, Field ''PMU_RST0_DTIMELS0'' 8 0x100 1 0x0 0xe0, Field
    ''PMU_RST0_DTEMP0'' 9 0x200 1 0x0 0xe0, Field ''PMU_RST0_DRTC0'' 10 0x400 1 0x0 0xe0, Field
    ''PMU_RST0_DRBOX0'' 11 0x800 1 0x0 0xe0, Field ''PMU_RST0_DUART1'' 12 0x1000 1 0x0 0xe0, Field
    ''PMU_RST0_DWATCHDOG0'' 13 0x2000 1 0x0 0xe0, Field ''PMU_RST0_DUART2'' 14 0x4000 1 0x0 0xe0, Field
    ''PMU_RST0_DPMU'' 15 0x8000 1 0x0 0xe0, Field ''PMU_RST0_DMAU'' 16 0x10000 1 0x0 0xe0, Field
    ''PMU_RST0_DI2C0'' 17 0x20000 1 0x0 0xe0, Field ''PMU_RST0_DGLOBALSEC0'' 18 0x40000 1 0x0 0xe0, Field
    ''PMU_RST0_DSWDP0'' 19 0x80000 1 0x0 0xe0, Field ''PMU_RST0_DPAU'' 20 0x100000 1 0x0 0xe0, Field
    ''PMU_RST0_DCAMO0'' 21 0x200000 1 0x0 0xe0, Field ''PMU_RST0_DTRNG0'' 22 0x400000 1 0x0 0xe0, Field
    ''PMU_RST0_PERI_MATRIX'' 23 0x800000 1 0x0 0xe0, Field ''PMU_RST0_PERI1'' 24 0x1000000 1 0x0 0xe0, Field
    ''PMU_RST0_DGPIO1'' 25 0x2000000 1 0x0 0xe0, Field ''PMU_RST0_DTIMEHS0'' 26 0x4000000 1 0x0 0xe0, Field
    ''PMU_RST0_DSPS0'' 27 0x8000000 1 0x0 0xe0, Field ''PMU_RST0_DUSB0'' 28 0x10000000 1 0x0 0xe0, Field
    ''PMU_RST0_DPINMUX'' 29 0x20000000 1 0x0 0xe0]"

definition a1_regdefs_9240 :: "reg_field list" where
  "a1_regdefs_9240 = [
    Field ''PMU_RST0_DTIMEHS1'' 30 0x40000000 1 0x0 0xe0, Field ''PMU_RST0_DSHA0'' 31 0x80000000 1 0x0 0xe0,
    Field ''PMU_RST1_DFLASH0'' 0 0x1 1 0x0 0xe4, Field ''PMU_RST1_DGPIO0'' 1 0x2 1 0x0 0xe4, Field
    ''PMU_RST1_DUSB0_USB_PHY_CLK'' 2 0x4 1 0x0 0xe4, Field ''PMU_FUSE_CTRL_WRITE'' 0 0x1 1 0x0 0x10c, Field
    ''PMU_FUSE_WR_ID_PKG'' 0 0x7 3 0x0 0x118, Field ''PMU_FUSE_WR_ID_BIN'' 3 0x38 3 0x0 0x118, Field
    ''PMU_FUSE_WR_RC_OSC_26MHZ_TRIM'' 0 0xfffffff 28 0x0 0x11c, Field ''PMU_FUSE_WR_RC_OSC_26MHZ_EN'' 28
    0x10000000 1 0x0 0x11c, Field ''PMU_FUSE_WR_RC_OSC_32KHZ_TRIM'' 0 0xff 8 0x0 0x120, Field
    ''PMU_FUSE_WR_RC_OSC_32KHZ_EN'' 8 0x100 1 0x0 0x120, Field ''PMU_FUSE_WR_XTL_OSC_26MHZ_TRIM'' 0 0xf 4 0x0
    0x124, Field ''PMU_FUSE_WR_XTL_OSC_26MHZ_EN'' 4 0x10 1 0x0 0x124, Field ''PMU_FUSE_WR_LOCK_TESTMODE'' 0 0x1
    1 0x0 0x128, Field ''PMU_FUSE_WR_LOCK_DAP'' 1 0x2 1 0x0 0x128, Field ''PMU_FUSE_WR_LOCK_FUSE'' 2 0x4 1 0x0
    0x128, Field ''PMU_FUSE_RD_ID_PKG'' 0 0x7 3 0x0 0x148, Field ''PMU_FUSE_RD_ID_BIN'' 3 0x38 3 0x0 0x148,
    Field ''PMU_FUSE_RD_RC_OSC_26MHZ_TRIM'' 0 0xfffffff 28 0x0 0x14c, Field ''PMU_FUSE_RD_RC_OSC_26MHZ_EN'' 28
    0x10000000 1 0x0 0x14c, Field ''PMU_FUSE_RD_RC_OSC_32KHZ_TRIM'' 0 0xff 8 0x0 0x150, Field
    ''PMU_FUSE_RD_RC_OSC_32KHZ_EN'' 8 0x100 1 0x0 0x150, Field ''PMU_FUSE_RD_XTL_OSC_26MHZ_TRIM'' 0 0xf 4 0x0
    0x154, Field ''PMU_FUSE_RD_XTL_OSC_26MHZ_EN'' 4 0x10 1 0x0 0x154, Field ''PMU_FUSE_RD_LOCK_TESTMODE'' 0 0x1
    1 0x0 0x158, Field ''PMU_FUSE_RD_LOCK_DAP'' 1 0x2 1 0x1 0x158, Field ''PMU_FUSE_RD_LOCK_FUSE'' 2 0x4 1 0x0
    0x158, Field ''PMU_FUSE_TIMING_WRITE'' 0 0xffff 16 0x7d 0x170, Field ''PMU_FUSE_TIMING_READ'' 16 0xffff0000
    16 0x8 0x170]"

definition a1_regdefs_9390 :: "reg_field list" where
  "a1_regdefs_9390 = [
    Field ''PMU_FUSE_OVRD_CSB'' 0 0x1 1 0x1 0x178, Field ''PMU_FUSE_OVRD_PGM'' 1 0x2 1 0x0 0x178, Field
    ''PMU_FUSE_OVRD_SCK'' 2 0x4 1 0x0 0x178, Field ''PMU_FUSE_DBG_STATE'' 0 0xf 4 0x0 0x17c, Field
    ''PMU_FUSE_DBG_IDLE'' 4 0x10 1 0x0 0x17c, Field ''PMU_ICTRL_SLEEP'' 0 0x1 1 0x0 0x180, Field
    ''PMU_ISTAT_SLEEP'' 0 0x1 1 0x0 0x184, Field ''PMU_ISTAT_HIBER'' 1 0x2 1 0x0 0x184, Field
    ''PMU_ISTAT_PWRDN'' 2 0x4 1 0x0 0x184, Field ''PMU_ANTEST_TOP_CTRL_ATEST_PAD_ENB'' 0 0x1 1 0x1 0x1008, Field
    ''PMU_ANTEST_TOP_CTRL_ATEST_CLAMP_EN'' 1 0x2 1 0x1 0x1008, Field ''PMU_HW_CONTROLS_LNA_PDB'' 0 0x1 1 0x0
    0x101c, Field ''PMU_HW_CONTROLS_LNA_PKDET_PDB'' 1 0x2 1 0x0 0x101c, Field ''PMU_HW_CONTROLS_AUXADC_PDB'' 2
    0x4 1 0x0 0x101c, Field ''PMU_HW_CONTROLS_PA_PDB'' 3 0x8 1 0x0 0x101c, Field ''PMU_HW_CONTROLS_PA_PDB_EXT''
    4 0x10 1 0x0 0x101c, Field ''PMU_ANTEST_TRNG_VLDO_EN'' 0 0x1 1 0x0 0x1024, Field ''PMU_ANTEST_TEMP_DIFF_EN''
    0 0x1 1 0x0 0x1028, Field ''PMU_ANTEST_TEMP_CM_EN'' 1 0x2 1 0x0 0x1028, Field ''PMU_ANTEST_TEMP_REF_EN'' 2
    0x4 1 0x0 0x1028, Field ''PMU_ANTEST_TEMP_VPTAT_EN'' 3 0x8 1 0x0 0x1028, Field
    ''PMU_TESTBUS_CTRL_TEST_MUX_CTRL'' 0 0xf 4 0x0 0x2000, Field ''PMU_TESTBUS_CTRL_TEST_MUX_SUB_CTRL'' 4 0xf0 4
    0x0 0x2000, Field ''PMU_CHIP_ID_JTAG_STANDARD'' 0 0x1 1 0x1 0x1fff8, Field ''PMU_CHIP_ID_MFG_ID'' 1 0xffe 11
    0x4a6 0x1fff8, Field ''PMU_CHIP_ID_PART_NUM'' 12 0xffff000 16 0x4856 0x1fff8, Field ''PMU_CHIP_ID_REVISION''
    28 0xf0000000 4 0x1 0x1fff8, Field ''PMU_VERSION_CHANGE'' 0 0xffffff 24 0xc244 0x1fffc, Field
    ''PMU_VERSION_REVISION'' 24 0xff000000 8 0x11 0x1fffc]"

definition a1_regdefs_9535 :: "reg_field list" where
  "a1_regdefs_9535 = [
    Field ''RBOX_VERSION_CHANGE'' 0 0xffffff 24 0xc16f 0x18, Field ''RBOX_VERSION_REVISION'' 24 0xff000000 8 0x6
    0x18]"

definition a1_regdefs_9580 :: "reg_field list" where
  "a1_regdefs_9580 = [
    Field ''SHA_CFG_EN_EN_BIG_ENDIAN'' 0 0x1 1 0x1 0x8, Field ''SHA_CFG_EN_EN_SHA1'' 1 0x2 1 0x0 0x8, Field
    ''SHA_CFG_EN_EN_STEP'' 2 0x4 1 0x0 0x8, Field ''SHA_CFG_EN_EN_BUS_ERROR'' 3 0x8 1 0x0 0x8, Field
    ''SHA_CFG_EN_RESERVED0'' 4 0xfff0 12 0x0 0x8, Field ''SHA_CFG_EN_INT_EN_SHA_DONE'' 16 0x10000 1 0x0 0x8,
    Field ''SHA_CFG_EN_INT_MASK_SHA_DONE'' 17 0x20000 1 0x0 0x8, Field ''SHA_CFG_EN_RESERVED1'' 18 0xfffc0000 14
    0x0 0x8, Field ''SHA_TRIG_TRIG_GO'' 0 0x1 1 0x0 0xc, Field ''SHA_TRIG_TRIG_RESETN'' 1 0x2 1 0x1 0xc, Field
    ''SHA_TRIG_TRIG_STEP'' 2 0x4 1 0x0 0xc]"

section \<open>Tables\<close>

definition a1_registers_AES :: "register list" where
  "a1_registers_AES =
     a1_registers_431"

definition a1_registers_CAMO :: "register list" where
  "a1_registers_CAMO =
     a1_registers_483"

definition a1_registers_FLASH :: "register list" where
  "a1_registers_FLASH =
     a1_registers_505 @ a1_registers_595 @ a1_registers_676"

definition a1_registers_GLOBALSEC :: "register list" where
  "a1_registers_GLOBALSEC =
     a1_registers_704"

definition a1_registers_MAU :: "register list" where
  "a1_registers_MAU =
     a1_registers_1960"

definition a1_registers_PAU :: "register list" where
  "a1_registers_PAU =
     a1_registers_1970"

definition a1_registers_PINMUX :: "register list" where
  "a1_registers_PINMUX =
     a1_registers_1978 @ a1_registers_2058 @ a1_registers_2138 @ a1_registers_2218 @ a1_registers_2298"

definition a1_registers_PMU :: "register list" where
  "a1_registers_PMU =
     a1_registers_2358 @ a1_registers_2440 @ a1_registers_2527"

definition a1_registers_RBOX :: "register list" where
  "a1_registers_RBOX =
     a1_registers_2588"

definition a1_registers_SHA :: "register list" where
  "a1_registers_SHA =
     a1_registers_2610"

definition a1_fields_AES :: "reg_field list" where
  "a1_fields_AES =
     a1_regdefs_4427"

definition a1_fields_CAMO :: "reg_field list" where
  "a1_fields_CAMO =
     a1_regdefs_4472"

definition a1_fields_FLASH :: "reg_field list" where
  "a1_fields_FLASH =
     a1_regdefs_4497 @ a1_regdefs_4597"

definition a1_fields_GLOBALSEC :: "reg_field list" where
  "a1_fields_GLOBALSEC =
     a1_regdefs_4712"

definition a1_fields_MAU :: "reg_field list" where
  "a1_fields_MAU =
     a1_regdefs_5517"

definition a1_fields_PAU :: "reg_field list" where
  "a1_fields_PAU =
     a1_regdefs_5547"

definition a1_fields_PINMUX :: "reg_field list" where
  "a1_fields_PINMUX =
     a1_regdefs_5562 @ a1_regdefs_5712 @ a1_regdefs_5862 @ a1_regdefs_6012 @ a1_regdefs_6162 @
     a1_regdefs_6312 @ a1_regdefs_6462 @ a1_regdefs_6562 @ a1_regdefs_6707 @ a1_regdefs_6737 @
     a1_regdefs_6882 @ a1_regdefs_6912 @ a1_regdefs_7057 @ a1_regdefs_7087 @ a1_regdefs_7232 @
     a1_regdefs_7262 @ a1_regdefs_7407"

definition a1_fields_PMU :: "reg_field list" where
  "a1_fields_PMU =
     a1_regdefs_7437 @ a1_regdefs_7497 @ a1_regdefs_7597 @ a1_regdefs_7697 @ a1_regdefs_7847 @
     a1_regdefs_8005 @ a1_regdefs_8115 @ a1_regdefs_8250 @ a1_regdefs_8320 @ a1_regdefs_8470 @
     a1_regdefs_8480 @ a1_regdefs_8630 @ a1_regdefs_8670 @ a1_regdefs_8820 @ a1_regdefs_8830 @
     a1_regdefs_8980 @ a1_regdefs_9090 @ a1_regdefs_9240 @ a1_regdefs_9390"

definition a1_fields_RBOX :: "reg_field list" where
  "a1_fields_RBOX =
     a1_regdefs_9535"

definition a1_fields_SHA :: "reg_field list" where
  "a1_fields_SHA =
     a1_regdefs_9580"

text \<open>
  Every table of fields is well-formed and sorted, and the fields are those of the registers.
\<close>

lemma a1_scan_AES_1:
  "list_all well_formed a1_regdefs_4427" "scan 0 (map extent a1_regdefs_4427) = Some 832"
  by (simp_all add:
    a1_regdefs_4427_def)

lemma a1_fields_AES_scan: "list_all well_formed a1_fields_AES" "scan 0 (map extent a1_fields_AES) = Some 832"
  unfolding a1_fields_AES_def
  by (simp_all only: map_append scan_append list_all_append option.case simp_thms
    a1_scan_AES_1)

lemma a1_covered_AES_1:
  "covered (map reset_key (a1_registers_431)) (map field_key a1_regdefs_4427)"
  by (simp_all add:
    a1_registers_431_def a1_regdefs_4427_def)

lemma a1_registers_AES_parts:
  "set a1_registers_431 \<subseteq> set a1_registers_AES"
  by (auto simp: a1_registers_AES_def)

lemma a1_fields_AES_registers: "list_all (has_register a1_registers_AES) a1_fields_AES"
  unfolding a1_fields_AES_def
  by (simp only: list_all_append set_append Un_subset_iff simp_thms a1_registers_AES_parts
    a1_covered_AES_1 [THEN covered_has])

lemma a1_scan_CAMO_1:
  "list_all well_formed a1_regdefs_4472" "scan 0 (map extent a1_regdefs_4472) = Some 352"
  by (simp_all add:
    a1_regdefs_4472_def)

lemma a1_fields_CAMO_scan: "list_all well_formed a1_fields_CAMO" "scan 0 (map extent a1_fields_CAMO) = Some 352"
  unfolding a1_fields_CAMO_def
  by (simp_all only: map_append scan_append list_all_append option.case simp_thms
    a1_scan_CAMO_1)

lemma a1_covered_CAMO_1:
  "covered (map reset_key (a1_registers_483)) (map field_key a1_regdefs_4472)"
  by (simp_all add:
    a1_registers_483_def a1_regdefs_4472_def)

lemma a1_registers_CAMO_parts:
  "set a1_registers_483 \<subseteq> set a1_registers_CAMO"
  by (auto simp: a1_registers_CAMO_def)

lemma a1_fields_CAMO_registers: "list_all (has_register a1_registers_CAMO) a1_fields_CAMO"
  unfolding a1_fields_CAMO_def
  by (simp only: list_all_append set_append Un_subset_iff simp_thms a1_registers_CAMO_parts
    a1_covered_CAMO_1 [THEN covered_has])

lemma a1_scan_FLASH_1:
  "list_all well_formed a1_regdefs_4497" "scan 0 (map extent a1_regdefs_4497) = Some 301"
  "list_all well_formed a1_regdefs_4597" "scan 301 (map extent a1_regdefs_4597) = Some 30754"
  by (simp_all add:
    a1_regdefs_4497_def a1_regdefs_4597_def)

lemma a1_fields_FLASH_scan: "list_all well_formed a1_fields_FLASH" "scan 0 (map extent a1_fields_FLASH) = Some 30754"
  unfolding a1_fields_FLASH_def
  by (simp_all only: map_append scan_append list_all_append option.case simp_thms
    a1_scan_FLASH_1)

lemma a1_covered_FLASH_1:
  "covered (map reset_key (a1_registers_505)) (map field_key a1_regdefs_4497)"
  "covered (map reset_key (a1_registers_505 @ a1_registers_595 @ a1_registers_676)) (map field_key a1_regdefs_4597)"
  by (simp_all add:
    a1_registers_505_def a1_registers_595_def a1_registers_676_def a1_regdefs_4497_def
    a1_regdefs_4597_def)

lemma a1_registers_FLASH_parts:
  "set a1_registers_505 \<subseteq> set a1_registers_FLASH"
  "set a1_registers_595 \<subseteq> set a1_registers_FLASH"
  "set a1_registers_676 \<subseteq> set a1_registers_FLASH"
  by (auto simp: a1_registers_FLASH_def)

lemma a1_fields_FLASH_registers: "list_all (has_register a1_registers_FLASH) a1_fields_FLASH"
  unfolding a1_fields_FLASH_def
  by (simp only: list_all_append set_append Un_subset_iff simp_thms a1_registers_FLASH_parts
    a1_covered_FLASH_1 [THEN covered_has])

lemma a1_scan_GLOBALSEC_1:
  "list_all well_formed a1_regdefs_4712" "scan 0 (map extent a1_regdefs_4712) = Some 365984"
  by (simp_all add:
    a1_regdefs_4712_def)

lemma a1_fields_GLOBALSEC_scan: "list_all well_formed a1_fields_GLOBALSEC" "scan 0 (map extent a1_fields_GLOBALSEC) = Some 365984"
  unfolding a1_fields_GLOBALSEC_def
  by (simp_all only: map_append scan_append list_all_append option.case simp_thms
    a1_scan_GLOBALSEC_1)

lemma a1_covered_GLOBALSEC_1:
  "covered (map reset_key (a1_registers_704)) (map field_key a1_regdefs_4712)"
  by (simp_all add:
    a1_registers_704_def a1_regdefs_4712_def)

lemma a1_registers_GLOBALSEC_parts:
  "set a1_registers_704 \<subseteq> set a1_registers_GLOBALSEC"
  by (auto simp: a1_registers_GLOBALSEC_def)

lemma a1_fields_GLOBALSEC_registers: "list_all (has_register a1_registers_GLOBALSEC) a1_fields_GLOBALSEC"
  unfolding a1_fields_GLOBALSEC_def
  by (simp only: list_all_append set_append Un_subset_iff simp_thms a1_registers_GLOBALSEC_parts
    a1_covered_GLOBALSEC_1 [THEN covered_has])

lemma a1_scan_MAU_1:
  "list_all well_formed a1_regdefs_5517" "scan 0 (map extent a1_regdefs_5517) = Some 66"
  by (simp_all add:
    a1_regdefs_5517_def)

lemma a1_fields_MAU_scan: "list_all well_formed a1_fields_MAU" "scan 0 (map extent a1_fields_MAU) = Some 66"
  unfolding a1_fields_MAU_def
  by (simp_all only: map_append scan_append list_all_append option.case simp_thms
    a1_scan_MAU_1)

lemma a1_covered_MAU_1:
  "covered (map reset_key (a1_registers_1960)) (map field_key a1_regdefs_5517)"
  by (simp_all add:
    a1_registers_1960_def a1_regdefs_5517_def)

lemma a1_registers_MAU_parts:
  "set a1_registers_1960 \<subseteq> set a1_registers_MAU"
  by (auto simp: a1_registers_MAU_def)

lemma a1_fields_MAU_registers: "list_all (has_register a1_registers_MAU) a1_fields_MAU"
  unfolding a1_fields_MAU_def
  by (simp only: list_all_append set_append Un_subset_iff simp_thms a1_registers_MAU_parts
    a1_covered_MAU_1 [THEN covered_has])

lemma a1_scan_PAU_1:
  "list_all well_formed a1_regdefs_5547" "scan 0 (map extent a1_regdefs_5547) = Some 65"
  by (simp_all add:
    a1_regdefs_5547_def)

lemma a1_fields_PAU_scan: "list_all well_formed a1_fields_PAU" "scan 0 (map extent a1_fields_PAU) = Some 65"
  unfolding a1_fields_PAU_def
  by (simp_all only: map_append scan_append list_all_append option.case simp_thms
    a1_scan_PAU_1)

lemma a1_covered_PAU_1:
  "covered (map reset_key (a1_registers_1970)) (map field_key a1_regdefs_5547)"
  by (simp_all add:
    a1_registers_1970_def a1_regdefs_5547_def)

lemma a1_registers_PAU_parts:
  "set a1_registers_1970 \<subseteq> set a1_registers_PAU"
  by (auto simp: a1_registers_PAU_def)

lemma a1_fields_PAU_registers: "list_all (has_register a1_registers_PAU) a1_fields_PAU"
  unfolding a1_fields_PAU_def
  by (simp only: list_all_append set_append Un_subset_iff simp_thms a1_registers_PAU_parts
    a1_covered_PAU_1 [THEN covered_has])

lemma a1_scan_PINMUX_1:
  "list_all well_formed a1_regdefs_5562" "scan 0 (map extent a1_regdefs_5562) = Some 358"
  "list_all well_formed a1_regdefs_5712" "scan 358 (map extent a1_regdefs_5712) = Some 742"
  "list_all well_formed a1_regdefs_5862" "scan 742 (map extent a1_regdefs_5862) = Some 1126"
  "list_all well_formed a1_regdefs_6012" "scan 1126 (map extent a1_regdefs_6012) = Some 1510"
  "list_all well_formed a1_regdefs_6162" "scan 1510 (map extent a1_regdefs_6162) = Some 1894"
  "list_all well_formed a1_regdefs_6312" "scan 1894 (map extent a1_regdefs_6312) = Some 2278"
  "list_all well_formed a1_regdefs_6462" "scan 2278 (map extent a1_regdefs_6462) = Some 2534"
  "list_all well_formed a1_regdefs_6562" "scan 2534 (map extent a1_regdefs_6562) = Some 2589"
  "list_all well_formed a1_regdefs_6707" "scan 2589 (map extent a1_regdefs_6707) = Some 2616"
  "list_all well_formed a1_regdefs_6737" "scan 2616 (map extent a1_regdefs_6737) = Some 2653"
  "list_all well_formed a1_regdefs_6882" "scan 2653 (map extent a1_regdefs_6882) = Some 2680"
  "list_all well_formed a1_regdefs_6912" "scan 2680 (map extent a1_regdefs_6912) = Some 5917"
  by (simp_all add:
    a1_regdefs_5562_def a1_regdefs_5712_def a1_regdefs_5862_def a1_regdefs_6012_def a1_regdefs_6162_def
    a1_regdefs_6312_def a1_regdefs_6462_def a1_regdefs_6562_def a1_regdefs_6707_def a1_regdefs_6737_def
    a1_regdefs_6882_def a1_regdefs_6912_def)

lemma a1_scan_PINMUX_2:
  "list_all well_formed a1_regdefs_7057" "scan 5917 (map extent a1_regdefs_7057) = Some 5944"
  "list_all well_formed a1_regdefs_7087" "scan 5944 (map extent a1_regdefs_7087) = Some 5981"
  "list_all well_formed a1_regdefs_7232" "scan 5981 (map extent a1_regdefs_7232) = Some 6008"
  "list_all well_formed a1_regdefs_7262" "scan 6008 (map extent a1_regdefs_7262) = Some 6045"
  "list_all well_formed a1_regdefs_7407" "scan 6045 (map extent a1_regdefs_7407) = Some 6072"
  by (simp_all add:
    a1_regdefs_7057_def a1_regdefs_7087_def a1_regdefs_7232_def a1_regdefs_7262_def a1_regdefs_7407_def)

lemma a1_fields_PINMUX_scan: "list_all well_formed a1_fields_PINMUX" "scan 0 (map extent a1_fields_PINMUX) = Some 6072"
  unfolding a1_fields_PINMUX_def
  by (simp_all only: map_append scan_append list_all_append option.case simp_thms
    a1_scan_PINMUX_1 a1_scan_PINMUX_2)

lemma a1_covered_PINMUX_1:
  "covered (map reset_key (a1_registers_1978)) (map field_key a1_regdefs_5562)"
  "covered (map reset_key (a1_registers_1978)) (map field_key a1_regdefs_5712)"
  "covered (map reset_key (a1_registers_1978)) (map field_key a1_regdefs_5862)"
  "covered (map reset_key (a1_registers_1978 @ a1_registers_2058)) (map field_key a1_regdefs_6012)"
  "covered (map reset_key (a1_registers_2058)) (map field_key a1_regdefs_6162)"
  "covered (map reset_key (a1_registers_2058)) (map field_key a1_regdefs_6312)"
  by (simp_all add:
    a1_registers_1978_def a1_registers_2058_def a1_regdefs_5562_def a1_regdefs_5712_def
    a1_regdefs_5862_def a1_regdefs_6012_def a1_regdefs_6162_def a1_regdefs_6312_def)

lemma a1_covered_PINMUX_2:
  "covered (map reset_key (a1_registers_2058)) (map field_key a1_regdefs_6462)"
  "covered (map reset_key (a1_registers_2138)) (map field_key a1_regdefs_6562)"
  "covered (map reset_key (a1_registers_2138)) (map field_key a1_regdefs_6707)"
  "covered (map reset_key (a1_registers_2138)) (map field_key a1_regdefs_6737)"
  "covered (map reset_key (a1_registers_2138)) (map field_key a1_regdefs_6882)"
  "covered (map reset_key (a1_registers_2298)) (map field_key a1_regdefs_6912)"
  by (simp_all add:
    a1_registers_2058_def a1_registers_2138_def a1_registers_2298_def a1_regdefs_6462_def
    a1_regdefs_6562_def a1_regdefs_6707_def a1_regdefs_6737_def a1_regdefs_6882_def a1_regdefs_6912_def)

lemma a1_covered_PINMUX_3:
  "covered (map reset_key (a1_registers_2298)) (map field_key a1_regdefs_7057)"
  "covered (map reset_key (a1_registers_2298)) (map field_key a1_regdefs_7087)"
  "covered (map reset_key (a1_registers_2298)) (map field_key a1_regdefs_7232)"
  "covered (map reset_key (a1_registers_2298)) (map field_key a1_regdefs_7262)"
  "covered (map reset_key (a1_registers_2298)) (map field_key a1_regdefs_7407)"
  by (simp_all add:
    a1_registers_2298_def a1_regdefs_7057_def a1_regdefs_7087_def a1_regdefs_7232_def
    a1_regdefs_7262_def a1_regdefs_7407_def)

lemma a1_registers_PINMUX_parts:
  "set a1_registers_1978 \<subseteq> set a1_registers_PINMUX"
  "set a1_registers_2058 \<subseteq> set a1_registers_PINMUX"
  "set a1_registers_2138 \<subseteq> set a1_registers_PINMUX"
  "set a1_registers_2218 \<subseteq> set a1_registers_PINMUX"
  "set a1_registers_2298 \<subseteq> set a1_registers_PINMUX"
  by (auto simp: a1_registers_PINMUX_def)

lemma a1_fields_PINMUX_registers: "list_all (has_register a1_registers_PINMUX) a1_fields_PINMUX"
  unfolding a1_fields_PINMUX_def
  by (simp only: list_all_append set_append Un_subset_iff simp_thms a1_registers_PINMUX_parts
    a1_covered_PINMUX_1 [THEN covered_has] a1_covered_PINMUX_2 [THEN covered_has] a1_covered_PINMUX_3
    [THEN covered_has])

lemma a1_scan_PMU_1:
  "list_all well_formed a1_regdefs_7437" "scan 0 (map extent a1_regdefs_7437) = Some 104"
  "list_all well_formed a1_regdefs_7497" "scan 104 (map extent a1_regdefs_7497) = Some 180"
  "list_all well_formed a1_regdefs_7597" "scan 180 (map extent a1_regdefs_7597) = Some 212"
  "list_all well_formed a1_regdefs_7697" "scan 212 (map extent a1_regdefs_7697) = Some 706"
  "list_all well_formed a1_regdefs_7847" "scan 706 (map extent a1_regdefs_7847) = Some 896"
  "list_all well_formed a1_regdefs_8005" "scan 896 (map extent a1_regdefs_8005) = Some 941"
  "list_all well_formed a1_regdefs_8115" "scan 941 (map extent a1_regdefs_8115) = Some 1378"
  "list_all well_formed a1_regdefs_8250" "scan 1378 (map extent a1_regdefs_8250) = Some 1447"
  "list_all well_formed a1_regdefs_8320" "scan 1447 (map extent a1_regdefs_8320) = Some 1502"
  "list_all well_formed a1_regdefs_8470" "scan 1502 (map extent a1_regdefs_8470) = Some 1504"
  "list_all well_formed a1_regdefs_8480" "scan 1504 (map extent a1_regdefs_8480) = Some 1534"
  "list_all well_formed a1_regdefs_8630" "scan 1534 (map extent a1_regdefs_8630) = Some 1571"
  by (simp_all add:
    a1_regdefs_7437_def a1_regdefs_7497_def a1_regdefs_7597_def a1_regdefs_7697_def a1_regdefs_7847_def
    a1_regdefs_8005_def a1_regdefs_8115_def a1_regdefs_8250_def a1_regdefs_8320_def a1_regdefs_8470_def
    a1_regdefs_8480_def a1_regdefs_8630_def)

lemma a1_scan_PMU_2:
  "list_all well_formed a1_regdefs_8670" "scan 1571 (map extent a1_regdefs_8670) = Some 1630"
  "list_all well_formed a1_regdefs_8820" "scan 1630 (map extent a1_regdefs_8820) = Some 1632"
  "list_all well_formed a1_regdefs_8830" "scan 1632 (map extent a1_regdefs_8830) = Some 1662"
  "list_all well_formed a1_regdefs_8980" "scan 1662 (map extent a1_regdefs_8980) = Some 1767"
  "list_all well_formed a1_regdefs_9090" "scan 1767 (map extent a1_regdefs_9090) = Some 1822"
  "list_all well_formed a1_regdefs_9240" "scan 1822 (map extent a1_regdefs_9240) = Some 2976"
  "list_all well_formed a1_regdefs_9390" "scan 2976 (map extent a1_regdefs_9390) = Some 1048576"
  by (simp_all add:
    a1_regdefs_8670_def a1_regdefs_8820_def a1_regdefs_8830_def a1_regdefs_8980_def a1_regdefs_9090_def
    a1_regdefs_9240_def a1_regdefs_9390_def)

lemma a1_fields_PMU_scan: "list_all well_formed a1_fields_PMU" "scan 0 (map extent a1_fields_PMU) = Some 1048576"
  unfolding a1_fields_PMU_def
  by (simp_all only: map_append scan_append list_all_append option.case simp_thms
    a1_scan_PMU_1 a1_scan_PMU_2)

lemma a1_covered_PMU_1:
  "covered (map reset_key (a1_registers_2358)) (map field_key a1_regdefs_7437)"
  "covered (map reset_key (a1_registers_2358)) (map field_key a1_regdefs_7497)"
  "covered (map reset_key (a1_registers_2358)) (map field_key a1_regdefs_7597)"
  "covered (map reset_key (a1_registers_2358)) (map field_key a1_regdefs_7697)"
  "covered (map reset_key (a1_registers_2358)) (map field_key a1_regdefs_7847)"
  "covered (map reset_key (a1_registers_2358)) (map field_key a1_regdefs_8005)"
  by (simp_all add:
    a1_registers_2358_def a1_regdefs_7437_def a1_regdefs_7497_def a1_regdefs_7597_def
    a1_regdefs_7697_def a1_regdefs_7847_def a1_regdefs_8005_def)

lemma a1_covered_PMU_2:
  "covered (map reset_key (a1_registers_2358 @ a1_registers_2440)) (map field_key a1_regdefs_8115)"
  "covered (map reset_key (a1_registers_2440)) (map field_key a1_regdefs_8250)"
  "covered (map reset_key (a1_registers_2440)) (map field_key a1_regdefs_8320)"
  "covered (map reset_key (a1_registers_2440)) (map field_key a1_regdefs_8470)"
  "covered (map reset_key (a1_registers_2440)) (map field_key a1_regdefs_8480)"
  "covered (map reset_key (a1_registers_2440)) (map field_key a1_regdefs_8630)"
  by (simp_all add:
    a1_registers_2358_def a1_registers_2440_def a1_regdefs_8115_def a1_regdefs_8250_def
    a1_regdefs_8320_def a1_regdefs_8470_def a1_regdefs_8480_def a1_regdefs_8630_def)

lemma a1_covered_PMU_3:
  "covered (map reset_key (a1_registers_2440)) (map field_key a1_regdefs_8670)"
  "covered (map reset_key (a1_registers_2440)) (map field_key a1_regdefs_8820)"
  "covered (map reset_key (a1_registers_2440)) (map field_key a1_regdefs_8830)"
  "covered (map reset_key (a1_registers_2440)) (map field_key a1_regdefs_8980)"
  "covered (map reset_key (a1_registers_2440)) (map field_key a1_regdefs_9090)"
  "covered (map reset_key (a1_registers_2440 @ a1_registers_2527)) (map field_key a1_regdefs_9240)"
  by (simp_all add:
    a1_registers_2440_def a1_registers_2527_def a1_regdefs_8670_def a1_regdefs_8820_def
    a1_regdefs_8830_def a1_regdefs_8980_def a1_regdefs_9090_def a1_regdefs_9240_def)

lemma a1_covered_PMU_4:
  "covered (map reset_key (a1_registers_2527)) (map field_key a1_regdefs_9390)"
  by (simp_all add:
    a1_registers_2527_def a1_regdefs_9390_def)

lemma a1_registers_PMU_parts:
  "set a1_registers_2358 \<subseteq> set a1_registers_PMU"
  "set a1_registers_2440 \<subseteq> set a1_registers_PMU"
  "set a1_registers_2527 \<subseteq> set a1_registers_PMU"
  by (auto simp: a1_registers_PMU_def)

lemma a1_fields_PMU_registers: "list_all (has_register a1_registers_PMU) a1_fields_PMU"
  unfolding a1_fields_PMU_def
  by (simp only: list_all_append set_append Un_subset_iff simp_thms a1_registers_PMU_parts
    a1_covered_PMU_1 [THEN covered_has] a1_covered_PMU_2 [THEN covered_has] a1_covered_PMU_3 [THEN
    covered_has] a1_covered_PMU_4 [THEN covered_has])

lemma a1_scan_RBOX_1:
  "list_all well_formed a1_regdefs_9535" "scan 0 (map extent a1_regdefs_9535) = Some 224"
  by (simp_all add:
    a1_regdefs_9535_def)

lemma a1_fields_RBOX_scan: "list_all well_formed a1_fields_RBOX" "scan 0 (map extent a1_fields_RBOX) = Some 224"
  unfolding a1_fields_RBOX_def
  by (simp_all only: map_append scan_append list_all_append option.case simp_thms
    a1_scan_RBOX_1)

lemma a1_covered_RBOX_1:
  "covered (map reset_key (a1_registers_2588)) (map field_key a1_regdefs_9535)"
  by (simp_all add:
    a1_registers_2588_def a1_regdefs_9535_def)

lemma a1_registers_RBOX_parts:
  "set a1_registers_2588 \<subseteq> set a1_registers_RBOX"
  by (auto simp: a1_registers_RBOX_def)

lemma a1_fields_RBOX_registers: "list_all (has_register a1_registers_RBOX) a1_fields_RBOX"
  unfolding a1_fields_RBOX_def
  by (simp only: list_all_append set_append Un_subset_iff simp_thms a1_registers_RBOX_parts
    a1_covered_RBOX_1 [THEN covered_has])

lemma a1_scan_SHA_1:
  "list_all well_formed a1_regdefs_9580" "scan 0 (map extent a1_regdefs_9580) = Some 99"
  by (simp_all add:
    a1_regdefs_9580_def)

lemma a1_fields_SHA_scan: "list_all well_formed a1_fields_SHA" "scan 0 (map extent a1_fields_SHA) = Some 99"
  unfolding a1_fields_SHA_def
  by (simp_all only: map_append scan_append list_all_append option.case simp_thms
    a1_scan_SHA_1)

lemma a1_covered_SHA_1:
  "covered (map reset_key (a1_registers_2610)) (map field_key a1_regdefs_9580)"
  by (simp_all add:
    a1_registers_2610_def a1_regdefs_9580_def)

lemma a1_registers_SHA_parts:
  "set a1_registers_2610 \<subseteq> set a1_registers_SHA"
  by (auto simp: a1_registers_SHA_def)

lemma a1_fields_SHA_registers: "list_all (has_register a1_registers_SHA) a1_fields_SHA"
  unfolding a1_fields_SHA_def
  by (simp only: list_all_append set_append Un_subset_iff simp_thms a1_registers_SHA_parts
    a1_covered_SHA_1 [THEN covered_has])

end
