(* ===== verification/RegdefsA1Timer.thy ===== *)
theory RegdefsA1Timer
  imports Registers
begin

text \<open>
  The registers and register fields of the modules I2C, I2CS, RTC, SPI, SPS, SWDP, TEMP, TIMEHS,
  TIMELS, TRNG, UART, WATCHDOG, XO, M3 of the first revision of the chip (chip/c/hw_a1_regdefs.h,
  generated), in the form of the tables of the other revision.
\<close>

definition a1_registers_1808 :: "register list" where
  "a1_registers_1808 = [
    Register ''I2C_CTRL_MODE'' 0x0 (Some 0x0), Register ''I2C_CTRL_CLKDIV'' 0x4 (Some 0xa), Register
    ''I2C_CTRL_PHASESTEPS'' 0x8 (Some 0x188186), Register ''I2C_CTRL_SDA_VAL'' 0xc (Some 0x1897f0f), Register
    ''I2C_CTRL_SDA_OVRD'' 0x10 (Some 0x300), Register ''I2C_CTRL_SCL_VAL'' 0x14 (Some 0x67666e), Register
    ''I2C_CTRL_SCL_OVRD'' 0x18 (Some 0x600), Register ''I2C_CTRL_INT_EN'' 0x1c (Some 0x1), Register
    ''I2C_CTRL_AL'' 0x20 (Some 0x1f), Register ''I2C_CTRL_CS'' 0x24 (Some 0x13883), Register ''I2C_INST'' 0x28
    (Some 0x0), Register ''I2C_STATUS'' 0x2c (Some 0x0), Register ''I2C_FW'' 0x30 (Some 0x0), Register
    ''I2C_RW_PTR'' 0x34 (Some 0x0), Register ''I2C_RW0'' 0x38 (Some 0x0), Register ''I2C_RW1'' 0x3c (Some 0x0),
    Register ''I2C_RW2'' 0x40 (Some 0x0), Register ''I2C_RW3'' 0x44 (Some 0x0), Register ''I2C_RW4'' 0x48 (Some
    0x0), Register ''I2C_RW5'' 0x4c (Some 0x0), Register ''I2C_RW6'' 0x50 (Some 0x0), Register ''I2C_RW7'' 0x54
    (Some 0x0), Register ''I2C_RW8'' 0x58 (Some 0x0), Register ''I2C_RW9'' 0x5c (Some 0x0), Register
    ''I2C_RW10'' 0x60 (Some 0x0), Register ''I2C_RW11'' 0x64 (Some 0x0), Register ''I2C_RW12'' 0x68 (Some 0x0),
    Register ''I2C_RW13'' 0x6c (Some 0x0), Register ''I2C_RW14'' 0x70 (Some 0x0), Register ''I2C_RW15'' 0x74
    (Some 0x0), Register ''I2C_READVAL'' 0x78 (Some 0x0), Register ''I2C_CTRL_MSR'' 0x7c (Some 0xa), Register
    ''I2C_ITCR'' 0xf00 (Some 0x0), Register ''I2C_ITOP'' 0xf04 (Some 0x0)]"

definition a1_registers_1876 :: "register list" where
  "a1_registers_1876 = [
    Register ''I2CS_VERSION'' 0x0 (Some 0x400b99f), Register ''I2CS_INT_ENABLE'' 0x4 (Some 0x0), Register
    ''I2CS_INT_STATE'' 0x8 (Some 0x0), Register ''I2CS_INT_TEST'' 0xc (Some 0x0), Register ''I2CS_CTRL_SDA_VAL''
    0x10 (Some 0x3d), Register ''I2CS_SLAVE_DEVADDRVAL'' 0x14 (Some 0x0), Register ''I2CS_READ_PTR'' 0x18 (Some
    0x0), Register ''I2CS_WRITE_PTR'' 0x1c (Some 0x0), Register ''I2CS_READVAL'' 0x20 (Some 0x0), Register
    ''I2CS_CTRL_MSR'' 0x24 (Some 0xa), Register ''I2CS_READ_BUFFER0'' 0x28 (Some 0x0), Register
    ''I2CS_READ_BUFFER1'' 0x2c (Some 0x0), Register ''I2CS_READ_BUFFER2'' 0x30 (Some 0x0), Register
    ''I2CS_READ_BUFFER3'' 0x34 (Some 0x0), Register ''I2CS_READ_BUFFER4'' 0x38 (Some 0x0), Register
    ''I2CS_READ_BUFFER5'' 0x3c (Some 0x0), Register ''I2CS_READ_BUFFER6'' 0x40 (Some 0x0), Register
    ''I2CS_READ_BUFFER7'' 0x44 (Some 0x0), Register ''I2CS_READ_BUFFER8'' 0x48 (Some 0x0), Register
    ''I2CS_READ_BUFFER9'' 0x4c (Some 0x0), Register ''I2CS_READ_BUFFER10'' 0x50 (Some 0x0), Register
    ''I2CS_READ_BUFFER11'' 0x54 (Some 0x0), Register ''I2CS_READ_BUFFER12'' 0x58 (Some 0x0), Register
    ''I2CS_READ_BUFFER13'' 0x5c (Some 0x0), Register ''I2CS_READ_BUFFER14'' 0x60 (Some 0x0), Register
    ''I2CS_READ_BUFFER15'' 0x64 (Some 0x0), Register ''I2CS_WRITE_BUFFER0'' 0x68 (Some 0x0), Register
    ''I2CS_WRITE_BUFFER1'' 0x6c (Some 0x0), Register ''I2CS_WRITE_BUFFER2'' 0x70 (Some 0x0), Register
    ''I2CS_WRITE_BUFFER3'' 0x74 (Some 0x0), Register ''I2CS_WRITE_BUFFER4'' 0x78 (Some 0x0), Register
    ''I2CS_WRITE_BUFFER5'' 0x7c (Some 0x0), Register ''I2CS_WRITE_BUFFER6'' 0x80 (Some 0x0), Register
    ''I2CS_WRITE_BUFFER7'' 0x84 (Some 0x0), Register ''I2CS_WRITE_BUFFER8'' 0x88 (Some 0x0), Register
    ''I2CS_WRITE_BUFFER9'' 0x8c (Some 0x0), Register ''I2CS_WRITE_BUFFER10'' 0x90 (Some 0x0), Register
    ''I2CS_WRITE_BUFFER11'' 0x94 (Some 0x0), Register ''I2CS_WRITE_BUFFER12'' 0x98 (Some 0x0), Register
    ''I2CS_WRITE_BUFFER13'' 0x9c (Some 0x0)]"

definition a1_registers_1956 :: "register list" where
  "a1_registers_1956 = [
    Register ''I2CS_WRITE_BUFFER14'' 0xa0 (Some 0x0), Register ''I2CS_WRITE_BUFFER15'' 0xa4 (Some 0x0)]"

definition a1_registers_2602 :: "register list" where
  "a1_registers_2602 = [
    Register ''RTC_CTRL'' 0x0 (Some 0x22f01), Register ''RTC_PINMUX_EN'' 0x4 (Some 0x0), Register
    ''RTC_SETHOLD'' 0x8 (Some 0x0), Register ''RTC_CLRHOLD'' 0xc (Some 0x0)]"

definition a1_registers_2688 :: "register list" where
  "a1_registers_2688 = [
    Register ''SPI_CTRL'' 0x0 (Some 0x2800800), Register ''SPI_XACT'' 0x4 (Some 0xe), Register ''SPI_ICTRL'' 0x8
    (Some 0x0), Register ''SPI_ISTATE'' 0xc (Some 0x0), Register ''SPI_ISTATE_CLR'' 0x10 (Some 0x0), Register
    ''SPI_OVRD'' 0x14 (Some 0x8), Register ''SPI_VAL'' 0x18 (Some 0x0), Register ''SPI_ITCR'' 0xf00 (Some 0x0),
    Register ''SPI_ITOP'' 0xf04 (Some 0x0), Register ''SPI_DATA'' 0x1000 None, Register ''SPI_TX_DATA'' 0x1000
    None, Register ''SPI_RX_DATA'' 0x1080 None]"

definition a1_registers_2709 :: "register list" where
  "a1_registers_2709 = [
    Register ''SPS_CTRL'' 0x0 (Some 0x181), Register ''SPS_DUMMY_WORD'' 0x4 (Some 0xff), Register
    ''SPS_STATUS01'' 0x8 (Some 0x0), Register ''SPS_STATUS23'' 0xc (Some 0x0), Register ''SPS_STATUS45'' 0x10
    (Some 0x0), Register ''SPS_STATUS67'' 0x14 (Some 0x0), Register ''SPS_CTRL01'' 0x18 (Some 0x0), Register
    ''SPS_CTRL23'' 0x1c (Some 0x0), Register ''SPS_CTRL45'' 0x20 (Some 0x0), Register ''SPS_CTRL67'' 0x24 (Some
    0x0), Register ''SPS_FIFO_CTRL'' 0x28 (Some 0x0), Register ''SPS_TXFIFO_SIZE'' 0x2c (Some 0x0), Register
    ''SPS_TXFIFO_RPTR'' 0x30 (Some 0x0), Register ''SPS_TXFIFO_WPTR'' 0x34 (Some 0x0), Register
    ''SPS_TXFIFO_THRESHOLD'' 0x38 (Some 0x0), Register ''SPS_RXFIFO_SIZE'' 0x3c (Some 0x0), Register
    ''SPS_RXFIFO_RPTR'' 0x40 (Some 0x0), Register ''SPS_RXFIFO_WPTR'' 0x44 (Some 0x0), Register
    ''SPS_RXFIFO_THRESHOLD'' 0x48 (Some 0x0), Register ''SPS_ROM_REGION0_CTRL'' 0x4c (Some 0x0), Register
    ''SPS_ROM_REGION0_ROM_BASE'' 0x50 (Some 0x0), Register ''SPS_ROM_REGION0_SP_BASE'' 0x54 (Some 0x0), Register
    ''SPS_ROM_REGION0_SIZE'' 0x58 (Some 0x0), Register ''SPS_ROM_REGION0_INT_LVL'' 0x5c (Some 0x0), Register
    ''SPS_ROM_REGION1_CTRL'' 0x60 (Some 0x0), Register ''SPS_ROM_REGION1_ROM_BASE'' 0x64 (Some 0x0), Register
    ''SPS_ROM_REGION1_SP_BASE'' 0x68 (Some 0x0), Register ''SPS_ROM_REGION1_SIZE'' 0x6c (Some 0x0), Register
    ''SPS_ROM_REGION1_INT_LVL'' 0x70 (Some 0x0), Register ''SPS_ROM_REGION2_CTRL'' 0x74 (Some 0x0), Register
    ''SPS_ROM_REGION2_ROM_BASE'' 0x78 (Some 0x0), Register ''SPS_ROM_REGION2_SP_BASE'' 0x7c (Some 0x0), Register
    ''SPS_ROM_REGION2_SIZE'' 0x80 (Some 0x0), Register ''SPS_ROM_REGION2_INT_LVL'' 0x84 (Some 0x0), Register
    ''SPS_ROM_REGION3_CTRL'' 0x88 (Some 0x0), Register ''SPS_ROM_REGION3_ROM_BASE'' 0x8c (Some 0x0), Register
    ''SPS_ROM_REGION3_SP_BASE'' 0x90 (Some 0x0), Register ''SPS_ROM_REGION3_SIZE'' 0x94 (Some 0x0), Register
    ''SPS_ROM_REGION3_INT_LVL'' 0x98 (Some 0x0), Register ''SPS_ROM_STATUS'' 0x9c (Some 0x0)]"

definition a1_registers_2789 :: "register list" where
  "a1_registers_2789 = [
    Register ''SPS_ROM_SET_RDY'' 0xa0 (Some 0x1), Register ''SPS_ROM_MEM_CMD_OP'' 0xa4 (Some 0x0), Register
    ''SPS_ROM_MEM_CMD_ADDR'' 0xa8 (Some 0x0), Register ''SPS_ROM_MEM_CMD_REGION'' 0xac (Some 0x0), Register
    ''SPS_ROM_MEM_CMD_LEN'' 0xb0 (Some 0x0), Register ''SPS_OVRD'' 0xb4 (Some 0x0), Register ''SPS_VAL'' 0xb8
    (Some 0x0), Register ''SPS_ICTRL'' 0xbc (Some 0x0), Register ''SPS_ISTATE'' 0xc0 (Some 0x0), Register
    ''SPS_ISTATE_CLR'' 0xc4 (Some 0x0), Register ''SPS_ITCR'' 0xf00 (Some 0x0), Register ''SPS_ITOP'' 0xf04
    (Some 0x0), Register ''SPS_DATA'' 0x1000 None, Register ''SPS_TX_DATA'' 0x1000 None, Register
    ''SPS_RX_DATA'' 0x1400 None, Register ''SPS_ROM_SP'' 0x1000 None]"

definition a1_registers_2817 :: "register list" where
  "a1_registers_2817 = [
    Register ''SWDP_TRICKBOX_HALT'' 0x0 (Some 0x0), Register ''SWDP_TRICKBOX_UART'' 0x4 (Some 0x0), Register
    ''SWDP_TRICKBOX_ERROR'' 0x8 (Some 0x0), Register ''SWDP_TRICKBOX_FATAL'' 0xc (Some 0x0), Register
    ''SWDP_SCRATCH_REG0'' 0x10 (Some 0x0), Register ''SWDP_SCRATCH_REG1'' 0x14 (Some 0x0), Register
    ''SWDP_SCRATCH_REG2'' 0x18 (Some 0x0), Register ''SWDP_SCRATCH_REG3'' 0x1c (Some 0x0), Register
    ''SWDP_APPSVTOR'' 0x20 (Some 0xffffffff), Register ''SWDP_XML_MD5SUM'' 0x24 (Some 0x0), Register
    ''SWDP_HEADER_MD5SUM'' 0x28 (Some 0x0), Register ''SWDP_P4_LAST_SYNC'' 0x2c (Some 0x0), Register
    ''SWDP_BUILD_DATE'' 0x30 (Some 0x0), Register ''SWDP_BUILD_TIME'' 0x34 (Some 0x0), Register ''SWDP_A1_DIO8''
    0x38 (Some 0x0), Register ''SWDP_A1_CHANNEL_SEL'' 0x3c (Some 0x0)]"

definition a1_registers_2849 :: "register list" where
  "a1_registers_2849 = [
    Register ''TEMP_VERSION'' 0x0 (Some 0xd00c178), Register ''TEMP_ADC_INT_ENABLE'' 0x4 (Some 0x0), Register
    ''TEMP_ADC_INT_STATE'' 0x8 (Some 0x0), Register ''TEMP_ADC_INT_TEST'' 0xc (Some 0x0), Register
    ''TEMP_SENSE_CAL_OFFSET'' 0x10 (Some 0x0), Register ''TEMP_ADC_ANALOG_CTRL'' 0x14 (Some 0x35), Register
    ''TEMP_ADC_FSM_CTRL'' 0x18 (Some 0x38864), Register ''TEMP_ADC_CLKDIV2_ENABLE'' 0x1c (Some 0x0), Register
    ''TEMP_ADC_ONESHOT_ACQ'' 0x20 (Some 0x0), Register ''TEMP_ADC_POWER_DOWN_B'' 0x24 (Some 0x0), Register
    ''TEMP_ADC_OPERATION'' 0x28 (Some 0x0), Register ''TEMP_ADC_IOUT'' 0x2c (Some 0x0), Register
    ''TEMP_ADC_SUM2'' 0x30 (Some 0x0), Register ''TEMP_ADC_SUM4'' 0x34 (Some 0x0), Register ''TEMP_ADC_SUM8''
    0x38 (Some 0x0), Register ''TEMP_ADC_REF_CHOP'' 0x3c (Some 0x0), Register ''TEMP_ADC_CONFIG'' 0x40 (Some
    0x0), Register ''TEMP_ABS_LIMIT'' 0x44 (Some 0x0), Register ''TEMP_DIFF_PARAM'' 0x48 (Some 0x0), Register
    ''TEMP_METRIC'' 0x4c (Some 0x0), Register ''TEMP_SAMPLE_CTR_STATE'' 0x50 (Some 0x0)]"

definition a1_registers_2891 :: "register list" where
  "a1_registers_2891 = [
    Register ''TIMEHS_TIMER1LOAD'' 0x0 (Some 0x0), Register ''TIMEHS_TIMER1VALUE'' 0x4 (Some 0x0), Register
    ''TIMEHS_TIMER1CONTROL'' 0x8 (Some 0x20), Register ''TIMEHS_TIMER1INTCLR'' 0xc (Some 0x0), Register
    ''TIMEHS_TIMER1RIS'' 0x10 (Some 0x0), Register ''TIMEHS_TIMER1MIS'' 0x14 (Some 0x0), Register
    ''TIMEHS_TIMER1BGLOAD'' 0x18 (Some 0x0), Register ''TIMEHS_TIMER2LOAD'' 0x20 (Some 0x0), Register
    ''TIMEHS_TIMER2VALUE'' 0x24 (Some 0x0), Register ''TIMEHS_TIMER2CONTROL'' 0x28 (Some 0x20), Register
    ''TIMEHS_TIMER2INTCLR'' 0x2c (Some 0x0), Register ''TIMEHS_TIMER2RIS'' 0x30 (Some 0x0), Register
    ''TIMEHS_TIMER2MIS'' 0x34 (Some 0x0), Register ''TIMEHS_TIMER2BGLOAD'' 0x38 (Some 0x0), Register
    ''TIMEHS_TIMERITCR'' 0xf00 (Some 0x0), Register ''TIMEHS_TIMERITOP'' 0xf04 (Some 0x0), Register
    ''TIMEHS_TIMERPERIPHID4'' 0xfd0 (Some 0x4), Register ''TIMEHS_TIMERPERIPHID5'' 0xfd4 (Some 0x0), Register
    ''TIMEHS_TIMERPERIPHID6'' 0xfd8 (Some 0x0), Register ''TIMEHS_TIMERPERIPHID7'' 0xfdc (Some 0x0), Register
    ''TIMEHS_TIMERPERIPHID0'' 0xfe0 (Some 0x23), Register ''TIMEHS_TIMERPERIPHID1'' 0xfe4 (Some 0xb8), Register
    ''TIMEHS_TIMERPERIPHID2'' 0xfe8 (Some 0xb), Register ''TIMEHS_TIMERPERIPHID3'' 0xfec (Some 0x0), Register
    ''TIMEHS_TIMERPCELLID0'' 0xff0 (Some 0xd), Register ''TIMEHS_TIMERPCELLID1'' 0xff4 (Some 0xf0), Register
    ''TIMEHS_TIMERPCELLID2'' 0xff8 (Some 0x5), Register ''TIMEHS_TIMERPCELLID3'' 0xffc (Some 0xb1)]"

definition a1_registers_2947 :: "register list" where
  "a1_registers_2947 = [
    Register ''TIMELS_TIMER0_CONTROL'' 0x0 (Some 0x0), Register ''TIMELS_TIMER0_STATUS'' 0x4 (Some 0x0),
    Register ''TIMELS_TIMER0_LOAD'' 0x8 (Some 0x0), Register ''TIMELS_TIMER0_RELOADVAL'' 0xc (Some 0xffffffff),
    Register ''TIMELS_TIMER0_VALUE'' 0x10 (Some 0x0), Register ''TIMELS_TIMER0_STEP'' 0x14 (Some 0x0), Register
    ''TIMELS_TIMER0_IER'' 0x18 (Some 0x0), Register ''TIMELS_TIMER0_ISR'' 0x1c (Some 0x0), Register
    ''TIMELS_TIMER0_IPR'' 0x20 (Some 0x0), Register ''TIMELS_TIMER0_IAR'' 0x24 (Some 0x0), Register
    ''TIMELS_TIMER0_SETHOLD'' 0x28 (Some 0x0), Register ''TIMELS_TIMER0_CLRHOLD'' 0x2c (Some 0x0), Register
    ''TIMELS_TIMER1_CONTROL'' 0x40 (Some 0x0), Register ''TIMELS_TIMER1_STATUS'' 0x44 (Some 0x0), Register
    ''TIMELS_TIMER1_LOAD'' 0x48 (Some 0x0), Register ''TIMELS_TIMER1_RELOADVAL'' 0x4c (Some 0xffffffff),
    Register ''TIMELS_TIMER1_VALUE'' 0x50 (Some 0x0), Register ''TIMELS_TIMER1_STEP'' 0x54 (Some 0x0), Register
    ''TIMELS_TIMER1_IER'' 0x58 (Some 0x0), Register ''TIMELS_TIMER1_ISR'' 0x5c (Some 0x0), Register
    ''TIMELS_TIMER1_IPR'' 0x60 (Some 0x0), Register ''TIMELS_TIMER1_IAR'' 0x64 (Some 0x0), Register
    ''TIMELS_TIMER1_SETHOLD'' 0x68 (Some 0x0), Register ''TIMELS_TIMER1_CLRHOLD'' 0x6c (Some 0x0), Register
    ''TIMELS_ITCR'' 0xf00 (Some 0x0), Register ''TIMELS_ITOP'' 0xf04 (Some 0x0)]"

definition a1_registers_2999 :: "register list" where
  "a1_registers_2999 = [
    Register ''TRNG_VERSION'' 0x0 (Some 0x700c241), Register ''TRNG_INT_ENABLE'' 0x4 (Some 0x0), Register
    ''TRNG_INT_STATE'' 0x8 (Some 0x0), Register ''TRNG_INT_TEST'' 0xc (Some 0x0), Register ''TRNG_GO_EVENT''
    0x10 (Some 0x0), Register ''TRNG_TIMEOUT_COUNTER'' 0x14 (Some 0x2710), Register ''TRNG_TIMEOUT_MAX_TRY_NUM''
    0x18 (Some 0x4), Register ''TRNG_CAPTURE_FOR_CALIBRATION_NUM_ENTRIES'' 0x1c (Some 0x7), Register
    ''TRNG_STOP_WORK'' 0x20 (Some 0x0), Register ''TRNG_TAIL_POINTER'' 0x24 (Some 0x0), Register
    ''TRNG_SLICE_MAX_LIMIT'' 0x28 (Some 0xf0), Register ''TRNG_HEAD_POINTER'' 0x2c (Some 0x0), Register
    ''TRNG_SYNC_ANALOG'' 0x30 (Some 0x0), Register ''TRNG_MODE_OPERATION'' 0x34 (Some 0x0), Register
    ''TRNG_FSM_STATE'' 0x38 (Some 0x1), Register ''TRNG_TIMER_COUNTER'' 0x3c (Some 0x0), Register
    ''TRNG_SLICE_RANGE'' 0x40 (Some 0xf0), Register ''TRNG_AVERAGE'' 0x44 (Some 0x0), Register ''TRNG_STD_DEV''
    0x48 (Some 0x0), Register ''TRNG_INLINE_STATS'' 0x4c (Some 0x0), Register ''TRNG_LDO_CTRL'' 0x50 (Some 0xb),
    Register ''TRNG_DIV_EN'' 0x54 (Some 0x0), Register ''TRNG_ONE_SHOT_MODE'' 0x58 (Some 0x0), Register
    ''TRNG_ONE_SHOT_REG'' 0x5c (Some 0x0), Register ''TRNG_REG_BITS0'' 0x100 (Some 0x0), Register
    ''TRNG_REG_BITS1'' 0x104 (Some 0x0), Register ''TRNG_REG_BITS2'' 0x108 (Some 0x0), Register
    ''TRNG_REG_BITS3'' 0x10c (Some 0x0), Register ''TRNG_REG_BITS4'' 0x110 (Some 0x0), Register
    ''TRNG_REG_BITS5'' 0x114 (Some 0x0), Register ''TRNG_REG_BITS6'' 0x118 (Some 0x0), Register
    ''TRNG_REG_BITS7'' 0x11c (Some 0x0), Register ''TRNG_REG_BITS8'' 0x120 (Some 0x0), Register
    ''TRNG_REG_BITS9'' 0x124 (Some 0x0), Register ''TRNG_REG_BITS10'' 0x128 (Some 0x0), Register
    ''TRNG_REG_BITS11'' 0x12c (Some 0x0), Register ''TRNG_REG_BITS12'' 0x130 (Some 0x0), Register
    ''TRNG_REG_BITS13'' 0x134 (Some 0x0), Register ''TRNG_REG_BITS14'' 0x138 (Some 0x0), Register
    ''TRNG_REG_BITS15'' 0x13c (Some 0x0)]"

definition a1_registers_3079 :: "register list" where
  "a1_registers_3079 = [
    Register ''TRNG_REG_BITS16'' 0x140 (Some 0x0), Register ''TRNG_REG_BITS17'' 0x144 (Some 0x0), Register
    ''TRNG_REG_BITS18'' 0x148 (Some 0x0), Register ''TRNG_REG_BITS19'' 0x14c (Some 0x0), Register
    ''TRNG_REG_BITS20'' 0x150 (Some 0x0), Register ''TRNG_REG_BITS21'' 0x154 (Some 0x0), Register
    ''TRNG_REG_BITS22'' 0x158 (Some 0x0), Register ''TRNG_REG_BITS23'' 0x15c (Some 0x0), Register
    ''TRNG_REG_BITS24'' 0x160 (Some 0x0), Register ''TRNG_REG_BITS25'' 0x164 (Some 0x0), Register
    ''TRNG_REG_BITS26'' 0x168 (Some 0x0), Register ''TRNG_REG_BITS27'' 0x16c (Some 0x0), Register
    ''TRNG_REG_BITS28'' 0x170 (Some 0x0), Register ''TRNG_REG_BITS29'' 0x174 (Some 0x0), Register
    ''TRNG_REG_BITS30'' 0x178 (Some 0x0), Register ''TRNG_REG_BITS31'' 0x17c (Some 0x0), Register
    ''TRNG_REG_BITS32'' 0x180 (Some 0x0), Register ''TRNG_REG_BITS33'' 0x184 (Some 0x0), Register
    ''TRNG_REG_BITS34'' 0x188 (Some 0x0), Register ''TRNG_REG_BITS35'' 0x18c (Some 0x0), Register
    ''TRNG_REG_BITS36'' 0x190 (Some 0x0), Register ''TRNG_REG_BITS37'' 0x194 (Some 0x0), Register
    ''TRNG_REG_BITS38'' 0x198 (Some 0x0), Register ''TRNG_REG_BITS39'' 0x19c (Some 0x0), Register
    ''TRNG_REG_BITS40'' 0x1a0 (Some 0x0), Register ''TRNG_REG_BITS41'' 0x1a4 (Some 0x0), Register
    ''TRNG_REG_BITS42'' 0x1a8 (Some 0x0), Register ''TRNG_REG_BITS43'' 0x1ac (Some 0x0), Register
    ''TRNG_REG_BITS44'' 0x1b0 (Some 0x0), Register ''TRNG_REG_BITS45'' 0x1b4 (Some 0x0), Register
    ''TRNG_REG_BITS46'' 0x1b8 (Some 0x0), Register ''TRNG_REG_BITS47'' 0x1bc (Some 0x0), Register
    ''TRNG_REG_BITS48'' 0x1c0 (Some 0x0), Register ''TRNG_REG_BITS49'' 0x1c4 (Some 0x0), Register
    ''TRNG_REG_BITS50'' 0x1c8 (Some 0x0), Register ''TRNG_REG_BITS51'' 0x1cc (Some 0x0), Register
    ''TRNG_REG_BITS52'' 0x1d0 (Some 0x0), Register ''TRNG_REG_BITS53'' 0x1d4 (Some 0x0), Register
    ''TRNG_REG_BITS54'' 0x1d8 (Some 0x0), Register ''TRNG_REG_BITS55'' 0x1dc (Some 0x0)]"

definition a1_registers_3159 :: "register list" where
  "a1_registers_3159 = [
    Register ''TRNG_REG_BITS56'' 0x1e0 (Some 0x0), Register ''TRNG_REG_BITS57'' 0x1e4 (Some 0x0), Register
    ''TRNG_REG_BITS58'' 0x1e8 (Some 0x0), Register ''TRNG_REG_BITS59'' 0x1ec (Some 0x0), Register
    ''TRNG_REG_BITS60'' 0x1f0 (Some 0x0), Register ''TRNG_REG_BITS61'' 0x1f4 (Some 0x0), Register
    ''TRNG_REG_BITS62'' 0x1f8 (Some 0x0), Register ''TRNG_REG_BITS63'' 0x1fc (Some 0x0)]"

definition a1_registers_3175 :: "register list" where
  "a1_registers_3175 = [
    Register ''UART_RDATA'' 0x0 (Some 0x0), Register ''UART_WDATA'' 0x4 (Some 0x0), Register ''UART_NCO'' 0x8
    (Some 0x0), Register ''UART_CTRL'' 0xc (Some 0x0), Register ''UART_ICTRL'' 0x10 (Some 0x0), Register
    ''UART_STATE'' 0x14 (Some 0x90), Register ''UART_STATECLR'' 0x18 (Some 0x0), Register ''UART_ISTATE'' 0x1c
    (Some 0x0), Register ''UART_ISTATECLR'' 0x20 (Some 0x0), Register ''UART_FIFO'' 0x24 (Some 0x0), Register
    ''UART_RFIFO'' 0x28 (Some 0x0), Register ''UART_OVRD'' 0x2c (Some 0x0), Register ''UART_VAL'' 0x30 (Some
    0x0), Register ''UART_RXTO'' 0x34 (Some 0x0), Register ''UART_ITCR'' 0xf00 (Some 0x0), Register
    ''UART_ITOP'' 0xf04 (Some 0x0)]"

definition a1_registers_3666 :: "register list" where
  "a1_registers_3666 = [
    Register ''WATCHDOG_WDOGLOAD'' 0x0 (Some 0xffffffff), Register ''WATCHDOG_WDOGVALUE'' 0x4 (Some 0xffffffff),
    Register ''WATCHDOG_WDOGCONTROL'' 0x8 (Some 0x0), Register ''WATCHDOG_WDOGINTCLR'' 0xc (Some 0x0), Register
    ''WATCHDOG_WDOGRIS'' 0x10 (Some 0x0), Register ''WATCHDOG_WDOGMIS'' 0x14 (Some 0x0), Register
    ''WATCHDOG_WDOGLOCK'' 0xc00 (Some 0x0), Register ''WATCHDOG_WDOGITCR'' 0xf00 (Some 0x0), Register
    ''WATCHDOG_WDOGITOP'' 0xf04 (Some 0x0), Register ''WATCHDOG_WDOGPERIPHID4'' 0xfd0 (Some 0x4), Register
    ''WATCHDOG_WDOGPERIPHID5'' 0xfd4 (Some 0x0), Register ''WATCHDOG_WDOGPERIPHID6'' 0xfd8 (Some 0x0), Register
    ''WATCHDOG_WDOGPERIPHID7'' 0xfdc (Some 0x0), Register ''WATCHDOG_WDOGPERIPHID0'' 0xfe0 (Some 0x24), Register
    ''WATCHDOG_WDOGPERIPHID1'' 0xfe4 (Some 0xb8), Register ''WATCHDOG_WDOGPERIPHID2'' 0xfe8 (Some 0xb), Register
    ''WATCHDOG_WDOGPERIPHID3'' 0xfec (Some 0x0), Register ''WATCHDOG_WDOGPCELLID0'' 0xff0 (Some 0xd), Register
    ''WATCHDOG_WDOGPCELLID1'' 0xff4 (Some 0xf0), Register ''WATCHDOG_WDOGPCELLID2'' 0xff8 (Some 0x5), Register
    ''WATCHDOG_WDOGPCELLID3'' 0xffc (Some 0xb1)]"

definition a1_registers_3708 :: "register list" where
  "a1_registers_3708 = [
    Register ''XO_OSC_CLKOUT'' 0x0 (Some 0x0), Register ''XO_OSC_ADC_CAL_FREQ2X'' 0x4 (Some 0x6), Register
    ''XO_OSC_ADC_CAL_FREQ2X_STAT'' 0x8 (Some 0x6), Register ''XO_OSC_24_48B_SEL'' 0xc (Some 0x0), Register
    ''XO_OSC_TEST'' 0x10 (Some 0x0), Register ''XO_OSC_RC_CAL_RSTB'' 0x14 (Some 0x1), Register
    ''XO_OSC_RC_CAL_LOAD'' 0x18 (Some 0x800), Register ''XO_OSC_RC_CAL_START'' 0x1c (Some 0x0), Register
    ''XO_OSC_RC_CAL_DONE'' 0x20 (Some 0x0), Register ''XO_OSC_RC_CAL_COUNT'' 0x24 (Some 0x0), Register
    ''XO_OSC_RC'' 0x28 (Some 0x4444444), Register ''XO_OSC_RC_STATUS'' 0x2c (Some 0x4444444), Register
    ''XO_OSC_XTL_TRIMD'' 0x30 (Some 0x40), Register ''XO_OSC_XTL_TRIMG'' 0x34 (Some 0x40), Register
    ''XO_OSC_XTL_CTRL'' 0x38 (Some 0x0), Register ''XO_OSC_XTL_RC_FLTR'' 0x3c (Some 0x15), Register
    ''XO_OSC_XTL_OVRD'' 0x40 (Some 0x17), Register ''XO_OSC_XTL_OVRD_HOLDB'' 0x44 (Some 0x1), Register
    ''XO_OSC_XTL_TRIM'' 0x48 (Some 0x0), Register ''XO_OSC_XTL_TRIM_STAT'' 0x4c (Some 0x0), Register
    ''XO_OSC_XTL_FSM_EN'' 0x50 (Some 0x0), Register ''XO_OSC_XTL_FSM'' 0x54 (Some 0x0), Register
    ''XO_OSC_XTL_FSM_CFG'' 0x58 (Some 0xd7488), Register ''XO_OSC_SETHOLD'' 0x5c (Some 0x0), Register
    ''XO_OSC_CLRHOLD'' 0x60 (Some 0x0)]"

definition a1_registers_3759 :: "register list" where
  "a1_registers_3759 = [
    Register ''M3_ITM_STIM0'' 0x0 (Some 0x0), Register ''M3_ITM_STIM1'' 0x4 (Some 0x0), Register
    ''M3_ITM_STIM2'' 0x8 (Some 0x0), Register ''M3_ITM_STIM3'' 0xc (Some 0x0), Register ''M3_ITM_STIM4'' 0x10
    (Some 0x0), Register ''M3_ITM_STIM5'' 0x14 (Some 0x0), Register ''M3_ITM_STIM6'' 0x18 (Some 0x0), Register
    ''M3_ITM_STIM7'' 0x1c (Some 0x0), Register ''M3_ITM_STIM8'' 0x20 (Some 0x0), Register ''M3_ITM_STIM9'' 0x24
    (Some 0x0), Register ''M3_ITM_STIM10'' 0x28 (Some 0x0), Register ''M3_ITM_STIM11'' 0x2c (Some 0x0), Register
    ''M3_ITM_STIM12'' 0x30 (Some 0x0), Register ''M3_ITM_STIM13'' 0x34 (Some 0x0), Register ''M3_ITM_STIM14''
    0x38 (Some 0x0), Register ''M3_ITM_STIM15'' 0x3c (Some 0x0), Register ''M3_ITM_STIM16'' 0x40 (Some 0x0),
    Register ''M3_ITM_STIM17'' 0x44 (Some 0x0), Register ''M3_ITM_STIM18'' 0x48 (Some 0x0), Register
    ''M3_ITM_STIM19'' 0x4c (Some 0x0), Register ''M3_ITM_STIM20'' 0x50 (Some 0x0), Register ''M3_ITM_STIM21''
    0x54 (Some 0x0), Register ''M3_ITM_STIM22'' 0x58 (Some 0x0), Register ''M3_ITM_STIM23'' 0x5c (Some 0x0),
    Register ''M3_ITM_STIM24'' 0x60 (Some 0x0), Register ''M3_ITM_STIM25'' 0x64 (Some 0x0), Register
    ''M3_ITM_STIM26'' 0x68 (Some 0x0), Register ''M3_ITM_STIM27'' 0x6c (Some 0x0), Register ''M3_ITM_STIM28''
    0x70 (Some 0x0), Register ''M3_ITM_STIM29'' 0x74 (Some 0x0), Register ''M3_ITM_STIM30'' 0x78 (Some 0x0),
    Register ''M3_ITM_STIM31'' 0x7c (Some 0x0), Register ''M3_ITM_TER'' 0xe00 (Some 0x0), Register
    ''M3_ITM_TPR'' 0xe40 (Some 0x0), Register ''M3_ITM_TCR'' 0xe80 (Some 0x0), Register ''M3_ITM_INTRREG'' 0xef0
    (Some 0x0), Register ''M3_ITM_INTWREG'' 0xef8 (Some 0x0), Register ''M3_ITM_INTMREG'' 0xf00 (Some 0x0),
    Register ''M3_ITM_LOCKCREG'' 0xfb0 (Some 0x0), Register ''M3_ITM_LOCKSREG'' 0xfb4 (Some 0x0)]"

definition a1_registers_3839 :: "register list" where
  "a1_registers_3839 = [
    Register ''M3_DWT_CTRL'' 0x1000 (Some 0x0), Register ''M3_DWT_CYCCNT'' 0x1004 (Some 0x0), Register
    ''M3_DWT_CPICNT'' 0x1008 (Some 0x0), Register ''M3_DWT_EXCCNT'' 0x100c (Some 0x0), Register
    ''M3_DWT_SLEEPCNT'' 0x1010 (Some 0x0), Register ''M3_DWT_LSUCNT'' 0x1014 (Some 0x0), Register
    ''M3_DWT_FOLDCNT'' 0x1018 (Some 0x0), Register ''M3_DWT_PCSR'' 0x101c (Some 0x0), Register ''M3_DWT_COMP0''
    0x1020 (Some 0x0), Register ''M3_DWT_MASK0'' 0x1024 (Some 0x0), Register ''M3_DWT_FUNCTION0'' 0x1028 (Some
    0x0), Register ''M3_DWT_COMP1'' 0x1030 (Some 0x0), Register ''M3_DWT_MASK1'' 0x1034 (Some 0x0), Register
    ''M3_DWT_FUNCTION1'' 0x1038 (Some 0x0), Register ''M3_DWT_COMP2'' 0x1040 (Some 0x0), Register
    ''M3_DWT_MASK2'' 0x1044 (Some 0x0), Register ''M3_DWT_FUNCTION2'' 0x1048 (Some 0x0), Register
    ''M3_DWT_COMP3'' 0x1050 (Some 0x0), Register ''M3_DWT_MASK3'' 0x1054 (Some 0x0), Register
    ''M3_DWT_FUNCTION3'' 0x1058 (Some 0x0), Register ''M3_FP_CTRL'' 0x2000 (Some 0x260), Register
    ''M3_FP_REMAP'' 0x2004 (Some 0x0), Register ''M3_FP_COMP0'' 0x2008 (Some 0x0), Register ''M3_FP_COMP1''
    0x200c (Some 0x0), Register ''M3_FP_COMP2'' 0x2010 (Some 0x0), Register ''M3_FP_COMP3'' 0x2014 (Some 0x0),
    Register ''M3_FP_COMP4'' 0x2018 (Some 0x0), Register ''M3_FP_COMP5'' 0x201c (Some 0x0), Register
    ''M3_FP_COMP6'' 0x2020 (Some 0x0), Register ''M3_FP_COMP7'' 0x2024 (Some 0x0), Register ''M3_ICTR'' 0xe004
    (Some 0x4), Register ''M3_SYST_CSR'' 0xe010 (Some 0x4), Register ''M3_SYST_RVR'' 0xe014 (Some 0x0), Register
    ''M3_SYST_CVR'' 0xe018 (Some 0x0), Register ''M3_SYST_CALIB'' 0xe01c (Some 0x3f79f), Register
    ''M3_NVIC_ISER0'' 0xe100 (Some 0x0), Register ''M3_NVIC_ISER1'' 0xe104 (Some 0x0), Register
    ''M3_NVIC_ISER2'' 0xe108 (Some 0x0), Register ''M3_NVIC_ISER3'' 0xe10c (Some 0x0), Register
    ''M3_NVIC_ISER4'' 0xe110 (Some 0x0)]"

definition a1_registers_3919 :: "register list" where
  "a1_registers_3919 = [
    Register ''M3_NVIC_ISER5'' 0xe114 (Some 0x0), Register ''M3_NVIC_ISER6'' 0xe118 (Some 0x0), Register
    ''M3_NVIC_ISER7'' 0xe11c (Some 0x0), Register ''M3_NVIC_ICER0'' 0xe180 (Some 0x0), Register
    ''M3_NVIC_ICER1'' 0xe184 (Some 0x0), Register ''M3_NVIC_ICER2'' 0xe188 (Some 0x0), Register
    ''M3_NVIC_ICER3'' 0xe18c (Some 0x0), Register ''M3_NVIC_ICER4'' 0xe190 (Some 0x0), Register
    ''M3_NVIC_ICER5'' 0xe194 (Some 0x0), Register ''M3_NVIC_ICER6'' 0xe198 (Some 0x0), Register
    ''M3_NVIC_ICER7'' 0xe19c (Some 0x0), Register ''M3_NVIC_ISPR0'' 0xe200 (Some 0x0), Register
    ''M3_NVIC_ISPR1'' 0xe204 (Some 0x0), Register ''M3_NVIC_ISPR2'' 0xe208 (Some 0x0), Register
    ''M3_NVIC_ISPR3'' 0xe20c (Some 0x0), Register ''M3_NVIC_ISPR4'' 0xe210 (Some 0x0), Register
    ''M3_NVIC_ISPR5'' 0xe214 (Some 0x0), Register ''M3_NVIC_ISPR6'' 0xe218 (Some 0x0), Register
    ''M3_NVIC_ISPR7'' 0xe21c (Some 0x0), Register ''M3_NVIC_ICPR0'' 0xe280 (Some 0x0), Register
    ''M3_NVIC_ICPR1'' 0xe284 (Some 0x0), Register ''M3_NVIC_ICPR2'' 0xe288 (Some 0x0), Register
    ''M3_NVIC_ICPR3'' 0xe28c (Some 0x0), Register ''M3_NVIC_ICPR4'' 0xe290 (Some 0x0), Register
    ''M3_NVIC_ICPR5'' 0xe294 (Some 0x0), Register ''M3_NVIC_ICPR6'' 0xe298 (Some 0x0), Register
    ''M3_NVIC_ICPR7'' 0xe29c (Some 0x0), Register ''M3_NVIC_IABR0'' 0xe300 (Some 0x0), Register
    ''M3_NVIC_IABR1'' 0xe304 (Some 0x0), Register ''M3_NVIC_IABR2'' 0xe308 (Some 0x0), Register
    ''M3_NVIC_IABR3'' 0xe30c (Some 0x0), Register ''M3_NVIC_IABR4'' 0xe310 (Some 0x0), Register
    ''M3_NVIC_IABR5'' 0xe314 (Some 0x0), Register ''M3_NVIC_IABR6'' 0xe318 (Some 0x0), Register
    ''M3_NVIC_IABR7'' 0xe31c (Some 0x0), Register ''M3_NVIC_IPR0'' 0xe400 (Some 0x0), Register ''M3_NVIC_IPR1''
    0xe404 (Some 0x0), Register ''M3_NVIC_IPR2'' 0xe408 (Some 0x0), Register ''M3_NVIC_IPR3'' 0xe40c (Some 0x0),
    Register ''M3_NVIC_IPR4'' 0xe410 (Some 0x0)]"

definition a1_registers_3999 :: "register list" where
  "a1_registers_3999 = [
    Register ''M3_NVIC_IPR5'' 0xe414 (Some 0x0), Register ''M3_NVIC_IPR6'' 0xe418 (Some 0x0), Register
    ''M3_NVIC_IPR7'' 0xe41c (Some 0x0), Register ''M3_NVIC_IPR8'' 0xe420 (Some 0x0), Register ''M3_NVIC_IPR9''
    0xe424 (Some 0x0), Register ''M3_NVIC_IPR10'' 0xe428 (Some 0x0), Register ''M3_NVIC_IPR11'' 0xe42c (Some
    0x0), Register ''M3_NVIC_IPR12'' 0xe430 (Some 0x0), Register ''M3_NVIC_IPR13'' 0xe434 (Some 0x0), Register
    ''M3_NVIC_IPR14'' 0xe438 (Some 0x0), Register ''M3_NVIC_IPR15'' 0xe43c (Some 0x0), Register
    ''M3_NVIC_IPR16'' 0xe440 (Some 0x0), Register ''M3_NVIC_IPR17'' 0xe444 (Some 0x0), Register
    ''M3_NVIC_IPR18'' 0xe448 (Some 0x0), Register ''M3_NVIC_IPR19'' 0xe44c (Some 0x0), Register
    ''M3_NVIC_IPR20'' 0xe450 (Some 0x0), Register ''M3_NVIC_IPR21'' 0xe454 (Some 0x0), Register
    ''M3_NVIC_IPR22'' 0xe458 (Some 0x0), Register ''M3_NVIC_IPR23'' 0xe45c (Some 0x0), Register
    ''M3_NVIC_IPR24'' 0xe460 (Some 0x0), Register ''M3_NVIC_IPR25'' 0xe464 (Some 0x0), Register
    ''M3_NVIC_IPR26'' 0xe468 (Some 0x0), Register ''M3_NVIC_IPR27'' 0xe46c (Some 0x0), Register
    ''M3_NVIC_IPR28'' 0xe470 (Some 0x0), Register ''M3_NVIC_IPR29'' 0xe474 (Some 0x0), Register
    ''M3_NVIC_IPR30'' 0xe478 (Some 0x0), Register ''M3_NVIC_IPR31'' 0xe47c (Some 0x0), Register
    ''M3_NVIC_IPR32'' 0xe480 (Some 0x0), Register ''M3_NVIC_IPR33'' 0xe484 (Some 0x0), Register
    ''M3_NVIC_IPR34'' 0xe488 (Some 0x0), Register ''M3_NVIC_IPR35'' 0xe48c (Some 0x0), Register
    ''M3_NVIC_IPR36'' 0xe490 (Some 0x0), Register ''M3_NVIC_IPR37'' 0xe494 (Some 0x0), Register
    ''M3_NVIC_IPR38'' 0xe498 (Some 0x0), Register ''M3_NVIC_IPR39'' 0xe49c (Some 0x0), Register
    ''M3_NVIC_IPR40'' 0xe4a0 (Some 0x0), Register ''M3_NVIC_IPR41'' 0xe4a4 (Some 0x0), Register
    ''M3_NVIC_IPR42'' 0xe4a8 (Some 0x0), Register ''M3_NVIC_IPR43'' 0xe4ac (Some 0x0), Register
    ''M3_NVIC_IPR44'' 0xe4b0 (Some 0x0)]"

definition a1_registers_4079 :: "register list" where
  "a1_registers_4079 = [
    Register ''M3_NVIC_IPR45'' 0xe4b4 (Some 0x0), Register ''M3_NVIC_IPR46'' 0xe4b8 (Some 0x0), Register
    ''M3_NVIC_IPR47'' 0xe4bc (Some 0x0), Register ''M3_NVIC_IPR48'' 0xe4c0 (Some 0x0), Register
    ''M3_NVIC_IPR49'' 0xe4c4 (Some 0x0), Register ''M3_NVIC_IPR50'' 0xe4c8 (Some 0x0), Register
    ''M3_NVIC_IPR51'' 0xe4cc (Some 0x0), Register ''M3_NVIC_IPR52'' 0xe4d0 (Some 0x0), Register
    ''M3_NVIC_IPR53'' 0xe4d4 (Some 0x0), Register ''M3_NVIC_IPR54'' 0xe4d8 (Some 0x0), Register
    ''M3_NVIC_IPR55'' 0xe4dc (Some 0x0), Register ''M3_NVIC_IPR56'' 0xe4e0 (Some 0x0), Register
    ''M3_NVIC_IPR57'' 0xe4e4 (Some 0x0), Register ''M3_NVIC_IPR58'' 0xe4e8 (Some 0x0), Register ''M3_CPUID''
    0xed00 (Some 0x410fc331), Register ''M3_ICSR'' 0xed04 (Some 0x0), Register ''M3_VTOR'' 0xed08 (Some 0x0),
    Register ''M3_AIRCR'' 0xed0c (Some 0x0), Register ''M3_SCR'' 0xed10 (Some 0x0), Register ''M3_CCR'' 0xed14
    (Some 0x0), Register ''M3_SHPR1'' 0xed18 (Some 0x0), Register ''M3_SHPR2'' 0xed1c (Some 0x0), Register
    ''M3_SHPR3'' 0xed20 (Some 0x0), Register ''M3_SHCSR'' 0xed24 (Some 0x0), Register ''M3_CFSR'' 0xed28 (Some
    0x0), Register ''M3_HFSR'' 0xed2c (Some 0x0), Register ''M3_DFSR'' 0xed30 (Some 0x0), Register ''M3_MMFAR''
    0xed34 (Some 0x0), Register ''M3_BFAR'' 0xed38 (Some 0x0), Register ''M3_AFSR'' 0xed3c (Some 0x0), Register
    ''M3_MPU_TYPE'' 0xed90 (Some 0x800), Register ''M3_MPU_CTRL'' 0xed94 (Some 0x0), Register ''M3_MPU_RNR''
    0xed98 (Some 0x0), Register ''M3_MPU_RBAR'' 0xed9c (Some 0x0), Register ''M3_MPU_RASR'' 0xeda0 (Some 0x0),
    Register ''M3_MPU_RBAR_A1'' 0xeda4 (Some 0x0), Register ''M3_MPU_RASR_A1'' 0xeda8 (Some 0x0), Register
    ''M3_MPU_RBAR_A2'' 0xedac (Some 0x0), Register ''M3_MPU_RASR_A2'' 0xedb0 (Some 0x0), Register
    ''M3_MPU_RBAR_A3'' 0xedb4 (Some 0x0)]"

definition a1_registers_4159 :: "register list" where
  "a1_registers_4159 = [
    Register ''M3_MPU_RASR_A3'' 0xedb8 (Some 0x0), Register ''M3_DHCSR'' 0xedf0 (Some 0x0), Register
    ''M3_DCRSR'' 0xedf4 (Some 0x0), Register ''M3_DCRDR'' 0xedf8 (Some 0x0), Register ''M3_DEMCR'' 0xedfc (Some
    0x0), Register ''M3_ITCMCR'' 0xef90 (Some 0x0), Register ''M3_TPIU_SSPSR'' 0x40000 (Some 0x0), Register
    ''M3_TPIU_CSPSR'' 0x40004 (Some 0x1), Register ''M3_TPIU_ACPR'' 0x40010 (Some 0x0), Register
    ''M3_TPIU_SPPR'' 0x400f0 (Some 0x1), Register ''M3_TPIU_FFSR'' 0x40300 (Some 0x8), Register ''M3_TPIU_FFCR''
    0x40304 (Some 0x0), Register ''M3_TPIU_FSCR'' 0x40308 (Some 0x0), Register ''M3_TRIGGER'' 0x40ee8 (Some
    0x0), Register ''M3_FIFO_DATA0'' 0x40eec (Some 0x0), Register ''M3_ITATBCTR2'' 0x40ef0 (Some 0x0), Register
    ''M3_ITATBCTR0'' 0x40ef8 (Some 0x0), Register ''M3_FIFO_DATA1'' 0x40efc (Some 0x0), Register ''M3_ITCTRL''
    0x40f00 (Some 0x0), Register ''M3_CLAIMSET'' 0x40fa0 (Some 0x0), Register ''M3_CLAIMCLR'' 0x40fa4 (Some
    0x0), Register ''M3_DEVID'' 0x40fc8 (Some 0xca0), Register ''M3_DEVTYPE'' 0x40fcc (Some 0x11)]"

definition a1_regdefs_4802 :: "reg_field list" where
  "a1_regdefs_4802 = [
    Field ''I2C_CTRL_PHASESTEPS_P0'' 0 0x3f 6 0x6 0x8, Field ''I2C_CTRL_PHASESTEPS_P1'' 6 0xfc0 6 0x6 0x8, Field
    ''I2C_CTRL_PHASESTEPS_P2'' 12 0x3f000 6 0x8 0x8, Field ''I2C_CTRL_PHASESTEPS_P3'' 18 0xfc0000 6 0x6 0x8,
    Field ''I2C_CTRL_SDA_VAL_FREE_BUS_PHASE0'' 0 0x1 1 0x1 0xc, Field ''I2C_CTRL_SDA_VAL_FREE_BUS_PHASE1'' 1 0x2
    1 0x1 0xc, Field ''I2C_CTRL_SDA_VAL_FREE_BUS_PHASE2'' 2 0x4 1 0x1 0xc, Field ''I2C_CTRL_SDA_VAL_FREE_BUS'' 3
    0x8 1 0x1 0xc, Field ''I2C_CTRL_SDA_VAL_WRITE0_PHASE0'' 4 0x10 1 0x0 0xc, Field
    ''I2C_CTRL_SDA_VAL_WRITE0_PHASE1'' 5 0x20 1 0x0 0xc, Field ''I2C_CTRL_SDA_VAL_WRITE0_PHASE2'' 6 0x40 1 0x0
    0xc, Field ''I2C_CTRL_SDA_VAL_STANDBY_VAL0'' 7 0x80 1 0x0 0xc, Field ''I2C_CTRL_SDA_VAL_WRITE1_PHASE0'' 8
    0x100 1 0x1 0xc, Field ''I2C_CTRL_SDA_VAL_WRITE1_PHASE1'' 9 0x200 1 0x1 0xc, Field
    ''I2C_CTRL_SDA_VAL_WRITE1_PHASE2'' 10 0x400 1 0x1 0xc, Field ''I2C_CTRL_SDA_VAL_STANDBY_VAL1'' 11 0x800 1
    0x1 0xc, Field ''I2C_CTRL_SDA_VAL_READ_PHASE0'' 12 0x1000 1 0x1 0xc, Field ''I2C_CTRL_SDA_VAL_READ_PHASE1''
    13 0x2000 1 0x1 0xc, Field ''I2C_CTRL_SDA_VAL_READ_PHASE2'' 14 0x4000 1 0x1 0xc, Field
    ''I2C_CTRL_SDA_VAL_HOLD0_PHASE0'' 15 0x8000 1 0x0 0xc, Field ''I2C_CTRL_SDA_VAL_START_PHASE0'' 16 0x10000 1
    0x1 0xc, Field ''I2C_CTRL_SDA_VAL_START_PHASE1'' 17 0x20000 1 0x0 0xc, Field
    ''I2C_CTRL_SDA_VAL_START_PHASE2'' 18 0x40000 1 0x0 0xc, Field ''I2C_CTRL_SDA_VAL_ERROR_SCL_CONFLICT'' 19
    0x80000 1 0x1 0xc, Field ''I2C_CTRL_SDA_VAL_STOP_PHASE0'' 20 0x100000 1 0x0 0xc, Field
    ''I2C_CTRL_SDA_VAL_STOP_PHASE1'' 21 0x200000 1 0x0 0xc, Field ''I2C_CTRL_SDA_VAL_STOP_PHASE2'' 22 0x400000 1
    0x0 0xc, Field ''I2C_CTRL_SDA_VAL_ERROR_SDA_CONFLICT'' 23 0x800000 1 0x1 0xc, Field
    ''I2C_CTRL_SDA_VAL_SCL0_PHASE0'' 24 0x1000000 1 0x1 0xc]"

definition a1_regdefs_4947 :: "reg_field list" where
  "a1_regdefs_4947 = [
    Field ''I2C_CTRL_SDA_OVRD_HOLD0_PHASE0'' 0 0x1 1 0x0 0x10, Field ''I2C_CTRL_SDA_OVRD_READ_PHASE0'' 1 0x2 1
    0x0 0x10, Field ''I2C_CTRL_SDA_OVRD_SCL0_PHASE0'' 2 0x4 1 0x0 0x10, Field ''I2C_CTRL_SDA_OVRD_START_PHASE0''
    3 0x8 1 0x0 0x10, Field ''I2C_CTRL_SDA_OVRD_STOP_PHASE0'' 4 0x10 1 0x0 0x10, Field
    ''I2C_CTRL_SDA_OVRD_WRITE0_PHASE0'' 5 0x20 1 0x0 0x10, Field ''I2C_CTRL_SDA_OVRD_WRITE1_PHASE0'' 6 0x40 1
    0x0 0x10, Field ''I2C_CTRL_SDA_OVRD_FREE_BUS_PHASE0'' 7 0x80 1 0x0 0x10, Field
    ''I2C_CTRL_SDA_OVRD_FREE_BUS_PHASE1'' 8 0x100 1 0x1 0x10, Field ''I2C_CTRL_SDA_OVRD_FREE_BUS_PHASE2'' 9
    0x200 1 0x1 0x10, Field ''I2C_CTRL_SDA_OVRD_ERROR_SDA_CONFLICT'' 10 0x400 1 0x0 0x10]"

definition a1_regdefs_5002 :: "reg_field list" where
  "a1_regdefs_5002 = [
    Field ''I2C_CTRL_SCL_VAL_FREE_BUS_PHASE0'' 0 0x1 1 0x0 0x14, Field ''I2C_CTRL_SCL_VAL_FREE_BUS_PHASE1'' 1
    0x2 1 0x1 0x14, Field ''I2C_CTRL_SCL_VAL_FREE_BUS_PHASE2'' 2 0x4 1 0x1 0x14, Field
    ''I2C_CTRL_SCL_VAL_FREE_BUS'' 3 0x8 1 0x1 0x14, Field ''I2C_CTRL_SCL_VAL_WRITE0_PHASE0'' 4 0x10 1 0x0 0x14,
    Field ''I2C_CTRL_SCL_VAL_WRITE0_PHASE1'' 5 0x20 1 0x1 0x14, Field ''I2C_CTRL_SCL_VAL_WRITE0_PHASE2'' 6 0x40
    1 0x1 0x14, Field ''I2C_CTRL_SCL_VAL_STANDBY_VAL0'' 7 0x80 1 0x0 0x14, Field
    ''I2C_CTRL_SCL_VAL_WRITE1_PHASE0'' 8 0x100 1 0x0 0x14, Field ''I2C_CTRL_SCL_VAL_WRITE1_PHASE1'' 9 0x200 1
    0x1 0x14, Field ''I2C_CTRL_SCL_VAL_WRITE1_PHASE2'' 10 0x400 1 0x1 0x14, Field
    ''I2C_CTRL_SCL_VAL_STANDBY_VAL1'' 11 0x800 1 0x0 0x14, Field ''I2C_CTRL_SCL_VAL_READ_PHASE0'' 12 0x1000 1
    0x0 0x14, Field ''I2C_CTRL_SCL_VAL_READ_PHASE1'' 13 0x2000 1 0x1 0x14, Field
    ''I2C_CTRL_SCL_VAL_READ_PHASE2'' 14 0x4000 1 0x1 0x14, Field ''I2C_CTRL_SCL_VAL_HOLD0_PHASE0'' 15 0x8000 1
    0x0 0x14, Field ''I2C_CTRL_SCL_VAL_START_PHASE0'' 16 0x10000 1 0x1 0x14, Field
    ''I2C_CTRL_SCL_VAL_START_PHASE1'' 17 0x20000 1 0x1 0x14, Field ''I2C_CTRL_SCL_VAL_START_PHASE2'' 18 0x40000
    1 0x1 0x14, Field ''I2C_CTRL_SCL_VAL_ERROR_SCL_CONFLICT'' 19 0x80000 1 0x0 0x14, Field
    ''I2C_CTRL_SCL_VAL_STOP_PHASE0'' 20 0x100000 1 0x0 0x14, Field ''I2C_CTRL_SCL_VAL_STOP_PHASE1'' 21 0x200000
    1 0x1 0x14, Field ''I2C_CTRL_SCL_VAL_STOP_PHASE2'' 22 0x400000 1 0x1 0x14, Field
    ''I2C_CTRL_SCL_VAL_ERROR_SDA_CONFLICT'' 23 0x800000 1 0x0 0x14, Field ''I2C_CTRL_SCL_VAL_SCL0_PHASE0'' 24
    0x1000000 1 0x0 0x14]"

definition a1_regdefs_5127 :: "reg_field list" where
  "a1_regdefs_5127 = [
    Field ''I2C_CTRL_SCL_OVRD_HOLD0_PHASE0'' 0 0x1 1 0x0 0x18, Field ''I2C_CTRL_SCL_OVRD_READ_PHASE0'' 1 0x2 1
    0x0 0x18, Field ''I2C_CTRL_SCL_OVRD_SCL0_PHASE0'' 2 0x4 1 0x0 0x18, Field ''I2C_CTRL_SCL_OVRD_START_PHASE0''
    3 0x8 1 0x0 0x18, Field ''I2C_CTRL_SCL_OVRD_STOP_PHASE0'' 4 0x10 1 0x0 0x18, Field
    ''I2C_CTRL_SCL_OVRD_WRITE0_PHASE0'' 5 0x20 1 0x0 0x18, Field ''I2C_CTRL_SCL_OVRD_WRITE1_PHASE0'' 6 0x40 1
    0x0 0x18, Field ''I2C_CTRL_SCL_OVRD_FREE_BUS_PHASE0'' 7 0x80 1 0x0 0x18, Field
    ''I2C_CTRL_SCL_OVRD_FREE_BUS_PHASE1'' 8 0x100 1 0x0 0x18, Field ''I2C_CTRL_SCL_OVRD_FREE_BUS_PHASE2'' 9
    0x200 1 0x1 0x18, Field ''I2C_CTRL_SCL_OVRD_ERROR_SDA_CONFLICT'' 10 0x400 1 0x1 0x18, Field
    ''I2C_CTRL_AL_EN'' 0 0x1 1 0x1 0x20, Field ''I2C_CTRL_AL_PHASEMASK'' 1 0x1e 4 0xf 0x20, Field
    ''I2C_CTRL_CS_EN'' 0 0x1 1 0x1 0x24, Field ''I2C_CTRL_CS_TIMEOUTEN'' 1 0x2 1 0x1 0x24, Field
    ''I2C_CTRL_CS_TIMEOUTVAL'' 2 0x3ffffc 20 0x4e20 0x24]"

definition a1_regdefs_5207 :: "reg_field list" where
  "a1_regdefs_5207 = [
    Field ''I2C_INST_RESERVED0'' 0 0x1 1 0x0 0x28, Field ''I2C_INST_START'' 1 0x2 1 0x0 0x28, Field
    ''I2C_INST_FWDEVADDR'' 2 0x4 1 0x0 0x28, Field ''I2C_INST_FWBYTESCOUNT'' 3 0x38 3 0x0 0x28, Field
    ''I2C_INST_SCL0'' 6 0x40 1 0x0 0x28, Field ''I2C_INST_FREE_BUS'' 7 0x80 1 0x0 0x28, Field
    ''I2C_INST_FIRSTSTOP'' 8 0x100 1 0x0 0x28, Field ''I2C_INST_REPEATEDSTART'' 9 0x200 1 0x0 0x28, Field
    ''I2C_INST_RWDEVADDR'' 10 0x400 1 0x0 0x28, Field ''I2C_INST_RWDEVADDR_RWB'' 11 0x800 1 0x0 0x28, Field
    ''I2C_INST_RWBYTESCOUNT'' 12 0x7f000 7 0x0 0x28, Field ''I2C_INST_FINALNA'' 19 0x80000 1 0x0 0x28, Field
    ''I2C_INST_RWBIT'' 20 0x300000 2 0x0 0x28, Field ''I2C_INST_HOLD0'' 22 0x400000 1 0x0 0x28, Field
    ''I2C_INST_FINALSTOP'' 23 0x800000 1 0x0 0x28, Field ''I2C_INST_RESETB_RWPTR'' 24 0x1000000 1 0x0 0x28,
    Field ''I2C_INST_DEVADDRVAL'' 25 0xfe000000 7 0x0 0x28]"

definition a1_regdefs_5292 :: "reg_field list" where
  "a1_regdefs_5292 = [
    Field ''I2C_STATUS_RESERVED0'' 0 0x1 1 0x0 0x2c, Field ''I2C_STATUS_START'' 1 0x2 1 0x0 0x2c, Field
    ''I2C_STATUS_FWDEVADDR'' 2 0x4 1 0x0 0x2c, Field ''I2C_STATUS_FWBYTESCOUNT'' 3 0x38 3 0x0 0x2c, Field
    ''I2C_STATUS_SCL0'' 6 0x40 1 0x0 0x2c, Field ''I2C_STATUS_FREE_BUS'' 7 0x80 1 0x0 0x2c, Field
    ''I2C_STATUS_FIRSTSTOP'' 8 0x100 1 0x0 0x2c, Field ''I2C_STATUS_REPEATEDSTART'' 9 0x200 1 0x0 0x2c, Field
    ''I2C_STATUS_RWDEVADDR'' 10 0x400 1 0x0 0x2c, Field ''I2C_STATUS_RWDEVADDR_RWB'' 11 0x800 1 0x0 0x2c, Field
    ''I2C_STATUS_RWBYTESCOUNT'' 12 0x7f000 7 0x0 0x2c, Field ''I2C_STATUS_FINALNA'' 19 0x80000 1 0x0 0x2c, Field
    ''I2C_STATUS_RWBIT'' 20 0x300000 2 0x0 0x2c, Field ''I2C_STATUS_HOLD0'' 22 0x400000 1 0x0 0x2c, Field
    ''I2C_STATUS_FINALSTOP'' 23 0x800000 1 0x0 0x2c, Field ''I2C_STATUS_INTB'' 24 0x1000000 1 0x0 0x2c, Field
    ''I2C_STATUS_CA_NACK'' 25 0x2000000 1 0x0 0x2c, Field ''I2C_STATUS_AL'' 26 0x4000000 1 0x0 0x2c, Field
    ''I2C_STATUS_ALBITPTR'' 27 0x78000000 4 0x0 0x2c, Field ''I2C_STATUS_CSTIMEOUT'' 31 0x80000000 1 0x0 0x2c,
    Field ''I2C_READVAL_SDA'' 0 0x1 1 0x0 0x78, Field ''I2C_READVAL_SCL'' 1 0x2 1 0x0 0x78, Field
    ''I2C_CTRL_MSR_SDA'' 0 0x3 2 0x2 0x7c, Field ''I2C_CTRL_MSR_SCL'' 2 0xc 2 0x2 0x7c]"

definition a1_regdefs_5412 :: "reg_field list" where
  "a1_regdefs_5412 = [
    Field ''I2CS_VERSION_CHANGE'' 0 0xffffff 24 0xb99f 0x0, Field ''I2CS_VERSION_REVISION'' 24 0xff000000 8 0x4
    0x0, Field ''I2CS_INT_ENABLE_INTR_READ_BEGIN'' 0 0x1 1 0x0 0x4, Field ''I2CS_INT_ENABLE_INTR_READ_COMPLETE''
    1 0x2 1 0x0 0x4, Field ''I2CS_INT_ENABLE_INTR_WRITE_COMPLETE'' 2 0x4 1 0x0 0x4, Field
    ''I2CS_INT_STATE_INTR_READ_BEGIN'' 0 0x1 1 0x0 0x8, Field ''I2CS_INT_STATE_INTR_READ_COMPLETE'' 1 0x2 1 0x0
    0x8, Field ''I2CS_INT_STATE_INTR_WRITE_COMPLETE'' 2 0x4 1 0x0 0x8, Field ''I2CS_INT_TEST_INTR_READ_BEGIN'' 0
    0x1 1 0x0 0xc, Field ''I2CS_INT_TEST_INTR_READ_COMPLETE'' 1 0x2 1 0x0 0xc, Field
    ''I2CS_INT_TEST_INTR_WRITE_COMPLETE'' 2 0x4 1 0x0 0xc, Field ''I2CS_CTRL_SDA_VAL_FREE_BUS_S'' 0 0x1 1 0x1
    0x10, Field ''I2CS_CTRL_SDA_VAL_READ0_S'' 1 0x2 1 0x0 0x10, Field ''I2CS_CTRL_SDA_VAL_READ1_S'' 2 0x4 1 0x1
    0x10, Field ''I2CS_CTRL_SDA_VAL_WRITE_S'' 3 0x8 1 0x1 0x10, Field ''I2CS_CTRL_SDA_VAL_START_S'' 4 0x10 1 0x1
    0x10, Field ''I2CS_CTRL_SDA_VAL_STOP_S'' 5 0x20 1 0x1 0x10, Field ''I2CS_READVAL_SDA'' 0 0x1 1 0x0 0x20,
    Field ''I2CS_READVAL_SCL'' 1 0x2 1 0x0 0x20, Field ''I2CS_CTRL_MSR_SDA'' 0 0x3 2 0x2 0x24, Field
    ''I2CS_CTRL_MSR_SCL'' 2 0xc 2 0x2 0x24]"

definition a1_regdefs_9545 :: "reg_field list" where
  "a1_regdefs_9545 = [
    Field ''RTC_CTRL_X_RTC_MUX_CTRL_3P3'' 0 0xf 4 0x1 0x0, Field ''RTC_CTRL_X_RTC_RC_CTRL_3P3'' 4 0xff0 8 0xf0
    0x0, Field ''RTC_CTRL_X_RTC_XTL_INSTALLED_3P3'' 12 0x1000 1 0x0 0x0, Field ''RTC_CTRL_X_RTC_XTL_ITRIM_3P3''
    13 0x6000 2 0x1 0x0, Field ''RTC_CTRL_X_RTC_XTL_CTRIM_3P3'' 15 0x78000 4 0x4 0x0, Field ''RTC_SETHOLD_EN'' 0
    0x1 1 0x0 0x8, Field ''RTC_CLRHOLD_EN'' 0 0x1 1 0x0 0xc]"

definition a1_regdefs_9635 :: "reg_field list" where
  "a1_regdefs_9635 = [
    Field ''SPI_CTRL_CPOL'' 0 0x1 1 0x0 0x0, Field ''SPI_CTRL_CPHA'' 1 0x2 1 0x0 0x0, Field ''SPI_CTRL_CSBSU'' 2
    0x3c 4 0x0 0x0, Field ''SPI_CTRL_CSBHLD'' 6 0x3c0 4 0x0 0x0, Field ''SPI_CTRL_IDIV'' 10 0x3ffc00 12 0x2 0x0,
    Field ''SPI_CTRL_CSBPOL'' 22 0x400000 1 0x0 0x0, Field ''SPI_CTRL_TXBITOR'' 23 0x800000 1 0x1 0x0, Field
    ''SPI_CTRL_TXBYTOR'' 24 0x1000000 1 0x0 0x0, Field ''SPI_CTRL_RXBITOR'' 25 0x2000000 1 0x1 0x0, Field
    ''SPI_CTRL_RXBYTOR'' 26 0x4000000 1 0x0 0x0, Field ''SPI_XACT_START'' 0 0x1 1 0x0 0x4, Field
    ''SPI_XACT_BCNT'' 1 0xe 3 0x7 0x4, Field ''SPI_XACT_SIZE'' 4 0x7f0 7 0x0 0x4, Field ''SPI_XACT_RDY_POLL'' 11
    0x800 1 0x0 0x4, Field ''SPI_XACT_RDY_POLL_DLY'' 12 0x1f000 5 0x0 0x4, Field ''SPI_ICTRL_TXDONE'' 0 0x1 1
    0x0 0x8, Field ''SPI_ISTATE_TXDONE'' 0 0x1 1 0x0 0xc, Field ''SPI_ISTATE_CLR_TXDONE'' 0 0x1 1 0x0 0x10,
    Field ''SPI_OVRD_SCKEN'' 0 0x1 1 0x0 0x14, Field ''SPI_OVRD_SCKVAL'' 1 0x2 1 0x0 0x14, Field
    ''SPI_OVRD_CSBEN'' 2 0x4 1 0x0 0x14, Field ''SPI_OVRD_CSBVAL'' 3 0x8 1 0x1 0x14, Field ''SPI_OVRD_MOSIEN'' 4
    0x10 1 0x0 0x14, Field ''SPI_OVRD_MOSIVAL'' 5 0x20 1 0x0 0x14, Field ''SPI_VAL_MISO'' 0 0x1 1 0x0 0x18,
    Field ''SPI_VAL_MOSI'' 1 0x2 1 0x0 0x18, Field ''SPI_VAL_CSB'' 2 0x4 1 0x0 0x18, Field ''SPI_VAL_SCK'' 3 0x8
    1 0x0 0x18, Field ''SPI_ITOP_TXDONE'' 0 0x1 1 0x0 0xf04]"

definition a1_regdefs_9780 :: "reg_field list" where
  "a1_regdefs_9780 = [
    Field ''SPS_CTRL_MODE'' 0 0x3 2 0x1 0x0, Field ''SPS_CTRL_CPHA'' 2 0x4 1 0x0 0x0, Field ''SPS_CTRL_CPOL'' 3
    0x8 1 0x0 0x0, Field ''SPS_CTRL_IDLE_LVL'' 4 0x10 1 0x0 0x0, Field ''SPS_CTRL_TXBITOR'' 5 0x20 1 0x0 0x0,
    Field ''SPS_CTRL_RXBITOR'' 6 0x40 1 0x0 0x0, Field ''SPS_CTRL_ROM_ADDR_SIZE'' 7 0x180 2 0x3 0x0, Field
    ''SPS_STATUS01_STATUS0L'' 0 0xff 8 0x0 0x8, Field ''SPS_STATUS01_STATUS0H'' 8 0xff00 8 0x0 0x8, Field
    ''SPS_STATUS01_STATUS1'' 16 0xffff0000 16 0x0 0x8, Field ''SPS_STATUS23_STATUS2'' 0 0xffff 16 0x0 0xc, Field
    ''SPS_STATUS23_STATUS3'' 16 0xffff0000 16 0x0 0xc, Field ''SPS_STATUS45_STATUS4'' 0 0xffff 16 0x0 0x10,
    Field ''SPS_STATUS45_STATUS5'' 16 0xffff0000 16 0x0 0x10, Field ''SPS_STATUS67_STATUS6'' 0 0xffff 16 0x0
    0x14, Field ''SPS_STATUS67_STATUS7'' 16 0xffff0000 16 0x0 0x14, Field ''SPS_CTRL01_CTRL0'' 0 0xffff 16 0x0
    0x18, Field ''SPS_CTRL01_CTRL1'' 16 0xffff0000 16 0x0 0x18, Field ''SPS_CTRL23_CTRL2'' 0 0xffff 16 0x0 0x1c,
    Field ''SPS_CTRL23_CTRL3'' 16 0xffff0000 16 0x0 0x1c, Field ''SPS_CTRL45_CTRL4'' 0 0xffff 16 0x0 0x20, Field
    ''SPS_CTRL45_CTRL5'' 16 0xffff0000 16 0x0 0x20, Field ''SPS_CTRL67_CTRL6'' 0 0xffff 16 0x0 0x24, Field
    ''SPS_CTRL67_CTRL7'' 16 0xffff0000 16 0x0 0x24, Field ''SPS_FIFO_CTRL_TXFIFO_RST'' 0 0x1 1 0x0 0x28, Field
    ''SPS_FIFO_CTRL_TXFIFO_EN'' 1 0x2 1 0x0 0x28, Field ''SPS_FIFO_CTRL_TXFIFO_AUTO_DIS'' 2 0x4 1 0x0 0x28,
    Field ''SPS_FIFO_CTRL_RXFIFO_RST'' 3 0x8 1 0x0 0x28, Field ''SPS_FIFO_CTRL_RXFIFO_EN'' 4 0x10 1 0x0 0x28,
    Field ''SPS_FIFO_CTRL_RXFIFO_AUTO_DIS'' 5 0x20 1 0x0 0x28]"

definition a1_regdefs_9930 :: "reg_field list" where
  "a1_regdefs_9930 = [
    Field ''SPS_ROM_REGION0_CTRL_READ_EN'' 0 0x1 1 0x0 0x4c, Field ''SPS_ROM_REGION0_CTRL_WRITE_EN'' 1 0x2 1 0x0
    0x4c, Field ''SPS_ROM_REGION0_CTRL_WRAP'' 2 0x4 1 0x0 0x4c, Field ''SPS_ROM_REGION1_CTRL_READ_EN'' 0 0x1 1
    0x0 0x60, Field ''SPS_ROM_REGION1_CTRL_WRITE_EN'' 1 0x2 1 0x0 0x60, Field ''SPS_ROM_REGION1_CTRL_WRAP'' 2
    0x4 1 0x0 0x60, Field ''SPS_ROM_REGION2_CTRL_READ_EN'' 0 0x1 1 0x0 0x74, Field
    ''SPS_ROM_REGION2_CTRL_WRITE_EN'' 1 0x2 1 0x0 0x74, Field ''SPS_ROM_REGION2_CTRL_WRAP'' 2 0x4 1 0x0 0x74,
    Field ''SPS_ROM_REGION3_CTRL_READ_EN'' 0 0x1 1 0x0 0x88, Field ''SPS_ROM_REGION3_CTRL_WRITE_EN'' 1 0x2 1 0x0
    0x88, Field ''SPS_ROM_REGION3_CTRL_WRAP'' 2 0x4 1 0x0 0x88, Field ''SPS_OVRD_MISOEN'' 0 0x1 1 0x0 0xb4,
    Field ''SPS_OVRD_MISOVAL'' 1 0x2 1 0x0 0xb4, Field ''SPS_VAL_MISO'' 0 0x1 1 0x0 0xb8, Field ''SPS_VAL_MOSI''
    1 0x2 1 0x0 0xb8, Field ''SPS_VAL_CSB'' 2 0x4 1 0x0 0xb8, Field ''SPS_VAL_SCK'' 3 0x8 1 0x0 0xb8]"

definition a1_regdefs_10020 :: "reg_field list" where
  "a1_regdefs_10020 = [
    Field ''SPS_ICTRL_CTLWR0'' 0 0x1 1 0x0 0xbc, Field ''SPS_ICTRL_CTLWR1'' 1 0x2 1 0x0 0xbc, Field
    ''SPS_ICTRL_CTLWR2'' 2 0x4 1 0x0 0xbc, Field ''SPS_ICTRL_CTLWR3'' 3 0x8 1 0x0 0xbc, Field
    ''SPS_ICTRL_CTLWR4'' 4 0x10 1 0x0 0xbc, Field ''SPS_ICTRL_CTLWR5'' 5 0x20 1 0x0 0xbc, Field
    ''SPS_ICTRL_CTLWR6'' 6 0x40 1 0x0 0xbc, Field ''SPS_ICTRL_CTLWR7'' 7 0x80 1 0x0 0xbc, Field
    ''SPS_ICTRL_CS_ASSERT'' 8 0x100 1 0x0 0xbc, Field ''SPS_ICTRL_CS_DEASSERT'' 9 0x200 1 0x0 0xbc, Field
    ''SPS_ICTRL_RXFIFO_OVERFLOW'' 10 0x400 1 0x0 0xbc, Field ''SPS_ICTRL_TXFIFO_EMPTY'' 11 0x800 1 0x0 0xbc,
    Field ''SPS_ICTRL_TXFIFO_FULL'' 12 0x1000 1 0x0 0xbc, Field ''SPS_ICTRL_TXFIFO_LVL'' 13 0x2000 1 0x0 0xbc,
    Field ''SPS_ICTRL_RXFIFO_LVL'' 14 0x4000 1 0x0 0xbc, Field ''SPS_ICTRL_ROM_CMD_START'' 15 0x8000 1 0x0 0xbc,
    Field ''SPS_ICTRL_ROM_CMD_END'' 16 0x10000 1 0x0 0xbc, Field ''SPS_ICTRL_REGION0_BUF_LVL'' 17 0x20000 1 0x0
    0xbc, Field ''SPS_ICTRL_REGION1_BUF_LVL'' 18 0x40000 1 0x0 0xbc, Field ''SPS_ICTRL_REGION2_BUF_LVL'' 19
    0x80000 1 0x0 0xbc, Field ''SPS_ICTRL_REGION3_BUF_LVL'' 20 0x100000 1 0x0 0xbc]"

definition a1_regdefs_10125 :: "reg_field list" where
  "a1_regdefs_10125 = [
    Field ''SPS_ISTATE_CTLWR0'' 0 0x1 1 0x0 0xc0, Field ''SPS_ISTATE_CTLWR1'' 1 0x2 1 0x0 0xc0, Field
    ''SPS_ISTATE_CTLWR2'' 2 0x4 1 0x0 0xc0, Field ''SPS_ISTATE_CTLWR3'' 3 0x8 1 0x0 0xc0, Field
    ''SPS_ISTATE_CTLWR4'' 4 0x10 1 0x0 0xc0, Field ''SPS_ISTATE_CTLWR5'' 5 0x20 1 0x0 0xc0, Field
    ''SPS_ISTATE_CTLWR6'' 6 0x40 1 0x0 0xc0, Field ''SPS_ISTATE_CTLWR7'' 7 0x80 1 0x0 0xc0, Field
    ''SPS_ISTATE_CS_ASSERT'' 8 0x100 1 0x0 0xc0, Field ''SPS_ISTATE_CS_DEASSERT'' 9 0x200 1 0x0 0xc0, Field
    ''SPS_ISTATE_RXFIFO_OVERFLOW'' 10 0x400 1 0x0 0xc0, Field ''SPS_ISTATE_TXFIFO_EMPTY'' 11 0x800 1 0x0 0xc0,
    Field ''SPS_ISTATE_TXFIFO_FULL'' 12 0x1000 1 0x0 0xc0, Field ''SPS_ISTATE_TXFIFO_LVL'' 13 0x2000 1 0x0 0xc0,
    Field ''SPS_ISTATE_RXFIFO_LVL'' 14 0x4000 1 0x0 0xc0, Field ''SPS_ISTATE_ROM_CMD_START'' 15 0x8000 1 0x0
    0xc0, Field ''SPS_ISTATE_ROM_CMD_END'' 16 0x10000 1 0x0 0xc0, Field ''SPS_ISTATE_REGION0_BUF_LVL'' 17
    0x20000 1 0x0 0xc0, Field ''SPS_ISTATE_REGION1_BUF_LVL'' 18 0x40000 1 0x0 0xc0, Field
    ''SPS_ISTATE_REGION2_BUF_LVL'' 19 0x80000 1 0x0 0xc0, Field ''SPS_ISTATE_REGION3_BUF_LVL'' 20 0x100000 1 0x0
    0xc0]"

definition a1_regdefs_10230 :: "reg_field list" where
  "a1_regdefs_10230 = [
    Field ''SPS_ISTATE_CLR_CTLWR0'' 0 0x1 1 0x0 0xc4, Field ''SPS_ISTATE_CLR_CTLWR1'' 1 0x2 1 0x0 0xc4, Field
    ''SPS_ISTATE_CLR_CTLWR2'' 2 0x4 1 0x0 0xc4, Field ''SPS_ISTATE_CLR_CTLWR3'' 3 0x8 1 0x0 0xc4, Field
    ''SPS_ISTATE_CLR_CTLWR4'' 4 0x10 1 0x0 0xc4, Field ''SPS_ISTATE_CLR_CTLWR5'' 5 0x20 1 0x0 0xc4, Field
    ''SPS_ISTATE_CLR_CTLWR6'' 6 0x40 1 0x0 0xc4, Field ''SPS_ISTATE_CLR_CTLWR7'' 7 0x80 1 0x0 0xc4, Field
    ''SPS_ISTATE_CLR_CS_ASSERT'' 8 0x100 1 0x0 0xc4, Field ''SPS_ISTATE_CLR_CS_DEASSERT'' 9 0x200 1 0x0 0xc4,
    Field ''SPS_ISTATE_CLR_RXFIFO_OVERFLOW'' 10 0x400 1 0x0 0xc4, Field ''SPS_ISTATE_CLR_ROM_CMD_START'' 11
    0x800 1 0x0 0xc4, Field ''SPS_ISTATE_CLR_ROM_CMD_END'' 12 0x1000 1 0x0 0xc4, Field
    ''SPS_ISTATE_CLR_REGION0_BUF_LVL'' 13 0x2000 1 0x0 0xc4, Field ''SPS_ISTATE_CLR_REGION1_BUF_LVL'' 14 0x4000
    1 0x0 0xc4, Field ''SPS_ISTATE_CLR_REGION2_BUF_LVL'' 15 0x8000 1 0x0 0xc4, Field
    ''SPS_ISTATE_CLR_REGION3_BUF_LVL'' 16 0x10000 1 0x0 0xc4]"

definition a1_regdefs_10315 :: "reg_field list" where
  "a1_regdefs_10315 = [
    Field ''SPS_ITOP_CTRLINT0'' 0 0x1 1 0x0 0xf04, Field ''SPS_ITOP_CTRLINT1'' 1 0x2 1 0x0 0xf04, Field
    ''SPS_ITOP_CTRLINT2'' 2 0x4 1 0x0 0xf04, Field ''SPS_ITOP_CTRLINT3'' 3 0x8 1 0x0 0xf04, Field
    ''SPS_ITOP_CTRLINT4'' 4 0x10 1 0x0 0xf04, Field ''SPS_ITOP_CTRLINT5'' 5 0x20 1 0x0 0xf04, Field
    ''SPS_ITOP_CTRLINT6'' 6 0x40 1 0x0 0xf04, Field ''SPS_ITOP_CTRLINT7'' 7 0x80 1 0x0 0xf04, Field
    ''SPS_ITOP_CS_ASSERT'' 8 0x100 1 0x0 0xf04, Field ''SPS_ITOP_CS_DEASSERT'' 9 0x200 1 0x0 0xf04, Field
    ''SPS_ITOP_RXFIFO_OVERFLOW'' 10 0x400 1 0x0 0xf04, Field ''SPS_ITOP_TXFIFO_EMPTY'' 11 0x800 1 0x0 0xf04,
    Field ''SPS_ITOP_TXFIFO_FULL'' 12 0x1000 1 0x0 0xf04, Field ''SPS_ITOP_TXFIFO_LVL'' 13 0x2000 1 0x0 0xf04,
    Field ''SPS_ITOP_RXFIFO_LVL'' 14 0x4000 1 0x0 0xf04, Field ''SPS_ITOP_ROM_CMD_START'' 15 0x8000 1 0x0 0xf04,
    Field ''SPS_ITOP_ROM_CMD_END'' 16 0x10000 1 0x0 0xf04, Field ''SPS_ITOP_REGION0_BUF_LVL'' 17 0x20000 1 0x0
    0xf04, Field ''SPS_ITOP_REGION1_BUF_LVL'' 18 0x40000 1 0x0 0xf04, Field ''SPS_ITOP_REGION2_BUF_LVL'' 19
    0x80000 1 0x0 0xf04, Field ''SPS_ITOP_REGION3_BUF_LVL'' 20 0x100000 1 0x0 0xf04]"

definition a1_regdefs_10420 :: "reg_field list" where
  "a1_regdefs_10420 = [
    Field ''TEMP_VERSION_CHANGE'' 0 0xffffff 24 0xc178 0x0, Field ''TEMP_VERSION_REVISION'' 24 0xff000000 8 0xd
    0x0, Field ''TEMP_ADC_INT_ENABLE_ADC_ICLKDV'' 0 0x1 1 0x0 0x4, Field ''TEMP_ADC_INT_ENABLE_MIN_TEMP'' 1 0x2
    1 0x0 0x4, Field ''TEMP_ADC_INT_ENABLE_MAX_TEMP'' 2 0x4 1 0x0 0x4, Field
    ''TEMP_ADC_INT_ENABLE_MAX_TEMP_DIFF'' 3 0x8 1 0x0 0x4, Field ''TEMP_ADC_INT_ENABLE_COMP_OVERFLOW'' 4 0x10 1
    0x0 0x4, Field ''TEMP_ADC_INT_STATE_ADC_ICLKDV'' 0 0x1 1 0x0 0x8, Field ''TEMP_ADC_INT_STATE_MIN_TEMP'' 1
    0x2 1 0x0 0x8, Field ''TEMP_ADC_INT_STATE_MAX_TEMP'' 2 0x4 1 0x0 0x8, Field
    ''TEMP_ADC_INT_STATE_MAX_TEMP_DIFF'' 3 0x8 1 0x0 0x8, Field ''TEMP_ADC_INT_STATE_COMP_OVERFLOW'' 4 0x10 1
    0x0 0x8, Field ''TEMP_ADC_INT_TEST_ADC_ICLKDV'' 0 0x1 1 0x0 0xc, Field ''TEMP_ADC_INT_TEST_MIN_TEMP'' 1 0x2
    1 0x0 0xc, Field ''TEMP_ADC_INT_TEST_MAX_TEMP'' 2 0x4 1 0x0 0xc, Field ''TEMP_ADC_INT_TEST_MAX_TEMP_DIFF'' 3
    0x8 1 0x0 0xc, Field ''TEMP_ADC_INT_TEST_COMP_OVERFLOW'' 4 0x10 1 0x0 0xc, Field
    ''TEMP_ADC_ANALOG_CTRL_REFERENCE'' 0 0x7 3 0x5 0x14, Field ''TEMP_ADC_ANALOG_CTRL_COMMON_MODE'' 4 0x70 3 0x3
    0x14, Field ''TEMP_ADC_FSM_CTRL_SYNC_IQ'' 0 0x1 1 0x0 0x18, Field ''TEMP_ADC_FSM_CTRL_ONESHOT_MODE'' 1 0x2 1
    0x0 0x18, Field ''TEMP_ADC_FSM_CTRL_SINGLE_MODE'' 2 0x4 1 0x1 0x18, Field ''TEMP_ADC_FSM_CTRL_SINGLE_SIDE''
    3 0x8 1 0x0 0x18, Field ''TEMP_ADC_FSM_CTRL_MUX_CTRL'' 4 0x70 3 0x6 0x18, Field
    ''TEMP_ADC_FSM_CTRL_SMPL_DUR_FINE'' 7 0x780 4 0x0 0x18, Field ''TEMP_ADC_FSM_CTRL_SMPL_DUR_COARSE'' 11
    0x7800 4 0x1 0x18, Field ''TEMP_ADC_FSM_CTRL_CHOP_REFBUF_AMP'' 15 0x8000 1 0x1 0x18, Field
    ''TEMP_ADC_FSM_CTRL_CHOP_CURRENT_MIRROR'' 16 0x10000 1 0x1 0x18, Field
    ''TEMP_ADC_FSM_CTRL_CHOP_FEEDBACK_AMP'' 17 0x20000 1 0x1 0x18]"

definition a1_regdefs_10586 :: "reg_field list" where
  "a1_regdefs_10586 = [
    Field ''TEMP_ADC_OPERATION_RESET_B'' 0 0x1 1 0x0 0x28, Field ''TEMP_ADC_OPERATION_ENABLE'' 1 0x2 1 0x0 0x28,
    Field ''TEMP_ADC_CONFIG_SAMPLE_SELECT'' 0 0x3 2 0x0 0x40, Field ''TEMP_ABS_LIMIT_MIN'' 0 0xfff 12 0x0 0x44,
    Field ''TEMP_ABS_LIMIT_MAX'' 12 0xfff000 12 0x0 0x44, Field ''TEMP_DIFF_PARAM_MAX'' 0 0xfff 12 0x0 0x48,
    Field ''TEMP_DIFF_PARAM_PERIOD'' 12 0xfffff000 20 0x0 0x48, Field ''TEMP_METRIC_DIFF'' 0 0xfff 12 0x0 0x4c,
    Field ''TEMP_METRIC_CTR'' 12 0xfffff000 20 0x0 0x4c]"

definition a1_regdefs_10635 :: "reg_field list" where
  "a1_regdefs_10635 = [
    Field ''TIMEHS_TIMER1CONTROL_ONESHOT'' 0 0x1 1 0x0 0x8, Field ''TIMEHS_TIMER1CONTROL_SIZE'' 1 0x2 1 0x0 0x8,
    Field ''TIMEHS_TIMER1CONTROL_PRE'' 2 0xc 2 0x0 0x8, Field ''TIMEHS_TIMER1CONTROL_RESERVED'' 4 0x10 1 0x0
    0x8, Field ''TIMEHS_TIMER1CONTROL_INTENABLE'' 5 0x20 1 0x1 0x8, Field ''TIMEHS_TIMER1CONTROL_MODE'' 6 0x40 1
    0x0 0x8, Field ''TIMEHS_TIMER1CONTROL_ENABLE'' 7 0x80 1 0x0 0x8, Field ''TIMEHS_TIMER2CONTROL_ONESHOT'' 0
    0x1 1 0x0 0x28, Field ''TIMEHS_TIMER2CONTROL_SIZE'' 1 0x2 1 0x0 0x28, Field ''TIMEHS_TIMER2CONTROL_PRE'' 2
    0xc 2 0x0 0x28, Field ''TIMEHS_TIMER2CONTROL_RESERVED'' 4 0x10 1 0x0 0x28, Field
    ''TIMEHS_TIMER2CONTROL_INTENABLE'' 5 0x20 1 0x1 0x28, Field ''TIMEHS_TIMER2CONTROL_MODE'' 6 0x40 1 0x0 0x28,
    Field ''TIMEHS_TIMER2CONTROL_ENABLE'' 7 0x80 1 0x0 0x28, Field ''TIMEHS_TIMERITOP_TIMINT1'' 0 0x1 1 0x0
    0xf04, Field ''TIMEHS_TIMERITOP_TIMINT2'' 1 0x2 1 0x0 0xf04]"

definition a1_regdefs_10715 :: "reg_field list" where
  "a1_regdefs_10715 = [
    Field ''TIMELS_TIMER0_CONTROL_ENABLE'' 0 0x1 1 0x0 0x0, Field ''TIMELS_TIMER0_CONTROL_RELOAD'' 1 0x2 1 0x0
    0x0, Field ''TIMELS_TIMER0_CONTROL_WRAP'' 2 0x4 1 0x0 0x0, Field ''TIMELS_TIMER0_CONTROL_TEST'' 3 0x8 1 0x0
    0x0, Field ''TIMELS_TIMER0_STATUS_SYNCING_LOAD'' 0 0x1 1 0x0 0x4, Field
    ''TIMELS_TIMER0_STATUS_WAITING_LOAD'' 1 0x2 1 0x0 0x4, Field ''TIMELS_TIMER0_STATUS_PENDING_LOAD'' 2 0x4 1
    0x0 0x4, Field ''TIMELS_TIMER0_STATUS_SYNCING_RELOAD'' 3 0x8 1 0x0 0x4, Field
    ''TIMELS_TIMER0_STATUS_WAITING_RELOAD'' 4 0x10 1 0x0 0x4, Field ''TIMELS_TIMER0_STATUS_PENDING_RELOAD'' 5
    0x20 1 0x0 0x4, Field ''TIMELS_TIMER0_STATUS_WRAPPED'' 6 0x40 1 0x0 0x4, Field ''TIMELS_TIMER0_SETHOLD_EN''
    0 0x1 1 0x0 0x28, Field ''TIMELS_TIMER0_CLRHOLD_EN'' 0 0x1 1 0x0 0x2c, Field
    ''TIMELS_TIMER1_CONTROL_ENABLE'' 0 0x1 1 0x0 0x40, Field ''TIMELS_TIMER1_CONTROL_RELOAD'' 1 0x2 1 0x0 0x40,
    Field ''TIMELS_TIMER1_CONTROL_WRAP'' 2 0x4 1 0x0 0x40, Field ''TIMELS_TIMER1_CONTROL_TEST'' 3 0x8 1 0x0
    0x40, Field ''TIMELS_TIMER1_STATUS_SYNCING_LOAD'' 0 0x1 1 0x0 0x44, Field
    ''TIMELS_TIMER1_STATUS_WAITING_LOAD'' 1 0x2 1 0x0 0x44, Field ''TIMELS_TIMER1_STATUS_PENDING_LOAD'' 2 0x4 1
    0x0 0x44, Field ''TIMELS_TIMER1_STATUS_SYNCING_RELOAD'' 3 0x8 1 0x0 0x44, Field
    ''TIMELS_TIMER1_STATUS_WAITING_RELOAD'' 4 0x10 1 0x0 0x44, Field ''TIMELS_TIMER1_STATUS_PENDING_RELOAD'' 5
    0x20 1 0x0 0x44, Field ''TIMELS_TIMER1_STATUS_WRAPPED'' 6 0x40 1 0x0 0x44, Field
    ''TIMELS_TIMER1_SETHOLD_EN'' 0 0x1 1 0x0 0x68, Field ''TIMELS_TIMER1_CLRHOLD_EN'' 0 0x1 1 0x0 0x6c, Field
    ''TIMELS_ITOP_TIMINT0'' 0 0x1 1 0x0 0xf04, Field ''TIMELS_ITOP_TIMINT1'' 1 0x2 1 0x0 0xf04]"

definition a1_regdefs_10855 :: "reg_field list" where
  "a1_regdefs_10855 = [
    Field ''TRNG_VERSION_CHANGE'' 0 0xffffff 24 0xc241 0x0, Field ''TRNG_VERSION_REVISION'' 24 0xff000000 8 0x7
    0x0, Field ''TRNG_INT_ENABLE_INTR_TIMEOUT'' 0 0x1 1 0x0 0x4, Field ''TRNG_INT_ENABLE_INTR_CALC_DONE'' 1 0x2
    1 0x0 0x4, Field ''TRNG_INT_ENABLE_INTR_BUFFER_FULL'' 2 0x4 1 0x0 0x4, Field
    ''TRNG_INT_ENABLE_INTR_ONE_SHOT_DONE'' 3 0x8 1 0x0 0x4, Field ''TRNG_INT_ENABLE_INTR_STAT_40_60'' 4 0x10 1
    0x0 0x4, Field ''TRNG_INT_ENABLE_INTR_STAT_30_70'' 5 0x20 1 0x0 0x4, Field ''TRNG_INT_STATE_INTR_TIMEOUT'' 0
    0x1 1 0x0 0x8, Field ''TRNG_INT_STATE_INTR_CALC_DONE'' 1 0x2 1 0x0 0x8, Field
    ''TRNG_INT_STATE_INTR_BUFFER_FULL'' 2 0x4 1 0x0 0x8, Field ''TRNG_INT_STATE_INTR_ONE_SHOT_DONE'' 3 0x8 1 0x0
    0x8, Field ''TRNG_INT_STATE_INTR_STAT_40_60'' 4 0x10 1 0x0 0x8, Field ''TRNG_INT_STATE_INTR_STAT_30_70'' 5
    0x20 1 0x0 0x8, Field ''TRNG_INT_TEST_INTR_TIMEOUT'' 0 0x1 1 0x0 0xc, Field ''TRNG_INT_TEST_INTR_CALC_DONE''
    1 0x2 1 0x0 0xc, Field ''TRNG_INT_TEST_INTR_BUFFER_FULL'' 2 0x4 1 0x0 0xc, Field
    ''TRNG_INT_TEST_INTR_ONE_SHOT_DONE'' 3 0x8 1 0x0 0xc, Field ''TRNG_INT_TEST_INTR_STAT_40_60'' 4 0x10 1 0x0
    0xc, Field ''TRNG_INT_TEST_INTR_STAT_30_70'' 5 0x20 1 0x0 0xc, Field ''TRNG_SLICE_MAX_LIMIT_LOWER'' 0 0xf 4
    0x0 0x28, Field ''TRNG_SLICE_MAX_LIMIT_UPPER'' 4 0xf0 4 0xf 0x28, Field ''TRNG_FSM_STATE_FSM_IDLE'' 0 0x1 1
    0x1 0x38, Field ''TRNG_FSM_STATE_FSM_WAIT'' 1 0x2 1 0x0 0x38, Field ''TRNG_FSM_STATE_FSM_TIMEOUT'' 2 0x4 1
    0x0 0x38, Field ''TRNG_FSM_STATE_FSM_CAPTURE'' 3 0x8 1 0x0 0x38, Field ''TRNG_FSM_STATE_FSM_STAT_CALC'' 4
    0x10 1 0x0 0x38, Field ''TRNG_FSM_STATE_FSM_FULL'' 5 0x20 1 0x0 0x38, Field ''TRNG_SLICE_RANGE_LOWER'' 0 0xf
    4 0x0 0x40, Field ''TRNG_SLICE_RANGE_UPPER'' 4 0xf0 4 0xf 0x40]"

definition a1_regdefs_11005 :: "reg_field list" where
  "a1_regdefs_11005 = [
    Field ''UART_CTRL_TX'' 0 0x1 1 0x0 0xc, Field ''UART_CTRL_RX'' 1 0x2 1 0x0 0xc, Field ''UART_CTRL_CTS'' 2
    0x4 1 0x0 0xc, Field ''UART_CTRL_RTS'' 3 0x8 1 0x0 0xc, Field ''UART_CTRL_SLPBK'' 4 0x10 1 0x0 0xc, Field
    ''UART_CTRL_LLPBK'' 5 0x20 1 0x0 0xc, Field ''UART_CTRL_RCOS'' 6 0x40 1 0x0 0xc, Field ''UART_CTRL_NF'' 7
    0x80 1 0x0 0xc, Field ''UART_ICTRL_TX'' 0 0x1 1 0x0 0x10, Field ''UART_ICTRL_RX'' 1 0x2 1 0x0 0x10, Field
    ''UART_ICTRL_TXO'' 2 0x4 1 0x0 0x10, Field ''UART_ICTRL_RXO'' 3 0x8 1 0x0 0x10, Field ''UART_ICTRL_RXF'' 4
    0x10 1 0x0 0x10, Field ''UART_ICTRL_RXB'' 5 0x20 1 0x0 0x10, Field ''UART_ICTRL_RXBLVL'' 6 0xc0 2 0x0 0x10,
    Field ''UART_ICTRL_RXTO'' 8 0x100 1 0x0 0x10, Field ''UART_STATE_TX'' 0 0x1 1 0x0 0x14, Field
    ''UART_STATE_RX'' 1 0x2 1 0x0 0x14, Field ''UART_STATE_TXO'' 2 0x4 1 0x0 0x14, Field ''UART_STATE_RXO'' 3
    0x8 1 0x0 0x14, Field ''UART_STATE_TXEMPTY'' 4 0x10 1 0x1 0x14, Field ''UART_STATE_TXIDLE'' 5 0x20 1 0x0
    0x14, Field ''UART_STATE_RXIDLE'' 6 0x40 1 0x0 0x14, Field ''UART_STATE_RXEMPTY'' 7 0x80 1 0x1 0x14, Field
    ''UART_STATECLR_RES0'' 0 0x1 1 0x0 0x18, Field ''UART_STATECLR_RES1'' 1 0x2 1 0x0 0x18, Field
    ''UART_STATECLR_TXO'' 2 0x4 1 0x0 0x18, Field ''UART_STATECLR_RXO'' 3 0x8 1 0x0 0x18]"

definition a1_regdefs_11145 :: "reg_field list" where
  "a1_regdefs_11145 = [
    Field ''UART_ISTATE_TX'' 0 0x1 1 0x0 0x1c, Field ''UART_ISTATE_RX'' 1 0x2 1 0x0 0x1c, Field
    ''UART_ISTATE_TXO'' 2 0x4 1 0x0 0x1c, Field ''UART_ISTATE_RXO'' 3 0x8 1 0x0 0x1c, Field ''UART_ISTATE_RXF''
    4 0x10 1 0x0 0x1c, Field ''UART_ISTATE_RXB'' 5 0x20 1 0x0 0x1c, Field ''UART_ISTATE_RXTO'' 6 0x40 1 0x0
    0x1c, Field ''UART_ISTATECLR_TX'' 0 0x1 1 0x0 0x20, Field ''UART_ISTATECLR_RX'' 1 0x2 1 0x0 0x20, Field
    ''UART_ISTATECLR_TXO'' 2 0x4 1 0x0 0x20, Field ''UART_ISTATECLR_RXO'' 3 0x8 1 0x0 0x20, Field
    ''UART_ISTATECLR_RXF'' 4 0x10 1 0x0 0x20, Field ''UART_ISTATECLR_RXB'' 5 0x20 1 0x0 0x20, Field
    ''UART_ISTATECLR_RXTO'' 6 0x40 1 0x0 0x20, Field ''UART_FIFO_RXRST'' 0 0x1 1 0x0 0x24, Field
    ''UART_FIFO_TXRST'' 1 0x2 1 0x0 0x24, Field ''UART_FIFO_RXILVL'' 2 0x1c 3 0x0 0x24, Field
    ''UART_FIFO_TXILVL'' 5 0x60 2 0x0 0x24, Field ''UART_RFIFO_TXLVL'' 0 0x3f 6 0x0 0x28, Field
    ''UART_RFIFO_RXLVL'' 6 0xfc0 6 0x0 0x28, Field ''UART_OVRD_TXEN'' 0 0x1 1 0x0 0x2c, Field
    ''UART_OVRD_TXVAL'' 1 0x2 1 0x0 0x2c, Field ''UART_OVRD_RTSEN'' 2 0x4 1 0x0 0x2c, Field ''UART_OVRD_RTSVAL''
    3 0x8 1 0x0 0x2c, Field ''UART_VAL_RX'' 0 0xffff 16 0x0 0x30, Field ''UART_VAL_CTS'' 16 0xffff0000 16 0x0
    0x30, Field ''UART_RXTO_EN'' 0 0x1 1 0x0 0x34, Field ''UART_RXTO_VAL'' 1 0x1fffffe 24 0x0 0x34]"

definition a1_regdefs_11285 :: "reg_field list" where
  "a1_regdefs_11285 = [
    Field ''UART_ITOP_TX'' 0 0x1 1 0x0 0xf04, Field ''UART_ITOP_RX'' 1 0x2 1 0x0 0xf04, Field ''UART_ITOP_TXO''
    2 0x4 1 0x0 0xf04, Field ''UART_ITOP_RXO'' 3 0x8 1 0x0 0xf04, Field ''UART_ITOP_RXF'' 4 0x10 1 0x0 0xf04,
    Field ''UART_ITOP_RXB'' 5 0x20 1 0x0 0xf04, Field ''UART_ITOP_RXTO'' 6 0x40 1 0x0 0xf04]"

definition a1_regdefs_18005 :: "reg_field list" where
  "a1_regdefs_18005 = [
    Field ''WATCHDOG_WDOGCONTROL_INTEN'' 0 0x1 1 0x0 0x8, Field ''WATCHDOG_WDOGCONTROL_RESEN'' 1 0x2 1 0x0 0x8,
    Field ''WATCHDOG_WDOGITOP_WDOGRES'' 0 0x1 1 0x0 0xf04, Field ''WATCHDOG_WDOGITOP_WDOGINT'' 1 0x2 1 0x0 0xf04]"

definition a1_regdefs_18025 :: "reg_field list" where
  "a1_regdefs_18025 = [
    Field ''XO_OSC_CLKOUT_ADC_EN'' 0 0x1 1 0x0 0x0, Field ''XO_OSC_CLKOUT_PLL_EN'' 1 0x2 1 0x0 0x0, Field
    ''XO_OSC_CLKOUT_BADC_EN'' 2 0x4 1 0x0 0x0, Field ''XO_OSC_CLKOUT_USB_EN'' 3 0x8 1 0x0 0x0, Field
    ''XO_OSC_ADC_CAL_FREQ2X_CNTL'' 0 0xf 4 0x6 0x4, Field ''XO_OSC_ADC_CAL_FREQ2X_EN'' 4 0x10 1 0x0 0x4, Field
    ''XO_OSC_ADC_CAL_FREQ2X_STAT_CNTL'' 0 0xf 4 0x6 0x8, Field ''XO_OSC_ADC_CAL_FREQ2X_STAT_EN'' 4 0x10 1 0x0
    0x8, Field ''XO_OSC_24_48B_SEL_ADC'' 0 0x1 1 0x0 0xc, Field ''XO_OSC_24_48B_SEL_PLL'' 1 0x2 1 0x0 0xc, Field
    ''XO_OSC_TEST_CLK48_ADC_EN'' 0 0x1 1 0x0 0x10, Field ''XO_OSC_TEST_CLK48_PLL_EN'' 1 0x2 1 0x0 0x10, Field
    ''XO_OSC_TEST_DIG_EN'' 2 0x4 1 0x0 0x10, Field ''XO_OSC_RC_TRIM'' 0 0xfffffff 28 0x4444444 0x28, Field
    ''XO_OSC_RC_EN'' 28 0x10000000 1 0x0 0x28, Field ''XO_OSC_RC_STATUS_TRIM'' 0 0xfffffff 28 0x4444444 0x2c,
    Field ''XO_OSC_RC_STATUS_EN'' 28 0x10000000 1 0x0 0x2c, Field ''XO_OSC_XTL_RC_FLTR_TRIM'' 0 0xf 4 0x5 0x3c,
    Field ''XO_OSC_XTL_RC_FLTR_BYPASS'' 4 0x10 1 0x1 0x3c, Field ''XO_OSC_XTL_OVRD_TRIM'' 0 0xf 4 0x7 0x40,
    Field ''XO_OSC_XTL_OVRD_ENB'' 4 0x10 1 0x1 0x40, Field ''XO_OSC_XTL_TRIM_CODE'' 0 0xf 4 0x0 0x48, Field
    ''XO_OSC_XTL_TRIM_EN'' 4 0x10 1 0x0 0x48, Field ''XO_OSC_XTL_TRIM_STAT_CODE'' 0 0xf 4 0x0 0x4c, Field
    ''XO_OSC_XTL_TRIM_STAT_EN'' 4 0x10 1 0x0 0x4c, Field ''XO_OSC_XTL_FSM_DONE'' 0 0x1 1 0x0 0x54, Field
    ''XO_OSC_XTL_FSM_TRIM'' 1 0x1e 4 0x0 0x54, Field ''XO_OSC_XTL_FSM_STATUS'' 5 0x20 1 0x0 0x54, Field
    ''XO_OSC_XTL_FSM_STATE'' 6 0x3c0 4 0x0 0x54, Field ''XO_OSC_XTL_FSM_LVL_DET_SYNC'' 10 0x400 1 0x0 0x54]"

definition a1_regdefs_18175 :: "reg_field list" where
  "a1_regdefs_18175 = [
    Field ''XO_OSC_XTL_FSM_CFG_TRIM_MAX'' 0 0xf 4 0x8 0x58, Field ''XO_OSC_XTL_FSM_CFG_LVL_DET_SNIFF'' 4 0x30 2
    0x0 0x58, Field ''XO_OSC_XTL_FSM_CFG_LVL_DET_SENSE'' 6 0xc0 2 0x2 0x58, Field
    ''XO_OSC_XTL_FSM_CFG_PWRUP_REG_MAX'' 8 0x700 3 0x4 0x58, Field ''XO_OSC_XTL_FSM_CFG_SNIFF_REG_MAX'' 11
    0xf800 5 0xe 0x58, Field ''XO_OSC_XTL_FSM_CFG_SENSE_REG_MAX'' 16 0x1f0000 5 0xd 0x58, Field
    ''XO_OSC_SETHOLD_RC_TRIM'' 0 0x1 1 0x0 0x5c, Field ''XO_OSC_SETHOLD_XTL'' 1 0x2 1 0x0 0x5c, Field
    ''XO_OSC_SETHOLD_ANA'' 2 0x4 1 0x0 0x5c, Field ''XO_OSC_CLRHOLD_RC_TRIM'' 0 0x1 1 0x0 0x60, Field
    ''XO_OSC_CLRHOLD_XTL'' 1 0x2 1 0x0 0x60, Field ''XO_OSC_CLRHOLD_ANA'' 2 0x4 1 0x0 0x60]"

definition a1_regdefs_18235 :: "reg_field list" where
  "a1_regdefs_18235 = [
    Field ''M3_ICTR_INTLINESNUM'' 0 0xf 4 0x4 0xe004, Field ''M3_SYST_CSR_ENABLE'' 0 0x1 1 0x0 0xe010, Field
    ''M3_SYST_CSR_TICKINT'' 1 0x2 1 0x0 0xe010, Field ''M3_SYST_CSR_CLKSOURCE'' 2 0x4 1 0x1 0xe010, Field
    ''M3_SYST_CSR_RESERVED'' 3 0xfff8 13 0x0 0xe010, Field ''M3_SYST_CSR_COUNTFLAG'' 16 0x10000 1 0x0 0xe010,
    Field ''M3_SYST_RVR_RELOAD'' 0 0xffffff 24 0x0 0xe014, Field ''M3_SYST_CVR_RELOAD'' 0 0xffffffff 32 0x0
    0xe018, Field ''M3_SYST_CALIB_TENMS'' 0 0xffffff 24 0x3f79f 0xe01c, Field ''M3_SYST_CALIB_RESERVED'' 24
    0x3f000000 6 0x0 0xe01c, Field ''M3_SYST_CALIB_SKEW'' 30 0x40000000 1 0x0 0xe01c, Field
    ''M3_SYST_CALIB_NOREF'' 31 0x80000000 1 0x0 0xe01c]"

section \<open>Tables\<close>

definition a1_registers_I2C :: "register list" where
  "a1_registers_I2C =
     a1_registers_1808"

definition a1_registers_I2CS :: "register list" where
  "a1_registers_I2CS =
     a1_registers_1876 @ a1_registers_1956"

definition a1_registers_RTC :: "register list" where
  "a1_registers_RTC =
     a1_registers_2602"

definition a1_registers_SPI :: "register list" where
  "a1_registers_SPI =
     a1_registers_2688"

definition a1_registers_SPS :: "register list" where
  "a1_registers_SPS =
     a1_registers_2709 @ a1_registers_2789"

definition a1_registers_SWDP :: "register list" where
  "a1_registers_SWDP =
     a1_registers_2817"

definition a1_registers_TEMP :: "register list" where
  "a1_registers_TEMP =
     a1_registers_2849"

definition a1_registers_TIMEHS :: "register list" where
  "a1_registers_TIMEHS =
     a1_registers_2891"

definition a1_registers_TIMELS :: "register list" where
  "a1_registers_TIMELS =
     a1_registers_2947"

definition a1_registers_TRNG :: "register list" where
  "a1_registers_TRNG =
     a1_registers_2999 @ a1_registers_3079 @ a1_registers_3159"

definition a1_registers_UART :: "register list" where
  "a1_registers_UART =
     a1_registers_3175"

definition a1_registers_WATCHDOG :: "register list" where
  "a1_registers_WATCHDOG =
     a1_registers_3666"

definition a1_registers_XO :: "register list" where
  "a1_registers_XO =
     a1_registers_3708"

definition a1_registers_M3 :: "register list" where
  "a1_registers_M3 =
     a1_registers_3759 @ a1_registers_3839 @ a1_registers_3919 @ a1_registers_3999 @ a1_registers_4079 @
     a1_registers_4159"

definition a1_fields_I2C :: "reg_field list" where
  "a1_fields_I2C =
     a1_regdefs_4802 @ a1_regdefs_4947 @ a1_regdefs_5002 @ a1_regdefs_5127 @ a1_regdefs_5207 @
     a1_regdefs_5292"

definition a1_fields_I2CS :: "reg_field list" where
  "a1_fields_I2CS =
     a1_regdefs_5412"

definition a1_fields_RTC :: "reg_field list" where
  "a1_fields_RTC =
     a1_regdefs_9545"

definition a1_fields_SPI :: "reg_field list" where
  "a1_fields_SPI =
     a1_regdefs_9635"

definition a1_fields_SPS :: "reg_field list" where
  "a1_fields_SPS =
     a1_regdefs_9780 @ a1_regdefs_9930 @ a1_regdefs_10020 @ a1_regdefs_10125 @ a1_regdefs_10230 @
     a1_regdefs_10315"

definition a1_fields_SWDP :: "reg_field list" where
  "a1_fields_SWDP =
     []"

definition a1_fields_TEMP :: "reg_field list" where
  "a1_fields_TEMP =
     a1_regdefs_10420 @ a1_regdefs_10586"

definition a1_fields_TIMEHS :: "reg_field list" where
  "a1_fields_TIMEHS =
     a1_regdefs_10635"

definition a1_fields_TIMELS :: "reg_field list" where
  "a1_fields_TIMELS =
     a1_regdefs_10715"

definition a1_fields_TRNG :: "reg_field list" where
  "a1_fields_TRNG =
     a1_regdefs_10855"

definition a1_fields_UART :: "reg_field list" where
  "a1_fields_UART =
     a1_regdefs_11005 @ a1_regdefs_11145 @ a1_regdefs_11285"

definition a1_fields_WATCHDOG :: "reg_field list" where
  "a1_fields_WATCHDOG =
     a1_regdefs_18005"

definition a1_fields_XO :: "reg_field list" where
  "a1_fields_XO =
     a1_regdefs_18025 @ a1_regdefs_18175"

definition a1_fields_M3 :: "reg_field list" where
  "a1_fields_M3 =
     a1_regdefs_18235"

text \<open>
  Every table of fields is well-formed and sorted, and the fields are those of the registers.
\<close>

lemma a1_scan_I2C_1:
  "list_all well_formed a1_regdefs_4802" "scan 0 (map extent a1_regdefs_4802) = Some 121"
  "list_all well_formed a1_regdefs_4947" "scan 121 (map extent a1_regdefs_4947) = Some 139"
  "list_all well_formed a1_regdefs_5002" "scan 139 (map extent a1_regdefs_5002) = Some 185"
  "list_all well_formed a1_regdefs_5127" "scan 185 (map extent a1_regdefs_5127) = Some 310"
  "list_all well_formed a1_regdefs_5207" "scan 310 (map extent a1_regdefs_5207) = Some 352"
  "list_all well_formed a1_regdefs_5292" "scan 352 (map extent a1_regdefs_5292) = Some 996"
  by (simp_all add:
    a1_regdefs_4802_def a1_regdefs_4947_def a1_regdefs_5002_def a1_regdefs_5127_def a1_regdefs_5207_def
    a1_regdefs_5292_def)

lemma a1_fields_I2C_scan: "list_all well_formed a1_fields_I2C" "scan 0 (map extent a1_fields_I2C) = Some 996"
  unfolding a1_fields_I2C_def
  by (simp_all only: map_append scan_append list_all_append option.case simp_thms
    a1_scan_I2C_1)

lemma a1_covered_I2C_1:
  "covered (map reset_key (a1_registers_1808)) (map field_key a1_regdefs_4802)"
  "covered (map reset_key (a1_registers_1808)) (map field_key a1_regdefs_4947)"
  "covered (map reset_key (a1_registers_1808)) (map field_key a1_regdefs_5002)"
  "covered (map reset_key (a1_registers_1808)) (map field_key a1_regdefs_5127)"
  "covered (map reset_key (a1_registers_1808)) (map field_key a1_regdefs_5207)"
  "covered (map reset_key (a1_registers_1808)) (map field_key a1_regdefs_5292)"
  by (simp_all add:
    a1_registers_1808_def a1_regdefs_4802_def a1_regdefs_4947_def a1_regdefs_5002_def
    a1_regdefs_5127_def a1_regdefs_5207_def a1_regdefs_5292_def)

lemma a1_registers_I2C_parts:
  "set a1_registers_1808 \<subseteq> set a1_registers_I2C"
  by (auto simp: a1_registers_I2C_def)

lemma a1_fields_I2C_registers: "list_all (has_register a1_registers_I2C) a1_fields_I2C"
  unfolding a1_fields_I2C_def
  by (simp only: list_all_append set_append Un_subset_iff simp_thms a1_registers_I2C_parts
    a1_covered_I2C_1 [THEN covered_has])

lemma a1_scan_I2CS_1:
  "list_all well_formed a1_regdefs_5412" "scan 0 (map extent a1_regdefs_5412) = Some 292"
  by (simp_all add:
    a1_regdefs_5412_def)

lemma a1_fields_I2CS_scan: "list_all well_formed a1_fields_I2CS" "scan 0 (map extent a1_fields_I2CS) = Some 292"
  unfolding a1_fields_I2CS_def
  by (simp_all only: map_append scan_append list_all_append option.case simp_thms
    a1_scan_I2CS_1)

lemma a1_covered_I2CS_1:
  "covered (map reset_key (a1_registers_1876)) (map field_key a1_regdefs_5412)"
  by (simp_all add:
    a1_registers_1876_def a1_regdefs_5412_def)

lemma a1_registers_I2CS_parts:
  "set a1_registers_1876 \<subseteq> set a1_registers_I2CS"
  "set a1_registers_1956 \<subseteq> set a1_registers_I2CS"
  by (auto simp: a1_registers_I2CS_def)

lemma a1_fields_I2CS_registers: "list_all (has_register a1_registers_I2CS) a1_fields_I2CS"
  unfolding a1_fields_I2CS_def
  by (simp only: list_all_append set_append Un_subset_iff simp_thms a1_registers_I2CS_parts
    a1_covered_I2CS_1 [THEN covered_has])

lemma a1_scan_RTC_1:
  "list_all well_formed a1_regdefs_9545" "scan 0 (map extent a1_regdefs_9545) = Some 97"
  by (simp_all add:
    a1_regdefs_9545_def)

lemma a1_fields_RTC_scan: "list_all well_formed a1_fields_RTC" "scan 0 (map extent a1_fields_RTC) = Some 97"
  unfolding a1_fields_RTC_def
  by (simp_all only: map_append scan_append list_all_append option.case simp_thms
    a1_scan_RTC_1)

lemma a1_covered_RTC_1:
  "covered (map reset_key (a1_registers_2602)) (map field_key a1_regdefs_9545)"
  by (simp_all add:
    a1_registers_2602_def a1_regdefs_9545_def)

lemma a1_registers_RTC_parts:
  "set a1_registers_2602 \<subseteq> set a1_registers_RTC"
  by (auto simp: a1_registers_RTC_def)

lemma a1_fields_RTC_registers: "list_all (has_register a1_registers_RTC) a1_fields_RTC"
  unfolding a1_fields_RTC_def
  by (simp only: list_all_append set_append Un_subset_iff simp_thms a1_registers_RTC_parts
    a1_covered_RTC_1 [THEN covered_has])

lemma a1_scan_SPI_1:
  "list_all well_formed a1_regdefs_9635" "scan 0 (map extent a1_regdefs_9635) = Some 30753"
  by (simp_all add:
    a1_regdefs_9635_def)

lemma a1_fields_SPI_scan: "list_all well_formed a1_fields_SPI" "scan 0 (map extent a1_fields_SPI) = Some 30753"
  unfolding a1_fields_SPI_def
  by (simp_all only: map_append scan_append list_all_append option.case simp_thms
    a1_scan_SPI_1)

lemma a1_covered_SPI_1:
  "covered (map reset_key (a1_registers_2688)) (map field_key a1_regdefs_9635)"
  by (simp_all add:
    a1_registers_2688_def a1_regdefs_9635_def)

lemma a1_registers_SPI_parts:
  "set a1_registers_2688 \<subseteq> set a1_registers_SPI"
  by (auto simp: a1_registers_SPI_def)

lemma a1_fields_SPI_registers: "list_all (has_register a1_registers_SPI) a1_fields_SPI"
  unfolding a1_fields_SPI_def
  by (simp only: list_all_append set_append Un_subset_iff simp_thms a1_registers_SPI_parts
    a1_covered_SPI_1 [THEN covered_has])

lemma a1_scan_SPS_1:
  "list_all well_formed a1_regdefs_9780" "scan 0 (map extent a1_regdefs_9780) = Some 326"
  "list_all well_formed a1_regdefs_9930" "scan 326 (map extent a1_regdefs_9930) = Some 1476"
  "list_all well_formed a1_regdefs_10020" "scan 1476 (map extent a1_regdefs_10020) = Some 1525"
  "list_all well_formed a1_regdefs_10125" "scan 1525 (map extent a1_regdefs_10125) = Some 1557"
  "list_all well_formed a1_regdefs_10230" "scan 1557 (map extent a1_regdefs_10230) = Some 1585"
  "list_all well_formed a1_regdefs_10315" "scan 1585 (map extent a1_regdefs_10315) = Some 30773"
  by (simp_all add:
    a1_regdefs_9780_def a1_regdefs_9930_def a1_regdefs_10020_def a1_regdefs_10125_def
    a1_regdefs_10230_def a1_regdefs_10315_def)

lemma a1_fields_SPS_scan: "list_all well_formed a1_fields_SPS" "scan 0 (map extent a1_fields_SPS) = Some 30773"
  unfolding a1_fields_SPS_def
  by (simp_all only: map_append scan_append list_all_append option.case simp_thms
    a1_scan_SPS_1)

lemma a1_covered_SPS_1:
  "covered (map reset_key (a1_registers_2709)) (map field_key a1_regdefs_9780)"
  "covered (map reset_key (a1_registers_2709 @ a1_registers_2789)) (map field_key a1_regdefs_9930)"
  "covered (map reset_key (a1_registers_2789)) (map field_key a1_regdefs_10020)"
  "covered (map reset_key (a1_registers_2789)) (map field_key a1_regdefs_10125)"
  "covered (map reset_key (a1_registers_2789)) (map field_key a1_regdefs_10230)"
  "covered (map reset_key (a1_registers_2789)) (map field_key a1_regdefs_10315)"
  by (simp_all add:
    a1_registers_2709_def a1_registers_2789_def a1_regdefs_9780_def a1_regdefs_9930_def
    a1_regdefs_10020_def a1_regdefs_10125_def a1_regdefs_10230_def a1_regdefs_10315_def)

lemma a1_registers_SPS_parts:
  "set a1_registers_2709 \<subseteq> set a1_registers_SPS"
  "set a1_registers_2789 \<subseteq> set a1_registers_SPS"
  by (auto simp: a1_registers_SPS_def)

lemma a1_fields_SPS_registers: "list_all (has_register a1_registers_SPS) a1_fields_SPS"
  unfolding a1_fields_SPS_def
  by (simp only: list_all_append set_append Un_subset_iff simp_thms a1_registers_SPS_parts
    a1_covered_SPS_1 [THEN covered_has])

lemma a1_fields_SWDP_scan: "list_all well_formed a1_fields_SWDP" "scan 0 (map extent a1_fields_SWDP) = Some 0"
  by (simp_all add: a1_fields_SWDP_def)

lemma a1_fields_SWDP_registers: "list_all (has_register a1_registers_SWDP) a1_fields_SWDP"
  by (simp add: a1_fields_SWDP_def)

lemma a1_scan_TEMP_1:
  "list_all well_formed a1_regdefs_10420" "scan 0 (map extent a1_regdefs_10420) = Some 210"
  "list_all well_formed a1_regdefs_10586" "scan 210 (map extent a1_regdefs_10586) = Some 640"
  by (simp_all add:
    a1_regdefs_10420_def a1_regdefs_10586_def)

lemma a1_fields_TEMP_scan: "list_all well_formed a1_fields_TEMP" "scan 0 (map extent a1_fields_TEMP) = Some 640"
  unfolding a1_fields_TEMP_def
  by (simp_all only: map_append scan_append list_all_append option.case simp_thms
    a1_scan_TEMP_1)

lemma a1_covered_TEMP_1:
  "covered (map reset_key (a1_registers_2849)) (map field_key a1_regdefs_10420)"
  "covered (map reset_key (a1_registers_2849)) (map field_key a1_regdefs_10586)"
  by (simp_all add:
    a1_registers_2849_def a1_regdefs_10420_def a1_regdefs_10586_def)

lemma a1_registers_TEMP_parts:
  "set a1_registers_2849 \<subseteq> set a1_registers_TEMP"
  by (auto simp: a1_registers_TEMP_def)

lemma a1_fields_TEMP_registers: "list_all (has_register a1_registers_TEMP) a1_fields_TEMP"
  unfolding a1_fields_TEMP_def
  by (simp only: list_all_append set_append Un_subset_iff simp_thms a1_registers_TEMP_parts
    a1_covered_TEMP_1 [THEN covered_has])

lemma a1_scan_TIMEHS_1:
  "list_all well_formed a1_regdefs_10635" "scan 0 (map extent a1_regdefs_10635) = Some 30754"
  by (simp_all add:
    a1_regdefs_10635_def)

lemma a1_fields_TIMEHS_scan: "list_all well_formed a1_fields_TIMEHS" "scan 0 (map extent a1_fields_TIMEHS) = Some 30754"
  unfolding a1_fields_TIMEHS_def
  by (simp_all only: map_append scan_append list_all_append option.case simp_thms
    a1_scan_TIMEHS_1)

lemma a1_covered_TIMEHS_1:
  "covered (map reset_key (a1_registers_2891)) (map field_key a1_regdefs_10635)"
  by (simp_all add:
    a1_registers_2891_def a1_regdefs_10635_def)

lemma a1_registers_TIMEHS_parts:
  "set a1_registers_2891 \<subseteq> set a1_registers_TIMEHS"
  by (auto simp: a1_registers_TIMEHS_def)

lemma a1_fields_TIMEHS_registers: "list_all (has_register a1_registers_TIMEHS) a1_fields_TIMEHS"
  unfolding a1_fields_TIMEHS_def
  by (simp only: list_all_append set_append Un_subset_iff simp_thms a1_registers_TIMEHS_parts
    a1_covered_TIMEHS_1 [THEN covered_has])

lemma a1_scan_TIMELS_1:
  "list_all well_formed a1_regdefs_10715" "scan 0 (map extent a1_regdefs_10715) = Some 30754"
  by (simp_all add:
    a1_regdefs_10715_def)

lemma a1_fields_TIMELS_scan: "list_all well_formed a1_fields_TIMELS" "scan 0 (map extent a1_fields_TIMELS) = Some 30754"
  unfolding a1_fields_TIMELS_def
  by (simp_all only: map_append scan_append list_all_append option.case simp_thms
    a1_scan_TIMELS_1)

lemma a1_covered_TIMELS_1:
  "covered (map reset_key (a1_registers_2947)) (map field_key a1_regdefs_10715)"
  by (simp_all add:
    a1_registers_2947_def a1_regdefs_10715_def)

lemma a1_registers_TIMELS_parts:
  "set a1_registers_2947 \<subseteq> set a1_registers_TIMELS"
  by (auto simp: a1_registers_TIMELS_def)

lemma a1_fields_TIMELS_registers: "list_all (has_register a1_registers_TIMELS) a1_fields_TIMELS"
  unfolding a1_fields_TIMELS_def
  by (simp only: list_all_append set_append Un_subset_iff simp_thms a1_registers_TIMELS_parts
    a1_covered_TIMELS_1 [THEN covered_has])

lemma a1_scan_TRNG_1:
  "list_all well_formed a1_regdefs_10855" "scan 0 (map extent a1_regdefs_10855) = Some 520"
  by (simp_all add:
    a1_regdefs_10855_def)

lemma a1_fields_TRNG_scan: "list_all well_formed a1_fields_TRNG" "scan 0 (map extent a1_fields_TRNG) = Some 520"
  unfolding a1_fields_TRNG_def
  by (simp_all only: map_append scan_append list_all_append option.case simp_thms
    a1_scan_TRNG_1)

lemma a1_covered_TRNG_1:
  "covered (map reset_key (a1_registers_2999)) (map field_key a1_regdefs_10855)"
  by (simp_all add:
    a1_registers_2999_def a1_regdefs_10855_def)

lemma a1_registers_TRNG_parts:
  "set a1_registers_2999 \<subseteq> set a1_registers_TRNG"
  "set a1_registers_3079 \<subseteq> set a1_registers_TRNG"
  "set a1_registers_3159 \<subseteq> set a1_registers_TRNG"
  by (auto simp: a1_registers_TRNG_def)

lemma a1_fields_TRNG_registers: "list_all (has_register a1_registers_TRNG) a1_fields_TRNG"
  unfolding a1_fields_TRNG_def
  by (simp only: list_all_append set_append Un_subset_iff simp_thms a1_registers_TRNG_parts
    a1_covered_TRNG_1 [THEN covered_has])

lemma a1_scan_UART_1:
  "list_all well_formed a1_regdefs_11005" "scan 0 (map extent a1_regdefs_11005) = Some 196"
  "list_all well_formed a1_regdefs_11145" "scan 196 (map extent a1_regdefs_11145) = Some 441"
  "list_all well_formed a1_regdefs_11285" "scan 441 (map extent a1_regdefs_11285) = Some 30759"
  by (simp_all add:
    a1_regdefs_11005_def a1_regdefs_11145_def a1_regdefs_11285_def)

lemma a1_fields_UART_scan: "list_all well_formed a1_fields_UART" "scan 0 (map extent a1_fields_UART) = Some 30759"
  unfolding a1_fields_UART_def
  by (simp_all only: map_append scan_append list_all_append option.case simp_thms
    a1_scan_UART_1)

lemma a1_covered_UART_1:
  "covered (map reset_key (a1_registers_3175)) (map field_key a1_regdefs_11005)"
  "covered (map reset_key (a1_registers_3175)) (map field_key a1_regdefs_11145)"
  "covered (map reset_key (a1_registers_3175)) (map field_key a1_regdefs_11285)"
  by (simp_all add:
    a1_registers_3175_def a1_regdefs_11005_def a1_regdefs_11145_def a1_regdefs_11285_def)

lemma a1_registers_UART_parts:
  "set a1_registers_3175 \<subseteq> set a1_registers_UART"
  by (auto simp: a1_registers_UART_def)

lemma a1_fields_UART_registers: "list_all (has_register a1_registers_UART) a1_fields_UART"
  unfolding a1_fields_UART_def
  by (simp only: list_all_append set_append Un_subset_iff simp_thms a1_registers_UART_parts
    a1_covered_UART_1 [THEN covered_has])

lemma a1_scan_WATCHDOG_1:
  "list_all well_formed a1_regdefs_18005" "scan 0 (map extent a1_regdefs_18005) = Some 30754"
  by (simp_all add:
    a1_regdefs_18005_def)

lemma a1_fields_WATCHDOG_scan: "list_all well_formed a1_fields_WATCHDOG" "scan 0 (map extent a1_fields_WATCHDOG) = Some 30754"
  unfolding a1_fields_WATCHDOG_def
  by (simp_all only: map_append scan_append list_all_append option.case simp_thms
    a1_scan_WATCHDOG_1)

lemma a1_covered_WATCHDOG_1:
  "covered (map reset_key (a1_registers_3666)) (map field_key a1_regdefs_18005)"
  by (simp_all add:
    a1_registers_3666_def a1_regdefs_18005_def)

lemma a1_registers_WATCHDOG_parts:
  "set a1_registers_3666 \<subseteq> set a1_registers_WATCHDOG"
  by (auto simp: a1_registers_WATCHDOG_def)

lemma a1_fields_WATCHDOG_registers: "list_all (has_register a1_registers_WATCHDOG) a1_fields_WATCHDOG"
  unfolding a1_fields_WATCHDOG_def
  by (simp only: list_all_append set_append Un_subset_iff simp_thms a1_registers_WATCHDOG_parts
    a1_covered_WATCHDOG_1 [THEN covered_has])

lemma a1_scan_XO_1:
  "list_all well_formed a1_regdefs_18025" "scan 0 (map extent a1_regdefs_18025) = Some 683"
  "list_all well_formed a1_regdefs_18175" "scan 683 (map extent a1_regdefs_18175) = Some 771"
  by (simp_all add:
    a1_regdefs_18025_def a1_regdefs_18175_def)

lemma a1_fields_XO_scan: "list_all well_formed a1_fields_XO" "scan 0 (map extent a1_fields_XO) = Some 771"
  unfolding a1_fields_XO_def
  by (simp_all only: map_append scan_append list_all_append option.case simp_thms
    a1_scan_XO_1)

lemma a1_covered_XO_1:
  "covered (map reset_key (a1_registers_3708)) (map field_key a1_regdefs_18025)"
  "covered (map reset_key (a1_registers_3708)) (map field_key a1_regdefs_18175)"
  by (simp_all add:
    a1_registers_3708_def a1_regdefs_18025_def a1_regdefs_18175_def)

lemma a1_registers_XO_parts:
  "set a1_registers_3708 \<subseteq> set a1_registers_XO"
  by (auto simp: a1_registers_XO_def)

lemma a1_fields_XO_registers: "list_all (has_register a1_registers_XO) a1_fields_XO"
  unfolding a1_fields_XO_def
  by (simp only: list_all_append set_append Un_subset_iff simp_thms a1_registers_XO_parts
    a1_covered_XO_1 [THEN covered_has])

lemma a1_scan_M3_1:
  "list_all well_formed a1_regdefs_18235" "scan 0 (map extent a1_regdefs_18235) = Some 459008"
  by (simp_all add:
    a1_regdefs_18235_def)

lemma a1_fields_M3_scan: "list_all well_formed a1_fields_M3" "scan 0 (map extent a1_fields_M3) = Some 459008"
  unfolding a1_fields_M3_def
  by (simp_all only: map_append scan_append list_all_append option.case simp_thms
    a1_scan_M3_1)

lemma a1_covered_M3_1:
  "covered (map reset_key (a1_registers_3839)) (map field_key a1_regdefs_18235)"
  by (simp_all add:
    a1_registers_3839_def a1_regdefs_18235_def)

lemma a1_registers_M3_parts:
  "set a1_registers_3759 \<subseteq> set a1_registers_M3"
  "set a1_registers_3839 \<subseteq> set a1_registers_M3"
  "set a1_registers_3919 \<subseteq> set a1_registers_M3"
  "set a1_registers_3999 \<subseteq> set a1_registers_M3"
  "set a1_registers_4079 \<subseteq> set a1_registers_M3"
  "set a1_registers_4159 \<subseteq> set a1_registers_M3"
  by (auto simp: a1_registers_M3_def)

lemma a1_fields_M3_registers: "list_all (has_register a1_registers_M3) a1_fields_M3"
  unfolding a1_fields_M3_def
  by (simp only: list_all_append set_append Un_subset_iff simp_thms a1_registers_M3_parts
    a1_covered_M3_1 [THEN covered_has])

end
