(* ===== verification/RegisterOrderA1.thy ===== *)
theory RegisterOrderA1
  imports RegisterWindows RegdefsA1Power RegdefsA1Usb RegdefsA1Timer
begin

text \<open>
  The register tables of the first revision (chip/c/hw_a1_regdefs.h) are in ascending order, each
  register behind the word of the one before it (the three registers that share the address of
  another left out), and the last offset of each table.
\<close>

lemma a1_slots_AES_1:
  "scan 0 (map slot a1_registers_431) = Some 104"
  by (simp_all add:
    a1_registers_431_def)

lemma a1_registers_AES_order: "scan 0 (map slot a1_registers_AES) = Some 104"
  unfolding a1_registers_AES_def
  by (simp only: map_append filter_append scan_append option.case
    a1_slots_AES_1)

lemma a1_registers_AES_reach: "reach a1_registers_AES = 100"
  using reach_scan [OF a1_registers_AES_order] by simp

lemma a1_slots_CAMO_1:
  "scan 0 (map slot a1_registers_483) = Some 44"
  by (simp_all add:
    a1_registers_483_def)

lemma a1_registers_CAMO_order: "scan 0 (map slot a1_registers_CAMO) = Some 44"
  unfolding a1_registers_CAMO_def
  by (simp only: map_append filter_append scan_append option.case
    a1_slots_CAMO_1)

lemma a1_registers_CAMO_reach: "reach a1_registers_CAMO = 40"
  using reach_scan [OF a1_registers_CAMO_order] by simp

lemma a1_slots_FLASH_1:
  "scan 0 (map slot a1_registers_505) = Some 160"
  "scan 160 (map slot a1_registers_595) = Some 320"
  "scan 320 (map slot a1_registers_676) = Some 3848"
  by (simp_all add:
    a1_registers_505_def a1_registers_595_def a1_registers_676_def)

lemma a1_registers_FLASH_order: "scan 0 (map slot a1_registers_FLASH) = Some 3848"
  unfolding a1_registers_FLASH_def
  by (simp only: map_append filter_append scan_append option.case
    a1_slots_FLASH_1)

lemma a1_registers_FLASH_reach: "reach a1_registers_FLASH = 3844"
  using reach_scan [OF a1_registers_FLASH_order] by simp

lemma a1_slots_GLOBALSEC_1:
  "scan 0 (map slot a1_registers_704) = Some 45748"
  by (simp_all add:
    a1_registers_704_def)

lemma a1_registers_GLOBALSEC_order: "scan 0 (map slot a1_registers_GLOBALSEC) = Some 45748"
  unfolding a1_registers_GLOBALSEC_def
  by (simp only: map_append filter_append scan_append option.case
    a1_slots_GLOBALSEC_1)

lemma a1_registers_GLOBALSEC_reach: "reach a1_registers_GLOBALSEC = 45744"
  using reach_scan [OF a1_registers_GLOBALSEC_order] by simp

lemma a1_slots_GPIO_1:
  "scan 0 (map slot a1_registers_734) = Some 1132"
  "scan 1132 (map slot a1_registers_814) = Some 1292"
  "scan 1292 (map slot a1_registers_894) = Some 1452"
  "scan 1452 (map slot a1_registers_974) = Some 1612"
  "scan 1612 (map slot a1_registers_1054) = Some 1772"
  "scan 1772 (map slot a1_registers_1134) = Some 1932"
  "scan 1932 (map slot a1_registers_1214) = Some 2092"
  by (simp_all add:
    a1_registers_734_def a1_registers_814_def a1_registers_894_def a1_registers_974_def
    a1_registers_1054_def a1_registers_1134_def a1_registers_1214_def)

lemma a1_slots_GPIO_2:
  "scan 2092 (map slot a1_registers_1294) = Some 2252"
  "scan 2252 (map slot a1_registers_1374) = Some 2412"
  "scan 2412 (map slot a1_registers_1454) = Some 2572"
  "scan 2572 (map slot a1_registers_1534) = Some 2732"
  "scan 2732 (map slot a1_registers_1614) = Some 2892"
  "scan 2892 (map slot a1_registers_1694) = Some 3052"
  "scan 3052 (map slot a1_registers_1774) = Some 4096"
  by (simp_all add:
    a1_registers_1294_def a1_registers_1374_def a1_registers_1454_def a1_registers_1534_def
    a1_registers_1614_def a1_registers_1694_def a1_registers_1774_def)

lemma a1_registers_GPIO_order: "scan 0 (map slot a1_registers_GPIO) = Some 4096"
  unfolding a1_registers_GPIO_def
  by (simp only: map_append filter_append scan_append option.case
    a1_slots_GPIO_1 a1_slots_GPIO_2)

lemma a1_registers_GPIO_reach: "reach a1_registers_GPIO = 4092"
  using reach_scan [OF a1_registers_GPIO_order] by simp

lemma a1_slots_I2C_1:
  "scan 0 (map slot a1_registers_1808) = Some 3848"
  by (simp_all add:
    a1_registers_1808_def)

lemma a1_registers_I2C_order: "scan 0 (map slot a1_registers_I2C) = Some 3848"
  unfolding a1_registers_I2C_def
  by (simp only: map_append filter_append scan_append option.case
    a1_slots_I2C_1)

lemma a1_registers_I2C_reach: "reach a1_registers_I2C = 3844"
  using reach_scan [OF a1_registers_I2C_order] by simp

lemma a1_slots_I2CS_1:
  "scan 0 (map slot a1_registers_1876) = Some 160"
  "scan 160 (map slot a1_registers_1956) = Some 168"
  by (simp_all add:
    a1_registers_1876_def a1_registers_1956_def)

lemma a1_registers_I2CS_order: "scan 0 (map slot a1_registers_I2CS) = Some 168"
  unfolding a1_registers_I2CS_def
  by (simp only: map_append filter_append scan_append option.case
    a1_slots_I2CS_1)

lemma a1_registers_I2CS_reach: "reach a1_registers_I2CS = 164"
  using reach_scan [OF a1_registers_I2CS_order] by simp

lemma a1_slots_MAU_1:
  "scan 0 (map slot a1_registers_1960) = Some 20"
  by (simp_all add:
    a1_registers_1960_def)

lemma a1_registers_MAU_order: "scan 0 (map slot a1_registers_MAU) = Some 20"
  unfolding a1_registers_MAU_def
  by (simp only: map_append filter_append scan_append option.case
    a1_slots_MAU_1)

lemma a1_registers_MAU_reach: "reach a1_registers_MAU = 16"
  using reach_scan [OF a1_registers_MAU_order] by simp

lemma a1_slots_PAU_1:
  "scan 0 (map slot a1_registers_1970) = Some 16"
  by (simp_all add:
    a1_registers_1970_def)

lemma a1_registers_PAU_order: "scan 0 (map slot a1_registers_PAU) = Some 16"
  unfolding a1_registers_PAU_def
  by (simp only: map_append filter_append scan_append option.case
    a1_slots_PAU_1)

lemma a1_registers_PAU_reach: "reach a1_registers_PAU = 12"
  using reach_scan [OF a1_registers_PAU_order] by simp

lemma a1_slots_PINMUX_1:
  "scan 0 (map slot a1_registers_1978) = Some 160"
  "scan 160 (map slot a1_registers_2058) = Some 320"
  "scan 320 (map slot a1_registers_2138) = Some 480"
  "scan 480 (map slot a1_registers_2218) = Some 640"
  "scan 640 (map slot a1_registers_2298) = Some 760"
  by (simp_all add:
    a1_registers_1978_def a1_registers_2058_def a1_registers_2138_def a1_registers_2218_def
    a1_registers_2298_def)

lemma a1_registers_PINMUX_order: "scan 0 (map slot a1_registers_PINMUX) = Some 760"
  unfolding a1_registers_PINMUX_def
  by (simp only: map_append filter_append scan_append option.case
    a1_slots_PINMUX_1)

lemma a1_registers_PINMUX_reach: "reach a1_registers_PINMUX = 756"
  using reach_scan [OF a1_registers_PINMUX_order] by simp

lemma a1_slots_PMU_1:
  "scan 0 (map slot a1_registers_2358) = Some 160"
  "scan 160 (map slot a1_registers_2440) = Some 320"
  "scan 320 (map slot a1_registers_2527) = Some 131072"
  by (simp_all add:
    a1_registers_2358_def a1_registers_2440_def a1_registers_2527_def)

lemma a1_registers_PMU_order: "scan 0 (map slot a1_registers_PMU) = Some 131072"
  unfolding a1_registers_PMU_def
  by (simp only: map_append filter_append scan_append option.case
    a1_slots_PMU_1)

lemma a1_registers_PMU_reach: "reach a1_registers_PMU = 131068"
  using reach_scan [OF a1_registers_PMU_order] by simp

lemma a1_slots_M3_1:
  "scan 0 (map slot a1_registers_3759) = Some 4024"
  "scan 4024 (map slot a1_registers_3839) = Some 57620"
  "scan 57620 (map slot a1_registers_3919) = Some 58388"
  "scan 58388 (map slot a1_registers_3999) = Some 58548"
  "scan 58548 (map slot a1_registers_4079) = Some 60856"
  "scan 60856 (map slot a1_registers_4159) = Some 266192"
  by (simp_all add:
    a1_registers_3759_def a1_registers_3839_def a1_registers_3919_def a1_registers_3999_def
    a1_registers_4079_def a1_registers_4159_def)

lemma a1_registers_M3_order: "scan 0 (map slot a1_registers_M3) = Some 266192"
  unfolding a1_registers_M3_def
  by (simp only: map_append filter_append scan_append option.case
    a1_slots_M3_1)

lemma a1_registers_M3_reach: "reach a1_registers_M3 = 266188"
  using reach_scan [OF a1_registers_M3_order] by simp

lemma a1_slots_RBOX_1:
  "scan 0 (map slot a1_registers_2588) = Some 28"
  by (simp_all add:
    a1_registers_2588_def)

lemma a1_registers_RBOX_order: "scan 0 (map slot a1_registers_RBOX) = Some 28"
  unfolding a1_registers_RBOX_def
  by (simp only: map_append filter_append scan_append option.case
    a1_slots_RBOX_1)

lemma a1_registers_RBOX_reach: "reach a1_registers_RBOX = 24"
  using reach_scan [OF a1_registers_RBOX_order] by simp

lemma a1_slots_RTC_1:
  "scan 0 (map slot a1_registers_2602) = Some 16"
  by (simp_all add:
    a1_registers_2602_def)

lemma a1_registers_RTC_order: "scan 0 (map slot a1_registers_RTC) = Some 16"
  unfolding a1_registers_RTC_def
  by (simp only: map_append filter_append scan_append option.case
    a1_slots_RTC_1)

lemma a1_registers_RTC_reach: "reach a1_registers_RTC = 12"
  using reach_scan [OF a1_registers_RTC_order] by simp

lemma a1_slots_SHA_1:
  "scan 0 (map slot a1_registers_2610) = Some 3848"
  by (simp_all add:
    a1_registers_2610_def)

lemma a1_registers_SHA_order: "scan 0 (map slot a1_registers_SHA) = Some 3848"
  unfolding a1_registers_SHA_def
  by (simp only: map_append filter_append scan_append option.case
    a1_slots_SHA_1)

lemma a1_registers_SHA_reach: "reach a1_registers_SHA = 3844"
  using reach_scan [OF a1_registers_SHA_order] by simp

lemma a1_slots_SPI_1:
  "scan 0 (map slot (filter own_address a1_registers_2688)) = Some 4228"
  by (simp_all add: own_address_def
    a1_registers_2688_def)

lemma a1_registers_SPI_order: "scan 0 (map slot (filter own_address a1_registers_SPI)) = Some 4228"
  unfolding a1_registers_SPI_def
  by (simp only: map_append filter_append scan_append option.case
    a1_slots_SPI_1)

lemma a1_reach_SPI_parts:
  "reach a1_registers_2688 = 4224"
  by (simp_all add: reach_def
    a1_registers_2688_def)

lemma a1_registers_SPI_reach: "reach a1_registers_SPI = 4224"
  by (simp add: a1_registers_SPI_def reach_append a1_reach_SPI_parts)

lemma a1_slots_SPS_1:
  "scan 0 (map slot (filter own_address a1_registers_2709)) = Some 160"
  "scan 160 (map slot (filter own_address a1_registers_2789)) = Some 5124"
  by (simp_all add: own_address_def
    a1_registers_2709_def a1_registers_2789_def)

lemma a1_registers_SPS_order: "scan 0 (map slot (filter own_address a1_registers_SPS)) = Some 5124"
  unfolding a1_registers_SPS_def
  by (simp only: map_append filter_append scan_append option.case
    a1_slots_SPS_1)

lemma a1_reach_SPS_parts:
  "reach a1_registers_2709 = 156"
  "reach a1_registers_2789 = 5120"
  by (simp_all add: reach_def
    a1_registers_2709_def a1_registers_2789_def)

lemma a1_registers_SPS_reach: "reach a1_registers_SPS = 5120"
  by (simp add: a1_registers_SPS_def reach_append a1_reach_SPS_parts)

lemma a1_slots_SWDP_1:
  "scan 0 (map slot a1_registers_2817) = Some 64"
  by (simp_all add:
    a1_registers_2817_def)

lemma a1_registers_SWDP_order: "scan 0 (map slot a1_registers_SWDP) = Some 64"
  unfolding a1_registers_SWDP_def
  by (simp only: map_append filter_append scan_append option.case
    a1_slots_SWDP_1)

lemma a1_registers_SWDP_reach: "reach a1_registers_SWDP = 60"
  using reach_scan [OF a1_registers_SWDP_order] by simp

lemma a1_slots_TEMP_1:
  "scan 0 (map slot a1_registers_2849) = Some 84"
  by (simp_all add:
    a1_registers_2849_def)

lemma a1_registers_TEMP_order: "scan 0 (map slot a1_registers_TEMP) = Some 84"
  unfolding a1_registers_TEMP_def
  by (simp only: map_append filter_append scan_append option.case
    a1_slots_TEMP_1)

lemma a1_registers_TEMP_reach: "reach a1_registers_TEMP = 80"
  using reach_scan [OF a1_registers_TEMP_order] by simp

lemma a1_slots_TIMEHS_1:
  "scan 0 (map slot a1_registers_2891) = Some 4096"
  by (simp_all add:
    a1_registers_2891_def)

lemma a1_registers_TIMEHS_order: "scan 0 (map slot a1_registers_TIMEHS) = Some 4096"
  unfolding a1_registers_TIMEHS_def
  by (simp only: map_append filter_append scan_append option.case
    a1_slots_TIMEHS_1)

lemma a1_registers_TIMEHS_reach: "reach a1_registers_TIMEHS = 4092"
  using reach_scan [OF a1_registers_TIMEHS_order] by simp

lemma a1_slots_TIMELS_1:
  "scan 0 (map slot a1_registers_2947) = Some 3848"
  by (simp_all add:
    a1_registers_2947_def)

lemma a1_registers_TIMELS_order: "scan 0 (map slot a1_registers_TIMELS) = Some 3848"
  unfolding a1_registers_TIMELS_def
  by (simp only: map_append filter_append scan_append option.case
    a1_slots_TIMELS_1)

lemma a1_registers_TIMELS_reach: "reach a1_registers_TIMELS = 3844"
  using reach_scan [OF a1_registers_TIMELS_order] by simp

lemma a1_slots_TRNG_1:
  "scan 0 (map slot a1_registers_2999) = Some 320"
  "scan 320 (map slot a1_registers_3079) = Some 480"
  "scan 480 (map slot a1_registers_3159) = Some 512"
  by (simp_all add:
    a1_registers_2999_def a1_registers_3079_def a1_registers_3159_def)

lemma a1_registers_TRNG_order: "scan 0 (map slot a1_registers_TRNG) = Some 512"
  unfolding a1_registers_TRNG_def
  by (simp only: map_append filter_append scan_append option.case
    a1_slots_TRNG_1)

lemma a1_registers_TRNG_reach: "reach a1_registers_TRNG = 508"
  using reach_scan [OF a1_registers_TRNG_order] by simp

lemma a1_slots_UART_1:
  "scan 0 (map slot a1_registers_3175) = Some 3848"
  by (simp_all add:
    a1_registers_3175_def)

lemma a1_registers_UART_order: "scan 0 (map slot a1_registers_UART) = Some 3848"
  unfolding a1_registers_UART_def
  by (simp only: map_append filter_append scan_append option.case
    a1_slots_UART_1)

lemma a1_registers_UART_reach: "reach a1_registers_UART = 3844"
  using reach_scan [OF a1_registers_UART_order] by simp

lemma a1_slots_USB_1:
  "scan 0 (map slot a1_registers_3207) = Some 2076"
  "scan 2076 (map slot a1_registers_3287) = Some 2492"
  "scan 2492 (map slot a1_registers_3367) = Some 2708"
  "scan 2708 (map slot a1_registers_3447) = Some 2936"
  "scan 2936 (map slot a1_registers_3527) = Some 3192"
  "scan 3192 (map slot a1_registers_3607) = Some 131076"
  by (simp_all add:
    a1_registers_3207_def a1_registers_3287_def a1_registers_3367_def a1_registers_3447_def
    a1_registers_3527_def a1_registers_3607_def)

lemma a1_registers_USB_order: "scan 0 (map slot a1_registers_USB) = Some 131076"
  unfolding a1_registers_USB_def
  by (simp only: map_append filter_append scan_append option.case
    a1_slots_USB_1)

lemma a1_registers_USB_reach: "reach a1_registers_USB = 131072"
  using reach_scan [OF a1_registers_USB_order] by simp

lemma a1_slots_WATCHDOG_1:
  "scan 0 (map slot a1_registers_3666) = Some 4096"
  by (simp_all add:
    a1_registers_3666_def)

lemma a1_registers_WATCHDOG_order: "scan 0 (map slot a1_registers_WATCHDOG) = Some 4096"
  unfolding a1_registers_WATCHDOG_def
  by (simp only: map_append filter_append scan_append option.case
    a1_slots_WATCHDOG_1)

lemma a1_registers_WATCHDOG_reach: "reach a1_registers_WATCHDOG = 4092"
  using reach_scan [OF a1_registers_WATCHDOG_order] by simp

lemma a1_slots_XO_1:
  "scan 0 (map slot a1_registers_3708) = Some 100"
  by (simp_all add:
    a1_registers_3708_def)

lemma a1_registers_XO_order: "scan 0 (map slot a1_registers_XO) = Some 100"
  unfolding a1_registers_XO_def
  by (simp only: map_append filter_append scan_append option.case
    a1_slots_XO_1)

lemma a1_registers_XO_reach: "reach a1_registers_XO = 96"
  using reach_scan [OF a1_registers_XO_order] by simp

end
