(* ===== verification/RegisterMapA1.thy ===== *)
theory RegisterMapA1
  imports RegisterOrderA1
begin

text \<open>
  The peripherals of the first revision of the chip: the base addresses of chip/c/hw_a1_regdefs.h
  with the tables of their modules.
\<close>

text \<open>\<open>GBASE\<close>: the \<open>_BASE_ADDR\<close> macros.\<close>

definition a1_base_addresses :: "(string \<times> u32) list" where
  "a1_base_addresses = [
    (''AES0'', 0x40440000), (''AES1'', 0x40450000), (''CAMO0'', 0x40470000), (''FLASH0'', 0x40710000),
    (''GLOBALSEC0'', 0x404b0000), (''GPIO0'', 0x40200000), (''GPIO1'', 0x40210000), (''I2C0'',
    0x40520000), (''I2C1'', 0x40530000), (''I2CS0'', 0x40480000), (''MAU'', 0x40080000), (''PAU'',
    0x40090000), (''PINMUX'', 0x40060000), (''PMU'', 0x40000000), (''M3'', 0xe0000000), (''RBOX0'',
    0x40460000), (''RTC0'', 0x40400000), (''SHA0'', 0x40700000), (''SPI0'', 0x40500000), (''SPS0'',
    0x40510000), (''SWDP0'', 0x40590000), (''TEMP0'', 0x40490000), (''TIMEHS0'', 0x40570000),
    (''TIMEHS1'', 0x40580000), (''TIMELS0'', 0x40430000), (''TRNG0'', 0x404a0000), (''UART0'',
    0x40540000), (''UART1'', 0x40550000), (''UART2'', 0x40560000), (''USB0'', 0x40300000),
    (''WATCHDOG0'', 0x40410000), (''XO0'', 0x40420000)]"

definition a1_peripherals :: "peripheral list" where
  "a1_peripherals = [
    Peripheral ''AES0'' 0x40440000 a1_registers_AES a1_fields_AES,
    Peripheral ''AES1'' 0x40450000 a1_registers_AES a1_fields_AES,
    Peripheral ''CAMO0'' 0x40470000 a1_registers_CAMO a1_fields_CAMO,
    Peripheral ''FLASH0'' 0x40710000 a1_registers_FLASH a1_fields_FLASH,
    Peripheral ''GLOBALSEC0'' 0x404b0000 a1_registers_GLOBALSEC a1_fields_GLOBALSEC,
    Peripheral ''GPIO0'' 0x40200000 a1_registers_GPIO a1_fields_GPIO,
    Peripheral ''GPIO1'' 0x40210000 a1_registers_GPIO a1_fields_GPIO,
    Peripheral ''I2C0'' 0x40520000 a1_registers_I2C a1_fields_I2C,
    Peripheral ''I2C1'' 0x40530000 a1_registers_I2C a1_fields_I2C,
    Peripheral ''I2CS0'' 0x40480000 a1_registers_I2CS a1_fields_I2CS,
    Peripheral ''MAU'' 0x40080000 a1_registers_MAU a1_fields_MAU,
    Peripheral ''PAU'' 0x40090000 a1_registers_PAU a1_fields_PAU,
    Peripheral ''PINMUX'' 0x40060000 a1_registers_PINMUX a1_fields_PINMUX,
    Peripheral ''PMU'' 0x40000000 a1_registers_PMU a1_fields_PMU,
    Peripheral ''M3'' 0xe0000000 a1_registers_M3 a1_fields_M3,
    Peripheral ''RBOX0'' 0x40460000 a1_registers_RBOX a1_fields_RBOX,
    Peripheral ''RTC0'' 0x40400000 a1_registers_RTC a1_fields_RTC,
    Peripheral ''SHA0'' 0x40700000 a1_registers_SHA a1_fields_SHA,
    Peripheral ''SPI0'' 0x40500000 a1_registers_SPI a1_fields_SPI,
    Peripheral ''SPS0'' 0x40510000 a1_registers_SPS a1_fields_SPS,
    Peripheral ''SWDP0'' 0x40590000 a1_registers_SWDP a1_fields_SWDP,
    Peripheral ''TEMP0'' 0x40490000 a1_registers_TEMP a1_fields_TEMP,
    Peripheral ''TIMEHS0'' 0x40570000 a1_registers_TIMEHS a1_fields_TIMEHS,
    Peripheral ''TIMEHS1'' 0x40580000 a1_registers_TIMEHS a1_fields_TIMEHS,
    Peripheral ''TIMELS0'' 0x40430000 a1_registers_TIMELS a1_fields_TIMELS,
    Peripheral ''TRNG0'' 0x404a0000 a1_registers_TRNG a1_fields_TRNG,
    Peripheral ''UART0'' 0x40540000 a1_registers_UART a1_fields_UART,
    Peripheral ''UART1'' 0x40550000 a1_registers_UART a1_fields_UART,
    Peripheral ''UART2'' 0x40560000 a1_registers_UART a1_fields_UART,
    Peripheral ''USB0'' 0x40300000 a1_registers_USB a1_fields_USB,
    Peripheral ''WATCHDOG0'' 0x40410000 a1_registers_WATCHDOG a1_fields_WATCHDOG,
    Peripheral ''XO0'' 0x40420000 a1_registers_XO a1_fields_XO]"

text \<open>The checks of the tables carry over to the peripherals.\<close>

lemma a1_peripheral_tables:
  "list_all (\<lambda>p. list_all well_formed (periph_fields p)) a1_peripherals"
  "list_all (\<lambda>p. list_all (has_register (periph_registers p)) (periph_fields p)) a1_peripherals"
  by (simp_all add: a1_peripherals_def
    a1_fields_AES_scan a1_fields_CAMO_scan a1_fields_FLASH_scan a1_fields_GLOBALSEC_scan
    a1_fields_GPIO_scan a1_fields_I2C_scan a1_fields_I2CS_scan a1_fields_MAU_scan a1_fields_PAU_scan
    a1_fields_PINMUX_scan a1_fields_PMU_scan a1_fields_RBOX_scan a1_fields_RTC_scan a1_fields_SHA_scan
    a1_fields_SPI_scan a1_fields_SPS_scan a1_fields_SWDP_scan a1_fields_TEMP_scan a1_fields_TIMEHS_scan
    a1_fields_TIMELS_scan a1_fields_TRNG_scan a1_fields_UART_scan a1_fields_USB_scan
    a1_fields_WATCHDOG_scan a1_fields_XO_scan a1_fields_M3_scan
    a1_fields_AES_registers a1_fields_CAMO_registers a1_fields_FLASH_registers
    a1_fields_GLOBALSEC_registers a1_fields_GPIO_registers a1_fields_I2C_registers
    a1_fields_I2CS_registers a1_fields_MAU_registers a1_fields_PAU_registers a1_fields_PINMUX_registers
    a1_fields_PMU_registers a1_fields_RBOX_registers a1_fields_RTC_registers a1_fields_SHA_registers
    a1_fields_SPI_registers a1_fields_SPS_registers a1_fields_SWDP_registers a1_fields_TEMP_registers
    a1_fields_TIMEHS_registers a1_fields_TIMELS_registers a1_fields_TRNG_registers
    a1_fields_UART_registers a1_fields_USB_registers a1_fields_WATCHDOG_registers a1_fields_XO_registers
    a1_fields_M3_registers)

lemma a1_peripheral_scans: "list_all (\<lambda>p. scan 0 (map extent (periph_fields p)) \<noteq> None) a1_peripherals"
  by (simp add: a1_peripherals_def
    a1_fields_AES_scan a1_fields_CAMO_scan a1_fields_FLASH_scan a1_fields_GLOBALSEC_scan
    a1_fields_GPIO_scan a1_fields_I2C_scan a1_fields_I2CS_scan a1_fields_MAU_scan a1_fields_PAU_scan
    a1_fields_PINMUX_scan a1_fields_PMU_scan a1_fields_RBOX_scan a1_fields_RTC_scan a1_fields_SHA_scan
    a1_fields_SPI_scan a1_fields_SPS_scan a1_fields_SWDP_scan a1_fields_TEMP_scan a1_fields_TIMEHS_scan
    a1_fields_TIMELS_scan a1_fields_TRNG_scan a1_fields_UART_scan a1_fields_USB_scan
    a1_fields_WATCHDOG_scan a1_fields_XO_scan a1_fields_M3_scan)

lemma a1_register_orders: "list_all (\<lambda>p. scan 0 (map slot (ordered_registers p)) \<noteq> None) a1_peripherals"
  by (simp add: a1_peripherals_def ordered_registers_def
    a1_registers_AES_order a1_registers_CAMO_order a1_registers_FLASH_order
    a1_registers_GLOBALSEC_order a1_registers_GPIO_order a1_registers_I2C_order
    a1_registers_I2CS_order a1_registers_MAU_order a1_registers_PAU_order a1_registers_PINMUX_order
    a1_registers_PMU_order a1_registers_M3_order a1_registers_RBOX_order a1_registers_RTC_order
    a1_registers_SHA_order a1_registers_SPI_order a1_registers_SPS_order a1_registers_SWDP_order
    a1_registers_TEMP_order a1_registers_TIMEHS_order a1_registers_TIMELS_order
    a1_registers_TRNG_order a1_registers_UART_order a1_registers_USB_order
    a1_registers_WATCHDOG_order a1_registers_XO_order)

lemma a1_windows_apart: "sorted_wrt apart (map window a1_peripherals)"
  by (simp add: a1_peripherals_def window_def apart_def
    a1_registers_AES_reach a1_registers_CAMO_reach a1_registers_FLASH_reach
    a1_registers_GLOBALSEC_reach a1_registers_GPIO_reach a1_registers_I2C_reach
    a1_registers_I2CS_reach a1_registers_MAU_reach a1_registers_PAU_reach a1_registers_PINMUX_reach
    a1_registers_PMU_reach a1_registers_M3_reach a1_registers_RBOX_reach a1_registers_RTC_reach
    a1_registers_SHA_reach a1_registers_SPI_reach a1_registers_SPS_reach a1_registers_SWDP_reach
    a1_registers_TEMP_reach a1_registers_TIMEHS_reach a1_registers_TIMELS_reach
    a1_registers_TRNG_reach a1_registers_UART_reach a1_registers_USB_reach
    a1_registers_WATCHDOG_reach a1_registers_XO_reach)

lemma a1_windows_fit: "list_all (\<lambda>(s, e). s + 0x20000 \<le> 2 ^ 32 \<and> e \<le> 2 ^ 32) (map window a1_peripherals)"
  by (simp add: a1_peripherals_def window_def
    a1_registers_AES_reach a1_registers_CAMO_reach a1_registers_FLASH_reach
    a1_registers_GLOBALSEC_reach a1_registers_GPIO_reach a1_registers_I2C_reach
    a1_registers_I2CS_reach a1_registers_MAU_reach a1_registers_PAU_reach a1_registers_PINMUX_reach
    a1_registers_PMU_reach a1_registers_M3_reach a1_registers_RBOX_reach a1_registers_RTC_reach
    a1_registers_SHA_reach a1_registers_SPI_reach a1_registers_SPS_reach a1_registers_SWDP_reach
    a1_registers_TEMP_reach a1_registers_TIMEHS_reach a1_registers_TIMELS_reach
    a1_registers_TRNG_reach a1_registers_UART_reach a1_registers_USB_reach
    a1_registers_WATCHDOG_reach a1_registers_XO_reach)

interpretation chip_a1: register_map a1_peripherals
  by unfold_locales (fact a1_peripheral_tables a1_peripheral_scans a1_register_orders a1_windows_apart a1_windows_fit)+

end
