(* ===== verification/RegisterRevisions.thy ===== *)
theory RegisterRevisions
  imports RegisterMap RegisterMapA1
begin

text \<open>
  The two revisions of the chip. The generated headers hw_a1_regdefs.h and hw_b1_regdefs.h have the
  same form (both define \<open>GC___MAJOR_REV__\<close> and the tables), and what is proved of the field
  macros holds for either.
\<close>

section \<open>Revisions\<close>

datatype revision = REVA | REVB

definition chip_map :: "revision \<Rightarrow> peripheral list" where
  "chip_map r = (case r of REVA \<Rightarrow> a1_peripherals | REVB \<Rightarrow> peripherals)"

interpretation revision: register_map "chip_map r" for r
  by (cases r) (simp_all add: chip_map_def chip.register_map_axioms chip_a1.register_map_axioms)

section \<open>Properties\<close>

text \<open>
  C32. The generated tables of both revisions are sound. Every field of every peripheral lies in its
  32-bit register, has the mask of its position and width and a reset value that fits, and no two fields of
  a module overlap; every field is a part of a register of its module whose reset value has the reset value
  of the field in the bits of the field (among the fuses too, where the register also has the 0x5
  padding). The registers of a module are in ascending order, a word each, but for the three whose macro is
  a second name of a data area (the transmit side of SPI and SPS and the ROM of SPS). The address ranges of the
  peripherals, each from the base to 4K behind the offset of the last register (with or without fields), are disjoint
  and end below 2^32.
\<close>

theorem register_tables_sound: "map_sound (chip_map r)"
  by (rule revision.sound)

text \<open>
  C8. Field access. For the fields \<open>f\<close> and \<open>g\<close> of two peripherals of the chip, one or
  two, of either revision: after \<open>GWRITE_FIELD\<close> on \<open>f\<close>, \<open>GREAD_FIELD\<close> of \<open>f\<close> is the value
  cut to the width of the field, and of any other field what it was before: a field macro touches its
  field alone, in the register, in the module and in the chip.
\<close>

theorem field_access:
  assumes "p \<in> set (chip_map r)" and "f \<in> set (periph_fields p)"
    and "q \<in> set (chip_map r)" and "g \<in> set (periph_fields q)"
  shows "GREAD_FIELD REG32 (periph_base p) f (GWRITE_FIELD REG32 set_REG32 (periph_base p) f v m) = take_bit (width f) v \<and>
    (p = q \<and> f = g \<or>
     GREAD_FIELD REG32 (periph_base q) g (GWRITE_FIELD REG32 set_REG32 (periph_base p) f v m) =
       GREAD_FIELD REG32 (periph_base q) g m)"
  using assms by (rule revision.field_macros)

lemma CAMO0_in_map: "CAMO0 \<in> set (chip_map REVB)"
  using CAMO0_peripheral by (simp add: chip_map_def)

text \<open>Writing the revision of the CAMO module, with a bit too many, and reading both fields of the register.\<close>

theorem field_access_witness:
  "let m = GWRITE_FIELD REG32 set_REG32 0x40560000 (fields_CAMO ! 1) 0x123 (\<lambda>_. 0xff)
   in GREAD_FIELD REG32 0x40560000 (fields_CAMO ! 1) m = 0x23 \<and> GREAD_FIELD REG32 0x40560000 (fields_CAMO ! 0) m = 0xffffff"
proof -
  have f: "fields_CAMO ! 1 \<in> set (periph_fields CAMO0)" and g: "fields_CAMO ! 0 \<in> set (periph_fields CAMO0)"
    by (simp_all add: CAMO0_version)
  have "GREAD_FIELD REG32 0x40560000 (fields_CAMO ! 0) (\<lambda>_. 0xff) = 0xffffff"
    by (simp add: CAMO0_version GREAD_FIELD_def GREG32_ADDR_def REG32_def mem_read_def mask_word_def upt_rec)
  moreover have "take_bit (width (fields_CAMO ! 1)) (0x123 :: u32) = 0x23"
    by (simp add: CAMO0_version take_bit_eq_mod)
  ultimately show ?thesis
    using field_access [OF CAMO0_in_map f CAMO0_in_map g, where v = "0x123" and m = "\<lambda>_. 0xff"]
    by (simp add: CAMO0_version)
qed

text \<open>
  Out of reset: in a memory whose registers of a peripheral hold their \<open>_DEFAULT\<close> values,
  \<open>GREAD_FIELD\<close> of every field of the peripheral is the \<open>_DEFAULT\<close> of the field: the
  two ways in which a header states the reset state of the chip agree.
\<close>

theorem reset_state:
  assumes "p \<in> set (chip_map r)"
    and "\<forall>q \<in> set (periph_registers p). \<forall>d. reg_reset q = Some d \<longrightarrow>
      REG32 m (periph_base p + word_of_int (reg_offset q)) = word_of_int d"
  shows "\<forall>f \<in> set (periph_fields p). GREAD_FIELD REG32 (periph_base p) f m = word_of_int (reset f)"
  using assms by (rule revision.reset_values)

theorem reset_state_witness:
  "let m = set_REG32 0x40560008 0x1014125 (\<lambda>_. 0)
   in GREAD_FIELD REG32 0x40560000 (fields_CAMO ! 0) m = 0x14125 \<and> GREAD_FIELD REG32 0x40560000 (fields_CAMO ! 1) m = 1"
proof -
  define m where "m = set_REG32 0x40560008 0x1014125 (\<lambda>_. 0)"
  have regs: "registers_CAMO = [Register ''CAMO_BREACH_COUNT'' 0x0 (Some 0x0), Register ''CAMO_CLEAR_COUNTER'' 0x4 (Some 0x0),
      Register ''CAMO_VERSION'' 0x8 (Some 0x1014125)]"
    by (simp add: registers_CAMO_def registers_647_def)
  have "REG32 (\<lambda>_. 0) a = 0" for a by (simp add: REG32_def mem_read_def upt_rec)
  then have "REG32 m 0x40560000 = 0" "REG32 m 0x40560004 = 0" "REG32 m 0x40560008 = 0x1014125"
    by (simp_all add: m_def memory_mapped.reg_same memory_mapped.reg_other)
  then have "\<forall>q \<in> set (periph_registers CAMO0). \<forall>d. reg_reset q = Some d \<longrightarrow>
      REG32 m (periph_base CAMO0 + word_of_int (reg_offset q)) = word_of_int d"
    by (simp add: regs)
  from reset_state [OF CAMO0_in_map this] show ?thesis
    by (simp add: CAMO0_version m_def)
qed

end
