(* ===== verification/RegisterNames.thy ===== *)
theory RegisterNames
  imports RegisterAliases RegisterRevisions
begin

text \<open>
  The names of chip/c/registers.h with an argument (microsecond timers, key manager, GPIO masks) at their
  addresses, and all its names against the tables of both revisions of the chip.
\<close>

section \<open>Families of registers\<close>

text \<open>\<open>GR_TIMEUS_*(t)\<close>: the argument is pasted into the name of the register, with its offset 0x100 * (t + 1).\<close>

definition timeus_macros :: "(string \<times> string) list" where
  "timeus_macros =
     [(''GR_TIMEUS_EN'', ''ENABLE''), (''GR_TIMEUS_ONESHOT_MODE'', ''ONESHOT_MODE''), (''GR_TIMEUS_MAXVAL'', ''MAXVAL''),
      (''GR_TIMEUS_PROGVAL'', ''PROGVAL''), (''GR_TIMEUS_DIVIDER'', ''DIVIDER''), (''GR_TIMEUS_CUR_MAJOR'', ''CUR_MAJOR''),
      (''GR_TIMEUS_CUR_MINOR'', ''CUR_MINOR'')]"

definition timeus_name :: "nat \<Rightarrow> string \<times> string \<Rightarrow> string" where
  "timeus_name t p = ''TIMEUS_'' @ snd p @ ''_CNTR'' @ decimal t"

text \<open>
  \<open>GR_KEYMGR_*(n)\<close>: the sum is one of pointers to words, so that \<open>n\<close> counts words.
\<close>

definition GR_KEYMGR :: "u32 \<Rightarrow> u32 \<Rightarrow> u32" where
  "GR_KEYMGR offset n = GBASE ''KEYMGR'' + offset + 4 * n"

definition keymgr_families :: "(string \<times> u32 \<times> nat) list" where
  "keymgr_families =
     [(''AES_KEY'', 0x2c, 8), (''AES_CTR'', 0x50, 4), (''GCM_H'', 0x80, 4), (''GCM_MAC'', 0x90, 4),
      (''GCM_HASH_IN'', 0xa0, 4), (''SHA_STS_H'', 0x444, 8), (''HKEY_FRR'', 0x3300, 8)]"

definition keymgr_family :: "string \<times> u32 \<times> nat \<Rightarrow> (string \<times> u32) list" where
  "keymgr_family k = (case k of (s, x, c) \<Rightarrow>
     map (\<lambda>n. (''KEYMGR_'' @ s @ decimal n, GR_KEYMGR x (of_nat n))) [0..<c])"

definition GR_GPIO_MASKLOWBYTE :: "u32 \<Rightarrow> u32 \<Rightarrow> u32" where
  "GR_GPIO_MASKLOWBYTE n msk = GR_GPIO_REG n (0x400 + msk * 4)"

definition GR_GPIO_MASKHIGHBYTE :: "u32 \<Rightarrow> u32 \<Rightarrow> u32" where
  "GR_GPIO_MASKHIGHBYTE n msk = GR_GPIO_REG n (0x800 + msk * 4)"

lemma GBASE_more: "GBASE ''KEYMGR'' = 0x40570000" "GBASE ''TIMEUS'' = 0x40670000"
  by (simp_all add: GBASE_def base_addresses_def)

lemma timeus_registers:
  "map reg_name (filter (\<lambda>r. 0x100 \<le> reg_offset r) registers_TIMEUS) =
     concat (map (\<lambda>t. map (timeus_name t) timeus_macros) [0..<4])"
  unfolding registers_TIMEUS_def filter_append map_append
  by (simp add: registers_4727_def timeus_name_def timeus_macros_def decimal_def upt_rec)

lemma keymgr_registers:
  "between 0x2c 0x4c (GBASE ''KEYMGR'') registers_KEYMGR @ between 0x50 0x60 (GBASE ''KEYMGR'') registers_KEYMGR @
   between 0x80 0xb0 (GBASE ''KEYMGR'') registers_KEYMGR @ between 0x444 0x464 (GBASE ''KEYMGR'') registers_KEYMGR @
   between 0x3300 0x3320 (GBASE ''KEYMGR'') registers_KEYMGR = concat (map keymgr_family keymgr_families)"
  unfolding between_def registers_KEYMGR_def filter_append map_append
  by (simp add: GBASE_more keymgr_family_def keymgr_families_def GR_KEYMGR_def decimal_def upt_rec
    registers_3390_def registers_3470_def registers_3550_def registers_3630_def)

fun words_from :: "int \<Rightarrow> int list \<Rightarrow> bool" where
  "words_from x [] \<longleftrightarrow> True"
| "words_from x (y # ys) \<longleftrightarrow> y = x \<and> words_from (x + 4) ys"

lemma words_from_upt: "words_from x ys \<Longrightarrow> ys = map (\<lambda>k. x + 4 * int k) [0..<length ys]"
proof (induction ys arbitrary: x)
  case (Cons y ys)
  then have "y = x" and "ys = map (\<lambda>k. x + 4 + 4 * int k) [0..<length ys]" by fastforce+
  moreover have "map (\<lambda>k. x + 4 + 4 * int k) [0..<length ys] = map (\<lambda>k. x + 4 * int k) (map Suc [0..<length ys])"
    by simp
  ultimately show ?case by (simp add: map_Suc_upt upt_conv_Cons del: upt_Suc)
qed simp

definition offsets_between :: "int \<Rightarrow> int \<Rightarrow> register list \<Rightarrow> int list" where
  "offsets_between lo hi rs = filter (\<lambda>x. lo \<le> x \<and> x < hi) (map reg_offset rs)"

lemma between_offsets: "map snd (between lo hi b rs) = map (\<lambda>x. b + word_of_int x) (offsets_between lo hi rs)"
  by (simp add: between_def offsets_between_def filter_map comp_def)

lemma mask_offsets:
  "words_from 0x400 (offsets_between 0x400 0x800 registers_GPIO)" "length (offsets_between 0x400 0x800 registers_GPIO) = 256"
  "words_from 0x800 (offsets_between 0x800 0xc00 registers_GPIO)" "length (offsets_between 0x800 0xc00 registers_GPIO) = 256"
  unfolding offsets_between_def registers_GPIO_def filter_append map_append
  by (simp_all add:
    registers_2158_def registers_2238_def registers_2318_def registers_2398_def registers_2478_def registers_2558_def
    registers_2638_def registers_2718_def registers_2798_def registers_2878_def registers_2958_def registers_3038_def
    registers_3118_def registers_3198_def)

lemmas mask_offset_lists =
  words_from_upt [OF mask_offsets(1), unfolded mask_offsets(2)] words_from_upt [OF mask_offsets(3), unfolded mask_offsets(4)]

lemma gpio_masks:
  "map snd (between 0x400 0x800 (GBASE ''GPIO0'') registers_GPIO) = map (\<lambda>k. GR_GPIO_MASKLOWBYTE 0 (of_nat k)) [0..<256]"
  "map snd (between 0x800 0xc00 (GBASE ''GPIO0'') registers_GPIO) = map (\<lambda>k. GR_GPIO_MASKHIGHBYTE 0 (of_nat k)) [0..<256]"
  unfolding between_offsets mask_offset_lists
  by (simp_all add: comp_def GR_GPIO_MASKLOWBYTE_def GR_GPIO_MASKHIGHBYTE_def GR_GPIO_REG_def algebra_simps del: upt_Suc)

section \<open>Revision A\<close>

lemma a1_names_PMU:
  "list_all (has_name a1_registers_2358)
    [''PMU_RESET'', ''PMU_SETRST'', ''PMU_CLRRST'', ''PMU_RSTSRC'', ''PMU_GLOBAL_RESET'',
      ''PMU_SETDIS'', ''PMU_CLRDIS'', ''PMU_STATDIS'', ''PMU_SETWIC'', ''PMU_CLRWIC'',
      ''PMU_SYSVTOR'', ''PMU_EXCLUSIVE'', ''PMU_DAP_ID0'', ''PMU_DAP_EN'', ''PMU_DAP_LOCK'',
      ''PMU_DAP_UNLOCK'', ''PMU_NAP_EN'', ''PMU_VREF'', ''PMU_VREFCMP'', ''PMU_RBIAS'',
      ''PMU_RBIASLO'', ''PMU_RBIASHI'', ''PMU_SETHOLDVREF'', ''PMU_CLRHOLDVREF'',
      ''PMU_BAT_LVL_OK'', ''PMU_B_REG_DIG_CTRL'', ''PMU_B_REG_DIG_LATCH_CTRL'',
      ''PMU_EXITPD_HOLD_SET'', ''PMU_EXITPD_HOLD_CLR'', ''PMU_EXITPD_MASK'', ''PMU_EXITPD_SRC'',
      ''PMU_EXITPD_MON'', ''PMU_OSC_HOLD_SET'']"
  "list_all (has_name a1_registers_2440)
    [''PMU_OSC_HOLD_CLR'', ''PMU_OSC_SELECT'', ''PMU_OSC_SELECT_STAT'', ''PMU_OSC_CTRL'',
      ''PMU_MEMCLKSET'', ''PMU_MEMCLKCLR'', ''PMU_PERICLKSET0'', ''PMU_PERICLKCLR0'',
      ''PMU_PERICLKSET1'', ''PMU_PERICLKCLR1'', ''PMU_PERIGATEONSLEEPSET0'',
      ''PMU_PERIGATEONSLEEPCLR0'', ''PMU_PERIGATEONSLEEPSET1'', ''PMU_PERIGATEONSLEEPCLR1'',
      ''PMU_CLK0'', ''PMU_CLK1'', ''PMU_RST0'', ''PMU_RST1'', ''PMU_PWRDN_SCRATCH_HOLD_SET'',
      ''PMU_PWRDN_SCRATCH_HOLD_CLR'', ''PMU_PWRDN_SCRATCH0'', ''PMU_PWRDN_SCRATCH1'',
      ''PMU_PWRDN_SCRATCH2'', ''PMU_PWRDN_SCRATCH3'']"
  "list_all (has_name a1_registers_2527)
    [''PMU_FUSE_RD_RC_OSC_26MHZ'', ''PMU_FUSE_RD_XTL_OSC_26MHZ'']"
  by (simp_all add: has_name_def
    a1_registers_2358_def a1_registers_2440_def a1_registers_2527_def)

lemma a1_no_names_2358:
  "misses (map name_hash a1_registers_2358)
    [''PMU_LOW_POWER_DIS'']"
  by (simp add: a1_registers_2358_def)

lemma a1_no_names_2440:
  "misses (map name_hash a1_registers_2440)
    [''PMU_LOW_POWER_DIS'']"
  by (simp add: a1_registers_2440_def)

lemma a1_no_names_2527:
  "misses (map name_hash a1_registers_2527)
    [''PMU_LOW_POWER_DIS'']"
  by (simp add: a1_registers_2527_def)

lemma a1_named_PMU: "dangling a1_registers_PMU PMU_aliases = [''GR_PMU_LOW_POWER_DIS'']"
  using a1_names_PMU a1_no_names_2358 [THEN misses_names] a1_no_names_2440 [THEN misses_names] a1_no_names_2527 [THEN misses_names]
  by (simp add: dangling_def PMU_aliases_def a1_registers_PMU_def has_name_append)

lemma a1_names_UART:
  "list_all (has_name a1_registers_3175)
    [''UART_RDATA'', ''UART_WDATA'', ''UART_NCO'', ''UART_CTRL'', ''UART_ICTRL'', ''UART_STATE'',
      ''UART_STATECLR'', ''UART_ISTATE'', ''UART_ISTATECLR'', ''UART_FIFO'', ''UART_RFIFO'',
      ''UART_VAL'']"
  by (simp_all add: has_name_def
    a1_registers_3175_def)

lemma a1_named_UART: "dangling a1_registers_UART UART_aliases = []"
  using a1_names_UART
  by (simp add: dangling_def UART_aliases_def a1_registers_UART_def has_name_append)

lemma a1_names_GPIO:
  "list_all (has_name a1_registers_734)
    [''GPIO_DATAIN'', ''GPIO_DOUT'', ''GPIO_SETDOUTEN'', ''GPIO_CLRDOUTEN'', ''GPIO_SETINTEN'',
      ''GPIO_CLRINTEN'', ''GPIO_SETINTTYPE'', ''GPIO_CLRINTTYPE'', ''GPIO_SETINTPOL'',
      ''GPIO_CLRINTPOL'', ''GPIO_CLRINTSTAT'']"
  by (simp_all add: has_name_def
    a1_registers_734_def)

lemma a1_named_GPIO: "dangling a1_registers_GPIO GPIO_aliases = []"
  using a1_names_GPIO
  by (simp add: dangling_def GPIO_aliases_def a1_registers_GPIO_def has_name_append)

lemma a1_names_TIMEHS:
  "list_all (has_name a1_registers_2891)
    [''TIMEHS_TIMER1LOAD'', ''TIMEHS_TIMER1VALUE'', ''TIMEHS_TIMER1CONTROL'',
      ''TIMEHS_TIMER1INTCLR'', ''TIMEHS_TIMER1RIS'', ''TIMEHS_TIMER1MIS'', ''TIMEHS_TIMER1BGLOAD'']"
  by (simp_all add: has_name_def
    a1_registers_2891_def)

lemma a1_named_TIMEHS: "dangling a1_registers_TIMEHS TIMEHS_aliases = []"
  using a1_names_TIMEHS
  by (simp add: dangling_def TIMEHS_aliases_def a1_registers_TIMEHS_def has_name_append)

lemma a1_names_WATCHDOG:
  "list_all (has_name a1_registers_3666)
    [''WATCHDOG_WDOGLOAD'', ''WATCHDOG_WDOGVALUE'', ''WATCHDOG_WDOGCONTROL'',
      ''WATCHDOG_WDOGINTCLR'', ''WATCHDOG_WDOGRIS'', ''WATCHDOG_WDOGLOCK'', ''WATCHDOG_WDOGITCR'',
      ''WATCHDOG_WDOGITOP'']"
  by (simp_all add: has_name_def
    a1_registers_3666_def)

lemma a1_named_WATCHDOG: "dangling a1_registers_WATCHDOG WATCHDOG_aliases = []"
  using a1_names_WATCHDOG
  by (simp add: dangling_def WATCHDOG_aliases_def a1_registers_WATCHDOG_def has_name_append)

lemma a1_names_XO:
  "list_all (has_name a1_registers_3708)
    [''XO_OSC_CLKOUT'', ''XO_OSC_ADC_CAL_FREQ2X'', ''XO_OSC_ADC_CAL_FREQ2X_STAT'',
      ''XO_OSC_24_48B_SEL'', ''XO_OSC_TEST'', ''XO_OSC_RC_CAL_RSTB'', ''XO_OSC_RC_CAL_LOAD'',
      ''XO_OSC_RC_CAL_START'', ''XO_OSC_RC_CAL_DONE'', ''XO_OSC_RC_CAL_COUNT'', ''XO_OSC_RC'',
      ''XO_OSC_RC_STATUS'', ''XO_OSC_XTL_TRIMD'', ''XO_OSC_XTL_TRIMG'', ''XO_OSC_XTL_CTRL'',
      ''XO_OSC_XTL_RC_FLTR'', ''XO_OSC_XTL_OVRD'', ''XO_OSC_XTL_OVRD_HOLDB'', ''XO_OSC_XTL_TRIM'',
      ''XO_OSC_XTL_TRIM_STAT'', ''XO_OSC_XTL_FSM_EN'', ''XO_OSC_XTL_FSM'', ''XO_OSC_XTL_FSM_CFG'',
      ''XO_OSC_SETHOLD'', ''XO_OSC_CLRHOLD'']"
  by (simp_all add: has_name_def
    a1_registers_3708_def)

lemma a1_named_XO: "dangling a1_registers_XO XO_aliases = []"
  using a1_names_XO
  by (simp add: dangling_def XO_aliases_def a1_registers_XO_def has_name_append)

lemma a1_names_USB:
  "list_all (has_name a1_registers_3207)
    [''USB_GAHBCFG'', ''USB_GUSBCFG'', ''USB_GRSTCTL'', ''USB_GINTSTS'', ''USB_GINTMSK'',
      ''USB_GRXSTSR'', ''USB_GRXSTSP'', ''USB_GRXFSIZ'', ''USB_GNPTXFSIZ'', ''USB_GGPIO'',
      ''USB_GSNPSID'', ''USB_GHWCFG1'', ''USB_GHWCFG2'', ''USB_GHWCFG3'', ''USB_GHWCFG4'',
      ''USB_GDFIFOCFG'', ''USB_DCFG'', ''USB_DCTL'', ''USB_DSTS'', ''USB_DIEPMSK'', ''USB_DOEPMSK'',
      ''USB_DAINT'']"
  "list_all (has_name a1_registers_3287)
    [''USB_DAINTMSK'', ''USB_DTHRCTL'', ''USB_DIEPEMPMSK'']"
  by (simp_all add: has_name_def
    a1_registers_3207_def a1_registers_3287_def)

lemma a1_named_USB: "dangling a1_registers_USB USB_aliases = []"
  using a1_names_USB
  by (simp add: dangling_def USB_aliases_def a1_registers_USB_def has_name_append)

section \<open>Property\<close>

text \<open>
  C33. The names of registers.h against the tables it includes. The macros of the UARTs, the GPIOs, the
  high-speed timers, the watchdog and the USB controller name registers of the chip; of the 60 macros of
  the power unit 26 and of the 25 of the oscillator 13 name registers that the chip does not have and cannot
  be used. These are the names of revision A, whose tables have a register for every name but one: registers.h
  mixes the two revisions, and no choice of the tables makes all of its names work. The computed addresses are the
  right ones: those of a UART, a GPIO port or a timer module those of its instance, and those of the USB
  endpoints, the transmit FIFOs, the GPIO selectors, the trim banks, the two timers of a module, the
  microsecond timers, the arrays of the key manager and the masked GPIO bytes exactly the registers
  of these names (the masked bytes: of these addresses), in the order of the tables.
\<close>

theorem register_names_checked:
  "dangling registers_PMU PMU_aliases = dangling_PMU \<and> dangling registers_XO XO_aliases = dangling_XO \<and>
   dangling registers_UART UART_aliases = [] \<and> dangling registers_GPIO GPIO_aliases = [] \<and>
   dangling registers_TIMEHS TIMEHS_aliases = [] \<and> dangling registers_WATCHDOG WATCHDOG_aliases = [] \<and>
   dangling registers_USB USB_aliases = [] \<and>
   dangling a1_registers_PMU PMU_aliases = [''GR_PMU_LOW_POWER_DIS''] \<and> dangling a1_registers_XO XO_aliases = [] \<and>
   dangling a1_registers_UART UART_aliases = [] \<and> dangling a1_registers_GPIO GPIO_aliases = [] \<and>
   dangling a1_registers_TIMEHS TIMEHS_aliases = [] \<and> dangling a1_registers_WATCHDOG WATCHDOG_aliases = [] \<and>
   dangling a1_registers_USB USB_aliases = [] \<and>
   (x_uart_addr 0 off = GBASE ''UART0'' + off \<and> x_uart_addr 1 off = GBASE ''UART1'' + off \<and>
    x_uart_addr 2 off = GBASE ''UART2'' + off \<and> GR_GPIO_REG 1 off = GBASE ''GPIO1'' + off \<and>
    x_timehs_addr 1 t off = x_timehs_addr 0 t off + (GBASE ''TIMEHS1'' - GBASE ''TIMEHS0'')) \<and>
   between 0x900 0xb00 (GBASE ''USB0'') registers_USB =
     indices 0 16 (\<lambda>n. map (\<lambda>(s, a). (''USB_'' @ s @ decimal n, a)) (in_endpoint (of_nat n))) \<and>
   between 0xb00 0xd00 (GBASE ''USB0'') registers_USB =
     indices 0 16 (\<lambda>n. map (\<lambda>(s, a). (''USB_'' @ s @ decimal n, a)) (out_endpoint (of_nat n))) \<and>
   between 0x104 0x140 (GBASE ''USB0'') registers_USB =
     indices 1 16 (\<lambda>n. [(''USB_DIEPTXF'' @ decimal n, GR_USB_DIEPTXF (of_nat n))]) \<and>
   between 0xf8 0x178 (GBASE ''PINMUX'') registers_PINMUX =
     indices 0 2 (\<lambda>p. indices 0 16 (\<lambda>b. [(''PINMUX_GPIO'' @ decimal p @ ''_GPIO'' @ decimal b @ ''_SEL'', GET_GPIO_SEL_REG (of_nat p) (of_nat b))])) \<and>
   between 0x34 0x74 (GBASE ''XO0'') registers_XO =
     indices 0 16 (\<lambda>n. [(''XO_CLK_JTR_JITTERY_TRIM_BANK'' @ decimal n, GR_XO_JTR_JITTERY_TRIM_BANK (of_nat n))]) \<and>
   between 0x0 0x40 (GBASE ''TIMEHS0'') registers_TIMEHS =
     indices 1 3 (\<lambda>t. map (\<lambda>(s, a). (''TIMEHS_TIMER'' @ decimal t @ s, x_timehs_addr 0 (of_nat t) a)) timer_registers) \<and>
   map reg_name (filter (\<lambda>r. 0x100 \<le> reg_offset r) registers_TIMEUS) =
     concat (map (\<lambda>t. map (timeus_name t) timeus_macros) [0..<4]) \<and>
   between 0x2c 0x4c (GBASE ''KEYMGR'') registers_KEYMGR @ between 0x50 0x60 (GBASE ''KEYMGR'') registers_KEYMGR @
   between 0x80 0xb0 (GBASE ''KEYMGR'') registers_KEYMGR @ between 0x444 0x464 (GBASE ''KEYMGR'') registers_KEYMGR @
   between 0x3300 0x3320 (GBASE ''KEYMGR'') registers_KEYMGR = concat (map keymgr_family keymgr_families) \<and>
   map snd (between 0x400 0x800 (GBASE ''GPIO0'') registers_GPIO) = map (\<lambda>k. GR_GPIO_MASKLOWBYTE 0 (of_nat k)) [0..<256] \<and>
   map snd (between 0x800 0xc00 (GBASE ''GPIO0'') registers_GPIO) = map (\<lambda>k. GR_GPIO_MASKHIGHBYTE 0 (of_nat k)) [0..<256]"
  by (intro conjI named_PMU named_XO named_UART named_GPIO named_TIMEHS named_WATCHDOG named_USB
    uart_instances gpio_instances in_endpoints out_endpoints transmit_fifos gpio_selectors trim_banks timers
    a1_named_PMU a1_named_XO a1_named_UART a1_named_GPIO a1_named_TIMEHS a1_named_WATCHDOG a1_named_USB
    timeus_registers keymgr_registers gpio_masks)

end
