(* ===== verification/Interrupts.thy ===== *)
theory Interrupts
  imports FlashLayout
begin

text \<open>
  The exceptions and interrupts of the two revisions of the chip (chip/c/hw_a1_regdefs.h,
  hw_b1_regdefs.h): \<open>GC_EXCEPTNUM_*\<close> and \<open>GC_IRQNUM_*\<close>, in the order of the headers and
  without the prefixes, and the number of interrupts that the configuration (config_chip.h) makes of them.
\<close>

section \<open>Numbers\<close>

definition exception_numbers_149 :: "(string \<times> int) list" where
  "exception_numbers_149 = [
    (''RESET'', 0x1), (''NMI'', 0x2), (''HARDFAULT'', 0x3), (''MEMORYMANAGEMENT'', 0x4), (''BUSFAULT'', 0x5),
    (''USAGEFAULT'', 0x6), (''RESERVED7'', 0x7), (''RESERVED8'', 0x8), (''RESERVED9'', 0x9), (''RESERVED10'',
    0xa), (''SVCALL'', 0xb), (''DEBUGMONITOR'', 0xc), (''RESERVED13'', 0xd), (''PENDSV'', 0xe), (''SYSTICK'',
    0xf), (''CRYPTO0_BREAK_INT'', 0x10), (''CRYPTO0_DMEM_PTRS_OVERFLOW_INT'', 0x11),
    (''CRYPTO0_DONE_WIPE_SECRETS_INT'', 0x12), (''CRYPTO0_DRF_PTRS_OVERFLOW_INT'', 0x13),
    (''CRYPTO0_HOST_CMD_DONE_INT'', 0x14), (''CRYPTO0_HOST_CMD_RECV_INT'', 0x15),
    (''CRYPTO0_LOOP_STACK_OVERFLOW_INT'', 0x16), (''CRYPTO0_LOOP_STACK_UNDERFLOW_INT'', 0x17),
    (''CRYPTO0_MOD_OPERAND_OUT_OF_RANGE_INT'', 0x18), (''CRYPTO0_PC_STACK_OVERFLOW_INT'', 0x19),
    (''CRYPTO0_PGM_FAULT_INT'', 0x1a), (''CRYPTO0_TRAP_INT'', 0x1b), (''DMA0_INTR_COMPLETE_CHAN_INT'', 0x1c),
    (''DMA0_INTR_ERROR_CHAN_INT'', 0x1d), (''DMA0_INTR_PROG_CHAN_INT'', 0x1e),
    (''DMA0_INTR_TIMEOUT_CHAN_INT'', 0x1f), (''FLASH0_EDONEINT'', 0x20), (''FLASH0_PDONEINT'', 0x21),
    (''GLOBALSEC_CAMO0_BREACH_ALERT_INT'', 0x22), (''GLOBALSEC_CRYPTO0_DMEM_PARITY_ALERT_INT'', 0x23),
    (''GLOBALSEC_CRYPTO0_DRF_PARITY_ALERT_INT'', 0x24), (''GLOBALSEC_CRYPTO0_IMEM_PARITY_ALERT_INT'', 0x25),
    (''GLOBALSEC_CRYPTO0_PGM_FAULT_ALERT_INT'', 0x26), (''GLOBALSEC_DBCTRL_CPU0_D_IF_BUS_ERR_ALERT_INT'',
    0x27), (''GLOBALSEC_DBCTRL_CPU0_D_IF_UPDATE_WATCHDOG_ALERT_INT'', 0x28),
    (''GLOBALSEC_DBCTRL_CPU0_I_IF_BUS_ERR_ALERT_INT'', 0x29),
    (''GLOBALSEC_DBCTRL_CPU0_I_IF_UPDATE_WATCHDOG_ALERT_INT'', 0x2a),
    (''GLOBALSEC_DBCTRL_CPU0_S_IF_BUS_ERR_ALERT_INT'', 0x2b),
    (''GLOBALSEC_DBCTRL_CPU0_S_IF_UPDATE_WATCHDOG_ALERT_INT'', 0x2c),
    (''GLOBALSEC_DBCTRL_DDMA0_IF_BUS_ERR_ALERT_INT'', 0x2d),
    (''GLOBALSEC_DBCTRL_DDMA0_IF_UPDATE_WATCHDOG_ALERT_INT'', 0x2e),
    (''GLOBALSEC_DBCTRL_DSPS0_IF_BUS_ERR_ALERT_INT'', 0x2f),
    (''GLOBALSEC_DBCTRL_DSPS0_IF_UPDATE_WATCHDOG_ALERT_INT'', 0x30),
    (''GLOBALSEC_DBCTRL_DUSB0_IF_BUS_ERR_ALERT_INT'', 0x31),
    (''GLOBALSEC_DBCTRL_DUSB0_IF_UPDATE_WATCHDOG_ALERT_INT'', 0x32),
    (''GLOBALSEC_FUSE0_FUSE_DEFAULTS_ALERT_INT'', 0x33), (''GLOBALSEC_GLOBALSEC_ALERT_GROUPA_INT'', 0x34),
    (''GLOBALSEC_GLOBALSEC_ALERT_GROUPB_INT'', 0x35), (''GLOBALSEC_GLOBALSEC_ALERT_GROUPC_INT'', 0x36),
    (''GLOBALSEC_GLOBALSEC_DIFF_FAIL_ALERT_INT'', 0x37), (''GLOBALSEC_GLOBALSEC_FW0_ALERT_INT'', 0x38),
    (''GLOBALSEC_GLOBALSEC_FW1_ALERT_INT'', 0x39), (''GLOBALSEC_GLOBALSEC_FW2_ALERT_INT'', 0x3a),
    (''GLOBALSEC_GLOBALSEC_FW3_ALERT_INT'', 0x3b), (''GLOBALSEC_GLOBALSEC_HEARTBEAT_FAIL_ALERT_INT'', 0x3c),
    (''GLOBALSEC_GLOBALSEC_PROC_OPCODE_HASH_ALERT_INT'', 0x3d),
    (''GLOBALSEC_GLOBALSEC_SRAM_PARITY_SCRUB_ALERT_INT'', 0x3e),
    (''GLOBALSEC_KEYMGR0_AES_EXEC_CTR_MAX_ALERT_INT'', 0x3f), (''GLOBALSEC_KEYMGR0_AES_HKEY_ALERT_INT'',
    0x40), (''GLOBALSEC_KEYMGR0_CERT_LOOKUP_ALERT_INT'', 0x41), (''GLOBALSEC_KEYMGR0_FLASH_ENTRY_ALERT_INT'',
    0x42), (''GLOBALSEC_KEYMGR0_PW_ALERT_INT'', 0x43), (''GLOBALSEC_KEYMGR0_SHA_EXEC_CTR_MAX_ALERT_INT'',
    0x44), (''GLOBALSEC_KEYMGR0_SHA_FAULT_ALERT_INT'', 0x45), (''GLOBALSEC_KEYMGR0_SHA_HKEY_ALERT_INT'',
    0x46), (''GLOBALSEC_PMU_BATTERY_MON_ALERT_INT'', 0x47), (''GLOBALSEC_PMU_PMU_WDOG_ALERT_INT'', 0x48),
    (''GLOBALSEC_RTC0_RTC_DEAD_ALERT_INT'', 0x49), (''GLOBALSEC_TEMP0_MAX_TEMP_ALERT_INT'', 0x4a),
    (''GLOBALSEC_TEMP0_MAX_TEMP_DIFF_ALERT_INT'', 0x4b), (''GLOBALSEC_TEMP0_MIN_TEMP_ALERT_INT'', 0x4c),
    (''GLOBALSEC_TRNG0_OUT_OF_SPEC_ALERT_INT'', 0x4d), (''GLOBALSEC_TRNG0_TIMEOUT_ALERT_INT'', 0x4e),
    (''GLOBALSEC_VOLT0_VOLT_ERR_ALERT_INT'', 0x4f), (''GLOBALSEC_XO0_JITTERY_TRIM_DIS_ALERT_INT'', 0x50),
    (''GPIO0_GPIO0INT'', 0x51), (''GPIO0_GPIO1INT'', 0x52), (''GPIO0_GPIO2INT'', 0x53), (''GPIO0_GPIO3INT'',
    0x54), (''GPIO0_GPIO4INT'', 0x55), (''GPIO0_GPIO5INT'', 0x56), (''GPIO0_GPIO6INT'', 0x57),
    (''GPIO0_GPIO7INT'', 0x58), (''GPIO0_GPIO8INT'', 0x59), (''GPIO0_GPIO9INT'', 0x5a), (''GPIO0_GPIO10INT'',
    0x5b), (''GPIO0_GPIO11INT'', 0x5c), (''GPIO0_GPIO12INT'', 0x5d), (''GPIO0_GPIO13INT'', 0x5e),
    (''GPIO0_GPIO14INT'', 0x5f), (''GPIO0_GPIO15INT'', 0x60), (''GPIO0_GPIOCOMBINT'', 0x61),
    (''GPIO1_GPIO0INT'', 0x62), (''GPIO1_GPIO1INT'', 0x63), (''GPIO1_GPIO2INT'', 0x64), (''GPIO1_GPIO3INT'',
    0x65), (''GPIO1_GPIO4INT'', 0x66), (''GPIO1_GPIO5INT'', 0x67), (''GPIO1_GPIO6INT'', 0x68),
    (''GPIO1_GPIO7INT'', 0x69), (''GPIO1_GPIO8INT'', 0x6a), (''GPIO1_GPIO9INT'', 0x6b), (''GPIO1_GPIO10INT'',
    0x6c), (''GPIO1_GPIO11INT'', 0x6d), (''GPIO1_GPIO12INT'', 0x6e), (''GPIO1_GPIO13INT'', 0x6f),
    (''GPIO1_GPIO14INT'', 0x70), (''GPIO1_GPIO15INT'', 0x71), (''GPIO1_GPIOCOMBINT'', 0x72), (''I2C0_I2CINT'',
    0x73), (''I2C1_I2CINT'', 0x74), (''I2CS0_INTR_READ_BEGIN_INT'', 0x75), (''I2CS0_INTR_READ_COMPLETE_INT'',
    0x76), (''I2CS0_INTR_WRITE_COMPLETE_INT'', 0x77), (''KEYMGR0_AES_DONE_CIPHER_INT'', 0x78),
    (''KEYMGR0_AES_DONE_KEYEXPANSION_INT'', 0x79), (''KEYMGR0_AES_DONE_WIPE_SECRETS_INT'', 0x7a),
    (''KEYMGR0_AES_RFIFO_OVERFLOW_INT'', 0x7b), (''KEYMGR0_AES_RFIFO_UNDERFLOW_INT'', 0x7c),
    (''KEYMGR0_AES_WFIFO_OVERFLOW_INT'', 0x7d), (''KEYMGR0_DSHA_INT'', 0x7e), (''KEYMGR0_SHA_WFIFO_FULL_INT'',
    0x7f), (''PMU_INTR_WAKEUP_INT'', 0x80), (''RBOX0_INTR_AC_PRESENT_FED_INT'', 0x81),
    (''RBOX0_INTR_AC_PRESENT_RED_INT'', 0x82), (''RBOX0_INTR_BUTTON_COMBO0_RDY_INT'', 0x83),
    (''RBOX0_INTR_BUTTON_COMBO1_RDY_INT'', 0x84), (''RBOX0_INTR_BUTTON_COMBO2_RDY_INT'', 0x85),
    (''RBOX0_INTR_EC_RST_FED_INT'', 0x86), (''RBOX0_INTR_EC_RST_RED_INT'', 0x87),
    (''RBOX0_INTR_KEY0_IN_FED_INT'', 0x88), (''RBOX0_INTR_KEY0_IN_RED_INT'', 0x89),
    (''RBOX0_INTR_KEY1_IN_FED_INT'', 0x8a), (''RBOX0_INTR_KEY1_IN_RED_INT'', 0x8b),
    (''RBOX0_INTR_PWRB_IN_FED_INT'', 0x8c), (''RBOX0_INTR_PWRB_IN_RED_INT'', 0x8d),
    (''RDD0_INTR_DEBUG_STATE_DETECTED_INT'', 0x8e), (''SPI0_SPITXINT'', 0x8f), (''SPI1_SPITXINT'', 0x90),
    (''SPS0_CS_ASSERT_INTR'', 0x91)]"

definition exception_numbers_294 :: "(string \<times> int) list" where
  "exception_numbers_294 = [
    (''SPS0_CS_DEASSERT_INTR'', 0x92), (''SPS0_INTR_CMD_ADDR_FIFO_NOT_EMPTY_INT'', 0x93),
    (''SPS0_INTR_CMD_ADDR_FIFO_OVFL_INT'', 0x94), (''SPS0_INTR_CMD_MEM_OVFL_INT'', 0x95),
    (''SPS0_INTR_RAM_PAGE0_LVL_INT'', 0x96), (''SPS0_INTR_RAM_PAGE1_LVL_INT'', 0x97),
    (''SPS0_INTR_RAM_PAGE2_LVL_INT'', 0x98), (''SPS0_INTR_RAM_PAGE3_LVL_INT'', 0x99),
    (''SPS0_RXFIFO_LVL_INTR'', 0x9a), (''SPS0_RXFIFO_OVERFLOW_INTR'', 0x9b), (''SPS0_SPSCTRLINT0'', 0x9c),
    (''SPS0_SPSCTRLINT1'', 0x9d), (''SPS0_SPSCTRLINT2'', 0x9e), (''SPS0_SPSCTRLINT3'', 0x9f),
    (''SPS0_SPSCTRLINT4'', 0xa0), (''SPS0_SPSCTRLINT5'', 0xa1), (''SPS0_SPSCTRLINT6'', 0xa2),
    (''SPS0_SPSCTRLINT7'', 0xa3), (''SPS0_TXFIFO_EMPTY_INTR'', 0xa4), (''SPS0_TXFIFO_FULL_INTR'', 0xa5),
    (''SPS0_TXFIFO_LVL_INTR'', 0xa6), (''TEMP0_ADC_ICLKDV_INT'', 0xa7), (''TEMP0_COMP_OVERFLOW_INT'', 0xa8),
    (''TIMEHS0_TIMINT1'', 0xa9), (''TIMEHS0_TIMINT2'', 0xaa), (''TIMEHS0_TIMINTC'', 0xab),
    (''TIMEHS1_TIMINT1'', 0xac), (''TIMEHS1_TIMINT2'', 0xad), (''TIMEHS1_TIMINTC'', 0xae),
    (''TIMELS0_TIMINT0'', 0xaf), (''TIMELS0_TIMINT1'', 0xb0), (''TIMEUS0_INTR_MAX_COUNT_HIT0_INT'', 0xb1),
    (''TIMEUS0_INTR_MAX_COUNT_HIT1_INT'', 0xb2), (''TIMEUS0_INTR_MAX_COUNT_HIT2_INT'', 0xb3),
    (''TIMEUS0_INTR_MAX_COUNT_HIT3_INT'', 0xb4), (''TIMEUS0_INTR_PROG_COUNT_HIT0_INT'', 0xb5),
    (''TIMEUS0_INTR_PROG_COUNT_HIT1_INT'', 0xb6), (''TIMEUS0_INTR_PROG_COUNT_HIT2_INT'', 0xb7),
    (''TIMEUS0_INTR_PROG_COUNT_HIT3_INT'', 0xb8), (''TRNG0_INTR_BUFFER_FULL_INT'', 0xb9),
    (''TRNG0_INTR_ONE_SHOT_DONE_INT'', 0xba), (''TRNG0_INTR_READ_EMPTY_INT'', 0xbb), (''UART0_RXBINT'', 0xbc),
    (''UART0_RXFINT'', 0xbd), (''UART0_RXINT'', 0xbe), (''UART0_RXOVINT'', 0xbf), (''UART0_RXTOINT'', 0xc0),
    (''UART0_TXINT'', 0xc1), (''UART0_TXOVINT'', 0xc2), (''UART1_RXBINT'', 0xc3), (''UART1_RXFINT'', 0xc4),
    (''UART1_RXINT'', 0xc5), (''UART1_RXOVINT'', 0xc6), (''UART1_RXTOINT'', 0xc7), (''UART1_TXINT'', 0xc8),
    (''UART1_TXOVINT'', 0xc9), (''UART2_RXBINT'', 0xca), (''UART2_RXFINT'', 0xcb), (''UART2_RXINT'', 0xcc),
    (''UART2_RXOVINT'', 0xcd), (''UART2_RXTOINT'', 0xce), (''UART2_TXINT'', 0xcf), (''UART2_TXOVINT'', 0xd0),
    (''USB0_USBINTR'', 0xd1), (''WATCHDOG0_WDOGINT'', 0xd2), (''XO0_CLK_JTR_NOP_SEEN_INT'', 0xd3),
    (''XO0_CLK_JTR_SW_TRIM_DONE_INT'', 0xd4), (''XO0_CLK_TIMER_NOP_SEEN_INT'', 0xd5),
    (''XO0_CLK_TIMER_SW_TRIM_DONE_INT'', 0xd6), (''XO0_FAST_CALIB_OVERFLOW_INT'', 0xd7),
    (''XO0_FAST_CALIB_UNDERRUN_INT'', 0xd8), (''XO0_SLOW_CALIB_OVERFLOW_INT'', 0xd9),
    (''XO0_SLOW_CALIB_UNDERRUN_INT'', 0xda)]"

definition exception_numbers :: "(string \<times> int) list" where
  "exception_numbers = exception_numbers_149 @ exception_numbers_294"

definition interrupt_numbers_368 :: "(string \<times> int) list" where
  "interrupt_numbers_368 = [
    (''RESET'', 0), (''NMI'', 0), (''HARDFAULT'', 0), (''MEMORYMANAGEMENT'', 0), (''BUSFAULT'', 0),
    (''USAGEFAULT'', 0), (''RESERVED7'', 0), (''RESERVED8'', 0), (''RESERVED9'', 0), (''RESERVED10'', 0),
    (''SVCALL'', 0), (''DEBUGMONITOR'', 0), (''RESERVED13'', 0), (''PENDSV'', 0), (''SYSTICK'', 0),
    (''CRYPTO0_BREAK_INT'', 0), (''CRYPTO0_DMEM_PTRS_OVERFLOW_INT'', 1), (''CRYPTO0_DONE_WIPE_SECRETS_INT'',
    2), (''CRYPTO0_DRF_PTRS_OVERFLOW_INT'', 3), (''CRYPTO0_HOST_CMD_DONE_INT'', 4),
    (''CRYPTO0_HOST_CMD_RECV_INT'', 5), (''CRYPTO0_LOOP_STACK_OVERFLOW_INT'', 6),
    (''CRYPTO0_LOOP_STACK_UNDERFLOW_INT'', 7), (''CRYPTO0_MOD_OPERAND_OUT_OF_RANGE_INT'', 8),
    (''CRYPTO0_PC_STACK_OVERFLOW_INT'', 9), (''CRYPTO0_PGM_FAULT_INT'', 10), (''CRYPTO0_TRAP_INT'', 11),
    (''DMA0_INTR_COMPLETE_CHAN_INT'', 12), (''DMA0_INTR_ERROR_CHAN_INT'', 13), (''DMA0_INTR_PROG_CHAN_INT'',
    14), (''DMA0_INTR_TIMEOUT_CHAN_INT'', 15), (''FLASH0_EDONEINT'', 16), (''FLASH0_PDONEINT'', 17),
    (''GLOBALSEC_CAMO0_BREACH_ALERT_INT'', 18), (''GLOBALSEC_CRYPTO0_DMEM_PARITY_ALERT_INT'', 19),
    (''GLOBALSEC_CRYPTO0_DRF_PARITY_ALERT_INT'', 20), (''GLOBALSEC_CRYPTO0_IMEM_PARITY_ALERT_INT'', 21),
    (''GLOBALSEC_CRYPTO0_PGM_FAULT_ALERT_INT'', 22), (''GLOBALSEC_DBCTRL_CPU0_D_IF_BUS_ERR_ALERT_INT'', 23),
    (''GLOBALSEC_DBCTRL_CPU0_D_IF_UPDATE_WATCHDOG_ALERT_INT'', 24),
    (''GLOBALSEC_DBCTRL_CPU0_I_IF_BUS_ERR_ALERT_INT'', 25),
    (''GLOBALSEC_DBCTRL_CPU0_I_IF_UPDATE_WATCHDOG_ALERT_INT'', 26),
    (''GLOBALSEC_DBCTRL_CPU0_S_IF_BUS_ERR_ALERT_INT'', 27),
    (''GLOBALSEC_DBCTRL_CPU0_S_IF_UPDATE_WATCHDOG_ALERT_INT'', 28),
    (''GLOBALSEC_DBCTRL_DDMA0_IF_BUS_ERR_ALERT_INT'', 29),
    (''GLOBALSEC_DBCTRL_DDMA0_IF_UPDATE_WATCHDOG_ALERT_INT'', 30),
    (''GLOBALSEC_DBCTRL_DSPS0_IF_BUS_ERR_ALERT_INT'', 31),
    (''GLOBALSEC_DBCTRL_DSPS0_IF_UPDATE_WATCHDOG_ALERT_INT'', 32),
    (''GLOBALSEC_DBCTRL_DUSB0_IF_BUS_ERR_ALERT_INT'', 33),
    (''GLOBALSEC_DBCTRL_DUSB0_IF_UPDATE_WATCHDOG_ALERT_INT'', 34),
    (''GLOBALSEC_FUSE0_FUSE_DEFAULTS_ALERT_INT'', 35), (''GLOBALSEC_GLOBALSEC_ALERT_GROUPA_INT'', 36),
    (''GLOBALSEC_GLOBALSEC_ALERT_GROUPB_INT'', 37), (''GLOBALSEC_GLOBALSEC_ALERT_GROUPC_INT'', 38),
    (''GLOBALSEC_GLOBALSEC_DIFF_FAIL_ALERT_INT'', 39), (''GLOBALSEC_GLOBALSEC_FW0_ALERT_INT'', 40),
    (''GLOBALSEC_GLOBALSEC_FW1_ALERT_INT'', 41), (''GLOBALSEC_GLOBALSEC_FW2_ALERT_INT'', 42),
    (''GLOBALSEC_GLOBALSEC_FW3_ALERT_INT'', 43), (''GLOBALSEC_GLOBALSEC_HEARTBEAT_FAIL_ALERT_INT'', 44),
    (''GLOBALSEC_GLOBALSEC_PROC_OPCODE_HASH_ALERT_INT'', 45),
    (''GLOBALSEC_GLOBALSEC_SRAM_PARITY_SCRUB_ALERT_INT'', 46),
    (''GLOBALSEC_KEYMGR0_AES_EXEC_CTR_MAX_ALERT_INT'', 47), (''GLOBALSEC_KEYMGR0_AES_HKEY_ALERT_INT'', 48),
    (''GLOBALSEC_KEYMGR0_CERT_LOOKUP_ALERT_INT'', 49), (''GLOBALSEC_KEYMGR0_FLASH_ENTRY_ALERT_INT'', 50),
    (''GLOBALSEC_KEYMGR0_PW_ALERT_INT'', 51), (''GLOBALSEC_KEYMGR0_SHA_EXEC_CTR_MAX_ALERT_INT'', 52),
    (''GLOBALSEC_KEYMGR0_SHA_FAULT_ALERT_INT'', 53), (''GLOBALSEC_KEYMGR0_SHA_HKEY_ALERT_INT'', 54),
    (''GLOBALSEC_PMU_BATTERY_MON_ALERT_INT'', 55), (''GLOBALSEC_PMU_PMU_WDOG_ALERT_INT'', 56),
    (''GLOBALSEC_RTC0_RTC_DEAD_ALERT_INT'', 57), (''GLOBALSEC_TEMP0_MAX_TEMP_ALERT_INT'', 58),
    (''GLOBALSEC_TEMP0_MAX_TEMP_DIFF_ALERT_INT'', 59), (''GLOBALSEC_TEMP0_MIN_TEMP_ALERT_INT'', 60),
    (''GLOBALSEC_TRNG0_OUT_OF_SPEC_ALERT_INT'', 61), (''GLOBALSEC_TRNG0_TIMEOUT_ALERT_INT'', 62),
    (''GLOBALSEC_VOLT0_VOLT_ERR_ALERT_INT'', 63), (''GLOBALSEC_XO0_JITTERY_TRIM_DIS_ALERT_INT'', 64),
    (''GPIO0_GPIO0INT'', 65), (''GPIO0_GPIO1INT'', 66), (''GPIO0_GPIO2INT'', 67), (''GPIO0_GPIO3INT'', 68),
    (''GPIO0_GPIO4INT'', 69), (''GPIO0_GPIO5INT'', 70), (''GPIO0_GPIO6INT'', 71), (''GPIO0_GPIO7INT'', 72),
    (''GPIO0_GPIO8INT'', 73), (''GPIO0_GPIO9INT'', 74), (''GPIO0_GPIO10INT'', 75), (''GPIO0_GPIO11INT'', 76),
    (''GPIO0_GPIO12INT'', 77), (''GPIO0_GPIO13INT'', 78), (''GPIO0_GPIO14INT'', 79), (''GPIO0_GPIO15INT'',
    80), (''GPIO0_GPIOCOMBINT'', 81), (''GPIO1_GPIO0INT'', 82), (''GPIO1_GPIO1INT'', 83), (''GPIO1_GPIO2INT'',
    84), (''GPIO1_GPIO3INT'', 85), (''GPIO1_GPIO4INT'', 86), (''GPIO1_GPIO5INT'', 87), (''GPIO1_GPIO6INT'',
    88), (''GPIO1_GPIO7INT'', 89), (''GPIO1_GPIO8INT'', 90), (''GPIO1_GPIO9INT'', 91), (''GPIO1_GPIO10INT'',
    92), (''GPIO1_GPIO11INT'', 93), (''GPIO1_GPIO12INT'', 94), (''GPIO1_GPIO13INT'', 95),
    (''GPIO1_GPIO14INT'', 96), (''GPIO1_GPIO15INT'', 97), (''GPIO1_GPIOCOMBINT'', 98), (''I2C0_I2CINT'', 99),
    (''I2C1_I2CINT'', 100), (''I2CS0_INTR_READ_BEGIN_INT'', 101), (''I2CS0_INTR_READ_COMPLETE_INT'', 102),
    (''I2CS0_INTR_WRITE_COMPLETE_INT'', 103), (''KEYMGR0_AES_DONE_CIPHER_INT'', 104),
    (''KEYMGR0_AES_DONE_KEYEXPANSION_INT'', 105), (''KEYMGR0_AES_DONE_WIPE_SECRETS_INT'', 106),
    (''KEYMGR0_AES_RFIFO_OVERFLOW_INT'', 107), (''KEYMGR0_AES_RFIFO_UNDERFLOW_INT'', 108),
    (''KEYMGR0_AES_WFIFO_OVERFLOW_INT'', 109), (''KEYMGR0_DSHA_INT'', 110), (''KEYMGR0_SHA_WFIFO_FULL_INT'',
    111), (''PMU_INTR_WAKEUP_INT'', 112), (''RBOX0_INTR_AC_PRESENT_FED_INT'', 113),
    (''RBOX0_INTR_AC_PRESENT_RED_INT'', 114), (''RBOX0_INTR_BUTTON_COMBO0_RDY_INT'', 115),
    (''RBOX0_INTR_BUTTON_COMBO1_RDY_INT'', 116), (''RBOX0_INTR_BUTTON_COMBO2_RDY_INT'', 117),
    (''RBOX0_INTR_EC_RST_FED_INT'', 118), (''RBOX0_INTR_EC_RST_RED_INT'', 119),
    (''RBOX0_INTR_KEY0_IN_FED_INT'', 120), (''RBOX0_INTR_KEY0_IN_RED_INT'', 121),
    (''RBOX0_INTR_KEY1_IN_FED_INT'', 122), (''RBOX0_INTR_KEY1_IN_RED_INT'', 123),
    (''RBOX0_INTR_PWRB_IN_FED_INT'', 124), (''RBOX0_INTR_PWRB_IN_RED_INT'', 125),
    (''RDD0_INTR_DEBUG_STATE_DETECTED_INT'', 126), (''SPI0_SPITXINT'', 127), (''SPI1_SPITXINT'', 128),
    (''SPS0_CS_ASSERT_INTR'', 129)]"

definition interrupt_numbers_513 :: "(string \<times> int) list" where
  "interrupt_numbers_513 = [
    (''SPS0_CS_DEASSERT_INTR'', 130), (''SPS0_INTR_CMD_ADDR_FIFO_NOT_EMPTY_INT'', 131),
    (''SPS0_INTR_CMD_ADDR_FIFO_OVFL_INT'', 132), (''SPS0_INTR_CMD_MEM_OVFL_INT'', 133),
    (''SPS0_INTR_RAM_PAGE0_LVL_INT'', 134), (''SPS0_INTR_RAM_PAGE1_LVL_INT'', 135),
    (''SPS0_INTR_RAM_PAGE2_LVL_INT'', 136), (''SPS0_INTR_RAM_PAGE3_LVL_INT'', 137), (''SPS0_RXFIFO_LVL_INTR'',
    138), (''SPS0_RXFIFO_OVERFLOW_INTR'', 139), (''SPS0_SPSCTRLINT0'', 140), (''SPS0_SPSCTRLINT1'', 141),
    (''SPS0_SPSCTRLINT2'', 142), (''SPS0_SPSCTRLINT3'', 143), (''SPS0_SPSCTRLINT4'', 144),
    (''SPS0_SPSCTRLINT5'', 145), (''SPS0_SPSCTRLINT6'', 146), (''SPS0_SPSCTRLINT7'', 147),
    (''SPS0_TXFIFO_EMPTY_INTR'', 148), (''SPS0_TXFIFO_FULL_INTR'', 149), (''SPS0_TXFIFO_LVL_INTR'', 150),
    (''TEMP0_ADC_ICLKDV_INT'', 151), (''TEMP0_COMP_OVERFLOW_INT'', 152), (''TIMEHS0_TIMINT1'', 153),
    (''TIMEHS0_TIMINT2'', 154), (''TIMEHS0_TIMINTC'', 155), (''TIMEHS1_TIMINT1'', 156), (''TIMEHS1_TIMINT2'',
    157), (''TIMEHS1_TIMINTC'', 158), (''TIMELS0_TIMINT0'', 159), (''TIMELS0_TIMINT1'', 160),
    (''TIMEUS0_INTR_MAX_COUNT_HIT0_INT'', 161), (''TIMEUS0_INTR_MAX_COUNT_HIT1_INT'', 162),
    (''TIMEUS0_INTR_MAX_COUNT_HIT2_INT'', 163), (''TIMEUS0_INTR_MAX_COUNT_HIT3_INT'', 164),
    (''TIMEUS0_INTR_PROG_COUNT_HIT0_INT'', 165), (''TIMEUS0_INTR_PROG_COUNT_HIT1_INT'', 166),
    (''TIMEUS0_INTR_PROG_COUNT_HIT2_INT'', 167), (''TIMEUS0_INTR_PROG_COUNT_HIT3_INT'', 168),
    (''TRNG0_INTR_BUFFER_FULL_INT'', 169), (''TRNG0_INTR_ONE_SHOT_DONE_INT'', 170),
    (''TRNG0_INTR_READ_EMPTY_INT'', 171), (''UART0_RXBINT'', 172), (''UART0_RXFINT'', 173), (''UART0_RXINT'',
    174), (''UART0_RXOVINT'', 175), (''UART0_RXTOINT'', 176), (''UART0_TXINT'', 177), (''UART0_TXOVINT'',
    178), (''UART1_RXBINT'', 179), (''UART1_RXFINT'', 180), (''UART1_RXINT'', 181), (''UART1_RXOVINT'', 182),
    (''UART1_RXTOINT'', 183), (''UART1_TXINT'', 184), (''UART1_TXOVINT'', 185), (''UART2_RXBINT'', 186),
    (''UART2_RXFINT'', 187), (''UART2_RXINT'', 188), (''UART2_RXOVINT'', 189), (''UART2_RXTOINT'', 190),
    (''UART2_TXINT'', 191), (''UART2_TXOVINT'', 192), (''USB0_USBINTR'', 193), (''WATCHDOG0_WDOGINT'', 194),
    (''XO0_CLK_JTR_NOP_SEEN_INT'', 195), (''XO0_CLK_JTR_SW_TRIM_DONE_INT'', 196),
    (''XO0_CLK_TIMER_NOP_SEEN_INT'', 197), (''XO0_CLK_TIMER_SW_TRIM_DONE_INT'', 198),
    (''XO0_FAST_CALIB_OVERFLOW_INT'', 199), (''XO0_FAST_CALIB_UNDERRUN_INT'', 200),
    (''XO0_SLOW_CALIB_OVERFLOW_INT'', 201), (''XO0_SLOW_CALIB_UNDERRUN_INT'', 202)]"

definition interrupt_numbers :: "(string \<times> int) list" where
  "interrupt_numbers = interrupt_numbers_368 @ interrupt_numbers_513"

definition a1_exception_numbers :: "(string \<times> int) list" where
  "a1_exception_numbers = [
    (''RESET'', 0x1), (''NMI'', 0x2), (''HARDFAULT'', 0x3), (''MEMORYMANAGEMENT'', 0x4), (''BUSFAULT'', 0x5),
    (''USAGEFAULT'', 0x6), (''RESERVED7'', 0x7), (''RESERVED8'', 0x8), (''RESERVED9'', 0x9), (''RESERVED10'',
    0xa), (''SVCALL'', 0xb), (''DEBUGMONITOR'', 0xc), (''RESERVED13'', 0xd), (''PENDSV'', 0xe), (''SYSTICK'',
    0xf), (''CAMO0_BREACH_INT'', 0x10), (''FLASH0_EDONEINT'', 0x11), (''FLASH0_PDONEINT'', 0x12),
    (''GPIO0_GPIO0INT'', 0x14), (''GPIO0_GPIO1INT'', 0x15), (''GPIO0_GPIO2INT'', 0x16), (''GPIO0_GPIO3INT'',
    0x17), (''GPIO0_GPIO4INT'', 0x18), (''GPIO0_GPIO5INT'', 0x19), (''GPIO0_GPIO6INT'', 0x1a),
    (''GPIO0_GPIO7INT'', 0x1b), (''GPIO0_GPIO8INT'', 0x1c), (''GPIO0_GPIO9INT'', 0x1d), (''GPIO0_GPIO10INT'',
    0x1e), (''GPIO0_GPIO11INT'', 0x1f), (''GPIO0_GPIO12INT'', 0x20), (''GPIO0_GPIO13INT'', 0x21),
    (''GPIO0_GPIO14INT'', 0x22), (''GPIO0_GPIO15INT'', 0x23), (''GPIO0_GPIOCOMBINT'', 0x13),
    (''GPIO1_GPIO0INT'', 0x25), (''GPIO1_GPIO1INT'', 0x26), (''GPIO1_GPIO2INT'', 0x27), (''GPIO1_GPIO3INT'',
    0x28), (''GPIO1_GPIO4INT'', 0x29), (''GPIO1_GPIO5INT'', 0x2a), (''GPIO1_GPIO6INT'', 0x2b),
    (''GPIO1_GPIO7INT'', 0x2c), (''GPIO1_GPIO8INT'', 0x2d), (''GPIO1_GPIO9INT'', 0x2e), (''GPIO1_GPIO10INT'',
    0x2f), (''GPIO1_GPIO11INT'', 0x30), (''GPIO1_GPIO12INT'', 0x31), (''GPIO1_GPIO13INT'', 0x32),
    (''GPIO1_GPIO14INT'', 0x33), (''GPIO1_GPIO15INT'', 0x34), (''GPIO1_GPIOCOMBINT'', 0x24), (''I2C0_I2CINT'',
    0x38), (''I2C1_I2CINT'', 0x39), (''I2CS0_INTR_READ_BEGIN_INT'', 0x35), (''I2CS0_INTR_READ_COMPLETE_INT'',
    0x36), (''I2CS0_INTR_WRITE_COMPLETE_INT'', 0x37), (''PMU_PMUINT'', 0x3a), (''SHA0_DSHA_INT'', 0x3b),
    (''SPI0_SPITXINT'', 0x3c), (''SPS0_REGION0_BUF_LVL'', 0x3f), (''SPS0_REGION1_BUF_LVL'', 0x40),
    (''SPS0_REGION2_BUF_LVL'', 0x41), (''SPS0_REGION3_BUF_LVL'', 0x42), (''SPS0_ROM_CMD_END'', 0x43),
    (''SPS0_ROM_CMD_START'', 0x44), (''SPS0_CS_ASSERT_INTR'', 0x3d), (''SPS0_CS_DEASSERT_INTR'', 0x3e),
    (''SPS0_RXFIFO_LVL_INTR'', 0x45), (''SPS0_RXFIFO_OVERFLOW_INTR'', 0x46), (''SPS0_SPSCTRLINT0'', 0x47),
    (''SPS0_SPSCTRLINT1'', 0x48), (''SPS0_SPSCTRLINT2'', 0x49), (''SPS0_SPSCTRLINT3'', 0x4a),
    (''SPS0_SPSCTRLINT4'', 0x4b), (''SPS0_SPSCTRLINT5'', 0x4c), (''SPS0_SPSCTRLINT6'', 0x4d),
    (''SPS0_SPSCTRLINT7'', 0x4e), (''SPS0_TXFIFO_EMPTY_INTR'', 0x4f), (''SPS0_TXFIFO_FULL_INTR'', 0x50),
    (''SPS0_TXFIFO_LVL_INTR'', 0x51), (''TEMP0_ADC_ICLKDV_INT'', 0x52), (''TEMP0_COMP_OVERFLOW_INT'', 0x53),
    (''TEMP0_MAX_TEMP_DIFF_INT'', 0x54), (''TEMP0_MAX_TEMP_INT'', 0x55), (''TEMP0_MIN_TEMP_INT'', 0x56),
    (''TIMEHS0_TIMINT1'', 0x58), (''TIMEHS0_TIMINT2'', 0x59), (''TIMEHS0_TIMINTC'', 0x57),
    (''TIMEHS1_TIMINT1'', 0x5b), (''TIMEHS1_TIMINT2'', 0x5c), (''TIMEHS1_TIMINTC'', 0x5a),
    (''TIMELS0_TIMINT0'', 0x5d), (''TIMELS0_TIMINT1'', 0x5e), (''TRNG0_INTR_BUFFER_FULL_INT'', 0x5f),
    (''TRNG0_INTR_CALC_DONE_INT'', 0x60), (''TRNG0_INTR_ONE_SHOT_DONE_INT'', 0x61),
    (''TRNG0_INTR_STAT_30_70_INT'', 0x62), (''TRNG0_INTR_STAT_40_60_INT'', 0x63), (''TRNG0_INTR_TIMEOUT_INT'',
    0x64), (''UART0_RXBINT'', 0x65), (''UART0_RXFINT'', 0x66), (''UART0_RXINT'', 0x67), (''UART0_RXOVINT'',
    0x68), (''UART0_RXTOINT'', 0x69), (''UART0_TXINT'', 0x6a), (''UART0_TXOVINT'', 0x6b), (''UART1_RXBINT'',
    0x6c), (''UART1_RXFINT'', 0x6d), (''UART1_RXINT'', 0x6e), (''UART1_RXOVINT'', 0x6f), (''UART1_RXTOINT'',
    0x70), (''UART1_TXINT'', 0x71), (''UART1_TXOVINT'', 0x72), (''UART2_RXBINT'', 0x73), (''UART2_RXFINT'',
    0x74), (''UART2_RXINT'', 0x75), (''UART2_RXOVINT'', 0x76), (''UART2_RXTOINT'', 0x77), (''UART2_TXINT'',
    0x78), (''UART2_TXOVINT'', 0x79), (''USB0_USBINTR'', 0x7a), (''WATCHDOG0_WDOGINT'', 0x7b)]"

definition a1_interrupt_numbers :: "(string \<times> int) list" where
  "a1_interrupt_numbers = [
    (''RESET'', 0), (''NMI'', 0), (''HARDFAULT'', 0), (''MEMORYMANAGEMENT'', 0), (''BUSFAULT'', 0),
    (''USAGEFAULT'', 0), (''RESERVED7'', 0), (''RESERVED8'', 0), (''RESERVED9'', 0), (''RESERVED10'', 0),
    (''SVCALL'', 0), (''DEBUGMONITOR'', 0), (''RESERVED13'', 0), (''PENDSV'', 0), (''SYSTICK'', 0),
    (''CAMO0_BREACH_INT'', 0), (''FLASH0_EDONEINT'', 1), (''FLASH0_PDONEINT'', 2), (''GPIO0_GPIO0INT'', 4),
    (''GPIO0_GPIO1INT'', 5), (''GPIO0_GPIO2INT'', 6), (''GPIO0_GPIO3INT'', 7), (''GPIO0_GPIO4INT'', 8),
    (''GPIO0_GPIO5INT'', 9), (''GPIO0_GPIO6INT'', 10), (''GPIO0_GPIO7INT'', 11), (''GPIO0_GPIO8INT'', 12),
    (''GPIO0_GPIO9INT'', 13), (''GPIO0_GPIO10INT'', 14), (''GPIO0_GPIO11INT'', 15), (''GPIO0_GPIO12INT'', 16),
    (''GPIO0_GPIO13INT'', 17), (''GPIO0_GPIO14INT'', 18), (''GPIO0_GPIO15INT'', 19), (''GPIO0_GPIOCOMBINT'',
    3), (''GPIO1_GPIO0INT'', 21), (''GPIO1_GPIO1INT'', 22), (''GPIO1_GPIO2INT'', 23), (''GPIO1_GPIO3INT'',
    24), (''GPIO1_GPIO4INT'', 25), (''GPIO1_GPIO5INT'', 26), (''GPIO1_GPIO6INT'', 27), (''GPIO1_GPIO7INT'',
    28), (''GPIO1_GPIO8INT'', 29), (''GPIO1_GPIO9INT'', 30), (''GPIO1_GPIO10INT'', 31), (''GPIO1_GPIO11INT'',
    32), (''GPIO1_GPIO12INT'', 33), (''GPIO1_GPIO13INT'', 34), (''GPIO1_GPIO14INT'', 35),
    (''GPIO1_GPIO15INT'', 36), (''GPIO1_GPIOCOMBINT'', 20), (''I2C0_I2CINT'', 40), (''I2C1_I2CINT'', 41),
    (''I2CS0_INTR_READ_BEGIN_INT'', 37), (''I2CS0_INTR_READ_COMPLETE_INT'', 38),
    (''I2CS0_INTR_WRITE_COMPLETE_INT'', 39), (''PMU_PMUINT'', 42), (''SHA0_DSHA_INT'', 43),
    (''SPI0_SPITXINT'', 44), (''SPS0_REGION0_BUF_LVL'', 47), (''SPS0_REGION1_BUF_LVL'', 48),
    (''SPS0_REGION2_BUF_LVL'', 49), (''SPS0_REGION3_BUF_LVL'', 50), (''SPS0_ROM_CMD_END'', 51),
    (''SPS0_ROM_CMD_START'', 52), (''SPS0_CS_ASSERT_INTR'', 45), (''SPS0_CS_DEASSERT_INTR'', 46),
    (''SPS0_RXFIFO_LVL_INTR'', 53), (''SPS0_RXFIFO_OVERFLOW_INTR'', 54), (''SPS0_SPSCTRLINT0'', 55),
    (''SPS0_SPSCTRLINT1'', 56), (''SPS0_SPSCTRLINT2'', 57), (''SPS0_SPSCTRLINT3'', 58), (''SPS0_SPSCTRLINT4'',
    59), (''SPS0_SPSCTRLINT5'', 60), (''SPS0_SPSCTRLINT6'', 61), (''SPS0_SPSCTRLINT7'', 62),
    (''SPS0_TXFIFO_EMPTY_INTR'', 63), (''SPS0_TXFIFO_FULL_INTR'', 64), (''SPS0_TXFIFO_LVL_INTR'', 65),
    (''TEMP0_ADC_ICLKDV_INT'', 66), (''TEMP0_COMP_OVERFLOW_INT'', 67), (''TEMP0_MAX_TEMP_DIFF_INT'', 68),
    (''TEMP0_MAX_TEMP_INT'', 69), (''TEMP0_MIN_TEMP_INT'', 70), (''TIMEHS0_TIMINT1'', 72),
    (''TIMEHS0_TIMINT2'', 73), (''TIMEHS0_TIMINTC'', 71), (''TIMEHS1_TIMINT1'', 75), (''TIMEHS1_TIMINT2'',
    76), (''TIMEHS1_TIMINTC'', 74), (''TIMELS0_TIMINT0'', 77), (''TIMELS0_TIMINT1'', 78),
    (''TRNG0_INTR_BUFFER_FULL_INT'', 79), (''TRNG0_INTR_CALC_DONE_INT'', 80),
    (''TRNG0_INTR_ONE_SHOT_DONE_INT'', 81), (''TRNG0_INTR_STAT_30_70_INT'', 82),
    (''TRNG0_INTR_STAT_40_60_INT'', 83), (''TRNG0_INTR_TIMEOUT_INT'', 84), (''UART0_RXBINT'', 85),
    (''UART0_RXFINT'', 86), (''UART0_RXINT'', 87), (''UART0_RXOVINT'', 88), (''UART0_RXTOINT'', 89),
    (''UART0_TXINT'', 90), (''UART0_TXOVINT'', 91), (''UART1_RXBINT'', 92), (''UART1_RXFINT'', 93),
    (''UART1_RXINT'', 94), (''UART1_RXOVINT'', 95), (''UART1_RXTOINT'', 96), (''UART1_TXINT'', 97),
    (''UART1_TXOVINT'', 98), (''UART2_RXBINT'', 99), (''UART2_RXFINT'', 100), (''UART2_RXINT'', 101),
    (''UART2_RXOVINT'', 102), (''UART2_RXTOINT'', 103), (''UART2_TXINT'', 104), (''UART2_TXOVINT'', 105),
    (''USB0_USBINTR'', 106), (''WATCHDOG0_WDOGINT'', 107)]"

text \<open>The core's own exceptions have the numbers below 16; behind them come the interrupts, from 0 on.\<close>

definition irq_of :: "int \<Rightarrow> int" where
  "irq_of e = max 0 (e - 16)"

lemma interrupt_numbers_of: "interrupt_numbers = map (\<lambda>(n, e). (n, irq_of e)) exception_numbers"
  by (simp add: interrupt_numbers_def exception_numbers_def irq_of_def
    exception_numbers_149_def exception_numbers_294_def interrupt_numbers_368_def interrupt_numbers_513_def)

lemma a1_interrupt_numbers_of: "a1_interrupt_numbers = map (\<lambda>(n, e). (n, irq_of e)) a1_exception_numbers"
  by (simp add: a1_interrupt_numbers_def a1_exception_numbers_def irq_of_def)

lemma exceptions_upto: "map snd exception_numbers = [1..218]"
  by (simp add: exception_numbers_def exception_numbers_149_def exception_numbers_294_def upto_rec1 [of 1 218])

lemma a1_exceptions:
  "distinct (map snd a1_exception_numbers)" "list_all (\<lambda>e. 1 \<le> e \<and> e \<le> 123) (map snd a1_exception_numbers)"
  "length a1_exception_numbers = 123"
  by (simp_all add: a1_exception_numbers_def)

lemma a1_exceptions_set: "set (map snd a1_exception_numbers) = {1..123}"
proof (rule card_subset_eq)
  show "set (map snd a1_exception_numbers) \<subseteq> {1..123}"
    using a1_exceptions(2) by (auto simp only: list_all_iff atLeastAtMost_iff)
  show "card (set (map snd a1_exception_numbers)) = card {1..123 :: int}"
    using a1_exceptions(1,3) distinct_card by fastforce
qed simp

section \<open>Property\<close>

text \<open>The interrupts of revision B, behind the 15 exceptions of the core.\<close>

lemma map_minus_upto: "map (\<lambda>e. e - k) [a..b] = [a - k..b - k :: int]"
  by (rule nth_equalityI) (simp_all add: nth_upto)

lemma interrupts_upto: "map snd (drop 15 interrupt_numbers) = [0..202]"
proof -
  have "map snd interrupt_numbers = map irq_of [1..218]"
    by (simp add: interrupt_numbers_of comp_def case_prod_unfold flip: exceptions_upto)
  then have "map snd (drop 15 interrupt_numbers) = map irq_of (drop 15 [1..218])" by (simp flip: drop_map)
  also have "drop 15 [1..218] = [16..218 :: int]"
    by (subst upto_split1 [of _ 16]) (simp_all)
  also have "map irq_of [16..218] = map (\<lambda>e. e - 16) [16..218]"
    by (auto simp: irq_of_def)
  also have "\<dots> = [16 - 16..218 - 16]" by (rule map_minus_upto)
  also have "\<dots> = [0..202]" by simp
  finally show ?thesis .
qed

text \<open>
  C36. Interrupt numbers. In both revisions every exception has one number, the numbers are those from 1 to
  the count, and the interrupt number is the exception number less 16, or 0 for the core's own
  exceptions (so these names do not tell which exception they are: all of them have the number of the first
  interrupt). When config.h has accepted the chip's configuration with the register definitions in it,
  \<open>CONFIG_IRQ_COUNT\<close> is the number of interrupts, and these have the numbers below it, each one
  once: a table of \<open>CONFIG_IRQ_COUNT\<close> entries has one for each of them.
\<close>

theorem interrupt_numbers_fit:
  assumes "external_headers ext" and "undefined_in build_off s" and "macros s ''__CROS_EC_CONFIG_H'' = None"
    and "run_directives (chip_include ext) config_h s = Inr s'"
    and "macros s' ''GC_INTERRUPTS_COUNT'' = Some (Value (Lit GC_INTERRUPTS_COUNT))"
  shows "macro_value s' ''CONFIG_IRQ_COUNT'' = Some (int (length (filter (\<lambda>(n, e). 16 \<le> e) exception_numbers))) \<and>
    macro_value s' ''CONFIG_IRQ_COUNT'' = Some (int (length (drop 15 interrupt_numbers))) \<and>
    map snd (drop 15 interrupt_numbers) = [0..int (length (drop 15 interrupt_numbers)) - 1] \<and>
    map snd exception_numbers = [1..GC_INTERRUPTS_COUNT] \<and>
    interrupt_numbers = map (\<lambda>(n, e). (n, irq_of e)) exception_numbers \<and>
    distinct (map snd a1_exception_numbers) \<and> set (map snd a1_exception_numbers) = {1..123} \<and>
    a1_interrupt_numbers = map (\<lambda>(n, e). (n, irq_of e)) a1_exception_numbers"
proof -
  have "macros s' ''CONFIG_IRQ_COUNT'' = Some (Value (Sub (Name ''GC_INTERRUPTS_COUNT'') (Lit 15)))"
    using accepted_values [OF assms(1-4)] by (simp add: binds_def layout_values_def)
  with assms(5) have count: "macro_value s' ''CONFIG_IRQ_COUNT'' = Some 203"
    by (simp add: macro_value_def strict2_def EXPANSIONS_def eval_nat_numeral GC_INTERRUPTS_COUNT_def)
  have len: "length (drop 15 interrupt_numbers) = 203"
    using arg_cong [OF interrupts_upto, of length] by simp
  have "length (filter (\<lambda>(n, e). 16 \<le> e) exception_numbers) = length (filter (\<lambda>e. 16 \<le> e) (map snd exception_numbers))"
    by (simp add: filter_map comp_def case_prod_unfold)
  also have "\<dots> = card (set (filter (\<lambda>e. 16 \<le> e) [1..218 :: int]))"
    unfolding exceptions_upto by (rule distinct_card [symmetric]) simp
  also have "set (filter (\<lambda>e. 16 \<le> e) [1..218 :: int]) = {16..218}" by auto
  finally have "length (filter (\<lambda>(n, e). 16 \<le> e) exception_numbers) = 203" by simp
  with count len interrupts_upto exceptions_upto show ?thesis
    using a1_exceptions(1) a1_exceptions_set interrupt_numbers_of a1_interrupt_numbers_of
    by (simp add: GC_INTERRUPTS_COUNT_def)
qed

theorem interrupt_numbers_fit_witness:
  "\<exists>s'. run_directives (chip_include build_headers) config_h bare_build = Inr s' \<and>
     macro_value s' ''CONFIG_IRQ_COUNT'' = Some (int (length (drop 15 interrupt_numbers)))"
proof -
  obtain s' r r' where s': "run_directives (chip_include build_headers) config_h bare_build = Inr s'"
    and r: "build_headers ''hw_b1_regdefs.h'' r = Inr r'" "macros s' ''GC_INTERRUPTS_COUNT'' = macros r' ''GC_INTERRUPTS_COUNT''"
    using build.chip_run [OF bare_build_off] by blast
  from r have "macros s' ''GC_INTERRUPTS_COUNT'' = Some (Value (Lit GC_INTERRUPTS_COUNT))"
    by (auto simp: build_headers_def)
  from interrupt_numbers_fit [OF build.external_headers_axioms bare_build_off s' this] s' show ?thesis by blast
qed

end
