(* ===== verification/PinSelectors.thy ===== *)
theory PinSelectors
  imports RegisterAliases
begin

text \<open>
  The pin multiplexer (chip/c/hw_b1_regdefs.h, registers.h): the numbers by which a pad selects a
  function and a function selects a pad, \<open>GC_PINMUX_*_SEL\<close> without prefix and suffix, the macros that
  compute selector numbers and addresses, and the control bits of the pads.
\<close>

section \<open>Selectors\<close>

text \<open>The pads, by group.\<close>

definition DIOA_selectors :: "(string \<times> int) list" where
  "DIOA_selectors = [
    (''DIOA0'', 0x19), (''DIOA1'', 0x18), (''DIOA2'', 0x17), (''DIOA3'', 0x16), (''DIOA4'', 0x15), (''DIOA5'',
    0x14), (''DIOA6'', 0x13), (''DIOA7'', 0x12), (''DIOA8'', 0x11), (''DIOA9'', 0x10), (''DIOA10'', 0xf),
    (''DIOA11'', 0xe), (''DIOA12'', 0xd), (''DIOA13'', 0xc), (''DIOA14'', 0xb)]"

definition DIOB_selectors :: "(string \<times> int) list" where
  "DIOB_selectors = [
    (''DIOB0'', 0xa), (''DIOB1'', 0x9), (''DIOB2'', 0x8), (''DIOB3'', 0x7), (''DIOB4'', 0x6), (''DIOB5'',
    0x5), (''DIOB6'', 0x4), (''DIOB7'', 0x3)]"

definition DIOM_selectors :: "(string \<times> int) list" where
  "DIOM_selectors = [
    (''DIOM0'', 0x1e), (''DIOM1'', 0x1d), (''DIOM2'', 0x1c), (''DIOM3'', 0x1b), (''DIOM4'', 0x1a)]"

definition VIO_selectors :: "(string \<times> int) list" where
  "VIO_selectors = [
    (''VIO0'', 0x2), (''VIO1'', 0x1)]"

text \<open>The functions that the multiplexer connects to pads.\<close>

definition function_selectors_47 :: "(string \<times> int) list" where
  "function_selectors_47 = [
    (''GPIO0_GPIO0'', 0x1), (''GPIO0_GPIO1'', 0x2), (''GPIO0_GPIO2'', 0x3), (''GPIO0_GPIO3'', 0x4),
    (''GPIO0_GPIO4'', 0x5), (''GPIO0_GPIO5'', 0x6), (''GPIO0_GPIO6'', 0x7), (''GPIO0_GPIO7'', 0x8),
    (''GPIO0_GPIO8'', 0x9), (''GPIO0_GPIO9'', 0xa), (''GPIO0_GPIO10'', 0xb), (''GPIO0_GPIO11'', 0xc),
    (''GPIO0_GPIO12'', 0xd), (''GPIO0_GPIO13'', 0xe), (''GPIO0_GPIO14'', 0xf), (''GPIO0_GPIO15'', 0x10),
    (''GPIO1_GPIO0'', 0x11), (''GPIO1_GPIO1'', 0x12), (''GPIO1_GPIO2'', 0x13), (''GPIO1_GPIO3'', 0x14),
    (''GPIO1_GPIO4'', 0x15), (''GPIO1_GPIO5'', 0x16), (''GPIO1_GPIO6'', 0x17), (''GPIO1_GPIO7'', 0x18),
    (''GPIO1_GPIO8'', 0x19), (''GPIO1_GPIO9'', 0x1a), (''GPIO1_GPIO10'', 0x1b), (''GPIO1_GPIO11'', 0x1c),
    (''GPIO1_GPIO12'', 0x1d), (''GPIO1_GPIO13'', 0x1e), (''GPIO1_GPIO14'', 0x1f), (''GPIO1_GPIO15'', 0x20),
    (''I2C0_SCL'', 0x21), (''I2C0_SDA'', 0x22), (''I2C1_SCL'', 0x23), (''I2C1_SDA'', 0x24), (''I2CS0_SCL'',
    0x25), (''I2CS0_SDA'', 0x26), (''PMU_BROWNOUT_DET'', 0x27), (''PMU_TESTBUS0'', 0x28), (''PMU_TESTBUS1'',
    0x29), (''PMU_TESTBUS2'', 0x2a), (''PMU_TESTBUS3'', 0x2b), (''PMU_TESTBUS4'', 0x2c), (''PMU_TESTBUS5'',
    0x2d), (''PMU_TESTBUS6'', 0x2e), (''PMU_TESTBUS7'', 0x2f), (''RTC0_RTC_CLK_TEST'', 0x30),
    (''SPI1_SPICLK'', 0x31), (''SPI1_SPICSB'', 0x32), (''SPI1_SPIMISO'', 0x33), (''SPI1_SPIMOSI'', 0x34),
    (''SPS0_TESTBUS0'', 0x35), (''SPS0_TESTBUS1'', 0x36), (''SPS0_TESTBUS2'', 0x37), (''SPS0_TESTBUS3'',
    0x38), (''SPS0_TESTBUS4'', 0x39), (''SPS0_TESTBUS5'', 0x3a), (''SPS0_TESTBUS6'', 0x3b),
    (''SPS0_TESTBUS7'', 0x3c), (''TEMP0_TST_ADC_CLK'', 0x3d), (''TEMP0_TST_ADC_HI_SER'', 0x3e),
    (''TEMP0_TST_ADC_LO_SER'', 0x3f), (''TEMP0_TST_ADC_VLD_SER'', 0x40), (''TRNG0_TRNG_RO_DIV'', 0x41),
    (''TRNG0_TRNG_RO_REF_DIV'', 0x42), (''UART0_CTS'', 0x43), (''UART0_RTS'', 0x44), (''UART0_RX'', 0x45),
    (''UART0_TX'', 0x46), (''UART1_CTS'', 0x47), (''UART1_RTS'', 0x48), (''UART1_RX'', 0x49), (''UART1_TX'',
    0x4a), (''UART2_CTS'', 0x4b), (''UART2_RTS'', 0x4c), (''UART2_RX'', 0x4d), (''UART2_TX'', 0x4e),
    (''USB0_EXT_DM_PULLUP_EN'', 0x4f), (''USB0_EXT_DP_RPU1_ENB'', 0x50), (''USB0_EXT_DP_RPU2_ENB'', 0x51),
    (''USB0_EXT_FS_EDGE_SEL'', 0x52), (''USB0_EXT_RX_DMI'', 0x53), (''USB0_EXT_RX_DPI'', 0x54),
    (''USB0_EXT_RX_RCV'', 0x55), (''USB0_EXT_SUSPENDB'', 0x56), (''USB0_EXT_TX_DMO'', 0x57),
    (''USB0_EXT_TX_DPO'', 0x58), (''USB0_EXT_TX_OEB'', 0x59)]"

definition function_selectors_138 :: "(string \<times> int) list" where
  "function_selectors_138 = [
    (''VOLT0_TST_NEG_GLITCH_DET'', 0x5a), (''VOLT0_TST_POS_GLITCH_DET'', 0x5b), (''XO0_TESTBUS0'', 0x5c),
    (''XO0_TESTBUS1'', 0x5d), (''XO0_TESTBUS2'', 0x5e), (''XO0_TESTBUS3'', 0x5f), (''XO0_TESTBUS4'', 0x60),
    (''XO0_TESTBUS5'', 0x61), (''XO0_TESTBUS6'', 0x62), (''XO0_TESTBUS7'', 0x63)]"

definition function_selectors :: "(string \<times> int) list" where
  "function_selectors = function_selectors_47 @ function_selectors_138"

definition pad_selectors :: "(string \<times> int) list" where
  "pad_selectors = DIOM_selectors @ DIOA_selectors @ DIOB_selectors @ VIO_selectors"

definition GC_PINMUX_SEL_COUNT :: int where "GC_PINMUX_SEL_COUNT = 129"

definition GET_GPIO_FUNC :: "int \<Rightarrow> int \<Rightarrow> int" where
  "GET_GPIO_FUNC port bitnum = 0x1 + 16 * port + bitnum"

section \<open>Registers\<close>

text \<open>The address of the selector of a pad or a function, and of the control register behind the selector of a pad.\<close>

definition DIO_SEL_REG :: "u32 \<Rightarrow> u32" where
  "DIO_SEL_REG offset = GBASE ''PINMUX'' + offset"

definition DIO_CTL_REG :: "u32 \<Rightarrow> u32" where
  "DIO_CTL_REG offset = GBASE ''PINMUX'' + 0x4 + offset"

text \<open>The position and the mask of the control bits: those of pad DIOA0, for all pads.\<close>

definition DIO_CTL_bits :: "(string \<times> nat \<times> int) list" where
  "DIO_CTL_bits = [(''IE'', 2, 0x4), (''PD'', 3, 0x8), (''PU'', 4, 0x10)]"

definition sel_name :: "string \<Rightarrow> string" where
  "sel_name n = ''PINMUX_'' @ n @ ''_SEL''"

definition ctl_name :: "string \<Rightarrow> string" where
  "ctl_name n = ''PINMUX_'' @ n @ ''_CTL''"

text \<open>The offset of the selector of the pad in place \<open>i\<close> (that of \<open>RESETB\<close>, which has no number, is 0xe0).\<close>

definition pad_offset :: "int \<Rightarrow> int" where
  "pad_offset v = 8 * (if v \<le> 2 then 31 - v else 30 - v)"

definition pad_registers :: "string \<times> int \<Rightarrow> (string \<times> u32) list" where
  "pad_registers p = [(sel_name (fst p), DIO_SEL_REG (word_of_int (pad_offset (snd p)))),
     (ctl_name (fst p), DIO_CTL_REG (word_of_int (pad_offset (snd p))))]"

lemma pads_counted: "rev (map snd pad_selectors) = [1..30]"
  by (simp add: pad_selectors_def DIOA_selectors_def DIOB_selectors_def DIOM_selectors_def VIO_selectors_def
    upto_rec1 [of 1 30])

lemma functions_counted: "map snd function_selectors = [1..99]"
  by (simp add: function_selectors_def function_selectors_47_def function_selectors_138_def upto_rec1 [of 1 99])

lemma pad_registers_table:
  "between 0 0xe0 (GBASE ''PINMUX'') registers_PINMUX @ between 0xe8 0xf8 (GBASE ''PINMUX'') registers_PINMUX =
     concat (map pad_registers pad_selectors)"
  unfolding between_def registers_PINMUX_def filter_append map_append
  by (simp add: GBASE_simps pad_selectors_def DIOA_selectors_def DIOB_selectors_def DIOM_selectors_def VIO_selectors_def
    pad_registers_def sel_name_def ctl_name_def pad_offset_def DIO_SEL_REG_def DIO_CTL_REG_def
    registers_3652_def registers_3732_def registers_3812_def registers_3892_def registers_3972_def)

lemma function_registers_table:
  "between 0xf8 0x284 (GBASE ''PINMUX'') registers_PINMUX =
     map (\<lambda>(n, v). (sel_name n, DIO_SEL_REG (word_of_int (0xf4 + 4 * v)))) function_selectors"
  unfolding between_def registers_PINMUX_def filter_append map_append
  by (simp add: GBASE_simps function_selectors_def function_selectors_47_def function_selectors_138_def
    sel_name_def DIO_SEL_REG_def
    registers_3652_def registers_3732_def registers_3812_def registers_3892_def registers_3972_def)

lemma gpio_functions:
  "take 32 function_selectors =
     concat (map (\<lambda>p. map (\<lambda>b. (''GPIO'' @ decimal p @ ''_GPIO'' @ decimal b, GET_GPIO_FUNC (int p) (int b))) [0..<16]) [0..<2])"
  by (simp add: function_selectors_def function_selectors_47_def decimal_def GET_GPIO_FUNC_def upt_rec)

section \<open>Control bits\<close>

text \<open>The fields of a control register with the name, the place and the offset of each.\<close>

definition field_place :: "reg_field \<Rightarrow> string \<times> nat \<times> int \<times> int" where
  "field_place f = (field_name f, lsb f, field_mask f, field_offset f)"

definition control_places :: "string \<times> int \<Rightarrow> (string \<times> nat \<times> int \<times> int) list" where
  "control_places p = map (\<lambda>(b, l, m). (ctl_name (fst p) @ ''_'' @ b, l, m, pad_offset (snd p) + 4)) DIO_CTL_bits"

lemma controls_table:
  "map field_place (filter (\<lambda>f. field_offset f < 0xf8 \<and> field_offset f \<noteq> 0xe4 \<and> lsb f \<in> {2, 3, 4}) fields_PINMUX) =
     concat (map control_places pad_selectors)"
  unfolding fields_PINMUX_def filter_append map_append
  by (simp add: pad_selectors_def DIOA_selectors_def DIOB_selectors_def DIOM_selectors_def VIO_selectors_def
    control_places_def DIO_CTL_bits_def ctl_name_def pad_offset_def field_place_def
    regdefs_13058_def regdefs_13208_def regdefs_13358_def regdefs_13508_def regdefs_13658_def regdefs_13808_def
    regdefs_13833_def regdefs_13983_def regdefs_14133_def)

section \<open>Property\<close>

text \<open>
  The pin multiplexer. The pads are numbered from 30 down to 1 and the functions from 1 up to 99, each
  number once, and \<open>GC_PINMUX_SEL_COUNT\<close> counts both. The numbers are those of the registers: the
  selector of a function stands at its number times four, and selector and control register of a pad where
  \<open>DIO_SEL_REG\<close> and \<open>DIO_CTL_REG\<close> look for them at its place, with no other register in
  between but the pair of \<open>RESETB\<close>, which has no number. \<open>GET_GPIO_FUNC\<close> is the number of
  its GPIO line. The bits \<open>IE\<close>, \<open>PD\<close> and \<open>PU\<close> of every pad have the place and the
  mask of those of DIOA0, as the macros \<open>DIO_CTL_*\<close> assume.
\<close>

theorem pin_selectors_match:
  "rev (map snd pad_selectors) = [1..30] \<and> map snd function_selectors = [1..99] \<and>
   GC_PINMUX_SEL_COUNT = int (length pad_selectors + length function_selectors) \<and>
   between 0 0xe0 (GBASE ''PINMUX'') registers_PINMUX @ between 0xe8 0xf8 (GBASE ''PINMUX'') registers_PINMUX =
     concat (map pad_registers pad_selectors) \<and>
   between 0xf8 0x284 (GBASE ''PINMUX'') registers_PINMUX =
     map (\<lambda>(n, v). (sel_name n, DIO_SEL_REG (word_of_int (0xf4 + 4 * v)))) function_selectors \<and>
   take 32 function_selectors =
     concat (map (\<lambda>p. map (\<lambda>b. (''GPIO'' @ decimal p @ ''_GPIO'' @ decimal b, GET_GPIO_FUNC (int p) (int b))) [0..<16]) [0..<2]) \<and>
   map field_place (filter (\<lambda>f. field_offset f < 0xf8 \<and> field_offset f \<noteq> 0xe4 \<and> lsb f \<in> {2, 3, 4}) fields_PINMUX) =
     concat (map control_places pad_selectors)"
proof (intro conjI pads_counted functions_counted pad_registers_table function_registers_table gpio_functions controls_table)
  have "length pad_selectors = 30" "length function_selectors = 99"
    using arg_cong [OF pads_counted, of length] arg_cong [OF functions_counted, of length] by simp_all
  then show "GC_PINMUX_SEL_COUNT = int (length pad_selectors + length function_selectors)"
    by (simp add: GC_PINMUX_SEL_COUNT_def)
qed

end
