(* ===== verification/UsbMacros.thy ===== *)
theory UsbMacros
  imports RegisterAliases
begin

text \<open>
  The constants of the USB controller in chip/c/registers.h: macros that are a number in a field of the
  generated tables, macros with an argument, and the portal to the 8-bit registers behind \<open>GGPIO\<close>.
\<close>

unbundle bit_operations_syntax

section \<open>Numbers in fields\<close>

text \<open>
  A macro \<open>BIT(GC_f_LSB)\<close> or \<open>(v << GC_f_LSB)\<close> with its field and the number, 1 for a
  \<open>BIT\<close>.
\<close>

definition core_macros :: "(string \<times> string \<times> nat) list" where
  "core_macros = [
    (''GAHBCFG_DMA_EN'', ''USB_GAHBCFG_DMAEN'', 1), (''GAHBCFG_GLB_INTR_EN'', ''USB_GAHBCFG_GLBLINTRMSK'',
    1), (''GAHBCFG_HBSTLEN_INCR4'', ''USB_GAHBCFG_HBSTLEN'', 3), (''GAHBCFG_NP_TXF_EMP_LVL'',
    ''USB_GAHBCFG_NPTXFEMPLVL'', 1), (''GUSBCFG_PHYSEL_HS'', ''USB_GUSBCFG_PHYSEL'', 0),
    (''GUSBCFG_PHYSEL_FS'', ''USB_GUSBCFG_PHYSEL'', 1), (''GUSBCFG_FSINTF_6PIN'', ''USB_GUSBCFG_FSINTF'',
    0), (''GUSBCFG_FSINTF_3PIN'', ''USB_GUSBCFG_FSINTF'', 1), (''GUSBCFG_PHYIF16'', ''USB_GUSBCFG_PHYIF'',
    1), (''GUSBCFG_PHYIF8'', ''USB_GUSBCFG_PHYIF'', 0), (''GUSBCFG_ULPI'', ''USB_GUSBCFG_ULPI_UTMI_SEL'',
    1), (''GUSBCFG_UTMI'', ''USB_GUSBCFG_ULPI_UTMI_SEL'', 0), (''GRSTCTL_CSFTRST'', ''USB_GRSTCTL_CSFTRST'',
    1), (''GRSTCTL_AHBIDLE'', ''USB_GRSTCTL_AHBIDLE'', 1), (''GRSTCTL_TXFFLSH'', ''USB_GRSTCTL_TXFFLSH'',
    1), (''GRSTCTL_RXFFLSH'', ''USB_GRSTCTL_RXFFLSH'', 1), (''DCFG_DEVSPD_FS'', ''USB_DCFG_DEVSPD'', 1),
    (''DCFG_DEVSPD_FS48'', ''USB_DCFG_DEVSPD'', 3), (''DCFG_DESCDMA'', ''USB_DCFG_DESCDMA'', 1)]"

definition control_macros :: "(string \<times> string \<times> nat) list" where
  "control_macros = [
    (''DCTL_SFTDISCON'', ''USB_DCTL_SFTDISCON'', 1), (''DCTL_CGOUTNAK'', ''USB_DCTL_CGOUTNAK'', 1),
    (''DCTL_CGNPINNAK'', ''USB_DCTL_CGNPINNAK'', 1), (''DCTL_PWRONPRGDONE'', ''USB_DCTL_PWRONPRGDONE'', 1)]"

definition diepmsk_macros :: "(string \<times> string \<times> nat) list" where
  "diepmsk_macros = [
    (''DIEPMSK_AHBERRMSK'', ''USB_DIEPMSK_AHBERRMSK'', 1), (''DIEPMSK_BNAININTRMSK'',
    ''USB_DIEPMSK_BNAININTRMSK'', 1), (''DIEPMSK_EPDISBLDMSK'', ''USB_DIEPMSK_EPDISBLDMSK'', 1),
    (''DIEPMSK_INEPNAKEFFMSK'', ''USB_DIEPMSK_INEPNAKEFFMSK'', 1), (''DIEPMSK_INTKNEPMISMSK'',
    ''USB_DIEPMSK_INTKNEPMISMSK'', 1), (''DIEPMSK_INTKNTXFEMPMSK'', ''USB_DIEPMSK_INTKNTXFEMPMSK'', 1),
    (''DIEPMSK_NAKMSK'', ''USB_DIEPMSK_NAKMSK'', 1), (''DIEPMSK_TIMEOUTMSK'', ''USB_DIEPMSK_TIMEOUTMSK'',
    1), (''DIEPMSK_TXFIFOUNDRNMSK'', ''USB_DIEPMSK_TXFIFOUNDRNMSK'', 1), (''DIEPMSK_XFERCOMPLMSK'',
    ''USB_DIEPMSK_XFERCOMPLMSK'', 1)]"

definition doepmsk_macros :: "(string \<times> string \<times> nat) list" where
  "doepmsk_macros = [
    (''DOEPMSK_AHBERRMSK'', ''USB_DOEPMSK_AHBERRMSK'', 1), (''DOEPMSK_BBLEERRMSK'',
    ''USB_DOEPMSK_BBLEERRMSK'', 1), (''DOEPMSK_BNAOUTINTRMSK'', ''USB_DOEPMSK_BNAOUTINTRMSK'', 1),
    (''DOEPMSK_EPDISBLDMSK'', ''USB_DOEPMSK_EPDISBLDMSK'', 1), (''DOEPMSK_NAKMSK'', ''USB_DOEPMSK_NAKMSK'',
    1), (''DOEPMSK_NYETMSK'', ''USB_DOEPMSK_NYETMSK'', 1), (''DOEPMSK_OUTPKTERRMSK'',
    ''USB_DOEPMSK_OUTPKTERRMSK'', 1), (''DOEPMSK_OUTTKNEPDISMSK'', ''USB_DOEPMSK_OUTTKNEPDISMSK'', 1),
    (''DOEPMSK_SETUPMSK'', ''USB_DOEPMSK_SETUPMSK'', 1), (''DOEPMSK_STSPHSERCVDMSK'',
    ''USB_DOEPMSK_STSPHSERCVDMSK'', 1), (''DOEPMSK_XFERCOMPLMSK'', ''USB_DOEPMSK_XFERCOMPLMSK'', 1)]"

definition diepint_macros :: "(string \<times> string \<times> nat) list" where
  "diepint_macros = [
    (''DIEPINT_AHBERR'', ''USB_DIEPINT0_AHBERR'', 1), (''DIEPINT_BBLEERR'', ''USB_DIEPINT0_BBLEERR'', 1),
    (''DIEPINT_BNAINTR'', ''USB_DIEPINT0_BNAINTR'', 1), (''DIEPINT_EPDISBLD'', ''USB_DIEPINT0_EPDISBLD'',
    1), (''DIEPINT_INEPNAKEFF'', ''USB_DIEPINT0_INEPNAKEFF'', 1), (''DIEPINT_INTKNEPMIS'',
    ''USB_DIEPINT0_INTKNEPMIS'', 1), (''DIEPINT_INTKNTXFEMP'', ''USB_DIEPINT0_INTKNTXFEMP'', 1),
    (''DIEPINT_NAKINTRPT'', ''USB_DIEPINT0_NAKINTRPT'', 1), (''DIEPINT_NYETINTRPT'',
    ''USB_DIEPINT0_NYETINTRPT'', 1), (''DIEPINT_PKTDRPSTS'', ''USB_DIEPINT0_PKTDRPSTS'', 1),
    (''DIEPINT_TIMEOUT'', ''USB_DIEPINT0_TIMEOUT'', 1), (''DIEPINT_TXFEMP'', ''USB_DIEPINT0_TXFEMP'', 1),
    (''DIEPINT_TXFIFOUNDRN'', ''USB_DIEPINT0_TXFIFOUNDRN'', 1), (''DIEPINT_XFERCOMPL'',
    ''USB_DIEPINT0_XFERCOMPL'', 1)]"

definition doepint_macros :: "(string \<times> string \<times> nat) list" where
  "doepint_macros = [
    (''DOEPINT_AHBERR'', ''USB_DOEPINT0_AHBERR'', 1), (''DOEPINT_BACK2BACKSETUP'',
    ''USB_DOEPINT0_BACK2BACKSETUP'', 1), (''DOEPINT_BBLEERR'', ''USB_DOEPINT0_BBLEERR'', 1),
    (''DOEPINT_BNAINTR'', ''USB_DOEPINT0_BNAINTR'', 1), (''DOEPINT_EPDISBLD'', ''USB_DOEPINT0_EPDISBLD'',
    1), (''DOEPINT_NAKINTRPT'', ''USB_DOEPINT0_NAKINTRPT'', 1), (''DOEPINT_NYETINTRPT'',
    ''USB_DOEPINT0_NYETINTRPT'', 1), (''DOEPINT_OUTPKTERR'', ''USB_DOEPINT0_OUTPKTERR'', 1),
    (''DOEPINT_OUTTKNEPDIS'', ''USB_DOEPINT0_OUTTKNEPDIS'', 1), (''DOEPINT_PKTDRPSTS'',
    ''USB_DOEPINT0_PKTDRPSTS'', 1), (''DOEPINT_SETUP'', ''USB_DOEPINT0_SETUP'', 1),
    (''DOEPINT_STSPHSERCVD'', ''USB_DOEPINT0_STSPHSERCVD'', 1), (''DOEPINT_STUPPKTRCVD'',
    ''USB_DOEPINT0_STUPPKTRCVD'', 1), (''DOEPINT_XFERCOMPL'', ''USB_DOEPINT0_XFERCOMPL'', 1)]"

definition dxepctl_macros :: "(string \<times> string \<times> nat) list" where
  "dxepctl_macros = [
    (''DXEPCTL_EPTYPE_CTRL'', ''USB_DIEPCTL0_EPTYPE'', 0), (''DXEPCTL_EPTYPE_ISO'', ''USB_DIEPCTL0_EPTYPE'',
    1), (''DXEPCTL_EPTYPE_BULK'', ''USB_DIEPCTL0_EPTYPE'', 2), (''DXEPCTL_EPTYPE_INT'',
    ''USB_DIEPCTL0_EPTYPE'', 3), (''DXEPCTL_STALL'', ''USB_DIEPCTL0_STALL'', 1), (''DXEPCTL_CNAK'',
    ''USB_DIEPCTL0_CNAK'', 1), (''DXEPCTL_DPID'', ''USB_DIEPCTL1_DPID'', 1), (''DXEPCTL_SNAK'',
    ''USB_DIEPCTL0_SNAK'', 1), (''DXEPCTL_NAKSTS'', ''USB_DIEPCTL0_NAKSTS'', 1), (''DXEPCTL_EPENA'',
    ''USB_DIEPCTL0_EPENA'', 1), (''DXEPCTL_EPDIS'', ''USB_DIEPCTL0_EPDIS'', 1), (''DXEPCTL_USBACTEP'',
    ''USB_DIEPCTL0_USBACTEP'', 1), (''DXEPCTL_MPS64'', ''USB_DIEPCTL0_MPS'', 0)]"

definition usb_macros :: "(string \<times> string \<times> nat) list" where
  "usb_macros = core_macros @ control_macros @ diepmsk_macros @ doepmsk_macros @ diepint_macros @ doepint_macros @ dxepctl_macros"

definition macro_word :: "reg_field \<Rightarrow> nat \<Rightarrow> u32" where
  "macro_word f v = push_bit (lsb f) (of_nat v)"

text \<open>The field of a name has room for a number.\<close>

definition puts :: "reg_field list \<Rightarrow> string \<times> nat \<Rightarrow> bool" where
  "puts fs p \<longleftrightarrow> list_ex (\<lambda>f. field_name f = fst p \<and> snd p < 2 ^ width f) fs"

lemma puts_mono_all: "list_all (puts fs) ps \<Longrightarrow> set fs \<subseteq> set gs \<Longrightarrow> list_all (puts gs) ps"
  by (fastforce simp: puts_def list_ex_iff list_all_iff)

lemma macro_fields_found:
  "list_all (puts regdefs_19216)
     [(''USB_GAHBCFG_DMAEN'', 1), (''USB_GAHBCFG_GLBLINTRMSK'', 1), (''USB_GAHBCFG_HBSTLEN'', 3),
      (''USB_GAHBCFG_NPTXFEMPLVL'', 1)]"
  "list_all (puts regdefs_19311)
     [(''USB_GUSBCFG_PHYSEL'', 0), (''USB_GUSBCFG_PHYSEL'', 1), (''USB_GUSBCFG_FSINTF'', 0),
      (''USB_GUSBCFG_FSINTF'', 1), (''USB_GUSBCFG_PHYIF'', 1), (''USB_GUSBCFG_PHYIF'', 0),
      (''USB_GUSBCFG_ULPI_UTMI_SEL'', 1), (''USB_GUSBCFG_ULPI_UTMI_SEL'', 0),
      (''USB_GRSTCTL_CSFTRST'', 1), (''USB_GRSTCTL_AHBIDLE'', 1), (''USB_GRSTCTL_TXFFLSH'', 1),
      (''USB_GRSTCTL_RXFFLSH'', 1), (''USB_GUSBCFG_TOUTCAL'', 0), (''USB_GUSBCFG_USBTRDTIM'', 0),
      (''USB_GRSTCTL_TXFNUM'', 0)]"
  "list_all (puts regdefs_20111)
     [(''USB_DCFG_DEVSPD'', 1), (''USB_DCFG_DEVSPD'', 3), (''USB_DCFG_DESCDMA'', 1),
      (''USB_DCTL_SFTDISCON'', 1), (''USB_DCTL_CGOUTNAK'', 1), (''USB_DCTL_CGNPINNAK'', 1),
      (''USB_DCTL_PWRONPRGDONE'', 1), (''USB_DCFG_DEVADDR'', 0)]"
  "list_all (puts regdefs_20246)
     [(''USB_DIEPMSK_AHBERRMSK'', 1), (''USB_DIEPMSK_BNAININTRMSK'', 1),
      (''USB_DIEPMSK_EPDISBLDMSK'', 1), (''USB_DIEPMSK_INEPNAKEFFMSK'', 1),
      (''USB_DIEPMSK_INTKNEPMISMSK'', 1), (''USB_DIEPMSK_INTKNTXFEMPMSK'', 1),
      (''USB_DIEPMSK_NAKMSK'', 1), (''USB_DIEPMSK_TIMEOUTMSK'', 1), (''USB_DIEPMSK_TXFIFOUNDRNMSK'',
      1), (''USB_DIEPMSK_XFERCOMPLMSK'', 1), (''USB_DOEPMSK_AHBERRMSK'', 1),
      (''USB_DOEPMSK_BBLEERRMSK'', 1), (''USB_DOEPMSK_BNAOUTINTRMSK'', 1),
      (''USB_DOEPMSK_EPDISBLDMSK'', 1), (''USB_DOEPMSK_NAKMSK'', 1), (''USB_DOEPMSK_NYETMSK'', 1),
      (''USB_DOEPMSK_OUTPKTERRMSK'', 1), (''USB_DOEPMSK_OUTTKNEPDISMSK'', 1),
      (''USB_DOEPMSK_SETUPMSK'', 1), (''USB_DOEPMSK_STSPHSERCVDMSK'', 1),
      (''USB_DOEPMSK_XFERCOMPLMSK'', 1)]"
  "list_all (puts regdefs_20696)
     [(''USB_DIEPCTL0_EPTYPE'', 0), (''USB_DIEPCTL0_EPTYPE'', 1), (''USB_DIEPCTL0_EPTYPE'', 2),
      (''USB_DIEPCTL0_EPTYPE'', 3), (''USB_DIEPCTL0_STALL'', 1), (''USB_DIEPCTL0_CNAK'', 1),
      (''USB_DIEPCTL0_SNAK'', 1), (''USB_DIEPCTL0_NAKSTS'', 1), (''USB_DIEPCTL0_EPENA'', 1),
      (''USB_DIEPCTL0_EPDIS'', 1), (''USB_DIEPCTL0_USBACTEP'', 1), (''USB_DIEPCTL0_MPS'', 0)]"
  "list_all (puts regdefs_20806)
     [(''USB_DIEPINT0_AHBERR'', 1), (''USB_DIEPINT0_BBLEERR'', 1), (''USB_DIEPINT0_BNAINTR'', 1),
      (''USB_DIEPINT0_EPDISBLD'', 1), (''USB_DIEPINT0_INEPNAKEFF'', 1),
      (''USB_DIEPINT0_INTKNEPMIS'', 1), (''USB_DIEPINT0_INTKNTXFEMP'', 1),
      (''USB_DIEPINT0_NAKINTRPT'', 1), (''USB_DIEPINT0_NYETINTRPT'', 1),
      (''USB_DIEPINT0_PKTDRPSTS'', 1), (''USB_DIEPINT0_TIMEOUT'', 1), (''USB_DIEPINT0_TXFEMP'', 1),
      (''USB_DIEPINT0_TXFIFOUNDRN'', 1), (''USB_DIEPINT0_XFERCOMPL'', 1), (''USB_DIEPTSIZ0_PKTCNT'',
      0), (''USB_DIEPTSIZ0_XFERSIZE'', 0)]"
  "list_all (puts regdefs_20901)
     [(''USB_DIEPCTL1_DPID'', 1), (''USB_DIEPCTL1_TXFNUM'', 0), (''USB_DIEPCTL1_MPS'', 0)]"
  "list_all (puts regdefs_23426)
     [(''USB_DOEPINT0_AHBERR'', 1), (''USB_DOEPINT0_BACK2BACKSETUP'', 1), (''USB_DOEPINT0_BBLEERR'',
      1), (''USB_DOEPINT0_BNAINTR'', 1), (''USB_DOEPINT0_EPDISBLD'', 1),
      (''USB_DOEPINT0_NAKINTRPT'', 1), (''USB_DOEPINT0_NYETINTRPT'', 1),
      (''USB_DOEPINT0_OUTPKTERR'', 1), (''USB_DOEPINT0_OUTTKNEPDIS'', 1),
      (''USB_DOEPINT0_PKTDRPSTS'', 1), (''USB_DOEPINT0_SETUP'', 1), (''USB_DOEPINT0_STSPHSERCVD'',
      1), (''USB_DOEPINT0_STUPPKTRCVD'', 1), (''USB_DOEPINT0_XFERCOMPL'', 1),
      (''USB_DOEPTSIZ0_SUPCNT'', 0)]"
  by (simp_all add: puts_def regdefs_19216_def regdefs_19311_def regdefs_20111_def regdefs_20246_def regdefs_20696_def regdefs_20806_def regdefs_20901_def regdefs_23426_def)

lemma macro_fields_USB:
  "list_all (puts fields_USB)
     [(''USB_GAHBCFG_DMAEN'', 1), (''USB_GAHBCFG_GLBLINTRMSK'', 1), (''USB_GAHBCFG_HBSTLEN'', 3),
      (''USB_GAHBCFG_NPTXFEMPLVL'', 1)]"
  "list_all (puts fields_USB)
     [(''USB_GUSBCFG_PHYSEL'', 0), (''USB_GUSBCFG_PHYSEL'', 1), (''USB_GUSBCFG_FSINTF'', 0),
      (''USB_GUSBCFG_FSINTF'', 1), (''USB_GUSBCFG_PHYIF'', 1), (''USB_GUSBCFG_PHYIF'', 0),
      (''USB_GUSBCFG_ULPI_UTMI_SEL'', 1), (''USB_GUSBCFG_ULPI_UTMI_SEL'', 0),
      (''USB_GRSTCTL_CSFTRST'', 1), (''USB_GRSTCTL_AHBIDLE'', 1), (''USB_GRSTCTL_TXFFLSH'', 1),
      (''USB_GRSTCTL_RXFFLSH'', 1), (''USB_GUSBCFG_TOUTCAL'', 0), (''USB_GUSBCFG_USBTRDTIM'', 0),
      (''USB_GRSTCTL_TXFNUM'', 0)]"
  "list_all (puts fields_USB)
     [(''USB_DCFG_DEVSPD'', 1), (''USB_DCFG_DEVSPD'', 3), (''USB_DCFG_DESCDMA'', 1),
      (''USB_DCTL_SFTDISCON'', 1), (''USB_DCTL_CGOUTNAK'', 1), (''USB_DCTL_CGNPINNAK'', 1),
      (''USB_DCTL_PWRONPRGDONE'', 1), (''USB_DCFG_DEVADDR'', 0)]"
  "list_all (puts fields_USB)
     [(''USB_DIEPMSK_AHBERRMSK'', 1), (''USB_DIEPMSK_BNAININTRMSK'', 1),
      (''USB_DIEPMSK_EPDISBLDMSK'', 1), (''USB_DIEPMSK_INEPNAKEFFMSK'', 1),
      (''USB_DIEPMSK_INTKNEPMISMSK'', 1), (''USB_DIEPMSK_INTKNTXFEMPMSK'', 1),
      (''USB_DIEPMSK_NAKMSK'', 1), (''USB_DIEPMSK_TIMEOUTMSK'', 1), (''USB_DIEPMSK_TXFIFOUNDRNMSK'',
      1), (''USB_DIEPMSK_XFERCOMPLMSK'', 1), (''USB_DOEPMSK_AHBERRMSK'', 1),
      (''USB_DOEPMSK_BBLEERRMSK'', 1), (''USB_DOEPMSK_BNAOUTINTRMSK'', 1),
      (''USB_DOEPMSK_EPDISBLDMSK'', 1), (''USB_DOEPMSK_NAKMSK'', 1), (''USB_DOEPMSK_NYETMSK'', 1),
      (''USB_DOEPMSK_OUTPKTERRMSK'', 1), (''USB_DOEPMSK_OUTTKNEPDISMSK'', 1),
      (''USB_DOEPMSK_SETUPMSK'', 1), (''USB_DOEPMSK_STSPHSERCVDMSK'', 1),
      (''USB_DOEPMSK_XFERCOMPLMSK'', 1)]"
  "list_all (puts fields_USB)
     [(''USB_DIEPCTL0_EPTYPE'', 0), (''USB_DIEPCTL0_EPTYPE'', 1), (''USB_DIEPCTL0_EPTYPE'', 2),
      (''USB_DIEPCTL0_EPTYPE'', 3), (''USB_DIEPCTL0_STALL'', 1), (''USB_DIEPCTL0_CNAK'', 1),
      (''USB_DIEPCTL0_SNAK'', 1), (''USB_DIEPCTL0_NAKSTS'', 1), (''USB_DIEPCTL0_EPENA'', 1),
      (''USB_DIEPCTL0_EPDIS'', 1), (''USB_DIEPCTL0_USBACTEP'', 1), (''USB_DIEPCTL0_MPS'', 0)]"
  "list_all (puts fields_USB)
     [(''USB_DIEPINT0_AHBERR'', 1), (''USB_DIEPINT0_BBLEERR'', 1), (''USB_DIEPINT0_BNAINTR'', 1),
      (''USB_DIEPINT0_EPDISBLD'', 1), (''USB_DIEPINT0_INEPNAKEFF'', 1),
      (''USB_DIEPINT0_INTKNEPMIS'', 1), (''USB_DIEPINT0_INTKNTXFEMP'', 1),
      (''USB_DIEPINT0_NAKINTRPT'', 1), (''USB_DIEPINT0_NYETINTRPT'', 1),
      (''USB_DIEPINT0_PKTDRPSTS'', 1), (''USB_DIEPINT0_TIMEOUT'', 1), (''USB_DIEPINT0_TXFEMP'', 1),
      (''USB_DIEPINT0_TXFIFOUNDRN'', 1), (''USB_DIEPINT0_XFERCOMPL'', 1), (''USB_DIEPTSIZ0_PKTCNT'',
      0), (''USB_DIEPTSIZ0_XFERSIZE'', 0)]"
  "list_all (puts fields_USB)
     [(''USB_DIEPCTL1_DPID'', 1), (''USB_DIEPCTL1_TXFNUM'', 0), (''USB_DIEPCTL1_MPS'', 0)]"
  "list_all (puts fields_USB)
     [(''USB_DOEPINT0_AHBERR'', 1), (''USB_DOEPINT0_BACK2BACKSETUP'', 1), (''USB_DOEPINT0_BBLEERR'',
      1), (''USB_DOEPINT0_BNAINTR'', 1), (''USB_DOEPINT0_EPDISBLD'', 1),
      (''USB_DOEPINT0_NAKINTRPT'', 1), (''USB_DOEPINT0_NYETINTRPT'', 1),
      (''USB_DOEPINT0_OUTPKTERR'', 1), (''USB_DOEPINT0_OUTTKNEPDIS'', 1),
      (''USB_DOEPINT0_PKTDRPSTS'', 1), (''USB_DOEPINT0_SETUP'', 1), (''USB_DOEPINT0_STSPHSERCVD'',
      1), (''USB_DOEPINT0_STUPPKTRCVD'', 1), (''USB_DOEPINT0_XFERCOMPL'', 1),
      (''USB_DOEPTSIZ0_SUPCNT'', 0)]"
  by (rule macro_fields_found [THEN puts_mono_all], force simp: fields_USB_def)+

lemma macros_put: "list_all (\<lambda>(m, n, v). puts fields_USB (n, v)) usb_macros"
  using macro_fields_USB by (simp add: usb_macros_def core_macros_def control_macros_def diepmsk_macros_def doepmsk_macros_def diepint_macros_def doepint_macros_def dxepctl_macros_def)

section \<open>Macros with an argument\<close>

text \<open>The macros that cut their argument to the field, and those that only shift it.\<close>

definition cut_macros :: "(string \<times> string) list" where
  "cut_macros = [(''GUSBCFG_TOUTCAL'', ''USB_GUSBCFG_TOUTCAL''), (''GUSBCFG_USBTRDTIM'', ''USB_GUSBCFG_USBTRDTIM''),
     (''GRSTCTL_TXFNUM'', ''USB_GRSTCTL_TXFNUM''), (''DCFG_DEVADDR'', ''USB_DCFG_DEVADDR'')]"

definition cut_word :: "reg_field \<Rightarrow> u32 \<Rightarrow> u32" where
  "cut_word f n = push_bit (lsb f) n AND mask_word f"

definition shift_macros :: "(string \<times> string) list" where
  "shift_macros = [(''DXEPCTL_TXFNUM'', ''USB_DIEPCTL1_TXFNUM''), (''DXEPCTL_MPS'', ''USB_DIEPCTL1_MPS''),
     (''DXEPTSIZ_SUPCNT'', ''USB_DOEPTSIZ0_SUPCNT''), (''DXEPTSIZ_PKTCNT'', ''USB_DIEPTSIZ0_PKTCNT''),
     (''DXEPTSIZ_XFERSIZE'', ''USB_DIEPTSIZ0_XFERSIZE'')]"

definition shift_word :: "reg_field \<Rightarrow> u32 \<Rightarrow> u32" where
  "shift_word f n = push_bit (lsb f) n"

lemma cut_and_shift_put: "list_all (\<lambda>(m, n). puts fields_USB (n, 0)) (cut_macros @ shift_macros)"
  using macro_fields_USB by (simp add: cut_macros_def shift_macros_def)

lemma cut_word_reads:
  "well_formed f \<Longrightarrow> cut_word f n AND NOT (mask_word f) = 0 \<and> drop_bit (lsb f) (cut_word f n AND mask_word f) = take_bit (width f) n"
  by (simp add: bit_eq_iff cut_word_def bit_simps bit_mask_word) (cases f; auto)

lemma shift_word_fits:
  assumes "well_formed f"
  shows "shift_word f n AND NOT (mask_word f) = 0 \<longleftrightarrow> take_bit (32 - lsb f) n = take_bit (width f) n"
proof
  assume eq: "take_bit (32 - lsb f) n = take_bit (width f) n"
  have w: "i - lsb f < width f" if "lsb f \<le> i" "i < 32" "bit n (i - lsb f)" for i
  proof -
    have "i - lsb f < 32 - lsb f" using that by linarith
    then have "bit (take_bit (32 - lsb f) n) (i - lsb f)" using that(3) by (simp add: bit_take_bit_iff)
    then show ?thesis by (simp add: eq bit_take_bit_iff)
  qed
  show "shift_word f n AND NOT (mask_word f) = 0"
  proof (rule bit_word_eqI)
    fix i assume "i < LENGTH(32)"
    then show "bit (shift_word f n AND NOT (mask_word f)) i \<longleftrightarrow> bit (0 :: u32) i"
      using w [of i] by (auto simp: shift_word_def bit_simps bit_mask_word [OF assms])
  qed
next
  assume a: "shift_word f n AND NOT (mask_word f) = 0"
  have "i < width f" if "bit n i" "i < 32 - lsb f" for i
  proof -
    have "bit (shift_word f n) (i + lsb f)" using that by (simp add: shift_word_def bit_simps)
    moreover have "\<not> bit (shift_word f n AND NOT (mask_word f)) (i + lsb f)" using a by simp
    ultimately have "bit (mask_word f) (i + lsb f)" using that(2) by (auto simp: bit_simps)
    then show ?thesis by (simp add: bit_mask_word [OF assms])
  qed
  moreover have "width f \<le> 32 - lsb f" using assms by (cases f) auto
  ultimately show "take_bit (32 - lsb f) n = take_bit (width f) n"
    by (auto simp: bit_eq_iff bit_take_bit_iff)
qed

lemma shift_word_reads:
  "well_formed f \<Longrightarrow> drop_bit (lsb f) (shift_word f n AND mask_word f) = take_bit (width f) n"
  using cut_word_reads [of f n] by (simp add: cut_word_def shift_word_def and.assoc)

lemma macro_word_cut:
  assumes "well_formed f" and "v < 2 ^ width f"
  shows "macro_word f v = cut_word f (of_nat v)"
proof -
  have "take_bit (width f) (of_nat v :: u32) = of_nat v"
    using assms(2) by (metis of_nat_take_bit take_bit_nat_eq_self)
  then have v: "bit (of_nat v :: u32) i \<Longrightarrow> i < width f" for i by (metis bit_take_bit_iff)
  have "lsb f \<le> i \<Longrightarrow> bit (of_nat v :: u32) (i - lsb f) \<Longrightarrow> i < lsb f + width f" for i
    using v [of "i - lsb f"] by linarith
  then show ?thesis
    by (auto simp: bit_eq_iff macro_word_def cut_word_def bit_push_bit_iff bit_and_iff bit_mask_word [OF assms(1)])
qed

section \<open>Endpoints\<close>

text \<open>
  The fields of the registers of an endpoint behind the first: the name of the register without the number
  of the endpoint, that of the field, the offset of the register in the endpoint, and the place.
\<close>

definition in_endpoint_fields :: "(string \<times> string \<times> int \<times> nat \<times> int) list" where
  "in_endpoint_fields = [
    (''DIEPCTL'', ''MPS'', 0x0, 0, 0x7ff), (''DIEPCTL'', ''USBACTEP'', 0x0, 15, 0x8000), (''DIEPCTL'',
    ''DPID'', 0x0, 16, 0x10000), (''DIEPCTL'', ''NAKSTS'', 0x0, 17, 0x20000), (''DIEPCTL'', ''EPTYPE'', 0x0,
    18, 0xc0000), (''DIEPCTL'', ''STALL'', 0x0, 21, 0x200000), (''DIEPCTL'', ''TXFNUM'', 0x0, 22,
    0x3c00000), (''DIEPCTL'', ''CNAK'', 0x0, 26, 0x4000000), (''DIEPCTL'', ''SNAK'', 0x0, 27, 0x8000000),
    (''DIEPCTL'', ''SETD0PID'', 0x0, 28, 0x10000000), (''DIEPCTL'', ''SETD1PID'', 0x0, 29, 0x20000000),
    (''DIEPCTL'', ''EPDIS'', 0x0, 30, 0x40000000), (''DIEPCTL'', ''EPENA'', 0x0, 31, 0x80000000),
    (''DIEPINT'', ''XFERCOMPL'', 0x8, 0, 0x1), (''DIEPINT'', ''EPDISBLD'', 0x8, 1, 0x2), (''DIEPINT'',
    ''AHBERR'', 0x8, 2, 0x4), (''DIEPINT'', ''TIMEOUT'', 0x8, 3, 0x8), (''DIEPINT'', ''INTKNTXFEMP'', 0x8,
    4, 0x10), (''DIEPINT'', ''INTKNEPMIS'', 0x8, 5, 0x20), (''DIEPINT'', ''INEPNAKEFF'', 0x8, 6, 0x40),
    (''DIEPINT'', ''TXFEMP'', 0x8, 7, 0x80), (''DIEPINT'', ''TXFIFOUNDRN'', 0x8, 8, 0x100), (''DIEPINT'',
    ''BNAINTR'', 0x8, 9, 0x200), (''DIEPINT'', ''PKTDRPSTS'', 0x8, 11, 0x800), (''DIEPINT'', ''BBLEERR'',
    0x8, 12, 0x1000), (''DIEPINT'', ''NAKINTRPT'', 0x8, 13, 0x2000), (''DIEPINT'', ''NYETINTRPT'', 0x8, 14,
    0x4000), (''DIEPTSIZ'', ''XFERSIZE'', 0x10, 0, 0x7ffff), (''DIEPTSIZ'', ''PKTCNT'', 0x10, 19,
    0x1ff80000), (''DIEPTSIZ'', ''MC'', 0x10, 29, 0x60000000), (''DIEPDMA'', ''DMAADDR'', 0x14, 0,
    0xffffffff), (''DTXFSTS'', ''INEPTXFSPCAVAIL'', 0x18, 0, 0xffff), (''DIEPDMAB'', ''DMABUFFERADDR'',
    0x1c, 0, 0xffffffff)]"

definition out_endpoint_fields :: "(string \<times> string \<times> int \<times> nat \<times> int) list" where
  "out_endpoint_fields = [
    (''DOEPCTL'', ''MPS'', 0x0, 0, 0x7ff), (''DOEPCTL'', ''USBACTEP'', 0x0, 15, 0x8000), (''DOEPCTL'',
    ''DPID'', 0x0, 16, 0x10000), (''DOEPCTL'', ''NAKSTS'', 0x0, 17, 0x20000), (''DOEPCTL'', ''EPTYPE'', 0x0,
    18, 0xc0000), (''DOEPCTL'', ''SNP'', 0x0, 20, 0x100000), (''DOEPCTL'', ''STALL'', 0x0, 21, 0x200000),
    (''DOEPCTL'', ''CNAK'', 0x0, 26, 0x4000000), (''DOEPCTL'', ''SNAK'', 0x0, 27, 0x8000000), (''DOEPCTL'',
    ''SETD0PID'', 0x0, 28, 0x10000000), (''DOEPCTL'', ''SETD1PID'', 0x0, 29, 0x20000000), (''DOEPCTL'',
    ''EPDIS'', 0x0, 30, 0x40000000), (''DOEPCTL'', ''EPENA'', 0x0, 31, 0x80000000), (''DOEPINT'',
    ''XFERCOMPL'', 0x8, 0, 0x1), (''DOEPINT'', ''EPDISBLD'', 0x8, 1, 0x2), (''DOEPINT'', ''AHBERR'', 0x8, 2,
    0x4), (''DOEPINT'', ''SETUP'', 0x8, 3, 0x8), (''DOEPINT'', ''OUTTKNEPDIS'', 0x8, 4, 0x10), (''DOEPINT'',
    ''STSPHSERCVD'', 0x8, 5, 0x20), (''DOEPINT'', ''BACK2BACKSETUP'', 0x8, 6, 0x40), (''DOEPINT'',
    ''OUTPKTERR'', 0x8, 8, 0x100), (''DOEPINT'', ''BNAINTR'', 0x8, 9, 0x200), (''DOEPINT'', ''PKTDRPSTS'',
    0x8, 11, 0x800), (''DOEPINT'', ''BBLEERR'', 0x8, 12, 0x1000), (''DOEPINT'', ''NAKINTRPT'', 0x8, 13,
    0x2000), (''DOEPINT'', ''NYETINTRPT'', 0x8, 14, 0x4000), (''DOEPINT'', ''STUPPKTRCVD'', 0x8, 15,
    0x8000), (''DOEPTSIZ'', ''XFERSIZE'', 0x10, 0, 0x7ffff), (''DOEPTSIZ'', ''PKTCNT'', 0x10, 19,
    0x1ff80000), (''DOEPTSIZ'', ''RXDPID'', 0x10, 29, 0x60000000), (''DOEPDMA'', ''DMAADDR'', 0x14, 0,
    0xffffffff), (''DOEPDMAB'', ''DMABUFFERADDR'', 0x1c, 0, 0xffffffff)]"

definition at_endpoint ::
  "int \<Rightarrow> nat \<Rightarrow> (string \<times> string \<times> int \<times> nat \<times> int) \<Rightarrow> string \<times> int \<times> nat \<times> int" where
  "at_endpoint b n t = (case t of (r, f, x, l, m) \<Rightarrow> (''USB_'' @ r @ decimal n @ ''_'' @ f, b + 0x20 * int n + x, l, m))"

text \<open>
  The fields between two offsets. The checks of the tables say where the parts of a table lie, so that only
  the parts in between have to be read.
\<close>

definition within :: "int \<Rightarrow> int \<Rightarrow> reg_field list \<Rightarrow> reg_field list" where
  "within lo hi fs = filter (\<lambda>f. lo \<le> field_offset f \<and> field_offset f < hi) fs"

lemma within_append: "within lo hi (fs @ gs) = within lo hi fs @ within lo hi gs"
  by (simp add: within_def)

lemma within_outside:
  assumes "scan a (map Registers.extent fs) = Some c" and "list_all well_formed fs" and "4 dvd hi \<and> (c \<le> 8 * lo \<or> 8 * hi \<le> a)"
  shows "within lo hi fs = []"
proof -
  have "\<not> (lo \<le> field_offset f \<and> field_offset f < hi)" if f: "f \<in> set fs" for f
  proof -
    have e: "a \<le> fst (Registers.extent f)" "snd (Registers.extent f) \<le> c" "well_formed f"
      using scan_sorted [OF assms(1,2)] scan_bound [OF assms(1,2) f] assms(2) f by (auto simp: list_all_iff)
    obtain k m where "field_offset f = 4 * k" "hi = 4 * m" using e(3) assms(3) by (cases f) (auto elim!: dvdE)
    with e assms(3) show ?thesis by (cases f) auto
  qed
  then show ?thesis by (auto simp: within_def filter_empty_conv)
qed

lemma within_in: "within 0x920 0xb00 fields_USB = within 0x920 0xb00 (regdefs_20901 @ regdefs_21051 @ regdefs_21201 @ regdefs_21296 @ regdefs_21396 @ regdefs_21546 @ regdefs_21696 @ regdefs_21791 @ regdefs_21891 @ regdefs_22041 @ regdefs_22191 @ regdefs_22286 @ regdefs_22386 @ regdefs_22536 @ regdefs_22686 @ regdefs_22781 @ regdefs_22881 @ regdefs_23031 @ regdefs_23181 @ regdefs_23276)"
  by (simp add: fields_USB_def within_append
    within_outside [OF scan_USB_1(2) scan_USB_1(1)] within_outside [OF scan_USB_1(4) scan_USB_1(3)]
    within_outside [OF scan_USB_1(6) scan_USB_1(5)] within_outside [OF scan_USB_1(8) scan_USB_1(7)]
    within_outside [OF scan_USB_1(10) scan_USB_1(9)] within_outside [OF scan_USB_1(12) scan_USB_1(11)]
    within_outside [OF scan_USB_1(14) scan_USB_1(13)] within_outside [OF scan_USB_1(16) scan_USB_1(15)]
    within_outside [OF scan_USB_1(18) scan_USB_1(17)] within_outside [OF scan_USB_1(20) scan_USB_1(19)]
    within_outside [OF scan_USB_1(22) scan_USB_1(21)] within_outside [OF scan_USB_1(24) scan_USB_1(23)]
    within_outside [OF scan_USB_2(2) scan_USB_2(1)] within_outside [OF scan_USB_2(4) scan_USB_2(3)]
    within_outside [OF scan_USB_3(22) scan_USB_3(21)] within_outside [OF scan_USB_3(24) scan_USB_3(23)]
    within_outside [OF scan_USB_4(2) scan_USB_4(1)] within_outside [OF scan_USB_4(4) scan_USB_4(3)]
    within_outside [OF scan_USB_4(6) scan_USB_4(5)] within_outside [OF scan_USB_4(8) scan_USB_4(7)]
    within_outside [OF scan_USB_4(10) scan_USB_4(9)] within_outside [OF scan_USB_4(12) scan_USB_4(11)]
    within_outside [OF scan_USB_4(14) scan_USB_4(13)] within_outside [OF scan_USB_4(16) scan_USB_4(15)]
    within_outside [OF scan_USB_4(18) scan_USB_4(17)] within_outside [OF scan_USB_4(20) scan_USB_4(19)]
    within_outside [OF scan_USB_4(22) scan_USB_4(21)] within_outside [OF scan_USB_4(24) scan_USB_4(23)]
    within_outside [OF scan_USB_5(2) scan_USB_5(1)] within_outside [OF scan_USB_5(4) scan_USB_5(3)]
    within_outside [OF scan_USB_5(6) scan_USB_5(5)] within_outside [OF scan_USB_5(8) scan_USB_5(7)]
    within_outside [OF scan_USB_5(10) scan_USB_5(9)] within_outside [OF scan_USB_5(12) scan_USB_5(11)]
    within_outside [OF scan_USB_5(14) scan_USB_5(13)])

lemma within_out: "within 0xb20 0xd00 fields_USB = within 0xb20 0xd00 (regdefs_23521 @ regdefs_23671 @ regdefs_23816 @ regdefs_23906 @ regdefs_24001 @ regdefs_24151 @ regdefs_24296 @ regdefs_24386 @ regdefs_24481 @ regdefs_24631 @ regdefs_24776 @ regdefs_24866 @ regdefs_24961 @ regdefs_25111 @ regdefs_25256 @ regdefs_25346 @ regdefs_25441 @ regdefs_25591 @ regdefs_25736 @ regdefs_25826)"
  by (simp add: fields_USB_def within_append
    within_outside [OF scan_USB_1(2) scan_USB_1(1)] within_outside [OF scan_USB_1(4) scan_USB_1(3)]
    within_outside [OF scan_USB_1(6) scan_USB_1(5)] within_outside [OF scan_USB_1(8) scan_USB_1(7)]
    within_outside [OF scan_USB_1(10) scan_USB_1(9)] within_outside [OF scan_USB_1(12) scan_USB_1(11)]
    within_outside [OF scan_USB_1(14) scan_USB_1(13)] within_outside [OF scan_USB_1(16) scan_USB_1(15)]
    within_outside [OF scan_USB_1(18) scan_USB_1(17)] within_outside [OF scan_USB_1(20) scan_USB_1(19)]
    within_outside [OF scan_USB_1(22) scan_USB_1(21)] within_outside [OF scan_USB_1(24) scan_USB_1(23)]
    within_outside [OF scan_USB_2(2) scan_USB_2(1)] within_outside [OF scan_USB_2(4) scan_USB_2(3)]
    within_outside [OF scan_USB_2(6) scan_USB_2(5)] within_outside [OF scan_USB_2(8) scan_USB_2(7)]
    within_outside [OF scan_USB_2(10) scan_USB_2(9)] within_outside [OF scan_USB_2(12) scan_USB_2(11)]
    within_outside [OF scan_USB_2(14) scan_USB_2(13)] within_outside [OF scan_USB_2(16) scan_USB_2(15)]
    within_outside [OF scan_USB_2(18) scan_USB_2(17)] within_outside [OF scan_USB_2(20) scan_USB_2(19)]
    within_outside [OF scan_USB_2(22) scan_USB_2(21)] within_outside [OF scan_USB_2(24) scan_USB_2(23)]
    within_outside [OF scan_USB_3(2) scan_USB_3(1)] within_outside [OF scan_USB_3(4) scan_USB_3(3)]
    within_outside [OF scan_USB_3(6) scan_USB_3(5)] within_outside [OF scan_USB_3(8) scan_USB_3(7)]
    within_outside [OF scan_USB_3(10) scan_USB_3(9)] within_outside [OF scan_USB_3(12) scan_USB_3(11)]
    within_outside [OF scan_USB_3(14) scan_USB_3(13)] within_outside [OF scan_USB_3(16) scan_USB_3(15)]
    within_outside [OF scan_USB_3(18) scan_USB_3(17)] within_outside [OF scan_USB_3(20) scan_USB_3(19)]
    within_outside [OF scan_USB_3(22) scan_USB_3(21)])

lemma within_in_0: "within 0x900 0x920 fields_USB = within 0x900 0x920 (regdefs_20696 @ regdefs_20806)"
  by (simp add: fields_USB_def within_append
    within_outside [OF scan_USB_1(2) scan_USB_1(1)] within_outside [OF scan_USB_1(4) scan_USB_1(3)]
    within_outside [OF scan_USB_1(6) scan_USB_1(5)] within_outside [OF scan_USB_1(8) scan_USB_1(7)]
    within_outside [OF scan_USB_1(10) scan_USB_1(9)] within_outside [OF scan_USB_1(12) scan_USB_1(11)]
    within_outside [OF scan_USB_1(14) scan_USB_1(13)] within_outside [OF scan_USB_1(16) scan_USB_1(15)]
    within_outside [OF scan_USB_1(18) scan_USB_1(17)] within_outside [OF scan_USB_1(20) scan_USB_1(19)]
    within_outside [OF scan_USB_1(22) scan_USB_1(21)] within_outside [OF scan_USB_1(24) scan_USB_1(23)]
    within_outside [OF scan_USB_2(6) scan_USB_2(5)] within_outside [OF scan_USB_2(8) scan_USB_2(7)]
    within_outside [OF scan_USB_2(10) scan_USB_2(9)] within_outside [OF scan_USB_2(12) scan_USB_2(11)]
    within_outside [OF scan_USB_2(14) scan_USB_2(13)] within_outside [OF scan_USB_2(16) scan_USB_2(15)]
    within_outside [OF scan_USB_2(18) scan_USB_2(17)] within_outside [OF scan_USB_2(20) scan_USB_2(19)]
    within_outside [OF scan_USB_2(22) scan_USB_2(21)] within_outside [OF scan_USB_2(24) scan_USB_2(23)]
    within_outside [OF scan_USB_3(2) scan_USB_3(1)] within_outside [OF scan_USB_3(4) scan_USB_3(3)]
    within_outside [OF scan_USB_3(6) scan_USB_3(5)] within_outside [OF scan_USB_3(8) scan_USB_3(7)]
    within_outside [OF scan_USB_3(10) scan_USB_3(9)] within_outside [OF scan_USB_3(12) scan_USB_3(11)]
    within_outside [OF scan_USB_3(14) scan_USB_3(13)] within_outside [OF scan_USB_3(16) scan_USB_3(15)]
    within_outside [OF scan_USB_3(18) scan_USB_3(17)] within_outside [OF scan_USB_3(20) scan_USB_3(19)]
    within_outside [OF scan_USB_3(22) scan_USB_3(21)] within_outside [OF scan_USB_3(24) scan_USB_3(23)]
    within_outside [OF scan_USB_4(2) scan_USB_4(1)] within_outside [OF scan_USB_4(4) scan_USB_4(3)]
    within_outside [OF scan_USB_4(6) scan_USB_4(5)] within_outside [OF scan_USB_4(8) scan_USB_4(7)]
    within_outside [OF scan_USB_4(10) scan_USB_4(9)] within_outside [OF scan_USB_4(12) scan_USB_4(11)]
    within_outside [OF scan_USB_4(14) scan_USB_4(13)] within_outside [OF scan_USB_4(16) scan_USB_4(15)]
    within_outside [OF scan_USB_4(18) scan_USB_4(17)] within_outside [OF scan_USB_4(20) scan_USB_4(19)]
    within_outside [OF scan_USB_4(22) scan_USB_4(21)] within_outside [OF scan_USB_4(24) scan_USB_4(23)]
    within_outside [OF scan_USB_5(2) scan_USB_5(1)] within_outside [OF scan_USB_5(4) scan_USB_5(3)]
    within_outside [OF scan_USB_5(6) scan_USB_5(5)] within_outside [OF scan_USB_5(8) scan_USB_5(7)]
    within_outside [OF scan_USB_5(10) scan_USB_5(9)] within_outside [OF scan_USB_5(12) scan_USB_5(11)]
    within_outside [OF scan_USB_5(14) scan_USB_5(13)])

lemma within_out_0: "within 0xb00 0xb20 fields_USB = within 0xb00 0xb20 (regdefs_23276 @ regdefs_23426)"
  by (simp add: fields_USB_def within_append
    within_outside [OF scan_USB_1(2) scan_USB_1(1)] within_outside [OF scan_USB_1(4) scan_USB_1(3)]
    within_outside [OF scan_USB_1(6) scan_USB_1(5)] within_outside [OF scan_USB_1(8) scan_USB_1(7)]
    within_outside [OF scan_USB_1(10) scan_USB_1(9)] within_outside [OF scan_USB_1(12) scan_USB_1(11)]
    within_outside [OF scan_USB_1(14) scan_USB_1(13)] within_outside [OF scan_USB_1(16) scan_USB_1(15)]
    within_outside [OF scan_USB_1(18) scan_USB_1(17)] within_outside [OF scan_USB_1(20) scan_USB_1(19)]
    within_outside [OF scan_USB_1(22) scan_USB_1(21)] within_outside [OF scan_USB_1(24) scan_USB_1(23)]
    within_outside [OF scan_USB_2(2) scan_USB_2(1)] within_outside [OF scan_USB_2(4) scan_USB_2(3)]
    within_outside [OF scan_USB_2(6) scan_USB_2(5)] within_outside [OF scan_USB_2(8) scan_USB_2(7)]
    within_outside [OF scan_USB_2(10) scan_USB_2(9)] within_outside [OF scan_USB_2(12) scan_USB_2(11)]
    within_outside [OF scan_USB_2(14) scan_USB_2(13)] within_outside [OF scan_USB_2(16) scan_USB_2(15)]
    within_outside [OF scan_USB_2(18) scan_USB_2(17)] within_outside [OF scan_USB_2(20) scan_USB_2(19)]
    within_outside [OF scan_USB_2(22) scan_USB_2(21)] within_outside [OF scan_USB_2(24) scan_USB_2(23)]
    within_outside [OF scan_USB_3(2) scan_USB_3(1)] within_outside [OF scan_USB_3(4) scan_USB_3(3)]
    within_outside [OF scan_USB_3(6) scan_USB_3(5)] within_outside [OF scan_USB_3(8) scan_USB_3(7)]
    within_outside [OF scan_USB_3(10) scan_USB_3(9)] within_outside [OF scan_USB_3(12) scan_USB_3(11)]
    within_outside [OF scan_USB_3(14) scan_USB_3(13)] within_outside [OF scan_USB_3(16) scan_USB_3(15)]
    within_outside [OF scan_USB_3(18) scan_USB_3(17)] within_outside [OF scan_USB_3(24) scan_USB_3(23)]
    within_outside [OF scan_USB_4(2) scan_USB_4(1)] within_outside [OF scan_USB_4(4) scan_USB_4(3)]
    within_outside [OF scan_USB_4(6) scan_USB_4(5)] within_outside [OF scan_USB_4(8) scan_USB_4(7)]
    within_outside [OF scan_USB_4(10) scan_USB_4(9)] within_outside [OF scan_USB_4(12) scan_USB_4(11)]
    within_outside [OF scan_USB_4(14) scan_USB_4(13)] within_outside [OF scan_USB_4(16) scan_USB_4(15)]
    within_outside [OF scan_USB_4(18) scan_USB_4(17)] within_outside [OF scan_USB_4(20) scan_USB_4(19)]
    within_outside [OF scan_USB_4(22) scan_USB_4(21)] within_outside [OF scan_USB_4(24) scan_USB_4(23)]
    within_outside [OF scan_USB_5(2) scan_USB_5(1)] within_outside [OF scan_USB_5(4) scan_USB_5(3)]
    within_outside [OF scan_USB_5(6) scan_USB_5(5)] within_outside [OF scan_USB_5(8) scan_USB_5(7)]
    within_outside [OF scan_USB_5(10) scan_USB_5(9)] within_outside [OF scan_USB_5(12) scan_USB_5(11)]
    within_outside [OF scan_USB_5(14) scan_USB_5(13)])

lemma within_gintsts: "within 0x14 0x18 fields_USB = within 0x14 0x18 (regdefs_19421)"
  by (simp add: fields_USB_def within_append
    within_outside [OF scan_USB_1(2) scan_USB_1(1)] within_outside [OF scan_USB_1(4) scan_USB_1(3)]
    within_outside [OF scan_USB_1(8) scan_USB_1(7)] within_outside [OF scan_USB_1(10) scan_USB_1(9)]
    within_outside [OF scan_USB_1(12) scan_USB_1(11)] within_outside [OF scan_USB_1(14) scan_USB_1(13)]
    within_outside [OF scan_USB_1(16) scan_USB_1(15)] within_outside [OF scan_USB_1(18) scan_USB_1(17)]
    within_outside [OF scan_USB_1(20) scan_USB_1(19)] within_outside [OF scan_USB_1(22) scan_USB_1(21)]
    within_outside [OF scan_USB_1(24) scan_USB_1(23)] within_outside [OF scan_USB_2(2) scan_USB_2(1)]
    within_outside [OF scan_USB_2(4) scan_USB_2(3)] within_outside [OF scan_USB_2(6) scan_USB_2(5)]
    within_outside [OF scan_USB_2(8) scan_USB_2(7)] within_outside [OF scan_USB_2(10) scan_USB_2(9)]
    within_outside [OF scan_USB_2(12) scan_USB_2(11)] within_outside [OF scan_USB_2(14) scan_USB_2(13)]
    within_outside [OF scan_USB_2(16) scan_USB_2(15)] within_outside [OF scan_USB_2(18) scan_USB_2(17)]
    within_outside [OF scan_USB_2(20) scan_USB_2(19)] within_outside [OF scan_USB_2(22) scan_USB_2(21)]
    within_outside [OF scan_USB_2(24) scan_USB_2(23)] within_outside [OF scan_USB_3(2) scan_USB_3(1)]
    within_outside [OF scan_USB_3(4) scan_USB_3(3)] within_outside [OF scan_USB_3(6) scan_USB_3(5)]
    within_outside [OF scan_USB_3(8) scan_USB_3(7)] within_outside [OF scan_USB_3(10) scan_USB_3(9)]
    within_outside [OF scan_USB_3(12) scan_USB_3(11)] within_outside [OF scan_USB_3(14) scan_USB_3(13)]
    within_outside [OF scan_USB_3(16) scan_USB_3(15)] within_outside [OF scan_USB_3(18) scan_USB_3(17)]
    within_outside [OF scan_USB_3(20) scan_USB_3(19)] within_outside [OF scan_USB_3(22) scan_USB_3(21)]
    within_outside [OF scan_USB_3(24) scan_USB_3(23)] within_outside [OF scan_USB_4(2) scan_USB_4(1)]
    within_outside [OF scan_USB_4(4) scan_USB_4(3)] within_outside [OF scan_USB_4(6) scan_USB_4(5)]
    within_outside [OF scan_USB_4(8) scan_USB_4(7)] within_outside [OF scan_USB_4(10) scan_USB_4(9)]
    within_outside [OF scan_USB_4(12) scan_USB_4(11)] within_outside [OF scan_USB_4(14) scan_USB_4(13)]
    within_outside [OF scan_USB_4(16) scan_USB_4(15)] within_outside [OF scan_USB_4(18) scan_USB_4(17)]
    within_outside [OF scan_USB_4(20) scan_USB_4(19)] within_outside [OF scan_USB_4(22) scan_USB_4(21)]
    within_outside [OF scan_USB_4(24) scan_USB_4(23)] within_outside [OF scan_USB_5(2) scan_USB_5(1)]
    within_outside [OF scan_USB_5(4) scan_USB_5(3)] within_outside [OF scan_USB_5(6) scan_USB_5(5)]
    within_outside [OF scan_USB_5(8) scan_USB_5(7)] within_outside [OF scan_USB_5(10) scan_USB_5(9)]
    within_outside [OF scan_USB_5(12) scan_USB_5(11)] within_outside [OF scan_USB_5(14) scan_USB_5(13)])

lemma within_gintmsk: "within 0x18 0x1c fields_USB = within 0x18 0x1c (regdefs_19536)"
  by (simp add: fields_USB_def within_append
    within_outside [OF scan_USB_1(2) scan_USB_1(1)] within_outside [OF scan_USB_1(4) scan_USB_1(3)]
    within_outside [OF scan_USB_1(6) scan_USB_1(5)] within_outside [OF scan_USB_1(10) scan_USB_1(9)]
    within_outside [OF scan_USB_1(12) scan_USB_1(11)] within_outside [OF scan_USB_1(14) scan_USB_1(13)]
    within_outside [OF scan_USB_1(16) scan_USB_1(15)] within_outside [OF scan_USB_1(18) scan_USB_1(17)]
    within_outside [OF scan_USB_1(20) scan_USB_1(19)] within_outside [OF scan_USB_1(22) scan_USB_1(21)]
    within_outside [OF scan_USB_1(24) scan_USB_1(23)] within_outside [OF scan_USB_2(2) scan_USB_2(1)]
    within_outside [OF scan_USB_2(4) scan_USB_2(3)] within_outside [OF scan_USB_2(6) scan_USB_2(5)]
    within_outside [OF scan_USB_2(8) scan_USB_2(7)] within_outside [OF scan_USB_2(10) scan_USB_2(9)]
    within_outside [OF scan_USB_2(12) scan_USB_2(11)] within_outside [OF scan_USB_2(14) scan_USB_2(13)]
    within_outside [OF scan_USB_2(16) scan_USB_2(15)] within_outside [OF scan_USB_2(18) scan_USB_2(17)]
    within_outside [OF scan_USB_2(20) scan_USB_2(19)] within_outside [OF scan_USB_2(22) scan_USB_2(21)]
    within_outside [OF scan_USB_2(24) scan_USB_2(23)] within_outside [OF scan_USB_3(2) scan_USB_3(1)]
    within_outside [OF scan_USB_3(4) scan_USB_3(3)] within_outside [OF scan_USB_3(6) scan_USB_3(5)]
    within_outside [OF scan_USB_3(8) scan_USB_3(7)] within_outside [OF scan_USB_3(10) scan_USB_3(9)]
    within_outside [OF scan_USB_3(12) scan_USB_3(11)] within_outside [OF scan_USB_3(14) scan_USB_3(13)]
    within_outside [OF scan_USB_3(16) scan_USB_3(15)] within_outside [OF scan_USB_3(18) scan_USB_3(17)]
    within_outside [OF scan_USB_3(20) scan_USB_3(19)] within_outside [OF scan_USB_3(22) scan_USB_3(21)]
    within_outside [OF scan_USB_3(24) scan_USB_3(23)] within_outside [OF scan_USB_4(2) scan_USB_4(1)]
    within_outside [OF scan_USB_4(4) scan_USB_4(3)] within_outside [OF scan_USB_4(6) scan_USB_4(5)]
    within_outside [OF scan_USB_4(8) scan_USB_4(7)] within_outside [OF scan_USB_4(10) scan_USB_4(9)]
    within_outside [OF scan_USB_4(12) scan_USB_4(11)] within_outside [OF scan_USB_4(14) scan_USB_4(13)]
    within_outside [OF scan_USB_4(16) scan_USB_4(15)] within_outside [OF scan_USB_4(18) scan_USB_4(17)]
    within_outside [OF scan_USB_4(20) scan_USB_4(19)] within_outside [OF scan_USB_4(22) scan_USB_4(21)]
    within_outside [OF scan_USB_4(24) scan_USB_4(23)] within_outside [OF scan_USB_5(2) scan_USB_5(1)]
    within_outside [OF scan_USB_5(4) scan_USB_5(3)] within_outside [OF scan_USB_5(6) scan_USB_5(5)]
    within_outside [OF scan_USB_5(8) scan_USB_5(7)] within_outside [OF scan_USB_5(10) scan_USB_5(9)]
    within_outside [OF scan_USB_5(12) scan_USB_5(11)] within_outside [OF scan_USB_5(14) scan_USB_5(13)])

lemma within_daintmsk: "within 0x81c 0x820 fields_USB = within 0x81c 0x820 (regdefs_20546 @ regdefs_20696)"
  by (simp add: fields_USB_def within_append
    within_outside [OF scan_USB_1(2) scan_USB_1(1)] within_outside [OF scan_USB_1(4) scan_USB_1(3)]
    within_outside [OF scan_USB_1(6) scan_USB_1(5)] within_outside [OF scan_USB_1(8) scan_USB_1(7)]
    within_outside [OF scan_USB_1(10) scan_USB_1(9)] within_outside [OF scan_USB_1(12) scan_USB_1(11)]
    within_outside [OF scan_USB_1(14) scan_USB_1(13)] within_outside [OF scan_USB_1(16) scan_USB_1(15)]
    within_outside [OF scan_USB_1(18) scan_USB_1(17)] within_outside [OF scan_USB_1(20) scan_USB_1(19)]
    within_outside [OF scan_USB_1(22) scan_USB_1(21)] within_outside [OF scan_USB_2(4) scan_USB_2(3)]
    within_outside [OF scan_USB_2(6) scan_USB_2(5)] within_outside [OF scan_USB_2(8) scan_USB_2(7)]
    within_outside [OF scan_USB_2(10) scan_USB_2(9)] within_outside [OF scan_USB_2(12) scan_USB_2(11)]
    within_outside [OF scan_USB_2(14) scan_USB_2(13)] within_outside [OF scan_USB_2(16) scan_USB_2(15)]
    within_outside [OF scan_USB_2(18) scan_USB_2(17)] within_outside [OF scan_USB_2(20) scan_USB_2(19)]
    within_outside [OF scan_USB_2(22) scan_USB_2(21)] within_outside [OF scan_USB_2(24) scan_USB_2(23)]
    within_outside [OF scan_USB_3(2) scan_USB_3(1)] within_outside [OF scan_USB_3(4) scan_USB_3(3)]
    within_outside [OF scan_USB_3(6) scan_USB_3(5)] within_outside [OF scan_USB_3(8) scan_USB_3(7)]
    within_outside [OF scan_USB_3(10) scan_USB_3(9)] within_outside [OF scan_USB_3(12) scan_USB_3(11)]
    within_outside [OF scan_USB_3(14) scan_USB_3(13)] within_outside [OF scan_USB_3(16) scan_USB_3(15)]
    within_outside [OF scan_USB_3(18) scan_USB_3(17)] within_outside [OF scan_USB_3(20) scan_USB_3(19)]
    within_outside [OF scan_USB_3(22) scan_USB_3(21)] within_outside [OF scan_USB_3(24) scan_USB_3(23)]
    within_outside [OF scan_USB_4(2) scan_USB_4(1)] within_outside [OF scan_USB_4(4) scan_USB_4(3)]
    within_outside [OF scan_USB_4(6) scan_USB_4(5)] within_outside [OF scan_USB_4(8) scan_USB_4(7)]
    within_outside [OF scan_USB_4(10) scan_USB_4(9)] within_outside [OF scan_USB_4(12) scan_USB_4(11)]
    within_outside [OF scan_USB_4(14) scan_USB_4(13)] within_outside [OF scan_USB_4(16) scan_USB_4(15)]
    within_outside [OF scan_USB_4(18) scan_USB_4(17)] within_outside [OF scan_USB_4(20) scan_USB_4(19)]
    within_outside [OF scan_USB_4(22) scan_USB_4(21)] within_outside [OF scan_USB_4(24) scan_USB_4(23)]
    within_outside [OF scan_USB_5(2) scan_USB_5(1)] within_outside [OF scan_USB_5(4) scan_USB_5(3)]
    within_outside [OF scan_USB_5(6) scan_USB_5(5)] within_outside [OF scan_USB_5(8) scan_USB_5(7)]
    within_outside [OF scan_USB_5(10) scan_USB_5(9)] within_outside [OF scan_USB_5(12) scan_USB_5(11)]
    within_outside [OF scan_USB_5(14) scan_USB_5(13)])

definition places :: "int \<Rightarrow> int \<Rightarrow> reg_field list \<Rightarrow> (string \<times> int \<times> nat \<times> int) list" where
  "places lo hi fs = map (\<lambda>f. (field_name f, field_offset f, lsb f, field_mask f)) (within lo hi fs)"

lemma in_endpoint_places:
  "places 0x920 0xb00 fields_USB = concat (map (\<lambda>n. map (at_endpoint 0x900 n) in_endpoint_fields) [1..<16])"
  unfolding places_def within_in unfolding within_def filter_append map_append
  by (simp add: in_endpoint_fields_def at_endpoint_def decimal_def upt_rec
    regdefs_20901_def regdefs_21051_def regdefs_21201_def regdefs_21296_def regdefs_21396_def regdefs_21546_def regdefs_21696_def regdefs_21791_def regdefs_21891_def regdefs_22041_def regdefs_22191_def regdefs_22286_def regdefs_22386_def regdefs_22536_def regdefs_22686_def regdefs_22781_def regdefs_22881_def regdefs_23031_def regdefs_23181_def regdefs_23276_def)

lemma out_endpoint_places:
  "places 0xb20 0xd00 fields_USB = concat (map (\<lambda>n. map (at_endpoint 0xb00 n) out_endpoint_fields) [1..<16])"
  unfolding places_def within_out unfolding within_def filter_append map_append
  by (simp add: out_endpoint_fields_def at_endpoint_def decimal_def upt_rec
    regdefs_23521_def regdefs_23671_def regdefs_23816_def regdefs_23906_def regdefs_24001_def regdefs_24151_def regdefs_24296_def regdefs_24386_def regdefs_24481_def regdefs_24631_def regdefs_24776_def regdefs_24866_def regdefs_24961_def regdefs_25111_def regdefs_25256_def regdefs_25346_def regdefs_25441_def regdefs_25591_def regdefs_25736_def regdefs_25826_def)

text \<open>
  Endpoint 0 has fewer fields, each at the position of the others; some have a narrower mask, and in the last
  register of the output side the two bits of \<open>RXDPID\<close> have another name.
\<close>

definition first_field ::
  "(string \<times> string \<times> int) list \<Rightarrow> (string \<times> string \<times> int \<times> nat \<times> int) \<Rightarrow> string \<times> string \<times> int \<times> nat \<times> int" where
  "first_field changes t = (case t of (r, f, x, l, m) \<Rightarrow>
     (case map_of changes f of None \<Rightarrow> (r, f, x, l, m) | Some (f', m') \<Rightarrow> (r, f', x, l, m')))"

definition in_first_fields :: "(string \<times> string \<times> int \<times> nat \<times> int) list" where
  "in_first_fields =
     map (first_field [(''MPS'', ''MPS'', 0x3), (''XFERSIZE'', ''XFERSIZE'', 0x7f), (''PKTCNT'', ''PKTCNT'', 0x180000)])
       (filter (\<lambda>(r, f, t). f \<notin> {''DPID'', ''SETD0PID'', ''SETD1PID'', ''MC''}) in_endpoint_fields)"

definition out_first_fields :: "(string \<times> string \<times> int \<times> nat \<times> int) list" where
  "out_first_fields =
     map (first_field [(''MPS'', ''MPS'', 0x3), (''XFERSIZE'', ''XFERSIZE'', 0x7f), (''PKTCNT'', ''PKTCNT'', 0x80000),
         (''RXDPID'', ''SUPCNT'', 0x60000000)])
       (filter (\<lambda>(r, f, t). f \<notin> {''DPID'', ''SETD0PID'', ''SETD1PID''}) out_endpoint_fields)"

lemma first_endpoint_places:
  "places 0x900 0x920 fields_USB = map (at_endpoint 0x900 0) in_first_fields"
  "places 0xb00 0xb20 fields_USB = map (at_endpoint 0xb00 0) out_first_fields"
  unfolding places_def within_in_0 within_out_0 unfolding within_def filter_append map_append
  by (simp_all add: in_first_fields_def out_first_fields_def first_field_def in_endpoint_fields_def out_endpoint_fields_def
    at_endpoint_def decimal_def regdefs_20696_def regdefs_20806_def regdefs_23276_def regdefs_23426_def)

section \<open>Interrupt masks\<close>

text \<open>
  \<open>GINTSTS(bit)\<close> and \<open>GINTMSK(bit)\<close> take the name of an interrupt; the second pastes
  \<open>MSK\<close> to it. \<open>DAINT_INEP\<close> and \<open>DAINT_OUTEP\<close> take the number of an endpoint.
\<close>

definition GINT_names :: "int \<Rightarrow> string list \<Rightarrow> reg_field list \<Rightarrow> (string \<times> nat) list" where
  "GINT_names x ex fs = map (\<lambda>f. (drop 12 (field_name f), lsb f))
     (filter (\<lambda>f. drop 12 (field_name f) \<notin> set ex) (within x (x + 4) fs))"

definition DAINT_INEP :: "nat \<Rightarrow> u32" where
  "DAINT_INEP ep = push_bit (ep + 0) 1"

definition DAINT_OUTEP :: "nat \<Rightarrow> u32" where
  "DAINT_OUTEP ep = push_bit (ep + 16) 1"

lemma gint_names:
  "map (\<lambda>(n, l). (n @ ''MSK'', l)) (GINT_names 0x14 [''CURMOD'', ''INCOMPLP''] fields_USB) =
     GINT_names 0x18 [''UNKNOWN5'', ''UNKNOWN16'', ''INCOMPLISOOUTMSK'', ''DISCONNINTMSK''] fields_USB"
  by (simp add: GINT_names_def within_gintsts within_gintmsk within_append)
    (simp add: within_def regdefs_19421_def regdefs_19536_def)

lemma daint_masks:
  "map (\<lambda>f. (field_name f, mask_word f)) (within 0x81c 0x820 fields_USB) =
     map (\<lambda>ep. (''USB_DAINTMSK_INEPMSK'' @ decimal ep, DAINT_INEP ep)) [0..<16] @
     map (\<lambda>ep. (''USB_DAINTMSK_OUTEPMSK'' @ decimal ep, DAINT_OUTEP ep)) [0..<16]"
  unfolding within_daintmsk unfolding within_def filter_append map_append
  by (simp add: mask_word_def DAINT_INEP_def DAINT_OUTEP_def decimal_def upt_rec push_bit_eq_mult
    regdefs_20546_def regdefs_20696_def)

section \<open>The portal\<close>

definition GC_USB_GGPIO_GPO :: reg_field where "GC_USB_GGPIO_GPO = Field ''USB_GGPIO_GPO'' 16 0xffff0000 16 0x0 0x38"
definition GC_USB_GGPIO_GPI :: reg_field where "GC_USB_GGPIO_GPI = Field ''USB_GGPIO_GPI'' 0 0xffff 16 0x0 0x38"

definition GP_OUT :: "u32 \<Rightarrow> u32" where
  "GP_OUT v = mask_word GC_USB_GGPIO_GPO AND push_bit (lsb GC_USB_GGPIO_GPO) v"

definition GP_IN :: "u32 \<Rightarrow> u32" where
  "GP_IN v = mask_word GC_USB_GGPIO_GPI AND push_bit (lsb GC_USB_GGPIO_GPI) v"

definition GGPIO_WRITE :: "u32 \<Rightarrow> u32 \<Rightarrow> u32" where
  "GGPIO_WRITE r val = GP_OUT (push_bit 15 1 OR push_bit 4 (val AND 0xFF) OR (r AND 0x0F))"

definition GGPIO_READ :: "u32 \<Rightarrow> u32" where
  "GGPIO_READ r = GP_OUT (r AND 0x0F)"

text \<open>The custom registers of the USB module and their bits.\<close>

definition USB_CUSTOM_CFG :: "(string \<times> u32) list" where
  "USB_CUSTOM_CFG = [(''USB_PHY_ACTIVE'', 0x04), (''USB_TESTMODE'', 0x02), (''USB_SEL_PHY0'', 0x00), (''USB_SEL_PHY1'', 0x01)]"

definition USB_IDLE_PHY_CTRL :: "(string \<times> u32) list" where
  "USB_IDLE_PHY_CTRL =
     [(''USB_FS_SUSPENDB'', push_bit 7 1), (''USB_FS_EDGE_SEL'', push_bit 6 1), (''USB_DM_PULLUP_EN'', push_bit 5 1),
      (''USB_DP_RPU2_ENB'', push_bit 4 1), (''USB_DP_RPU1_ENB'', push_bit 3 1), (''USB_TX_OEB'', push_bit 2 1),
      (''USB_TX_DPO'', push_bit 1 1), (''USB_TX_DMO'', push_bit 0 1)]"

text \<open>
  What the comment of the portal says of a word written to \<open>GGPIO\<close>: its upper half, \<open>GP_OUT\<close>, has
  the direction in bit 15, the value in bits 11:4 and the register in bits 3:0.
\<close>

definition portal_decode :: "u32 \<Rightarrow> bool \<times> u32 \<times> u32" where
  "portal_decode w = (let out = drop_bit 16 w in (bit out 15, drop_bit 4 out AND 0xFF, out AND 0x0F))"

lemma ggpio_fields: "GC_USB_GGPIO_GPO \<in> set fields_USB" "GC_USB_GGPIO_GPI \<in> set fields_USB"
proof -
  have "GC_USB_GGPIO_GPO \<in> set regdefs_19686" "GC_USB_GGPIO_GPI \<in> set regdefs_19686"
    by (simp_all add: GC_USB_GGPIO_GPO_def GC_USB_GGPIO_GPI_def regdefs_19686_def)
  moreover have "set regdefs_19686 \<subseteq> set fields_USB" by (auto simp: fields_USB_def)
  ultimately show "GC_USB_GGPIO_GPO \<in> set fields_USB" "GC_USB_GGPIO_GPI \<in> set fields_USB" by blast+
qed

lemma and_low: "x AND 0xFF = take_bit 8 x" "x AND 0x0F = take_bit 4 x" for x :: u32
  by (simp_all add: take_bit_eq_mask mask_eq_exp_minus_1)

lemma GGPIO_bits: "well_formed GC_USB_GGPIO_GPO" "lsb GC_USB_GGPIO_GPO = 16" "width GC_USB_GGPIO_GPO = 16"
  "well_formed GC_USB_GGPIO_GPI" "lsb GC_USB_GGPIO_GPI = 0" "width GC_USB_GGPIO_GPI = 16"
  by (simp_all add: GC_USB_GGPIO_GPO_def GC_USB_GGPIO_GPI_def)

lemma bit_GP_OUT: "bit (GP_OUT v) i \<longleftrightarrow> 16 \<le> i \<and> i < 32 \<and> bit v (i - 16)"
  by (auto simp: GP_OUT_def bit_and_iff bit_push_bit_iff bit_mask_word [OF GGPIO_bits(1)] GGPIO_bits)

lemma drop_GP_OUT: "drop_bit 16 (GP_OUT v) = take_bit 16 v"
  by (auto simp: bit_eq_iff bit_drop_bit_eq bit_take_bit_iff bit_GP_OUT)

text \<open>The parts of a word written to the portal, for any direction \<open>t\<close>.\<close>

lemma portal_parts:
  fixes t v r :: u32
  defines "w \<equiv> take_bit 16 (push_bit 15 t OR push_bit 4 (take_bit 8 v) OR take_bit 4 r)"
  shows "bit w 15 = bit t 0" "take_bit 8 (drop_bit 4 w) = take_bit 8 v" "take_bit 4 w = take_bit 4 r"
proof -
  show "bit w 15 = bit t 0" by (simp add: w_def bit_simps)
  show "take_bit 8 (drop_bit 4 w) = take_bit 8 v" "take_bit 4 w = take_bit 4 r"
    unfolding w_def by (rule bit_word_eqI; auto simp: bit_simps)+
qed

lemma portal_words:
  "portal_decode (GGPIO_WRITE r val) = (True, val AND 0xFF, r AND 0x0F)"
  "portal_decode (GGPIO_READ r) = (False, 0, r AND 0x0F)"
  using portal_parts [of 1 val r] portal_parts [of 0 0 r]
  by (simp_all only: portal_decode_def GGPIO_WRITE_def GGPIO_READ_def drop_GP_OUT and_low Let_def) simp_all

lemma GP_OUT_cut: "GP_OUT v = cut_word GC_USB_GGPIO_GPO v" "GP_IN v = cut_word GC_USB_GGPIO_GPI v"
  by (simp_all only: GP_OUT_def GP_IN_def cut_word_def and.commute)

section \<open>DMA descriptors\<close>

text \<open>
  The flags of a descriptor (member \<open>flags\<close> of \<open>g_usb_desc\<close>), number and position of every constant. In C \<open>2 << 30\<close> and
  \<open>3 << 30\<close> overflow \<open>int\<close>; the words are what compilers make of them.
\<close>

definition DOEPDMA_macros :: "(string \<times> u32 \<times> nat) list" where
  "DOEPDMA_macros =
     [(''BS_HOST_RDY'', 0, 30), (''BS_DMA_BSY'', 1, 30), (''BS_DMA_DONE'', 2, 30), (''BS_HOST_BSY'', 3, 30),
      (''BS_MASK'', 3, 30), (''RXSTS_MASK'', 3, 28), (''LAST'', 1, 27), (''SP'', 1, 26), (''IOC'', 1, 25),
      (''SR'', 1, 24), (''MTRF'', 1, 23), (''NAK'', 1, 16), (''RXBYTES_MASK'', 0xFFFF, 0)]"

definition DIEPDMA_macros :: "(string \<times> u32 \<times> nat) list" where
  "DIEPDMA_macros =
     [(''BS_HOST_RDY'', 0, 30), (''BS_DMA_BSY'', 1, 30), (''BS_DMA_DONE'', 2, 30), (''BS_HOST_BSY'', 3, 30),
      (''BS_MASK'', 3, 30), (''TXSTS_MASK'', 3, 28), (''LAST'', 1, 27), (''SP'', 1, 26), (''IOC'', 1, 25),
      (''TXBYTES_MASK'', 0xFFFF, 0)]"

text \<open>\<open>DOEPDMA_RXBYTES\<close>, and \<open>DIEPDMA_TXBYTES\<close>, which is the same.\<close>

definition DOEPDMA_RXBYTES :: "u32 \<Rightarrow> u32" where
  "DOEPDMA_RXBYTES n = push_bit 0 (n AND 0xFFFF)"

definition dma_words :: "(string \<times> u32 \<times> nat) list \<Rightarrow> u32 list" where
  "dma_words ms = map (\<lambda>(n, v, l). push_bit l v) ms"

text \<open>
  Apart from the four states, which are the numbers of the first field, the macros name different bits, so a descriptor
  put together with OR has the state, the flags and the count it was put together from.
\<close>

lemma dma_states:
  "list_all (\<lambda>w. w AND hd (drop 4 (dma_words ms)) = w) (take 4 (dma_words ms)) \<and> distinct (take 4 (dma_words ms))"
  if "ms = DOEPDMA_macros \<or> ms = DIEPDMA_macros"
  using that by (auto simp: dma_words_def DOEPDMA_macros_def DIEPDMA_macros_def)

lemma dma_flags_apart:
  "sorted_wrt (\<lambda>v w. v AND w = 0) (drop 4 (dma_words ms))" if "ms = DOEPDMA_macros \<or> ms = DIEPDMA_macros"
  using that by (auto simp: dma_words_def DOEPDMA_macros_def DIEPDMA_macros_def)

lemma dma_count:
  "DOEPDMA_RXBYTES n AND 0xFFFF = DOEPDMA_RXBYTES n" "n \<le> 0xFFFF \<Longrightarrow> DOEPDMA_RXBYTES n = n"
proof -
  have *: "DOEPDMA_RXBYTES n = take_bit 16 n"
    by (simp add: DOEPDMA_RXBYTES_def take_bit_eq_mask mask_eq_exp_minus_1)
  show "DOEPDMA_RXBYTES n AND 0xFFFF = DOEPDMA_RXBYTES n" by (simp add: DOEPDMA_RXBYTES_def and.assoc)
  assume "n \<le> 0xFFFF"
  then have "unat n < 2 ^ 16" by (simp add: word_le_nat_alt)
  then show "DOEPDMA_RXBYTES n = n"
    unfolding * by (simp add: word_unat_eq_iff unsigned_take_bit_eq take_bit_nat_eq_self)
qed

section \<open>Properties\<close>

definition holds_number :: "reg_field list \<Rightarrow> string \<Rightarrow> nat \<Rightarrow> bool" where
  "holds_number fs n v \<longleftrightarrow> (\<exists>f \<in> set fs. field_name f = n \<and> macro_word f v AND NOT (mask_word f) = 0 \<and>
     drop_bit (lsb f) (macro_word f v AND mask_word f) = of_nat v)"

definition cuts_argument :: "reg_field list \<Rightarrow> string \<Rightarrow> bool" where
  "cuts_argument fs n \<longleftrightarrow> (\<exists>f \<in> set fs. field_name f = n \<and> (\<forall>x. cut_word f x AND NOT (mask_word f) = 0 \<and>
     drop_bit (lsb f) (cut_word f x AND mask_word f) = take_bit (width f) x))"

definition shifts_argument :: "reg_field list \<Rightarrow> string \<Rightarrow> bool" where
  "shifts_argument fs n \<longleftrightarrow> (\<exists>f \<in> set fs. field_name f = n \<and> (\<forall>x.
     drop_bit (lsb f) (shift_word f x AND mask_word f) = take_bit (width f) x \<and>
     (shift_word f x AND NOT (mask_word f) = 0 \<longleftrightarrow> take_bit (32 - lsb f) x = take_bit (width f) x)))"

lemma puts_field:
  assumes "puts fields_USB (n, v)"
  obtains f where "f \<in> set fields_USB" "field_name f = n" "well_formed f" "v < 2 ^ width f"
  using assms fields_USB_scan(1) by (auto simp: puts_def list_ex_iff list_all_iff)

lemma puts_holds: "puts fields_USB (n, v) \<Longrightarrow> holds_number fields_USB n v"
proof (erule puts_field)
  fix f assume f: "f \<in> set fields_USB" "field_name f = n" "well_formed f" "v < 2 ^ width f"
  have "take_bit (width f) (of_nat v :: u32) = of_nat v"
    using f(4) by (metis of_nat_take_bit take_bit_nat_eq_self)
  with f cut_word_reads [OF f(3), of "of_nat v"] show "holds_number fields_USB n v"
    unfolding holds_number_def macro_word_cut [OF f(3,4), symmetric] by metis
qed

lemma puts_cuts: "puts fields_USB (n, v) \<Longrightarrow> cuts_argument fields_USB n"
  unfolding cuts_argument_def by (erule puts_field) (use cut_word_reads in blast)

lemma puts_shifts: "puts fields_USB (n, v) \<Longrightarrow> shifts_argument fields_USB n"
  unfolding shifts_argument_def by (erule puts_field) (use shift_word_fits shift_word_reads in blast)

text \<open>
  C34. The USB macros of registers.h against the tables. Every constant macro puts a number into one field of
  the controller: it has no bit outside, and the field reads as the number. The macros that cut their argument
  cannot leave their field. Those that only shift it put its low bits into the field, and every bit of the argument
  beyond the width of the field that the shift does not lose lands outside: they touch their field alone exactly for
  the arguments without such bits. The macros for endpoint registers use the fields of endpoint 0 or 1. Those
  of the endpoints 1 to 15, in and out, stand at the same places in each. Endpoint 0 has its fields at the same positions,
  but \<open>MPS\<close>, \<open>XFERSIZE\<close> and \<open>PKTCNT\<close> have narrower masks there (\<open>PKTCNT\<close> one bit on the
  output side and two on the input side), and the macros that shift do not cut to them. The
  interrupt masks have the bits of the interrupts of the same name, and \<open>DAINT_INEP\<close> and
  \<open>DAINT_OUTEP\<close> are the masks of their endpoints.
\<close>

theorem usb_macros_fit:
  "list_all (\<lambda>(m, n, v). holds_number fields_USB n v) usb_macros \<and>
   list_all (\<lambda>(m, n). cuts_argument fields_USB n) cut_macros \<and>
   list_all (\<lambda>(m, n). shifts_argument fields_USB n) shift_macros \<and>
   places 0x920 0xb00 fields_USB = concat (map (\<lambda>n. map (at_endpoint 0x900 n) in_endpoint_fields) [1..<16]) \<and>
   places 0xb20 0xd00 fields_USB = concat (map (\<lambda>n. map (at_endpoint 0xb00 n) out_endpoint_fields) [1..<16]) \<and>
   places 0x900 0x920 fields_USB = map (at_endpoint 0x900 0) in_first_fields \<and>
   places 0xb00 0xb20 fields_USB = map (at_endpoint 0xb00 0) out_first_fields \<and>
   map (\<lambda>(n, l). (n @ ''MSK'', l)) (GINT_names 0x14 [''CURMOD'', ''INCOMPLP''] fields_USB) =
     GINT_names 0x18 [''UNKNOWN5'', ''UNKNOWN16'', ''INCOMPLISOOUTMSK'', ''DISCONNINTMSK''] fields_USB \<and>
   map (\<lambda>f. (field_name f, mask_word f)) (within 0x81c 0x820 fields_USB) =
     map (\<lambda>ep. (''USB_DAINTMSK_INEPMSK'' @ decimal ep, DAINT_INEP ep)) [0..<16] @
     map (\<lambda>ep. (''USB_DAINTMSK_OUTEPMSK'' @ decimal ep, DAINT_OUTEP ep)) [0..<16]"
proof (intro conjI in_endpoint_places out_endpoint_places first_endpoint_places gint_names daint_masks)
  show "list_all (\<lambda>(m, n, v). holds_number fields_USB n v) usb_macros"
    using macros_put by (auto simp: list_all_iff intro: puts_holds)
  show "list_all (\<lambda>(m, n). cuts_argument fields_USB n) cut_macros"
    "list_all (\<lambda>(m, n). shifts_argument fields_USB n) shift_macros"
    using cut_and_shift_put by (auto simp: list_all_iff intro: puts_cuts puts_shifts)
qed

text \<open>
  C35. The portal behind \<open>GGPIO\<close>: what \<open>GGPIO_WRITE\<close> and \<open>GGPIO_READ\<close> put in a word
  is what the comment says the device takes out of it: direction, value and register, the value and the
  register cut to 8 and 4 bits. The word touches the output half only, the field \<open>GPO\<close> of the
  register.
\<close>

theorem ggpio_roundtrip:
  "portal_decode (GGPIO_WRITE r val) = (True, val AND 0xFF, r AND 0x0F) \<and>
   portal_decode (GGPIO_READ r) = (False, 0, r AND 0x0F) \<and>
   GGPIO_WRITE r val AND NOT (mask_word GC_USB_GGPIO_GPO) = 0 \<and> GGPIO_READ r AND NOT (mask_word GC_USB_GGPIO_GPO) = 0 \<and>
   GC_USB_GGPIO_GPO \<in> set fields_USB \<and> GC_USB_GGPIO_GPI \<in> set fields_USB"
  using portal_words ggpio_fields
  by (simp add: GGPIO_WRITE_def GGPIO_READ_def GP_OUT_cut cut_word_reads [OF GGPIO_bits(1)])

end
