(* ===== verification/ConfigSelect.thy ===== *)
theory ConfigSelect
  imports Preprocessor
begin

text \<open>
  How C code asks for an option of the configuration: the macros \<open>__cfg_select\<close>, \<open>IS_ENABLED\<close>,
  \<open>STATIC_IF\<close> and \<open>STATIC_IF_NOT\<close> of chip/c/common.h. They tell by the number of their arguments
  whether an option is defined as nothing, which takes the expansion of function-like macros: arguments
  are split at commas, pasted, expanded and split again.
\<close>

section \<open>Tokens and arguments\<close>

type_synonym tokens = "string list"

text \<open>The arguments of a call: the text between its parentheses, cut at the commas outside inner ones.\<close>

fun split_args :: "nat \<Rightarrow> tokens \<Rightarrow> tokens \<Rightarrow> tokens list option" where
  "split_args d arg [] = (if d = 0 then Some [arg] else None)"
| "split_args d arg (t # ts) =
     (if t = '','' \<and> d = 0 then map_option (Cons arg) (split_args 0 [] ts)
      else if t = ''('' then split_args (d + 1) (arg @ [t]) ts
      else if t = '')'' then (if d = 0 then None else split_args (d - 1) (arg @ [t]) ts)
      else split_args d (arg @ [t]) ts)"

definition arguments :: "tokens \<Rightarrow> tokens list option" where
  "arguments ts = split_args 0 [] ts"

datatype select_error = Wrong_arguments | Invalid_token | Bad_option | Build_assertion

text \<open>\<open>p ## x\<close>: the first token of \<open>x\<close> has to continue an identifier.\<close>

definition word_char :: "char \<Rightarrow> bool" where
  "word_char c \<longleftrightarrow> c \<in> set ''_0123456789abcdefghijklmnopqrstuvwxyzABCDEFGHIJKLMNOPQRSTUVWXYZ''"

fun paste :: "string \<Rightarrow> tokens \<Rightarrow> select_error + tokens" where
  "paste p [] = Inr [p]"
| "paste p (t # ts) = (if t \<noteq> [] \<and> word_char (hd t) then Inr ((p @ t) # ts) else Inl Invalid_token)"

text \<open>\<open>#x\<close> (white space between tokens is one blank).\<close>

fun stringify :: "tokens \<Rightarrow> string" where
  "stringify [] = ''''"
| "stringify [t] = t"
| "stringify (t # ts) = t @ '' '' @ stringify ts"

definition quoted :: "string \<Rightarrow> string" where
  "quoted s = [CHR 0x22] @ s @ [CHR 0x22]"

section \<open>The selection\<close>

definition cfg_select_placeholder :: string where
  "cfg_select_placeholder = ''__cfg_select_placeholder_''"

text \<open>The one object-like macro among the names that can appear: it expands to two tokens.\<close>

definition expand_placeholder :: "tokens \<Rightarrow> tokens" where
  "expand_placeholder ts = concat (map (\<lambda>t. if t = cfg_select_placeholder then [''_'', '',''] else [t]) ts)"

definition cfg_select_3 :: "tokens \<Rightarrow> select_error + tokens" where
  "cfg_select_3 ts = (case arguments ts of Some (ignore1 # ignore2 # select # rest) \<Rightarrow> Inr select | _ \<Rightarrow> Inl Wrong_arguments)"

definition cfg_select_2 :: "tokens \<Rightarrow> tokens \<Rightarrow> tokens \<Rightarrow> select_error + tokens" where
  "cfg_select_2 arg1_or_junk on_empty otherwise =
     cfg_select_3 (expand_placeholder arg1_or_junk @ [''_'', '',''] @ on_empty @ ['',''] @ otherwise)"

definition cfg_select_1 :: "tokens \<Rightarrow> tokens \<Rightarrow> tokens \<Rightarrow> select_error + tokens" where
  "cfg_select_1 val on_empty otherwise =
     (case paste cfg_select_placeholder val of Inl e \<Rightarrow> Inl e | Inr arg \<Rightarrow> cfg_select_2 arg on_empty otherwise)"

definition cfg_select :: "tokens \<Rightarrow> tokens \<Rightarrow> tokens \<Rightarrow> select_error + tokens" where
  "cfg_select cfg on_empty otherwise =
     (case arguments (cfg @ ['',''] @ on_empty @ ['',''] @ otherwise) of
        Some [v, e, t] \<Rightarrow> cfg_select_1 v e t
      | _ \<Rightarrow> Inl Wrong_arguments)"

section \<open>The options\<close>

text \<open>
  \<open>__config_enabled\<close>: 1, or a statement that compares the name with the value. A call of the
  function of bad arguments that is left in the code is an error of the compiler.
\<close>

definition config_check :: "string \<Rightarrow> tokens \<Rightarrow> tokens" where
  "config_check cfg val =
     [''('', ''{'', ''int'', ''__undefined'', ''='', ''__builtin_strcmp'', ''('', quoted cfg, '','', quoted (stringify val), '')'',
      ''=='', ''0'', '';'', ''extern'', ''int'', ''IS_ENABLED_BAD_ARGS'', ''('', ''void'', '')'', ''__error'', ''('', quoted cfg,
      quoted '' must be <blank>, or not defined.'', '')'', '';'', ''if'', ''('', ''!'', ''__undefined'', '')'',
      ''IS_ENABLED_BAD_ARGS'', ''('', '')'', '';'', ''0'', '';'', ''}'', '')'']"

definition config_enabled :: "string \<Rightarrow> tokens \<Rightarrow> select_error + bool" where
  "config_enabled cfg val =
     (case cfg_select val [''1''] (config_check cfg val) of
        Inl e \<Rightarrow> Inl e
      | Inr ts \<Rightarrow> if ts = [''1''] then Inr True else if stringify val = cfg then Inr False else Inl Bad_option)"

text \<open>An option with its value: the name itself when it is not defined.\<close>

definition IS_ENABLED :: "string \<Rightarrow> tokens \<Rightarrow> select_error + bool" where
  "IS_ENABLED option val = config_enabled option val"

definition build_assertion :: "string \<Rightarrow> tokens \<Rightarrow> tokens" where
  "build_assertion cfg val =
     [''BUILD_ASSERT'', ''('', ''__builtin_strcmp'', ''('', quoted cfg, '','', quoted (stringify val), '')'', ''=='', ''0'', '')'', '';'']"

definition cfg_select_build_assert :: "string \<Rightarrow> tokens \<Rightarrow> string \<Rightarrow> string \<Rightarrow> select_error + string" where
  "cfg_select_build_assert cfg val on_empty undef =
     (case cfg_select val [on_empty] (build_assertion cfg val @ [undef]) of
        Inl e \<Rightarrow> Inl e
      | Inr ts \<Rightarrow> if ts = [on_empty] then Inr on_empty else if stringify val = cfg then Inr undef else Inl Build_assertion)"

definition STATIC_IF :: "string \<Rightarrow> tokens \<Rightarrow> select_error + string" where
  "STATIC_IF option val = cfg_select_build_assert option val ''static'' ''extern''"

definition STATIC_IF_NOT :: "string \<Rightarrow> tokens \<Rightarrow> select_error + string" where
  "STATIC_IF_NOT option val = cfg_select_build_assert option val ''extern'' ''static''"

section \<open>Calls\<close>

lemma split_args_cases:
  obtains (comma) "t = '',''" "d = 0" "split_args d a (t # ts) = map_option (Cons a) (split_args 0 [] ts)"
  | (close) "split_args d a (t # ts) = None" "t = '')''" "d = 0"
  | (step) d' where "\<And>b us. split_args d b (t # us) = split_args d' (b @ [t]) us"
proof -
  consider "t = '',''" "d = 0" | "t = '')''" "d = 0" | "t = ''(''" | "t = '')''" "d \<noteq> 0"
    | "t \<noteq> '',''" "t \<noteq> ''(''" "t \<noteq> '')''" | "d \<noteq> 0" "t \<noteq> ''(''" "t \<noteq> '')''" by blast
  then show ?thesis by cases (auto intro: comma close step)
qed

lemma split_args_nonempty: "split_args d a ts \<noteq> Some []"
proof (induction ts arbitrary: d a)
  case (Cons t ts)
  show ?case by (rule split_args_cases [of t d a ts]) (auto simp del: split_args.simps(2) simp: Cons.IH)
qed simp

lemma split_args_append:
  "split_args d a ts = Some as \<Longrightarrow> split_args d a (ts @ '','' # us) = map_option (append as) (split_args 0 [] us)"
proof (induction ts arbitrary: d a as)
  case Nil
  then show ?case by (cases "split_args 0 [] us") (auto split: if_splits)
next
  case (Cons t ts)
  show ?case
  proof (rule split_args_cases [of t d a ts])
    assume c: "t = '',''" "d = 0" and "split_args d a (t # ts) = map_option (Cons a) (split_args 0 [] ts)"
    with Cons.prems obtain bs where "as = a # bs" "split_args 0 [] ts = Some bs" by auto
    with c Cons.IH [of 0 "[]" bs] show ?thesis by (simp add: option.map_comp comp_def)
  next
    fix d' assume "\<And>b us. split_args d b (t # us) = split_args d' (b @ [t]) us"
    with Cons show ?thesis by simp
  qed (use Cons.prems in simp)
qed

lemma arguments_append:
  "arguments ts = Some as \<Longrightarrow> arguments (ts @ '','' # us) = map_option (append as) (arguments us)"
  by (simp add: arguments_def split_args_append)

text \<open>A token list without a comma of its own is one argument, also behind the beginning of one.\<close>

lemma split_args_start: "split_args d a ts = Some [b] \<Longrightarrow> split_args d c ts = Some [c @ ts]"
proof (induction ts arbitrary: d a c)
  case (Cons t ts)
  show ?case
  proof (rule split_args_cases [of t d a ts])
    assume "split_args d a (t # ts) = map_option (Cons a) (split_args 0 [] ts)"
    with Cons.prems have "split_args 0 [] ts = Some []" by (cases "split_args 0 [] ts") simp_all
    then show ?thesis using split_args_nonempty by blast
  next
    fix d' assume "\<And>b us. split_args d b (t # us) = split_args d' (b @ [t]) us"
    with Cons.prems Cons.IH [of d' "a @ [t]" "c @ [t]"] show ?thesis by (simp del: split_args.simps)
  qed (use Cons.prems in simp)
qed (simp split: if_splits)

lemma split_args_snoc: "split_args d a ts = Some [b] \<Longrightarrow> split_args d a (ts @ [''_'']) = Some [b @ [''_'']]"
proof (induction ts arbitrary: d a)
  case (Cons t ts)
  show ?case
  proof (rule split_args_cases [of t d a ts])
    assume "split_args d a (t # ts) = map_option (Cons a) (split_args 0 [] ts)"
    with Cons.prems have "split_args 0 [] ts = Some []" by (cases "split_args 0 [] ts") simp_all
    then show ?thesis using split_args_nonempty by blast
  next
    fix d' assume "\<And>b us. split_args d b (t # us) = split_args d' (b @ [t]) us"
    with Cons.prems Cons.IH [of d' "a @ [t]"] show ?thesis by (simp del: split_args.simps)
  qed (use Cons.prems in simp)
qed (simp split: if_splits)

lemma arguments_one: "arguments ts = Some [b] \<Longrightarrow> b = ts"
  using split_args_start [of 0 "[]" ts b "[]"] by (simp add: arguments_def)

section \<open>Property\<close>

text \<open>
  A value as it comes out of the expansion of the option: a list of tokens with balanced parentheses and
  without the name of the placeholder, which would have been expanded. The name of an option is an
  identifier.
\<close>

definition expanded :: "tokens \<Rightarrow> bool" where
  "expanded val \<longleftrightarrow> arguments val \<noteq> None \<and> cfg_select_placeholder \<notin> set val \<and> [] \<notin> set val"

definition option_name :: "string \<Rightarrow> bool" where
  "option_name n \<longleftrightarrow> n \<noteq> [] \<and> list_all word_char n"

lemma word_not_special: "word_char (hd t) \<Longrightarrow> t \<noteq> '','' \<and> t \<noteq> ''('' \<and> t \<noteq> '')''"
  by (auto simp: word_char_def)

lemma expand_none: "cfg_select_placeholder \<notin> set ts \<Longrightarrow> expand_placeholder ts = ts"
  by (induction ts) (auto simp: expand_placeholder_def)

text \<open>The selected argument.\<close>

lemma select_3_third:
  assumes "arguments x = Some [a, b]" and "arguments e = Some [e]" and "arguments t = Some [t]"
  shows "cfg_select_3 (x @ '','' # e @ '','' # t) = Inr e"
  using arguments_append [OF assms(1)] arguments_append [OF assms(2)] assms(3) by (simp add: cfg_select_3_def)

lemma select_3_second:
  assumes "arguments x = Some [a]" and "arguments e = Some [e]" and "arguments t = Some [t]"
  shows "cfg_select_3 (x @ '','' # e @ '','' # t) = Inr t"
  using arguments_append [OF assms(1)] arguments_append [OF assms(2)] assms(3) by (simp add: cfg_select_3_def)

lemma cfg_select_cases:
  assumes val: "arguments val = Some as" "cfg_select_placeholder \<notin> set val" "[] \<notin> set val"
    and e: "arguments e = Some [e]" and t: "arguments t = Some [t]"
  shows "cfg_select val e t =
    (if val = [] then Inr e else if length as \<noteq> 1 then Inl Wrong_arguments
     else if word_char (hd (hd val)) then Inr t else Inl Invalid_token)"
proof -
  have call: "arguments (val @ '','' # e @ '','' # t) = Some (as @ [e, t])"
    using arguments_append [OF val(1)] arguments_append [OF e] t by simp
  consider "val = []" | "val \<noteq> []" "length as \<noteq> 1" | u us where "val = u # us" "as = [u # us]"
    using val(1) arguments_one by (cases val; cases as; cases "tl as") (auto split: if_splits)
  then show ?thesis
  proof cases
    case 1
    with val(1) have "as = [[]]" by (simp add: arguments_def)
    moreover have "arguments [''_'', '','', ''_''] = Some [[''_''], [''_'']]" by (simp add: arguments_def)
    ultimately show ?thesis
      using 1 call select_3_third [of "[''_'', '','', ''_'']" _ _ e t] e t
      by (simp add: cfg_select_def cfg_select_1_def cfg_select_2_def expand_placeholder_def)
  next
    case 2
    then have "as \<noteq> []" using val(1) split_args_nonempty by (auto simp: arguments_def)
    with 2 obtain x y zs where "as = x # y # zs" by (cases as; cases "tl as") auto
    with 2 call show ?thesis by (cases zs) (auto simp: cfg_select_def split: list.splits)
  next
    case 3
    show ?thesis
    proof (cases "word_char (hd u)")
      case True
      let ?arg = "(cfg_select_placeholder @ u) # us"
      from 3 val(1) have "split_args 0 [u] us = Some [u # us]"
        using word_not_special [OF True] by (simp add: arguments_def)
      then have "split_args 0 [cfg_select_placeholder @ u] (us @ [''_'']) = Some [?arg @ [''_'']]"
        using split_args_snoc [OF split_args_start, of 0 "[u]" us "u # us" "[cfg_select_placeholder @ u]"] by simp
      then have "arguments (?arg @ [''_'']) = Some [?arg @ [''_'']]"
        by (simp add: arguments_def cfg_select_placeholder_def)
      from select_3_second [OF this e t]
      have "cfg_select_3 (?arg @ ''_'' # '','' # e @ '','' # t) = Inr t" by simp
      moreover have "u \<noteq> []" "expand_placeholder ?arg = ?arg"
        using 3 val(2,3) by (auto intro!: expand_none)
      ultimately show ?thesis
        using 3 call True by (simp add: cfg_select_def cfg_select_1_def cfg_select_2_def)
    qed (use 3 call val(3) in \<open>simp add: cfg_select_def cfg_select_1_def\<close>)
  qed
qed

lemma stringify_blank: "CHR '' '' \<in> set (stringify (t # u # ts))"
  by simp

lemma stringify_name:
  assumes "val \<noteq> []" and "CHR '' '' \<notin> set n"
  shows "stringify val = n \<longleftrightarrow> val = [n]"
proof (cases val rule: stringify.cases)
  case (3 t u us)
  then have "CHR '' '' \<in> set (stringify val)" using stringify_blank by simp
  with 3 assms(2) show ?thesis by blast
qed (use assms(1) in simp_all)

lemma name_no_blank: "option_name n \<Longrightarrow> CHR '' '' \<notin> set n"
proof -
  have "\<not> word_char (CHR '' '')" by (simp add: word_char_def)
  then show "option_name n \<Longrightarrow> CHR '' '' \<notin> set n" by (auto simp: option_name_def list_all_iff)
qed

lemma name_token: "option_name n \<Longrightarrow> arguments [n] = Some [[n]] \<and> word_char (hd n) \<and> n \<noteq> []"
  using word_not_special [of n] by (cases n) (auto simp: option_name_def arguments_def)

lemma checks_closed:
  "arguments (config_check n val) = Some [config_check n val]"
  "arguments (build_assertion n val @ [''static'']) = Some [build_assertion n val @ [''static'']]"
  "arguments (build_assertion n val @ [''extern'']) = Some [build_assertion n val @ [''extern'']]"
  by (simp_all add: arguments_def config_check_def build_assertion_def quoted_def)

text \<open>Why the expansion of a value fails: it has commas, its first token cannot be pasted, or the check on it fails.\<close>

definition select_failure :: "tokens \<Rightarrow> select_error \<Rightarrow> select_error" where
  "select_failure val check =
     (if length (the (arguments val)) \<noteq> 1 then Wrong_arguments else if word_char (hd (hd val)) then check else Invalid_token)"

lemma select_value:
  assumes "option_name n" and "expanded val" and "arguments e = Some [e]" and "arguments t = Some [t]"
  shows "cfg_select val e t =
    (if val = [] then Inr e else if val = [n] \<or> select_failure val Bad_option = Bad_option then Inr t
     else Inl (select_failure val Bad_option))"
proof -
  from assms(2) obtain as where "arguments val = Some as" "cfg_select_placeholder \<notin> set val" "[] \<notin> set val"
    by (auto simp: expanded_def)
  from cfg_select_cases [OF this assms(3,4)] this(1) name_token [OF assms(1)] show ?thesis
    by (auto simp: select_failure_def)
qed

lemma failure_kind:
  "if select_failure val Bad_option = Bad_option then select_failure val Build_assertion = Build_assertion
   else select_failure val Build_assertion = select_failure val Bad_option"
  by (simp add: select_failure_def)

lemma name_failure: "option_name n \<Longrightarrow> select_failure [n] a = a"
  using name_token [of n] by (simp add: select_failure_def)

text \<open>
  C25. Asking for an option. \<open>IS_ENABLED\<close> is 1 when the option is defined as nothing and 0 when its value is
  its own name, as for an option that is not defined; for any other value the code does not compile, because the
  macros get too many arguments, paste what is no token, or leave the call of the bad arguments or the
  failing assertion in the code. \<open>STATIC_IF\<close> is \<open>static\<close> and \<open>extern\<close> in the same two
  cases, \<open>STATIC_IF_NOT\<close> the other way round.
\<close>

theorem is_enabled_exact:
  assumes "option_name n" and "expanded val"
  shows "IS_ENABLED n val =
      (if val = [] then Inr True else if val = [n] then Inr False else Inl (select_failure val Bad_option)) \<and>
    STATIC_IF n val =
      (if val = [] then Inr ''static'' else if val = [n] then Inr ''extern'' else Inl (select_failure val Build_assertion)) \<and>
    STATIC_IF_NOT n val =
      (if val = [] then Inr ''extern'' else if val = [n] then Inr ''static'' else Inl (select_failure val Build_assertion))"
proof (intro conjI)
  have one: "arguments [t] = Some [[t]]" if "t \<in> {''1'', ''static'', ''extern''}" for t
    using that by (auto simp: arguments_def)
  have check: "config_check n val \<noteq> [''1'']" by (simp add: config_check_def)
  have text_is: "val \<noteq> [] \<Longrightarrow> stringify val = n \<longleftrightarrow> val = [n]"
    by (rule stringify_name) (simp_all add: name_no_blank assms(1))
  show "IS_ENABLED n val =
      (if val = [] then Inr True else if val = [n] then Inr False else Inl (select_failure val Bad_option))"
    using check text_is name_failure [OF assms(1)]
    by (auto simp: IS_ENABLED_def config_enabled_def select_value [OF assms one checks_closed(1)])
  have asserted: "cfg_select_build_assert n val a b =
      (if val = [] then Inr a else if val = [n] then Inr b else Inl (select_failure val Build_assertion))"
    if "arguments [a] = Some [[a]]" "arguments (build_assertion n val @ [b]) = Some [build_assertion n val @ [b]]" for a b
  proof -
    have "build_assertion n val @ [b] \<noteq> [a]" by (simp add: build_assertion_def)
    then show ?thesis
      using text_is name_failure [OF assms(1)] failure_kind [of val]
      by (auto simp: cfg_select_build_assert_def select_value [OF assms that] split: if_splits)
  qed
  show "STATIC_IF n val =
      (if val = [] then Inr ''static'' else if val = [n] then Inr ''extern'' else Inl (select_failure val Build_assertion))"
    unfolding STATIC_IF_def by (rule asserted [OF one checks_closed(3)]) simp
  show "STATIC_IF_NOT n val =
      (if val = [] then Inr ''extern'' else if val = [n] then Inr ''static'' else Inl (select_failure val Build_assertion))"
    unfolding STATIC_IF_NOT_def by (rule asserted [OF one checks_closed(2)]) simp
qed

theorem is_enabled_exact_witness:
  "IS_ENABLED ''CONFIG_RNG'' [] = Inr True \<and> IS_ENABLED ''CONFIG_RNG'' [''CONFIG_RNG''] = Inr False \<and>
   IS_ENABLED ''CONFIG_RNG'' [''1''] = Inl Bad_option \<and> IS_ENABLED ''CONFIG_RNG'' [''('', ''1'', '')''] = Inl Invalid_token"
proof -
  have n: "option_name ''CONFIG_RNG''" by (simp add: option_name_def word_char_def)
  have "expanded []" "expanded [''CONFIG_RNG'']" "expanded [''1'']" "expanded [''('', ''1'', '')'']"
    by (simp_all add: expanded_def arguments_def cfg_select_placeholder_def)
  from this [THEN is_enabled_exact [OF n]] show ?thesis
    by (simp add: select_failure_def arguments_def word_char_def)
qed

end
