(* ===== verification/CommonMacros.thy ===== *)
theory CommonMacros
  imports Registers "HOL-Library.Signed_Division"
begin

text \<open>
  The computing macros of the utility headers: bytes to integers, temperatures and margins
  (chip/c/common.h), powers of two and rounding divisions (util.h), bits (compile_time_macros.h).
  Arguments are bytes or unsigned 32-bit words, as where the macros name a size or a mask; temperatures and
  margins are of type \<open>int\<close>. A computation that C leaves undefined, the overflow of an \<open>int\<close> or a shift by
  the width of the type, has no value: it is \<open>None\<close>.
\<close>

unbundle bit_operations_syntax

section \<open>Bytes\<close>

definition UINT16_FROM_BYTES :: "u8 \<Rightarrow> u8 \<Rightarrow> u32" where
  "UINT16_FROM_BYTES lo hi = ucast lo OR push_bit 8 (ucast hi)"

definition UINT16_FROM_BYTE_ARRAY_LE :: "u8 list \<Rightarrow> nat \<Rightarrow> u32" where
  "UINT16_FROM_BYTE_ARRAY_LE data i = UINT16_FROM_BYTES (data ! i) (data ! (i + 1))"

definition UINT16_FROM_BYTE_ARRAY_BE :: "u8 list \<Rightarrow> nat \<Rightarrow> u32" where
  "UINT16_FROM_BYTE_ARRAY_BE data i = UINT16_FROM_BYTES (data ! (i + 1)) (data ! i)"

text \<open>
  In C the last byte is promoted to \<open>int\<close> before it is shifted by 24, which overflows from 0x80 on; the
  word is what compilers make of it.
\<close>

definition UINT32_FROM_BYTES :: "u8 \<Rightarrow> u8 \<Rightarrow> u8 \<Rightarrow> u8 \<Rightarrow> u32" where
  "UINT32_FROM_BYTES lo byte1 byte2 hi =
     ucast lo OR push_bit 8 (ucast byte1) OR push_bit 16 (ucast byte2) OR push_bit 24 (ucast hi)"

definition UINT32_FROM_BYTE_ARRAY_LE :: "u8 list \<Rightarrow> nat \<Rightarrow> u32" where
  "UINT32_FROM_BYTE_ARRAY_LE data i = UINT32_FROM_BYTES (data ! i) (data ! (i + 1)) (data ! (i + 2)) (data ! (i + 3))"

definition UINT32_FROM_BYTE_ARRAY_BE :: "u8 list \<Rightarrow> nat \<Rightarrow> u32" where
  "UINT32_FROM_BYTE_ARRAY_BE data i = UINT32_FROM_BYTES (data ! (i + 3)) (data ! (i + 2)) (data ! (i + 1)) (data ! i)"

section \<open>Temperatures and margins\<close>

definition C_int :: "int \<Rightarrow> int option" where
  "C_int v = (if - (2 ^ 31) \<le> v \<and> v < 2 ^ 31 then Some v else None)"

definition C_TO_K :: "int \<Rightarrow> int option" where "C_TO_K t = C_int (t + 273)"
definition K_TO_C :: "int \<Rightarrow> int option" where "K_TO_C t = C_int (t - 273)"

definition CELSIUS_TO_DECI_KELVIN :: "int \<Rightarrow> int option" where
  "CELSIUS_TO_DECI_KELVIN t = Option.bind (C_int (t * 10)) (\<lambda>x. C_int (x + 2731))"

definition DECI_KELVIN_TO_CELSIUS :: "int \<Rightarrow> int option" where
  "DECI_KELVIN_TO_CELSIUS t = Option.bind (C_int (t - 2731)) (\<lambda>x. C_int (x sdiv 10))"


section \<open>Words\<close>




definition DIV_ROUND_NEAREST :: "u32 \<Rightarrow> u32 \<Rightarrow> u32" where
  "DIV_ROUND_NEAREST x y = (x + y div 2) div y"


section \<open>What they compute\<close>

lemma take_4: "i + 4 \<le> length data \<Longrightarrow> take 4 (drop i data) = [data ! i, data ! (i + 1), data ! (i + 2), data ! (i + 3)]"
  by (rule nth_equalityI) (auto simp: nth_Cons' less_Suc_eq_0_disj numeral_eq_Suc)

lemma UINT32_of_le: "UINT32_FROM_BYTES a b c d = of_le [a, b, c, d]"
  by (simp add: UINT32_FROM_BYTES_def push_bit_or push_bit_push_bit ac_simps)

lemma UINT16_of_le: "UINT16_FROM_BYTES a b = of_le [a, b]"
  by (simp add: UINT16_FROM_BYTES_def)




text \<open>A register of memory-mapped hardware is its four bytes, least significant first.\<close>

lemma REG32_bytes:
  assumes "mem_read m (unat a) 4 = data"
  shows "REG32 m a = UINT32_FROM_BYTE_ARRAY_LE data 0"
proof -
  have "length data = 4" using assms by (simp add: mem_read_def flip: assms)
  then have "data = [data ! 0, data ! 1, data ! 2, data ! 3]" using take_4 [of 0 data]
    by (simp add: numeral_2_eq_2)
  then have "of_le data = (of_le [data ! 0, data ! 1, data ! 2, data ! 3] :: u32)" by (rule arg_cong)
  with assms show ?thesis
    by (simp add: REG32_def UINT32_FROM_BYTE_ARRAY_LE_def UINT32_of_le numeral_eq_Suc del: of_le.simps)
qed

lemma UINT32_of_array:
  assumes "i + 4 \<le> length data"
  shows "UINT32_FROM_BYTE_ARRAY_LE data i = of_le (take 4 (drop i data))"
    and "UINT32_FROM_BYTE_ARRAY_BE data i = of_le (rev (take 4 (drop i data)))"
  unfolding take_4 [OF assms] UINT32_FROM_BYTE_ARRAY_LE_def UINT32_FROM_BYTE_ARRAY_BE_def UINT32_of_le by simp_all


text \<open>The round trips through kelvin, as long as nothing overflows.\<close>

lemma celsius_kelvin:
  "C_TO_K t = Some k \<Longrightarrow> - (2 ^ 31) \<le> t \<Longrightarrow> t < 2 ^ 31 \<Longrightarrow> K_TO_C k = Some t"
  "CELSIUS_TO_DECI_KELVIN t = Some d \<Longrightarrow> DECI_KELVIN_TO_CELSIUS d = Some t"
  by (auto simp: C_TO_K_def K_TO_C_def DECI_KELVIN_TO_CELSIUS_def CELSIUS_TO_DECI_KELVIN_def C_int_def
      signed_divide_int_def abs_mult sgn_mult mult_sgn_abs bind_eq_Some_conv split: if_splits)





section \<open>The property\<close>






end
