(* ===== verification/FlashTest.thy ===== *)
theory FlashTest
  imports Prelude
begin

text \<open>
  The registers of the flash test interface (the block GC__ENABLE_FLASH_DFT_DEFINITIONS__ at the end of
  hw_b1_regdefs.h and, identical, of hw_a1_regdefs.h): their addresses, their widths, and the macro
  \<open>GC_FLASH_DFT_WIDTH_BY_ADDR\<close> with its chain of comparisons.
\<close>

definition GC_FLASH_DFT_REGS_ADDR_WIDTH :: nat where "GC_FLASH_DFT_REGS_ADDR_WIDTH = 4"

text \<open>Name, \<open>_ADDR\<close> and \<open>_WIDTH\<close>.\<close>

definition GC_FLASH_DFT_registers :: "(string \<times> int \<times> int) list" where
  "GC_FLASH_DFT_registers =
     [(''R_PIN'', 0, 7), (''R_XADR'', 1, 10), (''R_YADR'', 2, 6), (''R_DATA'', 3, 32), (''R_CTRL'', 4, 16),
      (''R_GRPSEL'', 5, 1), (''R_OPMODE'', 6, 5), (''R_IPSEL'', 7, 4), (''R_STATUS'', 8, 2), (''R_BITSEL'', 9, 6),
      (''R_REPAIR_0'', 10, 8), (''R_REPAIR_1'', 11, 8), (''R_SMW'', 12, 2)]"

definition dft_addr :: "string \<Rightarrow> int" where
  "dft_addr name = (case map_of GC_FLASH_DFT_registers name of Some (a, w) \<Rightarrow> a | None \<Rightarrow> - 1)"

definition GC_FLASH_DFT_WIDTH_BY_ADDR :: "int \<Rightarrow> int" where
  "GC_FLASH_DFT_WIDTH_BY_ADDR a =
     (if a = dft_addr ''R_PIN'' then 7
      else if a = dft_addr ''R_XADR'' then 10
      else if a = dft_addr ''R_YADR'' then 6
      else if a = dft_addr ''R_DATA'' then 32
      else if a = dft_addr ''R_CTRL'' then 16
      else if a = dft_addr ''R_GRPSEL'' then 1
      else if a = dft_addr ''R_OPMODE'' then 5
      else if a = dft_addr ''R_IPSEL'' then 4
      else if a = dft_addr ''R_STATUS'' then 2
      else if a = dft_addr ''R_BITSEL'' then 6
      else if a = dft_addr ''R_REPAIR_0'' then 8
      else if a = dft_addr ''R_REPAIR_1'' then 8
      else if a = dft_addr ''R_SMW'' then 2
      else - 1)"

lemma dft_addresses:
  "map (\<lambda>(name, a, w). dft_addr name) GC_FLASH_DFT_registers = map (\<lambda>(name, a, w). a) GC_FLASH_DFT_registers"
  by (simp add: dft_addr_def GC_FLASH_DFT_registers_def)

text \<open>The macro is the table read by address: the declared width of the register, -1 where there is none; every
  address fits the width given for addresses, and every width a 32-bit word.\<close>

lemma width_by_addr:
  "GC_FLASH_DFT_WIDTH_BY_ADDR a =
     (case map_of (map snd GC_FLASH_DFT_registers) a of Some w \<Rightarrow> w | None \<Rightarrow> - 1)"
  by (simp add: GC_FLASH_DFT_WIDTH_BY_ADDR_def dft_addr_def GC_FLASH_DFT_registers_def)

lemma dft_registers_fit:
  "list_all (\<lambda>(name, a, w). 0 \<le> a \<and> a < 2 ^ GC_FLASH_DFT_REGS_ADDR_WIDTH \<and> 0 < w \<and> w \<le> 32) GC_FLASH_DFT_registers"
  by (simp add: GC_FLASH_DFT_registers_def GC_FLASH_DFT_REGS_ADDR_WIDTH_def)

end
