(* ===== verification/Spec2Isabelle.thy ===== *)
theory Spec2Isabelle
  imports ImageHex ImageElfLoad SignerProofs FlashLayout ConsoleChannels FuseRegisters RegisterNames
    Interrupts PinSelectors UsbMacros ConfigSelect CommonMacros FlashTest
begin

text \<open>
  The firmware tools and the chip headers of haven-rs.

  The repository has two bodies of C and C++ code of its own. The code signer (util/signer) reads a
  linked firmware image, fills in the header the boot ROM expects, signs it, with a key file or a
  USB security token, and writes it out. The headers of the chip (chip/c) configure the firmware:
  config.h with config_chip.h and board.h decides every option, derived constants describe the
  flash, generated tables and the macros over them describe the registers, and small headers name the
  console channels. The two meet twice: what the signer writes to the flash is what the headers lay
  out, and the fuses it signs for are the ones the firmware reads.

  \<^bold>\<open>The signer.\<close>

  \<^item> Prelude, CLayout: machine integers, byte memories, printf's hexadecimal digits; sizes,
    alignments and offsets of C structs.
  \<^item> SignedHeader (common/signed_header.h): the 1024-byte header as a record with all its members,
    its constructor, \<open>markFuse\<close>, \<open>markInfo\<close>, its bytes in memory. Shown: the
    asserted layout, the exact effect of markFuse. \<open>header_of_bytes\<close> reads the struct that lies at an
    address, as the cast in \<open>Image::sign\<close> does; statements about memory use it.
  \<^item> ByteSink: the locale of a loader's target; Image interprets it.
  \<^item> Image, HexText, ImageHex (image.cc, common/image.h): the 512K image with \<open>store\<close>, the
    Intel HEX reader and writer. Shown: the reader ends and never reads outside its line, whatever the
    file holds; writing and reading again gives the same image; the checksums of all data records are right, those of
    the segment records on some images only.
  \<^item> ImageElf, ImageElfLoad (image.cc): \<open>fromElf\<close>, the fill functions. Shown: fromElf refines
    a byte-by-byte reference, and its bounds, for headers whose ranges do not wrap around the 64-bit
    addresses; its outcome for any headers.
  \<^item> Crypto (aes.cc, ecdh.cc): the calls into OpenSSL; the primitives are parameters.
  \<^item> PublicKey (publickey.cc): keys, Montgomery constants, word arrays, signing. The
    methods dereference what \<open>EVP_PKEY_get1_RSA\<close> returns, a null pointer for a key that is not an RSA key: then
    they have no value or end in a memory fault. Shown: \<open>n0inv\<close> inverts, \<open>modToArray\<close> writes the
    modulus, a signature is in Montgomery form unless a call that sign() does not report has failed.
  \<^item> Gnubby, GnubbyLink, GnubbyProtocol (gnubby.cc): USB frames and exchanges, the commands, the
    signing protocol as a state machine, key writing. Shown: frames round trip, the contract of every
    command (a locale, interpreted on each of them), every session locks first and unlocks last, the
    request is a PKCS#1 encoding, what a reply must be to be accepted, the commands of a successful write, and a
    defect: signing through a token never succeeds, as the local \<open>rsa\<close> stays null.
  \<^item> ImageSign (image.cc): \<open>Image::sign\<close>. Shown: the header it puts in front of the image
    verifies against the final contents.
  \<^item> StringMap, Manifest, CodeSigner, SignerProofs (codesigner.cc): \<open>std::map\<close> as a locale,
    the XML and JSON readers, the command line and \<open>main\<close>. Shown: which fuses of
    the XML document get which number, fuse and info arrays are functions of the documents, what a successful run has done, that a run with good inputs succeeds,
    options that do not work, and members of the header that nothing initialises.

  \<^bold>\<open>The chip headers.\<close>

  \<^item> Preprocessor: the directives the headers use, as a datatype with an interpreter. Its state is the
    macro table and the lines passed through; \<open>#error\<close> and a bad expression are errors of a
    sum type; \<open>#include\<close> is an argument. Two locales state what an included file promises:
    the names it leaves alone, and an analysis of it that is sound.
  \<^item> ConfigDefaults, ConfigHeaders, ConfigChecks: the headers themselves, directive by directive
    (config.h, config_chip.h, board.h, fuzz_config.h, test_config.h). The register definitions that
    config_chip.h includes are a parameter (\<open>external_headers\<close>): they succeed and define names that
    start with \<open>GC_\<close> and their guard, which is what the generated file does;
    \<open>build_headers\<close> is the instance. env_config.h, which a build generates, may do anything, but
    is only included when the build asks for it.
  \<^item> ConfigAnalysis, ConfigProofs, ChipConfig: the analysis evaluated on every part of config.h; which
    option combinations the checks rule out; that this chip's configuration is accepted whatever a
    build predefines.
  \<^item> FlashLayout: the constants of the flash; its six regions partition the memory of the signer.
  \<^item> ConsoleChannels (console.h, console_channel.inc): the channel enumeration and its masks.
  \<^item> Registers (common.h, registers.h): the fields of a register, \<open>REG32\<close> on a memory of
    bytes, the macros that read and write fields. The locale \<open>register_file\<close> says what the macros
    need of \<open>REG32\<close>; the memory interprets it. A register is storage here; what the device does
    when it is read or written is not in the headers.
  \<^item> RegdefsFuse, RegdefsPower, RegdefsUsb, RegdefsTimer (hw_b1_regdefs.h) and RegdefsA1Power,
    RegdefsA1Usb, RegdefsA1Timer (hw_a1_regdefs.h): the registers and fields of the two revisions of the
    chip, 2712 and 4252 of the second, one entry each with all their macros, and the checks of every table.
  \<^item> RegisterWindows, RegisterOrder, RegisterOrderA1, RegisterMap, RegisterMapA1, RegisterRevisions: the order and
    the end of the register tables, the base addresses, and the peripherals with their tables. The locale \<open>register_map\<close> proves from a sound map what the macros
    do on it; each revision interprets it, and the function from revisions to maps. Shown: the tables are
    well-formed, sorted and in agreement on reset values, the peripherals (from the base to behind the last
    register, with or without fields) do not overlap, a field macro
    touches its field alone in the whole chip, and a chip out of reset reads the reset value of every
    field.
  \<^item> FuseRegisters: the fuses from both sides. Shown: what the signer computes from a manifest is
    what \<open>GR_FUSE\<close> reads back.
  \<^item> RegisterAliases, RegisterNames (registers.h): the names of registers and the computed addresses,
    compared with the tables of both revisions; some names exist in one of them only.
  \<^item> Interrupts (both register definitions): the exception and interrupt numbers, and the number of
    interrupts that config.h computes.
  \<^item> PinSelectors (hw_b1_regdefs.h, registers.h): the selectors of the pin multiplexer and the
    registers they belong to.
  \<^item> UsbMacros (registers.h): the constants of the USB controller against its fields, the places of the
    fields of every endpoint (endpoint 0 has narrower ones), the portal behind GGPIO, the words of DMA descriptors.
  \<^item> ConfigSelect (common.h): \<open>IS_ENABLED\<close>, \<open>STATIC_IF\<close> and the macros behind them on lists
    of tokens, for every value an option can have.
  \<^item> CommonMacros (common.h, util.h, compile_time_macros.h): bytes to integers, rounding, powers of two,
    temperatures and margins; a computation that overflows \<open>int\<close> has no value.
  \<^item> FlashTest (the end of both register definitions): the registers of the flash test interface.

  \<^bold>\<open>Bounds.\<close> The reader of Intel HEX, the loops of the fill functions and the XML walk are
  structural or carry a measure. doSign takes at most four commands, shown as its termination; the step
  relation has no fuel. The preprocessor expands macros to a depth of 16 (\<open>EXPANSIONS\<close>); the
  headers need five, and running out is an error, so no check passes because of it. A macro that is
  defined again with another body is taken over, as compilers do with a warning.

  \<^bold>\<open>Not modelled.\<close> OpenSSL, libxml2, rapidjson, libusb, the file system and getopt_long
  are third-party code: parameters with the documented behaviour the code relies on. Of the
  register definitions, the sizes of a few memories and the operation codes of the flash are left out.
  The vendored kernel headers and declarations of a C library under builtin-c, the linker script, the
  shell and Python scripts and the Rust bindings are no logic of their own. \<open>usage\<close> and verbose output only print. The rest of
  common.h, util.h, compile_time_macros.h, gpio.h, uart.h, module_id.h and sha256.h is constants, attributes of the compiler and declarations of functions whose
  bodies are not in the repository.
\<close>

end
